(* ===== verification/Prelude.thy ===== *)
theory Prelude
  imports Main "HOL-Library.Word"
begin

text \<open>
  Shared vocabulary of the development: machine integers, the status values the HDF
  adapters return, and the generic facts on words, maps and lists every component uses.

  A C status is a value of \<open>ret\<close>. The named codes come from the driver framework and the C
  library, whose headers are outside this repository, so their numbers are not used: only that
  they are different from each other and from zero. Zero itself has many names in the code
  (\<open>HDF_SUCCESS\<close>, \<open>LOS_OK\<close>, \<open>EOK\<close>, \<open>ENOERR\<close>, \<open>ERR_OK\<close>) and is compared across them, so it is the
  one constructor \<open>HDF_SUCCESS\<close>; every other plain number is \<open>Num n\<close>, built by \<open>ret_of\<close>.
\<close>

unbundle bit_operations_syntax

type_synonym u8 = "8 word"
type_synonym u16 = "16 word"
type_synonym u32 = "32 word"
type_synonym u64 = "64 word"

datatype ret =
    HDF_SUCCESS
  | HDF_FAILURE
  | HDF_ERR_NOT_SUPPORT
  | HDF_ERR_INVALID_PARAM
  | HDF_ERR_INVALID_OBJECT
  | HDF_ERR_MALLOC_FAIL
  | HDF_ERR_TIMEOUT
  | HDF_ERR_IO
  | HDF_ERR_NOPERM
  | HDF_PLT_ERR_OS_API
  | HDF_DEV_ERR_NO_MEMORY
  | HDF_DEV_ERR_NO_DEVICE
  | HDF_DEV_ERR_NO_DEVICE_SERVICE
  | HDF_DEV_ERR_ATTACHDEV_FAIL
  | HDF_ERR_BAD_FD
  | NEG_EINVAL
  | NEG_EBUSY
  | NEG_ENOMEM
  | NEG_ENODEV
  | NEG_EAGAIN
  | Num int

definition ret_of :: "int \<Rightarrow> ret" where
  "ret_of n = (if n = 0 then HDF_SUCCESS else Num n)"

lemma ret_of_success [simp]: "ret_of n = HDF_SUCCESS \<longleftrightarrow> n = 0"
  by (simp add: ret_of_def)

lemma ret_of_zero [simp]: "ret_of 0 = HDF_SUCCESS"
  by (simp add: ret_of_def)

lemma ret_of_inject [simp]: "ret_of m = ret_of n \<longleftrightarrow> m = n"
  by (auto simp: ret_of_def)

lemma ret_of_neq_code [simp]:
  "ret_of n \<noteq> HDF_FAILURE" "ret_of n \<noteq> HDF_ERR_INVALID_PARAM"
  "ret_of n \<noteq> HDF_ERR_NOT_SUPPORT" "ret_of n \<noteq> HDF_ERR_INVALID_OBJECT"
  by (simp_all add: ret_of_def)

named_theorems model_defs \<open>definitions of operations, unfolded to evaluate a model\<close>
named_theorems heap_frame \<open>what an operation leaves alone in the allocator state\<close>

subsection \<open>Words\<close>

lemma unat_diff_le: "b \<le> a \<Longrightarrow> unat (a - b) = unat a - unat (b :: 'a::len word)"
  by (simp add: unat_sub)

lemma unat_add_no_overflow:
  "unat a + unat b < 2 ^ LENGTH('a) \<Longrightarrow> unat (a + b) = unat a + unat (b :: 'a::len word)"
  by (simp add: unat_word_ariths)

lemma unat_add_lt32:
  "unat a + unat b < 4294967296 \<Longrightarrow> unat (a + b) = unat a + unat (b :: u32)"
  using unat_add_no_overflow [of a b] by simp

lemma unat_lt32: "unat (a :: u32) < 4294967296"
  using unsigned_less [of a, where ?'a = nat] by simp

lemma unat_of_nat_lt32: "n < 4294967296 \<Longrightarrow> unat (of_nat n :: u32) = n"
  by (simp add: unat_of_nat take_bit_eq_mod)

lemma unat_ucast16: "unat (ucast (x :: u16) :: u32) = unat x"
proof -
  have "unat x < 65536" using unsigned_less [of x, where ?'a = nat] by simp
  then show ?thesis by (simp add: unsigned_ucast_eq take_bit_nat_eq_self)
qed

subsection \<open>Maps\<close>

lemma map_upd_del_fresh: "m k = None \<Longrightarrow> (m(k \<mapsto> v))(k := None) = m"
  by auto

lemma map_upd_del_other:
  "j \<noteq> k \<Longrightarrow> (m(k \<mapsto> v))(j := None) = (m(j := None))(k \<mapsto> v)"
  by (rule fun_upd_twist) simp

subsection \<open>Lists\<close>

lemma take_drop_append_exact: "take (length xs) (drop (length ys) (ys @ xs @ zs)) = xs"
  by simp

lemma length_take_le: "n \<le> length xs \<Longrightarrow> length (take n xs) = n"
  by simp

definition patch :: "'a list \<Rightarrow> nat \<Rightarrow> 'a list \<Rightarrow> 'a list" where
  "patch xs off ys = take off xs @ ys @ drop (off + length ys) xs"

lemma length_patch [simp]: "off + length ys \<le> length xs \<Longrightarrow> length (patch xs off ys) = length xs"
  by (simp add: patch_def)

lemma patch_Nil [simp]: "patch xs off [] = xs"
  by (simp add: patch_def)

lemma take_patch_before: "n \<le> off \<Longrightarrow> off \<le> length xs \<Longrightarrow> take n (patch xs off ys) = take n xs"
  by (simp add: patch_def min_def)

lemma patch_read:
  "off + length ys \<le> length xs \<Longrightarrow> take (length ys) (drop off (patch xs off ys)) = ys"
  by (simp add: patch_def)

lemma patch_extend:
  assumes "start \<le> off" and "off + length ys \<le> length xs"
  shows "take (off - start + length ys) (drop start (patch xs off ys))
       = take (off - start) (drop start xs) @ ys"
proof -
  define a where "a = take (off - start) (drop start xs)"
  have "length a = off - start"
    using assms by (simp add: a_def)
  moreover have "drop start (patch xs off ys) = a @ ys @ drop (off + length ys) xs"
    using assms by (simp add: patch_def drop_take a_def)
  ultimately show ?thesis
    by (simp add: a_def)
qed

end
