(* ===== verification/Osal_Mem.thy ===== *)
theory Osal_Mem
  imports Prelude
begin

text \<open>
  The allocator of \<open>khdf/liteos/osal/src/osal_mem.c\<close> and the machine state it works on.

  A pointer to a heap block is \<open>nat option\<close>: \<open>None\<close> is \<open>NULL\<close>, \<open>Some p\<close> the block numbered
  \<open>p\<close>. \<open>h_blk\<close> maps every live block to its bytes (the empty list for a block that holds a C
  struct, whose fields live in the typed maps of the component that owns it), \<open>h_next\<close> numbers
  the next request, and \<open>h_bad\<close> records undefined behaviour: a free of something that is not a
  live block, or a write outside one. \<open>ev\<close> is the trace of calls to code outside the
  repository, oldest first; a component chooses its event type.

  \<open>LOS_MemAlloc\<close> is kernel code outside the repository: whether the request numbered \<open>n\<close> for a
  given size succeeds, and what an uninitialised block holds, are parameters (\<open>mem_ok\<close>,
  \<open>mem_junk\<close>). So is \<open>memcpy_s\<close> of the bounds-checking library: \<open>copy_ok destMax count\<close> says
  whether it returns \<open>EOK\<close>; \<open>copy_contract\<close> is what its documentation promises.
\<close>

datatype msize = Bytes nat | Objs string nat

fun size_is_zero :: "msize \<Rightarrow> bool" where
  "size_is_zero (Bytes n) = (n = 0)"
| "size_is_zero (Objs t n) = (n = 0)"

fun byte_count :: "msize \<Rightarrow> nat" where
  "byte_count (Bytes n) = n"
| "byte_count (Objs t n) = 0"

record mem_env =
  mem_ok :: "nat \<Rightarrow> msize \<Rightarrow> bool"
  mem_junk :: "nat \<Rightarrow> nat \<Rightarrow> u8"
  copy_ok :: "nat \<Rightarrow> nat \<Rightarrow> bool"

record 'e sys =
  h_next :: nat
  h_blk :: "nat \<Rightarrow> u8 list option"
  h_bad :: bool
  ev :: "'e list"

definition heap_ok :: "('e, 'a) sys_scheme \<Rightarrow> bool" where
  "heap_ok s \<longleftrightarrow> (\<forall>i \<ge> h_next s. h_blk s i = None)"

definition emit :: "'e \<Rightarrow> ('e, 'a) sys_scheme \<Rightarrow> ('e, 'a) sys_scheme" where
  "emit e s = s\<lparr>ev := ev s @ [e]\<rparr>"

text \<open>
  A call \<open>c\<close> into code outside the repository whose status the program looks at: the parameter
  \<open>f\<close> gives the status from the calls made so far, and the call is recorded with it.
\<close>

definition ext_call ::
  "(('c \<times> int) list \<Rightarrow> 'c \<Rightarrow> int) \<Rightarrow> 'c \<Rightarrow> ('c \<times> int, 'a) sys_scheme
   \<Rightarrow> int \<times> ('c \<times> int, 'a) sys_scheme" where
  "ext_call f c s = (let r = f (ev s) c in (r, emit (c, r) s))"

definition LOS_MemAlloc ::
  "('m) mem_env_scheme \<Rightarrow> msize \<Rightarrow> ('e, 'a) sys_scheme \<Rightarrow> nat option \<times> ('e, 'a) sys_scheme" where
  "LOS_MemAlloc E sz s =
     (let p = h_next s; s1 = s\<lparr>h_next := Suc p\<rparr>
      in if mem_ok E p sz
         then (Some p, s1\<lparr>h_blk := (h_blk s)(p \<mapsto> map (mem_junk E p) [0..<byte_count sz])\<rparr>)
         else (None, s1))"

definition LOS_MemFree :: "nat \<Rightarrow> ('e, 'a) sys_scheme \<Rightarrow> ('e, 'a) sys_scheme" where
  "LOS_MemFree p s =
     (if h_blk s p = None then s\<lparr>h_bad := True\<rparr> else s\<lparr>h_blk := (h_blk s)(p := None)\<rparr>)"

definition memset_zero :: "nat \<Rightarrow> nat \<Rightarrow> ('e, 'a) sys_scheme \<Rightarrow> ('e, 'a) sys_scheme" where
  "memset_zero p n s =
     (case h_blk s p of
        None \<Rightarrow> s\<lparr>h_bad := True\<rparr>
      | Some bs \<Rightarrow>
          if n \<le> length bs then s\<lparr>h_blk := (h_blk s)(p \<mapsto> patch bs 0 (replicate n 0))\<rparr>
          else s\<lparr>h_bad := True\<rparr>)"

definition mem_write :: "nat \<Rightarrow> nat \<Rightarrow> u8 list \<Rightarrow> ('e, 'a) sys_scheme \<Rightarrow> ('e, 'a) sys_scheme" where
  "mem_write p off ys s =
     (case h_blk s p of
        None \<Rightarrow> s\<lparr>h_bad := True\<rparr>
      | Some bs \<Rightarrow>
          if off + length ys \<le> length bs then s\<lparr>h_blk := (h_blk s)(p \<mapsto> patch bs off ys)\<rparr>
          else s\<lparr>h_bad := True\<rparr>)"

definition mem_read :: "nat \<Rightarrow> nat \<Rightarrow> nat \<Rightarrow> ('e, 'a) sys_scheme \<Rightarrow> u8 list option" where
  "mem_read p off n s =
     (case h_blk s p of
        None \<Rightarrow> None
      | Some bs \<Rightarrow> if off + n \<le> length bs then Some (take n (drop off bs)) else None)"

definition mem_copy ::
  "nat \<Rightarrow> nat \<Rightarrow> nat \<Rightarrow> nat \<Rightarrow> nat \<Rightarrow> ('e, 'a) sys_scheme \<Rightarrow> ('e, 'a) sys_scheme" where
  "mem_copy dst doff src soff n s =
     (case mem_read src soff n s of
        None \<Rightarrow> s\<lparr>h_bad := True\<rparr>
      | Some ys \<Rightarrow> mem_write dst doff ys s)"

definition copy_contract :: "nat \<Rightarrow> (nat \<Rightarrow> nat \<Rightarrow> bool) \<Rightarrow> bool" where
  "copy_contract lim f \<longleftrightarrow>
     (\<forall>d n. f d n \<longrightarrow> n \<le> d) \<and> (\<forall>d n. n \<le> d \<and> 0 < d \<and> d \<le> lim \<longrightarrow> f d n)"

definition OsalMemAlloc ::
  "('m) mem_env_scheme \<Rightarrow> msize \<Rightarrow> ('e, 'a) sys_scheme \<Rightarrow> nat option \<times> ('e, 'a) sys_scheme" where
  "OsalMemAlloc E sz s = (if size_is_zero sz then (None, s) else LOS_MemAlloc E sz s)"

definition OsalMemCalloc ::
  "('m) mem_env_scheme \<Rightarrow> msize \<Rightarrow> ('e, 'a) sys_scheme \<Rightarrow> nat option \<times> ('e, 'a) sys_scheme" where
  "OsalMemCalloc E sz s =
     (if size_is_zero sz then (None, s)
      else case OsalMemAlloc E sz s of
             (None, s1) \<Rightarrow> (None, s1)
           | (Some p, s1) \<Rightarrow> (Some p, memset_zero p (byte_count sz) s1))"

definition OsalMemAllocAlign ::
  "('m) mem_env_scheme \<Rightarrow> nat \<Rightarrow> msize \<Rightarrow> ('e, 'a) sys_scheme \<Rightarrow> nat option \<times> ('e, 'a) sys_scheme" where
  "OsalMemAllocAlign E alignment sz s =
     (if size_is_zero sz then (None, s) else LOS_MemAlloc E sz s)"

definition OsalMemFree :: "nat option \<Rightarrow> ('e, 'a) sys_scheme \<Rightarrow> ('e, 'a) sys_scheme" where
  "OsalMemFree mem s = (case mem of None \<Rightarrow> s | Some p \<Rightarrow> LOS_MemFree p s)"


lemmas mem_defs =
  LOS_MemAlloc_def LOS_MemFree_def OsalMemAlloc_def OsalMemCalloc_def OsalMemAllocAlign_def
  OsalMemFree_def memset_zero_def mem_write_def mem_read_def mem_copy_def Let_def

declare mem_defs [model_defs]

lemma emit_simps [simp]:
  "h_next (emit e s) = h_next s" "h_blk (emit e s) = h_blk s" "h_bad (emit e s) = h_bad s"
  "ev (emit e s) = ev s @ [e]" "sys.more (emit e s) = sys.more s"
  by (simp_all add: emit_def)

lemma ext_call_eq: "ext_call f c s = (f (ev s) c, emit (c, f (ev s) c) s)"
  by (simp add: ext_call_def Let_def)

lemma heap_ok_emit [simp]: "heap_ok (emit e s) = heap_ok s"
  by (simp add: heap_ok_def)

lemma heap_ok_fresh: "heap_ok s \<Longrightarrow> h_blk s (h_next s) = None"
  by (simp add: heap_ok_def)

lemma OsalMemFree_NULL [simp]: "OsalMemFree None s = s"
  by (simp add: OsalMemFree_def)

lemma OsalMemFree_live:
  "h_blk s p = Some bs \<Longrightarrow> OsalMemFree (Some p) s = s\<lparr>h_blk := (h_blk s)(p := None)\<rparr>"
  by (simp add: OsalMemFree_def LOS_MemFree_def)

lemma OsalMemFree_dead:
  "h_blk s p = None \<Longrightarrow> OsalMemFree (Some p) s = s\<lparr>h_bad := True\<rparr>"
  by (simp add: OsalMemFree_def LOS_MemFree_def)

lemma OsalMemCalloc_SomeD:
  assumes "OsalMemCalloc E sz s = (Some p, s')"
  shows "p = h_next s" and "h_next s' = Suc (h_next s)"
    and "h_blk s' = (h_blk s)(h_next s \<mapsto> replicate (byte_count sz) 0)"
    and "h_bad s' = h_bad s" and "ev s' = ev s" and "sys.more s' = sys.more s"
    and "\<not> size_is_zero sz"
  using assms by (auto simp: mem_defs patch_def split: if_splits)

lemma OsalMemCalloc_NoneD:
  assumes "OsalMemCalloc E sz s = (None, s')"
  shows "h_blk s' = h_blk s" and "h_bad s' = h_bad s" and "ev s' = ev s"
    and "sys.more s' = sys.more s" and "h_next s \<le> h_next s'"
  using assms by (auto simp: mem_defs split: if_splits)

lemma OsalMemAlloc_SomeD:
  assumes "OsalMemAlloc E sz s = (Some p, s')"
  shows "p = h_next s" and "h_next s' = Suc (h_next s)"
    and "h_blk s' = (h_blk s)(h_next s \<mapsto> map (mem_junk E p) [0..<byte_count sz])"
    and "h_bad s' = h_bad s" and "ev s' = ev s" and "sys.more s' = sys.more s"
    and "\<not> size_is_zero sz"
  using assms by (auto simp: mem_defs split: if_splits)

lemma OsalMemAlloc_NoneD:
  assumes "OsalMemAlloc E sz s = (None, s')"
  shows "h_blk s' = h_blk s" and "h_bad s' = h_bad s" and "ev s' = ev s"
    and "sys.more s' = sys.more s" and "h_next s \<le> h_next s'"
  using assms by (auto simp: mem_defs split: if_splits)

lemma OsalMemCalloc_obj:
  "0 < n \<Longrightarrow> OsalMemCalloc E (Objs t n) s =
     (if mem_ok E (h_next s) (Objs t n)
      then (Some (h_next s), s\<lparr>h_next := Suc (h_next s), h_blk := (h_blk s)(h_next s \<mapsto> [])\<rparr>)
      else (None, s\<lparr>h_next := Suc (h_next s)\<rparr>))"
  by (simp add: mem_defs)

lemma OsalMemAlloc_obj:
  "0 < n \<Longrightarrow> OsalMemAlloc E (Objs t n) s =
     (if mem_ok E (h_next s) (Objs t n)
      then (Some (h_next s), s\<lparr>h_next := Suc (h_next s), h_blk := (h_blk s)(h_next s \<mapsto> [])\<rparr>)
      else (None, s\<lparr>h_next := Suc (h_next s)\<rparr>))"
  by (simp add: mem_defs)

lemma OsalMemCalloc_bytes:
  "0 < n \<Longrightarrow> OsalMemCalloc E (Bytes n) s =
     (if mem_ok E (h_next s) (Bytes n)
      then (Some (h_next s),
            s\<lparr>h_next := Suc (h_next s), h_blk := (h_blk s)(h_next s \<mapsto> replicate n 0)\<rparr>)
      else (None, s\<lparr>h_next := Suc (h_next s)\<rparr>))"
  by (simp add: mem_defs patch_def)

lemmas alloc_eqs = OsalMemCalloc_obj OsalMemAlloc_obj OsalMemCalloc_bytes

lemma heap_ok_OsalMemCalloc:
  "heap_ok s \<Longrightarrow> OsalMemCalloc E sz s = (r, s') \<Longrightarrow> heap_ok s'"
  by (auto simp: heap_ok_def mem_defs split: if_splits)

lemma heap_ok_OsalMemAlloc:
  "heap_ok s \<Longrightarrow> OsalMemAlloc E sz s = (r, s') \<Longrightarrow> heap_ok s'"
  by (auto simp: heap_ok_def mem_defs split: if_splits)

lemma heap_ok_OsalMemFree: "heap_ok s \<Longrightarrow> heap_ok (OsalMemFree mem s)"
  by (auto simp: heap_ok_def OsalMemFree_def LOS_MemFree_def split: option.splits)

lemma LOS_MemAlloc_SomeD:
  assumes "LOS_MemAlloc E sz s = (Some p, s')"
  shows "p = h_next s" "h_next s' = Suc (h_next s)"
    "h_blk s' = (h_blk s)(h_next s \<mapsto> map (mem_junk E p) [0..<byte_count sz])"
    "h_bad s' = h_bad s" "ev s' = ev s" "sys.more s' = sys.more s"
  using assms by (auto simp: LOS_MemAlloc_def Let_def split: if_splits)

lemma LOS_MemAlloc_NoneD:
  assumes "LOS_MemAlloc E sz s = (None, s')"
  shows "h_blk s' = h_blk s" "h_bad s' = h_bad s" "ev s' = ev s" "sys.more s' = sys.more s"
    "h_next s' = Suc (h_next s)"
  using assms by (auto simp: LOS_MemAlloc_def Let_def split: if_splits)

lemma mem_copy_ok:
  assumes "h_blk s src = Some xs" and "soff + n \<le> length xs"
    and "h_blk s dst = Some ds" and "doff + n \<le> length ds"
  shows "mem_copy dst doff src soff n s =
           s\<lparr>h_blk := (h_blk s)(dst \<mapsto> patch ds doff (take n (drop soff xs)))\<rparr>"
  using assms by (simp add: mem_copy_def mem_read_def mem_write_def)

lemma mem_write_ok:
  "h_blk s p = Some bs \<Longrightarrow> off + length ys \<le> length bs \<Longrightarrow>
     mem_write p off ys s = s\<lparr>h_blk := (h_blk s)(p \<mapsto> patch bs off ys)\<rparr>"
  by (simp add: mem_write_def)

lemma memset_fresh:
  "h_blk s d = Some bs \<Longrightarrow> length bs = n \<Longrightarrow>
     memset_zero d n s = s\<lparr>h_blk := (h_blk s)(d \<mapsto> replicate n 0)\<rparr>"
  by (simp add: memset_zero_def patch_def)

subsection \<open>The allocator contract\<close>

text \<open>
  What a client may rely on: a fresh block on success, nothing changed on failure, exactly the
  freed block gone after a free. Both \<open>OsalMemAlloc\<close> and \<open>OsalMemCalloc\<close> provide it with
  \<open>OsalMemFree\<close>.
\<close>

locale allocator =
  fixes alloc :: "'sz \<Rightarrow> 's \<Rightarrow> nat option \<times> 's"
    and free :: "nat option \<Rightarrow> 's \<Rightarrow> 's"
    and blocks :: "'s \<Rightarrow> nat \<Rightarrow> 'b option"
    and bad :: "'s \<Rightarrow> bool"
    and ok :: "'s \<Rightarrow> bool"
  assumes alloc_Some:
      "ok s \<Longrightarrow> alloc sz s = (Some p, s') \<Longrightarrow>
         blocks s p = None \<and> (\<exists>b. blocks s' = (blocks s)(p \<mapsto> b)) \<and> bad s' = bad s \<and> ok s'"
    and alloc_None:
      "alloc sz s = (None, s') \<Longrightarrow> blocks s' = blocks s \<and> bad s' = bad s \<and> (ok s \<longrightarrow> ok s')"
    and free_NULL: "free None s = s"
    and free_live:
      "blocks s p = Some b \<Longrightarrow>
         blocks (free (Some p) s) = (blocks s)(p := None) \<and> bad (free (Some p) s) = bad s"
    and free_dead: "blocks s p = None \<Longrightarrow> bad (free (Some p) s)"
    and free_ok: "ok s \<Longrightarrow> ok (free m s)"
begin

text \<open>A block obtained and given back leaves no trace, whatever its content became.\<close>

lemma alloc_then_free:
  assumes "ok s" and "alloc sz s = (Some p, s1)" and "blocks s2 = (blocks s1)(p \<mapsto> b)"
  shows "blocks (free (Some p) s2) = blocks s" and "bad (free (Some p) s2) = bad s2"
proof -
  from assms(1,2) obtain b0 where "blocks s p = None" and "blocks s1 = (blocks s)(p \<mapsto> b0)"
    using alloc_Some by blast
  with assms(3) have "blocks s2 p = Some b" and "(blocks s2)(p := None) = blocks s"
    by auto
  then show "blocks (free (Some p) s2) = blocks s" and "bad (free (Some p) s2) = bad s2"
    using free_live by metis+
qed

text \<open>A second free of the same block is caught.\<close>

lemma double_free_bad:
  assumes "blocks s p = Some b"
  shows "bad (free (Some p) (free (Some p) s))"
  using assms free_live free_dead by simp

end

interpretation calloc: allocator "OsalMemCalloc E" OsalMemFree h_blk h_bad heap_ok
proof unfold_locales
  fix sz p s s'
  assume ok: "heap_ok s" and c: "OsalMemCalloc E sz s = (Some p, s')"
  show "h_blk s p = None \<and> (\<exists>b. h_blk s' = (h_blk s)(p \<mapsto> b)) \<and> h_bad s' = h_bad s \<and> heap_ok s'"
    using OsalMemCalloc_SomeD [OF c] heap_ok_fresh [OF ok] heap_ok_OsalMemCalloc [OF ok c] by auto
qed (auto simp: OsalMemFree_live OsalMemFree_dead heap_ok_OsalMemCalloc heap_ok_OsalMemFree
       dest: OsalMemCalloc_NoneD(1,2))

interpretation malloc: allocator "OsalMemAlloc E" OsalMemFree h_blk h_bad heap_ok
proof unfold_locales
  fix sz p s s'
  assume ok: "heap_ok s" and c: "OsalMemAlloc E sz s = (Some p, s')"
  show "h_blk s p = None \<and> (\<exists>b. h_blk s' = (h_blk s)(p \<mapsto> b)) \<and> h_bad s' = h_bad s \<and> heap_ok s'"
    using OsalMemAlloc_SomeD [OF c] heap_ok_fresh [OF ok] heap_ok_OsalMemAlloc [OF ok c] by auto
qed (auto simp: OsalMemFree_live OsalMemFree_dead heap_ok_OsalMemAlloc heap_ok_OsalMemFree
       dest: OsalMemAlloc_NoneD(1,2))

text \<open>Freeing live blocks one after the other.\<close>

lemma fold_free:
  assumes "distinct xs" and "\<And>i. i \<in> set xs \<Longrightarrow> h_blk s i \<noteq> None"
  shows "h_bad (fold LOS_MemFree xs s) = h_bad s
    \<and> h_blk (fold LOS_MemFree xs s) = (\<lambda>i. if i \<in> set xs then None else h_blk s i)"
  using assms
proof (induction xs arbitrary: s)
  case (Cons x xs)
  let ?t = "s\<lparr>h_blk := (h_blk s)(x := None)\<rparr>"
  have e: "LOS_MemFree x s = ?t"
    using Cons.prems(2) [of x] by (auto simp: LOS_MemFree_def)
  have "h_bad (fold LOS_MemFree xs ?t) = h_bad ?t
      \<and> h_blk (fold LOS_MemFree xs ?t) = (\<lambda>i. if i \<in> set xs then None else h_blk ?t i)"
    by (rule Cons.IH) (use Cons.prems in auto)
  then show ?case
    using Cons.prems(1) by (auto simp: e fun_eq_iff)
qed simp

end
