(* ===== verification/Net_Buf.thy ===== *)
theory Net_Buf
  imports Osal_Mem
begin

text \<open>
  The network buffers of \<open>khdf/liteos/network/src/netbuf_adapter.c\<close> (the LiteOS-M copy of the
  file differs only in how many bytes one \<open>memset_s\<close> clears).

  A \<open>NetBuf\<close> is one block of \<open>nb_len\<close> bytes split into a head, a data and a tail segment.
  Net buffer objects live in the typed map \<open>nbs\<close>, keyed by the block that holds the struct;
  their bytes live in the block \<open>nb_mem\<close>. Pointer arguments are \<open>nat option\<close>; a dangling pointer
  sets \<open>h_bad\<close>. An intrusive list of buffers (\<open>struct DListHead\<close>, driver framework) is the list
  of the buffers it links. lwIP's \<open>pbuf_alloc\<close> and the framework's \<open>NetBufDevAlloc\<close> are parameters.
\<close>

definition E_HEAD_BUF :: u32 where "E_HEAD_BUF = 0"
definition E_DATA_BUF :: u32 where "E_DATA_BUF = 1"
definition E_TAIL_BUF :: u32 where "E_TAIL_BUF = 2"
definition MAX_BUF_NUM :: u32 where "MAX_BUF_NUM = 3"
definition MAX_CONVERSION_LEN :: u32 where "MAX_CONVERSION_LEN = 65535"

record BufField =
  bf_offset :: u32
  bf_len :: u32

record NetBuf =
  nb_head :: BufField
  nb_data :: BufField
  nb_tail :: BufField
  nb_mem :: "nat option"
  nb_len :: u32
  nb_dataLen :: u32
  nb_dev :: "nat option"
  nb_qmap :: u32

text \<open>lwIP's buffer chain: payload (or \<open>NULL\<close>) and \<open>len\<close> of each link, \<open>tot_len\<close> of the first.\<close>

record pbuf =
  pb_payload :: "u8 list option"
  pb_len :: u16

record pchain =
  pc_tot_len :: u16
  pc_links :: "pbuf list"

text \<open>Calls into lwIP, the DHCP code and the driver, recorded in the trace with their status.\<close>

datatype net_ev =
    PbufAlloc nat
  | PbufFree
  | DriverifInput nat "u8 list"
  | NetifAdd nat
  | NetifRemove nat
  | NetifSetDefault nat
  | NetifSetLinkCallback nat
  | NetifSetUp nat
  | NetifSetDown nat
  | NetifLinkUp nat
  | NetifLinkDown nat
  | NetifApiLinkUp nat
  | NetifApiLinkDown nat
  | NetifSetAddr nat u32 u32 u32
  | DhcpsStart nat u16
  | DhcpsStop nat
  | DhcpStart nat
  | DhcpStop nat
  | DhcpCleanup nat
  | DhcpIsBound nat
  | Xmit nat nat
  | SetMacAddr nat "u8 list"
  | LinkStatusChanged nat

type_synonym net_trace = "(net_ev \<times> int) list"

record net_sys = "(net_ev \<times> int) sys" +
  nbs :: "nat \<Rightarrow> NetBuf option"

record 'w net_env = mem_env +
  pbuf_alloc :: "net_trace \<Rightarrow> nat \<Rightarrow> u8 list option"
  ETH_PAD_SIZE :: u32
  NetBufDevAlloc :: "nat \<Rightarrow> u32 \<Rightarrow> 'w \<Rightarrow> nat option \<times> 'w"

subsection \<open>Segments of one buffer\<close>

definition NetBufAlloc ::
  "('m) mem_env_scheme \<Rightarrow> u32 \<Rightarrow> ('a) net_sys_scheme \<Rightarrow> nat option \<times> ('a) net_sys_scheme" where
  "NetBufAlloc E sz s =
     (case LOS_MemAlloc E (Objs ''NetBuf'' 1) s of
        (None, s1) \<Rightarrow> (None, s1)
      | (Some nb, s1) \<Rightarrow>
          (case LOS_MemAlloc E (Bytes (unat sz)) s1 of
             (None, s2) \<Rightarrow> (None, LOS_MemFree nb s2)
           | (Some data, s2) \<Rightarrow>
               let s3 = memset_zero data (unat sz) s2
               in (Some nb, s3\<lparr>nbs := (nbs s3)(nb \<mapsto>
                     \<lparr>nb_head = \<lparr>bf_offset = 0, bf_len = 0\<rparr>,
                      nb_data = \<lparr>bf_offset = 0, bf_len = 0\<rparr>,
                      nb_tail = \<lparr>bf_offset = 0, bf_len = sz\<rparr>,
                      nb_mem = Some data, nb_len = sz, nb_dataLen = 0,
                      nb_dev = None, nb_qmap = 0\<rparr>)\<rparr>)))"

definition NetBufFree :: "nat option \<Rightarrow> ('a) net_sys_scheme \<Rightarrow> ('a) net_sys_scheme" where
  "NetBufFree nb s =
     (case nb of None \<Rightarrow> s | Some p \<Rightarrow>
       (case nbs s p of
          None \<Rightarrow> s\<lparr>h_bad := True\<rparr>
        | Some b \<Rightarrow>
            let s1 = (case nb_mem b of
                        None \<Rightarrow> s
                      | Some m \<Rightarrow> (LOS_MemFree m s)\<lparr>nbs := (nbs s)(p \<mapsto> b\<lparr>nb_mem := None\<rparr>)\<rparr>);
                s2 = LOS_MemFree p s1
            in s2\<lparr>nbs := (nbs s2)(p := None)\<rparr>))"

definition push_bufs :: "NetBuf \<Rightarrow> u32 \<Rightarrow> u32 \<Rightarrow> NetBuf option" where
  "push_bufs b bid n =
     (let hd = nb_head b; dt = nb_data b; tl = nb_tail b in
      if bid = E_HEAD_BUF then
        (if bf_len dt < n \<or> nb_dataLen b < n then None
         else Some (b\<lparr>nb_head := hd\<lparr>bf_len := bf_len hd + n\<rparr>,
                      nb_data := dt\<lparr>bf_offset := bf_offset dt + n, bf_len := bf_len dt - n\<rparr>,
                      nb_dataLen := nb_dataLen b - n\<rparr>))
      else if bid = E_DATA_BUF then
        (if bf_len tl < n then None
         else Some (b\<lparr>nb_dataLen := nb_dataLen b + n,
                      nb_data := dt\<lparr>bf_len := bf_len dt + n\<rparr>,
                      nb_tail := tl\<lparr>bf_offset := bf_offset tl + n, bf_len := bf_len tl - n\<rparr>\<rparr>))
      else if bid = E_TAIL_BUF then
        (if bf_len dt < n \<or> nb_dataLen b < n \<or> bf_offset tl < n then None
         else Some (b\<lparr>nb_data := dt\<lparr>bf_len := bf_len dt - n\<rparr>,
                      nb_dataLen := nb_dataLen b - n,
                      nb_tail := tl\<lparr>bf_offset := bf_offset tl - n, bf_len := bf_len tl + n\<rparr>\<rparr>))
      else Some b)"

definition pop_bufs :: "NetBuf \<Rightarrow> u32 \<Rightarrow> u32 \<Rightarrow> NetBuf option" where
  "pop_bufs b bid n =
     (let hd = nb_head b; dt = nb_data b; tl = nb_tail b in
      if bid = E_HEAD_BUF then
        (if bf_len hd < n \<or> bf_offset dt < n then None
         else Some (b\<lparr>nb_head := hd\<lparr>bf_len := bf_len hd - n\<rparr>,
                      nb_data := dt\<lparr>bf_offset := bf_offset dt - n, bf_len := bf_len dt + n\<rparr>,
                      nb_dataLen := nb_dataLen b + n\<rparr>))
      else if bid = E_DATA_BUF then
        (if nb_dataLen b < n \<or> bf_len dt < n then None
         else Some (b\<lparr>nb_head := hd\<lparr>bf_len := bf_len hd + n\<rparr>,
                      nb_data := dt\<lparr>bf_offset := bf_offset dt + n, bf_len := bf_len dt - n\<rparr>,
                      nb_dataLen := nb_dataLen b - n\<rparr>))
      else if bid = E_TAIL_BUF then
        (if bf_len tl < n then None
         else Some (b\<lparr>nb_tail := tl\<lparr>bf_len := bf_len tl - n, bf_offset := bf_offset tl + n\<rparr>,
                      nb_data := dt\<lparr>bf_len := bf_len dt + n\<rparr>,
                      nb_dataLen := nb_dataLen b + n\<rparr>))
      else Some b)"

text \<open>The start address a call returns: the block and the offset of the data segment.\<close>

definition data_addr :: "NetBuf \<Rightarrow> nat option \<times> u32" where
  "data_addr b = (nb_mem b, bf_offset (nb_data b))"

definition NetBufPush ::
  "nat option \<Rightarrow> u32 \<Rightarrow> u32 \<Rightarrow> ('a) net_sys_scheme
   \<Rightarrow> (nat option \<times> u32) option \<times> ('a) net_sys_scheme" where
  "NetBufPush nb bid n s =
     (case nb of None \<Rightarrow> (None, s) | Some p \<Rightarrow>
       (case nbs s p of
          None \<Rightarrow> (None, s\<lparr>h_bad := True\<rparr>)
        | Some b \<Rightarrow>
            (case push_bufs b bid n of
               None \<Rightarrow> (None, s)
             | Some b' \<Rightarrow> (Some (data_addr b'), s\<lparr>nbs := (nbs s)(p \<mapsto> b')\<rparr>))))"

definition NetBufPop ::
  "nat option \<Rightarrow> u32 \<Rightarrow> u32 \<Rightarrow> ('a) net_sys_scheme
   \<Rightarrow> (nat option \<times> u32) option \<times> ('a) net_sys_scheme" where
  "NetBufPop nb bid n s =
     (case nb of None \<Rightarrow> (None, s) | Some p \<Rightarrow>
       (case nbs s p of
          None \<Rightarrow> (None, s\<lparr>h_bad := True\<rparr>)
        | Some b \<Rightarrow>
            (case pop_bufs b bid n of
               None \<Rightarrow> (None, s)
             | Some b' \<Rightarrow> (Some (data_addr b'), s\<lparr>nbs := (nbs s)(p \<mapsto> b')\<rparr>))))"

definition nb_buf :: "NetBuf \<Rightarrow> u32 \<Rightarrow> BufField" where
  "nb_buf b bid = (if bid = E_HEAD_BUF then nb_head b else if bid = E_DATA_BUF then nb_data b else nb_tail b)"

definition NetBufGetAddress :: "NetBuf option \<Rightarrow> u32 \<Rightarrow> (nat option \<times> u32) option" where
  "NetBufGetAddress nb bid =
     (case nb of None \<Rightarrow> None | Some b \<Rightarrow>
        if bid < MAX_BUF_NUM then Some (nb_mem b, bf_offset (nb_buf b bid)) else None)"

definition NetBufGetRoom :: "NetBuf option \<Rightarrow> u32 \<Rightarrow> u32" where
  "NetBufGetRoom nb bid =
     (case nb of None \<Rightarrow> 0 | Some b \<Rightarrow> if bid < MAX_BUF_NUM then bf_len (nb_buf b bid) else 0)"

definition NetBufGetDataLen :: "NetBuf option \<Rightarrow> u32" where
  "NetBufGetDataLen nb = (case nb of None \<Rightarrow> 0 | Some b \<Rightarrow> nb_dataLen b)"

definition NetBufResizeRoom ::
  "('m) mem_env_scheme \<Rightarrow> nat option \<Rightarrow> u32 \<Rightarrow> u32 \<Rightarrow> ('a) net_sys_scheme
   \<Rightarrow> ret \<times> ('a) net_sys_scheme" where
  "NetBufResizeRoom E nb head tail s =
     (case nb of None \<Rightarrow> (HDF_ERR_INVALID_PARAM, s) | Some p \<Rightarrow>
       (case nbs s p of
          None \<Rightarrow> (HDF_FAILURE, s\<lparr>h_bad := True\<rparr>)
        | Some b \<Rightarrow>
            let size = head + nb_len b + tail in
            (case LOS_MemAlloc E (Bytes (unat size)) s of
               (None, s1) \<Rightarrow> (HDF_FAILURE, s1)
             | (Some data, s1) \<Rightarrow>
                 let s2 = memset_zero data (unat size) s1 in
                 (case nb_mem b of
                    None \<Rightarrow> (HDF_FAILURE, s2)
                  | Some m \<Rightarrow>
                      if \<not> copy_ok E (unat (size - head)) (unat (bf_offset (nb_tail b)))
                      then (HDF_FAILURE, s2)
                      else
                        let s3 = mem_copy data (unat head) m 0 (unat (bf_offset (nb_tail b))) s2;
                            offset = bf_len (nb_head b);
                            s4 = LOS_MemFree m s3;
                            b' = b\<lparr>nb_mem := Some data, nb_len := size,
                                   nb_head := \<lparr>bf_offset = 0, bf_len = offset + head\<rparr>,
                                   nb_data := \<lparr>bf_offset = offset + head, bf_len = nb_dataLen b\<rparr>,
                                   nb_tail := \<lparr>bf_offset = bf_offset (nb_tail b) + head,
                                               bf_len = bf_len (nb_tail b) + tail\<rparr>\<rparr>
                        in (HDF_SUCCESS, s4\<lparr>nbs := (nbs s4)(p \<mapsto> b')\<rparr>)))))"

definition NetBufConcat ::
  "('m) mem_env_scheme \<Rightarrow> nat option \<Rightarrow> nat option \<Rightarrow> ('a) net_sys_scheme
   \<Rightarrow> ret \<times> ('a) net_sys_scheme" where
  "NetBufConcat E nb cnb s =
     (case (nb, cnb) of
        (Some p, Some q) \<Rightarrow>
          (case (nbs s p, nbs s q) of
             (Some b, Some c) \<Rightarrow>
               let tailroom = NetBufGetRoom (Some b) E_TAIL_BUF in
               if tailroom < nb_dataLen c then (HDF_FAILURE, s)
               else
                 (case nb_mem b of
                    None \<Rightarrow> (HDF_SUCCESS, NetBufFree (Some q) s)
                  | Some m \<Rightarrow>
                      (case nb_mem c of
                         None \<Rightarrow> (HDF_FAILURE, s)
                       | Some cm \<Rightarrow>
                           if \<not> copy_ok E (unat tailroom) (unat (nb_dataLen c)) then (HDF_FAILURE, s)
                           else
                             let s1 = mem_copy m (unat (bf_offset (nb_tail b)))
                                        cm (unat (bf_offset (nb_data c))) (unat (nb_dataLen c)) s;
                                 s2 = snd (NetBufPush (Some p) E_DATA_BUF (nb_dataLen c) s1)
                             in (HDF_SUCCESS, NetBufFree (Some q) s2)))
           | _ \<Rightarrow> (HDF_FAILURE, s\<lparr>h_bad := True\<rparr>))
      | _ \<Rightarrow> (HDF_ERR_INVALID_PARAM, s))"

subsection \<open>Conversion from and to lwIP buffers\<close>

definition NetBuf2Pbuf ::
  "('w, 'm) net_env_scheme \<Rightarrow> nat option \<Rightarrow> ('a) net_sys_scheme \<Rightarrow> pbuf option \<times> ('a) net_sys_scheme"
  where
  "NetBuf2Pbuf E nb s =
     (let b = Option.bind nb (nbs s);
          n = NetBufGetDataLen b;
          total = n + ETH_PAD_SIZE E in
      if nb \<noteq> None \<and> b = None then (None, s\<lparr>h_bad := True\<rparr>)
      else if total > MAX_CONVERSION_LEN then (None, s)
      else
        (case pbuf_alloc E (ev s) (unat total) of
           None \<Rightarrow> (None, s)
         | Some payload \<Rightarrow>
             let s1 = emit (PbufAlloc (unat total), 0) s in
             (case NetBufGetAddress b E_DATA_BUF of
                Some (Some m, off) \<Rightarrow>
                  if \<not> copy_ok E (unat n) (unat n) then (None, emit (PbufFree, 0) s1)
                  else
                    (case mem_read m (unat off) (unat n) s1 of
                       None \<Rightarrow> (None, s1\<lparr>h_bad := True\<rparr>)
                     | Some ys \<Rightarrow>
                         (Some \<lparr>pb_payload = Some (patch payload (unat (ETH_PAD_SIZE E)) ys),
                                pb_len = ucast total\<rparr>, s1))
              | _ \<Rightarrow> (None, emit (PbufFree, 0) s1))))"

fun pbuf_copy ::
  "('m) mem_env_scheme \<Rightarrow> nat \<Rightarrow> pbuf list \<Rightarrow> u32 \<Rightarrow> ('a) net_sys_scheme
   \<Rightarrow> nat option \<times> ('a) net_sys_scheme" where
  "pbuf_copy E p [] offset s = (Some p, s)"
| "pbuf_copy E p (tmp # rest) offset s =
     (case pb_payload tmp of
        None \<Rightarrow> pbuf_copy E p rest offset s
      | Some payload \<Rightarrow>
          if pb_len tmp = 0 then pbuf_copy E p rest offset s
          else if NetBufGetRoom (nbs s p) E_TAIL_BUF < ucast (pb_len tmp)
          then (None, NetBufFree (Some p) s)
          else if \<not> copy_ok E (unat (pb_len tmp)) (unat (pb_len tmp))
          then (None, NetBufFree (Some p) s)
          else
            let s1 = (case Option.bind (nbs s p) nb_mem of
                        None \<Rightarrow> s\<lparr>h_bad := True\<rparr>
                      | Some m \<Rightarrow> mem_write m (unat offset) (take (unat (pb_len tmp)) payload) s);
                s2 = snd (NetBufPush (Some p) E_DATA_BUF (ucast (pb_len tmp)) s1)
            in pbuf_copy E p rest (offset + ucast (pb_len tmp)) s2)"

definition Pbuf2NetBuf ::
  "(('a) net_sys_scheme, 'm) net_env_scheme \<Rightarrow> nat \<Rightarrow> pchain option \<Rightarrow> ('a) net_sys_scheme
   \<Rightarrow> nat option \<times> ('a) net_sys_scheme" where
  "Pbuf2NetBuf E netdev lwipBuf s =
     (case lwipBuf of
        None \<Rightarrow> (None, s)
      | Some ch \<Rightarrow>
          (case NetBufDevAlloc E netdev (ucast (pc_tot_len ch)) s of
             (None, s1) \<Rightarrow> (None, s1)
           | (Some p, s1) \<Rightarrow>
               (case nbs s1 p of
                  None \<Rightarrow> (None, s1\<lparr>h_bad := True\<rparr>)
                | Some b \<Rightarrow> pbuf_copy E p (pc_links ch) (bf_offset (nb_data b)) s1)))"


subsection \<open>The bookkeeping invariant and the three segments\<close>

lemmas seg_ids = E_HEAD_BUF_def E_DATA_BUF_def E_TAIL_BUF_def MAX_BUF_NUM_def

definition nb_wf :: "NetBuf \<Rightarrow> bool" where
  "nb_wf b \<longleftrightarrow>
     bf_offset (nb_head b) = 0 \<and>
     bf_offset (nb_data b) = bf_len (nb_head b) \<and>
     unat (bf_offset (nb_tail b)) = unat (bf_len (nb_head b)) + unat (bf_len (nb_data b)) \<and>
     unat (bf_len (nb_head b)) + unat (bf_len (nb_data b)) + unat (bf_len (nb_tail b)) = unat (nb_len b) \<and>
     nb_dataLen b = bf_len (nb_data b)"

lemma word_move:
  fixes a b n :: u32
  assumes "n \<le> b" and "unat a + unat b < 4294967296"
  shows "unat (a + n) = unat a + unat n" and "unat (b - n) = unat b - unat n" and "unat n \<le> unat b"
proof -
  show le: "unat n \<le> unat b" using assms(1) by (simp add: word_le_nat_alt)
  show "unat (b - n) = unat b - unat n" using assms(1) by (simp add: unat_diff_le)
  show "unat (a + n) = unat a + unat n" using le assms(2) by (intro unat_add_lt32) linarith
qed

lemma push_bufs_wf:
  assumes wf: "nb_wf b" and p: "push_bufs b i n = Some b'"
  shows "nb_wf b'"
proof -
  note lt = unat_lt32 [of "nb_len b"]
  note m1 = word_move [of n "bf_len (nb_data b)" "bf_len (nb_head b)"]
  note m2 = word_move [of n "bf_len (nb_tail b)" "bf_len (nb_data b)"]
  note m3 = word_move [of n "bf_len (nb_tail b)" "bf_offset (nb_tail b)"]
  note m4 = word_move [of n "bf_len (nb_data b)" "bf_len (nb_tail b)"]
  note m5 = unat_diff_le [of n "bf_offset (nb_tail b)"]
  show ?thesis
    using wf p lt m1 m2 m3 m4 m5
    by (auto simp: nb_wf_def push_bufs_def seg_ids Let_def not_less split: if_splits)
qed
lemma pop_bufs_wf:
  assumes wf: "nb_wf b" and p: "pop_bufs b i n = Some b'"
  shows "nb_wf b'"
proof -
  note lt = unat_lt32 [of "nb_len b"]
  note m1 = word_move [of n "bf_len (nb_data b)" "bf_len (nb_head b)"]
  note m2 = word_move [of n "bf_len (nb_tail b)" "bf_len (nb_data b)"]
  note m3 = word_move [of n "bf_len (nb_tail b)" "bf_offset (nb_tail b)"]
  note m4 = word_move [of n "bf_len (nb_head b)" "bf_len (nb_data b)"]
  show ?thesis
    using wf p lt m1 m2 m3 m4 
    by (auto simp: nb_wf_def pop_bufs_def seg_ids Let_def not_less split: if_splits)
qed
text \<open>
  The abstract buffer is the triple of its segments' bytes; \<open>seg_push\<close> and \<open>seg_pop\<close> say what
  \<open>NetBufPush\<close> and \<open>NetBufPop\<close> mean on it: bytes move across a segment boundary, none is lost.
\<close>

type_synonym segs = "u8 list \<times> u8 list \<times> u8 list"

definition nb_view :: "NetBuf \<Rightarrow> u8 list \<Rightarrow> segs" where
  "nb_view b bs =
     (take (unat (bf_len (nb_head b))) (drop (unat (bf_offset (nb_head b))) bs),
      take (unat (bf_len (nb_data b))) (drop (unat (bf_offset (nb_data b))) bs),
      take (unat (bf_len (nb_tail b))) (drop (unat (bf_offset (nb_tail b))) bs))"

definition seg_push :: "segs \<Rightarrow> u32 \<Rightarrow> nat \<Rightarrow> segs option" where
  "seg_push g i n =
     (case g of (h, d, t) \<Rightarrow>
        if i = E_HEAD_BUF then (if n \<le> length d then Some (h @ take n d, drop n d, t) else None)
        else if i = E_DATA_BUF then (if n \<le> length t then Some (h, d @ take n t, drop n t) else None)
        else if i = E_TAIL_BUF then
          (if n \<le> length d
           then Some (h, take (length d - n) d, drop (length d - n) d @ t) else None)
        else Some g)"

definition seg_pop :: "segs \<Rightarrow> u32 \<Rightarrow> nat \<Rightarrow> segs option" where
  "seg_pop g i n =
     (case g of (h, d, t) \<Rightarrow>
        if i = E_HEAD_BUF then
          (if n \<le> length h
           then Some (take (length h - n) h, drop (length h - n) h @ d, t) else None)
        else if i = E_DATA_BUF then (if n \<le> length d then Some (h @ take n d, drop n d, t) else None)
        else if i = E_TAIL_BUF then (if n \<le> length t then Some (h, d @ take n t, drop n t) else None)
        else Some g)"

lemma nb_view_split:
  assumes "nb_wf b" and "length bs = unat (nb_len b)"
  obtains h d t where "bs = h @ d @ t" "length h = unat (bf_len (nb_head b))"
    "length d = unat (bf_len (nb_data b))" "length t = unat (bf_len (nb_tail b))"
    "nb_view b bs = (h, d, t)"
proof
  let ?h = "unat (bf_len (nb_head b))" and ?d = "unat (bf_len (nb_data b))"
  let ?H = "take ?h bs" and ?D = "take ?d (drop ?h bs)" and ?T = "drop (?h + ?d) bs"
  have len: "?h + ?d + unat (bf_len (nb_tail b)) = length bs"
    using assms by (simp add: nb_wf_def)
  show "bs = ?H @ ?D @ ?T"
    by (metis append_take_drop_id drop_drop add.commute)
  show "length ?H = ?h" "length ?D = ?d" "length ?T = unat (bf_len (nb_tail b))"
    using len by auto
  show "nb_view b bs = (?H, ?D, ?T)"
    using assms len by (simp add: nb_view_def nb_wf_def)
qed

lemma nb_view_append:
  assumes "nb_wf b" and "length h = unat (bf_len (nb_head b))"
    and "length d = unat (bf_len (nb_data b))" and "length t = unat (bf_len (nb_tail b))"
  shows "nb_view b (h @ d @ t) = (h, d, t)"
  using assms by (simp add: nb_view_def nb_wf_def)

lemma nb_view_eqI:
  assumes "nb_wf b" and "bs = h @ d @ t" and "length h = unat (bf_len (nb_head b))"
    and "length d = unat (bf_len (nb_data b))" and "length t = unat (bf_len (nb_tail b))"
  shows "nb_view b bs = (h, d, t)"
  using assms nb_view_append by simp

lemma pop_data_is_push_head: "pop_bufs b E_DATA_BUF n = push_bufs b E_HEAD_BUF n"
  by (auto simp: pop_bufs_def push_bufs_def seg_ids Let_def)

lemma pop_tail_is_push_data: "pop_bufs b E_TAIL_BUF n = push_bufs b E_DATA_BUF n"
  by (auto simp: pop_bufs_def push_bufs_def seg_ids Let_def)

lemma seg_pop_is_push:
  "seg_pop g E_DATA_BUF n = seg_push g E_HEAD_BUF n"
  "seg_pop g E_TAIL_BUF n = seg_push g E_DATA_BUF n"
  by (cases g; simp add: seg_pop_def seg_push_def seg_ids)+

lemma bufs_fail_iff:
  assumes "nb_wf b"
  shows "push_bufs b E_HEAD_BUF n = None \<longleftrightarrow> unat (bf_len (nb_data b)) < unat n"
    and "push_bufs b E_DATA_BUF n = None \<longleftrightarrow> unat (bf_len (nb_tail b)) < unat n"
    and "push_bufs b E_TAIL_BUF n = None \<longleftrightarrow> unat (bf_len (nb_data b)) < unat n"
    and "pop_bufs b E_HEAD_BUF n = None \<longleftrightarrow> unat (bf_len (nb_head b)) < unat n"
  using assms
  by (auto simp: push_bufs_def pop_bufs_def seg_ids Let_def nb_wf_def word_less_nat_alt split: if_splits)

lemma seg_lens:
  assumes wf: "nb_wf b"
  shows "push_bufs b E_HEAD_BUF n = Some b' \<Longrightarrow>
           unat n \<le> unat (bf_len (nb_data b)) \<and>
           unat (bf_len (nb_head b')) = unat (bf_len (nb_head b)) + unat n \<and>
           unat (bf_len (nb_data b')) = unat (bf_len (nb_data b)) - unat n \<and>
           bf_len (nb_tail b') = bf_len (nb_tail b)"
    and "push_bufs b E_DATA_BUF n = Some b' \<Longrightarrow>
           unat n \<le> unat (bf_len (nb_tail b)) \<and>
           bf_len (nb_head b') = bf_len (nb_head b) \<and>
           unat (bf_len (nb_data b')) = unat (bf_len (nb_data b)) + unat n \<and>
           unat (bf_len (nb_tail b')) = unat (bf_len (nb_tail b)) - unat n"
    and "push_bufs b E_TAIL_BUF n = Some b' \<Longrightarrow>
           unat n \<le> unat (bf_len (nb_data b)) \<and>
           bf_len (nb_head b') = bf_len (nb_head b) \<and>
           unat (bf_len (nb_data b')) = unat (bf_len (nb_data b)) - unat n \<and>
           unat (bf_len (nb_tail b')) = unat (bf_len (nb_tail b)) + unat n"
    and "pop_bufs b E_HEAD_BUF n = Some b' \<Longrightarrow>
           unat n \<le> unat (bf_len (nb_head b)) \<and>
           unat (bf_len (nb_head b')) = unat (bf_len (nb_head b)) - unat n \<and>
           unat (bf_len (nb_data b')) = unat (bf_len (nb_data b)) + unat n \<and>
           bf_len (nb_tail b') = bf_len (nb_tail b)"
  using wf unat_lt32 [of "nb_len b"]
    word_move [of n "bf_len (nb_data b)" "bf_len (nb_head b)"]
    word_move [of n "bf_len (nb_tail b)" "bf_len (nb_data b)"]
    word_move [of n "bf_len (nb_data b)" "bf_len (nb_tail b)"]
    word_move [of n "bf_len (nb_head b)" "bf_len (nb_data b)"]
  by (auto simp: push_bufs_def pop_bufs_def seg_ids Let_def not_less nb_wf_def split: if_splits)

lemma push_bufs_other: "\<not> i < E_TAIL_BUF \<Longrightarrow> i \<noteq> E_TAIL_BUF \<Longrightarrow> push_bufs b i n = Some b \<and> pop_bufs b i n = Some b"
  by (auto simp: push_bufs_def pop_bufs_def seg_ids Let_def)

lemma seg_id_cases:
  fixes i :: u32
  obtains "i = E_HEAD_BUF" | "i = E_DATA_BUF" | "i = E_TAIL_BUF"
    | "i \<noteq> E_HEAD_BUF" "i \<noteq> E_DATA_BUF" "i \<noteq> E_TAIL_BUF"
  by blast

lemma push_refines:
  assumes wf: "nb_wf b" and len: "length bs = unat (nb_len b)"
  shows "map_option (\<lambda>b'. nb_view b' bs) (push_bufs b i n) = seg_push (nb_view b bs) i (unat n)"
proof -
  obtain h d t where v: "bs = h @ d @ t" "length h = unat (bf_len (nb_head b))"
    "length d = unat (bf_len (nb_data b))" "length t = unat (bf_len (nb_tail b))"
    "nb_view b bs = (h, d, t)"
    using nb_view_split [OF wf len] .
  show ?thesis
  proof (cases "push_bufs b i n")
    case None
    then show ?thesis
      using bufs_fail_iff [OF wf] v
      by (cases i rule: seg_id_cases) (auto simp: seg_push_def push_bufs_def seg_ids)
  next
    case (Some b')
    note view = nb_view_eqI [OF push_bufs_wf [OF wf Some]]
    show ?thesis
    proof (cases i rule: seg_id_cases)
      case 1
      with Some seg_lens(1) [OF wf] v show ?thesis
        by (simp add: seg_push_def seg_ids) (intro view; simp)
    next
      case 2
      with Some seg_lens(2) [OF wf] v show ?thesis
        by (simp add: seg_push_def seg_ids) (intro view; simp)
    next
      case 3
      with Some seg_lens(3) [OF wf] v show ?thesis
        by (simp add: seg_push_def seg_ids) (intro view; simp)
    next
      case 4
      with Some v show ?thesis
        by (simp add: seg_push_def push_bufs_def Let_def)
    qed
  qed
qed

lemma pop_refines:
  assumes wf: "nb_wf b" and len: "length bs = unat (nb_len b)"
  shows "map_option (\<lambda>b'. nb_view b' bs) (pop_bufs b i n) = seg_pop (nb_view b bs) i (unat n)"
proof (cases i rule: seg_id_cases)
  case 1
  obtain h d t where v: "bs = h @ d @ t" "length h = unat (bf_len (nb_head b))"
    "length d = unat (bf_len (nb_data b))" "length t = unat (bf_len (nb_tail b))"
    "nb_view b bs = (h, d, t)"
    using nb_view_split [OF wf len] .
  show ?thesis
  proof (cases "pop_bufs b i n")
    case None
    then show ?thesis
      using 1 bufs_fail_iff(4) [OF wf] v by (simp add: seg_pop_def)
  next
    case (Some b')
    with 1 seg_lens(4) [OF wf] v show ?thesis
      by (simp add: seg_pop_def) (intro nb_view_eqI [OF pop_bufs_wf [OF wf Some]]; simp)
  qed
next
  case 2
  then show ?thesis by (simp add: pop_data_is_push_head seg_pop_is_push push_refines [OF wf len])
next
  case 3
  then show ?thesis by (simp add: pop_tail_is_push_data seg_pop_is_push push_refines [OF wf len])
next
  case 4
  then show ?thesis by (cases "nb_view b bs") (simp add: seg_pop_def pop_bufs_def Let_def)
qed

end
