(* ===== verification/Net_Buf_Heap.thy ===== *)
theory Net_Buf_Heap
  imports Net_Buf
begin

text \<open>
  Net buffers in memory: the invariant that ties a \<open>NetBuf\<close> to its two blocks, and what every
  operation of \<open>netbuf_adapter.c\<close> does to the bytes of its segments and to the heap.
\<close>

definition nb_inv :: "('a) net_sys_scheme \<Rightarrow> nat \<Rightarrow> bool" where
  "nb_inv s p \<longleftrightarrow>
     (case nbs s p of
        None \<Rightarrow> False
      | Some b \<Rightarrow> nb_wf b \<and> h_blk s p \<noteq> None \<and>
          (case nb_mem b of
             None \<Rightarrow> False
           | Some m \<Rightarrow> m \<noteq> p \<and> (case h_blk s m of None \<Rightarrow> False | Some bs \<Rightarrow> length bs = unat (nb_len b))))"

definition nb_segs :: "('a) net_sys_scheme \<Rightarrow> nat \<Rightarrow> segs" where
  "nb_segs s p =
     (case nbs s p of
        None \<Rightarrow> ([], [], [])
      | Some b \<Rightarrow> nb_view b (case nb_mem b of None \<Rightarrow> [] | Some m \<Rightarrow> (case h_blk s m of None \<Rightarrow> [] | Some bs \<Rightarrow> bs)))"

definition nb_bytes :: "('a) net_sys_scheme \<Rightarrow> nat \<Rightarrow> u8 list" where
  "nb_bytes s p = fst (snd (nb_segs s p))"

lemma nb_invE:
  assumes "nb_inv s p"
  obtains b m bs where "nbs s p = Some b" "nb_wf b" "nb_mem b = Some m" "m \<noteq> p"
    "h_blk s m = Some bs" "length bs = unat (nb_len b)" "h_blk s p \<noteq> None"
    "nb_segs s p = nb_view b bs"
  using assms unfolding nb_inv_def nb_segs_def by (auto split: option.splits)

lemma nb_invI:
  "nbs s p = Some b \<Longrightarrow> nb_wf b \<Longrightarrow> nb_mem b = Some m \<Longrightarrow> m \<noteq> p \<Longrightarrow> h_blk s m = Some bs
   \<Longrightarrow> length bs = unat (nb_len b) \<Longrightarrow> h_blk s p \<noteq> None \<Longrightarrow> nb_inv s p"
  by (simp add: nb_inv_def)

lemma nb_segs_eq:
  "nbs s p = Some b \<Longrightarrow> nb_mem b = Some m \<Longrightarrow> h_blk s m = Some bs \<Longrightarrow> nb_segs s p = nb_view b bs"
  by (simp add: nb_segs_def)

lemma NetBufAlloc_spec:
  assumes ok: "heap_ok s" and r: "NetBufAlloc E n s = (Some p, s')"
  shows "p = h_next s" and "nb_inv s' p" and "nb_segs s' p = ([], [], replicate (unat n) 0)"
    and "heap_ok s'" and "h_bad s' = h_bad s" and "ev s' = ev s"
    and "h_blk s' = (h_blk s)(h_next s \<mapsto> [], Suc (h_next s) \<mapsto> replicate (unat n) 0)"
    and "\<And>q. q \<noteq> p \<Longrightarrow> nbs s' q = nbs s q"
proof -
  have s': "p = h_next s \<and> nbs s' p = Some
      \<lparr>nb_head = \<lparr>bf_offset = 0, bf_len = 0\<rparr>, nb_data = \<lparr>bf_offset = 0, bf_len = 0\<rparr>,
       nb_tail = \<lparr>bf_offset = 0, bf_len = n\<rparr>, nb_mem = Some (Suc p), nb_len = n, nb_dataLen = 0,
       nb_dev = None, nb_qmap = 0\<rparr> \<and>
      h_blk s' = (h_blk s)(h_next s \<mapsto> [], Suc (h_next s) \<mapsto> replicate (unat n) 0) \<and>
      h_bad s' = h_bad s \<and> ev s' = ev s \<and> h_next s' = Suc (Suc (h_next s)) \<and>
      (\<forall>q. q \<noteq> p \<longrightarrow> nbs s' q = nbs s q)"
    using r by (auto simp: NetBufAlloc_def LOS_MemAlloc_def memset_zero_def patch_def Let_def
        split: if_splits)
  then show "p = h_next s" "h_bad s' = h_bad s" "ev s' = ev s"
    "h_blk s' = (h_blk s)(h_next s \<mapsto> [], Suc (h_next s) \<mapsto> replicate (unat n) 0)"
    "\<And>q. q \<noteq> p \<Longrightarrow> nbs s' q = nbs s q"
    by auto
  show "nb_inv s' p" "nb_segs s' p = ([], [], replicate (unat n) 0)"
    by (use s' in \<open>auto simp: nb_inv_def nb_segs_def nb_wf_def nb_view_def\<close>)
  show "heap_ok s'"
    using s' ok by (simp add: heap_ok_def)
qed

lemma NetBufAlloc_fail:
  assumes ok: "heap_ok s" and r: "NetBufAlloc E n s = (None, s')"
  shows "h_blk s' = h_blk s" "h_bad s' = h_bad s" "nbs s' = nbs s" "heap_ok s'"
  using assms heap_ok_fresh [OF ok]
  by (auto simp: NetBufAlloc_def LOS_MemAlloc_def LOS_MemFree_def Let_def heap_ok_def
      fun_eq_iff split: if_splits)

lemma NetBufFree_spec:
  assumes "nb_inv s p" and "nbs s p = Some b" and "nb_mem b = Some m"
  shows "NetBufFree (Some p) s =
           s\<lparr>h_blk := (h_blk s)(m := None, p := None), nbs := (nbs s)(p := None)\<rparr>"
  using assms by (auto simp: NetBufFree_def LOS_MemFree_def nb_inv_def Let_def split: option.splits)

lemma NetBufAlloc_then_free:
  assumes ok: "heap_ok s" and r: "NetBufAlloc E n s = (Some p, s1)"
  shows "h_blk (NetBufFree (Some p) s1) = h_blk s" and "h_bad (NetBufFree (Some p) s1) = h_bad s"
proof -
  have a: "nbs s1 p = Some
      \<lparr>nb_head = \<lparr>bf_offset = 0, bf_len = 0\<rparr>, nb_data = \<lparr>bf_offset = 0, bf_len = 0\<rparr>,
       nb_tail = \<lparr>bf_offset = 0, bf_len = n\<rparr>, nb_mem = Some (Suc p), nb_len = n, nb_dataLen = 0,
       nb_dev = None, nb_qmap = 0\<rparr>"
    using r by (auto simp: NetBufAlloc_def LOS_MemAlloc_def memset_zero_def Let_def split: if_splits)
  note F = NetBufFree_spec [OF NetBufAlloc_spec(2) [OF ok r] a, simplified]
  have "h_blk s (h_next s) = None" "h_blk s (Suc (h_next s)) = None"
    using ok by (simp_all add: heap_ok_def)
  then show "h_blk (NetBufFree (Some p) s1) = h_blk s" "h_bad (NetBufFree (Some p) s1) = h_bad s"
    using NetBufAlloc_spec [OF ok r] F by (auto simp: fun_eq_iff)
qed

text \<open>Push at world level\<close>
lemma NetBufPush_Some:
  assumes "nb_inv s p" and "nbs s p = Some b" and "push_bufs b i n = Some b'"
  shows "NetBufPush (Some p) i n s = (Some (data_addr b'), s\<lparr>nbs := (nbs s)(p \<mapsto> b')\<rparr>)"
  using assms by (simp add: NetBufPush_def)

lemma push_bufs_frame: "push_bufs b i n = Some b' \<Longrightarrow> nb_mem b' = nb_mem b \<and> nb_len b' = nb_len b"
  by (auto simp: push_bufs_def Let_def split: if_splits)

lemma pop_bufs_frame: "pop_bufs b i n = Some b' \<Longrightarrow> nb_mem b' = nb_mem b \<and> nb_len b' = nb_len b"
  by (auto simp: pop_bufs_def Let_def split: if_splits)

lemma push_keeps_inv:
  assumes "nb_inv s p" and "nbs s p = Some b" and "push_bufs b i n = Some b'"
  shows "nb_inv (s\<lparr>nbs := (nbs s)(p \<mapsto> b')\<rparr>) p"
  using assms push_bufs_wf [of b i n b'] push_bufs_frame [of b i n b']
  by (auto simp: nb_inv_def split: option.splits)

lemma more_nbs: "sys.more s1 = sys.more s \<Longrightarrow> nbs s1 = nbs s"
  by (cases s; cases s1) simp

text \<open>Writing at the start of the tail segment and pushing what was written appends it to the data.\<close>

lemma append_to_tail:
  assumes inv: "nb_inv s p" and b: "nbs s p = Some b" "nb_mem b = Some m"
    and segs: "nb_segs s p = (h, d, t)"
    and fit: "length ys \<le> length t" and n: "unat n = length ys"
    and off: "off = length h + length d"
    and s2: "s2 = snd (NetBufPush (Some p) E_DATA_BUF n (mem_write m off ys s))"
  shows "nb_inv s2 p" and "nb_segs s2 p = (h, d @ ys, drop (length ys) t)"
    and "h_bad s2 = h_bad s" and "dom (h_blk s2) = dom (h_blk s)" and "ev s2 = ev s"
    and "h_next s2 = h_next s" and "\<And>q. q \<noteq> p \<Longrightarrow> nbs s2 q = nbs s q"
    and "\<And>q. q \<noteq> m \<Longrightarrow> h_blk s2 q = h_blk s q"
    and "map_option nb_mem (nbs s2 p) = Some (Some m)"
proof -
  obtain bs where bs: "h_blk s m = Some bs" "length bs = unat (nb_len b)" "nb_wf b" "m \<noteq> p"
      "h_blk s p \<noteq> None" and vp: "nb_segs s p = nb_view b bs"
    using inv b by (auto elim: nb_invE)
  obtain h1 d1 t1 where "bs = h1 @ d1 @ t1" "length h1 = unat (bf_len (nb_head b))"
    "length d1 = unat (bf_len (nb_data b))" "length t1 = unat (bf_len (nb_tail b))"
    "nb_view b bs = (h1, d1, t1)"
    using nb_view_split [OF bs(3,2)] .
  then have v: "bs = h @ d @ t" "length h = unat (bf_len (nb_head b))"
    "length d = unat (bf_len (nb_data b))" "length t = unat (bf_len (nb_tail b))"
    using vp segs by auto
  obtain b' where b': "push_bufs b E_DATA_BUF n = Some b'"
    using bufs_fail_iff(2) [OF bs(3), of n] fit n v(4) by fastforce
  note lens = seg_lens(2) [OF bs(3) b']
  have wf': "nb_wf b'" "nb_mem b' = Some m" "nb_len b' = nb_len b"
    using push_bufs_wf [OF bs(3) b'] push_bufs_frame [OF b'] b by auto
  have new: "patch bs off ys = h @ (d @ ys) @ drop (length ys) t"
    using v off fit by (simp add: patch_def)
  have w: "mem_write m off ys s = s\<lparr>h_blk := (h_blk s)(m \<mapsto> patch bs off ys)\<rparr>"
    using bs(1) v off fit by (intro mem_write_ok) auto
  have s2': "s2 = s\<lparr>h_blk := (h_blk s)(m \<mapsto> patch bs off ys), nbs := (nbs s)(p \<mapsto> b')\<rparr>"
    using s2 w b b' by (simp add: NetBufPush_def)
  have "length (patch bs off ys) = unat (nb_len b')"
    using new v fit bs(2) wf' by simp
  then show "nb_inv s2 p"
    using s2' wf' bs by (intro nb_invI [of s2 p b' m "patch bs off ys"]) auto
  have "nb_view b' (patch bs off ys) = (h, d @ ys, drop (length ys) t)"
    using lens v n by (intro nb_view_eqI [OF wf'(1) new]) auto
  then show "nb_segs s2 p = (h, d @ ys, drop (length ys) t)"
    using s2' wf' nb_segs_eq [of s2 p b' m "patch bs off ys"] by simp
  show "dom (h_blk s2) = dom (h_blk s)" using s2' bs(1) by auto
  show "h_bad s2 = h_bad s" "ev s2 = ev s" "h_next s2 = h_next s" using s2' by simp_all
  show "\<And>q. q \<noteq> p \<Longrightarrow> nbs s2 q = nbs s q" "\<And>q. q \<noteq> m \<Longrightarrow> h_blk s2 q = h_blk s q"
    using s2' by auto
  show "map_option nb_mem (nbs s2 p) = Some (Some m)" using s2' wf'(2) by simp
qed

lemma NetBufConcat_spec:
  assumes p: "nb_inv s p" and q: "nb_inv s q"
    and b: "nbs s p = Some b" "nb_mem b = Some m" and c: "nbs s q = Some c" "nb_mem c = Some cm"
    and apart: "p \<noteq> q" "m \<noteq> cm" "m \<noteq> q" "cm \<noteq> p"
    and copy: "copy_contract lim (copy_ok E)" "unat (bf_len (nb_tail b)) \<le> lim"
    and room: "nb_dataLen c \<le> bf_len (nb_tail b)" "0 < bf_len (nb_tail b)"
    and r: "NetBufConcat E (Some p) (Some q) s = (r, s')"
  shows "r = HDF_SUCCESS" and "nb_inv s' p" and "nb_bytes s' p = nb_bytes s p @ nb_bytes s q"
    and "nbs s' q = None" and "dom (h_blk s') = dom (h_blk s) - {q, cm}" and "h_bad s' = h_bad s"
proof -
  obtain bs where bs: "h_blk s m = Some bs" "length bs = unat (nb_len b)" "nb_wf b"
      and vp: "nb_segs s p = nb_view b bs"
    using p b by (auto elim: nb_invE)
  obtain cs where cs: "h_blk s cm = Some cs" "length cs = unat (nb_len c)" "nb_wf c" "cm \<noteq> q"
      and vq: "nb_segs s q = nb_view c cs"
    using q c by (auto elim: nb_invE)
  obtain h d t where v: "bs = h @ d @ t" "length h = unat (bf_len (nb_head b))"
    "length d = unat (bf_len (nb_data b))" "length t = unat (bf_len (nb_tail b))"
    "nb_view b bs = (h, d, t)"
    using nb_view_split [OF bs(3,2)] .
  obtain h' d' t' where w: "cs = h' @ d' @ t'" "length h' = unat (bf_len (nb_head c))"
    "length d' = unat (bf_len (nb_data c))" "length t' = unat (bf_len (nb_tail c))"
    "nb_view c cs = (h', d', t')"
    using nb_view_split [OF cs(3,2)] .
  let ?n = "nb_dataLen c"
  have n: "length d' \<le> length t" "unat ?n = length d'"
    using room v w cs(3) by (auto simp: word_le_nat_alt nb_wf_def)
  have cok: "copy_ok E (unat (bf_len (nb_tail b))) (unat ?n)"
    using copy n v(4) room(2) by (auto simp: copy_contract_def unat_gt_0 word_neq_0_conv)
  have offs: "unat (bf_offset (nb_tail b)) = length h + length d" "unat (bf_offset (nb_data c)) = length h'"
    using bs(3) cs(3) v w by (simp_all add: nb_wf_def)
  have cp: "mem_copy m (unat (bf_offset (nb_tail b))) cm (unat (bf_offset (nb_data c))) (unat ?n) s
      = mem_write m (length h + length d) d' s"
    using cs(1) w offs n by (simp add: mem_copy_def mem_read_def)
  define s2 where "s2 = snd (NetBufPush (Some p) E_DATA_BUF ?n (mem_write m (length h + length d) d' s))"
  note app = append_to_tail [OF p b vp [unfolded v(5)] n refl s2_def]
  have q2: "nb_inv s2 q" "nbs s2 q = Some c"
    using app(7,8) q c apart by (auto simp: nb_inv_def split: option.splits)
  have "NetBufConcat E (Some p) (Some q) s = (HDF_SUCCESS, NetBufFree (Some q) s2)"
    using b c room cok cp
    by (simp add: NetBufConcat_def NetBufGetRoom_def nb_buf_def seg_ids Let_def s2_def)
  then have s': "r = HDF_SUCCESS"
      "s' = s2\<lparr>h_blk := (h_blk s2)(cm := None, q := None), nbs := (nbs s2)(q := None)\<rparr>"
    using r NetBufFree_spec [OF q2 c(2)] by auto
  then have same: "nbs s' p = nbs s2 p" "h_blk s' p = h_blk s2 p" "h_blk s' m = h_blk s2 m"
    using apart by auto
  show "r = HDF_SUCCESS" "nbs s' q = None" "h_bad s' = h_bad s" using s' app(3) by auto
  show "nb_inv s' p"
    using same app(1,9) unfolding nb_inv_def by (auto split: option.splits)
  have "nb_segs s' p = nb_segs s2 p"
    using same app(9) by (auto simp: nb_segs_def split: option.splits)
  then show "nb_bytes s' p = nb_bytes s p @ nb_bytes s q"
    using app(2) vp vq v(5) w(5) by (simp add: nb_bytes_def)
  show "dom (h_blk s') = dom (h_blk s) - {q, cm}" using s' app(4) by auto
qed

lemma NetBufConcat_no_room:
  assumes "nbs s p = Some b" and "nbs s q = Some c" and "bf_len (nb_tail b) < nb_dataLen c"
  shows "NetBufConcat E (Some p) (Some q) s = (HDF_FAILURE, s)"
  using assms by (simp add: NetBufConcat_def NetBufGetRoom_def nb_buf_def seg_ids Let_def)

subsection \<open>Resizing\<close>

lemma NetBufResizeRoom_spec:
  assumes ok: "heap_ok s" and inv: "nb_inv s p" and b: "nbs s p = Some b"
    and small: "unat head + unat (nb_len b) + unat tail < 4294967296"
    and copy: "copy_contract lim (copy_ok E)" "unat (nb_len b) + unat tail \<le> lim"
    and pos: "0 < unat (nb_len b) + unat tail"
    and segs: "nb_segs s p = (h, d, t)"
    and run: "NetBufResizeRoom E (Some p) head tail s = (r, s')"
  shows "r = HDF_SUCCESS \<and> nb_inv s' p \<and> h_bad s' = h_bad s \<and>
           nb_segs s' p = (replicate (unat head) 0 @ h, d, replicate (length t + unat tail) 0) \<and>
           dom (h_blk s') = insert (h_next s) (dom (h_blk s) - {the (nb_mem b)})
       \<or> r = HDF_FAILURE \<and> h_blk s' = h_blk s \<and> nbs s' = nbs s \<and> h_bad s' = h_bad s"
proof -
  let ?size = "head + nb_len b + tail"
  obtain m bs where m: "nb_mem b = Some m" "h_blk s m = Some bs" "length bs = unat (nb_len b)"
      "nb_wf b" "m \<noteq> p" "h_blk s p \<noteq> None" and vp: "nb_segs s p = nb_view b bs"
    using inv b by (auto elim: nb_invE)
  obtain h1 d1 t1 where v1: "bs = h1 @ d1 @ t1" "length h1 = unat (bf_len (nb_head b))"
    "length d1 = unat (bf_len (nb_data b))" "length t1 = unat (bf_len (nb_tail b))"
    "nb_view b bs = (h1, d1, t1)"
    using nb_view_split [OF m(4,3)] .
  have v: "bs = h @ d @ t" "length h = unat (bf_len (nb_head b))"
    "length d = unat (bf_len (nb_data b))" "length t = unat (bf_len (nb_tail b))"
    using v1 vp segs by auto
  have len: "length h + length d + length t = unat (nb_len b)" using m(3) v(1) by simp
  have u1: "unat (head + nb_len b) = unat head + unat (nb_len b)"
    using small by (intro unat_add_lt32) linarith
  have size: "unat ?size = unat head + unat (nb_len b) + unat tail"
    using small u1 by (subst unat_add_lt32) auto
  have room: "unat (?size - head) = unat (nb_len b) + unat tail"
  proof -
    have "?size - head = nb_len b + tail" by simp
    then show ?thesis using small by (simp add: unat_add_lt32)
  qed
  have off: "unat (bf_offset (nb_tail b)) = length h + length d"
    using m(4) v by (simp add: nb_wf_def)
  have cok: "copy_ok E (unat (?size - head)) (unat (bf_offset (nb_tail b)))"
    using copy pos room off len by (simp add: copy_contract_def)
  show ?thesis
  proof (cases "LOS_MemAlloc E (Bytes (unat ?size)) s")
    case (Pair a s1)
    show ?thesis
    proof (cases a)
      case None
      with Pair have "r = HDF_FAILURE" "s' = s1"
        using run b by (simp_all add: NetBufResizeRoom_def Let_def)
      then show ?thesis
        using LOS_MemAlloc_NoneD [of E "Bytes (unat ?size)" s s1] more_nbs [of s1 s] Pair None by simp
    next
      case (Some data)
      note al = LOS_MemAlloc_SomeD [OF Pair [unfolded Some]]
      have fresh: "data \<noteq> m" "data \<noteq> p"
        using al(1) heap_ok_fresh [OF ok] m by auto
      let ?Z = "replicate (unat ?size) (0 :: u8)"
      let ?s2 = "s1\<lparr>h_blk := (h_blk s1)(data \<mapsto> ?Z)\<rparr>"
      have ms: "memset_zero data (unat ?size) s1 = ?s2"
        using al by (intro memset_fresh) auto
      let ?new = "patch ?Z (unat head) (h @ d)"
      let ?s3 = "?s2\<lparr>h_blk := (h_blk ?s2)(data \<mapsto> ?new)\<rparr>"
      have cp: "mem_copy data (unat head) m 0 (unat (bf_offset (nb_tail b))) ?s2 = ?s3"
        using mem_copy_ok [of ?s2 m bs 0 "length h + length d" data ?Z "unat head"] al fresh m v off size len
        by simp
      let ?b' = "b\<lparr>nb_mem := Some data, nb_len := ?size,
                   nb_head := \<lparr>bf_offset = 0, bf_len = bf_len (nb_head b) + head\<rparr>,
                   nb_data := \<lparr>bf_offset = bf_len (nb_head b) + head, bf_len = nb_dataLen b\<rparr>,
                   nb_tail := \<lparr>bf_offset = bf_offset (nb_tail b) + head,
                               bf_len = bf_len (nb_tail b) + tail\<rparr>\<rparr>"
      let ?s4 = "?s3\<lparr>h_blk := (h_blk ?s3)(m := None), nbs := (nbs s1)(p \<mapsto> ?b')\<rparr>"
      have nbs1: "nbs s1 = nbs s" using al by (intro more_nbs)
      have fr: "LOS_MemFree m ?s3 = ?s3\<lparr>h_blk := (h_blk ?s3)(m := None)\<rparr>"
        using al fresh m by (simp add: LOS_MemFree_def)
      have res: "NetBufResizeRoom E (Some p) head tail s = (HDF_SUCCESS, ?s4)"
        using b Pair Some ms m(1) cok cp fr
        by (simp add: NetBufResizeRoom_def Let_def)
      have lens: "unat (bf_len (nb_head b) + head) = length h + unat head"
        "unat (bf_offset (nb_tail b) + head) = length h + length d + unat head"
        "unat (bf_len (nb_tail b) + tail) = length t + unat tail"
        using v off small len by (simp_all add: unat_add_lt32)
      have wf': "nb_wf ?b'" using m(4) lens v size len by (simp add: nb_wf_def)
      have split: "?new = (replicate (unat head) 0 @ h) @ d @ replicate (length t + unat tail) 0"
        using size len by (simp add: patch_def)
      have view: "nb_view ?b' ?new = (replicate (unat head) 0 @ h, d, replicate (length t + unat tail) 0)"
        using lens v m(4) by (intro nb_view_eqI [OF wf' split]) (simp_all add: nb_wf_def)
      have s': "r = HDF_SUCCESS" "s' = ?s4" using run res by auto
      have blk: "h_blk s' data = Some ?new" using s' fresh by simp
      have inv': "nb_inv s' p"
        using s' wf' fresh m size len al blk by (intro nb_invI [of s' p ?b' data ?new]) auto
      have "nb_segs s' p = nb_view ?b' ?new"
        using s' blk by (intro nb_segs_eq) auto
      moreover have "dom (h_blk s') = insert (h_next s) (dom (h_blk s) - {the (nb_mem b)})"
        using s' al m fresh by auto
      moreover have "h_bad s' = h_bad s" using s' al by simp
      ultimately show ?thesis using s' inv' view by simp
    qed
  qed
qed

lemma NetBufResizeRoom_overflow:
  assumes ok: "heap_ok s" and inv: "nb_inv s p" and b: "nbs s p = Some b"
    and over: "4294967296 \<le> unat head + unat (nb_len b) + unat tail"
    and fits: "unat (nb_len b) + unat tail < 4294967296"
    and copy: "copy_contract lim (copy_ok E)" "unat (nb_len b) + unat tail \<le> lim"
    and used: "0 < bf_offset (nb_tail b)"
    and mem: "mem_ok E (h_next s) (Bytes (unat (head + nb_len b + tail)))"
    and run: "NetBufResizeRoom E (Some p) head tail s = (r, s')"
  shows "r = HDF_SUCCESS" and "h_bad s'"
proof -
  let ?size = "head + nb_len b + tail"
  obtain m bs where m: "nb_mem b = Some m" "h_blk s m = Some bs" "length bs = unat (nb_len b)"
      "nb_wf b"
    using inv b by (auto elim: nb_invE)
  have sum: "unat (nb_len b + tail) = unat (nb_len b) + unat tail"
    using fits by (rule unat_add_lt32)
  have eq: "?size = head + (nb_len b + tail)" by simp
  have "unat ?size = (unat head + unat (nb_len b + tail)) mod 4294967296"
    unfolding eq by (simp add: unat_word_ariths)
  also have "\<dots> < unat head"
  proof -
    have "unat head + unat (nb_len b + tail) - 4294967296 < 4294967296"
      using fits sum unat_lt32 [of head] by linarith
    then show ?thesis
      using over fits sum unat_lt32 [of head] by (simp add: mod_if)
  qed
  finally have small: "unat ?size < unat head" .
  have room: "unat (?size - head) = unat (nb_len b) + unat tail"
    using sum by (simp add: eq)
  have off: "0 < unat (bf_offset (nb_tail b))" "unat (bf_offset (nb_tail b)) \<le> unat (nb_len b)"
    using used m(4) by (auto simp: word_less_nat_alt nb_wf_def)
  have cok: "copy_ok E (unat (?size - head)) (unat (bf_offset (nb_tail b)))"
    using copy room off by (simp add: copy_contract_def)
  obtain s1 where al: "LOS_MemAlloc E (Bytes (unat ?size)) s = (Some (h_next s), s1)"
    using mem by (simp add: LOS_MemAlloc_def Let_def)
  note al' = LOS_MemAlloc_SomeD [OF al]
  let ?s2 = "memset_zero (h_next s) (unat ?size) s1"
  have ms: "h_blk ?s2 (h_next s) = Some (replicate (unat ?size) 0)"
    using al' by (simp add: memset_zero_def patch_def)
  have bad: "h_bad (mem_copy (h_next s) (unat head) m 0 (unat (bf_offset (nb_tail b))) ?s2)"
    using ms small by (auto simp: mem_copy_def mem_read_def mem_write_def split: option.splits)
  have "r = HDF_SUCCESS \<and> h_bad s'"
    using run b al m(1) cok bad
    by (auto simp: NetBufResizeRoom_def LOS_MemFree_def Let_def split: if_splits)
  then show "r = HDF_SUCCESS" "h_bad s'" by auto
qed

subsection \<open>Conversion\<close>

definition dev_alloc_contract :: "(('a) net_sys_scheme, 'm) net_env_scheme \<Rightarrow> bool" where
  "dev_alloc_contract E \<longleftrightarrow>
     (\<forall>netdev n s p s1. heap_ok s \<longrightarrow> NetBufDevAlloc E netdev n s = (Some p, s1) \<longrightarrow>
        nb_inv s1 p \<and> nb_bytes s1 p = [] \<and> h_bad s1 = h_bad s \<and>
        n \<le> NetBufGetRoom (nbs s1 p) E_TAIL_BUF)"

definition link_bytes :: "pbuf \<Rightarrow> u8 list" where
  "link_bytes l = (case pb_payload l of None \<Rightarrow> [] | Some ys \<Rightarrow> take (unat (pb_len l)) ys)"

definition link_ok :: "pbuf \<Rightarrow> bool" where
  "link_ok l = (case pb_payload l of None \<Rightarrow> True | Some ys \<Rightarrow> unat (pb_len l) \<le> length ys)"

definition chain_bytes :: "pbuf list \<Rightarrow> u8 list" where
  "chain_bytes ls = concat (map link_bytes ls)"

lemma chain_bytes_simps [simp]:
  "chain_bytes [] = []" "chain_bytes (l # ls) = link_bytes l @ chain_bytes ls"
  by (simp_all add: chain_bytes_def)

lemma room_is_tail:
  assumes "nb_inv s p" and "nb_segs s p = (h, d, t)"
  shows "unat (NetBufGetRoom (nbs s p) E_TAIL_BUF) = length t"
proof -
  obtain b m bs where b: "nbs s p = Some b" "nb_wf b" "length bs = unat (nb_len b)" "nb_segs s p = nb_view b bs"
    using assms(1) by (rule nb_invE)
  obtain h1 d1 t1 where "length t1 = unat (bf_len (nb_tail b))" "nb_view b bs = (h1, d1, t1)"
    using nb_view_split [OF b(2,3)] by metis
  then show ?thesis using b(1,4) assms(2) by (simp add: NetBufGetRoom_def nb_buf_def seg_ids)
qed

lemma pbuf_copy_spec:
  assumes "nb_inv s p" and "Option.bind (nbs s p) nb_mem = Some m"
    and "nb_segs s p = (h, d, t)" and "offset = of_nat (length h + length d)"
    and "length h + length d + length t < 4294967296"
    and "\<forall>l \<in> set ls. link_ok l" and "copy_contract lim (copy_ok E)" and "65535 \<le> lim"
  shows "length (chain_bytes ls) \<le> length t \<longrightarrow>
           (\<exists>s'. pbuf_copy E p ls offset s = (Some p, s') \<and> nb_inv s' p \<and> h_bad s' = h_bad s \<and>
              nb_segs s' p = (h, d @ chain_bytes ls, drop (length (chain_bytes ls)) t) \<and>
              dom (h_blk s') = dom (h_blk s))"
    and "length t < length (chain_bytes ls) \<longrightarrow>
           (\<exists>s'. pbuf_copy E p ls offset s = (None, s') \<and> h_bad s' = h_bad s \<and> nbs s' p = None \<and>
              dom (h_blk s') = dom (h_blk s) - {p, m})"
  using assms
proof (induction ls arbitrary: s d t offset)
  case Nil
  { case 1 then show ?case by simp }
  { case 2 then show ?case by simp }
next
  case (Cons l ls)
  let ?skip = "pb_payload l = None \<or> pb_len l = 0"
  let ?ys = "link_bytes l"
  have skip: "?skip \<Longrightarrow> pbuf_copy E p (l # ls) offset s = pbuf_copy E p ls offset s \<and> ?ys = []"
    for s :: "'a net_sys_scheme" and offset
    by (cases "pb_payload l") (auto simp: link_bytes_def)
  have fail: "pbuf_copy E p (l # ls) offset s = (None, NetBufFree (Some p) s)"
    if "\<not> ?skip" "nb_inv s p" "nb_segs s p = (h, d, t)" "length t < length ?ys" "link_ok l"
    for s :: "'a net_sys_scheme" and offset d t
    using that room_is_tail [OF that(2,3)]
    by (auto simp: link_bytes_def link_ok_def word_less_nat_alt unat_ucast16 split: option.splits)
  have step: "\<exists>s2. pbuf_copy E p (l # ls) offset s = pbuf_copy E p ls (offset + ucast (pb_len l)) s2 \<and>
      nb_inv s2 p \<and> nb_segs s2 p = (h, d @ ?ys, drop (length ?ys) t) \<and> h_bad s2 = h_bad s \<and>
      dom (h_blk s2) = dom (h_blk s) \<and> Option.bind (nbs s2 p) nb_mem = Some m \<and>
      offset + ucast (pb_len l) = of_nat (length h + length (d @ ?ys))"
    if "\<not> ?skip" "nb_inv s p" "nb_segs s p = (h, d, t)" "length ?ys \<le> length t" "link_ok l"
      "Option.bind (nbs s p) nb_mem = Some m" "offset = of_nat (length h + length d)"
      "length h + length d + length t < 4294967296"
      "copy_contract lim (copy_ok E)" "65535 \<le> lim"
    for s :: "'a net_sys_scheme" and offset d t
  proof -
    from that(1) obtain y where y: "pb_payload l = Some y" "pb_len l \<noteq> 0" by auto
    from that(6) obtain b where b: "nbs s p = Some b" "nb_mem b = Some m"
      by (auto simp: bind_eq_Some_conv)
    have n: "unat (pb_len l) = length ?ys" using y that(5) by (simp add: link_bytes_def link_ok_def)
    have lt: "unat (pb_len l) < 65536" using unsigned_less [of "pb_len l", where ?'a = nat] by simp
    have cok: "copy_ok E (unat (pb_len l)) (unat (pb_len l))"
      using that(9,10) lt y(2) by (auto simp: copy_contract_def unat_gt_0)
    have off: "unat offset = length h + length d"
      using that(7,8) by (simp add: unat_of_nat_lt32 del: of_nat_add)
    define s2 where "s2 = snd (NetBufPush (Some p) E_DATA_BUF (ucast (pb_len l))
        (mem_write m (length h + length d) ?ys s))"
    note app = append_to_tail [OF that(2) b that(3,4) n [folded unat_ucast16] refl s2_def]
    have room: "\<not> NetBufGetRoom (nbs s p) E_TAIL_BUF < ucast (pb_len l)"
      using room_is_tail [OF that(2,3)] that(4) n by (simp add: word_less_nat_alt unat_ucast16)
    have ys: "take (unat (pb_len l)) y = ?ys" using y by (simp add: link_bytes_def)
    have "pbuf_copy E p (l # ls) offset s = pbuf_copy E p ls (offset + ucast (pb_len l)) s2"
      by (simp add: y b cok off room [unfolded b(1)] ys s2_def Let_def)
    moreover have "Option.bind (nbs s2 p) nb_mem = Some m"
      using app(9) by (auto simp: bind_eq_Some_conv)
    moreover have "offset + ucast (pb_len l) = of_nat (length h + length (d @ ?ys))"
    proof -
      have "(ucast (pb_len l) :: u32) = of_nat (length ?ys)"
        using n [folded unat_ucast16] by (simp flip: n unat_ucast16)
      then show ?thesis using that(7) by simp
    qed
    ultimately show ?thesis using app by blast
  qed
  { case 1
    show ?case
    proof (cases ?skip)
      case True
      with skip Cons.IH(1) [OF "1.prems"(1-5)] "1.prems" show ?thesis by simp
    next
      case False
      show ?thesis
      proof
        assume le: "length (chain_bytes (l # ls)) \<le> length t"
        with step [OF False "1.prems"(1,3)] "1.prems" obtain s2 where
          s2: "pbuf_copy E p (l # ls) offset s = pbuf_copy E p ls (offset + ucast (pb_len l)) s2"
          "nb_inv s2 p" "nb_segs s2 p = (h, d @ ?ys, drop (length ?ys) t)" "h_bad s2 = h_bad s"
          "dom (h_blk s2) = dom (h_blk s)" "Option.bind (nbs s2 p) nb_mem = Some m"
          "offset + ucast (pb_len l) = of_nat (length h + length (d @ ?ys))"
          by (auto simp del: pbuf_copy.simps)
        from Cons.IH(1) [OF s2(2,6,3,7)] "1.prems" le s2
        show "\<exists>s'. pbuf_copy E p (l # ls) offset s = (Some p, s') \<and> nb_inv s' p \<and> h_bad s' = h_bad s \<and>
              nb_segs s' p = (h, d @ chain_bytes (l # ls), drop (length (chain_bytes (l # ls))) t) \<and>
              dom (h_blk s') = dom (h_blk s)"
          by (auto simp del: pbuf_copy.simps simp: add.commute)
      qed
    qed }
  { case 2
    show ?case
    proof (cases ?skip)
      case True
      with skip Cons.IH(2) [OF "2.prems"(1-5)] "2.prems" show ?thesis by simp
    next
      case False
      show ?thesis
      proof (cases "length ?ys \<le> length t")
        case True
        with step [OF False "2.prems"(1,3)] "2.prems" obtain s2 where
          s2: "pbuf_copy E p (l # ls) offset s = pbuf_copy E p ls (offset + ucast (pb_len l)) s2"
          "nb_inv s2 p" "nb_segs s2 p = (h, d @ ?ys, drop (length ?ys) t)" "h_bad s2 = h_bad s"
          "dom (h_blk s2) = dom (h_blk s)" "Option.bind (nbs s2 p) nb_mem = Some m"
          "offset + ucast (pb_len l) = of_nat (length h + length (d @ ?ys))"
          by (auto simp del: pbuf_copy.simps)
        from Cons.IH(2) [OF s2(2,6,3,7)] "2.prems" True s2
        show ?thesis by (auto simp del: pbuf_copy.simps)
      next
        case short: False
        obtain b where b: "nbs s p = Some b" "nb_mem b = Some m"
          using "2.prems"(2) by (auto simp: bind_eq_Some_conv)
        have "pbuf_copy E p (l # ls) offset s = (None, NetBufFree (Some p) s)"
          using fail [OF False "2.prems"(1,3)] short "2.prems"(6) by simp
        then show ?thesis
          using NetBufFree_spec [OF "2.prems"(1) b] by auto
      qed
    qed }
qed

definition chain_ok :: "pchain \<Rightarrow> bool" where
  "chain_ok ch \<longleftrightarrow> (\<forall>l \<in> set (pc_links ch). link_ok l) \<and>
     length (chain_bytes (pc_links ch)) \<le> unat (pc_tot_len ch)"

definition pbuf_alloc_contract :: "(net_trace \<Rightarrow> nat \<Rightarrow> u8 list option) \<Rightarrow> bool" where
  "pbuf_alloc_contract f \<longleftrightarrow> (\<forall>tr n p. f tr n = Some p \<longrightarrow> length p = n)"

lemma Pbuf2NetBuf_spec:
  assumes ok: "heap_ok s" and dev: "dev_alloc_contract E" and ch: "chain_ok ch"
    and copy: "copy_contract lim (copy_ok E)" "65535 \<le> lim"
    and run: "Pbuf2NetBuf E netdev (Some ch) s = (r, s')"
  shows "case NetBufDevAlloc E netdev (ucast (pc_tot_len ch)) s of
           (None, s1) \<Rightarrow> r = None \<and> s' = s1
         | (Some p, s1) \<Rightarrow> r = Some p \<and> nb_inv s' p \<and> h_bad s' = h_bad s \<and>
             nb_bytes s' p = chain_bytes (pc_links ch) \<and> dom (h_blk s') = dom (h_blk s1)"
proof (cases "NetBufDevAlloc E netdev (ucast (pc_tot_len ch)) s")
  case (Pair a s1)
  show ?thesis
  proof (cases a)
    case None
    then show ?thesis using Pair run by (simp add: Pbuf2NetBuf_def)
  next
    case (Some p)
    then have c: "nb_inv s1 p" "nb_bytes s1 p = []" "h_bad s1 = h_bad s"
      "ucast (pc_tot_len ch) \<le> NetBufGetRoom (nbs s1 p) E_TAIL_BUF"
      using dev ok Pair unfolding dev_alloc_contract_def by blast+
    obtain b m bs where b: "nbs s1 p = Some b" "nb_wf b" "nb_mem b = Some m" "h_blk s1 m = Some bs"
      "length bs = unat (nb_len b)" "nb_segs s1 p = nb_view b bs"
      using c(1) by (rule nb_invE)
    obtain h d t where v: "bs = h @ d @ t" "length h = unat (bf_len (nb_head b))"
      "length d = unat (bf_len (nb_data b))" "length t = unat (bf_len (nb_tail b))"
      "nb_view b bs = (h, d, t)"
      using nb_view_split [OF b(2,5)] .
    have d: "d = []" using c(2) b(6) v(5) by (simp add: nb_bytes_def)
    have off: "bf_offset (nb_data b) = of_nat (length h + length d)"
      using b(2) v(2) d by (simp add: nb_wf_def)
    have tot: "length h + length d + length t < 4294967296"
      using b(5) v(1) unat_lt32 [of "nb_len b"] by simp
    have fit: "length (chain_bytes (pc_links ch)) \<le> length t"
      using c(4) room_is_tail [OF c(1) b(6) [unfolded v(5)]] ch
      by (simp add: chain_ok_def word_le_nat_alt unat_ucast16)
    have links: "\<forall>l \<in> set (pc_links ch). link_ok l" using ch by (simp add: chain_ok_def)
    have mem: "Option.bind (nbs s1 p) nb_mem = Some m" using b by simp
    obtain s2 where
      "pbuf_copy E p (pc_links ch) (bf_offset (nb_data b)) s1 = (Some p, s2)" "nb_inv s2 p"
      "h_bad s2 = h_bad s1" "nb_segs s2 p = (h, chain_bytes (pc_links ch), drop (length (chain_bytes (pc_links ch))) t)"
      "dom (h_blk s2) = dom (h_blk s1)"
      using pbuf_copy_spec(1) [OF c(1) mem b(6) [unfolded v(5)] off tot links copy, rule_format, OF fit] d
      by auto
    then show ?thesis
      using run Pair Some b(1) c(3) by (auto simp: Pbuf2NetBuf_def nb_bytes_def)
  qed
qed

lemma NetBuf2Pbuf_spec:
  assumes inv: "nb_inv s p" and copy: "copy_contract lim (copy_ok E)" "65535 \<le> lim"
    and len: "nb_bytes s p \<noteq> []" "length (nb_bytes s p) \<le> 65535"
    and pad: "ETH_PAD_SIZE E = 0" and al: "pbuf_alloc_contract (pbuf_alloc E)"
  shows "case pbuf_alloc E (ev s) (length (nb_bytes s p)) of
           None \<Rightarrow> NetBuf2Pbuf E (Some p) s = (None, s)
         | Some _ \<Rightarrow> \<exists>pb. NetBuf2Pbuf E (Some p) s = (Some pb, emit (PbufAlloc (length (nb_bytes s p)), 0) s) \<and>
             pb_payload pb = Some (nb_bytes s p) \<and> unat (pb_len pb) = length (nb_bytes s p)"
proof -
  obtain b m bs where b: "nbs s p = Some b" "nb_wf b" "nb_mem b = Some m" "h_blk s m = Some bs"
    "length bs = unat (nb_len b)" "nb_segs s p = nb_view b bs"
    using inv by (rule nb_invE)
  obtain h d t where v: "bs = h @ d @ t" "length h = unat (bf_len (nb_head b))"
    "length d = unat (bf_len (nb_data b))" "length t = unat (bf_len (nb_tail b))"
    "nb_view b bs = (h, d, t)"
    using nb_view_split [OF b(2,5)] .
  have d: "nb_bytes s p = d" using b v by (simp add: nb_bytes_def)
  have n: "unat (nb_dataLen b) = length d" "unat (bf_offset (nb_data b)) = length h"
    using b(2) v by (simp_all add: nb_wf_def)
  have le: "\<not> nb_dataLen b > MAX_CONVERSION_LEN"
    using n len d by (simp add: word_less_nat_alt MAX_CONVERSION_LEN_def)
  have cok: "copy_ok E (unat (nb_dataLen b)) (unat (nb_dataLen b))"
    using copy len d n by (auto simp: copy_contract_def)
  have rd: "mem_read m (length h) (length d) (emit e s) = Some d" for e
    using b v by (simp add: mem_read_def)
  have uc: "unat (ucast (nb_dataLen b) :: u16) = length d"
    using n len d by (simp add: unsigned_ucast_eq take_bit_nat_eq_self)
  show ?thesis
  proof (cases "pbuf_alloc E (ev s) (length d)")
    case None
    then show ?thesis
      using b le pad d n by (simp add: NetBuf2Pbuf_def NetBufGetDataLen_def Let_def)
  next
    case (Some payload)
    then have "length payload = length d" using al by (simp add: pbuf_alloc_contract_def)
    then have "patch payload 0 d = d" by (simp add: patch_def)
    then show ?thesis
      using b le pad d n Some cok rd uc
      by (simp add: NetBuf2Pbuf_def NetBufGetDataLen_def NetBufGetAddress_def nb_buf_def seg_ids Let_def)
  qed
qed

lemma NetBuf2Pbuf_long:
  assumes inv: "nb_inv s p" and pad: "ETH_PAD_SIZE E = 0" and len: "65535 < length (nb_bytes s p)"
  shows "NetBuf2Pbuf E (Some p) s = (None, s)"
proof -
  obtain b m bs where b: "nbs s p = Some b" "nb_wf b" "nb_mem b = Some m" "h_blk s m = Some bs"
    "length bs = unat (nb_len b)" "nb_segs s p = nb_view b bs"
    using inv by (rule nb_invE)
  obtain h d t where v: "bs = h @ d @ t" "length h = unat (bf_len (nb_head b))"
    "length d = unat (bf_len (nb_data b))" "length t = unat (bf_len (nb_tail b))"
    "nb_view b bs = (h, d, t)"
    using nb_view_split [OF b(2,5)] .
  have "unat (nb_dataLen b) = length d" "nb_bytes s p = d"
    using b v by (simp_all add: nb_wf_def nb_bytes_def)
  then have "nb_dataLen b > MAX_CONVERSION_LEN"
    using len by (simp add: word_less_nat_alt MAX_CONVERSION_LEN_def)
  then show ?thesis
    using b(1) pad by (simp add: NetBuf2Pbuf_def NetBufGetDataLen_def Let_def)
qed

definition nb_blocks :: "('a) net_sys_scheme \<Rightarrow> nat \<Rightarrow> nat list" where
  "nb_blocks s p = p # (case Option.bind (nbs s p) nb_mem of None \<Rightarrow> [] | Some m \<Rightarrow> [m])"

subsection \<open>The properties\<close>

lemma nb_inv_upd:
  assumes "nb_inv s p" and "nbs s p = Some b" and "nb_wf b'" and "nb_mem b' = nb_mem b" and "nb_len b' = nb_len b"
  shows "nb_inv (s\<lparr>nbs := (nbs s)(p \<mapsto> b')\<rparr>) p"
  using assms by (auto simp: nb_inv_def split: option.splits)

text \<open>
  C1. NetBufPush moves bytes across a segment boundary exactly as the abstract operation on the
  (head, data, tail) byte triple says: it fails without any change when the source segment is
  too short, and otherwise keeps the buffer invariant, every byte of memory and every other
  buffer.
\<close>

theorem netbuf_push_refines:
  assumes "nb_inv s p"
  shows "case seg_push (nb_segs s p) i (unat n) of
           None \<Rightarrow> NetBufPush (Some p) i n s = (None, s)
         | Some g \<Rightarrow> \<exists>a s'. NetBufPush (Some p) i n s = (Some a, s') \<and> nb_inv s' p \<and>
             nb_segs s' p = g \<and> h_blk s' = h_blk s \<and> h_bad s' = h_bad s \<and>
             (\<forall>q. q \<noteq> p \<longrightarrow> nbs s' q = nbs s q)"
proof -
  obtain b m bs where b: "nbs s p = Some b" "nb_wf b" "nb_mem b = Some m" "h_blk s m = Some bs"
    "length bs = unat (nb_len b)" "nb_segs s p = nb_view b bs"
    using assms by (rule nb_invE)
  have R: "seg_push (nb_segs s p) i (unat n) = map_option (\<lambda>b'. nb_view b' bs) (push_bufs b i n)"
    using push_refines [OF b(2,5), of i n] b(6) by simp
  show ?thesis
  proof (cases "push_bufs b i n")
    case None
    then show ?thesis using b(1) R by (simp add: NetBufPush_def)
  next
    case (Some b')
    let ?s = "s\<lparr>nbs := (nbs s)(p \<mapsto> b')\<rparr>"
    have fr: "nb_mem b' = Some m" "nb_len b' = nb_len b" using push_bufs_frame [OF Some] b by auto
    have "nb_inv ?s p" by (rule nb_inv_upd [OF assms b(1) push_bufs_wf [OF b(2) Some]]) (use fr b in auto)
    moreover have "nb_segs ?s p = nb_view b' bs" using fr b by (intro nb_segs_eq) auto
    ultimately show ?thesis using b(1) Some R by (simp add: NetBufPush_def)
  qed
qed

text \<open>
  NetBufPop moves bytes across a segment boundary exactly as the abstract operation on the
  byte triple says, and fails without any change when the source segment is too short.
\<close>

theorem netbuf_pop_refines:
  assumes "nb_inv s p"
  shows "case seg_pop (nb_segs s p) i (unat n) of
           None \<Rightarrow> NetBufPop (Some p) i n s = (None, s)
         | Some g \<Rightarrow> \<exists>a s'. NetBufPop (Some p) i n s = (Some a, s') \<and> nb_inv s' p \<and>
             nb_segs s' p = g \<and> h_blk s' = h_blk s \<and> h_bad s' = h_bad s \<and>
             (\<forall>q. q \<noteq> p \<longrightarrow> nbs s' q = nbs s q)"
proof -
  obtain b m bs where b: "nbs s p = Some b" "nb_wf b" "nb_mem b = Some m" "h_blk s m = Some bs"
    "length bs = unat (nb_len b)" "nb_segs s p = nb_view b bs"
    using assms by (rule nb_invE)
  have R: "seg_pop (nb_segs s p) i (unat n) = map_option (\<lambda>b'. nb_view b' bs) (pop_bufs b i n)"
    using pop_refines [OF b(2,5), of i n] b(6) by simp
  show ?thesis
  proof (cases "pop_bufs b i n")
    case None
    then show ?thesis using b(1) R by (simp add: NetBufPop_def)
  next
    case (Some b')
    let ?s = "s\<lparr>nbs := (nbs s)(p \<mapsto> b')\<rparr>"
    have fr: "nb_mem b' = Some m" "nb_len b' = nb_len b" using pop_bufs_frame [OF Some] b by auto
    have "nb_inv ?s p" by (rule nb_inv_upd [OF assms b(1) pop_bufs_wf [OF b(2) Some]]) (use fr b in auto)
    moreover have "nb_segs ?s p = nb_view b' bs" using fr b by (intro nb_segs_eq) auto
    ultimately show ?thesis using b(1) Some R by (simp add: NetBufPop_def)
  qed
qed

text \<open>A concrete state\<close>
definition net_demo_env :: "(net_sys, unit) net_env_scheme" where
  "net_demo_env =
     \<lparr>mem_ok = (\<lambda>_ _. True), mem_junk = (\<lambda>_ _. 170), copy_ok = (\<lambda>d n. n \<le> d \<and> 0 < d),
      pbuf_alloc = (\<lambda>_ n. Some (replicate n 0)), ETH_PAD_SIZE = 0,
      NetBufDevAlloc = (\<lambda>_. NetBufAlloc
        \<lparr>mem_ok = (\<lambda>_ _. True), mem_junk = (\<lambda>_ _. 170), copy_ok = (\<lambda>d n. n \<le> d \<and> 0 < d)\<rparr>)\<rparr>"

definition net_demo :: net_sys where
  "net_demo =
     \<lparr>h_next = 4, h_blk = [0 \<mapsto> [], 1 \<mapsto> [1, 2, 3, 4, 5, 6, 7, 8], 2 \<mapsto> [], 3 \<mapsto> [9, 10, 11]],
      h_bad = False, ev = [],
      nbs = [0 \<mapsto> \<lparr>nb_head = \<lparr>bf_offset = 0, bf_len = 2\<rparr>, nb_data = \<lparr>bf_offset = 2, bf_len = 3\<rparr>,
                    nb_tail = \<lparr>bf_offset = 5, bf_len = 3\<rparr>, nb_mem = Some 1, nb_len = 8,
                    nb_dataLen = 3, nb_dev = None, nb_qmap = 0\<rparr>,
             2 \<mapsto> \<lparr>nb_head = \<lparr>bf_offset = 0, bf_len = 0\<rparr>, nb_data = \<lparr>bf_offset = 0, bf_len = 2\<rparr>,
                    nb_tail = \<lparr>bf_offset = 2, bf_len = 1\<rparr>, nb_mem = Some 3, nb_len = 3,
                    nb_dataLen = 2, nb_dev = None, nb_qmap = 0\<rparr>]\<rparr>"

lemma net_demo_facts:
  "heap_ok net_demo" "nb_inv net_demo 0" "nb_inv net_demo 2"
  "nb_segs net_demo 0 = ([1, 2], [3, 4, 5], [6, 7, 8])" "nb_segs net_demo 2 = ([], [9, 10], [11])"
  "copy_contract lim (copy_ok net_demo_env)" "ETH_PAD_SIZE net_demo_env = 0"
  "pbuf_alloc_contract (pbuf_alloc net_demo_env)"
  by (simp_all add: net_demo_def net_demo_env_def heap_ok_def nb_inv_def nb_wf_def nb_segs_def nb_view_def
      copy_contract_def pbuf_alloc_contract_def)

lemma net_demo_dev: "dev_alloc_contract net_demo_env"
  unfolding dev_alloc_contract_def
proof (intro allI impI)
  fix netdev n p and s s1 :: net_sys
  assume ok: "heap_ok s" and r: "NetBufDevAlloc net_demo_env netdev n s = (Some p, s1)"
  let ?M = "\<lparr>mem_ok = (\<lambda>_ _. True), mem_junk = (\<lambda>_ _. 170), copy_ok = (\<lambda>d n. n \<le> d \<and> 0 < d)\<rparr> :: mem_env"
  have r': "NetBufAlloc ?M n s = (Some p, s1)" using r by (simp add: net_demo_env_def)
  note A = NetBufAlloc_spec [OF ok r']
  have "unat (NetBufGetRoom (nbs s1 p) E_TAIL_BUF) = unat n"
    using room_is_tail [OF A(2,3)] by simp
  then have "n \<le> NetBufGetRoom (nbs s1 p) E_TAIL_BUF" by (simp add: word_le_nat_alt)
  then show "nb_inv s1 p \<and> nb_bytes s1 p = [] \<and> h_bad s1 = h_bad s \<and> n \<le> NetBufGetRoom (nbs s1 p) E_TAIL_BUF"
    using A by (simp add: nb_bytes_def)
qed

lemma netbuf_push_witness:
  "\<exists>a s'. NetBufPush (Some 0) E_DATA_BUF 2 net_demo = (Some a, s') \<and> nb_bytes s' 0 = [3, 4, 5, 6, 7]"
  using netbuf_push_refines [OF net_demo_facts(2), of E_DATA_BUF 2]
  by (auto simp: net_demo_facts seg_push_def seg_ids nb_bytes_def)

lemma netbuf_pop_witness:
  "\<exists>a s'. NetBufPop (Some 0) E_HEAD_BUF 1 net_demo = (Some a, s') \<and> nb_bytes s' 0 = [2, 3, 4, 5]"
  using netbuf_pop_refines [OF net_demo_facts(2), of E_HEAD_BUF 1]
  by (auto simp: net_demo_facts seg_pop_def seg_ids nb_bytes_def)

text \<open>
  NetBufAlloc yields a well-formed buffer whose tail is all of its zeroed memory, or leaves
  no block behind; freeing the new buffer restores the heap.
\<close>

theorem netbuf_alloc_free:
  assumes "heap_ok s"
  shows "case NetBufAlloc E n s of
           (None, s1) \<Rightarrow> h_blk s1 = h_blk s \<and> nbs s1 = nbs s \<and> h_bad s1 = h_bad s \<and> heap_ok s1
         | (Some p, s1) \<Rightarrow> nb_inv s1 p \<and> nb_segs s1 p = ([], [], replicate (unat n) 0) \<and> heap_ok s1 \<and>
             h_bad s1 = h_bad s \<and> h_blk (NetBufFree (Some p) s1) = h_blk s \<and>
             h_bad (NetBufFree (Some p) s1) = h_bad s"
proof (cases "NetBufAlloc E n s")
  case (Pair a s1)
  show ?thesis
  proof (cases a)
    case None
    with NetBufAlloc_fail [OF assms, of E n s1] Pair show ?thesis by simp
  next
    case (Some p)
    then have r: "NetBufAlloc E n s = (Some p, s1)" using Pair by simp
    show ?thesis
      using NetBufAlloc_spec [OF assms r] NetBufAlloc_then_free [OF assms r] Pair Some by simp
  qed
qed

lemma netbuf_alloc_witness: "fst (NetBufAlloc net_demo_env 3 net_demo) = Some 4 \<and>
    nb_segs (snd (NetBufAlloc net_demo_env 3 net_demo)) 4 = ([], [], replicate 3 0)"
proof -
  have "fst (NetBufAlloc net_demo_env 3 net_demo) = Some 4"
    by (simp add: NetBufAlloc_def LOS_MemAlloc_def net_demo_def net_demo_env_def Let_def)
  then show ?thesis
    using netbuf_alloc_free [OF net_demo_facts(1), where E = net_demo_env and n = 3]
    by (auto split: prod.splits option.splits)
qed

text \<open>
  C2. NetBufConcat appends the data of the second buffer to the data of the first when the tail
  room allows and frees the second buffer with its memory; when the room is too small it fails
  and changes nothing.
\<close>

theorem netbuf_concat:
  assumes "nb_inv s p" and "nb_inv s q" and "distinct (nb_blocks s p @ nb_blocks s q)"
    and "copy_contract lim (copy_ok E)" and "unat (NetBufGetRoom (nbs s p) E_TAIL_BUF) \<le> lim"
    and "0 < NetBufGetRoom (nbs s p) E_TAIL_BUF"
  shows "if NetBufGetRoom (nbs s p) E_TAIL_BUF < NetBufGetDataLen (nbs s q)
         then NetBufConcat E (Some p) (Some q) s = (HDF_FAILURE, s)
         else \<exists>s'. NetBufConcat E (Some p) (Some q) s = (HDF_SUCCESS, s') \<and> nb_inv s' p \<and>
                nb_bytes s' p = nb_bytes s p @ nb_bytes s q \<and> nbs s' q = None \<and>
                dom (h_blk s') = dom (h_blk s) - set (nb_blocks s q) \<and> h_bad s' = h_bad s"
proof -
  obtain b m where b: "nbs s p = Some b" "nb_mem b = Some m" using assms(1) by (rule nb_invE)
  obtain c k where c: "nbs s q = Some c" "nb_mem c = Some k" using assms(2) by (rule nb_invE)
  have room: "NetBufGetRoom (nbs s p) E_TAIL_BUF = bf_len (nb_tail b)"
    "NetBufGetDataLen (nbs s q) = nb_dataLen c"
    using b c by (simp_all add: NetBufGetRoom_def NetBufGetDataLen_def nb_buf_def seg_ids)
  have blk: "nb_blocks s q = [q, k]" "nb_blocks s p = [p, m]" using b c by (simp_all add: nb_blocks_def)
  show ?thesis
  proof (cases "bf_len (nb_tail b) < nb_dataLen c")
    case True
    then show ?thesis using NetBufConcat_no_room [OF b(1) c(1)] room by simp
  next
    case False
    obtain r s' where r: "NetBufConcat E (Some p) (Some q) s = (r, s')" by fastforce
    have "p \<noteq> q" "m \<noteq> k" "m \<noteq> q" "k \<noteq> p" using assms(3) blk by auto
    from NetBufConcat_spec [OF assms(1,2) b c this assms(4) _ _ _ r] False assms(5,6) room r blk
    show ?thesis by auto
  qed
qed

lemma netbuf_concat_witness:
  "\<exists>s'. NetBufConcat net_demo_env (Some 0) (Some 2) net_demo = (HDF_SUCCESS, s') \<and>
     nb_bytes s' 0 = [3, 4, 5, 9, 10]"
proof -
  have d: "distinct (nb_blocks net_demo 0 @ nb_blocks net_demo 2)"
    by (simp add: nb_blocks_def net_demo_def)
  have v: "NetBufGetRoom (nbs net_demo 0) E_TAIL_BUF = 3" "NetBufGetDataLen (nbs net_demo 2) = 2"
    by (simp_all add: NetBufGetRoom_def NetBufGetDataLen_def nb_buf_def seg_ids net_demo_def)
  show ?thesis
    using netbuf_concat [OF net_demo_facts(2,3) d net_demo_facts(6) order_refl] v
    by (auto simp: net_demo_facts nb_bytes_def)
qed

text \<open>
  C6. When head + len + tail does not wrap, NetBufResizeRoom prepends zeroed head room, appends
  zeroed tail room, keeps the data bytes and releases the old block; if the allocation fails it
  returns HDF_FAILURE and changes nothing.
\<close>

theorem netbuf_resize:
  assumes "heap_ok s" and "nb_inv s p" and "nbs s p = Some b"
    and "unat head + unat (nb_len b) + unat tail < 4294967296"
    and "copy_contract lim (copy_ok E)" and "unat (nb_len b) + unat tail \<le> lim"
    and "0 < unat (nb_len b) + unat tail" and "nb_segs s p = (h, d, t)"
  shows "case NetBufResizeRoom E (Some p) head tail s of (r, s') \<Rightarrow>
           if mem_ok E (h_next s) (Bytes (unat (head + nb_len b + tail))) then
             r = HDF_SUCCESS \<and> nb_inv s' p \<and> h_bad s' = h_bad s \<and>
             nb_segs s' p = (replicate (unat head) 0 @ h, d, replicate (length t + unat tail) 0) \<and>
             dom (h_blk s') = insert (h_next s) (dom (h_blk s) - {the (nb_mem b)})
           else r = HDF_FAILURE \<and> h_blk s' = h_blk s \<and> nbs s' = nbs s \<and> h_bad s' = h_bad s"
proof -
  obtain r s' where run: "NetBufResizeRoom E (Some p) head tail s = (r, s')" by fastforce
  show ?thesis
  proof (cases "mem_ok E (h_next s) (Bytes (unat (head + nb_len b + tail)))")
    case True
    moreover have "r \<noteq> HDF_FAILURE \<or> h_blk s' \<noteq> h_blk s"
    proof -
      obtain m bs where m: "nb_mem b = Some m" "h_blk s m = Some bs" "nb_wf b" "length bs = unat (nb_len b)"
        using assms(2,3) by (auto elim: nb_invE)
      have "unat (head + nb_len b + tail - head) = unat (nb_len b) + unat tail"
      proof -
        have "head + nb_len b + tail - head = nb_len b + tail" by simp
        then show ?thesis using assms(4) by (simp add: unat_add_lt32)
      qed
      then have "copy_ok E (unat (head + nb_len b + tail - head)) (unat (bf_offset (nb_tail b)))"
        using assms(5,6,7) m(3) by (simp add: copy_contract_def nb_wf_def)
      then show ?thesis
        using run True assms(3) m(1)
        by (auto simp: NetBufResizeRoom_def LOS_MemAlloc_def Let_def)
    qed
    ultimately show ?thesis
      using NetBufResizeRoom_spec [OF assms run] run by auto
  next
    case False
    then show ?thesis
      using run assms(3) by (auto simp: NetBufResizeRoom_def LOS_MemAlloc_def Let_def)
  qed
qed

lemma netbuf_resize_witness:
  "\<exists>s'. NetBufResizeRoom net_demo_env (Some 0) 2 1 net_demo = (HDF_SUCCESS, s') \<and>
     nb_segs s' 0 = ([0, 0, 1, 2], [3, 4, 5], [0, 0, 0, 0])"
proof -
  obtain b where b: "nbs net_demo 0 = Some b" "nb_len b = 8" by (simp add: net_demo_def)
  have ok: "mem_ok net_demo_env i z" for i z by (simp add: net_demo_env_def)
  have r: "replicate 4 (0::u8) = [0, 0, 0, 0]" "replicate 2 (0::u8) = [0, 0]"
    by (simp_all add: eval_nat_numeral)
  show ?thesis
    using netbuf_resize [OF net_demo_facts(1,2) b(1), of 2 1 9 net_demo_env] net_demo_facts(4) b(2)
    by (auto simp: net_demo_facts(6) ok r split: prod.splits)
qed

text \<open>
  NetBufResizeRoom does not check head + len + tail for wrap-around: when the 32-bit sum
  wraps, the call reports HDF_SUCCESS although it wrote outside the new block.
\<close>

theorem netbuf_resize_wraps:
  assumes "heap_ok s" and "nb_inv s p" and "nbs s p = Some b"
    and "4294967296 \<le> unat head + unat (nb_len b) + unat tail"
    and "unat (nb_len b) + unat tail < 4294967296"
    and "copy_contract lim (copy_ok E)" and "unat (nb_len b) + unat tail \<le> lim"
    and "0 < bf_offset (nb_tail b)"
    and "mem_ok E (h_next s) (Bytes (unat (head + nb_len b + tail)))"
  shows "fst (NetBufResizeRoom E (Some p) head tail s) = HDF_SUCCESS \<and>
         h_bad (snd (NetBufResizeRoom E (Some p) head tail s))"
proof -
  obtain r s' where run: "NetBufResizeRoom E (Some p) head tail s = (r, s')" by fastforce
  from NetBufResizeRoom_overflow [OF assms this] run show ?thesis by simp
qed

lemma netbuf_resize_wraps_witness:
  "h_bad (snd (NetBufResizeRoom net_demo_env (Some 0) 4294967290 0 net_demo)) \<and> \<not> h_bad net_demo"
proof -
  obtain b where b: "nbs net_demo 0 = Some b" "nb_len b = 8" "bf_offset (nb_tail b) = 5"
    by (simp add: net_demo_def)
  have ok: "mem_ok net_demo_env i z" for i z by (simp add: net_demo_env_def)
  show ?thesis
    using netbuf_resize_wraps [OF net_demo_facts(1,2) b(1), of 4294967290 0 8 net_demo_env] b(2,3)
    by (auto simp: net_demo_facts(6) ok) (simp add: net_demo_def)
qed

definition demo_chain :: pchain where
  "demo_chain = \<lparr>pc_tot_len = 3, pc_links =
     [\<lparr>pb_payload = Some [1, 2, 99], pb_len = 2\<rparr>, \<lparr>pb_payload = None, pb_len = 7\<rparr>,
      \<lparr>pb_payload = Some [3], pb_len = 1\<rparr>]\<rparr>"

lemma Pbuf2NetBuf_runs:
  assumes "heap_ok s" and "dev_alloc_contract E" and "chain_ok ch"
    and "copy_contract lim (copy_ok E)" and "65535 \<le> lim"
  shows "case NetBufDevAlloc E netdev (ucast (pc_tot_len ch)) s of
           (None, s1) \<Rightarrow> Pbuf2NetBuf E netdev (Some ch) s = (None, s1)
         | (Some p, s1) \<Rightarrow> \<exists>s'. Pbuf2NetBuf E netdev (Some ch) s = (Some p, s') \<and> nb_inv s' p \<and>
             h_bad s' = h_bad s \<and> nb_bytes s' p = chain_bytes (pc_links ch) \<and>
             dom (h_blk s') = dom (h_blk s1)"
proof -
  obtain r s' where run: "Pbuf2NetBuf E netdev (Some ch) s = (r, s')" by fastforce
  from Pbuf2NetBuf_spec [OF assms this] run show ?thesis
    by (auto split: prod.splits option.splits)
qed

text \<open>
  C3. Pbuf2NetBuf gathers an lwIP chain: if the driver provides a buffer with enough room, the
  result holds exactly the concatenated payloads of the links (links without payload or length
  are skipped), and no copy goes out of bounds.
\<close>

theorem pbuf_to_netbuf:
  assumes "heap_ok s" and "dev_alloc_contract E" and "chain_ok ch"
    and "copy_contract lim (copy_ok E)" and "65535 \<le> lim"
  shows "case NetBufDevAlloc E netdev (ucast (pc_tot_len ch)) s of
           (None, s1) \<Rightarrow> Pbuf2NetBuf E netdev (Some ch) s = (None, s1)
         | (Some p, s1) \<Rightarrow> \<exists>s'. Pbuf2NetBuf E netdev (Some ch) s = (Some p, s') \<and> nb_inv s' p \<and>
             h_bad s' = h_bad s \<and> nb_bytes s' p = chain_bytes (pc_links ch) \<and>
             dom (h_blk s') = dom (h_blk s1)"
  using Pbuf2NetBuf_runs [OF assms] .

lemma pbuf_to_netbuf_witness:
  "\<exists>s'. Pbuf2NetBuf net_demo_env 0 (Some demo_chain) net_demo = (Some 4, s') \<and> nb_bytes s' 4 = [1, 2, 3]"
proof -
  have c: "chain_ok demo_chain" "chain_bytes (pc_links demo_chain) = [1, 2, 3]"
    by (simp_all add: chain_ok_def demo_chain_def link_ok_def link_bytes_def)
  have a: "fst (NetBufDevAlloc net_demo_env 0 n net_demo) = Some 4" for n
    by (simp add: net_demo_env_def net_demo_def NetBufAlloc_def LOS_MemAlloc_def Let_def)
  show ?thesis
    using pbuf_to_netbuf [OF net_demo_facts(1) net_demo_dev c(1) net_demo_facts(6) order_refl, of 0]
      a [of "ucast (pc_tot_len demo_chain)"] c(2)
    by (auto split: prod.splits option.splits)
qed

text \<open>
  C15. When ETH_PAD_SIZE is 0, a net buffer with data is converted to an lwIP buffer with
  exactly its bytes unless it is longer than 65535 bytes or lwIP has no buffer, and then nothing
  changes; converting the lwIP buffer back yields a buffer with the same bytes unless the driver
  provides none.
\<close>

theorem netbuf_pbuf_roundtrip:
  assumes "heap_ok s" and "nb_inv s p" and "nb_bytes s p \<noteq> []"
    and "ETH_PAD_SIZE E = 0" and "pbuf_alloc_contract (pbuf_alloc E)" and "dev_alloc_contract E"
    and "copy_contract lim (copy_ok E)" and "65535 \<le> lim"
  shows "case NetBuf2Pbuf E (Some p) s of
           (None, s1) \<Rightarrow> s1 = s \<and>
             (65535 < length (nb_bytes s p) \<or> pbuf_alloc E (ev s) (length (nb_bytes s p)) = None)
         | (Some pb, s1) \<Rightarrow> length (nb_bytes s p) \<le> 65535 \<and> link_bytes pb = nb_bytes s p \<and> h_blk s1 = h_blk s \<and>
             (case NetBufDevAlloc E netdev (ucast (pb_len pb)) s1 of
                (None, s2) \<Rightarrow> Pbuf2NetBuf E netdev (Some \<lparr>pc_tot_len = pb_len pb, pc_links = [pb]\<rparr>) s1 = (None, s2)
              | (Some q, s2) \<Rightarrow>
                  \<exists>s3. Pbuf2NetBuf E netdev (Some \<lparr>pc_tot_len = pb_len pb, pc_links = [pb]\<rparr>) s1 = (Some q, s3) \<and>
                    nb_inv s3 q \<and> nb_bytes s3 q = nb_bytes s p \<and> h_bad s3 = h_bad s)"
proof (cases "length (nb_bytes s p) \<le> 65535 \<and> pbuf_alloc E (ev s) (length (nb_bytes s p)) \<noteq> None")
  case False
  then have "NetBuf2Pbuf E (Some p) s = (None, s)"
    using NetBuf2Pbuf_spec [OF assms(2,7,8,3) _ assms(4,5)] NetBuf2Pbuf_long [OF assms(2,4)]
    by (cases "length (nb_bytes s p) \<le> 65535") auto
  then show ?thesis using False by auto
next
  case True
  then obtain pb where pb: "NetBuf2Pbuf E (Some p) s = (Some pb, emit (PbufAlloc (length (nb_bytes s p)), 0) s)"
    "pb_payload pb = Some (nb_bytes s p)" "unat (pb_len pb) = length (nb_bytes s p)"
    using NetBuf2Pbuf_spec [OF assms(2,7,8,3) _ assms(4,5)] by auto
  have link: "link_bytes pb = nb_bytes s p"
    using pb by (simp add: link_bytes_def)
  have "chain_ok \<lparr>pc_tot_len = pb_len pb, pc_links = [pb]\<rparr>"
    using pb by (simp add: chain_ok_def link_ok_def link_bytes_def)
  from Pbuf2NetBuf_runs [OF _ assms(6) this assms(7,8), of "emit (PbufAlloc (length (nb_bytes s p)), 0) s" netdev]
  show ?thesis
    using pb link True assms(1) by (auto split: prod.splits option.splits)
qed

lemma netbuf_pbuf_roundtrip_witness:
  "\<exists>pb s1. NetBuf2Pbuf net_demo_env (Some 0) net_demo = (Some pb, s1) \<and> link_bytes pb = [3, 4, 5]"
proof -
  have b: "nb_bytes net_demo 0 = [3, 4, 5]" by (simp add: nb_bytes_def net_demo_facts)
  have s: "fst (NetBuf2Pbuf net_demo_env (Some 0) net_demo) \<noteq> None"
    by (simp add: NetBuf2Pbuf_def net_demo_env_def net_demo_def NetBufGetDataLen_def
        NetBufGetAddress_def nb_buf_def seg_ids mem_read_def MAX_CONVERSION_LEN_def emit_def)
  show ?thesis
    using netbuf_pbuf_roundtrip [OF net_demo_facts(1,2) _ net_demo_facts(7,8) net_demo_dev
        net_demo_facts(6) order_refl, of 0] s b
    by (auto split: prod.splits option.splits)
qed

end
