(* ===== verification/Net_Buf_Queue.thy ===== *)
theory Net_Buf_Queue
  imports Net_Buf_Heap "HOL-Library.Multiset"
begin

text \<open>
  The buffer queues of \<open>netbuf_adapter.c\<close>. The contract of a double-ended queue is the locale
  \<open>deque\<close>; the operations on \<open>NetBufQueue\<close> are an instance, and the FIFO and LIFO laws and the
  release of every buffer on clearing follow from it.
\<close>

subsection \<open>Queues of buffers\<close>

record NetBufQueue =
  q_dlist :: "nat list"
  q_size :: u32

definition NetBufQueueInit :: "NetBufQueue option \<Rightarrow> NetBufQueue option" where
  "NetBufQueueInit q = map_option (\<lambda>r. r\<lparr>q_dlist := [], q_size := 0\<rparr>) q"

definition NetBufQueueSize :: "NetBufQueue option \<Rightarrow> u32" where
  "NetBufQueueSize q = (case q of None \<Rightarrow> 0 | Some r \<Rightarrow> q_size r)"

definition NetBufQueueIsEmpty :: "NetBufQueue option \<Rightarrow> bool" where
  "NetBufQueueIsEmpty q = (case q of None \<Rightarrow> True | Some r \<Rightarrow> q_dlist r = [])"

definition NetBufQueueEnqueue :: "NetBufQueue option \<Rightarrow> nat option \<Rightarrow> NetBufQueue option" where
  "NetBufQueueEnqueue q nb =
     (case (q, nb) of
        (Some r, Some p) \<Rightarrow> Some (r\<lparr>q_dlist := q_dlist r @ [p], q_size := q_size r + 1\<rparr>)
      | _ \<Rightarrow> q)"

definition NetBufQueueEnqueueHead :: "NetBufQueue option \<Rightarrow> nat option \<Rightarrow> NetBufQueue option" where
  "NetBufQueueEnqueueHead q nb =
     (case (q, nb) of
        (Some r, Some p) \<Rightarrow> Some (r\<lparr>q_dlist := p # q_dlist r, q_size := q_size r + 1\<rparr>)
      | _ \<Rightarrow> q)"

definition NetBufQueueDequeue :: "NetBufQueue option \<Rightarrow> nat option \<times> NetBufQueue option" where
  "NetBufQueueDequeue q =
     (case q of None \<Rightarrow> (None, None) | Some r \<Rightarrow>
       (case q_dlist r of
          [] \<Rightarrow> (None, Some r)
        | p # ps \<Rightarrow> (Some p, Some (r\<lparr>q_dlist := ps, q_size := q_size r - 1\<rparr>))))"

definition NetBufQueueDequeueTail :: "NetBufQueue option \<Rightarrow> nat option \<times> NetBufQueue option" where
  "NetBufQueueDequeueTail q =
     (case q of None \<Rightarrow> (None, None) | Some r \<Rightarrow>
        if q_dlist r = [] then (None, Some r)
        else (Some (last (q_dlist r)),
              Some (r\<lparr>q_dlist := butlast (q_dlist r), q_size := q_size r - 1\<rparr>)))"

definition NetBufQueueAtHead :: "NetBufQueue option \<Rightarrow> nat option" where
  "NetBufQueueAtHead q =
     (case q of None \<Rightarrow> None
      | Some r \<Rightarrow> if NetBufQueueIsEmpty (Some r) then None else Some (hd (q_dlist r)))"

definition NetBufQueueAtTail :: "NetBufQueue option \<Rightarrow> nat option" where
  "NetBufQueueAtTail q =
     (case q of None \<Rightarrow> None
      | Some r \<Rightarrow> if NetBufQueueIsEmpty (Some r) then None else Some (last (q_dlist r)))"

definition q_list :: "NetBufQueue option \<Rightarrow> nat list" where
  "q_list q = (case q of None \<Rightarrow> [] | Some r \<Rightarrow> q_dlist r)"

function NetBufQueueClear ::
  "NetBufQueue option \<Rightarrow> ('a) net_sys_scheme \<Rightarrow> NetBufQueue option \<times> ('a) net_sys_scheme" where
  "NetBufQueueClear q s =
     (case NetBufQueueDequeue q of
        (None, q') \<Rightarrow> (q', s)
      | (Some nb, q') \<Rightarrow> NetBufQueueClear q' (NetBufFree (Some nb) s))"
  by pat_completeness auto
termination
  by (relation "measure (\<lambda>(q, s). length (q_list q))")
     (auto simp: NetBufQueueDequeue_def q_list_def split: list.splits option.splits)

declare NetBufQueueClear.simps [simp del]

text \<open>\<open>DListMerge list head\<close> of the driver framework moves the nodes of \<open>list\<close> to the list
  \<open>head\<close>; where it puts them is a parameter, as a function of the two node lists.\<close>

definition NetBufQueueConcat ::
  "(nat list \<Rightarrow> nat list \<Rightarrow> nat list) \<Rightarrow> NetBufQueue option \<Rightarrow> NetBufQueue option
   \<Rightarrow> NetBufQueue option \<times> NetBufQueue option" where
  "NetBufQueueConcat DListMerge q add =
     (case q of None \<Rightarrow> (q, add) | Some r \<Rightarrow>
        (case add of
           None \<Rightarrow> (q, add)
         | Some a \<Rightarrow>
             if NetBufQueueIsEmpty add then (q, add)
             else (Some (r\<lparr>q_dlist := DListMerge (q_dlist a) (q_dlist r),
                           q_size := q_size r + q_size a\<rparr>),
                   Some (a\<lparr>q_dlist := [], q_size := 0\<rparr>))))"
text \<open>The queue contract.\<close>

fun take_out :: "('q \<Rightarrow> 'x option \<times> 'q) \<Rightarrow> nat \<Rightarrow> 'q \<Rightarrow> 'x option list \<times> 'q" where
  "take_out deq 0 q = ([], q)"
| "take_out deq (Suc n) q =
     (case deq q of (x, q1) \<Rightarrow> (case take_out deq n q1 of (xs, q2) \<Rightarrow> (x # xs, q2)))"

locale deque =
  fixes inv :: "'q \<Rightarrow> bool"
    and abs :: "'q \<Rightarrow> 'x list"
    and put_tail put_head :: "'q \<Rightarrow> 'x \<Rightarrow> 'q"
    and take_head take_tail :: "'q \<Rightarrow> 'x option \<times> 'q"
  assumes put_tail: "inv q \<Longrightarrow> inv (put_tail q x) \<and> abs (put_tail q x) = abs q @ [x]"
    and put_head: "inv q \<Longrightarrow> inv (put_head q x) \<and> abs (put_head q x) = x # abs q"
    and take_head_empty: "inv q \<Longrightarrow> abs q = [] \<Longrightarrow> take_head q = (None, q)"
    and take_head: "inv q \<Longrightarrow> abs q = x # xs \<Longrightarrow> \<exists>q'. take_head q = (Some x, q') \<and> inv q' \<and> abs q' = xs"
    and take_tail_empty: "inv q \<Longrightarrow> abs q = [] \<Longrightarrow> take_tail q = (None, q)"
    and take_tail: "inv q \<Longrightarrow> abs q = xs @ [x] \<Longrightarrow> \<exists>q'. take_tail q = (Some x, q') \<and> inv q' \<and> abs q' = xs"
begin

lemma fill: "inv q \<Longrightarrow> inv (foldl put_tail q xs) \<and> abs (foldl put_tail q xs) = abs q @ xs"
proof (induction xs arbitrary: q)
  case (Cons x xs)
  from Cons.IH [of "put_tail q x"] put_tail [OF Cons.prems, of x] show ?case by simp
qed simp

lemma fill_head: "inv q \<Longrightarrow> inv (foldl put_head q xs) \<and> abs (foldl put_head q xs) = rev xs @ abs q"
proof (induction xs arbitrary: q)
  case (Cons x xs)
  from Cons.IH [of "put_head q x"] put_head [OF Cons.prems, of x] show ?case by simp
qed simp

lemma drain:
  "inv q \<Longrightarrow> abs q = xs @ ys \<Longrightarrow>
     \<exists>q'. take_out take_head (length xs) q = (map Some xs, q') \<and> inv q' \<and> abs q' = ys"
proof (induction xs arbitrary: q)
  case (Cons x xs)
  obtain q1 where q1: "take_head q = (Some x, q1)" "inv q1" "abs q1 = xs @ ys"
    using take_head [OF Cons.prems(1), of x "xs @ ys"] Cons.prems(2) by auto
  from Cons.IH [OF q1(2,3)] q1(1) show ?case by auto
qed simp

lemma drain_tail:
  "inv q \<Longrightarrow> abs q = ys @ xs \<Longrightarrow>
     \<exists>q'. take_out take_tail (length xs) q = (map Some (rev xs), q') \<and> inv q' \<and> abs q' = ys"
proof (induction xs arbitrary: q rule: rev_induct)
  case (snoc x xs)
  obtain q1 where q1: "take_tail q = (Some x, q1)" "inv q1" "abs q1 = ys @ xs"
    using take_tail [OF snoc.prems(1), of "ys @ xs" x] snoc.prems(2) by auto
  from snoc.IH [OF q1(2,3)] q1(1) show ?case by auto
qed simp

text \<open>First in, first out; and last in, first out at either end.\<close>

lemma fifo:
  assumes "inv q" and "abs q = []"
  shows "\<exists>q'. take_out take_head (length xs) (foldl put_tail q xs) = (map Some xs, q') \<and>
              inv q' \<and> abs q' = []"
  using fill [OF assms(1), of xs] assms(2) drain [of "foldl put_tail q xs" xs "[]"] by simp

lemma lifo:
  assumes "inv q"
  shows "\<exists>q'. take_out take_tail (length xs) (foldl put_tail q xs) = (map Some (rev xs), q') \<and>
              inv q' \<and> abs q' = abs q"
  using fill [OF assms, of xs] drain_tail [of "foldl put_tail q xs" "abs q" xs] by simp

lemma lifo_head:
  assumes "inv q"
  shows "\<exists>q'. take_out take_head (length xs) (foldl put_head q xs) = (map Some (rev xs), q') \<and>
              inv q' \<and> abs q' = abs q"
  using fill_head [OF assms, of xs] drain [of "foldl put_head q xs" "rev xs" "abs q"] by simp

end

definition q_inv :: "NetBufQueue option \<Rightarrow> bool" where
  "q_inv q \<longleftrightarrow> (case q of None \<Rightarrow> False | Some r \<Rightarrow> q_size r = of_nat (length (q_dlist r)))"

lemmas queue_defs =
  NetBufQueueEnqueue_def NetBufQueueEnqueueHead_def NetBufQueueDequeue_def
  NetBufQueueDequeueTail_def q_inv_def q_list_def

interpretation nbq: deque q_inv q_list "\<lambda>q p. NetBufQueueEnqueue q (Some p)"
    "\<lambda>q p. NetBufQueueEnqueueHead q (Some p)" NetBufQueueDequeue NetBufQueueDequeueTail
  by unfold_locales (auto simp: queue_defs split: option.splits)

lemma queue_init: "q_inv (NetBufQueueInit (Some r)) \<and> q_list (NetBufQueueInit (Some r)) = []"
  by (simp add: NetBufQueueInit_def q_inv_def q_list_def)

lemma queue_peek:
  assumes "q_inv q"
  shows "NetBufQueueAtHead q = fst (NetBufQueueDequeue q)"
    and "NetBufQueueAtTail q = fst (NetBufQueueDequeueTail q)"
    and "NetBufQueueIsEmpty q \<longleftrightarrow> q_list q = []"
    and "NetBufQueueSize q = of_nat (length (q_list q))"
  using assms
  by (auto simp: NetBufQueueAtHead_def NetBufQueueAtTail_def NetBufQueueIsEmpty_def
      NetBufQueueSize_def queue_defs split: option.splits list.splits)

text \<open>
  Buffers enqueued on an initialised queue are dequeued in the same order, and the queue is
  then empty with size zero.
\<close>

lemma netbuf_queue_fifo:
  "\<exists>q'. take_out NetBufQueueDequeue (length ps)
           (foldl (\<lambda>q p. NetBufQueueEnqueue q (Some p)) (NetBufQueueInit (Some r)) ps)
         = (map Some ps, q') \<and> NetBufQueueIsEmpty q' \<and> NetBufQueueSize q' = 0"
proof -
  obtain q' where "take_out NetBufQueueDequeue (length ps)
      (foldl (\<lambda>q p. NetBufQueueEnqueue q (Some p)) (NetBufQueueInit (Some r)) ps) = (map Some ps, q')"
    and "q_inv q'" "q_list q' = []"
    using nbq.fifo [OF queue_init [of r, THEN conjunct1] queue_init [of r, THEN conjunct2], of ps] by auto
  then show ?thesis using queue_peek(3,4) [of q'] by simp
qed

lemma NetBufQueueClear_spec:
  assumes "q_inv q" and "\<forall>p \<in> set (q_list q). nb_inv s p"
    and "distinct (concat (map (nb_blocks s) (q_list q)))"
  shows "\<exists>q' s'. NetBufQueueClear q s = (q', s') \<and> q_inv q' \<and> q_list q' = [] \<and> h_bad s' = h_bad s \<and>
           dom (h_blk s') = dom (h_blk s) - set (concat (map (nb_blocks s) (q_list q)))"
  using assms
proof (induction "q_list q" arbitrary: q s)
  case Nil
  have "NetBufQueueClear q s = (q, s)"
    using nbq.take_head_empty [OF Nil(2)] Nil(1) by (subst NetBufQueueClear.simps) simp
  then show ?case using Nil by simp
next
  case (Cons p ps)
  obtain q1 where q1: "NetBufQueueDequeue q = (Some p, q1)" "q_inv q1" "q_list q1 = ps"
    using nbq.take_head [OF Cons(3) Cons(2) [symmetric]] by auto
  have inv: "nb_inv s p" using Cons(2,4) by (metis list.set_intros(1))
  then obtain b m where b: "nbs s p = Some b" "nb_mem b = Some m" by (rule nb_invE)
  define s1 where "s1 = NetBufFree (Some p) s"
  have s1: "s1 = s\<lparr>h_blk := (h_blk s)(m := None, p := None), nbs := (nbs s)(p := None)\<rparr>"
    using NetBufFree_spec [OF inv b] by (simp add: s1_def)
  have bp: "nb_blocks s p = [p, m]" using b by (simp add: nb_blocks_def)
  have self: "x \<in> set (nb_blocks s x)" for x by (simp add: nb_blocks_def)
  have "{p, m} \<inter> (\<Union>x \<in> set ps. set (nb_blocks s x)) = {}"
    using Cons(5) unfolding Cons(2) [symmetric] by (simp add: bp)
  then have apart: "\<forall>x \<in> set ps. p \<noteq> x \<and> m \<notin> set (nb_blocks s x) \<and> p \<notin> set (nb_blocks s x)"
    using self by blast
  have same: "nb_blocks s1 x = nb_blocks s x" if "x \<in> set ps" for x
    using apart that by (auto simp: s1 nb_blocks_def)
  have keep: "nb_inv s1 x" if x: "x \<in> set ps" for x
  proof -
    have "nb_inv s x" using Cons(2,4) x by (metis list.set_intros(2))
    moreover from this obtain c k where "nbs s x = Some c" "nb_mem c = Some k" by (rule nb_invE)
    moreover from this have "nb_blocks s x = [x, k]" by (simp add: nb_blocks_def)
    ultimately show ?thesis using apart x by (auto simp: s1 nb_inv_def)
  qed
  have eq: "concat (map (nb_blocks s1) (q_list q1)) = concat (map (nb_blocks s) ps)"
    using same q1(3) by (metis map_eq_conv)
  have "distinct (concat (map (nb_blocks s1) (q_list q1)))"
    unfolding eq using Cons(5) unfolding Cons(2) [symmetric] by simp
  moreover have "\<forall>x \<in> set (q_list q1). nb_inv s1 x" using keep q1(3) by simp
  ultimately obtain q' s' where r: "NetBufQueueClear q1 s1 = (q', s')" "q_inv q'" "q_list q' = []"
    "h_bad s' = h_bad s1" "dom (h_blk s') = dom (h_blk s1) - set (concat (map (nb_blocks s1) (q_list q1)))"
    using Cons(1) [of q1 s1] q1 by auto
  have "NetBufQueueClear q s = (q', s')"
    using q1(1) r(1) by (subst NetBufQueueClear.simps) (simp add: s1_def)
  moreover have "dom (h_blk s') = dom (h_blk s) - set (concat (map (nb_blocks s) (q_list q)))"
    unfolding r(5) eq Cons(2) [symmetric] by (auto simp: s1 bp)
  ultimately show ?case using r s1 by auto
qed

lemma NetBufQueueConcat_spec:
  assumes "q_inv q" and "q_inv add" and "mset (merge (q_list add) (q_list q)) = mset (q_list add) + mset (q_list q)"
    and "NetBufQueueConcat merge q add = (q', add')"
  shows "q_inv q'" and "q_inv add'" and "q_list add' = []"
    and "mset (q_list q') = mset (q_list q) + mset (q_list add)"
proof -
  have len: "length (merge (q_list add) (q_list q)) = length (q_list add) + length (q_list q)"
    using assms(3) by (metis size_mset size_union)
  show "q_inv q'" "q_inv add'" "q_list add' = []"
    "mset (q_list q') = mset (q_list q) + mset (q_list add)"
    using assms len
    by (auto simp: NetBufQueueConcat_def NetBufQueueIsEmpty_def queue_defs split: option.splits if_splits)
qed

text \<open>
  NetBufQueueClear ends with an empty queue and has freed both blocks of every buffer that
  was in it, each once, and nothing else.
\<close>

theorem netbuf_queue_clear:
  assumes "q_inv q" and "\<forall>p \<in> set (q_list q). nb_inv s p"
    and "distinct (concat (map (nb_blocks s) (q_list q)))"
  shows "\<exists>q' s'. NetBufQueueClear q s = (q', s') \<and> q_inv q' \<and> q_list q' = [] \<and> h_bad s' = h_bad s \<and>
           dom (h_blk s') = dom (h_blk s) - set (concat (map (nb_blocks s) (q_list q)))"
  by (rule NetBufQueueClear_spec [OF assms])

lemma netbuf_queue_clear_witness:
  "\<exists>q' s'. NetBufQueueClear (Some \<lparr>q_dlist = [2, 0], q_size = 2\<rparr>) net_demo = (q', s') \<and>
     dom (h_blk s') = {} \<and> \<not> h_bad s'"
proof -
  let ?q = "Some \<lparr>q_dlist = [2, 0], q_size = 2\<rparr>"
  have "q_inv ?q" "q_list ?q = [2, 0]" by (simp_all add: q_inv_def q_list_def)
  moreover have "nb_blocks net_demo 2 = [2, 3]" "nb_blocks net_demo 0 = [0, 1]"
    by (simp_all add: nb_blocks_def net_demo_def)
  moreover have "dom (h_blk net_demo) = {0, 1, 2, 3}" "\<not> h_bad net_demo"
    by (auto simp: net_demo_def)
  ultimately show ?thesis
    using netbuf_queue_clear [of ?q net_demo] net_demo_facts(2,3) by auto
qed

end
