(* ===== verification/Net_Device.thy ===== *)
theory Net_Device
  imports Net_Buf_Heap
begin

text \<open>
  The lwIP side of a network device, \<open>khdf/liteos/network/src/net_device_adapter.c\<close>: the adapter
  object hung on a \<open>NetDeviceImpl\<close>, the \<open>netif\<close> it registers with lwIP, and the send and receive
  paths between the driver's net buffers and lwIP's.

  The structs live in typed maps. lwIP, its DHCP code and the driver's callbacks are outside the
  repository: \<open>net_api\<close> gives the status of each call from the trace of earlier ones, and every
  call is recorded. The constants of their headers are parameters; \<open>SACK_2_0\<close> is the build switch
  \<open>LOSCFG_NET_LWIP_SACK_2_0\<close>. The IPv6 block under \<open>_PRE_WLAN_FEATURE_LWIP_IPV6_AUTOCONFIG\<close>, whose
  calls have their results discarded, is left out.
\<close>

datatype LinkLayerType = ETHERNET_LINK | WIFI_LINK | OTHER_LINK
datatype NetIfStatus = NETIF_DOWN | NETIF_UP | NETIF_STATUS_OTHER
datatype NetIfLinkStatus = NETIF_LINK_DOWN | NETIF_LINK_UP | NETIF_LINK_OTHER
datatype ProcessingResult = PROCESSING_ERROR | PROCESSING_COMPLETE | PROCESSING_CONTINUE

record NetDeviceInterFace =
  if_xmit :: bool
  if_setMacAddr :: bool
  if_linkStatusChanged :: bool

record NetDevice =
  nd_name :: string
  nd_LinkLayerType :: LinkLayerType
  nd_macAddr :: "u8 list"
  nd_netDeviceIf :: "NetDeviceInterFace option"

record NetDeviceImpl =
  ni_netDevice :: "nat option"
  ni_osPrivate :: "nat option"
  ni_interFace :: bool

record NetDeviceAdapterLite =
  lwipNetif :: "nat option"

record netif =
  nf_state :: "nat option"
  nf_link_layer_type :: LinkLayerType
  nf_hwaddr_len :: nat
  nf_hwaddr :: "u8 list"
  nf_name :: string
  nf_full_name :: string

record net_dev_sys = net_sys +
  impls :: "nat \<Rightarrow> NetDeviceImpl option"
  ndevs :: "nat \<Rightarrow> NetDevice option"
  adapters :: "nat \<Rightarrow> NetDeviceAdapterLite option"
  netifs :: "nat \<Rightarrow> netif option"

record 'w net_dev_env = "'w net_env" +
  net_api :: "net_trace \<Rightarrow> net_ev \<Rightarrow> int"
  cur_task_is_system :: "net_trace \<Rightarrow> bool option"
  netif_is_link_up :: "net_trace \<Rightarrow> nat \<Rightarrow> bool"
  netif_num :: "net_trace \<Rightarrow> nat \<Rightarrow> nat"
  strncpy_ok :: "nat \<Rightarrow> string \<Rightarrow> nat \<Rightarrow> bool"
  snprintf_name :: "nat \<Rightarrow> string \<Rightarrow> nat \<Rightarrow> string option"
  SACK_2_0 :: bool
  IFNAMSIZ :: nat
  NETIF_MAX_HWADDR_LEN :: nat
  MAC_ADDR_SIZE :: nat
  MAX_RECEIVE_FLAG :: nat
  COMMON_ERROR :: u8
  ETHER_TYPE_OFF :: nat
  ETHER_TYPE_IP :: u16
  ETHER_TYPE_ARP :: u16
  ETHER_TYPE_RARP :: u16
  ETHER_TYPE_IPV6 :: u16
  ETHER_TYPE_6LO :: u16
  ETHER_TYPE_PAE :: u16

definition FREE_SPACE_SIZE :: nat where "FREE_SPACE_SIZE = 2"
definition P2P_HEAD :: nat where "P2P_HEAD = 3"

subsection \<open>Link state\<close>

definition IsInSystemTaskContext :: "('w, 'm) net_dev_env_scheme \<Rightarrow> ('a) net_dev_sys_scheme \<Rightarrow> bool" where
  "IsInSystemTaskContext E s = (case cur_task_is_system E (ev s) of None \<Rightarrow> False | Some b \<Rightarrow> b)"

definition SetNetIfLinkStatus ::
  "('w, 'm) net_dev_env_scheme \<Rightarrow> nat \<Rightarrow> NetIfLinkStatus \<Rightarrow> ('a) net_dev_sys_scheme
   \<Rightarrow> ret \<times> ('a) net_dev_sys_scheme" where
  "SetNetIfLinkStatus E lwipNf status s =
     (if status = NETIF_LINK_OTHER then (HDF_ERR_INVALID_PARAM, s)
      else
        let (r, s1) =
          (if status = NETIF_LINK_DOWN then
             (if IsInSystemTaskContext E s then (0, emit (NetifLinkDown lwipNf, 0) s)
              else ext_call (net_api E) (NetifApiLinkDown lwipNf) s)
           else
             (if IsInSystemTaskContext E s then (0, emit (NetifLinkUp lwipNf, 0) s)
              else ext_call (net_api E) (NetifApiLinkUp lwipNf) s))
        in (if r = 0 then (HDF_SUCCESS, s1) else (HDF_FAILURE, s1)))"

subsection \<open>The adapter object\<close>

definition LiteNetDevInit ::
  "('m) mem_env_scheme \<Rightarrow> nat option \<Rightarrow> ('a) net_dev_sys_scheme \<Rightarrow> ret \<times> ('a) net_dev_sys_scheme" where
  "LiteNetDevInit E netDeviceImpl s =
     (case netDeviceImpl of None \<Rightarrow> (HDF_ERR_INVALID_PARAM, s) | Some i \<Rightarrow>
       (case OsalMemCalloc E (Objs ''NetDeviceAdapterLite'' 1) s of
          (None, s1) \<Rightarrow> (HDF_ERR_MALLOC_FAIL, s1)
        | (Some liteNdPri, s1) \<Rightarrow>
            (case impls s1 i of
               None \<Rightarrow> (HDF_FAILURE, s1\<lparr>h_bad := True\<rparr>)
             | Some im \<Rightarrow>
                 (HDF_SUCCESS,
                  s1\<lparr>adapters := (adapters s1)(liteNdPri \<mapsto> \<lparr>lwipNetif = None\<rparr>),
                     impls := (impls s1)(i \<mapsto> im\<lparr>ni_osPrivate := Some liteNdPri\<rparr>)\<rparr>))))"

definition LiteNetDevDeInit ::
  "nat option \<Rightarrow> ('a) net_dev_sys_scheme \<Rightarrow> ret \<times> ('a) net_dev_sys_scheme" where
  "LiteNetDevDeInit netDeviceImpl s =
     (case netDeviceImpl of None \<Rightarrow> (HDF_SUCCESS, s) | Some i \<Rightarrow>
       (case impls s i of
          None \<Rightarrow> (HDF_SUCCESS, s\<lparr>h_bad := True\<rparr>)
        | Some im \<Rightarrow>
            (case ni_osPrivate im of
               None \<Rightarrow> (HDF_SUCCESS, s)
             | Some a \<Rightarrow>
                 let s1 = OsalMemFree (Some a) s
                 in (HDF_SUCCESS, s1\<lparr>adapters := (adapters s1)(a := None),
                                      impls := (impls s1)(i \<mapsto> im\<lparr>ni_osPrivate := None\<rparr>)\<rparr>))))"

definition GetNetIfFromDevImpl :: "nat option \<Rightarrow> ('a) net_dev_sys_scheme \<Rightarrow> nat option" where
  "GetNetIfFromDevImpl netDeviceImpl s =
     Option.bind (Option.bind netDeviceImpl (impls s))
       (\<lambda>im. Option.bind (Option.bind (ni_osPrivate im) (adapters s)) lwipNetif)"

subsection \<open>Sending\<close>

definition ConverPbuffToNetBuf ::
  "(('a) net_dev_sys_scheme, 'm) net_dev_env_scheme \<Rightarrow> nat option \<Rightarrow> pchain option
   \<Rightarrow> ('a) net_dev_sys_scheme \<Rightarrow> nat option \<times> ('a) net_dev_sys_scheme" where
  "ConverPbuffToNetBuf E netDev lwipBuf s =
     (case (netDev, lwipBuf) of
        (Some d, Some _) \<Rightarrow> Pbuf2NetBuf E d lwipBuf s
      | _ \<Rightarrow> (None, s))"

definition ConverNetBufToPBuf ::
  "('w, 'm) net_dev_env_scheme \<Rightarrow> nat option \<Rightarrow> ('a) net_dev_sys_scheme
   \<Rightarrow> pbuf option \<times> ('a) net_dev_sys_scheme" where
  "ConverNetBufToPBuf E netBuff s =
     (case netBuff of None \<Rightarrow> (None, s) | Some _ \<Rightarrow> NetBuf2Pbuf E netBuff s)"

text \<open>
  The chain \<open>netif->state->netDevice\<close> a send goes through. On this chain, whose links lwIP keeps
  alive while it calls back, a pointer without an object is read as \<open>NULL\<close>.
\<close>

definition LwipSendCheck ::
  "nat option \<Rightarrow> pchain option \<Rightarrow> ('a) net_dev_sys_scheme \<Rightarrow> ret" where
  "LwipSendCheck nf lwipBuf s =
     (if nf = None \<or> lwipBuf = None then HDF_ERR_INVALID_PARAM
      else
        (case Option.bind (Option.bind (Option.bind nf (netifs s)) nf_state) (impls s) of
           None \<Rightarrow> HDF_ERR_INVALID_PARAM
         | Some im \<Rightarrow> if ni_netDevice im = None then HDF_ERR_INVALID_PARAM else HDF_SUCCESS))"

definition netif_dev :: "nat option \<Rightarrow> ('a) net_dev_sys_scheme \<Rightarrow> nat option" where
  "netif_dev nf s =
     Option.bind (Option.bind (Option.bind (Option.bind nf (netifs s)) nf_state) (impls s)) ni_netDevice"

definition LwipSend ::
  "(('a) net_dev_sys_scheme, 'm) net_dev_env_scheme \<Rightarrow> nat option \<Rightarrow> pchain option
   \<Rightarrow> ('a) net_dev_sys_scheme \<Rightarrow> ('a) net_dev_sys_scheme" where
  "LwipSend E nf lwipBuf s =
     (if LwipSendCheck nf lwipBuf s \<noteq> HDF_SUCCESS then s
      else
        let netDev = netif_dev nf s in
        (case ConverPbuffToNetBuf E netDev lwipBuf s of
           (None, s1) \<Rightarrow> s1
         | (Some netBuff, s1) \<Rightarrow>
             (case Option.bind netDev (ndevs s1) of
                None \<Rightarrow> s1\<lparr>h_bad := True\<rparr>
              | Some nd \<Rightarrow>
                  (case nd_netDeviceIf nd of
                     None \<Rightarrow> NetBufFree (Some netBuff) s1
                   | Some i \<Rightarrow>
                       if if_xmit i then emit (Xmit (the netDev) netBuff, 0) s1
                       else NetBufFree (Some netBuff) s1))))"

definition LwipSetHwaddr ::
  "('w, 'm) net_dev_env_scheme \<Rightarrow> nat option \<Rightarrow> u8 list option \<Rightarrow> u8
   \<Rightarrow> ('a) net_dev_sys_scheme \<Rightarrow> u8 \<times> ('a) net_dev_sys_scheme" where
  "LwipSetHwaddr E nf addr len s =
     (case (nf, addr) of
        (Some n, Some a) \<Rightarrow>
          if unat len \<noteq> MAC_ADDR_SIZE E then (COMMON_ERROR E, s)
          else
            (case netif_dev nf s of
               None \<Rightarrow> (COMMON_ERROR E, s)
             | Some d \<Rightarrow>
                 (case ndevs s d of
                    None \<Rightarrow> (COMMON_ERROR E, s\<lparr>h_bad := True\<rparr>)
                  | Some nd \<Rightarrow>
                      (case nd_netDeviceIf nd of
                         None \<Rightarrow> (COMMON_ERROR E, s)
                       | Some i \<Rightarrow>
                           if if_setMacAddr i then
                             (let (r, s1) = ext_call (net_api E) (SetMacAddr d a) s in (word_of_int r, s1))
                           else (COMMON_ERROR E, s))))
      | _ \<Rightarrow> (COMMON_ERROR E, s))"

definition LiteNetifLinkChangeCallback ::
  "nat option \<Rightarrow> ('a) net_dev_sys_scheme \<Rightarrow> ('a) net_dev_sys_scheme" where
  "LiteNetifLinkChangeCallback nf s =
     (case netif_dev nf s of
        None \<Rightarrow> s
      | Some d \<Rightarrow>
          (case Option.bind (ndevs s d) nd_netDeviceIf of
             None \<Rightarrow> s
           | Some i \<Rightarrow> if if_linkStatusChanged i then emit (LinkStatusChanged d, 0) s else s))"

subsection \<open>Registering with lwIP\<close>

definition CreateLwipNetIf ::
  "('w, 'm) net_dev_env_scheme \<Rightarrow> nat option \<Rightarrow> nat option \<Rightarrow> ('a) net_dev_sys_scheme
   \<Rightarrow> nat option \<times> ('a) net_dev_sys_scheme" where
  "CreateLwipNetIf E netDeviceImpl netDev s =
     (case netDev of None \<Rightarrow> (None, s) | Some d \<Rightarrow>
       (case OsalMemCalloc E (Objs ''netif'' 1) s of
          (None, s1) \<Rightarrow> (None, s1)
        | (Some n, s1) \<Rightarrow>
            (case ndevs s1 d of
               None \<Rightarrow> (None, s1\<lparr>h_bad := True\<rparr>)
             | Some nd \<Rightarrow>
                 let nf = \<lparr>nf_state = netDeviceImpl, nf_link_layer_type = nd_LinkLayerType nd,
                           nf_hwaddr_len = MAC_ADDR_SIZE E,
                           nf_hwaddr = replicate (NETIF_MAX_HWADDR_LEN E) 0,
                           nf_name = [], nf_full_name = []\<rparr>
                 in if SACK_2_0 E then
                      (if \<not> strncpy_ok E (IFNAMSIZ E) (nd_name nd) (IFNAMSIZ E - FREE_SPACE_SIZE)
                       then (None, OsalMemFree (Some n) s1)
                       else (Some n, s1\<lparr>netifs := (netifs s1)(n \<mapsto>
                              nf\<lparr>nf_name := take (IFNAMSIZ E - FREE_SPACE_SIZE) (nd_name nd)\<rparr>)\<rparr>))
                    else (Some n, s1\<lparr>netifs := (netifs s1)(n \<mapsto> nf)\<rparr>))))"

definition DestroyLwipNetIf ::
  "nat option \<Rightarrow> ('a) net_dev_sys_scheme \<Rightarrow> ('a) net_dev_sys_scheme" where
  "DestroyLwipNetIf lwipNf s =
     (case lwipNf of None \<Rightarrow> s
      | Some n \<Rightarrow> (OsalMemFree (Some n) s)\<lparr>netifs := (netifs s)(n := None)\<rparr>)"

definition AddP2pNetDev ::
  "('w, 'm) net_dev_env_scheme \<Rightarrow> nat option \<Rightarrow> nat option \<Rightarrow> ('a) net_dev_sys_scheme
   \<Rightarrow> ret \<times> ('a) net_dev_sys_scheme" where
  "AddP2pNetDev E lwipNf lwipNd s =
     (case (lwipNf, lwipNd) of
        (Some n, Some d) \<Rightarrow>
          (case (netifs s n, ndevs s d) of
             (Some nf, Some nd) \<Rightarrow>
               if take P2P_HEAD (nd_name nd) = ''p2p'' then
                 (if \<not> strncpy_ok E (IFNAMSIZ E) (nd_name nd) (IFNAMSIZ E - FREE_SPACE_SIZE)
                  then (HDF_FAILURE, s)
                  else (HDF_SUCCESS, s\<lparr>netifs := (netifs s)(n \<mapsto>
                          nf\<lparr>nf_full_name := take (IFNAMSIZ E - FREE_SPACE_SIZE) (nd_name nd)\<rparr>)\<rparr>))
               else (HDF_SUCCESS, s)
           | _ \<Rightarrow> (HDF_FAILURE, s\<lparr>h_bad := True\<rparr>))
      | _ \<Rightarrow> (HDF_FAILURE, s))"

text \<open>The new device name, \<open>lwipNf->name\<close> followed by \<open>lwipNf->num\<close>; \<open>None\<close> when \<open>snprintf_s\<close> fails.\<close>

definition update_dev_name ::
  "('w, 'm) net_dev_env_scheme \<Rightarrow> nat \<Rightarrow> nat \<Rightarrow> ('a) net_dev_sys_scheme
   \<Rightarrow> ('a) net_dev_sys_scheme option" where
  "update_dev_name E n d s =
     (if \<not> SACK_2_0 E then Some s
      else
        (case (netifs s n, ndevs s d) of
           (Some nf, Some nd) \<Rightarrow>
             map_option (\<lambda>nm. s\<lparr>ndevs := (ndevs s)(d \<mapsto> nd\<lparr>nd_name := nm\<rparr>)\<rparr>)
               (snprintf_name E (IFNAMSIZ E) (nf_name nf) (netif_num E (ev s) n))
         | _ \<Rightarrow> Some (s\<lparr>h_bad := True\<rparr>)))"

text \<open>\<open>memcpy_s(lwipNf->hwaddr, NETIF_MAX_HWADDR_LEN, lwipNd->macAddr, MAC_ADDR_SIZE)\<close>\<close>

definition copy_mac ::
  "('w, 'm) net_dev_env_scheme \<Rightarrow> nat \<Rightarrow> nat \<Rightarrow> ('a) net_dev_sys_scheme
   \<Rightarrow> bool \<times> ('a) net_dev_sys_scheme" where
  "copy_mac E n d s =
     (if \<not> copy_ok E (NETIF_MAX_HWADDR_LEN E) (MAC_ADDR_SIZE E) then (False, s)
      else
        (case (netifs s n, ndevs s d) of
           (Some nf, Some nd) \<Rightarrow>
             (True, s\<lparr>netifs := (netifs s)(n \<mapsto>
                nf\<lparr>nf_hwaddr := patch (nf_hwaddr nf) 0 (take (MAC_ADDR_SIZE E) (nd_macAddr nd))\<rparr>)\<rparr>)
         | _ \<Rightarrow> (True, s\<lparr>h_bad := True\<rparr>)))"

definition LiteNetDevAdd ::
  "('w, 'm) net_dev_env_scheme \<Rightarrow> nat option \<Rightarrow> ('a) net_dev_sys_scheme
   \<Rightarrow> ret \<times> ('a) net_dev_sys_scheme" where
  "LiteNetDevAdd E netDeviceImpl s =
     (case Option.bind netDeviceImpl (impls s) of
        None \<Rightarrow> (HDF_ERR_INVALID_PARAM, if netDeviceImpl = None then s else s\<lparr>h_bad := True\<rparr>)
      | Some im \<Rightarrow>
       (case (ni_osPrivate im, ni_netDevice im) of
          (Some a, Some lwipNd) \<Rightarrow>
            (case CreateLwipNetIf E netDeviceImpl (Some lwipNd) s of
               (None, s1) \<Rightarrow> (HDF_FAILURE, s1)
             | (Some n, s1) \<Rightarrow>
                 let (r, s2) = ext_call (net_api E) (NetifAdd n) s1 in
                 if r \<noteq> 0 then (HDF_FAILURE, DestroyLwipNetIf (Some n) s2)
                 else
                   (case AddP2pNetDev E (Some n) (Some lwipNd) s2 of (r2, s3) \<Rightarrow>
                     if r2 \<noteq> HDF_SUCCESS then (HDF_FAILURE, DestroyLwipNetIf (Some n) s3)
                     else
                       (case update_dev_name E n lwipNd s3 of
                          None \<Rightarrow>
                            (HDF_FAILURE, DestroyLwipNetIf (Some n)
                               (snd (ext_call (net_api E) (NetifRemove n) s3)))
                        | Some s4 \<Rightarrow>
                            (case copy_mac E n lwipNd s4 of
                               (False, s5) \<Rightarrow>
                                 (HDF_FAILURE, DestroyLwipNetIf (Some n)
                                    (snd (ext_call (net_api E) (NetifRemove n) s5)))
                             | (True, s5) \<Rightarrow>
                                 let s6 = s5\<lparr>adapters := (adapters s5)(a \<mapsto> \<lparr>lwipNetif = Some n\<rparr>)\<rparr>;
                                     s7 = snd (ext_call (net_api E) (NetifSetDefault n) s6);
                                     s8 = emit (NetifSetLinkCallback n, 0) s7
                                 in (HDF_SUCCESS, s8)))))
        | _ \<Rightarrow> (HDF_ERR_INVALID_PARAM, s)))"

definition LiteNetDevDelete ::
  "('w, 'm) net_dev_env_scheme \<Rightarrow> nat option \<Rightarrow> ('a) net_dev_sys_scheme
   \<Rightarrow> ret \<times> ('a) net_dev_sys_scheme" where
  "LiteNetDevDelete E netDeviceImpl s =
     (case Option.bind (Option.bind netDeviceImpl (impls s)) ni_osPrivate of
        None \<Rightarrow> (HDF_ERR_INVALID_PARAM, s)
      | Some a \<Rightarrow>
          (case adapters s a of
             None \<Rightarrow> (HDF_SUCCESS, s\<lparr>h_bad := True\<rparr>)
           | Some ad \<Rightarrow>
               (case lwipNetif ad of
                  None \<Rightarrow> (HDF_SUCCESS, s)
                | Some n \<Rightarrow>
                    let s1 = DestroyLwipNetIf (Some n) (snd (ext_call (net_api E) (NetifRemove n) s))
                    in (HDF_SUCCESS, s1\<lparr>adapters := (adapters s1)(a \<mapsto> ad\<lparr>lwipNetif := None\<rparr>)\<rparr>))))"

subsection \<open>Control and receive\<close>

definition LiteNetDevSetStatus ::
  "('w, 'm) net_dev_env_scheme \<Rightarrow> nat option \<Rightarrow> NetIfStatus \<Rightarrow> ('a) net_dev_sys_scheme
   \<Rightarrow> ret \<times> ('a) net_dev_sys_scheme" where
  "LiteNetDevSetStatus E netDeviceImpl status s =
     (case GetNetIfFromDevImpl netDeviceImpl s of
        None \<Rightarrow> (HDF_ERR_INVALID_PARAM, s)
      | Some n \<Rightarrow>
          if status = NETIF_STATUS_OTHER then (HDF_ERR_INVALID_PARAM, s)
          else
            let (r, s1) = ext_call (net_api E)
                            (if status = NETIF_DOWN then NetifSetDown n else NetifSetUp n) s
            in (if r = 0 then (HDF_SUCCESS, s1) else (HDF_FAILURE, s1)))"

definition LiteNetDevSetLinkStatus ::
  "('w, 'm) net_dev_env_scheme \<Rightarrow> nat option \<Rightarrow> NetIfLinkStatus \<Rightarrow> ('a) net_dev_sys_scheme
   \<Rightarrow> ret \<times> ('a) net_dev_sys_scheme" where
  "LiteNetDevSetLinkStatus E netDeviceImpl status s =
     (case GetNetIfFromDevImpl netDeviceImpl s of
        None \<Rightarrow> (HDF_ERR_INVALID_PARAM, s)
      | Some n \<Rightarrow> SetNetIfLinkStatus E n status s)"

definition LiteNetDevGetLinkStatus ::
  "('w, 'm) net_dev_env_scheme \<Rightarrow> nat option \<Rightarrow> NetIfLinkStatus option \<Rightarrow> ('a) net_dev_sys_scheme
   \<Rightarrow> ret \<times> NetIfLinkStatus option" where
  "LiteNetDevGetLinkStatus E netDeviceImpl status s =
     (case GetNetIfFromDevImpl netDeviceImpl s of
        None \<Rightarrow> (HDF_ERR_INVALID_PARAM, status)
      | Some n \<Rightarrow>
          if status = None then (HDF_ERR_INVALID_PARAM, status)
          else if netif_is_link_up E (ev s) n then (HDF_SUCCESS, Some NETIF_LINK_UP)
          else (HDF_SUCCESS, Some NETIF_LINK_DOWN))"

definition ntohs :: "u8 list \<Rightarrow> u16" where
  "ntohs bs = push_bit 8 (ucast (bs ! 0)) OR ucast (bs ! 1)"

definition ether_pass :: "('w, 'm) net_dev_env_scheme \<Rightarrow> u16 \<Rightarrow> bool" where
  "ether_pass E ty \<longleftrightarrow>
     ty = ETHER_TYPE_IP E \<or> ty = ETHER_TYPE_ARP E \<or> ty = ETHER_TYPE_RARP E \<or>
     ty = ETHER_TYPE_IPV6 E \<or> ty = ETHER_TYPE_6LO E \<or> ty = ETHER_TYPE_PAE E"

definition LiteNetDevDataFilter ::
  "('w, 'm) net_dev_env_scheme \<Rightarrow> nat option \<Rightarrow> nat option \<Rightarrow> ('a) net_dev_sys_scheme
   \<Rightarrow> ProcessingResult \<times> ('a) net_dev_sys_scheme" where
  "LiteNetDevDataFilter E netDeviceImpl buff s =
     (if netDeviceImpl = None \<or> buff = None then (PROCESSING_ERROR, s)
      else
        (case (NetBufGetAddress (Option.bind buff (nbs s)) E_DATA_BUF,
               Option.bind (Option.bind (Option.bind netDeviceImpl (impls s)) ni_netDevice) (ndevs s)) of
           (Some (Some m, off), Some lwipNd) \<Rightarrow>
             (case mem_read m (unat off + ETHER_TYPE_OFF E) 2 s of
                None \<Rightarrow> (PROCESSING_ERROR, s\<lparr>h_bad := True\<rparr>)
              | Some bs \<Rightarrow>
                  if nd_LinkLayerType lwipNd = ETHERNET_LINK \<or> ether_pass E (ntohs bs)
                  then (PROCESSING_CONTINUE, s)
                  else (PROCESSING_COMPLETE, NetBufFree buff s))
         | _ \<Rightarrow> (PROCESSING_ERROR, s\<lparr>h_bad := True\<rparr>)))"

definition LiteNetDevDataReceive ::
  "('w, 'm) net_dev_env_scheme \<Rightarrow> nat option \<Rightarrow> nat option \<Rightarrow> ('a) net_dev_sys_scheme
   \<Rightarrow> ret \<times> ('a) net_dev_sys_scheme" where
  "LiteNetDevDataReceive E netDeviceImpl buff s =
     (case GetNetIfFromDevImpl netDeviceImpl s of
        None \<Rightarrow> (HDF_ERR_INVALID_PARAM, NetBufFree buff s)
      | Some n \<Rightarrow>
          (case ConverNetBufToPBuf E buff s of
             (None, s1) \<Rightarrow> (HDF_FAILURE, NetBufFree buff s1)
           | (Some pBuff, s1) \<Rightarrow>
               (HDF_SUCCESS, NetBufFree buff (emit (DriverifInput n (link_bytes pBuff), 0) s1))))"

definition LiteNetDevReceive ::
  "('w, 'm) net_dev_env_scheme \<Rightarrow> nat option \<Rightarrow> nat option \<Rightarrow> nat \<Rightarrow> ('a) net_dev_sys_scheme
   \<Rightarrow> ret \<times> ('a) net_dev_sys_scheme" where
  "LiteNetDevReceive E netDeviceImpl buff flag s =
     (if flag \<ge> MAX_RECEIVE_FLAG E then (HDF_ERR_INVALID_PARAM, s)
      else if GetNetIfFromDevImpl netDeviceImpl s = None \<or> buff = None then (HDF_ERR_INVALID_PARAM, s)
      else
        (case LiteNetDevDataFilter E netDeviceImpl buff s of
           (PROCESSING_CONTINUE, s1) \<Rightarrow> LiteNetDevDataReceive E netDeviceImpl buff s1
         | (PROCESSING_COMPLETE, s1) \<Rightarrow> (HDF_SUCCESS, s1)
         | (PROCESSING_ERROR, s1) \<Rightarrow> (HDF_FAILURE, s1)))"

text \<open>The calls that are handed to lwIP unchanged once the \<open>netif\<close> is found.\<close>

definition netif_call ::
  "('w, 'm) net_dev_env_scheme \<Rightarrow> nat option \<Rightarrow> (nat \<Rightarrow> net_ev) \<Rightarrow> ('a) net_dev_sys_scheme
   \<Rightarrow> ret \<times> ('a) net_dev_sys_scheme" where
  "netif_call E netDeviceImpl c s =
     (case GetNetIfFromDevImpl netDeviceImpl s of
        None \<Rightarrow> (HDF_ERR_INVALID_PARAM, s)
      | Some n \<Rightarrow>
          let (r, s1) = ext_call (net_api E) (c n) s
          in (if r = 0 then (HDF_SUCCESS, s1) else (HDF_FAILURE, s1)))"

definition LiteNetSetIpAddr ::
  "('w, 'm) net_dev_env_scheme \<Rightarrow> nat option \<Rightarrow> u32 \<Rightarrow> u32 \<Rightarrow> u32 \<Rightarrow> ('a) net_dev_sys_scheme
   \<Rightarrow> ret \<times> ('a) net_dev_sys_scheme" where
  "LiteNetSetIpAddr E netDeviceImpl ipAddr netMask gw s =
     (case GetNetIfFromDevImpl netDeviceImpl s of
        None \<Rightarrow> (HDF_ERR_INVALID_PARAM, s)
      | Some n \<Rightarrow> (HDF_SUCCESS, snd (ext_call (net_api E) (NetifSetAddr n ipAddr netMask gw) s)))"

definition LiteNetDhcpsStart ::
  "('w, 'm) net_dev_env_scheme \<Rightarrow> nat option \<Rightarrow> u16 \<Rightarrow> ('a) net_dev_sys_scheme
   \<Rightarrow> ret \<times> ('a) net_dev_sys_scheme" where
  "LiteNetDhcpsStart E netDeviceImpl ipNum s = netif_call E netDeviceImpl (\<lambda>n. DhcpsStart n ipNum) s"

definition LiteNetDhcpsStop ::
  "('w, 'm) net_dev_env_scheme \<Rightarrow> nat option \<Rightarrow> ('a) net_dev_sys_scheme
   \<Rightarrow> ret \<times> ('a) net_dev_sys_scheme" where
  "LiteNetDhcpsStop E netDeviceImpl s = netif_call E netDeviceImpl DhcpsStop s"

definition LiteNetDhcpStart ::
  "('w, 'm) net_dev_env_scheme \<Rightarrow> nat option \<Rightarrow> ('a) net_dev_sys_scheme
   \<Rightarrow> ret \<times> ('a) net_dev_sys_scheme" where
  "LiteNetDhcpStart E netDeviceImpl s = netif_call E netDeviceImpl DhcpStart s"

definition LiteNetDhcpStop ::
  "('w, 'm) net_dev_env_scheme \<Rightarrow> nat option \<Rightarrow> ('a) net_dev_sys_scheme
   \<Rightarrow> ret \<times> ('a) net_dev_sys_scheme" where
  "LiteNetDhcpStop E netDeviceImpl s =
     (case GetNetIfFromDevImpl netDeviceImpl s of
        None \<Rightarrow> (HDF_ERR_INVALID_PARAM, s)
      | Some n \<Rightarrow>
          let (r, s1) = ext_call (net_api E) (DhcpStop n) s
          in (if r = 0 then (HDF_SUCCESS, emit (DhcpCleanup n, 0) s1) else (HDF_FAILURE, s1)))"

definition LiteNetDhcpIsBound ::
  "('w, 'm) net_dev_env_scheme \<Rightarrow> nat option \<Rightarrow> ('a) net_dev_sys_scheme
   \<Rightarrow> ret \<times> ('a) net_dev_sys_scheme" where
  "LiteNetDhcpIsBound E netDeviceImpl s = netif_call E netDeviceImpl DhcpIsBound s"

definition LiteNetChangeMacAddr ::
  "('w, 'm) net_dev_env_scheme \<Rightarrow> nat option \<Rightarrow> ('a) net_dev_sys_scheme
   \<Rightarrow> ret \<times> ('a) net_dev_sys_scheme" where
  "LiteNetChangeMacAddr E netDeviceImpl s =
     (case GetNetIfFromDevImpl netDeviceImpl s of
        None \<Rightarrow> (HDF_ERR_INVALID_PARAM, s)
      | Some n \<Rightarrow>
          (case Option.bind (Option.bind netDeviceImpl (impls s)) ni_netDevice of
             None \<Rightarrow> (HDF_FAILURE, s\<lparr>h_bad := True\<rparr>)
           | Some d \<Rightarrow>
               (case copy_mac E n d s of
                  (False, s1) \<Rightarrow> (HDF_FAILURE, s1)
                | (True, s1) \<Rightarrow> (HDF_SUCCESS, s1))))"

definition RegisterNetDeviceImpl ::
  "nat option \<Rightarrow> ('a) net_dev_sys_scheme \<Rightarrow> ret \<times> ('a) net_dev_sys_scheme" where
  "RegisterNetDeviceImpl ndImpl s =
     (case ndImpl of None \<Rightarrow> (HDF_ERR_INVALID_PARAM, s) | Some i \<Rightarrow>
       (case impls s i of
          None \<Rightarrow> (HDF_SUCCESS, s\<lparr>h_bad := True\<rparr>)
        | Some im \<Rightarrow> (HDF_SUCCESS, s\<lparr>impls := (impls s)(i \<mapsto> im\<lparr>ni_interFace := True\<rparr>)\<rparr>)))"

definition UnRegisterNetDeviceImpl ::
  "nat option \<Rightarrow> ('a) net_dev_sys_scheme \<Rightarrow> ret \<times> ('a) net_dev_sys_scheme" where
  "UnRegisterNetDeviceImpl ndImpl s =
     (case ndImpl of None \<Rightarrow> (HDF_SUCCESS, s) | Some i \<Rightarrow>
       (case impls s i of
          None \<Rightarrow> (HDF_SUCCESS, s\<lparr>h_bad := True\<rparr>)
        | Some im \<Rightarrow> (HDF_SUCCESS, s\<lparr>impls := (impls s)(i \<mapsto> im\<lparr>ni_interFace := False\<rparr>)\<rparr>)))"

end
