(* ===== verification/Net_Device_Facts.thy ===== *)
theory Net_Device_Facts
  imports Net_Device
begin

text \<open>
  What the operations of \<open>net_device_adapter.c\<close> guarantee: every \<open>netif\<close> registered with lwIP
  is a live object through any sequence of framework calls, adding a device either registers it
  or leaves nothing behind, and both data paths pass on exactly the bytes they were given and
  dispose of every net buffer once.
\<close>

subsection \<open>Which \<open>netif\<close>s lwIP knows, read off the trace\<close>

definition reg_step :: "nat set \<Rightarrow> net_ev \<times> int \<Rightarrow> nat set" where
  "reg_step R e =
     (case e of
        (NetifAdd n, r) \<Rightarrow> if r = 0 then insert n R else R
      | (NetifRemove n, _) \<Rightarrow> R - {n}
      | _ \<Rightarrow> R)"

definition registered :: "net_trace \<Rightarrow> nat set" where
  "registered tr = foldl reg_step {} tr"

lemma registered_append [simp]: "registered (tr @ es) = foldl reg_step (registered tr) es"
  by (simp add: registered_def)

lemma registered_Nil [simp]: "registered [] = {}"
  by (simp add: registered_def)

lemma reg_step_simps [simp]:
  "reg_step R (NetifAdd n, r) = (if r = 0 then insert n R else R)"
  "reg_step R (NetifRemove n, r) = R - {n}"
  "reg_step R (NetifSetDefault n, r) = R" "reg_step R (NetifSetLinkCallback n, r) = R"
  "reg_step R (NetifSetUp n, r) = R" "reg_step R (NetifSetDown n, r) = R"
  "reg_step R (NetifLinkUp n, r) = R" "reg_step R (NetifLinkDown n, r) = R"
  "reg_step R (NetifApiLinkUp n, r) = R" "reg_step R (NetifApiLinkDown n, r) = R"
  "reg_step R (NetifSetAddr n a b c, r) = R" "reg_step R (DhcpsStart n k, r) = R"
  "reg_step R (DhcpsStop n, r) = R" "reg_step R (DhcpStart n, r) = R" "reg_step R (DhcpStop n, r) = R"
  "reg_step R (DhcpCleanup n, r) = R" "reg_step R (DhcpIsBound n, r) = R"
  "reg_step R (PbufAlloc n, r) = R" "reg_step R (PbufFree, r) = R" "reg_step R (DriverifInput n bs, r) = R"
  "reg_step R (Xmit d n, r) = R"
  by (simp_all add: reg_step_def)

text \<open>\<open>strncpy_s\<close> copies at most \<open>count\<close> bytes and fails only when they do not fit.\<close>

definition strncpy_contract :: "('w, 'm) net_dev_env_scheme \<Rightarrow> bool" where
  "strncpy_contract E \<longleftrightarrow> (\<forall>nm. strncpy_ok E (IFNAMSIZ E) nm (IFNAMSIZ E - FREE_SPACE_SIZE))"

lemma CreateLwipNetIf_eq:
  assumes "ndevs s d = Some nd" and "strncpy_contract E"
  shows "\<exists>nf. nf_state nf = ip \<and> nf_hwaddr nf = replicate (NETIF_MAX_HWADDR_LEN E) 0 \<and>
     CreateLwipNetIf E ip (Some d) s =
       (if mem_ok E (h_next s) (Objs ''netif'' 1)
        then (Some (h_next s), s\<lparr>h_next := Suc (h_next s), h_blk := (h_blk s)(h_next s \<mapsto> []),
                                 netifs := (netifs s)(h_next s \<mapsto> nf)\<rparr>)
        else (None, s\<lparr>h_next := Suc (h_next s)\<rparr>))"
  by (rule exI [of _ "\<lparr>nf_state = ip, nf_link_layer_type = nd_LinkLayerType nd,
        nf_hwaddr_len = MAC_ADDR_SIZE E, nf_hwaddr = replicate (NETIF_MAX_HWADDR_LEN E) 0,
        nf_name = (if SACK_2_0 E then take (IFNAMSIZ E - FREE_SPACE_SIZE) (nd_name nd) else []),
        nf_full_name = []\<rparr>"])
     (use assms in \<open>simp add: CreateLwipNetIf_def alloc_eqs strncpy_contract_def Let_def\<close>)

lemma AddP2pNetDev_eq:
  assumes "ndevs s d = Some nd" and "strncpy_contract E" and "netifs s n = Some nf"
  shows "\<exists>nf'. nf_state nf' = nf_state nf \<and> nf_hwaddr nf' = nf_hwaddr nf \<and>
     AddP2pNetDev E (Some n) (Some d) s = (HDF_SUCCESS, s\<lparr>netifs := (netifs s)(n \<mapsto> nf')\<rparr>)"
proof (cases "take P2P_HEAD (nd_name nd) = ''p2p''")
  case True
  then show ?thesis
    using assms by (intro exI [of _ "nf\<lparr>nf_full_name := take (IFNAMSIZ E - FREE_SPACE_SIZE) (nd_name nd)\<rparr>"])
      (simp add: AddP2pNetDev_def strncpy_contract_def)
next
  case False
  then show ?thesis using assms by (intro exI [of _ nf]) (simp add: AddP2pNetDev_def fun_upd_idem)
qed

lemma update_dev_name_eq:
  assumes "ndevs s d = Some nd" and "netifs s n = Some nf"
  shows "update_dev_name E n d s = None \<or>
     (\<exists>nd'. nd_macAddr nd' = nd_macAddr nd \<and>
        update_dev_name E n d s = Some (s\<lparr>ndevs := (ndevs s)(d \<mapsto> nd')\<rparr>))"
proof (cases "SACK_2_0 E")
  case True
  show ?thesis
  proof (cases "snprintf_name E (IFNAMSIZ E) (nf_name nf) (netif_num E (ev s) n)")
    case (Some nm)
    with True assms show ?thesis
      by (intro disjI2 exI [of _ "nd\<lparr>nd_name := nm\<rparr>"]) (simp add: update_dev_name_def)
  qed (use True assms in \<open>simp add: update_dev_name_def\<close>)
next
  case False
  then show ?thesis using assms by (intro disjI2 exI [of _ nd]) (simp add: update_dev_name_def fun_upd_idem)
qed

text \<open>The two outcomes of \<open>LiteNetDevAdd\<close>.\<close>

lemma LiteNetDevAdd_outcome:
  assumes im: "impls s i = Some im" "ni_osPrivate im = Some a" "ni_netDevice im = Some d"
    and nd: "ndevs s d = Some nd" and con: "strncpy_contract E"
    and fresh: "h_blk s (h_next s) = None" "netifs s (h_next s) = None" "h_next s \<notin> registered (ev s)"
    and run: "LiteNetDevAdd E (Some i) s = (r, s')"
  shows "r = HDF_FAILURE \<and> h_blk s' = h_blk s \<and> netifs s' = netifs s \<and> adapters s' = adapters s \<and>
           impls s' = impls s \<and> h_bad s' = h_bad s \<and> h_next s' = Suc (h_next s) \<and>
           registered (ev s') = registered (ev s) \<and> nbs s' = nbs s \<and> dom (ndevs s') = dom (ndevs s)
       \<or> r = HDF_SUCCESS \<and> h_blk s' = (h_blk s)(h_next s \<mapsto> []) \<and> impls s' = impls s \<and>
           adapters s' = (adapters s)(a \<mapsto> \<lparr>lwipNetif = Some (h_next s)\<rparr>) \<and>
           (\<exists>nf. netifs s' = (netifs s)(h_next s \<mapsto> nf) \<and> nf_state nf = Some i \<and>
              nf_hwaddr nf = patch (replicate (NETIF_MAX_HWADDR_LEN E) 0) 0 (take (MAC_ADDR_SIZE E) (nd_macAddr nd))) \<and>
           registered (ev s') = insert (h_next s) (registered (ev s)) \<and>
           h_bad s' = h_bad s \<and> h_next s' = Suc (h_next s) \<and> nbs s' = nbs s \<and> dom (ndevs s') = dom (ndevs s)"
proof -
  let ?n = "h_next s"
  obtain nf where nf: "nf_state nf = Some i" "nf_hwaddr nf = replicate (NETIF_MAX_HWADDR_LEN E) 0"
    and C: "CreateLwipNetIf E (Some i) (Some d) s =
       (if mem_ok E ?n (Objs ''netif'' 1)
        then (Some ?n, s\<lparr>h_next := Suc ?n, h_blk := (h_blk s)(?n \<mapsto> []), netifs := (netifs s)(?n \<mapsto> nf)\<rparr>)
        else (None, s\<lparr>h_next := Suc ?n\<rparr>))"
    using CreateLwipNetIf_eq [OF nd con, of "Some i"] by blast
  note unf = LiteNetDevAdd_def ext_call_eq DestroyLwipNetIf_def OsalMemFree_def LOS_MemFree_def
  show ?thesis
  proof (cases "mem_ok E ?n (Objs ''netif'' 1)")
    case False
    then show ?thesis using run im C by (simp add: unf) auto
  next
    case True
    define s1 where "s1 = s\<lparr>h_next := Suc ?n, h_blk := (h_blk s)(?n \<mapsto> []), netifs := (netifs s)(?n \<mapsto> nf)\<rparr>"
    define r1 where "r1 = net_api E (ev s) (NetifAdd ?n)"
    define s2 where "s2 = emit (NetifAdd ?n, r1) s1"
    have C': "CreateLwipNetIf E (Some i) (Some d) s = (Some ?n, s1)" using C True by (simp add: s1_def)
    have s2: "h_blk s2 = (h_blk s)(?n \<mapsto> [])" "netifs s2 = (netifs s)(?n \<mapsto> nf)" "ev s2 = ev s @ [(NetifAdd ?n, r1)]"
      "ndevs s2 d = Some nd" "netifs s2 ?n = Some nf" "impls s2 = impls s" "adapters s2 = adapters s"
      "h_next s2 = Suc ?n" "h_bad s2 = h_bad s" "nbs s2 = nbs s" "ndevs s2 = ndevs s"
      using nd by (simp_all add: s1_def s2_def emit_def)
    have X: "ext_call (net_api E) (NetifAdd ?n) s1 = (r1, s2)"
      by (simp add: ext_call_eq s2_def r1_def) (simp add: s1_def)
    show ?thesis
    proof (cases "r1 = 0")
      case False
      then have "(r, s') = (HDF_FAILURE, DestroyLwipNetIf (Some ?n) s2)"
        using run im C' X by (simp add: LiteNetDevAdd_def)
      then show ?thesis
        using False s2 fresh by (simp add: DestroyLwipNetIf_def OsalMemFree_def LOS_MemFree_def fun_upd_idem)
    next
      case True
      obtain nf2 where nf2: "nf_state nf2 = nf_state nf" "nf_hwaddr nf2 = nf_hwaddr nf"
        and P: "AddP2pNetDev E (Some ?n) (Some d) s2 = (HDF_SUCCESS, s2\<lparr>netifs := (netifs s2)(?n \<mapsto> nf2)\<rparr>)"
        using AddP2pNetDev_eq [OF s2(4) con s2(5)] by blast
      define s3 where "s3 = s2\<lparr>netifs := (netifs s2)(?n \<mapsto> nf2)\<rparr>"
      have s3: "ndevs s3 d = Some nd" "netifs s3 ?n = Some nf2" using s2 by (simp_all add: s3_def)
      have run3: "(case update_dev_name E ?n d s3 of
           None \<Rightarrow> (HDF_FAILURE, DestroyLwipNetIf (Some ?n) (snd (ext_call (net_api E) (NetifRemove ?n) s3)))
         | Some s4 \<Rightarrow>
             (case copy_mac E ?n d s4 of
                (False, s5) \<Rightarrow> (HDF_FAILURE, DestroyLwipNetIf (Some ?n) (snd (ext_call (net_api E) (NetifRemove ?n) s5)))
              | (True, s5) \<Rightarrow>
                  let s6 = s5\<lparr>adapters := (adapters s5)(a \<mapsto> \<lparr>lwipNetif = Some ?n\<rparr>)\<rparr>;
                      s7 = snd (ext_call (net_api E) (NetifSetDefault ?n) s6);
                      s8 = emit (NetifSetLinkCallback ?n, 0) s7
                  in (HDF_SUCCESS, s8))) = (r, s')"
        using run im C' P [folded s3_def] True X by (simp add: LiteNetDevAdd_def)
      consider "update_dev_name E ?n d s3 = None"
        | nd' where "nd_macAddr nd' = nd_macAddr nd"
            "update_dev_name E ?n d s3 = Some (s3\<lparr>ndevs := (ndevs s3)(d \<mapsto> nd')\<rparr>)"
        using update_dev_name_eq [OF s3, of E] by metis
      then show ?thesis
      proof cases
        case 1
        then show ?thesis using run3 s2 fresh True
          by (auto simp: s3_def ext_call_eq DestroyLwipNetIf_def OsalMemFree_def LOS_MemFree_def
              fun_upd_idem emit_def)
      next
        case 2
        have "dom ((ndevs s3)(d \<mapsto> nd')) = dom (ndevs s)" using nd by (auto simp: s3_def s2_def s1_def emit_def)
        with 2 show ?thesis
          using run3 s2 fresh True nf nf2
          by (cases "copy_ok E (NETIF_MAX_HWADDR_LEN E) (MAC_ADDR_SIZE E)")
            (auto simp: s3_def copy_mac_def ext_call_eq DestroyLwipNetIf_def OsalMemFree_def
              LOS_MemFree_def fun_upd_idem Let_def emit_def)
      qed
    qed
  qed
qed

subsection \<open>The invariant\<close>

definition netdev_inv :: "('a) net_dev_sys_scheme \<Rightarrow> bool" where
  "netdev_inv s \<longleftrightarrow>
     heap_ok s \<and>
     (\<forall>n. netifs s n \<noteq> None \<longrightarrow> h_blk s n \<noteq> None) \<and>
     (\<forall>n \<in> registered (ev s). netifs s n \<noteq> None) \<and>
     (\<forall>a. adapters s a \<noteq> None \<longrightarrow> h_blk s a \<noteq> None \<and> netifs s a = None) \<and>
     (\<forall>a ad n. adapters s a = Some ad \<longrightarrow> lwipNetif ad = Some n \<longrightarrow> n \<in> registered (ev s)) \<and>
     (\<forall>a b ad bd n. adapters s a = Some ad \<longrightarrow> lwipNetif ad = Some n \<longrightarrow>
        adapters s b = Some bd \<longrightarrow> lwipNetif bd = Some n \<longrightarrow> a = b) \<and>
     (\<forall>i im a. impls s i = Some im \<longrightarrow> ni_osPrivate im = Some a \<longrightarrow> adapters s a \<noteq> None) \<and>
     (\<forall>i j im jm a. impls s i = Some im \<longrightarrow> ni_osPrivate im = Some a \<longrightarrow>
        impls s j = Some jm \<longrightarrow> ni_osPrivate jm = Some a \<longrightarrow> i = j) \<and>
     (\<forall>i im d. impls s i = Some im \<longrightarrow> ni_netDevice im = Some d \<longrightarrow> ndevs s d \<noteq> None)"

lemma netdev_invD:
  assumes "netdev_inv s"
  shows "heap_ok s" "netifs s n = Some nf \<Longrightarrow> \<exists>bs. h_blk s n = Some bs"
    and "n \<in> registered (ev s) \<Longrightarrow> \<exists>nf. netifs s n = Some nf"
    and "adapters s a = Some ad \<Longrightarrow> (\<exists>bs. h_blk s a = Some bs) \<and> netifs s a = None"
    and "adapters s a = Some ad \<Longrightarrow> lwipNetif ad = Some n \<Longrightarrow> n \<in> registered (ev s)"
    and "adapters s a = Some ad \<Longrightarrow> lwipNetif ad = Some n \<Longrightarrow>
           adapters s b = Some bd \<Longrightarrow> lwipNetif bd = Some n \<Longrightarrow> a = b"
    and "impls s i = Some im \<Longrightarrow> ni_osPrivate im = Some a \<Longrightarrow> \<exists>ad. adapters s a = Some ad"
    and "impls s i = Some im \<Longrightarrow> ni_osPrivate im = Some a \<Longrightarrow>
           impls s j = Some jm \<Longrightarrow> ni_osPrivate jm = Some a \<Longrightarrow> i = j"
    and "impls s i = Some im \<Longrightarrow> ni_netDevice im = Some d \<Longrightarrow> \<exists>nd. ndevs s d = Some nd"
    and "h_blk s (h_next s) = None" "netifs s (h_next s) = None" "adapters s (h_next s) = None"
    and "h_next s \<notin> registered (ev s)"
proof -
  note I = assms [unfolded netdev_inv_def]
  show "heap_ok s" using I by blast
  then show f: "h_blk s (h_next s) = None" by (rule heap_ok_fresh)
  show nf: "netifs s (h_next s) = None" using I f by auto
  show "adapters s (h_next s) = None" using I f by auto
  show "h_next s \<notin> registered (ev s)" using I nf by auto
qed (use assms [unfolded netdev_inv_def not_None_eq] in \<open>elim conjE, metis\<close>)+

lemma LiteNetDevInit_eq:
  assumes "impls s i = Some im"
  shows "LiteNetDevInit E (Some i) s =
     (if mem_ok E (h_next s) (Objs ''NetDeviceAdapterLite'' 1)
      then (HDF_SUCCESS, s\<lparr>h_next := Suc (h_next s), h_blk := (h_blk s)(h_next s \<mapsto> []),
              adapters := (adapters s)(h_next s \<mapsto> \<lparr>lwipNetif = None\<rparr>),
              impls := (impls s)(i \<mapsto> im\<lparr>ni_osPrivate := Some (h_next s)\<rparr>)\<rparr>)
      else (HDF_ERR_MALLOC_FAIL, s\<lparr>h_next := Suc (h_next s)\<rparr>))"
  using assms by (simp add: LiteNetDevInit_def alloc_eqs)

lemma heap_ok_upd:
  "heap_ok s \<Longrightarrow> h_blk s' = (h_blk s)(h_next s \<mapsto> bs) \<Longrightarrow> h_next s' = Suc (h_next s) \<Longrightarrow> heap_ok s'"
  by (simp add: heap_ok_def)

lemma init_keeps_inv:
  assumes inv: "netdev_inv s" and "impls s i = Some im" and "LiteNetDevInit E (Some i) s = (r, s')"
  shows "netdev_inv s' \<and> h_bad s' = h_bad s"
proof -
  note D = netdev_invD [OF inv]
  show ?thesis
  proof (cases "mem_ok E (h_next s) (Objs ''NetDeviceAdapterLite'' 1)")
    case True
    then have s': "s' = s\<lparr>h_next := Suc (h_next s), h_blk := (h_blk s)(h_next s \<mapsto> []),
              adapters := (adapters s)(h_next s \<mapsto> \<lparr>lwipNetif = None\<rparr>),
              impls := (impls s)(i \<mapsto> im\<lparr>ni_osPrivate := Some (h_next s)\<rparr>)\<rparr>"
      using assms LiteNetDevInit_eq [OF assms(2), of E] by simp
    have "heap_ok s'" by (rule heap_ok_upd [OF D(1)]) (simp_all add: s')
    moreover have "impls s j = Some jm \<Longrightarrow> ni_osPrivate jm \<noteq> Some (h_next s)" for j jm
      using D(7) D(12) by fastforce
    ultimately show ?thesis
      using inv assms(2) D(10-13) unfolding netdev_inv_def s'
      by (intro conjI) (auto split: if_splits)
  next
    case False
    then have "s' = s\<lparr>h_next := Suc (h_next s)\<rparr>"
      using assms LiteNetDevInit_eq [OF assms(2), of E] by simp
    then show ?thesis using inv by (simp add: netdev_inv_def heap_ok_def)
  qed
qed

lemma deinit_keeps_inv:
  assumes inv: "netdev_inv s" and im: "impls s i = Some im" and run: "LiteNetDevDeInit (Some i) s = (r, s')"
  shows "netdev_inv s' \<and> h_bad s' = h_bad s"
proof (cases "ni_osPrivate im")
  case None
  then show ?thesis using run im inv by (simp add: LiteNetDevDeInit_def)
next
  case (Some a)
  note D = netdev_invD [OF inv]
  obtain ad bs where ad: "adapters s a = Some ad" "h_blk s a = Some bs" "netifs s a = None"
    using D(7) [OF im Some] D(4) by blast
  have s': "s' = s\<lparr>h_blk := (h_blk s)(a := None), adapters := (adapters s)(a := None),
                 impls := (impls s)(i \<mapsto> im\<lparr>ni_osPrivate := None\<rparr>)\<rparr>"
    using run im Some ad by (simp add: LiteNetDevDeInit_def OsalMemFree_live Let_def)
  have "heap_ok s'" using D(1) by (simp add: heap_ok_def s')
  moreover have "impls s j = Some jm \<Longrightarrow> ni_osPrivate jm = Some a \<Longrightarrow> j = i" for j jm
    using D(8) im Some by blast
  ultimately show ?thesis
    using inv im ad unfolding netdev_inv_def s'
    by (intro conjI) (auto split: if_splits)
qed

lemma add_keeps_inv:
  assumes inv: "netdev_inv s" and con: "strncpy_contract E" and im: "impls s i = Some im"
    and run: "LiteNetDevAdd E (Some i) s = (r, s')"
  shows "netdev_inv s' \<and> h_bad s' = h_bad s"
proof -
  note D = netdev_invD [OF inv]
  show ?thesis
  proof (cases "\<exists>a d. ni_osPrivate im = Some a \<and> ni_netDevice im = Some d")
    case False
    then have "s' = s" using run im by (auto simp: LiteNetDevAdd_def split: option.splits)
    then show ?thesis using inv by simp
  next
    case True
    then obtain a d where ad: "ni_osPrivate im = Some a" "ni_netDevice im = Some d" by blast
    obtain nd where nd: "ndevs s d = Some nd" using D(9) [OF im ad(2)] by blast
    obtain a0 where a0: "adapters s a = Some a0" using D(7) [OF im ad(1)] by blast
    note O = LiteNetDevAdd_outcome [OF im ad nd con D(10,11,13) run]
    from O show ?thesis
    proof (elim disjE conjE exE)
      assume f: "h_blk s' = h_blk s" "netifs s' = netifs s" "adapters s' = adapters s" "impls s' = impls s"
        "h_bad s' = h_bad s" "h_next s' = Suc (h_next s)" "registered (ev s') = registered (ev s)"
        "dom (ndevs s') = dom (ndevs s)"
      have nds: "ndevs s d \<noteq> None \<Longrightarrow> ndevs s' d \<noteq> None" for d using f(8) by auto
      have "heap_ok s'" using D(1) f by (simp add: heap_ok_def)
      then show ?thesis using inv f nds unfolding netdev_inv_def by simp
    next
      fix nf
      assume f: "h_blk s' = (h_blk s)(h_next s \<mapsto> [])" "impls s' = impls s"
        "adapters s' = (adapters s)(a \<mapsto> \<lparr>lwipNetif = Some (h_next s)\<rparr>)"
        "netifs s' = (netifs s)(h_next s \<mapsto> nf)"
        "registered (ev s') = insert (h_next s) (registered (ev s))" "h_bad s' = h_bad s"
        "h_next s' = Suc (h_next s)" "dom (ndevs s') = dom (ndevs s)"
      have nds: "ndevs s d \<noteq> None \<Longrightarrow> ndevs s' d \<noteq> None" for d using f(8) by auto
      have "heap_ok s'" using heap_ok_upd [OF D(1) f(1,7)] .
      moreover have "a \<noteq> h_next s" using a0 D(12) by auto
      moreover have "adapters s b = Some bd \<Longrightarrow> lwipNetif bd \<noteq> Some (h_next s)" for b bd
        using D(5,13) by blast
      moreover have "adapters s b = Some bd \<Longrightarrow> b \<noteq> h_next s" for b bd using D(12) by auto
      ultimately show ?thesis
        using inv nds a0 f(6) D(10) unfolding netdev_inv_def f(1-5)
        by (intro conjI) (auto split: if_splits)
    qed
  qed
qed

lemma delete_keeps_inv:
  assumes inv: "netdev_inv s" and run: "LiteNetDevDelete E (Some i) s = (r, s')"
  shows "netdev_inv s' \<and> h_bad s' = h_bad s"
proof -
  note D = netdev_invD [OF inv]
  show ?thesis
  proof (cases "Option.bind (impls s i) ni_osPrivate")
    case None
    then show ?thesis using run inv by (auto simp: LiteNetDevDelete_def)
  next
    case (Some a)
    then obtain im where im: "impls s i = Some im" "ni_osPrivate im = Some a"
      by (auto simp: bind_eq_Some_conv)
    obtain ad where ad: "adapters s a = Some ad" using D(7) [OF im] by blast
    show ?thesis
    proof (cases "lwipNetif ad")
      case None
      then show ?thesis using run inv im ad by (simp add: LiteNetDevDelete_def)
    next
      case (Some n)
      obtain nf where nf: "netifs s n = Some nf" using D(3) [OF D(5) [OF ad Some]] by blast
      obtain bs where bs: "h_blk s n = Some bs" using D(2) [OF nf] by blast
      have s': "h_blk s' = (h_blk s)(n := None)" "netifs s' = (netifs s)(n := None)"
        "adapters s' = (adapters s)(a \<mapsto> ad\<lparr>lwipNetif := None\<rparr>)" "impls s' = impls s"
        "ndevs s' = ndevs s" "registered (ev s') = registered (ev s) - {n}" "h_bad s' = h_bad s"
        "h_next s' = h_next s"
        using run im ad Some bs
        by (auto simp: LiteNetDevDelete_def ext_call_eq DestroyLwipNetIf_def OsalMemFree_def
            LOS_MemFree_def Let_def emit_def)
      have "heap_ok s'" using D(1) by (simp add: heap_ok_def s')
      moreover have "adapters s b = Some bd \<Longrightarrow> lwipNetif bd = Some n \<Longrightarrow> b = a" for b bd
        using D(6) ad Some by blast
      moreover have "a \<noteq> n" using D(4) [OF ad] nf by auto
      moreover have "adapters s b = Some bd \<Longrightarrow> b \<noteq> n" for b bd using D(4) nf by fastforce
      ultimately show ?thesis
        using inv ad nf s'(7) unfolding netdev_inv_def s'(1-6)
        by (intro conjI) (auto split: if_splits)
    qed
  qed
qed

lemma emit_keeps_inv:
  assumes "netdev_inv s" and "reg_step (registered (ev s)) e = registered (ev s)"
  shows "netdev_inv (emit e s)"
  using assms by (simp add: netdev_inv_def heap_ok_def emit_def)

lemma copy_mac_keeps_inv:
  assumes "netdev_inv s" and "n \<in> registered (ev s)" and "ndevs s d = Some nd"
    and "copy_mac E n d s = (b, s')"
  shows "netdev_inv s' \<and> h_bad s' = h_bad s"
proof -
  obtain nf where "netifs s n = Some nf" using netdev_invD(3) [OF assms(1,2)] by blast
  then have "s' = s \<or> (\<exists>nf'. s' = s\<lparr>netifs := (netifs s)(n \<mapsto> nf')\<rparr>)"
    using assms(3,4) by (auto simp: copy_mac_def split: if_splits)
  then show ?thesis
  proof
    assume "\<exists>nf'. s' = s\<lparr>netifs := (netifs s)(n \<mapsto> nf')\<rparr>"
    then obtain nf' where s': "s' = s\<lparr>netifs := (netifs s)(n \<mapsto> nf')\<rparr>" ..
    have "\<And>a ad. adapters s a = Some ad \<Longrightarrow> a \<noteq> n"
      using netdev_invD(4) [OF assms(1)] \<open>netifs s n = Some nf\<close> by fastforce
    moreover have "h_blk s n \<noteq> None" using netdev_invD(2) [OF assms(1) \<open>netifs s n = Some nf\<close>] by auto
    ultimately show ?thesis
      using assms(1) \<open>netifs s n = Some nf\<close> unfolding netdev_inv_def s'
      by (intro conjI) (auto simp: heap_ok_def)
  qed (use assms(1) in simp)
qed

text \<open>A call on the device implementation object \<open>i\<close>, as the framework makes it.\<close>

inductive nd_step ::
  "('w, 'm) net_dev_env_scheme \<Rightarrow> ('a) net_dev_sys_scheme \<Rightarrow> ('a) net_dev_sys_scheme \<Rightarrow> bool"
  for E where
  init: "impls s i = Some im \<Longrightarrow> LiteNetDevInit E (Some i) s = (r, s') \<Longrightarrow> nd_step E s s'"
| deinit: "impls s i = Some im \<Longrightarrow> LiteNetDevDeInit (Some i) s = (r, s') \<Longrightarrow> nd_step E s s'"
| add: "impls s i = Some im \<Longrightarrow> LiteNetDevAdd E (Some i) s = (r, s') \<Longrightarrow> nd_step E s s'"
| delete: "LiteNetDevDelete E (Some i) s = (r, s') \<Longrightarrow> nd_step E s s'"
| status: "LiteNetDevSetStatus E (Some i) st s = (r, s') \<Longrightarrow> nd_step E s s'"
| link: "LiteNetDevSetLinkStatus E (Some i) ls s = (r, s') \<Longrightarrow> nd_step E s s'"
| addr: "LiteNetSetIpAddr E (Some i) ip msk gw s = (r, s') \<Longrightarrow> nd_step E s s'"
| dhcps_start: "LiteNetDhcpsStart E (Some i) k s = (r, s') \<Longrightarrow> nd_step E s s'"
| dhcps_stop: "LiteNetDhcpsStop E (Some i) s = (r, s') \<Longrightarrow> nd_step E s s'"
| dhcp_start: "LiteNetDhcpStart E (Some i) s = (r, s') \<Longrightarrow> nd_step E s s'"
| dhcp_stop: "LiteNetDhcpStop E (Some i) s = (r, s') \<Longrightarrow> nd_step E s s'"
| dhcp_bound: "LiteNetDhcpIsBound E (Some i) s = (r, s') \<Longrightarrow> nd_step E s s'"
| mac: "impls s i = Some im \<Longrightarrow> ni_netDevice im \<noteq> None \<Longrightarrow>
    LiteNetChangeMacAddr E (Some i) s = (r, s') \<Longrightarrow> nd_step E s s'"

inductive_cases nd_stepE: "nd_step E s s'"

lemma GetNetIf_registered:
  assumes "netdev_inv s" and "GetNetIfFromDevImpl i s = Some n"
  shows "n \<in> registered (ev s)"
  using assms(2) netdev_invD(5) [OF assms(1)]
  by (auto simp: GetNetIfFromDevImpl_def bind_eq_Some_conv)

lemma nd_step_keeps_inv:
  assumes "netdev_inv s" and "strncpy_contract E" and "nd_step E s s'"
  shows "netdev_inv s' \<and> h_bad s' = h_bad s"
  using assms(3)
proof (cases rule: nd_step.cases)
  case (init i im r)
  then show ?thesis using init_keeps_inv [OF assms(1)] by blast
next
  case (deinit i im r)
  then show ?thesis using deinit_keeps_inv [OF assms(1)] by blast
next
  case (add i im r)
  then show ?thesis using add_keeps_inv [OF assms(1,2)] by blast
next
  case (delete i r)
  then show ?thesis using delete_keeps_inv [OF assms(1)] by blast
next
  case (mac i im r)
  then obtain d where d: "ni_netDevice im = Some d" by auto
  obtain nd where nd: "ndevs s d = Some nd" using netdev_invD(9) [OF assms(1) mac(1) d] by blast
  show ?thesis
  proof (cases "GetNetIfFromDevImpl (Some i) s")
    case (Some n)
    then show ?thesis
      using mac d copy_mac_keeps_inv [OF assms(1) GetNetIf_registered [OF assms(1) Some] nd]
      by (auto simp: LiteNetChangeMacAddr_def split: prod.splits bool.splits)
  qed (use mac assms in \<open>simp add: LiteNetChangeMacAddr_def\<close>)
qed (use assms(1) in
     \<open>auto simp: LiteNetDevSetStatus_def LiteNetDevSetLinkStatus_def SetNetIfLinkStatus_def
        LiteNetSetIpAddr_def LiteNetDhcpsStart_def LiteNetDhcpsStop_def LiteNetDhcpStart_def
        LiteNetDhcpStop_def LiteNetDhcpIsBound_def netif_call_def ext_call_eq Let_def
        intro!: emit_keeps_inv split: option.splits if_splits\<close>)

subsection \<open>The properties\<close>

text \<open>
  C4. Through any sequence of framework calls on network devices (init, deinit, add, delete,
  status, link, address, DHCP, MAC), every netif registered with lwIP is a live object, and
  nothing is freed twice.
\<close>

theorem netdev_no_dangling:
  assumes "netdev_inv s" and "strncpy_contract E" and "(nd_step E)\<^sup>*\<^sup>* s s'"
  shows "netdev_inv s' \<and> h_bad s' = h_bad s \<and>
         (\<forall>n \<in> registered (ev s'). netifs s' n \<noteq> None \<and> h_blk s' n \<noteq> None)"
proof -
  have "netdev_inv s' \<and> h_bad s' = h_bad s"
    using assms(3,1) by (induction rule: rtranclp_induct) (use assms(2) nd_step_keeps_inv in blast)+
  moreover from this have "\<forall>n \<in> registered (ev s'). netifs s' n \<noteq> None \<and> h_blk s' n \<noteq> None"
    using netdev_invD(2,3) by (metis option.distinct(1))
  ultimately show ?thesis by blast
qed

text \<open>
  LiteNetDevAdd either registers a fresh netif that carries the device's MAC address and
  becomes the adapter's netif, or fails and leaves the heap, the netifs and lwIP's registrations
  as they were.
\<close>

theorem netdev_add:
  assumes "netdev_inv s" and "strncpy_contract E" and "impls s i = Some im"
    and "ni_osPrivate im = Some a" and "ni_netDevice im = Some d" and "ndevs s d = Some nd"
  shows "case LiteNetDevAdd E (Some i) s of (r, s') \<Rightarrow> h_bad s' = h_bad s \<and>
     (if r = HDF_SUCCESS then
        registered (ev s') = insert (h_next s) (registered (ev s)) \<and>
        GetNetIfFromDevImpl (Some i) s' = Some (h_next s) \<and>
        h_blk s' = (h_blk s)(h_next s \<mapsto> []) \<and>
        map_option nf_hwaddr (netifs s' (h_next s)) =
          Some (patch (replicate (NETIF_MAX_HWADDR_LEN E) 0) 0 (take (MAC_ADDR_SIZE E) (nd_macAddr nd)))
      else
        r = HDF_FAILURE \<and> registered (ev s') = registered (ev s) \<and>
        GetNetIfFromDevImpl (Some i) s' = GetNetIfFromDevImpl (Some i) s \<and>
        h_blk s' = h_blk s \<and> netifs s' = netifs s)"
proof -
  obtain r s' where run: "LiteNetDevAdd E (Some i) s = (r, s')" by fastforce
  note D = netdev_invD [OF assms(1)]
  from LiteNetDevAdd_outcome [OF assms(3-6,2) D(10,11,13) run] run assms(3,4)
  show ?thesis by (auto simp: GetNetIfFromDevImpl_def)
qed

text \<open>Deinit undoes init on any state that looks like the one init left.\<close>

lemma deinit_undoes:
  assumes "h_blk s a = None" and "adapters s a = None" and "impls s3 i = Some (im\<lparr>ni_osPrivate := Some a\<rparr>)"
    and "h_blk s3 = (h_blk s)(a \<mapsto> [])" and "adapters s3 = (adapters s)(a \<mapsto> \<lparr>lwipNetif = None\<rparr>)"
    and "LiteNetDevDeInit (Some i) s3 = (r, s4)"
  shows "h_blk s4 = h_blk s \<and> ev s4 = ev s3 \<and> netifs s4 = netifs s3 \<and> adapters s4 = adapters s \<and>
    h_bad s4 = h_bad s3 \<and> r = HDF_SUCCESS"
proof -
  have "LiteNetDevDeInit (Some i) s3 = (HDF_SUCCESS,
      s3\<lparr>h_blk := (h_blk s3)(a := None), adapters := (adapters s3)(a := None),
         impls := (impls s3)(i \<mapsto> im\<lparr>ni_osPrivate := None\<rparr>)\<rparr>)"
    using assms by (simp add: LiteNetDevDeInit_def OsalMemFree_def LOS_MemFree_def Let_def)
  then show ?thesis
    using assms by (auto simp: fun_upd_idem)
qed

text \<open>Delete of a device with a netif destroys the netif and takes it from lwIP.\<close>

lemma delete_registered:
  assumes "impls s i = Some im" and "ni_osPrivate im = Some a" and "adapters s a = Some \<lparr>lwipNetif = Some n\<rparr>" and "h_blk s n = Some bs"
  shows "LiteNetDevDelete E (Some i) s = (HDF_SUCCESS,
    (emit (NetifRemove n, net_api E (ev s) (NetifRemove n)) s)\<lparr>h_blk := (h_blk s)(n := None),
      netifs := (netifs s)(n := None), adapters := (adapters s)(a \<mapsto> \<lparr>lwipNetif = None\<rparr>)\<rparr>)"
  using assms
  by (simp add: LiteNetDevDelete_def ext_call_eq DestroyLwipNetIf_def OsalMemFree_def LOS_MemFree_def Let_def emit_def)

text \<open>
  C8. Init, add (whether or not it succeeds), delete and deinit of a network device bring the
  heap, the netifs, the adapters and lwIP's registrations back to what they were.
\<close>

theorem netdev_lifecycle:
  assumes "netdev_inv s" and "strncpy_contract E" and "impls s i = Some im"
    and "ni_netDevice im = Some d" and "ndevs s d = Some nd"
    and "LiteNetDevInit E (Some i) s = (HDF_SUCCESS, s1)"
    and "LiteNetDevAdd E (Some i) s1 = (r, s2)"
    and "LiteNetDevDelete E (Some i) s2 = (r', s3)"
    and "LiteNetDevDeInit (Some i) s3 = (r'', s4)"
  shows "h_blk s4 = h_blk s \<and> registered (ev s4) = registered (ev s) \<and> netifs s4 = netifs s \<and>
         adapters s4 = adapters s \<and> h_bad s4 = h_bad s \<and> r' = HDF_SUCCESS \<and> r'' = HDF_SUCCESS"
proof -
  note D = netdev_invD [OF assms(1)]
  have s1: "s1 = s\<lparr>h_next := Suc (h_next s), h_blk := (h_blk s)(h_next s \<mapsto> []),
              adapters := (adapters s)(h_next s \<mapsto> \<lparr>lwipNetif = None\<rparr>),
              impls := (impls s)(i \<mapsto> im\<lparr>ni_osPrivate := Some (h_next s)\<rparr>)\<rparr>"
    using assms(6) LiteNetDevInit_eq [OF assms(3), of E] by (auto split: if_splits)
  define a where "a = h_next s"
  have im1: "impls s1 i = Some (im\<lparr>ni_osPrivate := Some a\<rparr>)" by (simp add: s1 a_def)
  have nd1: "ndevs s1 d = Some nd" using assms(5) by (simp add: s1)
  have inv1: "netdev_inv s1" using init_keeps_inv [OF assms(1,3,6)] by simp
  note D1 = netdev_invD [OF inv1]
  have fields: "ni_osPrivate (im\<lparr>ni_osPrivate := Some a\<rparr>) = Some a"
    "ni_netDevice (im\<lparr>ni_osPrivate := Some a\<rparr>) = Some d" using assms(4) by simp_all
  note O = LiteNetDevAdd_outcome [OF im1 fields nd1 assms(2) D1(10,11,13) assms(7)]
  have n: "h_next s1 = Suc a" by (simp add: s1 a_def)
  have fr: "h_blk s a = None" "adapters s a = None" "h_blk s (Suc a) = None" "Suc a \<notin> registered (ev s)"
    "netifs s (Suc a) = None"
    using D(10,12) D1(10,11,13) by (simp_all add: s1 a_def)
  have base: "h_blk s1 = (h_blk s)(a \<mapsto> [])" "adapters s1 = (adapters s)(a \<mapsto> \<lparr>lwipNetif = None\<rparr>)"
    "netifs s1 = netifs s" "ev s1 = ev s" "h_bad s1 = h_bad s"
    by (simp_all add: s1 a_def)
  have fin: ?thesis
    if r': "r' = HDF_SUCCESS" and s3: "h_blk s3 = h_blk s1" "netifs s3 = netifs s" "impls s3 = impls s1"
      "adapters s3 = adapters s1" "registered (ev s3) = registered (ev s)" "h_bad s3 = h_bad s"
    using deinit_undoes [OF fr(1,2) _ _ _ assms(9), of im] s3 base im1 r' by simp
  from O show ?thesis
  proof (elim disjE conjE exE)
    assume f: "h_blk s2 = h_blk s1" "netifs s2 = netifs s1" "adapters s2 = adapters s1" "impls s2 = impls s1"
      "h_bad s2 = h_bad s1" "registered (ev s2) = registered (ev s1)"
    have "s3 = s2 \<and> r' = HDF_SUCCESS" using assms(8) f base im1 by (simp add: LiteNetDevDelete_def)
    then show ?thesis using f base by (intro fin) simp_all
  next
    fix nf
    assume g: "h_blk s2 = (h_blk s1)(h_next s1 \<mapsto> [])" "impls s2 = impls s1"
      "adapters s2 = (adapters s1)(a \<mapsto> \<lparr>lwipNetif = Some (h_next s1)\<rparr>)"
      "netifs s2 = (netifs s1)(h_next s1 \<mapsto> nf)"
      "registered (ev s2) = insert (h_next s1) (registered (ev s1))" "h_bad s2 = h_bad s1"
    note delete_registered [of s2 i "im\<lparr>ni_osPrivate := Some a\<rparr>" a "Suc a" "[]" E]
    then show ?thesis
      using assms(8) g base n fr im1 by (intro fin) (auto simp: fun_upd_idem emit_def)
  qed
qed

text \<open>The filter lets a frame through by its link or its ether type, and frees the others.\<close>

lemma filter_outcome:
  assumes "nb_inv s p" and "impls s i = Some im" and "ni_netDevice im = Some d" and "ndevs s d = Some nd"
    and "ETHER_TYPE_OFF E + 2 \<le> length (nb_bytes s p)"
  shows "LiteNetDevDataFilter E (Some i) (Some p) s =
    (if nd_LinkLayerType nd = ETHERNET_LINK \<or>
        ether_pass E (ntohs (take 2 (drop (ETHER_TYPE_OFF E) (nb_bytes s p))))
     then (PROCESSING_CONTINUE, s) else (PROCESSING_COMPLETE, NetBufFree (Some p) s))"
proof -
  obtain b m bs where b: "nbs s p = Some b" "nb_wf b" "nb_mem b = Some m" "h_blk s m = Some bs"
    "length bs = unat (nb_len b)" "nb_segs s p = nb_view b bs"
    using assms(1) by (rule nb_invE)
  obtain h dd t where v: "bs = h @ dd @ t" "length h = unat (bf_len (nb_head b))"
    "length dd = unat (bf_len (nb_data b))" "length t = unat (bf_len (nb_tail b))" "nb_view b bs = (h, dd, t)"
    using nb_view_split [OF b(2,5)] .
  have dd: "nb_bytes s p = dd" using b v by (simp add: nb_bytes_def)
  have off: "unat (bf_offset (nb_data b)) = length h" using b(2) v by (simp add: nb_wf_def)
  have rd: "mem_read m (unat (bf_offset (nb_data b)) + ETHER_TYPE_OFF E) 2 s =
      Some (take 2 (drop (ETHER_TYPE_OFF E) dd))"
    using b v off assms(5) dd by (simp add: mem_read_def)
  show ?thesis
    using b(1,3) assms(2-4) rd dd
    by (simp add: LiteNetDevDataFilter_def NetBufGetAddress_def nb_buf_def seg_ids)
qed

text \<open>
  C5. LiteNetDevReceive of a registered device, on a valid buffer whose data reaches to the
  ether type and with ETH_PAD_SIZE 0: an invalid flag or a device without a netif is refused and
  the frame stays with the driver as it is. Otherwise the driver's buffer is disposed of exactly
  once; lwIP is handed exactly the bytes of its data segment when the link is Ethernet or the
  ether type is a known one, unless the frame is longer than 65535 bytes or lwIP has no buffer,
  which is answered as a failure; other frames are dropped.
\<close>

theorem netdev_receive:
  assumes "impls s i = Some im" and "ni_netDevice im = Some d" and "ndevs s d = Some nd"
    and "nb_inv s p" and "ETHER_TYPE_OFF E + 2 \<le> length (nb_bytes s p)" and "ETH_PAD_SIZE E = 0"
    and "pbuf_alloc_contract (pbuf_alloc E)" and "copy_contract lim (copy_ok E)" and "65535 \<le> lim"
  shows "case LiteNetDevReceive E (Some i) (Some p) flag s of (r, s') \<Rightarrow>
     if MAX_RECEIVE_FLAG E \<le> flag \<or> GetNetIfFromDevImpl (Some i) s = None
     then r = HDF_ERR_INVALID_PARAM \<and> s' = s
     else nbs s' p = None \<and> dom (h_blk s') = dom (h_blk s) - set (nb_blocks s p) \<and> h_bad s' = h_bad s \<and>
     (if nd_LinkLayerType nd = ETHERNET_LINK \<or>
         ether_pass E (ntohs (take 2 (drop (ETHER_TYPE_OFF E) (nb_bytes s p))))
      then (if 65535 < length (nb_bytes s p) \<or> pbuf_alloc E (ev s) (length (nb_bytes s p)) = None
            then r = HDF_FAILURE \<and> ev s' = ev s
            else r = HDF_SUCCESS \<and> ev s' = ev s @ [(PbufAlloc (length (nb_bytes s p)), 0),
              (DriverifInput (the (GetNetIfFromDevImpl (Some i) s)) (nb_bytes s p), 0)])
      else r = HDF_SUCCESS \<and> ev s' = ev s)"
proof -
  obtain b m where b: "nbs s p = Some b" "nb_mem b = Some m"
    using assms(4) by (rule nb_invE)
  have blk: "nb_blocks s p = [p, m]" using b by (simp add: nb_blocks_def)
  define dd where "dd = nb_bytes s p"
  then have dd: "nb_bytes s p = dd" by simp
  let ?pass = "nd_LinkLayerType nd = ETHERNET_LINK \<or> ether_pass E (ntohs (take 2 (drop (ETHER_TYPE_OFF E) dd)))"
  note F = filter_outcome [OF assms(4,1,2,3,5), folded dd_def]
  have free: "NetBufFree (Some p) t =
      t\<lparr>h_blk := (h_blk s)(m := None, p := None), nbs := (nbs s)(p := None)\<rparr>"
    if "h_blk t = h_blk s" "nbs t = nbs s" for t
  proof -
    have "nb_inv t p" using assms(4) unfolding nb_inv_def that by simp
    from NetBufFree_spec [OF this, of b m] that b show ?thesis by simp
  qed
  note top = LiteNetDevReceive_def F LiteNetDevDataReceive_def ConverNetBufToPBuf_def
  have ne: "nb_bytes s p \<noteq> []" using assms(5) by auto
  show ?thesis
  proof (cases "MAX_RECEIVE_FLAG E \<le> flag \<or> GetNetIfFromDevImpl (Some i) s = None")
    case True
    then show ?thesis by (auto simp: LiteNetDevReceive_def)
  next
    case ok: False
    then obtain n where n: "GetNetIfFromDevImpl (Some i) s = Some n" "\<not> MAX_RECEIVE_FLAG E \<le> flag"
      by auto
    have conv: "NetBuf2Pbuf E (Some p) s = (None, s)" if "65535 < length dd \<or> pbuf_alloc E (ev s) (length dd) = None"
      using that NetBuf2Pbuf_spec [OF assms(4,8,9) ne _ assms(6,7)] NetBuf2Pbuf_long [OF assms(4,6)] dd
      by (cases "65535 < length dd") auto
    have conv2: "\<exists>pb. NetBuf2Pbuf E (Some p) s = (Some pb, emit (PbufAlloc (length dd), 0) s) \<and> link_bytes pb = dd"
      if "\<not> (65535 < length dd \<or> pbuf_alloc E (ev s) (length dd) = None)"
      using that NetBuf2Pbuf_spec [OF assms(4,8,9) ne _ assms(6,7)] dd by (auto simp: link_bytes_def)
    consider (drop) "\<not> ?pass" | (none) "?pass" "NetBuf2Pbuf E (Some p) s = (None, s)"
        "65535 < length dd \<or> pbuf_alloc E (ev s) (length dd) = None"
      | (fits) pb where "?pass" "NetBuf2Pbuf E (Some p) s = (Some pb, emit (PbufAlloc (length dd), 0) s)"
        "link_bytes pb = dd" "\<not> (65535 < length dd \<or> pbuf_alloc E (ev s) (length dd) = None)"
      using conv conv2 by metis
    then show ?thesis
    proof cases
      case drop
      then show ?thesis using n free [of s] blk dd by (auto simp: top)
    next
      case none
      then show ?thesis using n free [of s] blk dd by (auto simp: top)
    next
      case fits
      then show ?thesis
        using n blk dd free [of "emit (DriverifInput n dd, 0) (emit (PbufAlloc (length dd), 0) s)"]
        by (auto simp: top emit_def)
    qed
  qed
qed

lemma pbuf_copy_blocks:
  "pbuf_copy E p ls offset s = (Some q, s') \<Longrightarrow> nb_blocks s' p = nb_blocks s p"
proof (induction ls arbitrary: offset s)
  case (Cons l ls)
  have "nb_blocks (snd (NetBufPush (Some p) i n s1)) p = nb_blocks s1 p" for i n and s1 :: "'a net_sys_scheme"
    by (auto simp: NetBufPush_def nb_blocks_def push_bufs_frame split: option.splits)
  moreover have "nb_blocks (mem_write m off ys s) p = nb_blocks s p" for m off ys
    by (auto simp: mem_write_def nb_blocks_def split: option.splits)
  moreover have "nb_blocks (s\<lparr>h_bad := True\<rparr>) p = nb_blocks s p" by (simp add: nb_blocks_def)
  ultimately show ?case
    using Cons by (auto simp: Let_def split: option.splits if_splits)
qed simp

lemma pbuf_copy_frame:
  assumes push: "\<And>p i n s. g (snd (NetBufPush (Some p) i n s)) = g s"
    and wr: "\<And>m off ys s. g (mem_write m off ys s) = g s" and fr: "\<And>p s. g (NetBufFree (Some p) s) = g s"
    and bad: "\<And>s. g (s\<lparr>h_bad := True\<rparr>) = g s"
  shows "g (snd (pbuf_copy E p ls offset s)) = g s"
proof (induction ls arbitrary: offset s)
  case (Cons l ls)
  then show ?case by (auto simp: Let_def push wr fr bad split: option.splits)
qed simp

lemma ndevs_pbuf_copy:
  fixes s :: "('a) net_dev_sys_scheme"
  shows "ndevs (snd (pbuf_copy E p ls offset s)) = ndevs s"
proof (rule pbuf_copy_frame)
  show "ndevs (snd (NetBufPush (Some p) i n s)) = ndevs s" for p i n and s :: "('a) net_dev_sys_scheme"
    by (auto simp: NetBufPush_def split: option.splits)
  show "ndevs (mem_write m off ys s) = ndevs s" for m off ys and s :: "('a) net_dev_sys_scheme"
    by (auto simp: mem_write_def split: option.splits)
  show "ndevs (NetBufFree (Some p) s) = ndevs s" for p and s :: "('a) net_dev_sys_scheme"
    by (auto simp: NetBufFree_def LOS_MemFree_def Let_def split: option.splits)
qed simp

definition dev_alloc_frame :: "(('a) net_dev_sys_scheme, 'm) net_dev_env_scheme \<Rightarrow> bool" where
  "dev_alloc_frame E \<longleftrightarrow> (\<forall>d n s. ndevs (snd (NetBufDevAlloc E d n s)) = ndevs s)"

text \<open>A buffer that was filled from a chain: what is done with it.\<close>

lemma send_filled:
  assumes "netif_dev (Some nf) s = Some d" and "ndevs s d = Some nd" and "dev_alloc_frame E"
    and "LwipSendCheck (Some nf) (Some ch) s = HDF_SUCCESS" and "NetBufDevAlloc E d (ucast (pc_tot_len ch)) s = (Some p, s1)"
    and "Pbuf2NetBuf E d (Some ch) s = (Some p, s2)"
  shows "LwipSend E (Some nf) (Some ch) s =
      (case nd_netDeviceIf nd of None \<Rightarrow> NetBufFree (Some p) s2
       | Some i \<Rightarrow> if if_xmit i then emit (Xmit d p, 0) s2 else NetBufFree (Some p) s2)
    \<and> nb_blocks s2 p = nb_blocks s1 p"
proof -
  have "ndevs s1 = ndevs s"
    using assms(3,5) unfolding dev_alloc_frame_def by (metis snd_conv)
  moreover have "ndevs s2 = ndevs s1 \<and> nb_blocks s2 p = nb_blocks s1 p"
  proof -
    obtain off where "pbuf_copy E p (pc_links ch) off s1 = (Some p, s2)"
      using assms(5,6) by (auto simp: Pbuf2NetBuf_def split: option.splits)
    then show ?thesis
      using ndevs_pbuf_copy [of E p "pc_links ch" off s1] pbuf_copy_blocks [of E p "pc_links ch" off s1] by simp
  qed
  ultimately show ?thesis
    using assms(1,2,4,6) by (simp add: LwipSend_def ConverPbuffToNetBuf_def split: option.splits)
qed

text \<open>
  C7. LwipSend hands the driver one net buffer that holds exactly the bytes of the lwIP chain,
  or, when the driver has no xmit, frees that buffer with its memory.
\<close>

theorem netdev_send:
  assumes "heap_ok s" and "netif_dev (Some nf) s = Some d" and "ndevs s d = Some nd"
    and "dev_alloc_contract E" and "dev_alloc_frame E" and "chain_ok ch"
    and "copy_contract lim (copy_ok E)" and "65535 \<le> lim"
  shows "case NetBufDevAlloc E d (ucast (pc_tot_len ch)) s of
      (None, s1) \<Rightarrow> LwipSend E (Some nf) (Some ch) s = s1
    | (Some p, s1) \<Rightarrow> (let s' = LwipSend E (Some nf) (Some ch) s in
        h_bad s' = h_bad s \<and>
        (if (case nd_netDeviceIf nd of None \<Rightarrow> False | Some i \<Rightarrow> if_xmit i)
         then last (ev s') = (Xmit d p, 0) \<and> nb_inv s' p \<and> nb_bytes s' p = chain_bytes (pc_links ch) \<and>
              dom (h_blk s') = dom (h_blk s1)
         else nbs s' p = None \<and> dom (h_blk s') = dom (h_blk s1) - set (nb_blocks s1 p)))"
proof (cases "NetBufDevAlloc E d (ucast (pc_tot_len ch)) s")
  case (Pair a s1)
  obtain nff im where chk: "netifs s nf = Some nff" "Option.bind (nf_state nff) (impls s) = Some im"
    "ni_netDevice im = Some d"
    using assms(2) by (auto simp: netif_dev_def bind_eq_Some_conv)
  have ok: "LwipSendCheck (Some nf) (Some ch) s = HDF_SUCCESS" using chk by (simp add: LwipSendCheck_def)
  note P = Pbuf2NetBuf_runs [OF assms(1,4,6-8), of d, unfolded Pair]
  show ?thesis
  proof (cases a)
    case None
    then show ?thesis using P Pair ok assms(2) by (simp add: LwipSend_def ConverPbuffToNetBuf_def)
  next
    case (Some p)
    then obtain s2 where s2: "Pbuf2NetBuf E d (Some ch) s = (Some p, s2)" "nb_inv s2 p" "h_bad s2 = h_bad s"
      "nb_bytes s2 p = chain_bytes (pc_links ch)" "dom (h_blk s2) = dom (h_blk s1)"
      using P by auto
    have run: "LwipSend E (Some nf) (Some ch) s =
        (case nd_netDeviceIf nd of None \<Rightarrow> NetBufFree (Some p) s2
         | Some i \<Rightarrow> if if_xmit i then emit (Xmit d p, 0) s2 else NetBufFree (Some p) s2)"
      and blk: "nb_blocks s2 p = nb_blocks s1 p"
      using send_filled [OF assms(2,3,5) ok Pair [unfolded Some] s2(1)] by blast+
    obtain b m where b: "nbs s2 p = Some b" "nb_mem b = Some m" using s2(2) by (rule nb_invE)
    note free = NetBufFree_spec [OF s2(2) b]
    have "nb_blocks s2 p = [p, m]" using b by (simp add: nb_blocks_def)
    with blk have bm: "nb_blocks s1 p = [p, m]" by simp
    show ?thesis
    proof (cases "case nd_netDeviceIf nd of None \<Rightarrow> False | Some i \<Rightarrow> if_xmit i")
      case True
      then have r: "LwipSend E (Some nf) (Some ch) s = emit (Xmit d p, 0) s2"
        using run by (simp split: option.splits)
      have "nbs (emit (Xmit d p, 0) s2) = nbs s2" by (simp add: emit_def)
      then have "nb_inv (emit (Xmit d p, 0) s2) p = nb_inv s2 p"
        "nb_bytes (emit (Xmit d p, 0) s2) p = nb_bytes s2 p"
        by (simp_all only: nb_inv_def nb_bytes_def nb_segs_def emit_simps)
      then show ?thesis using r True Pair Some s2 by simp
    next
      case False
      then have r: "LwipSend E (Some nf) (Some ch) s = NetBufFree (Some p) s2"
        using run by (auto split: option.splits)
      then show ?thesis using False Pair Some s2 free bm by auto
    qed
  qed
qed

subsection \<open>A device that satisfies every hypothesis\<close>

definition nd_env :: "(net_dev_sys, unit) net_dev_env_scheme" where
  "nd_env =
     \<lparr>mem_ok = (\<lambda>_ _. True), mem_junk = (\<lambda>_ _. 170), copy_ok = (\<lambda>d n. n \<le> d \<and> 0 < d),
      pbuf_alloc = (\<lambda>_ n. Some (replicate n 0)), ETH_PAD_SIZE = 0,
      NetBufDevAlloc = (\<lambda>_. NetBufAlloc
        \<lparr>mem_ok = (\<lambda>_ _. True), mem_junk = (\<lambda>_ _. 170), copy_ok = (\<lambda>d n. n \<le> d \<and> 0 < d)\<rparr>),
      net_api = (\<lambda>_ _. 0), cur_task_is_system = (\<lambda>_. Some False), netif_is_link_up = (\<lambda>_ _. True),
      netif_num = (\<lambda>_ _. 0), strncpy_ok = (\<lambda>d s n. n < d), snprintf_name = (\<lambda>_ s _. Some (s @ ''0'')),
      SACK_2_0 = True, IFNAMSIZ = 16, NETIF_MAX_HWADDR_LEN = 6, MAC_ADDR_SIZE = 6, MAX_RECEIVE_FLAG = 1,
      COMMON_ERROR = 255, ETHER_TYPE_OFF = 12, ETHER_TYPE_IP = 0x800, ETHER_TYPE_ARP = 0x806,
      ETHER_TYPE_RARP = 0x8035, ETHER_TYPE_IPV6 = 0x86dd, ETHER_TYPE_6LO = 0xa0ed, ETHER_TYPE_PAE = 0x888e\<rparr>"

text \<open>Device 7 with implementation object 8, its adapter 0 with no \<open>netif\<close> yet, and a frame in buffer 2.\<close>

definition nd_demo :: net_dev_sys where
  "nd_demo =
     \<lparr>h_next = 3, h_blk = [0 \<mapsto> [], 1 \<mapsto> [1, 2, 3, 4, 5, 6, 7, 8, 9, 10, 11, 12, 8, 0, 42], 2 \<mapsto> []],
      h_bad = False, ev = [],
      nbs = [2 \<mapsto> \<lparr>nb_head = \<lparr>bf_offset = 0, bf_len = 0\<rparr>, nb_data = \<lparr>bf_offset = 0, bf_len = 15\<rparr>,
                    nb_tail = \<lparr>bf_offset = 15, bf_len = 0\<rparr>, nb_mem = Some 1, nb_len = 15,
                    nb_dataLen = 15, nb_dev = None, nb_qmap = 0\<rparr>],
      impls = [8 \<mapsto> \<lparr>ni_netDevice = Some 7, ni_osPrivate = Some 0, ni_interFace = True\<rparr>],
      ndevs = [7 \<mapsto> \<lparr>nd_name = ''wlan'', nd_LinkLayerType = WIFI_LINK, nd_macAddr = [1, 2, 3, 4, 5, 6],
                      nd_netDeviceIf = Some \<lparr>if_xmit = True, if_setMacAddr = True, if_linkStatusChanged = True\<rparr>\<rparr>],
      adapters = [0 \<mapsto> \<lparr>lwipNetif = None\<rparr>], netifs = Map.empty\<rparr>"

lemma nd_demo_inv: "netdev_inv nd_demo" "strncpy_contract nd_env"
  by (simp_all add: netdev_inv_def nd_demo_def heap_ok_def strncpy_contract_def nd_env_def FREE_SPACE_SIZE_def)

lemma nd_demo_ids:
  "impls nd_demo 8 = Some \<lparr>ni_netDevice = Some 7, ni_osPrivate = Some 0, ni_interFace = True\<rparr>"
  "\<exists>nd. ndevs nd_demo 7 = Some nd"
  by (simp_all add: nd_demo_def)


lemma nd_demo_add: "LiteNetDevAdd nd_env (Some 8) nd_demo = (HDF_SUCCESS, snd (LiteNetDevAdd nd_env (Some 8) nd_demo))"
  by (simp add: LiteNetDevAdd_def CreateLwipNetIf_def AddP2pNetDev_def update_dev_name_def copy_mac_def
      alloc_eqs ext_call_eq nd_env_def nd_demo_def FREE_SPACE_SIZE_def P2P_HEAD_def emit_def patch_def
      eval_nat_numeral Let_def)

lemma netdev_no_dangling_witness:
  "3 \<in> registered (ev (snd (LiteNetDevAdd nd_env (Some 8) nd_demo))) \<and>
   netifs (snd (LiteNetDevAdd nd_env (Some 8) nd_demo)) 3 \<noteq> None"
proof -
  have "(nd_step nd_env)\<^sup>*\<^sup>* nd_demo (snd (LiteNetDevAdd nd_env (Some 8) nd_demo))"
    using nd_step.add [OF nd_demo_ids(1) nd_demo_add] by auto
  note N = netdev_no_dangling [OF nd_demo_inv this]
  have "h_next nd_demo = 3" by (simp add: nd_demo_def)
  then have "3 \<in> registered (ev (snd (LiteNetDevAdd nd_env (Some 8) nd_demo)))"
    by (simp add: LiteNetDevAdd_def CreateLwipNetIf_def AddP2pNetDev_def update_dev_name_def copy_mac_def
      alloc_eqs ext_call_eq nd_env_def nd_demo_def FREE_SPACE_SIZE_def P2P_HEAD_def emit_def patch_def
      eval_nat_numeral Let_def registered_def)
  then show ?thesis using N by blast
qed

lemma netdev_add_witness:
  "GetNetIfFromDevImpl (Some 8) (snd (LiteNetDevAdd nd_env (Some 8) nd_demo)) = Some (h_next nd_demo)"
proof -
  obtain nd where "ndevs nd_demo 7 = Some nd" using nd_demo_ids(2) ..
  from netdev_add [OF nd_demo_inv nd_demo_ids(1) _ _ this] nd_demo_add
  show ?thesis by (auto split: prod.splits if_splits)
qed

lemma netdev_lifecycle_witness:
  "\<exists>s1 s2 s3 s4. LiteNetDevInit nd_env (Some 8) nd_demo = (HDF_SUCCESS, s1) \<and>
     LiteNetDevAdd nd_env (Some 8) s1 = (HDF_SUCCESS, s2) \<and>
     LiteNetDevDelete nd_env (Some 8) s2 = (HDF_SUCCESS, s3) \<and>
     LiteNetDevDeInit (Some 8) s3 = (HDF_SUCCESS, s4) \<and> h_blk s4 = h_blk nd_demo"
proof -
  obtain nd where nd: "ndevs nd_demo 7 = Some nd" using nd_demo_ids(2) ..
  obtain s1 where s1: "LiteNetDevInit nd_env (Some 8) nd_demo = (HDF_SUCCESS, s1)"
    using LiteNetDevInit_eq [OF nd_demo_ids(1), of nd_env] by (simp add: nd_env_def)
  obtain r s2 where s2: "LiteNetDevAdd nd_env (Some 8) s1 = (r, s2)" by fastforce
  obtain r' s3 where s3: "LiteNetDevDelete nd_env (Some 8) s2 = (r', s3)" by fastforce
  obtain r'' s4 where s4: "LiteNetDevDeInit (Some 8) s3 = (r'', s4)" by fastforce
  have "fst (LiteNetDevAdd nd_env (Some 8) (snd (LiteNetDevInit nd_env (Some 8) nd_demo))) = HDF_SUCCESS"
    by (simp add: LiteNetDevInit_def LiteNetDevAdd_def CreateLwipNetIf_def AddP2pNetDev_def update_dev_name_def
      copy_mac_def alloc_eqs ext_call_eq nd_env_def nd_demo_def FREE_SPACE_SIZE_def P2P_HEAD_def emit_def patch_def
      eval_nat_numeral Let_def)
  then have "r = HDF_SUCCESS" using s1 s2 by simp
  then show ?thesis
    using netdev_lifecycle [OF nd_demo_inv nd_demo_ids(1) _ nd s1 s2 s3 s4] s1 s2 s3 s4 by auto
qed

lemma nd_demo_facts:
  "heap_ok nd_demo" "nb_inv nd_demo 2" "nb_bytes nd_demo 2 = [1, 2, 3, 4, 5, 6, 7, 8, 9, 10, 11, 12, 8, 0, 42]"
  "copy_contract lim (copy_ok nd_env)" "pbuf_alloc_contract (pbuf_alloc nd_env)" "dev_alloc_frame nd_env"
  by (simp_all add: nd_demo_def heap_ok_def nb_inv_def nb_wf_def nb_bytes_def nb_segs_def nb_view_def nd_env_def
      copy_contract_def pbuf_alloc_contract_def dev_alloc_frame_def NetBufAlloc_def LOS_MemAlloc_def
      memset_zero_def Let_def)

definition nd_demo_up :: net_dev_sys where
  "nd_demo_up = nd_demo\<lparr>h_next := 4, h_blk := (h_blk nd_demo)(3 \<mapsto> []),
     adapters := [0 \<mapsto> \<lparr>lwipNetif = Some 3\<rparr>],
     netifs := [3 \<mapsto> \<lparr>nf_state = Some 8, nf_link_layer_type = WIFI_LINK, nf_hwaddr_len = 6,
                       nf_hwaddr = [1, 2, 3, 4, 5, 6], nf_name = ''wlan'', nf_full_name = []\<rparr>]\<rparr>"

lemma netdev_receive_witness:
  "ev (snd (LiteNetDevReceive nd_env (Some 8) (Some 2) 0 nd_demo_up)) =
     [(PbufAlloc 15, 0), (DriverifInput 3 [1, 2, 3, 4, 5, 6, 7, 8, 9, 10, 11, 12, 8, 0, 42], 0)]"
proof -
  let ?im = "\<lparr>ni_netDevice = Some 7, ni_osPrivate = Some 0, ni_interFace = True\<rparr>"
  have g: "GetNetIfFromDevImpl (Some 8) nd_demo_up = Some 3" "impls nd_demo_up 8 = Some ?im" "ev nd_demo_up = []"
    by (simp_all add: GetNetIfFromDevImpl_def nd_demo_up_def nd_demo_def)
  obtain nd where nd: "ndevs nd_demo_up 7 = Some nd" by (simp add: nd_demo_up_def nd_demo_def)
  have b: "nb_inv nd_demo_up 2" "nb_bytes nd_demo_up 2 = [1, 2, 3, 4, 5, 6, 7, 8, 9, 10, 11, 12, 8, 0, 42]"
    by (simp_all add: nd_demo_up_def nd_demo_def nb_inv_def nb_wf_def nb_bytes_def nb_segs_def nb_view_def)
  have e: "ETHER_TYPE_OFF nd_env = 12" "MAX_RECEIVE_FLAG nd_env = 1" "ETH_PAD_SIZE nd_env = 0"
    "\<And>tr k. pbuf_alloc nd_env tr k = Some (replicate k 0)" "ether_pass nd_env (ntohs [8, 0])"
    by (simp_all add: nd_env_def ether_pass_def ntohs_def)
  show ?thesis
    using netdev_receive [OF g(2) _ nd b(1) _ e(3) nd_demo_facts(5) nd_demo_facts(4) order_refl, of 0]
    by (auto simp: b(2) e g(1,3) split: prod.splits)
qed

lemma netdev_send_witness:
  "last (ev (LwipSend nd_env (Some 3) (Some demo_chain) nd_demo_up)) = (Xmit 7 4, 0)"
proof -
  have ok: "heap_ok nd_demo_up" "netif_dev (Some 3) nd_demo_up = Some 7"
    by (simp_all add: nd_demo_up_def nd_demo_def heap_ok_def netif_dev_def)
  let ?nd = "\<lparr>nd_name = ''wlan'', nd_LinkLayerType = WIFI_LINK, nd_macAddr = [1, 2, 3, 4, 5, 6],
     nd_netDeviceIf = Some \<lparr>if_xmit = True, if_setMacAddr = True, if_linkStatusChanged = True\<rparr>\<rparr>"
  have nd: "ndevs nd_demo_up 7 = Some ?nd" by (simp add: nd_demo_up_def nd_demo_def)
  have c: "chain_ok demo_chain"
    by (simp add: chain_ok_def demo_chain_def link_ok_def link_bytes_def)
  have dev: "dev_alloc_contract nd_env"
  proof (unfold dev_alloc_contract_def, intro allI impI)
    fix netdev n p and s s1 :: net_dev_sys
    let ?M = "\<lparr>mem_ok = (\<lambda>_ _. True), mem_junk = (\<lambda>_ _. 170), copy_ok = (\<lambda>d n. n \<le> d \<and> 0 < d)\<rparr> :: mem_env"
    assume s: "heap_ok s" and "NetBufDevAlloc nd_env netdev n s = (Some p, s1)"
    then have r: "NetBufAlloc ?M n s = (Some p, s1)" by (simp add: nd_env_def)
    note A = NetBufAlloc_spec [OF s r]
    show "nb_inv s1 p \<and> nb_bytes s1 p = [] \<and> h_bad s1 = h_bad s \<and> n \<le> NetBufGetRoom (nbs s1 p) E_TAIL_BUF"
      using A room_is_tail [OF A(2,3)] by (simp add: nb_bytes_def word_le_nat_alt)
  qed
  have a: "fst (NetBufDevAlloc nd_env 7 (ucast (pc_tot_len demo_chain)) nd_demo_up) = Some 4"
    by (simp add: nd_env_def nd_demo_up_def NetBufAlloc_def LOS_MemAlloc_def Let_def)
  show ?thesis
    using netdev_send [OF ok nd dev nd_demo_facts(6) c nd_demo_facts(4) order_refl] a
    by (auto simp: Let_def split: prod.splits option.splits)
qed

end
