(* ===== verification/Osal_Sync.thy ===== *)
theory Osal_Sync
  imports Osal_Mem
begin

text \<open>
  Locks, semaphores, timers and threads of \<open>khdf/liteos/osal/src\<close>: \<open>osal_mutex.c\<close>, \<open>osal_sem.c\<close>,
  \<open>osal_spinlock.c\<close>, \<open>osal_timer.c\<close>, \<open>osal_thread.c\<close>.

  Each wraps a LiteOS kernel object in a handle the caller owns. A handle argument is
  \<open>h option\<close> (\<open>None\<close> is the \<open>NULL\<close> pointer) and is returned with its new content. The kernel is
  outside the repository: \<open>los\<close> gives the status of a call from the trace of earlier ones,
  \<open>sem_id\<close>, \<open>timer_id\<close> and \<open>task_id\<close> the identifiers it hands out. A \<open>SwtmrCreate\<close> is recorded
  with the identifier the kernel chose for the new timer.
\<close>

datatype osal_ev =
    MuxInit nat | MuxDestroy nat | MuxLock nat u32 | MuxUnlock nat
  | SemCreate u16 | SemPend u32 u32 | SemPost u32 | SemDelete u32
  | SpinInit nat | SpinAcquire nat | SpinRelease nat
  | SpinAcquireIrqSave nat | SpinReleaseIrqRestore nat u32
  | IntLock | IntUnLock | IntRestore
  | SwtmrCreate u16 u32 bool nat nat | SwtmrStart u16 | SwtmrDelete u16
  | TaskCreate nat nat string u16 "nat option" "nat option" | TaskSuspend u32 | TaskResume u32
  | FwOpen string | FwFstat int | FwLseek int u32 | FwRead int nat | FwClose int

type_synonym osal_trace = "(osal_ev \<times> int) list"

record OsalMutex = realMutex :: "nat option"
record OsalSem = realSemaphore :: u32
record OsalSpinlock = realSpinlock :: "nat option"
record OsalTimer = realTimer :: "nat option"
record OsalThread = realThread :: "nat option"

record OsalLitetimer =
  lt_arg :: nat
  lt_timerID :: u16
  lt_func :: "nat option"
  lt_interval :: u32

record ThreadWrapper =
  tw_threadEntry :: nat
  tw_entryPara :: "nat option"
  tw_cpuID :: u32
  tw_tid :: u32

record OsalThreadParam =
  tp_name :: string
  tp_stackSize :: nat
  tp_priority :: nat

record osal_sys = "(osal_ev \<times> int) sys" +
  litetimers :: "nat \<Rightarrow> OsalLitetimer option"
  threads :: "nat \<Rightarrow> ThreadWrapper option"

record osal_env = mem_env +
  los :: "osal_trace \<Rightarrow> osal_ev \<Rightarrow> int"
  sem_id :: "osal_trace \<Rightarrow> u32"
  timer_id :: "osal_trace \<Rightarrow> u16"
  task_id :: "osal_trace \<Rightarrow> u32"
  irq_flags :: "osal_trace \<Rightarrow> u32"
  OS_INT_ACTIVE :: "osal_trace \<Rightarrow> bool"
  LOSCFG_KERNEL_SMP :: bool
  LOS_MS2Tick :: "u32 \<Rightarrow> u32"
  HDF_WAIT_FOREVER :: u32
  LOS_ETIMEDOUT :: int
  LOS_ERRNO_SEM_TIMEOUT :: int
  MAX_INVALID_TIMER_VID :: u16
  CPUID_TO_AFFI_MASK :: "u32 \<Rightarrow> nat"
  OSAL_THREAD_PRI_HIGHEST :: nat
  OSAL_THREAD_PRI_HIGH :: nat
  OSAL_THREAD_PRI_DEFAULT :: nat

text \<open>A kernel call whose only outcome is ``status \<open>LOS_OK\<close> or not''.\<close>

definition los_call ::
  "('m) osal_env_scheme \<Rightarrow> osal_ev \<Rightarrow> ('a) osal_sys_scheme \<Rightarrow> int \<times> ('a) osal_sys_scheme" where
  "los_call E c s = ext_call (los E) c s"

subsection \<open>Mutexes\<close>

definition OsalMutexInit ::
  "('m) osal_env_scheme \<Rightarrow> OsalMutex option \<Rightarrow> ('a) osal_sys_scheme
   \<Rightarrow> ret \<times> OsalMutex option \<times> ('a) osal_sys_scheme" where
  "OsalMutexInit E mutex s =
     (case mutex of None \<Rightarrow> (HDF_ERR_INVALID_PARAM, None, s) | Some m \<Rightarrow>
       (case OsalMemCalloc E (Objs ''LosMux'' 1) s of
          (None, s1) \<Rightarrow> (HDF_ERR_MALLOC_FAIL, Some (m\<lparr>realMutex := None\<rparr>), s1)
        | (Some mux, s1) \<Rightarrow>
            (case los_call E (MuxInit mux) s1 of (r, s2) \<Rightarrow>
              if r = 0 then (HDF_SUCCESS, Some (m\<lparr>realMutex := Some mux\<rparr>), s2)
              else (HDF_FAILURE, Some (m\<lparr>realMutex := None\<rparr>), OsalMemFree (Some mux) s2))))"

definition OsalMutexDestroy ::
  "('m) osal_env_scheme \<Rightarrow> OsalMutex option \<Rightarrow> ('a) osal_sys_scheme
   \<Rightarrow> ret \<times> OsalMutex option \<times> ('a) osal_sys_scheme" where
  "OsalMutexDestroy E mutex s =
     (case Option.bind mutex realMutex of None \<Rightarrow> (HDF_ERR_INVALID_PARAM, mutex, s) | Some mux \<Rightarrow>
       (case los_call E (MuxDestroy mux) s of (r, s1) \<Rightarrow>
         if r \<noteq> 0 then (HDF_FAILURE, mutex, s1)
         else (HDF_SUCCESS, map_option (\<lambda>m. m\<lparr>realMutex := None\<rparr>) mutex, OsalMemFree (Some mux) s1)))"

definition OsalMutexLock ::
  "('m) osal_env_scheme \<Rightarrow> OsalMutex option \<Rightarrow> ('a) osal_sys_scheme \<Rightarrow> ret \<times> ('a) osal_sys_scheme" where
  "OsalMutexLock E mutex s =
     (case Option.bind mutex realMutex of None \<Rightarrow> (HDF_ERR_INVALID_PARAM, s) | Some mux \<Rightarrow>
       (case los_call E (MuxLock mux (LOS_MS2Tick E (HDF_WAIT_FOREVER E))) s of (r, s1) \<Rightarrow>
         if r \<noteq> 0 then (HDF_FAILURE, s1) else (HDF_SUCCESS, s1)))"

definition OsalMutexTimedLock ::
  "('m) osal_env_scheme \<Rightarrow> OsalMutex option \<Rightarrow> u32 \<Rightarrow> ('a) osal_sys_scheme
   \<Rightarrow> ret \<times> ('a) osal_sys_scheme" where
  "OsalMutexTimedLock E mutex ms s =
     (case Option.bind mutex realMutex of None \<Rightarrow> (HDF_ERR_INVALID_PARAM, s) | Some mux \<Rightarrow>
       (case los_call E (MuxLock mux (LOS_MS2Tick E ms)) s of (r, s1) \<Rightarrow>
         if r \<noteq> 0 then (if r = LOS_ETIMEDOUT E then (HDF_ERR_TIMEOUT, s1) else (HDF_FAILURE, s1))
         else (HDF_SUCCESS, s1)))"

definition OsalMutexUnlock ::
  "('m) osal_env_scheme \<Rightarrow> OsalMutex option \<Rightarrow> ('a) osal_sys_scheme \<Rightarrow> ret \<times> ('a) osal_sys_scheme" where
  "OsalMutexUnlock E mutex s =
     (case Option.bind mutex realMutex of None \<Rightarrow> (HDF_ERR_INVALID_PARAM, s) | Some mux \<Rightarrow>
       (case los_call E (MuxUnlock mux) s of (r, s1) \<Rightarrow>
         if r \<noteq> 0 then (HDF_FAILURE, s1) else (HDF_SUCCESS, s1)))"

subsection \<open>Semaphores\<close>

definition HDF_INVALID_SEM_ID :: u32 where "HDF_INVALID_SEM_ID = 4294967295"

definition OsalSemInit ::
  "('m) osal_env_scheme \<Rightarrow> u32 \<Rightarrow> OsalSem option \<Rightarrow> ('a) osal_sys_scheme
   \<Rightarrow> ret \<times> OsalSem option \<times> ('a) osal_sys_scheme" where
  "OsalSemInit E val sem s =
     (case sem of None \<Rightarrow> (HDF_ERR_INVALID_PARAM, None, s) | Some m \<Rightarrow>
       (case los_call E (SemCreate (ucast val)) s of (r, s1) \<Rightarrow>
         if r = 0 then (HDF_SUCCESS, Some (m\<lparr>realSemaphore := sem_id E (ev s)\<rparr>), s1)
         else (HDF_FAILURE, Some (m\<lparr>realSemaphore := HDF_INVALID_SEM_ID\<rparr>), s1)))"

definition sem_real :: "OsalSem option \<Rightarrow> u32 option" where
  "sem_real sem =
     (case sem of None \<Rightarrow> None
      | Some m \<Rightarrow> if realSemaphore m = HDF_INVALID_SEM_ID then None else Some (realSemaphore m))"

definition OsalSemWait ::
  "('m) osal_env_scheme \<Rightarrow> OsalSem option \<Rightarrow> u32 \<Rightarrow> ('a) osal_sys_scheme
   \<Rightarrow> ret \<times> ('a) osal_sys_scheme" where
  "OsalSemWait E sem ms s =
     (case sem_real sem of None \<Rightarrow> (HDF_ERR_INVALID_PARAM, s) | Some i \<Rightarrow>
       (case los_call E (SemPend i (LOS_MS2Tick E ms)) s of (r, s1) \<Rightarrow>
         if r = 0 then (HDF_SUCCESS, s1)
         else if r = LOS_ERRNO_SEM_TIMEOUT E then (HDF_ERR_TIMEOUT, s1)
         else (HDF_FAILURE, s1)))"

definition OsalSemPost ::
  "('m) osal_env_scheme \<Rightarrow> OsalSem option \<Rightarrow> ('a) osal_sys_scheme \<Rightarrow> ret \<times> ('a) osal_sys_scheme" where
  "OsalSemPost E sem s =
     (case sem_real sem of None \<Rightarrow> (HDF_ERR_INVALID_PARAM, s) | Some i \<Rightarrow>
       (case los_call E (SemPost i) s of (r, s1) \<Rightarrow>
         if r = 0 then (HDF_SUCCESS, s1) else (HDF_FAILURE, s1)))"

definition OsalSemDestroy ::
  "('m) osal_env_scheme \<Rightarrow> OsalSem option \<Rightarrow> ('a) osal_sys_scheme
   \<Rightarrow> ret \<times> OsalSem option \<times> ('a) osal_sys_scheme" where
  "OsalSemDestroy E sem s =
     (case sem_real sem of None \<Rightarrow> (HDF_ERR_INVALID_PARAM, sem, s) | Some i \<Rightarrow>
       (case los_call E (SemDelete i) s of (r, s1) \<Rightarrow>
         if r \<noteq> 0 then (HDF_FAILURE, sem, s1)
         else (HDF_SUCCESS, map_option (\<lambda>m. m\<lparr>realSemaphore := HDF_INVALID_SEM_ID\<rparr>) sem, s1)))"

subsection \<open>Spin locks\<close>

definition OsalSpinInit ::
  "('m) osal_env_scheme \<Rightarrow> OsalSpinlock option \<Rightarrow> ('a) osal_sys_scheme
   \<Rightarrow> ret \<times> OsalSpinlock option \<times> ('a) osal_sys_scheme" where
  "OsalSpinInit E spinlock s =
     (case spinlock of None \<Rightarrow> (HDF_ERR_INVALID_PARAM, None, s) | Some m \<Rightarrow>
       (case OsalMemCalloc E (Objs ''spinlock_t'' 1) s of
          (None, s1) \<Rightarrow> (HDF_ERR_MALLOC_FAIL, Some (m\<lparr>realSpinlock := None\<rparr>), s1)
        | (Some spin, s1) \<Rightarrow>
            (HDF_SUCCESS, Some (m\<lparr>realSpinlock := Some spin\<rparr>), emit (SpinInit spin, 0) s1)))"

definition OsalSpinDestroy ::
  "OsalSpinlock option \<Rightarrow> ('a) osal_sys_scheme \<Rightarrow> ret \<times> OsalSpinlock option \<times> ('a) osal_sys_scheme" where
  "OsalSpinDestroy spinlock s =
     (case Option.bind spinlock realSpinlock of None \<Rightarrow> (HDF_ERR_INVALID_PARAM, spinlock, s) | Some spin \<Rightarrow>
       (HDF_SUCCESS, map_option (\<lambda>m. m\<lparr>realSpinlock := None\<rparr>) spinlock, OsalMemFree (Some spin) s))"

definition OsalSpinLock :: "OsalSpinlock option \<Rightarrow> ('a) osal_sys_scheme \<Rightarrow> ret \<times> ('a) osal_sys_scheme" where
  "OsalSpinLock spinlock s =
     (case Option.bind spinlock realSpinlock of None \<Rightarrow> (HDF_ERR_INVALID_PARAM, s) | Some spin \<Rightarrow>
       (HDF_SUCCESS, emit (SpinAcquire spin, 0) s))"

definition OsalSpinUnlock :: "OsalSpinlock option \<Rightarrow> ('a) osal_sys_scheme \<Rightarrow> ret \<times> ('a) osal_sys_scheme" where
  "OsalSpinUnlock spinlock s =
     (case Option.bind spinlock realSpinlock of None \<Rightarrow> (HDF_ERR_INVALID_PARAM, s) | Some spin \<Rightarrow>
       (HDF_SUCCESS, emit (SpinRelease spin, 0) s))"

definition OsalSpinLockIrq ::
  "('m) osal_env_scheme \<Rightarrow> OsalSpinlock option \<Rightarrow> ('a) osal_sys_scheme \<Rightarrow> ret \<times> ('a) osal_sys_scheme" where
  "OsalSpinLockIrq E spinlock s =
     (if LOSCFG_KERNEL_SMP E then
        (case Option.bind spinlock realSpinlock of None \<Rightarrow> (HDF_ERR_INVALID_PARAM, s) | Some spin \<Rightarrow>
          (HDF_SUCCESS, emit (SpinAcquire spin, 0) (emit (IntLock, 0) s)))
      else (HDF_SUCCESS, emit (IntLock, 0) s))"

definition OsalSpinUnlockIrq ::
  "('m) osal_env_scheme \<Rightarrow> OsalSpinlock option \<Rightarrow> ('a) osal_sys_scheme \<Rightarrow> ret \<times> ('a) osal_sys_scheme" where
  "OsalSpinUnlockIrq E spinlock s =
     (if LOSCFG_KERNEL_SMP E then
        (case Option.bind spinlock realSpinlock of None \<Rightarrow> (HDF_ERR_INVALID_PARAM, s) | Some spin \<Rightarrow>
          (HDF_SUCCESS, emit (IntUnLock, 0) (emit (SpinRelease spin, 0) s)))
      else (HDF_SUCCESS, emit (IntUnLock, 0) s))"

definition OsalSpinLockIrqSave ::
  "('m) osal_env_scheme \<Rightarrow> OsalSpinlock option \<Rightarrow> u32 option \<Rightarrow> ('a) osal_sys_scheme
   \<Rightarrow> ret \<times> u32 option \<times> ('a) osal_sys_scheme" where
  "OsalSpinLockIrqSave E spinlock flags s =
     (case (Option.bind spinlock realSpinlock, flags) of
        (Some spin, Some _) \<Rightarrow>
          (HDF_SUCCESS, Some (irq_flags E (ev s)), emit (SpinAcquireIrqSave spin, 0) s)
      | _ \<Rightarrow> (HDF_ERR_INVALID_PARAM, flags, s))"

definition OsalSpinUnlockIrqRestore ::
  "OsalSpinlock option \<Rightarrow> u32 option \<Rightarrow> ('a) osal_sys_scheme \<Rightarrow> ret \<times> ('a) osal_sys_scheme" where
  "OsalSpinUnlockIrqRestore spinlock flags s =
     (case (Option.bind spinlock realSpinlock, flags) of
        (Some spin, Some f) \<Rightarrow> (HDF_SUCCESS, emit (SpinReleaseIrqRestore spin f, 0) s)
      | _ \<Rightarrow> (HDF_ERR_INVALID_PARAM, s))"

subsection \<open>Timers\<close>

definition OsalTimerCreate ::
  "('m) osal_env_scheme \<Rightarrow> u32 \<Rightarrow> nat option \<Rightarrow> nat \<Rightarrow> OsalTimer option \<Rightarrow> ('a) osal_sys_scheme
   \<Rightarrow> ret \<times> OsalTimer option \<times> ('a) osal_sys_scheme" where
  "OsalTimerCreate E interval func arg timer s =
     (if func = None \<or> timer = None \<or> interval = 0 then (HDF_ERR_INVALID_PARAM, timer, s)
      else
        (case OsalMemCalloc E (Objs ''OsalLitetimer'' 1) s of
           (None, s1) \<Rightarrow> (HDF_ERR_MALLOC_FAIL, map_option (\<lambda>t. t\<lparr>realTimer := None\<rparr>) timer, s1)
         | (Some lt, s1) \<Rightarrow>
             (HDF_SUCCESS, map_option (\<lambda>t. t\<lparr>realTimer := Some lt\<rparr>) timer,
              s1\<lparr>litetimers := (litetimers s1)(lt \<mapsto>
                \<lparr>lt_arg = arg, lt_timerID = MAX_INVALID_TIMER_VID E, lt_func = func,
                 lt_interval = interval\<rparr>)\<rparr>)))"

text \<open>The timer object behind a handle; a handle to no object is undefined behaviour.\<close>

definition timer_obj :: "OsalTimer option \<Rightarrow> ('a) osal_sys_scheme \<Rightarrow> (nat \<times> OsalLitetimer option) option" where
  "timer_obj timer s = map_option (\<lambda>p. (p, litetimers s p)) (Option.bind timer realTimer)"

definition OsalStartTimer ::
  "('m) osal_env_scheme \<Rightarrow> OsalTimer option \<Rightarrow> bool \<Rightarrow> ('a) osal_sys_scheme \<Rightarrow> ret \<times> ('a) osal_sys_scheme" where
  "OsalStartTimer E timer periodic s =
     (case timer_obj timer s of
        None \<Rightarrow> (HDF_ERR_INVALID_PARAM, s)
      | Some (p, None) \<Rightarrow> (HDF_FAILURE, s\<lparr>h_bad := True\<rparr>)
      | Some (p, Some lt) \<Rightarrow>
          if lt_interval lt = 0 \<or> lt_func lt = None then (HDF_ERR_INVALID_PARAM, s)
          else
            let s1 = emit (IntLock, 0) s;
                timerID = timer_id E (ev s1) in
            (case los_call E (SwtmrCreate timerID (LOS_MS2Tick E (lt_interval lt)) periodic
                                (the (lt_func lt)) (lt_arg lt)) s1 of (r, s2) \<Rightarrow>
              if r \<noteq> 0 then (HDF_FAILURE, emit (IntRestore, 0) s2)
              else
                (case los_call E (SwtmrStart timerID) s2 of (r2, s3) \<Rightarrow>
                  if r2 \<noteq> 0
                  then (HDF_FAILURE, emit (IntRestore, 0) (snd (los_call E (SwtmrDelete timerID) s3)))
                  else
                    let s4 = emit (IntRestore, 0) s3
                    in (HDF_SUCCESS, s4\<lparr>litetimers := (litetimers s4)(p \<mapsto> lt\<lparr>lt_timerID := timerID\<rparr>)\<rparr>))))"

definition OsalTimerStartLoop ::
  "('m) osal_env_scheme \<Rightarrow> OsalTimer option \<Rightarrow> ('a) osal_sys_scheme \<Rightarrow> ret \<times> ('a) osal_sys_scheme" where
  "OsalTimerStartLoop E timer s = OsalStartTimer E timer True s"

definition OsalTimerStartOnce ::
  "('m) osal_env_scheme \<Rightarrow> OsalTimer option \<Rightarrow> ('a) osal_sys_scheme \<Rightarrow> ret \<times> ('a) osal_sys_scheme" where
  "OsalTimerStartOnce E timer s = OsalStartTimer E timer False s"

definition OsalTimerSetTimeout ::
  "('m) osal_env_scheme \<Rightarrow> OsalTimer option \<Rightarrow> u32 \<Rightarrow> ('a) osal_sys_scheme \<Rightarrow> ret \<times> ('a) osal_sys_scheme" where
  "OsalTimerSetTimeout E timer interval s =
     (if interval = 0 then (HDF_ERR_INVALID_PARAM, s)
      else
        (case timer_obj timer s of
           None \<Rightarrow> (HDF_ERR_INVALID_PARAM, s)
         | Some (p, None) \<Rightarrow> (HDF_FAILURE, s\<lparr>h_bad := True\<rparr>)
         | Some (p, Some lt) \<Rightarrow>
             if lt_timerID lt = MAX_INVALID_TIMER_VID E then (HDF_FAILURE, s)
             else if lt_interval lt = interval then (HDF_SUCCESS, s)
             else
               let s1 = s\<lparr>litetimers := (litetimers s)(p \<mapsto> lt\<lparr>lt_interval := interval\<rparr>)\<rparr> in
               (case los_call E (SwtmrDelete (lt_timerID lt)) (emit (IntLock, 0) s1) of (r, s2) \<Rightarrow>
                 if r \<noteq> 0 then (HDF_FAILURE, emit (IntRestore, 0) s2)
                 else OsalTimerStartLoop E timer (emit (IntRestore, 0) s2))))"

definition OsalTimerDelete ::
  "('m) osal_env_scheme \<Rightarrow> OsalTimer option \<Rightarrow> ('a) osal_sys_scheme
   \<Rightarrow> ret \<times> OsalTimer option \<times> ('a) osal_sys_scheme" where
  "OsalTimerDelete E timer s =
     (case timer_obj timer s of
        None \<Rightarrow> (HDF_ERR_INVALID_PARAM, timer, s)
      | Some (p, None) \<Rightarrow> (HDF_FAILURE, timer, s\<lparr>h_bad := True\<rparr>)
      | Some (p, Some lt) \<Rightarrow>
          let gone = map_option (\<lambda>t. t\<lparr>realTimer := None\<rparr>) timer;
              drop_obj = (\<lambda>t. (OsalMemFree (Some p) t)\<lparr>litetimers := (litetimers t)(p := None)\<rparr>) in
          if lt_timerID lt = MAX_INVALID_TIMER_VID E then (HDF_FAILURE, gone, drop_obj s)
          else
            (case los_call E (SwtmrDelete (lt_timerID lt)) (emit (IntLock, 0) s) of (r, s1) \<Rightarrow>
              if r = 0 then (HDF_SUCCESS, gone, drop_obj (emit (IntRestore, 0) s1))
              else (HDF_FAILURE, timer, emit (IntRestore, 0) s1)))"

subsection \<open>Threads\<close>

definition LOS_PRIORITY_WIN :: int where "LOS_PRIORITY_WIN = 3"
definition OS_TASK_PRIORITY_LOWEST :: int where "OS_TASK_PRIORITY_LOWEST = 31"
definition OSAL_INVALID_THREAD_ID :: u32 where "OSAL_INVALID_THREAD_ID = 4294967295"
definition OSAL_INVALID_CPU_ID :: u32 where "OSAL_INVALID_CPU_ID = 4294967295"
definition OSAL_PRIORITY_LOW :: u16 where "OSAL_PRIORITY_LOW = 15"
definition OSAL_PRIORITY_MIDDLE :: u16 where "OSAL_PRIORITY_MIDDLE = 16"
definition OSAL_PRIORITY_HIGH :: u16 where "OSAL_PRIORITY_HIGH = 24"
definition OSAL_PRIORITY_HIGHEST :: u16 where "OSAL_PRIORITY_HIGHEST = 31"

definition OsalThreadCreate ::
  "('m) osal_env_scheme \<Rightarrow> nat option \<Rightarrow> nat option \<Rightarrow> OsalThread option \<Rightarrow> ('a) osal_sys_scheme
   \<Rightarrow> ret \<times> OsalThread option \<times> ('a) osal_sys_scheme" where
  "OsalThreadCreate E threadEntry entryPara thread s =
     (case (thread, threadEntry) of
        (Some th, Some entry) \<Rightarrow>
          (case OsalMemCalloc E (Objs ''ThreadWrapper'' 1) s of
             (None, s1) \<Rightarrow> (HDF_ERR_MALLOC_FAIL, Some (th\<lparr>realThread := None\<rparr>), s1)
           | (Some para, s1) \<Rightarrow>
               (HDF_SUCCESS, Some (th\<lparr>realThread := Some para\<rparr>),
                s1\<lparr>threads := (threads s1)(para \<mapsto>
                  \<lparr>tw_threadEntry = entry, tw_entryPara = entryPara,
                   tw_cpuID = OSAL_INVALID_CPU_ID, tw_tid = OSAL_INVALID_THREAD_ID\<rparr>)\<rparr>))
      | _ \<Rightarrow> (HDF_ERR_INVALID_PARAM, thread, s))"

definition OsalThreadBind ::
  "OsalThread option \<Rightarrow> u32 \<Rightarrow> ('a) osal_sys_scheme \<Rightarrow> ret \<times> ('a) osal_sys_scheme" where
  "OsalThreadBind thread cpuID s =
     (case Option.bind thread realThread of None \<Rightarrow> (HDF_ERR_INVALID_PARAM, s) | Some p \<Rightarrow>
       (case threads s p of
          None \<Rightarrow> (HDF_SUCCESS, s\<lparr>h_bad := True\<rparr>)
        | Some para \<Rightarrow> (HDF_SUCCESS, s\<lparr>threads := (threads s)(p \<mapsto> para\<lparr>tw_cpuID := cpuID\<rparr>)\<rparr>)))"

definition thread_priority :: "('m) osal_env_scheme \<Rightarrow> nat \<Rightarrow> u16" where
  "thread_priority E pri =
     (if pri = OSAL_THREAD_PRI_HIGHEST E then OSAL_PRIORITY_HIGHEST
      else if pri = OSAL_THREAD_PRI_HIGH E then OSAL_PRIORITY_HIGH
      else if pri = OSAL_THREAD_PRI_DEFAULT E then OSAL_PRIORITY_MIDDLE
      else OSAL_PRIORITY_LOW)"

definition usTaskPrio :: "u16 \<Rightarrow> u16" where
  "usTaskPrio priority = word_of_int (OS_TASK_PRIORITY_LOWEST - (uint priority - LOS_PRIORITY_WIN))"

definition OsalThreadStart ::
  "('m) osal_env_scheme \<Rightarrow> OsalThread option \<Rightarrow> OsalThreadParam option \<Rightarrow> ('a) osal_sys_scheme
   \<Rightarrow> ret \<times> ('a) osal_sys_scheme" where
  "OsalThreadStart E thread param s =
     (if OS_INT_ACTIVE E (ev s) then (HDF_FAILURE, s)
      else
        (case (Option.bind thread realThread, param) of
           (Some p, Some pm) \<Rightarrow>
             if tp_priority pm > OSAL_THREAD_PRI_HIGHEST E then (HDF_ERR_INVALID_PARAM, s)
             else
               (case threads s p of
                  None \<Rightarrow> (HDF_FAILURE, s\<lparr>h_bad := True\<rparr>)
                | Some para \<Rightarrow>
                    (case los_call E (TaskCreate (tw_threadEntry para) (tp_stackSize pm) (tp_name pm)
                            (usTaskPrio (thread_priority E (tp_priority pm)))
                            (if LOSCFG_KERNEL_SMP E \<and> tw_cpuID para \<noteq> OSAL_INVALID_CPU_ID
                             then Some (CPUID_TO_AFFI_MASK E (tw_cpuID para)) else None)
                            (tw_entryPara para)) s of (r, s1) \<Rightarrow>
                      if r \<noteq> 0
                      then (HDF_FAILURE,
                            s1\<lparr>threads := (threads s1)(p \<mapsto> para\<lparr>tw_tid := OSAL_INVALID_THREAD_ID\<rparr>)\<rparr>)
                      else (HDF_SUCCESS,
                            s1\<lparr>threads := (threads s1)(p \<mapsto> para\<lparr>tw_tid := task_id E (ev s)\<rparr>)\<rparr>)))
         | _ \<Rightarrow> (HDF_ERR_INVALID_PARAM, s)))"

definition OsalCheckPara ::
  "('m) osal_env_scheme \<Rightarrow> OsalThread option \<Rightarrow> ('a) osal_sys_scheme \<Rightarrow> bool" where
  "OsalCheckPara E thread s =
     (\<not> OS_INT_ACTIVE E (ev s) \<and>
      (case Option.bind (Option.bind thread realThread) (threads s) of
         None \<Rightarrow> False
       | Some para \<Rightarrow> tw_tid para \<noteq> OSAL_INVALID_THREAD_ID))"

definition thread_tid :: "OsalThread option \<Rightarrow> ('a) osal_sys_scheme \<Rightarrow> u32" where
  "thread_tid thread s =
     (case Option.bind (Option.bind thread realThread) (threads s) of
        None \<Rightarrow> OSAL_INVALID_THREAD_ID | Some para \<Rightarrow> tw_tid para)"

definition OsalThreadSuspend ::
  "('m) osal_env_scheme \<Rightarrow> OsalThread option \<Rightarrow> ('a) osal_sys_scheme \<Rightarrow> ret \<times> ('a) osal_sys_scheme" where
  "OsalThreadSuspend E thread s =
     (if \<not> OsalCheckPara E thread s then (HDF_ERR_INVALID_PARAM, s)
      else
        (case los_call E (TaskSuspend (thread_tid thread s)) s of (r, s1) \<Rightarrow>
          if r \<noteq> 0 then (HDF_FAILURE, s1) else (HDF_SUCCESS, s1)))"

definition OsalThreadResume ::
  "('m) osal_env_scheme \<Rightarrow> OsalThread option \<Rightarrow> ('a) osal_sys_scheme \<Rightarrow> ret \<times> ('a) osal_sys_scheme" where
  "OsalThreadResume E thread s =
     (if \<not> OsalCheckPara E thread s then (HDF_ERR_INVALID_PARAM, s)
      else
        (case los_call E (TaskResume (thread_tid thread s)) s of (r, s1) \<Rightarrow>
          if r \<noteq> 0 then (HDF_FAILURE, s1) else (HDF_SUCCESS, s1)))"

definition OsalThreadDestroy ::
  "('m) osal_env_scheme \<Rightarrow> OsalThread option \<Rightarrow> ('a) osal_sys_scheme
   \<Rightarrow> ret \<times> OsalThread option \<times> ('a) osal_sys_scheme" where
  "OsalThreadDestroy E thread s =
     (if \<not> OsalCheckPara E thread s then (HDF_ERR_INVALID_PARAM, thread, s)
      else
        (case Option.bind thread realThread of
           None \<Rightarrow> (HDF_ERR_INVALID_PARAM, thread, s)
         | Some p \<Rightarrow>
             (HDF_SUCCESS, map_option (\<lambda>t. t\<lparr>realThread := None\<rparr>) thread,
              (OsalMemFree (Some p) s)\<lparr>threads := (threads s)(p := None)\<rparr>)))"

subsection \<open>The handle contract\<close>

text \<open>
  What every one of these handles promises its owner. \<open>own\<close> lists the heap blocks a handle
  holds, \<open>null\<close> says it refers to nothing; creation either yields a live handle or changes no
  block, destruction either releases everything or leaves the handle as it was, and an empty
  handle is rejected.
\<close>

locale os_handle =
  fixes create :: "'s \<Rightarrow> ret \<times> 'h \<times> 's"
    and destroy :: "'h \<Rightarrow> 's \<Rightarrow> ret \<times> 'h \<times> 's"
    and null :: "'h \<Rightarrow> bool"
    and own :: "'h \<Rightarrow> nat list"
    and live :: "'h \<Rightarrow> 's \<Rightarrow> bool"
    and blocks :: "'s \<Rightarrow> nat set"
    and bad :: "'s \<Rightarrow> bool"
    and ok :: "'s \<Rightarrow> bool"
  assumes create_ok:
      "ok s \<Longrightarrow> create s = (HDF_SUCCESS, h, s') \<Longrightarrow>
         live h s' \<and> ok s' \<and> set (own h) \<inter> blocks s = {} \<and> blocks s' = blocks s \<union> set (own h) \<and>
         bad s' = bad s"
    and create_fail:
      "ok s \<Longrightarrow> create s = (r, h, s') \<Longrightarrow> r \<noteq> HDF_SUCCESS \<Longrightarrow>
         ok s' \<and> blocks s' = blocks s \<and> bad s' = bad s"
    and destroy_null: "null h \<Longrightarrow> destroy h s = (HDF_ERR_INVALID_PARAM, h, s)"
    and destroy_live:
      "live h s \<Longrightarrow> destroy h s = (r, h', s') \<Longrightarrow>
         (null h' \<and> blocks s' = blocks s - set (own h) \<or> h' = h \<and> r \<noteq> HDF_SUCCESS \<and> blocks s' = blocks s)
         \<and> bad s' = bad s"
begin

lemma create_destroy:
  assumes "ok s" and "create s = (HDF_SUCCESS, h, s1)" and "destroy h s1 = (HDF_SUCCESS, h', s2)"
  shows "blocks s2 = blocks s \<and> bad s2 = bad s \<and> null h'"
  using create_ok [OF assms(1,2)] destroy_live [OF _ assms(3)] by auto

text \<open>A second destroy after a successful one is refused and changes nothing.\<close>

lemma destroy_twice:
  assumes "live h s" and "destroy h s = (HDF_SUCCESS, h', s')"
  shows "destroy h' s' = (HDF_ERR_INVALID_PARAM, h', s')"
  using destroy_live [OF assms] destroy_null by auto

text \<open>Whatever becomes of it, a handle that was created and destroyed is released or still owned.\<close>

lemma no_leak:
  assumes "ok s" and "create s = (HDF_SUCCESS, h, s1)" and "destroy h s1 = (r, h', s2)"
  shows "blocks s2 = blocks s \<and> null h' \<or> h' = h \<and> blocks s2 = blocks s \<union> set (own h)"
  using create_ok [OF assms(1,2)] destroy_live [OF _ assms(3)] by auto

end

end
