(* ===== verification/Osal_Sync_Facts.thy ===== *)
theory Osal_Sync_Facts
  imports Osal_Sync
begin

text \<open>
  The OSAL handles meet the contract \<open>os_handle\<close>, and the timers and threads behave as their
  callers expect, with the two exceptions proved here: starting a running timer again loses the
  kernel timer it had, and a thread that was created and never started cannot be destroyed.
\<close>

subsection \<open>The instances of the contract\<close>

definition ptr_list :: "nat option \<Rightarrow> nat list" where
  "ptr_list p = (case p of None \<Rightarrow> [] | Some q \<Rightarrow> [q])"

lemma ptr_list_simps [simp]: "ptr_list None = []" "ptr_list (Some p) = [p]"
  by (simp_all add: ptr_list_def)

lemmas los_defs = los_call_def ext_call_eq

abbreviation heap_dom :: "('e, 'a) sys_scheme \<Rightarrow> nat set" where
  "heap_dom s \<equiv> dom (h_blk s)"

lemma heap_ok_next:
  "heap_ok s \<Longrightarrow> h_next s' = Suc (h_next s) \<Longrightarrow> h_blk s' = h_blk s \<Longrightarrow> heap_ok s'"
  "heap_ok s \<Longrightarrow> h_next s' = Suc (h_next s) \<Longrightarrow> h_blk s' = (h_blk s)(h_next s \<mapsto> bs) \<Longrightarrow> heap_ok s'"
  "heap_ok s \<Longrightarrow> h_next s' = Suc (h_next s) \<Longrightarrow> h_blk s' = (h_blk s)(p := None) \<Longrightarrow> heap_ok s'"
  by (simp_all add: heap_ok_def)

lemma free_fresh: "heap_ok s \<Longrightarrow> (h_blk s)(h_next s := None) = h_blk s"
  using heap_ok_fresh [of s] by (auto simp: fun_eq_iff)

definition mutex_live :: "OsalMutex option \<Rightarrow> ('a) osal_sys_scheme \<Rightarrow> bool" where
  "mutex_live m s \<longleftrightarrow> (case Option.bind m realMutex of None \<Rightarrow> False | Some p \<Rightarrow> h_blk s p \<noteq> None)"

interpretation mutex: os_handle "OsalMutexInit E (Some m0)" "OsalMutexDestroy E"
    "\<lambda>m. Option.bind m realMutex = None" "\<lambda>m. ptr_list (Option.bind m realMutex)" mutex_live
    heap_dom h_bad heap_ok
proof unfold_locales
  fix s s' :: "'b osal_sys_scheme" and h r
  assume ok: "heap_ok s" and c: "OsalMutexInit E (Some m0) s = (HDF_SUCCESS, h, s')"
  then show "mutex_live h s' \<and> heap_ok s' \<and> set (ptr_list (Option.bind h realMutex)) \<inter> heap_dom s = {} \<and>
      heap_dom s' = heap_dom s \<union> set (ptr_list (Option.bind h realMutex)) \<and> h_bad s' = h_bad s"
    using heap_ok_fresh [OF ok]
    by (auto simp: OsalMutexInit_def alloc_eqs los_defs mutex_live_def heap_ok_def split: if_splits)
next
  fix s s' :: "'b osal_sys_scheme" and h r
  assume "heap_ok s" and "OsalMutexInit E (Some m0) s = (r, h, s')" and "r \<noteq> HDF_SUCCESS"
  then show "heap_ok s' \<and> heap_dom s' = heap_dom s \<and> h_bad s' = h_bad s"
    using heap_ok_fresh [of s]
    by (auto simp: OsalMutexInit_def alloc_eqs los_defs OsalMemFree_def LOS_MemFree_def heap_ok_def
        split: if_splits)
next
  fix s s' :: "'b osal_sys_scheme" and h r h'
  assume "mutex_live h s" and "OsalMutexDestroy E h s = (r, h', s')"
  then show "(Option.bind h' realMutex = None \<and> heap_dom s' = heap_dom s - set (ptr_list (Option.bind h realMutex)) \<or>
      h' = h \<and> r \<noteq> HDF_SUCCESS \<and> heap_dom s' = heap_dom s) \<and> h_bad s' = h_bad s"
    by (auto simp: OsalMutexDestroy_def los_defs mutex_live_def OsalMemFree_def LOS_MemFree_def
        bind_eq_Some_conv split: if_splits option.splits)
qed (simp add: OsalMutexDestroy_def)

interpretation sem: os_handle "OsalSemInit E v (Some m0)" "OsalSemDestroy E"
    "\<lambda>m. sem_real m = None" "\<lambda>_. []" "\<lambda>_ _. True" heap_dom h_bad heap_ok
  by unfold_locales
    (auto simp: OsalSemInit_def OsalSemDestroy_def los_defs sem_real_def heap_ok_def
      split: if_splits option.splits)

definition spin_live :: "OsalSpinlock option \<Rightarrow> ('a) osal_sys_scheme \<Rightarrow> bool" where
  "spin_live m s \<longleftrightarrow> (case Option.bind m realSpinlock of None \<Rightarrow> False | Some p \<Rightarrow> h_blk s p \<noteq> None)"

interpretation spin: os_handle "OsalSpinInit E (Some m0)" OsalSpinDestroy
    "\<lambda>m. Option.bind m realSpinlock = None" "\<lambda>m. ptr_list (Option.bind m realSpinlock)" spin_live
    heap_dom h_bad heap_ok
proof unfold_locales
  fix s s' :: "'b osal_sys_scheme" and h r
  assume ok: "heap_ok s" and c: "OsalSpinInit E (Some m0) s = (HDF_SUCCESS, h, s')"
  then show "spin_live h s' \<and> heap_ok s' \<and> set (ptr_list (Option.bind h realSpinlock)) \<inter> heap_dom s = {} \<and>
      heap_dom s' = heap_dom s \<union> set (ptr_list (Option.bind h realSpinlock)) \<and> h_bad s' = h_bad s"
    using heap_ok_fresh [OF ok]
    by (auto simp: OsalSpinInit_def alloc_eqs spin_live_def heap_ok_def split: if_splits)
next
  fix s s' :: "'b osal_sys_scheme" and h r
  assume "heap_ok s" and "OsalSpinInit E (Some m0) s = (r, h, s')" and "r \<noteq> HDF_SUCCESS"
  then show "heap_ok s' \<and> heap_dom s' = heap_dom s \<and> h_bad s' = h_bad s"
    by (auto simp: OsalSpinInit_def alloc_eqs heap_ok_def split: if_splits)
next
  fix s s' :: "'b osal_sys_scheme" and h r h'
  assume "spin_live h s" and "OsalSpinDestroy h s = (r, h', s')"
  then show "(Option.bind h' realSpinlock = None \<and> heap_dom s' = heap_dom s - set (ptr_list (Option.bind h realSpinlock)) \<or>
      h' = h \<and> r \<noteq> HDF_SUCCESS \<and> heap_dom s' = heap_dom s) \<and> h_bad s' = h_bad s"
    by (auto simp: OsalSpinDestroy_def spin_live_def OsalMemFree_def LOS_MemFree_def
        bind_eq_Some_conv split: if_splits option.splits)
qed (simp add: OsalSpinDestroy_def)

definition timer_live :: "OsalTimer option \<Rightarrow> ('a) osal_sys_scheme \<Rightarrow> bool" where
  "timer_live m s \<longleftrightarrow> (case Option.bind m realTimer of None \<Rightarrow> False
     | Some p \<Rightarrow> h_blk s p \<noteq> None \<and> litetimers s p \<noteq> None)"

interpretation timer: os_handle "OsalTimerCreate E i f a (Some m0)" "OsalTimerDelete E"
    "\<lambda>m. Option.bind m realTimer = None" "\<lambda>m. ptr_list (Option.bind m realTimer)" timer_live
    heap_dom h_bad heap_ok
proof unfold_locales
  fix s s' :: "'b osal_sys_scheme" and h r
  assume ok: "heap_ok s" and c: "OsalTimerCreate E i f a (Some m0) s = (HDF_SUCCESS, h, s')"
  then show "timer_live h s' \<and> heap_ok s' \<and> set (ptr_list (Option.bind h realTimer)) \<inter> heap_dom s = {} \<and>
      heap_dom s' = heap_dom s \<union> set (ptr_list (Option.bind h realTimer)) \<and> h_bad s' = h_bad s"
    using heap_ok_fresh [OF ok]
    by (auto simp: OsalTimerCreate_def alloc_eqs timer_live_def heap_ok_def split: if_splits)
next
  fix s s' :: "'b osal_sys_scheme" and h r
  assume "heap_ok s" and "OsalTimerCreate E i f a (Some m0) s = (r, h, s')" and "r \<noteq> HDF_SUCCESS"
  then show "heap_ok s' \<and> heap_dom s' = heap_dom s \<and> h_bad s' = h_bad s"
    by (auto simp: OsalTimerCreate_def alloc_eqs heap_ok_def split: if_splits)
next
  fix s s' :: "'b osal_sys_scheme" and h r h'
  assume "timer_live h s" and "OsalTimerDelete E h s = (r, h', s')"
  then show "(Option.bind h' realTimer = None \<and> heap_dom s' = heap_dom s - set (ptr_list (Option.bind h realTimer)) \<or>
      h' = h \<and> r \<noteq> HDF_SUCCESS \<and> heap_dom s' = heap_dom s) \<and> h_bad s' = h_bad s"
    by (auto simp: OsalTimerDelete_def timer_obj_def timer_live_def los_defs OsalMemFree_def LOS_MemFree_def
        bind_eq_Some_conv Let_def split: if_splits option.splits)
qed (simp add: OsalTimerDelete_def timer_obj_def)

definition thread_live :: "OsalThread option \<Rightarrow> ('a) osal_sys_scheme \<Rightarrow> bool" where
  "thread_live m s \<longleftrightarrow> (case Option.bind m realThread of None \<Rightarrow> False
     | Some p \<Rightarrow> h_blk s p \<noteq> None \<and> threads s p \<noteq> None)"

interpretation thread: os_handle "OsalThreadCreate E f a (Some m0)" "OsalThreadDestroy E"
    "\<lambda>m. Option.bind m realThread = None" "\<lambda>m. ptr_list (Option.bind m realThread)" thread_live
    heap_dom h_bad heap_ok
proof unfold_locales
  fix s s' :: "'b osal_sys_scheme" and h r
  assume ok: "heap_ok s" and c: "OsalThreadCreate E f a (Some m0) s = (HDF_SUCCESS, h, s')"
  then show "thread_live h s' \<and> heap_ok s' \<and> set (ptr_list (Option.bind h realThread)) \<inter> heap_dom s = {} \<and>
      heap_dom s' = heap_dom s \<union> set (ptr_list (Option.bind h realThread)) \<and> h_bad s' = h_bad s"
    using heap_ok_fresh [OF ok]
    by (auto simp: OsalThreadCreate_def alloc_eqs thread_live_def heap_ok_def split: if_splits option.splits)
next
  fix s s' :: "'b osal_sys_scheme" and h r
  assume "heap_ok s" and "OsalThreadCreate E f a (Some m0) s = (r, h, s')" and "r \<noteq> HDF_SUCCESS"
  then show "heap_ok s' \<and> heap_dom s' = heap_dom s \<and> h_bad s' = h_bad s"
    by (auto simp: OsalThreadCreate_def alloc_eqs heap_ok_def split: if_splits option.splits)
next
  fix s s' :: "'b osal_sys_scheme" and h r h'
  assume "thread_live h s" and "OsalThreadDestroy E h s = (r, h', s')"
  then show "(Option.bind h' realThread = None \<and> heap_dom s' = heap_dom s - set (ptr_list (Option.bind h realThread)) \<or>
      h' = h \<and> r \<noteq> HDF_SUCCESS \<and> heap_dom s' = heap_dom s) \<and> h_bad s' = h_bad s"
    by (auto simp: OsalThreadDestroy_def thread_live_def OsalMemFree_def LOS_MemFree_def
        bind_eq_Some_conv split: if_splits option.splits)
qed (simp add: OsalThreadDestroy_def OsalCheckPara_def)

subsection \<open>Kernel timers, read off the trace\<close>

lemma osal_emit [simp]: "litetimers (emit e s) = litetimers s" "threads (emit e s) = threads s"
  by (simp_all add: emit_def)

definition timer_step :: "u16 set \<Rightarrow> osal_ev \<times> int \<Rightarrow> u16 set" where
  "timer_step T e =
     (case e of
        (SwtmrCreate i _ _ _ _, r) \<Rightarrow> if r = 0 then insert i T else T
      | (SwtmrDelete i, r) \<Rightarrow> if r = 0 then T - {i} else T
      | _ \<Rightarrow> T)"

text \<open>The kernel timers that exist after a trace.\<close>

definition live_timers :: "osal_trace \<Rightarrow> u16 set" where
  "live_timers tr = foldl timer_step {} tr"

lemma live_timers_append [simp]: "live_timers (tr @ es) = foldl timer_step (live_timers tr) es"
  by (simp add: live_timers_def)

lemma live_timers_Nil [simp]: "live_timers [] = {}"
  by (simp add: live_timers_def)

lemma timer_step_simps [simp]:
  "timer_step T (SwtmrCreate i t p f a, r) = (if r = 0 then insert i T else T)"
  "timer_step T (SwtmrDelete i, r) = (if r = 0 then T - {i} else T)"
  "timer_step T (SwtmrStart i, r) = T" "timer_step T (IntLock, r) = T" "timer_step T (IntRestore, r) = T"
  by (simp_all add: timer_step_def)

text \<open>The kernel never hands out an identifier that is in use, nor the invalid one.\<close>

definition timer_contract :: "('m) osal_env_scheme \<Rightarrow> bool" where
  "timer_contract E \<longleftrightarrow>
     (\<forall>tr t p f a. los E tr (SwtmrCreate (timer_id E tr) t p f a) = 0 \<longrightarrow>
        timer_id E tr \<notin> live_timers tr \<and> timer_id E tr \<noteq> MAX_INVALID_TIMER_VID E)"

text \<open>The number of kernel timers a handle refers to.\<close>

definition timer_kid :: "('m) osal_env_scheme \<Rightarrow> OsalTimer option \<Rightarrow> ('a) osal_sys_scheme \<Rightarrow> u16 set" where
  "timer_kid E timer s =
     (case Option.bind (Option.bind timer realTimer) (litetimers s) of
        None \<Rightarrow> {}
      | Some lt \<Rightarrow> if lt_timerID lt = MAX_INVALID_TIMER_VID E then {} else {lt_timerID lt})"

lemma OsalStartTimer_outcome:
  assumes "timer_contract E" and "Option.bind timer realTimer = Some p" and "litetimers s p = Some lt"
    and "lt_interval lt \<noteq> 0" and "lt_func lt = Some f"
    and "OsalStartTimer E timer per s = (r, s')"
  shows "h_blk s' = h_blk s \<and> h_bad s' = h_bad s \<and>
    (if r = HDF_SUCCESS then
       \<exists>i. i \<notin> live_timers (ev s) \<and> i \<noteq> MAX_INVALID_TIMER_VID E \<and>
           litetimers s' = (litetimers s)(p \<mapsto> lt\<lparr>lt_timerID := i\<rparr>) \<and>
           live_timers (ev s') = insert i (live_timers (ev s)) \<and>
           (SwtmrCreate i (LOS_MS2Tick E (lt_interval lt)) per f (lt_arg lt), 0) \<in> set (ev s')
     else litetimers s' = litetimers s \<and>
       ((\<forall>tr i. los E tr (SwtmrDelete i) = 0) \<longrightarrow> live_timers (ev s') = live_timers (ev s)))"
proof -
  let ?i = "timer_id E (ev s @ [(IntLock, 0)])"
  have i: "?i \<notin> live_timers (ev s) \<and> ?i \<noteq> MAX_INVALID_TIMER_VID E"
    if "los E (ev s @ [(IntLock, 0)]) (SwtmrCreate ?i (LOS_MS2Tick E (lt_interval lt)) per f (lt_arg lt)) = 0"
    using assms(1) [unfolded timer_contract_def, rule_format, OF that] by simp
  have ob: "timer_obj timer s = Some (p, Some lt)" using assms(2,3) by (simp add: timer_obj_def)
  show ?thesis
  proof (cases "r = HDF_SUCCESS")
    case True
    then show ?thesis
      using assms(4-6) i ob
      by (intro conjI; (simp only: if_True simp_thms, intro exI [of _ ?i])?)
        (auto simp: OsalStartTimer_def los_defs Let_def split: if_splits)
  next
    case False
    then show ?thesis
      using assms(4-6) i ob
      by (auto simp: OsalStartTimer_def los_defs Let_def split: if_splits)
  qed
qed

lemma OsalTimerDelete_outcome:
  assumes "timer_live timer s" and "OsalTimerDelete E timer s = (HDF_SUCCESS, timer', s')"
  shows "live_timers (ev s') = live_timers (ev s) - timer_kid E timer s"
  using assms
  by (auto simp: OsalTimerDelete_def timer_obj_def timer_live_def timer_kid_def los_defs
      OsalMemFree_def LOS_MemFree_def bind_eq_Some_conv Let_def split: if_splits option.splits)

text \<open>
  A timer that is created, started once and deleted leaves no kernel timer and no memory
  behind, and a second delete of its handle is refused without effect.
\<close>

theorem osal_timer_lifecycle:
  assumes "heap_ok s" and "timer_contract E"
    and "OsalTimerCreate E i (Some f) a (Some t0) s = (HDF_SUCCESS, t, s1)"
    and "OsalStartTimer E t per s1 = (HDF_SUCCESS, s2)"
    and "OsalTimerDelete E t s2 = (HDF_SUCCESS, t', s3)"
  shows "live_timers (ev s3) = live_timers (ev s) \<and> dom (h_blk s3) = dom (h_blk s) \<and> h_bad s3 = h_bad s \<and>
         OsalTimerDelete E t' s3 = (HDF_ERR_INVALID_PARAM, t', s3)"
proof -
  note C = timer.create_ok [OF assms(1,3)]
  obtain p where p: "t = Some (t0\<lparr>realTimer := Some p\<rparr>)" "ev s1 = ev s" "i \<noteq> 0"
    "litetimers s1 p = Some \<lparr>lt_arg = a, lt_timerID = MAX_INVALID_TIMER_VID E, lt_func = Some f, lt_interval = i\<rparr>"
    using assms(3) by (auto simp: OsalTimerCreate_def alloc_eqs split: if_splits)
  have "Option.bind t realTimer = Some p" using p(1) by simp
  note S = OsalStartTimer_outcome [OF assms(2) this p(4) _ _ assms(4), simplified, OF p(3)]
  then obtain k where k: "k \<notin> live_timers (ev s)" "k \<noteq> MAX_INVALID_TIMER_VID E"
    "live_timers (ev s2) = insert k (live_timers (ev s))" "timer_kid E t s2 = {k}"
    "h_blk s2 = h_blk s1" "h_bad s2 = h_bad s1" "litetimers s2 p \<noteq> None"
    using p by (auto simp: timer_kid_def)
  have live: "timer_live t s2" using C k p by (auto simp: timer_live_def)
  note D = timer.destroy_live [OF live assms(5)]
  show ?thesis
    using OsalTimerDelete_outcome [OF live assms(5)] k(1,3,4) D C k(5,6) timer.destroy_twice [OF live assms(5)]
    by auto
qed

text \<open>
  Starting a timer that is already running overwrites the identifier of its kernel timer:
  after the delete that kernel timer still exists and no handle refers to it.
\<close>

theorem osal_timer_restart_leaks:
  assumes "timer_contract E" and "timer_live timer s" and "timer_kid E timer s = {k}" and "k \<in> live_timers (ev s)"
    and "OsalStartTimer E timer per s = (HDF_SUCCESS, s1)"
    and "OsalTimerDelete E timer s1 = (HDF_SUCCESS, timer', s2)"
  shows "k \<in> live_timers (ev s2) \<and> timer_kid E timer' s2 = {}"
proof -
  obtain p lt where p: "Option.bind timer realTimer = Some p" "litetimers s p = Some lt" "h_blk s p \<noteq> None"
    using assms(2) by (auto simp: timer_live_def split: option.splits)
  have ne: "lt_interval lt \<noteq> 0" "lt_func lt \<noteq> None"
    using assms(5) p by (auto simp: OsalStartTimer_def timer_obj_def split: if_splits)
  then obtain f where "lt_func lt = Some f" by auto
  note S = OsalStartTimer_outcome [OF assms(1) p(1,2) ne(1) this assms(5)]
  then obtain i where i: "i \<notin> live_timers (ev s)" "litetimers s1 = (litetimers s)(p \<mapsto> lt\<lparr>lt_timerID := i\<rparr>)"
    "i \<noteq> MAX_INVALID_TIMER_VID E" "live_timers (ev s1) = insert i (live_timers (ev s))" "h_blk s1 = h_blk s"
    by auto
  have live: "timer_live timer s1" using p i by (simp add: timer_live_def)
  have kid: "timer_kid E timer s1 = {i}" using p i by (simp add: timer_kid_def)
  have "k \<noteq> i" using i(1) assms(4) by auto
  moreover have "Option.bind timer' realTimer = None"
    using timer.destroy_live [OF live assms(6)] by auto
  ultimately show ?thesis
    using OsalTimerDelete_outcome [OF live assms(6)] kid i(4) assms(4) by (simp add: timer_kid_def)
qed

text \<open>
  A successful OsalTimerSetTimeout with a new interval replaces the kernel timer by one
  with that interval; the replacement is always periodic, also for a timer that was started
  once.
\<close>

theorem osal_timer_set_timeout:
  assumes "timer_contract E" and "timer_live timer s" and "timer_kid E timer s = {k}" and "k \<in> live_timers (ev s)"
    and "Option.bind timer realTimer = Some p" and "litetimers s p = Some lt" and "lt_interval lt \<noteq> interval"
    and "lt_func lt = Some f" and "OsalTimerSetTimeout E timer interval s = (HDF_SUCCESS, s')"
  shows "\<exists>i. timer_kid E timer s' = {i} \<and> live_timers (ev s') = insert i (live_timers (ev s) - {k}) \<and>
           (SwtmrCreate i (LOS_MS2Tick E interval) True f (lt_arg lt), 0) \<in> set (ev s')"
proof -
  have id: "lt_timerID lt = k" "k \<noteq> MAX_INVALID_TIMER_VID E"
    using assms(3,5,6) by (auto simp: timer_kid_def split: if_splits)
  have i0: "interval \<noteq> 0" using assms(9) by (auto simp: OsalTimerSetTimeout_def split: if_splits)
  define s1 where "s1 = emit (IntLock, 0) (s\<lparr>litetimers := (litetimers s)(p \<mapsto> lt\<lparr>lt_interval := interval\<rparr>)\<rparr>)"
  define r where "r = los E (ev s1) (SwtmrDelete k)"
  define s2 where "s2 = emit (IntRestore, 0) (emit (SwtmrDelete k, r) s1)"
  have "OsalTimerSetTimeout E timer interval s =
      (if r \<noteq> 0 then (HDF_FAILURE, s2) else OsalTimerStartLoop E timer s2)"
    using assms(5-7) id i0
    by (simp add: OsalTimerSetTimeout_def timer_obj_def los_defs Let_def s1_def s2_def r_def)
  with assms(9) have r: "r = 0" and run: "OsalStartTimer E timer True s2 = (HDF_SUCCESS, s')"
    by (auto simp: OsalTimerStartLoop_def split: if_splits)
  have s2: "litetimers s2 p = Some (lt\<lparr>lt_interval := interval\<rparr>)" "live_timers (ev s2) = live_timers (ev s) - {k}"
    using r by (simp_all add: s2_def s1_def emit_def)
  note S = OsalStartTimer_outcome [OF assms(1,5) s2(1) _ _ run, simplified, OF i0 assms(8)]
  then obtain i where "i \<noteq> MAX_INVALID_TIMER_VID E" "live_timers (ev s') = insert i (live_timers (ev s) - {k})"
    "litetimers s' p = Some (lt\<lparr>lt_interval := interval, lt_timerID := i\<rparr>)"
    "(SwtmrCreate i (LOS_MS2Tick E interval) True f (lt_arg lt), 0) \<in> set (ev s')"
    using s2(2) by auto
  then show ?thesis using assms(5) by (intro exI [of _ i]) (simp add: timer_kid_def)
qed

text \<open>
  OsalThreadStart maps a higher OSAL priority to a strictly more urgent (smaller) LiteOS
  priority, always within 3..31.
\<close>

theorem osal_thread_priority:
  assumes "low < OSAL_THREAD_PRI_DEFAULT E" and "OSAL_THREAD_PRI_DEFAULT E < OSAL_THREAD_PRI_HIGH E"
    and "OSAL_THREAD_PRI_HIGH E < OSAL_THREAD_PRI_HIGHEST E"
    and "{p, q} \<subseteq> {low, OSAL_THREAD_PRI_DEFAULT E, OSAL_THREAD_PRI_HIGH E, OSAL_THREAD_PRI_HIGHEST E}"
  shows "(p < q \<longleftrightarrow> usTaskPrio (thread_priority E q) < usTaskPrio (thread_priority E p)) \<and>
         usTaskPrio (thread_priority E p) \<le> 31 \<and> 3 \<le> usTaskPrio (thread_priority E p)"
proof -
  have v: "usTaskPrio OSAL_PRIORITY_LOW = 19" "usTaskPrio OSAL_PRIORITY_MIDDLE = 18"
    "usTaskPrio OSAL_PRIORITY_HIGH = 10" "usTaskPrio OSAL_PRIORITY_HIGHEST = 3"
    by (simp_all add: usTaskPrio_def OSAL_PRIORITY_LOW_def OSAL_PRIORITY_MIDDLE_def OSAL_PRIORITY_HIGH_def
        OSAL_PRIORITY_HIGHEST_def OS_TASK_PRIORITY_LOWEST_def LOS_PRIORITY_WIN_def)
  have t: "thread_priority E low = OSAL_PRIORITY_LOW"
    "thread_priority E (OSAL_THREAD_PRI_DEFAULT E) = OSAL_PRIORITY_MIDDLE"
    "thread_priority E (OSAL_THREAD_PRI_HIGH E) = OSAL_PRIORITY_HIGH"
    "thread_priority E (OSAL_THREAD_PRI_HIGHEST E) = OSAL_PRIORITY_HIGHEST"
    using assms(1-3) by (simp_all add: thread_priority_def)
  show ?thesis
    using assms by (auto simp: t v)
qed

text \<open>
  A thread that was created and not started cannot be destroyed: OsalThreadDestroy refuses
  it, so its wrapper is never freed.
\<close>

theorem osal_thread_unstarted:
  assumes "heap_ok s" and "OsalThreadCreate E (Some f) a (Some t0) s = (HDF_SUCCESS, t, s1)"
  shows "OsalThreadDestroy E t s1 = (HDF_ERR_INVALID_PARAM, t, s1) \<and> h_next s \<in> dom (h_blk s1) - dom (h_blk s)"
  using assms heap_ok_fresh [OF assms(1)]
  by (auto simp: OsalThreadCreate_def OsalThreadDestroy_def OsalCheckPara_def alloc_eqs split: if_splits)

text \<open>
  Mutexes, spin locks, semaphores and threads: initialise then destroy restores the heap,
  and a second destroy is refused without effect.
\<close>

theorem osal_handles:
  assumes "heap_ok s"
  shows "(OsalMutexInit E (Some m) s = (HDF_SUCCESS, h1, s1) \<and> OsalMutexDestroy E h1 s1 = (HDF_SUCCESS, h1', s1') \<longrightarrow>
            dom (h_blk s1') = dom (h_blk s) \<and> h_bad s1' = h_bad s \<and>
            OsalMutexDestroy E h1' s1' = (HDF_ERR_INVALID_PARAM, h1', s1')) \<and>
         (OsalSpinInit E (Some l) s = (HDF_SUCCESS, h2, s2) \<and> OsalSpinDestroy h2 s2 = (HDF_SUCCESS, h2', s2') \<longrightarrow>
            dom (h_blk s2') = dom (h_blk s) \<and> h_bad s2' = h_bad s \<and>
            OsalSpinDestroy h2' s2' = (HDF_ERR_INVALID_PARAM, h2', s2')) \<and>
         (OsalSemInit E v (Some c) s = (HDF_SUCCESS, h3, s3) \<and> OsalSemDestroy E h3 s3 = (HDF_SUCCESS, h3', s3') \<longrightarrow>
            dom (h_blk s3') = dom (h_blk s) \<and> h_bad s3' = h_bad s \<and>
            OsalSemDestroy E h3' s3' = (HDF_ERR_INVALID_PARAM, h3', s3')) \<and>
         (OsalThreadCreate E f a (Some t) s = (HDF_SUCCESS, h4, s4) \<and> OsalThreadStart E h4 pm s4 = (r, s5) \<and>
            OsalThreadDestroy E h4 s5 = (HDF_SUCCESS, h4', s5') \<longrightarrow>
            dom (h_blk s5') = dom (h_blk s) \<and> h_bad s5' = h_bad s \<and>
            OsalThreadDestroy E h4' s5' = (HDF_ERR_INVALID_PARAM, h4', s5'))"
proof (intro conjI impI)
  assume "OsalMutexInit E (Some m) s = (HDF_SUCCESS, h1, s1) \<and> OsalMutexDestroy E h1 s1 = (HDF_SUCCESS, h1', s1')"
  then have c: "OsalMutexInit E (Some m) s = (HDF_SUCCESS, h1, s1)" and d: "OsalMutexDestroy E h1 s1 = (HDF_SUCCESS, h1', s1')"
    by auto
  have "mutex_live h1 s1" using mutex.create_ok [OF assms c] by simp
  from mutex.create_destroy [OF assms c d] mutex.destroy_twice [OF this d]
  show "dom (h_blk s1') = dom (h_blk s)" "h_bad s1' = h_bad s"
    "OsalMutexDestroy E h1' s1' = (HDF_ERR_INVALID_PARAM, h1', s1')" by auto
next
  assume "OsalSpinInit E (Some l) s = (HDF_SUCCESS, h2, s2) \<and> OsalSpinDestroy h2 s2 = (HDF_SUCCESS, h2', s2')"
  then have c: "OsalSpinInit E (Some l) s = (HDF_SUCCESS, h2, s2)" and d: "OsalSpinDestroy h2 s2 = (HDF_SUCCESS, h2', s2')"
    by auto
  have "spin_live h2 s2" using spin.create_ok [OF assms c] by simp
  from spin.create_destroy [OF assms c d] spin.destroy_twice [OF this d]
  show "dom (h_blk s2') = dom (h_blk s)" "h_bad s2' = h_bad s"
    "OsalSpinDestroy h2' s2' = (HDF_ERR_INVALID_PARAM, h2', s2')" by auto
next
  assume "OsalSemInit E v (Some c) s = (HDF_SUCCESS, h3, s3) \<and> OsalSemDestroy E h3 s3 = (HDF_SUCCESS, h3', s3')"
  then have c: "OsalSemInit E v (Some c) s = (HDF_SUCCESS, h3, s3)" and d: "OsalSemDestroy E h3 s3 = (HDF_SUCCESS, h3', s3')"
    by auto
  from sem.create_destroy [OF assms c d] sem.destroy_twice [OF TrueI d]
  show "dom (h_blk s3') = dom (h_blk s)" "h_bad s3' = h_bad s"
    "OsalSemDestroy E h3' s3' = (HDF_ERR_INVALID_PARAM, h3', s3')" by auto
next
  assume "OsalThreadCreate E f a (Some t) s = (HDF_SUCCESS, h4, s4) \<and> OsalThreadStart E h4 pm s4 = (r, s5) \<and>
            OsalThreadDestroy E h4 s5 = (HDF_SUCCESS, h4', s5')"
  then have c: "OsalThreadCreate E f a (Some t) s = (HDF_SUCCESS, h4, s4)" and st: "OsalThreadStart E h4 pm s4 = (r, s5)"
    and d: "OsalThreadDestroy E h4 s5 = (HDF_SUCCESS, h4', s5')"
    by auto
  note C = thread.create_ok [OF assms c]
  have fr: "h_blk s5 = h_blk s4 \<and> h_bad s5 = h_bad s4 \<and> thread_live h4 s5"
    using st C by (auto simp: OsalThreadStart_def los_defs thread_live_def split: option.splits if_splits)
  note D = thread.destroy_live [OF _ d] thread.destroy_twice [OF _ d]
  show "dom (h_blk s5') = dom (h_blk s)" "h_bad s5' = h_bad s"
    "OsalThreadDestroy E h4' s5' = (HDF_ERR_INVALID_PARAM, h4', s5')"
    using C fr D by auto
qed

subsection \<open>A kernel that satisfies every hypothesis\<close>

definition osal_demo_env :: osal_env where
  "osal_demo_env =
     \<lparr>mem_ok = (\<lambda>_ _. True), mem_junk = (\<lambda>_ _. 170), copy_ok = (\<lambda>d n. n \<le> d \<and> 0 < d),
      los = (\<lambda>tr c. case c of SwtmrCreate i t p f a \<Rightarrow> if i \<in> live_timers tr \<or> i = 65535 then 1 else 0 | _ \<Rightarrow> 0),
      sem_id = (\<lambda>_. 5), timer_id = (\<lambda>tr. of_nat (length tr)), task_id = (\<lambda>_. 7), irq_flags = (\<lambda>_. 0),
      OS_INT_ACTIVE = (\<lambda>_. False), LOSCFG_KERNEL_SMP = True, LOS_MS2Tick = (\<lambda>ms. ms div 10),
      HDF_WAIT_FOREVER = 4294967295, LOS_ETIMEDOUT = 60, LOS_ERRNO_SEM_TIMEOUT = 61,
      MAX_INVALID_TIMER_VID = 65535, CPUID_TO_AFFI_MASK = (\<lambda>c. 2 ^ unat c),
      OSAL_THREAD_PRI_HIGHEST = 3, OSAL_THREAD_PRI_HIGH = 2, OSAL_THREAD_PRI_DEFAULT = 1\<rparr>"

definition osal_demo :: osal_sys where
  "osal_demo = \<lparr>h_next = 0, h_blk = Map.empty, h_bad = False, ev = [], litetimers = Map.empty, threads = Map.empty\<rparr>"

lemma osal_demo_ok: "heap_ok osal_demo" "timer_contract osal_demo_env"
  by (auto simp: osal_demo_def heap_ok_def timer_contract_def osal_demo_env_def split: if_splits)

definition osal_demo_timer :: "OsalTimer option \<times> osal_sys" where
  "osal_demo_timer = (Some \<lparr>realTimer = Some 0\<rparr>,
     osal_demo\<lparr>h_next := 1, h_blk := [0 \<mapsto> []], litetimers := [0 \<mapsto>
       \<lparr>lt_arg = 9, lt_timerID = 65535, lt_func = Some 4, lt_interval = 100\<rparr>]\<rparr>)"

lemma osal_demo_create:
  "OsalTimerCreate osal_demo_env 100 (Some 4) 9 (Some \<lparr>realTimer = None\<rparr>) osal_demo =
     (HDF_SUCCESS, fst osal_demo_timer, snd osal_demo_timer)"
  by (simp add: OsalTimerCreate_def alloc_eqs osal_demo_timer_def osal_demo_def osal_demo_env_def)

text \<open>The same timer, started once.\<close>

definition osal_demo_started :: osal_sys where
  "osal_demo_started =
     \<lparr>h_next = 1, h_blk = [0 \<mapsto> []], h_bad = False,
      ev = [(IntLock, 0), (SwtmrCreate 1 10 False 4 9, 0), (SwtmrStart 1, 0), (IntRestore, 0)],
      litetimers = [0 \<mapsto> \<lparr>lt_arg = 9, lt_timerID = 1, lt_func = Some 4, lt_interval = 100\<rparr>],
      threads = Map.empty\<rparr>"

lemmas osal_run = OsalStartTimer_def OsalTimerDelete_def OsalTimerSetTimeout_def OsalTimerStartLoop_def
  timer_obj_def los_defs osal_demo_timer_def osal_demo_def osal_demo_env_def osal_demo_started_def
  Let_def emit_def OsalMemFree_def LOS_MemFree_def live_timers_def

lemma osal_demo_start:
  "OsalStartTimer osal_demo_env (fst osal_demo_timer) False (snd osal_demo_timer) = (HDF_SUCCESS, osal_demo_started)"
  by (simp add: osal_run)

lemma osal_demo_started_facts:
  "timer_live (fst osal_demo_timer) osal_demo_started"
  "timer_kid osal_demo_env (fst osal_demo_timer) osal_demo_started = {1}" "1 \<in> live_timers (ev osal_demo_started)"
  by (simp_all add: osal_run timer_live_def timer_kid_def)

lemma osal_timer_lifecycle_witness:
  "\<exists>s2 t' s3. OsalStartTimer osal_demo_env (fst osal_demo_timer) False (snd osal_demo_timer) = (HDF_SUCCESS, s2) \<and>
     OsalTimerDelete osal_demo_env (fst osal_demo_timer) s2 = (HDF_SUCCESS, t', s3) \<and> live_timers (ev s3) = {}"
proof -
  obtain t' s3 where d: "OsalTimerDelete osal_demo_env (fst osal_demo_timer) osal_demo_started = (HDF_SUCCESS, t', s3)"
    by (simp add: osal_run)
  show ?thesis
    using osal_timer_lifecycle [OF osal_demo_ok osal_demo_create osal_demo_start d] osal_demo_start d
    by (simp add: osal_demo_def)
qed

lemma osal_timer_restart_leaks_witness:
  "\<exists>s1 t' s2. OsalStartTimer osal_demo_env (fst osal_demo_timer) True osal_demo_started = (HDF_SUCCESS, s1) \<and>
     OsalTimerDelete osal_demo_env (fst osal_demo_timer) s1 = (HDF_SUCCESS, t', s2) \<and> 1 \<in> live_timers (ev s2)"
proof -
  obtain s1 where s1: "OsalStartTimer osal_demo_env (fst osal_demo_timer) True osal_demo_started = (HDF_SUCCESS, s1)"
    and "s1 = snd (OsalStartTimer osal_demo_env (fst osal_demo_timer) True osal_demo_started)"
    by (simp add: osal_run)
  then obtain t' s2 where s2: "OsalTimerDelete osal_demo_env (fst osal_demo_timer) s1 = (HDF_SUCCESS, t', s2)"
    by (simp add: osal_run)
  from osal_timer_restart_leaks [OF osal_demo_ok(2) osal_demo_started_facts s1 s2] s1 s2 show ?thesis by auto
qed

lemma osal_timer_set_timeout_witness:
  "\<exists>s' i. OsalTimerSetTimeout osal_demo_env (fst osal_demo_timer) 50 osal_demo_started = (HDF_SUCCESS, s') \<and>
     (SwtmrCreate i 5 True 4 9, 0) \<in> set (ev s')"
proof -
  obtain s' where s': "OsalTimerSetTimeout osal_demo_env (fst osal_demo_timer) 50 osal_demo_started = (HDF_SUCCESS, s')"
    by (simp add: osal_run)
  have p: "Option.bind (fst osal_demo_timer) realTimer = Some 0"
    "litetimers osal_demo_started 0 = Some \<lparr>lt_arg = 9, lt_timerID = 1, lt_func = Some 4, lt_interval = 100\<rparr>"
    by (simp_all add: osal_run)
  have tick: "LOS_MS2Tick osal_demo_env 50 = 5" by (simp add: osal_demo_env_def)
  show ?thesis
    using osal_timer_set_timeout [OF osal_demo_ok(2) osal_demo_started_facts p _ _ s', of 4] s' tick by auto
qed

lemma osal_thread_priority_witness:
  "usTaskPrio (thread_priority osal_demo_env 3) < usTaskPrio (thread_priority osal_demo_env 1)"
  using osal_thread_priority [of 0 osal_demo_env 1 3] by (simp add: osal_demo_env_def)

lemma osal_thread_unstarted_witness:
  "\<exists>t s1. OsalThreadCreate osal_demo_env (Some 4) None (Some \<lparr>realThread = None\<rparr>) osal_demo = (HDF_SUCCESS, t, s1) \<and>
     OsalThreadDestroy osal_demo_env t s1 = (HDF_ERR_INVALID_PARAM, t, s1)"
proof -
  obtain t s1 where c: "OsalThreadCreate osal_demo_env (Some 4) None (Some \<lparr>realThread = None\<rparr>) osal_demo = (HDF_SUCCESS, t, s1)"
    by (simp add: OsalThreadCreate_def alloc_eqs osal_demo_def osal_demo_env_def)
  from osal_thread_unstarted [OF osal_demo_ok(1) c] c show ?thesis by blast
qed

lemma osal_handles_witness:
  "\<exists>h s1 h' s1'. OsalMutexInit osal_demo_env (Some \<lparr>realMutex = None\<rparr>) osal_demo = (HDF_SUCCESS, h, s1) \<and>
     OsalMutexDestroy osal_demo_env h s1 = (HDF_SUCCESS, h', s1') \<and> dom (h_blk s1') = {}"
proof -
  obtain h s1 where c: "OsalMutexInit osal_demo_env (Some \<lparr>realMutex = None\<rparr>) osal_demo = (HDF_SUCCESS, h, s1)"
    and h: "h = Some \<lparr>realMutex = Some 0\<rparr>"
    by (simp add: OsalMutexInit_def alloc_eqs los_defs osal_demo_def osal_demo_env_def)
  obtain h' s1' where d: "OsalMutexDestroy osal_demo_env h s1 = (HDF_SUCCESS, h', s1')"
    by (simp add: h OsalMutexDestroy_def los_defs osal_demo_env_def)
  have "dom (h_blk osal_demo) = {}" by (simp add: osal_demo_def)
  with osal_handles [OF osal_demo_ok(1), THEN conjunct1, THEN mp, OF conjI [OF c d]] c d
  show ?thesis by blast
qed

end
