(* ===== verification/Osal_Firmware.thy ===== *)
theory Osal_Firmware
  imports Osal_Sync_Facts
begin

text \<open>
  Firmware files, \<open>khdf/liteos/osal/src/osal_firmware.c\<close>: a firmware image is opened once and
  read in blocks of at most 64 bytes into the buffer behind the descriptor.

  The descriptor and its buffer are one allocation in the code; here the descriptor is in the
  typed map \<open>fwdescs\<close> and the buffer is the 64-byte block with the same number. The file system
  is outside the repository: \<open>fs_realpath\<close>, \<open>fs_open\<close>, \<open>fs_stat\<close>, \<open>fs_lseek\<close>, \<open>fs_read\<close> and
  \<open>fs_close\<close> are parameters, the last five as functions of the trace of earlier calls.
\<close>

definition HDF_FW_BLOCK_SIZE :: u32 where "HDF_FW_BLOCK_SIZE = 64"

record OsalFwDesc =
  fw_fd :: int
  fw_offset :: u32
  fw_openFlag :: bool

record OsalFirmware =
  fwSize :: u32
  fwPara :: "nat option"

record OsalFwBlock =
  fb_data :: "nat option"
  fb_dataSize :: u32
  fb_curOffset :: u32
  fb_endFlag :: bool

record fw_sys = osal_sys +
  fwdescs :: "nat \<Rightarrow> OsalFwDesc option"

record fw_env = osal_env +
  fs_realpath :: "string \<Rightarrow> string option"
  fs_open :: "osal_trace \<Rightarrow> string \<Rightarrow> int"
  fs_stat :: "osal_trace \<Rightarrow> int \<Rightarrow> nat option"
  fs_lseek :: "osal_trace \<Rightarrow> int \<Rightarrow> u32 \<Rightarrow> int"
  fs_read :: "osal_trace \<Rightarrow> int \<Rightarrow> nat \<Rightarrow> u8 list option"
  fs_close :: "osal_trace \<Rightarrow> int \<Rightarrow> int"

definition OsalRequestFirmware ::
  "('m) fw_env_scheme \<Rightarrow> OsalFirmware option \<Rightarrow> string option \<Rightarrow> ('a) fw_sys_scheme
   \<Rightarrow> ret \<times> OsalFirmware option \<times> ('a) fw_sys_scheme" where
  "OsalRequestFirmware E fw fwName s =
     (case (fw, fwName) of
        (Some f, Some name) \<Rightarrow>
          let f0 = f\<lparr>fwSize := 0, fwPara := None\<rparr> in
          (case fs_realpath E name of
             None \<Rightarrow> (HDF_FAILURE, Some f0, s)
           | Some path \<Rightarrow>
               let fd = fs_open E (ev s) path; s1 = emit (FwOpen path, fd) s in
               if fd = -1 then (HDF_FAILURE, Some f0, s1)
               else
                 (case fs_stat E (ev s1) fd of
                    None \<Rightarrow> (HDF_FAILURE, Some f0, emit (FwClose fd, fs_close E (ev s1) fd) s1)
                  | Some st_size \<Rightarrow>
                      (case OsalMemCalloc E (Bytes (unat HDF_FW_BLOCK_SIZE)) s1 of
                         (None, s2) \<Rightarrow>
                           (HDF_ERR_MALLOC_FAIL, Some f0, emit (FwClose fd, fs_close E (ev s2) fd) s2)
                       | (Some base, s2) \<Rightarrow>
                           (HDF_SUCCESS, Some (f0\<lparr>fwSize := of_nat st_size, fwPara := Some base\<rparr>),
                            s2\<lparr>fwdescs := (fwdescs s2)(base \<mapsto>
                               \<lparr>fw_fd = fd, fw_offset = 0, fw_openFlag = True\<rparr>)\<rparr>))))
      | _ \<Rightarrow> (HDF_ERR_INVALID_PARAM, fw, s))"

definition OsalSeekFirmware ::
  "OsalFirmware option \<Rightarrow> u32 \<Rightarrow> ('a) fw_sys_scheme \<Rightarrow> ret \<times> ('a) fw_sys_scheme" where
  "OsalSeekFirmware fw offset s =
     (case fw of None \<Rightarrow> (HDF_ERR_INVALID_PARAM, s) | Some f \<Rightarrow>
        if offset \<ge> fwSize f then (HDF_ERR_INVALID_PARAM, s)
        else
          (case fwPara f of
             None \<Rightarrow> (HDF_ERR_INVALID_PARAM, s)
           | Some p \<Rightarrow>
               (case fwdescs s p of
                  None \<Rightarrow> (HDF_SUCCESS, s\<lparr>h_bad := True\<rparr>)
                | Some d \<Rightarrow> (HDF_SUCCESS, s\<lparr>fwdescs := (fwdescs s)(p \<mapsto> d\<lparr>fw_offset := offset\<rparr>)\<rparr>))))"

definition OsalReadFirmware ::
  "('m) fw_env_scheme \<Rightarrow> OsalFirmware option \<Rightarrow> OsalFwBlock option \<Rightarrow> ('a) fw_sys_scheme
   \<Rightarrow> ret \<times> OsalFwBlock option \<times> ('a) fw_sys_scheme" where
  "OsalReadFirmware E fw block s =
     (case (fw, block) of
        (Some f, Some b) \<Rightarrow>
          (case fwPara f of None \<Rightarrow> (HDF_ERR_INVALID_PARAM, block, s) | Some p \<Rightarrow>
            (case fwdescs s p of
               None \<Rightarrow> (HDF_FAILURE, block, s\<lparr>h_bad := True\<rparr>)
             | Some d \<Rightarrow>
                 if \<not> fw_openFlag d then (HDF_ERR_INVALID_PARAM, block, s)
                 else
                   let b1 = b\<lparr>fb_data := Some p, fb_endFlag := False, fb_dataSize := HDF_FW_BLOCK_SIZE\<rparr> in
                   if fw_offset d \<ge> fwSize f then (HDF_ERR_INVALID_PARAM, Some b1, s)
                   else
                     let b2 = (if fw_offset d + fb_dataSize b1 \<ge> fwSize f
                               then b1\<lparr>fb_dataSize := fwSize f - fw_offset d, fb_endFlag := True\<rparr>
                               else b1) in
                     if fw_fd d = -1 then (HDF_ERR_INVALID_PARAM, Some b2, s)
                     else
                       let pos = fs_lseek E (ev s) (fw_fd d) (fw_offset d);
                           s1 = emit (FwLseek (fw_fd d) (fw_offset d), pos) s in
                       if word_of_int pos \<noteq> fw_offset d then (HDF_FAILURE, Some b2, s1)
                       else
                         (case fs_read E (ev s1) (fw_fd d) (unat (fb_dataSize b2)) of
                            None \<Rightarrow> (HDF_FAILURE, Some b2, emit (FwRead (fw_fd d) (unat (fb_dataSize b2)), -1) s1)
                          | Some ys \<Rightarrow>
                              let s2 = mem_write p 0 ys
                                         (emit (FwRead (fw_fd d) (unat (fb_dataSize b2)), int (length ys)) s1) in
                              if (of_nat (length ys) :: u32) \<noteq> fb_dataSize b2 then (HDF_FAILURE, Some b2, s2)
                              else
                                (HDF_SUCCESS, Some (b2\<lparr>fb_curOffset := fw_offset d\<rparr>),
                                 s2\<lparr>fwdescs := (fwdescs s2)(p \<mapsto>
                                    d\<lparr>fw_offset := fw_offset d + fb_dataSize b2\<rparr>)\<rparr>))))
      | _ \<Rightarrow> (HDF_ERR_INVALID_PARAM, block, s))"

definition OsalReleaseFirmware ::
  "('m) fw_env_scheme \<Rightarrow> OsalFirmware option \<Rightarrow> ('a) fw_sys_scheme
   \<Rightarrow> ret \<times> OsalFirmware option \<times> ('a) fw_sys_scheme" where
  "OsalReleaseFirmware E fw s =
     (case Option.bind fw fwPara of None \<Rightarrow> (HDF_ERR_INVALID_PARAM, fw, s) | Some p \<Rightarrow>
       (case fwdescs s p of
          None \<Rightarrow> (HDF_FAILURE, fw, s\<lparr>h_bad := True\<rparr>)
        | Some d \<Rightarrow>
            if fw_fd d = -1 then (HDF_ERR_INVALID_PARAM, fw, s)
            else
              let r = fs_close E (ev s) (fw_fd d); s1 = emit (FwClose (fw_fd d), r) s in
              if r \<noteq> 0 then (HDF_FAILURE, fw, s1)
              else (HDF_SUCCESS, map_option (\<lambda>f. f\<lparr>fwPara := None\<rparr>) fw,
                    (OsalMemFree (Some p) s1)\<lparr>fwdescs := (fwdescs s1)(p := None)\<rparr>)))"

subsection \<open>Reading a whole image\<close>

text \<open>A driver's download loop: read blocks until the end flag, collecting the buffer's bytes.\<close>

fun fw_read_all ::
  "('m) fw_env_scheme \<Rightarrow> nat \<Rightarrow> OsalFirmware option \<Rightarrow> ('a) fw_sys_scheme
   \<Rightarrow> u8 list option \<times> ('a) fw_sys_scheme" where
  "fw_read_all E 0 fw s = (None, s)"
| "fw_read_all E (Suc n) fw s =
     (case OsalReadFirmware E fw (Some \<lparr>fb_data = None, fb_dataSize = 0, fb_curOffset = 0, fb_endFlag = False\<rparr>) s of
        (r, Some b, s1) \<Rightarrow>
          if r \<noteq> HDF_SUCCESS then (None, s1)
          else
            (case fb_data b of None \<Rightarrow> (None, s1) | Some p \<Rightarrow>
              (case mem_read p 0 (unat (fb_dataSize b)) s1 of
                 None \<Rightarrow> (None, s1)
               | Some ys \<Rightarrow>
                   if fb_endFlag b then (Some ys, s1)
                   else (case fw_read_all E n fw s1 of
                           (None, s2) \<Rightarrow> (None, s2) | (Some zs, s2) \<Rightarrow> (Some (ys @ zs), s2))))
      | (r, None, s1) \<Rightarrow> (None, s1))"

text \<open>The file system shows the file \<open>content\<close> behind \<open>fd\<close>.\<close>

definition fs_contract :: "('m) fw_env_scheme \<Rightarrow> int \<Rightarrow> u8 list \<Rightarrow> bool" where
  "fs_contract E fd content \<longleftrightarrow>
     (\<forall>tr off. unat off \<le> length content \<longrightarrow> fs_lseek E tr fd off = int (unat off)) \<and>
     (\<forall>tr off r n. fs_read E (tr @ [(FwLseek fd off, r)]) fd n = Some (take n (drop (unat off) content)))"

lemma fw_emit [simp]: "fwdescs (emit e s) = fwdescs s"
  by (simp add: emit_def)

lemma OsalReadFirmware_step:
  assumes fs: "fs_contract E fd content" "fd \<noteq> -1"
    and f: "fwPara f = Some p" "unat (fwSize f) = length content" "length content + 64 < 4294967296"
    and d: "fwdescs s p = Some \<lparr>fw_fd = fd, fw_offset = off, fw_openFlag = True\<rparr>"
    and off: "unat off < length content"
    and buf: "h_blk s p = Some bs" "length bs = 64"
  shows "\<exists>b s'. OsalReadFirmware E (Some f) (Some b0) s = (HDF_SUCCESS, Some b, s') \<and> fb_data b = Some p \<and>
      unat (fb_dataSize b) = min 64 (length content - unat off) \<and> fb_curOffset b = off \<and>
      (fb_endFlag b \<longleftrightarrow> length content \<le> unat off + 64) \<and>
      mem_read p 0 (unat (fb_dataSize b)) s' = Some (take 64 (drop (unat off) content)) \<and>
      fwdescs s' p = Some \<lparr>fw_fd = fd, fw_offset = off + fb_dataSize b, fw_openFlag = True\<rparr> \<and>
      h_bad s' = h_bad s \<and> (\<exists>bs'. h_blk s' p = Some bs' \<and> length bs' = 64) \<and> dom (h_blk s') = dom (h_blk s)"
proof -
  have sum: "unat (off + 64) = unat off + 64"
    using off f(3) by (subst unat_add_lt32) auto
  let ?last = "fwSize f \<le> off + 64"
  have last: "?last \<longleftrightarrow> length content \<le> unat off + 64"
    using sum f(2) by (simp add: word_le_nat_alt)
  let ?sz = "if ?last then fwSize f - off else 64"
  have sz: "unat ?sz = min 64 (length content - unat off)"
    using last f(2) off by (auto simp: unat_sub word_le_nat_alt)
  let ?ys = "take (unat ?sz) (drop (unat off) content)"
  have ys: "?ys = take 64 (drop (unat off) content)" "length ?ys = unat ?sz"
    using sz by (auto simp: min_def)
  have le: "length ?ys \<le> 64" using ys(2) sz by simp
  let ?s2 = "emit (FwRead fd (unat ?sz), int (length ?ys)) (emit (FwLseek fd off, int (unat off)) s)"
  have w: "mem_write p 0 ?ys ?s2 = ?s2\<lparr>h_blk := (h_blk s)(p \<mapsto> patch bs 0 ?ys)\<rparr>"
    using buf le by (simp add: mem_write_def)
  let ?b = "b0\<lparr>fb_data := Some p, fb_dataSize := ?sz, fb_endFlag := ?last, fb_curOffset := off\<rparr>"
  let ?s' = "?s2\<lparr>h_blk := (h_blk s)(p \<mapsto> patch bs 0 ?ys),
      fwdescs := (fwdescs s)(p \<mapsto> \<lparr>fw_fd = fd, fw_offset = off + ?sz, fw_openFlag = True\<rparr>)\<rparr>"
  have lt: "\<not> fwSize f \<le> off" using off f(2) by (simp add: word_le_nat_alt)
  have cast: "(of_nat (length ?ys) :: u32) = ?sz" using ys(2) by simp
  have pos: "fs_lseek E (ev s) fd off = int (unat off)" and
    rd: "fs_read E (ev s @ [(FwLseek fd off, int (unat off))]) fd (unat ?sz) = Some ?ys"
    using fs off unfolding fs_contract_def by auto
  have "OsalReadFirmware E (Some f) (Some b0) s = (HDF_SUCCESS, Some ?b, ?s')"
  proof (cases ?last)
    case True
    then show ?thesis using f(1) d lt fs(2) pos rd w cast
      by (simp add: OsalReadFirmware_def HDF_FW_BLOCK_SIZE_def Let_def)
  next
    case False
    then show ?thesis using f(1) d lt fs(2) pos rd w cast
      by (simp add: OsalReadFirmware_def HDF_FW_BLOCK_SIZE_def Let_def)
  qed
  moreover have "mem_read p 0 (unat ?sz) ?s' = Some (take 64 (drop (unat off) content))"
    using buf(2) ys le by (simp add: mem_read_def patch_def)
  ultimately show ?thesis
    using sz last le buf by (intro exI [of _ ?b] exI [of _ ?s']) auto
qed

lemma fw_read_all_from:
  assumes fs: "fs_contract E fd content" "fd \<noteq> -1"
    and f: "fwPara f = Some p" "unat (fwSize f) = length content" "length content + 64 < 4294967296"
  shows "fwdescs s p = Some \<lparr>fw_fd = fd, fw_offset = off, fw_openFlag = True\<rparr> \<Longrightarrow>
      unat off < length content \<Longrightarrow> h_blk s p = Some bs \<Longrightarrow> length bs = 64 \<Longrightarrow>
      length content - unat off \<le> 64 * n \<Longrightarrow>
      \<exists>s'. fw_read_all E n (Some f) s = (Some (drop (unat off) content), s') \<and> h_bad s' = h_bad s \<and>
        dom (h_blk s') = dom (h_blk s) \<and>
        (\<exists>d. fwdescs s' p = Some d \<and> fw_fd d = fd)"
proof (induction n arbitrary: s off bs)
  case (Suc n)
  let ?b0 = "\<lparr>fb_data = None, fb_dataSize = 0, fb_curOffset = 0, fb_endFlag = False\<rparr>"
  obtain b s1 where r: "OsalReadFirmware E (Some f) (Some ?b0) s = (HDF_SUCCESS, Some b, s1)"
    "fb_data b = Some p" "unat (fb_dataSize b) = min 64 (length content - unat off)"
    "fb_endFlag b \<longleftrightarrow> length content \<le> unat off + 64"
    "mem_read p 0 (unat (fb_dataSize b)) s1 = Some (take 64 (drop (unat off) content))"
    "fwdescs s1 p = Some \<lparr>fw_fd = fd, fw_offset = off + fb_dataSize b, fw_openFlag = True\<rparr>"
    "h_bad s1 = h_bad s" "dom (h_blk s1) = dom (h_blk s)" "\<exists>bs'. h_blk s1 p = Some bs' \<and> length bs' = 64"
    using OsalReadFirmware_step [OF fs f Suc.prems(1-4), of ?b0] by blast
  show ?case
  proof (cases "fb_endFlag b")
    case True
    then have "take 64 (drop (unat off) content) = drop (unat off) content" using r(4) by simp
    then show ?thesis using r True by simp
  next
    case False
    then have sz: "unat (fb_dataSize b) = 64" using r(3,4) by simp
    have off': "unat (off + fb_dataSize b) = unat off + 64"
      using Suc.prems(2) f(3) sz by (subst unat_add_lt32) auto
    obtain bs' where bs': "h_blk s1 p = Some bs'" "length bs' = 64" using r(9) by blast
    have lt: "unat (off + fb_dataSize b) < length content" using False r(4) off' by simp
    have fuel: "length content - unat (off + fb_dataSize b) \<le> 64 * n" using Suc.prems(5) off' by simp
    from Suc.IH [OF r(6) lt bs' fuel] obtain s2 where
      "fw_read_all E n (Some f) s1 = (Some (drop (unat off + 64) content), s2)" "h_bad s2 = h_bad s1"
      "dom (h_blk s2) = dom (h_blk s1)" "\<exists>d. fwdescs s2 p = Some d \<and> fw_fd d = fd"
      unfolding off' by blast
    moreover have "take 64 (drop (unat off) content) @ drop (unat off + 64) content = drop (unat off) content"
      by (metis add.commute append_take_drop_id drop_drop)
    ultimately show ?thesis using r False by simp
  qed
qed simp

text \<open>
  Reading a requested firmware block by block until the end flag yields exactly the bytes
  of the file.
\<close>

theorem osal_firmware_image:
  assumes "heap_ok s" and "fs_contract E fd content" and "fd \<noteq> -1" and "content \<noteq> []"
    and "length content + 64 < 4294967296"
    and "fs_realpath E name = Some path" and "fs_open E (ev s) path = fd"
    and "fs_stat E (ev s @ [(FwOpen path, fd)]) fd = Some (length content)"
    and "mem_ok E (h_next s) (Bytes 64)" and "\<And>tr. fs_close E tr fd = 0"
  shows "case OsalRequestFirmware E (Some f0) (Some name) s of (r, f, s1) \<Rightarrow>
     r = HDF_SUCCESS \<and> map_option fwSize f = Some (of_nat (length content)) \<and>
     (case fw_read_all E (Suc (length content div 64)) f s1 of (img, s2) \<Rightarrow>
        img = Some content \<and>
        (case OsalReleaseFirmware E f s2 of (r', f', s3) \<Rightarrow>
           r' = HDF_SUCCESS \<and> dom (h_blk s3) = dom (h_blk s) \<and> h_bad s3 = h_bad s))"
proof -
  let ?p = "h_next s"
  let ?f = "f0\<lparr>fwSize := of_nat (length content), fwPara := Some ?p\<rparr>"
  define s1 where "s1 = (emit (FwOpen path, fd) s)\<lparr>h_next := Suc ?p,
      h_blk := (h_blk s)(?p \<mapsto> replicate 64 0),
      fwdescs := (fwdescs s)(?p \<mapsto> \<lparr>fw_fd = fd, fw_offset = 0, fw_openFlag = True\<rparr>)\<rparr>"
  have req: "OsalRequestFirmware E (Some f0) (Some name) s = (HDF_SUCCESS, Some ?f, s1)"
    using assms(3,6-9) by (simp add: OsalRequestFirmware_def HDF_FW_BLOCK_SIZE_def alloc_eqs Let_def s1_def)
  have f: "fwPara ?f = Some ?p" "unat (fwSize ?f) = length content"
    using assms(5) by (simp_all add: unat_of_nat_lt32)
  have d: "fwdescs s1 ?p = Some \<lparr>fw_fd = fd, fw_offset = 0, fw_openFlag = True\<rparr>"
    "h_blk s1 ?p = Some (replicate 64 0)" "h_bad s1 = h_bad s" "dom (h_blk s1) = insert ?p (dom (h_blk s))"
    by (simp_all add: s1_def)
  obtain s2 where all: "fw_read_all E (Suc (length content div 64)) (Some ?f) s1 = (Some content, s2)"
    and s2: "h_bad s2 = h_bad s1" "dom (h_blk s2) = dom (h_blk s1)" "\<exists>d. fwdescs s2 ?p = Some d \<and> fw_fd d = fd"
    using fw_read_all_from [OF assms(2,3) f assms(5) d(1) _ d(2), of "Suc (length content div 64)"] assms(4)
    by fastforce
  obtain d2 where d2: "fwdescs s2 ?p = Some d2" "fw_fd d2 = fd" using s2(3) by blast
  have live: "h_blk s2 ?p \<noteq> None" using s2(2) d(4) by auto
  have "OsalReleaseFirmware E (Some ?f) s2 = (HDF_SUCCESS, Some (?f\<lparr>fwPara := None\<rparr>),
      (emit (FwClose fd, 0) s2)\<lparr>h_blk := (h_blk s2)(?p := None), fwdescs := (fwdescs s2)(?p := None)\<rparr>)"
    using d2 live assms(3,10) by (auto simp: OsalReleaseFirmware_def OsalMemFree_def LOS_MemFree_def Let_def)
  moreover have "?p \<notin> dom (h_blk s)" using heap_ok_fresh [OF assms(1)] by auto
  ultimately show ?thesis using req all s2 d by auto
qed

definition fw_demo_env :: fw_env where
  "fw_demo_env = osal_env.extend osal_demo_env
     \<lparr>fs_realpath = Some, fs_open = (\<lambda>_ _. 3), fs_stat = (\<lambda>_ _. Some 70),
      fs_lseek = (\<lambda>_ _ off. int (unat off)),
      fs_read = (\<lambda>tr fd n. case last tr of
          (FwLseek fd' off, _) \<Rightarrow> Some (take n (drop (unat off) (replicate 69 1 @ [2]))) | _ \<Rightarrow> None),
      fs_close = (\<lambda>_ _. 0)\<rparr>"

definition fw_demo :: fw_sys where
  "fw_demo = \<lparr>h_next = 0, h_blk = Map.empty, h_bad = False, ev = [], litetimers = Map.empty,
     threads = Map.empty, fwdescs = Map.empty\<rparr>"

lemma osal_firmware_image_witness:
  "\<exists>f s1. OsalRequestFirmware fw_demo_env (Some \<lparr>fwSize = 0, fwPara = None\<rparr>) (Some ''fw'') fw_demo = (HDF_SUCCESS, f, s1) \<and>
     fst (fw_read_all fw_demo_env 2 f s1) = Some (replicate 69 1 @ [2])"
proof -
  let ?c = "replicate 69 1 @ [2] :: u8 list"
  have fs: "fs_contract fw_demo_env 3 ?c"
    by (simp add: fs_contract_def fw_demo_env_def osal_env.defs)
  have e: "fs_realpath fw_demo_env ''fw'' = Some ''fw''" "fs_open fw_demo_env (ev fw_demo) ''fw'' = 3"
    "fs_stat fw_demo_env (ev fw_demo @ [(FwOpen ''fw'', 3)]) 3 = Some (length ?c)"
    "mem_ok fw_demo_env (h_next fw_demo) (Bytes 64)" "\<And>tr. fs_close fw_demo_env tr 3 = 0"
    by (simp_all add: fw_demo_env_def osal_env.defs osal_demo_env_def)
  have ok: "heap_ok fw_demo" by (simp add: heap_ok_def fw_demo_def)
  have two: "Suc (length ?c div 64) = 2" by simp
  show ?thesis
    using osal_firmware_image [OF ok fs _ _ _ e, of "\<lparr>fwSize = 0, fwPara = None\<rparr>"] unfolding two
    by (auto split: prod.splits)
qed

end
