(* ===== verification/Osal_Time.thy ===== *)
theory Osal_Time
  imports Prelude
begin

text \<open>
  Time stamps and delays, \<open>khdf/liteos/osal/src/osal_time.c\<close>. \<open>OsalTimespec\<close> has two unsigned
  64-bit fields. The tick counter, the configured tick rate and the framework's \<open>HDF_KILO_UNIT\<close>
  are parameters; a delay is the argument handed to the kernel.
\<close>

record OsalTimespec =
  ts_sec :: u64
  ts_usec :: u64

record time_env =
  LOS_TickCountGet :: u64
  TICK_PER_SECOND :: u64
  HDF_KILO_UNIT :: u64

datatype los_delay = LOS_Msleep u32 | LOS_Udelay u32 | LOS_Mdelay u32

definition OsalGetSysTimeMs :: "time_env \<Rightarrow> u64" where
  "OsalGetSysTimeMs E = LOS_TickCountGet E * (HDF_KILO_UNIT E div TICK_PER_SECOND E)"

definition OsalGetTime :: "time_env \<Rightarrow> OsalTimespec option \<Rightarrow> ret \<times> OsalTimespec option" where
  "OsalGetTime E time =
     (case time of None \<Rightarrow> (HDF_ERR_INVALID_PARAM, None) | Some t \<Rightarrow>
        let ms = LOS_TickCountGet E * (HDF_KILO_UNIT E div TICK_PER_SECOND E)
        in (HDF_SUCCESS, Some (t\<lparr>ts_sec := ms div HDF_KILO_UNIT E,
                                 ts_usec := (ms mod HDF_KILO_UNIT E) * HDF_KILO_UNIT E\<rparr>)))"

definition OsalDiffTime ::
  "time_env \<Rightarrow> OsalTimespec option \<Rightarrow> OsalTimespec option \<Rightarrow> OsalTimespec option
   \<Rightarrow> ret \<times> OsalTimespec option" where
  "OsalDiffTime E t0 t1 diff =
     (case (t0, t1, diff) of
        (Some a, Some b, Some d) \<Rightarrow>
          if ts_sec a > ts_sec b then (HDF_ERR_INVALID_PARAM, diff)
          else
            let borrow = ts_usec b < ts_usec a;
                usec = (if borrow then ucast (HDF_KILO_UNIT E * HDF_KILO_UNIT E) else 0) :: u32;
                sec = (if borrow then 1 else 0) :: u32
            in (HDF_SUCCESS, Some (d\<lparr>ts_usec := ucast usec + ts_usec b - ts_usec a,
                                     ts_sec := ts_sec b - ts_sec a - ucast sec\<rparr>))
      | _ \<Rightarrow> (HDF_ERR_INVALID_PARAM, diff))"

definition OsalSleep :: "time_env \<Rightarrow> u32 \<Rightarrow> los_delay" where
  "OsalSleep E sec = LOS_Msleep (sec * ucast (HDF_KILO_UNIT E))"

definition OsalMSleep :: "u32 \<Rightarrow> los_delay" where "OsalMSleep ms = LOS_Msleep ms"
definition OsalUDelay :: "u32 \<Rightarrow> los_delay" where "OsalUDelay us = LOS_Udelay us"
definition OsalMDelay :: "u32 \<Rightarrow> los_delay" where "OsalMDelay ms = LOS_Mdelay ms"

text \<open>The instant a time stamp denotes, in microseconds.\<close>

definition instant :: "OsalTimespec \<Rightarrow> nat" where
  "instant t = unat (ts_sec t) * 1000000 + unat (ts_usec t)"

definition ts_norm :: "OsalTimespec \<Rightarrow> bool" where
  "ts_norm t \<longleftrightarrow> unat (ts_usec t) < 1000000"

text \<open>
  OsalGetTime returns a normalised time stamp that denotes the system time in milliseconds.
\<close>

theorem osal_get_time:
  assumes "HDF_KILO_UNIT E = 1000"
  shows "case OsalGetTime E (Some t) of (r, Some t') \<Rightarrow> r = HDF_SUCCESS \<and> ts_norm t' \<and>
           instant t' = unat (OsalGetSysTimeMs E) * 1000 | _ \<Rightarrow> False"
proof -
  let ?ms = "LOS_TickCountGet E * (1000 div TICK_PER_SECOND E)"
  have lt: "unat (?ms mod 1000) < 1000" by (simp add: unat_mod)
  have u: "unat ((?ms mod 1000) * 1000) = unat (?ms mod 1000) * 1000"
    using lt by (simp add: unat_word_ariths)
  have arith: "n div 1000 * 1000000 + n mod 1000 * 1000 = n * 1000" for n :: nat
    using div_mult_mod_eq [of n 1000] by linarith
  have "unat (?ms div 1000) * 1000000 + unat (?ms mod 1000) * 1000 = unat ?ms * 1000"
    using arith [of "unat ?ms"] by (simp only: unat_div unat_mod) simp
  then show ?thesis
    using assms lt u by (simp add: OsalGetTime_def OsalGetSysTimeMs_def instant_def ts_norm_def Let_def)
qed

text \<open>
  OsalDiffTime of two normalised time stamps in order is the normalised difference of the
  instants they denote.
\<close>

theorem osal_diff_time:
  assumes "HDF_KILO_UNIT E = 1000" and "ts_norm a" and "ts_norm b" and "instant a \<le> instant b"
  shows "case OsalDiffTime E (Some a) (Some b) (Some d) of
           (r, Some d') \<Rightarrow> r = HDF_SUCCESS \<and> ts_norm d' \<and> instant a + instant d' = instant b | _ \<Rightarrow> False"
proof -
  have ge: "unat (ts_sec a) \<le> unat (ts_sec b)"
  proof (rule ccontr)
    assume "\<not> ?thesis"
    then have "Suc (unat (ts_sec b)) * 1000000 \<le> unat (ts_sec a) * 1000000" by (intro mult_le_mono1) simp
    then show False using assms(2-4) by (simp add: instant_def ts_norm_def)
  qed
  then have le: "ts_sec a \<le> ts_sec b" by (simp add: word_le_nat_alt)
  have sd: "unat (ts_sec b - ts_sec a) = unat (ts_sec b) - unat (ts_sec a)" using le by (rule unat_diff_le)
  show ?thesis
  proof (cases "ts_usec b < ts_usec a")
    case False
    then have "unat (ts_usec b - ts_usec a) = unat (ts_usec b) - unat (ts_usec a)"
      by (intro unat_diff_le) simp
    then show ?thesis
      using False le sd ge assms
      by (auto simp: OsalDiffTime_def instant_def ts_norm_def Let_def word_le_nat_alt word_less_nat_alt
          diff_mult_distrib)
  next
    case True
    then have lt: "unat (ts_sec a) < unat (ts_sec b)"
      using ge assms(2-4) by (cases "unat (ts_sec a) = unat (ts_sec b)") (auto simp: instant_def word_less_nat_alt)
    have one: "unat (ts_sec b - ts_sec a - 1) = unat (ts_sec b) - unat (ts_sec a) - 1"
      using lt sd by (subst unat_diff_le) (auto simp: word_le_nat_alt)
    have "unat (1000000 + ts_usec b) = 1000000 + unat (ts_usec b)"
      using assms(3) by (subst unat_add_no_overflow) (auto simp: ts_norm_def)
    moreover have "ts_usec a \<le> 1000000 + ts_usec b"
      using assms(2) calculation by (simp add: word_le_nat_alt ts_norm_def)
    ultimately have us: "unat (1000000 + ts_usec b - ts_usec a) = 1000000 + unat (ts_usec b) - unat (ts_usec a)"
      by (simp add: unat_diff_le)
    have "unat (ts_usec a) \<le> 1000000 + unat (ts_usec b)" using assms(2) by (simp add: ts_norm_def)
    moreover have "unat (ts_usec b) < unat (ts_usec a)" using True by (simp add: word_less_nat_alt)
    moreover have "(unat (ts_sec b) - unat (ts_sec a) - 1) * 1000000 + 1000000 =
        unat (ts_sec b) * 1000000 - unat (ts_sec a) * 1000000"
      using lt by (simp add: diff_mult_distrib)
    moreover have "unat (ts_sec a) * 1000000 < unat (ts_sec b) * 1000000" using lt by simp
    moreover have "\<not> ts_sec b < ts_sec a" using le by simp
    ultimately show ?thesis
      using True one us assms(1)
      by (simp add: OsalDiffTime_def instant_def ts_norm_def Let_def)
  qed
qed

text \<open>The guard compares seconds only: an end within the second before the start passes it.\<close>

text \<open>
  When the seconds are equal and the microseconds are in the wrong order, OsalDiffTime
  reports success and its seconds field wraps to the largest 64-bit number.
\<close>

theorem osal_diff_time_underflow:
  assumes "HDF_KILO_UNIT E = 1000" and "ts_norm a" and "ts_norm b"
    and "ts_sec a = ts_sec b" and "ts_usec b < ts_usec a"
  shows "case OsalDiffTime E (Some a) (Some b) (Some d) of
           (r, Some d') \<Rightarrow> r = HDF_SUCCESS \<and> ts_sec d' = 18446744073709551615 | _ \<Rightarrow> False"
  using assms by (simp add: OsalDiffTime_def Let_def)

lemma osal_get_time_witness:
  "OsalGetTime \<lparr>LOS_TickCountGet = 123, TICK_PER_SECOND = 100, HDF_KILO_UNIT = 1000\<rparr> (Some \<lparr>ts_sec = 0, ts_usec = 0\<rparr>)
     = (HDF_SUCCESS, Some \<lparr>ts_sec = 1, ts_usec = 230000\<rparr>)"
  using osal_get_time [of "\<lparr>LOS_TickCountGet = 123, TICK_PER_SECOND = 100, HDF_KILO_UNIT = 1000\<rparr>" "\<lparr>ts_sec = 0, ts_usec = 0\<rparr>"]
  by (simp add: OsalGetTime_def)

lemma osal_diff_time_witness:
  "OsalDiffTime \<lparr>LOS_TickCountGet = 0, TICK_PER_SECOND = 100, HDF_KILO_UNIT = 1000\<rparr>
     (Some \<lparr>ts_sec = 1, ts_usec = 900000\<rparr>) (Some \<lparr>ts_sec = 3, ts_usec = 100000\<rparr>) (Some \<lparr>ts_sec = 0, ts_usec = 0\<rparr>)
     = (HDF_SUCCESS, Some \<lparr>ts_sec = 1, ts_usec = 200000\<rparr>)"
  using osal_diff_time [of "\<lparr>LOS_TickCountGet = 0, TICK_PER_SECOND = 100, HDF_KILO_UNIT = 1000\<rparr>"
      "\<lparr>ts_sec = 1, ts_usec = 900000\<rparr>" "\<lparr>ts_sec = 3, ts_usec = 100000\<rparr>" "\<lparr>ts_sec = 0, ts_usec = 0\<rparr>"]
  by (simp add: OsalDiffTime_def instant_def ts_norm_def)

lemma osal_diff_time_underflow_witness:
  "fst (OsalDiffTime \<lparr>LOS_TickCountGet = 0, TICK_PER_SECOND = 100, HDF_KILO_UNIT = 1000\<rparr>
     (Some \<lparr>ts_sec = 3, ts_usec = 2\<rparr>) (Some \<lparr>ts_sec = 3, ts_usec = 1\<rparr>) (Some \<lparr>ts_sec = 0, ts_usec = 0\<rparr>)) = HDF_SUCCESS"
  using osal_diff_time_underflow [of "\<lparr>LOS_TickCountGet = 0, TICK_PER_SECOND = 100, HDF_KILO_UNIT = 1000\<rparr>"
      "\<lparr>ts_sec = 3, ts_usec = 2\<rparr>" "\<lparr>ts_sec = 3, ts_usec = 1\<rparr>" "\<lparr>ts_sec = 0, ts_usec = 0\<rparr>"]
  by (simp add: ts_norm_def split: prod.splits option.splits)

end
