(* ===== verification/Osal_Io.thy ===== *)
theory Osal_Io
  imports Osal_Mem
begin

text \<open>
  Interrupts, files, work queues and character devices of \<open>khdf/liteos/osal/src\<close>:
  \<open>osal_irq.c\<close>, \<open>osal_file.c\<close>, \<open>osal_workqueue.c\<close>, \<open>osal_cdev.c\<close>.

  Interrupt controller, file system, kernel work queues and the character-device layer are
  outside the repository; \<open>io_api\<close> gives the status of each call from the trace. Function
  pointers are numbers, \<open>None\<close> is \<open>NULL\<close>.
\<close>

datatype io_ev =
    HwiCreate u32 u16 nat "nat option" | HwiDelete u32 "nat option" | IrqMask u32 | IrqUnmask u32
  | FileOpen string int u32 | FileWrite int "u8 list" | FileRead int nat | FileLseek int int int | FileClose int
  | CreateWorkqueue string | DestroyWorkqueue nat | InitWork nat | InitDelayedWork nat
  | QueueWork nat nat | QueueDelayedWork nat nat u32 | WorkBusy nat | CancelWork nat | CancelDelayedWork nat
  | RunWork nat "nat option"
  | Mkdir | RegisterDriver string u32 nat | UnregisterDriver "string option"
  | CdevOpen nat nat | CdevRelease nat nat | CdevRead nat nat nat | CdevWrite nat nat nat
  | CdevSeek nat nat int int | CdevIoctl nat nat int nat | CdevPoll nat nat nat

type_synonym io_trace = "(io_ev \<times> int) list"

record WorkWrapper =
  ww_workFunc :: "nat option"
  ww_para :: "nat option"

record OsalCdevOps =
  co_seek :: "nat option"
  co_read :: "nat option"
  co_write :: "nat option"
  co_poll :: "nat option"
  co_ioctl :: "nat option"
  co_open :: "nat option"
  co_release :: "nat option"

text \<open>Which VFS entries a device has: the code stores \<open>OsalCdevSeek\<close> \<open>\<dots>\<close> or \<open>NULL\<close> in each.\<close>

record file_operations_vfs =
  fo_seek :: bool
  fo_read :: bool
  fo_write :: bool
  fo_poll :: bool
  fo_ioctl :: bool
  fo_open :: bool
  fo_close :: bool

record OsalCdev =
  cd_fops :: file_operations_vfs
  cd_opsImpl :: OsalCdevOps
  cd_path :: "string option"
  cd_priv :: "nat option"

text \<open>A file: \<open>f_vnode->data->priv\<close>, the device behind its vnode, and \<open>f_priv\<close>.\<close>

record vfs_file =
  f_vnode :: "nat option"
  f_priv :: "nat option"

record HdfWork = realWork :: "nat option"
record HdfWorkQueue = realWorkQueue :: "nat option"
record OsalFile = realFile :: u32

record io_sys = "(io_ev \<times> int) sys" +
  works :: "nat \<Rightarrow> WorkWrapper option"
  cdevs :: "nat \<Rightarrow> OsalCdev option"
  files :: "nat \<Rightarrow> vfs_file option"
  devPathInitted :: bool

record io_env = mem_env +
  io_api :: "io_trace \<Rightarrow> io_ev \<Rightarrow> int"
  wq_create :: "io_trace \<Rightarrow> string \<Rightarrow> nat option"
  file_realpath :: "string \<Rightarrow> string option"
  file_read :: "io_trace \<Rightarrow> int \<Rightarrow> nat \<Rightarrow> u8 list option"
  OS_HWI_MAX_NUM :: u32
  io_MS2Tick :: "u32 \<Rightarrow> u32"

definition io_call ::
  "('m) io_env_scheme \<Rightarrow> io_ev \<Rightarrow> ('a) io_sys_scheme \<Rightarrow> int \<times> ('a) io_sys_scheme" where
  "io_call E c s = ext_call (io_api E) c s"

subsection \<open>Interrupts\<close>

definition OsalRegisterIrq ::
  "('m) io_env_scheme \<Rightarrow> u32 \<Rightarrow> u32 \<Rightarrow> nat \<Rightarrow> nat option \<Rightarrow> ('a) io_sys_scheme
   \<Rightarrow> ret \<times> ('a) io_sys_scheme" where
  "OsalRegisterIrq E irqId config handle dev s =
     (if irqId \<ge> OS_HWI_MAX_NUM E then (HDF_ERR_INVALID_PARAM, s)
      else
        (case io_call E (HwiCreate irqId (ucast config) handle dev) s of (r, s1) \<Rightarrow>
          if r \<noteq> 0 then (HDF_FAILURE, s1)
          else (HDF_SUCCESS, emit (IrqUnmask irqId, 0) s1)))"

definition OsalUnregisterIrq ::
  "('m) io_env_scheme \<Rightarrow> u32 \<Rightarrow> nat option \<Rightarrow> ('a) io_sys_scheme \<Rightarrow> ret \<times> ('a) io_sys_scheme" where
  "OsalUnregisterIrq E irqId dev s =
     (if irqId \<ge> OS_HWI_MAX_NUM E then (HDF_ERR_INVALID_PARAM, s)
      else
        (case io_call E (HwiDelete irqId dev) s of (r, s1) \<Rightarrow>
          if r \<noteq> 0 then (HDF_FAILURE, s1) else (HDF_SUCCESS, s1)))"

definition OsalEnableIrq ::
  "('m) io_env_scheme \<Rightarrow> u32 \<Rightarrow> ('a) io_sys_scheme \<Rightarrow> ret \<times> ('a) io_sys_scheme" where
  "OsalEnableIrq E irqId s =
     (if irqId \<ge> OS_HWI_MAX_NUM E then (HDF_ERR_INVALID_PARAM, s)
      else (HDF_SUCCESS, emit (IrqUnmask irqId, 0) s))"

definition OsalDisableIrq ::
  "('m) io_env_scheme \<Rightarrow> u32 \<Rightarrow> ('a) io_sys_scheme \<Rightarrow> ret \<times> ('a) io_sys_scheme" where
  "OsalDisableIrq E irqId s =
     (if irqId \<ge> OS_HWI_MAX_NUM E then (HDF_ERR_INVALID_PARAM, s)
      else (HDF_SUCCESS, emit (IrqMask irqId, 0) s))"

subsection \<open>Files\<close>

text \<open>
  A file handle stores the descriptor as a pointer and every use reads it back with
  \<open>(int32_t)(uintptr_t)\<close>: \<open>realFile\<close> is its low 32 bits, read as a signed number.
\<close>

definition OsalFileOpen ::
  "('m) io_env_scheme \<Rightarrow> OsalFile option \<Rightarrow> string option \<Rightarrow> int \<Rightarrow> u32 \<Rightarrow> ('a) io_sys_scheme
   \<Rightarrow> ret \<times> OsalFile option \<times> ('a) io_sys_scheme" where
  "OsalFileOpen E file path flags rights s =
     (case (file, path) of
        (Some f, Some name) \<Rightarrow>
          let f0 = f\<lparr>realFile := -1\<rparr> in
          (case file_realpath E name of
             None \<Rightarrow> (HDF_FAILURE, Some f0, s)
           | Some pathName \<Rightarrow>
               (case io_call E (FileOpen pathName flags rights) s of (fd, s1) \<Rightarrow>
                 if fd < 0 then (HDF_FAILURE, Some f0, s1)
                 else (HDF_SUCCESS, Some (f0\<lparr>realFile := word_of_int fd\<rparr>), s1)))
      | _ \<Rightarrow> (HDF_ERR_INVALID_PARAM, file, s))"

definition file_fd :: "OsalFile option \<Rightarrow> int option" where
  "file_fd file = (case file of None \<Rightarrow> None | Some f \<Rightarrow> if sint (realFile f) = -1 then None else Some (sint (realFile f)))"

text \<open>Results are byte counts, or (\<open>Inl\<close>) a status code.\<close>

definition OsalFileWrite ::
  "('m) io_env_scheme \<Rightarrow> OsalFile option \<Rightarrow> u8 list option \<Rightarrow> ('a) io_sys_scheme
   \<Rightarrow> (ret + int) \<times> ('a) io_sys_scheme" where
  "OsalFileWrite E file str s =
     (case (file_fd file, str) of
        (Some fd, Some bs) \<Rightarrow>
          (case io_call E (FileWrite fd bs) s of (r, s1) \<Rightarrow>
            if r < 0 then (Inl HDF_FAILURE, s1) else (Inr r, s1))
      | _ \<Rightarrow> (Inl HDF_ERR_INVALID_PARAM, s))"

definition OsalFileClose ::
  "('m) io_env_scheme \<Rightarrow> OsalFile option \<Rightarrow> ('a) io_sys_scheme \<Rightarrow> OsalFile option \<times> ('a) io_sys_scheme" where
  "OsalFileClose E file s =
     (case file_fd file of None \<Rightarrow> (file, s) | Some fd \<Rightarrow>
        (map_option (\<lambda>f. f\<lparr>realFile := -1\<rparr>) file, snd (io_call E (FileClose fd) s)))"

definition OsalFileRead ::
  "('m) io_env_scheme \<Rightarrow> OsalFile option \<Rightarrow> nat option \<Rightarrow> nat \<Rightarrow> ('a) io_sys_scheme
   \<Rightarrow> (ret + int) \<times> ('a) io_sys_scheme" where
  "OsalFileRead E file buf len s =
     (case (file_fd file, buf) of
        (Some fd, Some p) \<Rightarrow>
          (case file_read E (ev s) fd len of
             None \<Rightarrow> (Inl HDF_FAILURE, emit (FileRead fd len, -1) s)
           | Some ys \<Rightarrow> (Inr (int (length ys)), mem_write p 0 ys (emit (FileRead fd len, int (length ys)) s)))
      | _ \<Rightarrow> (Inl HDF_ERR_INVALID_PARAM, s))"

definition OsalFileLseek ::
  "('m) io_env_scheme \<Rightarrow> OsalFile option \<Rightarrow> int \<Rightarrow> int \<Rightarrow> ('a) io_sys_scheme
   \<Rightarrow> (ret + int) \<times> ('a) io_sys_scheme" where
  "OsalFileLseek E file offset whence s =
     (case file_fd file of
        None \<Rightarrow> (Inl HDF_ERR_INVALID_PARAM, s)
      | Some fd \<Rightarrow>
          (case io_call E (FileLseek fd offset whence) s of (r, s1) \<Rightarrow>
            if r < 0 then (Inl HDF_FAILURE, s1) else (Inr r, s1)))"

subsection \<open>Work queues\<close>

definition HdfWorkQueueInit ::
  "('m) io_env_scheme \<Rightarrow> HdfWorkQueue option \<Rightarrow> string option \<Rightarrow> ('a) io_sys_scheme
   \<Rightarrow> ret \<times> HdfWorkQueue option \<times> ('a) io_sys_scheme" where
  "HdfWorkQueueInit E queue name s =
     (case (queue, name) of
        (Some q, Some nm) \<Rightarrow>
          let wq = wq_create E (ev s) nm; s1 = emit (CreateWorkqueue nm, 0) s in
          (if wq = None then HDF_FAILURE else HDF_SUCCESS, Some (q\<lparr>realWorkQueue := wq\<rparr>), s1)
      | _ \<Rightarrow> (HDF_ERR_INVALID_PARAM, queue, s))"

definition WorkEntry :: "nat option \<Rightarrow> ('a) io_sys_scheme \<Rightarrow> ('a) io_sys_scheme" where
  "WorkEntry work s =
     (case work of None \<Rightarrow> s | Some p \<Rightarrow>
       (case works s p of
          None \<Rightarrow> s\<lparr>h_bad := True\<rparr>
        | Some w \<Rightarrow>
            (case ww_workFunc w of None \<Rightarrow> s | Some f \<Rightarrow> emit (RunWork f (ww_para w), 0) s)))"

definition work_alloc ::
  "('m) io_env_scheme \<Rightarrow> (nat \<Rightarrow> io_ev) \<Rightarrow> nat option \<Rightarrow> nat option \<Rightarrow> HdfWork option
   \<Rightarrow> ('a) io_sys_scheme \<Rightarrow> ret \<times> HdfWork option \<times> ('a) io_sys_scheme" where
  "work_alloc E init func para work s =
     (case (work, func) of
        (Some w, Some f) \<Rightarrow>
          (case OsalMemCalloc E (Objs ''WorkWrapper'' 1) s of
             (None, s1) \<Rightarrow> (HDF_ERR_MALLOC_FAIL, Some (w\<lparr>realWork := None\<rparr>), s1)
           | (Some p, s1) \<Rightarrow>
               (HDF_SUCCESS, Some (w\<lparr>realWork := Some p\<rparr>),
                emit (init p, 0) (s1\<lparr>works := (works s1)(p \<mapsto> \<lparr>ww_workFunc = Some f, ww_para = para\<rparr>)\<rparr>)))
      | _ \<Rightarrow> (HDF_ERR_INVALID_PARAM, work, s))"

definition HdfWorkInit ::
  "('m) io_env_scheme \<Rightarrow> nat option \<Rightarrow> nat option \<Rightarrow> HdfWork option \<Rightarrow> ('a) io_sys_scheme
   \<Rightarrow> ret \<times> HdfWork option \<times> ('a) io_sys_scheme" where
  "HdfWorkInit E func para work s = work_alloc E InitWork func para work s"

definition HdfDelayedWorkInit ::
  "('m) io_env_scheme \<Rightarrow> nat option \<Rightarrow> nat option \<Rightarrow> HdfWork option \<Rightarrow> ('a) io_sys_scheme
   \<Rightarrow> ret \<times> HdfWork option \<times> ('a) io_sys_scheme" where
  "HdfDelayedWorkInit E func para work s = work_alloc E InitDelayedWork func para work s"

definition HdfWorkDestroy ::
  "HdfWork option \<Rightarrow> ('a) io_sys_scheme \<Rightarrow> HdfWork option \<times> ('a) io_sys_scheme" where
  "HdfWorkDestroy work s =
     (case Option.bind work realWork of None \<Rightarrow> (work, s) | Some p \<Rightarrow>
        (map_option (\<lambda>w. w\<lparr>realWork := None\<rparr>) work,
         (OsalMemFree (Some p) s)\<lparr>works := (works s)(p := None)\<rparr>))"

definition HdfDelayedWorkDestroy ::
  "HdfWork option \<Rightarrow> ('a) io_sys_scheme \<Rightarrow> HdfWork option \<times> ('a) io_sys_scheme" where
  "HdfDelayedWorkDestroy work s =
     (case Option.bind work realWork of None \<Rightarrow> (work, s) | Some p \<Rightarrow> HdfWorkDestroy work s)"

definition HdfWorkQueueDestroy :: "HdfWorkQueue option \<Rightarrow> ('a) io_sys_scheme \<Rightarrow> ('a) io_sys_scheme" where
  "HdfWorkQueueDestroy queue s =
     (case Option.bind queue realWorkQueue of None \<Rightarrow> s | Some q \<Rightarrow> emit (DestroyWorkqueue q, 0) s)"

definition HdfAddWork ::
  "('m) io_env_scheme \<Rightarrow> HdfWorkQueue option \<Rightarrow> HdfWork option \<Rightarrow> ('a) io_sys_scheme
   \<Rightarrow> bool \<times> ('a) io_sys_scheme" where
  "HdfAddWork E queue work s =
     (case (Option.bind queue realWorkQueue, Option.bind work realWork) of
        (Some q, Some p) \<Rightarrow> (case io_call E (QueueWork q p) s of (r, s1) \<Rightarrow> (r \<noteq> 0, s1))
      | _ \<Rightarrow> (False, s))"

definition HdfAddDelayedWork ::
  "('m) io_env_scheme \<Rightarrow> HdfWorkQueue option \<Rightarrow> HdfWork option \<Rightarrow> u32 \<Rightarrow> ('a) io_sys_scheme
   \<Rightarrow> bool \<times> ('a) io_sys_scheme" where
  "HdfAddDelayedWork E queue work ms s =
     (case (Option.bind queue realWorkQueue, Option.bind work realWork) of
        (Some q, Some p) \<Rightarrow>
          (case io_call E (QueueDelayedWork q p (io_MS2Tick E ms)) s of (r, s1) \<Rightarrow> (r \<noteq> 0, s1))
      | _ \<Rightarrow> (False, s))"

definition HdfWorkBusy ::
  "('m) io_env_scheme \<Rightarrow> HdfWork option \<Rightarrow> ('a) io_sys_scheme \<Rightarrow> int \<times> ('a) io_sys_scheme" where
  "HdfWorkBusy E work s =
     (case Option.bind work realWork of None \<Rightarrow> (0, s) | Some p \<Rightarrow> io_call E (WorkBusy p) s)"

definition HdfCancelWorkSync ::
  "('m) io_env_scheme \<Rightarrow> HdfWork option \<Rightarrow> ('a) io_sys_scheme \<Rightarrow> bool \<times> ('a) io_sys_scheme" where
  "HdfCancelWorkSync E work s =
     (case Option.bind work realWork of None \<Rightarrow> (False, s) | Some p \<Rightarrow>
        (case io_call E (CancelWork p) s of (r, s1) \<Rightarrow> (r \<noteq> 0, s1)))"

definition HdfCancelDelayedWorkSync ::
  "('m) io_env_scheme \<Rightarrow> HdfWork option \<Rightarrow> ('a) io_sys_scheme \<Rightarrow> bool \<times> ('a) io_sys_scheme" where
  "HdfCancelDelayedWorkSync E work s =
     (case Option.bind work realWork of None \<Rightarrow> (False, s) | Some p \<Rightarrow>
        (case io_call E (CancelDelayedWork p) s of (r, s1) \<Rightarrow> (r \<noteq> 0, s1)))"

subsection \<open>Character devices\<close>

definition AssignFileOps :: "OsalCdevOps \<Rightarrow> file_operations_vfs" where
  "AssignFileOps src =
     \<lparr>fo_seek = (co_seek src \<noteq> None), fo_read = (co_read src \<noteq> None), fo_write = (co_write src \<noteq> None),
      fo_poll = (co_poll src \<noteq> None), fo_ioctl = (co_ioctl src \<noteq> None), fo_open = (co_open src \<noteq> None),
      fo_close = (co_release src \<noteq> None)\<rparr>"

definition OsalAllocCdev ::
  "('m) io_env_scheme \<Rightarrow> OsalCdevOps \<Rightarrow> ('a) io_sys_scheme \<Rightarrow> nat option \<times> ('a) io_sys_scheme" where
  "OsalAllocCdev E fops s =
     (case OsalMemCalloc E (Objs ''OsalCdev'' 1) s of
        (None, s1) \<Rightarrow> (None, s1)
      | (Some c, s1) \<Rightarrow>
          (Some c, s1\<lparr>cdevs := (cdevs s1)(c \<mapsto>
             \<lparr>cd_fops = AssignFileOps fops, cd_opsImpl = fops, cd_path = None, cd_priv = None\<rparr>)\<rparr>))"

definition OsalRegisterCdev ::
  "('m) io_env_scheme \<Rightarrow> nat option \<Rightarrow> string option \<Rightarrow> u32 \<Rightarrow> nat option \<Rightarrow> ('a) io_sys_scheme
   \<Rightarrow> ret \<times> ('a) io_sys_scheme" where
  "OsalRegisterCdev E cdev name mode priv s =
     (case (cdev, name) of
        (Some c, Some nm) \<Rightarrow>
          let s1 = (if devPathInitted s then s
                    else (case io_call E Mkdir s of (r, s') \<Rightarrow>
                           if r = 0 then s'\<lparr>devPathInitted := True\<rparr> else s')) in
          (case cdevs s1 c of
             None \<Rightarrow> (HDF_FAILURE, s1\<lparr>h_bad := True\<rparr>)
           | Some cd \<Rightarrow>
               (case io_call E (RegisterDriver nm mode c) s1 of (r, s2) \<Rightarrow>
                 if ret_of r = HDF_SUCCESS
                 then (HDF_SUCCESS, s2\<lparr>cdevs := (cdevs s2)(c \<mapsto> cd\<lparr>cd_priv := priv, cd_path := Some nm\<rparr>)\<rparr>)
                 else (ret_of r, s2)))
      | _ \<Rightarrow> (HDF_ERR_INVALID_PARAM, s))"

definition OsalUnregisterCdev ::
  "('m) io_env_scheme \<Rightarrow> nat option \<Rightarrow> ('a) io_sys_scheme \<Rightarrow> ('a) io_sys_scheme" where
  "OsalUnregisterCdev E cdev s =
     (case cdev of None \<Rightarrow> s | Some c \<Rightarrow>
       (case cdevs s c of
          None \<Rightarrow> s\<lparr>h_bad := True\<rparr>
        | Some cd \<Rightarrow> snd (io_call E (UnregisterDriver (cd_path cd)) s)))"

definition OsalFreeCdev :: "nat option \<Rightarrow> ('a) io_sys_scheme \<Rightarrow> ('a) io_sys_scheme" where
  "OsalFreeCdev cdev s =
     (case cdev of None \<Rightarrow> s | Some c \<Rightarrow> (OsalMemFree (Some c) s)\<lparr>cdevs := (cdevs s)(c := None)\<rparr>)"

definition OsalGetCdevPriv :: "nat option \<Rightarrow> ('a) io_sys_scheme \<Rightarrow> nat option" where
  "OsalGetCdevPriv cdev s = Option.bind (Option.bind cdev (cdevs s)) cd_priv"

definition OsalSetFilePriv :: "nat option \<Rightarrow> nat option \<Rightarrow> ('a) io_sys_scheme \<Rightarrow> ('a) io_sys_scheme" where
  "OsalSetFilePriv filep priv s =
     (case filep of None \<Rightarrow> s | Some p \<Rightarrow>
       (case files s p of
          None \<Rightarrow> s\<lparr>h_bad := True\<rparr>
        | Some f \<Rightarrow> s\<lparr>files := (files s)(p \<mapsto> f\<lparr>f_priv := priv\<rparr>)\<rparr>))"

definition OsalGetFilePriv :: "nat option \<Rightarrow> ('a) io_sys_scheme \<Rightarrow> nat option" where
  "OsalGetFilePriv filep s = Option.bind (Option.bind filep (files s)) f_priv"

text \<open>
  Calling an implementation entry of the device behind a file; a \<open>NULL\<close> entry or a missing
  device is undefined behaviour. \<open>checked\<close> is the guard on \<open>filep\<close> and \<open>f_vnode\<close> that every
  entry but \<open>OsalCdevOpen\<close> has.
\<close>

definition cdev_call ::
  "('m) io_env_scheme \<Rightarrow> bool \<Rightarrow> (OsalCdevOps \<Rightarrow> nat option) \<Rightarrow> (nat \<Rightarrow> nat \<Rightarrow> io_ev) \<Rightarrow> nat option
   \<Rightarrow> ('a) io_sys_scheme \<Rightarrow> ret \<times> ('a) io_sys_scheme" where
  "cdev_call E checked sel c filep s =
     (case Option.bind (Option.bind filep (files s)) f_vnode of
        None \<Rightarrow> (if checked then (HDF_ERR_INVALID_OBJECT, s) else (HDF_FAILURE, s\<lparr>h_bad := True\<rparr>))
      | Some d \<Rightarrow>
          (case Option.bind (cdevs s d) (\<lambda>cd. sel (cd_opsImpl cd)) of
             None \<Rightarrow> (HDF_FAILURE, s\<lparr>h_bad := True\<rparr>)
           | Some fn \<Rightarrow> (case io_call E (c fn d) s of (r, s1) \<Rightarrow> (ret_of r, s1))))"

definition OsalCdevOpen ::
  "('m) io_env_scheme \<Rightarrow> nat option \<Rightarrow> ('a) io_sys_scheme \<Rightarrow> ret \<times> ('a) io_sys_scheme" where
  "OsalCdevOpen E filep s = cdev_call E False co_open CdevOpen filep s"

definition OsalCdevRelease ::
  "('m) io_env_scheme \<Rightarrow> nat option \<Rightarrow> ('a) io_sys_scheme \<Rightarrow> ret \<times> ('a) io_sys_scheme" where
  "OsalCdevRelease E filep s = cdev_call E True co_release CdevRelease filep s"

definition OsalCdevRead ::
  "('m) io_env_scheme \<Rightarrow> nat option \<Rightarrow> nat \<Rightarrow> ('a) io_sys_scheme \<Rightarrow> ret \<times> ('a) io_sys_scheme" where
  "OsalCdevRead E filep buflen s = cdev_call E True co_read (\<lambda>fn d. CdevRead fn d buflen) filep s"

definition OsalCdevWrite ::
  "('m) io_env_scheme \<Rightarrow> nat option \<Rightarrow> nat \<Rightarrow> ('a) io_sys_scheme \<Rightarrow> ret \<times> ('a) io_sys_scheme" where
  "OsalCdevWrite E filep buflen s = cdev_call E True co_write (\<lambda>fn d. CdevWrite fn d buflen) filep s"

definition OsalCdevSeek ::
  "('m) io_env_scheme \<Rightarrow> nat option \<Rightarrow> int \<Rightarrow> int \<Rightarrow> ('a) io_sys_scheme \<Rightarrow> ret \<times> ('a) io_sys_scheme" where
  "OsalCdevSeek E filep offset whence s = cdev_call E True co_seek (\<lambda>fn d. CdevSeek fn d offset whence) filep s"

definition OsalCdevIoctl ::
  "('m) io_env_scheme \<Rightarrow> nat option \<Rightarrow> int \<Rightarrow> nat \<Rightarrow> ('a) io_sys_scheme \<Rightarrow> ret \<times> ('a) io_sys_scheme" where
  "OsalCdevIoctl E filep cmd arg s = cdev_call E True co_ioctl (\<lambda>fn d. CdevIoctl fn d cmd arg) filep s"

definition OsalCdevPoll ::
  "('m) io_env_scheme \<Rightarrow> nat option \<Rightarrow> nat \<Rightarrow> ('a) io_sys_scheme \<Rightarrow> ret \<times> ('a) io_sys_scheme" where
  "OsalCdevPoll E filep fds s = cdev_call E True co_poll (\<lambda>fn d. CdevPoll fn d fds) filep s"

subsection \<open>The VFS never reaches a \<open>NULL\<close> entry\<close>

text \<open>What the VFS does with a file of a registered device: it calls an entry that is there.\<close>

inductive vfs_call ::
  "('m) io_env_scheme \<Rightarrow> nat \<Rightarrow> ('a) io_sys_scheme \<Rightarrow> ret \<times> ('a) io_sys_scheme \<Rightarrow> bool"
  for E p s where
  vfs_open: "Option.bind (files s p) f_vnode = Some d \<Longrightarrow> cdevs s d = Some cd \<Longrightarrow> fo_open (cd_fops cd) \<Longrightarrow>
    vfs_call E p s (OsalCdevOpen E (Some p) s)"
| vfs_close: "Option.bind (files s p) f_vnode = Some d \<Longrightarrow> cdevs s d = Some cd \<Longrightarrow> fo_close (cd_fops cd) \<Longrightarrow>
    vfs_call E p s (OsalCdevRelease E (Some p) s)"
| vfs_read: "Option.bind (files s p) f_vnode = Some d \<Longrightarrow> cdevs s d = Some cd \<Longrightarrow> fo_read (cd_fops cd) \<Longrightarrow>
    vfs_call E p s (OsalCdevRead E (Some p) n s)"
| vfs_write: "Option.bind (files s p) f_vnode = Some d \<Longrightarrow> cdevs s d = Some cd \<Longrightarrow> fo_write (cd_fops cd) \<Longrightarrow>
    vfs_call E p s (OsalCdevWrite E (Some p) n s)"
| vfs_seek: "Option.bind (files s p) f_vnode = Some d \<Longrightarrow> cdevs s d = Some cd \<Longrightarrow> fo_seek (cd_fops cd) \<Longrightarrow>
    vfs_call E p s (OsalCdevSeek E (Some p) off wh s)"
| vfs_ioctl: "Option.bind (files s p) f_vnode = Some d \<Longrightarrow> cdevs s d = Some cd \<Longrightarrow> fo_ioctl (cd_fops cd) \<Longrightarrow>
    vfs_call E p s (OsalCdevIoctl E (Some p) cmd arg s)"
| vfs_poll: "Option.bind (files s p) f_vnode = Some d \<Longrightarrow> cdevs s d = Some cd \<Longrightarrow> fo_poll (cd_fops cd) \<Longrightarrow>
    vfs_call E p s (OsalCdevPoll E (Some p) fds s)"

definition cdev_ok :: "('a) io_sys_scheme \<Rightarrow> bool" where
  "cdev_ok s \<longleftrightarrow> (\<forall>d cd. cdevs s d = Some cd \<longrightarrow> cd_fops cd = AssignFileOps (cd_opsImpl cd) \<and> h_blk s d \<noteq> None)"

lemma io_emit [simp]: "cdevs (emit e s) = cdevs s" "files (emit e s) = files s" "works (emit e s) = works s"
  by (simp_all add: emit_def)

lemma cdev_call_ok:
  assumes "Option.bind (files s p) f_vnode = Some d" and "cdevs s d = Some cd" and "sel (cd_opsImpl cd) = Some fn"
  shows "cdev_call E b sel c (Some p) s = (ret_of (io_api E (ev s) (c fn d)), emit (c fn d, io_api E (ev s) (c fn d)) s)"
  using assms by (simp add: cdev_call_def io_call_def ext_call_eq)

text \<open>
  A registered character device only ever has a driver callback called that the driver
  supplied: the VFS entry of a missing callback is NULL.
\<close>

theorem osal_cdev_dispatch:
  assumes "cdev_ok s" and "vfs_call E p s (r, s')"
  shows "h_bad s' = h_bad s \<and> cdev_ok s' \<and> (\<exists>e. ev s' = ev s @ [(e, io_api E (ev s) e)] \<and> r = ret_of (io_api E (ev s) e))"
proof -
  have step: ?thesis
    if c: "Option.bind (files s p) f_vnode = Some d" "cdevs s d = Some cd"
      and g: "cd_fops cd = AssignFileOps (cd_opsImpl cd) \<Longrightarrow> sel (cd_opsImpl cd) \<noteq> None"
      and r: "(r, s') = cdev_call E b sel c (Some p) s" for d cd sel c b
  proof -
    obtain fn where "sel (cd_opsImpl cd) = Some fn" using g assms(1) c(2) unfolding cdev_ok_def by blast
    from cdev_call_ok [where sel = sel and s = s, OF c this, of E b c] r assms(1) show ?thesis by (auto simp: cdev_ok_def)
  qed
  from assms(2) show ?thesis
    by (cases rule: vfs_call.cases)
      (rule step, assumption, assumption, simp add: AssignFileOps_def,
        simp add: OsalCdevOpen_def OsalCdevRelease_def OsalCdevRead_def OsalCdevWrite_def OsalCdevSeek_def
          OsalCdevIoctl_def OsalCdevPoll_def, assumption?)+
qed

lemma osal_cdev_alloc_ok:
  assumes "cdev_ok s" and "heap_ok s" and "OsalAllocCdev E fops s = (c, s')"
  shows "cdev_ok s' \<and> heap_ok s' \<and> h_bad s' = h_bad s"
  using assms by (auto simp: OsalAllocCdev_def alloc_eqs cdev_ok_def heap_ok_def split: if_splits)

lemma osal_cdev_register_ok:
  assumes "cdev_ok s" and "cdevs s c \<noteq> None" and "OsalRegisterCdev E (Some c) name mode priv s = (r, s')"
  shows "cdev_ok s' \<and> h_bad s' = h_bad s"
  using assms
  by (auto simp: OsalRegisterCdev_def io_call_def ext_call_eq cdev_ok_def Let_def emit_def split: if_splits option.splits)

lemma osal_cdev_free_ok:
  assumes "cdev_ok s" and "cdevs s c \<noteq> None"
  shows "cdev_ok (OsalFreeCdev (Some c) s) \<and> h_bad (OsalFreeCdev (Some c) s) = h_bad s"
proof -
  have "h_blk s c \<noteq> None" using assms unfolding cdev_ok_def by auto
  then show ?thesis using assms(1) by (auto simp: OsalFreeCdev_def OsalMemFree_def LOS_MemFree_def cdev_ok_def)
qed

definition cdev_demo :: io_sys where
  "cdev_demo = (let ops = \<lparr>co_seek = None, co_read = Some 5, co_write = None, co_poll = None, co_ioctl = None,
       co_open = None, co_release = None\<rparr> in
     \<lparr>h_next = 1, h_blk = [0 \<mapsto> []], h_bad = False, ev = [], works = Map.empty,
      cdevs = [0 \<mapsto> \<lparr>cd_fops = AssignFileOps ops, cd_opsImpl = ops, cd_path = Some ''dev'', cd_priv = None\<rparr>],
      files = [9 \<mapsto> \<lparr>f_vnode = Some 0, f_priv = None\<rparr>], devPathInitted = True\<rparr>)"

definition io_demo_env :: io_env where
  "io_demo_env = \<lparr>mem_ok = (\<lambda>_ _. True), mem_junk = (\<lambda>_ _. 0), copy_ok = (\<lambda>d n. n \<le> d \<and> 0 < d),
     io_api = (\<lambda>_ _. 7), wq_create = (\<lambda>_ _. Some 1), file_realpath = Some, file_read = (\<lambda>_ _ _. None),
     OS_HWI_MAX_NUM = 128, io_MS2Tick = (\<lambda>ms. ms)\<rparr>"

lemma osal_cdev_dispatch_witness:
  "\<not> h_bad (snd (OsalCdevRead io_demo_env (Some 9) 4 cdev_demo)) \<and> vfs_call io_demo_env 9 cdev_demo (OsalCdevRead io_demo_env (Some 9) 4 cdev_demo)"
proof -
  have ok: "cdev_ok cdev_demo" by (simp add: cdev_ok_def cdev_demo_def Let_def)
  have v: "vfs_call io_demo_env 9 cdev_demo (OsalCdevRead io_demo_env (Some 9) 4 cdev_demo)"
  proof (rule vfs_call.vfs_read)
    show "cdevs cdev_demo 0 = Some (the (cdevs cdev_demo 0))" "Option.bind (files cdev_demo 9) f_vnode = Some 0"
      "fo_read (cd_fops (the (cdevs cdev_demo 0)))"
      by (simp_all add: cdev_demo_def AssignFileOps_def Let_def)
  qed
  have "\<not> h_bad cdev_demo" by (simp add: cdev_demo_def Let_def)
  with osal_cdev_dispatch [OF ok, of io_demo_env 9 "fst (OsalCdevRead io_demo_env (Some 9) 4 cdev_demo)"
      "snd (OsalCdevRead io_demo_env (Some 9) 4 cdev_demo)"] v
  show ?thesis by simp
qed

end
