(* ===== verification/Usb_Pnp.thy ===== *)
theory Usb_Pnp
  imports Osal_Sync_Facts
begin

text \<open>
  USB plug-and-play notification, \<open>khdf/liteos/model/usb/host/src/usb_pnp_notify.c\<close>: the list of
  attached devices, the list of device information objects with their status machine, and the
  single-slot mailbox (\<open>g_usbDevice\<close>, \<open>g_usbPnpNotifyCmdType\<close>) through which attach and detach
  interrupts hand an event to the report thread, which forwards it to the loader service.

  The globals are the fields of \<open>usb_sys\<close>; \<open>u_os\<close> is the OSAL state (heap and kernel trace) the
  module allocates from. The two lists are lists of block numbers in link order. The framework's
  serialisation buffers, the loader service and the USB core are outside the repository: their
  calls are recorded with the status \<open>u_api\<close> gives them. \<open>USB_PNP_NOTIFY_TEST_MODE\<close> is off.
\<close>

datatype UsbPnpNotifyServiceCmd =
    USB_PNP_NOTIFY_ADD_INTERFACE | USB_PNP_NOTIFY_REMOVE_INTERFACE | USB_PNP_NOTIFY_REPORT_INTERFACE
  | USB_PNP_NOTIFY_ADD_DEVICE | USB_PNP_NOTIFY_REMOVE_DEVICE
  | USB_PNP_DRIVER_REGISTER_DEVICE | USB_PNP_DRIVER_UNREGISTER_DEVICE | USB_PNP_OTHER_CMD int

datatype UsbPnpNotifyRemoveType = USB_PNP_NOTIFY_REMOVE_BUS_DEV_NUM | USB_PNP_NOTIFY_REMOVE_INTERFACE_NUM

datatype UsbPnpDeviceStatus =
    USB_PNP_DEVICE_INIT_STATUS | USB_PNP_DEVICE_ADD_STATUS
  | USB_PNP_DEVICE_REMOVE_STATUS | USB_PNP_DEVICE_INTERFACE_STATUS

datatype UsbInfoQueryPara =
    USB_INFO_NORMAL_TYPE int int
  | USB_INFO_ID_TYPE int
  | USB_INFO_DEVICE_ADDRESS_TYPE nat

datatype UsbGetDevicePara =
    USB_PNP_DEVICE_ADDRESS_TYPE u8 u8
  | USB_PNP_DEVICE_VENDOR_PRODUCT_TYPE u16 u16

record UsbPnpNotifyInterfaceInfo =
  if_class :: u8
  if_subClass :: u8
  if_protocol :: u8
  if_number :: u8

record UsbPnpNotifyDeviceInfo =
  di_vendorId :: u16
  di_productId :: u16
  di_bcdDeviceLow :: u16
  di_bcdDeviceHigh :: u16
  di_class :: u8
  di_subClass :: u8
  di_protocol :: u8

record UsbPnpNotifyMatchInfoTable =
  mt_usbDevAddr :: nat
  mt_devNum :: int
  mt_busNum :: int
  mt_deviceInfo :: UsbPnpNotifyDeviceInfo
  mt_removeType :: UsbPnpNotifyRemoveType
  mt_numInfos :: u8
  mt_interfaceInfo :: "UsbPnpNotifyInterfaceInfo list"

record UsbPnpAddRemoveInfo =
  ar_devNum :: int
  ar_busNum :: int
  ar_interface :: UsbPnpNotifyInterfaceInfo

record UsbPnpDeviceInfo =
  pi_id :: int
  pi_lock :: OsalMutex
  pi_status :: UsbPnpDeviceStatus
  pi_interfaceRemoveStatus :: "bool list"
  pi_info :: UsbPnpNotifyMatchInfoTable

text \<open>The USB core's device: descriptor fields, \<open>cdesc->bNumInterface\<close> and \<open>ifaces[].idesc\<close>.\<close>

record usb_device =
  ud_address :: u8
  ud_port_no :: u8
  ud_idVendor :: u16
  ud_idProduct :: u16
  ud_bcdDevice :: u16
  ud_bDeviceClass :: u8
  ud_bDeviceSubClass :: u8
  ud_bDeviceProtocol :: u8
  ud_bNumInterface :: "u8 option"
  ud_ifaces :: "UsbPnpNotifyInterfaceInfo option list"

text \<open>What an event pointer refers to: a \<open>usb_device\<close>, or the global \<open>g_usbPnpInfo\<close>.\<close>

datatype event_data = UsbDev nat | PnpInfo

datatype usb_ev =
    SbufObtain | SbufWriteBuffer UsbPnpNotifyMatchInfoTable | SbufRecycle | SbufWriteInt32
  | LoaderBind | LoaderDispatch UsbPnpNotifyServiceCmd UsbPnpNotifyMatchInfoTable | LoaderRecycle
  | WakeUp | MSleep nat | UsbCreateDevice nat | InitWaitqueue | MemsetS
  | DevObjAlloc string | DevObjRegister | DevObjPublish string | DevObjGet string | DevObjRelease

type_synonym usb_trace = "(usb_ev \<times> int) list"

text \<open>A request's serialised data: what reading a buffer yields, and the strings still to be read.\<close>

record usb_sbuf =
  sb_buffer :: "UsbPnpAddRemoveInfo option"
  sb_strings :: "string list"

record usb_sys =
  u_os :: osal_sys
  u_ev :: usb_trace
  g_usbPnpDeviceList :: "(nat \<times> nat) list"
  g_usbPnpInfoList :: "nat list"
  u_infos :: "nat \<Rightarrow> UsbPnpDeviceInfo option"
  u_devs :: "nat \<Rightarrow> usb_device option"
  u_idNum :: int
  u_infoTable :: UsbPnpNotifyMatchInfoTable
  g_usbPnpNotifyCmdType :: UsbPnpNotifyServiceCmd
  g_usbPnpNotifyRemoveType :: UsbPnpNotifyRemoveType
  g_usbDevice :: "event_data option"
  g_usbPnpInfo :: UsbPnpAddRemoveInfo
  g_usbPnpThreadRunningFlag :: bool
  g_usbPnpNotifyReportThread :: OsalThread
  u_sendLock :: OsalMutex
  u_listLock :: OsalMutex
  u_listLockInit :: bool
  u_firstInitFlag :: bool
  u_service :: bool

record usb_env = osal_env +
  u_api :: "usb_trace \<Rightarrow> usb_ev \<Rightarrow> int"
  USB_PNP_INFO_MAX_INTERFACES :: nat
  UICLASS_HUB :: u8
  u_zeroTable :: UsbPnpNotifyMatchInfoTable
  report_entry :: nat

definition INT32_MAX :: int where "INT32_MAX = 0x7fffffff"

definition u_emit :: "usb_ev \<times> int \<Rightarrow> usb_sys \<Rightarrow> usb_sys" where
  "u_emit e s = s\<lparr>u_ev := u_ev s @ [e]\<rparr>"

definition u_call :: "('m) usb_env_scheme \<Rightarrow> usb_ev \<Rightarrow> usb_sys \<Rightarrow> int \<times> usb_sys" where
  "u_call E c s = (let r = u_api E (u_ev s) c in (r, u_emit (c, r) s))"

text \<open>Undefined behaviour is flagged in the OSAL state.\<close>

definition u_bad :: "usb_sys \<Rightarrow> usb_sys" where
  "u_bad s = s\<lparr>u_os := (u_os s)\<lparr>h_bad := True\<rparr>\<rparr>"

definition u_lock :: "('m) usb_env_scheme \<Rightarrow> OsalMutex \<Rightarrow> usb_sys \<Rightarrow> usb_sys" where
  "u_lock E m s = s\<lparr>u_os := snd (OsalMutexLock E (Some m) (u_os s))\<rparr>"

definition u_unlock :: "('m) usb_env_scheme \<Rightarrow> OsalMutex \<Rightarrow> usb_sys \<Rightarrow> usb_sys" where
  "u_unlock E m s = s\<lparr>u_os := snd (OsalMutexUnlock E (Some m) (u_os s))\<rparr>"

subsection \<open>The list of attached devices\<close>

text \<open>\<open>DListRemove\<close> of the first node whose device is \<open>d\<close>.\<close>

fun unlink_dev :: "nat \<Rightarrow> (nat \<times> nat) list \<Rightarrow> (nat \<times> nat) list" where
  "unlink_dev d [] = []"
| "unlink_dev d (n # ns) = (if snd n = d then ns else n # unlink_dev d ns)"

text \<open>
  On removal the code calls \<open>OsalMemFree(&pnpNotifyDevicePos)\<close>: the address of its own local
  variable, not the node. No heap block has that address, so the free is undefined behaviour and
  the node stays allocated.
\<close>

definition UsbPnpNotifyFindDeviceList ::
  "('m) usb_env_scheme \<Rightarrow> nat \<Rightarrow> bool \<Rightarrow> usb_sys \<Rightarrow> bool \<times> usb_sys" where
  "UsbPnpNotifyFindDeviceList E deviceObj freeFlag s =
     (if g_usbPnpDeviceList s = [] then (False, s)
      else
        let s1 = u_lock E (u_listLock s) s;
            found = deviceObj \<in> snd ` set (g_usbPnpDeviceList s);
            s2 = (if found \<and> freeFlag
                  then u_bad (s1\<lparr>g_usbPnpDeviceList :=
                         unlink_dev deviceObj (g_usbPnpDeviceList s)\<rparr>)
                  else s1)
        in (found, u_unlock E (u_listLock s) s2))"

definition UsbPnpNotifyCreateDeviceList :: "('m) usb_env_scheme \<Rightarrow> nat \<Rightarrow> usb_sys \<Rightarrow> usb_sys" where
  "UsbPnpNotifyCreateDeviceList E udev s =
     (case OsalMemCalloc E (Objs ''UsbPnpNotifyDeviceList'' 1) (u_os s) of
        (None, o1) \<Rightarrow> s\<lparr>u_os := o1\<rparr>
      | (Some n, o1) \<Rightarrow>
          u_unlock E (u_listLock s)
            ((u_lock E (u_listLock s) (s\<lparr>u_os := o1\<rparr>))
               \<lparr>g_usbPnpDeviceList := g_usbPnpDeviceList s @ [(n, udev)]\<rparr>))"

subsection \<open>The list of device information objects\<close>

definition UsbPnpNotifyCreateInfo :: "('m) usb_env_scheme \<Rightarrow> usb_sys \<Rightarrow> nat option \<times> usb_sys" where
  "UsbPnpNotifyCreateInfo E s =
     (case OsalMemCalloc E (Objs ''UsbPnpDeviceInfo'' 1) (u_os s) of
        (None, o1) \<Rightarrow> (None, s\<lparr>u_os := o1\<rparr>)
      | (Some p, o1) \<Rightarrow>
          let i = (if u_idNum s = INT32_MAX then 1 else u_idNum s) in
          (case OsalMutexInit E (Some \<lparr>realMutex = None\<rparr>) o1 of (_, lk, o2) \<Rightarrow>
             (Some p,
              s\<lparr>u_os := o2,
                u_infos := (u_infos s)(p \<mapsto>
                  \<lparr>pi_id = i, pi_lock = (case lk of None \<Rightarrow> \<lparr>realMutex = None\<rparr> | Some l \<Rightarrow> l),
                   pi_status = USB_PNP_DEVICE_INIT_STATUS,
                   pi_interfaceRemoveStatus = replicate (USB_PNP_INFO_MAX_INTERFACES E) False,
                   pi_info = u_zeroTable E\<rparr>),
                g_usbPnpInfoList := g_usbPnpInfoList s @ [p],
                u_idNum := i + 1\<rparr>)))"

definition info_matches :: "UsbInfoQueryPara \<Rightarrow> UsbPnpDeviceInfo \<Rightarrow> bool" where
  "info_matches q i =
     (case q of
        USB_INFO_NORMAL_TYPE devNum busNum \<Rightarrow> mt_devNum (pi_info i) = devNum \<and> mt_busNum (pi_info i) = busNum
      | USB_INFO_ID_TYPE n \<Rightarrow> pi_id i = n
      | USB_INFO_DEVICE_ADDRESS_TYPE a \<Rightarrow> mt_usbDevAddr (pi_info i) = a)"

definition UsbPnpNotifyFindInfo :: "UsbInfoQueryPara \<Rightarrow> usb_sys \<Rightarrow> nat option" where
  "UsbPnpNotifyFindInfo q s =
     List.find (\<lambda>p. case u_infos s p of None \<Rightarrow> False | Some i \<Rightarrow> info_matches q i) (g_usbPnpInfoList s)"

definition UsbPnpNotifyDestroyInfo :: "nat option \<Rightarrow> usb_sys \<Rightarrow> ret \<times> usb_sys" where
  "UsbPnpNotifyDestroyInfo deviceInfo s =
     (case deviceInfo of
        None \<Rightarrow> (HDF_FAILURE, s)
      | Some q \<Rightarrow>
          if g_usbPnpInfoList s = [] then (HDF_SUCCESS, s)
          else
            (case u_infos s q of
               None \<Rightarrow> (HDF_FAILURE, u_bad s)
             | Some d \<Rightarrow>
                 (case UsbPnpNotifyFindInfo (USB_INFO_ID_TYPE (pi_id d)) s of
                    None \<Rightarrow> (HDF_FAILURE, s)
                  | Some p \<Rightarrow>
                      (HDF_SUCCESS,
                       s\<lparr>g_usbPnpInfoList := remove1 p (g_usbPnpInfoList s),
                         u_os := OsalMemFree (Some p) (u_os s), u_infos := (u_infos s)(p := None)\<rparr>))))"

subsection \<open>Filling in an information object\<close>

text \<open>
  The loop of \<open>UsbPnpNotifyAddInitInfo\<close> over the interfaces \<open>i\<close>, \<open>i + 1\<close>, \<open>\<dots>\<close>: the second
  component tells whether an index left the array \<open>interfaceInfo\<close> or \<open>ifaces\<close>.
\<close>

fun fill_ifaces ::
  "nat \<Rightarrow> UsbPnpNotifyInterfaceInfo option list \<Rightarrow> nat \<Rightarrow> nat \<Rightarrow> UsbPnpNotifyInterfaceInfo list
   \<Rightarrow> ret \<times> bool \<times> UsbPnpNotifyInterfaceInfo list" where
  "fill_ifaces maxi ifaces i 0 acc = (HDF_SUCCESS, False, acc)"
| "fill_ifaces maxi ifaces i (Suc n) acc =
     (if i \<ge> length ifaces then (HDF_SUCCESS, True, acc)
      else
        (case ifaces ! i of
           None \<Rightarrow> (HDF_ERR_INVALID_PARAM, False, acc)
         | Some d \<Rightarrow>
             if i \<ge> maxi then (HDF_SUCCESS, True, acc)
             else fill_ifaces maxi ifaces (Suc i) n (acc[i := d])))"

definition UsbPnpNotifyAddInitInfo ::
  "('m) usb_env_scheme \<Rightarrow> nat \<Rightarrow> event_data \<Rightarrow> usb_sys \<Rightarrow> ret \<times> usb_sys" where
  "UsbPnpNotifyAddInitInfo E p evd s =
     (case (u_infos s p, (case evd of UsbDev a \<Rightarrow> map_option (\<lambda>d. (a, d)) (u_devs s a) | PnpInfo \<Rightarrow> None)) of
        (Some i, Some (a, d)) \<Rightarrow>
          let t = (pi_info i)\<lparr>mt_usbDevAddr := a, mt_devNum := uint (ud_address d),
                 mt_busNum := uint (ud_port_no d),
                 mt_deviceInfo := \<lparr>di_vendorId = ud_idVendor d, di_productId = ud_idProduct d,
                   di_bcdDeviceLow = ud_bcdDevice d, di_bcdDeviceHigh = ud_bcdDevice d,
                   di_class = ud_bDeviceClass d, di_subClass = ud_bDeviceSubClass d,
                   di_protocol = ud_bDeviceProtocol d\<rparr>\<rparr> in
          (case ud_bNumInterface d of
             None \<Rightarrow> (HDF_ERR_INVALID_PARAM, s\<lparr>u_infos := (u_infos s)(p \<mapsto> i\<lparr>pi_info := t\<rparr>)\<rparr>)
           | Some n \<Rightarrow>
               (case fill_ifaces (USB_PNP_INFO_MAX_INTERFACES E) (ud_ifaces d) 0 (unat n) (mt_interfaceInfo t) of
                  (r, oob, ifs) \<Rightarrow>
                    let s1 = s\<lparr>u_infos := (u_infos s)(p \<mapsto>
                               i\<lparr>pi_info := t\<lparr>mt_numInfos := n, mt_interfaceInfo := ifs\<rparr>\<rparr>)\<rparr>
                    in (r, if oob then u_bad s1 else s1)))
      | _ \<Rightarrow> (HDF_FAILURE, u_bad s))"

text \<open>The interfaces whose remove flag is off, in order, written over the start of \<open>old\<close>.\<close>

definition kept_ifaces :: "UsbPnpDeviceInfo \<Rightarrow> UsbPnpNotifyInterfaceInfo list" where
  "kept_ifaces i =
     map snd (filter (\<lambda>(r, _). \<not> r)
       (take (unat (mt_numInfos (pi_info i)))
          (zip (pi_interfaceRemoveStatus i) (mt_interfaceInfo (pi_info i)))))"

definition mark_ifaces ::
  "UsbPnpNotifyServiceCmd \<Rightarrow> UsbPnpNotifyInterfaceInfo \<Rightarrow> UsbPnpDeviceInfo \<Rightarrow> bool list" where
  "mark_ifaces cmd x i =
     map (\<lambda>k. if k < unat (mt_numInfos (pi_info i)) \<and> mt_interfaceInfo (pi_info i) ! k = x
              then (if cmd = USB_PNP_NOTIFY_REMOVE_INTERFACE then True
                    else if cmd = USB_PNP_NOTIFY_ADD_INTERFACE then False
                    else pi_interfaceRemoveStatus i ! k)
              else pi_interfaceRemoveStatus i ! k)
       [0..<length (pi_interfaceRemoveStatus i)]"

text \<open>The third component tells whether the loops leave one of the arrays.\<close>

definition UsbPnpNotifyAddInterfaceInitInfo ::
  "UsbPnpNotifyServiceCmd \<Rightarrow> UsbPnpNotifyInterfaceInfo \<Rightarrow> UsbPnpDeviceInfo \<Rightarrow> UsbPnpNotifyMatchInfoTable
   \<Rightarrow> UsbPnpDeviceInfo \<times> UsbPnpNotifyMatchInfoTable \<times> bool" where
  "UsbPnpNotifyAddInterfaceInitInfo cmd x i infoTable =
     (let i1 = i\<lparr>pi_interfaceRemoveStatus := mark_ifaces cmd x i\<rparr>;
          oob = (unat (mt_numInfos (pi_info i)) > length (mt_interfaceInfo (pi_info i)) \<or>
                 unat (mt_numInfos (pi_info i)) > length (pi_interfaceRemoveStatus i)) in
      if cmd = USB_PNP_NOTIFY_REMOVE_INTERFACE then
        (i1, infoTable\<lparr>mt_numInfos := 1, mt_interfaceInfo := (mt_interfaceInfo infoTable)[0 := x]\<rparr>,
         oob \<or> mt_interfaceInfo infoTable = [])
      else
        (let ks = kept_ifaces i1 in
         (i1, infoTable\<lparr>mt_interfaceInfo := patch (mt_interfaceInfo infoTable) 0 ks,
                        mt_numInfos := of_nat (length ks)\<rparr>,
          oob \<or> length ks > length (mt_interfaceInfo infoTable))))"

text \<open>
  \<open>UsbPnpNotifyInitInfo\<close> fills the table to send and writes it to the buffer. It also returns the
  table that the buffer then holds.
\<close>

definition is_interface_cmd :: "UsbPnpNotifyServiceCmd \<Rightarrow> bool" where
  "is_interface_cmd c \<longleftrightarrow> c = USB_PNP_NOTIFY_ADD_INTERFACE \<or> c = USB_PNP_NOTIFY_REMOVE_INTERFACE"

definition sbuf_put ::
  "('m) usb_env_scheme \<Rightarrow> UsbPnpNotifyMatchInfoTable \<Rightarrow> usb_sys
   \<Rightarrow> ret \<times> UsbPnpNotifyMatchInfoTable \<times> usb_sys" where
  "sbuf_put E t s =
     (case u_call E (SbufWriteBuffer t) s of (r, s1) \<Rightarrow> (if r = 0 then HDF_FAILURE else HDF_SUCCESS, t, s1))"

definition UsbPnpNotifyInitInfo ::
  "('m) usb_env_scheme \<Rightarrow> nat \<Rightarrow> event_data \<Rightarrow> usb_sys
   \<Rightarrow> ret \<times> UsbPnpNotifyMatchInfoTable \<times> usb_sys" where
  "UsbPnpNotifyInitInfo E p evd s =
     (case u_infos s p of
        None \<Rightarrow> (HDF_FAILURE, u_zeroTable E, u_bad s)
      | Some i \<Rightarrow>
          if is_interface_cmd (g_usbPnpNotifyCmdType s) then
            (case UsbPnpNotifyAddInterfaceInitInfo (g_usbPnpNotifyCmdType s) (ar_interface (g_usbPnpInfo s)) i
                ((u_infoTable s)\<lparr>mt_usbDevAddr := mt_usbDevAddr (pi_info i), mt_devNum := mt_devNum (pi_info i),
                   mt_busNum := mt_busNum (pi_info i), mt_deviceInfo := mt_deviceInfo (pi_info i),
                   mt_removeType := g_usbPnpNotifyRemoveType s\<rparr>) of
               (i1, t, oob) \<Rightarrow>
                 let s1 = s\<lparr>u_infos := (u_infos s)(p \<mapsto> i1), u_infoTable := t\<rparr>
                 in sbuf_put E t (if oob \<or> evd \<noteq> PnpInfo then u_bad s1 else s1))
          else if g_usbPnpNotifyCmdType s = USB_PNP_NOTIFY_REPORT_INTERFACE then
            (case UsbPnpNotifyAddInitInfo E p evd s of (r, s1) \<Rightarrow>
               if r \<noteq> HDF_SUCCESS then (r, u_zeroTable E, s1)
               else (case u_infos s1 p of
                       None \<Rightarrow> (HDF_FAILURE, u_zeroTable E, u_bad s1)
                     | Some i1 \<Rightarrow> sbuf_put E (pi_info i1) s1))
          else sbuf_put E (pi_info i) s)"

subsection \<open>Sending an event\<close>

definition UsbPnpNotifySendEventLoader ::
  "('m) usb_env_scheme \<Rightarrow> UsbPnpNotifyMatchInfoTable \<Rightarrow> usb_sys \<Rightarrow> ret \<times> usb_sys" where
  "UsbPnpNotifySendEventLoader E t s =
     (case u_call E LoaderBind s of (r, s1) \<Rightarrow>
        if r = 0 then (HDF_FAILURE, s1)
        else
          (case u_call E (LoaderDispatch (g_usbPnpNotifyCmdType s1) t) s1 of (_, s2) \<Rightarrow>
             (HDF_SUCCESS, u_emit (LoaderRecycle, 0) s2)))"

definition UsbPnpNotifyGetDeviceInfo ::
  "('m) usb_env_scheme \<Rightarrow> event_data \<Rightarrow> usb_sys \<Rightarrow> ret \<times> nat option \<times> usb_sys" where
  "UsbPnpNotifyGetDeviceInfo E eventData s =
     (case (if is_interface_cmd (g_usbPnpNotifyCmdType s)
            then (UsbPnpNotifyFindInfo
                    (USB_INFO_NORMAL_TYPE (ar_devNum (g_usbPnpInfo s)) (ar_busNum (g_usbPnpInfo s))) s,
                  (if eventData = PnpInfo then s else u_bad s))
            else if g_usbPnpNotifyCmdType s = USB_PNP_NOTIFY_ADD_DEVICE
                  \<or> g_usbPnpNotifyCmdType s = USB_PNP_NOTIFY_REMOVE_DEVICE
            then ((case eventData of PnpInfo \<Rightarrow> None
                   | UsbDev a \<Rightarrow> UsbPnpNotifyFindInfo (USB_INFO_DEVICE_ADDRESS_TYPE a) s), s)
            else UsbPnpNotifyCreateInfo E s) of
        (None, s1) \<Rightarrow> (HDF_FAILURE, None, s1)
      | (Some p, s1) \<Rightarrow>
          (case u_infos s1 p of
             None \<Rightarrow> (HDF_SUCCESS, Some p, u_bad s1)
           | Some i \<Rightarrow>
               (HDF_SUCCESS, Some p,
                s1\<lparr>u_infos := (u_infos s1)(p \<mapsto>
                  i\<lparr>pi_info := (pi_info i)\<lparr>mt_removeType := g_usbPnpNotifyRemoveType s1\<rparr>\<rparr>)\<rparr>)))"

text \<open>The part of \<open>UsbPnpNotifyHdfSendEvent\<close> under the information object's lock.\<close>

definition send_locked ::
  "('m) usb_env_scheme \<Rightarrow> nat \<Rightarrow> UsbPnpNotifyMatchInfoTable \<Rightarrow> usb_sys \<Rightarrow> ret \<times> usb_sys" where
  "send_locked E p t s =
     (case u_infos s p of
        None \<Rightarrow> (HDF_FAILURE, u_bad s)
      | Some i \<Rightarrow>
          let s1 = u_lock E (pi_lock i) s in
          (case (if pi_status i = USB_PNP_DEVICE_INIT_STATUS
                 then (case UsbPnpNotifySendEventLoader E t s1 of (r, s2) \<Rightarrow>
                         if r \<noteq> HDF_SUCCESS then (r, s2)
                         else (r, s2\<lparr>u_infos := (u_infos s2)(p \<mapsto>
                                    i\<lparr>pi_status := USB_PNP_DEVICE_ADD_STATUS\<rparr>)\<rparr>))
                 else (HDF_ERR_INVALID_OBJECT, s1)) of
             (r, s3) \<Rightarrow> (r, u_unlock E (pi_lock i) s3)))"

definition UsbPnpNotifyHdfSendEvent ::
  "('m) usb_env_scheme \<Rightarrow> nat option \<Rightarrow> event_data option \<Rightarrow> usb_sys \<Rightarrow> ret \<times> usb_sys" where
  "UsbPnpNotifyHdfSendEvent E deviceObject eventData s =
     (case (deviceObject, eventData) of
        (Some _, Some evd) \<Rightarrow>
          (case u_call E SbufObtain s of (r0, s1) \<Rightarrow>
             if r0 = 0 then (HDF_FAILURE, s1)
             else
               (case UsbPnpNotifyGetDeviceInfo E evd s1 of
                  (r, None, s2) \<Rightarrow> (r, u_emit (SbufRecycle, 0) s2)
                | (r, Some p, s2) \<Rightarrow>
                    (case (case UsbPnpNotifyInitInfo E p evd s2 of (r1, t, s3) \<Rightarrow>
                             if r1 \<noteq> HDF_SUCCESS then (r1, s3) else send_locked E p t s3) of
                       (r2, s4) \<Rightarrow>
                         let s5 = (if r2 \<noteq> HDF_SUCCESS
                                     \<or> g_usbPnpNotifyCmdType s4 = USB_PNP_NOTIFY_REMOVE_DEVICE
                                   then snd (UsbPnpNotifyDestroyInfo (Some p) s4) else s4)
                         in (r2, u_emit (SbufRecycle, 0) s5))))
      | _ \<Rightarrow> (HDF_ERR_INVALID_PARAM, s))"

fun report_all :: "('m) usb_env_scheme \<Rightarrow> nat option \<Rightarrow> nat list \<Rightarrow> usb_sys \<Rightarrow> usb_sys" where
  "report_all E obj [] s = s"
| "report_all E obj (d # ds) s =
     report_all E obj ds (snd (UsbPnpNotifyHdfSendEvent E obj (Some (UsbDev d)) s))"

definition UsbPnpNotifyFirstReportDevice ::
  "('m) usb_env_scheme \<Rightarrow> nat option \<Rightarrow> usb_sys \<Rightarrow> ret \<times> usb_sys" where
  "UsbPnpNotifyFirstReportDevice E clientDevice s =
     (if g_usbPnpDeviceList s = [] then (HDF_SUCCESS, s)
      else (HDF_SUCCESS,
            u_unlock E (u_listLock s)
              (report_all E clientDevice (map snd (g_usbPnpDeviceList s)) (u_lock E (u_listLock s) s))))"

definition USB_PNP_INTERFACE_MSLEEP_TIME :: nat where "USB_PNP_INTERFACE_MSLEEP_TIME = 200"
definition USB_PNP_NOTIFY_MSLEEP_TIME :: nat where "USB_PNP_NOTIFY_MSLEEP_TIME = 10"
definition USB_PNP_NOTIFY_REPORT_STACK_SIZE :: nat where "USB_PNP_NOTIFY_REPORT_STACK_SIZE = 10000"

text \<open>
  One turn of the report thread's loop, from the return of \<open>wait_event_interruptible\<close> (which
  needs \<open>g_usbDevice\<close> to be set, or a signal) to the end of the loop body. The loop runs while
  \<open>g_usbPnpThreadRunningFlag\<close> is set.
\<close>

definition UsbPnpNotifyReportThread :: "('m) usb_env_scheme \<Rightarrow> nat option \<Rightarrow> usb_sys \<Rightarrow> usb_sys" where
  "UsbPnpNotifyReportThread E deviceObject s =
     (let s1 = u_lock E (u_sendLock s) s;
          s2 = (if is_interface_cmd (g_usbPnpNotifyCmdType s1)
                then snd (UsbPnpNotifyHdfSendEvent E deviceObject (Some PnpInfo)
                            (u_emit (MSleep USB_PNP_INTERFACE_MSLEEP_TIME, 0) s1))
                else snd (UsbPnpNotifyHdfSendEvent E deviceObject (g_usbDevice s1) s1))
      in u_emit (MSleep USB_PNP_NOTIFY_MSLEEP_TIME, 0)
           (u_unlock E (u_sendLock s) (s2\<lparr>g_usbDevice := None\<rparr>)))"

subsection \<open>Attach and detach\<close>

definition UsbPnpNotifyAddDevice :: "('m) usb_env_scheme \<Rightarrow> nat \<Rightarrow> usb_sys \<Rightarrow> usb_sys" where
  "UsbPnpNotifyAddDevice E udev s =
     (case UsbPnpNotifyCreateInfo E s of
        (None, s1) \<Rightarrow> s1
      | (Some p, s1) \<Rightarrow>
          (case UsbPnpNotifyAddInitInfo E p (UsbDev udev) s1 of (r, s2) \<Rightarrow>
             if r \<noteq> HDF_SUCCESS then s2
             else u_emit (WakeUp, 0)
                    (u_unlock E (u_sendLock s)
                       ((u_lock E (u_sendLock s) s2)
                          \<lparr>g_usbDevice := Some (UsbDev udev),
                           g_usbPnpNotifyCmdType := USB_PNP_NOTIFY_ADD_DEVICE\<rparr>))))"

definition UsbPnpNotifyAttachDevice :: "('m) usb_env_scheme \<Rightarrow> nat \<Rightarrow> usb_sys \<Rightarrow> usb_sys" where
  "UsbPnpNotifyAttachDevice E udev s =
     (case u_devs s udev of
        None \<Rightarrow> u_bad s
      | Some d \<Rightarrow>
          if ud_bDeviceClass d = UICLASS_HUB E then s
          else
            (case UsbPnpNotifyFindDeviceList E udev False s of (found, s1) \<Rightarrow>
               if found then s1
               else
                 (case (if u_listLockInit s1 then (HDF_SUCCESS, s1)
                        else (case OsalMutexInit E (Some (u_listLock s1)) (u_os s1) of (r, lk, o1) \<Rightarrow>
                                (r, s1\<lparr>u_os := o1,
                                       u_listLock := (case lk of None \<Rightarrow> u_listLock s1 | Some l \<Rightarrow> l),
                                       u_listLockInit := (r = HDF_SUCCESS)\<rparr>))) of
                    (r, s2) \<Rightarrow>
                      if r \<noteq> HDF_SUCCESS then s2
                      else
                        (case u_call E (UsbCreateDevice udev) s2 of (e, s3) \<Rightarrow>
                           if e \<noteq> 0 then s3
                           else UsbPnpNotifyAddDevice E udev (UsbPnpNotifyCreateDeviceList E udev s3)))))"

definition UsbPnpNotifyDetachDevice :: "('m) usb_env_scheme \<Rightarrow> nat \<Rightarrow> usb_sys \<Rightarrow> usb_sys" where
  "UsbPnpNotifyDetachDevice E udev s =
     (case UsbPnpNotifyFindDeviceList E udev True s of (found, s1) \<Rightarrow>
        if \<not> found then s1
        else
          (case UsbPnpNotifyFindInfo (USB_INFO_DEVICE_ADDRESS_TYPE udev) s1 of
             None \<Rightarrow> s1
           | Some p \<Rightarrow>
               (case u_infos s1 p of
                  None \<Rightarrow> u_bad s1
                | Some i \<Rightarrow>
                    let s2 = u_lock E (pi_lock i) s1;
                        s3 = s2\<lparr>u_infos := (u_infos s2)(p \<mapsto>
                               i\<lparr>pi_status := (if pi_status i \<noteq> USB_PNP_DEVICE_INIT_STATUS
                                              then USB_PNP_DEVICE_INIT_STATUS
                                              else USB_PNP_DEVICE_REMOVE_STATUS)\<rparr>)\<rparr>;
                        s4 = u_lock E (u_sendLock s) (u_unlock E (pi_lock i) s3);
                        s5 = s4\<lparr>g_usbDevice := Some (UsbDev udev),
                                g_usbPnpNotifyCmdType := USB_PNP_NOTIFY_REMOVE_DEVICE,
                                g_usbPnpNotifyRemoveType := USB_PNP_NOTIFY_REMOVE_BUS_DEV_NUM\<rparr>
                    in u_emit (WakeUp, 0) (u_unlock E (u_sendLock s) s5))))"

definition UsbPnpNotifyDevice :: "('m) usb_env_scheme \<Rightarrow> string \<Rightarrow> nat \<Rightarrow> usb_sys \<Rightarrow> usb_sys" where
  "UsbPnpNotifyDevice E type udev s =
     (if type = ''ATTACH'' then UsbPnpNotifyAttachDevice E udev s
      else if type = ''DETACH'' then UsbPnpNotifyDetachDevice E udev s
      else s)"

definition get_matches :: "UsbGetDevicePara \<Rightarrow> usb_device \<Rightarrow> bool" where
  "get_matches q d =
     (case q of
        USB_PNP_DEVICE_ADDRESS_TYPE busNum devNum \<Rightarrow> ud_address d = devNum \<and> ud_port_no d = busNum
      | USB_PNP_DEVICE_VENDOR_PRODUCT_TYPE v p \<Rightarrow> ud_idVendor d = v \<and> ud_idProduct d = p)"

definition UsbPnpNotifyGetUsbDevice ::
  "('m) usb_env_scheme \<Rightarrow> UsbGetDevicePara \<Rightarrow> usb_sys \<Rightarrow> nat option \<times> usb_sys" where
  "UsbPnpNotifyGetUsbDevice E paraData s =
     (List.find (\<lambda>a. case u_devs s a of None \<Rightarrow> False | Some d \<Rightarrow> get_matches paraData d)
        (map snd (g_usbPnpDeviceList s)),
      u_unlock E (u_listLock s) (u_lock E (u_listLock s) s))"

subsection \<open>The driver's service\<close>

definition UsbPnpNotifyReadPnpInfo :: "('m) usb_env_scheme \<Rightarrow> usb_sbuf option \<Rightarrow> usb_sys \<Rightarrow> usb_sys" where
  "UsbPnpNotifyReadPnpInfo E data s =
     (case Option.bind data sb_buffer of
        None \<Rightarrow> s
      | Some x \<Rightarrow>
          let s1 = s\<lparr>g_usbPnpInfo := x, g_usbDevice := Some PnpInfo\<rparr> in
          (case UsbPnpNotifyFindInfo (USB_INFO_NORMAL_TYPE (ar_devNum x) (ar_busNum x)) s1 of
             None \<Rightarrow> s1
           | Some p \<Rightarrow>
               (case u_infos s1 p of
                  None \<Rightarrow> u_bad s1
                | Some i \<Rightarrow>
                    let s2 = u_lock E (pi_lock i) s1
                    in u_unlock E (pi_lock i)
                         (s2\<lparr>u_infos := (u_infos s2)(p \<mapsto>
                           i\<lparr>pi_status := (if pi_status i \<noteq> USB_PNP_DEVICE_INIT_STATUS
                                          then USB_PNP_DEVICE_INIT_STATUS
                                          else USB_PNP_DEVICE_INTERFACE_STATUS)\<rparr>)\<rparr>))))"

definition UsbPnpNotifyDriverRegisterDevice ::
  "('m) usb_env_scheme \<Rightarrow> usb_sbuf option \<Rightarrow> usb_sys \<Rightarrow> ret \<times> usb_sys" where
  "UsbPnpNotifyDriverRegisterDevice E data s =
     (case map_option sb_strings data of
        Some (moduleName # serviceName # _) \<Rightarrow>
          (case u_call E (DevObjAlloc moduleName) s of (r0, s1) \<Rightarrow>
             if r0 = 0 then (HDF_DEV_ERR_NO_MEMORY, s1)
             else
               (case u_call E DevObjRegister s1 of (r1, s2) \<Rightarrow>
                  if r1 \<noteq> 0 then (ret_of r1, u_emit (DevObjRelease, 0) s2)
                  else
                    (case u_call E (DevObjPublish serviceName) s2 of (r2, s3) \<Rightarrow>
                       (ret_of r2, if r2 \<noteq> 0 then u_emit (DevObjRelease, 0) s3 else s3))))
      | _ \<Rightarrow> (HDF_FAILURE, s))"

definition UsbPnpNotifyDriverUnregisterDevice ::
  "('m) usb_env_scheme \<Rightarrow> usb_sbuf option \<Rightarrow> usb_sys \<Rightarrow> ret \<times> usb_sys" where
  "UsbPnpNotifyDriverUnregisterDevice E data s =
     (case map_option sb_strings data of
        Some (moduleName # serviceName # _) \<Rightarrow>
          (case u_call E (DevObjGet serviceName) s of (r, s1) \<Rightarrow>
             if r = 0 then (HDF_DEV_ERR_NO_DEVICE, s1)
             else (HDF_SUCCESS, u_emit (DevObjRelease, 0) s1))
      | _ \<Rightarrow> (HDF_FAILURE, s))"

text \<open>A client is \<open>Some device\<close>; the reply buffer is only tested for \<open>NULL\<close> and written to.\<close>

definition UsbPnpNotifyDispatch ::
  "('m) usb_env_scheme \<Rightarrow> nat option option \<Rightarrow> UsbPnpNotifyServiceCmd \<Rightarrow> usb_sbuf option \<Rightarrow> bool
   \<Rightarrow> usb_sys \<Rightarrow> ret \<times> usb_sys" where
  "UsbPnpNotifyDispatch E client cmd data reply s =
     (case client of
        None \<Rightarrow> (HDF_FAILURE, s)
      | Some device \<Rightarrow>
          if \<not> reply then (HDF_FAILURE, s)
          else
            let s1 = (u_lock E (u_sendLock s) s)\<lparr>g_usbPnpNotifyCmdType := cmd\<rparr> in
            (case (case cmd of
                USB_PNP_NOTIFY_ADD_INTERFACE \<Rightarrow>
                  (HDF_SUCCESS, u_emit (WakeUp, 0) (UsbPnpNotifyReadPnpInfo E data s1))
              | USB_PNP_NOTIFY_REMOVE_INTERFACE \<Rightarrow>
                  (HDF_SUCCESS, u_emit (WakeUp, 0)
                     ((UsbPnpNotifyReadPnpInfo E data s1)
                        \<lparr>g_usbPnpNotifyRemoveType := USB_PNP_NOTIFY_REMOVE_INTERFACE_NUM\<rparr>))
              | USB_PNP_NOTIFY_REPORT_INTERFACE \<Rightarrow>
                  (HDF_SUCCESS, snd (UsbPnpNotifyFirstReportDevice E device s1))
              | USB_PNP_DRIVER_REGISTER_DEVICE \<Rightarrow> UsbPnpNotifyDriverRegisterDevice E data s1
              | USB_PNP_DRIVER_UNREGISTER_DEVICE \<Rightarrow> UsbPnpNotifyDriverUnregisterDevice E data s1
              | _ \<Rightarrow> (HDF_ERR_NOT_SUPPORT, s1)) of
               (r, s2) \<Rightarrow> (r, snd (u_call E SbufWriteInt32 (u_unlock E (u_sendLock s) s2)))))"

definition UsbPnpNotifyBind :: "nat option \<Rightarrow> usb_sys \<Rightarrow> ret \<times> usb_sys" where
  "UsbPnpNotifyBind device s =
     (if device = None then (HDF_ERR_INVALID_OBJECT, s) else (HDF_SUCCESS, s\<lparr>u_service := True\<rparr>))"

definition UsbPnpNotifyInit :: "('m) usb_env_scheme \<Rightarrow> nat option \<Rightarrow> usb_sys \<Rightarrow> ret \<times> usb_sys" where
  "UsbPnpNotifyInit E device s =
     (if device = None then (HDF_ERR_INVALID_OBJECT, s)
      else
        let s1 = (if u_firstInitFlag s
                  then s\<lparr>u_firstInitFlag := False, g_usbPnpInfoList := [], g_usbPnpDeviceList := []\<rparr>
                  else s);
            s2 = u_emit (InitWaitqueue, 0) s1 in
        (case OsalMutexInit E (Some (u_sendLock s2)) (u_os s2) of (_, lk, o1) \<Rightarrow>
          (case u_call E MemsetS
                 (s2\<lparr>u_os := o1, u_sendLock := (case lk of None \<Rightarrow> u_sendLock s2 | Some l \<Rightarrow> l)\<rparr>) of
             (r0, s3) \<Rightarrow>
               if r0 \<noteq> 0 then (ret_of r0, s3)
               else
                 (case OsalThreadCreate E (Some (report_entry E)) device
                         (Some (g_usbPnpNotifyReportThread s3)) (u_os s3) of (r1, th, o2) \<Rightarrow>
                    let th' = (case th of None \<Rightarrow> g_usbPnpNotifyReportThread s3 | Some t \<Rightarrow> t);
                        s4 = s3\<lparr>g_usbPnpThreadRunningFlag := True, u_os := o2,
                                g_usbPnpNotifyReportThread := th'\<rparr> in
                    if r1 \<noteq> HDF_SUCCESS then (r1, s4)
                    else
                      (case OsalThreadStart E (Some th')
                              (Some \<lparr>tp_name = ''LiteOS usb pnp notify handle kthread'',
                                     tp_stackSize = USB_PNP_NOTIFY_REPORT_STACK_SIZE,
                                     tp_priority = OSAL_THREAD_PRI_HIGH E\<rparr>) (u_os s4) of
                         (r2, o3) \<Rightarrow> (r2, s4\<lparr>u_os := o3\<rparr>))))))"

definition UsbPnpNotifyRelease :: "('m) usb_env_scheme \<Rightarrow> nat option \<Rightarrow> usb_sys \<Rightarrow> usb_sys" where
  "UsbPnpNotifyRelease E device s =
     (if device = None then s
      else
        (case OsalThreadDestroy E (Some (g_usbPnpNotifyReportThread s)) (u_os s) of (r, th, o1) \<Rightarrow>
           let s1 = s\<lparr>g_usbPnpThreadRunningFlag := False, u_os := o1,
                      g_usbPnpNotifyReportThread :=
                        (case th of None \<Rightarrow> g_usbPnpNotifyReportThread s | Some t \<Rightarrow> t)\<rparr> in
           if r \<noteq> HDF_SUCCESS then s1
           else
             (case OsalMutexDestroy E (Some (u_sendLock s1)) (u_os s1) of (_, lk, o2) \<Rightarrow>
                s1\<lparr>u_os := o2, u_sendLock := (case lk of None \<Rightarrow> u_sendLock s1 | Some l \<Rightarrow> l)\<rparr>)))"

end
