(* ===== verification/Usb_Pnp_Facts.thy ===== *)
theory Usb_Pnp_Facts
  imports Usb_Pnp
begin

text \<open>
  What the USB notifier delivers to the loader service, and what it keeps of its lists.
\<close>

subsection \<open>Frame lemmas\<close>

lemma mutex_lock_frame [simp]:
  "h_blk (snd (OsalMutexLock E m o1)) = h_blk o1" "h_next (snd (OsalMutexLock E m o1)) = h_next o1"
  "h_bad (snd (OsalMutexLock E m o1)) = h_bad o1"
  "h_blk (snd (OsalMutexUnlock E m o1)) = h_blk o1" "h_next (snd (OsalMutexUnlock E m o1)) = h_next o1"
  "h_bad (snd (OsalMutexUnlock E m o1)) = h_bad o1"
  by (auto simp: OsalMutexLock_def OsalMutexUnlock_def los_defs split: option.splits)

lemma u_lock_frame [simp]:
  "u_ev (u_lock E m s) = u_ev s" "g_usbPnpDeviceList (u_lock E m s) = g_usbPnpDeviceList s"
  "g_usbPnpInfoList (u_lock E m s) = g_usbPnpInfoList s" "u_infos (u_lock E m s) = u_infos s"
  "u_devs (u_lock E m s) = u_devs s" "u_idNum (u_lock E m s) = u_idNum s"
  "u_infoTable (u_lock E m s) = u_infoTable s"
  "g_usbPnpNotifyCmdType (u_lock E m s) = g_usbPnpNotifyCmdType s"
  "g_usbPnpNotifyRemoveType (u_lock E m s) = g_usbPnpNotifyRemoveType s"
  "g_usbDevice (u_lock E m s) = g_usbDevice s" "g_usbPnpInfo (u_lock E m s) = g_usbPnpInfo s"
  "u_sendLock (u_lock E m s) = u_sendLock s" "u_listLock (u_lock E m s) = u_listLock s"
  "u_listLockInit (u_lock E m s) = u_listLockInit s"
  "h_blk (u_os (u_lock E m s)) = h_blk (u_os s)" "h_next (u_os (u_lock E m s)) = h_next (u_os s)"
  "h_bad (u_os (u_lock E m s)) = h_bad (u_os s)"
  by (simp_all add: u_lock_def)

lemma u_unlock_frame [simp]:
  "u_ev (u_unlock E m s) = u_ev s" "g_usbPnpDeviceList (u_unlock E m s) = g_usbPnpDeviceList s"
  "g_usbPnpInfoList (u_unlock E m s) = g_usbPnpInfoList s" "u_infos (u_unlock E m s) = u_infos s"
  "u_devs (u_unlock E m s) = u_devs s" "u_idNum (u_unlock E m s) = u_idNum s"
  "u_infoTable (u_unlock E m s) = u_infoTable s"
  "g_usbPnpNotifyCmdType (u_unlock E m s) = g_usbPnpNotifyCmdType s"
  "g_usbPnpNotifyRemoveType (u_unlock E m s) = g_usbPnpNotifyRemoveType s"
  "g_usbDevice (u_unlock E m s) = g_usbDevice s" "g_usbPnpInfo (u_unlock E m s) = g_usbPnpInfo s"
  "u_sendLock (u_unlock E m s) = u_sendLock s" "u_listLock (u_unlock E m s) = u_listLock s"
  "u_listLockInit (u_unlock E m s) = u_listLockInit s"
  "h_blk (u_os (u_unlock E m s)) = h_blk (u_os s)" "h_next (u_os (u_unlock E m s)) = h_next (u_os s)"
  "h_bad (u_os (u_unlock E m s)) = h_bad (u_os s)"
  by (simp_all add: u_unlock_def)

lemma u_bad_frame [simp]:
  "u_ev (u_bad s) = u_ev s" "g_usbPnpDeviceList (u_bad s) = g_usbPnpDeviceList s"
  "g_usbPnpInfoList (u_bad s) = g_usbPnpInfoList s" "u_infos (u_bad s) = u_infos s"
  "u_devs (u_bad s) = u_devs s" "u_idNum (u_bad s) = u_idNum s"
  "u_infoTable (u_bad s) = u_infoTable s"
  "g_usbPnpNotifyCmdType (u_bad s) = g_usbPnpNotifyCmdType s"
  "g_usbPnpNotifyRemoveType (u_bad s) = g_usbPnpNotifyRemoveType s"
  "g_usbDevice (u_bad s) = g_usbDevice s" "g_usbPnpInfo (u_bad s) = g_usbPnpInfo s"
  "u_sendLock (u_bad s) = u_sendLock s" "u_listLock (u_bad s) = u_listLock s"
  "u_listLockInit (u_bad s) = u_listLockInit s"
  "h_blk (u_os (u_bad s)) = h_blk (u_os s)" "h_next (u_os (u_bad s)) = h_next (u_os s)"
  "h_bad (u_os (u_bad s))"
  by (simp_all add: u_bad_def)

lemma u_emit_frame [simp]:
  "u_ev (u_emit e s) = u_ev s @ [e]" "g_usbPnpDeviceList (u_emit e s) = g_usbPnpDeviceList s"
  "g_usbPnpInfoList (u_emit e s) = g_usbPnpInfoList s" "u_infos (u_emit e s) = u_infos s"
  "u_devs (u_emit e s) = u_devs s" "u_idNum (u_emit e s) = u_idNum s"
  "u_infoTable (u_emit e s) = u_infoTable s"
  "g_usbPnpNotifyCmdType (u_emit e s) = g_usbPnpNotifyCmdType s"
  "g_usbPnpNotifyRemoveType (u_emit e s) = g_usbPnpNotifyRemoveType s"
  "g_usbDevice (u_emit e s) = g_usbDevice s" "g_usbPnpInfo (u_emit e s) = g_usbPnpInfo s"
  "u_sendLock (u_emit e s) = u_sendLock s" "u_listLock (u_emit e s) = u_listLock s"
  "u_listLockInit (u_emit e s) = u_listLockInit s" "u_os (u_emit e s) = u_os s"
  by (simp_all add: u_emit_def)

lemma u_call_eq: "u_call E c s = (u_api E (u_ev s) c, u_emit (c, u_api E (u_ev s) c) s)"
  by (simp add: u_call_def Let_def)

subsection \<open>The event trace\<close>

fun dispatch_of :: "usb_ev \<times> int \<Rightarrow> (UsbPnpNotifyServiceCmd \<times> UsbPnpNotifyMatchInfoTable) list" where
  "dispatch_of (LoaderDispatch c t, _) = [(c, t)]"
| "dispatch_of _ = []"

definition dispatched :: "usb_trace \<Rightarrow> (UsbPnpNotifyServiceCmd \<times> UsbPnpNotifyMatchInfoTable) list" where
  "dispatched tr = concat (map dispatch_of tr)"

lemma dispatched_simps [simp]:
  "dispatched [] = []" "dispatched (xs @ ys) = dispatched xs @ dispatched ys"
  "dispatched (x # xs) = dispatch_of x @ dispatched xs"
  by (simp_all add: dispatched_def)

subsection \<open>The invariant of the two lists\<close>

text \<open>
  The information objects in the list \<open>ps\<close> are exactly the live ones of the map \<open>m\<close>, each has a
  heap block, and their identifiers are distinct and below the counter \<open>n\<close>.
\<close>

definition infos_ok ::
  "osal_sys \<Rightarrow> nat list \<Rightarrow> (nat \<Rightarrow> UsbPnpDeviceInfo option) \<Rightarrow> int \<Rightarrow> bool" where
  "infos_ok o1 ps m n \<longleftrightarrow>
     heap_ok o1 \<and> distinct ps \<and> dom m = set ps \<and> set ps \<subseteq> heap_dom o1 \<and>
     (\<forall>p q i j. m p = Some i \<and> m q = Some j \<and> pi_id i = pi_id j \<longrightarrow> p = q) \<and>
     (\<forall>p i. m p = Some i \<longrightarrow> pi_id i < n)"

definition usb_inv :: "usb_sys \<Rightarrow> bool" where
  "usb_inv s \<longleftrightarrow> infos_ok (u_os s) (g_usbPnpInfoList s) (u_infos s) (u_idNum s) \<and>
     distinct (map snd (g_usbPnpDeviceList s))"

lemma infos_ok_os:
  "infos_ok o1 ps m n \<Longrightarrow> heap_ok o2 \<Longrightarrow> heap_dom o1 \<subseteq> heap_dom o2 \<Longrightarrow> infos_ok o2 ps m n"
  unfolding infos_ok_def by (meson subset_trans)

lemma infos_ok_add:
  assumes "infos_ok o1 ps m n" and "heap_ok o2" and "insert p (heap_dom o1) \<subseteq> heap_dom o2"
    and "p \<notin> heap_dom o1" and "pi_id i = n"
  shows "infos_ok o2 (ps @ [p]) (m(p \<mapsto> i)) (n + 1)"
proof -
  have p: "p \<notin> set ps" and d: "dom m = set ps" and sub: "set ps \<subseteq> heap_dom o1" and
    inj: "\<And>x y i j. m x = Some i \<Longrightarrow> m y = Some j \<Longrightarrow> pi_id i = pi_id j \<Longrightarrow> x = y" and
    less: "\<And>x i. m x = Some i \<Longrightarrow> pi_id i < n"
    using assms(1,4) unfolding infos_ok_def by blast+
  have "distinct (ps @ [p])" "dom (m(p \<mapsto> i)) = set (ps @ [p])" "set (ps @ [p]) \<subseteq> heap_dom o2"
    using assms(1,3) p d sub by (simp_all add: infos_ok_def) blast
  moreover have "x = y" if "(m(p \<mapsto> i)) x = Some a" "(m(p \<mapsto> i)) y = Some b" "pi_id a = pi_id b" for x y a b
    using that assms(5) less [of x a] less [of y b] inj [of x a y b]
    by (auto split: if_splits)
  moreover have "pi_id a < n + 1" if "(m(p \<mapsto> i)) x = Some a" for x a
    using that assms(5) less [of x a] by (auto split: if_splits)
  ultimately show ?thesis
    using assms(2) unfolding infos_ok_def by blast
qed

lemma infos_ok_del:
  assumes "infos_ok o1 ps m n" and "p \<in> set ps"
  shows "infos_ok (OsalMemFree (Some p) o1) (remove1 p ps) (m(p := None)) n"
proof -
  have "heap_dom (OsalMemFree (Some p) o1) = heap_dom o1 - {p}"
    using assms by (auto simp: infos_ok_def OsalMemFree_def LOS_MemFree_def split: if_splits)
  then show ?thesis
    using assms heap_ok_OsalMemFree [of o1 "Some p"] unfolding infos_ok_def
    by (auto split: if_splits)
qed

text \<open>Steps that change neither the heap nor the lists nor any identifier keep the invariant.\<close>

definition usb_same :: "usb_sys \<Rightarrow> usb_sys \<Rightarrow> bool" where
  "usb_same s s' \<longleftrightarrow>
     h_blk (u_os s') = h_blk (u_os s) \<and> h_next (u_os s') = h_next (u_os s) \<and>
     g_usbPnpInfoList s' = g_usbPnpInfoList s \<and> g_usbPnpDeviceList s' = g_usbPnpDeviceList s \<and>
     u_idNum s' = u_idNum s \<and>
     (\<forall>p. map_option pi_id (u_infos s' p) = map_option pi_id (u_infos s p))"

lemma usb_same_refl [simp]: "usb_same s s"
  by (simp add: usb_same_def)

lemma usb_same_trans [trans]: "usb_same a b \<Longrightarrow> usb_same b c \<Longrightarrow> usb_same a c"
  by (simp add: usb_same_def)

lemma infos_ok_cong:
  assumes "infos_ok o1 ps m n" and "h_blk o2 = h_blk o1" and "h_next o2 = h_next o1"
    and same: "\<And>p. map_option pi_id (m' p) = map_option pi_id (m p)"
  shows "infos_ok o2 ps m' n"
proof -
  have dm: "dom m' = dom m"
    using same by (metis (no_types, lifting) domIff map_option_is_None subsetI subset_antisym)
  have S: "\<exists>j. m p = Some j \<and> pi_id j = pi_id i" if "m' p = Some i" for p i
    using same [of p] that by (cases "m p") auto
  have inj: "\<And>x y i j. m x = Some i \<Longrightarrow> m y = Some j \<Longrightarrow> pi_id i = pi_id j \<Longrightarrow> x = y" and
    less: "\<And>x i. m x = Some i \<Longrightarrow> pi_id i < n"
    using assms(1) unfolding infos_ok_def by blast+
  have "p = q" if "m' p = Some i" "m' q = Some j" "pi_id i = pi_id j" for p q i j
    using S [OF that(1)] S [OF that(2)] that(3) inj by metis
  moreover have "pi_id i < n" if "m' p = Some i" for p i
    using S [OF that] less by metis
  ultimately show ?thesis
    using assms(1-3) dm unfolding infos_ok_def heap_ok_def by auto
qed

lemma usb_inv_same: "usb_inv s \<Longrightarrow> usb_same s s' \<Longrightarrow> usb_inv s'"
  unfolding usb_inv_def usb_same_def by (metis infos_ok_cong)

lemma usb_same_basic [simp]:
  "usb_same s (u_lock E m s)" "usb_same s (u_unlock E m s)" "usb_same s (u_bad s)"
  "usb_same s (u_emit e s)" "usb_same s (snd (u_call E c s))"
  by (simp_all add: usb_same_def u_call_eq)

lemma usb_same_after [simp]:
  "usb_same s (u_lock E m s') = usb_same s s'" "usb_same s (u_unlock E m s') = usb_same s s'"
  "usb_same s (u_bad s') = usb_same s s'" "usb_same s (u_emit e s') = usb_same s s'"
  by (simp_all add: usb_same_def)

lemma usb_same_fields [simp]:
  "usb_same s (s'\<lparr>g_usbDevice := a\<rparr>) = usb_same s s'"
  "usb_same s (s'\<lparr>g_usbPnpNotifyCmdType := c\<rparr>) = usb_same s s'"
  "usb_same s (s'\<lparr>g_usbPnpNotifyRemoveType := t\<rparr>) = usb_same s s'"
  "usb_same s (s'\<lparr>g_usbPnpInfo := f\<rparr>) = usb_same s s'"
  "usb_same s (s'\<lparr>u_infoTable := tb\<rparr>) = usb_same s s'"
  by (simp_all add: usb_same_def)

lemma usb_same_upd:
  "usb_same s s' \<Longrightarrow> u_infos s' p = Some i \<Longrightarrow> pi_id j = pi_id i \<Longrightarrow>
     usb_same s (s'\<lparr>u_infos := (u_infos s')(p \<mapsto> j)\<rparr>)"
proof -
  assume s: "usb_same s s'" and i: "u_infos s' p = Some i" and j: "pi_id j = pi_id i"
  have "map_option pi_id (u_infos s p) = Some (pi_id i)"
    using s i unfolding usb_same_def by (metis option.map(2))
  then show ?thesis
    using s j by (auto simp: usb_same_def)
qed

subsection \<open>What each operation keeps\<close>

lemma FindInfo_SomeD:
  "UsbPnpNotifyFindInfo q s = Some p \<Longrightarrow>
     p \<in> set (g_usbPnpInfoList s) \<and> (\<exists>i. u_infos s p = Some i \<and> info_matches q i)"
  by (auto simp: UsbPnpNotifyFindInfo_def find_Some_iff split: option.splits)

lemma AddInitInfo_same: "usb_same s (snd (UsbPnpNotifyAddInitInfo E p e s))"
  unfolding UsbPnpNotifyAddInitInfo_def
  by (auto simp: Let_def usb_same_def split: option.splits prod.splits event_data.splits)

lemma AddInterfaceInitInfo_id:
  "UsbPnpNotifyAddInterfaceInitInfo c x i t = (i', t', b) \<Longrightarrow> pi_id i' = pi_id i"
  by (auto simp: UsbPnpNotifyAddInterfaceInitInfo_def Let_def split: if_splits)

lemma sbuf_put_same: "usb_same s s' \<Longrightarrow> usb_same s (snd (snd (sbuf_put E t s')))"
  by (simp add: sbuf_put_def u_call_eq)

lemma InitInfo_same: "usb_same s (snd (snd (UsbPnpNotifyInitInfo E p e s)))"
proof (cases "u_infos s p")
  case None
  then show ?thesis
    by (simp add: UsbPnpNotifyInitInfo_def)
next
  case (Some i)
  show ?thesis
  proof (cases "is_interface_cmd (g_usbPnpNotifyCmdType s)")
    case True
    obtain i1 t b where a: "UsbPnpNotifyAddInterfaceInitInfo (g_usbPnpNotifyCmdType s)
        (ar_interface (g_usbPnpInfo s)) i
        ((u_infoTable s)\<lparr>mt_usbDevAddr := mt_usbDevAddr (pi_info i), mt_devNum := mt_devNum (pi_info i),
           mt_busNum := mt_busNum (pi_info i), mt_deviceInfo := mt_deviceInfo (pi_info i),
           mt_removeType := g_usbPnpNotifyRemoveType s\<rparr>) = (i1, t, b)"
      using prod_cases3 by blast
    have "usb_same s (s\<lparr>u_infos := (u_infos s)(p \<mapsto> i1), u_infoTable := t\<rparr>)"
      using AddInterfaceInitInfo_id [OF a] Some by (auto simp: usb_same_def)
    then show ?thesis
      using True Some a by (simp add: UsbPnpNotifyInitInfo_def Let_def sbuf_put_same)
  next
    case False
    obtain r s1 where a: "UsbPnpNotifyAddInitInfo E p e s = (r, s1)"
      by fastforce
    then have "usb_same s s1"
      using AddInitInfo_same [of s E p e] by simp
    then show ?thesis
      using False Some a by (auto simp: UsbPnpNotifyInitInfo_def sbuf_put_same split: option.splits)
  qed
qed

lemma SendEventLoader_frame:
  "usb_same s (snd (UsbPnpNotifySendEventLoader E t s))"
  "u_infos (snd (UsbPnpNotifySendEventLoader E t s)) = u_infos s"
  by (simp_all add: UsbPnpNotifySendEventLoader_def u_call_eq Let_def)

lemma send_locked_same: "usb_same s (snd (send_locked E p t s))"
proof (cases "u_infos s p")
  case None
  then show ?thesis by (simp add: send_locked_def)
next
  case (Some i)
  obtain r s2 where c: "UsbPnpNotifySendEventLoader E t (u_lock E (pi_lock i) s) = (r, s2)"
    by fastforce
  then have "usb_same s s2" and "u_infos s2 = u_infos s"
    using SendEventLoader_frame [where E = E and t = t and s = "u_lock E (pi_lock i) s"]
      usb_same_trans [of s "u_lock E (pi_lock i) s" s2] by auto
  then show ?thesis
    using Some c usb_same_upd [of s s2 p i "i\<lparr>pi_status := USB_PNP_DEVICE_ADD_STATUS\<rparr>"]
    by (auto simp: send_locked_def Let_def)
qed

lemma DestroyInfo_inv: "usb_inv s \<Longrightarrow> usb_inv (snd (UsbPnpNotifyDestroyInfo d s))"
proof -
  assume inv: "usb_inv s"
  have bad: "usb_inv (u_bad s)"
    using inv usb_inv_same by fastforce
  show ?thesis
    using inv bad FindInfo_SomeD
    by (auto simp: UsbPnpNotifyDestroyInfo_def usb_inv_def intro: infos_ok_del split: option.splits)
qed

lemma DestroyInfo_frame [simp]:
  "g_usbPnpDeviceList (snd (UsbPnpNotifyDestroyInfo d s)) = g_usbPnpDeviceList s"
  "u_idNum (snd (UsbPnpNotifyDestroyInfo d s)) = u_idNum s"
  by (auto simp: UsbPnpNotifyDestroyInfo_def split: option.splits)


lemma OsalMutexInit_frame:
  assumes "heap_ok o1" and "OsalMutexInit E (Some m) o1 = (r, lk, o2)"
  shows "heap_ok o2" and "heap_dom o1 \<subseteq> heap_dom o2"
  using assms mutex.create_ok [of o1 E m lk o2] mutex.create_fail [of o1 E m r lk o2]
  by (cases "r = HDF_SUCCESS"; auto)+

lemma CreateInfo_inv:
  assumes inv: "usb_inv s" and lt: "u_idNum s < INT32_MAX"
    and c: "UsbPnpNotifyCreateInfo E s = (r, s')"
  shows "usb_inv s'" and "u_idNum s' \<le> u_idNum s + 1"
    and "g_usbPnpDeviceList s' = g_usbPnpDeviceList s"
    and "r = Some p \<Longrightarrow> \<exists>i. u_infos s' p = Some i"
proof -
  have ok: "heap_ok (u_os s)"
    using inv by (simp add: usb_inv_def infos_ok_def)
  obtain a o1 where al: "OsalMemCalloc E (Objs ''UsbPnpDeviceInfo'' 1) (u_os s) = (a, o1)"
    by fastforce
  have o1: "heap_ok o1"
    by (rule heap_ok_OsalMemCalloc [OF ok al])
  have "usb_inv s' \<and> u_idNum s' \<le> u_idNum s + 1 \<and> g_usbPnpDeviceList s' = g_usbPnpDeviceList s \<and>
     (r = Some p \<longrightarrow> (\<exists>i. u_infos s' p = Some i))"
  proof (cases a)
    case None
    with al have "h_blk o1 = h_blk (u_os s)"
      by (auto dest: OsalMemCalloc_NoneD)
    moreover have "r = None" "s' = s\<lparr>u_os := o1\<rparr>"
      using c al None by (auto simp: UsbPnpNotifyCreateInfo_def)
    ultimately show ?thesis
      using inv o1 infos_ok_os [OF _ o1] by (auto simp: usb_inv_def)
  next
    case (Some q)
    obtain r1 lk o2 where mx: "OsalMutexInit E (Some \<lparr>realMutex = None\<rparr>) o1 = (r1, lk, o2)"
      using prod_cases3 by blast
    let ?i = "\<lparr>pi_id = u_idNum s, pi_lock = (case lk of None \<Rightarrow> \<lparr>realMutex = None\<rparr> | Some l \<Rightarrow> l),
       pi_status = USB_PNP_DEVICE_INIT_STATUS,
       pi_interfaceRemoveStatus = replicate (USB_PNP_INFO_MAX_INTERFACES E) False,
       pi_info = u_zeroTable E\<rparr>"
    have s': "r = Some q" "s' = s\<lparr>u_os := o2, u_infos := (u_infos s)(q \<mapsto> ?i),
        g_usbPnpInfoList := g_usbPnpInfoList s @ [q], u_idNum := u_idNum s + 1\<rparr>"
      using c al Some mx lt by (auto simp: UsbPnpNotifyCreateInfo_def Let_def)
    have q: "q \<notin> heap_dom (u_os s)" "heap_dom o1 = insert q (heap_dom (u_os s))"
      using OsalMemCalloc_SomeD [OF al [unfolded Some]] heap_ok_fresh [OF ok] by auto
    have "infos_ok o2 (g_usbPnpInfoList s @ [q]) ((u_infos s)(q \<mapsto> ?i)) (u_idNum s + 1)"
      by (rule infos_ok_add [of "u_os s"])
        (use inv OsalMutexInit_frame [OF o1 mx] q in \<open>auto simp: usb_inv_def\<close>)
    then show ?thesis
      using s' inv by (auto simp: usb_inv_def)
  qed
  then show "usb_inv s'" and "u_idNum s' \<le> u_idNum s + 1"
    and "g_usbPnpDeviceList s' = g_usbPnpDeviceList s"
    and "r = Some p \<Longrightarrow> \<exists>i. u_infos s' p = Some i"
    by auto
qed

text \<open>One more information object at most, and the device list as it was.\<close>

definition usb_next :: "nat \<Rightarrow> usb_sys \<Rightarrow> usb_sys \<Rightarrow> bool" where
  "usb_next k s s' \<longleftrightarrow>
     usb_inv s' \<and> u_idNum s' \<le> u_idNum s + int k \<and> g_usbPnpDeviceList s' = g_usbPnpDeviceList s"

lemma usb_next_same: "usb_next k s s' \<Longrightarrow> usb_same s' s'' \<Longrightarrow> usb_next k s s''"
  using usb_inv_same [of s' s''] by (auto simp: usb_next_def usb_same_def)

lemma usb_next_start: "usb_inv s \<Longrightarrow> usb_same s s' \<Longrightarrow> usb_next 1 s s'"
  using usb_inv_same [of s s'] by (auto simp: usb_next_def usb_same_def)

lemma GetDeviceInfo_next:
  assumes inv: "usb_inv s" and lt: "u_idNum s < INT32_MAX"
    and g: "UsbPnpNotifyGetDeviceInfo E e s = (r, d, s')"
  shows "usb_next 1 s s'"
proof -
  have upd: "usb_next 1 s (s1\<lparr>u_infos := (u_infos s1)(p \<mapsto>
      i\<lparr>pi_info := (pi_info i)\<lparr>mt_removeType := g_usbPnpNotifyRemoveType s1\<rparr>\<rparr>)\<rparr>)"
    if "usb_next 1 s s1" "u_infos s1 p = Some i" for s1 p i
    by (rule usb_next_same [OF that(1)], rule usb_same_upd [OF usb_same_refl that(2)]) simp
  define fs where "fs = (if is_interface_cmd (g_usbPnpNotifyCmdType s)
            then (UsbPnpNotifyFindInfo
                    (USB_INFO_NORMAL_TYPE (ar_devNum (g_usbPnpInfo s)) (ar_busNum (g_usbPnpInfo s))) s,
                  (if e = PnpInfo then s else u_bad s))
            else if g_usbPnpNotifyCmdType s = USB_PNP_NOTIFY_ADD_DEVICE
                  \<or> g_usbPnpNotifyCmdType s = USB_PNP_NOTIFY_REMOVE_DEVICE
            then ((case e of PnpInfo \<Rightarrow> None
                   | UsbDev a \<Rightarrow> UsbPnpNotifyFindInfo (USB_INFO_DEVICE_ADDRESS_TYPE a) s), s)
            else UsbPnpNotifyCreateInfo E s)"
  obtain f s1 where fs: "fs = (f, s1)"
    by fastforce
  have n1: "usb_next 1 s s1"
  proof (cases "is_interface_cmd (g_usbPnpNotifyCmdType s) \<or> g_usbPnpNotifyCmdType s = USB_PNP_NOTIFY_ADD_DEVICE
                  \<or> g_usbPnpNotifyCmdType s = USB_PNP_NOTIFY_REMOVE_DEVICE")
    case True
    then have "usb_same s s1"
      using fs by (auto simp: fs_def split: if_splits)
    then show ?thesis
      by (rule usb_next_start [OF inv])
  next
    case False
    then have "UsbPnpNotifyCreateInfo E s = (f, s1)"
      using fs by (simp add: fs_def)
    then show ?thesis
      using CreateInfo_inv [OF inv lt] by (auto simp: usb_next_def)
  qed
  have "UsbPnpNotifyGetDeviceInfo E e s = (case (f, s1) of
        (None, s1) \<Rightarrow> (HDF_FAILURE, None, s1)
      | (Some p, s1) \<Rightarrow>
          (case u_infos s1 p of
             None \<Rightarrow> (HDF_SUCCESS, Some p, u_bad s1)
           | Some i \<Rightarrow>
               (HDF_SUCCESS, Some p,
                s1\<lparr>u_infos := (u_infos s1)(p \<mapsto>
                  i\<lparr>pi_info := (pi_info i)\<lparr>mt_removeType := g_usbPnpNotifyRemoveType s1\<rparr>\<rparr>)\<rparr>)))"
    unfolding UsbPnpNotifyGetDeviceInfo_def fs_def [symmetric] fs ..
  then show ?thesis
    using g n1 upd usb_next_same [OF n1, of "u_bad s1"] by (auto split: option.splits)
qed

lemma HdfSendEvent_next:
  assumes inv: "usb_inv s" and lt: "u_idNum s < INT32_MAX"
  shows "usb_next 1 s (snd (UsbPnpNotifyHdfSendEvent E dev e s))"
proof (cases "dev = None \<or> e = None \<or> u_api E (u_ev s) SbufObtain = 0")
  case True
  then show ?thesis
    using inv usb_next_start [OF inv]
    by (auto simp: UsbPnpNotifyHdfSendEvent_def u_call_eq split: option.splits)
next
  case False
  then obtain dv ed where de: "dev = Some dv" "e = Some ed" and r0: "u_api E (u_ev s) SbufObtain \<noteq> 0"
    by auto
  define s1 where "s1 = u_emit (SbufObtain, u_api E (u_ev s) SbufObtain) s"
  have inv1: "usb_inv s1" and lt1: "u_idNum s1 < INT32_MAX"
    using inv lt usb_inv_same [of s s1] by (simp_all add: s1_def)
  obtain r d s2 where g: "UsbPnpNotifyGetDeviceInfo E ed s1 = (r, d, s2)"
    using prod_cases3 by blast
  have n2: "usb_next 1 s s2"
    using GetDeviceInfo_next [OF inv1 lt1 g] by (simp add: usb_next_def s1_def)
  show ?thesis
  proof (cases d)
    case None
    then show ?thesis
      using de r0 g n2 usb_next_same [OF n2, of "u_emit (SbufRecycle, 0) s2"]
      by (simp add: UsbPnpNotifyHdfSendEvent_def u_call_eq s1_def)
  next
    case (Some p)
    obtain r1 t s3 where i: "UsbPnpNotifyInitInfo E p ed s2 = (r1, t, s3)"
      using prod_cases3 by blast
    obtain r2 s4 where l: "(if r1 \<noteq> HDF_SUCCESS then (r1, s3) else send_locked E p t s3) = (r2, s4)"
      by fastforce
    have "usb_next 1 s s3"
      using n2 InitInfo_same [of s2 E p ed] i by (auto intro: usb_next_same)
    then have n4: "usb_next 1 s s4"
      using l send_locked_same [of s3 E p t] by (auto intro: usb_next_same split: if_splits)
    define s5 where "s5 = (if r2 \<noteq> HDF_SUCCESS \<or> g_usbPnpNotifyCmdType s4 = USB_PNP_NOTIFY_REMOVE_DEVICE
       then snd (UsbPnpNotifyDestroyInfo (Some p) s4) else s4)"
    have n5: "usb_next 1 s s5"
      using n4 DestroyInfo_inv [of s4 "Some p"] by (auto simp: s5_def usb_next_def)
    have "UsbPnpNotifyHdfSendEvent E dev e s = (r2, u_emit (SbufRecycle, 0) s5)"
      using de r0 g Some i l by (simp add: UsbPnpNotifyHdfSendEvent_def u_call_eq s1_def s5_def)
    then show ?thesis
      using usb_next_same [OF n5, of "u_emit (SbufRecycle, 0) s5"] by simp
  qed
qed

lemma report_all_next:
  assumes "usb_inv s" and "u_idNum s + int (length ds) \<le> INT32_MAX"
  shows "usb_next (length ds) s (report_all E obj ds s)"
  using assms
proof (induction ds arbitrary: s)
  case Nil
  then show ?case by (simp add: usb_next_def)
next
  case (Cons d ds)
  define s1 where "s1 = snd (UsbPnpNotifyHdfSendEvent E obj (Some (UsbDev d)) s)"
  have n: "usb_next 1 s s1"
    unfolding s1_def by (rule HdfSendEvent_next) (use Cons.prems in auto)
  have "usb_next (length ds) s1 (report_all E obj ds s1)"
    by (rule Cons.IH) (use n Cons.prems in \<open>auto simp: usb_next_def\<close>)
  then show ?case
    using n by (simp add: usb_next_def flip: s1_def)
qed


subsection \<open>The running driver\<close>

text \<open>
  The interrupts that attach and detach devices, turns of the report thread, and requests of
  clients, in any order.
\<close>

inductive usb_step :: "('m) usb_env_scheme \<Rightarrow> nat option \<Rightarrow> usb_sys \<Rightarrow> usb_sys \<Rightarrow> bool"
  for E :: "('m) usb_env_scheme" and dev :: "nat option" where
  notify: "usb_step E dev s (UsbPnpNotifyDevice E type udev s)"
| report: "g_usbPnpThreadRunningFlag s \<Longrightarrow> usb_step E dev s (UsbPnpNotifyReportThread E dev s)"
| dispatch: "usb_step E dev s (snd (UsbPnpNotifyDispatch E client cmd data reply s))"

inductive_cases usb_step_cases: "usb_step E dev s s'"

text \<open>No identifier has wrapped, and a report of all devices would not make one wrap.\<close>

definition ids_left :: "usb_sys \<Rightarrow> bool" where
  "ids_left s \<longleftrightarrow> u_idNum s + int (length (g_usbPnpDeviceList s)) < INT32_MAX"

lemma unlink_dev_distinct:
  "distinct (map snd ns) \<Longrightarrow> distinct (map snd (unlink_dev d ns)) \<and> set (unlink_dev d ns) \<subseteq> set ns"
  by (induction ns) (auto simp: image_iff)

lemma unlink_dev_absent: "d \<notin> snd ` set ns \<Longrightarrow> unlink_dev d ns = ns"
  by (induction ns) auto

lemma unlink_dev_last: "d \<notin> snd ` set ns \<Longrightarrow> unlink_dev d (ns @ [(n, d)]) = ns"
  by (induction ns) auto

lemma FindDeviceList_eq:
  "UsbPnpNotifyFindDeviceList E d b s = (r, s') \<Longrightarrow> r = (d \<in> snd ` set (g_usbPnpDeviceList s))"
  by (auto simp: UsbPnpNotifyFindDeviceList_def Let_def split: if_splits)

lemma FindDeviceList_inv:
  assumes "usb_inv s"
  shows "usb_inv (snd (UsbPnpNotifyFindDeviceList E d b s))"
proof -
  let ?cut = "\<lambda>t. t\<lparr>g_usbPnpDeviceList := unlink_dev d (g_usbPnpDeviceList s)\<rparr>"
  have "usb_inv (u_unlock E m (u_bad (?cut (u_lock E m s))))" for m
  proof -
    have "usb_inv (u_lock E m s)"
      using assms usb_inv_same by fastforce
    then have "usb_inv (?cut (u_lock E m s))"
      using unlink_dev_distinct [of "g_usbPnpDeviceList s" d] by (simp add: usb_inv_def)
    then show ?thesis
      using usb_inv_same by (metis usb_same_basic(2,3))
  qed
  moreover have "usb_inv (u_unlock E m (u_lock E m s))" for m
    using usb_inv_same [OF assms, of "u_unlock E m (u_lock E m s)"] by simp
  ultimately show ?thesis
    using assms by (simp add: UsbPnpNotifyFindDeviceList_def Let_def)
qed

lemma FindDeviceList_False_same:
  "usb_same s (snd (UsbPnpNotifyFindDeviceList E d False s))"
  by (simp add: UsbPnpNotifyFindDeviceList_def Let_def)

lemma CreateDeviceList_inv:
  assumes inv: "usb_inv s" and new: "udev \<notin> snd ` set (g_usbPnpDeviceList s)"
  shows "usb_inv (UsbPnpNotifyCreateDeviceList E udev s)"
    and "u_idNum (UsbPnpNotifyCreateDeviceList E udev s) = u_idNum s"
proof -
  obtain a o1 where al: "OsalMemCalloc E (Objs ''UsbPnpNotifyDeviceList'' 1) (u_os s) = (a, o1)"
    by fastforce
  have ok: "heap_ok (u_os s)"
    using inv by (simp add: usb_inv_def infos_ok_def)
  have o1: "heap_ok o1" "heap_dom (u_os s) \<subseteq> heap_dom o1"
    using heap_ok_OsalMemCalloc [OF ok al] al
    by (cases a; auto dest: OsalMemCalloc_SomeD OsalMemCalloc_NoneD)+
  have inv1: "usb_inv (s\<lparr>u_os := o1\<rparr>)"
    using inv infos_ok_os [OF _ o1] by (simp add: usb_inv_def)
  have add: "usb_inv (u_unlock E m (t\<lparr>g_usbPnpDeviceList := g_usbPnpDeviceList s @ [(n, udev)]\<rparr>))"
    if t: "usb_inv t" for t n m
  proof -
    have "usb_inv (t\<lparr>g_usbPnpDeviceList := g_usbPnpDeviceList s @ [(n, udev)]\<rparr>)"
      using t inv new by (auto simp: usb_inv_def)
    then show ?thesis
      using usb_inv_same by (metis usb_same_basic(2))
  qed
  have "usb_inv (u_lock E m (s\<lparr>u_os := o1\<rparr>))" for m
    using usb_inv_same [OF inv1, of "u_lock E m (s\<lparr>u_os := o1\<rparr>)"] by simp
  then show "usb_inv (UsbPnpNotifyCreateDeviceList E udev s)"
    using al inv1 add by (cases a) (simp_all add: UsbPnpNotifyCreateDeviceList_def)
  show "u_idNum (UsbPnpNotifyCreateDeviceList E udev s) = u_idNum s"
    using al by (cases a) (simp_all add: UsbPnpNotifyCreateDeviceList_def)
qed

lemma AddDevice_inv:
  assumes inv: "usb_inv s" and lt: "u_idNum s < INT32_MAX"
  shows "usb_inv (UsbPnpNotifyAddDevice E udev s)"
proof -
  obtain r s1 where c: "UsbPnpNotifyCreateInfo E s = (r, s1)"
    by fastforce
  have i1: "usb_inv s1"
    by (rule CreateInfo_inv(1) [OF inv lt c])
  show ?thesis
  proof (cases r)
    case None
    then show ?thesis using c i1 by (simp add: UsbPnpNotifyAddDevice_def)
  next
    case (Some p)
    obtain r2 s2 where a: "UsbPnpNotifyAddInitInfo E p (UsbDev udev) s1 = (r2, s2)"
      by fastforce
    have same: "usb_same s1 s2"
      using AddInitInfo_same [of s1 E p "UsbDev udev"] a by simp
    show ?thesis
      using Some c a usb_inv_same [OF i1 same] usb_inv_same [OF i1] same
      by (simp add: UsbPnpNotifyAddDevice_def)
  qed
qed

lemma AttachDevice_inv:
  assumes inv: "usb_inv s" and lt: "u_idNum s < INT32_MAX"
  shows "usb_inv (UsbPnpNotifyAttachDevice E udev s)"
proof (cases "u_devs s udev")
  case None
  then show ?thesis
    using usb_inv_same [OF inv, of "u_bad s"] by (simp add: UsbPnpNotifyAttachDevice_def)
next
  case (Some d)
  obtain found s1 where f: "UsbPnpNotifyFindDeviceList E udev False s = (found, s1)"
    by fastforce
  have same1: "usb_same s s1"
    using FindDeviceList_False_same [of s E udev] f by simp
  have fnd: "found = (udev \<in> snd ` set (g_usbPnpDeviceList s))"
    by (rule FindDeviceList_eq [OF f])
  define rs where "rs = (if u_listLockInit s1 then (HDF_SUCCESS, s1)
                        else (case OsalMutexInit E (Some (u_listLock s1)) (u_os s1) of (r, lk, o1) \<Rightarrow>
                                (r, s1\<lparr>u_os := o1,
                                       u_listLock := (case lk of None \<Rightarrow> u_listLock s1 | Some l \<Rightarrow> l),
                                       u_listLockInit := (r = HDF_SUCCESS)\<rparr>)))"
  obtain r s2 where rs: "rs = (r, s2)"
    by fastforce
  have inv1: "usb_inv s1"
    by (rule usb_inv_same [OF inv same1])
  have s2: "usb_inv s2" "g_usbPnpDeviceList s2 = g_usbPnpDeviceList s" "u_idNum s2 = u_idNum s"
    "u_infos s2 = u_infos s1"
  proof -
    obtain r' lk o1 where mx: "OsalMutexInit E (Some (u_listLock s1)) (u_os s1) = (r', lk, o1)"
      using prod_cases3 by blast
    have "heap_ok (u_os s1)"
      using inv1 by (simp add: usb_inv_def infos_ok_def)
    note fr = OsalMutexInit_frame [OF this mx]
    have "usb_inv (s1\<lparr>u_os := o1, u_listLock := l, u_listLockInit := b\<rparr>)" for l b
      using inv1 infos_ok_os [OF _ fr] by (simp add: usb_inv_def)
    then show "usb_inv s2" "g_usbPnpDeviceList s2 = g_usbPnpDeviceList s" "u_idNum s2 = u_idNum s"
      "u_infos s2 = u_infos s1"
      using rs mx inv1 same1 by (auto simp: rs_def usb_same_def split: if_splits)
  qed
  define s3 where "s3 = u_emit (UsbCreateDevice udev, u_api E (u_ev s2) (UsbCreateDevice udev)) s2"
  have s3: "usb_inv s3" "g_usbPnpDeviceList s3 = g_usbPnpDeviceList s" "u_idNum s3 = u_idNum s"
    using s2 usb_inv_same [OF s2(1), of s3] by (simp_all add: s3_def)
  have fin: "\<not> found \<Longrightarrow> usb_inv (UsbPnpNotifyAddDevice E udev (UsbPnpNotifyCreateDeviceList E udev s3))"
    by (rule AddDevice_inv; use CreateDeviceList_inv [of s3 udev E] s3 lt fnd in simp)
  have "UsbPnpNotifyAttachDevice E udev s =
      (if ud_bDeviceClass d = UICLASS_HUB E then s else if found then s1
       else if r \<noteq> HDF_SUCCESS then s2
       else if u_api E (u_ev s2) (UsbCreateDevice udev) \<noteq> 0 then s3
       else UsbPnpNotifyAddDevice E udev (UsbPnpNotifyCreateDeviceList E udev s3))"
    using Some rs by (simp add: UsbPnpNotifyAttachDevice_def f u_call_eq s3_def flip: rs_def)
  then show ?thesis
    using inv inv1 s2(1) s3(1) fin by simp
qed

lemma DetachDevice_inv:
  assumes inv: "usb_inv s"
  shows "usb_inv (UsbPnpNotifyDetachDevice E udev s)"
proof -
  obtain found s1 where f: "UsbPnpNotifyFindDeviceList E udev True s = (found, s1)"
    by fastforce
  have i1: "usb_inv s1"
    using FindDeviceList_inv [OF inv, of E udev True] f by simp
  show ?thesis
  proof (cases "found \<and> UsbPnpNotifyFindInfo (USB_INFO_DEVICE_ADDRESS_TYPE udev) s1 \<noteq> None")
    case False
    then show ?thesis
      using f i1 by (auto simp: UsbPnpNotifyDetachDevice_def)
  next
    case True
    then obtain p where p: "UsbPnpNotifyFindInfo (USB_INFO_DEVICE_ADDRESS_TYPE udev) s1 = Some p"
      by auto
    then obtain i where i: "u_infos s1 p = Some i"
      using FindInfo_SomeD by blast
    let ?j = "i\<lparr>pi_status := (if pi_status i \<noteq> USB_PNP_DEVICE_INIT_STATUS
                             then USB_PNP_DEVICE_INIT_STATUS else USB_PNP_DEVICE_REMOVE_STATUS)\<rparr>"
    have same: "usb_same s1 ((u_lock E m s1)\<lparr>u_infos := (u_infos s1)(p \<mapsto> ?j)\<rparr>)" for m
      using usb_same_upd [of s1 "u_lock E m s1" p i ?j] i by simp
    show ?thesis
      using True f p i usb_inv_same [OF i1] same by (simp add: UsbPnpNotifyDetachDevice_def Let_def)
  qed
qed

lemma ReportThread_inv:
  assumes inv: "usb_inv s" and lt: "u_idNum s < INT32_MAX"
  shows "usb_inv (UsbPnpNotifyReportThread E dev s)"
proof -
  have n: "usb_inv (snd (UsbPnpNotifyHdfSendEvent E dev e t))" if "usb_same s t" for e t
    using HdfSendEvent_next [OF usb_inv_same [OF inv that], of E dev e] lt that
    by (simp add: usb_next_def usb_same_def)
  have w: "usb_inv (u_emit x (u_unlock E m (t\<lparr>g_usbDevice := None\<rparr>)))" if "usb_inv t" for x m t
    using usb_inv_same [OF that, of "u_emit x (u_unlock E m (t\<lparr>g_usbDevice := None\<rparr>))"] by simp
  show ?thesis
    unfolding UsbPnpNotifyReportThread_def Let_def
    by (rule w) (auto intro!: n)
qed

lemma ReadPnpInfo_same: "usb_inv s \<Longrightarrow> usb_same s (UsbPnpNotifyReadPnpInfo E data s)"
proof (cases "Option.bind data sb_buffer")
  case (Some x)
  let ?s1 = "s\<lparr>g_usbPnpInfo := x, g_usbDevice := Some PnpInfo\<rparr>"
  let ?q = "USB_INFO_NORMAL_TYPE (ar_devNum x) (ar_busNum x)"
  show ?thesis
  proof (cases "Option.bind (UsbPnpNotifyFindInfo ?q ?s1) (u_infos s)")
    case None
    then show ?thesis
      using Some by (auto simp: UsbPnpNotifyReadPnpInfo_def Let_def bind_eq_None_conv split: option.splits)
  next
    case i: (Some i)
    then obtain p where p: "UsbPnpNotifyFindInfo ?q ?s1 = Some p" "u_infos s p = Some i"
      by (auto simp: bind_eq_Some_conv)
    let ?j = "i\<lparr>pi_status := (if pi_status i \<noteq> USB_PNP_DEVICE_INIT_STATUS
                             then USB_PNP_DEVICE_INIT_STATUS else USB_PNP_DEVICE_INTERFACE_STATUS)\<rparr>"
    have "usb_same s ((u_lock E m ?s1)\<lparr>u_infos := (u_infos s)(p \<mapsto> ?j)\<rparr>)" for m
      using usb_same_upd [of s "u_lock E m ?s1" p i ?j] p by simp
    then show ?thesis
      using Some p by (simp add: UsbPnpNotifyReadPnpInfo_def Let_def)
  qed
qed (simp add: UsbPnpNotifyReadPnpInfo_def)

lemma DriverRegister_same: "usb_same s (snd (UsbPnpNotifyDriverRegisterDevice E data s))"
  by (auto simp: UsbPnpNotifyDriverRegisterDevice_def u_call_eq split: option.splits list.splits)

lemma DriverUnregister_same: "usb_same s (snd (UsbPnpNotifyDriverUnregisterDevice E data s))"
  by (auto simp: UsbPnpNotifyDriverUnregisterDevice_def u_call_eq split: option.splits list.splits)

lemma FirstReport_inv:
  assumes inv: "usb_inv s" and lt: "ids_left s"
  shows "usb_inv (snd (UsbPnpNotifyFirstReportDevice E dev s))"
proof -
  let ?l = "u_lock E (u_listLock s) s" and ?ds = "map snd (g_usbPnpDeviceList s)"
  have "usb_next (length ?ds) ?l (report_all E dev ?ds ?l)"
    by (rule report_all_next) (use usb_inv_same [OF inv, of ?l] lt in \<open>auto simp: ids_left_def\<close>)
  then have "usb_inv (report_all E dev ?ds ?l)"
    by (simp add: usb_next_def)
  from usb_inv_same [OF this] show ?thesis
    using inv by (simp add: UsbPnpNotifyFirstReportDevice_def)
qed

lemma Dispatch_inv:
  assumes inv: "usb_inv s" and lt: "ids_left s"
  shows "usb_inv (snd (UsbPnpNotifyDispatch E client cmd data reply s))"
proof -
  have w: "usb_inv (snd (u_call E SbufWriteInt32 (u_unlock E m t)))" if "usb_inv t" for m t
    using usb_inv_same [OF that, of "snd (u_call E SbufWriteInt32 (u_unlock E m t))"] by (simp add: u_call_eq)
  let ?s1 = "(u_lock E (u_sendLock s) s)\<lparr>g_usbPnpNotifyCmdType := cmd\<rparr>"
  have i1: "usb_inv ?s1"
    by (rule usb_inv_same [OF inv]) simp
  have rd: "usb_inv (u_emit (WakeUp, 0) (UsbPnpNotifyReadPnpInfo E data ?s1))"
     "usb_inv (u_emit (WakeUp, 0) ((UsbPnpNotifyReadPnpInfo E data ?s1)\<lparr>g_usbPnpNotifyRemoveType := t\<rparr>))" for t
    by (rule usb_inv_same [OF i1]; simp add: ReadPnpInfo_same [OF i1])+
  have fr: "usb_inv (snd (UsbPnpNotifyFirstReportDevice E dv ?s1))" for dv
    by (rule FirstReport_inv [OF i1]) (use lt in \<open>simp add: ids_left_def\<close>)
  have reg: "usb_inv (snd (UsbPnpNotifyDriverRegisterDevice E data ?s1))"
    "usb_inv (snd (UsbPnpNotifyDriverUnregisterDevice E data ?s1))"
    by (rule usb_inv_same [OF i1], simp add: DriverRegister_same DriverUnregister_same)+
  show ?thesis
  proof (cases "client = None \<or> \<not> reply")
    case True
    then show ?thesis
      using inv by (auto simp: UsbPnpNotifyDispatch_def split: option.splits)
  next
    case False
    then obtain dv where c: "client = Some dv" "reply"
      by auto
    show ?thesis
      using c i1 rd fr reg
      by (cases cmd) (auto simp: UsbPnpNotifyDispatch_def Let_def split: prod.splits intro!: w
          dest!: arg_cong [where f = snd])
  qed
qed

end
