(* ===== verification/Usb_Pnp_Events.thy ===== *)
theory Usb_Pnp_Events
  imports Usb_Pnp_Facts
begin

text \<open>
  The properties of the USB notifier: which events reach the loader service for a device that is
  plugged in and out, in which orders events are lost, and the list invariant along every run.
\<close>

subsection \<open>A well-behaved environment\<close>

text \<open>What the calls outside the repository return when nothing fails.\<close>

definition usb_status :: "usb_ev \<Rightarrow> int" where
  "usb_status c =
     (case c of SbufObtain \<Rightarrow> 1 | SbufWriteBuffer _ \<Rightarrow> 1 | LoaderBind \<Rightarrow> 1 | SbufWriteInt32 \<Rightarrow> 1
      | DevObjAlloc _ \<Rightarrow> 1 | DevObjGet _ \<Rightarrow> 1 | _ \<Rightarrow> 0)"

definition usb_env_ok :: "('m) usb_env_scheme \<Rightarrow> bool" where
  "usb_env_ok E \<longleftrightarrow>
     (\<forall>n sz. mem_ok E n sz) \<and> (\<forall>t c. los E t c = 0) \<and> (\<forall>t c. u_api E t c = usb_status c)"

text \<open>A device that is no hub and has descriptors for all the interfaces it announces.\<close>

definition device_ok :: "('m) usb_env_scheme \<Rightarrow> usb_device \<Rightarrow> bool" where
  "device_ok E d \<longleftrightarrow>
     ud_bDeviceClass d \<noteq> UICLASS_HUB E \<and> ud_bNumInterface d \<noteq> None \<and>
     unat (the (ud_bNumInterface d)) \<le> length (ud_ifaces d) \<and>
     unat (the (ud_bNumInterface d)) \<le> USB_PNP_INFO_MAX_INTERFACES E \<and>
     None \<notin> set (take (unat (the (ud_bNumInterface d))) (ud_ifaces d)) \<and>
     length (mt_interfaceInfo (u_zeroTable E)) = USB_PNP_INFO_MAX_INTERFACES E"

text \<open>The table that describes the device at address \<open>a\<close>.\<close>

definition device_table :: "('m) usb_env_scheme \<Rightarrow> nat \<Rightarrow> usb_device \<Rightarrow> UsbPnpNotifyMatchInfoTable" where
  "device_table E a d =
     \<lparr>mt_usbDevAddr = a, mt_devNum = uint (ud_address d), mt_busNum = uint (ud_port_no d),
      mt_deviceInfo = \<lparr>di_vendorId = ud_idVendor d, di_productId = ud_idProduct d,
        di_bcdDeviceLow = ud_bcdDevice d, di_bcdDeviceHigh = ud_bcdDevice d,
        di_class = ud_bDeviceClass d, di_subClass = ud_bDeviceSubClass d,
        di_protocol = ud_bDeviceProtocol d\<rparr>,
      mt_removeType = mt_removeType (u_zeroTable E),
      mt_numInfos = the (ud_bNumInterface d),
      mt_interfaceInfo = patch (mt_interfaceInfo (u_zeroTable E)) 0
        (map the (take (unat (the (ud_bNumInterface d))) (ud_ifaces d)))\<rparr>"

lemma fill_ifaces_ok:
  "i + n \<le> length ifaces \<Longrightarrow> i + n \<le> maxi \<Longrightarrow> length acc = maxi \<Longrightarrow>
   None \<notin> set (take n (drop i ifaces)) \<Longrightarrow>
     fill_ifaces maxi ifaces i n acc = (HDF_SUCCESS, False, patch acc i (map the (take n (drop i ifaces))))"
proof (induction n arbitrary: i acc)
  case 0
  then show ?case by simp
next
  case (Suc n)
  have i: "i < length ifaces" "i < maxi"
    using Suc.prems by auto
  have d: "drop i ifaces = ifaces ! i # drop (Suc i) ifaces"
    using i by (simp add: Cons_nth_drop_Suc)
  then obtain x where x: "ifaces ! i = Some x"
    using Suc.prems(4) by (cases "ifaces ! i") auto
  have "fill_ifaces maxi ifaces (Suc i) n (acc[i := x]) =
      (HDF_SUCCESS, False, patch (acc[i := x]) (Suc i) (map the (take n (drop (Suc i) ifaces))))"
    by (rule Suc.IH) (use Suc.prems d in auto)
  moreover have "patch (acc[i := x]) (Suc i) ys = patch acc i (x # ys)" for ys
    using i Suc.prems(3) by (simp add: patch_def take_Suc_conv_app_nth)
  ultimately show ?case
    using i x d by simp
qed

lemma fill_ifaces_overflow:
  "maxi < i + n \<Longrightarrow> i \<le> maxi \<Longrightarrow> i + n \<le> length ifaces \<Longrightarrow>
   None \<notin> set (take n (drop i ifaces)) \<Longrightarrow>
     \<exists>acc'. fill_ifaces maxi ifaces i n acc = (HDF_SUCCESS, True, acc')"
proof (induction n arbitrary: i acc)
  case 0
  then show ?case by simp
next
  case (Suc n)
  have i: "i < length ifaces"
    using Suc.prems by auto
  have d: "drop i ifaces = ifaces ! i # drop (Suc i) ifaces"
    using i by (simp add: Cons_nth_drop_Suc)
  then obtain x where x: "ifaces ! i = Some x"
    using Suc.prems(4) by (cases "ifaces ! i") auto
  show ?case
  proof (cases "maxi \<le> i")
    case True
    then show ?thesis using i x by simp
  next
    case False
    then show ?thesis
      using i x Suc.IH [of "Suc i" "acc[i := x]"] Suc.prems d by simp
  qed
qed

subsection \<open>What the steps do when nothing fails\<close>

lemma CreateDeviceList_ok:
  fixes s :: usb_sys and a :: nat
  assumes "usb_env_ok E"
  defines "s' \<equiv> UsbPnpNotifyCreateDeviceList E a s"
  shows "g_usbPnpDeviceList s' = g_usbPnpDeviceList s @ [(h_next (u_os s), a)]"
    and "g_usbPnpInfoList s' = g_usbPnpInfoList s" and "u_infos s' = u_infos s"
    and "u_idNum s' = u_idNum s" and "u_ev s' = u_ev s" and "u_devs s' = u_devs s"
    and "h_blk (u_os s') = (h_blk (u_os s))(h_next (u_os s) \<mapsto> [])"
    and "h_next (u_os s') = Suc (h_next (u_os s))" and "h_bad (u_os s') = h_bad (u_os s)"
    and "u_listLockInit s' = u_listLockInit s" and "g_usbPnpNotifyRemoveType s' = g_usbPnpNotifyRemoveType s"
  using assms(1) by (simp_all add: s'_def UsbPnpNotifyCreateDeviceList_def alloc_eqs usb_env_ok_def)

definition fresh_info :: "('m) usb_env_scheme \<Rightarrow> int \<Rightarrow> nat \<Rightarrow> UsbPnpDeviceInfo" where
  "fresh_info E n mux =
     \<lparr>pi_id = n, pi_lock = \<lparr>realMutex = Some mux\<rparr>, pi_status = USB_PNP_DEVICE_INIT_STATUS,
      pi_interfaceRemoveStatus = replicate (USB_PNP_INFO_MAX_INTERFACES E) False, pi_info = u_zeroTable E\<rparr>"

lemma CreateInfo_ok:
  assumes "usb_env_ok E" and "u_idNum s < INT32_MAX"
  obtains s' where "UsbPnpNotifyCreateInfo E s = (Some (h_next (u_os s)), s')"
    and "g_usbPnpInfoList s' = g_usbPnpInfoList s @ [h_next (u_os s)]"
    and "u_infos s' = (u_infos s)(h_next (u_os s) \<mapsto> fresh_info E (u_idNum s) (Suc (h_next (u_os s))))"
    and "u_idNum s' = u_idNum s + 1" and "g_usbPnpDeviceList s' = g_usbPnpDeviceList s"
    and "u_ev s' = u_ev s" and "u_devs s' = u_devs s"
    and "h_blk (u_os s') = (h_blk (u_os s))(h_next (u_os s) \<mapsto> [], Suc (h_next (u_os s)) \<mapsto> [])"
    and "h_next (u_os s') = Suc (Suc (h_next (u_os s)))" and "h_bad (u_os s') = h_bad (u_os s)"
    and "u_listLockInit s' = u_listLockInit s" and "g_usbPnpNotifyRemoveType s' = g_usbPnpNotifyRemoveType s"
    and "g_usbPnpNotifyCmdType s' = g_usbPnpNotifyCmdType s" and "g_usbDevice s' = g_usbDevice s"
  using assms
  by (auto simp: UsbPnpNotifyCreateInfo_def alloc_eqs OsalMutexInit_def los_defs usb_env_ok_def
      fresh_info_def Let_def intro!: that)

lemma AddInitInfo_ok:
  assumes "device_ok E d" and "u_infos s p = Some i" and "u_devs s a = Some d"
    and "pi_info i = (u_zeroTable E)\<lparr>mt_removeType := rt\<rparr>"
  shows "UsbPnpNotifyAddInitInfo E p (UsbDev a) s =
    (HDF_SUCCESS, s\<lparr>u_infos := (u_infos s)(p \<mapsto>
       i\<lparr>pi_info := (device_table E a d)\<lparr>mt_removeType := rt\<rparr>\<rparr>)\<rparr>)"
proof -
  obtain n where n: "ud_bNumInterface d = Some n"
    using assms(1) by (auto simp: device_ok_def)
  have f: "fill_ifaces (USB_PNP_INFO_MAX_INTERFACES E) (ud_ifaces d) 0 (unat n)
      (mt_interfaceInfo (u_zeroTable E)) = (HDF_SUCCESS, False,
        patch (mt_interfaceInfo (u_zeroTable E)) 0 (map the (take (unat n) (ud_ifaces d))))"
    using assms(1) n fill_ifaces_ok [of 0 "unat n" "ud_ifaces d"] by (simp add: device_ok_def)
  show ?thesis
    using assms n f
    by (cases "u_zeroTable E") (simp add: UsbPnpNotifyAddInitInfo_def device_table_def Let_def)
qed

text \<open>
  Attaching a new device \<open>a\<close>: the blocks \<open>N\<close>, \<open>N + 1\<close>, \<open>N + 2\<close> are the device node, the
  information object and the object's lock; the mailbox holds the attach event.
\<close>

definition attached_info :: "('m) usb_env_scheme \<Rightarrow> nat \<Rightarrow> usb_device \<Rightarrow> usb_sys \<Rightarrow> UsbPnpDeviceInfo" where
  "attached_info E a d s =
     (fresh_info E (u_idNum s) (Suc (Suc (h_next (u_os s)))))\<lparr>pi_info := device_table E a d\<rparr>"

lemma attach_ok:
  assumes E: "usb_env_ok E" and lt: "u_idNum s < INT32_MAX" and li: "u_listLockInit s"
    and d: "u_devs s a = Some d" "device_ok E d" and new: "a \<notin> snd ` set (g_usbPnpDeviceList s)"
  defines "s' \<equiv> UsbPnpNotifyAttachDevice E a s" and "N \<equiv> h_next (u_os s)"
  shows "g_usbPnpDeviceList s' = g_usbPnpDeviceList s @ [(N, a)]"
    and "g_usbPnpInfoList s' = g_usbPnpInfoList s @ [Suc N]"
    and "u_infos s' = (u_infos s)(Suc N \<mapsto> attached_info E a d s)"
    and "u_idNum s' = u_idNum s + 1" and "u_devs s' = u_devs s"
    and "dispatched (u_ev s') = dispatched (u_ev s)"
    and "h_blk (u_os s') = (h_blk (u_os s))(N \<mapsto> [], Suc N \<mapsto> [], Suc (Suc N) \<mapsto> [])"
    and "h_next (u_os s') = Suc (Suc (Suc N))" and "h_bad (u_os s') = h_bad (u_os s)"
    and "u_listLockInit s'" and "g_usbPnpNotifyRemoveType s' = g_usbPnpNotifyRemoveType s"
    and "g_usbPnpNotifyCmdType s' = USB_PNP_NOTIFY_ADD_DEVICE" and "g_usbDevice s' = Some (UsbDev a)"
proof -
  define s1 where "s1 = snd (UsbPnpNotifyFindDeviceList E a False s)"
  have f: "UsbPnpNotifyFindDeviceList E a False s = (False, s1)"
    using new by (auto simp: s1_def UsbPnpNotifyFindDeviceList_def Let_def)
  have s1: "g_usbPnpDeviceList s1 = g_usbPnpDeviceList s" "g_usbPnpInfoList s1 = g_usbPnpInfoList s"
    "u_infos s1 = u_infos s" "u_idNum s1 = u_idNum s" "u_devs s1 = u_devs s" "u_ev s1 = u_ev s"
    "h_blk (u_os s1) = h_blk (u_os s)" "h_next (u_os s1) = N" "h_bad (u_os s1) = h_bad (u_os s)"
    "u_listLockInit s1" "g_usbPnpNotifyRemoveType s1 = g_usbPnpNotifyRemoveType s"
    using li by (auto simp: s1_def N_def UsbPnpNotifyFindDeviceList_def Let_def)
  define s2 where "s2 = u_emit (UsbCreateDevice a, 0) s1"
  define s3 where "s3 = UsbPnpNotifyCreateDeviceList E a s2"
  note s3 = CreateDeviceList_ok [OF E, of a s2, folded s3_def]
  have lt3: "u_idNum s3 < INT32_MAX"
    using lt s3 s1 by (simp add: s2_def)
  obtain s4 where c: "UsbPnpNotifyCreateInfo E s3 = (Some (h_next (u_os s3)), s4)" and
    s4: "g_usbPnpInfoList s4 = g_usbPnpInfoList s3 @ [h_next (u_os s3)]"
    "u_infos s4 = (u_infos s3)(h_next (u_os s3) \<mapsto> fresh_info E (u_idNum s3) (Suc (h_next (u_os s3))))"
    "u_idNum s4 = u_idNum s3 + 1" "g_usbPnpDeviceList s4 = g_usbPnpDeviceList s3"
    "u_ev s4 = u_ev s3" "u_devs s4 = u_devs s3"
    "h_blk (u_os s4) = (h_blk (u_os s3))(h_next (u_os s3) \<mapsto> [], Suc (h_next (u_os s3)) \<mapsto> [])"
    "h_next (u_os s4) = Suc (Suc (h_next (u_os s3)))" "h_bad (u_os s4) = h_bad (u_os s3)"
    "u_listLockInit s4 = u_listLockInit s3" "g_usbPnpNotifyRemoveType s4 = g_usbPnpNotifyRemoveType s3"
    by (rule CreateInfo_ok [OF E lt3]) blast
  have i4: "u_infos s4 (h_next (u_os s3)) = Some (fresh_info E (u_idNum s3) (Suc (h_next (u_os s3))))"
    and d4: "u_devs s4 a = Some d"
    and z4: "pi_info (fresh_info E (u_idNum s3) (Suc (h_next (u_os s3)))) =
       (u_zeroTable E)\<lparr>mt_removeType := mt_removeType (u_zeroTable E)\<rparr>"
    using s4 s3 s1 d by (simp_all add: s2_def fresh_info_def)
  note ai = AddInitInfo_ok [OF d(2) i4 d4 z4]
  have hub: "ud_bDeviceClass d \<noteq> UICLASS_HUB E"
    using d(2) by (simp add: device_ok_def)
  have "u_api E (u_ev s1) (UsbCreateDevice a) = 0"
    using E by (simp add: usb_env_ok_def usb_status_def)
  then have "s' = UsbPnpNotifyAddDevice E a s3"
    using d hub f s1(10) by (simp add: s'_def UsbPnpNotifyAttachDevice_def u_call_eq s2_def s3_def)
  then have s': "s' = u_emit (WakeUp, 0) (u_unlock E (u_sendLock s3)
     ((u_lock E (u_sendLock s3) (snd (UsbPnpNotifyAddInitInfo E (h_next (u_os s3)) (UsbDev a) s4)))
        \<lparr>g_usbDevice := Some (UsbDev a), g_usbPnpNotifyCmdType := USB_PNP_NOTIFY_ADD_DEVICE\<rparr>))"
    using c ai by (simp add: UsbPnpNotifyAddDevice_def)
  have "(device_table E a d)\<lparr>mt_removeType := mt_removeType (u_zeroTable E)\<rparr> = device_table E a d"
    by (simp add: device_table_def)
  then have "u_infos s' = (u_infos s)(Suc N \<mapsto> attached_info E a d s)"
    using ai s' s4 s3 s1 by (simp add: s2_def attached_info_def N_def)
  with ai s' s4 s3 s1 show
    "g_usbPnpDeviceList s' = g_usbPnpDeviceList s @ [(N, a)]"
    "g_usbPnpInfoList s' = g_usbPnpInfoList s @ [Suc N]"
    "u_infos s' = (u_infos s)(Suc N \<mapsto> attached_info E a d s)"
    "u_idNum s' = u_idNum s + 1" "u_devs s' = u_devs s"
    "dispatched (u_ev s') = dispatched (u_ev s)"
    "h_blk (u_os s') = (h_blk (u_os s))(N \<mapsto> [], Suc N \<mapsto> [], Suc (Suc N) \<mapsto> [])"
    "h_next (u_os s') = Suc (Suc (Suc N))" "h_bad (u_os s') = h_bad (u_os s)"
    "u_listLockInit s'" "g_usbPnpNotifyRemoveType s' = g_usbPnpNotifyRemoveType s"
    "g_usbPnpNotifyCmdType s' = USB_PNP_NOTIFY_ADD_DEVICE" "g_usbDevice s' = Some (UsbDev a)"
    by (simp_all add: s2_def N_def)
qed


lemma FindInfo_unique:
  assumes "usb_inv s" and "u_infos s p = Some i" and "info_matches q i"
    and "\<And>p' i'. u_infos s p' = Some i' \<Longrightarrow> info_matches q i' \<Longrightarrow> p' = p"
  shows "UsbPnpNotifyFindInfo q s = Some p"
proof -
  have "p \<in> set (g_usbPnpInfoList s)"
    using assms(1,2) unfolding usb_inv_def infos_ok_def by (metis domI)
  then have "UsbPnpNotifyFindInfo q s \<noteq> None"
    using assms(2,3) by (auto simp: UsbPnpNotifyFindInfo_def find_None_iff)
  then obtain p' where p': "UsbPnpNotifyFindInfo q s = Some p'"
    by auto
  then show ?thesis
    using FindInfo_SomeD [OF p'] assms(4) by auto
qed

lemma DestroyInfo_ok:
  assumes inv: "usb_inv s" and i: "u_infos s p = Some i"
  shows "UsbPnpNotifyDestroyInfo (Some p) s =
    (HDF_SUCCESS, s\<lparr>g_usbPnpInfoList := remove1 p (g_usbPnpInfoList s),
       u_os := (u_os s)\<lparr>h_blk := (h_blk (u_os s))(p := None)\<rparr>, u_infos := (u_infos s)(p := None)\<rparr>)"
proof -
  have p: "p \<in> set (g_usbPnpInfoList s)" "p \<in> heap_dom (u_os s)"
    using inv i unfolding usb_inv_def infos_ok_def by (metis domI subsetD)+
  have "\<And>p' i'. u_infos s p' = Some i' \<Longrightarrow> pi_id i' = pi_id i \<Longrightarrow> p' = p"
    using inv i unfolding usb_inv_def infos_ok_def by blast
  then have "UsbPnpNotifyFindInfo (USB_INFO_ID_TYPE (pi_id i)) s = Some p"
    by (intro FindInfo_unique [OF inv i]) (auto simp: info_matches_def)
  then show ?thesis
    using p i by (auto simp: UsbPnpNotifyDestroyInfo_def OsalMemFree_live)
qed

lemma dispatched_api:
  "dispatch_of (SbufObtain, r) = []" "dispatch_of (SbufWriteBuffer t, r) = []"
  "dispatch_of (LoaderBind, r) = []" "dispatch_of (LoaderDispatch c t, r) = [(c, t)]"
  "dispatch_of (SbufWriteInt32, r) = []"
  by simp_all

text \<open>
  Sending the event for a listed information object \<open>p\<close> under an attach or detach command: the
  object's status decides whether anything is dispatched.
\<close>

lemma HdfSendEvent_device:
  assumes E: "usb_env_ok E" and inv: "usb_inv s"
    and f: "UsbPnpNotifyFindInfo (USB_INFO_DEVICE_ADDRESS_TYPE a) s = Some p" and i: "u_infos s p = Some i"
    and cmd: "g_usbPnpNotifyCmdType s = c" "c = USB_PNP_NOTIFY_ADD_DEVICE \<or> c = USB_PNP_NOTIFY_REMOVE_DEVICE"
  defines "t \<equiv> (pi_info i)\<lparr>mt_removeType := g_usbPnpNotifyRemoveType s\<rparr>"
  obtains r s' where "UsbPnpNotifyHdfSendEvent E (Some dev) (Some (UsbDev a)) s = (r, s')"
    and "dispatched (u_ev s') = dispatched (u_ev s) @
           (if pi_status i = USB_PNP_DEVICE_INIT_STATUS then [(c, t)] else [])"
    and "u_infos s' = (u_infos s)(p :=
           (if pi_status i = USB_PNP_DEVICE_INIT_STATUS \<and> c = USB_PNP_NOTIFY_ADD_DEVICE
            then Some (i\<lparr>pi_status := USB_PNP_DEVICE_ADD_STATUS, pi_info := t\<rparr>) else None))"
    and "g_usbPnpInfoList s' =
           (if pi_status i = USB_PNP_DEVICE_INIT_STATUS \<and> c = USB_PNP_NOTIFY_ADD_DEVICE
            then g_usbPnpInfoList s else remove1 p (g_usbPnpInfoList s))"
    and "h_blk (u_os s') =
           (if pi_status i = USB_PNP_DEVICE_INIT_STATUS \<and> c = USB_PNP_NOTIFY_ADD_DEVICE
            then h_blk (u_os s) else (h_blk (u_os s))(p := None))"
    and "h_next (u_os s') = h_next (u_os s)" and "h_bad (u_os s') = h_bad (u_os s)"
    and "g_usbPnpDeviceList s' = g_usbPnpDeviceList s" and "u_idNum s' = u_idNum s"
    and "u_devs s' = u_devs s" and "u_listLockInit s' = u_listLockInit s"
    and "g_usbPnpNotifyRemoveType s' = g_usbPnpNotifyRemoveType s"
    and "g_usbPnpNotifyCmdType s' = c"
proof -
  define s1 where "s1 = u_emit (SbufObtain, 1) s"
  define j where "j = i\<lparr>pi_info := t\<rparr>"
  define s2 where "s2 = s1\<lparr>u_infos := (u_infos s1)(p \<mapsto> j)\<rparr>"
  have ic: "\<not> is_interface_cmd c"
    using cmd by (auto simp: is_interface_cmd_def)
  have f1: "UsbPnpNotifyFindInfo (USB_INFO_DEVICE_ADDRESS_TYPE a) s1 = Some p"
    using f by (simp add: UsbPnpNotifyFindInfo_def s1_def)
  have g: "UsbPnpNotifyGetDeviceInfo E (UsbDev a) s1 = (HDF_SUCCESS, Some p, s2)"
    using f1 i cmd ic by (auto simp: UsbPnpNotifyGetDeviceInfo_def s1_def s2_def j_def t_def)
  define s3 where "s3 = u_emit (SbufWriteBuffer t, 1) s2"
  have cmd2: "g_usbPnpNotifyCmdType s2 = c" and i2: "u_infos s2 p = Some j" and st: "pi_status j = pi_status i"
    using cmd by (simp_all add: s2_def s1_def j_def)
  have n: "UsbPnpNotifyInitInfo E p (UsbDev a) s2 = (HDF_SUCCESS, t, s3)"
    using E i2 cmd2 cmd(2) ic
    by (auto simp: UsbPnpNotifyInitInfo_def sbuf_put_def u_call_eq s3_def usb_env_ok_def usb_status_def j_def)
  define l where "l = u_lock E (pi_lock j) s3"
  define s4 where "s4 = u_unlock E (pi_lock j)
     (if pi_status i = USB_PNP_DEVICE_INIT_STATUS
      then (u_emit (LoaderRecycle, 0) (u_emit (LoaderDispatch c t, 0) (u_emit (LoaderBind, 1) l)))
             \<lparr>u_infos := (u_infos l)(p \<mapsto> j\<lparr>pi_status := USB_PNP_DEVICE_ADD_STATUS\<rparr>)\<rparr>
      else l)"
  define r where "r = (if pi_status i = USB_PNP_DEVICE_INIT_STATUS then HDF_SUCCESS else HDF_ERR_INVALID_OBJECT)"
  have sl: "send_locked E p t s3 = (r, s4)"
    using E i2 cmd2 st
    by (auto simp: send_locked_def UsbPnpNotifySendEventLoader_def u_call_eq Let_def usb_env_ok_def
        usb_status_def s4_def r_def l_def s3_def)
  have cmd4: "g_usbPnpNotifyCmdType s4 = c"
    using cmd2 by (simp add: s4_def l_def s3_def)
  define s5 where "s5 = (if r \<noteq> HDF_SUCCESS \<or> c = USB_PNP_NOTIFY_REMOVE_DEVICE
     then snd (UsbPnpNotifyDestroyInfo (Some p) s4) else s4)"
  have ev: "UsbPnpNotifyHdfSendEvent E (Some dev) (Some (UsbDev a)) s = (r, u_emit (SbufRecycle, 0) s5)"
    using E g n sl cmd4
    by (simp add: UsbPnpNotifyHdfSendEvent_def u_call_eq usb_env_ok_def usb_status_def s1_def [symmetric] s5_def Let_def)
  have s4u: "u_infos s4 = (u_infos s)(p \<mapsto> (if pi_status i = USB_PNP_DEVICE_INIT_STATUS
       then i\<lparr>pi_status := USB_PNP_DEVICE_ADD_STATUS, pi_info := t\<rparr> else j))"
    by (auto simp: s4_def l_def s3_def s2_def s1_def j_def)
  have s4f: "h_blk (u_os s4) = h_blk (u_os s)" "h_next (u_os s4) = h_next (u_os s)"
    "h_bad (u_os s4) = h_bad (u_os s)"
    "g_usbPnpInfoList s4 = g_usbPnpInfoList s" "g_usbPnpDeviceList s4 = g_usbPnpDeviceList s"
    "u_idNum s4 = u_idNum s" "u_devs s4 = u_devs s" "u_listLockInit s4 = u_listLockInit s"
    "g_usbPnpNotifyRemoveType s4 = g_usbPnpNotifyRemoveType s"
    "dispatched (u_ev s4) = dispatched (u_ev s) @
           (if pi_status i = USB_PNP_DEVICE_INIT_STATUS then [(c, t)] else [])"
    by (simp_all add: s4_def l_def s3_def s2_def s1_def)
  have "usb_same s s4"
    using s4u s4f i by (auto simp: usb_same_def j_def)
  then have "usb_inv s4"
    by (rule usb_inv_same [OF inv])
  note D = DestroyInfo_ok [OF this, of p]
  show thesis
    by (rule that [OF ev]) (use cmd s4f s4u D cmd4 in \<open>auto simp: s5_def r_def\<close>)
qed


text \<open>One turn of the report thread with an attach or detach event in the mailbox.\<close>

lemma report_ok:
  fixes dev :: nat
  assumes E: "usb_env_ok E" and inv: "usb_inv s"
    and f: "UsbPnpNotifyFindInfo (USB_INFO_DEVICE_ADDRESS_TYPE a) s = Some p" and i: "u_infos s p = Some i"
    and box: "g_usbDevice s = Some (UsbDev a)"
    and cmd: "g_usbPnpNotifyCmdType s = c" "c = USB_PNP_NOTIFY_ADD_DEVICE \<or> c = USB_PNP_NOTIFY_REMOVE_DEVICE"
  defines "t \<equiv> (pi_info i)\<lparr>mt_removeType := g_usbPnpNotifyRemoveType s\<rparr>"
    and "s' \<equiv> UsbPnpNotifyReportThread E (Some dev) s"
  shows "dispatched (u_ev s') = dispatched (u_ev s) @
           (if pi_status i = USB_PNP_DEVICE_INIT_STATUS then [(c, t)] else [])"
    and "u_infos s' = (u_infos s)(p :=
           (if pi_status i = USB_PNP_DEVICE_INIT_STATUS \<and> c = USB_PNP_NOTIFY_ADD_DEVICE
            then Some (i\<lparr>pi_status := USB_PNP_DEVICE_ADD_STATUS, pi_info := t\<rparr>) else None))"
    and "g_usbPnpInfoList s' =
           (if pi_status i = USB_PNP_DEVICE_INIT_STATUS \<and> c = USB_PNP_NOTIFY_ADD_DEVICE
            then g_usbPnpInfoList s else remove1 p (g_usbPnpInfoList s))"
    and "h_blk (u_os s') =
           (if pi_status i = USB_PNP_DEVICE_INIT_STATUS \<and> c = USB_PNP_NOTIFY_ADD_DEVICE
            then h_blk (u_os s) else (h_blk (u_os s))(p := None))"
    and "h_next (u_os s') = h_next (u_os s)" and "h_bad (u_os s') = h_bad (u_os s)"
    and "g_usbPnpDeviceList s' = g_usbPnpDeviceList s" and "u_idNum s' = u_idNum s"
    and "u_devs s' = u_devs s" and "u_listLockInit s' = u_listLockInit s"
    and "g_usbPnpNotifyRemoveType s' = g_usbPnpNotifyRemoveType s" and "g_usbDevice s' = None"
proof -
  let ?l = "u_lock E (u_sendLock s) s"
  have inv1: "usb_inv ?l"
    by (rule usb_inv_same [OF inv]) simp
  have f1: "UsbPnpNotifyFindInfo (USB_INFO_DEVICE_ADDRESS_TYPE a) ?l = Some p"
    using f by (simp add: UsbPnpNotifyFindInfo_def)
  have i1: "u_infos ?l p = Some i" and c1: "g_usbPnpNotifyCmdType ?l = c"
    using i cmd by simp_all
  have ic: "\<not> is_interface_cmd c"
    using cmd by (auto simp: is_interface_cmd_def)
  obtain r s1 where h: "UsbPnpNotifyHdfSendEvent E (Some dev) (Some (UsbDev a)) ?l = (r, s1)" and
    s1: "dispatched (u_ev s1) = dispatched (u_ev s) @
           (if pi_status i = USB_PNP_DEVICE_INIT_STATUS then [(c, t)] else [])"
    "u_infos s1 = (u_infos s)(p :=
           (if pi_status i = USB_PNP_DEVICE_INIT_STATUS \<and> c = USB_PNP_NOTIFY_ADD_DEVICE
            then Some (i\<lparr>pi_status := USB_PNP_DEVICE_ADD_STATUS, pi_info := t\<rparr>) else None))"
    "g_usbPnpInfoList s1 =
           (if pi_status i = USB_PNP_DEVICE_INIT_STATUS \<and> c = USB_PNP_NOTIFY_ADD_DEVICE
            then g_usbPnpInfoList s else remove1 p (g_usbPnpInfoList s))"
    "h_blk (u_os s1) =
           (if pi_status i = USB_PNP_DEVICE_INIT_STATUS \<and> c = USB_PNP_NOTIFY_ADD_DEVICE
            then h_blk (u_os s) else (h_blk (u_os s))(p := None))"
    "h_next (u_os s1) = h_next (u_os s)" "h_bad (u_os s1) = h_bad (u_os s)"
    "g_usbPnpDeviceList s1 = g_usbPnpDeviceList s" "u_idNum s1 = u_idNum s"
    "u_devs s1 = u_devs s" "u_listLockInit s1 = u_listLockInit s"
    "g_usbPnpNotifyRemoveType s1 = g_usbPnpNotifyRemoveType s"
    by (rule HdfSendEvent_device [OF E inv1 f1 i1 c1 cmd(2), of dev]) (auto simp: t_def)
  have "s' = u_emit (MSleep USB_PNP_NOTIFY_MSLEEP_TIME, 0)
           (u_unlock E (u_sendLock s) (s1\<lparr>g_usbDevice := None\<rparr>))"
    using box cmd(1) ic h by (simp add: s'_def UsbPnpNotifyReportThread_def Let_def)
  with s1 show
    "dispatched (u_ev s') = dispatched (u_ev s) @
           (if pi_status i = USB_PNP_DEVICE_INIT_STATUS then [(c, t)] else [])"
    "u_infos s' = (u_infos s)(p :=
           (if pi_status i = USB_PNP_DEVICE_INIT_STATUS \<and> c = USB_PNP_NOTIFY_ADD_DEVICE
            then Some (i\<lparr>pi_status := USB_PNP_DEVICE_ADD_STATUS, pi_info := t\<rparr>) else None))"
    "g_usbPnpInfoList s' =
           (if pi_status i = USB_PNP_DEVICE_INIT_STATUS \<and> c = USB_PNP_NOTIFY_ADD_DEVICE
            then g_usbPnpInfoList s else remove1 p (g_usbPnpInfoList s))"
    "h_blk (u_os s') =
           (if pi_status i = USB_PNP_DEVICE_INIT_STATUS \<and> c = USB_PNP_NOTIFY_ADD_DEVICE
            then h_blk (u_os s) else (h_blk (u_os s))(p := None))"
    "h_next (u_os s') = h_next (u_os s)" "h_bad (u_os s') = h_bad (u_os s)"
    "g_usbPnpDeviceList s' = g_usbPnpDeviceList s" "u_idNum s' = u_idNum s"
    "u_devs s' = u_devs s" "u_listLockInit s' = u_listLockInit s"
    "g_usbPnpNotifyRemoveType s' = g_usbPnpNotifyRemoveType s" "g_usbDevice s' = None"
    by simp_all
qed

lemma detach_ok:
  fixes E :: "('m) usb_env_scheme"
  assumes l: "a \<in> snd ` set (g_usbPnpDeviceList s)"
    and f: "UsbPnpNotifyFindInfo (USB_INFO_DEVICE_ADDRESS_TYPE a) s = Some p" and i: "u_infos s p = Some i"
  defines "s' \<equiv> UsbPnpNotifyDetachDevice E a s"
  shows "g_usbPnpDeviceList s' = unlink_dev a (g_usbPnpDeviceList s)"
    and "g_usbPnpInfoList s' = g_usbPnpInfoList s"
    and "u_infos s' = (u_infos s)(p \<mapsto> i\<lparr>pi_status :=
           (if pi_status i \<noteq> USB_PNP_DEVICE_INIT_STATUS then USB_PNP_DEVICE_INIT_STATUS
            else USB_PNP_DEVICE_REMOVE_STATUS)\<rparr>)"
    and "dispatched (u_ev s') = dispatched (u_ev s)"
    and "h_blk (u_os s') = h_blk (u_os s)" and "h_bad (u_os s')"
    and "g_usbPnpNotifyRemoveType s' = USB_PNP_NOTIFY_REMOVE_BUS_DEV_NUM"
    and "g_usbPnpNotifyCmdType s' = USB_PNP_NOTIFY_REMOVE_DEVICE" and "g_usbDevice s' = Some (UsbDev a)"
proof -
  define s1 where "s1 = snd (UsbPnpNotifyFindDeviceList E a True s)"
  have ne: "g_usbPnpDeviceList s \<noteq> []"
    using l by auto
  then have fd: "UsbPnpNotifyFindDeviceList E a True s = (True, s1)"
    using l by (simp add: s1_def UsbPnpNotifyFindDeviceList_def Let_def)
  have s1: "g_usbPnpDeviceList s1 = unlink_dev a (g_usbPnpDeviceList s)"
    "g_usbPnpInfoList s1 = g_usbPnpInfoList s" "u_infos s1 = u_infos s" "u_ev s1 = u_ev s"
    "h_blk (u_os s1) = h_blk (u_os s)" "h_bad (u_os s1)"
    using l ne by (simp_all add: s1_def UsbPnpNotifyFindDeviceList_def Let_def)
  have f1: "UsbPnpNotifyFindInfo (USB_INFO_DEVICE_ADDRESS_TYPE a) s1 = Some p"
    using f s1 by (simp add: UsbPnpNotifyFindInfo_def)
  show "g_usbPnpDeviceList s' = unlink_dev a (g_usbPnpDeviceList s)"
    "g_usbPnpInfoList s' = g_usbPnpInfoList s"
    "u_infos s' = (u_infos s)(p \<mapsto> i\<lparr>pi_status :=
           (if pi_status i \<noteq> USB_PNP_DEVICE_INIT_STATUS then USB_PNP_DEVICE_INIT_STATUS
            else USB_PNP_DEVICE_REMOVE_STATUS)\<rparr>)"
    "dispatched (u_ev s') = dispatched (u_ev s)"
    "h_blk (u_os s') = h_blk (u_os s)" "h_bad (u_os s')"
    "g_usbPnpNotifyRemoveType s' = USB_PNP_NOTIFY_REMOVE_BUS_DEV_NUM"
    "g_usbPnpNotifyCmdType s' = USB_PNP_NOTIFY_REMOVE_DEVICE" "g_usbDevice s' = Some (UsbDev a)"
    using fd f1 i s1 by (simp_all add: s'_def UsbPnpNotifyDetachDevice_def Let_def)
qed

subsection \<open>A state in which a device can be plugged in\<close>

text \<open>The device \<open>a\<close> is known to the USB core, healthy, and neither listed nor described yet.\<close>

definition pluggable :: "('m) usb_env_scheme \<Rightarrow> nat \<Rightarrow> usb_device \<Rightarrow> usb_sys \<Rightarrow> bool" where
  "pluggable E a d s \<longleftrightarrow>
     u_devs s a = Some d \<and> device_ok E d \<and> a \<notin> snd ` set (g_usbPnpDeviceList s) \<and>
     (\<forall>p i. u_infos s p = Some i \<longrightarrow> mt_usbDevAddr (pi_info i) \<noteq> a)"

definition usb_running :: "usb_sys \<Rightarrow> bool" where
  "usb_running s \<longleftrightarrow> usb_inv s \<and> u_idNum s < INT32_MAX \<and> u_listLockInit s"

lemma attach_found:
  assumes E: "usb_env_ok E" and r: "usb_running s" and pl: "pluggable E a d s"
  defines "s1 \<equiv> UsbPnpNotifyAttachDevice E a s"
  shows "usb_inv s1"
    and "UsbPnpNotifyFindInfo (USB_INFO_DEVICE_ADDRESS_TYPE a) s1 = Some (Suc (h_next (u_os s)))"
proof -
  note A = attach_ok [of E s a d, folded s1_def]
  have A3: "u_infos s1 = (u_infos s)(Suc (h_next (u_os s)) \<mapsto> attached_info E a d s)"
    using A(3) E r pl by (simp add: usb_running_def pluggable_def)
  show i: "usb_inv s1"
    unfolding s1_def by (rule AttachDevice_inv) (use r in \<open>auto simp: usb_running_def\<close>)
  show "UsbPnpNotifyFindInfo (USB_INFO_DEVICE_ADDRESS_TYPE a) s1 = Some (Suc (h_next (u_os s)))"
    by (rule FindInfo_unique [OF i, of _ "attached_info E a d s"])
      (use pl in \<open>auto simp: A3 info_matches_def attached_info_def device_table_def pluggable_def split: if_splits\<close>)
qed

lemma fresh_not_listed: "usb_inv s \<Longrightarrow> h_next (u_os s) \<le> p \<Longrightarrow> p \<notin> set (g_usbPnpInfoList s) \<and> u_infos s p = None"
  unfolding usb_inv_def infos_ok_def heap_ok_def by (metis domD domIff subsetD option.distinct(1))

lemma remove1_last: "p \<notin> set ps \<Longrightarrow> remove1 p (ps @ [p]) = ps"
  by (simp add: remove1_append)


text \<open>The facts of an attach, with the premises of \<open>attach_ok\<close> folded.\<close>

lemma attach_facts:
  assumes "usb_env_ok E" and "usb_running s" and "pluggable E a d s"
  defines "s1 \<equiv> UsbPnpNotifyAttachDevice E a s" and "N \<equiv> h_next (u_os s)"
  shows "g_usbPnpDeviceList s1 = g_usbPnpDeviceList s @ [(N, a)]"
    and "g_usbPnpInfoList s1 = g_usbPnpInfoList s @ [Suc N]"
    and "u_infos s1 = (u_infos s)(Suc N \<mapsto> attached_info E a d s)"
    and "u_idNum s1 = u_idNum s + 1" and "u_devs s1 = u_devs s"
    and "dispatched (u_ev s1) = dispatched (u_ev s)"
    and "h_blk (u_os s1) = (h_blk (u_os s))(N \<mapsto> [], Suc N \<mapsto> [], Suc (Suc N) \<mapsto> [])"
    and "h_next (u_os s1) = Suc (Suc (Suc N))" and "h_bad (u_os s1) = h_bad (u_os s)"
    and "u_listLockInit s1" and "g_usbPnpNotifyRemoveType s1 = g_usbPnpNotifyRemoveType s"
    and "g_usbPnpNotifyCmdType s1 = USB_PNP_NOTIFY_ADD_DEVICE" and "g_usbDevice s1 = Some (UsbDev a)"
  using attach_ok [of E s a d] assms by (simp_all add: usb_running_def pluggable_def)

lemma attached_info_simps [simp]:
  "pi_status (attached_info E a d s) = USB_PNP_DEVICE_INIT_STATUS"
  "pi_info (attached_info E a d s) = device_table E a d"
  by (simp_all add: attached_info_def fresh_info_def)

text \<open>
  Under every other command a new information object is created for the event: with the device's
  description for a report request, with an empty one otherwise.
\<close>

lemma HdfSendEvent_create:
  fixes dev :: nat
  assumes E: "usb_env_ok E" and lt: "u_idNum s < INT32_MAX"
    and cmd: "g_usbPnpNotifyCmdType s = c" "\<not> is_interface_cmd c"
      "c \<noteq> USB_PNP_NOTIFY_ADD_DEVICE" "c \<noteq> USB_PNP_NOTIFY_REMOVE_DEVICE"
    and d: "c = USB_PNP_NOTIFY_REPORT_INTERFACE \<Longrightarrow> device_ok E d"
      "c = USB_PNP_NOTIFY_REPORT_INTERFACE \<Longrightarrow> u_devs s a = Some d"
  defines "t \<equiv> (if c = USB_PNP_NOTIFY_REPORT_INTERFACE then device_table E a d else u_zeroTable E)
                 \<lparr>mt_removeType := g_usbPnpNotifyRemoveType s\<rparr>"
    and "N \<equiv> h_next (u_os s)"
  obtains s' where "UsbPnpNotifyHdfSendEvent E (Some dev) (Some (UsbDev a)) s = (HDF_SUCCESS, s')"
    and "dispatched (u_ev s') = dispatched (u_ev s) @ [(c, t)]"
    and "u_infos s' = (u_infos s)(N \<mapsto> (fresh_info E (u_idNum s) (Suc N))
                        \<lparr>pi_status := USB_PNP_DEVICE_ADD_STATUS, pi_info := t\<rparr>)"
    and "g_usbPnpInfoList s' = g_usbPnpInfoList s @ [N]" and "u_idNum s' = u_idNum s + 1"
    and "g_usbPnpDeviceList s' = g_usbPnpDeviceList s" and "u_devs s' = u_devs s"
    and "g_usbPnpNotifyCmdType s' = c" and "g_usbPnpNotifyRemoveType s' = g_usbPnpNotifyRemoveType s"
proof -
  define s1 where "s1 = u_emit (SbufObtain, 1) s"
  have lt1: "u_idNum s1 < INT32_MAX"
    using lt by (simp add: s1_def)
  have s1: "u_os s1 = u_os s"
    by (simp add: s1_def)
  obtain s2 where ci: "UsbPnpNotifyCreateInfo E s1 = (Some N, s2)" and
    s2: "g_usbPnpInfoList s2 = g_usbPnpInfoList s @ [N]"
    "u_infos s2 = (u_infos s)(N \<mapsto> fresh_info E (u_idNum s) (Suc N))"
    "u_idNum s2 = u_idNum s + 1" "g_usbPnpDeviceList s2 = g_usbPnpDeviceList s"
    "u_ev s2 = u_ev s @ [(SbufObtain, 1)]" "u_devs s2 = u_devs s"
    "g_usbPnpNotifyRemoveType s2 = g_usbPnpNotifyRemoveType s" "g_usbPnpNotifyCmdType s2 = c"
    using cmd(1) by (rule_tac CreateInfo_ok [OF E lt1, unfolded s1, folded N_def]) (simp add: s1_def)
  define j where "j = (fresh_info E (u_idNum s) (Suc N))
     \<lparr>pi_info := (u_zeroTable E)\<lparr>mt_removeType := g_usbPnpNotifyRemoveType s\<rparr>\<rparr>"
  define s3 where "s3 = s2\<lparr>u_infos := (u_infos s2)(N \<mapsto> j)\<rparr>"
  have g: "UsbPnpNotifyGetDeviceInfo E (UsbDev a) s1 = (HDF_SUCCESS, Some N, s3)"
    using ci s2 cmd by (simp add: UsbPnpNotifyGetDeviceInfo_def s1_def s3_def j_def fresh_info_def)
  have i3: "u_infos s3 N = Some j" and c3: "g_usbPnpNotifyCmdType s3 = c"
    using s2 by (simp_all add: s3_def)
  define s4 where "s4 = u_emit (SbufWriteBuffer t, 1) (s3\<lparr>u_infos := (u_infos s3)(N \<mapsto> j\<lparr>pi_info := t\<rparr>)\<rparr>)"
  have ini: "UsbPnpNotifyInitInfo E N (UsbDev a) s3 = (HDF_SUCCESS, t, s4)"
  proof (cases "c = USB_PNP_NOTIFY_REPORT_INTERFACE")
    case True
    have "UsbPnpNotifyAddInitInfo E N (UsbDev a) s3 = (HDF_SUCCESS, s3\<lparr>u_infos := (u_infos s3)(N \<mapsto> j\<lparr>pi_info := t\<rparr>)\<rparr>)"
      using AddInitInfo_ok [OF d(1) [OF True] i3, of a] d(2) s2 True
      by (simp add: s3_def j_def t_def)
    then show ?thesis
      using E i3 c3 True
      by (simp add: UsbPnpNotifyInitInfo_def is_interface_cmd_def sbuf_put_def u_call_eq s4_def
          usb_env_ok_def usb_status_def)
  next
    case False
    then have jt: "pi_info j = t"
      by (simp add: j_def t_def)
    then have "j\<lparr>pi_info := t\<rparr> = j"
      by (cases j) simp
    then have "s3\<lparr>u_infos := (u_infos s3)(N \<mapsto> j\<lparr>pi_info := t\<rparr>)\<rparr> = s3"
      using i3 by (metis fun_upd_triv usb_sys.surjective usb_sys.update_convs(5))
    then show ?thesis
      using E i3 c3 False cmd jt
      by (simp add: UsbPnpNotifyInitInfo_def sbuf_put_def u_call_eq s4_def usb_env_ok_def usb_status_def)
  qed
  have i4: "u_infos s4 N = Some (j\<lparr>pi_info := t\<rparr>)" and c4: "g_usbPnpNotifyCmdType s4 = c"
    and st: "pi_status (j\<lparr>pi_info := t\<rparr>) = USB_PNP_DEVICE_INIT_STATUS"
    using c3 by (simp_all add: s4_def j_def fresh_info_def)
  define l where "l = u_lock E (pi_lock j) s4"
  define s5 where "s5 = u_unlock E (pi_lock j)
     ((u_emit (LoaderRecycle, 0) (u_emit (LoaderDispatch c t, 0) (u_emit (LoaderBind, 1) l)))
             \<lparr>u_infos := (u_infos l)(N \<mapsto> j\<lparr>pi_info := t, pi_status := USB_PNP_DEVICE_ADD_STATUS\<rparr>)\<rparr>)"
  have sl: "send_locked E N t s4 = (HDF_SUCCESS, s5)"
    using E i4 c4 st
    by (simp add: send_locked_def UsbPnpNotifySendEventLoader_def u_call_eq Let_def usb_env_ok_def
        usb_status_def s5_def l_def)
  have c5: "g_usbPnpNotifyCmdType s5 = c"
    using c4 by (simp add: s5_def l_def)
  have ev: "UsbPnpNotifyHdfSendEvent E (Some dev) (Some (UsbDev a)) s =
      (HDF_SUCCESS, u_emit (SbufRecycle, 0) s5)"
    using E g ini sl c5 cmd(4)
    by (simp add: UsbPnpNotifyHdfSendEvent_def u_call_eq usb_env_ok_def usb_status_def s1_def [symmetric] Let_def)
  show thesis
    by (rule that [OF ev]) (use s2 c5 in \<open>auto simp: s5_def l_def s4_def s3_def j_def\<close>)
qed

text \<open>A report request describes every device of the list, in order.\<close>

lemma report_all_ok:
  fixes dev :: nat
  assumes "usb_env_ok E" and "u_idNum s + int (length ds) \<le> INT32_MAX"
    and "g_usbPnpNotifyCmdType s = USB_PNP_NOTIFY_REPORT_INTERFACE"
    and "\<forall>a \<in> set ds. \<exists>d. u_devs s a = Some d \<and> device_ok E d"
  shows "dispatched (u_ev (report_all E (Some dev) (ds :: nat list) s)) = dispatched (u_ev s) @
     map (\<lambda>a. (USB_PNP_NOTIFY_REPORT_INTERFACE,
               (device_table E a (the (u_devs s a)))\<lparr>mt_removeType := g_usbPnpNotifyRemoveType s\<rparr>)) ds
    \<and> length (g_usbPnpInfoList (report_all E (Some dev) ds s)) = length (g_usbPnpInfoList s) + length ds"
  using assms
proof (induction ds arbitrary: s)
  case Nil
  then show ?case by simp
next
  case (Cons a ds)
  obtain d where d: "u_devs s a = Some d" "device_ok E d"
    using Cons.prems(4) by auto
  have lt: "u_idNum s < INT32_MAX"
    using Cons.prems(2) by simp
  obtain s1 where h: "UsbPnpNotifyHdfSendEvent E (Some dev) (Some (UsbDev a)) s = (HDF_SUCCESS, s1)" and
    s1: "dispatched (u_ev s1) = dispatched (u_ev s) @ [(USB_PNP_NOTIFY_REPORT_INTERFACE,
           (device_table E a d)\<lparr>mt_removeType := g_usbPnpNotifyRemoveType s\<rparr>)]"
    "g_usbPnpInfoList s1 = g_usbPnpInfoList s @ [h_next (u_os s)]" "u_idNum s1 = u_idNum s + 1"
    "u_devs s1 = u_devs s" "g_usbPnpNotifyCmdType s1 = USB_PNP_NOTIFY_REPORT_INTERFACE"
    "g_usbPnpNotifyRemoveType s1 = g_usbPnpNotifyRemoveType s"
    by (rule HdfSendEvent_create [OF Cons.prems(1) lt Cons.prems(3) _ _ _ d(2) d(1), of dev])
      (simp_all add: is_interface_cmd_def)
  show ?case
    using Cons.IH [of s1] Cons.prems s1 h d by simp
qed

text \<open>
  C17. With the notifier running and no call failing, plugging in a healthy device that is not
  known yet and one turn of the report thread gives the loader service exactly one ADD_DEVICE
  with the table of the device, without undefined behaviour. Pulling it out frees the address of
  a local variable, which is undefined behaviour; if that free has no effect, the next turn of
  the thread gives exactly one REMOVE_DEVICE, the two lists and the information map are as
  before, and two heap blocks per cycle (the device node and the information lock) are never
  given back.
\<close>

theorem usb_plug_cycle:
  fixes dev :: nat
  assumes "usb_env_ok E" and "usb_running s" and "pluggable E a d s"
  defines "report \<equiv> UsbPnpNotifyReportThread E (Some dev)"
  defines "s2 \<equiv> report (UsbPnpNotifyDevice E ''ATTACH'' a s)"
  defines "s3 \<equiv> UsbPnpNotifyDevice E ''DETACH'' a s2"
  defines "s' \<equiv> report s3"
  shows "dispatched (u_ev s2) = dispatched (u_ev s) @
      [(USB_PNP_NOTIFY_ADD_DEVICE, (device_table E a d)\<lparr>mt_removeType := g_usbPnpNotifyRemoveType s\<rparr>)]
    \<and> (h_bad (u_os s2) \<longleftrightarrow> h_bad (u_os s)) \<and> h_bad (u_os s3)
    \<and> dispatched (u_ev s') = dispatched (u_ev s2) @
      [(USB_PNP_NOTIFY_REMOVE_DEVICE, (device_table E a d)\<lparr>mt_removeType := USB_PNP_NOTIFY_REMOVE_BUS_DEV_NUM\<rparr>)]
    \<and> g_usbPnpDeviceList s' = g_usbPnpDeviceList s \<and> g_usbPnpInfoList s' = g_usbPnpInfoList s
    \<and> u_infos s' = u_infos s \<and> g_usbDevice s' = None
    \<and> h_blk (u_os s') = (h_blk (u_os s))(h_next (u_os s) \<mapsto> [], h_next (u_os s) + 2 \<mapsto> [])"
proof -
  define N where "N = h_next (u_os s)"
  define s1 where "s1 = UsbPnpNotifyAttachDevice E a s"
  have s2: "s2 = UsbPnpNotifyReportThread E (Some dev) s1" and s3: "s3 = UsbPnpNotifyDetachDevice E a s2"
    and s': "s' = UsbPnpNotifyReportThread E (Some dev) s3"
    by (simp_all add: s'_def UsbPnpNotifyDevice_def s1_def s2_def s3_def report_def)
  note A = attach_facts [OF assms(1-3), folded s1_def N_def]
  note F1 = attach_found [OF assms(1-3), folded s1_def N_def]
  have i1: "u_infos s1 (Suc N) = Some (attached_info E a d s)"
    by (simp add: A)
  note R = report_ok [OF assms(1) F1 i1 A(13) A(12) disjI1 [OF refl], of dev, folded s2, simplified]
  let ?i2 = "(attached_info E a d s)\<lparr>pi_status := USB_PNP_DEVICE_ADD_STATUS,
    pi_info := (device_table E a d)\<lparr>mt_removeType := g_usbPnpNotifyRemoveType s1\<rparr>\<rparr>"
  have i2: "u_infos s2 (Suc N) = Some ?i2"
    by (simp add: R)
  have inv: "usb_inv s"
    using assms(2) by (simp add: usb_running_def)
  have lt: "u_idNum s1 \<le> INT32_MAX"
    using assms(2) A(4) by (simp add: usb_running_def)
  have "usb_same s1 s2"
    using R(2-8) i1 by (auto simp: usb_same_def attached_info_def)
  then have inv2: "usb_inv s2"
    by (rule usb_inv_same [OF F1(1)])
  have f2: "UsbPnpNotifyFindInfo (USB_INFO_DEVICE_ADDRESS_TYPE a) s2 = Some (Suc N)"
    by (rule FindInfo_unique [OF inv2 i2])
      (use assms(3) in \<open>auto simp: R A info_matches_def device_table_def pluggable_def split: if_splits\<close>)
  have l2: "a \<in> snd ` set (g_usbPnpDeviceList s2)"
    by (simp add: R A)
  note D = detach_ok [OF l2 f2 i2, of E, folded s3, simplified]
  have inv3: "usb_inv s3"
    unfolding s3 by (rule DetachDevice_inv [OF inv2])
  let ?i3 = "?i2\<lparr>pi_status := USB_PNP_DEVICE_INIT_STATUS\<rparr>"
  have i3: "u_infos s3 (Suc N) = Some ?i3"
    by (simp add: D)
  have f3: "UsbPnpNotifyFindInfo (USB_INFO_DEVICE_ADDRESS_TYPE a) s3 = Some (Suc N)"
    by (rule FindInfo_unique [OF inv3 i3])
      (use assms(3) in \<open>auto simp: D R A info_matches_def device_table_def pluggable_def split: if_splits\<close>)
  note R' = report_ok [OF assms(1) inv3 f3 i3 D(9) D(8) disjI2 [OF refl], of dev, folded s', simplified]
  have new: "Suc N \<notin> set (g_usbPnpInfoList s)" "u_infos s (Suc N) = None"
    using fresh_not_listed [OF inv] by (simp_all add: N_def)
  have bl: "h_blk (u_os s) (Suc N) = None"
    using inv by (simp add: usb_inv_def infos_ok_def heap_ok_def N_def)
  have dl: "unlink_dev a (g_usbPnpDeviceList s @ [(N, a)]) = g_usbPnpDeviceList s"
    using assms(3) by (intro unlink_dev_last) (simp add: pluggable_def)
  show ?thesis
    using new bl dl by (auto simp: R' D R A remove1_last fun_eq_iff device_table_def simp flip: N_def)
qed

text \<open>
  A device that is plugged in and out before the report thread runs is not reported at all,
  and its information object is destroyed.
\<close>

theorem usb_quick_unplug:
  fixes dev :: nat
  assumes "usb_env_ok E" and "usb_running s" and "pluggable E a d s"
  defines "s' \<equiv> UsbPnpNotifyReportThread E (Some dev)
                (UsbPnpNotifyDevice E ''DETACH'' a (UsbPnpNotifyDevice E ''ATTACH'' a s))"
  shows "dispatched (u_ev s') = dispatched (u_ev s)
    \<and> g_usbPnpDeviceList s' = g_usbPnpDeviceList s \<and> g_usbPnpInfoList s' = g_usbPnpInfoList s
    \<and> u_infos s' = u_infos s \<and> g_usbDevice s' = None"
proof -
  define N where "N = h_next (u_os s)"
  define s1 where "s1 = UsbPnpNotifyAttachDevice E a s"
  define s3 where "s3 = UsbPnpNotifyDetachDevice E a s1"
  have s': "s' = UsbPnpNotifyReportThread E (Some dev) s3"
    by (simp add: s'_def UsbPnpNotifyDevice_def s1_def s3_def)
  note A = attach_facts [OF assms(1-3), folded s1_def N_def]
  note F1 = attach_found [OF assms(1-3), folded s1_def N_def]
  have i1: "u_infos s1 (Suc N) = Some (attached_info E a d s)" and l1: "a \<in> snd ` set (g_usbPnpDeviceList s1)"
    by (simp_all add: A)
  note D = detach_ok [OF l1 F1(2) i1, of E, folded s3_def, simplified]
  have inv3: "usb_inv s3"
    unfolding s3_def by (rule DetachDevice_inv [OF F1(1)])
  have i3: "u_infos s3 (Suc N) = Some ((attached_info E a d s)\<lparr>pi_status := USB_PNP_DEVICE_REMOVE_STATUS\<rparr>)"
    by (simp add: D)
  have f3: "UsbPnpNotifyFindInfo (USB_INFO_DEVICE_ADDRESS_TYPE a) s3 = Some (Suc N)"
    by (rule FindInfo_unique [OF inv3 i3])
      (use assms(3) in \<open>auto simp: D A info_matches_def device_table_def pluggable_def split: if_splits\<close>)
  note R = report_ok [OF assms(1) inv3 f3 i3 D(9) D(8) disjI2 [OF refl], of dev, folded s', simplified]
  have inv: "usb_inv s"
    using assms(2) by (simp add: usb_running_def)
  have new: "Suc N \<notin> set (g_usbPnpInfoList s)" "u_infos s (Suc N) = None"
    using fresh_not_listed [OF inv] by (simp_all add: N_def)
  have dl: "unlink_dev a (g_usbPnpDeviceList s @ [(N, a)]) = g_usbPnpDeviceList s"
    using assms(3) by (intro unlink_dev_last) (simp add: pluggable_def)
  show ?thesis
    using new dl by (auto simp: R D A remove1_last fun_eq_iff)
qed

text \<open>
  Two devices attached before the report thread runs: only the second one is ever reported,
  the mailbox is empty afterwards and the first one stays listed with its event undelivered.
\<close>

theorem usb_attach_lost:
  fixes dev :: nat
  assumes "usb_env_ok E" and "usb_running s" and "u_idNum s + 1 < INT32_MAX" and "a \<noteq> b"
    and "pluggable E a da s" and "pluggable E b db s"
  defines "s' \<equiv> UsbPnpNotifyReportThread E (Some dev)
                (UsbPnpNotifyDevice E ''ATTACH'' b (UsbPnpNotifyDevice E ''ATTACH'' a s))"
  shows "dispatched (u_ev s') = dispatched (u_ev s) @
      [(USB_PNP_NOTIFY_ADD_DEVICE, (device_table E b db)\<lparr>mt_removeType := g_usbPnpNotifyRemoveType s\<rparr>)]
    \<and> g_usbDevice s' = None \<and> a \<in> snd ` set (g_usbPnpDeviceList s')
    \<and> (\<exists>p i. u_infos s' p = Some i \<and> mt_usbDevAddr (pi_info i) = a \<and> pi_status i = USB_PNP_DEVICE_INIT_STATUS)"
proof -
  define N where "N = h_next (u_os s)"
  define s1 where "s1 = UsbPnpNotifyAttachDevice E a s"
  define s2 where "s2 = UsbPnpNotifyAttachDevice E b s1"
  have s': "s' = UsbPnpNotifyReportThread E (Some dev) s2"
    by (simp add: s'_def UsbPnpNotifyDevice_def s1_def s2_def)
  note A = attach_facts [OF assms(1,2,5), folded s1_def N_def]
  note F1 = attach_found [OF assms(1,2,5), folded s1_def N_def]
  have r1: "usb_running s1"
    using F1 A assms(3) by (simp add: usb_running_def)
  have p1: "pluggable E b db s1"
    using assms(4,6) by (auto simp: pluggable_def A device_table_def)
  note B = attach_facts [OF assms(1) r1 p1, folded s2_def]
  note F2 = attach_found [OF assms(1) r1 p1, folded s2_def]
  have i2: "u_infos s2 (Suc (h_next (u_os s1))) = Some (attached_info E b db s1)"
    by (simp add: B)
  note R = report_ok [OF assms(1) F2 i2 B(13) B(12) disjI1 [OF refl], of dev, folded s', simplified]
  have "u_infos s' (Suc N) = Some (attached_info E a da s)"
    by (simp add: R B A)
  moreover have "mt_usbDevAddr (device_table E a da) = a"
    by (simp add: device_table_def)
  ultimately show ?thesis
    using attached_info_simps by (fastforce simp: R B A)
qed

text \<open>
  A client request with an unsupported command between an attach and the report thread
  replaces the command: the loader gets that unknown command with an empty table instead of
  ADD_DEVICE, and a second information object appears.
\<close>

theorem usb_request_overwrites:
  fixes dev :: nat and n :: int and client :: "nat option" and data :: "usb_sbuf option"
  assumes "usb_env_ok E" and "usb_running s" and "u_idNum s + 1 < INT32_MAX" and "pluggable E a d s"
  defines "s' \<equiv> UsbPnpNotifyReportThread E (Some dev)
                (snd (UsbPnpNotifyDispatch E (Some client) (USB_PNP_OTHER_CMD n) data True
                   (UsbPnpNotifyDevice E ''ATTACH'' a s)))"
  shows "dispatched (u_ev s') = dispatched (u_ev s) @
      [(USB_PNP_OTHER_CMD n, (u_zeroTable E)\<lparr>mt_removeType := g_usbPnpNotifyRemoveType s\<rparr>)]
    \<and> g_usbDevice s' = None \<and> length (g_usbPnpInfoList s') = length (g_usbPnpInfoList s) + 2"
proof -
  define N where "N = h_next (u_os s)"
  define s1 where "s1 = UsbPnpNotifyAttachDevice E a s"
  define s2 where "s2 = snd (UsbPnpNotifyDispatch E (Some client) (USB_PNP_OTHER_CMD n) data True s1)"
  have s': "s' = UsbPnpNotifyReportThread E (Some dev) s2"
    by (simp add: s'_def UsbPnpNotifyDevice_def s1_def s2_def)
  note A = attach_facts [OF assms(1,2,4), folded s1_def N_def]
  have S: "g_usbPnpNotifyCmdType s2 = USB_PNP_OTHER_CMD n" "u_idNum s2 = u_idNum s1"
    "dispatched (u_ev s2) = dispatched (u_ev s1)" "g_usbDevice s2 = g_usbDevice s1"
    "g_usbPnpNotifyRemoveType s2 = g_usbPnpNotifyRemoveType s1"
    "g_usbPnpInfoList s2 = g_usbPnpInfoList s1"
    by (simp_all add: s2_def UsbPnpNotifyDispatch_def u_call_eq Let_def)
  define l where "l = u_lock E (u_sendLock s2) s2"
  have lt: "u_idNum l < INT32_MAX" and cl: "g_usbPnpNotifyCmdType l = USB_PNP_OTHER_CMD n"
    and bl: "g_usbDevice l = Some (UsbDev a)"
    using S A assms(3) by (simp_all add: l_def)
  obtain s3 where h: "UsbPnpNotifyHdfSendEvent E (Some dev) (Some (UsbDev a)) l = (HDF_SUCCESS, s3)" and
    s3: "dispatched (u_ev s3) = dispatched (u_ev l) @
       [(USB_PNP_OTHER_CMD n, (u_zeroTable E)\<lparr>mt_removeType := g_usbPnpNotifyRemoveType l\<rparr>)]"
      "g_usbPnpInfoList s3 = g_usbPnpInfoList l @ [h_next (u_os l)]"
    by (rule HdfSendEvent_create [OF assms(1) lt cl, of d a dev]) (simp_all add: is_interface_cmd_def)
  have "s' = u_emit (MSleep USB_PNP_NOTIFY_MSLEEP_TIME, 0)
           (u_unlock E (u_sendLock s2) (s3\<lparr>g_usbDevice := None\<rparr>))"
    using h cl bl by (simp add: s' UsbPnpNotifyReportThread_def Let_def is_interface_cmd_def flip: l_def)
  then show ?thesis
    using s3 S A by (simp add: l_def)
qed

text \<open>
  A report request makes the notifier dispatch the table of every listed device, in list
  order, and leaves one more information object per device in the list, also for devices that
  had one already.
\<close>

theorem usb_report_request:
  fixes dev :: nat and data :: "usb_sbuf option"
  assumes "usb_env_ok E"
    and "u_idNum s + int (length (g_usbPnpDeviceList s)) \<le> INT32_MAX"
    and "\<forall>a \<in> snd ` set (g_usbPnpDeviceList s). \<exists>d. u_devs s a = Some d \<and> device_ok E d"
  defines "s' \<equiv> snd (UsbPnpNotifyDispatch E (Some (Some dev)) USB_PNP_NOTIFY_REPORT_INTERFACE data True s)"
  shows "dispatched (u_ev s') = dispatched (u_ev s) @
      map (\<lambda>a. (USB_PNP_NOTIFY_REPORT_INTERFACE,
                (device_table E a (the (u_devs s a)))\<lparr>mt_removeType := g_usbPnpNotifyRemoveType s\<rparr>))
        (map snd (g_usbPnpDeviceList s))
    \<and> length (g_usbPnpInfoList s') = length (g_usbPnpInfoList s) + length (g_usbPnpDeviceList s)"
proof -
  let ?ds = "map snd (g_usbPnpDeviceList s)"
  let ?c = "(u_lock E (u_sendLock s) s)\<lparr>g_usbPnpNotifyCmdType := USB_PNP_NOTIFY_REPORT_INTERFACE\<rparr>"
  let ?l = "u_lock E (u_listLock s) ?c"
  have "dispatched (u_ev (report_all E (Some dev) ?ds ?l)) = dispatched (u_ev ?l) @
     map (\<lambda>a. (USB_PNP_NOTIFY_REPORT_INTERFACE,
               (device_table E a (the (u_devs ?l a)))\<lparr>mt_removeType := g_usbPnpNotifyRemoveType ?l\<rparr>)) ?ds
    \<and> length (g_usbPnpInfoList (report_all E (Some dev) ?ds ?l)) = length (g_usbPnpInfoList ?l) + length ?ds"
    by (rule report_all_ok [OF assms(1)]) (use assms(2,3) in auto)
  then show ?thesis
    by (simp add: s'_def UsbPnpNotifyDispatch_def UsbPnpNotifyFirstReportDevice_def u_call_eq Let_def)
qed

text \<open>
  UsbPnpNotifyAddInitInfo does not compare the announced number of interfaces with its
  table: a device with more interfaces than USB_PNP_INFO_MAX_INTERFACES makes it write past the
  table while it returns HDF_SUCCESS.
\<close>

theorem usb_interface_overflow:
  assumes "u_infos s p = Some i" and "u_devs s a = Some d" and "ud_bNumInterface d = Some n"
    and "USB_PNP_INFO_MAX_INTERFACES E < unat n" and "unat n \<le> length (ud_ifaces d)"
    and "None \<notin> set (take (unat n) (ud_ifaces d))"
  shows "fst (UsbPnpNotifyAddInitInfo E p (UsbDev a) s) = HDF_SUCCESS
    \<and> h_bad (u_os (snd (UsbPnpNotifyAddInitInfo E p (UsbDev a) s)))"
proof -
  obtain acc where "fill_ifaces (USB_PNP_INFO_MAX_INTERFACES E) (ud_ifaces d) 0 (unat n)
      (mt_interfaceInfo (pi_info i)) = (HDF_SUCCESS, True, acc)"
    using fill_ifaces_overflow [of "USB_PNP_INFO_MAX_INTERFACES E" 0 "unat n" "ud_ifaces d"] assms(4-6) by auto
  then show ?thesis
    using assms(1-3) by (simp add: UsbPnpNotifyAddInitInfo_def Let_def)
qed

text \<open>
  Detaching a listed device unlinks its node but frees the address of a local variable
  instead of the node, which stays allocated.
\<close>

theorem usb_detach_leaks_node:
  fixes E :: "('m) usb_env_scheme"
  assumes "usb_inv s" and "(n, a) \<in> set (g_usbPnpDeviceList s)" and "h_blk (u_os s) n = Some bs"
    and "UsbPnpNotifyFindInfo (USB_INFO_DEVICE_ADDRESS_TYPE a) s = Some p"
  defines "s' \<equiv> UsbPnpNotifyDevice E ''DETACH'' a s"
  shows "a \<notin> snd ` set (g_usbPnpDeviceList s') \<and> h_blk (u_os s') n = Some bs \<and> h_bad (u_os s')"
proof -
  have l: "a \<in> snd ` set (g_usbPnpDeviceList s)"
    using assms(2) by force
  obtain i where i: "u_infos s p = Some i"
    using FindInfo_SomeD [OF assms(4)] by auto
  note D = detach_ok [OF l assms(4) i, of E]
  have gone: "distinct (map snd ns) \<Longrightarrow> a \<notin> snd ` set (unlink_dev a ns)" for ns
    by (induction ns) auto
  have "s' = UsbPnpNotifyDetachDevice E a s"
    by (simp add: s'_def UsbPnpNotifyDevice_def)
  then show ?thesis
    using D gone assms(1,3) by (simp add: usb_inv_def)
qed

text \<open>
  C18. Along every run of attach and detach interrupts, report-thread turns and client requests,
  whatever fails, as long as the identifier counter does not wrap: the listed information
  objects are exactly the live ones, distinct, backed by heap blocks and with distinct
  identifiers, and no device is listed twice.
\<close>

theorem usb_lists_invariant:
  assumes "usb_inv s" and "rtranclp (\<lambda>x y. usb_step E dev x y \<and> ids_left x) s s'"
  shows "usb_inv s'"
  using assms(2,1)
proof (induction rule: rtranclp_induct)
  case base
  then show ?case .
next
  case (step x y)
  then have inv: "usb_inv x" and st: "usb_step E dev x y" and ids: "ids_left x"
    by auto
  have lt: "u_idNum x < INT32_MAX"
    using ids by (simp add: ids_left_def)
  show ?case
  proof (cases rule: usb_step_cases [OF st])
    case (1 type udev)
    then show ?thesis
      using inv AttachDevice_inv [OF inv lt, of E udev] DetachDevice_inv [OF inv, of E udev]
      by (simp add: UsbPnpNotifyDevice_def)
  next
    case 2
    then show ?thesis using ReportThread_inv [OF inv lt, of E dev] by simp
  next
    case (3 client cmd data reply)
    then show ?thesis using Dispatch_inv [OF inv ids, of E client cmd data reply] by simp
  qed
qed

subsection \<open>A concrete bus\<close>

text \<open>Two devices with one interface each; the notifier has been initialised and its list lock exists.\<close>

definition usb_demo_if :: UsbPnpNotifyInterfaceInfo where
  "usb_demo_if = \<lparr>if_class = 8, if_subClass = 6, if_protocol = 80, if_number = 0\<rparr>"

definition usb_demo_dev :: usb_device where
  "usb_demo_dev = \<lparr>ud_address = 1, ud_port_no = 2, ud_idVendor = 100, ud_idProduct = 200,
     ud_bcdDevice = 1, ud_bDeviceClass = 0, ud_bDeviceSubClass = 0, ud_bDeviceProtocol = 0,
     ud_bNumInterface = Some 1, ud_ifaces = [Some usb_demo_if]\<rparr>"

definition usb_demo_table :: UsbPnpNotifyMatchInfoTable where
  "usb_demo_table = \<lparr>mt_usbDevAddr = 0, mt_devNum = 0, mt_busNum = 0,
     mt_deviceInfo = \<lparr>di_vendorId = 0, di_productId = 0, di_bcdDeviceLow = 0, di_bcdDeviceHigh = 0,
       di_class = 0, di_subClass = 0, di_protocol = 0\<rparr>,
     mt_removeType = USB_PNP_NOTIFY_REMOVE_BUS_DEV_NUM, mt_numInfos = 0,
     mt_interfaceInfo = [usb_demo_if, usb_demo_if]\<rparr>"


definition usb_demo_env :: usb_env where
  "usb_demo_env = osal_env.extend (osal_demo_env\<lparr>los := \<lambda>_ _. 0\<rparr>)
     \<lparr>u_api = (\<lambda>_. usb_status), USB_PNP_INFO_MAX_INTERFACES = 2, UICLASS_HUB = 9,
      u_zeroTable = usb_demo_table, report_entry = 1\<rparr>"

definition usb_demo :: usb_sys where
  "usb_demo =
     \<lparr>u_os = osal_demo\<lparr>h_next := 10\<rparr>, u_ev = [], g_usbPnpDeviceList = [], g_usbPnpInfoList = [],
      u_infos = Map.empty, u_devs = [20 \<mapsto> usb_demo_dev, 21 \<mapsto> usb_demo_dev], u_idNum = 1,
      u_infoTable = usb_demo_table, g_usbPnpNotifyCmdType = USB_PNP_NOTIFY_ADD_INTERFACE,
      g_usbPnpNotifyRemoveType = USB_PNP_NOTIFY_REMOVE_BUS_DEV_NUM, g_usbDevice = None,
      g_usbPnpInfo = \<lparr>ar_devNum = 0, ar_busNum = 0, ar_interface = usb_demo_if\<rparr>,
      g_usbPnpThreadRunningFlag = True, g_usbPnpNotifyReportThread = \<lparr>realThread = None\<rparr>,
      u_sendLock = \<lparr>realMutex = Some 2\<rparr>, u_listLock = \<lparr>realMutex = Some 3\<rparr>,
      u_listLockInit = True, u_firstInitFlag = False, u_service = True\<rparr>"

lemma usb_demo_env: "usb_env_ok usb_demo_env"
  by (simp add: usb_env_ok_def usb_demo_env_def osal_demo_env_def osal_env.defs)

lemma usb_demo_pluggable:
  "pluggable usb_demo_env 20 usb_demo_dev usb_demo" "pluggable usb_demo_env 21 usb_demo_dev usb_demo"
  by (simp_all add: pluggable_def device_ok_def usb_demo_def usb_demo_dev_def usb_demo_env_def
      osal_env.defs usb_demo_table_def)

lemma usb_demo_running: "usb_running usb_demo" "u_idNum usb_demo = 1" "u_ev usb_demo = []"
  "g_usbPnpNotifyRemoveType usb_demo = USB_PNP_NOTIFY_REMOVE_BUS_DEV_NUM"
  "g_usbPnpDeviceList usb_demo = []" "u_infos usb_demo = Map.empty"
  by (simp_all add: usb_running_def usb_inv_def infos_ok_def heap_ok_def usb_demo_def osal_demo_def INT32_MAX_def)

theorem usb_plug_cycle_witness:
  "map fst (dispatched (u_ev (UsbPnpNotifyReportThread usb_demo_env (Some 0)
      (UsbPnpNotifyDevice usb_demo_env ''DETACH'' 20 (UsbPnpNotifyReportThread usb_demo_env (Some 0)
        (UsbPnpNotifyDevice usb_demo_env ''ATTACH'' 20 usb_demo))))))
   = [USB_PNP_NOTIFY_ADD_DEVICE, USB_PNP_NOTIFY_REMOVE_DEVICE]"
  using usb_plug_cycle [OF usb_demo_env usb_demo_running(1) usb_demo_pluggable(1), of 0]
  by (simp add: usb_demo_running)

theorem usb_quick_unplug_witness:
  "dispatched (u_ev (UsbPnpNotifyReportThread usb_demo_env (Some 0)
      (UsbPnpNotifyDevice usb_demo_env ''DETACH'' 20
        (UsbPnpNotifyDevice usb_demo_env ''ATTACH'' 20 usb_demo)))) = []"
  using usb_quick_unplug [OF usb_demo_env usb_demo_running(1) usb_demo_pluggable(1), of 0]
  by (simp add: usb_demo_running)

theorem usb_attach_lost_witness:
  "map fst (dispatched (u_ev (UsbPnpNotifyReportThread usb_demo_env (Some 0)
      (UsbPnpNotifyDevice usb_demo_env ''ATTACH'' 21
        (UsbPnpNotifyDevice usb_demo_env ''ATTACH'' 20 usb_demo))))) = [USB_PNP_NOTIFY_ADD_DEVICE]"
  using usb_attach_lost [OF usb_demo_env usb_demo_running(1) _ _ usb_demo_pluggable, of 0]
  by (simp add: usb_demo_running INT32_MAX_def)

theorem usb_request_overwrites_witness:
  "map fst (dispatched (u_ev (UsbPnpNotifyReportThread usb_demo_env (Some 0)
      (snd (UsbPnpNotifyDispatch usb_demo_env (Some None) (USB_PNP_OTHER_CMD 99) None True
        (UsbPnpNotifyDevice usb_demo_env ''ATTACH'' 20 usb_demo)))))) = [USB_PNP_OTHER_CMD 99]"
  using usb_request_overwrites [OF usb_demo_env usb_demo_running(1) _ usb_demo_pluggable(1), of 0 None 99 None]
  by (simp add: usb_demo_running INT32_MAX_def)

lemma usb_demo_attached:
  "g_usbPnpDeviceList (UsbPnpNotifyAttachDevice usb_demo_env 20 usb_demo) = [(10, 20)]"
  "u_devs (UsbPnpNotifyAttachDevice usb_demo_env 20 usb_demo) 20 = Some usb_demo_dev"
  "u_idNum (UsbPnpNotifyAttachDevice usb_demo_env 20 usb_demo) = 2"
  "dispatched (u_ev (UsbPnpNotifyAttachDevice usb_demo_env 20 usb_demo)) = []"
  "h_blk (u_os (UsbPnpNotifyAttachDevice usb_demo_env 20 usb_demo)) 10 = Some []"
  "usb_inv (UsbPnpNotifyAttachDevice usb_demo_env 20 usb_demo)"
  "UsbPnpNotifyFindInfo (USB_INFO_DEVICE_ADDRESS_TYPE 20)
     (UsbPnpNotifyAttachDevice usb_demo_env 20 usb_demo) = Some (Suc 10)"
  using attach_facts [OF usb_demo_env usb_demo_running(1) usb_demo_pluggable(1)]
    attach_found [OF usb_demo_env usb_demo_running(1) usb_demo_pluggable(1)] usb_demo_pluggable(1)
  by (simp_all add: usb_demo_running pluggable_def) (simp_all add: usb_demo_def)

theorem usb_report_request_witness:
  "map fst (dispatched (u_ev (snd (UsbPnpNotifyDispatch usb_demo_env (Some (Some 0))
      USB_PNP_NOTIFY_REPORT_INTERFACE None True (UsbPnpNotifyAttachDevice usb_demo_env 20 usb_demo)))))
   = [USB_PNP_NOTIFY_REPORT_INTERFACE]"
  using usb_report_request [OF usb_demo_env, of "UsbPnpNotifyAttachDevice usb_demo_env 20 usb_demo" 0 None]
    usb_demo_pluggable(1)
  by (simp add: usb_demo_attached INT32_MAX_def pluggable_def)

theorem usb_detach_leaks_node_witness:
  "h_blk (u_os (UsbPnpNotifyDevice usb_demo_env ''DETACH'' 20
      (UsbPnpNotifyAttachDevice usb_demo_env 20 usb_demo))) 10 = Some []"
  using usb_detach_leaks_node [of "UsbPnpNotifyAttachDevice usb_demo_env 20 usb_demo" 10 20 "[]" "Suc 10" usb_demo_env]
  by (simp only: usb_demo_attached) simp

definition usb_demo_wide :: usb_device where
  "usb_demo_wide = usb_demo_dev\<lparr>ud_bNumInterface := Some 3, ud_ifaces := replicate 3 (Some usb_demo_if)\<rparr>"

definition usb_demo_seen :: usb_sys where
  "usb_demo_seen = usb_demo\<lparr>u_infos := [11 \<mapsto> fresh_info usb_demo_env 1 12], u_devs := [22 \<mapsto> usb_demo_wide]\<rparr>"

lemma usb_demo_seen:
  "u_infos usb_demo_seen 11 = Some (fresh_info usb_demo_env 1 12)"
  "u_devs usb_demo_seen 22 = Some usb_demo_wide" "ud_bNumInterface usb_demo_wide = Some 3"
  "USB_PNP_INFO_MAX_INTERFACES usb_demo_env < unat (3 :: u8)"
  "unat (3 :: u8) \<le> length (ud_ifaces usb_demo_wide)"
  "None \<notin> set (take (unat (3 :: u8)) (ud_ifaces usb_demo_wide))"
  by (simp_all add: usb_demo_seen_def usb_demo_wide_def usb_demo_env_def osal_env.defs)

theorem usb_interface_overflow_witness:
  "h_bad (u_os (snd (UsbPnpNotifyAddInitInfo usb_demo_env 11 (UsbDev 22) usb_demo_seen)))"
  by (rule usb_interface_overflow [OF usb_demo_seen, THEN conjunct2])

theorem usb_lists_invariant_witness:
  "usb_inv (UsbPnpNotifyDevice usb_demo_env ''ATTACH'' 20 usb_demo)"
proof (rule usb_lists_invariant [of usb_demo usb_demo_env "Some 0"])
  show "usb_inv usb_demo"
    using usb_demo_running(1) by (simp add: usb_running_def)
  show "rtranclp (\<lambda>x y. usb_step usb_demo_env (Some 0) x y \<and> ids_left x) usb_demo
      (UsbPnpNotifyDevice usb_demo_env ''ATTACH'' 20 usb_demo)"
    by (rule r_into_rtranclp) (auto intro: usb_step.intros simp: ids_left_def usb_demo_running INT32_MAX_def)
qed

end
