(* ===== verification/Dev_Manager.thy ===== *)
theory Dev_Manager
  imports Prelude
begin

text \<open>
  The user-space device manager's reaction to the death of a device host,
  \<open>uhdf2/manager/src/devmgr_service_full.c\<close>: clean up what the host held, count its deaths under
  its name in \<open>g_hostMap\<close>, and respawn it through the driver installer until it has died too often.

  The framework's host list, map, message looper and driver installer are outside the repository.
  The map is a partial function from host names to death counters (\<open>MapInit\<close> on an empty map
  changes nothing); \<open>map_set_ok\<close> says whether \<open>MapSet\<close> finds memory for a new entry. \<open>dm_api\<close> gives
  the result of \<open>StartDeviceHost\<close>, a process identifier, from the calls made before.
\<close>

record DevHostServiceClnt =
  hc_hostId :: u32
  hc_hostName :: string
  hc_hostPid :: int
  hc_hostService :: "nat option"
  hc_devices :: "nat list"
  hc_unloadDevInfos :: "nat list"
  hc_stopFlag :: bool

datatype dm_ev =
    DmLock | DmUnlock | ProxyRecycle nat | TokenDelete nat | StartDeviceHost u32 string bool
  | LooperConstruct | ServiceConstruct | TaskConstruct

type_synonym dm_trace = "(dm_ev \<times> int) list"

record dm_sys =
  dm_tr :: dm_trace
  g_hostMap :: "string \<Rightarrow> int option"
  dm_hosts :: "DevHostServiceClnt list"
  dm_created :: bool

record dm_env =
  dm_api :: "dm_trace \<Rightarrow> dm_ev \<Rightarrow> int"
  map_set_ok :: "dm_trace \<Rightarrow> bool"
  installer_ok :: bool

datatype dm_msg = DEVMGR_MESSAGE_DEVHOST_DIED u32 | DM_OTHER_MESSAGE u32

definition INVALID_PID :: int where "INVALID_PID = -1"
definition HOST_INIT_DIE_NUM :: int where "HOST_INIT_DIE_NUM = 1"
definition HOST_MAX_DIE_NUM :: int where "HOST_MAX_DIE_NUM = 3"

definition dm_emit :: "dm_ev \<times> int \<Rightarrow> dm_sys \<Rightarrow> dm_sys" where
  "dm_emit e s = s\<lparr>dm_tr := dm_tr s @ [e]\<rparr>"

definition CleanupDiedHostResources ::
  "DevHostServiceClnt \<Rightarrow> dm_sys \<Rightarrow> DevHostServiceClnt \<times> dm_sys" where
  "CleanupDiedHostResources h s =
     (let s1 = (case hc_hostService h of None \<Rightarrow> s | Some p \<Rightarrow> dm_emit (ProxyRecycle p, 0) s)
      in (h\<lparr>hc_hostPid := INVALID_PID, hc_hostService := None, hc_devices := []\<rparr>,
          s1\<lparr>dm_tr := dm_tr s1 @ map (\<lambda>d. (TokenDelete d, 0)) (hc_devices h)\<rparr>))"

text \<open>\<open>installer->StartDeviceHost\<close>, the last step of the handler.\<close>

definition respawn :: "dm_env \<Rightarrow> DevHostServiceClnt \<Rightarrow> dm_sys \<Rightarrow> int \<times> DevHostServiceClnt \<times> dm_sys" where
  "respawn E h s =
     (if installer_ok E then
        (let c = StartDeviceHost (hc_hostId h) (hc_hostName h) True; pid = dm_api E (dm_tr s) c
         in (pid, h\<lparr>hc_hostPid := pid\<rparr>, dm_emit (c, pid) s))
      else (INVALID_PID, h, s))"

definition DevmgrServiceFullHandleDeviceHostDied ::
  "dm_env \<Rightarrow> DevHostServiceClnt \<Rightarrow> dm_sys \<Rightarrow> int \<times> DevHostServiceClnt \<times> dm_sys" where
  "DevmgrServiceFullHandleDeviceHostDied E hostClnt s =
     (case CleanupDiedHostResources hostClnt s of (h, s1) \<Rightarrow>
        if hc_devices hostClnt = [] \<or> hc_stopFlag h then (0, h, s1)
        else if hc_unloadDevInfos h \<noteq> [] then (0, h, s1)
        else
          (case g_hostMap s1 (hc_hostName h) of
             None \<Rightarrow>
               respawn E h
                 (if map_set_ok E (dm_tr s1)
                  then s1\<lparr>g_hostMap := (g_hostMap s1)(hc_hostName h \<mapsto> HOST_INIT_DIE_NUM)\<rparr> else s1)
           | Some v \<Rightarrow>
               if v > HOST_MAX_DIE_NUM
               then (INVALID_PID, h\<lparr>hc_stopFlag := False\<rparr>,
                     s1\<lparr>g_hostMap := (g_hostMap s1)(hc_hostName h \<mapsto> 0)\<rparr>)
               else respawn E h (s1\<lparr>g_hostMap := (g_hostMap s1)(hc_hostName h \<mapsto> v + 1)\<rparr>)))"

text \<open>The search of the host list: the first host with the identifier is handled.\<close>

fun handle_first ::
  "dm_env \<Rightarrow> u32 \<Rightarrow> DevHostServiceClnt list \<Rightarrow> dm_sys \<Rightarrow> DevHostServiceClnt list \<times> dm_sys" where
  "handle_first E hostId [] s = ([], s)"
| "handle_first E hostId (h # hs) s =
     (if hc_hostId h = hostId
      then (case DevmgrServiceFullHandleDeviceHostDied E h s of (_, h', s') \<Rightarrow> (h' # hs, s'))
      else (case handle_first E hostId hs s of (hs', s') \<Rightarrow> (h # hs', s')))"

definition DevmgrServiceFullOnDeviceHostDied :: "dm_env \<Rightarrow> bool \<Rightarrow> u32 \<Rightarrow> dm_sys \<Rightarrow> dm_sys" where
  "DevmgrServiceFullOnDeviceHostDied E inst hostId s =
     (if \<not> inst then s
      else
        (case handle_first E hostId (dm_hosts s) (dm_emit (DmLock, 0) s) of (hs, s1) \<Rightarrow>
           dm_emit (DmUnlock, 0) (s1\<lparr>dm_hosts := hs\<rparr>)))"

definition DevmgrServiceFullDispatchMessage :: "dm_env \<Rightarrow> dm_msg option \<Rightarrow> dm_sys \<Rightarrow> ret \<times> dm_sys" where
  "DevmgrServiceFullDispatchMessage E msg s =
     (case msg of
        None \<Rightarrow> (HDF_ERR_INVALID_PARAM, s)
      | Some (DEVMGR_MESSAGE_DEVHOST_DIED hostId) \<Rightarrow>
          (HDF_SUCCESS, DevmgrServiceFullOnDeviceHostDied E (dm_created s) hostId s)
      | Some (DM_OTHER_MESSAGE _) \<Rightarrow> (HDF_SUCCESS, s))"

definition DevmgrServiceFullGetMessageTask :: "dm_sys \<Rightarrow> bool" where
  "DevmgrServiceFullGetMessageTask s = dm_created s"

definition DevmgrServiceFullConstruct :: "bool \<Rightarrow> dm_sys \<Rightarrow> dm_sys" where
  "DevmgrServiceFullConstruct inst s =
     (if inst then dm_emit (TaskConstruct, 0) (dm_emit (ServiceConstruct, 0) (dm_emit (LooperConstruct, 0) s))
      else s)"

definition DevmgrServiceFullCreate :: "dm_sys \<Rightarrow> dm_sys" where
  "DevmgrServiceFullCreate s =
     (if dm_created s then s else (DevmgrServiceFullConstruct True s)\<lparr>dm_created := True\<rparr>)"

definition DeviceManagerIsQuickLoad :: bool where "DeviceManagerIsQuickLoad = False"

subsection \<open>The restart budget\<close>

text \<open>
  A life of a host: what the framework has entered for it when it dies, that is the tokens of the
  devices it has registered, the devices it would load on demand and whether it is being stopped.
\<close>

type_synonym life = "nat list \<times> nat list \<times> bool"

fun live_as :: "u32 \<Rightarrow> life \<Rightarrow> DevHostServiceClnt \<Rightarrow> DevHostServiceClnt" where
  "live_as i (ds, us, stop) h =
     (if hc_hostId h = i then h\<lparr>hc_devices := ds, hc_unloadDevInfos := us, hc_stopFlag := stop\<rparr> else h)"

definition host_life :: "dm_env \<Rightarrow> u32 \<Rightarrow> life \<Rightarrow> dm_sys \<Rightarrow> dm_sys" where
  "host_life E i l s =
     snd (DevmgrServiceFullDispatchMessage E (Some (DEVMGR_MESSAGE_DEVHOST_DIED i))
       (s\<lparr>dm_hosts := map (live_as i l) (dm_hosts s)\<rparr>))"

text \<open>A death that is counted: of a host with devices, none of them on demand, that is not being stopped.\<close>

fun counted :: "life \<Rightarrow> bool" where
  "counted (ds, us, stop) \<longleftrightarrow> ds \<noteq> [] \<and> us = [] \<and> \<not> stop"

definition starts :: "u32 \<Rightarrow> dm_trace \<Rightarrow> nat" where
  "starts i tr = length (filter (\<lambda>(c, _). case c of StartDeviceHost j _ _ \<Rightarrow> j = i | _ \<Rightarrow> False) tr)"

lemma starts_simps [simp]:
  "starts i [] = 0" "starts i (xs @ ys) = starts i xs + starts i ys"
  "starts i ((StartDeviceHost j n b, r) # xs) = (if j = i then Suc (starts i xs) else starts i xs)"
  "starts i ((DmLock, r) # xs) = starts i xs" "starts i ((DmUnlock, r) # xs) = starts i xs"
  "starts i ((ProxyRecycle p, r) # xs) = starts i xs"
  "starts i (map (\<lambda>d. (TokenDelete d, 0)) ds) = 0"
  by (simp_all add: starts_def)

text \<open>A host \<open>i\<close> with its name, the only one with this identifier.\<close>

definition host_ok :: "u32 \<Rightarrow> string \<Rightarrow> dm_sys \<Rightarrow> bool" where
  "host_ok i nm s \<longleftrightarrow>
     dm_created s \<and> i \<in> hc_hostId ` set (dm_hosts s) \<and> distinct (map hc_hostId (dm_hosts s)) \<and>
     (\<forall>h \<in> set (dm_hosts s). hc_hostId h = i \<longrightarrow> hc_hostName h = nm)"

lemma handle_first_split:
  "i \<notin> hc_hostId ` set xs \<Longrightarrow> hc_hostId h = i \<Longrightarrow>
     handle_first E i (xs @ h # ys) s =
       (case DevmgrServiceFullHandleDeviceHostDied E h s of (_, h', s') \<Rightarrow> (xs @ h' # ys, s'))"
  by (induction xs) (auto split: prod.splits)

text \<open>What one life of the host does to its counter and to the number of starts.\<close>

definition refused :: "int option \<Rightarrow> bool" where
  "refused c = (case c of None \<Rightarrow> False | Some v \<Rightarrow> v > 3)"

definition next_count :: "int option \<Rightarrow> int" where
  "next_count c = (case c of None \<Rightarrow> 1 | Some v \<Rightarrow> if v > 3 then 0 else v + 1)"

lemma host_life_step:
  assumes ok: "host_ok i nm s" and E: "\<And>tr. map_set_ok E tr"
  shows "host_ok i nm (host_life E i l s)"
    and "g_hostMap (host_life E i l s) nm =
           (if counted l then Some (next_count (g_hostMap s nm)) else g_hostMap s nm)"
    and "starts i (dm_tr (host_life E i l s)) =
           starts i (dm_tr s) + (if installer_ok E \<and> counted l \<and> \<not> refused (g_hostMap s nm) then 1 else 0)"
proof -
  obtain ds us stop where lf: "l = (ds, us, stop)"
    by (cases l)
  obtain h0 where h0: "h0 \<in> set (dm_hosts s)" "hc_hostId h0 = i"
    using ok by (auto simp: host_ok_def)
  then obtain xs ys where hs: "dm_hosts s = xs @ h0 # ys"
    by (meson split_list)
  have xs: "i \<notin> hc_hostId ` set xs" "i \<notin> hc_hostId ` set ys"
    and cr: "dm_created s" and f0: "hc_hostName h0 = nm"
    and dist: "distinct (map hc_hostId (xs @ h0 # ys))"
    using ok hs h0(2) by (auto simp: host_ok_def image_iff)
  define h where "h = h0\<lparr>hc_devices := ds, hc_unloadDevInfos := us, hc_stopFlag := stop\<rparr>"
  define s0 where "s0 = s\<lparr>dm_hosts := map (live_as i l) (dm_hosts s)\<rparr>"
  have keep: "map (live_as i l) zs = zs" if "i \<notin> hc_hostId ` set zs" for zs
    using that by (induction zs) (auto simp: lf)
  have l0: "dm_hosts s0 = xs @ h # ys"
    using keep [OF xs(1)] keep [OF xs(2)] h0(2) by (simp add: s0_def hs h_def lf)
  obtain r h' s' where d: "DevmgrServiceFullHandleDeviceHostDied E h (dm_emit (DmLock, 0) s0) = (r, h', s')"
    using prod_cases3 by blast
  have h': "hc_hostId h' = i" "hc_hostName h' = nm" "dm_created s'"
    "g_hostMap s' nm = (if counted l then Some (next_count (g_hostMap s nm)) else g_hostMap s nm)"
    "starts i (dm_tr s') =
       starts i (dm_tr s) + (if installer_ok E \<and> counted l \<and> \<not> refused (g_hostMap s nm) then 1 else 0)"
    using d E f0 h0(2) cr
    by (auto simp: DevmgrServiceFullHandleDeviceHostDied_def CleanupDiedHostResources_def respawn_def
        h_def s0_def dm_emit_def next_count_def refused_def HOST_INIT_DIE_NUM_def HOST_MAX_DIE_NUM_def Let_def lf
        split: option.splits if_splits)
  have "hc_hostId h = i"
    using h0(2) by (simp add: h_def)
  then have life: "host_life E i l s = dm_emit (DmUnlock, 0) (s'\<lparr>dm_hosts := xs @ h' # ys\<rparr>)"
    using d cr handle_first_split [OF xs(1), of h E ys "dm_emit (DmLock, 0) s0"]
    by (simp add: host_life_def DevmgrServiceFullDispatchMessage_def DevmgrServiceFullOnDeviceHostDied_def
        l0 flip: s0_def) (simp add: s0_def)
  show "host_ok i nm (host_life E i l s)"
    using life h' dist xs h0(2) ok hs
    by (auto simp: host_ok_def dm_emit_def image_iff)
  show "g_hostMap (host_life E i l s) nm =
      (if counted l then Some (next_count (g_hostMap s nm)) else g_hostMap s nm)"
    and "starts i (dm_tr (host_life E i l s)) =
      starts i (dm_tr s) + (if installer_ok E \<and> counted l \<and> \<not> refused (g_hostMap s nm) then 1 else 0)"
    using life h' by (simp_all add: dm_emit_def)
qed

text \<open>
  C23. Of the deaths of a host, those count at which it has devices, none to be loaded on
  demand, and is not being stopped; all others are never followed by a start. When no counter is
  kept under its name before, no other host has its identifier or dies under its name, and
  memory for the counter is found, n counted deaths are followed by exactly n - n div 5 starts
  of the host (every fifth is not, and starts the count anew), and by none without a driver
  installer.
\<close>

theorem devmgr_restart_budget:
  assumes "host_ok i nm s" and "g_hostMap s nm = None" and "\<And>tr. map_set_ok E tr"
  defines "n \<equiv> \<lambda>lives. length (filter counted lives)"
  shows "starts i (dm_tr (fold (host_life E i) lives s)) =
           starts i (dm_tr s) + (if installer_ok E then n lives - n lives div 5 else 0)"
proof -
  have "host_ok i nm (fold (host_life E i) lives s) \<and>
      g_hostMap (fold (host_life E i) lives s) nm =
        (if n lives = 0 then None else Some (int (n lives mod 5))) \<and>
      starts i (dm_tr (fold (host_life E i) lives s)) =
        starts i (dm_tr s) + (if installer_ok E then n lives - n lives div 5 else 0)"
  proof (induction lives rule: rev_induct)
    case Nil
    then show ?case using assms(1,2) by (simp add: n_def)
  next
    case (snoc l lives)
    define t where "t = fold (host_life E i) lives s"
    have t: "host_ok i nm t" "g_hostMap t nm = (if n lives = 0 then None else Some (int (n lives mod 5)))"
      "starts i (dm_tr t) = starts i (dm_tr s) + (if installer_ok E then n lives - n lives div 5 else 0)"
      using snoc by (auto simp: t_def)
    note L = host_life_step [OF t(1) assms(3), of l]
    have N: "n (lives @ [l]) = (if counted l then Suc (n lives) else n lives)"
      by (simp add: n_def)
    have nc: "next_count (g_hostMap t nm) = int (Suc (n lives) mod 5)"
      unfolding t(2) next_count_def by (auto simp: mod_Suc)
    have rf: "refused (g_hostMap t nm) \<longleftrightarrow> Suc (n lives) mod 5 = 0"
      unfolding t(2) refused_def by (auto simp: mod_Suc)
    have "n lives - n lives div 5 + (if Suc (n lives) mod 5 = 0 then 0 else 1) =
        Suc (n lives) - Suc (n lives) div 5"
      by (auto simp: div_Suc)
    then have "starts i (dm_tr (host_life E i l t)) =
        starts i (dm_tr s) + (if installer_ok E then n (lives @ [l]) - n (lives @ [l]) div 5 else 0)"
      unfolding N using L(3) t(3) rf by (auto split: if_splits)
    moreover have "g_hostMap (host_life E i l t) nm =
        (if n (lives @ [l]) = 0 then None else Some (int (n (lives @ [l]) mod 5)))"
      unfolding N using L(2) t(2) nc by (auto split: if_splits)
    ultimately show ?case
      using L(1) by (simp flip: t_def)
  qed
  then show ?thesis by blast
qed

definition dm_demo_env :: dm_env where
  "dm_demo_env = \<lparr>dm_api = (\<lambda>tr _. 100 + int (length tr)), map_set_ok = (\<lambda>_. True), installer_ok = True\<rparr>"

definition dm_demo :: dm_sys where
  "dm_demo = \<lparr>dm_tr = [], g_hostMap = Map.empty,
     dm_hosts = [\<lparr>hc_hostId = 7, hc_hostName = ''sensor_host'', hc_hostPid = 5, hc_hostService = Some 2,
                  hc_devices = [], hc_unloadDevInfos = [], hc_stopFlag = False\<rparr>], dm_created = True\<rparr>"

lemma devmgr_restart_budget_witness:
  "starts 7 (dm_tr (fold (host_life dm_demo_env 7)
     [([1], [], False), ([], [], False), ([2], [], False), ([3], [], False), ([4], [], False), ([5], [9], False), ([6], [], False),
      ([7], [], True), ([8], [], False)] dm_demo)) = 5"
  using devmgr_restart_budget [of 7 "''sensor_host''" dm_demo dm_demo_env
    "[([1], [], False), ([], [], False), ([2], [], False), ([3], [], False), ([4], [], False), ([5], [9], False), ([6], [], False),
      ([7], [], True), ([8], [], False)]"]
  by (simp add: dm_demo_def dm_demo_env_def host_ok_def)

end
