(* ===== verification/Can_Virtual.thy ===== *)
theory Can_Virtual
  imports Osal_Mem
begin

text \<open>
  The virtual CAN controller, \<open>platform/can/can_virtual.c\<close>: a controller object that loops every
  sent message back to the CAN core as a received one, with the bit timings of a fixed table.

  The CAN core (\<open>CanMsgObtain\<close>, \<open>CanCntlrOnNewMsg\<close>, \<open>CanCntlrAdd\<close>, \<dots>) and the configuration
  source are outside the repository: \<open>can_api\<close> gives the status of each call, \<open>hcs_u32\<close> and
  \<open>hcs_u8\<close> what the configuration holds. A message is opaque; the controller object \<open>p\<close> is the
  entry \<open>p\<close> of \<open>cans\<close>, and \<open>cntlr->device.priv\<close> is \<open>vc_priv\<close>.
\<close>

datatype bus_state = CAN_BUS_RESET | CAN_BUS_READY | CAN_BUS_BUSY

record VirtualCanCntlr =
  vc_number :: u32
  vc_priv :: "nat option"
  vc_ops :: bool
  vc_workMode :: u8
  vc_bitRate :: u32
  vc_syncJumpWidth :: u32
  vc_timeSeg1 :: u32
  vc_timeSeg2 :: u32
  vc_prescaler :: u32
  vc_busState :: bus_state

record CanConfig =
  cfg_speed :: u32
  cfg_mode :: u8

datatype 'm can_ev =
    CanMsgObtain | CanCntlrOnNewMsg nat 'm | CanServiceBind nat | CanCntlrAdd nat
  | CanCntlrSetHdfDev nat nat | CanServiceRelease nat | CanCntlrDel nat

record 'm can_sys = "('m can_ev \<times> int) sys" +
  cans :: "nat \<Rightarrow> VirtualCanCntlr option"

record 'm can_env = mem_env +
  can_api :: "('m can_ev \<times> int) list \<Rightarrow> 'm can_ev \<Rightarrow> int"
  hcs_node :: bool
  hcs_iface :: bool
  hcs_u32 :: "string \<Rightarrow> u32 option"
  hcs_u8 :: "string \<Rightarrow> u8 option"
  CAN_BUS_LOOPBACK :: u8
  can_of_dev :: "nat \<Rightarrow> nat option"

definition CAN_VIRTUAL_BUS_NUM_DFT :: u32 where "CAN_VIRTUAL_BUS_NUM_DFT = 31"
definition CAN_SPEED_10K :: u32 where "CAN_SPEED_10K = 1000 * 10"

subsection \<open>Bit rates and modes\<close>

record VirtualSpeedConfigMap =
  sm_speed :: u32
  sm_sjw :: u32
  sm_tsg1 :: u32
  sm_tsg2 :: u32
  sm_prescaler :: u32

definition speed_map :: "u32 \<Rightarrow> u32 \<Rightarrow> u32 \<Rightarrow> u32 \<Rightarrow> u32 \<Rightarrow> VirtualSpeedConfigMap" where
  "speed_map v sjw t1 t2 p = \<lparr>sm_speed = v, sm_sjw = sjw, sm_tsg1 = t1, sm_tsg2 = t2, sm_prescaler = p\<rparr>"

definition g_speedMaps :: "VirtualSpeedConfigMap list" where
  "g_speedMaps =
     [speed_map (1000 * 1000) 2 5 2 10, speed_map (1000 * 800) 2 14 5 5, speed_map (1000 * 500) 2 7 2 16,
      speed_map (1000 * 250) 2 13 2 20, speed_map (1000 * 125) 2 13 2 40, speed_map (1000 * 100) 2 13 2 50,
      speed_map (1000 * 50) 2 13 2 100, speed_map (1000 * 20) 2 13 2 250, speed_map CAN_SPEED_10K 2 13 2 500]"

definition VirtualCanSetBitRate :: "VirtualCanCntlr \<Rightarrow> u32 \<Rightarrow> ret \<times> VirtualCanCntlr" where
  "VirtualCanSetBitRate v speed =
     (case List.find (\<lambda>m. sm_speed m = speed) g_speedMaps of
        None \<Rightarrow> (HDF_ERR_NOT_SUPPORT, v)
      | Some m \<Rightarrow>
          (HDF_SUCCESS, v\<lparr>vc_syncJumpWidth := sm_sjw m, vc_timeSeg1 := sm_tsg1 m, vc_timeSeg2 := sm_tsg2 m,
                          vc_prescaler := sm_prescaler m, vc_bitRate := speed\<rparr>))"

definition VirtualCanSetMode :: "('m, 'z) can_env_scheme \<Rightarrow> VirtualCanCntlr \<Rightarrow> u8 \<Rightarrow> ret \<times> VirtualCanCntlr" where
  "VirtualCanSetMode E v mode =
     (if mode = CAN_BUS_LOOPBACK E then (HDF_SUCCESS, v\<lparr>vc_workMode := CAN_BUS_LOOPBACK E\<rparr>)
      else (HDF_ERR_NOT_SUPPORT, v))"

text \<open>
  \<open>if ((ret = f() != HDF_SUCCESS)) return ret;\<close> assigns the comparison, so the status returned for
  a failure is the number 1, whatever \<open>f\<close> returned.
\<close>

definition neq_success :: "ret \<Rightarrow> ret" where
  "neq_success r = ret_of (if r \<noteq> HDF_SUCCESS then 1 else 0)"

definition set_rate_and_mode ::
  "('m, 'z) can_env_scheme \<Rightarrow> u32 \<Rightarrow> u8 \<Rightarrow> VirtualCanCntlr \<Rightarrow> ret \<times> VirtualCanCntlr" where
  "set_rate_and_mode E speed mode v =
     (case VirtualCanSetBitRate v speed of (r, v1) \<Rightarrow>
        if neq_success r \<noteq> HDF_SUCCESS then (neq_success r, v1)
        else
          (case VirtualCanSetMode E v1 mode of (r2, v2) \<Rightarrow>
             if neq_success r2 \<noteq> HDF_SUCCESS then (neq_success r2, v2) else (HDF_SUCCESS, v2)))"

subsection \<open>The controller methods\<close>

text \<open>The object behind \<open>cntlr->device.priv\<close> of controller \<open>p\<close>.\<close>

definition can_priv :: "nat \<Rightarrow> ('m, 'z) can_sys_scheme \<Rightarrow> nat option" where
  "can_priv p s = Option.bind (cans s p) vc_priv"

definition VirtualCanMsgLoopBack ::
  "('m, 'z) can_env_scheme \<Rightarrow> nat \<Rightarrow> 'm \<Rightarrow> ('m, 'y) can_sys_scheme \<Rightarrow> ret \<times> ('m, 'y) can_sys_scheme" where
  "VirtualCanMsgLoopBack E q msg s =
     (case ext_call (can_api E) CanMsgObtain s of (r, s1) \<Rightarrow>
        if r = 0 then (HDF_ERR_MALLOC_FAIL, s1)
        else
          (case cans s1 q of
             None \<Rightarrow> (HDF_FAILURE, s1\<lparr>h_bad := True\<rparr>)
           | Some v \<Rightarrow>
               (case ext_call (can_api E) (CanCntlrOnNewMsg q msg)
                       (s1\<lparr>cans := (cans s1)(q \<mapsto> v\<lparr>vc_busState := CAN_BUS_READY\<rparr>)\<rparr>) of
                  (r2, s2) \<Rightarrow> (ret_of r2, s2))))"

definition VirtualCanSendMsg ::
  "('m, 'z) can_env_scheme \<Rightarrow> nat option \<Rightarrow> 'm option \<Rightarrow> ('m, 'y) can_sys_scheme
   \<Rightarrow> ret \<times> ('m, 'y) can_sys_scheme" where
  "VirtualCanSendMsg E cntlr msg s =
     (case cntlr of None \<Rightarrow> (HDF_ERR_INVALID_OBJECT, s) | Some p \<Rightarrow>
       (case msg of None \<Rightarrow> (HDF_ERR_INVALID_PARAM, s) | Some m \<Rightarrow>
         (case can_priv p s of None \<Rightarrow> (HDF_ERR_INVALID_OBJECT, s) | Some q \<Rightarrow>
           (case cans s q of
              None \<Rightarrow> (HDF_FAILURE, s\<lparr>h_bad := True\<rparr>)
            | Some v \<Rightarrow>
                VirtualCanMsgLoopBack E q m
                  (s\<lparr>cans := (cans s)(q \<mapsto> v\<lparr>vc_busState := CAN_BUS_BUSY\<rparr>)\<rparr>)))))"

definition VirtualCanSetCfg ::
  "('m, 'z) can_env_scheme \<Rightarrow> nat \<Rightarrow> CanConfig \<Rightarrow> ('m, 'y) can_sys_scheme \<Rightarrow> ret \<times> ('m, 'y) can_sys_scheme" where
  "VirtualCanSetCfg E p cfg s =
     (case can_priv p s of None \<Rightarrow> (HDF_ERR_INVALID_OBJECT, s) | Some q \<Rightarrow>
       (case cans s q of
          None \<Rightarrow> (HDF_FAILURE, s\<lparr>h_bad := True\<rparr>)
        | Some v \<Rightarrow>
            (case set_rate_and_mode E (cfg_speed cfg) (cfg_mode cfg) (v\<lparr>vc_busState := CAN_BUS_RESET\<rparr>) of
               (r, v1) \<Rightarrow>
                 (r, s\<lparr>cans := (cans s)(q \<mapsto>
                       (if r = HDF_SUCCESS then v1\<lparr>vc_busState := CAN_BUS_READY\<rparr> else v1))\<rparr>))))"

definition VirtualCanGetCfg ::
  "nat \<Rightarrow> CanConfig \<Rightarrow> ('m, 'y) can_sys_scheme \<Rightarrow> ret \<times> CanConfig \<times> ('m, 'y) can_sys_scheme" where
  "VirtualCanGetCfg p cfg s =
     (case can_priv p s of None \<Rightarrow> (HDF_ERR_INVALID_OBJECT, cfg, s) | Some q \<Rightarrow>
       (case cans s q of
          None \<Rightarrow> (HDF_FAILURE, cfg, s\<lparr>h_bad := True\<rparr>)
        | Some v \<Rightarrow> (HDF_SUCCESS, cfg\<lparr>cfg_speed := vc_bitRate v, cfg_mode := vc_workMode v\<rparr>, s)))"

subsection \<open>Set-up and release\<close>

definition HdfVirtualCanBind ::
  "('m, 'z) can_env_scheme \<Rightarrow> nat \<Rightarrow> ('m, 'y) can_sys_scheme \<Rightarrow> ret \<times> ('m, 'y) can_sys_scheme" where
  "HdfVirtualCanBind E device s =
     (case ext_call (can_api E) (CanServiceBind device) s of (r, s1) \<Rightarrow> (ret_of r, s1))"

definition VirtualReadConfigFromHcs ::
  "('m, 'z) can_env_scheme \<Rightarrow> VirtualCanCntlr \<Rightarrow> ret \<times> VirtualCanCntlr" where
  "VirtualReadConfigFromHcs E v =
     (if \<not> hcs_node E then (HDF_ERR_INVALID_PARAM, v)
      else if \<not> hcs_iface E then (HDF_ERR_NOT_SUPPORT, v)
      else
        (case hcs_u32 E ''bus_num'' of None \<Rightarrow> (HDF_FAILURE, v) | Some n \<Rightarrow>
          (let v1 = v\<lparr>vc_number := n\<rparr> in
           (case hcs_u8 E ''work_mode'' of None \<Rightarrow> (HDF_FAILURE, v1) | Some m \<Rightarrow>
             (let v2 = v1\<lparr>vc_workMode := m\<rparr> in
              (case hcs_u32 E ''bit_rate'' of None \<Rightarrow> (HDF_FAILURE, v2) | Some b \<Rightarrow>
                (HDF_SUCCESS, v2\<lparr>vc_bitRate := b\<rparr>)))))))"

definition VirtualCanSetDefault :: "('m, 'z) can_env_scheme \<Rightarrow> VirtualCanCntlr \<Rightarrow> VirtualCanCntlr" where
  "VirtualCanSetDefault E v =
     v\<lparr>vc_number := CAN_VIRTUAL_BUS_NUM_DFT, vc_workMode := CAN_BUS_LOOPBACK E, vc_bitRate := CAN_SPEED_10K\<rparr>"

text \<open>A failed read of the configuration is only logged.\<close>

definition VirtualCanInit :: "('m, 'z) can_env_scheme \<Rightarrow> VirtualCanCntlr \<Rightarrow> ret \<times> VirtualCanCntlr" where
  "VirtualCanInit E v =
     (let v1 = snd (VirtualReadConfigFromHcs E (VirtualCanSetDefault E v))
      in set_rate_and_mode E (vc_bitRate v1) (vc_workMode v1) v1)"

definition zero_can :: VirtualCanCntlr where
  "zero_can =
     \<lparr>vc_number = 0, vc_priv = None, vc_ops = False, vc_workMode = 0, vc_bitRate = 0,
      vc_syncJumpWidth = 0, vc_timeSeg1 = 0, vc_timeSeg2 = 0, vc_prescaler = 0,
      vc_busState = CAN_BUS_RESET\<rparr>"

definition can_free :: "nat \<Rightarrow> ('m, 'y) can_sys_scheme \<Rightarrow> ('m, 'y) can_sys_scheme" where
  "can_free p s = (OsalMemFree (Some p) s)\<lparr>cans := (cans s)(p := None)\<rparr>"

definition HdfVirtualCanInit ::
  "('m, 'z) can_env_scheme \<Rightarrow> nat option \<Rightarrow> ('m, 'y) can_sys_scheme \<Rightarrow> ret \<times> ('m, 'y) can_sys_scheme" where
  "HdfVirtualCanInit E device s =
     (case device of None \<Rightarrow> (HDF_ERR_INVALID_OBJECT, s) | Some dev \<Rightarrow>
       (case OsalMemCalloc E (Objs ''VirtualCanCntlr'' 1) s of
          (None, s1) \<Rightarrow> (HDF_ERR_MALLOC_FAIL, s1)
        | (Some p, s1) \<Rightarrow>
            (case VirtualCanInit E zero_can of (r, v) \<Rightarrow>
               if r \<noteq> HDF_SUCCESS then (r, can_free p s1)
               else
                 (case ext_call (can_api E) (CanCntlrAdd p)
                         (s1\<lparr>cans := (cans s1)(p \<mapsto>
                            v\<lparr>vc_busState := CAN_BUS_READY, vc_ops := True, vc_priv := Some p\<rparr>)\<rparr>) of
                    (r2, s2) \<Rightarrow>
                      if r2 \<noteq> 0 then (ret_of r2, can_free p s2)
                      else (HDF_SUCCESS, snd (ext_call (can_api E) (CanCntlrSetHdfDev p dev) s2))))))"

definition VirtualCanDeinit :: ret where "VirtualCanDeinit = HDF_SUCCESS"

definition HdfVirtualCanRelease ::
  "('m, 'z) can_env_scheme \<Rightarrow> nat option \<Rightarrow> ('m, 'y) can_sys_scheme \<Rightarrow> ('m, 'y) can_sys_scheme" where
  "HdfVirtualCanRelease E device s =
     (case device of None \<Rightarrow> s | Some dev \<Rightarrow>
       (case can_of_dev E dev of None \<Rightarrow> s | Some p \<Rightarrow>
          can_free p (snd (ext_call (can_api E) (CanCntlrDel p)
            (snd (ext_call (can_api E) (CanServiceRelease dev) s))))))"

subsection \<open>What the controller promises\<close>

definition CAN_CLK :: nat where "CAN_CLK = 80000000"

text \<open>The bit rate that prescaler and segments produce from the clock is the nominal one.\<close>

definition timing_ok :: "VirtualCanCntlr \<Rightarrow> bool" where
  "timing_ok v \<longleftrightarrow>
     unat (vc_bitRate v) * (unat (vc_prescaler v) * (1 + unat (vc_timeSeg1 v) + unat (vc_timeSeg2 v))) = CAN_CLK"

lemma speedMaps_timing:
  "m \<in> set g_speedMaps \<Longrightarrow>
     unat (sm_speed m) * (unat (sm_prescaler m) * (1 + unat (sm_tsg1 m) + unat (sm_tsg2 m))) = CAN_CLK"
  by (auto simp: g_speedMaps_def speed_map_def CAN_SPEED_10K_def CAN_CLK_def)

lemma SetBitRate_ok:
  assumes "VirtualCanSetBitRate v speed = (HDF_SUCCESS, v')"
  shows "timing_ok v' \<and> vc_bitRate v' = speed \<and> speed \<in> sm_speed ` set g_speedMaps"
proof -
  obtain m where m: "List.find (\<lambda>m. sm_speed m = speed) g_speedMaps = Some m"
    using assms by (auto simp: VirtualCanSetBitRate_def split: option.splits)
  then have "m \<in> set g_speedMaps" "sm_speed m = speed"
    by (auto simp: find_Some_iff)
  then show ?thesis
    using assms m speedMaps_timing [of m] by (auto simp: VirtualCanSetBitRate_def timing_ok_def)
qed

lemma SetBitRate_fail:
  "speed \<notin> sm_speed ` set g_speedMaps \<Longrightarrow> VirtualCanSetBitRate v speed = (HDF_ERR_NOT_SUPPORT, v)"
  by (auto simp: VirtualCanSetBitRate_def find_None_iff find_Some_iff split: option.splits)

lemma SetBitRate_supported:
  "speed \<in> sm_speed ` set g_speedMaps \<Longrightarrow> fst (VirtualCanSetBitRate v speed) = HDF_SUCCESS"
  by (auto simp: VirtualCanSetBitRate_def find_None_iff split: option.splits)

lemma SetBitRate_frame:
  "vc_busState (snd (VirtualCanSetBitRate v speed)) = vc_busState v"
  "vc_workMode (snd (VirtualCanSetBitRate v speed)) = vc_workMode v"
  by (simp_all add: VirtualCanSetBitRate_def split: option.splits)

lemma neq_success_simps [simp]:
  "neq_success r = HDF_SUCCESS \<longleftrightarrow> r = HDF_SUCCESS" "r \<noteq> HDF_SUCCESS \<Longrightarrow> neq_success r = Num 1"
  by (simp_all add: neq_success_def ret_of_def)

text \<open>
  VirtualCanSetCfg accepts exactly a supported speed in loop-back mode and then leaves
  consistent bit timing and a ready bus; every rejection returns the number 1 and leaves the bus
  in reset.
\<close>

theorem can_set_cfg:
  fixes E :: "('m, 'z) can_env_scheme" and cfg :: CanConfig
  assumes "can_priv p s = Some q" and "cans s q = Some v"
  defines "r \<equiv> fst (VirtualCanSetCfg E p cfg s)" and "s' \<equiv> snd (VirtualCanSetCfg E p cfg s)"
  shows "(if cfg_speed cfg \<in> sm_speed ` set g_speedMaps \<and> cfg_mode cfg = CAN_BUS_LOOPBACK E
          then r = HDF_SUCCESS \<and> (\<exists>v'. cans s' q = Some v' \<and> timing_ok v' \<and> vc_busState v' = CAN_BUS_READY \<and>
                 vc_bitRate v' = cfg_speed cfg \<and> vc_workMode v' = cfg_mode cfg)
          else r = Num 1 \<and> (\<exists>v'. cans s' q = Some v' \<and> vc_busState v' = CAN_BUS_RESET))"
proof (cases "cfg_speed cfg \<in> sm_speed ` set g_speedMaps")
  case False
  then show ?thesis
    using assms SetBitRate_fail [OF False, of "v\<lparr>vc_busState := CAN_BUS_RESET\<rparr>"]
    by (simp add: VirtualCanSetCfg_def set_rate_and_mode_def)
next
  case True
  obtain v1 where b: "VirtualCanSetBitRate (v\<lparr>vc_busState := CAN_BUS_RESET\<rparr>) (cfg_speed cfg) = (HDF_SUCCESS, v1)"
    using SetBitRate_supported [OF True] by (metis prod.collapse)
  show ?thesis
    using assms(1,2) True b SetBitRate_ok [OF b]
      SetBitRate_frame [of "v\<lparr>vc_busState := CAN_BUS_RESET\<rparr>" "cfg_speed cfg"]
    by (auto simp: r_def s'_def VirtualCanSetCfg_def set_rate_and_mode_def VirtualCanSetMode_def timing_ok_def)
qed

text \<open>
  VirtualCanSendMsg delivers a copy of the message to the controller it was sent on and
  leaves the bus ready; without a message buffer it fails and leaves the bus busy.
\<close>

theorem can_loopback:
  fixes E :: "('m, 'z) can_env_scheme" and m :: 'm
  assumes "can_priv p s = Some q" and "cans s q = Some v"
  defines "r \<equiv> fst (VirtualCanSendMsg E (Some p) (Some m) s)"
    and "s' \<equiv> snd (VirtualCanSendMsg E (Some p) (Some m) s)"
    and "o1 \<equiv> can_api E (ev s) CanMsgObtain"
  shows "(if o1 = 0
          then r = HDF_ERR_MALLOC_FAIL \<and> ev s' = ev s @ [(CanMsgObtain, 0)] \<and>
               cans s' = (cans s)(q \<mapsto> v\<lparr>vc_busState := CAN_BUS_BUSY\<rparr>)
          else (\<exists>k. r = ret_of k \<and> ev s' = ev s @ [(CanMsgObtain, o1), (CanCntlrOnNewMsg q m, k)]) \<and>
               cans s' = (cans s)(q \<mapsto> v\<lparr>vc_busState := CAN_BUS_READY\<rparr>))
         \<and> h_bad s' = h_bad s"
  using assms(1,2)
  by (simp add: r_def s'_def o1_def VirtualCanSendMsg_def VirtualCanMsgLoopBack_def ext_call_eq emit_def)

subsection \<open>A concrete controller\<close>

definition can_demo_env :: "nat can_env" where
  "can_demo_env =
     \<lparr>mem_ok = (\<lambda>_ _. True), mem_junk = (\<lambda>_ _. 0), copy_ok = (\<lambda>d n. n \<le> d),
      can_api = (\<lambda>_ c. case c of CanMsgObtain \<Rightarrow> 1 | _ \<Rightarrow> 0), hcs_node = True, hcs_iface = True,
      hcs_u32 = (\<lambda>k. if k = ''bus_num'' then Some 3 else Some 500000), hcs_u8 = (\<lambda>_. Some 1),
      CAN_BUS_LOOPBACK = 1, can_of_dev = (\<lambda>_. Some 5)\<rparr>"

definition can_demo :: "nat can_sys" where
  "can_demo = \<lparr>h_next = 6, h_blk = [5 \<mapsto> []], h_bad = False, ev = [],
     cans = [5 \<mapsto> zero_can\<lparr>vc_priv := Some 5\<rparr>]\<rparr>"

lemma can_demo: "can_priv 5 can_demo = Some 5" "cans can_demo 5 = Some (zero_can\<lparr>vc_priv := Some 5\<rparr>)"
  by (simp_all add: can_demo_def can_priv_def)

lemma can_set_cfg_witness:
  "fst (VirtualCanSetCfg can_demo_env 5 \<lparr>cfg_speed = 250000, cfg_mode = 1\<rparr> can_demo) = HDF_SUCCESS \<and>
   fst (VirtualCanSetCfg can_demo_env 5 \<lparr>cfg_speed = 9600, cfg_mode = 1\<rparr> can_demo) = Num 1"
  using can_set_cfg [OF can_demo, of "\<lparr>cfg_speed = 250000, cfg_mode = 1\<rparr>" can_demo_env]
    can_set_cfg [OF can_demo, of "\<lparr>cfg_speed = 9600, cfg_mode = 1\<rparr>" can_demo_env]
  by (simp add: g_speedMaps_def speed_map_def CAN_SPEED_10K_def can_demo_env_def split: if_splits)

lemma can_demo_obtain: "can_api can_demo_env [] CanMsgObtain = 1" "ev can_demo = []"
  by (simp_all add: can_demo_env_def can_demo_def)

lemma can_loopback_witness:
  "\<exists>k. ev (snd (VirtualCanSendMsg can_demo_env (Some 5) (Some 42) can_demo)) =
     [(CanMsgObtain, 1), (CanCntlrOnNewMsg 5 42, k)]"
  using can_loopback [OF can_demo, of can_demo_env 42] by (auto simp: can_demo_obtain)

end
