(* ===== verification/Registry.thy ===== *)
theory Registry
  imports Prelude
begin

text \<open>
  The contract of a registry: objects are entered under a key, looked up by key and taken out
  again. The service-status listeners and the list of flash devices both provide it.
\<close>

locale registry =
  fixes key :: "'l \<Rightarrow> 'k"
    and add :: "'l \<Rightarrow> 's \<Rightarrow> 'v option \<times> 's"
    and lookup :: "'k \<Rightarrow> 's \<Rightarrow> 'v option"
    and del :: "'v \<Rightarrow> 's \<Rightarrow> 's"
    and ok :: "'s \<Rightarrow> bool"
    and addable :: "'l \<Rightarrow> 's \<Rightarrow> bool"
  assumes add_Some:
      "ok s \<Longrightarrow> addable x s \<Longrightarrow> lookup (key x) s = None \<Longrightarrow> add x s = (Some v, s') \<Longrightarrow>
         ok s' \<and> lookup (key x) s' = Some v"
    and add_other:
      "ok s \<Longrightarrow> addable x s \<Longrightarrow> add x s = (r, s') \<Longrightarrow> j \<noteq> key x \<Longrightarrow> lookup j s' = lookup j s"
    and add_None: "ok s \<Longrightarrow> add x s = (None, s') \<Longrightarrow> lookup j s' = lookup j s"
    and del_same: "ok s \<Longrightarrow> lookup k s = Some v \<Longrightarrow> ok (del v s) \<and> lookup k (del v s) = None"
    and del_other: "ok s \<Longrightarrow> lookup k s = Some v \<Longrightarrow> j \<noteq> k \<Longrightarrow> lookup j (del v s) = lookup j s"
begin

text \<open>An entry that is made and taken out again leaves every lookup as it was.\<close>

lemma add_del:
  assumes "ok s" and "addable x s" and "lookup (key x) s = None" and "add x s = (Some v, s')"
  shows "ok (del v s')" and "lookup j (del v s') = lookup j s"
proof -
  have a: "ok s'" "lookup (key x) s' = Some v"
    using add_Some [OF assms] by auto
  then show "ok (del v s')"
    using del_same by blast
  show "lookup j (del v s') = lookup j s"
    using del_same [OF a] del_other [OF a] add_other [OF assms(1,2,4)] assms(3)
    by (cases "j = key x") auto
qed

text \<open>Two entries under different keys do not disturb each other.\<close>

lemma add_add:
  assumes "ok s" and "addable x s" and "lookup (key x) s = None" and "add x s = (Some v, s1)"
    and "addable y s1" and "key y \<noteq> key x" and "add y s1 = (r, s2)"
  shows "lookup (key x) s2 = Some v"
  using add_Some [OF assms(1-4)] add_other [OF _ assms(5,7), of "key x"] assms(6) by auto

end

end
