(* ===== verification/Serv_Listener.thy ===== *)
theory Serv_Listener
  imports Osal_Sync_Facts Registry
begin

text \<open>
  Listeners for the status of services, \<open>uhdf2/manager/src/servstat_listener_holder.c\<close>: one holder
  per remote listener in a locked list, found by the index of the remote object.

  Holders are heap objects (\<open>lh_holders\<close>); \<open>g_list\<close> is the list \<open>g_holoderList.list\<close> in order and
  \<open>g_mutex\<close> its lock. Remote objects, their IPC buffers and the marshalling of a status are outside
  the repository: \<open>remote_index\<close> is the index field of a remote object, \<open>lh_api\<close> gives the outcome of
  each call (for a function that returns \<open>bool\<close> or a pointer, 0 is failure).
\<close>

record UServStatListenerHolder =
  lh_index :: u64
  lh_listenClass :: u16
  lh_remote :: "nat option"
  lh_linked :: bool

datatype lh_event =
    RemoteSetDesc nat | SbufObtainIpc | SbufRecycleIpc | WriteToken nat | Marshal string
  | DispatchAsync nat string | RemoteRecycle "nat option"

record lh_sys = osal_sys +
  lh_ev :: "(lh_event \<times> int) list"
  lh_holders :: "nat \<Rightarrow> UServStatListenerHolder option"
  g_list :: "nat list"
  g_mutex :: OsalMutex

record lh_env = osal_env +
  lh_api :: "(lh_event \<times> int) list \<Rightarrow> lh_event \<Rightarrow> int"
  remote_index :: "nat \<Rightarrow> u64"

definition lh_call :: "('m) lh_env_scheme \<Rightarrow> lh_event \<Rightarrow> lh_sys \<Rightarrow> int \<times> lh_sys" where
  "lh_call E c s = (let r = lh_api E (lh_ev s) c in (r, s\<lparr>lh_ev := lh_ev s @ [(c, r)]\<rparr>))"

definition lh_lock :: "('m) lh_env_scheme \<Rightarrow> lh_sys \<Rightarrow> lh_sys" where
  "lh_lock E s = snd (OsalMutexLock E (Some (g_mutex s)) s)"

definition lh_unlock :: "('m) lh_env_scheme \<Rightarrow> lh_sys \<Rightarrow> lh_sys" where
  "lh_unlock E s = snd (OsalMutexUnlock E (Some (g_mutex s)) s)"

definition UServStatListenerHolderListInit :: "('m) lh_env_scheme \<Rightarrow> lh_sys \<Rightarrow> lh_sys" where
  "UServStatListenerHolderListInit E s =
     (case OsalMutexInit E (Some (g_mutex s)) s of (_, m, s1) \<Rightarrow>
        s1\<lparr>g_mutex := (case m of None \<Rightarrow> g_mutex s | Some x \<Rightarrow> x), g_list := []\<rparr>)"

definition ServStatListenerHolderinit :: "('m) lh_env_scheme \<Rightarrow> lh_sys \<Rightarrow> lh_sys" where
  "ServStatListenerHolderinit E s = UServStatListenerHolderListInit E s"

definition UServStatListenerHolderListListAdd :: "('m) lh_env_scheme \<Rightarrow> nat \<Rightarrow> lh_sys \<Rightarrow> lh_sys" where
  "UServStatListenerHolderListListAdd E p s =
     (let s1 = lh_lock E s in
      lh_unlock E (s1\<lparr>g_list := g_list s1 @ [p],
        lh_holders := (lh_holders s1)(p := map_option (\<lambda>h. h\<lparr>lh_linked := True\<rparr>) (lh_holders s1 p))\<rparr>))"

text \<open>
  The buffer is recycled on the early error returns; the two branches after the dispatch return
  before the last \<open>HdfSbufRecycle\<close>.
\<close>

definition UServStatListenerHolderNotifyStatus ::
  "('m) lh_env_scheme \<Rightarrow> nat option \<Rightarrow> string option \<Rightarrow> lh_sys \<Rightarrow> ret \<times> lh_sys" where
  "UServStatListenerHolderNotifyStatus E holder status s =
     (case (holder, status) of
        (Some p, Some st) \<Rightarrow>
          (case lh_holders s p of None \<Rightarrow> (HDF_FAILURE, s\<lparr>h_bad := True\<rparr>) | Some h \<Rightarrow>
            (case lh_remote h of None \<Rightarrow> (HDF_ERR_INVALID_PARAM, s) | Some r \<Rightarrow>
              (case lh_call E SbufObtainIpc s of (b, s1) \<Rightarrow>
                 if b = 0 then (HDF_ERR_MALLOC_FAIL, s1)
                 else
                   (case lh_call E (WriteToken r) s1 of (w, s2) \<Rightarrow>
                      if w = 0 then (HDF_FAILURE, snd (lh_call E SbufRecycleIpc s2))
                      else
                        (case lh_call E (Marshal st) s2 of (m, s3) \<Rightarrow>
                           if m \<noteq> 0 then (HDF_ERR_INVALID_PARAM, snd (lh_call E SbufRecycleIpc s3))
                           else
                             (case lh_call E (DispatchAsync r st) s3 of (d, s4) \<Rightarrow>
                                (if d \<noteq> 0 then HDF_FAILURE else HDF_SUCCESS, s4)))))))
      | _ \<Rightarrow> (HDF_ERR_INVALID_PARAM, s))"

definition find_index :: "u64 \<Rightarrow> lh_sys \<Rightarrow> nat option" where
  "find_index i s = List.find (\<lambda>p. map_option lh_index (lh_holders s p) = Some i) (g_list s)"

definition ServStatListenerHolderGet :: "('m) lh_env_scheme \<Rightarrow> u64 \<Rightarrow> lh_sys \<Rightarrow> nat option \<times> lh_sys" where
  "ServStatListenerHolderGet E index s = (find_index index s, lh_unlock E (lh_lock E s))"

definition ServStatListenerHolderCreate ::
  "('m) lh_env_scheme \<Rightarrow> nat option \<Rightarrow> u16 \<Rightarrow> lh_sys \<Rightarrow> nat option \<times> lh_sys" where
  "ServStatListenerHolderCreate E listener listenClass s =
     (case listener of None \<Rightarrow> (None, s) | Some r \<Rightarrow>
       (case OsalMemCalloc E (Objs ''UServStatListenerHolder'' 1) s of
          (None, s1) \<Rightarrow> (None, s1)
        | (Some p, s1) \<Rightarrow>
            (case lh_call E (RemoteSetDesc r) s1 of (d, s2) \<Rightarrow>
               if d = 0 then (None, OsalMemFree (Some p) s2)
               else
                 (Some p,
                  UServStatListenerHolderListListAdd E p
                    (s2\<lparr>lh_holders := (lh_holders s2)(p \<mapsto>
                       \<lparr>lh_index = remote_index E r, lh_listenClass = listenClass, lh_remote = Some r,
                        lh_linked = False\<rparr>)\<rparr>)))))"

definition ServStatListenerHolderRelease ::
  "('m) lh_env_scheme \<Rightarrow> nat option \<Rightarrow> lh_sys \<Rightarrow> lh_sys" where
  "ServStatListenerHolderRelease E holder s =
     (case holder of None \<Rightarrow> s | Some p \<Rightarrow>
       (case lh_holders s p of None \<Rightarrow> s\<lparr>h_bad := True\<rparr> | Some h \<Rightarrow>
         (let s1 = (if lh_linked h
                    then lh_unlock E ((lh_lock E s)\<lparr>g_list := remove1 p (g_list s)\<rparr>) else s);
              s2 = snd (lh_call E (RemoteRecycle (lh_remote h)) s1)
          in (OsalMemFree (Some p) s2)\<lparr>lh_holders := (lh_holders s2)(p := None)\<rparr>)))"

definition UServStatListenerHolderRecycle ::
  "('m) lh_env_scheme \<Rightarrow> nat option \<Rightarrow> lh_sys \<Rightarrow> lh_sys" where
  "UServStatListenerHolderRecycle E holder s =
     (case holder of None \<Rightarrow> s | Some p \<Rightarrow> ServStatListenerHolderRelease E (Some p) s)"

subsection \<open>Frame lemmas\<close>

lemma lh_lock_frame [simp]:
  "h_blk (lh_lock E s) = h_blk s" "h_next (lh_lock E s) = h_next s" "h_bad (lh_lock E s) = h_bad s"
  "lh_ev (lh_lock E s) = lh_ev s" "lh_holders (lh_lock E s) = lh_holders s" "g_list (lh_lock E s) = g_list s"
  by (auto simp: lh_lock_def OsalMutexLock_def los_defs emit_def split: option.splits)

lemma lh_unlock_frame [simp]:
  "h_blk (lh_unlock E s) = h_blk s" "h_next (lh_unlock E s) = h_next s" "h_bad (lh_unlock E s) = h_bad s"
  "lh_ev (lh_unlock E s) = lh_ev s" "lh_holders (lh_unlock E s) = lh_holders s" "g_list (lh_unlock E s) = g_list s"
  by (auto simp: lh_unlock_def OsalMutexUnlock_def los_defs emit_def split: option.splits)

lemma lh_call_eq:
  "lh_call E c s = (lh_api E (lh_ev s) c, s\<lparr>lh_ev := lh_ev s @ [(c, lh_api E (lh_ev s) c)]\<rparr>)"
  by (simp add: lh_call_def Let_def)

text \<open>Listed holders are live, linked and distinct, with distinct indices.\<close>

definition lh_ok :: "lh_sys \<Rightarrow> bool" where
  "lh_ok s \<longleftrightarrow>
     heap_ok s \<and> distinct (g_list s) \<and> set (g_list s) \<subseteq> heap_dom s \<and>
     (\<forall>p \<in> set (g_list s). \<exists>h. lh_holders s p = Some h \<and> lh_linked h) \<and>
     (\<forall>p \<in> set (g_list s). \<forall>q \<in> set (g_list s).
        map_option lh_index (lh_holders s p) = map_option lh_index (lh_holders s q) \<longrightarrow> p = q)"

lemma find_index_SomeD:
  "find_index i s = Some p \<Longrightarrow> p \<in> set (g_list s) \<and> map_option lh_index (lh_holders s p) = Some i"
  by (auto simp: find_index_def find_Some_iff)

lemma find_index_NoneD:
  "find_index i s = None \<Longrightarrow> p \<in> set (g_list s) \<Longrightarrow> map_option lh_index (lh_holders s p) \<noteq> Some i"
  by (auto simp: find_index_def find_None_iff)

text \<open>A successful creation, field by field.\<close>

lemma Create_SomeD:
  assumes "ServStatListenerHolderCreate E (Some r) c s = (Some p, s')"
  shows "p = h_next s" and "g_list s' = g_list s @ [p]"
    and "lh_holders s' = (lh_holders s)(p \<mapsto>
           \<lparr>lh_index = remote_index E r, lh_listenClass = c, lh_remote = Some r, lh_linked = True\<rparr>)"
    and "h_blk s' = (h_blk s)(p \<mapsto> [])" and "h_next s' = Suc p" and "h_bad s' = h_bad s"
    and "\<exists>d. lh_ev s' = lh_ev s @ [(RemoteSetDesc r, d)]"
  using assms
  by (auto simp: ServStatListenerHolderCreate_def UServStatListenerHolderListListAdd_def alloc_eqs
      lh_call_eq Let_def split: if_splits)

lemma Create_NoneD:
  assumes "heap_ok s" and "ServStatListenerHolderCreate E l c s = (None, s')"
  shows "g_list s' = g_list s" and "lh_holders s' = lh_holders s" and "h_blk s' = h_blk s"
    and "h_bad s' = h_bad s"
  using assms heap_ok_fresh [OF assms(1)]
  by (auto simp: ServStatListenerHolderCreate_def alloc_eqs lh_call_eq OsalMemFree_def LOS_MemFree_def
      Let_def fun_eq_iff split: if_splits option.splits)

lemma Release_eq:
  fixes E :: "('m) lh_env_scheme"
  assumes "lh_holders s p = Some h" and "lh_linked h" and "h_blk s p = Some bs"
  defines "s' \<equiv> ServStatListenerHolderRelease E (Some p) s"
  shows "g_list s' = remove1 p (g_list s)" and "lh_holders s' = (lh_holders s)(p := None)"
    and "h_blk s' = (h_blk s)(p := None)" and "h_next s' = h_next s" and "h_bad s' = h_bad s"
    and "\<exists>d. lh_ev s' = lh_ev s @ [(RemoteRecycle (lh_remote h), d)]"
  using assms(1-3)
  by (simp_all add: s'_def ServStatListenerHolderRelease_def lh_call_eq OsalMemFree_def LOS_MemFree_def Let_def)

subsection \<open>The list is a registry\<close>

lemma lh_ok_Create:
  assumes ok: "lh_ok s" and none: "find_index (remote_index E r) s = None"
    and c: "ServStatListenerHolderCreate E (Some r) cl s = (Some p, s')"
  shows "lh_ok s'" and "find_index (remote_index E r) s' = Some p"
proof -
  note C = Create_SomeD [OF c]
  have p: "p \<notin> set (g_list s)"
    using ok C(1) heap_ok_fresh [of s] by (auto simp: lh_ok_def)
  have old: "lh_holders s' q = lh_holders s q" if "q \<in> set (g_list s)" for q
    using that p C(3) by auto
  have idx: "map_option lh_index (lh_holders s q) \<noteq> Some (remote_index E r)" if "q \<in> set (g_list s)" for q
    by (rule find_index_NoneD [OF none that])
  have "heap_ok s'"
    using ok C(1,4,5) by (auto simp: lh_ok_def heap_ok_def)
  moreover have "distinct (g_list s')" "set (g_list s') \<subseteq> heap_dom s'"
    using ok p C(2,4) by (auto simp: lh_ok_def)
  moreover have "\<exists>h. lh_holders s' q = Some h \<and> lh_linked h" if "q \<in> set (g_list s')" for q
  proof (cases "q = p")
    case True
    then show ?thesis using C(3) by simp
  next
    case False
    then have "q \<in> set (g_list s)" using that C(2) by simp
    then show ?thesis using ok old [of q] by (simp add: lh_ok_def)
  qed
  moreover have "a = b" if ab: "a \<in> set (g_list s')" "b \<in> set (g_list s')"
    "map_option lh_index (lh_holders s' a) = map_option lh_index (lh_holders s' b)" for a b
  proof -
    have new: "map_option lh_index (lh_holders s' p) = Some (remote_index E r)"
      using C(3) by simp
    have mem: "a = p \<or> a \<in> set (g_list s)" "b = p \<or> b \<in> set (g_list s)"
      using ab C(2) by auto
    have inj: "\<And>x y. x \<in> set (g_list s) \<Longrightarrow> y \<in> set (g_list s) \<Longrightarrow>
        map_option lh_index (lh_holders s x) = map_option lh_index (lh_holders s y) \<Longrightarrow> x = y"
      using ok unfolding lh_ok_def by blast
    show ?thesis
      using mem new ab(3) idx inj old by metis
  qed
  ultimately show ok': "lh_ok s'"
    unfolding lh_ok_def by blast
  have "find_index (remote_index E r) s' \<noteq> None"
    using C(2,3) by (auto simp: find_index_def find_None_iff)
  then obtain q where q: "find_index (remote_index E r) s' = Some q"
    by auto
  then have "q \<in> set (g_list s')" "map_option lh_index (lh_holders s' q) = Some (remote_index E r)"
    using find_index_SomeD by blast+
  then have "q = p"
    using C(2,3) idx old by (auto split: if_splits)
  then show "find_index (remote_index E r) s' = Some p"
    using q by simp
qed

lemma Create_other:
  assumes ok: "lh_ok s" and c: "ServStatListenerHolderCreate E (Some r) cl s = (v, s')"
    and j: "j \<noteq> remote_index E r"
  shows "find_index j s' = find_index j s"
proof (cases v)
  case None
  then show ?thesis
    using Create_NoneD [OF _ c [unfolded None]] ok by (simp add: find_index_def lh_ok_def)
next
  case (Some p)
  note C = Create_SomeD [OF c [unfolded Some]]
  have p: "p \<notin> set (g_list s)"
    using ok C(1) heap_ok_fresh [of s] by (auto simp: lh_ok_def)
  have "List.find (\<lambda>q. map_option lh_index (lh_holders s' q) = Some j) (xs @ [p]) =
      List.find (\<lambda>q. map_option lh_index (lh_holders s q) = Some j) xs" if "p \<notin> set xs" for xs
    using that j C(3) by (induction xs) auto
  then show ?thesis
    using p C(2) by (simp add: find_index_def)
qed

lemma Release_ok:
  fixes E :: "('m) lh_env_scheme"
  assumes ok: "lh_ok s" and f: "find_index k s = Some p"
  defines "s' \<equiv> ServStatListenerHolderRelease E (Some p) s"
  shows "lh_ok s'" and "find_index k s' = None" and "j \<noteq> k \<Longrightarrow> find_index j s' = find_index j s"
proof -
  have p: "p \<in> set (g_list s)" "map_option lh_index (lh_holders s p) = Some k"
    using find_index_SomeD [OF f] by auto
  then obtain h bs where h: "lh_holders s p = Some h" "lh_linked h" "h_blk s p = Some bs"
    using ok unfolding lh_ok_def by (metis domD subsetD)
  note R = Release_eq [OF h, of E, folded s'_def]
  have d: "distinct (g_list s)"
    using ok by (simp add: lh_ok_def)
  have "heap_ok s'"
    using ok R(3,4) by (auto simp: lh_ok_def heap_ok_def)
  then show "lh_ok s'"
    using ok R(1-3) d unfolding lh_ok_def by (auto simp: subset_iff)
  have one: "map_option lh_index (lh_holders s q) \<noteq> Some k" if "q \<in> set (g_list s)" "q \<noteq> p" for q
    using ok that p unfolding lh_ok_def by metis
  show "find_index k s' = None"
    using R(1,2) d one by (auto simp: find_index_def find_None_iff)
  show "find_index j s' = find_index j s" if "j \<noteq> k"
  proof -
    have "List.find (\<lambda>q. map_option lh_index (lh_holders s' q) = Some j) (remove1 p xs) =
        List.find (\<lambda>q. map_option lh_index (lh_holders s q) = Some j) xs" if "distinct xs" for xs
      using that \<open>j \<noteq> k\<close> p(2) R(2)
      by (induction xs) (auto simp: find_None_iff intro: find_cong)
    then show ?thesis
      using R(1) d by (simp add: find_index_def)
  qed
qed

interpretation listeners: registry "remote_index E"
    "\<lambda>r. ServStatListenerHolderCreate E (Some r) cl" find_index
    "\<lambda>p. ServStatListenerHolderRelease E (Some p)" lh_ok "\<lambda>_ _. True"
proof unfold_locales
  show "lh_ok s' \<and> find_index (remote_index E x) s' = Some v"
    if "lh_ok s" "find_index (remote_index E x) s = None" "ServStatListenerHolderCreate E (Some x) cl s = (Some v, s')"
    for s x v s'
    using lh_ok_Create [OF that] by simp
  show "find_index j s' = find_index j s"
    if "lh_ok s" "ServStatListenerHolderCreate E (Some x) cl s = (r, s')" "j \<noteq> remote_index E x" for s x r s' j
    by (rule Create_other [OF that])
  show "find_index j s' = find_index j s"
    if "lh_ok s" "ServStatListenerHolderCreate E (Some x) cl s = (None, s')" for s x s' j
    using Create_NoneD [OF _ that(2)] that(1) by (simp add: find_index_def lh_ok_def)
  show "lh_ok (ServStatListenerHolderRelease E (Some v) s) \<and>
      find_index k (ServStatListenerHolderRelease E (Some v) s) = None"
    if "lh_ok s" "find_index k s = Some v" for s k v
    using Release_ok(1,2) [OF that, of E] by simp
  show "find_index j (ServStatListenerHolderRelease E (Some v) s) = find_index j s"
    if "lh_ok s" "find_index k s = Some v" "j \<noteq> k" for s k v j
    by (rule Release_ok(3) [OF that(1,2)]) (rule that(3))
qed

text \<open>
  A service-status listener holder that is created is found under its index; releasing it
  restores every lookup and the heap.
\<close>

theorem listener_registry:
  assumes "lh_ok s" and "find_index (remote_index E r) s = None"
    and "ServStatListenerHolderCreate E (Some r) cl s = (Some p, s1)"
  defines "s2 \<equiv> ServStatListenerHolderRelease E (Some p) s1"
  shows "fst (ServStatListenerHolderGet E (remote_index E r) s1) = Some p \<and> lh_ok s2
    \<and> (\<forall>j. fst (ServStatListenerHolderGet E j s2) = fst (ServStatListenerHolderGet E j s))
    \<and> h_blk s2 = h_blk s \<and> h_bad s2 = h_bad s"
proof (intro conjI allI)
  note A = listeners.add_Some [OF assms(1) TrueI assms(2,3)]
  show "fst (ServStatListenerHolderGet E (remote_index E r) s1) = Some p"
    using A by (simp add: ServStatListenerHolderGet_def)
  show "lh_ok s2" and "fst (ServStatListenerHolderGet E j s2) = fst (ServStatListenerHolderGet E j s)" for j
    using listeners.add_del [OF assms(1) TrueI assms(2,3)]
    by (simp_all add: ServStatListenerHolderGet_def s2_def)
  note C = Create_SomeD [OF assms(3)]
  have "h_blk s (h_next s) = None"
    using assms(1) by (simp add: lh_ok_def heap_ok_fresh)
  then show "h_blk s2 = h_blk s" and "h_bad s2 = h_bad s"
    using Release_eq [of s1 p _ "[]" E] C by (auto simp: s2_def fun_eq_iff)
qed

definition lh_demo_env :: lh_env where
  "lh_demo_env = osal_env.extend osal_demo_env \<lparr>lh_api = (\<lambda>_ c. 1), remote_index = of_nat\<rparr>"

definition lh_demo :: lh_sys where
  "lh_demo = osal_sys.extend (osal_demo\<lparr>h_next := 4\<rparr>)
     \<lparr>lh_ev = [], lh_holders = Map.empty, g_list = [], g_mutex = \<lparr>realMutex = Some 2\<rparr>\<rparr>"

lemma listener_registry_witness:
  "\<exists>s1. ServStatListenerHolderCreate lh_demo_env (Some 9) 3 lh_demo = (Some 4, s1) \<and>
     h_blk (ServStatListenerHolderRelease lh_demo_env (Some 4) s1) = Map.empty"
proof -
  have ok: "lh_ok lh_demo" "find_index (remote_index lh_demo_env 9) lh_demo = None" "h_blk lh_demo = Map.empty"
    by (simp_all add: lh_ok_def lh_demo_def osal_sys.defs osal_demo_def heap_ok_def find_index_def)
  have "fst (ServStatListenerHolderCreate lh_demo_env (Some 9) 3 lh_demo) = Some 4"
    by (simp add: ServStatListenerHolderCreate_def alloc_eqs lh_call_eq lh_demo_env_def lh_demo_def
        osal_env.defs osal_sys.defs osal_demo_env_def osal_demo_def)
  then obtain s1 where c: "ServStatListenerHolderCreate lh_demo_env (Some 9) 3 lh_demo = (Some 4, s1)"
    by (metis prod.collapse)
  then show ?thesis
    using listener_registry [OF ok(1,2) c] ok(3) by simp
qed

end
