(* ===== verification/Svc_Manager.thy ===== *)
theory Svc_Manager
  imports Serv_Listener
begin

text \<open>
  The IPC stub of the device service manager, \<open>uhdf2/manager/src/devsvc_manager_stub.c\<close>: requests of
  driver hosts and clients to publish, replace, look up and remove services and to listen to their
  status, and the notification that the process behind a service has died.

  The manager object \<open>super\<close> is framework code outside the repository; its state is the component
  \<open>sv_mgr\<close> and its methods are the \<open>mgr\<close> fields of the environment (\<open>GetService\<close> follows the \<open>service\<close>
  pointer of the object it finds, so it takes the contents of those pointers). A request is given
  by what the successive reads of its buffer yield, \<open>None\<close> for a read that fails. Remote objects
  are numbers; \<open>sv_target\<close> is their field \<open>target\<close>. The listener part shares the heap with
  \<open>Serv_Listener\<close>, whose state is the component \<open>sv_lh\<close>. The checks of callers compiled in with
  \<open>WITH_SELINUX\<close> are the predicates \<open>add_perm\<close>, \<open>get_perm\<close> and \<open>list_perm\<close>.
\<close>

text \<open>\<open>so_priv\<close> is the heap block of the copied name with the name in it.\<close>

record HdfDeviceObject =
  so_priv :: "(nat \<times> string) option"
  so_service :: "nat option"

datatype svc_ev =
    AddDeathRecipient nat | RemoveDeathRecipient "nat option" | SvcRecycle "nat option"
  | WriteRemote nat | ListAll | SvcConstruct | StubObtain | StubSetDesc nat | StubRegister nat

record 'g svc_sys =
  sv_lh :: lh_sys
  sv_ev :: "(svc_ev \<times> int) list"
  sv_objs :: "nat \<Rightarrow> HdfDeviceObject option"
  sv_target :: "nat \<Rightarrow> nat option"
  sv_mgr :: 'g
  sv_remote :: "nat option"
  sv_started :: bool
  sv_instance :: "nat option"

record svc_request =
  rq_token :: bool
  rq_name :: "string option"
  rq_class :: "u16 option"
  rq_service :: "nat option"
  rq_info :: "string option"

record 'g svc_env = lh_env +
  sv_api :: "(svc_ev \<times> int) list \<Rightarrow> svc_ev \<Rightarrow> int"
  sv_obtain :: "(svc_ev \<times> int) list \<Rightarrow> nat option"
  add_perm :: "(svc_ev \<times> int) list \<Rightarrow> string \<Rightarrow> bool"
  get_perm :: "(svc_ev \<times> int) list \<Rightarrow> string \<Rightarrow> bool"
  list_perm :: "(svc_ev \<times> int) list \<Rightarrow> bool"
  mgr_GetObject :: "'g \<Rightarrow> string \<Rightarrow> nat option"
  mgr_GetService :: "'g \<Rightarrow> (nat \<Rightarrow> nat option) \<Rightarrow> string \<Rightarrow> nat option"
  mgr_AddService :: "'g \<Rightarrow> string \<Rightarrow> u16 \<Rightarrow> nat \<Rightarrow> string option \<Rightarrow> ret \<times> 'g"
  mgr_UpdateService :: "'g \<Rightarrow> string \<Rightarrow> u16 \<Rightarrow> nat \<Rightarrow> string option \<Rightarrow> ret \<times> 'g"
  mgr_RemoveService :: "'g \<Rightarrow> string \<Rightarrow> 'g"
  mgr_RegsterServListener :: "'g \<Rightarrow> nat \<Rightarrow> ret \<times> 'g"
  mgr_UnregsterServListener :: "'g \<Rightarrow> nat \<Rightarrow> 'g"

definition sv_call :: "'g svc_env \<Rightarrow> svc_ev \<Rightarrow> 'g svc_sys \<Rightarrow> int \<times> 'g svc_sys" where
  "sv_call E c s = (let r = sv_api E (sv_ev s) c in (r, s\<lparr>sv_ev := sv_ev s @ [(c, r)]\<rparr>))"

definition sv_bad :: "'g svc_sys \<Rightarrow> 'g svc_sys" where
  "sv_bad s = s\<lparr>sv_lh := (sv_lh s)\<lparr>h_bad := True\<rparr>\<rparr>"

definition sv_service :: "'g svc_sys \<Rightarrow> nat \<Rightarrow> nat option" where
  "sv_service s p = Option.bind (sv_objs s p) so_service"

definition AddServicePermCheck :: "'g svc_env \<Rightarrow> string \<Rightarrow> 'g svc_sys \<Rightarrow> ret" where
  "AddServicePermCheck E servName s = (if add_perm E (sv_ev s) servName then HDF_SUCCESS else HDF_ERR_NOPERM)"

definition GetServicePermCheck :: "'g svc_env \<Rightarrow> string \<Rightarrow> 'g svc_sys \<Rightarrow> ret" where
  "GetServicePermCheck E servName s = (if get_perm E (sv_ev s) servName then HDF_SUCCESS else HDF_ERR_NOPERM)"

definition ListServicePermCheck :: "'g svc_env \<Rightarrow> 'g svc_sys \<Rightarrow> ret" where
  "ListServicePermCheck E s = (if list_perm E (sv_ev s) then HDF_SUCCESS else HDF_ERR_NOPERM)"

subsection \<open>Service objects\<close>

definition ObtainServiceObject ::
  "'g svc_env \<Rightarrow> string \<Rightarrow> nat \<Rightarrow> 'g svc_sys \<Rightarrow> nat option \<times> 'g svc_sys" where
  "ObtainServiceObject E name service s =
     (case OsalMemCalloc E (Objs ''HdfDeviceObject'' 1) (sv_lh s) of
        (None, h) \<Rightarrow> (None, s\<lparr>sv_lh := h\<rparr>)
      | (Some p, h) \<Rightarrow>
          (case OsalMemCalloc E (Bytes (Suc (length name))) h of
             (None, h1) \<Rightarrow> (None, s\<lparr>sv_lh := OsalMemFree (Some p) h1\<rparr>)
           | (Some q, h1) \<Rightarrow>
               (Some p,
                snd (sv_call E (AddDeathRecipient service)
                  (s\<lparr>sv_lh := h1,
                     sv_objs := (sv_objs s)(p \<mapsto> \<lparr>so_priv = Some (q, name), so_service = Some service\<rparr>),
                     sv_target := (sv_target s)(service \<mapsto> p)\<rparr>)))))"

definition ReleaseServiceObject :: "'g svc_env \<Rightarrow> nat option \<Rightarrow> 'g svc_sys \<Rightarrow> 'g svc_sys" where
  "ReleaseServiceObject E serviceObject s =
     (case serviceObject of None \<Rightarrow> s | Some p \<Rightarrow>
       (case sv_objs s p of None \<Rightarrow> sv_bad s | Some ob \<Rightarrow>
         (case so_priv ob of None \<Rightarrow> s | Some (q, _) \<Rightarrow>
           (let s1 = snd (sv_call E (RemoveDeathRecipient (so_service ob)) s);
                s2 = snd (sv_call E (SvcRecycle (so_service ob)) s1)
            in s2\<lparr>sv_lh := OsalMemFree (Some p) (OsalMemFree (Some q) (sv_lh s2)),
                  sv_objs := (sv_objs s2)(p := None)\<rparr>))))"

subsection \<open>Requests\<close>

text \<open>\<open>ret\<close> holds the result of the permission check when the later reads fail.\<close>

definition DevSvcManagerStubAddService ::
  "'g svc_env \<Rightarrow> svc_request \<Rightarrow> 'g svc_sys \<Rightarrow> ret \<times> 'g svc_sys" where
  "DevSvcManagerStubAddService E data s =
     (if \<not> rq_token data then (HDF_ERR_INVALID_PARAM, s)
      else
        (case rq_name data of None \<Rightarrow> (HDF_FAILURE, s) | Some name \<Rightarrow>
          (let ret = AddServicePermCheck E name s in
           if ret \<noteq> HDF_SUCCESS then (ret, s)
           else
             (case rq_class data of None \<Rightarrow> (ret, s) | Some devClass \<Rightarrow>
               (case rq_service data of None \<Rightarrow> (ret, s) | Some service \<Rightarrow>
                 (case ObtainServiceObject E name service s of
                    (None, s1) \<Rightarrow> (HDF_ERR_MALLOC_FAIL, s1)
                  | (Some p, s1) \<Rightarrow>
                      (let old = mgr_GetObject E (sv_mgr s1) name in
                       case mgr_AddService E (sv_mgr s1) name devClass p (rq_info data) of (r, g) \<Rightarrow>
                         (r, ReleaseServiceObject E (if r \<noteq> HDF_SUCCESS then Some p else old)
                               (s1\<lparr>sv_mgr := g\<rparr>)))))))))"

definition DevSvcManagerStubUpdateService ::
  "'g svc_env \<Rightarrow> svc_request \<Rightarrow> 'g svc_sys \<Rightarrow> ret \<times> 'g svc_sys" where
  "DevSvcManagerStubUpdateService E data s =
     (if \<not> rq_token data then (HDF_ERR_INVALID_PARAM, s)
      else
        (case rq_name data of None \<Rightarrow> (HDF_FAILURE, s) | Some name \<Rightarrow>
          (let ret = AddServicePermCheck E name s in
           if ret \<noteq> HDF_SUCCESS then (ret, s)
           else
             (case rq_class data of None \<Rightarrow> (ret, s) | Some devClass \<Rightarrow>
               (case rq_service data of None \<Rightarrow> (ret, s) | Some service \<Rightarrow>
                 (let old = mgr_GetObject E (sv_mgr s) name in
                  if old = None then (HDF_DEV_ERR_NO_DEVICE_SERVICE, s)
                  else
                    (case ObtainServiceObject E name service s of
                       (None, s1) \<Rightarrow> (HDF_ERR_MALLOC_FAIL, s1)
                     | (Some p, s1) \<Rightarrow>
                         (case mgr_UpdateService E (sv_mgr s1) name devClass p (rq_info data) of (r, g) \<Rightarrow>
                            (r, ReleaseServiceObject E (if r \<noteq> HDF_SUCCESS then Some p else old)
                                  (s1\<lparr>sv_mgr := g\<rparr>))))))))))"

definition DevSvcManagerStubGetService ::
  "'g svc_env \<Rightarrow> svc_request \<Rightarrow> 'g svc_sys \<Rightarrow> ret \<times> 'g svc_sys" where
  "DevSvcManagerStubGetService E data s =
     (if \<not> rq_token data then (HDF_ERR_INVALID_PARAM, s)
      else
        (case rq_name data of None \<Rightarrow> (HDF_FAILURE, s) | Some name \<Rightarrow>
          (let ret = GetServicePermCheck E name s in
           if ret \<noteq> HDF_SUCCESS then (ret, s)
           else
             (case mgr_GetService E (sv_mgr s) (sv_service s) name of
                Some r \<Rightarrow> (HDF_SUCCESS, snd (sv_call E (WriteRemote r) s))
              | None \<Rightarrow> (ret, s)))))"

definition DevSvcManagerStubListAllService ::
  "'g svc_env \<Rightarrow> svc_request \<Rightarrow> 'g svc_sys \<Rightarrow> ret \<times> 'g svc_sys" where
  "DevSvcManagerStubListAllService E data s =
     (if \<not> rq_token data then (HDF_ERR_INVALID_PARAM, s)
      else
        (let ret = ListServicePermCheck E s in
         if ret \<noteq> HDF_SUCCESS then (ret, s) else (HDF_SUCCESS, snd (sv_call E ListAll s))))"

definition DevSvcManagerStubRemoveService ::
  "'g svc_env \<Rightarrow> svc_request \<Rightarrow> 'g svc_sys \<Rightarrow> ret \<times> 'g svc_sys" where
  "DevSvcManagerStubRemoveService E data s =
     (if \<not> rq_token data then (HDF_ERR_INVALID_PARAM, s)
      else
        (case rq_name data of None \<Rightarrow> (HDF_FAILURE, s) | Some name \<Rightarrow>
          (let ret = AddServicePermCheck E name s in
           if ret \<noteq> HDF_SUCCESS then (ret, s)
           else
             (case mgr_GetObject E (sv_mgr s) name of
                None \<Rightarrow> (HDF_DEV_ERR_NO_DEVICE_SERVICE, s)
              | Some p \<Rightarrow>
                  (case sv_objs s p of None \<Rightarrow> (HDF_FAILURE, sv_bad s) | Some ob \<Rightarrow>
                    (case so_priv ob of
                       None \<Rightarrow> (HDF_ERR_INVALID_OBJECT, s)
                     | Some (_, servName) \<Rightarrow>
                         if name \<noteq> servName then (HDF_ERR_INVALID_OBJECT, s)
                         else
                           (HDF_SUCCESS,
                            ReleaseServiceObject E (Some p)
                              (s\<lparr>sv_mgr := mgr_RemoveService E (sv_mgr s) name\<rparr>))))))))"

definition DevSvcManagerStubRegisterServListener ::
  "'g svc_env \<Rightarrow> svc_request \<Rightarrow> 'g svc_sys \<Rightarrow> ret \<times> 'g svc_sys" where
  "DevSvcManagerStubRegisterServListener E data s =
     (if \<not> rq_token data then (HDF_ERR_INVALID_PARAM, s)
      else
        (case rq_class data of None \<Rightarrow> (HDF_ERR_INVALID_PARAM, s) | Some listenClass \<Rightarrow>
          (case rq_service data of None \<Rightarrow> (HDF_ERR_INVALID_PARAM, s) | Some remote \<Rightarrow>
            (case ServStatListenerHolderCreate E (Some remote) listenClass (sv_lh s) of
               (None, h) \<Rightarrow> (HDF_ERR_MALLOC_FAIL, s\<lparr>sv_lh := h\<rparr>)
             | (Some p, h) \<Rightarrow>
                 (case mgr_RegsterServListener E (sv_mgr s) p of (r, g) \<Rightarrow>
                    (HDF_SUCCESS,
                     s\<lparr>sv_mgr := g,
                       sv_lh := (if r \<noteq> HDF_SUCCESS then ServStatListenerHolderRelease E (Some p) h else h)\<rparr>))))))"

definition DevSvcManagerStubUnregisterServListener ::
  "'g svc_env \<Rightarrow> svc_request \<Rightarrow> 'g svc_sys \<Rightarrow> ret \<times> 'g svc_sys" where
  "DevSvcManagerStubUnregisterServListener E data s =
     (if \<not> rq_token data then (HDF_ERR_INVALID_PARAM, s)
      else
        (case rq_service data of None \<Rightarrow> (HDF_ERR_INVALID_PARAM, s) | Some remote \<Rightarrow>
          (case ServStatListenerHolderGet E (remote_index E remote) (sv_lh s) of
             (None, h) \<Rightarrow> (HDF_ERR_INVALID_OBJECT, snd (sv_call E (SvcRecycle (Some remote)) (s\<lparr>sv_lh := h\<rparr>)))
           | (Some p, h) \<Rightarrow>
               (HDF_SUCCESS,
                snd (sv_call E (SvcRecycle (Some remote))
                  (s\<lparr>sv_mgr := mgr_UnregsterServListener E (sv_mgr s) p,
                     sv_lh := ServStatListenerHolderRelease E (Some p) h\<rparr>))))))"

datatype svc_code =
    DEVSVC_MANAGER_ADD_SERVICE | DEVSVC_MANAGER_UPDATE_SERVICE | DEVSVC_MANAGER_GET_SERVICE
  | DEVSVC_MANAGER_REMOVE_SERVICE | DEVSVC_MANAGER_REGISTER_SVCLISTENER
  | DEVSVC_MANAGER_UNREGISTER_SVCLISTENER | DEVSVC_MANAGER_LIST_ALL_SERVICE | DEVSVC_MANAGER_OTHER

definition DevSvcManagerStubDispatch ::
  "'g svc_env \<Rightarrow> bool \<Rightarrow> svc_code \<Rightarrow> svc_request \<Rightarrow> 'g svc_sys \<Rightarrow> ret \<times> 'g svc_sys" where
  "DevSvcManagerStubDispatch E stub_ok code data s =
     (if \<not> stub_ok then (HDF_FAILURE, s)
      else
        (case code of
           DEVSVC_MANAGER_ADD_SERVICE \<Rightarrow> DevSvcManagerStubAddService E data s
         | DEVSVC_MANAGER_UPDATE_SERVICE \<Rightarrow> DevSvcManagerStubUpdateService E data s
         | DEVSVC_MANAGER_GET_SERVICE \<Rightarrow> DevSvcManagerStubGetService E data s
         | DEVSVC_MANAGER_REMOVE_SERVICE \<Rightarrow> DevSvcManagerStubRemoveService E data s
         | DEVSVC_MANAGER_REGISTER_SVCLISTENER \<Rightarrow> DevSvcManagerStubRegisterServListener E data s
         | DEVSVC_MANAGER_UNREGISTER_SVCLISTENER \<Rightarrow> DevSvcManagerStubUnregisterServListener E data s
         | DEVSVC_MANAGER_LIST_ALL_SERVICE \<Rightarrow> DevSvcManagerStubListAllService E data s
         | DEVSVC_MANAGER_OTHER \<Rightarrow> (HDF_FAILURE, s)))"

subsection \<open>The death of a service\<close>

text \<open>The methods of the manager are set, as \<open>DevSvcManagerConstruct\<close> leaves them.\<close>

definition DevSvcManagerOnServiceDied :: "'g svc_env \<Rightarrow> nat \<Rightarrow> 'g svc_sys \<Rightarrow> 'g svc_sys" where
  "DevSvcManagerOnServiceDied E remote s =
     (case sv_target s remote of None \<Rightarrow> s | Some p \<Rightarrow>
       (case sv_objs s p of None \<Rightarrow> sv_bad s | Some ob \<Rightarrow>
         (case so_priv ob of None \<Rightarrow> s | Some (_, serviceName) \<Rightarrow>
           (let s1 = (if mgr_GetService E (sv_mgr s) (sv_service s) serviceName = Some remote
                      then s\<lparr>sv_mgr := mgr_RemoveService E (sv_mgr s) serviceName\<rparr> else s)
            in ReleaseServiceObject E (Some p) s1))))"

subsection \<open>Starting and stopping the stub\<close>

definition DevSvcManagerStubStart :: "'g svc_env \<Rightarrow> bool \<Rightarrow> 'g svc_sys \<Rightarrow> ret \<times> 'g svc_sys" where
  "DevSvcManagerStubStart E inst_ok s =
     (if \<not> inst_ok then (HDF_ERR_INVALID_PARAM, s)
      else if sv_started s then (HDF_SUCCESS, s)
      else
        (let s1 = s\<lparr>sv_lh := ServStatListenerHolderinit E (sv_lh s)\<rparr>;
             s2 = (snd (sv_call E StubObtain s1))\<lparr>sv_remote := sv_obtain E (sv_ev s1)\<rparr> in
         case sv_remote s2 of None \<Rightarrow> (HDF_ERR_MALLOC_FAIL, s2) | Some r \<Rightarrow>
           (case sv_call E (StubSetDesc r) s2 of (d, s3) \<Rightarrow>
              if d = 0 then (HDF_ERR_INVALID_OBJECT, s3)
              else
                (case sv_call E (StubRegister r) s3 of (n, s4) \<Rightarrow>
                   if n \<noteq> 0
                   then (ret_of n, (snd (sv_call E (SvcRecycle (Some r)) s4))\<lparr>sv_remote := None\<rparr>)
                   else (ret_of n, s4\<lparr>sv_started := True\<rparr>)))))"

definition DevSvcManagerStubConstruct :: "'g svc_env \<Rightarrow> bool \<Rightarrow> 'g svc_sys \<Rightarrow> bool \<times> 'g svc_sys" where
  "DevSvcManagerStubConstruct E inst_ok s =
     (if \<not> inst_ok then (False, s)
      else (case sv_call E SvcConstruct s of (r, s1) \<Rightarrow> (r \<noteq> 0, s1)))"

definition DevSvcManagerStubCreate :: "'g svc_env \<Rightarrow> 'g svc_sys \<Rightarrow> nat option \<times> 'g svc_sys" where
  "DevSvcManagerStubCreate E s =
     (if sv_instance s \<noteq> None then (sv_instance s, s)
      else
        (case OsalMemCalloc E (Objs ''DevSvcManagerStub'' 1) (sv_lh s) of (p, h) \<Rightarrow>
          (case DevSvcManagerStubConstruct E (p \<noteq> None) (s\<lparr>sv_lh := h, sv_instance := p\<rparr>) of (ok, s1) \<Rightarrow>
             if ok then (p, s1)
             else (None, s1\<lparr>sv_lh := OsalMemFree p (sv_lh s1), sv_instance := None\<rparr>))))"

text \<open>
  The code casts the object to \<open>DevmgrServiceStub\<close> and uses the field \<open>remote\<close> of that type; it is
  taken as the field \<open>remote\<close> of the stub.
\<close>

definition DevSvcManagerStubRelease :: "'g svc_env \<Rightarrow> bool \<Rightarrow> 'g svc_sys \<Rightarrow> 'g svc_sys" where
  "DevSvcManagerStubRelease E object_ok s =
     (if object_ok \<and> sv_remote s \<noteq> None
      then (snd (sv_call E (SvcRecycle (sv_remote s)) s))\<lparr>sv_remote := None\<rparr> else s)"

end
