(* ===== verification/Svc_Manager_Inv.thy ===== *)
theory Svc_Manager_Inv
  imports Svc_Manager
begin

text \<open>
  The invariant of the service manager's stub: its objects are live, one per published service, and
  their remote objects are the ones whose death it watches. Every request and every death keeps it.
\<close>

subsection \<open>Listener lists with repeated indices\<close>

text \<open>A client may register twice, so the indices in the list need not differ here.\<close>

definition lh_live :: "lh_sys \<Rightarrow> bool" where
  "lh_live h \<longleftrightarrow>
     heap_ok h \<and> distinct (g_list h) \<and> set (g_list h) \<subseteq> heap_dom h \<and>
     (\<forall>p \<in> set (g_list h). \<exists>x. lh_holders h p = Some x \<and> lh_linked x)"

lemma lh_live_Create_None:
  assumes "lh_live h" and c: "ServStatListenerHolderCreate E (Some r) cl h = (None, h')"
  shows "lh_live h'"
proof -
  have ok: "heap_ok h"
    using assms(1) by (simp add: lh_live_def)
  have "heap_ok h'"
    using c ok heap_ok_fresh [OF ok]
    by (auto simp: ServStatListenerHolderCreate_def alloc_eqs lh_call_eq OsalMemFree_def LOS_MemFree_def
        heap_ok_def Let_def split: if_splits option.splits)
  then show ?thesis
    using assms(1) Create_NoneD [OF ok c] by (simp add: lh_live_def)
qed

lemma lh_live_Create_Some:
  assumes "lh_live h" and c: "ServStatListenerHolderCreate E (Some r) cl h = (Some p, h')"
  shows "lh_live h'" and "p = h_next h" and "h_bad h' = h_bad h" and "h_blk h' = (h_blk h)(p \<mapsto> [])"
    and "set (g_list h') = insert p (set (g_list h))"
proof -
  note C = Create_SomeD [OF c]
  have "h_blk h (h_next h) = None"
    using assms(1) by (simp add: lh_live_def heap_ok_fresh)
  then have "p \<notin> set (g_list h)"
    using assms(1) C(1) by (auto simp: lh_live_def)
  then show "lh_live h'"
    using assms(1) C(1-5) by (auto simp: lh_live_def heap_ok_def)
qed (use Create_SomeD [OF c] in auto)

lemma lh_live_Release:
  fixes E :: "('m) lh_env_scheme"
  assumes l: "lh_live h" and p: "p \<in> set (g_list h)"
  defines "h' \<equiv> ServStatListenerHolderRelease E (Some p) h"
  shows "lh_live h'" and "h_bad h' = h_bad h" and "h_blk h' = (h_blk h)(p := None)"
    and "set (g_list h') = set (g_list h) - {p}" and "h_next h' = h_next h"
proof -
  obtain x bs where x: "lh_holders h p = Some x" "lh_linked x" "h_blk h p = Some bs"
    using l p unfolding lh_live_def by (metis domD subsetD)
  note R = Release_eq [OF x, of E, folded h'_def]
  show "h_bad h' = h_bad h" "h_blk h' = (h_blk h)(p := None)" "h_next h' = h_next h"
    using R by simp_all
  have d: "distinct (g_list h)"
    using l by (simp add: lh_live_def)
  then show g: "set (g_list h') = set (g_list h) - {p}"
    using R(1) by simp
  show "lh_live h'"
    using l d g R by (auto simp: lh_live_def heap_ok_def)
qed

lemma lh_live_Get:
  assumes "lh_live h" and "ServStatListenerHolderGet E i h = (r, h')"
  shows "lh_live h'" and "h_bad h' = h_bad h" and "h_blk h' = h_blk h" and "g_list h' = g_list h"
    and "r = Some p \<Longrightarrow> p \<in> set (g_list h)"
  using assms find_index_SomeD [of i h]
  by (auto simp: ServStatListenerHolderGet_def lh_live_def heap_ok_def)

subsection \<open>Calls\<close>

lemma sv_call_eq: "sv_call E c s = (sv_api E (sv_ev s) c, s\<lparr>sv_ev := sv_ev s @ [(c, sv_api E (sv_ev s) c)]\<rparr>)"
  by (simp add: sv_call_def Let_def)

text \<open>The remote objects whose death the stub has asked to be told of.\<close>

fun watch_step :: "nat set \<Rightarrow> svc_ev \<times> int \<Rightarrow> nat set" where
  "watch_step w (AddDeathRecipient r, _) = insert r w"
| "watch_step w (RemoveDeathRecipient (Some r), _) = w - {r}"
| "watch_step w _ = w"

definition watched :: "'g svc_sys \<Rightarrow> nat set" where
  "watched s = foldl watch_step {} (sv_ev s)"

text \<open>
  What the manager of the framework promises: a service that is added or updated is found, one
  that is removed is not, other names are not affected, and \<open>GetService\<close> is the \<open>service\<close> pointer
  of the object that is found.
\<close>

definition mgr_contract :: "'g svc_env \<Rightarrow> bool" where
  "mgr_contract E \<longleftrightarrow>
     (\<forall>g n c p i. mgr_GetObject E (snd (mgr_AddService E g n c p i)) =
        (if fst (mgr_AddService E g n c p i) = HDF_SUCCESS
         then (mgr_GetObject E g)(n \<mapsto> p) else mgr_GetObject E g)) \<and>
     (\<forall>g n c p i. mgr_GetObject E (snd (mgr_UpdateService E g n c p i)) =
        (if fst (mgr_UpdateService E g n c p i) = HDF_SUCCESS
         then (mgr_GetObject E g)(n \<mapsto> p) else mgr_GetObject E g)) \<and>
     (\<forall>g n. mgr_GetObject E (mgr_RemoveService E g n) = (mgr_GetObject E g)(n := None)) \<and>
     (\<forall>g p. mgr_GetObject E (snd (mgr_RegsterServListener E g p)) = mgr_GetObject E g) \<and>
     (\<forall>g p. mgr_GetObject E (mgr_UnregsterServListener E g p) = mgr_GetObject E g) \<and>
     (\<forall>g f n. mgr_GetService E g f n = Option.bind (mgr_GetObject E g n) f)"

lemma mgr_contractD:
  assumes "mgr_contract E"
  shows "mgr_AddService E g n c p i = (r, g') \<Longrightarrow>
      mgr_GetObject E g' = (if r = HDF_SUCCESS then (mgr_GetObject E g)(n \<mapsto> p) else mgr_GetObject E g)"
    and "mgr_UpdateService E g n c p i = (r, g') \<Longrightarrow>
      mgr_GetObject E g' = (if r = HDF_SUCCESS then (mgr_GetObject E g)(n \<mapsto> p) else mgr_GetObject E g)"
    and "mgr_GetObject E (mgr_RemoveService E g n) = (mgr_GetObject E g)(n := None)"
    and "mgr_RegsterServListener E g p = (r, g') \<Longrightarrow> mgr_GetObject E g' = mgr_GetObject E g"
    and "mgr_GetObject E (mgr_UnregsterServListener E g p) = mgr_GetObject E g"
    and "mgr_GetService E g f n = Option.bind (mgr_GetObject E g n) f"
  using assms unfolding mgr_contract_def by (metis fst_conv snd_conv)+

subsection \<open>The invariant\<close>

definition obj_ok :: "'g svc_sys \<Rightarrow> nat \<Rightarrow> HdfDeviceObject \<Rightarrow> bool" where
  "obj_ok s p ob \<longleftrightarrow>
     (\<exists>q n r. ob = \<lparr>so_priv = Some (q, n), so_service = Some r\<rparr> \<and>
        sv_target s r = Some p \<and> q \<notin> dom (sv_objs s) \<and>
        {p, q} \<subseteq> heap_dom (sv_lh s) \<and> {p, q} \<inter> set (g_list (sv_lh s)) = {})"

definition name_blk :: "'g svc_sys \<Rightarrow> nat \<Rightarrow> nat option" where
  "name_blk s p = map_option fst (Option.bind (sv_objs s p) so_priv)"

definition obj_name :: "'g svc_sys \<Rightarrow> nat \<Rightarrow> string option" where
  "obj_name s p = map_option snd (Option.bind (sv_objs s p) so_priv)"

definition svc_struct :: "'g svc_sys \<Rightarrow> bool" where
  "svc_struct s \<longleftrightarrow>
     lh_live (sv_lh s) \<and> \<not> h_bad (sv_lh s) \<and>
     (\<forall>p ob. sv_objs s p = Some ob \<longrightarrow> obj_ok s p ob) \<and>
     inj_on (name_blk s) (dom (sv_objs s)) \<and>
     watched s = ran (sv_service s)"

text \<open>The manager's table and the objects of the stub agree.\<close>

definition svc_ok :: "'g svc_env \<Rightarrow> 'g svc_sys \<Rightarrow> bool" where
  "svc_ok E s \<longleftrightarrow>
     svc_struct s \<and> (\<forall>n p. mgr_GetObject E (sv_mgr s) n = Some p \<longleftrightarrow> obj_name s p = Some n)"

lemma svc_structD:
  assumes "svc_struct s" and "sv_objs s p = Some ob"
  obtains q n r where "ob = \<lparr>so_priv = Some (q, n), so_service = Some r\<rparr>"
    and "sv_target s r = Some p" and "q \<notin> dom (sv_objs s)" and "p \<noteq> q"
    and "p \<in> heap_dom (sv_lh s)" and "q \<in> heap_dom (sv_lh s)"
    and "p \<notin> set (g_list (sv_lh s))" and "q \<notin> set (g_list (sv_lh s))"
proof -
  have "obj_ok s p ob"
    using assms by (simp add: svc_struct_def)
  moreover have "p \<in> dom (sv_objs s)"
    using assms(2) by auto
  ultimately show thesis
    unfolding obj_ok_def by (elim exE conjE) (rule that, auto)
qed

lemma ran_del:
  assumes a: "m a = Some b" and one: "\<And>i. m i = Some b \<Longrightarrow> i = a"
  shows "ran (m(a := None)) = ran m - {b}"
proof (intro equalityI subsetI)
  fix x
  assume "x \<in> ran (m(a := None))"
  then obtain i where "i \<noteq> a" "m i = Some x"
    by (auto simp: ran_def split: if_splits)
  then show "x \<in> ran m - {b}"
    using one by (auto intro: ranI)
next
  fix x
  assume "x \<in> ran m - {b}"
  then obtain i where "m i = Some x" "x \<noteq> b"
    by (auto simp: ran_def)
  then have "(m(a := None)) i = Some x"
    using a by auto
  then show "x \<in> ran (m(a := None))"
    by (rule ranI)
qed

lemma Obtain_Some:
  assumes S: "svc_struct s" and r: "r \<notin> watched s"
    and o: "ObtainServiceObject E n r s = (Some p, s')"
  shows "svc_struct s'" and "obj_name s' = (obj_name s)(p \<mapsto> n)" and "obj_name s p = None"
    and "sv_service s' = (sv_service s)(p \<mapsto> r)" and "sv_mgr s' = sv_mgr s"
proof -
  let ?h = "sv_lh s"
  have ok: "heap_ok ?h" and lv: "lh_live ?h"
    using S by (simp_all add: svc_struct_def lh_live_def)
  have p: "p = h_next ?h" and h': "sv_lh s' = ?h\<lparr>h_next := Suc (Suc p),
      h_blk := (h_blk ?h)(p \<mapsto> [], Suc p \<mapsto> replicate (Suc (length n)) 0)\<rparr>"
    and ob': "sv_objs s' = (sv_objs s)(p \<mapsto> \<lparr>so_priv = Some (Suc p, n), so_service = Some r\<rparr>)"
    and t': "sv_target s' = (sv_target s)(r \<mapsto> p)" and m': "sv_mgr s' = sv_mgr s"
    and e': "watched s' = insert r (watched s)"
    using o by (auto simp: ObtainServiceObject_def alloc_eqs sv_call_eq watched_def split: if_splits)
  show "sv_mgr s' = sv_mgr s" by (rule m')
  have fr: "h_blk ?h i = None" if "i \<ge> p" for i
    using ok that p by (simp add: heap_ok_def)
  have old: "sv_objs s i = None" "i \<notin> set (g_list ?h)" if "i \<ge> p" for i
  proof -
    show "sv_objs s i = None"
    proof (rule ccontr)
      assume "sv_objs s i \<noteq> None"
      then obtain x where x: "sv_objs s i = Some x" by auto
      show False
        using fr [OF that] by (rule_tac svc_structD [OF S x]) auto
    qed
    show "i \<notin> set (g_list ?h)"
      using lv fr [OF that] by (auto simp: lh_live_def)
  qed
  show sv: "sv_service s' = (sv_service s)(p \<mapsto> r)"
    by (auto simp: sv_service_def ob' fun_eq_iff)
  show "obj_name s' = (obj_name s)(p \<mapsto> n)"
    by (auto simp: obj_name_def ob' fun_eq_iff)
  show "obj_name s p = None"
    using old(1) [of p] by (simp add: obj_name_def)
  have lv': "lh_live (sv_lh s')"
    using lv old(2) p by (auto simp: h' lh_live_def heap_ok_def)
  have objs: "obj_ok s' i x" if x: "sv_objs s' i = Some x" for i x
  proof (cases "i = p")
    case True
    then show ?thesis
      using x old [of p] old [of "Suc p"] by (auto simp: obj_ok_def ob' h' t')
  next
    case False
    then have x0: "sv_objs s i = Some x"
      using x ob' by simp
    have si: "sv_service s i \<noteq> Some r"
      using r S by (auto simp: svc_struct_def ran_def)
    show ?thesis
    proof (rule svc_structD [OF S x0])
      fix q m z
      assume q: "x = \<lparr>so_priv = Some (q, m), so_service = Some z\<rparr>" "sv_target s z = Some i"
        "q \<notin> dom (sv_objs s)" "i \<in> heap_dom ?h" "q \<in> heap_dom ?h" "i \<notin> set (g_list ?h)" "q \<notin> set (g_list ?h)"
      have "z \<noteq> r"
        using si x0 q(1) by (simp add: sv_service_def)
      moreover have "q \<noteq> p"
        using fr [of p] q(5) by auto
      ultimately show ?thesis
        using q by (auto simp: obj_ok_def ob' h' t')
    qed
  qed
  have nb: "name_blk s' = (name_blk s)(p \<mapsto> Suc p)"
    by (auto simp: name_blk_def ob' fun_eq_iff)
  have nbs: "name_blk s i \<noteq> Some (Suc p)" if "i \<in> dom (sv_objs s)" for i
  proof -
    from that obtain x where x: "sv_objs s i = Some x" by auto
    show ?thesis
      using fr [of "Suc p"] x by (rule_tac svc_structD [OF S x]) (auto simp: name_blk_def)
  qed
  have "inj_on (name_blk s') (dom (sv_objs s'))"
    using S nbs nbs [THEN not_sym] by (auto simp: svc_struct_def inj_on_def nb ob')
  moreover have "watched s' = ran (sv_service s')"
    using S old(1) [of p] by (simp add: svc_struct_def e' sv) (simp add: sv_service_def)
  moreover have "\<not> h_bad (sv_lh s')"
    using S by (simp add: svc_struct_def h')
  ultimately show "svc_struct s'"
    using lv' objs by (simp add: svc_struct_def)
qed

lemma Obtain_None:
  assumes S: "svc_struct s" and o: "ObtainServiceObject E n r s = (None, s')"
  shows "svc_struct s'" and "obj_name s' = obj_name s" and "sv_service s' = sv_service s"
    and "sv_mgr s' = sv_mgr s" and "sv_ev s' = sv_ev s"
proof -
  let ?h = "sv_lh s"
  have ok: "heap_ok ?h" and lv: "lh_live ?h"
    using S by (simp_all add: svc_struct_def lh_live_def)
  have e: "sv_objs s' = sv_objs s" "sv_target s' = sv_target s" "sv_mgr s' = sv_mgr s" "sv_ev s' = sv_ev s"
    "h_blk (sv_lh s') = h_blk ?h" "h_bad (sv_lh s') = h_bad ?h" "h_next (sv_lh s') \<ge> h_next ?h"
    "g_list (sv_lh s') = g_list ?h" "lh_holders (sv_lh s') = lh_holders ?h"
    using o ok heap_ok_fresh [OF ok]
    by (auto simp: ObtainServiceObject_def alloc_eqs OsalMemFree_def LOS_MemFree_def split: if_splits)
  show m: "sv_mgr s' = sv_mgr s" "sv_ev s' = sv_ev s" "obj_name s' = obj_name s" "sv_service s' = sv_service s"
    using e by (simp_all add: obj_name_def sv_service_def fun_eq_iff)
  have "lh_live (sv_lh s')"
    using lv e by (auto simp: lh_live_def heap_ok_def)
  then show "svc_struct s'"
    using S e m(4) by (simp add: svc_struct_def obj_ok_def name_blk_def watched_def inj_on_def)
qed

lemma Release_Some:
  fixes E :: "'g svc_env"
  assumes S: "svc_struct s" and p: "sv_service s p = Some r"
  defines "s' \<equiv> ReleaseServiceObject E (Some p) s"
  shows "svc_struct s'" and "obj_name s' = (obj_name s)(p := None)"
    and "sv_service s' = (sv_service s)(p := None)" and "sv_mgr s' = sv_mgr s"
    and "\<exists>a b. sv_ev s' = sv_ev s @ [(RemoveDeathRecipient (Some r), a), (SvcRecycle (Some r), b)]"
proof -
  let ?h = "sv_lh s"
  from p obtain ob where ob: "sv_objs s p = Some ob" "so_service ob = Some r"
    by (auto simp: sv_service_def bind_eq_Some_conv)
  from svc_structD [OF S ob(1)] ob(2)
  obtain q n where q: "ob = \<lparr>so_priv = Some (q, n), so_service = Some r\<rparr>" "sv_target s r = Some p"
      "q \<notin> dom (sv_objs s)" "p \<noteq> q" "p \<in> heap_dom ?h" "q \<in> heap_dom ?h"
      "p \<notin> set (g_list ?h)" "q \<notin> set (g_list ?h)"
    by (metis HdfDeviceObject.select_convs(2) option.inject)
  have h': "sv_lh s' = ?h\<lparr>h_blk := (h_blk ?h)(q := None, p := None)\<rparr>" "sv_objs s' = (sv_objs s)(p := None)"
    "sv_target s' = sv_target s" "sv_mgr s' = sv_mgr s"
    and e: "\<exists>a b. sv_ev s' = sv_ev s @ [(RemoveDeathRecipient (Some r), a), (SvcRecycle (Some r), b)]"
    using q ob(1)
    by (auto simp: s'_def ReleaseServiceObject_def sv_call_eq OsalMemFree_def LOS_MemFree_def)
  show "sv_mgr s' = sv_mgr s" by (rule h')
  show "\<exists>a b. sv_ev s' = sv_ev s @ [(RemoveDeathRecipient (Some r), a), (SvcRecycle (Some r), b)]"
    by (rule e)
  show sv: "sv_service s' = (sv_service s)(p := None)"
    by (auto simp: sv_service_def h' fun_eq_iff)
  show "obj_name s' = (obj_name s)(p := None)"
    by (auto simp: obj_name_def h' fun_eq_iff)
  have nbp: "name_blk s p = Some q"
    using ob(1) q(1) by (simp add: name_blk_def)
  have objs: "obj_ok s' i x" if i: "sv_objs s' i = Some x" for i x
  proof -
    from i have x0: "sv_objs s i = Some x" and ne: "i \<noteq> p"
      by (auto simp: h' split: if_splits)
    show ?thesis
    proof (rule svc_structD [OF S x0])
      fix q' m z
      assume a: "x = \<lparr>so_priv = Some (q', m), so_service = Some z\<rparr>" "sv_target s z = Some i"
        "q' \<notin> dom (sv_objs s)" "i \<in> heap_dom ?h" "q' \<in> heap_dom ?h" "i \<notin> set (g_list ?h)" "q' \<notin> set (g_list ?h)"
      have "name_blk s i = Some q'"
        using x0 a(1) by (simp add: name_blk_def)
      moreover have "name_blk s i \<noteq> name_blk s p"
        using S x0 ob(1) ne unfolding svc_struct_def inj_on_def by blast
      ultimately have "q' \<noteq> q"
        using nbp by auto
      moreover have "q' \<noteq> p" "i \<noteq> q"
        using a(3) q(3) ob(1) x0 by auto
      ultimately show ?thesis
        using a ne by (auto simp: obj_ok_def h')
    qed
  qed
  have w: "watched s' = watched s - {r}"
    using e by (auto simp: watched_def)
  have one: "i = p" if i: "sv_service s i = Some r" for i
  proof -
    from i obtain x where x: "sv_objs s i = Some x" "so_service x = Some r"
      by (auto simp: sv_service_def bind_eq_Some_conv)
    show ?thesis
      by (rule svc_structD [OF S x(1)]) (use x(2) q(2) in simp)
  qed
  have "watched s' = ran (sv_service s')"
    using S ran_del [of "sv_service s" p r, OF p one] by (simp add: svc_struct_def w sv)
  moreover have "inj_on (name_blk s') (dom (sv_objs s'))"
    using S by (auto simp: svc_struct_def inj_on_def name_blk_def h')
  moreover have "lh_live (sv_lh s')"
    using S q by (auto simp: svc_struct_def lh_live_def heap_ok_def h')
  moreover have "\<not> h_bad (sv_lh s')"
    using S by (simp add: svc_struct_def h')
  ultimately show "svc_struct s'"
    using objs by (simp add: svc_struct_def)
qed

subsection \<open>Every step keeps the invariant\<close>

lemma sv_views_mgr [simp]:
  "obj_name (s\<lparr>sv_mgr := g\<rparr>) = obj_name s" "sv_service (s\<lparr>sv_mgr := g\<rparr>) = sv_service s"
  "watched (s\<lparr>sv_mgr := g\<rparr>) = watched s"
  by (simp_all add: obj_name_def sv_service_def watched_def fun_eq_iff)

lemma sv_views_lh [simp]:
  "obj_name (s\<lparr>sv_lh := h\<rparr>) = obj_name s" "sv_service (s\<lparr>sv_lh := h\<rparr>) = sv_service s"
  "watched (s\<lparr>sv_lh := h\<rparr>) = watched s"
  by (simp_all add: obj_name_def sv_service_def watched_def fun_eq_iff)

lemma svc_struct_mgr [simp]: "svc_struct (s\<lparr>sv_mgr := g\<rparr>) = svc_struct s"
  by (simp add: svc_struct_def obj_ok_def name_blk_def inj_on_def)

definition quiet :: "svc_ev \<Rightarrow> bool" where
  "quiet c \<longleftrightarrow> (case c of AddDeathRecipient _ \<Rightarrow> False | RemoveDeathRecipient _ \<Rightarrow> False | _ \<Rightarrow> True)"

lemma sv_call_quiet:
  assumes "quiet c"
  shows "svc_struct (snd (sv_call E c s)) = svc_struct s" and "obj_name (snd (sv_call E c s)) = obj_name s"
    and "sv_service (snd (sv_call E c s)) = sv_service s" and "sv_mgr (snd (sv_call E c s)) = sv_mgr s"
proof -
  have "watch_step w (c, x) = w" for w x
    using assms by (cases c) (auto simp: quiet_def)
  then have w: "watched (snd (sv_call E c s)) = watched s"
    by (simp add: sv_call_eq watched_def)
  show v: "obj_name (snd (sv_call E c s)) = obj_name s" "sv_service (snd (sv_call E c s)) = sv_service s"
    "sv_mgr (snd (sv_call E c s)) = sv_mgr s"
    by (simp_all add: sv_call_eq obj_name_def sv_service_def fun_eq_iff)
  show "svc_struct (snd (sv_call E c s)) = svc_struct s"
    using w v(2) by (simp add: svc_struct_def obj_ok_def name_blk_def inj_on_def) (simp add: sv_call_eq)
qed

lemma struct_lh:
  assumes S: "svc_struct s" and h: "lh_live h" "\<not> h_bad h"
    and keep: "\<And>x. x \<in> heap_dom (sv_lh s) \<Longrightarrow> x \<notin> set (g_list (sv_lh s)) \<Longrightarrow>
      x \<in> heap_dom h \<and> x \<notin> set (g_list h)"
  shows "svc_struct (s\<lparr>sv_lh := h\<rparr>)"
proof -
  have "obj_ok (s\<lparr>sv_lh := h\<rparr>) p ob" if "sv_objs s p = Some ob" for p ob
    by (rule svc_structD [OF S that]) (use keep in \<open>auto simp: obj_ok_def\<close>)
  then show ?thesis
    using S h by (simp add: svc_struct_def name_blk_def inj_on_def)
qed

lemma named_service:
  assumes S: "svc_struct s" and n: "obj_name s p = Some n"
  shows "\<exists>r. sv_service s p = Some r \<and> sv_target s r = Some p"
proof -
  from n obtain ob where ob: "sv_objs s p = Some ob"
    by (auto simp: obj_name_def bind_eq_Some_conv)
  show ?thesis
    by (rule svc_structD [OF S ob]) (auto simp: sv_service_def ob)
qed

text \<open>Publishing under a name: the table and the objects change together.\<close>

lemma publish:
  assumes S: "svc_struct s1" "obj_name s1 = (obj_name s)(p \<mapsto> n)" "obj_name s p = None"
    and tab: "\<And>n p. pub n = Some p \<longleftrightarrow> obj_name s p = Some n"
    and r: "sv_service s1 p = Some r"
  shows "svc_struct (ReleaseServiceObject E (pub n) s1)"
    and "((pub(n \<mapsto> p)) m = Some i) = (obj_name (ReleaseServiceObject E (pub n) s1) i = Some m)"
    and "svc_struct (ReleaseServiceObject E (Some p) s1)"
    and "(pub m = Some i) = (obj_name (ReleaseServiceObject E (Some p) s1) i = Some m)"
    and "sv_mgr (ReleaseServiceObject E (pub n) s1) = sv_mgr s1"
    and "sv_mgr (ReleaseServiceObject E (Some p) s1) = sv_mgr s1"
proof -
  note R = Release_Some [OF S(1) r, of E]
  show "svc_struct (ReleaseServiceObject E (Some p) s1)" "sv_mgr (ReleaseServiceObject E (Some p) s1) = sv_mgr s1"
    by (rule R)+
  show "(pub m = Some i) = (obj_name (ReleaseServiceObject E (Some p) s1) i = Some m)"
    using tab S(3) by (simp add: R(2) S(2))
  have "svc_struct (ReleaseServiceObject E (pub n) s1) \<and> sv_mgr (ReleaseServiceObject E (pub n) s1) = sv_mgr s1
    \<and> obj_name (ReleaseServiceObject E (pub n) s1) =
        (case pub n of None \<Rightarrow> obj_name s1 | Some old \<Rightarrow> (obj_name s1)(old := None))"
  proof (cases "pub n")
    case None
    then show ?thesis
      using S(1) by (simp add: ReleaseServiceObject_def)
  next
    case (Some old)
    have "obj_name s1 old = Some n"
      using Some tab S(2,3) by auto
    then obtain r' where "sv_service s1 old = Some r'"
      using named_service [OF S(1)] by auto
    from Release_Some [OF S(1) this, of E] show ?thesis
      using Some by simp
  qed
  then have o1: "svc_struct (ReleaseServiceObject E (pub n) s1)"
    "sv_mgr (ReleaseServiceObject E (pub n) s1) = sv_mgr s1"
    and o: "obj_name (ReleaseServiceObject E (pub n) s1) =
        (case pub n of None \<Rightarrow> obj_name s1 | Some old \<Rightarrow> (obj_name s1)(old := None))"
    by blast+
  show "svc_struct (ReleaseServiceObject E (pub n) s1)"
    "sv_mgr (ReleaseServiceObject E (pub n) s1) = sv_mgr s1"
    by (rule o1)+
  show "((pub(n \<mapsto> p)) m = Some i) = (obj_name (ReleaseServiceObject E (pub n) s1) i = Some m)"
  proof (cases "pub n")
    case None
    then have "obj_name s i \<noteq> Some n"
      using tab [of n i] by simp
    then show ?thesis
      unfolding o using None S(2,3) tab [of m i] by auto
  next
    case (Some old)
    then have "obj_name s old = Some n" "obj_name s i = Some n \<longleftrightarrow> i = old"
      using tab [of n old] tab [of n i] by auto
    then show ?thesis
      unfolding o using Some S(2,3) tab [of m i] by auto
  qed
qed

definition fresh_request :: "'g svc_sys \<Rightarrow> svc_request \<Rightarrow> bool" where
  "fresh_request s data \<longleftrightarrow> (case rq_service data of None \<Rightarrow> True | Some r \<Rightarrow> r \<notin> watched s)"

lemma svc_okD:
  assumes "svc_ok E s"
  shows "svc_struct s" and "mgr_GetObject E (sv_mgr s) n = Some p \<longleftrightarrow> obj_name s p = Some n"
  using assms by (simp_all add: svc_ok_def)

lemma svc_ok_published:
  assumes C: "mgr_contract E" and ok: "svc_ok E s" and r: "r \<notin> watched s"
    and o: "ObtainServiceObject E n r s = (Some p, s1)"
    and g: "mgr_GetObject E g = (if ret = HDF_SUCCESS then (mgr_GetObject E (sv_mgr s))(n \<mapsto> p)
                                 else mgr_GetObject E (sv_mgr s))"
  shows "svc_ok E (ReleaseServiceObject E (if ret \<noteq> HDF_SUCCESS then Some p else mgr_GetObject E (sv_mgr s) n)
           (s1\<lparr>sv_mgr := g\<rparr>))"
proof -
  note O = Obtain_Some [OF svc_okD(1) [OF ok] r o]
  have "svc_struct (s1\<lparr>sv_mgr := g\<rparr>)" "obj_name (s1\<lparr>sv_mgr := g\<rparr>) = (obj_name s)(p \<mapsto> n)"
    "sv_service (s1\<lparr>sv_mgr := g\<rparr>) p = Some r"
    using O by simp_all
  note P = publish [OF this(1,2) O(3) svc_okD(2) [OF ok] this(3), where E = E]
  show ?thesis
    using P g by (cases "ret = HDF_SUCCESS") (simp_all add: svc_ok_def)
qed

lemma AddService_ok:
  assumes C: "mgr_contract E" and ok: "svc_ok E s" and f: "fresh_request s data"
  shows "svc_ok E (snd (DevSvcManagerStubAddService E data s))"
proof -
  have O: "svc_ok E s1" if "ObtainServiceObject E n r s = (None, s1)" for n r s1
    using Obtain_None [OF svc_okD(1) [OF ok] that] ok by (simp add: svc_ok_def)
  have P: "svc_ok E (ReleaseServiceObject E (if ret \<noteq> HDF_SUCCESS then Some p else mgr_GetObject E (sv_mgr s1) n)
           (s1\<lparr>sv_mgr := g\<rparr>))"
    if "ObtainServiceObject E n r s = (Some p, s1)" "mgr_AddService E (sv_mgr s1) n c p i = (ret, g)"
      "rq_service data = Some r" for n r p s1 c i ret g
  proof -
    have r: "r \<notin> watched s"
      using f that(3) by (simp add: fresh_request_def)
    have m: "sv_mgr s1 = sv_mgr s"
      using Obtain_Some(5) [OF svc_okD(1) [OF ok] r that(1)] .
    show ?thesis
      unfolding m by (rule svc_ok_published [OF C ok r that(1) mgr_contractD(1) [OF C that(2) [unfolded m]]])
  qed
  show ?thesis
    using ok by (auto simp: DevSvcManagerStubAddService_def Let_def O P split: option.split prod.split)
qed

lemma UpdateService_ok:
  assumes C: "mgr_contract E" and ok: "svc_ok E s" and f: "fresh_request s data"
  shows "svc_ok E (snd (DevSvcManagerStubUpdateService E data s))"
proof -
  have O: "svc_ok E s1" if "ObtainServiceObject E n r s = (None, s1)" for n r s1
    using Obtain_None [OF svc_okD(1) [OF ok] that] ok by (simp add: svc_ok_def)
  have P: "svc_ok E (ReleaseServiceObject E (if ret \<noteq> HDF_SUCCESS then Some p else mgr_GetObject E (sv_mgr s) n)
           (s1\<lparr>sv_mgr := g\<rparr>))"
    if "ObtainServiceObject E n r s = (Some p, s1)" "mgr_UpdateService E (sv_mgr s1) n c p i = (ret, g)"
      "rq_service data = Some r" for n r p s1 c i ret g
  proof -
    have r: "r \<notin> watched s"
      using f that(3) by (simp add: fresh_request_def)
    have m: "sv_mgr s1 = sv_mgr s"
      using Obtain_Some(5) [OF svc_okD(1) [OF ok] r that(1)] .
    show ?thesis
      by (rule svc_ok_published [OF C ok r that(1) mgr_contractD(2) [OF C that(2) [unfolded m]]])
  qed
  show ?thesis
    using ok P
    by (auto simp: DevSvcManagerStubUpdateService_def Let_def O split: option.split prod.split)
qed

lemma svc_ok_unpublished:
  assumes C: "mgr_contract E" and ok: "svc_ok E s" and n: "obj_name s p = Some n"
  shows "svc_ok E (ReleaseServiceObject E (Some p) (s\<lparr>sv_mgr := mgr_RemoveService E (sv_mgr s) n\<rparr>))"
proof -
  let ?s = "s\<lparr>sv_mgr := mgr_RemoveService E (sv_mgr s) n\<rparr>"
  obtain r where "sv_service s p = Some r"
    using named_service [OF svc_okD(1) [OF ok] n] by blast
  then have R: "svc_struct (ReleaseServiceObject E (Some p) ?s)"
    "obj_name (ReleaseServiceObject E (Some p) ?s) = (obj_name s)(p := None)"
    "sv_mgr (ReleaseServiceObject E (Some p) ?s) = mgr_RemoveService E (sv_mgr s) n"
    using Release_Some [of ?s p r E] svc_okD(1) [OF ok] by simp_all
  have "((mgr_GetObject E (sv_mgr s))(n := None)) m = Some i \<longleftrightarrow> ((obj_name s)(p := None)) i = Some m" for m i
    using svc_okD(2) [OF ok, of m i] svc_okD(2) [OF ok, of n i] svc_okD(2) [OF ok, of n p] n by auto
  then show ?thesis
    using R mgr_contractD(3) [OF C] by (simp add: svc_ok_def)
qed

lemma RemoveService_ok:
  assumes C: "mgr_contract E" and ok: "svc_ok E s"
  shows "svc_ok E (snd (DevSvcManagerStubRemoveService E data s))"
proof -
  have live: "\<exists>ob q. sv_objs s p = Some ob \<and> so_priv ob = Some (q, n)"
    if "mgr_GetObject E (sv_mgr s) n = Some p" for n p
    using svc_okD(2) [OF ok, of n p] that by (auto simp: obj_name_def bind_eq_Some_conv)
  have "svc_ok E (ReleaseServiceObject E (Some p) (s\<lparr>sv_mgr := mgr_RemoveService E (sv_mgr s) n\<rparr>))"
    if "mgr_GetObject E (sv_mgr s) n = Some p" for n p
    using svc_ok_unpublished [OF C ok] svc_okD(2) [OF ok, of n p] that by simp
  then show ?thesis
    using ok live
    by (fastforce simp: DevSvcManagerStubRemoveService_def Let_def split: option.split)
qed

lemma svc_ok_quiet: "quiet c \<Longrightarrow> svc_ok E (snd (sv_call E c s)) = svc_ok E s"
  by (simp add: svc_ok_def sv_call_quiet)

lemma quiet_simps [simp]: "quiet (WriteRemote r)" "quiet ListAll" "quiet (SvcRecycle x)"
  by (simp_all add: quiet_def)

lemma GetService_ok: "svc_ok E s \<Longrightarrow> svc_ok E (snd (DevSvcManagerStubGetService E data s))"
  by (simp add: DevSvcManagerStubGetService_def Let_def svc_ok_quiet split: option.split)

lemma ListAll_ok: "svc_ok E s \<Longrightarrow> svc_ok E (snd (DevSvcManagerStubListAllService E data s))"
  by (simp add: DevSvcManagerStubListAllService_def Let_def svc_ok_quiet)

lemma svc_ok_lh:
  assumes ok: "svc_ok E s" and h: "lh_live h" "\<not> h_bad h"
    and keep: "\<And>x. x \<in> heap_dom (sv_lh s) \<Longrightarrow> x \<notin> set (g_list (sv_lh s)) \<Longrightarrow>
      x \<in> heap_dom h \<and> x \<notin> set (g_list h)"
    and g: "mgr_GetObject E g = mgr_GetObject E (sv_mgr s)"
  shows "svc_ok E (s\<lparr>sv_mgr := g, sv_lh := h\<rparr>)"
proof -
  have "svc_struct (s\<lparr>sv_mgr := g, sv_lh := h\<rparr>)"
    by (rule struct_lh) (use svc_okD(1) [OF ok] h keep in simp_all)
  then show ?thesis
    using ok g by (simp add: svc_ok_def)
qed

lemma svc_ok_lh_only:
  "svc_ok E s \<Longrightarrow> lh_live h \<Longrightarrow> \<not> h_bad h \<Longrightarrow>
   (\<And>x. x \<in> heap_dom (sv_lh s) \<Longrightarrow> x \<notin> set (g_list (sv_lh s)) \<Longrightarrow> x \<in> heap_dom h \<and> x \<notin> set (g_list h)) \<Longrightarrow>
   svc_ok E (s\<lparr>sv_lh := h\<rparr>)"
  using svc_ok_lh [of E s h "sv_mgr s"] by simp

lemma svc_ok_lhD: "svc_ok E s \<Longrightarrow> lh_live (sv_lh s) \<and> \<not> h_bad (sv_lh s)"
  by (simp add: svc_ok_def svc_struct_def)

lemma Register_ok:
  assumes C: "mgr_contract E" and ok: "svc_ok E s"
  shows "svc_ok E (snd (DevSvcManagerStubRegisterServListener E data s))"
proof -
  have lv: "lh_live (sv_lh s)" "\<not> h_bad (sv_lh s)"
    using svc_ok_lhD [OF ok] by auto
  have N: "svc_ok E (s\<lparr>sv_lh := h\<rparr>)"
    if c: "ServStatListenerHolderCreate E (Some r) cl (sv_lh s) = (None, h)" for r cl h
  proof -
    have "heap_ok (sv_lh s)"
      using lv by (simp add: lh_live_def)
    from Create_NoneD [OF this c] show ?thesis
      using lv lh_live_Create_None [OF lv(1) c] by (intro svc_ok_lh_only [OF ok]) simp_all
  qed
  have Y: "svc_ok E (s\<lparr>sv_mgr := g,
      sv_lh := (if ret \<noteq> HDF_SUCCESS then ServStatListenerHolderRelease E (Some p) h else h)\<rparr>)"
    if c: "ServStatListenerHolderCreate E (Some r) cl (sv_lh s) = (Some p, h)"
      and m: "mgr_RegsterServListener E (sv_mgr s) p = (ret, g)" for r cl p h ret g
  proof -
    note S = lh_live_Create_Some [OF lv(1) c]
    have "p \<in> set (g_list h)"
      using S(5) by simp
    note R = lh_live_Release [OF S(1) this, of E]
    have fr: "x \<noteq> p" if "x \<in> heap_dom (sv_lh s)" for x
      using that lv(1) S(2) heap_ok_fresh [of "sv_lh s"] by (auto simp: lh_live_def)
    show ?thesis
      by (rule svc_ok_lh [OF ok])
        (use S R lv fr mgr_contractD(4) [OF C m] in \<open>auto split: if_splits\<close>)
  qed
  show ?thesis
    using ok
    by (auto simp: DevSvcManagerStubRegisterServListener_def N Y split: option.split prod.split)
qed

lemma Unregister_ok:
  assumes C: "mgr_contract E" and ok: "svc_ok E s"
  shows "svc_ok E (snd (DevSvcManagerStubUnregisterServListener E data s))"
proof -
  have lv: "lh_live (sv_lh s)" "\<not> h_bad (sv_lh s)"
    using svc_ok_lhD [OF ok] by auto
  have N: "svc_ok E (s\<lparr>sv_lh := h\<rparr>)"
    if "ServStatListenerHolderGet E i (sv_lh s) = (None, h)" for i h
    by (rule svc_ok_lh_only [OF ok]) (use lh_live_Get [OF lv(1) that] lv in simp_all)
  have Y: "svc_ok E (s\<lparr>sv_mgr := mgr_UnregsterServListener E (sv_mgr s) p,
      sv_lh := ServStatListenerHolderRelease E (Some p) h\<rparr>)"
    if g: "ServStatListenerHolderGet E i (sv_lh s) = (Some p, h)" for i p h
  proof -
    note G = lh_live_Get [OF lv(1) g]
    have p: "p \<in> set (g_list h)"
      using G(4,5) by simp
    note R = lh_live_Release [OF G(1) p, of E]
    show ?thesis
      by (rule svc_ok_lh [OF ok])
        (use G R lv p mgr_contractD(5) [OF C] in auto)
  qed
  show ?thesis
    using ok
    by (auto simp: DevSvcManagerStubUnregisterServListener_def N Y svc_ok_quiet split: option.split prod.split)
qed

lemma Dispatch_ok:
  assumes "mgr_contract E" and "svc_ok E s" and "fresh_request s data"
  shows "svc_ok E (snd (DevSvcManagerStubDispatch E b code data s))"
  using assms
  by (cases code)
    (simp_all add: DevSvcManagerStubDispatch_def AddService_ok UpdateService_ok GetService_ok
      RemoveService_ok Register_ok Unregister_ok ListAll_ok)

lemma Died_ok:
  assumes C: "mgr_contract E" and ok: "svc_ok E s" and r: "r \<in> watched s"
  shows "svc_ok E (DevSvcManagerOnServiceDied E r s)"
proof -
  have S: "svc_struct s"
    by (rule svc_okD(1) [OF ok])
  obtain p where p: "sv_service s p = Some r"
    using r S by (auto simp: svc_struct_def ran_def)
  then obtain ob where ob: "sv_objs s p = Some ob"
    by (auto simp: sv_service_def bind_eq_Some_conv)
  obtain q n where q: "ob = \<lparr>so_priv = Some (q, n), so_service = Some r\<rparr>" "sv_target s r = Some p"
    by (rule svc_structD [OF S ob]) (use p ob in \<open>simp add: sv_service_def\<close>)
  have n: "obj_name s p = Some n"
    using ob q(1) by (simp add: obj_name_def)
  then have "mgr_GetService E (sv_mgr s) (sv_service s) n = Some r"
    using mgr_contractD(6) [OF C] svc_okD(2) [OF ok, of n p] p by simp
  then show ?thesis
    using svc_ok_unpublished [OF C ok n] ob q
    by (simp add: DevSvcManagerOnServiceDied_def Let_def)
qed

end
