(* ===== verification/Svc_Manager_Facts.thy ===== *)
theory Svc_Manager_Facts
  imports Svc_Manager_Inv
begin

text \<open>
  The stub keeps one live object per published service through any sequence of requests and
  deaths; who may change what; and requests whose failure is reported as success.
\<close>

subsection \<open>Runs of the service manager\<close>

text \<open>
  One step is a request, whose remote object (if it carries one) is not one the stub already
  watches, or the death of a watched service.
\<close>

inductive svc_step :: "'g svc_env \<Rightarrow> 'g svc_sys \<Rightarrow> 'g svc_sys \<Rightarrow> bool" for E where
  request: "fresh_request s data \<Longrightarrow> svc_step E s (snd (DevSvcManagerStubDispatch E b code data s))"
| died: "r \<in> watched s \<Longrightarrow> svc_step E s (DevSvcManagerOnServiceDied E r s)"

inductive_cases svc_stepE: "svc_step E s s'"

lemma svc_run_ok:
  assumes C: "mgr_contract E"
  shows "(svc_step E)\<^sup>*\<^sup>* s s' \<Longrightarrow> svc_ok E s \<Longrightarrow> svc_ok E s'"
  by (induction rule: rtranclp_induct) (auto elim!: svc_stepE simp: Dispatch_ok [OF C] Died_ok [OF C])

text \<open>
  C19. Through any sequence of requests to the service manager and deaths of services, nothing
  is used after it was freed or freed twice; every published service has a live object that
  carries its name, every object is published, and the watched remote objects are those of the
  published services.
\<close>

theorem svc_manager_safe:
  assumes "mgr_contract E" and "svc_ok E s" and "(svc_step E)\<^sup>*\<^sup>* s s'"
  shows "\<not> h_bad (sv_lh s')
    \<and> (\<forall>n p. mgr_GetObject E (sv_mgr s') n = Some p \<longrightarrow>
          (\<exists>q r. sv_objs s' p = Some \<lparr>so_priv = Some (q, n), so_service = Some r\<rparr>
             \<and> h_blk (sv_lh s') p \<noteq> None \<and> h_blk (sv_lh s') q \<noteq> None \<and> r \<in> watched s'))
    \<and> (\<forall>p ob. sv_objs s' p = Some ob \<longrightarrow> (\<exists>n. mgr_GetObject E (sv_mgr s') n = Some p))
    \<and> (\<forall>r \<in> watched s'. \<exists>n p. mgr_GetObject E (sv_mgr s') n = Some p \<and> sv_service s' p = Some r)"
proof -
  have ok: "svc_ok E s'"
    using svc_run_ok [OF assms(1,3,2)] .
  then have S: "svc_struct s'"
    by (rule svc_okD(1))
  have "\<exists>q r. sv_objs s' p = Some \<lparr>so_priv = Some (q, n), so_service = Some r\<rparr>
      \<and> h_blk (sv_lh s') p \<noteq> None \<and> h_blk (sv_lh s') q \<noteq> None \<and> r \<in> watched s'"
    if "mgr_GetObject E (sv_mgr s') n = Some p" for n p
  proof -
    have n: "obj_name s' p = Some n"
      using svc_okD(2) [OF ok, of n p] that by simp
    then obtain ob where ob: "sv_objs s' p = Some ob"
      by (auto simp: obj_name_def bind_eq_Some_conv)
    obtain r where "sv_service s' p = Some r"
      using named_service [OF S n] by blast
    then have "r \<in> watched s'"
      using S by (auto simp: svc_struct_def intro: ranI)
    then show ?thesis
      by (rule_tac svc_structD [OF S ob])
        (use n ob \<open>sv_service s' p = Some r\<close> in \<open>auto simp: obj_name_def sv_service_def\<close>)
  qed
  moreover have named: "\<exists>n. mgr_GetObject E (sv_mgr s') n = Some p" if "sv_objs s' p = Some ob" for p ob
    by (rule svc_structD [OF S that])
      (use svc_okD(2) [OF ok] that in \<open>auto simp: obj_name_def\<close>)
  moreover have "\<exists>n p. mgr_GetObject E (sv_mgr s') n = Some p \<and> sv_service s' p = Some r"
    if r: "r \<in> watched s'" for r
  proof -
    obtain p where p: "sv_service s' p = Some r"
      using S r by (auto simp: svc_struct_def ran_def)
    then obtain ob where "sv_objs s' p = Some ob"
      by (auto simp: sv_service_def bind_eq_Some_conv)
    then show ?thesis
      using named p by blast
  qed
  ultimately show ?thesis
    using svc_ok_lhD [OF ok] by blast
qed

subsection \<open>Who may change the table\<close>

lemma sv_mgr_frame [simp]:
  "sv_mgr (snd (ObtainServiceObject E n r s)) = sv_mgr s" "sv_mgr (ReleaseServiceObject E p s) = sv_mgr s"
  "sv_mgr (snd (sv_call E c s)) = sv_mgr s" "sv_mgr (sv_bad s) = sv_mgr s"
  by (auto simp: ObtainServiceObject_def ReleaseServiceObject_def sv_call_eq sv_bad_def Let_def
      split: option.splits prod.splits)

lemma request_keeps:
  assumes C: "mgr_contract E"
    and other: "\<not> (rq_token data \<and> rq_name data = Some n \<and> add_perm E (sv_ev s) n
      \<and> code \<in> {DEVSVC_MANAGER_ADD_SERVICE, DEVSVC_MANAGER_UPDATE_SERVICE, DEVSVC_MANAGER_REMOVE_SERVICE})"
  shows "mgr_GetObject E (sv_mgr (snd (DevSvcManagerStubDispatch E b code data s))) n = mgr_GetObject E (sv_mgr s) n"
proof -
  have o: "sv_mgr s1 = sv_mgr s" if "ObtainServiceObject E m r s = (x, s1)" for m r x s1
    using sv_mgr_frame(1) [of E m r s] that by simp
  show ?thesis
    using other mgr_contractD [OF C]
    by (cases code)
      (auto simp: DevSvcManagerStubDispatch_def DevSvcManagerStubAddService_def
        DevSvcManagerStubUpdateService_def DevSvcManagerStubGetService_def DevSvcManagerStubListAllService_def
        DevSvcManagerStubRemoveService_def DevSvcManagerStubRegisterServListener_def
        DevSvcManagerStubUnregisterServListener_def AddServicePermCheck_def Let_def
        dest: o split: if_splits option.splits prod.splits)
qed

text \<open>
  C21. A request changes what is published under a name only if it carries the interface token
  and that name, is an add, update or remove, and the caller has the permission to add that
  name.
\<close>

theorem svc_change_authorised:
  assumes C: "mgr_contract E"
    and change: "mgr_GetObject E (sv_mgr (snd (DevSvcManagerStubDispatch E b code data s))) n
      \<noteq> mgr_GetObject E (sv_mgr s) n"
  shows "rq_token data \<and> rq_name data = Some n \<and> add_perm E (sv_ev s) n
    \<and> code \<in> {DEVSVC_MANAGER_ADD_SERVICE, DEVSVC_MANAGER_UPDATE_SERVICE, DEVSVC_MANAGER_REMOVE_SERVICE}"
  using request_keeps [OF C] change by blast

subsection \<open>Failures reported as success\<close>

text \<open>
  An add or update whose class or remote object cannot be read, and a lookup of an unknown
  name, change nothing and are answered with HDF_SUCCESS.
\<close>

theorem svc_false_success:
  assumes "rq_token data" and "rq_name data = Some n"
  shows "(add_perm E (sv_ev s) n \<and> (rq_class data = None \<or> rq_service data = None) \<longrightarrow>
           DevSvcManagerStubDispatch E True DEVSVC_MANAGER_ADD_SERVICE data s = (HDF_SUCCESS, s) \<and>
           DevSvcManagerStubDispatch E True DEVSVC_MANAGER_UPDATE_SERVICE data s = (HDF_SUCCESS, s)) \<and>
         (get_perm E (sv_ev s) n \<and> mgr_GetService E (sv_mgr s) (sv_service s) n = None \<longrightarrow>
           DevSvcManagerStubDispatch E True DEVSVC_MANAGER_GET_SERVICE data s = (HDF_SUCCESS, s))"
  using assms
  by (auto simp: DevSvcManagerStubDispatch_def DevSvcManagerStubAddService_def
      DevSvcManagerStubUpdateService_def DevSvcManagerStubGetService_def AddServicePermCheck_def
      GetServicePermCheck_def split: option.splits)

subsection \<open>The fate of one name\<close>

text \<open>
  One step that does not publish under the name or take it back: a request that does not carry the
  name, or is not an add, update or remove, or the death of a service that is not one of \<open>D\<close>.
\<close>

inductive elsewhere :: "'g svc_env \<Rightarrow> string \<Rightarrow> nat set \<Rightarrow> 'g svc_sys \<Rightarrow> 'g svc_sys \<Rightarrow> bool" for E n D where
  request: "fresh_request s data \<Longrightarrow> rq_name data \<noteq> Some n \<or>
      code \<notin> {DEVSVC_MANAGER_ADD_SERVICE, DEVSVC_MANAGER_UPDATE_SERVICE, DEVSVC_MANAGER_REMOVE_SERVICE} \<Longrightarrow>
    elsewhere E n D s (snd (DevSvcManagerStubDispatch E b code data s))"
| died: "r \<in> watched s \<Longrightarrow> r \<notin> D \<Longrightarrow> elsewhere E n D s (DevSvcManagerOnServiceDied E r s)"

inductive_cases elsewhereE: "elsewhere E n D s s'"

lemma elsewhere_cases:
  assumes "elsewhere E n D s s'"
  obtains (req) data b code where "s' = snd (DevSvcManagerStubDispatch E b code data s)" and "fresh_request s data"
    and "rq_name data \<noteq> Some n \<or>
      code \<notin> {DEVSVC_MANAGER_ADD_SERVICE, DEVSVC_MANAGER_UPDATE_SERVICE, DEVSVC_MANAGER_REMOVE_SERVICE}"
  | (dead) r where "s' = DevSvcManagerOnServiceDied E r s" and "r \<in> watched s" and "r \<notin> D"
  using assms by (elim elsewhereE) blast+

lemma elsewhere_step: "elsewhere E n D s s' \<Longrightarrow> svc_step E s s'"
  by (auto elim!: elsewhereE intro: svc_step.intros)

text \<open>An object is kept or destroyed, never changed.\<close>

lemma Release_objs: "sv_objs (ReleaseServiceObject E x s) p = None \<or> sv_objs (ReleaseServiceObject E x s) p = sv_objs s p"
  by (auto simp: ReleaseServiceObject_def sv_call_eq sv_bad_def Let_def split: option.splits prod.splits)

lemma Obtain_objs:
  assumes S: "svc_struct s" and o: "ObtainServiceObject E n r s = (x, s1)" and p: "sv_objs s p \<noteq> None"
  shows "sv_objs s1 p = sv_objs s p"
proof -
  have "h_blk (sv_lh s) (h_next (sv_lh s)) = None"
    using S by (simp add: svc_struct_def lh_live_def heap_ok_def)
  moreover have "h_blk (sv_lh s) p \<noteq> None"
    using p by (auto intro: svc_structD [OF S])
  ultimately have "p \<noteq> h_next (sv_lh s)"
    by metis
  then show ?thesis
    using o by (auto simp: ObtainServiceObject_def alloc_eqs sv_call_eq split: if_splits)
qed

lemma request_objs:
  assumes S: "svc_struct s" and p: "sv_objs s p \<noteq> None" and s': "s' = snd (DevSvcManagerStubDispatch E b code data s)"
  shows "sv_objs s' p = None \<or> sv_objs s' p = sv_objs s p"
proof -
  have rel: "sv_objs (ReleaseServiceObject E x (s1\<lparr>sv_mgr := g\<rparr>)) p = None \<or>
      sv_objs (ReleaseServiceObject E x (s1\<lparr>sv_mgr := g\<rparr>)) p = sv_objs s p" if "sv_objs s1 p = sv_objs s p" for x s1 g
    using Release_objs [of E x "s1\<lparr>sv_mgr := g\<rparr>" p] that by simp
  note o = Obtain_objs [OF S _ p]
  have "sv_objs (snd (DevSvcManagerStubAddService E data s)) p = None \<or>
      sv_objs (snd (DevSvcManagerStubAddService E data s)) p = sv_objs s p"
    by (simp add: DevSvcManagerStubAddService_def Let_def rel o split: option.split prod.split)
  moreover have "sv_objs (snd (DevSvcManagerStubUpdateService E data s)) p = None \<or>
      sv_objs (snd (DevSvcManagerStubUpdateService E data s)) p = sv_objs s p"
    by (simp add: DevSvcManagerStubUpdateService_def Let_def rel o split: option.split prod.split)
  moreover have "sv_objs (snd (DevSvcManagerStubRemoveService E data s)) p = None \<or>
      sv_objs (snd (DevSvcManagerStubRemoveService E data s)) p = sv_objs s p"
    by (simp add: DevSvcManagerStubRemoveService_def Let_def rel sv_bad_def split: option.split prod.split)
  moreover have "sv_objs (snd (DevSvcManagerStubGetService E data s)) p = sv_objs s p"
    "sv_objs (snd (DevSvcManagerStubListAllService E data s)) p = sv_objs s p"
    "sv_objs (snd (DevSvcManagerStubRegisterServListener E data s)) p = sv_objs s p"
    "sv_objs (snd (DevSvcManagerStubUnregisterServListener E data s)) p = sv_objs s p"
    by (auto simp: DevSvcManagerStubGetService_def DevSvcManagerStubListAllService_def sv_call_eq Let_def
        DevSvcManagerStubRegisterServListener_def DevSvcManagerStubUnregisterServListener_def
        split: option.split prod.split)
  ultimately show ?thesis
    unfolding s' by (cases code) (simp_all add: DevSvcManagerStubDispatch_def)
qed

text \<open>A death takes back exactly the name of the service that died.\<close>

lemma died_facts:
  assumes C: "mgr_contract E" and ok: "svc_ok E s" and r: "r \<in> watched s"
  defines "s' \<equiv> DevSvcManagerOnServiceDied E r s"
  obtains p n where "mgr_GetObject E (sv_mgr s) n = Some p" and "sv_service s p = Some r"
    and "mgr_GetObject E (sv_mgr s') = (mgr_GetObject E (sv_mgr s))(n := None)"
    and "\<And>i. sv_objs s' i = None \<or> sv_objs s' i = sv_objs s i"
proof -
  have S: "svc_struct s"
    by (rule svc_okD(1) [OF ok])
  obtain p where p: "sv_service s p = Some r"
    using r S by (auto simp: svc_struct_def ran_def)
  then obtain ob where ob: "sv_objs s p = Some ob"
    by (auto simp: sv_service_def bind_eq_Some_conv)
  obtain q n where q: "ob = \<lparr>so_priv = Some (q, n), so_service = Some r\<rparr>" "sv_target s r = Some p"
    by (rule svc_structD [OF S ob]) (use p ob in \<open>simp add: sv_service_def\<close>)
  have n: "mgr_GetObject E (sv_mgr s) n = Some p"
    using ob q(1) svc_okD(2) [OF ok, of n p] by (simp add: obj_name_def)
  then have "mgr_GetService E (sv_mgr s) (sv_service s) n = Some r"
    using mgr_contractD(6) [OF C] p by simp
  then have s': "s' = ReleaseServiceObject E (Some p) (s\<lparr>sv_mgr := mgr_RemoveService E (sv_mgr s) n\<rparr>)"
    using ob q by (simp add: s'_def DevSvcManagerOnServiceDied_def Let_def)
  show thesis
    by (rule that [OF n p])
      (use Release_objs [of E "Some p" "s\<lparr>sv_mgr := mgr_RemoveService E (sv_mgr s) n\<rparr>"] mgr_contractD(3) [OF C]
        in \<open>simp_all add: s'\<close>)
qed

text \<open>A name is served by a remote object.\<close>

definition serves :: "'g svc_env \<Rightarrow> string \<Rightarrow> nat \<Rightarrow> 'g svc_sys \<Rightarrow> bool" where
  "serves E n r s \<longleftrightarrow> (\<exists>p. mgr_GetObject E (sv_mgr s) n = Some p \<and> sv_service s p = Some r)"

lemma serves_keeps:
  assumes ok: "svc_ok E s'" and serves: "serves E n r s"
    and same: "mgr_GetObject E (sv_mgr s') n = mgr_GetObject E (sv_mgr s) n"
    and objs: "\<And>p. sv_objs s p \<noteq> None \<Longrightarrow> sv_objs s' p = None \<or> sv_objs s' p = sv_objs s p"
  shows "serves E n r s'"
proof -
  obtain p where p: "mgr_GetObject E (sv_mgr s) n = Some p" "sv_service s p = Some r"
    using serves by (auto simp: serves_def)
  then have "sv_objs s p \<noteq> None" "sv_objs s' p \<noteq> None"
    using svc_okD(2) [OF ok, of n p] same by (auto simp: sv_service_def obj_name_def bind_eq_Some_conv)
  then show ?thesis
    using objs [of p] p same by (auto simp: serves_def sv_service_def)
qed

lemma serves_elsewhere:
  assumes C: "mgr_contract E" and ok: "svc_ok E s" and serves: "serves E n r s" and st: "elsewhere E n {r} s s'"
  shows "serves E n r s'"
  using st
proof (cases rule: elsewhere_cases)
  case (req data b code)
  have "svc_ok E s'"
    using Dispatch_ok [OF C ok req(2)] req(1) by simp
  moreover have "mgr_GetObject E (sv_mgr s') n = mgr_GetObject E (sv_mgr s) n"
    using request_keeps [OF C, of data n s code b] req by auto
  moreover have "sv_objs s' p = None \<or> sv_objs s' p = sv_objs s p" if "sv_objs s p \<noteq> None" for p
    using request_objs [OF svc_okD(1) [OF ok] that req(1)] .
  ultimately show ?thesis
    by (rule serves_keeps [OF _ serves])
next
  case (dead r')
  obtain p m where f: "mgr_GetObject E (sv_mgr s) m = Some p" "sv_service s p = Some r'"
    "mgr_GetObject E (sv_mgr s') = (mgr_GetObject E (sv_mgr s))(m := None)"
    "\<And>i. sv_objs s' i = None \<or> sv_objs s' i = sv_objs s i"
    using died_facts [OF C ok dead(2)] dead(1) by metis
  have "m \<noteq> n"
    using f(1,2) serves dead(3) by (auto simp: serves_def)
  moreover have "svc_ok E s'"
    using Died_ok [OF C ok dead(2)] dead(1) by simp
  ultimately show ?thesis
    using serves_keeps [OF _ serves] f(3,4) by simp
qed

lemma serves_run:
  assumes C: "mgr_contract E" and "(elsewhere E n {r})\<^sup>*\<^sup>* s s'" and "svc_ok E s" and "serves E n r s"
  shows "svc_ok E s' \<and> serves E n r s'"
  using assms(2-4)
  by (induction rule: rtranclp_induct)
    (use serves_elsewhere [OF C] svc_run_ok [OF C] elsewhere_step in \<open>blast+\<close>)

text \<open>A name that is free stays free.\<close>

lemma free_run:
  assumes C: "mgr_contract E" and "(elsewhere E n D)\<^sup>*\<^sup>* s s'" and "svc_ok E s" and "mgr_GetObject E (sv_mgr s) n = None"
  shows "svc_ok E s' \<and> mgr_GetObject E (sv_mgr s') n = None"
  using assms(2-4)
proof (induction rule: rtranclp_induct)
  case (step x y)
  then have ok: "svc_ok E x" and free: "mgr_GetObject E (sv_mgr x) n = None"
    by auto
  have "svc_ok E y"
    using svc_run_ok [OF C _ ok] elsewhere_step [OF step.hyps(2)] by blast
  moreover have "mgr_GetObject E (sv_mgr y) n = None"
    using step.hyps(2)
  proof (cases rule: elsewhere_cases)
    case (req data b code)
    then show ?thesis
      using request_keeps [OF C, of data n x code b] req free by auto
  next
    case (dead r)
    then show ?thesis
      using died_facts [OF C ok dead(2)] free dead(1) by (metis fun_upd_apply)
  qed
  ultimately show ?case ..
qed simp

lemma serves_died:
  assumes C: "mgr_contract E" and ok: "svc_ok E s" and serves: "serves E n r s"
  shows "svc_ok E (DevSvcManagerOnServiceDied E r s) \<and> mgr_GetObject E (sv_mgr (DevSvcManagerOnServiceDied E r s)) n = None"
proof -
  note S = svc_okD(1) [OF ok]
  obtain p where p: "mgr_GetObject E (sv_mgr s) n = Some p" "sv_service s p = Some r"
    using serves by (auto simp: serves_def)
  then have r: "r \<in> watched s"
    using S by (auto simp: svc_struct_def intro: ranI)
  obtain q m where f: "mgr_GetObject E (sv_mgr s) m = Some q" "sv_service s q = Some r"
    "mgr_GetObject E (sv_mgr (DevSvcManagerOnServiceDied E r s)) = (mgr_GetObject E (sv_mgr s))(m := None)"
    using died_facts [OF C ok r] by metis
  have "obj_name s p = Some n" "obj_name s q = Some m"
    using svc_okD(2) [OF ok] p f by blast+
  then have "sv_target s r = Some p" "sv_target s r = Some q"
    using named_service [OF S] p f by fastforce+
  then have "m = n"
    using svc_okD(2) [OF ok] p(1) f(1) by (metis option.inject)
  then show ?thesis
    using f(3) Died_ok [OF C ok r] by simp
qed

text \<open>An add that succeeds makes its object serve the name, whether or not it was free.\<close>

lemma add_serves:
  assumes C: "mgr_contract E" and ok: "svc_ok E s" and r: "r \<notin> watched s"
    and data: "data = \<lparr>rq_token = True, rq_name = Some n, rq_class = Some c, rq_service = Some r, rq_info = i\<rparr>"
    and add: "DevSvcManagerStubDispatch E True DEVSVC_MANAGER_ADD_SERVICE data s = (HDF_SUCCESS, s1)"
  shows "svc_ok E s1 \<and> serves E n r s1"
proof -
  note S = svc_okD(1) [OF ok]
  have "fresh_request s data"
    using r data by (simp add: fresh_request_def)
  from Dispatch_ok [OF C ok this, of True DEVSVC_MANAGER_ADD_SERVICE] have ok1: "svc_ok E s1"
    by (simp add: add)
  have "DevSvcManagerStubAddService E data s = (HDF_SUCCESS, s1)"
    using add by (simp add: DevSvcManagerStubDispatch_def)
  then obtain p s0 g where o: "ObtainServiceObject E n r s = (Some p, s0)"
    and m: "mgr_AddService E (sv_mgr s0) n c p i = (HDF_SUCCESS, g)"
    and s1: "s1 = ReleaseServiceObject E (mgr_GetObject E (sv_mgr s0) n) (s0\<lparr>sv_mgr := g\<rparr>)"
    by (auto simp: DevSvcManagerStubAddService_def AddServicePermCheck_def Let_def data
        split: if_splits option.splits prod.splits)
  have g: "mgr_GetObject E (sv_mgr s1) n = Some p"
    using mgr_contractD(1) [OF C m] by (simp add: s1)
  then have "sv_objs s1 p \<noteq> None"
    using svc_okD(2) [OF ok1, of n p] by (auto simp: obj_name_def bind_eq_Some_conv)
  then have "sv_objs s1 p = sv_objs s0 p"
    using Release_objs [of E "mgr_GetObject E (sv_mgr s0) n" "s0\<lparr>sv_mgr := g\<rparr>" p] by (auto simp: s1)
  then have "sv_service s1 p = Some r"
    using fun_cong [OF Obtain_Some(4) [OF S r o], of p] by (simp add: sv_service_def)
  then show ?thesis
    using ok1 g by (auto simp: serves_def)
qed

subsection \<open>A service is published, looked up and dies\<close>

lemma Add_new_SomeD:
  assumes C: "mgr_contract E" and ok: "svc_ok E s" and r: "r \<notin> watched s"
    and new: "mgr_GetObject E (sv_mgr s) n = None"
    and add: "DevSvcManagerStubAddService E \<lparr>rq_token = True, rq_name = Some n, rq_class = Some c,
        rq_service = Some r, rq_info = i\<rparr> s = (HDF_SUCCESS, s1)"
  obtains p s0 g where "ObtainServiceObject E n r s = (Some p, s0)" and "s1 = s0\<lparr>sv_mgr := g\<rparr>"
    and "mgr_GetObject E g = (mgr_GetObject E (sv_mgr s))(n \<mapsto> p)"
proof -
  from add obtain p s0 g where o: "ObtainServiceObject E n r s = (Some p, s0)"
    and m: "mgr_AddService E (sv_mgr s0) n c p i = (HDF_SUCCESS, g)"
    and s1: "s1 = ReleaseServiceObject E (mgr_GetObject E (sv_mgr s0) n) (s0\<lparr>sv_mgr := g\<rparr>)"
    by (auto simp: DevSvcManagerStubAddService_def AddServicePermCheck_def Let_def
        split: if_splits option.splits prod.splits)
  have mg: "sv_mgr s0 = sv_mgr s"
    using Obtain_Some(5) [OF svc_okD(1) [OF ok] r o] .
  show thesis
    by (rule that [OF o])
      (use s1 new mg mgr_contractD(1) [OF C m] in \<open>simp_all add: ReleaseServiceObject_def\<close>)
qed

lemma Obtain_Release_blocks:
  fixes E :: "'g svc_env" and g :: 'g
  assumes S: "svc_struct s" and o: "ObtainServiceObject E n r s = (Some p, s0)"
  defines "s2 \<equiv> ReleaseServiceObject E (Some p) (s0\<lparr>sv_mgr := g\<rparr>)"
  shows "h_blk (sv_lh s2) = h_blk (sv_lh s)" and "sv_objs s2 = sv_objs s"
    and "sv_mgr s2 = g" and "sv_target s0 r = Some p"
    and "sv_objs s0 p = Some \<lparr>so_priv = Some (Suc p, n), so_service = Some r\<rparr>"
proof -
  let ?h = "sv_lh s"
  have ok: "heap_ok ?h"
    using S by (simp add: svc_struct_def lh_live_def)
  have p: "p = h_next ?h" and h': "sv_lh s0 = ?h\<lparr>h_next := Suc (Suc p),
      h_blk := (h_blk ?h)(p \<mapsto> [], Suc p \<mapsto> replicate (Suc (length n)) 0)\<rparr>"
    and ob': "sv_objs s0 = (sv_objs s)(p \<mapsto> \<lparr>so_priv = Some (Suc p, n), so_service = Some r\<rparr>)"
    and t': "sv_target s0 = (sv_target s)(r \<mapsto> p)"
    using o by (auto simp: ObtainServiceObject_def alloc_eqs sv_call_eq split: if_splits)
  have fr: "h_blk ?h p = None" "h_blk ?h (Suc p) = None"
    using ok p by (simp_all add: heap_ok_def)
  have "sv_objs s p = None"
  proof (rule ccontr)
    assume "sv_objs s p \<noteq> None"
    then obtain x where x: "sv_objs s p = Some x" by auto
    show False
      by (rule svc_structD [OF S x]) (use fr in auto)
  qed
  then show "h_blk (sv_lh s2) = h_blk (sv_lh s)" "sv_objs s2 = sv_objs s" "sv_mgr s2 = g"
    using fr
    by (auto simp: s2_def ReleaseServiceObject_def ob' h' sv_call_eq OsalMemFree_def LOS_MemFree_def fun_eq_iff)
  show "sv_target s0 r = Some p" "sv_objs s0 p = Some \<lparr>so_priv = Some (Suc p, n), so_service = Some r\<rparr>"
    by (simp_all add: t' ob')
qed

lemma publish_facts:
  assumes C: "mgr_contract E" and ok: "svc_ok E s" and r: "r \<notin> watched s"
    and new: "mgr_GetObject E (sv_mgr s) n = None"
    and data: "data = \<lparr>rq_token = True, rq_name = Some n, rq_class = Some c, rq_service = Some r, rq_info = i\<rparr>"
    and add: "DevSvcManagerStubDispatch E True DEVSVC_MANAGER_ADD_SERVICE data s = (HDF_SUCCESS, s1)"
  defines "s2 \<equiv> DevSvcManagerOnServiceDied E r s1"
  shows "mgr_GetService E (sv_mgr s1) (sv_service s1) n = Some r \<and> (get_perm E (sv_ev s1) n \<longrightarrow>
            DevSvcManagerStubDispatch E True DEVSVC_MANAGER_GET_SERVICE data s1 =
              (HDF_SUCCESS, snd (sv_call E (WriteRemote r) s1)))
    \<and> (\<forall>m. m \<noteq> n \<longrightarrow> mgr_GetService E (sv_mgr s1) (sv_service s1) m = mgr_GetService E (sv_mgr s) (sv_service s) m)
    \<and> (\<forall>m. mgr_GetService E (sv_mgr s2) (sv_service s2) m = mgr_GetService E (sv_mgr s) (sv_service s) m)
    \<and> sv_objs s2 = sv_objs s \<and> h_blk (sv_lh s2) = h_blk (sv_lh s)"
proof -
  have S: "svc_struct s"
    by (rule svc_okD(1) [OF ok])
  have "DevSvcManagerStubAddService E \<lparr>rq_token = True, rq_name = Some n, rq_class = Some c,
      rq_service = Some r, rq_info = i\<rparr> s = (HDF_SUCCESS, s1)"
    using add by (simp add: DevSvcManagerStubDispatch_def data)
  then obtain p s0 g where o: "ObtainServiceObject E n r s = (Some p, s0)" and s1: "s1 = s0\<lparr>sv_mgr := g\<rparr>"
    and g: "mgr_GetObject E g = (mgr_GetObject E (sv_mgr s))(n \<mapsto> p)"
    by (rule Add_new_SomeD [OF C ok r new])
  note O = Obtain_Some [OF S r o] and B = Obtain_Release_blocks [OF S o]
  have get1: "mgr_GetService E (sv_mgr s1) (sv_service s1) n = Some r"
    using mgr_contractD(6) [OF C] g O(4) by (simp add: s1)
  have np: "mgr_GetObject E (sv_mgr s) m \<noteq> Some p" for m
    using svc_okD(2) [OF ok, of m p] O(3) by simp
  have other: "mgr_GetService E (sv_mgr s1) (sv_service s1) m = mgr_GetService E (sv_mgr s) (sv_service s) m"
    if "m \<noteq> n" for m
    using mgr_contractD(6) [OF C] g O(4) that np [of m]
    by (cases "mgr_GetObject E (sv_mgr s) m") (auto simp: s1)
  have s2: "s2 = ReleaseServiceObject E (Some p) (s0\<lparr>sv_mgr := mgr_RemoveService E g n\<rparr>)"
    using B(4,5) get1 by (simp add: s2_def DevSvcManagerOnServiceDied_def s1)
  have sv2: "sv_objs s2 = sv_objs s" "h_blk (sv_lh s2) = h_blk (sv_lh s)"
    "mgr_GetObject E (sv_mgr s2) = mgr_GetObject E (sv_mgr s)"
    using B(1-3) [where g = "mgr_RemoveService E g n"] mgr_contractD(3) [OF C] g new
    by (auto simp: s2)
  then have "sv_service s2 = sv_service s"
    by (simp add: sv_service_def fun_eq_iff)
  then have same: "mgr_GetService E (sv_mgr s2) (sv_service s2) m = mgr_GetService E (sv_mgr s) (sv_service s) m" for m
    using sv2(3) mgr_contractD(6) [OF C] by simp
  show ?thesis
    using get1 other same sv2 data
    by (auto simp: DevSvcManagerStubDispatch_def DevSvcManagerStubGetService_def GetServicePermCheck_def)
qed

text \<open>
  C20. A service published under a free name is what a lookup of the name returns, other lookups
  do not change, and its death restores every lookup, the objects and the heap.
\<close>

theorem svc_publish_lifecycle:
  assumes C: "mgr_contract E" and ok: "svc_ok E s" and r: "r \<notin> watched s"
    and new: "mgr_GetObject E (sv_mgr s) n = None"
    and data: "data = \<lparr>rq_token = True, rq_name = Some n, rq_class = Some c, rq_service = Some r, rq_info = i\<rparr>"
    and add: "DevSvcManagerStubDispatch E True DEVSVC_MANAGER_ADD_SERVICE data s = (HDF_SUCCESS, s1)"
  defines "s2 \<equiv> DevSvcManagerOnServiceDied E r s1"
  shows "(get_perm E (sv_ev s1) n \<longrightarrow>
            DevSvcManagerStubDispatch E True DEVSVC_MANAGER_GET_SERVICE data s1 =
              (HDF_SUCCESS, snd (sv_call E (WriteRemote r) s1)))
    \<and> (\<forall>m. m \<noteq> n \<longrightarrow> mgr_GetService E (sv_mgr s1) (sv_service s1) m = mgr_GetService E (sv_mgr s) (sv_service s) m)
    \<and> (\<forall>m. mgr_GetService E (sv_mgr s2) (sv_service s2) m = mgr_GetService E (sv_mgr s) (sv_service s) m)
    \<and> sv_objs s2 = sv_objs s \<and> h_blk (sv_lh s2) = h_blk (sv_lh s)"
  using publish_facts [OF C ok r new data add] unfolding s2_def by blast

subsection \<open>Examples\<close>

text \<open>A manager that is a table of objects; the caller has every permission.\<close>

definition svc_demo_env :: "(string \<Rightarrow> nat option) svc_env" where
  "svc_demo_env = lh_env.extend lh_demo_env
     \<lparr>sv_api = (\<lambda>_ _. 0), sv_obtain = (\<lambda>_. Some 70), add_perm = (\<lambda>_ _. True), get_perm = (\<lambda>_ _. True),
      list_perm = (\<lambda>_. True), mgr_GetObject = (\<lambda>g. g), mgr_GetService = (\<lambda>g f n. Option.bind (g n) f),
      mgr_AddService = (\<lambda>g n c p i. (HDF_SUCCESS, g(n \<mapsto> p))),
      mgr_UpdateService = (\<lambda>g n c p i. (HDF_SUCCESS, g(n \<mapsto> p))),
      mgr_RemoveService = (\<lambda>g n. g(n := None)), mgr_RegsterServListener = (\<lambda>g p. (HDF_SUCCESS, g)),
      mgr_UnregsterServListener = (\<lambda>g p. g)\<rparr>"

definition svc_demo :: "(string \<Rightarrow> nat option) svc_sys" where
  "svc_demo = \<lparr>sv_lh = lh_demo, sv_ev = [], sv_objs = Map.empty, sv_target = Map.empty, sv_mgr = Map.empty,
     sv_remote = Some 70, sv_started = True, sv_instance = Some 3\<rparr>"

definition svc_demo_add :: svc_request where
  "svc_demo_add = \<lparr>rq_token = True, rq_name = Some ''led'', rq_class = Some 1, rq_service = Some 50, rq_info = None\<rparr>"

lemma svc_demo_contract: "mgr_contract svc_demo_env"
  by (simp add: mgr_contract_def svc_demo_env_def lh_env.defs)

lemma svc_demo_ok: "svc_ok svc_demo_env svc_demo"
  by (simp add: svc_ok_def svc_struct_def svc_demo_def svc_demo_env_def lh_env.defs lh_live_def lh_demo_def
      osal_sys.defs osal_demo_def heap_ok_def watched_def sv_service_def obj_name_def ran_def)

lemma svc_demo_added:
  "DevSvcManagerStubDispatch svc_demo_env True DEVSVC_MANAGER_ADD_SERVICE svc_demo_add svc_demo =
     (HDF_SUCCESS, snd (DevSvcManagerStubDispatch svc_demo_env True DEVSVC_MANAGER_ADD_SERVICE svc_demo_add svc_demo))"
  "mgr_GetObject svc_demo_env (sv_mgr (snd (DevSvcManagerStubDispatch svc_demo_env True
     DEVSVC_MANAGER_ADD_SERVICE svc_demo_add svc_demo))) ''led'' = Some 4"
  by (simp_all add: DevSvcManagerStubDispatch_def DevSvcManagerStubAddService_def svc_demo_add_def
      AddServicePermCheck_def ObtainServiceObject_def alloc_eqs sv_call_eq svc_demo_env_def svc_demo_def
      lh_env.defs lh_demo_env_def osal_env.defs osal_demo_env_def lh_demo_def osal_sys.defs osal_demo_def
      ReleaseServiceObject_def)

lemma svc_manager_safe_witness:
  "\<exists>s'. svc_step svc_demo_env svc_demo s' \<and> mgr_GetObject svc_demo_env (sv_mgr s') ''led'' = Some 4
     \<and> (\<exists>q r. sv_objs s' 4 = Some \<lparr>so_priv = Some (q, ''led''), so_service = Some r\<rparr>
          \<and> h_blk (sv_lh s') 4 \<noteq> None)"
proof -
  let ?s = "snd (DevSvcManagerStubDispatch svc_demo_env True DEVSVC_MANAGER_ADD_SERVICE svc_demo_add svc_demo)"
  have st: "svc_step svc_demo_env svc_demo ?s"
    by (rule svc_step.request) (simp add: fresh_request_def svc_demo_add_def watched_def svc_demo_def)
  then show ?thesis
    using svc_manager_safe [OF svc_demo_contract svc_demo_ok r_into_rtranclp [of "svc_step svc_demo_env", OF st]] svc_demo_added(2) by blast
qed

lemma svc_change_authorised_witness:
  "add_perm svc_demo_env (sv_ev svc_demo) ''led''"
  using svc_change_authorised [OF svc_demo_contract, of True DEVSVC_MANAGER_ADD_SERVICE svc_demo_add svc_demo "''led''"]
    svc_demo_added(2) by (simp add: svc_demo_env_def svc_demo_def lh_env.defs)

lemma svc_false_success_witness:
  "DevSvcManagerStubDispatch svc_demo_env True DEVSVC_MANAGER_GET_SERVICE svc_demo_add svc_demo = (HDF_SUCCESS, svc_demo)"
  using svc_false_success [of svc_demo_add "''led''" svc_demo_env svc_demo]
  by (simp add: svc_demo_add_def svc_demo_env_def svc_demo_def lh_env.defs)

lemma svc_publish_lifecycle_witness:
  "sv_objs (DevSvcManagerOnServiceDied svc_demo_env 50
     (snd (DevSvcManagerStubDispatch svc_demo_env True DEVSVC_MANAGER_ADD_SERVICE svc_demo_add svc_demo))) = Map.empty"
  using svc_publish_lifecycle [OF svc_demo_contract svc_demo_ok _ _ svc_demo_add_def svc_demo_added(1)]
  by (simp add: watched_def svc_demo_def svc_demo_env_def lh_env.defs)

end
