(* ===== verification/Mtd.thy ===== *)
theory Mtd
  imports Osal_Mem Registry
begin

text \<open>
  Flash storage, \<open>khdf/liteos/model/storage/src/mtd\<close>: the list of flash devices and the old
  \<open>hinand\<close> and \<open>mtd_info\<close> interfaces (\<open>mtd_legacy_lite.c\<close>), and the character-device operations on
  a partition (\<open>mtd_char_lite.c\<close>).

  The flash core (\<open>MtdDeviceRead\<close>, \<open>MtdDeviceErase\<close>, \<dots>), the kernel's locks and copies from and to
  user space are outside the repository: \<open>mtd_api\<close> gives the status of each call. The code is for
  the 32-bit kernel: \<open>size_t\<close> and \<open>unsigned long\<close> are \<open>u32\<close>, \<open>off_t\<close> is a 64-bit signed number, taken
  as an \<open>int\<close>. Objects are entries of typed maps; \<open>mi_priv\<close> and \<open>dv_priv\<close> are device numbers.
\<close>

datatype MtdDevType = MTD_TYPE_NAND | MTD_TYPE_SPI_NAND | MTD_TYPE_NOR | MTD_TYPE_SPI_NOR | MTD_TYPE_OTHER

record MtdDevice =
  md_type :: MtdDevType
  md_capacity :: u32
  md_eraseSize :: u32
  md_writeSize :: u32
  md_writeSizeShift :: nat
  md_oobSize :: u32
  md_osData :: "nat option"

record MtdDev =
  dv_priv :: "nat option"
  dv_type :: int
  dv_size :: u32
  dv_eraseSize :: u32

record MtdDevNode =
  mn_block :: nat
  mn_type :: string
  mn_status :: int
  mn_mtdDev :: nat

record mtd_partition =
  mp_user_num :: int
  mp_patitionnum :: u32
  mp_start_block :: u32
  mp_end_block :: u32
  mp_mtd_info :: "nat option"

record MtdFileInfo =
  mf_partIndex :: u32
  mf_mode :: int

record MtdInfo =
  mo_type :: int
  mo_size :: u32
  mo_erasesize :: u32
  mo_writesize :: u32
  mo_oobsize :: u32

record MtdInfoLegacy =
  ml_priv :: "nat option"
  ml_type :: int
  ml_name :: string
  ml_flags :: u32
  ml_size :: u64
  ml_erasesize :: u32
  ml_writesize :: u32
  ml_oobsize :: u32

text \<open>A request that user space hands to an erase call.\<close>

record EraseInfo =
  ei_start :: int
  ei_length :: int

datatype mtd_ev =
    MtdRead "nat option" int u32 | MtdWrite "nat option" int u32
  | MtdReadOob "nat option" int u32 | MtdWriteOob "nat option" int u32
  | MtdErase "nat option" int u32 | MtdIsBad "nat option" int | MtdMarkBad "nat option" int
  | PartLock | PartUnlock | CopyIn | CopyOut MtdInfo | UserStoreSize u32

type_synonym mtd_trace = "(mtd_ev \<times> int) list"

record mtd_sys = "(mtd_ev \<times> int) sys" +
  g_mtdHead :: "MtdDevNode list"
  mtdevs :: "nat \<Rightarrow> MtdDev option"
  mdevices :: "nat \<Rightarrow> MtdDevice option"
  mfis :: "nat \<Rightarrow> MtdFileInfo option"
  m_part :: mtd_partition
  m_f_pos :: int
  m_f_priv :: "nat option"
  nand_mtd :: "MtdInfoLegacy option"
  g_nandMtd :: "nat option"

record mtd_env = mem_env +
  mtd_api :: "mtd_trace \<Rightarrow> mtd_ev \<Rightarrow> int"
  mtd_fail_addr :: "mtd_trace \<Rightarrow> int"
  mode_junk :: "nat \<Rightarrow> int"
  user_erase :: "u32 \<Rightarrow> EraseInfo"
  user_offs :: "u32 \<Rightarrow> int"
  MTD_FILE_MODE_OOB :: int
  MTD_FILE_MODE_MAX :: u32
  MTD_TYPE_MAX :: int

definition MTD_NORFLASH :: int where "MTD_NORFLASH = 3"
definition MTD_NANDFLASH :: int where "MTD_NANDFLASH = 4"
definition MTD_CAP_NANDFLASH :: u32 where "MTD_CAP_NANDFLASH = 0x400"
definition MTD_FAIL_ADDR_UNKNOWN :: int where "MTD_FAIL_ADDR_UNKNOWN = -1"

definition mtd_call ::
  "('m) mtd_env_scheme \<Rightarrow> mtd_ev \<Rightarrow> ('a) mtd_sys_scheme \<Rightarrow> int \<times> ('a) mtd_sys_scheme" where
  "mtd_call E c s = ext_call (mtd_api E) c s"

definition m_bad :: "('a) mtd_sys_scheme \<Rightarrow> ('a) mtd_sys_scheme" where
  "m_bad s = s\<lparr>h_bad := True\<rparr>"

subsection \<open>The list of flash devices\<close>

text \<open>\<open>status\<close> counts the users of an entry.\<close>

fun bump_type :: "string \<Rightarrow> MtdDevNode list \<Rightarrow> MtdDevNode list" where
  "bump_type t [] = []"
| "bump_type t (n # ns) =
     (if mn_type n = t then n\<lparr>mn_status := mn_status n + 1\<rparr> # ns else n # bump_type t ns)"

fun drop_user :: "nat \<Rightarrow> MtdDevNode list \<Rightarrow> MtdDevNode list" where
  "drop_user d [] = []"
| "drop_user d (n # ns) =
     (if mn_mtdDev n = d then n\<lparr>mn_status := mn_status n - 1\<rparr> # ns else n # drop_user d ns)"

definition GetMtd :: "string option \<Rightarrow> ('a) mtd_sys_scheme \<Rightarrow> nat option \<times> ('a) mtd_sys_scheme" where
  "GetMtd type s =
     (case type of None \<Rightarrow> (None, s) | Some t \<Rightarrow>
        (map_option mn_mtdDev (List.find (\<lambda>n. mn_type n = t) (g_mtdHead s)),
         s\<lparr>g_mtdHead := bump_type t (g_mtdHead s)\<rparr>))"

definition GetMtdInfo :: "string option \<Rightarrow> ('a) mtd_sys_scheme \<Rightarrow> int" where
  "GetMtdInfo type s =
     (case type of None \<Rightarrow> -1 | Some t \<Rightarrow>
        (case List.find (\<lambda>n. mn_type n = t) (g_mtdHead s) of None \<Rightarrow> -1 | Some _ \<Rightarrow> 0))"

definition FreeMtd :: "nat option \<Rightarrow> ('a) mtd_sys_scheme \<Rightarrow> int \<times> ('a) mtd_sys_scheme" where
  "FreeMtd mtdDev s =
     (case mtdDev of None \<Rightarrow> (-1, s) | Some d \<Rightarrow>
        (if d \<in> mn_mtdDev ` set (g_mtdHead s)
         then (0, s\<lparr>g_mtdHead := drop_user d (g_mtdHead s)\<rparr>) else (-1, s)))"

definition DelMtdList :: "nat option \<Rightarrow> ('a) mtd_sys_scheme \<Rightarrow> int \<times> ('a) mtd_sys_scheme" where
  "DelMtdList mtdDev s =
     (case mtdDev of None \<Rightarrow> (-1, s) | Some d \<Rightarrow>
        (case List.find (\<lambda>n. mn_mtdDev n = d) (g_mtdHead s) of
           None \<Rightarrow> (-1, s)
         | Some n \<Rightarrow>
             if mn_status n = 0
             then (0, (LOS_MemFree (mn_block n) s)\<lparr>g_mtdHead := remove1 n (g_mtdHead s)\<rparr>)
             else (-1, s)))"

definition AddMtdList ::
  "('m) mtd_env_scheme \<Rightarrow> string option \<Rightarrow> nat option \<Rightarrow> ('a) mtd_sys_scheme \<Rightarrow> ('a) mtd_sys_scheme" where
  "AddMtdList E type mtdDev s =
     (case (type, mtdDev) of
        (Some t, Some d) \<Rightarrow>
          (case OsalMemCalloc E (Objs ''MtdDevNode'' 1) s of
             (None, s1) \<Rightarrow> s1
           | (Some q, s1) \<Rightarrow>
               s1\<lparr>g_mtdHead := \<lparr>mn_block = q, mn_type = t, mn_status = 0, mn_mtdDev = d\<rparr> # g_mtdHead s1\<rparr>)
      | _ \<Rightarrow> s)"

subsection \<open>The old NAND interface\<close>

text \<open>
  The functions compare the status of the flash core with the requested size, as the old drivers
  returned a byte count; a status other than the size is returned as it is.
\<close>

definition old_ret :: "int \<Rightarrow> u32 \<Rightarrow> ret" where
  "old_ret r sz = (if word_of_int r = sz then HDF_SUCCESS else ret_of r)"

definition on_nand ::
  "('m) mtd_env_scheme \<Rightarrow> (nat option \<Rightarrow> mtd_ev) \<Rightarrow> (int \<Rightarrow> ret) \<Rightarrow> ('a) mtd_sys_scheme
   \<Rightarrow> ret \<times> ('a) mtd_sys_scheme" where
  "on_nand E c f s =
     (case g_nandMtd s of None \<Rightarrow> (NEG_ENODEV, s) | Some d \<Rightarrow>
        (case mtd_call E (c (Some d)) s of (r, s1) \<Rightarrow> (f r, s1)))"

definition hinand_read ::
  "('m) mtd_env_scheme \<Rightarrow> u32 \<Rightarrow> u32 \<Rightarrow> ('a) mtd_sys_scheme \<Rightarrow> ret \<times> ('a) mtd_sys_scheme" where
  "hinand_read E start sz s = on_nand E (\<lambda>d. MtdRead d (uint start) sz) (\<lambda>r. old_ret r sz) s"

definition hinand_write ::
  "('m) mtd_env_scheme \<Rightarrow> u32 \<Rightarrow> u32 \<Rightarrow> ('a) mtd_sys_scheme \<Rightarrow> ret \<times> ('a) mtd_sys_scheme" where
  "hinand_write E start sz s = on_nand E (\<lambda>d. MtdWrite d (uint start) sz) (\<lambda>r. old_ret r sz) s"

definition hinand_erase ::
  "('m) mtd_env_scheme \<Rightarrow> u32 \<Rightarrow> u32 \<Rightarrow> ('a) mtd_sys_scheme \<Rightarrow> ret \<times> ('a) mtd_sys_scheme" where
  "hinand_erase E start sz s = on_nand E (\<lambda>d. MtdErase d (uint start) sz) ret_of s"

definition hinand_yaffs_read ::
  "('m) mtd_env_scheme \<Rightarrow> u32 \<Rightarrow> u32 \<Rightarrow> ('a) mtd_sys_scheme \<Rightarrow> ret \<times> ('a) mtd_sys_scheme" where
  "hinand_yaffs_read E start sz s = on_nand E (\<lambda>d. MtdReadOob d (uint start) sz) (\<lambda>r. old_ret r sz) s"

definition hinand_yaffs_write ::
  "('m) mtd_env_scheme \<Rightarrow> u32 \<Rightarrow> u32 \<Rightarrow> ('a) mtd_sys_scheme \<Rightarrow> ret \<times> ('a) mtd_sys_scheme" where
  "hinand_yaffs_write E start sz s = on_nand E (\<lambda>d. MtdWriteOob d (uint start) sz) (\<lambda>r. old_ret r sz) s"

text \<open>The bad-block functions hand \<open>g_nandMtd\<close> on even when it is \<open>NULL\<close>.\<close>

definition hinand_yaffs_nand_block_isbad ::
  "('m) mtd_env_scheme \<Rightarrow> int \<Rightarrow> ('a) mtd_sys_scheme \<Rightarrow> ret \<times> ('a) mtd_sys_scheme" where
  "hinand_yaffs_nand_block_isbad E ofs s =
     (case mtd_call E (MtdIsBad (g_nandMtd s) ofs) s of (r, s1) \<Rightarrow> (ret_of r, s1))"

definition hinand_yaffs_nand_block_markbad ::
  "('m) mtd_env_scheme \<Rightarrow> int \<Rightarrow> ('a) mtd_sys_scheme \<Rightarrow> ret \<times> ('a) mtd_sys_scheme" where
  "hinand_yaffs_nand_block_markbad E ofs s =
     (case mtd_call E (MtdMarkBad (g_nandMtd s) ofs) s of (r, s1) \<Rightarrow> (ret_of r, s1))"

definition nand_init :: ret where "nand_init = HDF_SUCCESS"
definition spinor_init :: ret where "spinor_init = HDF_SUCCESS"

text \<open>
  The methods of \<open>MtdInfoLegacy\<close>. The \<open>NULL\<close> tests on the out-pointers are dropped: they are
  locations here, and \<open>*retlen\<close> and \<open>fail_addr\<close> are returned.
\<close>

definition MtdDeviceLegacyNandErase ::
  "('m) mtd_env_scheme \<Rightarrow> MtdInfoLegacy option \<Rightarrow> EraseInfo option \<Rightarrow> ('a) mtd_sys_scheme
   \<Rightarrow> ret \<times> int option \<times> ('a) mtd_sys_scheme" where
  "MtdDeviceLegacyNandErase E mtd ops s =
     (case (mtd, ops) of
        (Some m, Some e) \<Rightarrow>
          (case mtd_call E (MtdErase (ml_priv m) (ei_start e) (word_of_int (ei_length e))) s of (r, s1) \<Rightarrow>
             (ret_of r, Some (if r \<noteq> 0 then mtd_fail_addr E (ev s1) else MTD_FAIL_ADDR_UNKNOWN), s1))
      | _ \<Rightarrow> (NEG_EINVAL, None, s))"

definition legacy_rw ::
  "('m) mtd_env_scheme \<Rightarrow> (nat option \<Rightarrow> mtd_ev) \<Rightarrow> MtdInfoLegacy option \<Rightarrow> u32 \<Rightarrow> ('a) mtd_sys_scheme
   \<Rightarrow> ret \<times> u32 option \<times> ('a) mtd_sys_scheme" where
  "legacy_rw E c mtd len s =
     (case mtd of None \<Rightarrow> (NEG_EINVAL, None, s) | Some m \<Rightarrow>
       (case mtd_call E (c (ml_priv m)) s of (r, s1) \<Rightarrow> (ret_of r, Some (if r = 0 then len else 0), s1)))"

definition MtdDeviceLegacyNandRead ::
  "('m) mtd_env_scheme \<Rightarrow> MtdInfoLegacy option \<Rightarrow> int \<Rightarrow> u32 \<Rightarrow> ('a) mtd_sys_scheme
   \<Rightarrow> ret \<times> u32 option \<times> ('a) mtd_sys_scheme" where
  "MtdDeviceLegacyNandRead E mtd addr len s =
     (if Option.bind mtd ml_priv = None then (NEG_EINVAL, None, s)
      else legacy_rw E (\<lambda>d. MtdRead d addr len) mtd len s)"

definition MtdDeviceLegacyNandWrite ::
  "('m) mtd_env_scheme \<Rightarrow> MtdInfoLegacy option \<Rightarrow> int \<Rightarrow> u32 \<Rightarrow> ('a) mtd_sys_scheme
   \<Rightarrow> ret \<times> u32 option \<times> ('a) mtd_sys_scheme" where
  "MtdDeviceLegacyNandWrite E mtd addr len s = legacy_rw E (\<lambda>d. MtdWrite d addr len) mtd len s"

definition MtdDeviceLegacyNandReadOob ::
  "('m) mtd_env_scheme \<Rightarrow> MtdInfoLegacy option \<Rightarrow> int \<Rightarrow> u32 \<Rightarrow> ('a) mtd_sys_scheme
   \<Rightarrow> ret \<times> u32 option \<times> ('a) mtd_sys_scheme" where
  "MtdDeviceLegacyNandReadOob E mtd addr len s = legacy_rw E (\<lambda>d. MtdReadOob d addr len) mtd len s"

definition MtdDeviceLegacyNandWriteOob ::
  "('m) mtd_env_scheme \<Rightarrow> MtdInfoLegacy option \<Rightarrow> int \<Rightarrow> u32 \<Rightarrow> ('a) mtd_sys_scheme
   \<Rightarrow> ret \<times> u32 option \<times> ('a) mtd_sys_scheme" where
  "MtdDeviceLegacyNandWriteOob E mtd addr len s = legacy_rw E (\<lambda>d. MtdWriteOob d addr len) mtd len s"

definition MtdDeviceLegacyBlockIsBad ::
  "('m) mtd_env_scheme \<Rightarrow> MtdInfoLegacy option \<Rightarrow> int \<Rightarrow> ('a) mtd_sys_scheme \<Rightarrow> ret \<times> ('a) mtd_sys_scheme" where
  "MtdDeviceLegacyBlockIsBad E mtd ofs s =
     (case legacy_rw E (\<lambda>d. MtdIsBad d ofs) mtd 0 s of (r, _, s1) \<Rightarrow> (r, s1))"

definition MtdDeviceLegacyBlockMarkBad ::
  "('m) mtd_env_scheme \<Rightarrow> MtdInfoLegacy option \<Rightarrow> int \<Rightarrow> ('a) mtd_sys_scheme \<Rightarrow> ret \<times> ('a) mtd_sys_scheme" where
  "MtdDeviceLegacyBlockMarkBad E mtd ofs s =
     (case legacy_rw E (\<lambda>d. MtdMarkBad d ofs) mtd 0 s of (r, _, s1) \<Rightarrow> (r, s1))"

definition MtdDeviceLegacyFillMtdInfo :: "nat option \<Rightarrow> ('a) mtd_sys_scheme \<Rightarrow> ('a) mtd_sys_scheme" where
  "MtdDeviceLegacyFillMtdInfo mtdDevice s =
     (case mtdDevice of None \<Rightarrow> s | Some d \<Rightarrow>
       (case mdevices s d of None \<Rightarrow> m_bad s | Some md \<Rightarrow>
          s\<lparr>nand_mtd := Some \<lparr>ml_priv = Some d, ml_type = MTD_NANDFLASH, ml_name = ''nand'',
                             ml_flags = MTD_CAP_NANDFLASH, ml_size = ucast (md_capacity md), ml_erasesize = md_eraseSize md,
                             ml_writesize = md_writeSize md, ml_oobsize = md_oobSize md\<rparr>,
            g_nandMtd := Some d\<rparr>))"

subsection \<open>Opening and closing a partition\<close>

text \<open>The vnode's \<open>drv_data\<close> and its partition exist unless \<open>ok\<close> is false; \<open>mode\<close> is not set.\<close>

definition MtdCharOpen ::
  "('m) mtd_env_scheme \<Rightarrow> bool \<Rightarrow> ('a) mtd_sys_scheme \<Rightarrow> ret \<times> ('a) mtd_sys_scheme" where
  "MtdCharOpen E filep_ok s =
     (if \<not> filep_ok then (NEG_EINVAL, s)
      else if mp_user_num (m_part s) \<noteq> 0 then (NEG_EBUSY, s)
      else
        (case LOS_MemAlloc E (Objs ''MtdFileInfo'' 1) s of
           (None, s1) \<Rightarrow> (NEG_ENOMEM, s1)
         | (Some p, s1) \<Rightarrow>
             let s2 = emit (PartUnlock, 0) ((emit (PartLock, 0) s1)\<lparr>m_part := (m_part s1)\<lparr>mp_user_num := 1\<rparr>\<rparr>)
             in (HDF_SUCCESS,
                 s2\<lparr>mfis := (mfis s2)(p \<mapsto>
                      \<lparr>mf_partIndex = mp_patitionnum (m_part s2), mf_mode = mode_junk E p\<rparr>),
                    m_f_pos := 0, m_f_priv := Some p\<rparr>)))"

definition MtdCharClose :: "('a) mtd_sys_scheme \<Rightarrow> ret \<times> ('a) mtd_sys_scheme" where
  "MtdCharClose s =
     (let s1 = emit (PartUnlock, 0) ((emit (PartLock, 0) s)\<lparr>m_part := (m_part s)\<lparr>mp_user_num := 0\<rparr>\<rparr>)
      in (HDF_SUCCESS,
          (case m_f_priv s1 of None \<Rightarrow> s1 | Some p \<Rightarrow> (LOS_MemFree p s1)\<lparr>mfis := (mfis s1)(p := None)\<rparr>)
            \<lparr>m_f_priv := None\<rparr>))"

subsection \<open>Reading, writing and seeking\<close>

definition part_dev :: "('a) mtd_sys_scheme \<Rightarrow> MtdDev option" where
  "part_dev s = Option.bind (mp_mtd_info (m_part s)) (mtdevs s)"

definition part_device :: "('a) mtd_sys_scheme \<Rightarrow> nat option" where
  "part_device s = Option.bind (part_dev s) dv_priv"

definition partStart :: "mtd_partition \<Rightarrow> u32 \<Rightarrow> u32" where
  "partStart p blockSize = mp_start_block p * blockSize"

definition partSize :: "mtd_partition \<Rightarrow> u32 \<Rightarrow> u32" where
  "partSize p blockSize = (mp_end_block p + 1 - mp_start_block p) * blockSize"

definition partOobSize :: "mtd_partition \<Rightarrow> MtdDevice \<Rightarrow> u32" where
  "partOobSize p d = drop_bit (md_writeSizeShift d) (partSize p (md_eraseSize d)) * md_oobSize d"

text \<open>
  Reading and writing differ only in the call to the flash core: \<open>op oob device address length\<close>.
  The result is the status, 0 for a transfer that succeeded.
\<close>

definition char_rw ::
  "('m) mtd_env_scheme \<Rightarrow> (bool \<Rightarrow> nat option \<Rightarrow> int \<Rightarrow> u32 \<Rightarrow> mtd_ev) \<Rightarrow> bool \<Rightarrow> u32 \<Rightarrow> ('a) mtd_sys_scheme
   \<Rightarrow> ret \<times> ('a) mtd_sys_scheme" where
  "char_rw E op buffer_ok buflen s =
     (case (part_device s, Option.bind (part_device s) (mdevices s), Option.bind (m_f_priv s) (mfis s)) of
        (Some dn, Some d, Some mfi) \<Rightarrow>
          let ppos = m_f_pos s; p = m_part s; bs = md_eraseSize d; oob = (mf_mode mfi = MTD_FILE_MODE_OOB E) in
          if \<not> buffer_ok then (NEG_EINVAL, s)
          else
            let s1 = emit (PartLock, 0) s in
            if ppos < 0 \<or> ppos > uint (partSize p bs) then (NEG_EINVAL, emit (PartUnlock, 0) s1)
            else if ppos + uint buflen >
                      (if oob then uint (partSize p bs + partOobSize p d) else uint (partSize p bs))
            then (NEG_EINVAL, emit (PartUnlock, 0) s1)
            else if buflen = 0 then (HDF_SUCCESS, emit (PartUnlock, 0) s1)
            else
              (case mtd_call E (op oob (Some dn) (uint (partStart p bs) + ppos) buflen) s1 of (r, s2) \<Rightarrow>
                 if r \<noteq> 0 then (ret_of r, emit (PartUnlock, 0) s2)
                 else
                   (HDF_SUCCESS,
                    emit (PartUnlock, 0)
                      (s2\<lparr>m_f_pos := ppos + uint (if oob
                            then buflen - drop_bit (md_writeSizeShift d) buflen * md_oobSize d
                            else buflen)\<rparr>)))
      | _ \<Rightarrow> (HDF_FAILURE, m_bad s))"

definition MtdCharRead ::
  "('m) mtd_env_scheme \<Rightarrow> bool \<Rightarrow> u32 \<Rightarrow> ('a) mtd_sys_scheme \<Rightarrow> ret \<times> ('a) mtd_sys_scheme" where
  "MtdCharRead E buffer_ok buflen s =
     char_rw E (\<lambda>oob d a n. if oob then MtdReadOob d a n else MtdRead d a n) buffer_ok buflen s"

definition MtdCharWrite ::
  "('m) mtd_env_scheme \<Rightarrow> bool \<Rightarrow> u32 \<Rightarrow> ('a) mtd_sys_scheme \<Rightarrow> ret \<times> ('a) mtd_sys_scheme" where
  "MtdCharWrite E buffer_ok buflen s =
     char_rw E (\<lambda>oob d a n. if oob then MtdWriteOob d a n else MtdWrite d a n) buffer_ok buflen s"

datatype whence = SEEK_SET | SEEK_CUR | SEEK_END | SEEK_OTHER

text \<open>\<open>(size_t)\<close> of an \<open>off_t\<close> keeps its low 32 bits.\<close>

definition size_t :: "int \<Rightarrow> u32" where "size_t n = word_of_int n"

definition MtdCharLseek ::
  "int \<Rightarrow> whence \<Rightarrow> ('a) mtd_sys_scheme \<Rightarrow> (ret + int) \<times> ('a) mtd_sys_scheme" where
  "MtdCharLseek offset wh s =
     (case part_dev s of None \<Rightarrow> (Inl HDF_FAILURE, m_bad s) | Some dv \<Rightarrow>
       (let s1 = emit (PartLock, 0) s;
            endAddr = (mp_end_block (m_part s) + 1) * dv_eraseSize dv;
            startAddr = mp_start_block (m_part s) * dv_eraseSize dv;
            pos = (case wh of
                     SEEK_SET \<Rightarrow>
                       if offset \<ge> 0 \<and> size_t offset < endAddr - startAddr
                       then Some (uint (size_t offset)) else None
                   | SEEK_CUR \<Rightarrow>
                       if offset + uint (size_t (m_f_pos s)) \<ge> 0
                          \<and> size_t (offset + m_f_pos s) < endAddr - startAddr
                       then Some (m_f_pos s + offset) else None
                   | SEEK_END \<Rightarrow>
                       if offset < 0 \<and> offset + uint endAddr \<ge> uint startAddr
                       then Some (offset + uint endAddr - uint startAddr) else None
                   | SEEK_OTHER \<Rightarrow> None)
        in (case pos of
              None \<Rightarrow> (Inl NEG_EINVAL, emit (PartUnlock, 0) s1)
            | Some q \<Rightarrow> (Inr q, emit (PartUnlock, 0) (s1\<lparr>m_f_pos := q\<rparr>)))))"

subsection \<open>Control calls\<close>

definition MtdCharGetMtdInfo :: "MtdDevice \<Rightarrow> MtdInfo" where
  "MtdCharGetMtdInfo d =
     \<lparr>mo_type = (if md_type d = MTD_TYPE_NOR \<or> md_type d = MTD_TYPE_SPI_NOR then MTD_NORFLASH else MTD_NANDFLASH),
      mo_size = md_capacity d, mo_erasesize = md_eraseSize d, mo_writesize = md_writeSize d,
      mo_oobsize = md_oobSize d\<rparr>"

text \<open>The size of the partition is stored directly through the user's pointer.\<close>

definition MtdCharIoctlGetInfo ::
  "('m) mtd_env_scheme \<Rightarrow> mtd_partition \<Rightarrow> MtdDevice \<Rightarrow> ('a) mtd_sys_scheme \<Rightarrow> ret \<times> ('a) mtd_sys_scheme" where
  "MtdCharIoctlGetInfo E part d s =
     (case mtd_call E (CopyOut (MtdCharGetMtdInfo d)) s of (r, s1) \<Rightarrow>
        (ret_of r,
         if r = 0
         then emit (UserStoreSize ((mp_end_block part + 1) * md_eraseSize d - mp_start_block part * md_eraseSize d), 0) s1
         else s1))"

definition MtdCharIoctlErase ::
  "('m) mtd_env_scheme \<Rightarrow> mtd_partition \<Rightarrow> nat \<Rightarrow> MtdDevice \<Rightarrow> u32 \<Rightarrow> ('a) mtd_sys_scheme
   \<Rightarrow> ret \<times> ('a) mtd_sys_scheme" where
  "MtdCharIoctlErase E part dn d arg s =
     (case mtd_call E CopyIn s of (r, s1) \<Rightarrow>
        if r \<noteq> 0 then (NEG_EINVAL, s1)
        else
          let startAddr = mp_start_block part * md_eraseSize d; e = user_erase E arg in
          (case mtd_call E (MtdErase (Some dn) (uint startAddr + ei_start e)
                  (size_t (uint startAddr + ei_length e))) s1 of (r2, s2) \<Rightarrow> (ret_of r2, s2)))"

definition MtdCharIoctlGetBadBlock ::
  "('m) mtd_env_scheme \<Rightarrow> mtd_partition \<Rightarrow> nat \<Rightarrow> MtdDevice \<Rightarrow> u32 \<Rightarrow> ('a) mtd_sys_scheme
   \<Rightarrow> ret \<times> ('a) mtd_sys_scheme" where
  "MtdCharIoctlGetBadBlock E part dn d arg s =
     (case mtd_call E CopyIn s of (r, s1) \<Rightarrow>
        if r \<noteq> 0 then (NEG_EINVAL, s1)
        else
          (case mtd_call E (MtdIsBad (Some dn) (uint (mp_start_block part * md_eraseSize d) + user_offs E arg)) s1 of
             (r2, s2) \<Rightarrow> (ret_of r2, s2)))"

definition MtdCharIoctlSetBadBlock ::
  "('m) mtd_env_scheme \<Rightarrow> mtd_partition \<Rightarrow> nat \<Rightarrow> MtdDevice \<Rightarrow> u32 \<Rightarrow> ('a) mtd_sys_scheme
   \<Rightarrow> ret \<times> ('a) mtd_sys_scheme" where
  "MtdCharIoctlSetBadBlock E part dn d arg s =
     (case mtd_call E CopyIn s of (r, s1) \<Rightarrow>
        if r \<noteq> 0 then (NEG_EINVAL, s1)
        else
          (case mtd_call E (MtdMarkBad (Some dn) (uint (mp_start_block part * md_eraseSize d) + user_offs E arg)) s1 of
             (r2, s2) \<Rightarrow> (ret_of r2, s2)))"

datatype mtd_cmd =
    MTD_IOC_GETINFO | MTD_IOC_ERASE | MTD_IOC_ERASE64 | MTD_IOC_GETBADBLOCK | MTD_IOC_SETBADBLOCK
  | MTD_IOC_SETFILEMODE | MTD_IOC_OTHER

definition MtdCharIoctl ::
  "('m) mtd_env_scheme \<Rightarrow> mtd_cmd \<Rightarrow> u32 \<Rightarrow> ('a) mtd_sys_scheme \<Rightarrow> ret \<times> ('a) mtd_sys_scheme" where
  "MtdCharIoctl E cmd arg s =
     (case (part_device s, Option.bind (part_device s) (mdevices s)) of
        (Some dn, Some d) \<Rightarrow>
          if arg = 0 then (NEG_EINVAL, s)
          else
            let s1 = emit (PartLock, 0) s in
            (case (case cmd of
                MTD_IOC_GETINFO \<Rightarrow> MtdCharIoctlGetInfo E (m_part s) d s1
              | MTD_IOC_ERASE \<Rightarrow> MtdCharIoctlErase E (m_part s) dn d arg s1
              | MTD_IOC_ERASE64 \<Rightarrow> MtdCharIoctlErase E (m_part s) dn d arg s1
              | MTD_IOC_GETBADBLOCK \<Rightarrow> MtdCharIoctlGetBadBlock E (m_part s) dn d arg s1
              | MTD_IOC_SETBADBLOCK \<Rightarrow> MtdCharIoctlSetBadBlock E (m_part s) dn d arg s1
              | MTD_IOC_SETFILEMODE \<Rightarrow>
                  (case m_f_priv s1 of None \<Rightarrow> (HDF_FAILURE, m_bad s1) | Some p \<Rightarrow>
                    (case mfis s1 p of None \<Rightarrow> (HDF_FAILURE, m_bad s1) | Some mfi \<Rightarrow>
                      if arg \<ge> MTD_FILE_MODE_MAX E
                      then (NEG_EINVAL, s1\<lparr>mfis := (mfis s1)(p \<mapsto> mfi\<lparr>mf_mode := 0\<rparr>)\<rparr>)
                      else (HDF_SUCCESS, s1\<lparr>mfis := (mfis s1)(p \<mapsto> mfi\<lparr>mf_mode := sint arg\<rparr>)\<rparr>)))
              | MTD_IOC_OTHER \<Rightarrow> (NEG_EINVAL, s1)) of
               (r, s2) \<Rightarrow> (r, emit (PartUnlock, 0) s2))
      | _ \<Rightarrow> (NEG_EINVAL, if part_dev s = None then m_bad s else s))"

definition MtdCharMap :: int where "MtdCharMap = 0"

subsection \<open>The device behind the partitions\<close>

definition ToLiteOsMtdType :: "('m) mtd_env_scheme \<Rightarrow> MtdDevType \<Rightarrow> int" where
  "ToLiteOsMtdType E t =
     (case t of
        MTD_TYPE_NAND \<Rightarrow> MTD_NANDFLASH | MTD_TYPE_SPI_NAND \<Rightarrow> MTD_NANDFLASH
      | MTD_TYPE_NOR \<Rightarrow> MTD_NORFLASH | MTD_TYPE_SPI_NOR \<Rightarrow> MTD_NORFLASH
      | MTD_TYPE_OTHER \<Rightarrow> MTD_TYPE_MAX E)"

text \<open>The new content of \<open>*failAddr\<close> is returned, \<open>None\<close> when it is not written.\<close>

definition HdfMtdDevErase ::
  "('m) mtd_env_scheme \<Rightarrow> MtdDev option \<Rightarrow> u64 \<Rightarrow> u64 \<Rightarrow> bool \<Rightarrow> ('a) mtd_sys_scheme
   \<Rightarrow> ret \<times> int option \<times> ('a) mtd_sys_scheme" where
  "HdfMtdDevErase E mtdDev start len failAddr_ok s =
     (case mtdDev of None \<Rightarrow> (HDF_ERR_INVALID_OBJECT, None, s) | Some dv \<Rightarrow>
        if \<not> failAddr_ok then (NEG_EINVAL, None, s)
        else
          (case mtd_call E (MtdErase (dv_priv dv) (sint start) (ucast len)) s of (r, s1) \<Rightarrow>
             (ret_of r, if r \<noteq> 0 then Some (mtd_fail_addr E (ev s1)) else None, s1)))"

definition HdfMtdDevRead ::
  "('m) mtd_env_scheme \<Rightarrow> MtdDev option \<Rightarrow> u64 \<Rightarrow> u64 \<Rightarrow> ('a) mtd_sys_scheme \<Rightarrow> ret \<times> ('a) mtd_sys_scheme" where
  "HdfMtdDevRead E mtdDev start len s =
     (case mtdDev of None \<Rightarrow> (HDF_ERR_INVALID_OBJECT, s) | Some dv \<Rightarrow>
        (case mtd_call E (MtdRead (dv_priv dv) (sint start) (ucast len)) s of (r, s1) \<Rightarrow> (ret_of r, s1)))"

definition HdfMtdDevWrite ::
  "('m) mtd_env_scheme \<Rightarrow> MtdDev option \<Rightarrow> u64 \<Rightarrow> u64 \<Rightarrow> ('a) mtd_sys_scheme \<Rightarrow> ret \<times> ('a) mtd_sys_scheme" where
  "HdfMtdDevWrite E mtdDev start len s =
     (case mtdDev of None \<Rightarrow> (HDF_ERR_INVALID_OBJECT, s) | Some dv \<Rightarrow>
        (case mtd_call E (MtdWrite (dv_priv dv) (sint start) (ucast len)) s of (r, s1) \<Rightarrow> (ret_of r, s1)))"

definition MtdCharGetName :: "MtdDevice \<Rightarrow> string option" where
  "MtdCharGetName d =
     (case md_type d of MTD_TYPE_SPI_NOR \<Rightarrow> Some ''spinor'' | MTD_TYPE_SPI_NAND \<Rightarrow> Some ''nand'' | _ \<Rightarrow> None)"

definition MtdCharOsInit ::
  "('m) mtd_env_scheme \<Rightarrow> nat option \<Rightarrow> ('a) mtd_sys_scheme \<Rightarrow> ret \<times> ('a) mtd_sys_scheme" where
  "MtdCharOsInit E mtdDevice s =
     (case mtdDevice of None \<Rightarrow> (HDF_ERR_INVALID_OBJECT, s) | Some dn \<Rightarrow>
       (case mdevices s dn of None \<Rightarrow> (HDF_FAILURE, m_bad s) | Some d \<Rightarrow>
         (case MtdCharGetName d of None \<Rightarrow> (HDF_FAILURE, s) | Some nm \<Rightarrow>
            if GetMtdInfo (Some nm) s = 0 then (HDF_ERR_NOT_SUPPORT, s)
            else
              (case OsalMemCalloc E (Objs ''MtdDev'' 1) s of
                 (None, s1) \<Rightarrow> (HDF_ERR_IO, s1)
               | (Some p, s1) \<Rightarrow>
                   let s2 = AddMtdList E (Some nm) (Some p)
                              (s1\<lparr>mtdevs := (mtdevs s1)(p \<mapsto>
                                 \<lparr>dv_priv = Some dn, dv_type = ToLiteOsMtdType E (md_type d),
                                  dv_size = md_capacity d, dv_eraseSize = md_eraseSize d\<rparr>)\<rparr>);
                       s3 = s2\<lparr>mdevices := (mdevices s2)(dn \<mapsto> d\<lparr>md_osData := Some p\<rparr>)\<rparr>
                   in (HDF_SUCCESS, MtdDeviceLegacyFillMtdInfo (Some dn) s3)))))"

definition MtdCharOsUninit :: "nat option \<Rightarrow> ('a) mtd_sys_scheme \<Rightarrow> ('a) mtd_sys_scheme" where
  "MtdCharOsUninit mtdDevice s =
     (case mtdDevice of None \<Rightarrow> s | Some dn \<Rightarrow>
       (case mdevices s dn of None \<Rightarrow> m_bad s | Some d \<Rightarrow>
         (case MtdCharGetName d of None \<Rightarrow> s | Some nm \<Rightarrow> snd (DelMtdList (md_osData d) s))))"

end
