(* ===== verification/Mtd_Facts.thy ===== *)
theory Mtd_Facts
  imports Mtd
begin

text \<open>
  The device list is a registry; transfers on a partition stay inside it, erasing does not; and a
  flash device that is set up and torn down leaves one block behind.
\<close>

subsection \<open>The device list as a registry\<close>

definition mtd_lookup :: "string \<Rightarrow> ('a) mtd_sys_scheme \<Rightarrow> nat option" where
  "mtd_lookup t s = map_option mn_mtdDev (List.find (\<lambda>n. mn_type n = t) (g_mtdHead s))"

text \<open>Entries have distinct types and devices, their blocks are live, and nobody uses them.\<close>

definition mtd_ok :: "('a) mtd_sys_scheme \<Rightarrow> bool" where
  "mtd_ok s \<longleftrightarrow>
     heap_ok s \<and> distinct (map mn_type (g_mtdHead s)) \<and> distinct (map mn_mtdDev (g_mtdHead s)) \<and>
     distinct (map mn_block (g_mtdHead s)) \<and>
     (\<forall>n \<in> set (g_mtdHead s). mn_status n = 0 \<and> mn_block n \<in> dom (h_blk s))"

text \<open>\<open>AddMtdList\<close> reports nothing; its effect is seen in the list.\<close>

definition mtd_add ::
  "('m) mtd_env_scheme \<Rightarrow> string \<times> nat \<Rightarrow> ('a) mtd_sys_scheme \<Rightarrow> nat option \<times> ('a) mtd_sys_scheme" where
  "mtd_add E x s =
     (let s' = AddMtdList E (Some (fst x)) (Some (snd x)) s
      in (if g_mtdHead s' = g_mtdHead s then None else Some (snd x), s'))"

definition mtd_del :: "nat \<Rightarrow> ('a) mtd_sys_scheme \<Rightarrow> ('a) mtd_sys_scheme" where
  "mtd_del d s = snd (DelMtdList (Some d) s)"

lemma mtd_add_eq:
  "mtd_add E (t, d) s =
     (if mem_ok E (h_next s) (Objs ''MtdDevNode'' 1)
      then (Some d, s\<lparr>h_next := Suc (h_next s), h_blk := (h_blk s)(h_next s \<mapsto> []),
              g_mtdHead := \<lparr>mn_block = h_next s, mn_type = t, mn_status = 0, mn_mtdDev = d\<rparr> # g_mtdHead s\<rparr>)
      else (None, s\<lparr>h_next := Suc (h_next s)\<rparr>))"
  by (simp add: mtd_add_def AddMtdList_def alloc_eqs)

lemma find_SomeD: "List.find P xs = Some x \<Longrightarrow> x \<in> set xs \<and> P x"
  by (auto simp: find_Some_iff)

lemma mtd_lookup_node:
  "mtd_lookup t s = Some d \<Longrightarrow> \<exists>n. n \<in> set (g_mtdHead s) \<and> mn_type n = t \<and> mn_mtdDev n = d"
  by (auto simp: mtd_lookup_def dest!: find_SomeD)

lemma map_remove1_inj: "inj_on f (set xs) \<Longrightarrow> x \<in> set xs \<Longrightarrow> map f (remove1 x xs) = remove1 (f x) (map f xs)"
  by (induction xs) (auto simp: inj_on_def)

lemma mtd_del_eq:
  assumes ok: "mtd_ok s" and n: "n \<in> set (g_mtdHead s)"
  shows "mtd_del (mn_mtdDev n) s =
     s\<lparr>h_blk := (h_blk s)(mn_block n := None), g_mtdHead := remove1 n (g_mtdHead s)\<rparr>"
proof -
  have inj: "inj_on mn_mtdDev (set (g_mtdHead s))"
    using ok by (simp add: mtd_ok_def distinct_map)
  have "List.find (\<lambda>m. mn_mtdDev m = mn_mtdDev n) (g_mtdHead s) \<noteq> None"
    using n by (auto simp: find_None_iff)
  then obtain m where m: "List.find (\<lambda>m. mn_mtdDev m = mn_mtdDev n) (g_mtdHead s) = Some m"
    by auto
  from find_SomeD [OF this] have "m \<in> set (g_mtdHead s)" "mn_mtdDev m = mn_mtdDev n"
    by auto
  then have "m = n"
    using inj n by (auto simp: inj_on_def)
  then show ?thesis
    using ok m n by (auto simp: mtd_del_def DelMtdList_def mtd_ok_def LOS_MemFree_def)
qed

lemma distinct_map_remove1: "distinct (map f xs) \<Longrightarrow> distinct (map f (remove1 x xs))"
  by (induction xs) (auto dest: notin_set_remove1 simp: image_iff)

lemma mtd_ok_del:
  assumes ok: "mtd_ok s" and n: "n \<in> set (g_mtdHead s)"
  shows "mtd_ok (mtd_del (mn_mtdDev n) s)"
proof -
  let ?b = "(h_blk s)(mn_block n := None)"
  have d: "distinct (g_mtdHead s)"
    using ok by (auto simp: mtd_ok_def distinct_map)
  have l: "mn_status m = 0 \<and> mn_block m \<in> dom ?b" if m: "m \<in> set (remove1 n (g_mtdHead s))" for m
  proof -
    have "m \<in> set (g_mtdHead s)" "m \<noteq> n"
      using m d by auto
    then show ?thesis
      using ok n by (auto simp: mtd_ok_def distinct_map inj_on_def)
  qed
  have h: "heap_ok (s\<lparr>h_blk := ?b\<rparr>)"
    using ok by (auto simp: mtd_ok_def heap_ok_def)
  show ?thesis
    using ok l h by (simp add: mtd_del_eq [OF ok n] mtd_ok_def distinct_map_remove1 heap_ok_def)
qed

lemma find_remove1_other:
  "mn_type n \<noteq> t \<Longrightarrow> List.find (\<lambda>m. mn_type m = t) (remove1 n ns) = List.find (\<lambda>m. mn_type m = t) ns"
  by (induction ns) auto

interpretation mtd_list: registry fst "mtd_add E" mtd_lookup mtd_del mtd_ok
    "\<lambda>x s. snd x \<notin> mn_mtdDev ` set (g_mtdHead s)"
proof unfold_locales
  fix s s' :: "'b mtd_sys_scheme" and x :: "string \<times> nat" and v j
  assume a: "mtd_ok s" "snd x \<notin> mn_mtdDev ` set (g_mtdHead s)" "mtd_lookup (fst x) s = None"
    "mtd_add E x s = (Some v, s')"
  have "h_blk s (h_next s) = None"
    using a(1) by (simp add: mtd_ok_def heap_ok_def)
  then have f: "h_next s \<notin> mn_block ` set (g_mtdHead s)"
    using a(1) by (auto simp: mtd_ok_def dom_def)
  show "mtd_ok s' \<and> mtd_lookup (fst x) s' = Some v"
    using a f
    by (cases x) (auto simp: mtd_add_eq mtd_lookup_def mtd_ok_def heap_ok_def find_None_iff image_iff
        split: if_splits)
next
  fix s s' :: "'b mtd_sys_scheme" and x :: "string \<times> nat" and r j
  assume "mtd_add E x s = (r, s')" "j \<noteq> fst x"
  then show "mtd_lookup j s' = mtd_lookup j s"
    by (cases x) (auto simp: mtd_add_eq mtd_lookup_def split: if_splits)
next
  fix s s' :: "'b mtd_sys_scheme" and x :: "string \<times> nat" and j
  assume "mtd_add E x s = (None, s')"
  then show "mtd_lookup j s' = mtd_lookup j s"
    by (cases x) (auto simp: mtd_add_eq mtd_lookup_def split: if_splits)
next
  fix s :: "'b mtd_sys_scheme" and k v
  assume ok: "mtd_ok s" and "mtd_lookup k s = Some v"
  then obtain n where n: "n \<in> set (g_mtdHead s)" "mn_type n = k" "mn_mtdDev n = v"
    using mtd_lookup_node by blast
  have "mtd_ok (mtd_del v s)"
    using mtd_ok_del [OF ok n(1)] n(3) by simp
  moreover have "mtd_lookup k (mtd_del v s) = None"
    using mtd_del_eq [OF ok n(1)] n ok
    by (auto simp: mtd_lookup_def mtd_ok_def find_None_iff distinct_map inj_on_def)
  ultimately show "mtd_ok (mtd_del v s) \<and> mtd_lookup k (mtd_del v s) = None" ..
next
  fix s :: "'b mtd_sys_scheme" and k v j
  assume ok: "mtd_ok s" and "mtd_lookup k s = Some v" and j: "j \<noteq> k"
  then obtain n where n: "n \<in> set (g_mtdHead s)" "mn_type n = k" "mn_mtdDev n = v"
    using mtd_lookup_node by blast
  show "mtd_lookup j (mtd_del v s) = mtd_lookup j s"
    using mtd_del_eq [OF ok n(1)] n j by (simp add: mtd_lookup_def find_remove1_other)
qed

lemma GetMtdInfo_lookup: "GetMtdInfo (Some t) s = (if mtd_lookup t s = None then -1 else 0)"
  by (simp add: GetMtdInfo_def mtd_lookup_def split: option.splits)

subsection \<open>Transfers stay inside the partition\<close>

text \<open>
  The calls to the flash core are plain transfers, or transfers with the spare bytes of each page, on
  device \<open>dn\<close> between the two addresses.
\<close>

definition transfers_within :: "bool \<Rightarrow> nat \<Rightarrow> int \<Rightarrow> int \<Rightarrow> mtd_ev \<Rightarrow> bool" where
  "transfers_within oob dn lo hi c \<longleftrightarrow>
     (case c of
        MtdRead d a n \<Rightarrow> \<not> oob \<and> d = Some dn \<and> lo \<le> a \<and> a + uint n \<le> hi
      | MtdWrite d a n \<Rightarrow> \<not> oob \<and> d = Some dn \<and> lo \<le> a \<and> a + uint n \<le> hi
      | MtdReadOob d a n \<Rightarrow> oob \<and> d = Some dn \<and> lo \<le> a \<and> a + uint n \<le> hi
      | MtdWriteOob d a n \<Rightarrow> oob \<and> d = Some dn \<and> lo \<le> a \<and> a + uint n \<le> hi
      | PartLock \<Rightarrow> True
      | PartUnlock \<Rightarrow> True
      | _ \<Rightarrow> False)"

lemma uint_mult_lt32:
  "uint a * uint b < 4294967296 \<Longrightarrow> uint (a * b :: u32) = uint a * uint b"
  by (simp add: uint_word_ariths take_bit_int_eq_self)

lemma uint_sub32: "uint (a - b :: u32) = (uint a - uint b) mod 4294967296"
  by (simp add: uint_word_ariths)

lemma uint_part_size:
  fixes p :: mtd_partition
  assumes "mp_start_block p \<le> mp_end_block p"
    and "(uint (mp_end_block p) + 1) * uint bs < 4294967296" and "0 < uint bs"
  shows "uint (partStart p bs) = uint (mp_start_block p) * uint bs"
    and "uint (partSize p bs) = (uint (mp_end_block p) + 1 - uint (mp_start_block p)) * uint bs"
    and "uint ((mp_end_block p + 1) * bs) = (uint (mp_end_block p) + 1) * uint bs"
proof -
  let ?s = "uint (mp_start_block p)" and ?e = "uint (mp_end_block p)" and ?b = "uint bs"
  have se: "0 \<le> ?s" "?s \<le> ?e"
    using assms(1) by (simp_all add: word_le_def)
  have m: "(?e + 1) * 1 \<le> (?e + 1) * ?b"
    by (rule mult_left_mono) (use assms(3) se in auto)
  have e: "?e + 1 < 4294967296"
    using order_le_less_trans [OF m assms(2)] by simp
  have e1: "uint (mp_end_block p + 1) = ?e + 1"
    using e se by (simp add: uint_word_ariths take_bit_int_eq_self)
  have es: "uint (mp_end_block p + 1 - mp_start_block p) = ?e + 1 - ?s"
    unfolding uint_sub32 e1 by (rule mod_pos_pos_trivial) (use e se in linarith)+
  have le: "?s * ?b \<le> (?e + 1) * ?b" "(?e + 1 - ?s) * ?b \<le> (?e + 1) * ?b"
    by (rule mult_right_mono, use assms(3) se in linarith, use assms(3) in linarith)+
  show "uint (partStart p bs) = ?s * ?b"
    using le assms(2) by (simp add: partStart_def uint_mult_lt32)
  show "uint (partSize p bs) = (?e + 1 - ?s) * ?b"
    using le assms(2) by (simp add: partSize_def uint_mult_lt32 es)
  show "uint ((mp_end_block p + 1) * bs) = (?e + 1) * ?b"
    using assms(2) by (simp add: uint_mult_lt32 e1)
qed

text \<open>Sums and products of words are at most those of their values.\<close>

lemma uint_add_le: "uint (a + b :: u32) \<le> uint a + uint b"
  unfolding uint_word_ariths by (rule zmod_le_nonneg_dividend) simp

lemma uint_mult_le: "uint (a * b :: u32) \<le> uint a * uint b"
  unfolding uint_word_ariths by (rule zmod_le_nonneg_dividend) simp

lemma uint_drop32: "uint (drop_bit k w :: u32) = uint w div 2 ^ k"
  by (simp only: unsigned_drop_bit_eq) (simp add: drop_bit_eq_div take_bit_int_eq_self uint_lt2p [of w, simplified])

lemma uint_oob_le:
  "uint (partSize p bs + partOobSize p d) \<le> uint (partSize p bs) + uint (partSize p (md_eraseSize d)) div 2 ^ md_writeSizeShift d * uint (md_oobSize d)"
proof -
  have "uint (partOobSize p d) \<le> uint (partSize p (md_eraseSize d)) div 2 ^ md_writeSizeShift d * uint (md_oobSize d)"
    unfolding partOobSize_def by (rule order_trans [OF uint_mult_le]) (simp only: uint_drop32)
  then show ?thesis
    using uint_add_le [of "partSize p bs" "partOobSize p d"] by linarith
qed

lemma part_bytes:
  fixes p :: mtd_partition
  assumes wf: "mp_start_block p \<le> mp_end_block p" "(uint (mp_end_block p) + 1) * uint bs < 4294967296"
  shows "uint (partStart p bs) = uint (mp_start_block p) * uint bs"
    and "uint (partSize p bs) = (uint (mp_end_block p) + 1) * uint bs - uint (mp_start_block p) * uint bs"
proof -
  have "uint (partStart p bs) = uint (mp_start_block p) * uint bs \<and>
      uint (partSize p bs) = (uint (mp_end_block p) + 1) * uint bs - uint (mp_start_block p) * uint bs"
  proof (cases "bs = 0")
    case True
    then show ?thesis
      by (simp add: partStart_def partSize_def)
  next
    case False
    then have "0 < uint bs"
      using uint_0_iff [of bs] by (simp add: less_le)
    from uint_part_size [OF wf this] show ?thesis
      by (simp add: algebra_simps)
  qed
  then show "uint (partStart p bs) = uint (mp_start_block p) * uint bs"
    and "uint (partSize p bs) = (uint (mp_end_block p) + 1) * uint bs - uint (mp_start_block p) * uint bs"
    by blast+
qed

text \<open>
  C40. Reading and writing a flash partition, whose blocks are in order and end below 2^32
  bytes, only ever calls the flash core on that partition of the right device: in the modes
  without spare bytes on the bytes of the partition, and the file position advances by the
  length on success; in the mode with spare bytes (MTD_FILE_MODE_OOB) on a range that goes
  beyond the partition by at most the spare bytes of its pages, and the position advances by the
  length less the spare bytes of the pages in it. On an error the position stays.
\<close>

theorem mtd_rw_in_partition:
  fixes s s' :: "('a) mtd_sys_scheme"
  defines "lo \<equiv> \<lambda>d. uint (mp_start_block (m_part s)) * uint (md_eraseSize d)"
    and "hi \<equiv> \<lambda>d. (uint (mp_end_block (m_part s)) + 1) * uint (md_eraseSize d)"
  assumes dev: "part_device s = Some dn" "mdevices s dn = Some d"
    and mfi: "Option.bind (m_f_priv s) (mfis s) = Some mfi"
    and wf: "mp_start_block (m_part s) \<le> mp_end_block (m_part s)" "hi d < 2 ^ 32"
    and call: "MtdCharRead E b n s = (r, s') \<or> MtdCharWrite E b n s = (r, s')"
  defines "oob \<equiv> mf_mode mfi = MTD_FILE_MODE_OOB E"
  shows "(\<exists>es. ev s' = ev s @ es \<and> (\<forall>c \<in> set es. transfers_within oob dn (lo d)
        (if oob then hi d + (hi d - lo d) div 2 ^ md_writeSizeShift d * uint (md_oobSize d) else hi d) (fst c)))
    \<and> m_f_pos s' = (if r \<noteq> HDF_SUCCESS then m_f_pos s
        else if oob then m_f_pos s + uint (n - drop_bit (md_writeSizeShift d) n * md_oobSize d) else m_f_pos s + uint n)"
proof -
  have h: "(uint (mp_end_block (m_part s)) + 1) * uint (md_eraseSize d) < 4294967296"
    using wf(2) by (simp add: hi_def)
  note P = part_bytes [OF wf(1) h]
  have sum: "uint (partStart (m_part s) (md_eraseSize d)) = lo d" "uint (partSize (m_part s) (md_eraseSize d)) = hi d - lo d"
    unfolding P hi_def lo_def by simp_all
  note oobs = uint_oob_le [of "m_part s" "md_eraseSize d" d, unfolded sum]
  have rw: "(\<exists>es. ev s' = ev s @ es \<and> (\<forall>c \<in> set es. transfers_within oob dn (lo d)
        (if oob then hi d + (hi d - lo d) div 2 ^ md_writeSizeShift d * uint (md_oobSize d) else hi d) (fst c)))
      \<and> m_f_pos s' = (if r \<noteq> HDF_SUCCESS then m_f_pos s
          else if oob then m_f_pos s + uint (n - drop_bit (md_writeSizeShift d) n * md_oobSize d) else m_f_pos s + uint n)"
    if "char_rw E op b n s = (r, s')"
      and op: "\<And>x a m. op x (Some dn) a m \<in> (if x then {MtdReadOob (Some dn) a m, MtdWriteOob (Some dn) a m}
                                           else {MtdRead (Some dn) a m, MtdWrite (Some dn) a m})"
    for op
    using that(1) dev mfi sum oobs op [of oob "lo d + m_f_pos s" n]
    by (cases oob) (auto simp: char_rw_def Let_def mtd_call_def ext_call_def emit_def transfers_within_def
        simp flip: oob_def split: if_splits prod.splits)
  show ?thesis
    using call unfolding MtdCharRead_def MtdCharWrite_def
  proof
    assume "char_rw E (\<lambda>oob d a n. if oob then MtdReadOob d a n else MtdRead d a n) b n s = (r, s')"
    then show ?thesis
      by (rule rw) simp
  next
    assume "char_rw E (\<lambda>oob d a n. if oob then MtdWriteOob d a n else MtdWrite d a n) b n s = (r, s')"
    then show ?thesis
      by (rule rw) simp
  qed
qed

lemma size_t_exact: "0 \<le> n \<Longrightarrow> n < 4294967296 \<Longrightarrow> uint (size_t n) = n"
  by (simp add: size_t_def uint_word_of_int)

text \<open>
  The erase control call passes start address plus length as the length: an erase request
  that reaches the end of a partition that does not start at block 0 erases beyond the
  partition.
\<close>

theorem mtd_erase_escapes:
  fixes s :: "('a) mtd_sys_scheme" and E :: "('m) mtd_env_scheme"
  defines "lo \<equiv> \<lambda>d. uint (mp_start_block (m_part s)) * uint (md_eraseSize d)"
    and "hi \<equiv> \<lambda>d. (uint (mp_end_block (m_part s)) + 1) * uint (md_eraseSize d)"
  assumes dev: "part_device s = Some dn" "mdevices s dn = Some d"
    and wf: "mp_start_block (m_part s) \<le> mp_end_block (m_part s)" "hi d < 2 ^ 32" "0 < md_eraseSize d"
    and cmd: "cmd = MTD_IOC_ERASE \<or> cmd = MTD_IOC_ERASE64" "arg \<noteq> 0"
    and copied: "mtd_api E (ev s @ [(PartLock, 0)]) CopyIn = 0"
    and req: "0 \<le> ei_start (user_erase E arg)" "0 \<le> ei_length (user_erase E arg)"
      "ei_start (user_erase E arg) + ei_length (user_erase E arg) \<le> hi d - lo d"
  shows "\<exists>n k. ev (snd (MtdCharIoctl E cmd arg s)) =
        ev s @ [(PartLock, 0), (CopyIn, 0),
                (MtdErase (Some dn) (lo d + ei_start (user_erase E arg)) n, k), (PartUnlock, 0)]
      \<and> uint n = lo d + ei_length (user_erase E arg)
      \<and> (ei_start (user_erase E arg) + ei_length (user_erase E arg) = hi d - lo d \<and> 0 < mp_start_block (m_part s)
           \<longrightarrow> hi d < lo d + ei_start (user_erase E arg) + uint n)"
proof -
  let ?e = "user_erase E arg"
  have b: "0 < uint (md_eraseSize d)"
    using wf(3) by (simp add: word_less_def)
  have h: "(uint (mp_end_block (m_part s)) + 1) * uint (md_eraseSize d) < 4294967296"
    using wf(2) by (simp add: hi_def)
  note P = uint_part_size [OF wf(1) h b]
  have lo: "uint (mp_start_block (m_part s) * md_eraseSize d) = lo d"
    using P(1) by (simp add: partStart_def lo_def)
  have len: "lo d + ei_length ?e \<le> hi d"
    using req by linarith
  have n: "uint (size_t (lo d + ei_length ?e)) = lo d + ei_length ?e"
    by (rule size_t_exact) (use len req(2) wf(2) in \<open>simp_all add: lo_def\<close>)
  have pos: "0 < mp_start_block (m_part s) \<Longrightarrow> 0 < lo d"
    using b by (simp add: lo_def word_less_def)
  have E: "\<exists>k. ev (snd (MtdCharIoctl E cmd arg s)) =
        ev s @ [(PartLock, 0), (CopyIn, 0),
                (MtdErase (Some dn) (lo d + ei_start ?e) (size_t (lo d + ei_length ?e)), k), (PartUnlock, 0)]"
    using cmd dev copied
    by (auto simp: MtdCharIoctl_def MtdCharIoctlErase_def Let_def mtd_call_def ext_call_def emit_def lo
        split: prod.split)
  then show ?thesis
    using n pos by fastforce
qed

subsection \<open>A flash device comes and goes\<close>

text \<open>
  Setting up a flash device enters it in the device list once (a second set-up is refused),
  tearing it down restores every lookup, and exactly the MtdDev block stays allocated.
\<close>

theorem mtd_init_uninit:
  assumes ok: "mtd_ok s" "\<forall>n \<in> set (g_mtdHead s). mn_mtdDev n < h_next s"
    and dev: "mdevices s dn = Some d" "MtdCharGetName d = Some nm"
    and new: "GetMtdInfo (Some nm) s \<noteq> 0"
    and mem: "mem_ok E (Suc (h_next s)) (Objs ''MtdDevNode'' 1)"
    and init: "MtdCharOsInit E (Some dn) s = (HDF_SUCCESS, s1)"
  defines "s2 \<equiv> MtdCharOsUninit (Some dn) s1"
  shows "GetMtdInfo (Some nm) s1 = 0 \<and> MtdCharOsInit E (Some dn) s1 = (HDF_ERR_NOT_SUPPORT, s1)
    \<and> mtd_ok s2 \<and> (\<forall>t. GetMtdInfo t s2 = GetMtdInfo t s)
    \<and> h_bad s2 = h_bad s \<and> h_blk s2 = (h_blk s)(h_next s \<mapsto> [])"
proof -
  define a where "a = s\<lparr>h_next := Suc (h_next s), h_blk := (h_blk s)(h_next s \<mapsto> []),
    mtdevs := (mtdevs s)(h_next s \<mapsto> \<lparr>dv_priv = Some dn, dv_type = ToLiteOsMtdType E (md_type d),
                                   dv_size = md_capacity d, dv_eraseSize = md_eraseSize d\<rparr>)\<rparr>"
  let ?n = "\<lparr>mn_block = Suc (h_next s), mn_type = nm, mn_status = 0, mn_mtdDev = h_next s\<rparr>"
  have "mem_ok E (h_next s) (Objs ''MtdDev'' 1)"
    using init dev new by (auto simp: MtdCharOsInit_def alloc_eqs split: if_splits)
  then have s1: "s1 = MtdDeviceLegacyFillMtdInfo (Some dn)
      ((snd (mtd_add E (nm, h_next s) a))\<lparr>mdevices := (mdevices s)(dn \<mapsto> d\<lparr>md_osData := Some (h_next s)\<rparr>)\<rparr>)"
    and add: "mtd_add E (nm, h_next s) a = (Some (h_next s), a\<lparr>h_next := Suc (Suc (h_next s)),
       h_blk := (h_blk a)(Suc (h_next s) \<mapsto> []), g_mtdHead := ?n # g_mtdHead s\<rparr>)"
    using init dev new mem
    by (simp_all add: MtdCharOsInit_def alloc_eqs a_def mtd_add_eq AddMtdList_def)
  have s1': "g_mtdHead s1 = ?n # g_mtdHead s" "h_next s1 = Suc (Suc (h_next s))"
    "h_blk s1 = (h_blk s)(h_next s \<mapsto> [], Suc (h_next s) \<mapsto> [])" "h_bad s1 = h_bad s"
    "mdevices s1 dn = Some (d\<lparr>md_osData := Some (h_next s)\<rparr>)"
    by (simp_all add: s1 add MtdDeviceLegacyFillMtdInfo_def) (simp_all add: a_def)
  have a: "mtd_ok a" "h_next s \<notin> mn_mtdDev ` set (g_mtdHead a)" "mtd_lookup nm a = None"
    "mtd_lookup t a = mtd_lookup t s" for t
    using ok new by (auto simp: a_def mtd_ok_def heap_ok_def GetMtdInfo_lookup mtd_lookup_def split: if_splits)
  have nm: "mtd_lookup nm s = None"
    using a(3,4) by simp
  note A = mtd_list.add_Some [of a "(nm, h_next s)", simplified, OF a(1-3) add]
  note O = mtd_list.add_other [of a "(nm, h_next s)", simplified, OF a(1,2) add]
  have lift: "mtd_ok s1" "mtd_lookup nm s1 = Some (h_next s)" "t \<noteq> nm \<Longrightarrow> mtd_lookup t s1 = mtd_lookup t s" for t
    using A O [of t] a(4) [of t] s1' by (auto simp: mtd_ok_def heap_ok_def mtd_lookup_def a_def)
  have s2: "s2 = mtd_del (h_next s) s1"
    using s1' dev by (simp add: s2_def MtdCharOsUninit_def MtdCharGetName_def mtd_del_def)
  have del: "mtd_ok s2" "mtd_lookup t s2 = mtd_lookup t s" for t
    using mtd_list.del_same [OF lift(1,2)] mtd_list.del_other [OF lift(1,2), of t] lift(3) [of t] nm
    by (cases "t = nm"; simp add: s2)+
  have blk: "h_blk s2 = (h_blk s)(h_next s \<mapsto> [])" "h_bad s2 = h_bad s"
    using mtd_del_eq [OF lift(1), of ?n] s1' ok
    by (auto simp: s2 mtd_ok_def heap_ok_def fun_eq_iff)
  have info: "GetMtdInfo t s2 = GetMtdInfo t s" for t
    using del(2) by (cases t) (simp_all add: GetMtdInfo_lookup, simp add: GetMtdInfo_def)
  have again: "MtdCharOsInit E (Some dn) s1 = (HDF_ERR_NOT_SUPPORT, s1)" "GetMtdInfo (Some nm) s1 = 0"
    using lift(2) s1'(5) dev by (simp_all add: MtdCharOsInit_def GetMtdInfo_lookup MtdCharGetName_def)
  show ?thesis
    using again del(1) info blk by blast
qed

subsection \<open>Examples\<close>

text \<open>Blocks 2 to 5 of a SPI NAND with 4096-byte blocks, open at offset 100.\<close>

definition mtd_demo_dev :: MtdDevice where
  "mtd_demo_dev = \<lparr>md_type = MTD_TYPE_SPI_NAND, md_capacity = 1048576, md_eraseSize = 4096,
     md_writeSize = 2048, md_writeSizeShift = 11, md_oobSize = 64, md_osData = None\<rparr>"

definition mtd_demo :: mtd_sys where
  "mtd_demo = \<lparr>h_next = 10, h_blk = [7 \<mapsto> [], 8 \<mapsto> []], h_bad = False, ev = [], g_mtdHead = [],
     mtdevs = [7 \<mapsto> \<lparr>dv_priv = Some 3, dv_type = 4, dv_size = 1048576, dv_eraseSize = 4096\<rparr>],
     mdevices = [3 \<mapsto> mtd_demo_dev], mfis = [8 \<mapsto> \<lparr>mf_partIndex = 0, mf_mode = 0\<rparr>],
     m_part = \<lparr>mp_user_num = 1, mp_patitionnum = 0, mp_start_block = 2, mp_end_block = 5, mp_mtd_info = Some 7\<rparr>,
     m_f_pos = 100, m_f_priv = Some 8, nand_mtd = None, g_nandMtd = None\<rparr>"

definition mtd_demo_env :: mtd_env where
  "mtd_demo_env = \<lparr>mem_ok = (\<lambda>_ _. True), mem_junk = (\<lambda>_ _. 0), copy_ok = (\<lambda>d n. n \<le> d),
     mtd_api = (\<lambda>_ _. 0), mtd_fail_addr = (\<lambda>_. 0), mode_junk = (\<lambda>_. 0),
     user_erase = (\<lambda>_. \<lparr>ei_start = 4096, ei_length = 12288\<rparr>), user_offs = (\<lambda>_. 0),
     MTD_FILE_MODE_OOB = 3, MTD_FILE_MODE_MAX = 4, MTD_TYPE_MAX = 9\<rparr>"

lemma mtd_demo_device:
  "part_device mtd_demo = Some 3" "mdevices mtd_demo 3 = Some mtd_demo_dev"
  "Option.bind (m_f_priv mtd_demo) (mfis mtd_demo) = Some \<lparr>mf_partIndex = 0, mf_mode = 0\<rparr>"
  "mp_start_block (m_part mtd_demo) = 2" "mp_end_block (m_part mtd_demo) = 5"
  "md_eraseSize mtd_demo_dev = 4096" "m_f_pos mtd_demo = 100" "ev mtd_demo = []"
  by (simp_all add: mtd_demo_def mtd_demo_dev_def part_device_def part_dev_def)

lemma mtd_rw_in_partition_witness:
  "\<exists>es. ev (snd (MtdCharRead mtd_demo_env True 512 mtd_demo)) = es
     \<and> (\<forall>c \<in> set es. transfers_within False 3 8192 24576 (fst c))
     \<and> m_f_pos (snd (MtdCharRead mtd_demo_env True 512 mtd_demo)) = 612"
proof -
  have c: "MtdCharRead mtd_demo_env True 512 mtd_demo =
      (HDF_SUCCESS, snd (MtdCharRead mtd_demo_env True 512 mtd_demo))"
    using mtd_demo_device
    by (simp add: MtdCharRead_def char_rw_def mtd_call_def ext_call_def mtd_demo_env_def partSize_def
        split: prod.split)
  then show ?thesis
    using mtd_rw_in_partition [OF mtd_demo_device(1-3), of mtd_demo_env True 512 HDF_SUCCESS
        "snd (MtdCharRead mtd_demo_env True 512 mtd_demo)"] mtd_demo_device
    by (simp add: mtd_demo_env_def)
qed

lemma mtd_erase_escapes_witness:
  "\<exists>n k. (MtdErase (Some 3) 12288 n, k) \<in> set (ev (snd (MtdCharIoctl mtd_demo_env MTD_IOC_ERASE 1 mtd_demo)))
     \<and> 24576 < 12288 + uint n"
  using mtd_erase_escapes [OF mtd_demo_device(1,2), of MTD_IOC_ERASE 1 mtd_demo_env] mtd_demo_device
  by (fastforce simp: mtd_demo_env_def)

lemma mtd_init_uninit_witness:
  "h_blk (MtdCharOsUninit (Some 3) (snd (MtdCharOsInit mtd_demo_env (Some 3) mtd_demo))) =
     (h_blk mtd_demo)(10 \<mapsto> [])"
proof -
  have "fst (MtdCharOsInit mtd_demo_env (Some 3) mtd_demo) = HDF_SUCCESS"
    by (simp add: MtdCharOsInit_def mtd_demo_def mtd_demo_env_def mtd_demo_dev_def alloc_eqs
        MtdCharGetName_def GetMtdInfo_def Let_def)
  then have "MtdCharOsInit mtd_demo_env (Some 3) mtd_demo =
      (HDF_SUCCESS, snd (MtdCharOsInit mtd_demo_env (Some 3) mtd_demo))"
    by (metis prod.collapse)
  from mtd_init_uninit [OF _ _ _ _ _ _ this, of mtd_demo_dev "''nand''"] show ?thesis
    by (simp add: mtd_demo_def mtd_demo_env_def mtd_demo_dev_def mtd_ok_def heap_ok_def
        MtdCharGetName_def GetMtdInfo_def)
qed

end
