(* ===== verification/Dev_Attribute.thy ===== *)
theory Dev_Attribute
  imports Osal_Mem
begin

text \<open>
  Device information sent to a device host, \<open>uhdf2/shared/src/dev_attribute_serialize.c\<close>.

  The IPC buffer \<open>HdfSBuf\<close> is framework code outside the repository: \<open>'b\<close> is its state and the fields
  of \<open>sbuf_env\<close> are its read and write functions. \<open>sbuf_contract\<close> is what they promise, over the view
  \<open>sb_items\<close> of a buffer as the items that were written and not yet read (\<open>SbOther\<close> for items of other types). A string pointer of an
  object is the heap block of the copy with the string in it.
\<close>

datatype sb_item = SbU32 u32 | SbU16 u16 | SbStr "string option" | SbOther

record 'b sbuf_env = mem_env +
  sb_items :: "'b \<Rightarrow> sb_item list"
  HdfSbufWriteUint32 :: "'b \<Rightarrow> u32 \<Rightarrow> bool \<times> 'b"
  HdfSbufWriteUint16 :: "'b \<Rightarrow> u16 \<Rightarrow> bool \<times> 'b"
  HdfSbufWriteString :: "'b \<Rightarrow> string option \<Rightarrow> bool \<times> 'b"
  HdfSbufReadUint32 :: "'b \<Rightarrow> u32 option \<times> 'b"
  HdfSbufReadUint16 :: "'b \<Rightarrow> u16 option \<times> 'b"
  HdfSbufReadString :: "'b \<Rightarrow> string option \<times> 'b"

definition sbuf_contract :: "('b, 'm) sbuf_env_scheme \<Rightarrow> bool" where
  "sbuf_contract E \<longleftrightarrow>
     (\<forall>b x b'. HdfSbufWriteUint32 E b x = (True, b') \<longrightarrow> sb_items E b' = sb_items E b @ [SbU32 x]) \<and>
     (\<forall>b x b'. HdfSbufWriteUint16 E b x = (True, b') \<longrightarrow> sb_items E b' = sb_items E b @ [SbU16 x]) \<and>
     (\<forall>b x b'. HdfSbufWriteString E b x = (True, b') \<longrightarrow> sb_items E b' = sb_items E b @ [SbStr x]) \<and>
     (\<forall>b x r. sb_items E b = SbU32 x # r \<longrightarrow>
        fst (HdfSbufReadUint32 E b) = Some x \<and> sb_items E (snd (HdfSbufReadUint32 E b)) = r) \<and>
     (\<forall>b x r. sb_items E b = SbU16 x # r \<longrightarrow>
        fst (HdfSbufReadUint16 E b) = Some x \<and> sb_items E (snd (HdfSbufReadUint16 E b)) = r) \<and>
     (\<forall>b x r. sb_items E b = SbStr x # r \<longrightarrow>
        fst (HdfSbufReadString E b) = x \<and> sb_items E (snd (HdfSbufReadString E b)) = r)"

text \<open>
  The fields of device information that the code uses; the last two are not sent, the query of the
  device manager reads them (\<open>Devmgr_Ipc\<close>, where \<open>dev_info\<close> is what such a query sees).
\<close>

type_synonym str_ptr = "(nat \<times> string) option"

record HdfDeviceInfo =
  di_deviceId :: u32
  di_policy :: u16
  di_svcName :: str_ptr
  di_moduleName :: str_ptr
  di_deviceMatchAttr :: str_ptr
  di_status :: u16
  di_deviceType :: u32

record attr_sys = "unit sys" +
  attrs :: "nat \<Rightarrow> HdfDeviceInfo option"

definition ATTRIBUTE_PRIVATE_DATA_LENGTH_NULL :: u32 where "ATTRIBUTE_PRIVATE_DATA_LENGTH_NULL = 0"
definition ATTRIBUTE_PRIVATE_DATA_LENGTH_NORMAL :: u32 where "ATTRIBUTE_PRIVATE_DATA_LENGTH_NORMAL = 1"

definition str_of :: "str_ptr \<Rightarrow> string option" where
  "str_of p = map_option snd p"

text \<open>The result of the four leading writes is tested one by one, that of the last two together.\<close>

definition DeviceAttributeSerialize ::
  "('b, 'm) sbuf_env_scheme \<Rightarrow> HdfDeviceInfo option \<Rightarrow> 'b option \<Rightarrow> bool \<times> 'b option" where
  "DeviceAttributeSerialize E attribute sbuf =
     (case (attribute, sbuf) of
        (Some a, Some b) \<Rightarrow>
          (case HdfSbufWriteUint32 E b (di_deviceId a) of (ok1, b1) \<Rightarrow>
            if \<not> ok1 then (False, Some b1)
            else
              (case HdfSbufWriteUint16 E b1 (di_policy a) of (ok2, b2) \<Rightarrow>
                if \<not> ok2 then (False, Some b2)
                else
                  (case HdfSbufWriteString E b2 (str_of (di_svcName a)) of (ok3, b3) \<Rightarrow>
                    if \<not> ok3 then (False, Some b3)
                    else
                      (case HdfSbufWriteString E b3 (str_of (di_moduleName a)) of (ok4, b4) \<Rightarrow>
                        if \<not> ok4 then (False, Some b4)
                        else
                          (if di_deviceMatchAttr a \<noteq> None
                           then (case HdfSbufWriteUint32 E b4 ATTRIBUTE_PRIVATE_DATA_LENGTH_NORMAL of (ok5, b5) \<Rightarrow>
                             (case HdfSbufWriteString E b5 (str_of (di_deviceMatchAttr a)) of (ok6, b6) \<Rightarrow>
                                (ok5 \<and> ok6, Some b6)))
                           else (case HdfSbufWriteUint32 E b4 ATTRIBUTE_PRIVATE_DATA_LENGTH_NULL of (ok5, b5) \<Rightarrow>
                             (ok5, Some b5)))))))
      | _ \<Rightarrow> (False, sbuf))"

definition free_str :: "str_ptr \<Rightarrow> attr_sys \<Rightarrow> attr_sys" where
  "free_str p s = OsalMemFree (map_option fst p) s"

definition DeviceSerializedAttributeRelease :: "nat option \<Rightarrow> attr_sys \<Rightarrow> attr_sys" where
  "DeviceSerializedAttributeRelease attribute s =
     (case attribute of None \<Rightarrow> s | Some p \<Rightarrow>
       (case attrs s p of None \<Rightarrow> s\<lparr>h_bad := True\<rparr> | Some a \<Rightarrow>
         (let s1 = free_str (di_moduleName a) s;
              s2 = free_str (di_svcName a) s1;
              s3 = free_str (di_deviceMatchAttr a) s2
          in (OsalMemFree (Some p) s3)\<lparr>attrs := (attrs s3)(p := None)\<rparr>)))"

text \<open>\<open>strdup\<close> of the C library: a fresh block with a copy, or \<open>NULL\<close>.\<close>

definition strdup :: "('b, 'm) sbuf_env_scheme \<Rightarrow> string \<Rightarrow> attr_sys \<Rightarrow> str_ptr \<times> attr_sys" where
  "strdup E x s = (case LOS_MemAlloc E (Bytes (Suc (length x))) s of (p, s1) \<Rightarrow> (map_option (\<lambda>q. (q, x)) p, s1))"

definition upd_attr :: "nat \<Rightarrow> (HdfDeviceInfo \<Rightarrow> HdfDeviceInfo) \<Rightarrow> attr_sys \<Rightarrow> attr_sys" where
  "upd_attr p f s = s\<lparr>attrs := (attrs s)(p := map_option f (attrs s p))\<rparr>"

text \<open>
  The body of \<open>do \<dots> while (0)\<close>: \<open>True\<close> is the \<open>return attribute\<close>, \<open>False\<close> a \<open>break\<close>. The result of the
  last \<open>strdup\<close> is not tested.
\<close>

definition read_strings :: "('b, 'm) sbuf_env_scheme \<Rightarrow> nat \<Rightarrow> 'b \<Rightarrow> attr_sys \<Rightarrow> bool \<times> 'b \<times> attr_sys" where
  "read_strings E p b s =
     (case HdfSbufReadString E b of (svc, b1) \<Rightarrow>
       (case svc of None \<Rightarrow> (False, b1, s) | Some svcName \<Rightarrow>
         (case strdup E svcName s of (d1, s1) \<Rightarrow>
           let s2 = upd_attr p (\<lambda>a. a\<lparr>di_svcName := d1\<rparr>) s1 in
           if d1 = None then (False, b1, s2)
           else
             (case HdfSbufReadString E b1 of (mdl, b2) \<Rightarrow>
               (case mdl of None \<Rightarrow> (False, b2, s2) | Some moduleName \<Rightarrow>
                 (case strdup E moduleName s2 of (d2, s3) \<Rightarrow>
                   let s4 = upd_attr p (\<lambda>a. a\<lparr>di_moduleName := d2\<rparr>) s3 in
                   if d2 = None then (False, b2, s4)
                   else
                     (case HdfSbufReadUint32 E b2 of (len, b3) \<Rightarrow>
                       (case len of None \<Rightarrow> (False, b3, s4) | Some n \<Rightarrow>
                          if n = ATTRIBUTE_PRIVATE_DATA_LENGTH_NORMAL
                          then
                            (case HdfSbufReadString E b3 of (attr, b4) \<Rightarrow>
                              (case attr of None \<Rightarrow> (False, b4, s4) | Some deviceMatchAttr \<Rightarrow>
                                (case strdup E deviceMatchAttr s4 of (d3, s5) \<Rightarrow>
                                   (True, b4, upd_attr p (\<lambda>a. a\<lparr>di_deviceMatchAttr := d3\<rparr>) s5))))
                          else (True, b3, s4)))))))))"

text \<open>\<open>HdfDeviceInfoNewInstance\<close> of the framework: a fresh object with all fields zero.\<close>

definition DeviceAttributeDeserialize ::
  "('b, 'm) sbuf_env_scheme \<Rightarrow> 'b option \<Rightarrow> attr_sys \<Rightarrow> nat option \<times> 'b option \<times> attr_sys" where
  "DeviceAttributeDeserialize E sbuf s =
     (case sbuf of None \<Rightarrow> (None, sbuf, s) | Some b \<Rightarrow>
       (case OsalMemCalloc E (Objs ''HdfDeviceInfo'' 1) s of
          (None, s1) \<Rightarrow> (None, sbuf, s1)
        | (Some p, s1) \<Rightarrow>
            let s2 = s1\<lparr>attrs := (attrs s1)(p \<mapsto>
              \<lparr>di_deviceId = 0, di_policy = 0, di_svcName = None, di_moduleName = None,
               di_deviceMatchAttr = None, di_status = 0, di_deviceType = 0\<rparr>)\<rparr> in
            (case HdfSbufReadUint32 E b of (i, b1) \<Rightarrow>
              (case i of None \<Rightarrow> (None, Some b1, DeviceSerializedAttributeRelease (Some p) s2) | Some deviceId \<Rightarrow>
                let s3 = upd_attr p (\<lambda>a. a\<lparr>di_deviceId := deviceId\<rparr>) s2 in
                (case HdfSbufReadUint16 E b1 of (y, b2) \<Rightarrow>
                  (case y of None \<Rightarrow> (None, Some b2, DeviceSerializedAttributeRelease (Some p) s3) | Some policy \<Rightarrow>
                    let s4 = upd_attr p (\<lambda>a. a\<lparr>di_policy := policy\<rparr>) s3 in
                    (case read_strings E p b2 s4 of (ok, b3, s5) \<Rightarrow>
                       if ok then (Some p, Some b3, s5)
                       else (None, Some b3, DeviceSerializedAttributeRelease (Some p) s5))))))))"

end
