(* ===== verification/Dev_Attribute_Facts.thy ===== *)
theory Dev_Attribute_Facts
  imports Dev_Attribute
begin

text \<open>
  What is written is read back, and whatever is in the buffer, reading it allocates exactly the
  object that is returned, or nothing.
\<close>

subsection \<open>The blocks of an object under construction\<close>

definition ptr_blk :: "str_ptr \<Rightarrow> nat list" where
  "ptr_blk d = (case d of None \<Rightarrow> [] | Some (q, _) \<Rightarrow> [q])"

definition attr_blks :: "HdfDeviceInfo \<Rightarrow> nat list" where
  "attr_blks a = ptr_blk (di_moduleName a) @ ptr_blk (di_svcName a) @ ptr_blk (di_deviceMatchAttr a)"

lemma ptr_blk_simps [simp]: "ptr_blk None = []" "ptr_blk (Some (q, x)) = [q]"
  by (simp_all add: ptr_blk_def)

text \<open>\<open>s\<close> is \<open>s0\<close> with the object \<open>a\<close> at \<open>p\<close> and its strings, and nothing else.\<close>

definition builds :: "attr_sys \<Rightarrow> nat \<Rightarrow> HdfDeviceInfo \<Rightarrow> attr_sys \<Rightarrow> bool" where
  "builds s0 p a s \<longleftrightarrow>
     attrs s = (attrs s0)(p \<mapsto> a) \<and> heap_ok s \<and> h_bad s = h_bad s0 \<and> distinct (p # attr_blks a) \<and>
     (\<forall>i \<in> set (p # attr_blks a). h_blk s0 i = None \<and> h_blk s i \<noteq> None) \<and>
     (\<forall>i. i \<notin> set (p # attr_blks a) \<longrightarrow> h_blk s i = h_blk s0 i)"

lemma builds_upd:
  assumes "builds s0 p a s" and "set (attr_blks (f a)) = set (attr_blks a)"
    and "distinct (attr_blks (f a)) = distinct (attr_blks a)"
  shows "builds s0 p (f a) (upd_attr p f s)"
  using assms by (simp add: builds_def upd_attr_def heap_ok_def)

lemma free_str_eq: "free_str d s = fold LOS_MemFree (ptr_blk d) s"
  by (cases d) (auto simp: free_str_def OsalMemFree_def)

lemma fold_free_attrs [simp]: "attrs (fold LOS_MemFree xs s) = attrs s"
proof (induction xs arbitrary: s)
  case (Cons x xs)
  have "attrs (LOS_MemFree x s) = attrs s"
    by (simp add: LOS_MemFree_def)
  then show ?case
    using Cons [of "LOS_MemFree x s"] by simp
qed simp

lemma Release_eq_free:
  "attrs s p = Some a \<Longrightarrow> DeviceSerializedAttributeRelease (Some p) s =
     (fold LOS_MemFree (attr_blks a @ [p]) s)\<lparr>attrs := (attrs s)(p := None)\<rparr>"
  by (simp add: DeviceSerializedAttributeRelease_def Let_def free_str_eq attr_blks_def OsalMemFree_def)

lemma builds_free:
  assumes "builds s0 p a s"
  shows "h_blk (DeviceSerializedAttributeRelease (Some p) s) = h_blk s0"
    and "attrs (DeviceSerializedAttributeRelease (Some p) s) = (attrs s0)(p := None)"
    and "h_bad (DeviceSerializedAttributeRelease (Some p) s) = h_bad s0"
proof -
  have r: "attrs s p = Some a" "attrs s = (attrs s0)(p \<mapsto> a)"
    using assms by (simp_all add: builds_def)
  have "h_bad (fold LOS_MemFree (attr_blks a @ [p]) s) = h_bad s
    \<and> h_blk (fold LOS_MemFree (attr_blks a @ [p]) s) =
        (\<lambda>i. if i \<in> set (attr_blks a @ [p]) then None else h_blk s i)"
    by (rule fold_free) (use assms in \<open>auto simp: builds_def\<close>)
  then show "h_blk (DeviceSerializedAttributeRelease (Some p) s) = h_blk s0"
    "h_bad (DeviceSerializedAttributeRelease (Some p) s) = h_bad s0"
    using assms by (auto simp: Release_eq_free [OF r(1)] builds_def fun_eq_iff simp del: fold_append)
  show "attrs (DeviceSerializedAttributeRelease (Some p) s) = (attrs s0)(p := None)"
    by (simp add: Release_eq_free [OF r(1)] r(2))
qed

lemma strdup_eq:
  "strdup E x s =
     (if mem_ok E (h_next s) (Bytes (Suc (length x)))
      then (Some (h_next s, x), s\<lparr>h_next := Suc (h_next s),
              h_blk := (h_blk s)(h_next s \<mapsto> map (mem_junk E (h_next s)) [0..<Suc (length x)])\<rparr>)
      else (None, s\<lparr>h_next := Suc (h_next s)\<rparr>))"
  by (simp add: strdup_def LOS_MemAlloc_def Let_def del: upt_Suc)

lemma builds_strdup:
  assumes B: "builds s0 p a s" and d: "strdup E x s = (d, s1)"
    and f: "set (attr_blks (f a)) = set (attr_blks a) \<union> set (ptr_blk d)"
      "distinct (attr_blks (f a)) = distinct (attr_blks a @ ptr_blk d)"
  shows "builds s0 p (f a) (upd_attr p f s1)"
proof -
  have ok: "h_blk s i = None" if "i \<ge> h_next s" for i
    using B that by (simp add: builds_def heap_ok_def)
  have new: "h_next s \<noteq> p" "h_next s \<notin> set (attr_blks a)"
    using ok [of "h_next s"] B by (auto simp: builds_def)
  then have old: "h_blk s0 (h_next s) = None"
    using ok [of "h_next s"] B by (simp add: builds_def)
  show ?thesis
    using B d f new old ok
    by (auto simp: builds_def strdup_eq upd_attr_def heap_ok_def simp del: upt_Suc split: if_splits)
qed

subsection \<open>Nothing is lost\<close>

lemma builds_svc:
  "builds s0 p a s \<Longrightarrow> strdup E x s = (d, s1) \<Longrightarrow> di_svcName a = None \<Longrightarrow>
   builds s0 p (a\<lparr>di_svcName := d\<rparr>) (upd_attr p (\<lambda>a. a\<lparr>di_svcName := d\<rparr>) s1)"
  by (erule builds_strdup) (auto simp: attr_blks_def)

lemma builds_module:
  "builds s0 p a s \<Longrightarrow> strdup E x s = (d, s1) \<Longrightarrow> di_moduleName a = None \<Longrightarrow>
   builds s0 p (a\<lparr>di_moduleName := d\<rparr>) (upd_attr p (\<lambda>a. a\<lparr>di_moduleName := d\<rparr>) s1)"
  by (erule builds_strdup) (auto simp: attr_blks_def)

lemma builds_match:
  "builds s0 p a s \<Longrightarrow> strdup E x s = (d, s1) \<Longrightarrow> di_deviceMatchAttr a = None \<Longrightarrow>
   builds s0 p (a\<lparr>di_deviceMatchAttr := d\<rparr>) (upd_attr p (\<lambda>a. a\<lparr>di_deviceMatchAttr := d\<rparr>) s1)"
  by (erule builds_strdup) (auto simp: attr_blks_def)

lemma builds_read_strings:
  assumes B: "builds s0 p a s" and a: "di_svcName a = None" "di_moduleName a = None" "di_deviceMatchAttr a = None"
    and r: "read_strings E p b s = (ok, b', s')"
  shows "\<exists>a'. builds s0 p a' s'"
proof -
  have 1: "builds s0 p (a\<lparr>di_svcName := d\<rparr>) (upd_attr p (\<lambda>a. a\<lparr>di_svcName := d\<rparr>) s1)"
    if "strdup E x s = (d, s1)" for x d s1
    by (rule builds_svc [OF B that a(1)])
  have 2: "builds s0 p (a\<lparr>di_svcName := d, di_moduleName := d2\<rparr>) (upd_attr p (\<lambda>a. a\<lparr>di_moduleName := d2\<rparr>) s2)"
    if "strdup E x s = (d, s1)" "strdup E y (upd_attr p (\<lambda>a. a\<lparr>di_svcName := d\<rparr>) s1) = (d2, s2)"
    for x d s1 y d2 s2
    using builds_module [OF 1 [OF that(1)] that(2)] a(2) by simp
  have 3: "builds s0 p (a\<lparr>di_svcName := d, di_moduleName := d2, di_deviceMatchAttr := d3\<rparr>)
      (upd_attr p (\<lambda>a. a\<lparr>di_deviceMatchAttr := d3\<rparr>) s3)"
    if "strdup E x s = (d, s1)" "strdup E y (upd_attr p (\<lambda>a. a\<lparr>di_svcName := d\<rparr>) s1) = (d2, s2)"
      "strdup E z (upd_attr p (\<lambda>a. a\<lparr>di_moduleName := d2\<rparr>) s2) = (d3, s3)"
    for x d s1 y d2 s2 z d3 s3
    using builds_match [OF 2 [OF that(1,2)] that(3)] a(3) by simp
  show ?thesis
    using r B 1 2 3
    by (auto simp: read_strings_def Let_def split: prod.splits option.splits if_splits) blast+
qed

definition new_attr :: "attr_sys \<Rightarrow> u32 \<Rightarrow> u16 \<Rightarrow> attr_sys" where
  "new_attr s i y = s\<lparr>h_next := Suc (h_next s), h_blk := (h_blk s)(h_next s \<mapsto> []),
     attrs := (attrs s)(h_next s \<mapsto> \<lparr>di_deviceId = i, di_policy = y, di_svcName = None,
                                      di_moduleName = None, di_deviceMatchAttr = None, di_status = 0, di_deviceType = 0\<rparr>)\<rparr>"

lemma builds_new:
  assumes "heap_ok s" and "attrs s (h_next s) = None"
  shows "builds s (h_next s)
    \<lparr>di_deviceId = i, di_policy = y, di_svcName = None, di_moduleName = None, di_deviceMatchAttr = None, di_status = 0, di_deviceType = 0\<rparr>
    (new_attr s i y)"
  using assms by (auto simp: builds_def new_attr_def attr_blks_def heap_ok_def)

lemma Deserialize_eq:
  "DeviceAttributeDeserialize E (Some b) s =
     (if mem_ok E (h_next s) (Objs ''HdfDeviceInfo'' 1)
      then
        (case HdfSbufReadUint32 E b of
           (None, b1) \<Rightarrow> (None, Some b1, DeviceSerializedAttributeRelease (Some (h_next s)) (new_attr s 0 0))
         | (Some i, b1) \<Rightarrow>
             (case HdfSbufReadUint16 E b1 of
                (None, b2) \<Rightarrow> (None, Some b2, DeviceSerializedAttributeRelease (Some (h_next s)) (new_attr s i 0))
              | (Some y, b2) \<Rightarrow>
                  (case read_strings E (h_next s) b2 (new_attr s i y) of (ok, b3, t) \<Rightarrow>
                     if ok then (Some (h_next s), Some b3, t)
                     else (None, Some b3, DeviceSerializedAttributeRelease (Some (h_next s)) t))))
      else (None, Some b, s\<lparr>h_next := Suc (h_next s)\<rparr>))"
  by (simp add: DeviceAttributeDeserialize_def alloc_eqs Let_def new_attr_def upd_attr_def
      split: prod.split option.split)

lemma Deserialize_outcome:
  assumes ok: "heap_ok s" and fr: "attrs s (h_next s) = None"
    and d: "DeviceAttributeDeserialize E sbuf s = (r, sbuf', s')"
  obtains "r = None" and "h_blk s' = h_blk s" and "attrs s' = attrs s" and "h_bad s' = h_bad s"
  | a t where "builds s (h_next s) a t" and "r = None" and "s' = DeviceSerializedAttributeRelease (Some (h_next s)) t"
  | a where "builds s (h_next s) a s'" and "r = Some (h_next s)"
proof (cases sbuf)
  case None
  then show thesis
    using d that(1) by (simp add: DeviceAttributeDeserialize_def)
next
  case (Some b)
  have S: "\<exists>a'. builds s (h_next s) a' t" if "read_strings E (h_next s) b' (new_attr s i y) = (k, b'', t)" for b' i y k b'' t
    by (rule builds_read_strings [OF builds_new [OF ok fr] _ _ _ that]) simp_all
  show thesis
    using d that S builds_new [OF ok fr]
    by (auto simp: Some Deserialize_eq split: prod.splits option.splits if_splits) metis+
qed

lemma Deserialize_frees:
  fixes s :: attr_sys
  assumes ok: "heap_ok s" and fr: "attrs s (h_next s) = None"
    and d: "DeviceAttributeDeserialize E sbuf s = (r, sbuf', s')"
  shows "h_bad s' = h_bad s
    \<and> (r = None \<longrightarrow> h_blk s' = h_blk s \<and> attrs s' = attrs s)
    \<and> (r \<noteq> None \<longrightarrow> h_blk (DeviceSerializedAttributeRelease r s') = h_blk s
          \<and> attrs (DeviceSerializedAttributeRelease r s') = attrs s
          \<and> h_bad (DeviceSerializedAttributeRelease r s') = h_bad s)"
proof -
  have free: "h_blk (DeviceSerializedAttributeRelease (Some (h_next s)) t) = h_blk s
      \<and> attrs (DeviceSerializedAttributeRelease (Some (h_next s)) t) = attrs s
      \<and> h_bad (DeviceSerializedAttributeRelease (Some (h_next s)) t) = h_bad s \<and> h_bad t = h_bad s"
    if "builds s (h_next s) a t" for a t
    using builds_free [OF that] that fr by (auto simp: builds_def fun_eq_iff)
  from ok fr d show ?thesis
    by (rule Deserialize_outcome) (use free in auto)
qed

text \<open>
  Whatever the buffer holds and whichever allocation fails, DeviceAttributeDeserialize
  either returns NULL and leaves the heap as it was, or returns an object whose release does.
\<close>

theorem attr_deserialize_heap:
  fixes s :: attr_sys
  assumes "heap_ok s" and "attrs s (h_next s) = None" and "DeviceAttributeDeserialize E sbuf s = (r, sbuf', s')"
  shows "h_bad s' = h_bad s
    \<and> (r = None \<longrightarrow> h_blk s' = h_blk s \<and> attrs s' = attrs s)
    \<and> (r \<noteq> None \<longrightarrow> h_blk (DeviceSerializedAttributeRelease r s') = h_blk s
          \<and> attrs (DeviceSerializedAttributeRelease r s') = attrs s
          \<and> h_bad (DeviceSerializedAttributeRelease r s') = h_bad s)"
  by (rule Deserialize_frees [OF assms])

subsection \<open>What is written is read back\<close>

lemma sbufD:
  assumes "sbuf_contract E"
  shows "HdfSbufWriteUint32 E b x = (True, b') \<Longrightarrow> sb_items E b' = sb_items E b @ [SbU32 x]"
    and "HdfSbufWriteUint16 E b y = (True, b') \<Longrightarrow> sb_items E b' = sb_items E b @ [SbU16 y]"
    and "HdfSbufWriteString E b z = (True, b') \<Longrightarrow> sb_items E b' = sb_items E b @ [SbStr z]"
    and "sb_items E b = SbU32 x # r \<Longrightarrow> \<exists>b'. HdfSbufReadUint32 E b = (Some x, b') \<and> sb_items E b' = r"
    and "sb_items E b = SbU16 y # r \<Longrightarrow> \<exists>b'. HdfSbufReadUint16 E b = (Some y, b') \<and> sb_items E b' = r"
    and "sb_items E b = SbStr z # r \<Longrightarrow> \<exists>b'. HdfSbufReadString E b = (z, b') \<and> sb_items E b' = r"
  using assms unfolding sbuf_contract_def by (blast, blast, blast, (metis prod.collapse)+)

definition attr_items :: "HdfDeviceInfo \<Rightarrow> sb_item list" where
  "attr_items a =
     [SbU32 (di_deviceId a), SbU16 (di_policy a), SbStr (str_of (di_svcName a)), SbStr (str_of (di_moduleName a))] @
     (if di_deviceMatchAttr a = None then [SbU32 ATTRIBUTE_PRIVATE_DATA_LENGTH_NULL]
      else [SbU32 ATTRIBUTE_PRIVATE_DATA_LENGTH_NORMAL, SbStr (str_of (di_deviceMatchAttr a))])"

lemma Serialize_items:
  assumes C: "sbuf_contract E" and s: "DeviceAttributeSerialize E (Some a) (Some b) = (True, Some b')"
  shows "sb_items E b' = sb_items E b @ attr_items a"
  using s sbufD(1-3) [OF C]
  by (auto simp: DeviceAttributeSerialize_def attr_items_def split: prod.splits if_splits)

lemma upd_attr_other [simp]:
  "h_next (upd_attr p f s) = h_next s" "attrs (upd_attr p f s) = (attrs s)(p := map_option f (attrs s p))"
  by (simp_all add: upd_attr_def)

text \<open>
  Both names are there and were copied; \<open>n\<close> is the number of the next block. The copy of the match
  attribute may fail: the attribute is then lost, and the code does not notice.
\<close>

definition names_copied :: "('b, 'm) sbuf_env_scheme \<Rightarrow> nat \<Rightarrow> string option \<Rightarrow> string option \<Rightarrow> bool" where
  "names_copied E n svc mdl \<longleftrightarrow>
     (case (svc, mdl) of
        (Some x, Some y) \<Rightarrow> mem_ok E n (Bytes (Suc (length x))) \<and> mem_ok E (Suc n) (Bytes (Suc (length y)))
      | _ \<Rightarrow> False)"

definition match_copied :: "('b, 'm) sbuf_env_scheme \<Rightarrow> nat \<Rightarrow> string option \<Rightarrow> string option" where
  "match_copied E n x = (case x of None \<Rightarrow> None | Some y \<Rightarrow> if mem_ok E n (Bytes (Suc (length y))) then x else None)"

definition match_items :: "string option \<Rightarrow> sb_item list" where
  "match_items x = (case x of None \<Rightarrow> [SbU32 ATTRIBUTE_PRIVATE_DATA_LENGTH_NULL]
     | Some y \<Rightarrow> [SbU32 ATTRIBUTE_PRIVATE_DATA_LENGTH_NORMAL, SbStr (Some y)])"

text \<open>\<open>a'\<close> is \<open>a\<close> with the strings given.\<close>

definition with_strings ::
  "HdfDeviceInfo \<Rightarrow> string option \<Rightarrow> string option \<Rightarrow> string option \<Rightarrow> HdfDeviceInfo \<Rightarrow> bool" where
  "with_strings a svc mdl match a' \<longleftrightarrow>
     di_deviceId a' = di_deviceId a \<and> di_policy a' = di_policy a \<and> di_status a' = di_status a
     \<and> di_deviceType a' = di_deviceType a \<and> str_of (di_svcName a') = svc \<and> str_of (di_moduleName a') = mdl
     \<and> str_of (di_deviceMatchAttr a') = match"

lemma read_match:
  assumes C: "sbuf_contract E" and items: "sb_items E b = match_items match"
  shows "\<exists>b1 b2. HdfSbufReadUint32 E b = (Some (if match = None then 0 else 1), b1)
    \<and> (match \<noteq> None \<longrightarrow> HdfSbufReadString E b1 = (match, b2)) \<and> sb_items E (if match = None then b1 else b2) = []"
proof (cases match)
  case None
  then show ?thesis
    using sbufD(4) [OF C, of b 0 "[]"] items
    by (auto simp: match_items_def ATTRIBUTE_PRIVATE_DATA_LENGTH_NULL_def)
next
  case (Some x)
  then obtain b1 where 1: "HdfSbufReadUint32 E b = (Some 1, b1)" "sb_items E b1 = [SbStr (Some x)]"
    using sbufD(4) [OF C, of b 1 "[SbStr (Some x)]"] items
    by (auto simp: match_items_def ATTRIBUTE_PRIVATE_DATA_LENGTH_NORMAL_def)
  then obtain b2 where "HdfSbufReadString E b1 = (Some x, b2)" "sb_items E b2 = []"
    using sbufD(6) [OF C 1(2)] by blast
  then show ?thesis
    using 1(1) Some by auto
qed

lemma read_strings_items:
  assumes C: "sbuf_contract E" and a: "attrs s p = Some a0" and none: "di_deviceMatchAttr a0 = None"
    and items: "sb_items E b = SbStr svc # SbStr mdl # match_items match"
  shows "\<exists>ok b' s'. read_strings E p b s = (ok, b', s') \<and> (ok \<longleftrightarrow> names_copied E (h_next s) svc mdl)
    \<and> (ok \<longrightarrow> sb_items E b' = [] \<and>
        (\<exists>a'. attrs s' p = Some a' \<and> with_strings a0 svc mdl (match_copied E (h_next s + 2) match) a'))"
proof -
  obtain b1 where 1: "HdfSbufReadString E b = (svc, b1)" "sb_items E b1 = SbStr mdl # match_items match"
    using sbufD(6) [OF C items] by blast
  obtain b2 where 2: "HdfSbufReadString E b1 = (mdl, b2)" "sb_items E b2 = match_items match"
    using sbufD(6) [OF C 1(2)] by blast
  obtain b3 b4 where 3: "HdfSbufReadUint32 E b2 = (Some (if match = None then 0 else 1), b3)"
    "match \<noteq> None \<longrightarrow> HdfSbufReadString E b3 = (match, b4)" "sb_items E (if match = None then b3 else b4) = []"
    using read_match [OF C 2(2)] by blast
  show ?thesis
  proof (cases "names_copied E (h_next s) svc mdl")
    case False
    then show ?thesis
      using 1(1) 2(1)
      by (auto simp: read_strings_def names_copied_def strdup_eq Let_def simp del: upt_Suc split: option.splits)
  next
    case True
    then obtain x y where n: "svc = Some x" "mdl = Some y" "mem_ok E (h_next s) (Bytes (Suc (length x)))"
      "mem_ok E (Suc (h_next s)) (Bytes (Suc (length y)))"
      by (auto simp: names_copied_def split: option.splits)
    show ?thesis
      using 1(1) 2(1) 3 True n a none
      by (cases match)
        (auto simp: read_strings_def strdup_eq Let_def with_strings_def match_copied_def str_of_def
          ATTRIBUTE_PRIVATE_DATA_LENGTH_NORMAL_def simp del: upt_Suc)
  qed
qed

lemma attr_items_eq:
  "attr_items a = SbU32 (di_deviceId a) # SbU16 (di_policy a) # SbStr (str_of (di_svcName a)) #
     SbStr (str_of (di_moduleName a)) # match_items (str_of (di_deviceMatchAttr a))"
  by (cases "di_deviceMatchAttr a") (auto simp: attr_items_def match_items_def str_of_def)

text \<open>What is read back, for an object that was sent: the fields that are not sent are those of a new one.\<close>

definition read_back :: "('b, 'm) sbuf_env_scheme \<Rightarrow> nat \<Rightarrow> HdfDeviceInfo \<Rightarrow> HdfDeviceInfo \<Rightarrow> bool" where
  "read_back E n a a' \<longleftrightarrow>
     with_strings (a\<lparr>di_status := 0, di_deviceType := 0\<rparr>) (str_of (di_svcName a)) (str_of (di_moduleName a))
       (match_copied E (n + 3) (str_of (di_deviceMatchAttr a))) a'"

lemma Deserialize_items_any:
  assumes C: "sbuf_contract E" and it: "sb_items E b' = attr_items a"
  shows "\<exists>r b2 s'. DeviceAttributeDeserialize E (Some b') s = (r, Some b2, s') \<and>
    (if mem_ok E (h_next s) (Objs ''HdfDeviceInfo'' 1) \<and>
        names_copied E (h_next s + 1) (str_of (di_svcName a)) (str_of (di_moduleName a))
     then r = Some (h_next s) \<and> sb_items E b2 = [] \<and>
       (\<exists>a'. attrs s' (h_next s) = Some a' \<and> read_back E (h_next s) a a')
     else r = None)"
proof -
  let ?rest = "match_items (str_of (di_deviceMatchAttr a))"
  note items = it [unfolded attr_items_eq]
  obtain b1 where 1: "HdfSbufReadUint32 E b' = (Some (di_deviceId a), b1)"
    "sb_items E b1 = SbU16 (di_policy a) # SbStr (str_of (di_svcName a)) # SbStr (str_of (di_moduleName a)) # ?rest"
    using sbufD(4) [OF C items] by blast
  obtain b2 where 2: "HdfSbufReadUint16 E b1 = (Some (di_policy a), b2)"
    "sb_items E b2 = SbStr (str_of (di_svcName a)) # SbStr (str_of (di_moduleName a)) # ?rest"
    using sbufD(5) [OF C 1(2)] by blast
  let ?t = "new_attr s (di_deviceId a) (di_policy a)"
  have "attrs ?t (h_next s) = Some \<lparr>di_deviceId = di_deviceId a, di_policy = di_policy a, di_svcName = None,
      di_moduleName = None, di_deviceMatchAttr = None, di_status = 0, di_deviceType = 0\<rparr>" "h_next ?t = Suc (h_next s)"
    by (simp_all add: new_attr_def)
  then obtain ok b3 s3 where 3: "read_strings E (h_next s) b2 ?t = (ok, b3, s3)"
    "ok \<longleftrightarrow> names_copied E (Suc (h_next s)) (str_of (di_svcName a)) (str_of (di_moduleName a))"
    "ok \<Longrightarrow> sb_items E b3 = [] \<and> (\<exists>a'. attrs s3 (h_next s) = Some a' \<and> read_back E (h_next s) a a')"
    using read_strings_items [OF C _ _ 2(2), of ?t "h_next s"]
    by (auto simp: read_back_def with_strings_def eval_nat_numeral)
  show ?thesis
    using 1(1) 2(1) 3 by (auto simp: Deserialize_eq)
qed

text \<open>What an object that the buffer describes is made of, without its addresses.\<close>

definition same_info :: "HdfDeviceInfo \<Rightarrow> HdfDeviceInfo \<Rightarrow> bool" where
  "same_info a a' \<longleftrightarrow> with_strings (a\<lparr>di_status := 0, di_deviceType := 0\<rparr>) (str_of (di_svcName a))
     (str_of (di_moduleName a)) (str_of (di_deviceMatchAttr a)) a'"

lemma Deserialize_items:
  assumes C: "sbuf_contract E" and m: "\<And>n z. mem_ok E n z"
    and names: "str_of (di_svcName a) = Some svc" "str_of (di_moduleName a) = Some mdl"
    and it: "sb_items E b' = attr_items a"
  shows "\<exists>p b2 s' a'. DeviceAttributeDeserialize E (Some b') s = (Some p, Some b2, s') \<and> sb_items E b2 = []
    \<and> attrs s' p = Some a' \<and> same_info a a'"
  using Deserialize_items_any [OF C it, of s] names m
  by (auto simp: names_copied_def read_back_def same_info_def match_copied_def split: option.splits)

text \<open>
  C22. Device information that was serialised into an empty buffer and is read back, whichever
  allocation fails: NULL is returned when a name is NULL, or the object or the copy of a name
  cannot be allocated; otherwise the buffer is used up and the object has the same device
  number, policy and names, the same match attribute unless its copy cannot be allocated (it is
  then lost without an error), and the status and type of a new object, which are not sent.
\<close>

theorem attr_roundtrip:
  assumes C: "sbuf_contract E" and empty: "sb_items E b = []"
    and ser: "DeviceAttributeSerialize E (Some a) (Some b) = (True, Some b')"
  shows "\<exists>r b2 s'. DeviceAttributeDeserialize E (Some b') s = (r, Some b2, s') \<and>
    (if mem_ok E (h_next s) (Objs ''HdfDeviceInfo'' 1) \<and>
        names_copied E (h_next s + 1) (str_of (di_svcName a)) (str_of (di_moduleName a))
     then \<exists>p a'. r = Some p \<and> sb_items E b2 = [] \<and> attrs s' p = Some a'
       \<and> di_deviceId a' = di_deviceId a \<and> di_policy a' = di_policy a
       \<and> str_of (di_svcName a') = str_of (di_svcName a) \<and> str_of (di_moduleName a') = str_of (di_moduleName a)
       \<and> str_of (di_deviceMatchAttr a') = match_copied E (h_next s + 3) (str_of (di_deviceMatchAttr a))
       \<and> di_status a' = 0 \<and> di_deviceType a' = 0
     else r = None)"
proof -
  have "sb_items E b' = attr_items a"
    using Serialize_items [OF C ser] empty by simp
  from Deserialize_items_any [OF C this, of s] obtain r b2 s' where
    d: "DeviceAttributeDeserialize E (Some b') s = (r, Some b2, s')" and
    o: "if mem_ok E (h_next s) (Objs ''HdfDeviceInfo'' 1) \<and>
        names_copied E (h_next s + 1) (str_of (di_svcName a)) (str_of (di_moduleName a))
     then r = Some (h_next s) \<and> sb_items E b2 = [] \<and>
       (\<exists>a'. attrs s' (h_next s) = Some a' \<and> read_back E (h_next s) a a')
     else r = None"
    by blast
  show ?thesis
    by (intro exI conjI, rule d) (use o in \<open>auto simp: read_back_def with_strings_def split: if_split\<close>)
qed

subsection \<open>Examples\<close>

text \<open>A buffer that is the list of its items; a read of another kind of item yields nothing.\<close>

definition sbuf_demo :: "sb_item list sbuf_env" where
  "sbuf_demo = \<lparr>mem_ok = (\<lambda>_ _. True), mem_junk = (\<lambda>_ _. 0), copy_ok = (\<lambda>d n. n \<le> d),
     sb_items = (\<lambda>b. b), HdfSbufWriteUint32 = (\<lambda>b x. (True, b @ [SbU32 x])),
     HdfSbufWriteUint16 = (\<lambda>b x. (True, b @ [SbU16 x])), HdfSbufWriteString = (\<lambda>b x. (True, b @ [SbStr x])),
     HdfSbufReadUint32 = (\<lambda>b. case b of SbU32 x # r \<Rightarrow> (Some x, r) | _ \<Rightarrow> (None, b)),
     HdfSbufReadUint16 = (\<lambda>b. case b of SbU16 x # r \<Rightarrow> (Some x, r) | _ \<Rightarrow> (None, b)),
     HdfSbufReadString = (\<lambda>b. case b of SbStr x # r \<Rightarrow> (x, r) | _ \<Rightarrow> (None, b))\<rparr>"

definition attr_demo :: attr_sys where
  "attr_demo = \<lparr>h_next = 4, h_blk = Map.empty, h_bad = False, ev = [], attrs = Map.empty\<rparr>"

definition attr_demo_obj :: HdfDeviceInfo where
  "attr_demo_obj = \<lparr>di_deviceId = 7, di_policy = 2, di_svcName = Some (1, ''led''),
     di_moduleName = Some (2, ''led_drv''), di_deviceMatchAttr = None, di_status = 1, di_deviceType = 0\<rparr>"

lemma attr_roundtrip_witness:
  "\<exists>p b2 s' a'. DeviceAttributeDeserialize sbuf_demo
       (snd (DeviceAttributeSerialize sbuf_demo (Some attr_demo_obj) (Some []))) attr_demo = (Some p, Some b2, s')
     \<and> attrs s' p = Some a' \<and> di_deviceId a' = 7 \<and> str_of (di_svcName a') = Some ''led''"
proof -
  have C: "sbuf_contract sbuf_demo" "\<And>n z. mem_ok sbuf_demo n z" "sb_items sbuf_demo [] = []"
    by (simp_all add: sbuf_contract_def sbuf_demo_def)
  have names: "str_of (di_svcName attr_demo_obj) = Some ''led''" "str_of (di_moduleName attr_demo_obj) = Some ''led_drv''"
    by (simp_all add: attr_demo_obj_def str_of_def)
  have "DeviceAttributeSerialize sbuf_demo (Some attr_demo_obj) (Some []) =
      (True, Some [SbU32 7, SbU16 2, SbStr (Some ''led''), SbStr (Some ''led_drv''), SbU32 0])"
    by (simp add: DeviceAttributeSerialize_def sbuf_demo_def attr_demo_obj_def str_of_def
        ATTRIBUTE_PRIVATE_DATA_LENGTH_NULL_def)
  from attr_roundtrip [OF C(1,3) this, of attr_demo] this names C(2) show ?thesis
    by (auto simp: attr_demo_obj_def names_copied_def)
qed

lemma attr_deserialize_heap_witness:
  "h_blk (snd (snd (DeviceAttributeDeserialize sbuf_demo (Some [SbU32 7, SbU16 2, SbStr (Some ''led'')]) attr_demo)))
     = Map.empty"
proof -
  have h: "heap_ok attr_demo" "attrs attr_demo (h_next attr_demo) = None" "h_blk attr_demo = Map.empty"
    by (simp_all add: attr_demo_def heap_ok_def)
  have "fst (DeviceAttributeDeserialize sbuf_demo (Some [SbU32 7, SbU16 2, SbStr (Some ''led'')]) attr_demo) = None"
    by (simp add: Deserialize_eq sbuf_demo_def read_strings_def strdup_eq attr_demo_def new_attr_def del: upt_Suc)
  then show ?thesis
    using attr_deserialize_heap [OF h(1,2)] h(3) by (metis prod.collapse)
qed

end
