(* ===== verification/Bus_Buffer.thy ===== *)
theory Bus_Buffer
  imports Osal_Mem
begin

text \<open>
  What the character devices of the serial buses share: copies between a process and the kernel,
  and one kernel buffer that holds the data of several messages one after the other.

  The kernel's copy functions are outside the repository: \<open>bus_api\<close> gives their status, and a copy
  that succeeds moves the bytes. \<open>user_byte a i\<close> is byte \<open>i\<close> at address \<open>a\<close> of the calling process,
  whose memory does not change while the call runs, apart from the copies out. Events are copies,
  reads of a struct from the process, and the operations \<open>'x\<close> of the bus.
\<close>

datatype 'x bus_ev = CopyIn nat nat | CopyOut nat "u8 list" | CopyStruct string | Bus 'x

record 'x bus_env = mem_env +
  bus_api :: "('x bus_ev \<times> int) list \<Rightarrow> 'x bus_ev \<Rightarrow> int"
  user_byte :: "nat \<Rightarrow> nat \<Rightarrow> u8"

type_synonym 'x bus_trace = "('x bus_ev \<times> int) list"

definition user_bytes :: "('x, 'm) bus_env_scheme \<Rightarrow> nat \<Rightarrow> nat \<Rightarrow> u8 list" where
  "user_bytes E a n = map (user_byte E a) [0..<n]"

lemma length_user_bytes [simp]: "length (user_bytes E a n) = n"
  by (simp add: user_bytes_def)

definition bus_call ::
  "('x, 'm) bus_env_scheme \<Rightarrow> 'x bus_ev \<Rightarrow> ('x bus_ev \<times> int, 'a) sys_scheme
   \<Rightarrow> int \<times> ('x bus_ev \<times> int, 'a) sys_scheme" where
  "bus_call E c s = ext_call (bus_api E) c s"

definition LOS_CopyToKernel ::
  "('x, 'm) bus_env_scheme \<Rightarrow> nat \<Rightarrow> nat \<Rightarrow> nat \<Rightarrow> nat \<Rightarrow> ('x bus_ev \<times> int, 'a) sys_scheme
   \<Rightarrow> int \<times> ('x bus_ev \<times> int, 'a) sys_scheme" where
  "LOS_CopyToKernel E blk off user n s =
     (case bus_call E (CopyIn user n) s of (r, s1) \<Rightarrow>
        (r, if r = 0 then mem_write blk off (user_bytes E user n) s1 else s1))"

definition LOS_CopyFromKernel ::
  "('x, 'm) bus_env_scheme \<Rightarrow> nat \<Rightarrow> nat \<Rightarrow> nat \<Rightarrow> nat \<Rightarrow> ('x bus_ev \<times> int, 'a) sys_scheme
   \<Rightarrow> int \<times> ('x bus_ev \<times> int, 'a) sys_scheme" where
  "LOS_CopyFromKernel E user blk off n s =
     (case mem_read blk off n s of
        None \<Rightarrow> (-1, s\<lparr>h_bad := True\<rparr>)
      | Some ys \<Rightarrow> bus_call E (CopyOut user ys) s)"

text \<open>The bytes that the bus puts into a message buffer, \<open>None\<close> when it does not touch it.\<close>

definition bus_fill ::
  "(nat \<Rightarrow> u8) option \<Rightarrow> nat \<Rightarrow> nat \<Rightarrow> nat \<Rightarrow> ('e, 'a) sys_scheme \<Rightarrow> ('e, 'a) sys_scheme" where
  "bus_fill f blk off n s = (case f of None \<Rightarrow> s | Some g \<Rightarrow> mem_write blk off (map g [0..<n]) s)"

definition filled :: "(nat \<Rightarrow> u8) option \<Rightarrow> u8 list \<Rightarrow> u8 list" where
  "filled f xs = (case f of None \<Rightarrow> xs | Some g \<Rightarrow> map g [0..<length xs])"

lemma length_filled [simp]: "length (filled f xs) = length xs"
  by (simp add: filled_def split: option.split)

text \<open>The buffers of several messages, filled by the bus.\<close>

fun fill_from :: "(nat \<Rightarrow> (nat \<Rightarrow> u8) option) \<Rightarrow> nat \<Rightarrow> u8 list list \<Rightarrow> u8 list list" where
  "fill_from f i [] = []"
| "fill_from f i (x # xs) = filled (f i) x # fill_from f (Suc i) xs"

lemma length_fill_from [simp]: "length (fill_from f i xs) = length xs"
  by (induction xs arbitrary: i) simp_all

lemma list_all2_fill_from:
  "list_all2 (\<lambda>u x. length x = g u) us ds \<Longrightarrow> list_all2 (\<lambda>u x. length x = g u) us (fill_from f i ds)"
  by (induction arbitrary: i rule: list_all2_induct) simp_all

subsection \<open>One buffer for several messages\<close>

lemma patch_mid: "length ys = length zs \<Longrightarrow> patch (xs @ ys @ ws) (length xs) zs = xs @ zs @ ws"
  by (simp add: patch_def)

lemma mem_write_mid:
  assumes "h_blk s p = Some (xs @ ys @ ws)" and "off = length xs" and "length zs = length ys"
  shows "mem_write p off zs s = s\<lparr>h_blk := (h_blk s)(p \<mapsto> xs @ zs @ ws)\<rparr>"
  using assms patch_mid [of ys zs xs ws] by (simp add: mem_write_def)

lemma mem_read_mid:
  assumes "h_blk s p = Some (xs @ ys @ ws)" and "off = length xs" and "n = length ys"
  shows "mem_read p off n s = Some ys"
  using assms by (simp add: mem_read_def)

lemma h_blk_same: "h_blk s p = Some v \<Longrightarrow> s\<lparr>h_blk := (h_blk s)(p \<mapsto> v)\<rparr> = s"
  by (cases s) (simp add: fun_upd_idem)

lemma bus_fill_mid:
  assumes "h_blk s p = Some (xs @ ys @ ws)" and "off = length xs" and "n = length ys"
  shows "bus_fill f p off n s = s\<lparr>h_blk := (h_blk s)(p \<mapsto> xs @ filled f ys @ ws)\<rparr>"
  using assms mem_write_mid [OF assms(1,2)] by (auto simp: bus_fill_def filled_def h_blk_same split: option.split)

lemma CopyToKernel_mid:
  assumes "h_blk s p = Some (xs @ ys @ ws)" and "off = length xs" and "n = length ys"
  shows "LOS_CopyToKernel E p off a n s =
     (bus_api E (ev s) (CopyIn a n),
      (if bus_api E (ev s) (CopyIn a n) = 0
       then s\<lparr>h_blk := (h_blk s)(p \<mapsto> xs @ user_bytes E a n @ ws)\<rparr> else s)
        \<lparr>ev := ev s @ [(CopyIn a n, bus_api E (ev s) (CopyIn a n))]\<rparr>)"
  using assms mem_write_mid [of "emit (CopyIn a n, bus_api E (ev s) (CopyIn a n)) s" p xs ys ws off "user_bytes E a n"]
  by (auto simp: LOS_CopyToKernel_def bus_call_def ext_call_eq emit_def)

lemma CopyFromKernel_mid:
  assumes "h_blk s p = Some (xs @ ys @ ws)" and "off = length xs" and "n = length ys"
  shows "LOS_CopyFromKernel E a p off n s =
     (bus_api E (ev s) (CopyOut a ys),
      s\<lparr>ev := ev s @ [(CopyOut a ys, bus_api E (ev s) (CopyOut a ys))]\<rparr>)"
  using mem_read_mid [OF assms] by (simp add: LOS_CopyFromKernel_def bus_call_def ext_call_eq emit_def)

end
