(* ===== verification/I2c_Dev.thy ===== *)
theory I2c_Dev
  imports Bus_Buffer
begin

text \<open>
  The character device of an I2C bus, \<open>khdf/liteos/platform/src/i2c_dev.c\<close>, built with
  \<open>LOSCFG_FS_VFS\<close>.

  \<open>I2cOpen\<close>, \<open>I2cTransfer\<close>, the virtual file system and the memory-mapping functions are outside the
  repository. A transfer is recorded with the address, flags and bytes of each message; what it
  puts into the buffer of message \<open>i\<close> is \<open>i2c_data\<close>, and it writes no more than the length of the
  message. A message buffer of the kernel is an offset into the one data block; the arrays of
  messages, which share a block, are lists. \<open>user_msg\<close> and \<open>user_wrap\<close> are the structs that the
  calling process has in its memory.
\<close>

record I2cClient =
  ic_handle :: "nat option"
  ic_addr :: u16
  ic_flags :: u16

record i2c_msg =
  um_addr :: u16
  um_flags :: u16
  um_len :: u16
  um_buf :: "nat option"

record I2cMsg =
  km_addr :: u16
  km_flags :: u16
  km_len :: u16
  km_off :: nat

record I2cIoctlWrap =
  iw_msgs :: "nat option"
  iw_nmsgs :: u32

datatype i2c_op =
    I2cOpen int | I2cClose nat | I2cTransfer "nat option" "(u16 \<times> u16 \<times> u8 list) list"
  | FormatName int | RegisterDriver int | UnregisterDriver int | SpaceGet u32 | ArchMmuMap u32 u32 u32

record i2c_env = "i2c_op bus_env" +
  user_wrap :: "u32 \<Rightarrow> I2cIoctlWrap"
  user_msg :: "nat \<Rightarrow> nat \<Rightarrow> i2c_msg"
  i2c_data :: "i2c_op bus_trace \<Rightarrow> nat \<Rightarrow> (nat \<Rightarrow> u8) option"
  I2C_FLAG_READ :: u16
  PAGE_SHIFT :: nat
  SYS_MEM_BASE :: u32
  SYS_MEM_END :: u32

record i2c_sys = "(i2c_op bus_ev \<times> int) sys" +
  i2c_clients :: "nat \<Rightarrow> I2cClient option"
  i2c_f_priv :: "nat option"

definition I2C_RDWR_IOCTL_MAX_MSGS :: u32 where "I2C_RDWR_IOCTL_MAX_MSGS = 42"
definition I2C_BUF_MAX :: nat where "I2C_BUF_MAX = 8192"
definition I2C_NAME_SIZE :: nat where "I2C_NAME_SIZE = 32"
definition I2C_CNTLR_MAX :: int where "I2C_CNTLR_MAX = 32"
definition I2C_M_RD :: u16 where "I2C_M_RD = 1"
definition I2C_M_TEN :: u16 where "I2C_M_TEN = 0x10"
definition I2C_M_16BIT_DATA :: u16 where "I2C_M_16BIT_DATA = 8"
definition I2C_M_16BIT_REG :: u16 where "I2C_M_16BIT_REG = 2"

definition i2c_bad :: "i2c_sys \<Rightarrow> i2c_sys" where
  "i2c_bad s = s\<lparr>h_bad := True\<rparr>"

definition is_read :: "u16 \<Rightarrow> bool" where
  "is_read flags \<longleftrightarrow> flags AND I2C_M_RD \<noteq> 0"

subsection \<open>Messages to and from the process\<close>

definition I2cMsgInitFromUser ::
  "i2c_env \<Rightarrow> nat \<Rightarrow> nat \<Rightarrow> i2c_msg \<Rightarrow> i2c_sys \<Rightarrow> ret \<times> I2cMsg \<times> i2c_sys" where
  "I2cMsgInitFromUser E blk off u s =
     (let k = \<lparr>km_addr = um_addr u, km_flags = um_flags u, km_len = um_len u, km_off = off\<rparr> in
      if is_read (um_flags u) then (HDF_SUCCESS, k, s)
      else
        (case LOS_CopyToKernel E blk off (the (um_buf u)) (unat (um_len u)) s of (r, s1) \<Rightarrow>
           (if r = 0 then HDF_SUCCESS else HDF_ERR_IO, k, s1)))"

definition I2cMsgBackToUser :: "i2c_env \<Rightarrow> nat \<Rightarrow> I2cMsg \<Rightarrow> i2c_msg \<Rightarrow> i2c_sys \<Rightarrow> ret \<times> i2c_sys" where
  "I2cMsgBackToUser E blk k u s =
     (if \<not> is_read (km_flags k) then (HDF_SUCCESS, s)
      else
        (case LOS_CopyFromKernel E (the (um_buf u)) blk (km_off k) (unat (km_len k)) s of (r, s1) \<Rightarrow>
           (if r = 0 then HDF_SUCCESS else HDF_ERR_IO, s1)))"

text \<open>The loop ends at the first message that fails; its result is the last status.\<close>

fun I2cMsgsCopyBackToUser ::
  "i2c_env \<Rightarrow> nat \<Rightarrow> (I2cMsg \<times> i2c_msg) list \<Rightarrow> ret \<Rightarrow> i2c_sys \<Rightarrow> ret \<times> i2c_sys" where
  "I2cMsgsCopyBackToUser E blk [] ret s = (ret, s)"
| "I2cMsgsCopyBackToUser E blk ((k, u) # ms) ret s =
     (case I2cMsgBackToUser E blk k u s of (r, s1) \<Rightarrow>
        if r \<noteq> HDF_SUCCESS then (r, s1) else I2cMsgsCopyBackToUser E blk ms r s1)"

text \<open>\<open>kbuf\<close> is \<open>kMsgs[0].buf\<close>, \<open>msgs\<close> the block of the two arrays.\<close>

definition I2cMsgsDestroy :: "nat option \<Rightarrow> nat option \<Rightarrow> i2c_sys \<Rightarrow> i2c_sys" where
  "I2cMsgsDestroy kbuf msgs s = OsalMemFree msgs (OsalMemFree kbuf s)"

fun init_msgs ::
  "i2c_env \<Rightarrow> nat \<Rightarrow> nat \<Rightarrow> i2c_msg list \<Rightarrow> I2cMsg list \<Rightarrow> i2c_sys \<Rightarrow> ret \<times> I2cMsg list \<times> i2c_sys" where
  "init_msgs E blk off [] ks s = (HDF_SUCCESS, ks, s)"
| "init_msgs E blk off (u # us) ks s =
     (case I2cMsgInitFromUser E blk off u s of (r, k, s1) \<Rightarrow>
        if r \<noteq> HDF_SUCCESS then (r, ks @ [k], s1)
        else init_msgs E blk (off + unat (um_len u)) us (ks @ [k]) s1)"

definition total_len :: "i2c_msg list \<Rightarrow> nat" where
  "total_len us = sum_list (map (\<lambda>u. unat (um_len u)) us)"

definition bad_msgs :: "i2c_msg list \<Rightarrow> bool" where
  "bad_msgs us \<longleftrightarrow> (\<exists>u \<in> set us. um_buf u = None \<or> um_len u = 0)"

text \<open>The result is the message block, the data block and the two arrays.\<close>

definition I2cMsgsCreateFromUser ::
  "i2c_env \<Rightarrow> I2cIoctlWrap \<Rightarrow> i2c_sys \<Rightarrow> (ret + nat \<times> nat \<times> I2cMsg list \<times> i2c_msg list) \<times> i2c_sys" where
  "I2cMsgsCreateFromUser E wrap s =
     (case OsalMemCalloc E (Objs ''i2c_msg and I2cMsg'' (unat (iw_nmsgs wrap))) s of
        (None, s1) \<Rightarrow> (Inl HDF_ERR_MALLOC_FAIL, s1)
      | (Some m, s1) \<Rightarrow>
          (case bus_call E (CopyStruct ''msgs'') s1 of (r, s2) \<Rightarrow>
             if r \<noteq> 0 then (Inl (ret_of r), I2cMsgsDestroy None (Some m) s2)
             else
               let us = map (user_msg E (the (iw_msgs wrap))) [0..<unat (iw_nmsgs wrap)] in
               if bad_msgs us
               then (Inl HDF_ERR_INVALID_PARAM, I2cMsgsDestroy None (Some m) s2)
               else if total_len us \<ge> I2C_BUF_MAX
               then (Inl HDF_ERR_INVALID_PARAM, I2cMsgsDestroy None (Some m) s2)
               else
                 (case OsalMemCalloc E (Bytes (total_len us)) s2 of
                    (None, s3) \<Rightarrow> (Inl HDF_ERR_MALLOC_FAIL, I2cMsgsDestroy None (Some m) s3)
                  | (Some d, s3) \<Rightarrow>
                      (case init_msgs E d 0 us [] s3 of (ret, ks, s4) \<Rightarrow>
                         if ret \<noteq> HDF_SUCCESS then (Inl ret, I2cMsgsDestroy (Some d) (Some m) s4)
                         else (Inr (m, d, ks, us), s4)))))"

subsection \<open>Transfers\<close>

fun fill_msgs :: "(nat \<Rightarrow> (nat \<Rightarrow> u8) option) \<Rightarrow> nat \<Rightarrow> nat \<Rightarrow> I2cMsg list \<Rightarrow> i2c_sys \<Rightarrow> i2c_sys" where
  "fill_msgs f i blk [] s = s"
| "fill_msgs f i blk (k # ks) s =
     fill_msgs f (Suc i) blk ks (bus_fill (f i) blk (km_off k) (unat (km_len k)) s)"

definition transfer ::
  "i2c_env \<Rightarrow> nat option \<Rightarrow> nat \<Rightarrow> I2cMsg list \<Rightarrow> i2c_sys \<Rightarrow> int \<times> i2c_sys" where
  "transfer E handle blk ks s =
     (if \<exists>k \<in> set ks. mem_read blk (km_off k) (unat (km_len k)) s = None then (-1, i2c_bad s)
      else
        (case bus_call E (Bus (I2cTransfer handle
                (map (\<lambda>k. (km_addr k, km_flags k, the (mem_read blk (km_off k) (unat (km_len k)) s))) ks))) s of
           (r, s1) \<Rightarrow> (r, fill_msgs (i2c_data E (ev s)) 0 blk ks s1)))"

text \<open>\<open>(ret == 1) ? HDF_SUCCESS : ret\<close>: a transfer of no message counts as success.\<close>

definition I2cCntlrRead ::
  "i2c_env \<Rightarrow> nat option \<Rightarrow> u16 \<Rightarrow> nat \<Rightarrow> u16 \<Rightarrow> u16 \<Rightarrow> i2c_sys \<Rightarrow> ret \<times> i2c_sys" where
  "I2cCntlrRead E handle addr buf len flags s =
     (case transfer E handle buf
             [\<lparr>km_addr = addr, km_flags = flags OR I2C_FLAG_READ E, km_len = len, km_off = 0\<rparr>] s of
        (r, s1) \<Rightarrow> (if r = 1 then HDF_SUCCESS else ret_of r, s1))"

definition I2cCntlrWrite ::
  "i2c_env \<Rightarrow> nat option \<Rightarrow> u16 \<Rightarrow> nat \<Rightarrow> u16 \<Rightarrow> u16 \<Rightarrow> i2c_sys \<Rightarrow> ret \<times> i2c_sys" where
  "I2cCntlrWrite E handle addr buf len flags s =
     (case transfer E handle buf
             [\<lparr>km_addr = addr, km_flags = flags AND NOT (I2C_FLAG_READ E), km_len = len, km_off = 0\<rparr>] s of
        (r, s1) \<Rightarrow> (if r = 1 then HDF_SUCCESS else ret_of r, s1))"

definition client_of :: "i2c_sys \<Rightarrow> I2cClient option" where
  "client_of s = Option.bind (i2c_f_priv s) (i2c_clients s)"

text \<open>The length passes through \<open>int16_t\<close>: its low 16 bits are what is transferred.\<close>

definition I2cFsRead :: "i2c_env \<Rightarrow> nat \<Rightarrow> u32 \<Rightarrow> i2c_sys \<Rightarrow> u32 \<times> i2c_sys" where
  "I2cFsRead E buf count s =
     (case i2c_f_priv s of None \<Rightarrow> (0, s) | Some c \<Rightarrow>
       (case OsalMemCalloc E (Bytes (unat count)) s of
          (None, s1) \<Rightarrow> (0, s1)
        | (Some kbuf, s1) \<Rightarrow>
            (case client_of s1 of None \<Rightarrow> (0, i2c_bad s1) | Some client \<Rightarrow>
              (case I2cCntlrRead E (ic_handle client) (ic_addr client) kbuf (ucast count) (ic_flags client) s1 of
                 (ret, s2) \<Rightarrow>
                   (case (if ret = HDF_SUCCESS
                          then (case LOS_CopyFromKernel E buf kbuf 0 (unat count) s2 of (r, s3) \<Rightarrow>
                                  (if r \<noteq> 0 then HDF_ERR_IO else ret, s3))
                          else (ret, s2)) of
                      (ret2, s4) \<Rightarrow>
                        (if ret2 = HDF_SUCCESS then count else 0, OsalMemFree (Some kbuf) s4))))))"

definition I2cFsWrite :: "i2c_env \<Rightarrow> nat \<Rightarrow> u32 \<Rightarrow> i2c_sys \<Rightarrow> u32 \<times> i2c_sys" where
  "I2cFsWrite E buf count s =
     (case i2c_f_priv s of None \<Rightarrow> (0, s) | Some c \<Rightarrow>
       (case OsalMemCalloc E (Bytes (unat count)) s of
          (None, s1) \<Rightarrow> (0, s1)
        | (Some kbuf, s1) \<Rightarrow>
            (case LOS_CopyToKernel E kbuf 0 buf (unat count) s1 of (r, s2) \<Rightarrow>
               if r \<noteq> 0 then (0, OsalMemFree (Some kbuf) s2)
               else
                 (case client_of s2 of None \<Rightarrow> (0, i2c_bad s2) | Some client \<Rightarrow>
                   (case I2cCntlrWrite E (ic_handle client) (ic_addr client) kbuf (ucast count) (ic_flags client) s2 of
                      (ret, s3) \<Rightarrow>
                        (if ret = HDF_SUCCESS then count else 0, OsalMemFree (Some kbuf) s3))))))"

subsection \<open>Control calls\<close>

definition I2cIoctlReadWrite :: "i2c_env \<Rightarrow> I2cClient option \<Rightarrow> u32 \<Rightarrow> i2c_sys \<Rightarrow> ret \<times> i2c_sys" where
  "I2cIoctlReadWrite E client arg s =
     (if arg = 0 then (HDF_ERR_INVALID_PARAM, s)
      else
        (case bus_call E (CopyStruct ''wrap'') s of (r, s1) \<Rightarrow>
           if r \<noteq> 0 then (HDF_ERR_IO, s1)
           else
             let wrap = user_wrap E arg in
             if iw_msgs wrap = None \<or> iw_nmsgs wrap = 0 \<or> iw_nmsgs wrap > I2C_RDWR_IOCTL_MAX_MSGS
             then (HDF_ERR_INVALID_PARAM, s1)
             else
               (case I2cMsgsCreateFromUser E wrap s1 of
                  (Inl ret, s2) \<Rightarrow> (ret, s2)
                | (Inr (m, d, ks, us), s2) \<Rightarrow>
                    (case client of None \<Rightarrow> (HDF_FAILURE, i2c_bad s2) | Some c \<Rightarrow>
                      (case transfer E (ic_handle c) d ks s2 of (n, s3) \<Rightarrow>
                        (case (if word_of_int n = iw_nmsgs wrap
                               then I2cMsgsCopyBackToUser E d (zip ks us) HDF_SUCCESS s3 else (ret_of n, s3)) of
                           (ret, s4) \<Rightarrow> (ret, I2cMsgsDestroy (Some d) (Some m) s4)))))))"

datatype I2cIoctlCmd =
    IOCTL_RETRIES | IOCTL_TIMEOUT | IOCTL_CLIENT | IOCTL_CLIENT_FORCE | IOCTL_TENBIT | IOCTL_FUNCS
  | IOCTL_RDWR | IOCTL_PEC | IOCTL_SMBUS | IOCTL_16BIT_REG | IOCTL_16BIT_DATA | IOCTL_OTHER

definition with_client :: "(I2cClient \<Rightarrow> ret \<times> I2cClient) \<Rightarrow> i2c_sys \<Rightarrow> ret \<times> i2c_sys" where
  "with_client f s =
     (case (i2c_f_priv s, client_of s) of
        (Some p, Some c) \<Rightarrow> (case f c of (r, c') \<Rightarrow> (r, s\<lparr>i2c_clients := (i2c_clients s)(p \<mapsto> c')\<rparr>))
      | _ \<Rightarrow> (HDF_FAILURE, i2c_bad s))"

definition set_flag :: "u16 \<Rightarrow> u32 \<Rightarrow> I2cClient \<Rightarrow> ret \<times> I2cClient" where
  "set_flag b arg c =
     (HDF_SUCCESS, c\<lparr>ic_flags := (if arg = 0 then ic_flags c AND NOT b else ic_flags c OR b)\<rparr>)"

definition set_addr :: "u32 \<Rightarrow> I2cClient \<Rightarrow> ret \<times> I2cClient" where
  "set_addr arg c =
     (if (ic_flags c AND I2C_M_TEN = 0 \<and> arg > 0xfe) \<or> arg > 0x3ff then (NEG_EINVAL, c)
      else (HDF_SUCCESS, c\<lparr>ic_addr := ucast arg\<rparr>))"

definition I2cFsIoctl :: "i2c_env \<Rightarrow> I2cIoctlCmd \<Rightarrow> u32 \<Rightarrow> i2c_sys \<Rightarrow> ret \<times> i2c_sys" where
  "I2cFsIoctl E cmd arg s =
     (case cmd of
        IOCTL_CLIENT_FORCE \<Rightarrow> with_client (set_addr arg) s
      | IOCTL_CLIENT \<Rightarrow> with_client (set_addr arg) s
      | IOCTL_RDWR \<Rightarrow> I2cIoctlReadWrite E (client_of s) arg s
      | IOCTL_16BIT_REG \<Rightarrow> with_client (set_flag I2C_M_16BIT_REG arg) s
      | IOCTL_16BIT_DATA \<Rightarrow> with_client (set_flag I2C_M_16BIT_DATA arg) s
      | IOCTL_TENBIT \<Rightarrow> with_client (set_flag I2C_M_TEN arg) s
      | _ \<Rightarrow> (NEG_EINVAL, s))"

subsection \<open>Opening, closing, mapping and registering\<close>

text \<open>\<open>I2cOpen\<close> answers with the handle, 0 for \<open>NULL\<close>.\<close>

definition I2cFsOpen :: "i2c_env \<Rightarrow> bool \<Rightarrow> int \<Rightarrow> i2c_sys \<Rightarrow> ret \<times> i2c_sys" where
  "I2cFsOpen E filep_ok i s =
     (if \<not> filep_ok then (NEG_EINVAL, s)
      else
        (case bus_call E (Bus (I2cOpen i)) s of (h, s1) \<Rightarrow>
           if h = 0 then (Num (-1), s1)
           else
             (case OsalMemCalloc E (Objs ''I2cClient'' 1) s1 of
                (None, s2) \<Rightarrow> (Num (-1), s2)
              | (Some p, s2) \<Rightarrow>
                  (HDF_SUCCESS,
                   s2\<lparr>i2c_clients := (i2c_clients s2)(p \<mapsto> \<lparr>ic_handle = Some (nat h), ic_addr = 0, ic_flags = 0\<rparr>),
                      i2c_f_priv := Some p\<rparr>))))"

definition I2cFsClose :: "i2c_env \<Rightarrow> i2c_sys \<Rightarrow> ret \<times> i2c_sys" where
  "I2cFsClose E s =
     (case i2c_f_priv s of None \<Rightarrow> (HDF_SUCCESS, s) | Some p \<Rightarrow>
       (case i2c_clients s p of None \<Rightarrow> (HDF_SUCCESS, i2c_bad s) | Some c \<Rightarrow>
         (case ic_handle c of None \<Rightarrow> (HDF_SUCCESS, s) | Some h \<Rightarrow>
           (let s1 = snd (bus_call E (Bus (I2cClose h)) s) in
            (HDF_SUCCESS,
             (OsalMemFree (Some p) s1)\<lparr>i2c_clients := (i2c_clients s1)(p := None), i2c_f_priv := None\<rparr>)))))"

definition I2cFsMap :: "i2c_env \<Rightarrow> u32 \<Rightarrow> u32 \<Rightarrow> u32 \<Rightarrow> i2c_sys \<Rightarrow> ret \<times> i2c_sys" where
  "I2cFsMap E pgOff vaddr sz s =
     (let paddr = push_bit (PAGE_SHIFT E) pgOff in
      case bus_call E (Bus (SpaceGet vaddr)) s of (space, s1) \<Rightarrow>
        if space = 0 \<or> (paddr \<ge> SYS_MEM_BASE E \<and> paddr < SYS_MEM_END E) then (NEG_EINVAL, s1)
        else
          (case bus_call E (Bus (ArchMmuMap vaddr paddr (drop_bit (PAGE_SHIFT E) sz))) s1 of (r, s2) \<Rightarrow>
             (if r \<le> 0 then NEG_EAGAIN else HDF_SUCCESS, s2)))"

text \<open>The device name \<open>/dev/i2c-<id>\<close> is a heap block that both functions free again.\<close>

definition I2cAddVfsById :: "i2c_env \<Rightarrow> int \<Rightarrow> i2c_sys \<Rightarrow> ret \<times> i2c_sys" where
  "I2cAddVfsById E i s =
     (if i < 0 \<or> i \<ge> I2C_CNTLR_MAX then (HDF_ERR_INVALID_PARAM, s)
      else
        (case OsalMemCalloc E (Bytes I2C_NAME_SIZE) s of
           (None, s1) \<Rightarrow> (HDF_ERR_MALLOC_FAIL, s1)
         | (Some name, s1) \<Rightarrow>
             (case bus_call E (Bus (FormatName i)) s1 of (r, s2) \<Rightarrow>
                if r < 0 then (ret_of r, OsalMemFree (Some name) s2)
                else
                  (case bus_call E (Bus (RegisterDriver i)) s2 of (r2, s3) \<Rightarrow>
                     (ret_of r2, OsalMemFree (Some name) s3)))))"

definition I2cRemoveVfsById :: "i2c_env \<Rightarrow> int \<Rightarrow> i2c_sys \<Rightarrow> i2c_sys" where
  "I2cRemoveVfsById E i s =
     (if i < 0 \<or> i \<ge> I2C_CNTLR_MAX then s
      else
        (case OsalMemCalloc E (Bytes I2C_NAME_SIZE) s of
           (None, s1) \<Rightarrow> s1
         | (Some name, s1) \<Rightarrow>
             (case bus_call E (Bus (FormatName i)) s1 of (r, s2) \<Rightarrow>
                if r < 0 then OsalMemFree (Some name) s2
                else OsalMemFree (Some name) (snd (bus_call E (Bus (UnregisterDriver i)) s2)))))"

end
