(* ===== verification/I2c_Dev_Facts.thy ===== *)
theory I2c_Dev_Facts
  imports I2c_Dev
begin

text \<open>
  The read-write control call hands the bus exactly the messages of the process, delivers what was
  read, writes nowhere outside its buffer and leaves the heap as it was, whatever fails.
\<close>

subsection \<open>The data of the messages\<close>

definition msg_content :: "i2c_env \<Rightarrow> i2c_msg \<Rightarrow> u8 list" where
  "msg_content E u =
     (if is_read (um_flags u) then replicate (unat (um_len u)) 0
      else user_bytes E (the (um_buf u)) (unat (um_len u)))"

lemma length_msg_content [simp]: "length (msg_content E u) = unat (um_len u)"
  by (simp add: msg_content_def)

fun kmsgs :: "nat \<Rightarrow> i2c_msg list \<Rightarrow> I2cMsg list" where
  "kmsgs off [] = []"
| "kmsgs off (u # us) =
     \<lparr>km_addr = um_addr u, km_flags = um_flags u, km_len = um_len u, km_off = off\<rparr> # kmsgs (off + unat (um_len u)) us"

lemma total_len_simps [simp]: "total_len [] = 0" "total_len (u # us) = unat (um_len u) + total_len us"
  by (simp_all add: total_len_def)

lemma length_kmsgs [simp]: "length (kmsgs off us) = length us"
  by (induction us arbitrary: off) simp_all

text \<open>Only block \<open>d\<close> and the trace may differ.\<close>

definition only_block :: "nat \<Rightarrow> u8 list \<Rightarrow> i2c_sys \<Rightarrow> i2c_sys \<Rightarrow> bool" where
  "only_block d zs s s' \<longleftrightarrow>
     h_blk s' = (h_blk s)(d \<mapsto> zs) \<and> h_next s' = h_next s \<and> h_bad s' = h_bad s \<and>
     i2c_clients s' = i2c_clients s \<and> i2c_f_priv s' = i2c_f_priv s"

definition no_transfer :: "(i2c_op bus_ev \<times> int) list \<Rightarrow> bool" where
  "no_transfer es \<longleftrightarrow> (\<forall>h ms x. (Bus (I2cTransfer h ms), x) \<notin> set es)"

lemma no_transfer_simps [simp]:
  "no_transfer []" "no_transfer (xs @ ys) = (no_transfer xs \<and> no_transfer ys)"
  "no_transfer ((CopyIn a n, x) # es) = no_transfer es" "no_transfer ((CopyOut a bs, x) # es) = no_transfer es"
  "no_transfer ((CopyStruct t, x) # es) = no_transfer es" "\<not> no_transfer ((Bus (I2cTransfer h ms), x) # es)"
  by (auto simp: no_transfer_def)

lemma init_msgs_ok:
  assumes "h_blk s d = Some (pre @ replicate (total_len us) 0)" and "off = length pre"
    and "init_msgs E d off us ks s = (r, ks', s')"
  shows "\<exists>zs es. only_block d zs s s' \<and> length zs = length pre + total_len us \<and> ev s' = ev s @ es \<and> no_transfer es
    \<and> (r = HDF_SUCCESS \<longrightarrow> zs = pre @ concat (map (msg_content E) us) \<and> ks' = ks @ kmsgs off us)"
  using assms
proof (induction us arbitrary: pre off ks s)
  case Nil
  then show ?case
    by (auto simp: only_block_def intro!: exI [of _ pre] exI [of _ "[]"])
next
  case (Cons u us)
  let ?n = "unat (um_len u)"
  let ?k = "\<lparr>km_addr = um_addr u, km_flags = um_flags u, km_len = um_len u, km_off = off\<rparr>"
  have b: "h_blk s d = Some (pre @ replicate ?n 0 @ replicate (total_len us) 0)"
    using Cons.prems(1) by (simp add: replicate_add)
  have IH: "\<exists>zs es. only_block d zs t s' \<and> length zs = length pre + ?n + total_len us \<and> ev s' = ev t @ es \<and> no_transfer es
      \<and> (r = HDF_SUCCESS \<longrightarrow> zs = pre @ msg_content E u @ concat (map (msg_content E) us)
           \<and> ks' = ks @ ?k # kmsgs (off + ?n) us)"
    if "h_blk t d = Some (pre @ msg_content E u @ replicate (total_len us) 0)"
      and "init_msgs E d (off + ?n) us (ks @ [?k]) t = (r, ks', s')" for t
    using Cons.IH [of t "pre @ msg_content E u" "off + ?n" "ks @ [?k]"] that Cons.prems(2) by simp
  show ?case
  proof (cases "is_read (um_flags u)")
    case True
    then have "init_msgs E d (off + ?n) us (ks @ [?k]) s = (r, ks', s')"
      using Cons.prems(3) by (simp add: I2cMsgInitFromUser_def Let_def)
    moreover have "msg_content E u = replicate ?n 0"
      using True by (simp add: msg_content_def)
    ultimately show ?thesis
      using IH [of s] b by (simp add: add.assoc)
  next
    case False
    let ?a = "the (um_buf u)"
    let ?r = "bus_api E (ev s) (CopyIn ?a ?n)"
    let ?t = "s\<lparr>h_blk := (h_blk s)(d \<mapsto> pre @ user_bytes E ?a ?n @ replicate (total_len us) 0),
      ev := ev s @ [(CopyIn ?a ?n, ?r)]\<rparr>"
    note C = CopyToKernel_mid [OF b, of off ?n E ?a]
    show ?thesis
    proof (cases "?r = 0")
      case True
      then have i: "init_msgs E d (off + ?n) us (ks @ [?k]) ?t = (r, ks', s')"
        using Cons.prems(2,3) False C by (simp add: I2cMsgInitFromUser_def Let_def)
      have c: "msg_content E u = user_bytes E ?a ?n"
        using False by (simp add: msg_content_def)
      obtain zs es where z: "only_block d zs ?t s'" "length zs = length pre + ?n + total_len us" "ev s' = ev ?t @ es"
        "no_transfer es"
        "r = HDF_SUCCESS \<longrightarrow> zs = pre @ msg_content E u @ concat (map (msg_content E) us)
           \<and> ks' = ks @ ?k # kmsgs (off + ?n) us"
        using IH [of ?t] i c by auto
      show ?thesis
        by (rule exI [of _ zs], rule exI [of _ "(CopyIn ?a ?n, ?r) # es"])
          (use z in \<open>auto simp: only_block_def\<close>)
    next
      case False
      then have "r = HDF_ERR_IO" "s' = s\<lparr>ev := ev s @ [(CopyIn ?a ?n, ?r)]\<rparr>"
        using Cons.prems(2,3) \<open>\<not> is_read (um_flags u)\<close> C by (auto simp: I2cMsgInitFromUser_def Let_def)
      then show ?thesis
        using b by (auto simp: only_block_def fun_upd_idem
            intro!: exI [of _ "pre @ replicate ?n 0 @ replicate (total_len us) 0"])
    qed
  qed
qed

text \<open>Reading the slices gives the data of the messages; filling them fills each one.\<close>

lemma read_kmsgs:
  assumes "h_blk s d = Some (pre @ concat ds)" and "off = length pre"
    and "list_all2 (\<lambda>u x. length x = unat (um_len u)) us ds"
  shows "map (\<lambda>k. (km_addr k, km_flags k, mem_read d (km_off k) (unat (km_len k)) s)) (kmsgs off us) =
    map2 (\<lambda>u x. (um_addr u, um_flags u, Some x)) us ds"
  using assms(3,1,2)
proof (induction arbitrary: pre off rule: list_all2_induct)
  case (Cons u us x ds)
  have "mem_read d off (unat (um_len u)) s = Some x"
    by (rule mem_read_mid) (use Cons in auto)
  then show ?case
    using Cons.IH [of "pre @ x" "off + unat (um_len u)"] Cons.hyps Cons.prems by simp
qed simp

lemma fill_kmsgs:
  assumes "h_blk s d = Some (pre @ concat ds)" and "off = length pre"
    and "list_all2 (\<lambda>u x. length x = unat (um_len u)) us ds"
  shows "fill_msgs f i d (kmsgs off us) s = s\<lparr>h_blk := (h_blk s)(d \<mapsto> pre @ concat (fill_from f i ds))\<rparr>"
  using assms(3,1,2)
proof (induction arbitrary: pre off s i rule: list_all2_induct)
  case Nil
  then have "s\<lparr>h_blk := (h_blk s)(d \<mapsto> pre)\<rparr> = s"
    by (intro h_blk_same) simp
  then show ?case
    by (simp only: fill_msgs.simps kmsgs.simps fill_from.simps concat.simps append_Nil2)
next
  case (Cons u us x ds)
  have b: "bus_fill (f i) d off (unat (um_len u)) s = s\<lparr>h_blk := (h_blk s)(d \<mapsto> pre @ filled (f i) x @ concat ds)\<rparr>"
    by (rule bus_fill_mid) (use Cons in auto)
  show ?case
    using Cons.IH [of "s\<lparr>h_blk := (h_blk s)(d \<mapsto> pre @ filled (f i) x @ concat ds)\<rparr>" "pre @ filled (f i) x"
        "off + unat (um_len u)" "Suc i"] Cons.hyps Cons.prems b by (simp cong: if_cong)
qed

lemma transfer_kmsgs:
  fixes h :: "nat option"
  assumes b: "h_blk s d = Some (concat (map (msg_content E) us))"
  defines "c \<equiv> Bus (I2cTransfer h (map (\<lambda>u. (um_addr u, um_flags u, msg_content E u)) us))"
  shows "transfer E h d (kmsgs 0 us) s =
     (bus_api E (ev s) c,
      s\<lparr>h_blk := (h_blk s)(d \<mapsto> concat (fill_from (i2c_data E (ev s)) 0 (map (msg_content E) us))),
        ev := ev s @ [(c, bus_api E (ev s) c)]\<rparr>)"
proof -
  let ?ds = "map (msg_content E) us"
  have l: "list_all2 (\<lambda>u x. length x = unat (um_len u)) us ?ds"
    by (simp add: list_all2_map2 list.rel_refl)
  have r: "map (\<lambda>k. (km_addr k, km_flags k, mem_read d (km_off k) (unat (km_len k)) s)) (kmsgs 0 us) =
      map (\<lambda>u. (um_addr u, um_flags u, Some (msg_content E u))) us"
    using read_kmsgs [where pre = "[]", of s d ?ds 0 us] b l by (simp add: zip_map2 zip_same_conv_map)
  have nn: "mem_read d (km_off k) (unat (km_len k)) s \<noteq> None" if "k \<in> set (kmsgs 0 us)" for k
  proof -
    have "(km_addr k, km_flags k, mem_read d (km_off k) (unat (km_len k)) s) \<in>
        set (map (\<lambda>u. (um_addr u, um_flags u, Some (msg_content E u))) us)"
      using that by (subst r [symmetric]) auto
    then show ?thesis by auto
  qed
  have "(\<exists>k \<in> set (kmsgs 0 us). mem_read d (km_off k) (unat (km_len k)) s = None) = False"
    using nn by blast
  note T = transfer_def [of E h d "kmsgs 0 us" s, unfolded this if_False]
  have "map (\<lambda>k. (km_addr k, km_flags k, the (mem_read d (km_off k) (unat (km_len k)) s))) (kmsgs 0 us) =
      map (\<lambda>u. (um_addr u, um_flags u, msg_content E u)) us"
    using arg_cong [OF r, of "map (\<lambda>(a, f, x). (a, f, the x))"] by (simp add: comp_def)
  moreover have "fill_msgs f 0 d (kmsgs 0 us) (emit x s) =
      emit x (s\<lparr>h_blk := (h_blk s)(d \<mapsto> concat (fill_from f 0 ?ds))\<rparr>)" for f x
    using fill_kmsgs [of "emit x s" d "[]" ?ds 0 us f 0] b l by (simp add: emit_def)
  ultimately show ?thesis
    by (simp add: T c_def bus_call_def ext_call_eq emit_def)
qed

definition delivered :: "(i2c_msg \<times> u8 list) list \<Rightarrow> (i2c_op bus_ev \<times> int) list \<Rightarrow> bool" where
  "delivered uxs es \<longleftrightarrow>
     (\<forall>(u, x) \<in> set uxs. is_read (um_flags u) \<longrightarrow> (CopyOut (the (um_buf u)) x, 0) \<in> set es)"

lemma copy_back_kmsgs:
  assumes "h_blk s d = Some (pre @ concat ds)" and "off = length pre"
    and "list_all2 (\<lambda>u x. length x = unat (um_len u)) us ds"
    and "I2cMsgsCopyBackToUser E d (zip (kmsgs off us) us) ret s = (r, s')"
  shows "\<exists>es. s' = s\<lparr>ev := ev s @ es\<rparr> \<and> no_transfer es \<and> (r = HDF_SUCCESS \<longrightarrow> delivered (zip us ds) es)"
  using assms(3,1,2,4)
proof (induction arbitrary: pre off s ret rule: list_all2_induct)
  case Nil
  then show ?case
    by (auto simp: delivered_def intro!: exI [of _ "[]"])
next
  case (Cons u us x ds)
  let ?k = "\<lparr>km_addr = um_addr u, km_flags = um_flags u, km_len = um_len u, km_off = off\<rparr>"
  let ?rest = "\<lambda>t. I2cMsgsCopyBackToUser E d (zip (kmsgs (off + unat (um_len u)) us) us) HDF_SUCCESS t"
  have IH: "\<exists>es. s' = t\<lparr>ev := ev t @ es\<rparr> \<and> no_transfer es \<and> (r = HDF_SUCCESS \<longrightarrow> delivered (zip us ds) es)"
    if "h_blk t d = h_blk s d" "?rest t = (r, s')" for t
    using Cons.IH [of t "pre @ x" "off + unat (um_len u)" HDF_SUCCESS] Cons.hyps Cons.prems that by simp
  show ?case
  proof (cases "is_read (um_flags u)")
    case False
    then have "?rest s = (r, s')"
      using Cons.prems(3) by (simp add: I2cMsgBackToUser_def)
    then show ?thesis
      using IH [of s] False by (auto simp: delivered_def)
  next
    case True
    let ?a = "the (um_buf u)"
    let ?q = "bus_api E (ev s) (CopyOut ?a x)"
    have "LOS_CopyFromKernel E ?a d off (unat (um_len u)) s = (?q, s\<lparr>ev := ev s @ [(CopyOut ?a x, ?q)]\<rparr>)"
      by (rule CopyFromKernel_mid [where xs = pre and ws = "concat ds"]) (use Cons in auto)
    then have b: "I2cMsgBackToUser E d ?k u s =
        (if ?q = 0 then HDF_SUCCESS else HDF_ERR_IO, s\<lparr>ev := ev s @ [(CopyOut ?a x, ?q)]\<rparr>)"
      using True by (simp add: I2cMsgBackToUser_def)
    show ?thesis
    proof (cases "?q = 0")
      case False
      then show ?thesis
        using Cons.prems(3) b by (auto simp: delivered_def)
    next
      case q: True
      then have "?rest (s\<lparr>ev := ev s @ [(CopyOut ?a x, 0)]\<rparr>) = (r, s')"
        using Cons.prems(3) b by simp
      from IH [OF _ this] obtain es where "s' = s\<lparr>ev := ev s @ (CopyOut ?a x, 0) # es\<rparr>" "no_transfer es"
        "r = HDF_SUCCESS \<longrightarrow> delivered (zip us ds) es"
        by auto
      then show ?thesis
        by (intro exI [of _ "(CopyOut ?a x, 0) # es"]) (auto simp: delivered_def)
    qed
  qed
qed

subsection \<open>The read-write call\<close>

definition rdwr_msgs :: "i2c_env \<Rightarrow> u32 \<Rightarrow> i2c_msg list" where
  "rdwr_msgs E arg = map (user_msg E (the (iw_msgs (user_wrap E arg)))) [0..<unat (iw_nmsgs (user_wrap E arg))]"

text \<open>The state with two fresh blocks that are freed again.\<close>

lemma msgs_create_destroy:
  fixes s :: i2c_sys
  assumes "heap_ok s" and "m = h_next s" and "d = Suc m"
    and "h_blk t = (h_blk s)(m \<mapsto> [], d \<mapsto> zs)" and "h_bad t = h_bad s"
  shows "h_blk (I2cMsgsDestroy (Some d) (Some m) t) = h_blk s" and "h_bad (I2cMsgsDestroy (Some d) (Some m) t) = h_bad s"
    and "i2c_clients (I2cMsgsDestroy (Some d) (Some m) t) = i2c_clients t" and "ev (I2cMsgsDestroy (Some d) (Some m) t) = ev t"
  using assms by (auto simp: I2cMsgsDestroy_def OsalMemFree_def LOS_MemFree_def heap_ok_def fun_eq_iff)

lemma msgs_create_destroy_one:
  fixes s :: i2c_sys
  assumes "heap_ok s" and "m = h_next s" and "h_blk t = (h_blk s)(m \<mapsto> [])" and "h_bad t = h_bad s"
  shows "h_blk (I2cMsgsDestroy None (Some m) t) = h_blk s" and "h_bad (I2cMsgsDestroy None (Some m) t) = h_bad s"
    and "i2c_clients (I2cMsgsDestroy None (Some m) t) = i2c_clients t" and "ev (I2cMsgsDestroy None (Some m) t) = ev t"
  using assms by (auto simp: I2cMsgsDestroy_def OsalMemFree_def LOS_MemFree_def heap_ok_def fun_eq_iff)

text \<open>What a call that did not get to the transfer leaves behind: nothing.\<close>

definition undone :: "i2c_sys \<Rightarrow> i2c_sys \<Rightarrow> bool" where
  "undone s s' \<longleftrightarrow> h_blk s' = h_blk s \<and> h_bad s' = h_bad s \<and> i2c_clients s' = i2c_clients s \<and>
     (\<exists>es. ev s' = ev s @ es \<and> no_transfer es)"

lemma CreateFromUser_ok:
  assumes ok: "heap_ok s" and n: "iw_nmsgs wrap \<noteq> 0"
    and us: "us = map (user_msg E (the (iw_msgs wrap))) [0..<unat (iw_nmsgs wrap)]"
    and c: "I2cMsgsCreateFromUser E wrap s = (res, s')"
  shows "(\<exists>e. res = Inl e \<and> e \<noteq> HDF_SUCCESS \<and> undone s s') \<or>
    (\<exists>es m d. res = Inr (m, d, kmsgs 0 us, us) \<and> m = h_next s \<and> d = Suc m \<and>
       h_blk s' = (h_blk s)(m \<mapsto> [], d \<mapsto> concat (map (msg_content E) us)) \<and> h_bad s' = h_bad s \<and>
       i2c_clients s' = i2c_clients s \<and> ev s' = ev s @ es \<and> no_transfer es)"
proof -
  have n0: "0 < unat (iw_nmsgs wrap)"
    using n by (simp add: unat_gt_0)
  let ?m = "h_next s"
  let ?r = "bus_api E (ev s) (CopyStruct ''msgs'')"
  let ?s2 = "s\<lparr>h_next := Suc ?m, h_blk := (h_blk s)(?m \<mapsto> []), ev := ev s @ [(CopyStruct ''msgs'', ?r)]\<rparr>"
  have E: "I2cMsgsCreateFromUser E wrap s =
      (if \<not> mem_ok E ?m (Objs ''i2c_msg and I2cMsg'' (unat (iw_nmsgs wrap)))
       then (Inl HDF_ERR_MALLOC_FAIL, s\<lparr>h_next := Suc ?m\<rparr>)
       else if ?r \<noteq> 0 then (Inl (ret_of ?r), I2cMsgsDestroy None (Some ?m) ?s2)
       else if bad_msgs us \<or> total_len us \<ge> I2C_BUF_MAX
       then (Inl HDF_ERR_INVALID_PARAM, I2cMsgsDestroy None (Some ?m) ?s2)
       else
         (case OsalMemCalloc E (Bytes (total_len us)) ?s2 of
            (None, s3) \<Rightarrow> (Inl HDF_ERR_MALLOC_FAIL, I2cMsgsDestroy None (Some ?m) s3)
          | (Some d, s3) \<Rightarrow>
              (case init_msgs E d 0 us [] s3 of (ret, ks, s4) \<Rightarrow>
                 if ret \<noteq> HDF_SUCCESS then (Inl ret, I2cMsgsDestroy (Some d) (Some ?m) s4)
                 else (Inr (?m, d, ks, us), s4))))"
    using n0 by (simp add: I2cMsgsCreateFromUser_def alloc_eqs bus_call_def ext_call_eq emit_def us [symmetric] Let_def)
  have sd: "undone s (I2cMsgsDestroy None (Some ?m) t)"
    if "h_blk t = (h_blk s)(?m \<mapsto> [])" "h_bad t = h_bad s" "i2c_clients t = i2c_clients s" "ev t = ev ?s2" for t
    using msgs_create_destroy_one [OF ok refl that(1,2)] that(3,4) by (auto simp: undone_def)
  show ?thesis
  proof (cases "mem_ok E ?m (Objs ''i2c_msg and I2cMsg'' (unat (iw_nmsgs wrap))) \<and> ?r = 0
      \<and> \<not> bad_msgs us \<and> total_len us < I2C_BUF_MAX \<and> 0 < total_len us
      \<and> mem_ok E (Suc ?m) (Bytes (total_len us))")
    case False
    have z: "OsalMemCalloc E (Bytes 0) t = (None, t)" for t :: i2c_sys
      by (simp add: OsalMemCalloc_def)
    consider (A) "\<not> mem_ok E ?m (Objs ''i2c_msg and I2cMsg'' (unat (iw_nmsgs wrap)))"
      | (B) "mem_ok E ?m (Objs ''i2c_msg and I2cMsg'' (unat (iw_nmsgs wrap)))" "?r \<noteq> 0"
      | (C) "mem_ok E ?m (Objs ''i2c_msg and I2cMsg'' (unat (iw_nmsgs wrap)))" "?r = 0"
          "bad_msgs us \<or> total_len us \<ge> I2C_BUF_MAX"
      | (D) "mem_ok E ?m (Objs ''i2c_msg and I2cMsg'' (unat (iw_nmsgs wrap)))" "?r = 0"
          "\<not> bad_msgs us" "\<not> total_len us \<ge> I2C_BUF_MAX"
          "total_len us = 0 \<or> 0 < total_len us \<and> \<not> mem_ok E (Suc ?m) (Bytes (total_len us))"
      using False by linarith
    then show ?thesis
    proof cases
      case A
      then have "res = Inl HDF_ERR_MALLOC_FAIL" "s' = s\<lparr>h_next := Suc ?m\<rparr>"
        using c n0 by (simp_all add: I2cMsgsCreateFromUser_def alloc_eqs)
      then show ?thesis by (simp add: undone_def)
    next
      case B
      then have "res = Inl (ret_of ?r)" "s' = I2cMsgsDestroy None (Some ?m) ?s2"
        using c n0 by (simp_all add: E)
      then show ?thesis using sd [of ?s2] B by simp
    next
      case C
      then have "res = Inl HDF_ERR_INVALID_PARAM" "s' = I2cMsgsDestroy None (Some ?m) ?s2"
        using c n0 by (simp_all only: E) (auto split: if_splits)
      then show ?thesis using sd [of ?s2] by simp
    next
      case D
      define t where "t = snd (OsalMemCalloc E (Bytes (total_len us)) ?s2)"
      have t: "h_blk t = (h_blk s)(?m \<mapsto> [])" "h_bad t = h_bad s" "i2c_clients t = i2c_clients s" "ev t = ev ?s2"
        "I2cMsgsCreateFromUser E wrap s = (Inl HDF_ERR_MALLOC_FAIL, I2cMsgsDestroy None (Some ?m) t)"
        using D by (auto simp: t_def E alloc_eqs z)
      then have "res = Inl HDF_ERR_MALLOC_FAIL" "s' = I2cMsgsDestroy None (Some ?m) t"
        using c by simp_all
      then show ?thesis using sd [OF t(1-4)] by simp
    qed
  next
    case True
    let ?s3 = "?s2\<lparr>h_next := Suc (Suc ?m), h_blk := (h_blk s)(?m \<mapsto> [], Suc ?m \<mapsto> replicate (total_len us) 0)\<rparr>"
    obtain ret ks s4 where i: "init_msgs E (Suc ?m) 0 us [] ?s3 = (ret, ks, s4)"
      by (metis prod_cases3)
    have e: "(res, s') = (if ret \<noteq> HDF_SUCCESS then (Inl ret, I2cMsgsDestroy (Some (Suc ?m)) (Some ?m) s4)
        else (Inr (?m, Suc ?m, ks, us), s4))"
      using c True i by (simp add: E alloc_eqs)
    obtain zs es where z: "only_block (Suc ?m) zs ?s3 s4" "ev s4 = ev ?s3 @ es" "no_transfer es"
      "ret = HDF_SUCCESS \<longrightarrow> zs = concat (map (msg_content E) us) \<and> ks = kmsgs 0 us"
      using init_msgs_ok [OF _ _ i, of "[]"] by auto
    have b: "h_blk s4 = (h_blk s)(?m \<mapsto> [], Suc ?m \<mapsto> zs)" "h_bad s4 = h_bad s" "i2c_clients s4 = i2c_clients s"
      using z(1) by (auto simp: only_block_def)
    show ?thesis
      using e z(2-4) b msgs_create_destroy [OF ok refl refl b(1,2)]
      by (cases "ret = HDF_SUCCESS") (auto simp: undone_def)
  qed
qed

definition bus_data :: "i2c_env \<Rightarrow> i2c_op bus_trace \<Rightarrow> i2c_msg list \<Rightarrow> (i2c_msg \<times> u8 list) list" where
  "bus_data E tr us = zip us (fill_from (i2c_data E tr) 0 (map (msg_content E) us))"

text \<open>The bus and the way back: the messages go out once, and after a success the data is delivered.\<close>

lemma rdwr_transferred:
  fixes s :: i2c_sys and k :: u32 and h :: "nat option"
  assumes b: "h_blk s d = Some (concat (map (msg_content E) us))"
    and run: "(case transfer E h d (kmsgs 0 us) s of (n, t) \<Rightarrow>
      if word_of_int n = k then I2cMsgsCopyBackToUser E d (zip (kmsgs 0 us) us) HDF_SUCCESS t else (ret_of n, t)) = (r, s')"
  shows "\<exists>n es ds. s' = s\<lparr>h_blk := (h_blk s)(d \<mapsto> ds),
      ev := ev s @ (Bus (I2cTransfer h (map (\<lambda>u. (um_addr u, um_flags u, msg_content E u)) us)), n) # es\<rparr>
    \<and> no_transfer es \<and> (r = HDF_SUCCESS \<and> n \<noteq> 0 \<longrightarrow> delivered (bus_data E (ev s) us) es)"
proof -
  let ?c = "Bus (I2cTransfer h (map (\<lambda>u. (um_addr u, um_flags u, msg_content E u)) us))"
  let ?n = "bus_api E (ev s) ?c" and ?ds = "fill_from (i2c_data E (ev s)) 0 (map (msg_content E) us)"
  let ?t = "s\<lparr>h_blk := (h_blk s)(d \<mapsto> concat ?ds), ev := ev s @ [(?c, ?n)]\<rparr>"
  have run': "(if word_of_int ?n = k then I2cMsgsCopyBackToUser E d (zip (kmsgs 0 us) us) HDF_SUCCESS ?t else (ret_of ?n, ?t)) = (r, s')"
    using run transfer_kmsgs [of s d E us h] b by simp
  have l: "list_all2 (\<lambda>u x. length x = unat (um_len u)) us ?ds"
    by (rule list_all2_fill_from) (simp add: list_all2_map2 list.rel_refl)
  have "\<exists>es. s' = ?t\<lparr>ev := ev ?t @ es\<rparr> \<and> no_transfer es \<and> (r = HDF_SUCCESS \<and> ?n \<noteq> 0 \<longrightarrow> delivered (zip us ?ds) es)"
  proof (cases "word_of_int ?n = k")
    case True
    then show ?thesis
      using copy_back_kmsgs [of ?t d "[]" ?ds 0 us E HDF_SUCCESS r s'] l run' by fastforce
  next
    case False
    then show ?thesis
      using run' by (auto intro!: exI [of _ "[]"])
  qed
  then obtain es where "s' = ?t\<lparr>ev := ev ?t @ es\<rparr>" "no_transfer es" "r = HDF_SUCCESS \<and> ?n \<noteq> 0 \<longrightarrow> delivered (zip us ?ds) es"
    by blast
  then show ?thesis
    unfolding bus_data_def by (intro exI [of _ ?n] exI [of _ es] exI [of _ "concat ?ds"]) simp
qed

text \<open>The whole call as one case distinction.\<close>

lemma rdwr_cases:
  fixes s s' :: i2c_sys
  assumes "I2cIoctlReadWrite E (Some c) arg s = (r, s')"
  defines "s1 \<equiv> s\<lparr>ev := ev s @ [(CopyStruct ''wrap'', bus_api E (ev s) (CopyStruct ''wrap''))]\<rparr>"
  obtains "r \<noteq> HDF_SUCCESS" "s' = s \<or> s' = s1"
  | e where "iw_nmsgs (user_wrap E arg) \<noteq> 0" "I2cMsgsCreateFromUser E (user_wrap E arg) s1 = (Inl e, s')" "r = e"
  | m d ks us s2 s4 where "iw_nmsgs (user_wrap E arg) \<noteq> 0"
      "I2cMsgsCreateFromUser E (user_wrap E arg) s1 = (Inr (m, d, ks, us), s2)"
      "(case transfer E (ic_handle c) d ks s2 of (n, s3) \<Rightarrow>
          if word_of_int n = iw_nmsgs (user_wrap E arg)
          then I2cMsgsCopyBackToUser E d (zip ks us) HDF_SUCCESS s3 else (ret_of n, s3)) = (r, s4)"
      "s' = I2cMsgsDestroy (Some d) (Some m) s4"
  using assms(1) unfolding s1_def
  by (auto simp: I2cIoctlReadWrite_def bus_call_def ext_call_eq emit_def Let_def
      split: sum.split_asm if_split_asm prod.split_asm)

text \<open>
  C38. The read-write control call of an I2C device node, whatever fails: the heap, the clients
  and the absence of undefined behaviour are kept; either the bus was not reached and the call
  reports an error, or it gets exactly the messages of the process, once, and a success after a
  transfer of at least one message means that all data that was read reached the buffers of the
  process.
\<close>

theorem i2c_rdwr:
  fixes s s' :: i2c_sys
  assumes ok: "heap_ok s" and call: "I2cIoctlReadWrite E (Some c) arg s = (r, s')"
  shows "h_blk s' = h_blk s \<and> h_bad s' = h_bad s \<and> i2c_clients s' = i2c_clients s
    \<and> (\<exists>es. ev s' = ev s @ es \<and>
         (no_transfer es \<and> r \<noteq> HDF_SUCCESS \<or>
          (\<exists>es1 es2 n. es = es1 @ (Bus (I2cTransfer (ic_handle c)
                (map (\<lambda>u. (um_addr u, um_flags u, msg_content E u)) (rdwr_msgs E arg))), n) # es2
             \<and> no_transfer es1 \<and> no_transfer es2
             \<and> (r = HDF_SUCCESS \<and> n \<noteq> 0 \<longrightarrow> delivered (bus_data E (ev s @ es1) (rdwr_msgs E arg)) es2))))"
proof -
  let ?us = "rdwr_msgs E arg" and ?e = "(CopyStruct ''wrap'', bus_api E (ev s) (CopyStruct ''wrap''))"
  let ?s1 = "s\<lparr>ev := ev s @ [?e]\<rparr>"
  have ok1: "heap_ok ?s1"
    using ok by (simp add: heap_ok_def)
  from call show ?thesis
  proof (cases rule: rdwr_cases)
    case 1
    then show ?thesis
      by auto
  next
    case (2 e)
    from CreateFromUser_ok [OF ok1 2(1) _ 2(2), of ?us] have "undone ?s1 s'" "r \<noteq> HDF_SUCCESS"
      using 2(3) by (auto simp: rdwr_msgs_def)
    then show ?thesis
      by (auto simp: undone_def)
  next
    case (3 m d ks us s2 s4)
    from CreateFromUser_ok [OF ok1 3(1) _ 3(2), of ?us] obtain es where c: "ks = kmsgs 0 ?us" "us = ?us" "m = h_next s" "d = Suc m"
      "h_blk s2 = (h_blk s)(m \<mapsto> [], d \<mapsto> concat (map (msg_content E) ?us))" "h_bad s2 = h_bad s"
      "i2c_clients s2 = i2c_clients s" "ev s2 = ev s @ ?e # es" "no_transfer es"
      by (auto simp: rdwr_msgs_def)
    obtain n es2 ds where t: "s4 = s2\<lparr>h_blk := (h_blk s2)(d \<mapsto> ds), ev := ev s2 @
        (Bus (I2cTransfer (ic_handle c) (map (\<lambda>u. (um_addr u, um_flags u, msg_content E u)) ?us)), n) # es2\<rparr>"
      "no_transfer es2" "r = HDF_SUCCESS \<and> n \<noteq> 0 \<longrightarrow> delivered (bus_data E (ev s2) ?us) es2"
      using rdwr_transferred [OF _ 3(3) [unfolded c(1,2)]] c(5) by auto
    have "h_blk s4 = (h_blk s)(m \<mapsto> [], d \<mapsto> ds)" "h_bad s4 = h_bad s"
      using t(1) c(5,6) by auto
    note D = msgs_create_destroy [OF ok c(3,4) this]
    show ?thesis
      using D 3(4) t c(7-9) by (intro conjI exI [of _ "(?e # es) @ _ # es2"] disjI2 exI [of _ "?e # es"] exI [of _ es2] exI [of _ n]) simp_all
  qed
qed

text \<open>A register number is written and one byte is read back.\<close>

definition i2c_demo_env :: i2c_env where
  "i2c_demo_env = \<lparr>mem_ok = (\<lambda>_ _. True), mem_junk = (\<lambda>_ _. 0), copy_ok = (\<lambda>d n. n \<le> d),
     bus_api = (\<lambda>_ c. case c of Bus (I2cTransfer _ ms) \<Rightarrow> int (length ms) | _ \<Rightarrow> 0),
     user_byte = (\<lambda>a i. of_nat (a + i)), user_wrap = (\<lambda>_. \<lparr>iw_msgs = Some 40, iw_nmsgs = 2\<rparr>),
     user_msg = (\<lambda>_ i. if i = 0 then \<lparr>um_addr = 0x50, um_flags = 0, um_len = 1, um_buf = Some 60\<rparr>
                      else \<lparr>um_addr = 0x50, um_flags = 1, um_len = 1, um_buf = Some 70\<rparr>),
     i2c_data = (\<lambda>_ i. if i = 1 then Some (\<lambda>_. 7) else None), I2C_FLAG_READ = 1, PAGE_SHIFT = 12,
     SYS_MEM_BASE = 0x80000000, SYS_MEM_END = 0x90000000\<rparr>"

definition i2c_demo :: i2c_sys where
  "i2c_demo = \<lparr>h_next = 4, h_blk = Map.empty, h_bad = False, ev = [], i2c_clients = Map.empty, i2c_f_priv = None\<rparr>"

lemma i2c_demo_msgs:
  "rdwr_msgs i2c_demo_env 9 = [\<lparr>um_addr = 0x50, um_flags = 0, um_len = 1, um_buf = Some 60\<rparr>,
     \<lparr>um_addr = 0x50, um_flags = 1, um_len = 1, um_buf = Some 70\<rparr>]"
  by (simp add: rdwr_msgs_def i2c_demo_env_def upt_conv_Cons)

lemma i2c_demo_runs:
  "fst (I2cIoctlReadWrite i2c_demo_env (Some \<lparr>ic_handle = Some 3, ic_addr = 0, ic_flags = 0\<rparr>) 9 i2c_demo) = HDF_SUCCESS"
  by (simp add: I2cIoctlReadWrite_def I2cMsgsCreateFromUser_def alloc_eqs bus_call_def ext_call_eq emit_def
      i2c_demo_env_def i2c_demo_def bad_msgs_def upt_conv_Cons I2C_BUF_MAX_def I2C_RDWR_IOCTL_MAX_MSGS_def
      I2cMsgInitFromUser_def is_read_def I2C_M_RD_def LOS_CopyToKernel_def mem_write_def patch_def user_bytes_def
      transfer_def mem_read_def bus_fill_def I2cMsgBackToUser_def LOS_CopyFromKernel_def)

lemma i2c_rdwr_witness:
  "\<exists>s' es. I2cIoctlReadWrite i2c_demo_env (Some \<lparr>ic_handle = Some 3, ic_addr = 0, ic_flags = 0\<rparr>) 9 i2c_demo =
      (HDF_SUCCESS, s') \<and> h_blk s' = Map.empty \<and> ev s' = es \<and> \<not> no_transfer es"
proof -
  have h: "heap_ok i2c_demo" "h_blk i2c_demo = Map.empty"
    by (simp_all add: i2c_demo_def heap_ok_def)
  obtain s' where c: "I2cIoctlReadWrite i2c_demo_env (Some \<lparr>ic_handle = Some 3, ic_addr = 0, ic_flags = 0\<rparr>) 9 i2c_demo =
      (HDF_SUCCESS, s')"
    using i2c_demo_runs by (metis prod.collapse)
  from i2c_rdwr [OF h(1) c] c h(2) show ?thesis
    by auto
qed

end
