(* ===== verification/Spi_Dev.thy ===== *)
theory Spi_Dev
  imports Bus_Buffer
begin

text \<open>
  The character device of a SPI bus, \<open>khdf/liteos/platform/src/spi_dev.c\<close>, built with \<open>LOSCFG_FS_VFS\<close>.

  The SPI core and the virtual file system are outside the repository. A transfer is recorded with
  the bytes to send (\<open>None\<close> for a \<open>NULL\<close> buffer) and the settings of each message; what it puts into the
  receive buffer of message \<open>i\<close> is \<open>spi_data\<close>. \<open>is_user\<close> is \<open>LOS_IsUserAddressRange\<close>; when it says no,
  the pointers of the caller are handed on as they are (\<open>SpiXferRaw\<close>). User addresses are numbers,
  0 for \<open>NULL\<close>. The array of messages is a list, and its block has \<open>2 * sizeof (struct SpiMsg) * count\<close>
  bytes, computed in 32 bits.
\<close>

record SpiMsg =
  sp_wbuf :: nat
  sp_rbuf :: nat
  sp_len :: u32
  sp_speed :: u32
  sp_delayUs :: u16
  sp_keepCs :: u8

record SpiIocMsg =
  io_msg :: nat
  io_count :: u32

record SpiCfg =
  cf_maxSpeedHz :: u32
  cf_mode :: u16
  cf_transferMode :: u8
  cf_bitsPerWord :: u8

text \<open>\<open>sd_cntlr\<close> is \<open>NULL\<close> or a controller.\<close>

record SpiDev =
  sd_cntlr :: "nat option"
  sd_csNum :: u32

datatype spi_op =
    SpiXfer "nat option" u32 "(u8 list option \<times> u32 \<times> u32 \<times> u16 \<times> u8) list"
  | SpiXferRaw "nat option" u32 nat
  | SpiGetCfg "nat option" u32 | SpiSetCfg "nat option" u32 SpiCfg | StoreU32 nat u32
  | SpiFormatName | SpiRegister | SpiUnregister

record spi_env = "spi_op bus_env" +
  is_user :: "nat \<Rightarrow> nat \<Rightarrow> bool"
  user_ioc :: "nat \<Rightarrow> SpiIocMsg"
  user_spi_msg :: "nat \<Rightarrow> nat \<Rightarrow> SpiMsg"
  user_u32 :: "nat \<Rightarrow> u32"
  spi_data :: "spi_op bus_trace \<Rightarrow> nat \<Rightarrow> (nat \<Rightarrow> u8) option"
  spi_cfg :: "spi_op bus_trace \<Rightarrow> SpiCfg"
  SPI_MSG_SIZE :: nat

type_synonym spi_sys = "(spi_op bus_ev \<times> int) sys"

definition MAX_DEV_NAME_SIZE :: nat where "MAX_DEV_NAME_SIZE = 32"

definition spi_bad :: "spi_sys \<Rightarrow> spi_sys" where
  "spi_bad s = s\<lparr>h_bad := True\<rparr>"

text \<open>
  \<open>filep_ok\<close> is whether \<open>filep\<close> is not \<open>NULL\<close>. Its vnode and the \<open>drv_data\<close> of the vnode are there on a file
  the kernel has opened for this driver, so the two dereferences before the test of \<open>priv\<close> are defined.
\<close>

definition SpiDevGetDevFromFilep :: "bool \<Rightarrow> SpiDev option \<Rightarrow> SpiDev option" where
  "SpiDevGetDevFromFilep filep_ok priv =
     (if \<not> filep_ok then None
      else (case priv of None \<Rightarrow> None | Some dev \<Rightarrow> if sd_cntlr dev = None then None else Some dev))"

definition SpiDevOpen :: "bool \<Rightarrow> SpiDev option \<Rightarrow> ret" where
  "SpiDevOpen filep_ok priv =
     (if SpiDevGetDevFromFilep filep_ok priv = None then HDF_ERR_INVALID_PARAM else HDF_SUCCESS)"

subsection \<open>Reading and writing\<close>

definition SpiDevRead :: "spi_env \<Rightarrow> bool \<Rightarrow> SpiDev option \<Rightarrow> nat \<Rightarrow> u32 \<Rightarrow> spi_sys \<Rightarrow> ret \<times> spi_sys" where
  "SpiDevRead E filep_ok priv buf sz s =
     (if buf = 0 \<or> sz = 0 then (HDF_ERR_INVALID_PARAM, s)
      else
        (case SpiDevGetDevFromFilep filep_ok priv of None \<Rightarrow> (HDF_ERR_INVALID_PARAM, s) | Some dev \<Rightarrow>
          if is_user E buf (unat sz) then
            (case OsalMemCalloc E (Bytes (unat sz)) s of
               (None, s1) \<Rightarrow> (HDF_ERR_MALLOC_FAIL, s1)
             | (Some p, s1) \<Rightarrow>
                 (case bus_call E (Bus (SpiXfer (sd_cntlr dev) (sd_csNum dev) [(None, sz, 0, 0, 0)])) s1 of (r, s2) \<Rightarrow>
                    let s3 = bus_fill (spi_data E (ev s1) 0) p 0 (unat sz) s2 in
                    (case (if r = 0 then LOS_CopyFromKernel E buf p 0 (unat sz) s3 else (r, s3)) of (r2, s4) \<Rightarrow>
                       (ret_of r2, OsalMemFree (Some p) s4))))
          else
            (case bus_call E (Bus (SpiXferRaw (sd_cntlr dev) (sd_csNum dev) buf)) s of (r, s1) \<Rightarrow> (ret_of r, s1))))"

definition SpiDevWrite :: "spi_env \<Rightarrow> bool \<Rightarrow> SpiDev option \<Rightarrow> nat \<Rightarrow> u32 \<Rightarrow> spi_sys \<Rightarrow> ret \<times> spi_sys" where
  "SpiDevWrite E filep_ok priv buf sz s =
     (if buf = 0 \<or> sz = 0 then (HDF_ERR_INVALID_PARAM, s)
      else
        (case SpiDevGetDevFromFilep filep_ok priv of None \<Rightarrow> (HDF_ERR_INVALID_PARAM, s) | Some dev \<Rightarrow>
          if is_user E buf (unat sz) then
            (case OsalMemCalloc E (Bytes (unat sz)) s of
               (None, s1) \<Rightarrow> (HDF_ERR_MALLOC_FAIL, s1)
             | (Some p, s1) \<Rightarrow>
                 (case LOS_CopyToKernel E p 0 buf (unat sz) s1 of (r, s2) \<Rightarrow>
                    if r \<noteq> 0 then (ret_of r, OsalMemFree (Some p) s2)
                    else
                      (case mem_read p 0 (unat sz) s2 of None \<Rightarrow> (HDF_FAILURE, spi_bad s2) | Some w \<Rightarrow>
                        (case bus_call E (Bus (SpiXfer (sd_cntlr dev) (sd_csNum dev) [(Some w, sz, 0, 0, 0)])) s2 of
                           (r2, s3) \<Rightarrow> (ret_of r2, OsalMemFree (Some p) s3)))))
          else
            (case bus_call E (Bus (SpiXferRaw (sd_cntlr dev) (sd_csNum dev) buf)) s of (r, s1) \<Rightarrow> (ret_of r, s1))))"

subsection \<open>Configuration\<close>

datatype cfg_mask = MaskMode | MaskBits | MaskSpeed

definition SpiDevGetCfg :: "spi_env \<Rightarrow> SpiDev \<Rightarrow> cfg_mask \<Rightarrow> nat \<Rightarrow> spi_sys \<Rightarrow> ret \<times> spi_sys" where
  "SpiDevGetCfg E dev msk arg s =
     (if arg = 0 then (HDF_ERR_INVALID_PARAM, s)
      else
        (case bus_call E (Bus (SpiGetCfg (sd_cntlr dev) (sd_csNum dev))) s of (r, s1) \<Rightarrow>
           if r \<noteq> 0 then (HDF_FAILURE, s1)
           else
             let cfg = spi_cfg E (ev s);
                 tmp = (case msk of MaskMode \<Rightarrow> ucast (cf_mode cfg) | MaskBits \<Rightarrow> ucast (cf_bitsPerWord cfg)
                        | MaskSpeed \<Rightarrow> cf_maxSpeedHz cfg)
             in (case bus_call E (Bus (StoreU32 arg tmp)) s1 of (r2, s2) \<Rightarrow> (ret_of r2, s2))))"

definition SpiDevSetCfg :: "spi_env \<Rightarrow> SpiDev \<Rightarrow> cfg_mask \<Rightarrow> nat \<Rightarrow> spi_sys \<Rightarrow> ret \<times> spi_sys" where
  "SpiDevSetCfg E dev msk arg s =
     (if arg = 0 then (HDF_ERR_INVALID_PARAM, s)
      else
        (case bus_call E (CopyStruct ''uint32_t'') s of (r, s1) \<Rightarrow>
           if r \<noteq> 0 then (ret_of r, s1)
           else
             (case bus_call E (Bus (SpiGetCfg (sd_cntlr dev) (sd_csNum dev))) s1 of (r2, s2) \<Rightarrow>
                if r2 \<noteq> 0 then (HDF_FAILURE, s2)
                else
                  let cfg = spi_cfg E (ev s1); tmp = user_u32 E arg;
                      cfg' = (case msk of MaskMode \<Rightarrow> cfg\<lparr>cf_mode := ucast tmp\<rparr>
                              | MaskBits \<Rightarrow> cfg\<lparr>cf_bitsPerWord := ucast tmp\<rparr>
                              | MaskSpeed \<Rightarrow> cfg\<lparr>cf_maxSpeedHz := tmp\<rparr>)
                  in (case bus_call E (Bus (SpiSetCfg (sd_cntlr dev) (sd_csNum dev) cfg')) s2 of (r3, s3) \<Rightarrow>
                        (ret_of r3, s3)))))"

subsection \<open>Message transfers\<close>

text \<open>The result is the block and the struct in it.\<close>

definition SpiDevGetIocMsgFromUser :: "spi_env \<Rightarrow> nat \<Rightarrow> spi_sys \<Rightarrow> (nat \<times> SpiIocMsg) option \<times> spi_sys" where
  "SpiDevGetIocMsgFromUser E arg s =
     (if arg = 0 then (None, s)
      else
        (case OsalMemCalloc E (Objs ''SpiIocMsg'' 1) s of
           (None, s1) \<Rightarrow> (None, s1)
         | (Some p, s1) \<Rightarrow>
             (case bus_call E (CopyStruct ''SpiIocMsg'') s1 of (r, s2) \<Rightarrow>
                if r \<noteq> 0 then (None, OsalMemFree (Some p) s2) else (Some (p, user_ioc E arg), s2))))"

text \<open>
  The size of the array, twice \<open>sizeof * count\<close> in 32-bit arithmetic. When it wraps, the messages
  do not fit into the block and the copy or the first use of the array leaves it.
\<close>

definition arr_size :: "spi_env \<Rightarrow> u32 \<Rightarrow> nat" where
  "arr_size E count = (2 * SPI_MSG_SIZE E * unat count) mod 2 ^ 32"

definition SpiDevGetSpiMsgFromUser ::
  "spi_env \<Rightarrow> SpiIocMsg \<Rightarrow> spi_sys \<Rightarrow> (nat \<times> SpiMsg list) option \<times> spi_sys" where
  "SpiDevGetSpiMsgFromUser E umsg s =
     (let count = io_count umsg in
      case OsalMemCalloc E (Bytes (arr_size E count)) s of
        (None, s1) \<Rightarrow> (None, s1)
      | (Some p, s1) \<Rightarrow>
          (case bus_call E (CopyStruct ''SpiMsg'') s1 of (r, s2) \<Rightarrow>
             if r \<noteq> 0 then (None, OsalMemFree (Some p) s2)
             else
               (Some (p, map (user_spi_msg E (io_msg umsg)) [0..<unat count]),
                if arr_size E count < 2 * SPI_MSG_SIZE E * unat count then spi_bad s2 else s2)))"

text \<open>A kernel message: the offsets of its two buffers in the block, and the settings of \<open>msg[i]\<close>.\<close>

record spi_kmsg =
  sk_w :: nat
  sk_r :: nat
  sk_msg :: SpiMsg

fun sum_len :: "SpiMsg list \<Rightarrow> u32" where
  "sum_len [] = 0"
| "sum_len (m # ms) = sp_len m + sum_len ms"

fun spi_init ::
  "spi_env \<Rightarrow> nat \<Rightarrow> u32 \<Rightarrow> u32 \<Rightarrow> SpiMsg list \<Rightarrow> spi_sys \<Rightarrow> spi_kmsg list option \<times> spi_sys" where
  "spi_init E d len pos [] s = (Some [], s)"
| "spi_init E d len pos (m # ms) s =
     (case LOS_CopyToKernel E d (unat pos) (sp_wbuf m) (unat (sp_len m)) s of (r, s1) \<Rightarrow>
        if r \<noteq> 0 then (None, s1)
        else
          (case spi_init E d len (pos + sp_len m) ms s1 of (ks, s2) \<Rightarrow>
             (map_option ((#) \<lparr>sk_w = unat pos, sk_r = unat len + unat pos, sk_msg = m\<rparr>) ks, s2)))"

definition k_len :: "spi_kmsg \<Rightarrow> nat" where
  "k_len k = unat (sp_len (sk_msg k))"

fun spi_fill :: "(nat \<Rightarrow> (nat \<Rightarrow> u8) option) \<Rightarrow> nat \<Rightarrow> nat \<Rightarrow> spi_kmsg list \<Rightarrow> spi_sys \<Rightarrow> spi_sys" where
  "spi_fill f i d [] s = s"
| "spi_fill f i d (k # ks) s = spi_fill f (Suc i) d ks (bus_fill (f i) d (sk_r k) (k_len k) s)"

definition spi_xfer :: "spi_env \<Rightarrow> SpiDev \<Rightarrow> nat \<Rightarrow> spi_kmsg list \<Rightarrow> spi_sys \<Rightarrow> int \<times> spi_sys" where
  "spi_xfer E dev d ks s =
     (if \<exists>k \<in> set ks. mem_read d (sk_w k) (k_len k) s = None then (-1, spi_bad s)
      else
        (case bus_call E (Bus (SpiXfer (sd_cntlr dev) (sd_csNum dev)
                (map (\<lambda>k. (mem_read d (sk_w k) (k_len k) s, sp_len (sk_msg k), sp_speed (sk_msg k),
                           sp_delayUs (sk_msg k), sp_keepCs (sk_msg k))) ks))) s of
           (r, s1) \<Rightarrow> (r, spi_fill (spi_data E (ev s)) 0 d ks s1)))"

fun spi_back :: "spi_env \<Rightarrow> nat \<Rightarrow> spi_kmsg list \<Rightarrow> spi_sys \<Rightarrow> bool \<times> spi_sys" where
  "spi_back E d [] s = (True, s)"
| "spi_back E d (k # ks) s =
     (case LOS_CopyFromKernel E (sp_rbuf (sk_msg k)) d (sk_r k) (k_len k) s of (r, s1) \<Rightarrow>
        if r \<noteq> 0 then (False, s1) else spi_back E d ks s1)"

text \<open>\<open>len\<close> is an \<open>int32_t\<close>: the sum of the lengths wraps, and only its sign is tested.\<close>

definition SpiDevRealTransfer :: "spi_env \<Rightarrow> SpiDev \<Rightarrow> SpiMsg list \<Rightarrow> spi_sys \<Rightarrow> ret \<times> spi_sys" where
  "SpiDevRealTransfer E dev ms s =
     (let len = sum_len ms in
      if sint len \<le> 0 then (HDF_ERR_INVALID_PARAM, s)
      else
        (case OsalMemCalloc E (Bytes (unat (len + len))) s of
           (None, s1) \<Rightarrow> (HDF_ERR_MALLOC_FAIL, s1)
         | (Some d, s1) \<Rightarrow>
             (case spi_init E d len 0 ms s1 of
                (None, s2) \<Rightarrow> (HDF_ERR_IO, OsalMemFree (Some d) s2)
              | (Some ks, s2) \<Rightarrow>
                  (case spi_xfer E dev d ks s2 of (r, s3) \<Rightarrow>
                     if r \<noteq> 0 then (HDF_FAILURE, OsalMemFree (Some d) s3)
                     else
                       (case spi_back E d ks s3 of (ok, s4) \<Rightarrow>
                          (if ok then HDF_SUCCESS else HDF_ERR_IO, OsalMemFree (Some d) s4))))))"

definition SpiDevTransfer :: "spi_env \<Rightarrow> SpiDev \<Rightarrow> nat \<Rightarrow> spi_sys \<Rightarrow> ret \<times> spi_sys" where
  "SpiDevTransfer E dev arg s =
     (if \<not> is_user E arg 8
      then (case bus_call E (Bus (SpiXferRaw (sd_cntlr dev) (sd_csNum dev) arg)) s of (r, s1) \<Rightarrow> (ret_of r, s1))
      else
        (case SpiDevGetIocMsgFromUser E arg s of
           (None, s1) \<Rightarrow> (HDF_ERR_MALLOC_FAIL, s1)
         | (Some (u, umsg), s1) \<Rightarrow>
             if sint (io_count umsg) \<le> 0 then (HDF_ERR_INVALID_OBJECT, OsalMemFree (Some u) s1)
             else
               (case SpiDevGetSpiMsgFromUser E umsg s1 of
                  (None, s2) \<Rightarrow> (HDF_ERR_IO, OsalMemFree (Some u) s2)
                | (Some (p, ms), s2) \<Rightarrow>
                    (case SpiDevRealTransfer E dev ms s2 of (r, s3) \<Rightarrow>
                       (r, OsalMemFree (Some u) (OsalMemFree (Some p) s3))))))"

datatype spi_cmd =
    SPI_IOC_MESSAGE | SPI_IOC_RD_MODE | SPI_IOC_RD_BITS_PER_WORD | SPI_IOC_RD_MAX_SPEED_HZ
  | SPI_IOC_WR_MODE | SPI_IOC_WR_BITS_PER_WORD | SPI_IOC_WR_MAX_SPEED_HZ | SPI_IOC_OTHER

definition SpiDevIoctl ::
  "spi_env \<Rightarrow> bool \<Rightarrow> SpiDev option \<Rightarrow> spi_cmd \<Rightarrow> nat \<Rightarrow> spi_sys \<Rightarrow> ret \<times> spi_sys" where
  "SpiDevIoctl E filep_ok priv cmd arg s =
     (case SpiDevGetDevFromFilep filep_ok priv of None \<Rightarrow> (HDF_ERR_INVALID_PARAM, s) | Some dev \<Rightarrow>
       (case cmd of
          SPI_IOC_MESSAGE \<Rightarrow> SpiDevTransfer E dev arg s
        | SPI_IOC_RD_MODE \<Rightarrow> SpiDevGetCfg E dev MaskMode arg s
        | SPI_IOC_RD_BITS_PER_WORD \<Rightarrow> SpiDevGetCfg E dev MaskBits arg s
        | SPI_IOC_RD_MAX_SPEED_HZ \<Rightarrow> SpiDevGetCfg E dev MaskSpeed arg s
        | SPI_IOC_WR_MODE \<Rightarrow> SpiDevSetCfg E dev MaskMode arg s
        | SPI_IOC_WR_BITS_PER_WORD \<Rightarrow> SpiDevSetCfg E dev MaskBits arg s
        | SPI_IOC_WR_MAX_SPEED_HZ \<Rightarrow> SpiDevSetCfg E dev MaskSpeed arg s
        | SPI_IOC_OTHER \<Rightarrow> (HDF_ERR_NOT_SUPPORT, s)))"

subsection \<open>Device nodes\<close>

definition SpiAddRemoveDev :: "spi_env \<Rightarrow> SpiDev option \<Rightarrow> bool \<Rightarrow> spi_sys \<Rightarrow> spi_sys" where
  "SpiAddRemoveDev E dev add s =
     (if SpiDevGetDevFromFilep True dev = None then s
      else
        (case OsalMemCalloc E (Bytes (MAX_DEV_NAME_SIZE + 1)) s of
           (None, s1) \<Rightarrow> s1
         | (Some p, s1) \<Rightarrow>
             (case bus_call E (Bus SpiFormatName) s1 of (r, s2) \<Rightarrow>
                if r < 0 then OsalMemFree (Some p) s2
                else OsalMemFree (Some p) (snd (bus_call E (Bus (if add then SpiRegister else SpiUnregister)) s2)))))"

definition SpiAddDev :: "spi_env \<Rightarrow> SpiDev option \<Rightarrow> spi_sys \<Rightarrow> spi_sys" where
  "SpiAddDev E device s = SpiAddRemoveDev E device True s"

definition SpiRemoveDev :: "spi_env \<Rightarrow> SpiDev option \<Rightarrow> spi_sys \<Rightarrow> spi_sys" where
  "SpiRemoveDev E device s = SpiAddRemoveDev E device False s"

end
