(* ===== verification/Spi_Dev_Facts.thy ===== *)
theory Spi_Dev_Facts
  imports Spi_Dev
begin

text \<open>
  A message transfer hands the bus the bytes and the settings of the process, delivers what was
  received and leaves the heap as it was, whatever fails, as long as the lengths of the messages add
  up to less than \<open>2 ^ 31\<close>. When the 32-bit sum wraps, the buffer is too short for the messages and
  the copy writes behind it.
\<close>

subsection \<open>The data of the messages\<close>

definition slen :: "SpiMsg \<Rightarrow> nat" where
  "slen u = unat (sp_len u)"

definition tlen :: "SpiMsg list \<Rightarrow> nat" where
  "tlen us = sum_list (map slen us)"

lemma tlen_simps [simp]: "tlen [] = 0" "tlen (u # us) = slen u + tlen us"
  by (simp_all add: tlen_def)

definition to_send :: "spi_env \<Rightarrow> SpiMsg \<Rightarrow> u8 list" where
  "to_send E u = user_bytes E (sp_wbuf u) (slen u)"

lemma length_to_send [simp]: "length (to_send E u) = slen u"
  by (simp add: to_send_def)

lemma length_to_sends [simp]: "length (concat (map (to_send E) us)) = tlen us"
  by (induction us) simp_all






subsection \<open>Filling the send half\<close>


subsection \<open>The transfer\<close>






definition zeros :: "SpiMsg \<Rightarrow> u8 list" where
  "zeros u = replicate (slen u) 0"

lemma length_zeros [simp]: "length (zeros u) = slen u"
  by (simp add: zeros_def)





subsection \<open>Handing back what was received\<close>



subsection \<open>The control call\<close>










subsection \<open>When the sum of the lengths wraps\<close>

text \<open>Undefined behaviour stays.\<close>

lemma bad_stays:
  fixes s :: spi_sys
  assumes "h_bad s"
  shows "h_bad (OsalMemFree p s)" "h_bad (mem_write b off ys s)" "h_bad (bus_fill f b off n s)"
    "h_bad (snd (LOS_CopyToKernel E b off a n s))" "h_bad (snd (LOS_CopyFromKernel E a b off n s))"
  using assms
  by (auto simp: OsalMemFree_def LOS_MemFree_def mem_write_def bus_fill_def LOS_CopyToKernel_def
      LOS_CopyFromKernel_def bus_call_def ext_call_eq split: option.split)

lemma bad_spi_init: "h_bad s \<Longrightarrow> h_bad (snd (spi_init E d l pos us s))"
proof (induction us arbitrary: pos s)
  case (Cons u us)
  then show ?case
    using bad_stays(4) [OF Cons.prems, of E d "unat pos" "sp_wbuf u" "unat (sp_len u)"]
      Cons.IH [of "snd (LOS_CopyToKernel E d (unat pos) (sp_wbuf u) (unat (sp_len u)) s)" "pos + sp_len u"]
    by (auto simp: split_beta)
qed simp

lemma bad_spi_fill: "h_bad s \<Longrightarrow> h_bad (spi_fill f i d ks s)"
  by (induction ks arbitrary: i s) (simp_all add: bad_stays)

lemma bad_spi_back: "h_bad s \<Longrightarrow> h_bad (snd (spi_back E d ks s))"
proof (induction ks arbitrary: s)
  case (Cons k ks)
  then show ?case
    using bad_stays(5) [OF Cons.prems, of E "sp_rbuf (sk_msg k)" d "sk_r k" "k_len k"]
      Cons.IH [of "snd (LOS_CopyFromKernel E (sp_rbuf (sk_msg k)) d (sk_r k) (k_len k) s)"]
    by (auto simp: split_beta)
qed simp

lemma bad_spi_xfer: "h_bad s \<Longrightarrow> h_bad (snd (spi_xfer E dev d ks s))"
  by (auto simp: spi_xfer_def spi_bad_def bus_call_def ext_call_eq bad_spi_fill)

lemma positive_half:
  fixes w :: u32
  assumes "0 < sint w"
  shows "unat w < 2 ^ 31" and "0 < unat w" and "unat (w + w) = 2 * unat w"
proof -
  have "uint w < 2 ^ 32"
    using uint_lt2p [of w] by simp
  moreover have "sint w = uint w - 2 ^ 32 * of_bool (bit (uint w) 31)"
    using calculation by (simp add: sint_uint signed_take_bit_eq_take_bit_minus take_bit_int_eq_self)
  ultimately have "int (unat w) = sint w"
    using assms by (cases "bit (uint w) 31") simp_all
  moreover have "sint w < 2 ^ 31"
    using sint_lt [of w] by simp
  ultimately have "int (unat w) < int (2 ^ 31)" "int 0 < int (unat w)"
    using assms by simp_all
  then show "unat w < 2 ^ 31" and "0 < unat w"
    by (simp_all only: of_nat_less_iff)
  then show "unat (w + w) = 2 * unat w"
    by (subst unat_plus_if') simp
qed

text \<open>
  SpiDevRealTransfer adds the lengths in 32 bits and tests only the sign: when the wrapped
  sum is positive and the first message is longer than the buffer, the copy from the process
  writes behind it.
\<close>

theorem spi_len_overflow:
  fixes s :: spi_sys
  assumes pos: "0 < sint (sum_len (m # ms))" and long: "2 * unat (sum_len (m # ms)) < slen m"
    and mem: "mem_ok E (h_next s) (Bytes (2 * unat (sum_len (m # ms))))"
    and copy: "bus_api E (ev s) (CopyIn (sp_wbuf m) (slen m)) = 0"
  shows "h_bad (snd (SpiDevRealTransfer E dev (m # ms) s))"
proof -
  let ?l = "sum_len (m # ms)" and ?d = "h_next s"
  have l: "unat (?l + ?l) = 2 * unat ?l" "0 < unat ?l"
    using positive_half(3,2) [OF pos] by simp_all
  define s1 where "s1 = s\<lparr>h_next := Suc ?d, h_blk := (h_blk s)(?d \<mapsto> replicate (2 * unat ?l) 0)\<rparr>"
  have a: "OsalMemCalloc E (Bytes (unat (?l + ?l))) s = (Some ?d, s1)"
    using mem l by (simp add: alloc_eqs s1_def)
  have "h_bad (snd (LOS_CopyToKernel E ?d 0 (sp_wbuf m) (slen m) s1))"
    using copy long by (simp add: LOS_CopyToKernel_def bus_call_def ext_call_eq s1_def mem_write_def)
  then have i: "h_bad (snd (spi_init E ?d ?l 0 (m # ms) s1))"
    using bad_spi_init [of "snd (LOS_CopyToKernel E ?d 0 (sp_wbuf m) (slen m) s1)" E ?d ?l "sp_len m" ms]
    by (auto simp: slen_def split_beta)
  obtain ks s2 where e: "spi_init E ?d ?l 0 (m # ms) s1 = (ks, s2)"
    by (rule prod.exhaust)
  have b2: "h_bad s2"
    using i e by simp
  have b3: "h_bad s3" if "spi_xfer E dev ?d ks' s2 = (q, s3)" for ks' q s3
    using bad_spi_xfer [OF b2, of E dev ?d ks'] that by simp
  have b4: "h_bad s4" if "spi_back E ?d ks' s3 = (q, s4)" "h_bad s3" for ks' q s3 s4
    using bad_spi_back [OF that(2), of E ?d ks'] that by simp
  have "SpiDevRealTransfer E dev (m # ms) s =
      (case ks of
         None \<Rightarrow> (HDF_ERR_IO, OsalMemFree (Some ?d) s2)
       | Some ks \<Rightarrow>
           (case spi_xfer E dev ?d ks s2 of (r, s3) \<Rightarrow>
              if r \<noteq> 0 then (HDF_FAILURE, OsalMemFree (Some ?d) s3)
              else
                (case spi_back E ?d ks s3 of (ok, s4) \<Rightarrow>
                   (if ok then HDF_SUCCESS else HDF_ERR_IO, OsalMemFree (Some ?d) s4))))"
    using pos a e by (simp add: SpiDevRealTransfer_def Let_def del: sum_len.simps spi_init.simps)
  then show ?thesis
    using b2 b3 b4 by (auto simp: bad_stays split: option.split prod.split)
qed

subsection \<open>Witnesses\<close>

text \<open>Two messages: two bytes and one byte, and the bus answers with sevens and nines.\<close>

definition spi_demo_env :: "SpiMsg \<Rightarrow> SpiMsg \<Rightarrow> spi_env" where
  "spi_demo_env a b = \<lparr>mem_ok = (\<lambda>_ _. True), mem_junk = (\<lambda>_ _. 0), copy_ok = (\<lambda>d n. n \<le> d),
     bus_api = (\<lambda>_ _. 0), user_byte = (\<lambda>a i. of_nat (a + i)), is_user = (\<lambda>_ _. True),
     user_ioc = (\<lambda>_. \<lparr>io_msg = 50, io_count = 2\<rparr>), user_spi_msg = (\<lambda>_ i. if i = 0 then a else b),
     user_u32 = (\<lambda>_. 0), spi_data = (\<lambda>_ i. Some (\<lambda>_. if i = 0 then 7 else 9)),
     spi_cfg = (\<lambda>_. \<lparr>cf_maxSpeedHz = 0, cf_mode = 0, cf_transferMode = 0, cf_bitsPerWord = 0\<rparr>), SPI_MSG_SIZE = 24\<rparr>"

definition spi_demo :: spi_sys where
  "spi_demo = \<lparr>h_next = 4, h_blk = Map.empty, h_bad = False, ev = []\<rparr>"

definition spi_msg_of :: "nat \<Rightarrow> nat \<Rightarrow> u32 \<Rightarrow> SpiMsg" where
  "spi_msg_of w r n = \<lparr>sp_wbuf = w, sp_rbuf = r, sp_len = n, sp_speed = 0, sp_delayUs = 0, sp_keepCs = 0\<rparr>"


definition spi_demo_dev :: SpiDev where
  "spi_demo_dev = \<lparr>sd_cntlr = Some 3, sd_csNum = 0\<rparr>"




text \<open>\<open>2 ^ 32 - 1\<close> bytes and two more make a buffer of two bytes.\<close>

lemma spi_len_overflow_witness:
  "h_bad (snd (SpiDevRealTransfer (spi_demo_env (spi_msg_of 60 80 0xFFFFFFFF) (spi_msg_of 70 90 2)) spi_demo_dev
     [spi_msg_of 60 80 0xFFFFFFFF, spi_msg_of 70 90 2] spi_demo))"
  by (rule spi_len_overflow) (simp_all add: slen_def spi_msg_of_def spi_demo_env_def)

end
