(* ===== verification/Ipc.thy ===== *)
theory Ipc
  imports Osal_Mem
begin

text \<open>
  What the processes of the driver framework share to call each other: message buffers, remote
  objects and their interface descriptors.

  \<open>HdfSBuf\<close> of type \<open>SBUF_IPC\<close> and \<open>HdfRemoteService\<close> are C++ adapters over the IPC framework, whose
  code is not in the repository. A buffer is the list of the values that were written and not yet
  read; \<open>put_ok b x\<close> says whether \<open>x\<close> can still be written to \<open>b\<close>. A read finds the value when the next
  one has its type, and otherwise what the bytes happen to give (\<open>raw_u32\<close> and the like). \<open>ItU32\<close> and \<open>ItI32\<close>
  are the values of \<open>HdfSbufWriteUint32\<close> and \<open>HdfSbufWriteInt32\<close>, the latter as its bits; a buffer does not
  record which of the two wrote four bytes, so either may be read with the other's function. \<open>ItRet\<close> is
  a status written as an integer. Remote objects are numbers, \<open>ip_desc\<close> their descriptors (\<open>None\<close> when
  none was set), and \<open>ip_bufs\<close> counts the buffers that were obtained and not recycled.
\<close>

datatype ipc_item = ItToken string | ItU32 u32 | ItI32 u32 | ItU16 u16 | ItStr string | ItRemote nat | ItRet ret

type_synonym sbuf = "ipc_item list"

datatype ipc_ev =
    SbufObtain | IpcSend nat nat sbuf bool | RemoteObtain | RemoteRecycle nat | AddDeath "nat option"
  | SetDesc nat string | Fw string

type_synonym ipc_trace = "(ipc_ev \<times> int) list"

record ipc_env = mem_env +
  ipc_api :: "ipc_trace \<Rightarrow> ipc_ev \<Rightarrow> int"
  ipc_new :: "ipc_trace \<Rightarrow> nat option"
  put_ok :: "sbuf \<Rightarrow> ipc_item \<Rightarrow> bool"
  raw_u32 :: "sbuf \<Rightarrow> u32 option \<times> sbuf"
  raw_u16 :: "sbuf \<Rightarrow> u16 option \<times> sbuf"
  raw_str :: "sbuf \<Rightarrow> string option \<times> sbuf"
  raw_remote :: "sbuf \<Rightarrow> nat option \<times> sbuf"

record ipc_sys = "(ipc_ev \<times> int) sys" +
  ip_bufs :: nat
  ip_desc :: "nat \<Rightarrow> string option"

definition ipc_call ::
  "('m) ipc_env_scheme \<Rightarrow> ipc_ev \<Rightarrow> ('a) ipc_sys_scheme \<Rightarrow> int \<times> ('a) ipc_sys_scheme" where
  "ipc_call E c s = ext_call (ipc_api E) c s"

definition ipc_do :: "('m) ipc_env_scheme \<Rightarrow> ipc_ev \<Rightarrow> ('a) ipc_sys_scheme \<Rightarrow> ('a) ipc_sys_scheme" where
  "ipc_do E c s = snd (ipc_call E c s)"

subsection \<open>Buffers\<close>

definition HdfSbufTypedObtain ::
  "('m) ipc_env_scheme \<Rightarrow> ('a) ipc_sys_scheme \<Rightarrow> bool \<times> ('a) ipc_sys_scheme" where
  "HdfSbufTypedObtain E s =
     (case ipc_call E SbufObtain s of (r, s1) \<Rightarrow>
        if r = 0 then (False, s1) else (True, s1\<lparr>ip_bufs := Suc (ip_bufs s1)\<rparr>))"

definition HdfSbufRecycle :: "bool \<Rightarrow> ('a) ipc_sys_scheme \<Rightarrow> ('a) ipc_sys_scheme" where
  "HdfSbufRecycle ok s =
     (if \<not> ok then s else if ip_bufs s = 0 then s\<lparr>h_bad := True\<rparr> else s\<lparr>ip_bufs := ip_bufs s - 1\<rparr>)"

definition put :: "('m) ipc_env_scheme \<Rightarrow> ipc_item \<Rightarrow> sbuf option \<Rightarrow> sbuf option" where
  "put E x b = Option.bind b (\<lambda>ys. if put_ok E ys x then Some (ys @ [x]) else None)"

text \<open>A string or remote object that is \<open>NULL\<close> cannot be written.\<close>

definition put_opt :: "('m) ipc_env_scheme \<Rightarrow> ('x \<Rightarrow> ipc_item) \<Rightarrow> 'x option \<Rightarrow> sbuf option \<Rightarrow> sbuf option" where
  "put_opt E f x b = (case x of None \<Rightarrow> None | Some y \<Rightarrow> put E (f y) b)"

definition HdfRemoteServiceWriteInterfaceToken ::
  "('m) ipc_env_scheme \<Rightarrow> nat \<Rightarrow> ('a) ipc_sys_scheme \<Rightarrow> sbuf option \<Rightarrow> sbuf option" where
  "HdfRemoteServiceWriteInterfaceToken E rm s b = put_opt E ItToken (ip_desc s rm) b"

definition HdfRemoteServiceCheckInterfaceToken ::
  "nat option \<Rightarrow> ('a) ipc_sys_scheme \<Rightarrow> sbuf \<Rightarrow> bool \<times> sbuf" where
  "HdfRemoteServiceCheckInterfaceToken rm s b =
     (case rm of None \<Rightarrow> (False, b) | Some r \<Rightarrow>
        (case b of ItToken d # ys \<Rightarrow> (ip_desc s r = Some d, ys) | _ \<Rightarrow> (False, b)))"

definition HdfRemoteServiceSetInterfaceDesc ::
  "('m) ipc_env_scheme \<Rightarrow> nat \<Rightarrow> string \<Rightarrow> ('a) ipc_sys_scheme \<Rightarrow> bool \<times> ('a) ipc_sys_scheme" where
  "HdfRemoteServiceSetInterfaceDesc E rm d s =
     (case ipc_call E (SetDesc rm d) s of (r, s1) \<Rightarrow>
        if r = 0 then (False, s1) else (True, s1\<lparr>ip_desc := (ip_desc s1)(rm \<mapsto> d)\<rparr>))"

definition HdfSbufReadUint32 :: "('m) ipc_env_scheme \<Rightarrow> sbuf \<Rightarrow> u32 option \<times> sbuf" where
  "HdfSbufReadUint32 E b =
     (case b of ItU32 x # ys \<Rightarrow> (Some x, ys) | ItI32 x # ys \<Rightarrow> (Some x, ys) | _ \<Rightarrow> raw_u32 E b)"

definition HdfSbufReadInt32 :: "('m) ipc_env_scheme \<Rightarrow> sbuf \<Rightarrow> u32 option \<times> sbuf" where
  "HdfSbufReadInt32 E b =
     (case b of ItI32 x # ys \<Rightarrow> (Some x, ys) | ItU32 x # ys \<Rightarrow> (Some x, ys) | _ \<Rightarrow> raw_u32 E b)"

definition HdfSbufReadUint16 :: "('m) ipc_env_scheme \<Rightarrow> sbuf \<Rightarrow> u16 option \<times> sbuf" where
  "HdfSbufReadUint16 E b = (case b of ItU16 x # ys \<Rightarrow> (Some x, ys) | _ \<Rightarrow> raw_u16 E b)"

definition HdfSbufReadString :: "('m) ipc_env_scheme \<Rightarrow> sbuf \<Rightarrow> string option \<times> sbuf" where
  "HdfSbufReadString E b = (case b of ItStr x # ys \<Rightarrow> (Some x, ys) | _ \<Rightarrow> raw_str E b)"

definition HdfSbufReadRemoteService :: "('m) ipc_env_scheme \<Rightarrow> sbuf \<Rightarrow> nat option \<times> sbuf" where
  "HdfSbufReadRemoteService E b = (case b of ItRemote x # ys \<Rightarrow> (Some x, ys) | _ \<Rightarrow> raw_remote E b)"

definition HdfRemoteServiceRecycle ::
  "('m) ipc_env_scheme \<Rightarrow> nat option \<Rightarrow> ('a) ipc_sys_scheme \<Rightarrow> ('a) ipc_sys_scheme" where
  "HdfRemoteServiceRecycle E rm s = (case rm of None \<Rightarrow> s | Some r \<Rightarrow> ipc_do E (RemoteRecycle r) s)"

text \<open>A fresh remote object, or \<open>NULL\<close>.\<close>

definition HdfRemoteServiceObtain ::
  "('m) ipc_env_scheme \<Rightarrow> ('a) ipc_sys_scheme \<Rightarrow> nat option \<times> ('a) ipc_sys_scheme" where
  "HdfRemoteServiceObtain E s = (ipc_new E (ev s), ipc_do E RemoteObtain s)"

lemmas sbuf_defs =
  put_def put_opt_def HdfRemoteServiceWriteInterfaceToken_def HdfRemoteServiceCheckInterfaceToken_def
  HdfSbufReadUint32_def HdfSbufReadInt32_def HdfSbufReadUint16_def HdfSbufReadString_def HdfSbufReadRemoteService_def

lemma ipc_do_simps [simp]:
  "h_next (ipc_do E c s) = h_next s" "h_blk (ipc_do E c s) = h_blk s" "h_bad (ipc_do E c s) = h_bad s"
  "ip_bufs (ipc_do E c s) = ip_bufs s" "ip_desc (ipc_do E c s) = ip_desc s"
  "ipc_sys.more (ipc_do E c s) = ipc_sys.more s"
  by (simp_all add: ipc_do_def ipc_call_def ext_call_eq emit_def)

lemma ipc_emit [simp]:
  "ip_bufs (emit e s) = ip_bufs s" "ip_desc (emit e s) = ip_desc s" "ipc_sys.more (emit e s) = ipc_sys.more s"
  by (simp_all add: emit_def)

lemma put_None [simp]: "put E x None = None"
  by (simp add: put_def)

lemma put_Some [simp]: "put_ok E ys x \<Longrightarrow> put E x (Some ys) = Some (ys @ [x])"
  by (simp add: put_def)

subsection \<open>Calls of a proxy\<close>

text \<open>
  \<open>peer rm code data w\<close> is what the process behind \<open>rm\<close>, in the state \<open>w\<close>, makes of a request: its status,
  the reply and its new state.
\<close>

record 'w proxy_env = ipc_env +
  peer :: "nat \<Rightarrow> nat \<Rightarrow> sbuf \<Rightarrow> 'w \<Rightarrow> ret \<times> sbuf \<times> 'w"

record 'w proxy_sys = ipc_sys +
  pw :: 'w

lemma pw_emit [simp]: "pw (emit e s) = pw s"
  by (simp add: emit_def)

definition ipc_send ::
  "'w proxy_env \<Rightarrow> nat \<Rightarrow> nat \<Rightarrow> sbuf \<Rightarrow> bool \<Rightarrow> 'w proxy_sys \<Rightarrow> ret \<times> sbuf \<times> 'w proxy_sys" where
  "ipc_send E rm code b reply s =
     (case peer E rm code b (pw s) of (r, rep, w) \<Rightarrow> (r, rep, (emit (IpcSend rm code b reply, 0) s)\<lparr>pw := w\<rparr>))"

text \<open>The request is sent when all its values were written.\<close>

definition send_if ::
  "'w proxy_env \<Rightarrow> nat \<Rightarrow> nat \<Rightarrow> sbuf option \<Rightarrow> bool \<Rightarrow> 'w proxy_sys \<Rightarrow> ret \<times> sbuf \<times> 'w proxy_sys" where
  "send_if E rm code b reply s =
     (case b of None \<Rightarrow> (HDF_FAILURE, [], s) | Some ys \<Rightarrow> ipc_send E rm code ys reply s)"

text \<open>
  The frame most calls have: obtain a data and a reply buffer, do \<open>f\<close> when both are there and the
  arguments are fine, and recycle the buffers that were obtained.
\<close>

definition with_bufs ::
  "'w proxy_env \<Rightarrow> bool \<Rightarrow> ('w proxy_sys \<Rightarrow> ret \<times> sbuf \<times> 'w proxy_sys) \<Rightarrow> 'w proxy_sys
   \<Rightarrow> ret \<times> sbuf \<times> 'w proxy_sys" where
  "with_bufs E ok f s =
     (case HdfSbufTypedObtain E s of (data, s1) \<Rightarrow>
       (case HdfSbufTypedObtain E s1 of (reply, s2) \<Rightarrow>
         (case (if ok \<and> data \<and> reply then f s2 else (HDF_FAILURE, [], s2)) of (r, rep, s3) \<Rightarrow>
            (r, rep, HdfSbufRecycle data (HdfSbufRecycle reply s3)))))"

subsection \<open>A remote interface\<close>

text \<open>
  The contract between a proxy and the stub it talks to: the stub serves a marshalled request as a
  direct call \<open>serve\<close> of the object behind it would, as far as \<open>view\<close> shows. The header comes before
  the request: the interface token, where the stub checks one.
\<close>

locale remote_interface =
  fixes header :: sbuf
    and code :: "'r \<Rightarrow> nat"
    and marshal :: "'r \<Rightarrow> sbuf"
    and serve :: "'r \<Rightarrow> 'v \<Rightarrow> ret \<times> 'v"
    and view :: "'w \<Rightarrow> 'v"
    and stub :: "nat \<Rightarrow> sbuf \<Rightarrow> 'w \<Rightarrow> ret \<times> sbuf \<times> 'w"
    and ready :: "'w \<Rightarrow> bool"
  assumes served:
      "ready w \<Longrightarrow> stub (code r) (header @ marshal r) w = (st, rep, w') \<Longrightarrow> (st, view w') = serve r (view w)"
    and stays_ready: "ready w \<Longrightarrow> stub (code r) (header @ marshal r) w = (st, rep, w') \<Longrightarrow> ready w'"
begin

text \<open>A request that reaches the stub is the direct call in the other process.\<close>

lemma request:
  assumes "ready w" and "stub (code r) (header @ marshal r) w = (st, rep, w')"
  shows "st = fst (serve r (view w))" and "view w' = snd (serve r (view w))"
  using served [OF assms] by (metis fst_conv, metis snd_conv)

text \<open>A sequence of requests is the sequence of direct calls.\<close>

fun run_stub :: "'r list \<Rightarrow> 'w \<Rightarrow> ret list \<times> 'w" where
  "run_stub [] w = ([], w)"
| "run_stub (r # rs) w =
     (case stub (code r) (header @ marshal r) w of (st, _, w1) \<Rightarrow>
       (case run_stub rs w1 of (sts, w2) \<Rightarrow> (st # sts, w2)))"

fun run_serve :: "'r list \<Rightarrow> 'v \<Rightarrow> ret list \<times> 'v" where
  "run_serve [] v = ([], v)"
| "run_serve (r # rs) v =
     (case serve r v of (st, v1) \<Rightarrow> (case run_serve rs v1 of (sts, v2) \<Rightarrow> (st # sts, v2)))"

lemma requests: "ready w \<Longrightarrow> run_stub rs w = (sts, w') \<Longrightarrow> run_serve rs (view w) = (sts, view w') \<and> ready w'"
proof (induction rs arbitrary: w sts w')
  case (Cons r rs)
  obtain st rep w1 where s: "stub (code r) (header @ marshal r) w = (st, rep, w1)"
    by (metis prod_cases3)
  obtain sts2 w2 where r: "run_stub rs w1 = (sts2, w2)"
    by (rule prod.exhaust)
  have "run_serve rs (view w1) = (sts2, view w2) \<and> ready w2"
    by (rule Cons.IH [OF stays_ready [OF Cons.prems(1) s] r])
  then show ?case
    using Cons.prems(2) s r served [OF Cons.prems(1) s, symmetric] by simp
qed simp

end

subsection \<open>At most one request\<close>

definition no_send :: "ipc_trace \<Rightarrow> bool" where
  "no_send es \<longleftrightarrow> (\<forall>rm c b y x. (IpcSend rm c b y, x) \<notin> set es)"

lemma no_send_simps [simp]:
  "no_send []" "no_send (xs @ ys) = (no_send xs \<and> no_send ys)" "no_send ((SbufObtain, x) # es) = no_send es"
  "\<not> no_send ((IpcSend rm c b y, x) # es)"
  by (auto simp: no_send_def) blast

lemma put_SomeD: "put E x ob = Some ys \<Longrightarrow> \<exists>zs. ob = Some zs \<and> ys = zs @ [x] \<and> put_ok E zs x"
  by (auto simp: put_def bind_eq_Some_conv split: if_splits)

lemma put_opt_SomeD: "put_opt E f x ob = Some ys \<Longrightarrow> \<exists>y zs. x = Some y \<and> ob = Some zs \<and> ys = zs @ [f y]"
  by (auto simp: put_opt_def dest: put_SomeD split: option.splits)

lemma token_SomeD:
  "HdfRemoteServiceWriteInterfaceToken E rm s ob = Some ys \<Longrightarrow>
   \<exists>d zs. ip_desc s rm = Some d \<and> ob = Some zs \<and> ys = zs @ [ItToken d]"
  by (auto simp: HdfRemoteServiceWriteInterfaceToken_def dest: put_opt_SomeD)

text \<open>What a call of a proxy did: nothing, or one request with the data \<open>ys\<close>.\<close>

definition asked ::
  "'w proxy_env \<Rightarrow> nat \<Rightarrow> nat \<Rightarrow> sbuf \<Rightarrow> bool \<Rightarrow> 'w proxy_sys \<Rightarrow> ret \<Rightarrow> 'w proxy_sys \<Rightarrow> bool" where
  "asked E rm code ys reply s r s' \<longleftrightarrow>
     (\<exists>es w rep. no_send es \<and> peer E rm code ys (pw s) = (r, rep, w)
        \<and> s' = s\<lparr>ev := ev s @ es @ [(IpcSend rm code ys reply, 0)], pw := w\<rparr>)"

definition idle :: "'w proxy_sys \<Rightarrow> 'w proxy_sys \<Rightarrow> bool" where
  "idle s s' \<longleftrightarrow> (\<exists>es. no_send es \<and> s' = s\<lparr>ev := ev s @ es\<rparr>)"

lemma asked_ev:
  "asked E rm code ys reply s r s' \<Longrightarrow> \<exists>es. no_send es \<and> ev s' = ev s @ es @ [(IpcSend rm code ys reply, 0)]"
  by (auto simp: asked_def)

lemma asked_peer: "asked E rm code ys reply s r s' \<Longrightarrow> \<exists>rep. peer E rm code ys (pw s) = (r, rep, pw s')"
  by (auto simp: asked_def)

lemma asked_frame:
  "asked E rm c ys y s r s' \<Longrightarrow> h_blk s' = h_blk s \<and> h_bad s' = h_bad s \<and> ip_bufs s' = ip_bufs s \<and> ip_desc s' = ip_desc s"
  "idle s s' \<Longrightarrow> h_blk s' = h_blk s \<and> h_bad s' = h_bad s \<and> ip_bufs s' = ip_bufs s \<and> ip_desc s' = ip_desc s \<and> pw s' = pw s"
  by (auto simp: asked_def idle_def)

lemma with_bufs_cases:
  assumes "with_bufs E ok f s = (r, rep, s')"
  obtains (idle) "idle s s'" "r = HDF_FAILURE"
    "\<not> ok \<or> (\<exists>tr. ipc_api E tr SbufObtain = 0)"
  | (call) es s3 where "ok" "no_send es" "f (s\<lparr>ev := ev s @ es, ip_bufs := ip_bufs s + 2\<rparr>) = (r, rep, s3)"
    "s' = HdfSbufRecycle True (HdfSbufRecycle True s3)"
proof -
  let ?x = "ipc_api E (ev s) SbufObtain"
  let ?es1 = "[(SbufObtain, ?x)]"
  let ?y = "ipc_api E (ev s @ ?es1) SbufObtain"
  let ?es = "?es1 @ [(SbufObtain, ?y)]"
  let ?t = "s\<lparr>ev := ev s @ ?es, ip_bufs := ip_bufs s + 2\<rparr>"
  note D = with_bufs_def HdfSbufTypedObtain_def ipc_call_def ext_call_eq emit_def HdfSbufRecycle_def
  show ?thesis
  proof (cases "ok \<and> ?x \<noteq> 0 \<and> ?y \<noteq> 0")
    case False
    then have "r = HDF_FAILURE" "s' = s\<lparr>ev := ev s @ ?es\<rparr>" "\<not> ok \<or> (\<exists>tr. ipc_api E tr SbufObtain = 0)"
      using assms by (auto simp: D split: if_splits)
    moreover from this have "idle s s'"
      unfolding idle_def by (intro exI [of _ ?es]) simp
    ultimately show ?thesis
      by (intro idle)
  next
    case True
    obtain r3 p3 s3 where f: "f ?t = (r3, p3, s3)"
      by (metis prod_cases3)
    then have "r = r3" "rep = p3" "s' = HdfSbufRecycle True (HdfSbufRecycle True s3)"
      using assms True by (auto simp: D split: if_splits)
    then show ?thesis
      using True f by (intro call [of ?es s3]) auto
  qed
qed

lemma recycle_idle:
  "HdfSbufRecycle True (HdfSbufRecycle True (s\<lparr>ev := x, ip_bufs := ip_bufs s + 2\<rparr>)) = s\<lparr>ev := x\<rparr>"
  by (simp add: HdfSbufRecycle_def)

lemma recycle_pw:
  "HdfSbufRecycle True (HdfSbufRecycle True (s\<lparr>ev := x, ip_bufs := ip_bufs s + 2, pw := w\<rparr>)) = s\<lparr>ev := x, pw := w\<rparr>"
  by (simp add: HdfSbufRecycle_def)

text \<open>The usual call: the data is built, sent and forgotten.\<close>

lemma with_bufs_send:
  assumes "with_bufs E ok (\<lambda>t. send_if E rm code (build t) reply t) s = (r, rep, s')"
    and "\<And>x y. build (s\<lparr>ev := x, ip_bufs := y\<rparr>) = build s"
  shows "idle s s' \<and> r = HDF_FAILURE \<or> ok \<and> (\<exists>ys. build s = Some ys \<and> asked E rm code ys reply s r s')"
  using assms(1)
proof (cases rule: with_bufs_cases)
  case (call es s3)
  let ?t = "s\<lparr>ev := ev s @ es, ip_bufs := ip_bufs s + 2\<rparr>"
  show ?thesis
  proof (cases "build s")
    case None
    then have "r = HDF_FAILURE" "s3 = ?t"
      using call(3) assms(2) by (auto simp: send_if_def)
    then show ?thesis
      using call(2,4) recycle_idle [where s = s and x = "ev s @ es"] by (auto simp: idle_def)
  next
    case (Some ys)
    obtain r1 p1 w where p: "peer E rm code ys (pw s) = (r1, p1, w)"
      by (metis prod_cases3)
    have "r = r1" "s3 = s\<lparr>ev := (ev s @ es) @ [(IpcSend rm code ys reply, 0)], ip_bufs := ip_bufs s + 2, pw := w\<rparr>"
      using call(3) assms(2) Some p by (auto simp: send_if_def ipc_send_def emit_def)
    then show ?thesis
      using call(1,2,4) recycle_pw [where s = s and x = "ev s @ es @ [(IpcSend rm code ys reply, 0)]" and w = w] Some p
      by (auto simp: asked_def)
  qed
qed auto

text \<open>When nothing fails, the request is made.\<close>

definition all_fine :: "('m) ipc_env_scheme \<Rightarrow> bool" where
  "all_fine E \<longleftrightarrow> (\<forall>tr. ipc_api E tr SbufObtain \<noteq> 0) \<and> (\<forall>b x. put_ok E b x)"

lemma all_fine_put [simp]: "all_fine E \<Longrightarrow> put E x (Some ys) = Some (ys @ [x])"
  by (simp add: all_fine_def)

lemma with_bufs_reply:
  assumes "all_fine E" and "with_bufs E True (\<lambda>t. send_if E rm code (build t) reply t) s = (r, rep, s')"
    and "\<And>x y. build (s\<lparr>ev := x, ip_bufs := y\<rparr>) = build s" and "build s = Some ys"
  shows "peer E rm code ys (pw s) = (r, rep, pw s') \<and> asked E rm code ys reply s r s'"
  using assms(2)
proof (cases rule: with_bufs_cases)
  case idle
  then show ?thesis
    using assms(1) by (auto simp: all_fine_def)
next
  case (call es s3)
  let ?t = "s\<lparr>ev := ev s @ es, ip_bufs := ip_bufs s + 2\<rparr>"
  obtain r1 p1 w where p: "peer E rm code ys (pw s) = (r1, p1, w)"
    by (metis prod_cases3)
  have "r = r1" "rep = p1" "s3 = s\<lparr>ev := (ev s @ es) @ [(IpcSend rm code ys reply, 0)], ip_bufs := ip_bufs s + 2, pw := w\<rparr>"
    using call(3) assms(3,4) p by (auto simp: send_if_def ipc_send_def emit_def)
  then show ?thesis
    using call(2,4) p recycle_pw [where s = s and x = "ev s @ es @ [(IpcSend rm code ys reply, 0)]" and w = w] p
    by (auto simp: asked_def)
qed

lemma with_bufs_fine:
  assumes "all_fine E" and "with_bufs E True (\<lambda>t. send_if E rm code (build t) reply t) s = (r, rep, s')"
    and "\<And>x y. build (s\<lparr>ev := x, ip_bufs := y\<rparr>) = build s" and "build s = Some ys"
  shows "asked E rm code ys reply s r s'"
  using with_bufs_reply [OF assms] by blast

end
