(* ===== verification/Devmgr_Ipc.thy ===== *)
theory Devmgr_Ipc
  imports Ipc
begin

text \<open>
  The interface of the device manager between processes: the proxy in a driver host
  (\<open>uhdf2/host/src/devmgr_service_proxy.c\<close>), the stub in the manager
  (\<open>uhdf2/manager/src/devmgr_service_stub.c\<close>) with the objects it makes for callers
  (\<open>device_token_proxy.c\<close>, the constructor in \<open>devhost_service_proxy.c\<close>), the device query
  (\<open>devmgr_query_device.c\<close>) and the installation of kernel modules.

  The manager object \<open>super\<close> is framework code outside the repository: its state is \<open>mg_state\<close>, its
  methods are the \<open>mgr_\<close> fields of the environment.
\<close>

definition DEVMGR_SERVICE_ATTACH_DEVICE_HOST :: nat where "DEVMGR_SERVICE_ATTACH_DEVICE_HOST = 1"
definition DEVMGR_SERVICE_ATTACH_DEVICE :: nat where "DEVMGR_SERVICE_ATTACH_DEVICE = 2"
definition DEVMGR_SERVICE_DETACH_DEVICE :: nat where "DEVMGR_SERVICE_DETACH_DEVICE = 3"
definition DEVMGR_SERVICE_LOAD_DEVICE :: nat where "DEVMGR_SERVICE_LOAD_DEVICE = 4"
definition DEVMGR_SERVICE_UNLOAD_DEVICE :: nat where "DEVMGR_SERVICE_UNLOAD_DEVICE = 5"
definition DEVMGR_SERVICE_QUERY_DEVICE :: nat where "DEVMGR_SERVICE_QUERY_DEVICE = 6"
definition DEVMGR_SERVICE_LIST_ALL_DEVICE :: nat where "DEVMGR_SERVICE_LIST_ALL_DEVICE = 7"

lemmas devmgr_codes =
  DEVMGR_SERVICE_ATTACH_DEVICE_HOST_def DEVMGR_SERVICE_ATTACH_DEVICE_def DEVMGR_SERVICE_DETACH_DEVICE_def
  DEVMGR_SERVICE_LOAD_DEVICE_def DEVMGR_SERVICE_UNLOAD_DEVICE_def DEVMGR_SERVICE_QUERY_DEVICE_def
  DEVMGR_SERVICE_LIST_ALL_DEVICE_def

definition DEVMGR_DESC :: string where "DEVMGR_DESC = ''HDI.IDeviceManager.V1_0''"

subsection \<open>The proxy\<close>

record DevmgrServiceProxy =
  dp_remote :: "nat option"

text \<open>The host service is \<open>NULL\<close> or an object with its remote object; a missing proxy is dereferenced.\<close>

definition DevmgrServiceProxyAttachDeviceHost ::
  "'w proxy_env \<Rightarrow> DevmgrServiceProxy option \<Rightarrow> u16 \<Rightarrow> nat option option \<Rightarrow> 'w proxy_sys \<Rightarrow> ret \<times> 'w proxy_sys" where
  "DevmgrServiceProxyAttachDeviceHost E inst hostId service s =
     (case inst of None \<Rightarrow> (HDF_FAILURE, s\<lparr>h_bad := True\<rparr>) | Some p \<Rightarrow>
       (case with_bufs E (dp_remote p \<noteq> None)
           (\<lambda>t. let rm = the (dp_remote p);
                    b = put E (ItI32 (ucast hostId)) (HdfRemoteServiceWriteInterfaceToken E rm t (Some [])) in
                if b = None then (HDF_FAILURE, [], t)
                else
                  (case service of None \<Rightarrow> (HDF_FAILURE, [], t\<lparr>h_bad := True\<rparr>) | Some hostRemote \<Rightarrow>
                     send_if E rm DEVMGR_SERVICE_ATTACH_DEVICE_HOST (put_opt E ItRemote hostRemote b) True t)) s of
          (r, _, s1) \<Rightarrow> (r, s1)))"

definition proxy_remote :: "DevmgrServiceProxy option \<Rightarrow> nat option" where
  "proxy_remote inst = Option.bind inst dp_remote"

text \<open>A token is \<open>NULL\<close> or given by its device number.\<close>

definition DevmgrServiceProxyAttachDevice ::
  "'w proxy_env \<Rightarrow> DevmgrServiceProxy option \<Rightarrow> u32 option \<Rightarrow> 'w proxy_sys \<Rightarrow> ret \<times> 'w proxy_sys" where
  "DevmgrServiceProxyAttachDevice E inst token s =
     (case with_bufs E (proxy_remote inst \<noteq> None \<and> token \<noteq> None)
         (\<lambda>t. let rm = the (proxy_remote inst) in
              send_if E rm DEVMGR_SERVICE_ATTACH_DEVICE
                (put E (ItI32 (the token)) (HdfRemoteServiceWriteInterfaceToken E rm t (Some []))) True t) s of
        (r, _, s1) \<Rightarrow> (r, s1))"

definition DevmgrServiceProxyDetachDevice ::
  "'w proxy_env \<Rightarrow> DevmgrServiceProxy option \<Rightarrow> u32 \<Rightarrow> 'w proxy_sys \<Rightarrow> ret \<times> 'w proxy_sys" where
  "DevmgrServiceProxyDetachDevice E inst devid s =
     (case with_bufs E (proxy_remote inst \<noteq> None)
         (\<lambda>t. let rm = the (proxy_remote inst) in
              send_if E rm DEVMGR_SERVICE_DETACH_DEVICE
                (put E (ItI32 devid) (HdfRemoteServiceWriteInterfaceToken E rm t (Some []))) True t) s of
        (r, _, s1) \<Rightarrow> (r, s1))"

text \<open>Loading and unloading differ in the code; neither obtains a reply buffer.\<close>

definition load_call ::
  "nat \<Rightarrow> 'w proxy_env \<Rightarrow> DevmgrServiceProxy option \<Rightarrow> string option \<Rightarrow> 'w proxy_sys \<Rightarrow> ret \<times> 'w proxy_sys" where
  "load_call code E inst svcName s =
     (case proxy_remote inst of None \<Rightarrow> (HDF_ERR_INVALID_PARAM, s) | Some rm \<Rightarrow>
       if svcName = None then (HDF_ERR_INVALID_PARAM, s)
       else
         (case HdfSbufTypedObtain E s of (data, s1) \<Rightarrow>
           (case send_if E rm code (put_opt E ItStr svcName (HdfRemoteServiceWriteInterfaceToken E rm s1
                   (if data then Some [] else None))) False s1 of
              (r, _, s2) \<Rightarrow> (r, HdfSbufRecycle data s2))))"

definition DevmgrServiceProxyLoadDevice ::
  "'w proxy_env \<Rightarrow> DevmgrServiceProxy option \<Rightarrow> string option \<Rightarrow> 'w proxy_sys \<Rightarrow> ret \<times> 'w proxy_sys" where
  "DevmgrServiceProxyLoadDevice = load_call DEVMGR_SERVICE_LOAD_DEVICE"

definition DevmgrServiceProxyUnLoadDevice ::
  "'w proxy_env \<Rightarrow> DevmgrServiceProxy option \<Rightarrow> string option \<Rightarrow> 'w proxy_sys \<Rightarrow> ret \<times> 'w proxy_sys" where
  "DevmgrServiceProxyUnLoadDevice = load_call DEVMGR_SERVICE_UNLOAD_DEVICE"

text \<open>A proxy object is its block with the object. \<open>get\<close> is \<open>GetService\<close> of the service manager.\<close>

definition DevmgrServiceProxyObtain ::
  "('m) ipc_env_scheme \<Rightarrow> nat option \<Rightarrow> ('a) ipc_sys_scheme \<Rightarrow> (nat \<times> DevmgrServiceProxy) option \<times> ('a) ipc_sys_scheme" where
  "DevmgrServiceProxyObtain E service s =
     (case service of None \<Rightarrow> (None, s) | Some r \<Rightarrow>
       (case OsalMemCalloc E (Objs ''DevmgrServiceProxy'' 1) s of
          (None, s1) \<Rightarrow> (None, s1)
        | (Some p, s1) \<Rightarrow> (Some (p, \<lparr>dp_remote = Some r\<rparr>), s1)))"

definition DevmgrServiceProxyCreate ::
  "('m) ipc_env_scheme \<Rightarrow> (nat \<times> DevmgrServiceProxy) option \<Rightarrow> (('a) ipc_sys_scheme \<Rightarrow> nat option \<times> ('a) ipc_sys_scheme) option
   \<Rightarrow> ('a) ipc_sys_scheme \<Rightarrow> (nat \<times> DevmgrServiceProxy) option \<times> ('a) ipc_sys_scheme" where
  "DevmgrServiceProxyCreate E inst get s =
     (if inst \<noteq> None then (inst, s)
      else
        (case get of None \<Rightarrow> (None, s) | Some g \<Rightarrow>
          (case g s of
             (None, s1) \<Rightarrow> (None, s1)
           | (Some rm, s1) \<Rightarrow>
               (case HdfRemoteServiceSetInterfaceDesc E rm DEVMGR_DESC s1 of (ok, s2) \<Rightarrow>
                  if \<not> ok then (None, HdfRemoteServiceRecycle E (Some rm) s2)
                  else DevmgrServiceProxyObtain E (Some rm) s2))))"

definition DevmgrServiceProxyRelease ::
  "('m) ipc_env_scheme \<Rightarrow> (nat \<times> DevmgrServiceProxy) option \<Rightarrow> ('a) ipc_sys_scheme \<Rightarrow> ('a) ipc_sys_scheme" where
  "DevmgrServiceProxyRelease E object s =
     (case object of None \<Rightarrow> s | Some (p, ob) \<Rightarrow>
        OsalMemFree (Some p) (HdfRemoteServiceRecycle E (dp_remote ob) s))"

subsection \<open>The manager's objects for its callers\<close>

record HdfDevTokenProxy =
  tk_devid :: u32
  tk_remote :: "nat option"

record DevHostServiceProxy =
  hp_hostId :: u32
  hp_remote :: "nat option"

record dev_info =
  qi_svcName :: "string option"
  qi_policy :: u16
  qi_status :: u16
  qi_deviceType :: u32

record 'd mg_sys = ipc_sys +
  mg_state :: 'd
  mg_tokens :: "nat \<Rightarrow> HdfDevTokenProxy option"
  mg_hosts :: "nat \<Rightarrow> DevHostServiceProxy option"
  mg_remote :: "nat option"

record 'd mg_env = ipc_env +
  mgr_AttachDeviceHost :: "u32 \<Rightarrow> nat option \<Rightarrow> 'd \<Rightarrow> ret \<times> 'd"
  mgr_AttachDevice :: "nat \<Rightarrow> u32 \<Rightarrow> 'd \<Rightarrow> ret \<times> 'd"
  mgr_DetachDevice :: "u32 \<Rightarrow> 'd \<Rightarrow> ret \<times> 'd"
  mgr_LoadDevice :: "string \<Rightarrow> 'd \<Rightarrow> ret \<times> 'd"
  mgr_UnloadDevice :: "string \<Rightarrow> 'd \<Rightarrow> ret \<times> 'd"
  mgr_ListAllDevice :: "'d \<Rightarrow> ret \<times> sbuf"
  mgr_unload_infos :: "'d \<Rightarrow> dev_info list list"
  HDF_SERVICE_USABLE :: u16
  HDF_SERVICE_UNUSABLE :: u16
  SERVICE_POLICY_PUBLIC :: u16
  SERVICE_POLICY_CAPACITY :: u16

definition HdfDevTokenProxyObtain ::
  "('m) ipc_env_scheme \<Rightarrow> nat option \<Rightarrow> 'd mg_sys \<Rightarrow> nat option \<times> 'd mg_sys" where
  "HdfDevTokenProxyObtain E remote s =
     (case OsalMemCalloc E (Objs ''HdfDevTokenProxy'' 1) s of
        (None, s1) \<Rightarrow> (None, s1)
      | (Some p, s1) \<Rightarrow> (Some p, s1\<lparr>mg_tokens := (mg_tokens s1)(p \<mapsto> \<lparr>tk_devid = 0, tk_remote = remote\<rparr>)\<rparr>))"

definition HdfDevTokenProxyRecycle ::
  "('m) ipc_env_scheme \<Rightarrow> nat option \<Rightarrow> 'd mg_sys \<Rightarrow> 'd mg_sys" where
  "HdfDevTokenProxyRecycle E inst s =
     (case inst of None \<Rightarrow> s | Some p \<Rightarrow>
       (case mg_tokens s p of None \<Rightarrow> s\<lparr>h_bad := True\<rparr> | Some t \<Rightarrow>
          (OsalMemFree (Some p) (HdfRemoteServiceRecycle E (tk_remote t) s))\<lparr>mg_tokens := (mg_tokens s)(p := None)\<rparr>))"

definition DevHostServiceProxyConstruct ::
  "('m) ipc_env_scheme \<Rightarrow> nat \<Rightarrow> nat option \<Rightarrow> 'd mg_sys \<Rightarrow> 'd mg_sys" where
  "DevHostServiceProxyConstruct E p remote s =
     ipc_do E (AddDeath remote)
       (s\<lparr>mg_hosts := (mg_hosts s)(p := map_option (\<lambda>h. h\<lparr>hp_remote := remote\<rparr>) (mg_hosts s p))\<rparr>)"

definition DevHostServiceProxyObtain ::
  "('m) ipc_env_scheme \<Rightarrow> u32 \<Rightarrow> nat option \<Rightarrow> 'd mg_sys \<Rightarrow> nat option \<times> 'd mg_sys" where
  "DevHostServiceProxyObtain E hostId remote s =
     (case OsalMemCalloc E (Objs ''DevHostServiceProxy'' 1) s of
        (None, s1) \<Rightarrow> (None, s1)
      | (Some p, s1) \<Rightarrow>
          (Some p, DevHostServiceProxyConstruct E p remote
             (s1\<lparr>mg_hosts := (mg_hosts s1)(p \<mapsto> \<lparr>hp_hostId = hostId, hp_remote = None\<rparr>)\<rparr>)))"

definition DevHostServiceProxyRecycle ::
  "('m) ipc_env_scheme \<Rightarrow> nat option \<Rightarrow> 'd mg_sys \<Rightarrow> 'd mg_sys" where
  "DevHostServiceProxyRecycle E inst s =
     (case inst of None \<Rightarrow> s | Some p \<Rightarrow>
       (case mg_hosts s p of None \<Rightarrow> s\<lparr>h_bad := True\<rparr> | Some h \<Rightarrow>
          (OsalMemFree (Some p) (HdfRemoteServiceRecycle E (hp_remote h) s))\<lparr>mg_hosts := (mg_hosts s)(p := None)\<rparr>))"

subsection \<open>The stub\<close>

definition DevmgrServiceStubDispatchAttachDevice ::
  "'d mg_env \<Rightarrow> sbuf \<Rightarrow> 'd mg_sys \<Rightarrow> ret \<times> 'd mg_sys" where
  "DevmgrServiceStubDispatchAttachDevice E data s =
     (case fst (HdfSbufReadUint32 E data) of
        None \<Rightarrow> (HDF_ERR_INVALID_PARAM, s)
      | Some deviceId \<Rightarrow>
          (case HdfDevTokenProxyObtain E None s of
             (None, s1) \<Rightarrow> (HDF_FAILURE, s1)
           | (Some p, s1) \<Rightarrow>
               let s2 = s1\<lparr>mg_tokens := (mg_tokens s1)(p := map_option (\<lambda>t. t\<lparr>tk_devid := deviceId\<rparr>) (mg_tokens s1 p))\<rparr> in
               (case mgr_AttachDevice E p deviceId (mg_state s2) of (r, d) \<Rightarrow> (r, s2\<lparr>mg_state := d\<rparr>))))"

definition DevmgrServiceStubDispatchDetachDevice ::
  "'d mg_env \<Rightarrow> sbuf \<Rightarrow> 'd mg_sys \<Rightarrow> ret \<times> 'd mg_sys" where
  "DevmgrServiceStubDispatchDetachDevice E data s =
     (case fst (HdfSbufReadUint32 E data) of
        None \<Rightarrow> (HDF_ERR_INVALID_PARAM, s)
      | Some deviceId \<Rightarrow> (case mgr_DetachDevice E deviceId (mg_state s) of (r, d) \<Rightarrow> (r, s\<lparr>mg_state := d\<rparr>)))"

definition DevmgrServiceStubDispatchLoadDevice ::
  "'d mg_env \<Rightarrow> sbuf \<Rightarrow> 'd mg_sys \<Rightarrow> ret \<times> 'd mg_sys" where
  "DevmgrServiceStubDispatchLoadDevice E data s =
     (case fst (HdfSbufReadString E data) of
        None \<Rightarrow> (HDF_ERR_INVALID_PARAM, s)
      | Some serviceName \<Rightarrow> (case mgr_LoadDevice E serviceName (mg_state s) of (r, d) \<Rightarrow> (r, s\<lparr>mg_state := d\<rparr>)))"

definition DevmgrServiceStubDispatchUnloadDevice ::
  "'d mg_env \<Rightarrow> sbuf \<Rightarrow> 'd mg_sys \<Rightarrow> ret \<times> 'd mg_sys" where
  "DevmgrServiceStubDispatchUnloadDevice E data s =
     (case fst (HdfSbufReadString E data) of
        None \<Rightarrow> (HDF_ERR_INVALID_PARAM, s)
      | Some serviceName \<Rightarrow> (case mgr_UnloadDevice E serviceName (mg_state s) of (r, d) \<Rightarrow> (r, s\<lparr>mg_state := d\<rparr>)))"

definition DevmgrServiceStubDispatchListAllDevice ::
  "'d mg_env \<Rightarrow> sbuf option \<Rightarrow> 'd mg_sys \<Rightarrow> ret \<times> sbuf option" where
  "DevmgrServiceStubDispatchListAllDevice E reply s =
     (case reply of None \<Rightarrow> (HDF_ERR_INVALID_PARAM, None) | Some rep \<Rightarrow>
       (case mgr_ListAllDevice E (mg_state s) of (r, ys) \<Rightarrow> (r, Some (rep @ ys))))"

text \<open>The devices of all hosts that are still to be loaded, in the order of the two loops.\<close>

definition selected :: "'d mg_env \<Rightarrow> u16 \<Rightarrow> dev_info \<Rightarrow> bool" where
  "selected E status i \<longleftrightarrow>
     (qi_policy i = SERVICE_POLICY_CAPACITY E \<or> qi_policy i = SERVICE_POLICY_PUBLIC E) \<and> qi_status i = status"

fun query_write :: "'d mg_env \<Rightarrow> u16 \<Rightarrow> dev_info list \<Rightarrow> sbuf \<Rightarrow> ret \<times> sbuf" where
  "query_write E status [] reply = (HDF_SUCCESS, reply)"
| "query_write E status (i # is) reply =
     (if selected E status i
      then
        (case put_opt E ItStr (qi_svcName i) (Some reply) of None \<Rightarrow> (HDF_FAILURE, reply) | Some r1 \<Rightarrow>
          (case put E (ItI32 (qi_deviceType i)) (Some r1) of None \<Rightarrow> (HDF_FAILURE, r1) | Some r2 \<Rightarrow>
             query_write E status is r2))
      else query_write E status is reply)"

definition DevFillQueryDeviceInfo ::
  "'d mg_env \<Rightarrow> sbuf \<Rightarrow> sbuf option \<Rightarrow> 'd mg_sys \<Rightarrow> ret \<times> sbuf option" where
  "DevFillQueryDeviceInfo E data reply s =
     (case reply of None \<Rightarrow> (HDF_FAILURE, None) | Some rep \<Rightarrow>
       let status = (case fst (HdfSbufReadUint16 E data) of None \<Rightarrow> 0 | Some v \<Rightarrow> v) in
       if status \<noteq> HDF_SERVICE_UNUSABLE E \<and> status \<noteq> HDF_SERVICE_USABLE E then (HDF_FAILURE, reply)
       else (case query_write E status (concat (mgr_unload_infos E (mg_state s))) rep of (r, ys) \<Rightarrow> (r, Some ys)))"

text \<open>A status other than success is appended to the reply; writing it is not tested.\<close>

definition put_status :: "('m) ipc_env_scheme \<Rightarrow> ret \<Rightarrow> sbuf option \<Rightarrow> sbuf option" where
  "put_status E r reply =
     (if r = HDF_SUCCESS then reply
      else (case put E (ItRet r) reply of None \<Rightarrow> reply | Some ys \<Rightarrow> Some ys))"

definition DevmgrServiceStubDispatch ::
  "'d mg_env \<Rightarrow> bool \<Rightarrow> nat \<Rightarrow> sbuf \<Rightarrow> sbuf option \<Rightarrow> 'd mg_sys \<Rightarrow> ret \<times> sbuf option \<times> 'd mg_sys" where
  "DevmgrServiceStubDispatch E stub_ok code data reply s =
     (if \<not> stub_ok then (HDF_ERR_INVALID_PARAM, reply, s)
      else
        (case HdfRemoteServiceCheckInterfaceToken (mg_remote s) s data of (ok, b) \<Rightarrow>
          if \<not> ok then (HDF_ERR_INVALID_PARAM, reply, s)
          else if code = DEVMGR_SERVICE_ATTACH_DEVICE_HOST \<and> fst (HdfSbufReadUint32 E b) = None
          then (HDF_FAILURE, reply, s)
          else
            (case (if code = DEVMGR_SERVICE_ATTACH_DEVICE_HOST then
                     (case HdfSbufReadUint32 E b of (hostId, b1) \<Rightarrow>
                       (case DevHostServiceProxyObtain E (the hostId) (fst (HdfSbufReadRemoteService E b1)) s of
                          (hostIf, s1) \<Rightarrow>
                            (case mgr_AttachDeviceHost E (the hostId) hostIf (mg_state s1) of (r, d) \<Rightarrow>
                               (r, reply, s1\<lparr>mg_state := d\<rparr>))))
                   else if code = DEVMGR_SERVICE_ATTACH_DEVICE then
                     (case DevmgrServiceStubDispatchAttachDevice E b s of (r, s1) \<Rightarrow> (r, reply, s1))
                   else if code = DEVMGR_SERVICE_DETACH_DEVICE then
                     (case DevmgrServiceStubDispatchDetachDevice E b s of (r, s1) \<Rightarrow> (r, reply, s1))
                   else if code = DEVMGR_SERVICE_LOAD_DEVICE then
                     (case DevmgrServiceStubDispatchLoadDevice E b s of (r, s1) \<Rightarrow> (r, reply, s1))
                   else if code = DEVMGR_SERVICE_UNLOAD_DEVICE then
                     (case DevmgrServiceStubDispatchUnloadDevice E b s of (r, s1) \<Rightarrow> (r, reply, s1))
                   else if code = DEVMGR_SERVICE_QUERY_DEVICE then
                     (case DevFillQueryDeviceInfo E b reply s of (r, rep) \<Rightarrow> (r, rep, s))
                   else if code = DEVMGR_SERVICE_LIST_ALL_DEVICE then
                     (case DevmgrServiceStubDispatchListAllDevice E reply s of (r, rep) \<Rightarrow> (r, rep, s))
                   else (HDF_FAILURE, reply, s)) of
               (r, rep, s2) \<Rightarrow> (r, put_status E r rep, s2))))"

end
