(* ===== verification/Devmgr_Ipc_Facts.thy ===== *)
theory Devmgr_Ipc_Facts
  imports Devmgr_Ipc
begin

text \<open>
  A call of the device manager through its proxy is the call of the manager: what the proxy writes
  is what the stub reads. Whatever fails, a call makes at most one request, and all buffers are
  given back.
\<close>

datatype devmgr_req =
    ReqAttachHost u16 nat | ReqAttach u32 | ReqDetach u32 | ReqLoad string | ReqUnload string

fun req_code :: "devmgr_req \<Rightarrow> nat" where
  "req_code (ReqAttachHost h r) = DEVMGR_SERVICE_ATTACH_DEVICE_HOST"
| "req_code (ReqAttach d) = DEVMGR_SERVICE_ATTACH_DEVICE"
| "req_code (ReqDetach d) = DEVMGR_SERVICE_DETACH_DEVICE"
| "req_code (ReqLoad n) = DEVMGR_SERVICE_LOAD_DEVICE"
| "req_code (ReqUnload n) = DEVMGR_SERVICE_UNLOAD_DEVICE"

fun req_items :: "devmgr_req \<Rightarrow> sbuf" where
  "req_items (ReqAttachHost h r) = [ItI32 (ucast h), ItRemote r]"
| "req_items (ReqAttach d) = [ItI32 d]"
| "req_items (ReqDetach d) = [ItI32 d]"
| "req_items (ReqLoad n) = [ItStr n]"
| "req_items (ReqUnload n) = [ItStr n]"

fun req_reply :: "devmgr_req \<Rightarrow> bool" where
  "req_reply (ReqLoad n) = False"
| "req_reply (ReqUnload n) = False"
| "req_reply q = True"

fun devmgr_proxy ::
  "'w proxy_env \<Rightarrow> DevmgrServiceProxy option \<Rightarrow> devmgr_req \<Rightarrow> 'w proxy_sys \<Rightarrow> ret \<times> 'w proxy_sys" where
  "devmgr_proxy E p (ReqAttachHost h r) s = DevmgrServiceProxyAttachDeviceHost E p h (Some (Some r)) s"
| "devmgr_proxy E p (ReqAttach d) s = DevmgrServiceProxyAttachDevice E p (Some d) s"
| "devmgr_proxy E p (ReqDetach d) s = DevmgrServiceProxyDetachDevice E p d s"
| "devmgr_proxy E p (ReqLoad n) s = DevmgrServiceProxyLoadDevice E p (Some n) s"
| "devmgr_proxy E p (ReqUnload n) s = DevmgrServiceProxyUnLoadDevice E p (Some n) s"

subsection \<open>The calls of the proxy\<close>

text \<open>The request as the proxy builds it.\<close>

definition req_buf :: "'w proxy_env \<Rightarrow> nat \<Rightarrow> devmgr_req \<Rightarrow> 'w proxy_sys \<Rightarrow> sbuf option" where
  "req_buf E rm q s =
     fold (put E) (req_items q) (HdfRemoteServiceWriteInterfaceToken E rm s (Some []))"

lemma req_buf_upd: "req_buf E rm q (s\<lparr>ev := x, ip_bufs := y\<rparr>) = req_buf E rm q s"
  by (simp add: req_buf_def HdfRemoteServiceWriteInterfaceToken_def)

lemma fold_put_SomeD: "fold (put E) xs ob = Some ys \<Longrightarrow> \<exists>zs. ob = Some zs \<and> ys = zs @ xs"
proof (induction xs arbitrary: ob)
  case (Cons x xs)
  then obtain zs where "put E x ob = Some zs" "ys = zs @ xs"
    by auto
  then show ?case
    by (auto dest: put_SomeD)
qed simp

lemma fold_put_fine: "all_fine E \<Longrightarrow> fold (put E) xs (Some ys) = Some (ys @ xs)"
  by (induction xs arbitrary: ys) simp_all

lemma req_buf_SomeD:
  "req_buf E rm q s = Some ys \<Longrightarrow> \<exists>d. ip_desc s rm = Some d \<and> ys = ItToken d # req_items q"
  by (auto simp: req_buf_def dest!: fold_put_SomeD token_SomeD)

lemma req_buf_fine:
  "all_fine E \<Longrightarrow> ip_desc s rm = Some d \<Longrightarrow> req_buf E rm q s = Some (ItToken d # req_items q)"
  by (simp add: req_buf_def HdfRemoteServiceWriteInterfaceToken_def put_opt_def fold_put_fine)

lemma proxy_eq:
  assumes "dp_remote p = Some rm" and "req_reply q"
  shows "devmgr_proxy E (Some p) q s =
    (case with_bufs E True (\<lambda>t. send_if E rm (req_code q) (req_buf E rm q t) True t) s of (r, _, s1) \<Rightarrow> (r, s1))"
proof (cases q)
  case (ReqAttachHost h r)
  have "(if b = None then (HDF_FAILURE, [], t) else send_if E rm c (put E x b) True t) = send_if E rm c (put E x b) True t"
    for b c x and t :: "'a proxy_sys"
    by (simp add: send_if_def)
  then show ?thesis
    using assms ReqAttachHost
    by (simp add: DevmgrServiceProxyAttachDeviceHost_def req_buf_def put_opt_def Let_def cong: if_cong)
qed (use assms in \<open>simp_all add: DevmgrServiceProxyAttachDevice_def DevmgrServiceProxyDetachDevice_def
    proxy_remote_def req_buf_def\<close>)

lemma load_eq:
  assumes "dp_remote p = Some rm" and "\<not> req_reply q"
  shows "devmgr_proxy E (Some p) q s =
    (case HdfSbufTypedObtain E s of (data, s1) \<Rightarrow>
      (case send_if E rm (req_code q) (if data then req_buf E rm q s1 else None) False s1 of
         (r, _, s2) \<Rightarrow> (r, HdfSbufRecycle data s2)))"
proof -
  have n: "HdfRemoteServiceWriteInterfaceToken E rm t None = None" for t :: "'a proxy_sys"
    by (simp add: HdfRemoteServiceWriteInterfaceToken_def put_opt_def split: option.split)
  show ?thesis
    using assms
    by (cases q) (auto simp: DevmgrServiceProxyLoadDevice_def DevmgrServiceProxyUnLoadDevice_def load_call_def
        proxy_remote_def req_buf_def put_opt_def n split: prod.split)
qed

lemma no_remote:
  assumes "dp_remote p = None" and "devmgr_proxy E (Some p) q s = (r, s')"
  shows "idle s s' \<and> r \<noteq> HDF_SUCCESS"
proof -
  have "idle s t \<and> x = HDF_FAILURE" if "with_bufs E False f s = (x, rep, t)" for f x rep t
    using that by (cases rule: with_bufs_cases) auto
  moreover have "idle s s"
    by (auto simp: idle_def intro!: exI [of _ "[]"])
  ultimately show ?thesis
    using assms
    by (cases q) (fastforce simp: DevmgrServiceProxyAttachDeviceHost_def DevmgrServiceProxyAttachDevice_def
        DevmgrServiceProxyDetachDevice_def DevmgrServiceProxyLoadDevice_def DevmgrServiceProxyUnLoadDevice_def
        load_call_def proxy_remote_def split: prod.splits)+
qed

lemma load_cases:
  assumes "dp_remote p = Some rm" and q: "\<not> req_reply q" and call: "devmgr_proxy E (Some p) q s = (r, s')"
  shows "idle s s' \<and> r = HDF_FAILURE \<and> \<not> (all_fine E \<and> ip_desc s rm \<noteq> None) \<or>
    (\<exists>d. ip_desc s rm = Some d \<and> asked E rm (req_code q) (ItToken d # req_items q) False s r s')"
proof -
  let ?x = "ipc_api E (ev s) SbufObtain"
  let ?t = "s\<lparr>ev := ev s @ [(SbufObtain, ?x)], ip_bufs := Suc (ip_bufs s)\<rparr>"
  have o: "HdfSbufTypedObtain E s =
      (if ?x = 0 then (False, s\<lparr>ev := ev s @ [(SbufObtain, ?x)]\<rparr>) else (True, ?t))"
    by (simp add: HdfSbufTypedObtain_def ipc_call_def ext_call_eq emit_def)
  show ?thesis
  proof (cases "?x = 0 \<or> req_buf E rm q ?t = None")
    case True
    then have "r = HDF_FAILURE" "s' = s\<lparr>ev := ev s @ [(SbufObtain, ?x)]\<rparr>"
      using call load_eq [OF assms(1) q, of E s]
      by (auto simp: o send_if_def HdfSbufRecycle_def split: if_splits)
    moreover from this have "idle s s'"
      unfolding idle_def by (intro exI [of _ "[(SbufObtain, ?x)]"]) simp
    moreover have "\<not> (all_fine E \<and> ip_desc s rm \<noteq> None)"
    proof
      assume a: "all_fine E \<and> ip_desc s rm \<noteq> None"
      then obtain d where "req_buf E rm q ?t = Some (ItToken d # req_items q)"
        using req_buf_fine [of E ?t rm _ q] by auto
      then show False
        using True a by (simp add: all_fine_def)
    qed
    ultimately show ?thesis
      by simp
  next
    case False
    then obtain ys where ys: "req_buf E rm q ?t = Some ys"
      by blast
    obtain r1 p1 w where p: "peer E rm (req_code q) ys (pw s) = (r1, p1, w)"
      by (metis prod_cases3)
    have "r = r1" "s' = s\<lparr>ev := ev s @ [(SbufObtain, ?x)] @ [(IpcSend rm (req_code q) ys False, 0)], pw := w\<rparr>"
      using call load_eq [OF assms(1) q, of E s] False ys p
      by (auto simp: o send_if_def ipc_send_def emit_def HdfSbufRecycle_def)
    then show ?thesis
      using req_buf_SomeD [OF ys] p by (auto simp: asked_def intro!: exI [of _ "[(SbufObtain, ?x)]"])
  qed
qed

text \<open>Whatever fails, a call does nothing and reports an error, or makes its request once.\<close>

lemma devmgr_proxy_cases:
  assumes call: "devmgr_proxy E (Some p) q s = (r, s')"
  shows "idle s s' \<and> r \<noteq> HDF_SUCCESS \<or>
    (\<exists>rm d. dp_remote p = Some rm \<and> ip_desc s rm = Some d
       \<and> asked E rm (req_code q) (ItToken d # req_items q) (req_reply q) s r s')"
proof (cases "dp_remote p")
  case None
  then show ?thesis
    using no_remote [OF None call] by simp
next
  case (Some rm)
  show ?thesis
  proof (cases "req_reply q")
    case False
    then show ?thesis
      using load_cases [OF Some False call] Some by auto
  next
    case True
    then obtain rep where w: "with_bufs E True (\<lambda>t. send_if E rm (req_code q) (req_buf E rm q t) True t) s = (r, rep, s')"
      using call proxy_eq [OF Some True, of E s] by (auto split: prod.splits)
    from with_bufs_send [OF w req_buf_upd] show ?thesis
      using Some True by (auto dest: req_buf_SomeD)
  qed
qed

lemma devmgr_proxy_fine:
  assumes E: "all_fine E" and p: "dp_remote p = Some rm" "ip_desc s rm = Some d"
    and call: "devmgr_proxy E (Some p) q s = (r, s')"
  shows "asked E rm (req_code q) (ItToken d # req_items q) (req_reply q) s r s'"
proof (cases "req_reply q")
  case False
  then show ?thesis
    using load_cases [OF p(1) False call] E p(2) by auto
next
  case True
  then obtain rep where w: "with_bufs E True (\<lambda>t. send_if E rm (req_code q) (req_buf E rm q t) True t) s = (r, rep, s')"
    using call proxy_eq [OF p(1) True, of E s] by (auto split: prod.splits)
  from with_bufs_fine [OF E w req_buf_upd req_buf_fine [OF E p(2)]] show ?thesis
    using True by simp
qed

subsection \<open>The stub on a request\<close>

text \<open>The direct call, with the object that stands for the caller.\<close>

fun devmgr_serve :: "'d mg_env \<Rightarrow> devmgr_req \<Rightarrow> 'd mg_sys \<Rightarrow> ret \<times> 'd mg_sys" where
  "devmgr_serve Em (ReqAttachHost h rm) w =
     (case DevHostServiceProxyObtain Em (ucast h) (Some rm) w of (hostIf, w1) \<Rightarrow>
       (case mgr_AttachDeviceHost Em (ucast h) hostIf (mg_state w1) of (r, d) \<Rightarrow> (r, w1\<lparr>mg_state := d\<rparr>)))"
| "devmgr_serve Em (ReqAttach devid) w =
     (case OsalMemCalloc Em (Objs ''HdfDevTokenProxy'' 1) w of
        (None, w1) \<Rightarrow> (HDF_FAILURE, w1)
      | (Some p, w1) \<Rightarrow>
          (case mgr_AttachDevice Em p devid (mg_state w1) of (r, d) \<Rightarrow>
             (r, w1\<lparr>mg_state := d, mg_tokens := (mg_tokens w1)(p \<mapsto> \<lparr>tk_devid = devid, tk_remote = None\<rparr>)\<rparr>)))"
| "devmgr_serve Em (ReqDetach devid) w =
     (case mgr_DetachDevice Em devid (mg_state w) of (r, d) \<Rightarrow> (r, w\<lparr>mg_state := d\<rparr>))"
| "devmgr_serve Em (ReqLoad n) w = (case mgr_LoadDevice Em n (mg_state w) of (r, d) \<Rightarrow> (r, w\<lparr>mg_state := d\<rparr>))"
| "devmgr_serve Em (ReqUnload n) w = (case mgr_UnloadDevice Em n (mg_state w) of (r, d) \<Rightarrow> (r, w\<lparr>mg_state := d\<rparr>))"

lemma token_obtain_eq:
  "DevmgrServiceStubDispatchAttachDevice Em (ItI32 devid # b) w = devmgr_serve Em (ReqAttach devid) w"
  by (simp add: DevmgrServiceStubDispatchAttachDevice_def HdfDevTokenProxyObtain_def HdfSbufReadUint32_def Let_def
      option.case_distrib prod.case_distrib split: option.split prod.split)

lemma dispatch_req:
  "DevmgrServiceStubDispatch Em ok (req_code q) (ItToken d # req_items q) reply w =
     (if \<not> ok \<or> (case mg_remote w of None \<Rightarrow> True | Some rm \<Rightarrow> ip_desc w rm \<noteq> Some d) then (HDF_ERR_INVALID_PARAM, reply, w)
      else (case devmgr_serve Em q w of (r, w') \<Rightarrow> (r, put_status Em r reply, w')))"
  by (cases q)
    (simp_all add: DevmgrServiceStubDispatch_def HdfRemoteServiceCheckInterfaceToken_def HdfSbufReadUint32_def
      HdfSbufReadString_def HdfSbufReadRemoteService_def devmgr_codes token_obtain_eq
      DevmgrServiceStubDispatchDetachDevice_def DevmgrServiceStubDispatchLoadDevice_def
      DevmgrServiceStubDispatchUnloadDevice_def split: option.split prod.split)

subsection \<open>Requests are well typed\<close>

text \<open>The values the stub reads for each code.\<close>

fun devmgr_typed :: "nat \<Rightarrow> sbuf \<Rightarrow> bool" where
  "devmgr_typed code [ItToken d, ItI32 h, ItRemote r] = (code = DEVMGR_SERVICE_ATTACH_DEVICE_HOST \<and> h < 0x10000)"
| "devmgr_typed code [ItToken d, ItI32 x] = (code \<in> {DEVMGR_SERVICE_ATTACH_DEVICE, DEVMGR_SERVICE_DETACH_DEVICE})"
| "devmgr_typed code [ItToken d, ItStr n] = (code \<in> {DEVMGR_SERVICE_LOAD_DEVICE, DEVMGR_SERVICE_UNLOAD_DEVICE})"
| "devmgr_typed code ys = False"

lemma ucast_u16_lt: "(ucast (h :: u16) :: u32) < 0x10000"
  using unsigned_less [of h, where ?'a = nat] by (simp add: word_less_nat_alt unat_ucast16)

lemma ucast_ucast_u16: "(x :: u32) < 0x10000 \<Longrightarrow> ucast (ucast x :: u16) = x"
  by (simp add: word_unat_eq_iff unat_ucast16 unsigned_ucast_eq word_less_nat_alt unsigned_take_bit_eq
      take_bit_nat_eq_self)

lemma req_typed: "devmgr_typed (req_code q) (ItToken d # req_items q)"
  by (cases q) (simp_all add: ucast_u16_lt)

lemma typed_req: "devmgr_typed c ys \<Longrightarrow> \<exists>q d. c = req_code q \<and> ys = ItToken d # req_items q"
proof (induction c ys rule: devmgr_typed.induct)
  case (1 c d h r)
  then show ?case
    by (intro exI [of _ "ReqAttachHost (ucast h) r"] exI [of _ d]) (simp add: ucast_ucast_u16)
next
  case (2 c d x)
  then show ?case
    by (auto intro: exI [of _ "ReqAttach x"] exI [of _ "ReqDetach x"])
next
  case (3 c d n)
  then show ?case
    by (auto intro: exI [of _ "ReqLoad n"] exI [of _ "ReqUnload n"])
qed simp_all

text \<open>On typed data the stub does not depend on how other bytes would read.\<close>

lemma no_raw:
  assumes "Er = Em\<lparr>raw_u32 := f, raw_str := g, raw_remote := h\<rparr>"
  shows "OsalMemCalloc Er sz w = OsalMemCalloc Em sz w" and "ipc_do Er e w = ipc_do Em e w"
    and "put_status Er r reply = put_status Em r reply"
proof -
  have "LOS_MemAlloc Er sz w = LOS_MemAlloc Em sz w"
    by (simp add: LOS_MemAlloc_def assms Let_def cong: if_cong)
  then show "OsalMemCalloc Er sz w = OsalMemCalloc Em sz w"
    by (simp add: OsalMemCalloc_def OsalMemAlloc_def)
  show "ipc_do Er e w = ipc_do Em e w"
    by (simp add: ipc_do_def ipc_call_def assms)
  have "put Er (ItRet r) reply = put Em (ItRet r) reply"
    by (simp add: put_def assms)
  then show "put_status Er r reply = put_status Em r reply"
    by (simp add: put_status_def)
qed

lemma typed_no_raw:
  assumes "devmgr_typed c ys"
  shows "DevmgrServiceStubDispatch (Em\<lparr>raw_u32 := f, raw_str := g, raw_remote := h\<rparr>) ok c ys reply w =
    DevmgrServiceStubDispatch Em ok c ys reply w"
proof -
  obtain q d where q: "c = req_code q" "ys = ItToken d # req_items q"
    using typed_req [OF assms] by blast
  have "devmgr_serve (Em\<lparr>raw_u32 := f, raw_str := g, raw_remote := h\<rparr>) q w = devmgr_serve Em q w"
    by (cases q) (simp_all add: DevHostServiceProxyObtain_def DevHostServiceProxyConstruct_def no_raw [OF refl]
        split: option.split prod.split)
  then show ?thesis
    by (simp add: q dispatch_req no_raw [OF refl])
qed

text \<open>
  C14. Every request a device-manager proxy sends is what its stub expects: at every read the
  stub finds the interface token, a string or a remote object where it reads one, and where it
  reads an unsigned 32-bit number (HdfSbufReadUint32) a 32-bit number, which the proxy writes as
  a signed one (HdfSbufWriteInt32); the identifier of a host, written from 16 bits, fits. So
  what a read gives on a malformed buffer never matters.
\<close>

theorem devmgr_well_typed:
  assumes call: "devmgr_proxy E (Some p) q s = (r, s')"
    and sent: "(IpcSend rm c ys y, n) \<in> set (drop (length (ev s)) (ev s'))"
  shows "devmgr_typed c ys
    \<and> DevmgrServiceStubDispatch (Em\<lparr>raw_u32 := f, raw_str := g, raw_remote := h\<rparr>) ok c ys reply w =
        DevmgrServiceStubDispatch Em ok c ys reply w"
proof -
  have no: "(IpcSend rm c ys y, n) \<notin> set es" if "no_send es" for es
    using that by (auto simp: no_send_def)
  have "devmgr_typed c ys"
    using devmgr_proxy_cases [OF call] sent no by (auto simp: idle_def asked_def req_typed)
  then show ?thesis
    using typed_no_raw by blast
qed

subsection \<open>A call through the proxy is a call of the manager\<close>

definition devmgr_ready :: "'d mg_sys \<Rightarrow> bool" where
  "devmgr_ready w \<longleftrightarrow> (case mg_remote w of None \<Rightarrow> False | Some rm \<Rightarrow> ip_desc w rm = Some DEVMGR_DESC)"

definition devmgr_stub :: "'d mg_env \<Rightarrow> nat \<Rightarrow> sbuf \<Rightarrow> 'd mg_sys \<Rightarrow> ret \<times> sbuf \<times> 'd mg_sys" where
  "devmgr_stub Em code data w =
     (case DevmgrServiceStubDispatch Em True code data (Some []) w of (r, rep, w') \<Rightarrow> (r, the rep, w'))"

lemma devmgr_served:
  assumes "devmgr_ready w" and "devmgr_stub Em (req_code q) (ItToken DEVMGR_DESC # req_items q) w = (st, rep, w')"
  shows "(st, w') = devmgr_serve Em q w"
  using assms by (auto simp: devmgr_ready_def devmgr_stub_def dispatch_req split: option.splits prod.splits)

text \<open>A call keeps the remote object of the manager and its descriptor.\<close>

lemma serve_keeps_ready: "devmgr_serve Em q w = (st, w') \<Longrightarrow> mg_remote w' = mg_remote w \<and> ip_desc w' = ip_desc w"
  by (cases q)
    (auto simp: DevHostServiceProxyObtain_def DevHostServiceProxyConstruct_def ipc_do_def ipc_call_def ext_call_eq
      emit_def alloc_eqs simp del: One_nat_def split: if_splits prod.splits)

interpretation devmgr: remote_interface "[ItToken DEVMGR_DESC]" req_code req_items "devmgr_serve Em" "\<lambda>w. w"
  "devmgr_stub Em" devmgr_ready for Em :: "'d mg_env"
proof unfold_locales
  fix w w' :: "'d mg_sys" and q st rep
  assume a: "devmgr_ready w" "devmgr_stub Em (req_code q) ([ItToken DEVMGR_DESC] @ req_items q) w = (st, rep, w')"
  then show s: "(st, w') = devmgr_serve Em q w"
    by (intro devmgr_served) simp_all
  show "devmgr_ready w'"
    using a(1) serve_keeps_ready [OF s [symmetric]] by (auto simp: devmgr_ready_def split: option.splits)
qed

text \<open>
  C9. Calling the device manager through its proxy in a driver host (attach host, attach,
  detach, load, unload) has the status and the effect of calling the manager directly in its own
  process, when the IPC layer delivers and the stub carries its descriptor; the caller keeps its
  heap and all buffers are recycled.
\<close>

theorem devmgr_remote_call:
  assumes "all_fine E" and "ip_desc s rm = Some DEVMGR_DESC" and "peer E rm = devmgr_stub Em"
    and "devmgr_ready (pw s)" and "devmgr_proxy E (Some \<lparr>dp_remote = Some rm\<rparr>) q s = (r, s')"
  shows "(r, pw s') = devmgr_serve Em q (pw s)
    \<and> h_blk s' = h_blk s \<and> h_bad s' = h_bad s \<and> ip_bufs s' = ip_bufs s"
proof -
  have a: "asked E rm (req_code q) (ItToken DEVMGR_DESC # req_items q) (req_reply q) s r s'"
    by (rule devmgr_proxy_fine [OF assms(1) _ assms(2,5)]) simp
  then obtain rep where "devmgr_stub Em (req_code q) ([ItToken DEVMGR_DESC] @ req_items q) (pw s) = (r, rep, pw s')"
    using assms(3) by (auto simp: asked_def)
  from devmgr.request [OF assms(4) this] show ?thesis
    using asked_frame(1) [OF a] by auto
qed

theorem devmgr_one_request:
  assumes "devmgr_proxy E (Some p) q s = (r, s')"
  shows "h_blk s' = h_blk s \<and> h_bad s' = h_bad s \<and> ip_bufs s' = ip_bufs s
    \<and> (idle s s' \<and> r \<noteq> HDF_SUCCESS \<or>
        (\<exists>rm d. dp_remote p = Some rm \<and> ip_desc s rm = Some d
           \<and> asked E rm (req_code q) (ItToken d # req_items q) (req_reply q) s r s'))"
  using devmgr_proxy_cases [OF assms] asked_frame by blast

subsection \<open>The device query\<close>

definition query_items :: "dev_info \<Rightarrow> sbuf" where
  "query_items i = [ItStr (the (qi_svcName i)), ItI32 (qi_deviceType i)]"

lemma query_write_fine:
  assumes "\<forall>b x. put_ok E b x" and "\<forall>i \<in> set is. qi_svcName i \<noteq> None"
  shows "query_write E status is rep = (HDF_SUCCESS, rep @ concat (map query_items (filter (selected E status) is)))"
  using assms(2)
proof (induction "is" arbitrary: rep)
  case (Cons i "is")
  then show ?case
    using assms(1) by (auto simp: put_opt_def query_items_def)
qed simp

text \<open>A query is answered with the name and the type of exactly the devices that have the status.\<close>

lemma query_answer:
  assumes "\<forall>b x. put_ok E b x" and "\<forall>i \<in> set (concat (mgr_unload_infos E (mg_state w))). qi_svcName i \<noteq> None"
    and "status = HDF_SERVICE_USABLE E \<or> status = HDF_SERVICE_UNUSABLE E"
  shows "DevFillQueryDeviceInfo E (ItU16 status # b) (Some rep) w =
    (HDF_SUCCESS, Some (rep @ concat (map query_items
       (filter (selected E status) (concat (mgr_unload_infos E (mg_state w)))))))"
  using assms by (auto simp: DevFillQueryDeviceInfo_def HdfSbufReadUint16_def query_write_fine)

subsection \<open>Witnesses\<close>

text \<open>A manager that knows the attached devices, and a host that detaches one of two.\<close>

definition mg_demo_env :: "u32 list mg_env" where
  "mg_demo_env = \<lparr>mem_ok = (\<lambda>_ _. True), mem_junk = (\<lambda>_ _. 0), copy_ok = (\<lambda>d n. n \<le> d),
     ipc_api = (\<lambda>_ _. 1), ipc_new = (\<lambda>_. None), put_ok = (\<lambda>_ _. True), raw_u32 = (\<lambda>b. (None, b)),
     raw_u16 = (\<lambda>b. (None, b)), raw_str = (\<lambda>b. (None, b)), raw_remote = (\<lambda>b. (None, b)),
     mgr_AttachDeviceHost = (\<lambda>_ _ d. (HDF_SUCCESS, d)), mgr_AttachDevice = (\<lambda>_ i d. (HDF_SUCCESS, i # d)),
     mgr_DetachDevice = (\<lambda>i d. (HDF_SUCCESS, remove1 i d)), mgr_LoadDevice = (\<lambda>_ d. (HDF_SUCCESS, d)),
     mgr_UnloadDevice = (\<lambda>_ d. (HDF_SUCCESS, d)), mgr_ListAllDevice = (\<lambda>_. (HDF_SUCCESS, [])),
     mgr_unload_infos = (\<lambda>_. []), HDF_SERVICE_USABLE = 1, HDF_SERVICE_UNUSABLE = 0,
     SERVICE_POLICY_PUBLIC = 1, SERVICE_POLICY_CAPACITY = 2\<rparr>"

definition mg_demo_proxy :: "u32 list mg_sys proxy_env" where
  "mg_demo_proxy = \<lparr>mem_ok = (\<lambda>_ _. True), mem_junk = (\<lambda>_ _. 0), copy_ok = (\<lambda>d n. n \<le> d),
     ipc_api = (\<lambda>_ _. 1), ipc_new = (\<lambda>_. None), put_ok = (\<lambda>_ _. True), raw_u32 = (\<lambda>b. (None, b)),
     raw_u16 = (\<lambda>b. (None, b)), raw_str = (\<lambda>b. (None, b)), raw_remote = (\<lambda>b. (None, b)),
     peer = (\<lambda>_. devmgr_stub mg_demo_env)\<rparr>"

definition mg_demo_sys :: "u32 list mg_sys" where
  "mg_demo_sys = \<lparr>h_next = 0, h_blk = Map.empty, h_bad = False, ev = [], ip_bufs = 0,
     ip_desc = (\<lambda>_. Some DEVMGR_DESC), mg_state = [5, 7], mg_tokens = Map.empty, mg_hosts = Map.empty,
     mg_remote = Some 0\<rparr>"

definition mg_demo :: "u32 list mg_sys proxy_sys" where
  "mg_demo = \<lparr>h_next = 0, h_blk = Map.empty, h_bad = False, ev = [], ip_bufs = 0,
     ip_desc = (\<lambda>_. Some DEVMGR_DESC), pw = mg_demo_sys\<rparr>"

lemma mg_demo_facts:
  "all_fine mg_demo_proxy" "ip_desc mg_demo 3 = Some DEVMGR_DESC" "peer mg_demo_proxy 3 = devmgr_stub mg_demo_env"
  "devmgr_ready (pw mg_demo)" "devmgr_serve mg_demo_env (ReqDetach 7) (pw mg_demo) = (HDF_SUCCESS, mg_demo_sys\<lparr>mg_state := [5]\<rparr>)"
  by (simp_all add: all_fine_def mg_demo_proxy_def mg_demo_def devmgr_ready_def mg_demo_sys_def mg_demo_env_def)

lemma devmgr_remote_call_witness:
  "\<exists>s'. devmgr_proxy mg_demo_proxy (Some \<lparr>dp_remote = Some 3\<rparr>) (ReqDetach 7) mg_demo = (HDF_SUCCESS, s')
     \<and> mg_state (pw s') = [5] \<and> ip_bufs s' = 0"
proof -
  obtain r s' where c: "devmgr_proxy mg_demo_proxy (Some \<lparr>dp_remote = Some 3\<rparr>) (ReqDetach 7) mg_demo = (r, s')"
    by (rule prod.exhaust)
  have "ip_bufs mg_demo = 0"
    by (simp add: mg_demo_def)
  with devmgr_remote_call [OF mg_demo_facts(1-4) c] c show ?thesis
    by (simp add: mg_demo_facts(5) del: devmgr_serve.simps devmgr_proxy.simps)
qed

lemma mg_demo_sends:
  "\<exists>s'. devmgr_proxy mg_demo_proxy (Some \<lparr>dp_remote = Some 3\<rparr>) (ReqLoad ''x'') mg_demo = (HDF_SUCCESS, s')
     \<and> (IpcSend 3 DEVMGR_SERVICE_LOAD_DEVICE [ItToken DEVMGR_DESC, ItStr ''x''] False, 0)
         \<in> set (drop (length (ev mg_demo)) (ev s'))"
proof -
  obtain r s' where c: "devmgr_proxy mg_demo_proxy (Some \<lparr>dp_remote = Some 3\<rparr>) (ReqLoad ''x'') mg_demo = (r, s')"
    by (rule prod.exhaust)
  have a: "asked mg_demo_proxy 3 DEVMGR_SERVICE_LOAD_DEVICE [ItToken DEVMGR_DESC, ItStr ''x''] False mg_demo r s'"
    using devmgr_proxy_fine [OF mg_demo_facts(1) _ mg_demo_facts(2) c] by simp
  then obtain rep where "devmgr_stub mg_demo_env (req_code (ReqLoad ''x'')) ([ItToken DEVMGR_DESC] @ req_items (ReqLoad ''x''))
      (pw mg_demo) = (r, rep, pw s')"
    by (auto simp: asked_def mg_demo_facts(3))
  then have "r = fst (devmgr_serve mg_demo_env (ReqLoad ''x'') (pw mg_demo))"
    by (rule devmgr.request(1) [OF mg_demo_facts(4)])
  then have "r = HDF_SUCCESS"
    by (simp add: mg_demo_env_def)
  moreover obtain es where "ev s' = ev mg_demo @ es @
      [(IpcSend 3 DEVMGR_SERVICE_LOAD_DEVICE [ItToken DEVMGR_DESC, ItStr ''x''] False, 0)]"
    using asked_ev [OF a] by blast
  ultimately show ?thesis
    using c by (intro exI [of _ s']) simp
qed

lemma devmgr_well_typed_witness:
  "devmgr_typed DEVMGR_SERVICE_LOAD_DEVICE [ItToken DEVMGR_DESC, ItStr ''x'']
   \<and> DevmgrServiceStubDispatch (mg_demo_env\<lparr>raw_u32 := (\<lambda>b. (Some 1, b)), raw_str := (\<lambda>b. (None, b)),
          raw_remote := (\<lambda>b. (Some 2, b))\<rparr>) True DEVMGR_SERVICE_LOAD_DEVICE
        [ItToken DEVMGR_DESC, ItStr ''x''] None mg_demo_sys =
      DevmgrServiceStubDispatch mg_demo_env True DEVMGR_SERVICE_LOAD_DEVICE
        [ItToken DEVMGR_DESC, ItStr ''x''] None mg_demo_sys"
proof -
  obtain s' where "devmgr_proxy mg_demo_proxy (Some \<lparr>dp_remote = Some 3\<rparr>) (ReqLoad ''x'') mg_demo = (HDF_SUCCESS, s')"
    "(IpcSend 3 DEVMGR_SERVICE_LOAD_DEVICE [ItToken DEVMGR_DESC, ItStr ''x''] False, 0)
       \<in> set (drop (length (ev mg_demo)) (ev s'))"
    using mg_demo_sends by blast
  from devmgr_well_typed [OF this] show ?thesis
    by blast
qed

lemma devmgr_one_request_witness:
  "\<exists>s'. devmgr_proxy mg_demo_proxy (Some \<lparr>dp_remote = Some 3\<rparr>) (ReqLoad ''x'') mg_demo = (HDF_SUCCESS, s')
     \<and> asked mg_demo_proxy 3 DEVMGR_SERVICE_LOAD_DEVICE [ItToken DEVMGR_DESC, ItStr ''x''] False mg_demo HDF_SUCCESS s'"
proof -
  obtain s' where c: "devmgr_proxy mg_demo_proxy (Some \<lparr>dp_remote = Some 3\<rparr>) (ReqLoad ''x'') mg_demo = (HDF_SUCCESS, s')"
    using mg_demo_sends by blast
  from devmgr_one_request [OF c] c show ?thesis
    by (auto simp: mg_demo_facts)
qed

end
