(* ===== verification/Devmgr_Start.thy ===== *)
theory Devmgr_Start
  imports Devmgr_Ipc
begin

text \<open>
  Starting and releasing the stub of the device manager, and the handler that installs and removes
  kernel modules on request of the kernel, both in \<open>uhdf2/manager/src/devmgr_service_stub.c\<close>.

  The service manager, the registration of event handlers and the manager's own start are framework
  code: calls \<open>Fw\<close> with a status. A device object that is published is its heap block. The state of
  the module handler is the trace of its system calls; \<open>realpath\<close> and the status of the calls are
  parameters.
\<close>

subsection \<open>Start and release\<close>

definition fw :: "('m) ipc_env_scheme \<Rightarrow> string \<Rightarrow> ('a) ipc_sys_scheme \<Rightarrow> ret \<times> ('a) ipc_sys_scheme" where
  "fw E name s = (case ipc_call E (Fw name) s of (r, s1) \<Rightarrow> (ret_of r, s1))"

definition DriverModuleLoadHelperInit :: "('m) ipc_env_scheme \<Rightarrow> ('a) ipc_sys_scheme \<Rightarrow> ret \<times> ('a) ipc_sys_scheme" where
  "DriverModuleLoadHelperInit E s = fw E ''HdfSysEventNotifyRegister'' s"

definition DevmgrServiceStubStartService ::
  "'d mg_env \<Rightarrow> bool \<Rightarrow> bool \<Rightarrow> 'd mg_sys \<Rightarrow> ret \<times> 'd mg_sys" where
  "DevmgrServiceStubStartService E inst_ok manager_ok s =
     (if \<not> inst_ok then (HDF_ERR_INVALID_PARAM, s)
      else if \<not> manager_ok then (HDF_ERR_INVALID_OBJECT, s)
      else
        (case HdfRemoteServiceObtain E s of
           (None, s1) \<Rightarrow> (HDF_ERR_MALLOC_FAIL, s1)
         | (Some rm, s1) \<Rightarrow>
             (case HdfRemoteServiceSetInterfaceDesc E rm DEVMGR_DESC s1 of (ok, s2) \<Rightarrow>
                if \<not> ok then (HDF_FAILURE, HdfRemoteServiceRecycle E (Some rm) s2)
                else
                  (case OsalMemCalloc E (Objs ''HdfDeviceObject'' 1) s2 of
                     (None, s3) \<Rightarrow> (HDF_ERR_MALLOC_FAIL, HdfRemoteServiceRecycle E (Some rm) s3)
                   | (Some p, s3) \<Rightarrow>
                       (case fw E ''DevSvcManagerAddService'' s3 of (status, s4) \<Rightarrow>
                          if status \<noteq> HDF_SUCCESS
                          then (status, OsalMemFree (Some p) (HdfRemoteServiceRecycle E (Some rm) s4))
                          else
                            (case DriverModuleLoadHelperInit E (s4\<lparr>mg_remote := Some rm\<rparr>) of (_, s5) \<Rightarrow>
                              (case fw E ''DevmgrServiceStartService'' s5 of (status, s6) \<Rightarrow>
                                 if status \<noteq> HDF_SUCCESS
                                 then (status, OsalMemFree (Some p) (HdfRemoteServiceRecycle E (Some rm) s6))
                                 else fw E ''DevSvcManagerStartService'' s6)))))))"

text \<open>The single instance is its block; \<open>instance\<close> holds it between calls.\<close>

definition DevmgrServiceStubConstruct :: "'d mg_env \<Rightarrow> 'd mg_sys \<Rightarrow> 'd mg_sys" where
  "DevmgrServiceStubConstruct E s = ipc_do E (Fw ''OsalMutexInit'') ((ipc_do E (Fw ''DevmgrServiceFullConstruct'') s)\<lparr>mg_remote := None\<rparr>)"

definition DevmgrServiceStubCreate :: "'d mg_env \<Rightarrow> nat option \<Rightarrow> 'd mg_sys \<Rightarrow> nat option \<times> 'd mg_sys" where
  "DevmgrServiceStubCreate E inst s =
     (if inst \<noteq> None then (inst, s)
      else
        (case OsalMemCalloc E (Objs ''DevmgrServiceStub'' 1) s of
           (None, s1) \<Rightarrow> (None, s1)
         | (Some p, s1) \<Rightarrow> (Some p, DevmgrServiceStubConstruct E s1)))"

definition DevmgrServiceStubRelease :: "'d mg_env \<Rightarrow> nat option \<Rightarrow> 'd mg_sys \<Rightarrow> 'd mg_sys" where
  "DevmgrServiceStubRelease E object s =
     (case object of None \<Rightarrow> s | Some p \<Rightarrow>
        OsalMemFree (Some p) (ipc_do E (Fw ''OsalMutexDestroy'')
          ((HdfRemoteServiceRecycle E (mg_remote s) s)\<lparr>mg_remote := None\<rparr>)))"

subsection \<open>Kernel modules\<close>

datatype mod_ev = ModOpen string | ModInit string int | ModClose int | ModDelete string

record mod_env =
  HDF_MODULE_DIR :: string
  PATH_MAX :: nat
  realpath :: "string \<Rightarrow> string option"
  mod_api :: "(mod_ev \<times> int) list \<Rightarrow> mod_ev \<Rightarrow> int"
  HDF_SYSEVENT_CLASS_MODULE :: u64
  KEVENT_MODULE_INSTALL :: u32
  KEVENT_MODULE_REMOVE :: u32

type_synonym mod_trace = "(mod_ev \<times> int) list"

definition mod_call :: "mod_env \<Rightarrow> mod_ev \<Rightarrow> mod_trace \<Rightarrow> int \<times> mod_trace" where
  "mod_call E c s = (mod_api E s c, s @ [(c, mod_api E s c)])"

definition RemoveModule :: "mod_env \<Rightarrow> string \<Rightarrow> mod_trace \<Rightarrow> mod_trace" where
  "RemoveModule E m s = snd (mod_call E (ModDelete m) s)"

text \<open>A module that is opened as \<open>fd\<close> is handed to the kernel and closed.\<close>

definition InstallModule :: "mod_env \<Rightarrow> string \<Rightarrow> mod_trace \<Rightarrow> ret \<times> mod_trace" where
  "InstallModule E m s =
     (case mod_call E (ModOpen m) s of (fd, s1) \<Rightarrow>
        if fd < 0 then (HDF_ERR_BAD_FD, s1)
        else
          (case mod_call E (ModInit m fd) s1 of (r, s2) \<Rightarrow> (ret_of r, snd (mod_call E (ModClose fd) s2))))"

text \<open>\<open>sprintf_s\<close> fails when the path and its terminator do not fit.\<close>

definition MakeModulePath :: "mod_env \<Rightarrow> string \<Rightarrow> ret + string" where
  "MakeModulePath E moduleName =
     (let temp = HDF_MODULE_DIR E @ ''/'' @ moduleName @ ''.ko'' in
      if length temp \<ge> PATH_MAX E then Inl HDF_FAILURE
      else
        (case realpath E temp of None \<Rightarrow> Inl HDF_ERR_INVALID_PARAM | Some path \<Rightarrow>
           if take (length (HDF_MODULE_DIR E)) path \<noteq> HDF_MODULE_DIR E then Inl HDF_ERR_INVALID_PARAM
           else Inr path))"

definition ModuleSysEventHandle ::
  "mod_env \<Rightarrow> bool \<Rightarrow> u64 \<Rightarrow> u32 \<Rightarrow> string option \<Rightarrow> mod_trace \<Rightarrow> ret \<times> mod_trace" where
  "ModuleSysEventHandle E self_ok eventClass event content s =
     (case content of None \<Rightarrow> (HDF_ERR_INVALID_PARAM, s) | Some name \<Rightarrow>
       if \<not> self_ok \<or> eventClass AND HDF_SYSEVENT_CLASS_MODULE E = 0 then (HDF_ERR_INVALID_PARAM, s)
       else
         (case MakeModulePath E name of
            Inl e \<Rightarrow> (e, s)
          | Inr modulePath \<Rightarrow>
              if event = KEVENT_MODULE_INSTALL E then InstallModule E modulePath s
              else if event = KEVENT_MODULE_REMOVE E then (HDF_SUCCESS, RemoveModule E modulePath s)
              else (HDF_ERR_NOT_SUPPORT, s)))"

subsection \<open>Facts\<close>

text \<open>
  Whatever the event and however the system calls end: every system call is about the file
  that the name of the event denotes, below the module directory, and every file that was opened is
  closed.
\<close>

definition mod_path :: "mod_ev \<Rightarrow> string option" where
  "mod_path c = (case c of ModOpen m \<Rightarrow> Some m | ModInit m _ \<Rightarrow> Some m | ModDelete m \<Rightarrow> Some m | ModClose _ \<Rightarrow> None)"

text \<open>
  The handler of module events touches only files that the name of the event denotes below
  the module directory (as the prefix test sees it), and closes every file it opened, however
  the system calls end.
\<close>

theorem module_events_confined:
  assumes "ModuleSysEventHandle E self_ok cls event content s = (r, s')"
  shows "\<exists>es. s' = s @ es
    \<and> (\<forall>(c, x) \<in> set es. \<forall>m. mod_path c = Some m \<longrightarrow>
         (\<exists>name. content = Some name \<and> realpath E (HDF_MODULE_DIR E @ ''/'' @ name @ ''.ko'') = Some m
            \<and> take (length (HDF_MODULE_DIR E)) m = HDF_MODULE_DIR E))
    \<and> (\<forall>m fd. (ModOpen m, fd) \<in> set es \<and> 0 \<le> fd \<longrightarrow> (\<exists>x. (ModClose fd, x) \<in> set es))"
  using assms
  by (auto simp: ModuleSysEventHandle_def MakeModulePath_def InstallModule_def RemoveModule_def mod_call_def
      mod_path_def Let_def split: option.splits if_splits)

text \<open>
  When the manager itself does not start, the stub keeps the remote object it has just recycled, and
  releasing the stub recycles it again.
\<close>

theorem devmgr_start_dangling:
  assumes n: "ipc_new E (ev s) = Some rm" and m: "\<And>k z. mem_ok E k z"
    and d: "\<And>tr. ipc_api E tr (SetDesc rm DEVMGR_DESC) \<noteq> 0"
    and a: "\<And>tr. ipc_api E tr (Fw ''DevSvcManagerAddService'') = 0"
    and b: "\<And>tr. ipc_api E tr (Fw ''DevmgrServiceStartService'') = x" "x \<noteq> 0"
    and call: "DevmgrServiceStubStartService E True True s = (r, s1)"
  shows "r = Num x \<and> mg_remote s1 = Some rm
    \<and> (\<exists>es1 es2. ev s1 = ev s @ es1 \<and> ev (DevmgrServiceStubRelease E (Some q) s1) = ev s1 @ es2
         \<and> (\<exists>i. (RemoteRecycle rm, i) \<in> set es1) \<and> (\<exists>i. (RemoteRecycle rm, i) \<in> set es2))"
proof -
  have e: "ev (OsalMemFree z t) = ev t \<and> mg_remote (OsalMemFree z t) = mg_remote t" for z and t :: "'a mg_sys"
    by (simp add: OsalMemFree_def LOS_MemFree_def split: option.split)
  have "mg_remote s1 = Some rm \<and> r = Num x \<and> (\<exists>es1. ev s1 = ev s @ es1 \<and> (\<exists>i. (RemoteRecycle rm, i) \<in> set es1))"
    using call n m d a b e
    by (auto simp: DevmgrServiceStubStartService_def HdfRemoteServiceObtain_def HdfRemoteServiceSetInterfaceDesc_def
        HdfRemoteServiceRecycle_def DriverModuleLoadHelperInit_def fw_def ipc_do_def ipc_call_def ext_call_eq emit_def
        alloc_eqs ret_of_def simp del: One_nat_def split: if_splits)
  moreover have "\<exists>es2. ev (DevmgrServiceStubRelease E (Some q) s1) = ev s1 @ es2 \<and> (\<exists>i. (RemoteRecycle rm, i) \<in> set es2)"
    if "mg_remote s1 = Some rm"
    using that e by (auto simp: DevmgrServiceStubRelease_def HdfRemoteServiceRecycle_def ipc_do_def ipc_call_def ext_call_eq emit_def)
  ultimately show ?thesis
    by blast
qed

subsection \<open>Witnesses\<close>

definition mod_demo :: mod_env where
  "mod_demo = \<lparr>HDF_MODULE_DIR = ''/m'', PATH_MAX = 100,
     realpath = (\<lambda>p. if p = ''/m/d.ko'' then Some ''/m/d.ko'' else if p = ''/m/../mx/d.ko'' then Some ''/mx/d.ko'' else None),
     mod_api = (\<lambda>_ c. case c of ModOpen _ \<Rightarrow> 4 | _ \<Rightarrow> 0), HDF_SYSEVENT_CLASS_MODULE = 1,
     KEVENT_MODULE_INSTALL = 0, KEVENT_MODULE_REMOVE = 1\<rparr>"

lemma mod_demo_installs:
  "ModuleSysEventHandle mod_demo True 1 0 (Some ''d'') [] =
     (HDF_SUCCESS, [(ModOpen ''/m/d.ko'', 4), (ModInit ''/m/d.ko'' 4, 0), (ModClose 4, 0)])"
  by (simp add: ModuleSysEventHandle_def MakeModulePath_def InstallModule_def mod_call_def mod_demo_def)

lemma module_events_confined_witness:
  "\<exists>x. (ModClose 4, x) \<in> set (snd (ModuleSysEventHandle mod_demo True 1 0 (Some ''d'') []))"
proof -
  obtain es where "snd (ModuleSysEventHandle mod_demo True 1 0 (Some ''d'') []) = [] @ es"
    "\<forall>m fd. (ModOpen m, fd) \<in> set es \<and> 0 \<le> fd \<longrightarrow> (\<exists>x. (ModClose fd, x) \<in> set es)"
    using module_events_confined [OF mod_demo_installs] by (auto simp: mod_demo_installs)
  moreover have "(ModOpen ''/m/d.ko'', 4) \<in> set (snd (ModuleSysEventHandle mod_demo True 1 0 (Some ''d'') []))"
    by (simp add: mod_demo_installs)
  ultimately show ?thesis
    by (metis append_Nil zero_le_numeral)
qed

text \<open>The test of the directory is one of a prefix: a name with \<open>..\<close> reaches a directory whose name starts alike.\<close>

lemma module_prefix_escape:
  "ModuleSysEventHandle mod_demo True 1 0 (Some ''../mx/d'') [] =
     (HDF_SUCCESS, [(ModOpen ''/mx/d.ko'', 4), (ModInit ''/mx/d.ko'' 4, 0), (ModClose 4, 0)])"
  by (simp add: ModuleSysEventHandle_def MakeModulePath_def InstallModule_def mod_call_def mod_demo_def)

definition start_demo_env :: "unit mg_env" where
  "start_demo_env = \<lparr>mem_ok = (\<lambda>_ _. True), mem_junk = (\<lambda>_ _. 0), copy_ok = (\<lambda>d n. n \<le> d),
     ipc_api = (\<lambda>_ c. if c = Fw ''DevSvcManagerAddService'' then 0 else 1), ipc_new = (\<lambda>_. Some 3),
     put_ok = (\<lambda>_ _. True), raw_u32 = (\<lambda>b. (None, b)),
     raw_u16 = (\<lambda>b. (None, b)), raw_str = (\<lambda>b. (None, b)), raw_remote = (\<lambda>b. (None, b)),
     mgr_AttachDeviceHost = (\<lambda>_ _ d. (HDF_SUCCESS, d)), mgr_AttachDevice = (\<lambda>_ i d. (HDF_SUCCESS, d)),
     mgr_DetachDevice = (\<lambda>i d. (HDF_SUCCESS, d)), mgr_LoadDevice = (\<lambda>_ d. (HDF_SUCCESS, d)),
     mgr_UnloadDevice = (\<lambda>_ d. (HDF_SUCCESS, d)), mgr_ListAllDevice = (\<lambda>_. (HDF_SUCCESS, [])),
     mgr_unload_infos = (\<lambda>_. []), HDF_SERVICE_USABLE = 1, HDF_SERVICE_UNUSABLE = 0,
     SERVICE_POLICY_PUBLIC = 1, SERVICE_POLICY_CAPACITY = 2\<rparr>"

definition start_demo :: "unit mg_sys" where
  "start_demo = \<lparr>h_next = 0, h_blk = Map.empty, h_bad = False, ev = [], ip_bufs = 0, ip_desc = Map.empty,
     mg_state = (), mg_tokens = Map.empty, mg_hosts = Map.empty, mg_remote = None\<rparr>"

lemma devmgr_start_dangling_witness:
  "\<exists>s1. DevmgrServiceStubStartService start_demo_env True True start_demo = (Num 1, s1) \<and> mg_remote s1 = Some 3"
proof -
  obtain r s1 where c: "DevmgrServiceStubStartService start_demo_env True True start_demo = (r, s1)"
    by (rule prod.exhaust)
  have e: "ipc_new start_demo_env (ev start_demo) = Some 3" "mem_ok start_demo_env k z"
    "ipc_api start_demo_env tr (SetDesc 3 DEVMGR_DESC) \<noteq> 0"
    "ipc_api start_demo_env tr (Fw ''DevSvcManagerAddService'') = 0"
    "ipc_api start_demo_env tr (Fw ''DevmgrServiceStartService'') = 1" for k z tr
    by (simp_all add: start_demo_env_def)
  from devmgr_start_dangling [OF e(1) e(2) e(3) e(4) e(5) _ c] c show ?thesis
    by auto
qed

end
