(* ===== verification/Devhost_Ipc.thy ===== *)
theory Devhost_Ipc
  imports Devmgr_Ipc Dev_Attribute Dev_Manager
begin

text \<open>
  The interface of a driver host between processes: the proxy in the device manager
  (\<open>uhdf2/manager/src/devhost_service_proxy.c\<close>, whose constructor is in \<open>Devmgr_Ipc\<close>) and the stub in
  the host (\<open>uhdf2/host/src/devhost_service_stub.c\<close>).

  Device information is written and read by \<open>Dev_Attribute\<close> on the buffers of \<open>Ipc\<close>. The blocks of a
  host are in \<open>hs_heap\<close>, the state of its service object in \<open>hs_state\<close>; the methods \<open>AddDevice\<close> and
  \<open>DelDevice\<close> of the object are fields of the environment (\<open>None\<close> for \<open>NULL\<close>). \<open>AddDevice\<close> gets what
  the device information holds, since the object itself is released after the call.
\<close>

definition DEVHOST_SERVICE_ADD_DEVICE :: nat where "DEVHOST_SERVICE_ADD_DEVICE = 1"
definition DEVHOST_SERVICE_DEL_DEVICE :: nat where "DEVHOST_SERVICE_DEL_DEVICE = 2"

lemmas devhost_codes = DEVHOST_SERVICE_ADD_DEVICE_def DEVHOST_SERVICE_DEL_DEVICE_def

text \<open>The buffer operations of \<open>Ipc\<close> in the form \<open>Dev_Attribute\<close> takes them.\<close>

fun sb_of :: "ipc_item \<Rightarrow> sb_item" where
  "sb_of (ItU32 x) = SbU32 x"
| "sb_of (ItU16 x) = SbU16 x"
| "sb_of (ItStr x) = SbStr (Some x)"
| "sb_of _ = SbOther"

definition put_to :: "('m) ipc_env_scheme \<Rightarrow> sbuf \<Rightarrow> ipc_item \<Rightarrow> bool \<times> sbuf" where
  "put_to E b x = (case put E x (Some b) of None \<Rightarrow> (False, b) | Some ys \<Rightarrow> (True, ys))"

definition attr_env :: "('m) ipc_env_scheme \<Rightarrow> sbuf sbuf_env" where
  "attr_env E =
     \<lparr>mem_ok = mem_ok E, mem_junk = mem_junk E, copy_ok = copy_ok E, sb_items = map sb_of,
      HdfSbufWriteUint32 = (\<lambda>b x. put_to E b (ItU32 x)), HdfSbufWriteUint16 = (\<lambda>b x. put_to E b (ItU16 x)),
      HdfSbufWriteString = (\<lambda>b x. case x of None \<Rightarrow> (False, b) | Some y \<Rightarrow> put_to E b (ItStr y)),
      HdfSbufReadUint32 = Ipc.HdfSbufReadUint32 E, HdfSbufReadUint16 = Ipc.HdfSbufReadUint16 E,
      HdfSbufReadString = Ipc.HdfSbufReadString E\<rparr>"

subsection \<open>The proxy\<close>

text \<open>Neither the result of the serialisation nor the parameter \<open>opsCode\<close> is used.\<close>

definition DevHostServiceProxyOpsDevice ::
  "'w proxy_env \<Rightarrow> DevHostServiceProxy \<Rightarrow> HdfDeviceInfo option \<Rightarrow> nat \<Rightarrow> 'w proxy_sys \<Rightarrow> ret \<times> 'w proxy_sys" where
  "DevHostServiceProxyOpsDevice E hostClnt attribute opsCode s =
     (case HdfSbufTypedObtain E s of (data, s1) \<Rightarrow>
        if hp_remote hostClnt = None \<or> \<not> data then (HDF_FAILURE, HdfSbufRecycle data s1)
        else
          (case DeviceAttributeSerialize (attr_env E) attribute (Some []) of (_, b) \<Rightarrow>
            (case ipc_send E (the (hp_remote hostClnt)) DEVHOST_SERVICE_ADD_DEVICE (the b) False s1 of
               (status, _, s2) \<Rightarrow> (status, HdfSbufRecycle data s2))))"

definition DevHostServiceProxyAddDevice ::
  "'w proxy_env \<Rightarrow> DevHostServiceProxy \<Rightarrow> HdfDeviceInfo option \<Rightarrow> 'w proxy_sys \<Rightarrow> ret \<times> 'w proxy_sys" where
  "DevHostServiceProxyAddDevice E inst attribute s =
     DevHostServiceProxyOpsDevice E inst attribute DEVHOST_SERVICE_ADD_DEVICE s"

definition DevHostServiceProxyDelDevice ::
  "'w proxy_env \<Rightarrow> DevHostServiceProxy \<Rightarrow> u32 \<Rightarrow> 'w proxy_sys \<Rightarrow> ret \<times> 'w proxy_sys" where
  "DevHostServiceProxyDelDevice E hostClnt devid s =
     (case HdfSbufTypedObtain E s of (data, s1) \<Rightarrow>
        if hp_remote hostClnt = None \<or> \<not> data then (HDF_FAILURE, HdfSbufRecycle data s1)
        else
          (case put_to E [] (ItU32 devid) of (_, b) \<Rightarrow>
            (case ipc_send E (the (hp_remote hostClnt)) DEVHOST_SERVICE_DEL_DEVICE b False s1 of
               (status, _, s2) \<Rightarrow> (status, HdfSbufRecycle data s2))))"

text \<open>The message that is sent to the manager when the process of a host has died.\<close>

definition DevHostServiceProxyOnRemoteDied ::
  "DevHostServiceProxy option \<Rightarrow> nat option \<Rightarrow> bool \<Rightarrow> bool \<Rightarrow> dm_msg option" where
  "DevHostServiceProxyOnRemoteDied recipient service task_ok message_ok =
     (case recipient of None \<Rightarrow> None | Some proxy \<Rightarrow>
        if service = None \<or> \<not> task_ok \<or> \<not> message_ok then None
        else Some (DEVMGR_MESSAGE_DEVHOST_DIED (hp_hostId proxy)))"

subsection \<open>The stub\<close>

record dev_content =
  dc_deviceId :: u32
  dc_policy :: u16
  dc_svcName :: "string option"
  dc_moduleName :: "string option"
  dc_deviceMatchAttr :: "string option"
  dc_status :: u16
  dc_deviceType :: u32

definition content_of :: "HdfDeviceInfo \<Rightarrow> dev_content" where
  "content_of a =
     \<lparr>dc_deviceId = di_deviceId a, dc_policy = di_policy a, dc_svcName = str_of (di_svcName a),
      dc_moduleName = str_of (di_moduleName a), dc_deviceMatchAttr = str_of (di_deviceMatchAttr a),
      dc_status = di_status a, dc_deviceType = di_deviceType a\<rparr>"

record 'd host_sys = ipc_sys +
  hs_state :: 'd
  hs_heap :: attr_sys
  hs_remote :: "nat option"

record 'd host_env = ipc_env +
  svc_AddDevice :: "(dev_content \<Rightarrow> 'd \<Rightarrow> ret \<times> 'd) option"
  svc_DelDevice :: "(u32 \<Rightarrow> 'd \<Rightarrow> ret \<times> 'd) option"

definition DispatchAddDevice :: "'d host_env \<Rightarrow> sbuf \<Rightarrow> 'd host_sys \<Rightarrow> ret \<times> 'd host_sys" where
  "DispatchAddDevice E data s =
     (case svc_AddDevice E of None \<Rightarrow> (HDF_FAILURE, s) | Some AddDevice \<Rightarrow>
       (case DeviceAttributeDeserialize (attr_env E) (Some data) (hs_heap s) of (attribute, _, h) \<Rightarrow>
         (case attribute of None \<Rightarrow> (HDF_FAILURE, s\<lparr>hs_heap := h\<rparr>) | Some p \<Rightarrow>
           (case AddDevice (content_of (the (attrs h p))) (hs_state s) of (r, d) \<Rightarrow>
              (r, s\<lparr>hs_state := d, hs_heap := DeviceSerializedAttributeRelease attribute h\<rparr>)))))"

definition DispatchDelDevice :: "'d host_env \<Rightarrow> sbuf \<Rightarrow> 'd host_sys \<Rightarrow> ret \<times> 'd host_sys" where
  "DispatchDelDevice E data s =
     (case svc_DelDevice E of None \<Rightarrow> (HDF_FAILURE, s) | Some DelDevice \<Rightarrow>
       (case fst (Ipc.HdfSbufReadUint32 E data) of None \<Rightarrow> (HDF_FAILURE, s) | Some deviceId \<Rightarrow>
         (case DelDevice deviceId (hs_state s) of (r, d) \<Rightarrow> (r, s\<lparr>hs_state := d\<rparr>))))"

definition DevHostServiceStubDispatch ::
  "'d host_env \<Rightarrow> bool \<Rightarrow> nat \<Rightarrow> sbuf option \<Rightarrow> 'd host_sys \<Rightarrow> ret \<times> 'd host_sys" where
  "DevHostServiceStubDispatch E stub_ok code data s =
     (case data of None \<Rightarrow> (HDF_FAILURE, s) | Some b \<Rightarrow>
       if \<not> stub_ok then (HDF_FAILURE, s)
       else
         (let s1 = ipc_do E (Fw ''OsalMutexLock'') s in
          (case (if code = DEVHOST_SERVICE_ADD_DEVICE then DispatchAddDevice E b s1
                 else if code = DEVHOST_SERVICE_DEL_DEVICE then DispatchDelDevice E b s1
                 else (HDF_FAILURE, s1)) of
             (r, s2) \<Rightarrow> (r, ipc_do E (Fw ''OsalMutexUnlock'') s2))))"

text \<open>The object is a block of \<open>hs_heap\<close>; \<open>instance\<close> holds it between calls, also after its release.\<close>

definition DevHostServiceStubConstruct :: "'d host_env \<Rightarrow> 'd host_sys \<Rightarrow> 'd host_sys" where
  "DevHostServiceStubConstruct E s =
     (case HdfRemoteServiceObtain E (ipc_do E (Fw ''DevHostServiceFullConstruct'') s) of (rm, s1) \<Rightarrow>
        ipc_do E (Fw ''OsalMutexInit'') (s1\<lparr>hs_remote := rm\<rparr>))"

definition DevHostServiceStubCreate ::
  "'d host_env \<Rightarrow> nat option \<Rightarrow> 'd host_sys \<Rightarrow> nat option \<times> 'd host_sys" where
  "DevHostServiceStubCreate E inst s =
     (if inst \<noteq> None then (inst, s)
      else
        (case OsalMemCalloc E (Objs ''DevHostServiceStub'' 1) (hs_heap s) of (p, h) \<Rightarrow>
           (p, if p = None then s\<lparr>hs_heap := h\<rparr> else DevHostServiceStubConstruct E (s\<lparr>hs_heap := h\<rparr>))))"

definition DevHostServiceStubRelease :: "'d host_env \<Rightarrow> nat option \<Rightarrow> 'd host_sys \<Rightarrow> 'd host_sys" where
  "DevHostServiceStubRelease E object s =
     (if object = None then s
      else
        (let s1 = HdfRemoteServiceRecycle E (hs_remote s) (ipc_do E (Fw ''DevHostServiceFullDestruct'') s);
             s2 = ipc_do E (Fw ''OsalMutexDestroy'') (s1\<lparr>hs_remote := None\<rparr>)
         in s2\<lparr>hs_heap := OsalMemFree object (hs_heap s2)\<rparr>))"

end
