(* ===== verification/Devhost_Ipc_Facts.thy ===== *)
theory Devhost_Ipc_Facts
  imports Devhost_Ipc Dev_Attribute_Facts
begin

text \<open>
  Calls of a driver host through its proxy: the buffers of \<open>Ipc\<close> keep the contract that \<open>Dev_Attribute\<close>
  relies on, and the stub serves a request as a direct call of the host's service object, keeping
  the heap of the host as it was.
\<close>

subsection \<open>Buffers\<close>

lemma put_to_SomeD: "put_to E b x = (True, b') \<Longrightarrow> b' = b @ [x]"
  by (auto simp: put_to_def put_def split: if_splits)

lemma attr_env_contract: "sbuf_contract (attr_env E)"
proof -
  have u32: "\<exists>y'. b = ItU32 y # y' \<and> map sb_of y' = r" if "map sb_of b = SbU32 y # r" for b y r
    using that by (cases b) (auto elim: sb_of.elims)
  have u16: "\<exists>y'. b = ItU16 y # y' \<and> map sb_of y' = r" if "map sb_of b = SbU16 y # r" for b y r
    using that by (cases b) (auto elim: sb_of.elims)
  have st: "\<exists>z y'. y = Some z \<and> b = ItStr z # y' \<and> map sb_of y' = r" if "map sb_of b = SbStr y # r" for b y r
    using that by (cases b) (auto elim: sb_of.elims)
  show ?thesis
    unfolding sbuf_contract_def
    by (auto simp: attr_env_def Ipc.HdfSbufReadUint32_def Ipc.HdfSbufReadUint16_def Ipc.HdfSbufReadString_def
        dest!: put_to_SomeD u32 u16 st split: option.splits)
qed

definition named :: "HdfDeviceInfo \<Rightarrow> bool" where
  "named a \<longleftrightarrow> di_svcName a \<noteq> None \<and> di_moduleName a \<noteq> None"

text \<open>What the proxy writes; it stops at a name that is \<open>NULL\<close>.\<close>

definition info_items :: "HdfDeviceInfo \<Rightarrow> sbuf" where
  "info_items a =
     [ItU32 (di_deviceId a), ItU16 (di_policy a)] @
     (case str_of (di_svcName a) of None \<Rightarrow> [] | Some svc \<Rightarrow> ItStr svc #
       (case str_of (di_moduleName a) of None \<Rightarrow> [] | Some mdl \<Rightarrow> ItStr mdl #
         (case str_of (di_deviceMatchAttr a) of
            None \<Rightarrow> [ItU32 ATTRIBUTE_PRIVATE_DATA_LENGTH_NULL]
          | Some x \<Rightarrow> [ItU32 ATTRIBUTE_PRIVATE_DATA_LENGTH_NORMAL, ItStr x])))"

lemma put_to_fine: "all_fine E \<Longrightarrow> put_to E b x = (True, b @ [x])"
  by (simp add: put_to_def)

lemma serialize_fine:
  assumes "all_fine E"
  shows "DeviceAttributeSerialize (attr_env E) (Some a) (Some []) = (named a, Some (info_items a))"
  using assms
  by (auto simp: DeviceAttributeSerialize_def attr_env_def put_to_fine named_def info_items_def str_of_def
      split: option.split)

lemma items_named:
  assumes "named a"
  shows "map sb_of (info_items a) = attr_items a"
  using assms by (auto simp: info_items_def attr_items_def named_def str_of_def)

subsection \<open>Reading a request\<close>

lemma read_strings_next:
  assumes "read_strings E p b s = (ok, b', s')"
  shows "h_next s \<le> h_next s'"
  using assms
  by (auto simp: read_strings_def strdup_eq Let_def simp del: upt_Suc split: prod.splits option.splits if_splits)

lemma free_next [simp]: "h_next (LOS_MemFree x s) = h_next s"
  by (simp add: LOS_MemFree_def)

lemma fold_free_next [simp]: "h_next (fold LOS_MemFree xs s) = h_next s"
  by (induction xs arbitrary: s) simp_all

lemma Release_next [simp]: "h_next (DeviceSerializedAttributeRelease p s) = h_next s"
  by (cases p) (auto simp: DeviceSerializedAttributeRelease_def free_str_eq Let_def OsalMemFree_def split: option.split)

lemma Deserialize_next:
  assumes "DeviceAttributeDeserialize E (Some b) s = (r, b', s')"
  shows "h_next s \<le> h_next s'"
  using assms
  by (auto simp: Deserialize_eq new_attr_def dest: read_strings_next split: if_splits option.splits prod.splits)

lemma attr_env_reads:
  "sbuf_env.HdfSbufReadUint32 (attr_env E) (ItU32 x # b) = (Some x, b)"
  "sbuf_env.HdfSbufReadUint16 (attr_env E) (ItU16 y # b) = (Some y, b)"
  "sbuf_env.HdfSbufReadString (attr_env E) (ItStr z # b) = (Some z, b)"
  "fst (raw_str E []) = None \<Longrightarrow> sbuf_env.HdfSbufReadString (attr_env E) [] = (None, snd (raw_str E []))"
  "mem_ok (attr_env E) = mem_ok E"
  by (simp_all add: attr_env_def Ipc.HdfSbufReadUint32_def Ipc.HdfSbufReadUint16_def Ipc.HdfSbufReadString_def
      prod_eq_iff)

lemma truncated_refused:
  assumes m: "\<And>n z. mem_ok E n z" and r: "fst (raw_str E []) = None" and n: "\<not> named a"
  shows "fst (DeviceAttributeDeserialize (attr_env E) (Some (info_items a)) s) = None"
proof -
  have "\<exists>b t'. read_strings (attr_env E) p (drop 2 (info_items a)) t = (False, b, t')" for p t
  proof (cases "di_svcName a")
    case None
    then show ?thesis
      by (simp add: info_items_def str_of_def read_strings_def attr_env_reads(4) [OF r])
  next
    case (Some x)
    then have "di_moduleName a = None"
      using n by (simp add: named_def del: not_None_eq)
    then show ?thesis
      using Some m
      by (simp add: info_items_def str_of_def read_strings_def attr_env_reads(3,5) attr_env_reads(4) [OF r]
          strdup_eq Let_def del: upt_Suc)
  qed
  moreover have "info_items a = ItU32 (di_deviceId a) # ItU16 (di_policy a) # drop 2 (info_items a)"
    by (simp add: info_items_def)
  moreover have "fst (DeviceAttributeDeserialize (attr_env E) (Some (ItU32 i # ItU16 y # rest)) s) = None"
    if rest: "\<And>p t. \<exists>b t'. read_strings (attr_env E) p rest t = (False, b, t')" for i y rest
  proof -
    obtain b t' where "read_strings (attr_env E) (h_next s) rest (new_attr s i y) = (False, b, t')"
      using rest by blast
    then show ?thesis
      by (simp add: Deserialize_eq attr_env_reads m)
  qed
  ultimately show ?thesis
    by metis
qed

subsection \<open>A call through the proxy is a call of the host\<close>

datatype host_req = HostAdd HdfDeviceInfo | HostDel u32

primrec host_code :: "host_req \<Rightarrow> nat" where
  "host_code (HostAdd a) = DEVHOST_SERVICE_ADD_DEVICE"
| "host_code (HostDel devid) = DEVHOST_SERVICE_DEL_DEVICE"

primrec host_items :: "host_req \<Rightarrow> sbuf" where
  "host_items (HostAdd a) = info_items a"
| "host_items (HostDel devid) = [ItU32 devid]"

primrec devhost_proxy ::
  "'w proxy_env \<Rightarrow> DevHostServiceProxy \<Rightarrow> host_req \<Rightarrow> 'w proxy_sys \<Rightarrow> ret \<times> 'w proxy_sys" where
  "devhost_proxy E h (HostAdd a) s = DevHostServiceProxyAddDevice E h (Some a) s"
| "devhost_proxy E h (HostDel devid) s = DevHostServiceProxyDelDevice E h devid s"

text \<open>What of the information of a device is sent: its status and type are not, and arrive as zero.\<close>

definition sent_content :: "HdfDeviceInfo \<Rightarrow> dev_content" where
  "sent_content a = (content_of a)\<lparr>dc_status := 0, dc_deviceType := 0\<rparr>"

text \<open>The direct call, on the state of the service object.\<close>

primrec host_call :: "'d host_env \<Rightarrow> host_req \<Rightarrow> 'd \<Rightarrow> ret \<times> 'd" where
  "host_call Eh (HostAdd a) d =
     (case svc_AddDevice Eh of None \<Rightarrow> (HDF_FAILURE, d) | Some add \<Rightarrow>
        if named a then add (sent_content a) d else (HDF_FAILURE, d))"
| "host_call Eh (HostDel devid) d =
     (case svc_DelDevice Eh of None \<Rightarrow> (HDF_FAILURE, d) | Some del \<Rightarrow> del devid d)"

type_synonym 'd host_view = "'d \<times> (nat \<Rightarrow> u8 list option) \<times> (nat \<Rightarrow> HdfDeviceInfo option) \<times> bool"

definition host_view :: "'d host_sys \<Rightarrow> 'd host_view" where
  "host_view w = (hs_state w, h_blk (hs_heap w), attrs (hs_heap w), h_bad (hs_heap w))"

definition host_serve :: "'d host_env \<Rightarrow> host_req \<Rightarrow> 'd host_view \<Rightarrow> ret \<times> 'd host_view" where
  "host_serve Eh q v = (case host_call Eh q (fst v) of (r, d) \<Rightarrow> (r, d, snd v))"

definition devhost_stub :: "'d host_env \<Rightarrow> nat \<Rightarrow> sbuf \<Rightarrow> 'd host_sys \<Rightarrow> ret \<times> sbuf \<times> 'd host_sys" where
  "devhost_stub Eh code data w = (case DevHostServiceStubDispatch Eh True code (Some data) w of (r, w') \<Rightarrow> (r, [], w'))"

text \<open>The host has memory, a read at the end of a buffer fails, and no object is where the next block goes.\<close>

definition host_ready :: "'d host_env \<Rightarrow> 'd host_sys \<Rightarrow> bool" where
  "host_ready Eh w \<longleftrightarrow>
     (\<forall>n z. mem_ok Eh n z) \<and> fst (raw_str Eh []) = None \<and> heap_ok (hs_heap w)
     \<and> (\<forall>i \<ge> h_next (hs_heap w). attrs (hs_heap w) i = None)"

lemma hs_ev [simp]: "hs_heap (w\<lparr>ev := x\<rparr>) = hs_heap w"
  by (cases w) simp

lemma hs_ipc_do [simp]:
  "hs_state (ipc_do E c w) = hs_state w" "hs_heap (ipc_do E c w) = hs_heap w" "hs_remote (ipc_do E c w) = hs_remote w"
  by (simp_all add: ipc_do_def ipc_call_def ext_call_eq emit_def)

lemma ready_same:
  assumes "host_ready Eh w" and "h_next (hs_heap w) \<le> h_next h"
    and "h_blk h = h_blk (hs_heap w)" and "attrs h = attrs (hs_heap w)" and "hs_heap w' = h"
  shows "host_ready Eh w'"
  using assms by (auto simp: host_ready_def heap_ok_def)

lemma host_add:
  assumes w: "host_ready Eh w" and call: "DispatchAddDevice Eh (info_items a) w = (st, w')"
  shows "(st, host_view w') = host_serve Eh (HostAdd a) (host_view w) \<and> host_ready Eh w'"
proof (cases "svc_AddDevice Eh")
  case None
  then show ?thesis
    using w call by (simp add: DispatchAddDevice_def host_serve_def host_view_def)
next
  case (Some add)
  obtain r b h where d: "DeviceAttributeDeserialize (attr_env Eh) (Some (info_items a)) (hs_heap w) = (r, b, h)"
    by (metis prod_cases3)
  have m: "\<And>n z. mem_ok (attr_env Eh) n z" "\<And>n z. mem_ok Eh n z" and raw: "fst (raw_str Eh []) = None"
    using w by (simp_all add: host_ready_def attr_env_reads(5))
  have ok: "heap_ok (hs_heap w)" "attrs (hs_heap w) (h_next (hs_heap w)) = None"
    using w by (simp_all add: host_ready_def)
  note frees = Deserialize_frees [OF ok d] and nx = Deserialize_next [OF d]
  show ?thesis
  proof (cases "named a")
    case True
    then obtain svc mdl where n: "str_of (di_svcName a) = Some svc" "str_of (di_moduleName a) = Some mdl"
      by (auto simp: named_def str_of_def)
    obtain p a' where p: "r = Some p" "attrs h p = Some a'" "same_info a a'"
      using Deserialize_items [OF attr_env_contract m(1) n, of "info_items a" "hs_heap w"] items_named [OF True] d
      by (auto simp: attr_env_def)
    obtain r2 d2 where a: "add (sent_content a) (hs_state w) = (r2, d2)"
      by (rule prod.exhaust)
    have "content_of a' = sent_content a"
      using p(3) by (simp add: same_info_def with_strings_def sent_content_def content_of_def)
    then have "w' = w\<lparr>hs_state := d2, hs_heap := DeviceSerializedAttributeRelease r h\<rparr> \<and> st = r2"
      using call Some d p a by (simp add: DispatchAddDevice_def)
    then show ?thesis
      using frees nx p(1) True Some a
        ready_same [OF w, of "DeviceSerializedAttributeRelease r h" w']
      by (simp add: host_serve_def host_view_def)
  next
    case False
    then have "r = None"
      using truncated_refused [OF m(2) raw, of a "hs_heap w"] d by simp
    then have "w' = w\<lparr>hs_heap := h\<rparr> \<and> st = HDF_FAILURE"
      using call Some d by (simp add: DispatchAddDevice_def)
    then show ?thesis
      using frees nx \<open>r = None\<close> False Some ready_same [OF w, of h w'] by (simp add: host_serve_def host_view_def)
  qed
qed

lemma host_del:
  assumes "host_ready Eh w" and "DispatchDelDevice Eh [ItU32 devid] w = (st, w')"
  shows "(st, host_view w') = host_serve Eh (HostDel devid) (host_view w) \<and> host_ready Eh w'"
  using assms
  by (auto simp: DispatchDelDevice_def Ipc.HdfSbufReadUint32_def host_serve_def host_view_def host_ready_def
      split: option.splits prod.splits)

lemma host_served:
  assumes w: "host_ready Eh w" and call: "devhost_stub Eh (host_code q) (host_items q) w = (st, rep, w')"
  shows "(st, host_view w') = host_serve Eh q (host_view w) \<and> host_ready Eh w'"
proof -
  let ?w1 = "ipc_do Eh (Fw ''OsalMutexLock'') w"
  have e: "host_ready Eh (ipc_do Eh c x) = host_ready Eh x" "host_view (ipc_do Eh c x) = host_view x" for c x
    by (simp_all add: host_ready_def host_view_def)
  show ?thesis
  proof (cases q)
    case (HostAdd a)
    obtain w2 where "DispatchAddDevice Eh (info_items a) ?w1 = (st, w2)" "w' = ipc_do Eh (Fw ''OsalMutexUnlock'') w2"
      using call HostAdd by (auto simp: devhost_stub_def DevHostServiceStubDispatch_def Let_def split: prod.splits)
    then show ?thesis
      using host_add [of Eh ?w1 a st w2] w HostAdd by (simp add: e)
  next
    case (HostDel devid)
    obtain w2 where "DispatchDelDevice Eh [ItU32 devid] ?w1 = (st, w2)" "w' = ipc_do Eh (Fw ''OsalMutexUnlock'') w2"
      using call HostDel
      by (auto simp: devhost_stub_def DevHostServiceStubDispatch_def Let_def devhost_codes split: prod.splits)
    then show ?thesis
      using host_del [of Eh ?w1 devid st w2] w HostDel by (simp add: e)
  qed
qed

interpretation devhost: remote_interface "[]" host_code host_items "host_serve Eh" host_view
  "devhost_stub Eh" "host_ready Eh" for Eh :: "'d host_env"
proof unfold_locales
  fix w w' :: "'d host_sys" and q st rep
  assume "host_ready Eh w" "devhost_stub Eh (host_code q) ([] @ host_items q) w = (st, rep, w')"
  then have "(st, host_view w') = host_serve Eh q (host_view w) \<and> host_ready Eh w'"
    by (intro host_served) simp_all
  then show "(st, host_view w') = host_serve Eh q (host_view w)" and "host_ready Eh w'"
    by blast+
qed

lemma host_asked:
  assumes E: "all_fine E" and h: "hp_remote h = Some rm" and call: "devhost_proxy E h q s = (r, s')"
  shows "asked E rm (host_code q) (host_items q) False s r s'"
proof -
  let ?x = "ipc_api E (ev s) SbufObtain"
  let ?s1 = "s\<lparr>ev := ev s @ [(SbufObtain, ?x)], ip_bufs := Suc (ip_bufs s)\<rparr>"
  have o: "HdfSbufTypedObtain E s = (True, ?s1)"
    using E by (simp add: all_fine_def HdfSbufTypedObtain_def ipc_call_def ext_call_eq emit_def)
  obtain st rep w where p: "peer E rm (host_code q) (host_items q) (pw s) = (st, rep, w)"
    by (metis prod_cases3)
  have "r = st \<and> s' = s\<lparr>ev := ev s @ [(SbufObtain, ?x)] @ [(IpcSend rm (host_code q) (host_items q) False, 0)], pw := w\<rparr>"
    using call p h
    by (cases q)
      (simp_all add: DevHostServiceProxyAddDevice_def DevHostServiceProxyOpsDevice_def DevHostServiceProxyDelDevice_def
        o serialize_fine [OF E] put_to_fine [OF E] ipc_send_def emit_def HdfSbufRecycle_def)
  then show ?thesis
    unfolding asked_def using p by (intro exI [of _ "[(SbufObtain, ?x)]"]) auto
qed

theorem devhost_remote_call:
  assumes "all_fine E" and "hp_remote h = Some rm" and "peer E rm = devhost_stub Eh"
    and "host_ready Eh (pw s)" and "devhost_proxy E h q s = (r, s')"
  shows "(r, hs_state (pw s')) = host_call Eh q (hs_state (pw s))
    \<and> h_blk (hs_heap (pw s')) = h_blk (hs_heap (pw s)) \<and> h_bad (hs_heap (pw s')) = h_bad (hs_heap (pw s))
    \<and> host_ready Eh (pw s') \<and> h_bad s' = h_bad s \<and> ip_bufs s' = ip_bufs s"
proof -
  have a: "asked E rm (host_code q) (host_items q) False s r s'"
    by (rule host_asked [OF assms(1,2,5)])
  then obtain rep where c: "devhost_stub Eh (host_code q) ([] @ host_items q) (pw s) = (r, rep, pw s')"
    using assms(3) asked_peer [OF a] by auto
  have f: "h_bad s' = h_bad s" "ip_bufs s' = ip_bufs s"
    using asked_frame(1) [OF a] by auto
  have "r = fst (host_serve Eh q (host_view (pw s)))" "host_view (pw s') = snd (host_serve Eh q (host_view (pw s)))"
    "host_ready Eh (pw s')"
    using devhost.request [OF assms(4) c] devhost.stays_ready [OF assms(4) c] by auto
  then show ?thesis
    using f by (auto simp: host_serve_def host_view_def split: prod.splits)
qed

subsection \<open>Examples\<close>

text \<open>A host that records the devices it is given.\<close>

definition hs_demo_env :: "u32 list host_env" where
  "hs_demo_env = \<lparr>mem_ok = (\<lambda>_ _. True), mem_junk = (\<lambda>_ _. 0), copy_ok = (\<lambda>d n. n \<le> d),
     ipc_api = (\<lambda>_ _. 1), ipc_new = (\<lambda>_. None), put_ok = (\<lambda>_ _. True), raw_u32 = (\<lambda>b. (None, b)),
     raw_u16 = (\<lambda>b. (None, b)), raw_str = (\<lambda>b. (None, b)), raw_remote = (\<lambda>b. (None, b)),
     svc_AddDevice = Some (\<lambda>c d. (HDF_SUCCESS, dc_deviceId c # d)),
     svc_DelDevice = Some (\<lambda>i d. (HDF_SUCCESS, remove1 i d))\<rparr>"

definition hs_demo_proxy :: "u32 list host_sys proxy_env" where
  "hs_demo_proxy = \<lparr>mem_ok = (\<lambda>_ _. True), mem_junk = (\<lambda>_ _. 0), copy_ok = (\<lambda>d n. n \<le> d),
     ipc_api = (\<lambda>_ _. 1), ipc_new = (\<lambda>_. None), put_ok = (\<lambda>_ _. True), raw_u32 = (\<lambda>b. (None, b)),
     raw_u16 = (\<lambda>b. (None, b)), raw_str = (\<lambda>b. (None, b)), raw_remote = (\<lambda>b. (None, b)),
     peer = (\<lambda>_. devhost_stub hs_demo_env)\<rparr>"

definition hs_demo_sys :: "u32 list host_sys" where
  "hs_demo_sys = \<lparr>h_next = 0, h_blk = Map.empty, h_bad = False, ev = [], ip_bufs = 0, ip_desc = Map.empty,
     hs_state = [3], hs_heap = \<lparr>h_next = 0, h_blk = Map.empty, h_bad = False, ev = [], attrs = Map.empty\<rparr>,
     hs_remote = Some 0\<rparr>"

definition hs_demo :: "u32 list host_sys proxy_sys" where
  "hs_demo = \<lparr>h_next = 0, h_blk = Map.empty, h_bad = False, ev = [], ip_bufs = 0, ip_desc = Map.empty,
     pw = hs_demo_sys\<rparr>"

definition hs_demo_dev :: HdfDeviceInfo where
  "hs_demo_dev = \<lparr>di_deviceId = 7, di_policy = 2, di_svcName = Some (1, ''led''),
     di_moduleName = Some (2, ''led_drv''), di_deviceMatchAttr = None, di_status = 1, di_deviceType = 0\<rparr>"

lemma hs_demo_facts:
  "all_fine hs_demo_proxy" "hp_remote \<lparr>hp_hostId = 1, hp_remote = Some 4\<rparr> = Some 4"
  "peer hs_demo_proxy 4 = devhost_stub hs_demo_env" "host_ready hs_demo_env (pw hs_demo)"
  "host_call hs_demo_env (HostAdd hs_demo_dev) (hs_state (pw hs_demo)) = (HDF_SUCCESS, [7, 3])"
  by (simp_all add: all_fine_def hs_demo_proxy_def host_ready_def hs_demo_env_def hs_demo_def hs_demo_sys_def
      heap_ok_def named_def hs_demo_dev_def content_of_def sent_content_def)

lemma devhost_remote_call_witness:
  "\<exists>s'. devhost_proxy hs_demo_proxy \<lparr>hp_hostId = 1, hp_remote = Some 4\<rparr> (HostAdd hs_demo_dev) hs_demo =
     (HDF_SUCCESS, s') \<and> hs_state (pw s') = [7, 3]"
proof -
  obtain r s' where c: "devhost_proxy hs_demo_proxy \<lparr>hp_hostId = 1, hp_remote = Some 4\<rparr> (HostAdd hs_demo_dev) hs_demo = (r, s')"
    by (rule prod.exhaust)
  from devhost_remote_call [OF hs_demo_facts(1-4) c] c show ?thesis
    by (simp add: hs_demo_facts(5) del: devhost_proxy.simps host_call.simps)
qed

end
