(* ===== verification/Host_Service.thy ===== *)
theory Host_Service
  imports Devhost_Ipc_Facts
begin

text \<open>
  The service object of a driver host, \<open>uhdf2/host/src/devhost_service_full.c\<close>: adding and deleting
  devices through the message loop of the host, and the power events that are passed on to the
  devices.

  The base service, the message loop and power management are framework code. The base service is the
  state \<open>'d\<close> with the methods of \<open>full_env\<close>; \<open>SendMessage\<close> is the framework's, for which the facts
  assume what its synchronous mode documents: the handler is run and its status returned. The power
  states and the events are the framework's constants.
\<close>

definition DEVHOST_MESSAGE_ADD_DEVICE :: nat where "DEVHOST_MESSAGE_ADD_DEVICE = 1"
definition DEVHOST_MESSAGE_DEL_DEVICE :: nat where "DEVHOST_MESSAGE_DEL_DEVICE = 2"

subsection \<open>Messages\<close>

text \<open>\<open>data[0]\<close> holds the device information or the device number; reading it as the other is undefined.\<close>

datatype msg_data = DataInfo dev_content | DataId u32

record host_msg =
  messageId :: nat
  msg_data0 :: msg_data

record 'd full_sys =
  fu_state :: 'd
  fu_bad :: bool

record 'd full_env =
  base_AddDevice :: "dev_content \<Rightarrow> 'd \<Rightarrow> ret \<times> 'd"
  base_DelDevice :: "u32 \<Rightarrow> 'd \<Rightarrow> ret \<times> 'd"
  msg_ok :: "'d \<Rightarrow> bool"
  SendMessage :: "host_msg \<Rightarrow> bool \<Rightarrow> 'd full_sys \<Rightarrow> ret \<times> 'd full_sys"

definition DevHostServiceFullDispatchMessage ::
  "'d full_env \<Rightarrow> host_msg \<Rightarrow> 'd full_sys \<Rightarrow> ret \<times> 'd full_sys" where
  "DevHostServiceFullDispatchMessage E m s =
     (if messageId m = DEVHOST_MESSAGE_ADD_DEVICE then
        (case msg_data0 m of
           DataInfo attribute \<Rightarrow> (case base_AddDevice E attribute (fu_state s) of (r, d) \<Rightarrow> (r, s\<lparr>fu_state := d\<rparr>))
         | DataId _ \<Rightarrow> (HDF_FAILURE, s\<lparr>fu_bad := True\<rparr>))
      else if messageId m = DEVHOST_MESSAGE_DEL_DEVICE then
        (case msg_data0 m of
           DataId devid \<Rightarrow> (case base_DelDevice E devid (fu_state s) of (r, d) \<Rightarrow> (r, s\<lparr>fu_state := d\<rparr>))
         | DataInfo _ \<Rightarrow> (HDF_FAILURE, s\<lparr>fu_bad := True\<rparr>))
      else (HDF_SUCCESS, s))"

definition DevHostServiceFullOpsDevice ::
  "'d full_env \<Rightarrow> bool \<Rightarrow> msg_data \<Rightarrow> nat \<Rightarrow> 'd full_sys \<Rightarrow> ret \<times> 'd full_sys" where
  "DevHostServiceFullOpsDevice E inst_ok parm cmdCode s =
     (if \<not> inst_ok then (HDF_FAILURE, s)
      else if \<not> msg_ok E (fu_state s) then (HDF_ERR_MALLOC_FAIL, s)
      else SendMessage E \<lparr>messageId = cmdCode, msg_data0 = parm\<rparr> True s)"

definition DevHostServiceFullAddDevice ::
  "'d full_env \<Rightarrow> bool \<Rightarrow> dev_content \<Rightarrow> 'd full_sys \<Rightarrow> ret \<times> 'd full_sys" where
  "DevHostServiceFullAddDevice E inst_ok attribute s =
     DevHostServiceFullOpsDevice E inst_ok (DataInfo attribute) DEVHOST_MESSAGE_ADD_DEVICE s"

definition DevHostServiceFullDelDevice ::
  "'d full_env \<Rightarrow> bool \<Rightarrow> u32 \<Rightarrow> 'd full_sys \<Rightarrow> ret \<times> 'd full_sys" where
  "DevHostServiceFullDelDevice E inst_ok devid s =
     DevHostServiceFullOpsDevice E inst_ok (DataId devid) DEVHOST_MESSAGE_DEL_DEVICE s"

subsection \<open>Power events\<close>

datatype pm_ev =
    PowerStateChange nat u32 | AttachDeviceHost u32 | SysEventNotifyRegister | FullFw string

text \<open>A device node with its power token; the driver is looked at when a change fails.\<close>

record HdfDeviceNode =
  powerToken :: "nat option"
  dn_driver :: bool

record pm_env =
  pm_api :: "(pm_ev \<times> int) list \<Rightarrow> pm_ev \<Rightarrow> int"
  IsPowerWakeState :: "u32 \<Rightarrow> bool"
  IsValidPowerState :: "u32 \<Rightarrow> bool"
  POWER_STATE_SUSPEND :: u32
  POWER_STATE_DOZE_SUSPEND :: u32
  POWER_STATE_RESUME :: u32
  POWER_STATE_DOZE_RESUME :: u32
  POWER_STATE_MAX :: u32
  KEVENT_POWER_SUSPEND :: u32
  KEVENT_POWER_DISPLAY_OFF :: u32
  KEVENT_POWER_RESUME :: u32
  KEVENT_POWER_DISPLAY_ON :: u32

type_synonym pm_sys = "(pm_ev \<times> int, unit) sys_scheme"

definition change_power :: "pm_env \<Rightarrow> u32 \<Rightarrow> HdfDeviceNode \<Rightarrow> ret \<times> pm_sys \<Rightarrow> ret \<times> pm_sys" where
  "change_power E state deviceNode rs =
     (case rs of (result, s) \<Rightarrow>
       (case powerToken deviceNode of None \<Rightarrow> (result, s) | Some token \<Rightarrow>
         (case ext_call (pm_api E) (PowerStateChange token state) s of (ret, s1) \<Rightarrow>
            if ret \<noteq> 0 then (HDF_FAILURE, if dn_driver deviceNode then s1 else s1\<lparr>h_bad := True\<rparr>)
            else (result, s1))))"

definition DevHostServiceFullDispatchPowerState ::
  "pm_env \<Rightarrow> HdfDeviceNode list \<Rightarrow> u32 \<Rightarrow> pm_sys \<Rightarrow> ret \<times> pm_sys" where
  "DevHostServiceFullDispatchPowerState E devNodes state s =
     (if IsPowerWakeState E state then fold (change_power E state) devNodes (HDF_SUCCESS, s)
      else fold (change_power E state) (rev devNodes) (HDF_SUCCESS, s))"

definition SysEventToPowerState :: "pm_env \<Rightarrow> u32 \<Rightarrow> u32" where
  "SysEventToPowerState E sysEvent =
     (if sysEvent = KEVENT_POWER_SUSPEND E then POWER_STATE_SUSPEND E
      else if sysEvent = KEVENT_POWER_DISPLAY_OFF E then POWER_STATE_DOZE_SUSPEND E
      else if sysEvent = KEVENT_POWER_RESUME E then POWER_STATE_RESUME E
      else if sysEvent = KEVENT_POWER_DISPLAY_ON E then POWER_STATE_DOZE_RESUME E
      else POWER_STATE_MAX E)"

definition notify_device :: "pm_env \<Rightarrow> u32 \<Rightarrow> HdfDeviceNode list \<Rightarrow> ret \<times> pm_sys \<Rightarrow> ret \<times> pm_sys" where
  "notify_device E state device rs =
     (case rs of (result, s) \<Rightarrow>
       (case DevHostServiceFullDispatchPowerState E device state s of (r, s1) \<Rightarrow>
          (if r \<noteq> HDF_SUCCESS then HDF_FAILURE else result, s1)))"

text \<open>A service is \<open>NULL\<close> or its list of devices, each with its nodes.\<close>

definition DevHostServiceFullPmNotify ::
  "pm_env \<Rightarrow> HdfDeviceNode list list option \<Rightarrow> u32 \<Rightarrow> pm_sys \<Rightarrow> ret \<times> pm_sys" where
  "DevHostServiceFullPmNotify E service state s =
     (case service of None \<Rightarrow> (HDF_ERR_INVALID_PARAM, s) | Some devices \<Rightarrow>
       if \<not> IsValidPowerState E state then (HDF_ERR_INVALID_PARAM, s)
       else if IsPowerWakeState E state then fold (notify_device E state) (rev devices) (HDF_SUCCESS, s)
       else fold (notify_device E state) devices (HDF_SUCCESS, s))"

definition OnSysEventReceived ::
  "pm_env \<Rightarrow> HdfDeviceNode list list option \<Rightarrow> u32 \<Rightarrow> pm_sys \<Rightarrow> ret \<times> pm_sys" where
  "OnSysEventReceived E self event s =
     (if self = None then (HDF_ERR_INVALID_PARAM, s)
      else DevHostServiceFullPmNotify E self (SysEventToPowerState E event) s)"

definition DevHostServiceFullStartService ::
  "pm_env \<Rightarrow> u32 option \<Rightarrow> pm_sys \<Rightarrow> ret \<times> pm_sys" where
  "DevHostServiceFullStartService E service s =
     (case service of None \<Rightarrow> (HDF_FAILURE, s) | Some hostId \<Rightarrow>
       (case ext_call (pm_api E) (AttachDeviceHost hostId) s of (ret, s1) \<Rightarrow>
          if ret \<noteq> 0 then (ret_of ret, s1)
          else (case ext_call (pm_api E) SysEventNotifyRegister s1 of (_, s2) \<Rightarrow> (HDF_SUCCESS, s2))))"

definition DevHostServiceFullConstruct :: "pm_env \<Rightarrow> pm_sys \<Rightarrow> pm_sys" where
  "DevHostServiceFullConstruct E s =
     snd (ext_call (pm_api E) (FullFw ''HdfMessageTaskConstruct'')
       (snd (ext_call (pm_api E) (FullFw ''HdfMessageLooperConstruct'')
         (snd (ext_call (pm_api E) (FullFw ''DevHostServiceConstruct'') s)))))"

definition DevHostServiceFullDestruct :: "pm_env \<Rightarrow> bool \<Rightarrow> bool \<Rightarrow> pm_sys \<Rightarrow> pm_sys" where
  "DevHostServiceFullDestruct E inst_ok stop_set s =
     (if \<not> inst_ok then s
      else
        (let s1 = snd (ext_call (pm_api E) (FullFw ''DevHostServiceDestruct'') s)
         in if stop_set then snd (ext_call (pm_api E) (FullFw ''looper.Stop'') s1) else s1))"

subsection \<open>A request reaches the base service\<close>

text \<open>The synchronous mode of the framework's message loop.\<close>

definition sync_loop :: "'d full_env \<Rightarrow> bool" where
  "sync_loop E \<longleftrightarrow> (\<forall>m s. SendMessage E m True s = DevHostServiceFullDispatchMessage E m s)"

text \<open>The methods the stub of the host calls.\<close>

definition full_host_env :: "'d full_env \<Rightarrow> ipc_env \<Rightarrow> 'd full_sys host_env" where
  "full_host_env F E = ipc_env.extend E
     \<lparr>svc_AddDevice = Some (DevHostServiceFullAddDevice F True),
      svc_DelDevice = Some (DevHostServiceFullDelDevice F True)\<rparr>"

end
