(* ===== verification/Host_Service_Facts.thy ===== *)
theory Host_Service_Facts
  imports Host_Service
begin

text \<open>
  The service object of a host: requests from the device manager reach the base service unchanged,
  and a power event reaches the power token of every device node once, in an order that resuming
  reverses.
\<close>

subsection \<open>Power events\<close>

definition tokens :: "HdfDeviceNode list \<Rightarrow> nat list" where
  "tokens ns = List.map_filter powerToken ns"

lemma tokens_simps [simp]:
  "tokens [] = []"
  "tokens (n # ns) = (case powerToken n of None \<Rightarrow> tokens ns | Some t \<Rightarrow> t # tokens ns)"
  "tokens (ms @ ns) = tokens ms @ tokens ns"
  by (simp_all add: tokens_def map_filter_def split: option.split)

lemma tokens_rev: "tokens (rev ns) = rev (tokens ns)"
  by (induction ns) (auto split: option.split)

text \<open>The changes that were asked for with their results; the status is success when all succeeded.\<close>

definition changed :: "nat list \<Rightarrow> u32 \<Rightarrow> int list \<Rightarrow> ret \<Rightarrow> pm_sys \<Rightarrow> ret \<Rightarrow> pm_sys \<Rightarrow> bool" where
  "changed ts st rs r s r' s' \<longleftrightarrow>
     length rs = length ts \<and> ev s' = ev s @ zip (map (\<lambda>t. PowerStateChange t st) ts) rs
     \<and> r' = (if \<forall>x \<in> set rs. x = 0 then r else HDF_FAILURE)"

lemma changed_nil [simp]: "changed [] st [] r s r s"
  by (simp add: changed_def)

lemma changed_append:
  "changed ts st rs r s r1 s1 \<Longrightarrow> changed us st qs r1 s1 r2 s2 \<Longrightarrow> changed (ts @ us) st (rs @ qs) r s r2 s2"
  by (auto simp: changed_def)

lemma change_power_changed:
  "change_power E st n (r, s) = (r', s') \<Longrightarrow> \<exists>rs. changed (tokens [n]) st rs r s r' s'"
proof (cases "powerToken n")
  case (Some t)
  let ?x = "pm_api E (ev s) (PowerStateChange t st)"
  assume "change_power E st n (r, s) = (r', s')"
  then have "changed (tokens [n]) st [?x] r s r' s'"
    using Some by (auto simp: change_power_def ext_call_eq emit_def changed_def split: if_splits)
  then show ?thesis
    by blast
qed (auto simp: change_power_def intro: exI [of _ "[]"])

text \<open>A pass over a list of which every element is handled this way.\<close>

lemma fold_changed:
  assumes "\<And>x r s r' s'. f x (r, s) = (r', s') \<Longrightarrow> \<exists>rs. changed (g x) st rs r s r' s'"
    and "fold f xs (r, s) = (r', s')"
  shows "\<exists>rs. changed (concat (map g xs)) st rs r s r' s'"
  using assms(2)
proof (induction xs arbitrary: r s)
  case Nil
  then show ?case
    by (auto intro: exI [of _ "[]"])
next
  case (Cons x xs)
  obtain r1 s1 where 1: "f x (r, s) = (r1, s1)"
    by (rule prod.exhaust)
  then obtain rs qs where "changed (g x) st rs r s r1 s1" "changed (concat (map g xs)) st qs r1 s1 r' s'"
    using assms(1) Cons by fastforce
  then show ?case
    using changed_append by fastforce
qed

lemma concat_tokens: "concat (map (\<lambda>n. tokens [n]) ns) = tokens ns"
  by (induction ns) (auto split: option.split)

definition node_order :: "pm_env \<Rightarrow> u32 \<Rightarrow> HdfDeviceNode list \<Rightarrow> nat list" where
  "node_order E st ns = (if IsPowerWakeState E st then tokens ns else rev (tokens ns))"

lemma dispatch_changed:
  assumes "DevHostServiceFullDispatchPowerState E ns st s = (r', s')"
  shows "\<exists>rs. changed (node_order E st ns) st rs HDF_SUCCESS s r' s'"
proof -
  let ?ns = "if IsPowerWakeState E st then ns else rev ns"
  have "fold (change_power E st) ?ns (HDF_SUCCESS, s) = (r', s')"
    using assms by (simp add: DevHostServiceFullDispatchPowerState_def split: if_splits)
  from fold_changed [of "change_power E st" "\<lambda>n. tokens [n]", OF change_power_changed this]
  have "\<exists>rs. changed (tokens ?ns) st rs HDF_SUCCESS s r' s'"
    by (simp add: concat_tokens del: tokens_simps(2))
  then show ?thesis
    by (simp add: node_order_def tokens_rev split: if_splits)
qed

lemma notify_device_changed:
  assumes "notify_device E st ns (r, s) = (r', s')"
  shows "\<exists>rs. changed (node_order E st ns) st rs r s r' s'"
proof -
  obtain r1 s1 where d: "DevHostServiceFullDispatchPowerState E ns st s = (r1, s1)"
    by (rule prod.exhaust)
  then obtain rs where c: "changed (node_order E st ns) st rs HDF_SUCCESS s r1 s1"
    using dispatch_changed by blast
  have "r' = (if r1 = HDF_SUCCESS then r else HDF_FAILURE)" "s' = s1"
    using assms d by (auto simp: notify_device_def)
  with c have "changed (node_order E st ns) st rs r s r' s'"
    by (simp add: changed_def split: if_splits)
  then show ?thesis
    by blast
qed

definition device_order :: "pm_env \<Rightarrow> u32 \<Rightarrow> HdfDeviceNode list list \<Rightarrow> nat list" where
  "device_order E st ds =
     (if IsPowerWakeState E st then tokens (concat (rev ds)) else tokens (concat (map rev ds)))"

lemma tokens_concat: "tokens (concat ds) = concat (map tokens ds)"
  by (induction ds) simp_all

lemma pm_notify_changed:
  assumes "IsValidPowerState E st" and "DevHostServiceFullPmNotify E (Some ds) st s = (r, s')"
  shows "\<exists>rs. changed (device_order E st ds) st rs HDF_SUCCESS s r s'"
proof -
  have "device_order E st ds = concat (map (node_order E st) (if IsPowerWakeState E st then rev ds else ds))"
    by (simp add: device_order_def node_order_def [abs_def] tokens_concat tokens_rev comp_def)
  moreover have "fold (notify_device E st) (if IsPowerWakeState E st then rev ds else ds) (HDF_SUCCESS, s) = (r, s')"
    using assms by (simp add: DevHostServiceFullPmNotify_def split: if_splits)
  ultimately show ?thesis
    using fold_changed [of "notify_device E st" "node_order E st", OF notify_device_changed] by metis
qed

text \<open>
  Going to sleep and waking up ask every power token once, waking in the reverse order of going to
  sleep, whatever fails on the way; the status is success exactly when every change succeeded.
\<close>

text \<open>
  C13. Going to sleep and waking up ask every power token of a host once, waking in the reverse
  order of going to sleep, whatever fails on the way; the status is success exactly when every
  change succeeded.
\<close>

theorem power_wake_reverses:
  assumes "IsValidPowerState E st1" and "\<not> IsPowerWakeState E st1"
    and "IsValidPowerState E st2" and "IsPowerWakeState E st2"
    and "DevHostServiceFullPmNotify E (Some ds) st1 s = (r1, s1)"
    and "DevHostServiceFullPmNotify E (Some ds) st2 s1 = (r2, s2)"
  shows "\<exists>ts rs1 rs2. ts = concat (map (\<lambda>ns. rev (tokens ns)) ds)
    \<and> ev s1 = ev s @ zip (map (\<lambda>t. PowerStateChange t st1) ts) rs1
    \<and> ev s2 = ev s1 @ zip (map (\<lambda>t. PowerStateChange t st2) (rev ts)) rs2
    \<and> length rs1 = length ts \<and> length rs2 = length ts
    \<and> (r1 = HDF_SUCCESS \<longleftrightarrow> (\<forall>x \<in> set rs1. x = 0)) \<and> (r2 = HDF_SUCCESS \<longleftrightarrow> (\<forall>x \<in> set rs2. x = 0))"
proof -
  let ?ts = "concat (map (\<lambda>ns. rev (tokens ns)) ds)"
  have o: "device_order E st1 ds = ?ts" "device_order E st2 ds = rev ?ts"
    using assms(2,4) by (simp_all add: device_order_def tokens_concat tokens_rev comp_def rev_concat rev_map)
  obtain rs1 rs2 where "changed ?ts st1 rs1 HDF_SUCCESS s r1 s1" "changed (rev ?ts) st2 rs2 HDF_SUCCESS s1 r2 s2"
    using pm_notify_changed [OF assms(1,5)] pm_notify_changed [OF assms(3,6)] o by auto
  then show ?thesis
    by (intro exI [of _ ?ts] exI [of _ rs1] exI [of _ rs2]) (auto simp: changed_def)
qed

text \<open>An event that is no power event changes nothing.\<close>

lemma unknown_event:
  assumes "\<not> IsValidPowerState E (POWER_STATE_MAX E)"
    and "event \<notin> {KEVENT_POWER_SUSPEND E, KEVENT_POWER_DISPLAY_OFF E, KEVENT_POWER_RESUME E, KEVENT_POWER_DISPLAY_ON E}"
  shows "OnSysEventReceived E self event s = (HDF_ERR_INVALID_PARAM, s)"
  using assms by (auto simp: OnSysEventReceived_def SysEventToPowerState_def DevHostServiceFullPmNotify_def
      split: option.split)

subsection \<open>A request reaches the base service\<close>

lemma full_host_env_sels [simp]:
  "all_fine (full_host_env F E) = all_fine E" "mem_ok (full_host_env F E) = mem_ok E"
  "raw_str (full_host_env F E) = raw_str E"
  "svc_AddDevice (full_host_env F E) = Some (DevHostServiceFullAddDevice F True)"
  "svc_DelDevice (full_host_env F E) = Some (DevHostServiceFullDelDevice F True)"
  by (cases E; simp add: full_host_env_def ipc_env.extend_def all_fine_def)+

text \<open>What the base service is asked to do for a request.\<close>

fun base_call :: "'d full_env \<Rightarrow> host_req \<Rightarrow> 'd \<Rightarrow> ret \<times> 'd" where
  "base_call F (HostAdd a) d =
     (if \<not> named a then (HDF_FAILURE, d) else if \<not> msg_ok F d then (HDF_ERR_MALLOC_FAIL, d)
      else base_AddDevice F (sent_content a) d)"
| "base_call F (HostDel devid) d = (if \<not> msg_ok F d then (HDF_ERR_MALLOC_FAIL, d) else base_DelDevice F devid d)"

lemma full_call:
  assumes "sync_loop F"
  shows "host_call (full_host_env F Eh) q fs = (case base_call F q (fu_state fs) of (r, d) \<Rightarrow> (r, fs\<lparr>fu_state := d\<rparr>))"
  using assms
  by (cases q)
    (simp_all add: DevHostServiceFullAddDevice_def DevHostServiceFullDelDevice_def DevHostServiceFullOpsDevice_def
      sync_loop_def DevHostServiceFullDispatchMessage_def DEVHOST_MESSAGE_ADD_DEVICE_def DEVHOST_MESSAGE_DEL_DEVICE_def
      split: prod.split)

text \<open>
  A device that the manager adds to a host in another process, or deletes there, reaches the base
  service of the host with what its information holds, and the status comes back.
\<close>

text \<open>
  C10. With a message loop that handles a message before the send returns, and when every
  allocation and IPC write succeeds: a device the manager adds to a host in another process, or
  deletes there, reaches the base service of the host with its device number, policy, names and
  match attribute; its status and type, which are not sent, arrive as 0. A device without a name
  is refused with HDF_FAILURE, and HDF_ERR_MALLOC_FAIL is answered when the host cannot make the
  message; the status of the base service comes back, and the heap of the host is as before.
\<close>

theorem host_end_to_end:
  assumes "all_fine E" and "hp_remote h = Some rm" and "peer E rm = devhost_stub (full_host_env F Eh)"
    and "sync_loop F" and "host_ready (full_host_env F Eh) (pw s)" and "devhost_proxy E h q s = (r, s')"
  shows "(r, fu_state (hs_state (pw s'))) = base_call F q (fu_state (hs_state (pw s)))
    \<and> fu_bad (hs_state (pw s')) = fu_bad (hs_state (pw s)) \<and> h_blk (hs_heap (pw s')) = h_blk (hs_heap (pw s))
    \<and> h_bad (hs_heap (pw s')) = h_bad (hs_heap (pw s)) \<and> ip_bufs s' = ip_bufs s"
proof -
  have a: "asked E rm (host_code q) (host_items q) False s r s'"
    by (rule host_asked [OF assms(1,2,6)])
  then obtain rep where c: "devhost_stub (full_host_env F Eh) (host_code q) ([] @ host_items q) (pw s) = (r, rep, pw s')"
    using assms(3) asked_peer [OF a] by auto
  have "(r, hs_state (pw s')) = host_call (full_host_env F Eh) q (hs_state (pw s))
    \<and> snd (host_view (pw s')) = snd (host_view (pw s))"
    using devhost.request [OF assms(5) c] by (auto simp: host_serve_def host_view_def split: prod.splits)
  then show ?thesis
    using asked_frame(1) [OF a] full_call [OF assms(4), of Eh q "hs_state (pw s)"]
    by (auto simp: host_view_def split: prod.splits)
qed

subsection \<open>Examples\<close>

definition pm_demo :: pm_env where
  "pm_demo = \<lparr>pm_api = (\<lambda>_ c. if c = PowerStateChange 4 1 then 5 else 0), IsPowerWakeState = (\<lambda>x. x = 2),
     IsValidPowerState = (\<lambda>x. x < 4), POWER_STATE_SUSPEND = 1, POWER_STATE_DOZE_SUSPEND = 0,
     POWER_STATE_RESUME = 2, POWER_STATE_DOZE_RESUME = 3, POWER_STATE_MAX = 4, KEVENT_POWER_SUSPEND = 0,
     KEVENT_POWER_DISPLAY_OFF = 1, KEVENT_POWER_RESUME = 2, KEVENT_POWER_DISPLAY_ON = 3\<rparr>"

definition pm_devs :: "HdfDeviceNode list list" where
  "pm_devs = [[\<lparr>powerToken = Some 3, dn_driver = True\<rparr>, \<lparr>powerToken = Some 4, dn_driver = True\<rparr>],
              [\<lparr>powerToken = None, dn_driver = True\<rparr>, \<lparr>powerToken = Some 6, dn_driver = True\<rparr>]]"

lemma power_wake_reverses_witness:
  "\<exists>s1 s2 rs1 rs2.
     DevHostServiceFullPmNotify pm_demo (Some pm_devs) 1 \<lparr>h_next = 0, h_blk = Map.empty, h_bad = False, ev = []\<rparr>
       = (HDF_FAILURE, s1)
     \<and> DevHostServiceFullPmNotify pm_demo (Some pm_devs) 2 s1 = (HDF_SUCCESS, s2)
     \<and> ev s1 = zip [PowerStateChange 4 1, PowerStateChange 3 1, PowerStateChange 6 1] rs1
     \<and> ev s2 = ev s1 @ zip [PowerStateChange 6 2, PowerStateChange 3 2, PowerStateChange 4 2] rs2
     \<and> length rs1 = 3 \<and> length rs2 = 3"
proof -
  let ?s = "\<lparr>h_next = 0, h_blk = Map.empty, h_bad = False, ev = []\<rparr> :: pm_sys"
  obtain r1 s1 where 1: "DevHostServiceFullPmNotify pm_demo (Some pm_devs) 1 ?s = (r1, s1)"
    by (rule prod.exhaust)
  obtain r2 s2 where 2: "DevHostServiceFullPmNotify pm_demo (Some pm_devs) 2 s1 = (r2, s2)"
    by (rule prod.exhaust)
  have "IsValidPowerState pm_demo 1" "\<not> IsPowerWakeState pm_demo 1" "IsValidPowerState pm_demo 2"
    "IsPowerWakeState pm_demo 2" "concat (map (\<lambda>ns. rev (tokens ns)) pm_devs) = [4, 3, 6]"
    by (simp_all add: pm_demo_def pm_devs_def)
  moreover have "r1 = HDF_FAILURE" "r2 = HDF_SUCCESS"
    using 1 2
    by (auto simp: DevHostServiceFullPmNotify_def pm_demo_def pm_devs_def notify_device_def
        DevHostServiceFullDispatchPowerState_def change_power_def ext_call_eq emit_def)
  ultimately show ?thesis
    using power_wake_reverses [OF _ _ _ _ 1 2] 1 2 by (auto simp: numeral_3_eq_3)
qed

definition full_demo :: "u32 list full_env" where
  "full_demo = \<lparr>base_AddDevice = (\<lambda>c d. (HDF_SUCCESS, dc_deviceId c # d)),
     base_DelDevice = (\<lambda>i d. if i \<in> set d then (HDF_SUCCESS, remove1 i d) else (HDF_FAILURE, d)),
     msg_ok = (\<lambda>_. True), SendMessage = (\<lambda>m sync s. (HDF_SUCCESS, s))\<rparr>"

definition full_demo_env :: "u32 list full_env" where
  "full_demo_env = full_demo\<lparr>SendMessage := (\<lambda>m sync s. DevHostServiceFullDispatchMessage full_demo m s)\<rparr>"

lemma dispatch_send:
  "DevHostServiceFullDispatchMessage (F\<lparr>SendMessage := f\<rparr>) m s = DevHostServiceFullDispatchMessage F m s"
  by (simp add: DevHostServiceFullDispatchMessage_def split: msg_data.split)

definition full_demo_ipc :: ipc_env where
  "full_demo_ipc = \<lparr>mem_ok = (\<lambda>_ _. True), mem_junk = (\<lambda>_ _. 0), copy_ok = (\<lambda>d n. n \<le> d),
     ipc_api = (\<lambda>_ _. 1), ipc_new = (\<lambda>_. None), put_ok = (\<lambda>_ _. True), raw_u32 = (\<lambda>b. (None, b)),
     raw_u16 = (\<lambda>b. (None, b)), raw_str = (\<lambda>b. (None, b)), raw_remote = (\<lambda>b. (None, b))\<rparr>"

definition full_demo_proxy :: "u32 list full_sys host_sys proxy_env" where
  "full_demo_proxy = ipc_env.extend full_demo_ipc
     \<lparr>peer = (\<lambda>_. devhost_stub (full_host_env full_demo_env full_demo_ipc))\<rparr>"

definition full_demo_host :: "u32 list full_sys host_sys" where
  "full_demo_host = \<lparr>h_next = 0, h_blk = Map.empty, h_bad = False, ev = [], ip_bufs = 0, ip_desc = Map.empty,
     hs_state = \<lparr>fu_state = [3], fu_bad = False\<rparr>,
     hs_heap = \<lparr>h_next = 0, h_blk = Map.empty, h_bad = False, ev = [], attrs = Map.empty\<rparr>, hs_remote = Some 0\<rparr>"

definition full_demo_sys :: "u32 list full_sys host_sys proxy_sys" where
  "full_demo_sys = \<lparr>h_next = 0, h_blk = Map.empty, h_bad = False, ev = [], ip_bufs = 0, ip_desc = Map.empty,
     pw = full_demo_host\<rparr>"

lemma full_demo_facts:
  "all_fine full_demo_proxy" "hp_remote \<lparr>hp_hostId = 1, hp_remote = Some 4\<rparr> = Some 4"
  "peer full_demo_proxy 4 = devhost_stub (full_host_env full_demo_env full_demo_ipc)"
  "sync_loop full_demo_env" "host_ready (full_host_env full_demo_env full_demo_ipc) (pw full_demo_sys)"
  "base_call full_demo_env (HostDel 9) (fu_state (hs_state (pw full_demo_sys))) = (HDF_FAILURE, [3])"
proof -
  show "sync_loop full_demo_env"
    by (simp add: sync_loop_def full_demo_env_def dispatch_send)
qed (simp_all add: full_demo_proxy_def full_demo_ipc_def ipc_env.extend_def all_fine_def full_demo_env_def
      full_demo_def host_ready_def full_demo_sys_def full_demo_host_def heap_ok_def)

lemma host_end_to_end_witness:
  "\<exists>s'. devhost_proxy full_demo_proxy \<lparr>hp_hostId = 1, hp_remote = Some 4\<rparr> (HostDel 9) full_demo_sys = (HDF_FAILURE, s')
     \<and> fu_state (hs_state (pw s')) = [3]"
proof -
  obtain r s' where
    c: "devhost_proxy full_demo_proxy \<lparr>hp_hostId = 1, hp_remote = Some 4\<rparr> (HostDel 9) full_demo_sys = (r, s')"
    by (rule prod.exhaust)
  from host_end_to_end [OF full_demo_facts(1-5) c] c show ?thesis
    by (simp add: full_demo_facts(6) del: devhost_proxy.simps base_call.simps)
qed

end
