(* ===== verification/Devsvc_Proxy.thy ===== *)
theory Devsvc_Proxy
  imports Ipc Svc_Manager
begin

text \<open>
  The proxy of the service manager in a driver host, \<open>uhdf2/host/src/devsvc_manager_proxy.c\<close>, and what
  the stub of \<open>Svc_Manager\<close> reads from the buffers it is sent.

  A device object is given by the remote object of its service (\<open>None\<close> for \<open>NULL\<close>); the number of
  device classes is the parameter \<open>class_max\<close>.
\<close>

definition SVCMGR_DESC :: string where "SVCMGR_DESC = ''HDI.IServiceManager.V1_0''"

primrec svc_code_no :: "svc_code \<Rightarrow> nat" where
  "svc_code_no DEVSVC_MANAGER_ADD_SERVICE = 1"
| "svc_code_no DEVSVC_MANAGER_UPDATE_SERVICE = 2"
| "svc_code_no DEVSVC_MANAGER_GET_SERVICE = 3"
| "svc_code_no DEVSVC_MANAGER_REGISTER_SVCLISTENER = 4"
| "svc_code_no DEVSVC_MANAGER_UNREGISTER_SVCLISTENER = 5"
| "svc_code_no DEVSVC_MANAGER_LIST_ALL_SERVICE = 6"
| "svc_code_no DEVSVC_MANAGER_OTHER = 7"
| "svc_code_no DEVSVC_MANAGER_REMOVE_SERVICE = 8"

subsection \<open>The proxy\<close>

record DevSvcManagerProxy =
  sp_remote :: "nat option"

definition svc_remote :: "DevSvcManagerProxy option \<Rightarrow> nat option" where
  "svc_remote inst = Option.bind inst sp_remote"

definition WriteServiceInfo ::
  "('m) ipc_env_scheme \<Rightarrow> string \<Rightarrow> u16 \<Rightarrow> nat option \<Rightarrow> string option \<Rightarrow> sbuf option \<Rightarrow> sbuf option" where
  "WriteServiceInfo E svcName devClass remote servInfo data =
     put E (ItStr (case servInfo of None \<Rightarrow> [] | Some info \<Rightarrow> info))
       (put_opt E ItRemote remote (put E (ItU16 devClass) (put E (ItStr svcName) data)))"

text \<open>Adding and updating differ in the code.\<close>

definition publish_call ::
  "svc_code \<Rightarrow> u16 \<Rightarrow> 'w proxy_env \<Rightarrow> DevSvcManagerProxy option \<Rightarrow> string option \<Rightarrow> u16 \<Rightarrow> nat option option
   \<Rightarrow> string option \<Rightarrow> 'w proxy_sys \<Rightarrow> ret \<times> 'w proxy_sys" where
  "publish_call code class_max E inst svcName devClass service servInfo s =
     (case (service, svcName) of
        (Some remote, Some name) \<Rightarrow>
          (case svc_remote inst of None \<Rightarrow> (HDF_ERR_INVALID_PARAM, s) | Some rm \<Rightarrow>
            if devClass \<ge> class_max then (HDF_ERR_INVALID_PARAM, s)
            else
              (case with_bufs E True
                  (\<lambda>t. send_if E rm (svc_code_no code)
                     (WriteServiceInfo E name devClass remote servInfo
                       (HdfRemoteServiceWriteInterfaceToken E rm t (Some []))) True t) s of
                 (status, _, s1) \<Rightarrow> (status, s1)))
      | _ \<Rightarrow> (HDF_ERR_INVALID_PARAM, s))"

definition DevSvcManagerProxyAddService ::
  "u16 \<Rightarrow> 'w proxy_env \<Rightarrow> DevSvcManagerProxy option \<Rightarrow> string option \<Rightarrow> u16 \<Rightarrow> nat option option
   \<Rightarrow> string option \<Rightarrow> 'w proxy_sys \<Rightarrow> ret \<times> 'w proxy_sys" where
  "DevSvcManagerProxyAddService = publish_call DEVSVC_MANAGER_ADD_SERVICE"

definition DevSvcManagerProxyUpdateService ::
  "u16 \<Rightarrow> 'w proxy_env \<Rightarrow> DevSvcManagerProxy option \<Rightarrow> string option \<Rightarrow> u16 \<Rightarrow> nat option option
   \<Rightarrow> string option \<Rightarrow> 'w proxy_sys \<Rightarrow> ret \<times> 'w proxy_sys" where
  "DevSvcManagerProxyUpdateService = publish_call DEVSVC_MANAGER_UPDATE_SERVICE"

text \<open>A request that consists of a name. \<open>GetService\<close> and \<open>RemoveService\<close> dereference the instance.\<close>

definition name_call ::
  "svc_code \<Rightarrow> 'w proxy_env \<Rightarrow> nat option \<Rightarrow> string option \<Rightarrow> 'w proxy_sys \<Rightarrow> ret \<times> sbuf \<times> 'w proxy_sys" where
  "name_call code E remote svcName s =
     with_bufs E (remote \<noteq> None)
       (\<lambda>t. send_if E (the remote) (svc_code_no code)
          (put_opt E ItStr svcName (HdfRemoteServiceWriteInterfaceToken E (the remote) t (Some []))) True t) s"

definition DevSvcManagerProxyGetService ::
  "'w proxy_env \<Rightarrow> DevSvcManagerProxy option \<Rightarrow> string option \<Rightarrow> 'w proxy_sys \<Rightarrow> nat option \<times> 'w proxy_sys" where
  "DevSvcManagerProxyGetService E inst svcName s =
     (case inst of None \<Rightarrow> (None, s\<lparr>h_bad := True\<rparr>) | Some p \<Rightarrow>
       (case name_call DEVSVC_MANAGER_GET_SERVICE E (sp_remote p) svcName s of
          (status, reply, s1) \<Rightarrow>
            (if status = HDF_SUCCESS then fst (HdfSbufReadRemoteService E reply) else None, s1)))"

definition DevSvcManagerProxyRemoveService ::
  "'w proxy_env \<Rightarrow> DevSvcManagerProxy option \<Rightarrow> string option \<Rightarrow> 'w proxy_sys \<Rightarrow> 'w proxy_sys" where
  "DevSvcManagerProxyRemoveService E inst svcName s =
     (case (inst, svcName) of
        (Some p, Some name) \<Rightarrow> snd (snd (name_call DEVSVC_MANAGER_REMOVE_SERVICE E (sp_remote p) svcName s))
      | _ \<Rightarrow> s)"

text \<open>
  When the service manager dies, the host stops its message loop. \<open>DevHostServiceNewInstance\<close> of the
  framework gives the host's own service object; \<open>stop_set\<close> is whether \<open>looper->Stop\<close> is set.
\<close>

definition DevSvcManagerProxyOnRemoteDied ::
  "('m) ipc_env_scheme \<Rightarrow> bool \<Rightarrow> bool \<Rightarrow> bool \<Rightarrow> ('a) ipc_sys_scheme \<Rightarrow> ('a) ipc_sys_scheme" where
  "DevSvcManagerProxyOnRemoteDied E recipient_ok service_ok stop_set s =
     (case ipc_call E (Fw ''DevHostServiceNewInstance'') s of (instance, s1) \<Rightarrow>
        if \<not> recipient_ok \<or> \<not> service_ok \<or> instance = 0 then s1
        else if stop_set then ipc_do E (Fw ''looper.Stop'') s1 else s1)"

definition DevSvcManagerProxyConstruct ::
  "('m) ipc_env_scheme \<Rightarrow> nat option \<Rightarrow> ('a) ipc_sys_scheme \<Rightarrow> DevSvcManagerProxy \<times> ('a) ipc_sys_scheme" where
  "DevSvcManagerProxyConstruct E remote s = (\<lparr>sp_remote = remote\<rparr>, ipc_do E (AddDeath remote) s)"

definition DevSvcManagerProxyObtain ::
  "('m) ipc_env_scheme \<Rightarrow> nat option \<Rightarrow> ('a) ipc_sys_scheme
   \<Rightarrow> (nat \<times> DevSvcManagerProxy) option \<times> ('a) ipc_sys_scheme" where
  "DevSvcManagerProxyObtain E remote s =
     (case OsalMemCalloc E (Objs ''DevSvcManagerProxy'' 1) s of
        (None, s1) \<Rightarrow> (None, s1)
      | (Some p, s1) \<Rightarrow> (case DevSvcManagerProxyConstruct E remote s1 of (ob, s2) \<Rightarrow> (Some (p, ob), s2)))"

text \<open>\<open>HdfRemoteServiceGet\<close> of the IPC layer; the status of the call says whether there is an object.\<close>

definition HdfRemoteServiceGet ::
  "('m) ipc_env_scheme \<Rightarrow> ('a) ipc_sys_scheme \<Rightarrow> nat option \<times> ('a) ipc_sys_scheme" where
  "HdfRemoteServiceGet E s = (ipc_new E (ev s), ipc_do E (Fw ''HdfRemoteServiceGet'') s)"

definition DevSvcManagerProxyCreate ::
  "('m) ipc_env_scheme \<Rightarrow> (nat \<times> DevSvcManagerProxy) option \<Rightarrow> ('a) ipc_sys_scheme
   \<Rightarrow> (nat \<times> DevSvcManagerProxy) option \<times> ('a) ipc_sys_scheme" where
  "DevSvcManagerProxyCreate E inst s =
     (if inst \<noteq> None then (inst, s)
      else
        (case HdfRemoteServiceGet E s of
           (None, s1) \<Rightarrow> (None, s1)
         | (Some rm, s1) \<Rightarrow>
             (case HdfRemoteServiceSetInterfaceDesc E rm SVCMGR_DESC s1 of (ok, s2) \<Rightarrow>
                if \<not> ok then (None, HdfRemoteServiceRecycle E (Some rm) s2)
                else DevSvcManagerProxyObtain E (Some rm) s2)))"

definition DevSvcManagerProxyRelease ::
  "('m) ipc_env_scheme \<Rightarrow> (nat \<times> DevSvcManagerProxy) option \<Rightarrow> ('a) ipc_sys_scheme \<Rightarrow> ('a) ipc_sys_scheme" where
  "DevSvcManagerProxyRelease E object s =
     (case object of None \<Rightarrow> s | Some (p, ob) \<Rightarrow>
        OsalMemFree (Some p) (HdfRemoteServiceRecycle E (sp_remote ob) s))"

subsection \<open>What the stub reads\<close>

text \<open>
  The reads of the stub for each code, in its order, on a buffer \<open>b\<close>; the stub's remote object has the
  descriptor of the service manager once it is started. A value the stub does not read is \<open>None\<close>.
\<close>

definition svc_code_of :: "nat \<Rightarrow> svc_code" where
  "svc_code_of c =
     (if c = 1 then DEVSVC_MANAGER_ADD_SERVICE else if c = 2 then DEVSVC_MANAGER_UPDATE_SERVICE
      else if c = 3 then DEVSVC_MANAGER_GET_SERVICE else if c = 4 then DEVSVC_MANAGER_REGISTER_SVCLISTENER
      else if c = 5 then DEVSVC_MANAGER_UNREGISTER_SVCLISTENER
      else if c = 6 then DEVSVC_MANAGER_LIST_ALL_SERVICE
      else if c = 8 then DEVSVC_MANAGER_REMOVE_SERVICE else DEVSVC_MANAGER_OTHER)"

definition read_token :: "'g svc_sys \<Rightarrow> sbuf \<Rightarrow> bool \<times> sbuf" where
  "read_token w b =
     (case b of ItToken d # ys \<Rightarrow> (sv_remote w \<noteq> None \<and> d = SVCMGR_DESC, ys) | _ \<Rightarrow> (False, b))"

definition read_request :: "('m) ipc_env_scheme \<Rightarrow> svc_code \<Rightarrow> 'g svc_sys \<Rightarrow> sbuf \<Rightarrow> svc_request" where
  "read_request E code w b =
     (case read_token w b of (ok, b0) \<Rightarrow>
       let rq = \<lparr>rq_token = ok, rq_name = None, rq_class = None, rq_service = None, rq_info = None\<rparr> in
       if code = DEVSVC_MANAGER_ADD_SERVICE \<or> code = DEVSVC_MANAGER_UPDATE_SERVICE then
         (case HdfSbufReadString E b0 of (name, b1) \<Rightarrow>
           (case HdfSbufReadUint16 E b1 of (cls, b2) \<Rightarrow>
             (case HdfSbufReadRemoteService E b2 of (svc, b3) \<Rightarrow>
                rq\<lparr>rq_name := name, rq_class := cls, rq_service := svc, rq_info := fst (HdfSbufReadString E b3)\<rparr>)))
       else if code = DEVSVC_MANAGER_GET_SERVICE \<or> code = DEVSVC_MANAGER_REMOVE_SERVICE then
         rq\<lparr>rq_name := fst (HdfSbufReadString E b0)\<rparr>
       else if code = DEVSVC_MANAGER_REGISTER_SVCLISTENER then
         (case HdfSbufReadUint16 E b0 of (cls, b1) \<Rightarrow>
            rq\<lparr>rq_class := cls, rq_service := fst (HdfSbufReadRemoteService E b1)\<rparr>)
       else if code = DEVSVC_MANAGER_UNREGISTER_SVCLISTENER then
         rq\<lparr>rq_service := fst (HdfSbufReadRemoteService E b0)\<rparr>
       else rq)"

text \<open>The reply is what the stub wrote: the remote objects among its calls.\<close>

definition reply_of :: "(svc_ev \<times> int) list \<Rightarrow> sbuf" where
  "reply_of es = List.map_filter (\<lambda>(e, x). case e of WriteRemote r \<Rightarrow> Some (ItRemote r) | _ \<Rightarrow> None) es"

definition svc_stub ::
  "'g svc_env \<Rightarrow> ('m) ipc_env_scheme \<Rightarrow> nat \<Rightarrow> sbuf \<Rightarrow> 'g svc_sys \<Rightarrow> ret \<times> sbuf \<times> 'g svc_sys" where
  "svc_stub Es Ei c data w =
     (case DevSvcManagerStubDispatch Es True (svc_code_of c) (read_request Ei (svc_code_of c) w data) w of
        (r, w') \<Rightarrow> (r, reply_of (drop (length (sv_ev w)) (sv_ev w')), w'))"

end
