(* ===== verification/Devsvc_Proxy_Facts.thy ===== *)
theory Devsvc_Proxy_Facts
  imports Devsvc_Proxy Svc_Manager_Facts
begin

text \<open>
  Requests of the proxy of the service manager are served as direct calls of its stub; a service that
  one process publishes is found by every other until the process behind it dies.
\<close>

subsection \<open>Requests\<close>

datatype svc_req =
    SvcAdd string u16 nat "string option" | SvcUpdate string u16 nat "string option" | SvcGet string | SvcRemove string

definition info_text :: "string option \<Rightarrow> string" where
  "info_text i = (case i of None \<Rightarrow> [] | Some x \<Rightarrow> x)"

primrec svc_code :: "svc_req \<Rightarrow> svc_code" where
  "svc_code (SvcAdd n c r i) = DEVSVC_MANAGER_ADD_SERVICE"
| "svc_code (SvcUpdate n c r i) = DEVSVC_MANAGER_UPDATE_SERVICE"
| "svc_code (SvcGet n) = DEVSVC_MANAGER_GET_SERVICE"
| "svc_code (SvcRemove n) = DEVSVC_MANAGER_REMOVE_SERVICE"

primrec svc_items :: "svc_req \<Rightarrow> sbuf" where
  "svc_items (SvcAdd n c r i) = [ItStr n, ItU16 c, ItRemote r, ItStr (info_text i)]"
| "svc_items (SvcUpdate n c r i) = [ItStr n, ItU16 c, ItRemote r, ItStr (info_text i)]"
| "svc_items (SvcGet n) = [ItStr n]"
| "svc_items (SvcRemove n) = [ItStr n]"

primrec svc_request_of :: "svc_req \<Rightarrow> svc_request" where
  "svc_request_of (SvcAdd n c r i) =
     \<lparr>rq_token = True, rq_name = Some n, rq_class = Some c, rq_service = Some r, rq_info = Some (info_text i)\<rparr>"
| "svc_request_of (SvcUpdate n c r i) =
     \<lparr>rq_token = True, rq_name = Some n, rq_class = Some c, rq_service = Some r, rq_info = Some (info_text i)\<rparr>"
| "svc_request_of (SvcGet n) =
     \<lparr>rq_token = True, rq_name = Some n, rq_class = None, rq_service = None, rq_info = None\<rparr>"
| "svc_request_of (SvcRemove n) =
     \<lparr>rq_token = True, rq_name = Some n, rq_class = None, rq_service = None, rq_info = None\<rparr>"

definition svc_serve :: "'g svc_env \<Rightarrow> svc_req \<Rightarrow> 'g svc_sys \<Rightarrow> ret \<times> 'g svc_sys" where
  "svc_serve Es q w = DevSvcManagerStubDispatch Es True (svc_code q) (svc_request_of q) w"

lemma svc_code_of_no [simp]: "svc_code_of (svc_code_no c) = c"
  by (cases c) (simp_all add: svc_code_of_def)

lemma read_req:
  "sv_remote w \<noteq> None \<Longrightarrow> read_request Ei (svc_code q) w (ItToken SVCMGR_DESC # svc_items q) = svc_request_of q"
  by (cases q)
    (simp_all add: read_request_def read_token_def HdfSbufReadString_def HdfSbufReadUint16_def
      HdfSbufReadRemoteService_def Let_def)

lemma svc_stub_served:
  assumes "sv_remote w \<noteq> None"
  shows "svc_stub Es Ei (svc_code_no (svc_code q)) (ItToken SVCMGR_DESC # svc_items q) w =
    (case svc_serve Es q w of (r, w') \<Rightarrow> (r, reply_of (drop (length (sv_ev w)) (sv_ev w')), w'))"
  by (simp add: svc_stub_def svc_serve_def read_req [OF assms])

text \<open>A request keeps the remote object of the stub.\<close>

lemma sv_remote_frame [simp]:
  "sv_remote (snd (ObtainServiceObject E n r s)) = sv_remote s" "sv_remote (ReleaseServiceObject E p s) = sv_remote s"
  "sv_remote (snd (sv_call E c s)) = sv_remote s" "sv_remote (sv_bad s) = sv_remote s"
  by (auto simp: ObtainServiceObject_def ReleaseServiceObject_def sv_call_eq sv_bad_def Let_def
      split: option.splits prod.splits)

lemma dispatch_keeps_remote: "sv_remote (snd (DevSvcManagerStubDispatch E b code data s)) = sv_remote s"
proof -
  have o: "sv_remote s1 = sv_remote s" if "ObtainServiceObject E m r s = (x, s1)" for m r x s1
    using sv_remote_frame(1) [of E m r s] that by simp
  show ?thesis
    by (cases code)
      (auto simp: DevSvcManagerStubDispatch_def DevSvcManagerStubAddService_def
        DevSvcManagerStubUpdateService_def DevSvcManagerStubGetService_def DevSvcManagerStubListAllService_def
        DevSvcManagerStubRemoveService_def DevSvcManagerStubRegisterServListener_def
        DevSvcManagerStubUnregisterServListener_def Let_def
        dest: o split: option.splits prod.splits)
qed

interpretation devsvc: remote_interface "[ItToken SVCMGR_DESC]" "\<lambda>q. svc_code_no (svc_code q)" svc_items
  "svc_serve Es" "\<lambda>w. w" "svc_stub Es Ei" "\<lambda>w. sv_remote w \<noteq> None" for Es :: "'g svc_env" and Ei :: ipc_env
proof unfold_locales
  fix w w' :: "'g svc_sys" and q st rep
  assume a: "sv_remote w \<noteq> None"
    "svc_stub Es Ei (svc_code_no (svc_code q)) ([ItToken SVCMGR_DESC] @ svc_items q) w = (st, rep, w')"
  then show s: "(st, w') = svc_serve Es q w"
    by (simp add: svc_stub_served split: prod.splits)
  then show "sv_remote w' \<noteq> None"
    using a(1) dispatch_keeps_remote [of Es True "svc_code q" "svc_request_of q" w]
    by (simp add: svc_serve_def) (metis snd_conv)
qed

subsection \<open>The calls of the proxy\<close>

definition svc_link :: "'w proxy_env \<Rightarrow> 'w proxy_sys \<Rightarrow> nat \<Rightarrow> (nat \<Rightarrow> sbuf \<Rightarrow> 'w \<Rightarrow> ret \<times> sbuf \<times> 'w) \<Rightarrow> bool" where
  "svc_link E s rm stub \<longleftrightarrow> all_fine E \<and> ip_desc s rm = Some SVCMGR_DESC \<and> peer E rm = stub"

lemma link_token: "svc_link E s rm stub \<Longrightarrow> HdfRemoteServiceWriteInterfaceToken E rm s (Some []) = Some [ItToken SVCMGR_DESC]"
  by (simp add: svc_link_def HdfRemoteServiceWriteInterfaceToken_def put_opt_def all_fine_def)

lemma token_frame:
  "HdfRemoteServiceWriteInterfaceToken E rm (s\<lparr>ev := x, ip_bufs := y\<rparr>) b = HdfRemoteServiceWriteInterfaceToken E rm s b"
  by (simp add: HdfRemoteServiceWriteInterfaceToken_def)

lemma add_asked:
  assumes L: "svc_link E s rm stub" and c: "c < class_max"
    and call: "DevSvcManagerProxyAddService class_max E (Some \<lparr>sp_remote = Some rm\<rparr>) (Some n) c (Some (Some r)) i s = (st, s')"
  shows "asked E rm (svc_code_no DEVSVC_MANAGER_ADD_SERVICE) (ItToken SVCMGR_DESC # svc_items (SvcAdd n c r i)) True s st s'"
proof -
  have E: "all_fine E"
    using L by (simp add: svc_link_def)
  let ?build = "\<lambda>t. WriteServiceInfo E n c (Some r) i (HdfRemoteServiceWriteInterfaceToken E rm t (Some []))"
  have b: "?build s = Some (ItToken SVCMGR_DESC # svc_items (SvcAdd n c r i))"
    using E by (simp add: link_token [OF L] WriteServiceInfo_def put_opt_def info_text_def)
  obtain rep where "with_bufs E True (\<lambda>t. send_if E rm (svc_code_no DEVSVC_MANAGER_ADD_SERVICE) (?build t) True t) s = (st, rep, s')"
    using call c [unfolded not_le [symmetric]]
    by (auto simp: DevSvcManagerProxyAddService_def publish_call_def svc_remote_def split: prod.splits)
  from with_bufs_fine [OF E this _ b] show ?thesis
    by (simp add: token_frame)
qed

lemma get_asked:
  assumes L: "svc_link E s rm stub"
    and call: "DevSvcManagerProxyGetService E (Some \<lparr>sp_remote = Some rm\<rparr>) (Some n) s = (x, s')"
  obtains st rep where "stub (svc_code_no DEVSVC_MANAGER_GET_SERVICE) (ItToken SVCMGR_DESC # svc_items (SvcGet n)) (pw s) = (st, rep, pw s')"
    and "x = (if st = HDF_SUCCESS then fst (HdfSbufReadRemoteService E rep) else None)"
proof -
  have E: "all_fine E"
    using L by (simp add: svc_link_def)
  let ?build = "\<lambda>t. put_opt E ItStr (Some n) (HdfRemoteServiceWriteInterfaceToken E rm t (Some []))"
  let ?ys = "ItToken SVCMGR_DESC # svc_items (SvcGet n)"
  have b: "?build s = Some ?ys"
    using E by (simp add: link_token [OF L] put_opt_def)
  obtain st rep where w: "with_bufs E True (\<lambda>t. send_if E rm (svc_code_no DEVSVC_MANAGER_GET_SERVICE) (?build t) True t) s = (st, rep, s')"
    and x: "x = (if st = HDF_SUCCESS then fst (HdfSbufReadRemoteService E rep) else None)"
    using call by (auto simp: DevSvcManagerProxyGetService_def name_call_def split: prod.splits)
  have "stub (svc_code_no DEVSVC_MANAGER_GET_SERVICE) ?ys (pw s) = (st, rep, pw s')"
    using with_bufs_reply [OF E w _ b] L by (simp add: token_frame svc_link_def)
  then show thesis
    using x that by blast
qed

subsection \<open>A published service is found\<close>

lemma get_found:
  assumes L: "svc_link E t rm (svc_stub Es Ei)" and started: "sv_remote (pw t) \<noteq> None"
    and raw: "fst (raw_remote E []) = None"
    and call: "DevSvcManagerProxyGetService E (Some \<lparr>sp_remote = Some rm\<rparr>) (Some n) t = (x, t')"
  shows "x = (if get_perm Es (sv_ev (pw t)) n then mgr_GetService Es (sv_mgr (pw t)) (sv_service (pw t)) n else None)"
proof -
  obtain st rep where
    c: "svc_stub Es Ei (svc_code_no DEVSVC_MANAGER_GET_SERVICE) (ItToken SVCMGR_DESC # svc_items (SvcGet n)) (pw t) = (st, rep, pw t')"
    and x: "x = (if st = HDF_SUCCESS then fst (HdfSbufReadRemoteService E rep) else None)"
    by (rule get_asked [OF L call])
  show ?thesis
  proof (cases "get_perm Es (sv_ev (pw t)) n")
    case True
    then have "svc_serve Es (SvcGet n) (pw t) =
        (HDF_SUCCESS, (case mgr_GetService Es (sv_mgr (pw t)) (sv_service (pw t)) n of
           Some r \<Rightarrow> snd (sv_call Es (WriteRemote r) (pw t)) | None \<Rightarrow> pw t))"
      by (simp add: svc_serve_def DevSvcManagerStubDispatch_def DevSvcManagerStubGetService_def GetServicePermCheck_def
          split: option.split)
    with c svc_stub_served [OF started, of Es Ei "SvcGet n"] x raw True show ?thesis
      by (auto simp: reply_of_def HdfSbufReadRemoteService_def sv_call_eq map_filter_def split: option.splits)
  next
    case False
    then have "fst (svc_serve Es (SvcGet n) (pw t)) \<noteq> HDF_SUCCESS"
      by (simp add: svc_serve_def DevSvcManagerStubDispatch_def DevSvcManagerStubGetService_def GetServicePermCheck_def)
    with c svc_stub_served [OF started, of Es Ei "SvcGet n"] x False show ?thesis
      by (auto split: prod.splits)
  qed
qed

text \<open>What the service manager promises of a name is what a caller's proxy returns.\<close>

lemma sv_remote_run: "(elsewhere Es n D)\<^sup>*\<^sup>* w w' \<Longrightarrow> sv_remote w' = sv_remote w"
proof (induction rule: rtranclp_induct)
  case (step x y)
  have "sv_remote (DevSvcManagerOnServiceDied Es r x) = sv_remote x" for r
    by (auto simp: DevSvcManagerOnServiceDied_def Let_def split: option.split)
  with step show ?case
    by (auto elim!: elsewhere_cases simp: dispatch_keeps_remote)
qed simp

lemma died_remote: "sv_remote (DevSvcManagerOnServiceDied Es r w) = sv_remote w"
  by (auto simp: DevSvcManagerOnServiceDied_def Let_def split: option.split)

text \<open>
  C11. A remote object that is not published yet and that one process publishes through the
  proxy of the service manager, under a free name or in place of an older service, is what every
  process finds under the name through its own proxy if it has the permission to get it, and
  nothing if it has not: after any requests that do not add, update or remove that name and any
  deaths of other services. After the death of the process behind it, and any further requests
  and deaths that do not publish the name again, the name is not found. The processes are linked
  to the manager's stub by an IPC layer that delivers.
\<close>

theorem service_found_until_death:
  assumes C: "mgr_contract Es" and ok: "svc_ok Es (pw s)" and r: "r \<notin> watched (pw s)" and started: "sv_remote (pw s) \<noteq> None"
    and link: "svc_link E s rm (svc_stub Es Ei)"
    and add: "DevSvcManagerProxyAddService class_max E (Some \<lparr>sp_remote = Some rm\<rparr>) (Some n) c (Some (Some r)) i s
      = (HDF_SUCCESS, s1)"
    and run: "(elsewhere Es n {r})\<^sup>*\<^sup>* (pw s1) w" and run2: "(elsewhere Es n {})\<^sup>*\<^sup>* (DevSvcManagerOnServiceDied Es r w) w'"
    and link2: "svc_link E2 t rm2 (svc_stub Es Ei)" and raw: "fst (raw_remote E2 []) = None"
    and get: "DevSvcManagerProxyGetService E2 (Some \<lparr>sp_remote = Some rm2\<rparr>) (Some n) t = (x, t')"
  shows "(pw t = w \<longrightarrow> x = (if get_perm Es (sv_ev w) n then Some r else None)) \<and> (pw t = w' \<longrightarrow> x = None)"
proof -
  let ?data = "svc_request_of (SvcAdd n c r i)"
  have cls: "c < class_max"
    using add by (auto simp: DevSvcManagerProxyAddService_def publish_call_def svc_remote_def split: if_splits)
  obtain rep where a: "svc_stub Es Ei (svc_code_no DEVSVC_MANAGER_ADD_SERVICE)
      (ItToken SVCMGR_DESC # svc_items (SvcAdd n c r i)) (pw s) = (HDF_SUCCESS, rep, pw s1)"
    using asked_peer [OF add_asked [OF link cls add]] link by (auto simp: svc_link_def)
  have d: "DevSvcManagerStubDispatch Es True DEVSVC_MANAGER_ADD_SERVICE ?data (pw s) = (HDF_SUCCESS, pw s1)"
    using a svc_stub_served [OF started, of Es Ei "SvcAdd n c r i"] by (simp add: svc_serve_def split: prod.splits)
  have "svc_ok Es (pw s1)" "serves Es n r (pw s1)"
    using add_serves [OF C ok r _ d] by simp_all
  from serves_run [OF C run this] have w: "svc_ok Es w" "serves Es n r w"
    by simp_all
  from serves_died [OF C w] have "mgr_GetObject Es (sv_mgr w') n = None"
    using free_run [OF C run2] by blast
  moreover have "sv_remote w \<noteq> None" "sv_remote w' \<noteq> None"
    using sv_remote_run [OF run] sv_remote_run [OF run2] d started
      dispatch_keeps_remote [of Es True DEVSVC_MANAGER_ADD_SERVICE ?data "pw s"] by (simp_all add: died_remote)
  ultimately show ?thesis
    using get_found [OF link2 _ raw get] w(2) by (auto simp: mgr_contractD(6) [OF C] serves_def)
qed

subsection \<open>Examples\<close>

definition sp_demo_ipc :: ipc_env where
  "sp_demo_ipc = \<lparr>mem_ok = (\<lambda>_ _. True), mem_junk = (\<lambda>_ _. 0), copy_ok = (\<lambda>d n. n \<le> d),
     ipc_api = (\<lambda>_ _. 1), ipc_new = (\<lambda>_. None), put_ok = (\<lambda>_ _. True), raw_u32 = (\<lambda>b. (None, b)),
     raw_u16 = (\<lambda>b. (None, b)), raw_str = (\<lambda>b. (None, b)), raw_remote = (\<lambda>b. (None, b))\<rparr>"

definition sp_demo_env :: "(string \<Rightarrow> nat option) svc_sys proxy_env" where
  "sp_demo_env = ipc_env.extend sp_demo_ipc \<lparr>peer = (\<lambda>_. svc_stub svc_demo_env sp_demo_ipc)\<rparr>"

definition sp_demo :: "(string \<Rightarrow> nat option) svc_sys proxy_sys" where
  "sp_demo = \<lparr>h_next = 0, h_blk = Map.empty, h_bad = False, ev = [], ip_bufs = 0,
     ip_desc = (\<lambda>_. Some SVCMGR_DESC), pw = svc_demo\<rparr>"

lemma sp_demo_link: "ip_desc s 9 = Some SVCMGR_DESC \<Longrightarrow> svc_link sp_demo_env s 9 (svc_stub svc_demo_env sp_demo_ipc)"
  by (simp add: svc_link_def all_fine_def sp_demo_env_def ipc_env.extend_def sp_demo_ipc_def)

lemma sp_demo_facts:
  "50 \<notin> watched (pw sp_demo)" "sv_remote (pw sp_demo) \<noteq> None" "get_perm svc_demo_env tr ''led''" "(1 :: u16) < 5"
  "fst (raw_remote sp_demo_env []) = None" "svc_ok svc_demo_env (pw sp_demo)"
  "ip_desc sp_demo 9 = Some SVCMGR_DESC"
  "fst (svc_serve svc_demo_env (SvcAdd ''led'' 1 50 None) (pw sp_demo)) = HDF_SUCCESS"
  using svc_demo_ok
  by (simp_all add: watched_def sp_demo_def svc_demo_def svc_demo_env_def lh_env.defs sp_demo_env_def
      ipc_env.extend_def sp_demo_ipc_def svc_serve_def info_text_def DevSvcManagerStubDispatch_def
      DevSvcManagerStubAddService_def AddServicePermCheck_def ObtainServiceObject_def alloc_eqs sv_call_eq
      lh_demo_env_def osal_env.defs osal_demo_env_def lh_demo_def osal_sys.defs osal_demo_def
      ReleaseServiceObject_def)

lemma service_found_until_death_witness:
  "\<exists>s1 t'. DevSvcManagerProxyAddService 5 sp_demo_env (Some \<lparr>sp_remote = Some 9\<rparr>) (Some ''led'') 1 (Some (Some 50))
      None sp_demo = (HDF_SUCCESS, s1)
    \<and> DevSvcManagerProxyGetService sp_demo_env (Some \<lparr>sp_remote = Some 9\<rparr>) (Some ''led'') s1 = (Some 50, t')"
proof -
  let ?p = "Some \<lparr>sp_remote = Some 9\<rparr>"
  obtain st s1 where a: "DevSvcManagerProxyAddService 5 sp_demo_env ?p (Some ''led'') 1 (Some (Some 50)) None sp_demo = (st, s1)"
    by (rule prod.exhaust)
  obtain x t' where g: "DevSvcManagerProxyGetService sp_demo_env ?p (Some ''led'') s1 = (x, t')"
    by (rule prod.exhaust)
  note L = sp_demo_link [OF sp_demo_facts(7)]
  note A = add_asked [OF L sp_demo_facts(4) a]
  obtain rep where "svc_stub svc_demo_env sp_demo_ipc (svc_code_no DEVSVC_MANAGER_ADD_SERVICE)
      (ItToken SVCMGR_DESC # svc_items (SvcAdd ''led'' 1 50 None)) (pw sp_demo) = (st, rep, pw s1)"
    using asked_peer [OF A] L by (auto simp: svc_link_def)
  then have "st = HDF_SUCCESS"
    using svc_stub_served [OF sp_demo_facts(2), of svc_demo_env sp_demo_ipc "SvcAdd ''led'' 1 50 None"] sp_demo_facts(8)
    by (simp split: prod.splits)
  moreover have "svc_link sp_demo_env s1 9 (svc_stub svc_demo_env sp_demo_ipc)"
    using asked_frame(1) [OF A] sp_demo_facts(7) by (intro sp_demo_link) simp
  ultimately show ?thesis
    using service_found_until_death [OF svc_demo_contract sp_demo_facts(6,1,2) L _ rtranclp.rtrancl_refl rtranclp.rtrancl_refl
        _ sp_demo_facts(5) g] a g sp_demo_facts(3)
    by auto
qed

end
