(* ===== verification/Hdi_Client.thy ===== *)
theory Hdi_Client
  imports Devsvc_Proxy Devmgr_Ipc
begin

text \<open>
  The C clients of the two managers: \<open>uhdf2/hdi/src/servmgr_client.c\<close>, \<open>uhdf2/hdi/src/devmgr_client.c\<close>
  and the listener for the status of services, \<open>uhdf2/hdi/src/servstat_listener.c\<close>.

  A client object is its heap block with its remote object. The dispatcher of a remote object is set.
\<close>

subsection \<open>The client of the service manager\<close>

record HDIServiceManagerClient =
  smc_remote :: "nat option"

record ServstatListenerStub =
  sls_remote :: "nat option"
  sls_callback :: bool

definition token_opt ::
  "('m) ipc_env_scheme \<Rightarrow> nat option \<Rightarrow> ('a) ipc_sys_scheme \<Rightarrow> sbuf option \<Rightarrow> sbuf option" where
  "token_opt E remote s b = Option.bind remote (\<lambda>rm. HdfRemoteServiceWriteInterfaceToken E rm s b)"

definition ServiceManagerHdiCall ::
  "'w proxy_env \<Rightarrow> nat option \<Rightarrow> nat \<Rightarrow> sbuf \<Rightarrow> bool \<Rightarrow> 'w proxy_sys \<Rightarrow> ret \<times> sbuf \<times> 'w proxy_sys" where
  "ServiceManagerHdiCall E remote cmd data reply s =
     (case remote of None \<Rightarrow> (HDF_ERR_INVALID_OBJECT, [], s) | Some rm \<Rightarrow> ipc_send E rm cmd data reply s)"

definition HDIServMgrGetService ::
  "'w proxy_env \<Rightarrow> HDIServiceManagerClient option \<Rightarrow> string option \<Rightarrow> 'w proxy_sys \<Rightarrow> nat option \<times> 'w proxy_sys" where
  "HDIServMgrGetService E iServMgr serviceName s =
     (case (iServMgr, serviceName) of
        (Some c, Some name) \<Rightarrow>
          (case with_bufs E True
              (\<lambda>t. case put E (ItStr name) (token_opt E (smc_remote c) t (Some [])) of
                 None \<Rightarrow> (HDF_FAILURE, [], t)
               | Some data \<Rightarrow> ServiceManagerHdiCall E (smc_remote c) (svc_code_no DEVSVC_MANAGER_GET_SERVICE) data True t) s of
             (status, reply, s1) \<Rightarrow>
               (if status = HDF_SUCCESS then fst (HdfSbufReadRemoteService E reply) else None, s1))
      | _ \<Rightarrow> (None, s))"

definition ServiceStatusListenerMarshalling ::
  "('m) ipc_env_scheme \<Rightarrow> ServstatListenerStub option \<Rightarrow> sbuf option \<Rightarrow> sbuf option" where
  "ServiceStatusListenerMarshalling E listener buf =
     (case listener of None \<Rightarrow> None | Some l \<Rightarrow> put_opt E ItRemote (sls_remote l) buf)"

text \<open>A request that cannot be written is dropped without recycling its buffer.\<close>

definition HDIServMgrRegisterServiceStatusListener ::
  "'w proxy_env \<Rightarrow> HDIServiceManagerClient option \<Rightarrow> ServstatListenerStub option \<Rightarrow> u16 \<Rightarrow> 'w proxy_sys
   \<Rightarrow> ret \<times> 'w proxy_sys" where
  "HDIServMgrRegisterServiceStatusListener E self listener deviceClass s =
     (case self of None \<Rightarrow> (HDF_ERR_INVALID_PARAM, s) | Some c \<Rightarrow>
       if listener = None then (HDF_ERR_INVALID_PARAM, s)
       else
         (case HdfSbufTypedObtain E s of (ok, s1) \<Rightarrow>
            if \<not> ok then (HDF_ERR_MALLOC_FAIL, s1)
            else
              (case ServiceStatusListenerMarshalling E listener
                  (put E (ItU16 deviceClass) (token_opt E (smc_remote c) s1 (Some []))) of
                 None \<Rightarrow> (HDF_FAILURE, s1)
               | Some data \<Rightarrow>
                   (case ServiceManagerHdiCall E (smc_remote c) (svc_code_no DEVSVC_MANAGER_REGISTER_SVCLISTENER) data False s1 of
                      (ret, _, s2) \<Rightarrow> (ret, HdfSbufRecycle ok s2)))))"

definition HDIServMgrUnregisterServiceStatusListener ::
  "'w proxy_env \<Rightarrow> HDIServiceManagerClient option \<Rightarrow> ServstatListenerStub option \<Rightarrow> 'w proxy_sys
   \<Rightarrow> ret \<times> 'w proxy_sys" where
  "HDIServMgrUnregisterServiceStatusListener E self listener s =
     (case self of None \<Rightarrow> (HDF_ERR_INVALID_PARAM, s) | Some c \<Rightarrow>
       if listener = None then (HDF_ERR_INVALID_PARAM, s)
       else
         (case HdfSbufTypedObtain E s of (ok, s1) \<Rightarrow>
            if \<not> ok then (HDF_ERR_MALLOC_FAIL, s1)
            else
              (case ServiceStatusListenerMarshalling E listener (token_opt E (smc_remote c) s1 (Some [])) of
                 None \<Rightarrow> (HDF_FAILURE, s1)
               | Some data \<Rightarrow>
                   (case ServiceManagerHdiCall E (smc_remote c) (svc_code_no DEVSVC_MANAGER_UNREGISTER_SVCLISTENER) data False s1 of
                      (ret, _, s2) \<Rightarrow> (ret, HdfSbufRecycle ok s2)))))"

definition HDIServiceManagerGet ::
  "('m) ipc_env_scheme \<Rightarrow> ('a) ipc_sys_scheme \<Rightarrow> (nat \<times> HDIServiceManagerClient) option \<times> ('a) ipc_sys_scheme" where
  "HDIServiceManagerGet E s =
     (case HdfRemoteServiceGet E s of
        (None, s1) \<Rightarrow> (None, s1)
      | (Some rm, s1) \<Rightarrow>
          (case OsalMemAlloc E (Objs ''HDIServiceManagerClient'' 1) s1 of
             (None, s2) \<Rightarrow> (None, HdfRemoteServiceRecycle E (Some rm) s2)
           | (Some p, s2) \<Rightarrow>
               (case HdfRemoteServiceSetInterfaceDesc E rm SVCMGR_DESC s2 of (ok, s3) \<Rightarrow>
                  if \<not> ok then (None, HdfRemoteServiceRecycle E (Some rm) s3)
                  else (Some (p, \<lparr>smc_remote = Some rm\<rparr>), s3))))"

definition HDIServiceManagerRelease ::
  "('m) ipc_env_scheme \<Rightarrow> (nat \<times> HDIServiceManagerClient) option \<Rightarrow> ('a) ipc_sys_scheme \<Rightarrow> ('a) ipc_sys_scheme" where
  "HDIServiceManagerRelease E servmgr s =
     (case servmgr of None \<Rightarrow> s | Some (p, c) \<Rightarrow>
        OsalMemFree (Some p) (HdfRemoteServiceRecycle E (smc_remote c) s))"

subsection \<open>The listener for the status of services\<close>

definition SERVSTAT_LISTENER_INTERFACE_DESCRIPTOR :: string where
  "SERVSTAT_LISTENER_INTERFACE_DESCRIPTOR = ''HDI.IServiceStatusListener.V1_0''"

text \<open>
  \<open>notify\<close> is the framework's code of a notification and \<open>unmarshal\<close> its function that reads one. The
  second result is what the callback was called with.
\<close>

definition ServstatListenerStubRemoteDispatch ::
  "nat \<Rightarrow> (sbuf \<Rightarrow> 'st option) \<Rightarrow> ServstatListenerStub \<Rightarrow> nat \<Rightarrow> sbuf \<Rightarrow> ('a) ipc_sys_scheme \<Rightarrow> ret \<times> 'st option" where
  "ServstatListenerStubRemoteDispatch notify unmarshal stub cmdid data s =
     (if cmdid \<noteq> notify then (HDF_ERR_NOT_SUPPORT, None)
      else
        (case HdfRemoteServiceCheckInterfaceToken (sls_remote stub) s data of (ok, b) \<Rightarrow>
           if \<not> ok then (HDF_ERR_INVALID_PARAM, None)
           else
             (case unmarshal b of None \<Rightarrow> (HDF_ERR_INVALID_PARAM, None) | Some status \<Rightarrow>
                if sls_callback stub then (HDF_SUCCESS, Some status) else (HDF_ERR_INVALID_OBJECT, None))))"

definition HdiServiceStatusListenerNewInstance ::
  "('m) ipc_env_scheme \<Rightarrow> ('a) ipc_sys_scheme \<Rightarrow> (nat \<times> ServstatListenerStub) option \<times> ('a) ipc_sys_scheme" where
  "HdiServiceStatusListenerNewInstance E s =
     (case OsalMemCalloc E (Objs ''ServstatListenerStub'' 1) s of
        (None, s1) \<Rightarrow> (None, s1)
      | (Some p, s1) \<Rightarrow>
          (case HdfRemoteServiceObtain E s1 of
             (None, s2) \<Rightarrow> (None, OsalMemFree (Some p) s2)
           | (Some rm, s2) \<Rightarrow>
               (case HdfRemoteServiceSetInterfaceDesc E rm SERVSTAT_LISTENER_INTERFACE_DESCRIPTOR s2 of (ok, s3) \<Rightarrow>
                  if \<not> ok then (None, OsalMemFree (Some p) (HdfRemoteServiceRecycle E (Some rm) s3))
                  else (Some (p, \<lparr>sls_remote = Some rm, sls_callback = False\<rparr>), s3))))"

definition HdiServiceStatusListenerFree ::
  "('m) ipc_env_scheme \<Rightarrow> (nat \<times> ServstatListenerStub) option \<Rightarrow> ('a) ipc_sys_scheme \<Rightarrow> ('a) ipc_sys_scheme" where
  "HdiServiceStatusListenerFree E listener s =
     (case listener of None \<Rightarrow> s | Some (p, l) \<Rightarrow>
        OsalMemFree (Some p) (HdfRemoteServiceRecycle E (sls_remote l) s))"

subsection \<open>The client of the device manager\<close>

definition HDF_LOCAL_SERVICE :: u32 where "HDF_LOCAL_SERVICE = 0"
definition HDF_REMOTE_SERVICE :: u32 where "HDF_REMOTE_SERVICE = 1"

record HDIDeviceManager =
  dmc_remote :: "nat option"

text \<open>A node and its name are one heap block.\<close>

record DeviceInfoNode =
  in_block :: nat
  in_svcName :: string
  in_deviceType :: u32

record DeviceInfoList =
  deviceCnt :: u32
  infos :: "DeviceInfoNode list"

definition sizeof_node :: nat where "sizeof_node = 32"

definition DeviceManagerHdiCall ::
  "'w proxy_env \<Rightarrow> nat option \<Rightarrow> nat \<Rightarrow> sbuf \<Rightarrow> bool \<Rightarrow> 'w proxy_sys \<Rightarrow> ret \<times> sbuf \<times> 'w proxy_sys" where
  "DeviceManagerHdiCall E remote cmd data reply s =
     (case remote of None \<Rightarrow> (HDF_ERR_INVALID_OBJECT, [], s) | Some rm \<Rightarrow> ipc_send E rm cmd data reply s)"

definition free_node :: "DeviceInfoNode \<Rightarrow> ('a) ipc_sys_scheme \<Rightarrow> ('a) ipc_sys_scheme" where
  "free_node n s = OsalMemFree (Some (in_block n)) s"

definition DevmgrFreeQueryDeviceListImpl ::
  "DeviceInfoList option \<Rightarrow> ('a) ipc_sys_scheme \<Rightarrow> DeviceInfoList option \<times> ('a) ipc_sys_scheme" where
  "DevmgrFreeQueryDeviceListImpl lst s =
     (case lst of None \<Rightarrow> (None, s) | Some l \<Rightarrow> (Some \<lparr>deviceCnt = 0, infos = []\<rparr>, fold free_node (infos l) s))"

definition DevmgrFreeQueryDeviceList ::
  "DeviceInfoList option \<Rightarrow> ('a) ipc_sys_scheme \<Rightarrow> DeviceInfoList option \<times> ('a) ipc_sys_scheme" where
  "DevmgrFreeQueryDeviceList lst s = DevmgrFreeQueryDeviceListImpl lst s"

text \<open>
  The loop ends at the first read of a string that fails; whether it does is up to the buffer. The
  local variable \<open>deviceType\<close> keeps its value between turns and has none at first.
\<close>

partial_function (option) HdfObtainDeviceInfo ::
  "('m) ipc_env_scheme \<Rightarrow> u32 option \<Rightarrow> DeviceInfoList \<Rightarrow> sbuf \<Rightarrow> ('a) ipc_sys_scheme
   \<Rightarrow> (ret \<times> DeviceInfoList \<times> ('a) ipc_sys_scheme) option" where
  "HdfObtainDeviceInfo E deviceType l reply s =
     (case HdfSbufReadString E reply of
        (None, _) \<Rightarrow> Some (HDF_SUCCESS, l, s)
      | (Some svrName, b1) \<Rightarrow>
          (case OsalMemCalloc E (Bytes (sizeof_node + Suc (length svrName))) s of
             (None, s1) \<Rightarrow>
               (case DevmgrFreeQueryDeviceListImpl (Some l) s1 of (l1, s2) \<Rightarrow> Some (HDF_FAILURE, the l1, s2))
           | (Some base, s1) \<Rightarrow>
               if \<not> copy_ok E (Suc (length svrName)) (Suc (length svrName))
               then HdfObtainDeviceInfo E deviceType l b1 (OsalMemFree (Some base) s1)
               else
                 (case HdfSbufReadInt32 E b1 of (t, b2) \<Rightarrow>
                   let dt = (if t = None then deviceType else t);
                       s2 = (if dt = None then s1\<lparr>h_bad := True\<rparr> else s1) in
                   if dt \<noteq> Some HDF_LOCAL_SERVICE \<and> dt \<noteq> Some HDF_REMOTE_SERVICE
                   then HdfObtainDeviceInfo E dt l b2 (OsalMemFree (Some base) s2)
                   else
                     HdfObtainDeviceInfo E dt
                       (l\<lparr>infos := infos l @ [\<lparr>in_block = base, in_svcName = svrName, in_deviceType = the dt\<rparr>],
                          deviceCnt := deviceCnt l + 1\<rparr>) b2 s2)))"

text \<open>\<open>None\<close> when the loop over the reply does not end.\<close>

definition DevmgrQueryDeviceInfo ::
  "'w proxy_env \<Rightarrow> HDIDeviceManager \<Rightarrow> DeviceInfoList \<Rightarrow> u32 \<Rightarrow> 'w proxy_sys
   \<Rightarrow> (ret \<times> DeviceInfoList \<times> 'w proxy_sys) option" where
  "DevmgrQueryDeviceInfo E iDevMgr l type s =
     (case HdfSbufTypedObtain E s of (reply, s1) \<Rightarrow>
        if \<not> reply then Some (HDF_ERR_MALLOC_FAIL, l, s1)
        else
          (case HdfSbufTypedObtain E s1 of (data, s2) \<Rightarrow>
             if \<not> data then Some (HDF_ERR_MALLOC_FAIL, l, HdfSbufRecycle reply s2)
             else
               map_option (\<lambda>(ret, l1, s3). (ret, l1, HdfSbufRecycle data (HdfSbufRecycle reply s3)))
                 (case token_opt E (dmc_remote iDevMgr) s2 (Some []) of
                    None \<Rightarrow> Some (HDF_FAILURE, l, s2)
                  | Some b \<Rightarrow>
                      (case DeviceManagerHdiCall E (dmc_remote iDevMgr) DEVMGR_SERVICE_QUERY_DEVICE
                          (case put E (ItI32 type) (Some b) of None \<Rightarrow> b | Some b1 \<Rightarrow> b1) True s2 of
                         (ret, rep, s3) \<Rightarrow>
                           if ret \<noteq> HDF_SUCCESS then Some (ret, \<lparr>deviceCnt = 0, infos = []\<rparr>, s3)
                           else HdfObtainDeviceInfo E None \<lparr>deviceCnt = 0, infos = []\<rparr> rep s3))))"

text \<open>The status asked for, \<open>HDF_SERVICE_USABLE\<close> or \<open>HDF_SERVICE_UNUSABLE\<close> of the framework, is a parameter.\<close>

definition query_call ::
  "u32 \<Rightarrow> 'w proxy_env \<Rightarrow> HDIDeviceManager option \<Rightarrow> DeviceInfoList option \<Rightarrow> 'w proxy_sys
   \<Rightarrow> (ret \<times> DeviceInfoList option \<times> 'w proxy_sys) option" where
  "query_call status E self lst s =
     (case (self, lst) of
        (Some d, Some l) \<Rightarrow> map_option (\<lambda>(r, l1, s1). (r, Some l1, s1)) (DevmgrQueryDeviceInfo E d l status s)
      | _ \<Rightarrow> Some (HDF_ERR_INVALID_PARAM, lst, s))"

definition DevmgrQueryUsableDeviceInfo ::
  "u32 \<Rightarrow> 'w proxy_env \<Rightarrow> HDIDeviceManager option \<Rightarrow> DeviceInfoList option \<Rightarrow> 'w proxy_sys
   \<Rightarrow> (ret \<times> DeviceInfoList option \<times> 'w proxy_sys) option" where
  "DevmgrQueryUsableDeviceInfo usable = query_call usable"

definition DevmgrQueryUnusableDeviceInfo ::
  "u32 \<Rightarrow> 'w proxy_env \<Rightarrow> HDIDeviceManager option \<Rightarrow> DeviceInfoList option \<Rightarrow> 'w proxy_sys
   \<Rightarrow> (ret \<times> DeviceInfoList option \<times> 'w proxy_sys) option" where
  "DevmgrQueryUnusableDeviceInfo unusable = query_call unusable"

text \<open>Loading and unloading differ in the code.\<close>

definition client_load ::
  "nat \<Rightarrow> 'w proxy_env \<Rightarrow> HDIDeviceManager option \<Rightarrow> string option \<Rightarrow> 'w proxy_sys \<Rightarrow> ret \<times> 'w proxy_sys" where
  "client_load code E iDevMgr serviceName s =
     (case (iDevMgr, serviceName) of
        (Some d, Some name) \<Rightarrow>
          (case HdfSbufTypedObtain E s of (data, s1) \<Rightarrow>
             if \<not> data then (HDF_ERR_MALLOC_FAIL, s1)
             else
               (case put E (ItStr name) (token_opt E (dmc_remote d) s1 (Some [])) of
                  None \<Rightarrow> (HDF_FAILURE, HdfSbufRecycle data s1)
                | Some b \<Rightarrow>
                    (case DeviceManagerHdiCall E (dmc_remote d) code b False s1 of
                       (status, _, s2) \<Rightarrow> (status, HdfSbufRecycle data s2))))
      | _ \<Rightarrow> (HDF_ERR_INVALID_PARAM, s))"

definition DevmgrLoadDevice ::
  "'w proxy_env \<Rightarrow> HDIDeviceManager option \<Rightarrow> string option \<Rightarrow> 'w proxy_sys \<Rightarrow> ret \<times> 'w proxy_sys" where
  "DevmgrLoadDevice = client_load DEVMGR_SERVICE_LOAD_DEVICE"

definition DevmgrUnloadDevice ::
  "'w proxy_env \<Rightarrow> HDIDeviceManager option \<Rightarrow> string option \<Rightarrow> 'w proxy_sys \<Rightarrow> ret \<times> 'w proxy_sys" where
  "DevmgrUnloadDevice = client_load DEVMGR_SERVICE_UNLOAD_DEVICE"

definition DEVICE_MANAGER_SERVICE :: string where "DEVICE_MANAGER_SERVICE = ''hdf_device_manager''"

definition HDIDeviceManagerGet ::
  "'w proxy_env \<Rightarrow> 'w proxy_sys \<Rightarrow> (nat \<times> HDIDeviceManager) option \<times> 'w proxy_sys" where
  "HDIDeviceManagerGet E s =
     (case HDIServiceManagerGet E s of
        (None, s1) \<Rightarrow> (None, s1)
      | (Some (q, c), s1) \<Rightarrow>
          (case HDIServMgrGetService E (Some c) (Some DEVICE_MANAGER_SERVICE) s1 of (remote, s2) \<Rightarrow>
            (case (remote, HDIServiceManagerRelease E (Some (q, c)) s2) of
               (None, s3) \<Rightarrow> (None, s3)
             | (Some rm, s3) \<Rightarrow>
                 (case OsalMemAlloc E (Objs ''HDIDeviceManager'' 1) s3 of
                    (None, s4) \<Rightarrow> (None, HdfRemoteServiceRecycle E (Some rm) s4)
                  | (Some p, s4) \<Rightarrow>
                      (case HdfRemoteServiceSetInterfaceDesc E rm DEVMGR_DESC s4 of (ok, s5) \<Rightarrow>
                         if \<not> ok then (None, HdfRemoteServiceRecycle E (Some rm) s5)
                         else (Some (p, \<lparr>dmc_remote = Some rm\<rparr>), s5))))))"

definition HDIDeviceManagerRelease ::
  "('m) ipc_env_scheme \<Rightarrow> (nat \<times> HDIDeviceManager) option \<Rightarrow> ('a) ipc_sys_scheme \<Rightarrow> ('a) ipc_sys_scheme" where
  "HDIDeviceManagerRelease E devmgr s =
     (case devmgr of None \<Rightarrow> s | Some (p, d) \<Rightarrow>
        OsalMemFree (Some p) (HdfRemoteServiceRecycle E (dmc_remote d) s))"

end
