(* ===== verification/Hdi_Client_Facts.thy ===== *)
theory Hdi_Client_Facts
  imports Hdi_Client Devmgr_Ipc_Facts
begin

text \<open>
  A query of the device manager through its client: the list that comes back holds the devices the
  manager selects, and freeing it gives the memory back.
\<close>

subsection \<open>Reading the reply\<close>

text \<open>\<open>s'\<close> is \<open>s\<close> with the blocks \<open>bs\<close>, and nothing else.\<close>

definition adds :: "('a) ipc_sys_scheme \<Rightarrow> nat list \<Rightarrow> ('a) ipc_sys_scheme \<Rightarrow> bool" where
  "adds s bs s' \<longleftrightarrow>
     (\<exists>n f. s' = s\<lparr>h_next := n, h_blk := f\<rparr>) \<and> heap_ok s' \<and> distinct bs
     \<and> (\<forall>i \<in> set bs. h_blk s i = None \<and> h_blk s' i \<noteq> None) \<and> (\<forall>i. i \<notin> set bs \<longrightarrow> h_blk s' i = h_blk s i)"

lemma adds_nil: "heap_ok s \<Longrightarrow> adds s [] s"
  by (auto simp: adds_def intro!: exI [of _ "h_next s"] exI [of _ "h_blk s"])

lemma adds_cons:
  assumes ok: "heap_ok s" and a: "adds (s\<lparr>h_next := Suc (h_next s), h_blk := (h_blk s)(h_next s \<mapsto> x)\<rparr>) bs s'"
  shows "adds s (h_next s # bs) s'"
proof -
  have fr: "h_blk s (h_next s) = None"
    using ok by (simp add: heap_ok_def)
  then have "h_next s \<notin> set bs"
    using a by (auto simp: adds_def)
  then show ?thesis
    using a fr by (auto simp: adds_def split: if_splits)
qed

lemma free_nodes_eq: "fold free_node ns s = fold LOS_MemFree (map in_block ns) s"
  by (induction ns arbitrary: s) (simp_all add: free_node_def OsalMemFree_def)

lemma adds_free:
  assumes "adds s (map in_block ns) s'"
  shows "h_blk (fold free_node ns s') = h_blk s" and "h_bad (fold free_node ns s') = h_bad s"
proof -
  have "h_bad (fold LOS_MemFree (map in_block ns) s') = h_bad s'
    \<and> h_blk (fold LOS_MemFree (map in_block ns) s') = (\<lambda>i. if i \<in> set (map in_block ns) then None else h_blk s' i)"
    by (rule fold_free) (use assms in \<open>auto simp: adds_def\<close>)
  then show "h_blk (fold free_node ns s') = h_blk s" and "h_bad (fold free_node ns s') = h_bad s"
    using assms by (auto simp: free_nodes_eq adds_def fun_eq_iff)
qed

lemma adds_bufs: "adds s bs s' \<Longrightarrow> adds (s\<lparr>ip_bufs := y\<rparr>) bs (s'\<lparr>ip_bufs := y\<rparr>)"
  unfolding adds_def heap_ok_def by (cases s) auto

lemma adds_bufs_eq: "adds s bs s' \<Longrightarrow> ip_bufs s' = ip_bufs s"
  by (auto simp: adds_def)

lemma adds_pw: "adds s bs s' \<Longrightarrow> pw s' = pw s"
  by (auto simp: adds_def)

lemma recycle_two: "ip_bufs s = Suc (Suc n) \<Longrightarrow> HdfSbufRecycle True (HdfSbufRecycle True s) = s\<lparr>ip_bufs := n\<rparr>"
  by (simp add: HdfSbufRecycle_def)

definition node_info :: "DeviceInfoNode \<Rightarrow> string \<times> u32" where
  "node_info n = (in_svcName n, in_deviceType n)"

definition info_pair :: "dev_info \<Rightarrow> string \<times> u32" where
  "info_pair i = (the (qi_svcName i), qi_deviceType i)"

lemma obtain_fine:
  assumes m: "\<And>n z. mem_ok E n z" and cp: "\<And>n. copy_ok E n n" and raw: "fst (raw_str E []) = None"
    and ty: "\<forall>i \<in> set is. qi_deviceType i = HDF_LOCAL_SERVICE \<or> qi_deviceType i = HDF_REMOTE_SERVICE"
    and ok: "heap_ok s"
  shows "\<exists>ns s'. HdfObtainDeviceInfo E dt l (concat (map query_items is)) s =
      Some (HDF_SUCCESS, \<lparr>deviceCnt = deviceCnt l + of_nat (length is), infos = infos l @ ns\<rparr>, s')
    \<and> map node_info ns = map info_pair is \<and> adds s (map in_block ns) s'"
  using ty ok
proof (induction "is" arbitrary: dt l s)
  case Nil
  have "HdfSbufReadString E [] = (None, snd (raw_str E []))"
    using raw by (simp add: HdfSbufReadString_def prod_eq_iff)
  then have "HdfObtainDeviceInfo E dt l [] s = Some (HDF_SUCCESS, l, s)"
    by (subst HdfObtainDeviceInfo.simps) simp
  then show ?case
    using adds_nil [OF Nil(2)] by (intro exI [of _ "[]"] exI [of _ s]) simp
next
  case (Cons i "is")
  let ?name = "the (qi_svcName i)" and ?t = "qi_deviceType i"
  let ?x = "replicate (sizeof_node + Suc (length ?name)) 0"
  let ?s1 = "s\<lparr>h_next := Suc (h_next s), h_blk := (h_blk s)(h_next s \<mapsto> ?x)\<rparr>"
  let ?n = "\<lparr>in_block = h_next s, in_svcName = ?name, in_deviceType = ?t\<rparr>"
  let ?l1 = "l\<lparr>infos := infos l @ [?n], deviceCnt := deviceCnt l + 1\<rparr>"
  have t: "?t = HDF_LOCAL_SERVICE \<or> ?t = HDF_REMOTE_SERVICE"
    using Cons.prems by simp
  have "heap_ok ?s1"
    using Cons.prems(2) by (simp add: heap_ok_def)
  from Cons.IH [OF _ this, of "Some ?t" ?l1] Cons.prems(1)
  obtain ns s' where ih: "HdfObtainDeviceInfo E (Some ?t) ?l1 (concat (map query_items is)) ?s1 =
      Some (HDF_SUCCESS, \<lparr>deviceCnt = deviceCnt ?l1 + of_nat (length is), infos = infos ?l1 @ ns\<rparr>, s')"
    "map node_info ns = map info_pair is" "adds ?s1 (map in_block ns) s'"
    by auto
  have "HdfObtainDeviceInfo E dt l (concat (map query_items (i # is))) s =
      HdfObtainDeviceInfo E (Some ?t) ?l1 (concat (map query_items is)) ?s1"
    using t
    by (subst HdfObtainDeviceInfo.simps)
      (auto simp: query_items_def HdfSbufReadString_def HdfSbufReadInt32_def alloc_eqs m cp Let_def)
  moreover have "node_info ?n = info_pair i"
    by (simp add: node_info_def info_pair_def)
  ultimately show ?case
    using ih adds_cons [OF Cons.prems(2) ih(3)]
    by (intro exI [of _ "?n # ns"] exI [of _ s']) (simp add: algebra_simps)
qed

subsection \<open>A query\<close>

lemma pw_frame [simp]: "pw (s\<lparr>ev := x, ip_bufs := y\<rparr>) = pw s" "pw (s\<lparr>ip_bufs := y\<rparr>) = pw s"
  "pw (s\<lparr>ev := x\<rparr>) = pw s"
  "pw (s\<lparr>h_next := n, h_blk := f\<rparr>) = pw s"
  by simp_all

lemma pw_upd_same: "x = pw s \<Longrightarrow> s\<lparr>pw := x\<rparr> = s"
  by (cases s) simp

lemma obtain_two:
  assumes "all_fine E"
  obtains es where "HdfSbufTypedObtain E s = (True, s\<lparr>ev := ev s @ [es], ip_bufs := Suc (ip_bufs s)\<rparr>)"
  using assms by (auto simp: all_fine_def HdfSbufTypedObtain_def ipc_call_def ext_call_eq emit_def)

lemma ipc_send_same:
  assumes "peer E rm c ys (pw s) = (r, rep, pw s)"
  shows "ipc_send E rm c ys y s = (r, rep, emit (IpcSend rm c ys y, 0) s)"
  using assms by (simp add: ipc_send_def pw_upd_same)

lemma stub_query:
  assumes ready: "devmgr_ready w" and put: "\<forall>b x. put_ok Em b x"
    and raw: "fst (raw_u16 Em [ItI32 x]) = Some st" and st: "st = HDF_SERVICE_USABLE Em \<or> st = HDF_SERVICE_UNUSABLE Em"
    and names: "\<forall>i \<in> set (concat (mgr_unload_infos Em (mg_state w))). qi_svcName i \<noteq> None"
  shows "devmgr_stub Em DEVMGR_SERVICE_QUERY_DEVICE [ItToken DEVMGR_DESC, ItI32 x] w =
    (HDF_SUCCESS, concat (map query_items (filter (selected Em st) (concat (mgr_unload_infos Em (mg_state w))))), w)"
proof -
  obtain rm where rm: "mg_remote w = Some rm" "ip_desc w rm = Some DEVMGR_DESC"
    using ready by (auto simp: devmgr_ready_def split: option.splits)
  have "DevFillQueryDeviceInfo Em [ItI32 x] (Some []) w =
      (HDF_SUCCESS, Some (concat (map query_items (filter (selected Em st) (concat (mgr_unload_infos Em (mg_state w)))))))"
    using st raw by (auto simp: DevFillQueryDeviceInfo_def HdfSbufReadUint16_def query_write_fine [OF put names])
  then show ?thesis
    using rm
    by (simp add: devmgr_stub_def DevmgrServiceStubDispatch_def HdfRemoteServiceCheckInterfaceToken_def devmgr_codes
        put_status_def)
qed

text \<open>The reply is parsed in a state that differs in the trace and the two buffers.\<close>

lemma query_runs:
  assumes fine: "all_fine E" and link: "ip_desc s rm = Some DEVMGR_DESC" "peer E rm = stub"
    and q: "stub DEVMGR_SERVICE_QUERY_DEVICE [ItToken DEVMGR_DESC, ItI32 x] (pw s) = (HDF_SUCCESS, rep, pw s)"
  obtains es where "DevmgrQueryUsableDeviceInfo x E (Some \<lparr>dmc_remote = Some rm\<rparr>) (Some l0) s =
    map_option (\<lambda>(r, l, t). (r, Some l, HdfSbufRecycle True (HdfSbufRecycle True t)))
      (HdfObtainDeviceInfo E None \<lparr>deviceCnt = 0, infos = []\<rparr> rep
        (s\<lparr>ev := ev s @ es, ip_bufs := Suc (Suc (ip_bufs s))\<rparr>))"
proof -
  obtain e1 where o1: "HdfSbufTypedObtain E s = (True, s\<lparr>ev := ev s @ [e1], ip_bufs := Suc (ip_bufs s)\<rparr>)"
    by (rule obtain_two [OF fine])
  let ?s1 = "s\<lparr>ev := ev s @ [e1], ip_bufs := Suc (ip_bufs s)\<rparr>"
  obtain e2 where o2: "HdfSbufTypedObtain E ?s1 = (True, ?s1\<lparr>ev := ev ?s1 @ [e2], ip_bufs := Suc (ip_bufs ?s1)\<rparr>)"
    by (rule obtain_two [OF fine])
  let ?ys = "[ItToken DEVMGR_DESC, ItI32 x]"
  let ?call = "(IpcSend rm DEVMGR_SERVICE_QUERY_DEVICE ?ys True, 0)"
  let ?s2 = "s\<lparr>ev := ev s @ [e1, e2], ip_bufs := Suc (Suc (ip_bufs s))\<rparr>"
  let ?s3 = "s\<lparr>ev := ev s @ [e1, e2, ?call], ip_bufs := Suc (Suc (ip_bufs s))\<rparr>"
  have em: "emit ?call ?s2 = ?s3"
    by (cases s) (simp add: emit_def)
  have "peer E rm DEVMGR_SERVICE_QUERY_DEVICE ?ys (pw ?s2) = (HDF_SUCCESS, rep, pw ?s2)"
    unfolding pw_frame link(2) by (rule q)
  from ipc_send_same [OF this, where y = True]
  have send: "ipc_send E rm DEVMGR_SERVICE_QUERY_DEVICE ?ys True ?s2 = (HDF_SUCCESS, rep, ?s3)"
    unfolding em .
  show thesis
    by (rule that [of "[e1, e2, ?call]"])
      (use fine link(1) send in \<open>simp add: DevmgrQueryUsableDeviceInfo_def query_call_def DevmgrQueryDeviceInfo_def
        o1 o2 token_opt_def HdfRemoteServiceWriteInterfaceToken_def put_opt_def DeviceManagerHdiCall_def
        option.map_comp comp_def case_prod_unfold\<close>)
qed

text \<open>
  C12. A query of the device manager for one of the two service states through the C client
  terminates and yields, in order, the name and type of exactly the devices in the hosts' lists
  of devices to be loaded on demand whose policy is public or capacity and whose status is the
  one asked for; the count is their number, all buffers are recycled, and freeing the list
  restores the heap of the client. This holds when every allocation, copy and IPC write
  succeeds, the 16-bit read of the manager gives back the status that was written with 32 bits,
  and the devices in those lists have names and the type local or remote.
\<close>

theorem client_query:
  assumes fine: "all_fine E" "\<And>n z. mem_ok E n z" "\<And>n. copy_ok E n n" and raw: "fst (raw_str E []) = None"
    and link: "ip_desc s rm = Some DEVMGR_DESC" "peer E rm = devmgr_stub Em" "devmgr_ready (pw s)" and ok: "heap_ok s"
    and put: "\<forall>b x. put_ok Em b x" and wide: "fst (raw_u16 Em [ItI32 (ucast st)]) = Some st"
    and st: "st = HDF_SERVICE_USABLE Em \<or> st = HDF_SERVICE_UNUSABLE Em"
    and names: "\<forall>i \<in> set (concat (mgr_unload_infos Em (mg_state (pw s)))). qi_svcName i \<noteq> None
      \<and> (qi_deviceType i = HDF_LOCAL_SERVICE \<or> qi_deviceType i = HDF_REMOTE_SERVICE)"
  shows "\<exists>l s'. DevmgrQueryUsableDeviceInfo (ucast st) E (Some \<lparr>dmc_remote = Some rm\<rparr>) (Some l0) s =
      Some (HDF_SUCCESS, Some l, s')
    \<and> map node_info (infos l) = map info_pair (filter (selected Em st) (concat (mgr_unload_infos Em (mg_state (pw s)))))
    \<and> deviceCnt l = of_nat (length (infos l)) \<and> pw s' = pw s \<and> ip_bufs s' = ip_bufs s
    \<and> h_blk (snd (DevmgrFreeQueryDeviceList (Some l) s')) = h_blk s
    \<and> h_bad (snd (DevmgrFreeQueryDeviceList (Some l) s')) = h_bad s"
proof -
  let ?is = "filter (selected Em st) (concat (mgr_unload_infos Em (mg_state (pw s))))"
  have q: "devmgr_stub Em DEVMGR_SERVICE_QUERY_DEVICE [ItToken DEVMGR_DESC, ItI32 (ucast st)] (pw s) =
      (HDF_SUCCESS, concat (map query_items ?is), pw s)"
    using stub_query [OF link(3) put wide st] names by blast
  obtain es where run: "DevmgrQueryUsableDeviceInfo (ucast st) E (Some \<lparr>dmc_remote = Some rm\<rparr>) (Some l0) s =
      map_option (\<lambda>(r, l, t). (r, Some l, HdfSbufRecycle True (HdfSbufRecycle True t)))
        (HdfObtainDeviceInfo E None \<lparr>deviceCnt = 0, infos = []\<rparr> (concat (map query_items ?is))
          (s\<lparr>ev := ev s @ es, ip_bufs := Suc (Suc (ip_bufs s))\<rparr>))"
    by (rule query_runs [OF fine(1) link(1,2) q])
  let ?s3 = "s\<lparr>ev := ev s @ es, ip_bufs := Suc (Suc (ip_bufs s))\<rparr>"
  have "heap_ok ?s3"
    using ok by (simp add: heap_ok_def)
  then obtain ns s' where ob: "HdfObtainDeviceInfo E None \<lparr>deviceCnt = 0, infos = []\<rparr> (concat (map query_items ?is)) ?s3 =
      Some (HDF_SUCCESS, \<lparr>deviceCnt = of_nat (length ?is), infos = ns\<rparr>, s')"
    and ns: "map node_info ns = map info_pair ?is" and a: "adds ?s3 (map in_block ns) s'"
    using obtain_fine [OF fine(2,3) raw, of ?is ?s3 None "\<lparr>deviceCnt = 0, infos = []\<rparr>"] names by auto
  let ?l = "\<lparr>deviceCnt = of_nat (length ?is), infos = ns\<rparr>"
  have rec: "HdfSbufRecycle True (HdfSbufRecycle True s') = s'\<lparr>ip_bufs := ip_bufs s\<rparr>"
    by (rule recycle_two) (use adds_bufs_eq [OF a] in simp)
  from adds_free [OF adds_bufs [OF a, of "ip_bufs s"]] have "h_blk (fold free_node ns (s'\<lparr>ip_bufs := ip_bufs s\<rparr>)) = h_blk s"
    "h_bad (fold free_node ns (s'\<lparr>ip_bufs := ip_bufs s\<rparr>)) = h_bad s"
    by simp_all
  moreover have "length ns = length ?is"
    using ns by (metis length_map)
  moreover have "pw s' = pw s"
    using adds_pw [OF a] unfolding pw_frame .
  ultimately show ?thesis
    using ns run unfolding ob option.map prod.case rec
    by (intro exI [of _ ?l] exI [of _ "s'\<lparr>ip_bufs := ip_bufs s\<rparr>"])
      (simp add: DevmgrFreeQueryDeviceList_def DevmgrFreeQueryDeviceListImpl_def)
qed

subsection \<open>Loading through the client\<close>

text \<open>The client sends the request the proxy in a driver host sends.\<close>

lemma client_load_asked:
  assumes E: "all_fine E" and d: "ip_desc s rm = Some DEVMGR_DESC"
    and call: "client_load code E (Some \<lparr>dmc_remote = Some rm\<rparr>) (Some n) s = (r, s')"
  shows "asked E rm code [ItToken DEVMGR_DESC, ItStr n] False s r s'"
proof -
  obtain e where o: "HdfSbufTypedObtain E s = (True, s\<lparr>ev := ev s @ [e], ip_bufs := Suc (ip_bufs s)\<rparr>)" "no_send [e]"
    using E by (auto simp: all_fine_def HdfSbufTypedObtain_def ipc_call_def ext_call_eq emit_def no_send_def)
  obtain st rep w where p: "peer E rm code [ItToken DEVMGR_DESC, ItStr n] (pw s) = (st, rep, w)"
    by (metis prod_cases3)
  have "r = st \<and> s' = s\<lparr>ev := ev s @ [e] @ [(IpcSend rm code [ItToken DEVMGR_DESC, ItStr n] False, 0)], pw := w\<rparr>"
    using call E d p
    by (auto simp: client_load_def o token_opt_def HdfRemoteServiceWriteInterfaceToken_def put_opt_def
        DeviceManagerHdiCall_def ipc_send_def emit_def HdfSbufRecycle_def)
  then show ?thesis
    unfolding asked_def using p o(2) by blast
qed

lemma client_load_remote:
  assumes "all_fine E" and "ip_desc s rm = Some DEVMGR_DESC" and "peer E rm = devmgr_stub Em" and "devmgr_ready (pw s)"
    and "DevmgrLoadDevice E (Some \<lparr>dmc_remote = Some rm\<rparr>) (Some n) s = (r, s1)"
    and "DevmgrUnloadDevice E (Some \<lparr>dmc_remote = Some rm\<rparr>) (Some n) s1 = (r2, s2)"
  shows "(r, pw s1) = devmgr_serve Em (ReqLoad n) (pw s) \<and> (r2, pw s2) = devmgr_serve Em (ReqUnload n) (pw s1)"
proof -
  have l: "asked E rm (req_code (ReqLoad n)) ([ItToken DEVMGR_DESC] @ req_items (ReqLoad n)) False s r s1"
    using client_load_asked [OF assms(1,2), of DEVMGR_SERVICE_LOAD_DEVICE n r s1] assms(5) by (simp add: DevmgrLoadDevice_def)
  have u: "asked E rm (req_code (ReqUnload n)) ([ItToken DEVMGR_DESC] @ req_items (ReqUnload n)) False s1 r2 s2"
    using client_load_asked [OF assms(1), of s1 rm DEVMGR_SERVICE_UNLOAD_DEVICE n r2 s2] assms(2,6) asked_frame(1) [OF l] by (simp add: DevmgrUnloadDevice_def)
  obtain rep rep2 where
    "devmgr_stub Em (req_code (ReqLoad n)) ([ItToken DEVMGR_DESC] @ req_items (ReqLoad n)) (pw s) = (r, rep, pw s1)"
    "devmgr_stub Em (req_code (ReqUnload n)) ([ItToken DEVMGR_DESC] @ req_items (ReqUnload n)) (pw s1) = (r2, rep2, pw s2)"
    using asked_peer [OF l] asked_peer [OF u] unfolding assms(3) by blast
  then show ?thesis
    using devmgr.served [OF assms(4)] devmgr.stays_ready [OF assms(4)] devmgr.served by blast
qed

subsection \<open>A request that is dropped\<close>

text \<open>The buffer of a registration that cannot be written is not given back.\<close>

lemma register_leaks_buffer:
  assumes "all_fine E" and "smc_remote c = Some rm" and "ip_desc s rm = None"
  shows "\<exists>s'. HDIServMgrRegisterServiceStatusListener E (Some c) (Some l) cls s = (HDF_FAILURE, s')
    \<and> ip_bufs s' = Suc (ip_bufs s)"
proof -
  obtain e where "HdfSbufTypedObtain E s = (True, s\<lparr>ev := ev s @ [e], ip_bufs := Suc (ip_bufs s)\<rparr>)"
    by (rule obtain_two [OF assms(1)])
  then show ?thesis
    using assms(2,3)
    by (simp add: HDIServMgrRegisterServiceStatusListener_def token_opt_def HdfRemoteServiceWriteInterfaceToken_def
        put_opt_def ServiceStatusListenerMarshalling_def split: option.split)
qed

subsection \<open>Examples\<close>

definition hd_demo_dev :: "string \<Rightarrow> u16 \<Rightarrow> dev_info" where
  "hd_demo_dev n st = \<lparr>qi_svcName = Some n, qi_policy = 2, qi_status = st, qi_deviceType = 0\<rparr>"

definition hd_demo_mgr :: "u32 list mg_env" where
  "hd_demo_mgr = mg_demo_env\<lparr>raw_u16 := (\<lambda>b. case b of ItI32 x # ys \<Rightarrow> (Some (ucast x), ys) | _ \<Rightarrow> (None, b)),
     mgr_unload_infos := (\<lambda>_. [[hd_demo_dev ''led'' 1, hd_demo_dev ''fan'' 0], [hd_demo_dev ''gps'' 1]])\<rparr>"

definition hd_demo_env :: "u32 list mg_sys proxy_env" where
  "hd_demo_env = mg_demo_proxy\<lparr>peer := (\<lambda>_. devmgr_stub hd_demo_mgr)\<rparr>"

lemma hd_demo_facts:
  "all_fine hd_demo_env" "mem_ok hd_demo_env n z" "copy_ok hd_demo_env n n" "fst (raw_str hd_demo_env []) = None"
  "ip_desc mg_demo 3 = Some DEVMGR_DESC" "peer hd_demo_env 3 = devmgr_stub hd_demo_mgr" "devmgr_ready (pw mg_demo)"
  "heap_ok mg_demo" "\<forall>b x. put_ok hd_demo_mgr b x" "fst (raw_u16 hd_demo_mgr [ItI32 (ucast (1 :: u16))]) = Some 1"
  "(1 :: u16) = HDF_SERVICE_USABLE hd_demo_mgr \<or> 1 = HDF_SERVICE_UNUSABLE hd_demo_mgr"
  "\<forall>i \<in> set (concat (mgr_unload_infos hd_demo_mgr (mg_state (pw mg_demo)))). qi_svcName i \<noteq> None
     \<and> (qi_deviceType i = HDF_LOCAL_SERVICE \<or> qi_deviceType i = HDF_REMOTE_SERVICE)"
  "map info_pair (filter (selected hd_demo_mgr 1) (concat (mgr_unload_infos hd_demo_mgr (mg_state (pw mg_demo))))) =
     [(''led'', 0), (''gps'', 0)]"
  using mg_demo_facts(2,4)
  by (simp_all add: hd_demo_env_def hd_demo_mgr_def all_fine_def mg_demo_proxy_def mg_demo_env_def mg_demo_def heap_ok_def
      hd_demo_dev_def HDF_LOCAL_SERVICE_def info_pair_def selected_def)

lemma client_query_witness:
  "\<exists>l s'. DevmgrQueryUsableDeviceInfo 1 hd_demo_env (Some \<lparr>dmc_remote = Some 3\<rparr>) (Some \<lparr>deviceCnt = 9, infos = []\<rparr>) mg_demo
      = Some (HDF_SUCCESS, Some l, s') \<and> map node_info (infos l) = [(''led'', 0), (''gps'', 0)]"
  using client_query [OF hd_demo_facts(1-12), of "\<lparr>deviceCnt = 9, infos = []\<rparr>"] unfolding hd_demo_facts(13)
  by auto

end
