(* ===== verification/Osal_M.thy ===== *)
theory Osal_M
  imports Osal_Mem
begin

text \<open>
  Mutexes, spin locks and timers of the LiteOS-M port: \<open>khdf/liteos_m/osal/src/osal_mutex.c\<close>,
  \<open>osal_spinlock.c\<close> and \<open>osal_timer.c\<close>. The operations are those of \<open>Osal_Sync\<close>, over the smaller kernel:
  a lock is an identifier the kernel hands out, not a heap object, and a spin lock is a mutex.

  The names carry the prefix \<open>M_\<close>. \<open>losm\<close> gives the status of a kernel call from the trace of earlier
  ones, \<open>mux_id\<close> and \<open>swtmr_id\<close> the identifiers; a \<open>MSwtmrCreate\<close> is recorded with its identifier.
\<close>

datatype m_ev =
    MuxCreate | MuxDelete u32 | MuxPend u32 u32 | MuxPost u32
  | MIntLock | MIntRestore | MSwtmrCreate u32 u32 bool nat nat | MSwtmrStart u32 | MSwtmrDelete u32

record M_OsalLitetimer =
  mt_arg :: nat
  mt_timerID :: u32
  mt_func :: "nat option"
  mt_interval :: u32

record m_sys = "(m_ev \<times> int) sys" +
  m_timers :: "nat \<Rightarrow> M_OsalLitetimer option"

record m_env = mem_env +
  losm :: "(m_ev \<times> int) list \<Rightarrow> m_ev \<Rightarrow> int"
  mux_id :: "(m_ev \<times> int) list \<Rightarrow> u32"
  swtmr_id :: "(m_ev \<times> int) list \<Rightarrow> u32"
  M_LOS_MS2Tick :: "u32 \<Rightarrow> u32"
  M_HDF_WAIT_FOREVER :: u32
  LOS_ERRNO_MUX_TIMEOUT :: int

definition m_call :: "m_env \<Rightarrow> m_ev \<Rightarrow> m_sys \<Rightarrow> int \<times> m_sys" where
  "m_call E c s = ext_call (losm E) c s"

subsection \<open>Mutexes\<close>

text \<open>The pointer \<open>realMutex\<close> holds the identifier.\<close>

definition HDF_INVALID_MUX_ID :: u32 where "HDF_INVALID_MUX_ID = 4294967295"

record M_OsalMutex =
  mx_id :: u32

definition M_OsalMutexInit ::
  "m_env \<Rightarrow> M_OsalMutex option \<Rightarrow> m_sys \<Rightarrow> ret \<times> M_OsalMutex option \<times> m_sys" where
  "M_OsalMutexInit E mutex s =
     (case mutex of None \<Rightarrow> (HDF_ERR_INVALID_PARAM, None, s) | Some m \<Rightarrow>
       (case m_call E MuxCreate s of (r, s1) \<Rightarrow>
          if r = 0 then (HDF_SUCCESS, Some (m\<lparr>mx_id := mux_id E (ev s)\<rparr>), s1)
          else (HDF_FAILURE, Some (m\<lparr>mx_id := HDF_INVALID_MUX_ID\<rparr>), s1)))"

text \<open>The identifier of a handle, \<open>None\<close> when the code rejects the handle.\<close>

definition mux_of :: "M_OsalMutex option \<Rightarrow> u32 option" where
  "mux_of mutex =
     (case mutex of None \<Rightarrow> None | Some m \<Rightarrow> if mx_id m = HDF_INVALID_MUX_ID then None else Some (mx_id m))"

definition M_OsalMutexDestroy ::
  "m_env \<Rightarrow> M_OsalMutex option \<Rightarrow> m_sys \<Rightarrow> ret \<times> M_OsalMutex option \<times> m_sys" where
  "M_OsalMutexDestroy E mutex s =
     (case mux_of mutex of None \<Rightarrow> (HDF_ERR_INVALID_PARAM, mutex, s) | Some i \<Rightarrow>
       (case m_call E (MuxDelete i) s of (r, s1) \<Rightarrow>
          if r \<noteq> 0 then (HDF_FAILURE, mutex, s1)
          else (HDF_SUCCESS, map_option (\<lambda>m. m\<lparr>mx_id := HDF_INVALID_MUX_ID\<rparr>) mutex, s1)))"

definition M_OsalMutexLock :: "m_env \<Rightarrow> M_OsalMutex option \<Rightarrow> m_sys \<Rightarrow> ret \<times> m_sys" where
  "M_OsalMutexLock E mutex s =
     (case mux_of mutex of None \<Rightarrow> (HDF_ERR_INVALID_PARAM, s) | Some i \<Rightarrow>
       (case m_call E (MuxPend i (M_LOS_MS2Tick E (M_HDF_WAIT_FOREVER E))) s of (r, s1) \<Rightarrow>
          if r \<noteq> 0 then (HDF_FAILURE, s1) else (HDF_SUCCESS, s1)))"

definition M_OsalMutexTimedLock :: "m_env \<Rightarrow> M_OsalMutex option \<Rightarrow> u32 \<Rightarrow> m_sys \<Rightarrow> ret \<times> m_sys" where
  "M_OsalMutexTimedLock E mutex ms s =
     (case mux_of mutex of None \<Rightarrow> (HDF_ERR_INVALID_PARAM, s) | Some i \<Rightarrow>
       (case m_call E (MuxPend i (M_LOS_MS2Tick E ms)) s of (r, s1) \<Rightarrow>
          if r \<noteq> 0 then (if r = LOS_ERRNO_MUX_TIMEOUT E then (HDF_ERR_TIMEOUT, s1) else (HDF_FAILURE, s1))
          else (HDF_SUCCESS, s1)))"

definition M_OsalMutexUnlock :: "m_env \<Rightarrow> M_OsalMutex option \<Rightarrow> m_sys \<Rightarrow> ret \<times> m_sys" where
  "M_OsalMutexUnlock E mutex s =
     (case mux_of mutex of None \<Rightarrow> (HDF_ERR_INVALID_PARAM, s) | Some i \<Rightarrow>
       (case m_call E (MuxPost i) s of (r, s1) \<Rightarrow>
          if r \<noteq> 0 then (HDF_FAILURE, s1) else (HDF_SUCCESS, s1)))"

subsection \<open>Spin locks\<close>

record M_OsalSpinlock =
  sl_id :: u32

definition M_OsalSpinInit ::
  "m_env \<Rightarrow> M_OsalSpinlock option \<Rightarrow> m_sys \<Rightarrow> ret \<times> M_OsalSpinlock option \<times> m_sys" where
  "M_OsalSpinInit E spinlock s =
     (case spinlock of None \<Rightarrow> (HDF_ERR_INVALID_PARAM, None, s) | Some m \<Rightarrow>
       (case m_call E MuxCreate s of (r, s1) \<Rightarrow>
          if r = 0 then (HDF_SUCCESS, Some (m\<lparr>sl_id := mux_id E (ev s)\<rparr>), s1)
          else (HDF_FAILURE, Some (m\<lparr>sl_id := HDF_INVALID_MUX_ID\<rparr>), s1)))"

definition spin_of :: "M_OsalSpinlock option \<Rightarrow> u32 option" where
  "spin_of spinlock =
     (case spinlock of None \<Rightarrow> None | Some m \<Rightarrow> if sl_id m = HDF_INVALID_MUX_ID then None else Some (sl_id m))"

definition M_OsalSpinDestroy ::
  "m_env \<Rightarrow> M_OsalSpinlock option \<Rightarrow> m_sys \<Rightarrow> ret \<times> M_OsalSpinlock option \<times> m_sys" where
  "M_OsalSpinDestroy E spinlock s =
     (case spin_of spinlock of None \<Rightarrow> (HDF_ERR_INVALID_PARAM, spinlock, s) | Some i \<Rightarrow>
       (case m_call E (MuxDelete i) s of (r, s1) \<Rightarrow>
          if r \<noteq> 0 then (HDF_FAILURE, spinlock, s1)
          else (HDF_SUCCESS, map_option (\<lambda>m. m\<lparr>sl_id := HDF_INVALID_MUX_ID\<rparr>) spinlock, s1)))"

definition M_OsalSpinLock :: "m_env \<Rightarrow> M_OsalSpinlock option \<Rightarrow> m_sys \<Rightarrow> ret \<times> m_sys" where
  "M_OsalSpinLock E spinlock s =
     (case spin_of spinlock of None \<Rightarrow> (HDF_ERR_INVALID_PARAM, s) | Some i \<Rightarrow>
       (case m_call E (MuxPend i (M_LOS_MS2Tick E (M_HDF_WAIT_FOREVER E))) s of (r, s1) \<Rightarrow>
          if r \<noteq> 0 then (HDF_FAILURE, s1) else (HDF_SUCCESS, s1)))"

definition M_OsalSpinUnlock :: "m_env \<Rightarrow> M_OsalSpinlock option \<Rightarrow> m_sys \<Rightarrow> ret \<times> m_sys" where
  "M_OsalSpinUnlock E spinlock s =
     (case spin_of spinlock of None \<Rightarrow> (HDF_ERR_INVALID_PARAM, s) | Some i \<Rightarrow>
       (case m_call E (MuxPost i) s of (r, s1) \<Rightarrow>
          if r \<noteq> 0 then (HDF_FAILURE, s1) else (HDF_SUCCESS, s1)))"

definition M_OsalSpinLockIrq :: "m_env \<Rightarrow> M_OsalSpinlock option \<Rightarrow> m_sys \<Rightarrow> ret \<times> m_sys" where
  "M_OsalSpinLockIrq E spinlock s = M_OsalSpinLock E spinlock s"

definition M_OsalSpinUnlockIrq :: "m_env \<Rightarrow> M_OsalSpinlock option \<Rightarrow> m_sys \<Rightarrow> ret \<times> m_sys" where
  "M_OsalSpinUnlockIrq E spinlock s = M_OsalSpinUnlock E spinlock s"

definition M_OsalSpinLockIrqSave ::
  "m_env \<Rightarrow> M_OsalSpinlock option \<Rightarrow> u32 option \<Rightarrow> m_sys \<Rightarrow> ret \<times> u32 option \<times> m_sys" where
  "M_OsalSpinLockIrqSave E spinlock flags s = (case M_OsalSpinLock E spinlock s of (r, s1) \<Rightarrow> (r, flags, s1))"

definition M_OsalSpinUnlockIrqRestore ::
  "m_env \<Rightarrow> M_OsalSpinlock option \<Rightarrow> u32 option \<Rightarrow> m_sys \<Rightarrow> ret \<times> m_sys" where
  "M_OsalSpinUnlockIrqRestore E spinlock flags s = M_OsalSpinUnlock E spinlock s"

subsection \<open>Timers\<close>

record M_OsalTimer =
  m_realTimer :: "nat option"

definition OSAL_INVALID_TIMER_ID :: u32 where "OSAL_INVALID_TIMER_ID = 4294967295"

definition M_OsalTimerCreate ::
  "m_env \<Rightarrow> u32 \<Rightarrow> nat option \<Rightarrow> nat \<Rightarrow> M_OsalTimer option \<Rightarrow> m_sys \<Rightarrow> ret \<times> M_OsalTimer option \<times> m_sys" where
  "M_OsalTimerCreate E interval func arg timer s =
     (if func = None \<or> timer = None \<or> interval = 0 then (HDF_ERR_INVALID_PARAM, timer, s)
      else
        (case OsalMemCalloc E (Objs ''OsalLitetimer'' 1) s of
           (None, s1) \<Rightarrow> (HDF_ERR_MALLOC_FAIL, map_option (\<lambda>t. t\<lparr>m_realTimer := None\<rparr>) timer, s1)
         | (Some p, s1) \<Rightarrow>
             (HDF_SUCCESS, map_option (\<lambda>t. t\<lparr>m_realTimer := Some p\<rparr>) timer,
              s1\<lparr>m_timers := (m_timers s1)(p \<mapsto>
                \<lparr>mt_arg = arg, mt_timerID = OSAL_INVALID_TIMER_ID, mt_func = func, mt_interval = interval\<rparr>)\<rparr>)))"

definition m_timer_obj :: "M_OsalTimer option \<Rightarrow> m_sys \<Rightarrow> (nat \<times> M_OsalLitetimer option) option" where
  "m_timer_obj timer s = map_option (\<lambda>p. (p, m_timers s p)) (Option.bind timer m_realTimer)"

text \<open>The interval is passed to the kernel as it is, in milliseconds.\<close>

definition M_OsalStartTimer :: "m_env \<Rightarrow> M_OsalTimer option \<Rightarrow> bool \<Rightarrow> m_sys \<Rightarrow> ret \<times> m_sys" where
  "M_OsalStartTimer E timer periodic s =
     (case m_timer_obj timer s of
        None \<Rightarrow> (HDF_ERR_INVALID_PARAM, s)
      | Some (p, None) \<Rightarrow> (HDF_FAILURE, s\<lparr>h_bad := True\<rparr>)
      | Some (p, Some lt) \<Rightarrow>
          if mt_interval lt = 0 \<or> mt_func lt = None then (HDF_ERR_INVALID_PARAM, s)
          else
            let s1 = emit (MIntLock, 0) s;
                timerID = swtmr_id E (ev s1) in
            (case m_call E (MSwtmrCreate timerID (mt_interval lt) periodic (the (mt_func lt)) (mt_arg lt)) s1 of (r, s2) \<Rightarrow>
              if r \<noteq> 0 then (HDF_FAILURE, emit (MIntRestore, 0) s2)
              else
                (case m_call E (MSwtmrStart timerID) s2 of (r2, s3) \<Rightarrow>
                  if r2 \<noteq> 0
                  then (HDF_FAILURE, emit (MIntRestore, 0) (snd (m_call E (MSwtmrDelete timerID) s3)))
                  else
                    let s4 = emit (MIntRestore, 0) s3
                    in (HDF_SUCCESS, s4\<lparr>m_timers := (m_timers s4)(p \<mapsto> lt\<lparr>mt_timerID := timerID\<rparr>)\<rparr>))))"

definition M_OsalTimerStartLoop :: "m_env \<Rightarrow> M_OsalTimer option \<Rightarrow> m_sys \<Rightarrow> ret \<times> m_sys" where
  "M_OsalTimerStartLoop E timer s = M_OsalStartTimer E timer True s"

definition M_OsalTimerStartOnce :: "m_env \<Rightarrow> M_OsalTimer option \<Rightarrow> m_sys \<Rightarrow> ret \<times> m_sys" where
  "M_OsalTimerStartOnce E timer s = M_OsalStartTimer E timer False s"

definition M_OsalTimerSetTimeout :: "m_env \<Rightarrow> M_OsalTimer option \<Rightarrow> u32 \<Rightarrow> m_sys \<Rightarrow> ret \<times> m_sys" where
  "M_OsalTimerSetTimeout E timer interval s =
     (if interval = 0 then (HDF_ERR_INVALID_PARAM, s)
      else
        (case m_timer_obj timer s of
           None \<Rightarrow> (HDF_ERR_INVALID_PARAM, s)
         | Some (p, None) \<Rightarrow> (HDF_FAILURE, s\<lparr>h_bad := True\<rparr>)
         | Some (p, Some lt) \<Rightarrow>
             if mt_timerID lt = OSAL_INVALID_TIMER_ID then (HDF_FAILURE, s)
             else if mt_interval lt = interval then (HDF_SUCCESS, s)
             else
               let s1 = s\<lparr>m_timers := (m_timers s)(p \<mapsto> lt\<lparr>mt_interval := interval\<rparr>)\<rparr> in
               (case m_call E (MSwtmrDelete (mt_timerID lt)) (emit (MIntLock, 0) s1) of (r, s2) \<Rightarrow>
                 if r \<noteq> 0 then (HDF_FAILURE, emit (MIntRestore, 0) s2)
                 else M_OsalTimerStartLoop E timer (emit (MIntRestore, 0) s2))))"

definition M_OsalTimerDelete ::
  "m_env \<Rightarrow> M_OsalTimer option \<Rightarrow> m_sys \<Rightarrow> ret \<times> M_OsalTimer option \<times> m_sys" where
  "M_OsalTimerDelete E timer s =
     (case m_timer_obj timer s of
        None \<Rightarrow> (HDF_ERR_INVALID_PARAM, timer, s)
      | Some (p, None) \<Rightarrow> (HDF_FAILURE, timer, s\<lparr>h_bad := True\<rparr>)
      | Some (p, Some lt) \<Rightarrow>
          let gone = map_option (\<lambda>t. t\<lparr>m_realTimer := None\<rparr>) timer;
              drop_obj = (\<lambda>t. (OsalMemFree (Some p) t)\<lparr>m_timers := (m_timers t)(p := None)\<rparr>) in
          if mt_timerID lt = OSAL_INVALID_TIMER_ID then (HDF_FAILURE, gone, drop_obj s)
          else
            (case m_call E (MSwtmrDelete (mt_timerID lt)) (emit (MIntLock, 0) s) of (r, s1) \<Rightarrow>
              if r = 0 then (HDF_SUCCESS, gone, drop_obj (emit (MIntRestore, 0) s1))
              else (HDF_FAILURE, timer, emit (MIntRestore, 0) s1)))"

end
