(* ===== verification/Osal_M_Facts.thy ===== *)
theory Osal_M_Facts
  imports Osal_M Osal_Sync_Facts
begin

text \<open>
  The two ports of the OSAL locks implement the same lock: whatever sequence of operations a driver
  makes, the statuses are those of an abstract lock that is live or not, given the kernel's answers.
\<close>

subsection \<open>The abstract lock\<close>

datatype lock_op = LockInit | LockAcquire | LockTimed u32 | LockRelease | LockDestroy

text \<open>
  One operation: whether the lock is live, and the answers of the kernel still to come. A lock that is
  not live is refused without asking the kernel.
\<close>

fun abs_op :: "int \<Rightarrow> lock_op \<Rightarrow> bool \<Rightarrow> int list \<Rightarrow> ret \<times> bool \<times> int list" where
  "abs_op timeout LockInit live (x # xs) = (if x = 0 then (HDF_SUCCESS, True, xs) else (HDF_FAILURE, False, xs))"
| "abs_op timeout LockAcquire True (x # xs) = ((if x = 0 then HDF_SUCCESS else HDF_FAILURE), True, xs)"
| "abs_op timeout (LockTimed ms) True (x # xs) =
     ((if x = 0 then HDF_SUCCESS else if x = timeout then HDF_ERR_TIMEOUT else HDF_FAILURE), True, xs)"
| "abs_op timeout LockRelease True (x # xs) = ((if x = 0 then HDF_SUCCESS else HDF_FAILURE), True, xs)"
| "abs_op timeout LockDestroy True (x # xs) = (if x = 0 then (HDF_SUCCESS, False, xs) else (HDF_FAILURE, True, xs))"
| "abs_op timeout opn live xs = (HDF_ERR_INVALID_PARAM, live, xs)"

fun abs_ops :: "int \<Rightarrow> lock_op list \<Rightarrow> bool \<Rightarrow> int list \<Rightarrow> ret list \<times> bool \<times> int list" where
  "abs_ops timeout [] live xs = ([], live, xs)"
| "abs_ops timeout (opn # ops) live xs =
     (case abs_op timeout opn live xs of (r, live1, xs1) \<Rightarrow>
       (case abs_ops timeout ops live1 xs1 of (rs, live2, xs2) \<Rightarrow> (r # rs, live2, xs2)))"

text \<open>
  The answers of two kernels correspond when both are success or neither is, and both are the time-out
  error, each kernel with its own number for it, or neither is.
\<close>

definition same_answer :: "int \<Rightarrow> int \<Rightarrow> int \<Rightarrow> int \<Rightarrow> bool" where
  "same_answer timeout timeout' x y \<longleftrightarrow> (x = 0 \<longleftrightarrow> y = 0) \<and> (x = timeout \<longleftrightarrow> y = timeout')"

lemma abs_op_same:
  assumes "list_all2 (same_answer a b) xs ys" and "abs_op a opn live xs = (r, l, xs')" and "abs_op b opn live ys = (q, k, ys')"
  shows "r = q \<and> l = k \<and> list_all2 (same_answer a b) xs' ys'"
  using assms by (cases live; cases opn; cases xs; cases ys) (auto simp: same_answer_def split: if_splits)

lemma abs_ops_same:
  "list_all2 (same_answer a b) xs ys \<Longrightarrow> abs_ops a ops live xs = (rs, l, xs') \<Longrightarrow> abs_ops b ops live ys = (qs, k, ys') \<Longrightarrow>
     rs = qs \<and> l = k"
proof (induction ops arbitrary: live xs ys rs qs)
  case (Cons opn ops)
  obtain r l1 xs1 where 1: "abs_op a opn live xs = (r, l1, xs1)"
    by (metis prod_cases3)
  obtain q k1 ys1 where 2: "abs_op b opn live ys = (q, k1, ys1)"
    by (metis prod_cases3)
  show ?case
    using abs_op_same [OF Cons.prems(1) 1 2] Cons.prems(2,3) Cons.IH [of xs1 ys1 l1] 1 2 by (auto split: prod.splits)
qed simp

subsection \<open>What a port promises\<close>

text \<open>A sequence of operations on a handle.\<close>

fun run_ops :: "(lock_op \<Rightarrow> 'h \<Rightarrow> 's \<Rightarrow> ret \<times> 'h \<times> 's) \<Rightarrow> lock_op list \<Rightarrow> 'h \<Rightarrow> 's \<Rightarrow> ret list \<times> 'h \<times> 's" where
  "run_ops run [] h s = ([], h, s)"
| "run_ops run (opn # ops) h s =
     (case run opn h s of (r, h1, s1) \<Rightarrow> (case run_ops run ops h1 s1 of (rs, h2, s2) \<Rightarrow> (r # rs, h2, s2)))"

locale lock_port =
  fixes run :: "lock_op \<Rightarrow> 'h \<Rightarrow> 's \<Rightarrow> ret \<times> 'h \<times> 's"
    and live :: "'h \<Rightarrow> bool"
    and answers :: "'s \<Rightarrow> int list"
    and timeout :: int
    and ok :: bool
  assumes step: "ok \<Longrightarrow> run opn h s = (r, h', s') \<Longrightarrow>
    \<exists>xs. answers s' = answers s @ xs \<and> (\<forall>ys. abs_op timeout opn (live h) (xs @ ys) = (r, live h', ys))"
begin

lemma refines:
  "ok \<Longrightarrow> run_ops run ops h s = (rs, h', s') \<Longrightarrow>
     \<exists>xs. answers s' = answers s @ xs \<and> (\<forall>ys. abs_ops timeout ops (live h) (xs @ ys) = (rs, live h', ys))"
proof (induction ops arbitrary: h s rs)
  case (Cons opn ops)
  obtain r h1 s1 where 1: "run opn h s = (r, h1, s1)"
    by (metis prod_cases3)
  obtain qs h2 s2 where 2: "run_ops run ops h1 s1 = (qs, h2, s2)"
    by (metis prod_cases3)
  have eq: "rs = r # qs" "h' = h2" "s' = s2"
    using Cons.prems(2) 1 2 by auto
  obtain xs where x: "answers s1 = answers s @ xs" "\<forall>ys. abs_op timeout opn (live h) (xs @ ys) = (r, live h1, ys)"
    using step [OF Cons.prems(1) 1] by blast
  obtain zs where z: "answers s2 = answers s1 @ zs" "\<forall>ys. abs_ops timeout ops (live h1) (zs @ ys) = (qs, live h2, ys)"
    using Cons.IH [OF Cons.prems(1), of h1 s1 qs] 2 eq by blast
  show ?case
    using x z by (intro exI [of _ "xs @ zs"]) (simp add: eq)
qed simp

end

subsection \<open>The ports\<close>

text \<open>Memory for a mutex object does not run out, and the kernel hands out valid identifiers.\<close>

definition a_run ::
  "('m) osal_env_scheme \<Rightarrow> lock_op \<Rightarrow> OsalMutex \<Rightarrow> ('a) osal_sys_scheme \<Rightarrow> ret \<times> OsalMutex \<times> ('a) osal_sys_scheme" where
  "a_run E opn m s =
     (case opn of
        LockInit \<Rightarrow> (case OsalMutexInit E (Some m) s of (r, h, s1) \<Rightarrow> (r, the h, s1))
      | LockAcquire \<Rightarrow> (case OsalMutexLock E (Some m) s of (r, s1) \<Rightarrow> (r, m, s1))
      | LockTimed ms \<Rightarrow> (case OsalMutexTimedLock E (Some m) ms s of (r, s1) \<Rightarrow> (r, m, s1))
      | LockRelease \<Rightarrow> (case OsalMutexUnlock E (Some m) s of (r, s1) \<Rightarrow> (r, m, s1))
      | LockDestroy \<Rightarrow> (case OsalMutexDestroy E (Some m) s of (r, h, s1) \<Rightarrow> (r, the h, s1)))"

definition m_run :: "m_env \<Rightarrow> lock_op \<Rightarrow> M_OsalMutex \<Rightarrow> m_sys \<Rightarrow> ret \<times> M_OsalMutex \<times> m_sys" where
  "m_run E opn m s =
     (case opn of
        LockInit \<Rightarrow> (case M_OsalMutexInit E (Some m) s of (r, h, s1) \<Rightarrow> (r, the h, s1))
      | LockAcquire \<Rightarrow> (case M_OsalMutexLock E (Some m) s of (r, s1) \<Rightarrow> (r, m, s1))
      | LockTimed ms \<Rightarrow> (case M_OsalMutexTimedLock E (Some m) ms s of (r, s1) \<Rightarrow> (r, m, s1))
      | LockRelease \<Rightarrow> (case M_OsalMutexUnlock E (Some m) s of (r, s1) \<Rightarrow> (r, m, s1))
      | LockDestroy \<Rightarrow> (case M_OsalMutexDestroy E (Some m) s of (r, h, s1) \<Rightarrow> (r, the h, s1)))"

definition kernel_answers :: "('e \<times> int, 'a) sys_scheme \<Rightarrow> int list" where
  "kernel_answers s = map snd (ev s)"

text \<open>The answers given between two states.\<close>

definition answers_since :: "('e \<times> int, 'a) sys_scheme \<Rightarrow> ('e \<times> int, 'a) sys_scheme \<Rightarrow> int list" where
  "answers_since s s' = drop (length (kernel_answers s)) (kernel_answers s')"

lemma free_ev [simp]: "ev (OsalMemFree p s) = ev s"
  by (simp add: OsalMemFree_def LOS_MemFree_def split: option.split)

lemma a_step:
  assumes m: "\<And>n z. mem_ok E n z" and run: "a_run E opn h s = (r, h', s')"
  shows "\<exists>xs. kernel_answers s' = kernel_answers s @ xs
    \<and> (\<forall>ys. abs_op (LOS_ETIMEDOUT E) opn (realMutex h \<noteq> None) (xs @ ys) = (r, realMutex h' \<noteq> None, ys))"
proof (cases "opn = LockInit \<or> realMutex h \<noteq> None")
  case True
  then have "\<exists>x. kernel_answers s' = kernel_answers s @ [x]
    \<and> (\<forall>ys. abs_op (LOS_ETIMEDOUT E) opn (realMutex h \<noteq> None) (x # ys) = (r, realMutex h' \<noteq> None, ys))"
    using run m
    by - (cases opn; cases "realMutex h";
      auto simp: a_run_def OsalMutexInit_def OsalMutexLock_def OsalMutexTimedLock_def OsalMutexUnlock_def
        OsalMutexDestroy_def alloc_eqs los_defs emit_def kernel_answers_def split: if_splits;
      rule exI [of _ "0 :: int"]; simp)
  then show ?thesis
    by fastforce
next
  case False
  then have "kernel_answers s' = kernel_answers s \<and> r = HDF_ERR_INVALID_PARAM \<and> h' = h"
    using run
    by (cases opn)
      (auto simp: a_run_def OsalMutexLock_def OsalMutexTimedLock_def OsalMutexUnlock_def OsalMutexDestroy_def)
  then show ?thesis
    using False by (intro exI [of _ "[]"]) (cases opn; simp)
qed

lemma m_step:
  assumes m: "\<And>tr. mux_id E tr \<noteq> HDF_INVALID_MUX_ID" and run: "m_run E opn h s = (r, h', s')"
  shows "\<exists>xs. kernel_answers s' = kernel_answers s @ xs
    \<and> (\<forall>ys. abs_op (LOS_ERRNO_MUX_TIMEOUT E) opn (mx_id h \<noteq> HDF_INVALID_MUX_ID) (xs @ ys)
         = (r, mx_id h' \<noteq> HDF_INVALID_MUX_ID, ys))"
proof (cases "opn = LockInit \<or> mx_id h \<noteq> HDF_INVALID_MUX_ID")
  case True
  then have "\<exists>x. kernel_answers s' = kernel_answers s @ [x]
    \<and> (\<forall>ys. abs_op (LOS_ERRNO_MUX_TIMEOUT E) opn (mx_id h \<noteq> HDF_INVALID_MUX_ID) (x # ys)
         = (r, mx_id h' \<noteq> HDF_INVALID_MUX_ID, ys))"
    using run m
    by - (cases opn; cases "mx_id h = HDF_INVALID_MUX_ID";
      auto simp: m_run_def mux_of_def M_OsalMutexInit_def M_OsalMutexLock_def M_OsalMutexTimedLock_def
        M_OsalMutexUnlock_def M_OsalMutexDestroy_def m_call_def ext_call_eq emit_def kernel_answers_def split: if_splits;
      rule exI [of _ "0 :: int"]; simp)
  then show ?thesis
    by fastforce
next
  case False
  then have "kernel_answers s' = kernel_answers s \<and> r = HDF_ERR_INVALID_PARAM \<and> h' = h"
    using run
    by (cases opn)
      (auto simp: m_run_def mux_of_def M_OsalMutexLock_def M_OsalMutexTimedLock_def M_OsalMutexUnlock_def
        M_OsalMutexDestroy_def)
  then show ?thesis
    using False by (intro exI [of _ "[]"]) (cases opn; simp)
qed

text \<open>A spin lock of the smaller kernel; it has no timed acquire.\<close>

definition spin_run :: "m_env \<Rightarrow> lock_op \<Rightarrow> M_OsalSpinlock \<Rightarrow> m_sys \<Rightarrow> ret \<times> M_OsalSpinlock \<times> m_sys" where
  "spin_run E opn m s =
     (case opn of
        LockInit \<Rightarrow> (case M_OsalSpinInit E (Some m) s of (r, h, s1) \<Rightarrow> (r, the h, s1))
      | LockAcquire \<Rightarrow> (case M_OsalSpinLock E (Some m) s of (r, s1) \<Rightarrow> (r, m, s1))
      | LockTimed ms \<Rightarrow> (case M_OsalSpinLock E (Some m) s of (r, s1) \<Rightarrow> (r, m, s1))
      | LockRelease \<Rightarrow> (case M_OsalSpinUnlock E (Some m) s of (r, s1) \<Rightarrow> (r, m, s1))
      | LockDestroy \<Rightarrow> (case M_OsalSpinDestroy E (Some m) s of (r, h, s1) \<Rightarrow> (r, the h, s1)))"

lemma spin_is_mutex:
  assumes "\<And>ms. opn \<noteq> LockTimed ms" and "m_run E opn \<lparr>mx_id = sl_id m\<rparr> s = (r, h', s')"
  shows "spin_run E opn m s = (r, \<lparr>sl_id = mx_id h'\<rparr>, s')"
  using assms
  by (cases opn; cases "sl_id m = HDF_INVALID_MUX_ID"; cases m)
    (auto simp: m_run_def spin_run_def mux_of_def spin_of_def M_OsalMutexInit_def M_OsalMutexLock_def
      M_OsalMutexUnlock_def M_OsalMutexDestroy_def M_OsalSpinInit_def M_OsalSpinLock_def M_OsalSpinUnlock_def
      M_OsalSpinDestroy_def m_call_def ext_call_eq split: if_splits)

interpretation liteos_a: lock_port "a_run E" "\<lambda>h. realMutex h \<noteq> None" kernel_answers "LOS_ETIMEDOUT E"
  "\<forall>n z. mem_ok E n z" for E :: "('m) osal_env_scheme"
  by unfold_locales (use a_step in blast)

interpretation liteos_m: lock_port "m_run E" "\<lambda>h. mx_id h \<noteq> HDF_INVALID_MUX_ID" kernel_answers
  "LOS_ERRNO_MUX_TIMEOUT E" "\<forall>tr. mux_id E tr \<noteq> HDF_INVALID_MUX_ID" for E
  by unfold_locales (use m_step in blast)

text \<open>
  C16. Any sequence of operations on a mutex handle that is uninitialised in the way of its port
  (no mutex on LiteOS-A, HDF_INVALID_MUX_ID on LiteOS-M) gives the same statuses on LiteOS-A and
  on LiteOS-M, and leaves both live or both dead: both implement one abstract lock. The kernels
  answer alike, each with its own number for the time-out; memory for the object on LiteOS-A
  does not run out, and LiteOS-M never hands out HDF_INVALID_MUX_ID.
\<close>

theorem mutex_ports_agree:
  assumes "\<And>n z. mem_ok E n z" and "\<And>tr. mux_id F tr \<noteq> HDF_INVALID_MUX_ID"
    and "run_ops (a_run E) ops \<lparr>realMutex = None\<rparr> s = (rs, h, s')"
    and "run_ops (m_run F) ops \<lparr>mx_id = HDF_INVALID_MUX_ID\<rparr> t = (qs, k, t')"
    and "list_all2 (same_answer (LOS_ETIMEDOUT E) (LOS_ERRNO_MUX_TIMEOUT F)) (answers_since s s') (answers_since t t')"
  shows "rs = qs \<and> (realMutex h \<noteq> None \<longleftrightarrow> mx_id k \<noteq> HDF_INVALID_MUX_ID)"
proof -
  have "\<forall>n z. mem_ok E n z" and "\<forall>tr. mux_id F tr \<noteq> HDF_INVALID_MUX_ID"
    using assms(1,2) by blast+
  note ports = liteos_a.refines [OF this(1) assms(3)] liteos_m.refines [OF this(2) assms(4)]
  obtain xs where x: "kernel_answers s' = kernel_answers s @ xs"
    "\<forall>zs. abs_ops (LOS_ETIMEDOUT E) ops (realMutex \<lparr>realMutex = None\<rparr> \<noteq> None) (xs @ zs) = (rs, realMutex h \<noteq> None, zs)"
    using ports(1) by blast
  obtain ys where y: "kernel_answers t' = kernel_answers t @ ys"
    "\<forall>zs. abs_ops (LOS_ERRNO_MUX_TIMEOUT F) ops (mx_id \<lparr>mx_id = HDF_INVALID_MUX_ID\<rparr> \<noteq> HDF_INVALID_MUX_ID) (ys @ zs) =
       (qs, mx_id k \<noteq> HDF_INVALID_MUX_ID, zs)"
    using ports(2) by blast
  have "abs_ops (LOS_ETIMEDOUT E) ops False xs = (rs, realMutex h \<noteq> None, [])"
    and "abs_ops (LOS_ERRNO_MUX_TIMEOUT F) ops False ys = (qs, mx_id k \<noteq> HDF_INVALID_MUX_ID, [])"
    using x(2) [THEN spec, of "[]"] y(2) [THEN spec, of "[]"] by simp_all
  note same = abs_ops_same [OF _ this]
  show ?thesis
    using same assms(5) x(1) y(1) by (simp add: answers_since_def)
qed

text \<open>
  Where they differ: a handle that was never initialised and is zero is refused by one port and locks
  the kernel's mutex 0 on the other; a timer interval in milliseconds is converted to ticks by one and
  passed on as it is by the other.
\<close>

lemma zero_handle_locks:
  "OsalMutexLock E (Some \<lparr>realMutex = None\<rparr>) s = (HDF_ERR_INVALID_PARAM, s)"
  "ev (snd (M_OsalMutexLock F (Some \<lparr>mx_id = 0\<rparr>) t)) =
     ev t @ [(MuxPend 0 (M_LOS_MS2Tick F (M_HDF_WAIT_FOREVER F)),
              losm F (ev t) (MuxPend 0 (M_LOS_MS2Tick F (M_HDF_WAIT_FOREVER F))))]"
  by (simp_all add: OsalMutexLock_def M_OsalMutexLock_def mux_of_def HDF_INVALID_MUX_ID_def m_call_def ext_call_eq emit_def)

lemma interval_not_converted:
  assumes "m_timer_obj timer s = Some (p, Some lt)" and "mt_interval lt \<noteq> 0" and "mt_func lt = Some f"
  shows "\<exists>i x. (MSwtmrCreate i (mt_interval lt) b f (mt_arg lt), x) \<in> set (ev (snd (M_OsalStartTimer E timer b s)))"
  using assms
  by (auto simp: M_OsalStartTimer_def m_call_def ext_call_eq emit_def Let_def split: if_splits)

subsection \<open>The handle contract\<close>

text \<open>Locks of the smaller kernel hold no memory; a timer holds its object.\<close>

lemmas m_call_eq = m_call_def ext_call_eq

lemma m_emit [simp]: "heap_ok (s\<lparr>ev := x\<rparr>) = heap_ok s"
  by (simp add: heap_ok_def)

interpretation m_mutex: os_handle "M_OsalMutexInit E (Some m0)" "M_OsalMutexDestroy E"
  "\<lambda>m. mux_of m = None" "\<lambda>_. []" "\<lambda>_ _. True" heap_dom h_bad heap_ok
proof unfold_locales
  fix s s' :: m_sys and h r
  assume "heap_ok s" and "M_OsalMutexInit E (Some m0) s = (r, h, s')" and "r \<noteq> HDF_SUCCESS"
  then show "heap_ok s' \<and> heap_dom s' = heap_dom s \<and> h_bad s' = h_bad s"
    by (auto simp: M_OsalMutexInit_def m_call_eq emit_def split: if_splits)
qed (auto simp: M_OsalMutexInit_def M_OsalMutexDestroy_def mux_of_def m_call_eq emit_def
    split: if_splits option.splits)

interpretation m_spin: os_handle "M_OsalSpinInit E (Some m0)" "M_OsalSpinDestroy E"
  "\<lambda>m. spin_of m = None" "\<lambda>_. []" "\<lambda>_ _. True" heap_dom h_bad heap_ok
proof unfold_locales
  fix s s' :: m_sys and h r
  assume "heap_ok s" and "M_OsalSpinInit E (Some m0) s = (r, h, s')" and "r \<noteq> HDF_SUCCESS"
  then show "heap_ok s' \<and> heap_dom s' = heap_dom s \<and> h_bad s' = h_bad s"
    by (auto simp: M_OsalSpinInit_def m_call_eq emit_def split: if_splits)
qed (auto simp: M_OsalSpinInit_def M_OsalSpinDestroy_def spin_of_def m_call_eq emit_def
    split: if_splits option.splits)

definition m_timer_live :: "M_OsalTimer option \<Rightarrow> m_sys \<Rightarrow> bool" where
  "m_timer_live timer s \<longleftrightarrow>
     (\<exists>p lt. Option.bind timer m_realTimer = Some p \<and> m_timers s p = Some lt \<and> h_blk s p \<noteq> None)"

interpretation m_timer: os_handle "M_OsalTimerCreate E interval func arg (Some t0)" "M_OsalTimerDelete E"
  "\<lambda>t. Option.bind t m_realTimer = None" "\<lambda>t. ptr_list (Option.bind t m_realTimer)" m_timer_live
  heap_dom h_bad heap_ok
proof unfold_locales
  fix s s' :: m_sys and h
  assume ok: "heap_ok s" and "M_OsalTimerCreate E interval func arg (Some t0) s = (HDF_SUCCESS, h, s')"
  then show "m_timer_live h s' \<and> heap_ok s' \<and> set (ptr_list (Option.bind h m_realTimer)) \<inter> heap_dom s = {} \<and>
      heap_dom s' = heap_dom s \<union> set (ptr_list (Option.bind h m_realTimer)) \<and> h_bad s' = h_bad s"
    using heap_ok_fresh [OF ok]
    by (auto simp: M_OsalTimerCreate_def alloc_eqs m_timer_live_def heap_ok_def split: if_splits)
next
  fix s s' :: m_sys and h r
  assume "heap_ok s" and "M_OsalTimerCreate E interval func arg (Some t0) s = (r, h, s')" and "r \<noteq> HDF_SUCCESS"
  then show "heap_ok s' \<and> heap_dom s' = heap_dom s \<and> h_bad s' = h_bad s"
    by (auto simp: M_OsalTimerCreate_def alloc_eqs heap_ok_def split: if_splits)
next
  fix s :: m_sys and h :: "M_OsalTimer option"
  assume "Option.bind h m_realTimer = None"
  then show "M_OsalTimerDelete E h s = (HDF_ERR_INVALID_PARAM, h, s)"
    by (simp add: M_OsalTimerDelete_def m_timer_obj_def)
next
  fix s s' :: m_sys and h r h'
  assume "m_timer_live h s" and "M_OsalTimerDelete E h s = (r, h', s')"
  then show "(Option.bind h' m_realTimer = None \<and> heap_dom s' = heap_dom s - set (ptr_list (Option.bind h m_realTimer)) \<or>
      h' = h \<and> r \<noteq> HDF_SUCCESS \<and> heap_dom s' = heap_dom s) \<and> h_bad s' = h_bad s"
    by (cases h)
      (auto simp: M_OsalTimerDelete_def m_timer_obj_def m_timer_live_def m_call_eq emit_def OsalMemFree_def
        LOS_MemFree_def Let_def split: if_splits)
qed

subsection \<open>Examples\<close>

definition m_demo_env :: m_env where
  "m_demo_env = \<lparr>mem_ok = (\<lambda>_ _. True), mem_junk = (\<lambda>_ _. 0), copy_ok = (\<lambda>d n. n \<le> d),
     losm = (\<lambda>_ c. case c of MuxPend _ _ \<Rightarrow> 60 | _ \<Rightarrow> 0), mux_id = (\<lambda>_. 3), swtmr_id = (\<lambda>_. 4),
     M_LOS_MS2Tick = (\<lambda>ms. ms div 10), M_HDF_WAIT_FOREVER = 4294967295, LOS_ERRNO_MUX_TIMEOUT = 60\<rparr>"

definition m_demo :: m_sys where
  "m_demo = \<lparr>h_next = 0, h_blk = Map.empty, h_bad = False, ev = [], m_timers = Map.empty\<rparr>"

definition a_demo_env :: osal_env where
  "a_demo_env = osal_demo_env\<lparr>LOS_ETIMEDOUT := 110, los := (\<lambda>_ c. case c of MuxLock _ _ \<Rightarrow> 110 | _ \<Rightarrow> 0)\<rparr>"

definition lock_demo :: "lock_op list" where
  "lock_demo = [LockAcquire, LockInit, LockTimed 20, LockDestroy, LockRelease]"

lemma m_demo_run:
  "run_ops (m_run m_demo_env) lock_demo \<lparr>mx_id = HDF_INVALID_MUX_ID\<rparr> m_demo =
     ([HDF_ERR_INVALID_PARAM, HDF_SUCCESS, HDF_ERR_TIMEOUT, HDF_SUCCESS, HDF_ERR_INVALID_PARAM],
      \<lparr>mx_id = HDF_INVALID_MUX_ID\<rparr>,
      m_demo\<lparr>ev := [(MuxCreate, 0), (MuxPend 3 2, 60), (MuxDelete 3, 0)]\<rparr>)"
  by (simp add: lock_demo_def m_run_def m_demo_env_def m_demo_def M_OsalMutexInit_def M_OsalMutexLock_def
      M_OsalMutexTimedLock_def M_OsalMutexUnlock_def M_OsalMutexDestroy_def mux_of_def HDF_INVALID_MUX_ID_def
      m_call_def ext_call_eq emit_def)

lemma a_demo_answers:
  "kernel_answers (snd (snd (run_ops (a_run a_demo_env) lock_demo \<lparr>realMutex = None\<rparr> osal_demo))) = [0, 110, 0]"
  by (simp add: lock_demo_def a_run_def a_demo_env_def osal_demo_env_def osal_demo_def OsalMutexInit_def
      OsalMutexLock_def OsalMutexTimedLock_def OsalMutexUnlock_def OsalMutexDestroy_def alloc_eqs los_defs emit_def
      kernel_answers_def)

lemma mutex_ports_agree_witness:
  "fst (run_ops (a_run a_demo_env) lock_demo \<lparr>realMutex = None\<rparr> osal_demo) =
     [HDF_ERR_INVALID_PARAM, HDF_SUCCESS, HDF_ERR_TIMEOUT, HDF_SUCCESS, HDF_ERR_INVALID_PARAM]"
proof -
  obtain rs h s' where a: "run_ops (a_run a_demo_env) lock_demo \<lparr>realMutex = None\<rparr> osal_demo = (rs, h, s')"
    by (metis prod_cases3)
  have "kernel_answers s' = [0, 110, 0]"
    using a_demo_answers a by simp
  then have "list_all2 (same_answer (LOS_ETIMEDOUT a_demo_env) (LOS_ERRNO_MUX_TIMEOUT m_demo_env)) (answers_since osal_demo s')
      (answers_since m_demo (m_demo\<lparr>ev := [(MuxCreate, 0), (MuxPend 3 2, 60), (MuxDelete 3, 0)]\<rparr>))"
    "mem_ok a_demo_env n z" "mux_id m_demo_env tr \<noteq> HDF_INVALID_MUX_ID" for n z tr
    by (simp_all add: answers_since_def same_answer_def kernel_answers_def osal_demo_def m_demo_def a_demo_env_def osal_demo_env_def
        m_demo_env_def HDF_INVALID_MUX_ID_def)
  from mutex_ports_agree [OF this(2,3) a m_demo_run this(1)] a show ?thesis
    by simp
qed

end
