(* ===== verification/Sysevent.thy ===== *)
theory Sysevent
  imports Osal_Mem
begin

text \<open>
  Notifications of kernel events in user space, \<open>uhdf2/osal/src/osal_sysevent.c\<close>: one notifier per
  process with the list of the nodes that subscribed, and a listener on the device service
  \<open>hdf_kevent\<close> while anybody is subscribed.

  The notifier is a heap object (\<open>se_notifiers\<close>) that \<open>g_hdfSysEventNotifier\<close> points to and that is
  never freed. Nodes belong to their subscribers: \<open>se_nodes\<close> holds their filters, and a node is linked
  when it is in \<open>notifyNodeList\<close>. Linking a node twice or unlinking one that is not linked breaks the
  list (\<open>h_bad\<close>). Mutexes, message buffers, device services and the callbacks of the nodes are outside
  the repository: \<open>se_api\<close> gives the status of a call (0 is failure for \<open>SeSbufObtain\<close> and
  \<open>SeSbufWriteToken\<close>), \<open>se_bind\<close> what \<open>HdfIoServiceBind\<close> returns.
\<close>

record HdfSysEvent =
  eventClass :: u64
  eventid :: u32
  syncToken :: u64

datatype se_ev =
    SeMutexInit | SeLock nat | SeUnlock nat | BindKevent | RegisterListener nat nat
  | UnregisterListener nat nat | IoServiceRecycle nat | NodeCallback nat u64 u32 string
  | SeSbufObtain | SeSbufWriteToken u64 | SeSbufRecycle | CompleteEvent nat u64

record HdfSysEventNotifier =
  notifyNodeList :: "nat list"
  lis_onReceive :: bool
  lis_priv :: "nat option"
  keventIoService :: "nat option"

record se_sys = "(se_ev \<times> int) sys" +
  g_hdfSysEventNotifier :: "nat option"
  se_notifiers :: "nat \<Rightarrow> HdfSysEventNotifier option"
  se_nodes :: "nat \<Rightarrow> u64"

record se_env = mem_env +
  se_api :: "(se_ev \<times> int) list \<Rightarrow> se_ev \<Rightarrow> int"
  se_bind :: "(se_ev \<times> int) list \<Rightarrow> nat option"
  HDF_SYSEVENT :: u32
  sizeof_sysevent :: u32

definition se_call :: "se_env \<Rightarrow> se_ev \<Rightarrow> se_sys \<Rightarrow> int \<times> se_sys" where
  "se_call E c s = ext_call (se_api E) c s"

definition se_do :: "se_env \<Rightarrow> se_ev \<Rightarrow> se_sys \<Rightarrow> se_sys" where
  "se_do E c s = snd (se_call E c s)"

text \<open>Writing the notifier \<open>p\<close>.\<close>

definition set_notifier :: "nat \<Rightarrow> HdfSysEventNotifier \<Rightarrow> se_sys \<Rightarrow> se_sys" where
  "set_notifier p n s = s\<lparr>se_notifiers := (se_notifiers s)(p \<mapsto> n)\<rparr>"

subsection \<open>The notifier\<close>

definition HdfSysEventNotifierGetInstance :: "se_env \<Rightarrow> se_sys \<Rightarrow> nat option \<times> se_sys" where
  "HdfSysEventNotifierGetInstance E s =
     (case g_hdfSysEventNotifier s of Some p \<Rightarrow> (Some p, s) | None \<Rightarrow>
       (case OsalMemCalloc E (Objs ''HdfSysEventNotifier'' 1) s of
          (None, s1) \<Rightarrow> (None, s1)
        | (Some p, s1) \<Rightarrow>
            (case se_call E SeMutexInit s1 of (ret, s2) \<Rightarrow>
               if ret \<noteq> 0 then (None, OsalMemFree (Some p) s2)
               else
                 (Some p,
                  (set_notifier p
                     \<lparr>notifyNodeList = [], lis_onReceive = False, lis_priv = None, keventIoService = None\<rparr> s2)
                    \<lparr>g_hdfSysEventNotifier := Some p\<rparr>))))"

text \<open>The notifier is handed over with its address \<open>p\<close>.\<close>

definition InitKeventIoServiceListenerLocked ::
  "se_env \<Rightarrow> nat \<Rightarrow> HdfSysEventNotifier \<Rightarrow> se_sys \<Rightarrow> ret \<times> HdfSysEventNotifier \<times> se_sys" where
  "InitKeventIoServiceListenerLocked E p notifier s =
     (let (svc, s1) = (case keventIoService notifier of
                         Some v \<Rightarrow> (Some v, s) | None \<Rightarrow> (se_bind E (ev s), se_do E BindKevent s))
      in (case svc of None \<Rightarrow> (HDF_DEV_ERR_NO_DEVICE, notifier\<lparr>keventIoService := None\<rparr>, s1) | Some v \<Rightarrow>
           let n1 = notifier\<lparr>keventIoService := Some v, lis_onReceive := True, lis_priv := Some p\<rparr> in
           (case se_call E (RegisterListener v p) s1 of (ret, s2) \<Rightarrow>
              if ret \<noteq> 0
              then (ret_of ret, n1\<lparr>keventIoService := None\<rparr>, se_do E (IoServiceRecycle v) s2)
              else (ret_of ret, n1, s2))))"

definition DeInitKeventIoServiceListenerLocked ::
  "se_env \<Rightarrow> nat \<Rightarrow> HdfSysEventNotifier \<Rightarrow> se_sys \<Rightarrow> HdfSysEventNotifier \<times> se_sys" where
  "DeInitKeventIoServiceListenerLocked E p notifier s =
     (case keventIoService notifier of None \<Rightarrow> (notifier, s) | Some v \<Rightarrow>
        (notifier\<lparr>keventIoService := None\<rparr>,
         se_do E (IoServiceRecycle v) (se_do E (UnregisterListener v p) s)))"

subsection \<open>Subscribing\<close>

text \<open>\<open>DListInsertTail\<close> and \<open>DListRemove\<close> on the node list.\<close>

definition link_node :: "nat \<Rightarrow> HdfSysEventNotifier \<Rightarrow> se_sys \<Rightarrow> HdfSysEventNotifier \<times> se_sys" where
  "link_node n nt s =
     (nt\<lparr>notifyNodeList := notifyNodeList nt @ [n]\<rparr>,
      if n \<in> set (notifyNodeList nt) then s\<lparr>h_bad := True\<rparr> else s)"

definition unlink_node :: "nat \<Rightarrow> HdfSysEventNotifier \<Rightarrow> se_sys \<Rightarrow> HdfSysEventNotifier \<times> se_sys" where
  "unlink_node n nt s =
     (nt\<lparr>notifyNodeList := remove1 n (notifyNodeList nt)\<rparr>,
      if n \<in> set (notifyNodeList nt) then s else s\<lparr>h_bad := True\<rparr>)"

definition HdfSysEventNotifyRegister ::
  "se_env \<Rightarrow> nat option \<Rightarrow> u64 \<Rightarrow> se_sys \<Rightarrow> ret \<times> se_sys" where
  "HdfSysEventNotifyRegister E notifierNode classSet s =
     (case notifierNode of None \<Rightarrow> (HDF_ERR_INVALID_PARAM, s) | Some n \<Rightarrow>
       (case HdfSysEventNotifierGetInstance E s of
          (None, s1) \<Rightarrow> (HDF_DEV_ERR_NO_MEMORY, s1)
        | (Some p, s1) \<Rightarrow>
            (case se_notifiers s1 p of None \<Rightarrow> (HDF_FAILURE, s1\<lparr>h_bad := True\<rparr>) | Some nt \<Rightarrow>
              (case link_node n nt (se_do E (SeLock p) s1) of (n1, s2) \<Rightarrow>
                (case InitKeventIoServiceListenerLocked E p n1 (s2\<lparr>se_nodes := (se_nodes s2)(n := classSet)\<rparr>) of
                   (ret, n2, s3) \<Rightarrow>
                     (case (if ret \<noteq> HDF_SUCCESS then unlink_node n n2 s3 else (n2, s3)) of (n3, s4) \<Rightarrow>
                        (ret, se_do E (SeUnlock p) (set_notifier p n3 s4))))))))"

definition HdfSysEventNotifyUnregister :: "se_env \<Rightarrow> nat option \<Rightarrow> se_sys \<Rightarrow> se_sys" where
  "HdfSysEventNotifyUnregister E notifierNode s =
     (case notifierNode of None \<Rightarrow> s | Some n \<Rightarrow>
       (case HdfSysEventNotifierGetInstance E s of
          (None, s1) \<Rightarrow> s1
        | (Some p, s1) \<Rightarrow>
            (case se_notifiers s1 p of None \<Rightarrow> s1\<lparr>h_bad := True\<rparr> | Some nt \<Rightarrow>
              (case unlink_node n nt (se_do E (SeLock p) s1) of (n1, s2) \<Rightarrow>
                (case (if notifyNodeList n1 = [] then DeInitKeventIoServiceListenerLocked E p n1 s2 else (n1, s2)) of
                   (n2, s3) \<Rightarrow> se_do E (SeUnlock p) (set_notifier p n2 s3))))))"

subsection \<open>Events\<close>

definition FinishEvent :: "se_env \<Rightarrow> nat \<Rightarrow> HdfSysEvent \<Rightarrow> se_sys \<Rightarrow> ret \<times> se_sys" where
  "FinishEvent E service event s =
     (case se_call E SeSbufObtain s of (b, s1) \<Rightarrow>
        if b = 0 then (HDF_ERR_MALLOC_FAIL, s1)
        else
          (case se_call E (SeSbufWriteToken (syncToken event)) s1 of (w, s2) \<Rightarrow>
             if w = 0 then (HDF_FAILURE, se_do E SeSbufRecycle s2)
             else
               (case se_call E (CompleteEvent service (syncToken event)) s2 of (r, s3) \<Rightarrow>
                  (ret_of r, se_do E SeSbufRecycle s3))))"

text \<open>What \<open>HdfSbufReadBuffer\<close> and then \<open>HdfSbufReadString\<close> give for the message.\<close>

record se_data =
  sd_read :: bool
  sd_len :: u32
  sd_event :: HdfSysEvent
  sd_content :: "string option"

definition notify_node :: "se_env \<Rightarrow> HdfSysEvent \<Rightarrow> string \<Rightarrow> nat \<Rightarrow> se_sys \<Rightarrow> se_sys" where
  "notify_node E e content n s =
     (if eventClass e AND se_nodes s n \<noteq> 0
      then se_do E (NodeCallback n (eventClass e) (eventid e) content) s else s)"

text \<open>\<open>priv\<close> is the notifier the listener carries.\<close>

definition OnKEventReceived ::
  "se_env \<Rightarrow> nat option \<Rightarrow> nat \<Rightarrow> u32 \<Rightarrow> se_data \<Rightarrow> se_sys \<Rightarrow> ret \<times> se_sys" where
  "OnKEventReceived E priv service i data s =
     (case priv of None \<Rightarrow> (HDF_ERR_INVALID_PARAM, s) | Some p \<Rightarrow>
       if i \<noteq> HDF_SYSEVENT E then (HDF_ERR_INVALID_OBJECT, s)
       else if \<not> sd_read data \<or> sd_len data \<noteq> sizeof_sysevent E then (HDF_FAILURE, s)
       else
         let content = (case sd_content data of None \<Rightarrow> '''' | Some c \<Rightarrow> c);
             e = sd_event data;
             s1 = se_do E (SeLock p) s in
         (case se_notifiers s1 p of None \<Rightarrow> (HDF_FAILURE, s1\<lparr>h_bad := True\<rparr>) | Some nt \<Rightarrow>
            let s2 = fold (notify_node E e content) (notifyNodeList nt) s1;
                s3 = (if syncToken e \<noteq> 0 then snd (FinishEvent E service e s2) else s2)
            in (HDF_SUCCESS, se_do E (SeUnlock p) s3)))"

end
