(* ===== verification/Sysevent_Facts.thy ===== *)
theory Sysevent_Facts
  imports Sysevent
begin

text \<open>
  The subscriptions are a list of pairs of a node and its filter. Whatever the environment answers,
  the node list holds the nodes whose registration succeeded, and an event goes to those whose filter
  shares a class with it, in the order they subscribed.
\<close>

subsection \<open>Frame\<close>

lemma se_do_simps [simp]:
  "h_next (se_do E c s) = h_next s" "h_blk (se_do E c s) = h_blk s" "h_bad (se_do E c s) = h_bad s"
  "g_hdfSysEventNotifier (se_do E c s) = g_hdfSysEventNotifier s" "se_notifiers (se_do E c s) = se_notifiers s"
  "se_nodes (se_do E c s) = se_nodes s" "map fst (ev (se_do E c s)) = map fst (ev s) @ [c]"
  by (simp_all add: se_do_def se_call_def ext_call_eq emit_def)

lemma se_call_do: "se_call E c s = (se_api E (ev s) c, se_do E c s)"
  by (simp add: se_do_def se_call_def ext_call_eq)

lemma set_notifier_simps [simp]:
  "h_next (set_notifier p n s) = h_next s" "h_blk (set_notifier p n s) = h_blk s"
  "h_bad (set_notifier p n s) = h_bad s" "ev (set_notifier p n s) = ev s"
  "g_hdfSysEventNotifier (set_notifier p n s) = g_hdfSysEventNotifier s"
  "se_notifiers (set_notifier p n s) = (se_notifiers s)(p \<mapsto> n)" "se_nodes (set_notifier p n s) = se_nodes s"
  by (simp_all add: set_notifier_def)

subsection \<open>The subscriptions\<close>

text \<open>The nodes carry the filters they subscribed with.\<close>

definition has_filters :: "(nat \<Rightarrow> u64) \<Rightarrow> (nat \<times> u64) list \<Rightarrow> bool" where
  "has_filters m subs \<longleftrightarrow> (\<forall>x \<in> set subs. m (fst x) = snd x)"

text \<open>What the state says when the subscriptions are \<open>subs\<close>.\<close>

definition se_ok :: "(nat \<times> u64) list \<Rightarrow> se_sys \<Rightarrow> bool" where
  "se_ok subs s \<longleftrightarrow>
     heap_ok s \<and> \<not> h_bad s \<and> distinct (map fst subs) \<and> has_filters (se_nodes s) subs \<and>
     (case g_hdfSysEventNotifier s of
        None \<Rightarrow> subs = []
      | Some p \<Rightarrow> h_blk s p \<noteq> None \<and> (\<exists>nt. se_notifiers s p = Some nt \<and> notifyNodeList nt = map fst subs))"

definition subscribe :: "nat \<Rightarrow> u64 \<Rightarrow> ret \<Rightarrow> (nat \<times> u64) list \<Rightarrow> (nat \<times> u64) list" where
  "subscribe n c r subs = (if r = HDF_SUCCESS then subs @ [(n, c)] else subs)"

definition unsubscribe :: "nat \<Rightarrow> (nat \<times> u64) list \<Rightarrow> (nat \<times> u64) list" where
  "unsubscribe n subs = filter (\<lambda>(m, _). m \<noteq> n) subs"

lemma fst_unsubscribe [simp]: "map fst (unsubscribe n subs) = filter (\<lambda>m. m \<noteq> n) (map fst subs)"
  by (induction subs) (auto simp: unsubscribe_def)

lemma has_filters_simps [simp]:
  "has_filters m []" "n \<notin> fst ` set subs \<Longrightarrow> has_filters (m(n := c)) subs = has_filters m subs"
  "n \<notin> fst ` set subs \<Longrightarrow> has_filters (m(n := c)) (subs @ [(n, c)]) = has_filters m subs"
  "has_filters m subs \<Longrightarrow> has_filters m (unsubscribe n subs)"
  by (auto simp: has_filters_def unsubscribe_def rev_image_eqI; fastforce simp: image_iff)+

lemma remove1_map_fst: "distinct xs \<Longrightarrow> remove1 n xs = filter (\<lambda>m. m \<noteq> n) xs"
  by (simp add: distinct_remove1_removeAll removeAll_filter_not_eq eq_commute)

text \<open>The first call makes the notifier; later ones find it.\<close>

lemma get_instance:
  assumes "se_ok subs s" and "HdfSysEventNotifierGetInstance E s = (pp, s')"
  shows "se_ok subs s' \<and> se_nodes s' = se_nodes s \<and>
    (case pp of None \<Rightarrow> subs = [] \<and> g_hdfSysEventNotifier s = None
     | Some p \<Rightarrow> g_hdfSysEventNotifier s' = Some p \<and>
         (\<exists>nt. se_notifiers s' p = Some nt \<and> notifyNodeList nt = map fst subs))"
proof (cases "g_hdfSysEventNotifier s")
  case (Some p)
  then have "pp = Some p" "s' = s"
    using assms(2) by (simp_all add: HdfSysEventNotifierGetInstance_def)
  then show ?thesis
    using assms(1) Some by (auto simp: se_ok_def)
next
  case None
  then show ?thesis
    using assms
    by (auto simp: HdfSysEventNotifierGetInstance_def se_ok_def alloc_eqs se_call_do heap_ok_def set_notifier_def
        OsalMemFree_live split: if_splits)
qed

lemma init_listener:
  assumes "InitKeventIoServiceListenerLocked E p nt s = (r, nt', s')"
  shows "notifyNodeList nt' = notifyNodeList nt" "se_nodes s' = se_nodes s" "h_blk s' = h_blk s" "h_next s' = h_next s"
    "h_bad s' = h_bad s" "g_hdfSysEventNotifier s' = g_hdfSysEventNotifier s" "se_notifiers s' = se_notifiers s"
    "keventIoService nt' \<noteq> None \<longleftrightarrow> r = HDF_SUCCESS"
  using assms
  by (auto simp: InitKeventIoServiceListenerLocked_def se_call_do Let_def split: option.splits if_splits)

lemma deinit_listener:
  assumes "DeInitKeventIoServiceListenerLocked E p nt s = (nt', s')"
  shows "notifyNodeList nt' = notifyNodeList nt" "se_nodes s' = se_nodes s" "h_blk s' = h_blk s" "h_next s' = h_next s"
    "h_bad s' = h_bad s" "g_hdfSysEventNotifier s' = g_hdfSysEventNotifier s" "se_notifiers s' = se_notifiers s"
    "keventIoService nt' = None"
  using assms
  by (auto simp: DeInitKeventIoServiceListenerLocked_def split: option.splits)

lemma register_ok:
  assumes ok: "se_ok subs s" and new: "n \<notin> fst ` set subs"
    and run: "HdfSysEventNotifyRegister E (Some n) c s = (r, s')"
  shows "se_ok (subscribe n c r subs) s'"
proof -
  obtain pp s1 where g: "HdfSysEventNotifierGetInstance E s = (pp, s1)"
    by force
  note G = get_instance [OF ok g]
  show ?thesis
  proof (cases pp)
    case None
    then show ?thesis
      using G g run by (auto simp: HdfSysEventNotifyRegister_def subscribe_def)
  next
    case (Some p)
    then obtain nt where nt: "se_notifiers s1 p = Some nt" "notifyNodeList nt = map fst subs"
      and p: "g_hdfSysEventNotifier s1 = Some p"
      using G by auto
    let ?n1 = "nt\<lparr>notifyNodeList := notifyNodeList nt @ [n]\<rparr>"
    let ?s2 = "(se_do E (SeLock p) s1)\<lparr>se_nodes := (se_nodes (se_do E (SeLock p) s1))(n := c)\<rparr>"
    obtain r2 n2 s3 where i: "InitKeventIoServiceListenerLocked E p ?n1 ?s2 = (r2, n2, s3)"
      by (metis prod_cases3)
    note I = init_listener [OF i]
    have new': "n \<notin> set (map fst subs)"
      using new by auto
    have "se_ok subs s1"
      using G by simp
    then show ?thesis
      using run g Some nt p i new' I
      by (auto simp: HdfSysEventNotifyRegister_def link_node_def unlink_node_def subscribe_def se_ok_def heap_ok_def
          remove1_append split: if_splits)
  qed
qed

lemma unregister_ok:
  assumes ok: "se_ok subs s" and old: "n \<in> fst ` set subs"
  shows "se_ok (unsubscribe n subs) (HdfSysEventNotifyUnregister E (Some n) s)"
proof -
  obtain pp s1 where g: "HdfSysEventNotifierGetInstance E s = (pp, s1)"
    by force
  note G = get_instance [OF ok g]
  obtain p where pp: "pp = Some p"
    using G old by (cases pp) auto
  then obtain nt where nt: "se_notifiers s1 p = Some nt" "notifyNodeList nt = map fst subs"
    and p: "g_hdfSysEventNotifier s1 = Some p"
    using G by auto
  let ?n1 = "nt\<lparr>notifyNodeList := remove1 n (notifyNodeList nt)\<rparr>"
  obtain n2 s3 where d: "DeInitKeventIoServiceListenerLocked E p ?n1 (se_do E (SeLock p) s1) = (n2, s3)"
    by force
  note D = deinit_listener [OF d]
  have old': "n \<in> set (map fst subs)" and dist: "distinct (map fst subs)"
    using old ok by (auto simp: se_ok_def)
  have sub: "set (unsubscribe n subs) \<subseteq> set subs"
    by (auto simp: unsubscribe_def)
  have "se_ok subs s1"
    using G by simp
  then show ?thesis
    using g pp nt p d D old' dist sub
    by (auto simp: HdfSysEventNotifyUnregister_def unlink_node_def se_ok_def heap_ok_def remove1_map_fst
        distinct_filter)
qed

subsection \<open>Delivery\<close>

definition callbacks :: "HdfSysEvent \<Rightarrow> string \<Rightarrow> (nat \<times> u64) list \<Rightarrow> se_ev list" where
  "callbacks e content subs =
     map (\<lambda>(n, c). NodeCallback n (eventClass e) (eventid e) content) (filter (\<lambda>(n, c). eventClass e AND c \<noteq> 0) subs)"

lemma notify_all:
  shows "has_filters (se_nodes s) subs \<Longrightarrow>
      map fst (ev (fold (notify_node E e content) (map fst subs) s)) = map fst (ev s) @ callbacks e content subs"
    and "se_nodes (fold (notify_node E e content) ns s) = se_nodes s"
    and "h_blk (fold (notify_node E e content) ns s) = h_blk s" and "h_next (fold (notify_node E e content) ns s) = h_next s"
    and "h_bad (fold (notify_node E e content) ns s) = h_bad s"
    and "g_hdfSysEventNotifier (fold (notify_node E e content) ns s) = g_hdfSysEventNotifier s"
    and "se_notifiers (fold (notify_node E e content) ns s) = se_notifiers s"
proof -
  have step: "se_nodes (notify_node E e content n s) = se_nodes s" "h_blk (notify_node E e content n s) = h_blk s"
    "h_next (notify_node E e content n s) = h_next s" "h_bad (notify_node E e content n s) = h_bad s"
    "g_hdfSysEventNotifier (notify_node E e content n s) = g_hdfSysEventNotifier s"
    "se_notifiers (notify_node E e content n s) = se_notifiers s" for n s
    by (simp_all add: notify_node_def)
  show "map fst (ev (fold (notify_node E e content) (map fst subs) s)) = map fst (ev s) @ callbacks e content subs"
    if "has_filters (se_nodes s) subs"
    using that
  proof (induction subs arbitrary: s)
    case (Cons x subs)
    then have "has_filters (se_nodes (notify_node E e content (fst x) s)) subs"
      by (simp add: step has_filters_def)
    then show ?case
      using Cons by (cases x) (simp add: callbacks_def notify_node_def has_filters_def)
  qed (simp add: callbacks_def)
  show "se_nodes (fold (notify_node E e content) ns s) = se_nodes s"
    "h_blk (fold (notify_node E e content) ns s) = h_blk s" "h_next (fold (notify_node E e content) ns s) = h_next s"
    "h_bad (fold (notify_node E e content) ns s) = h_bad s"
    "g_hdfSysEventNotifier (fold (notify_node E e content) ns s) = g_hdfSysEventNotifier s"
    "se_notifiers (fold (notify_node E e content) ns s) = se_notifiers s"
    by (induction ns arbitrary: s) (simp_all add: step)
qed

text \<open>How far the completion of an event gets.\<close>

definition finishes :: "nat \<Rightarrow> u64 \<Rightarrow> se_ev list set" where
  "finishes v t =
     {[SeSbufObtain], [SeSbufObtain, SeSbufWriteToken t, SeSbufRecycle],
      [SeSbufObtain, SeSbufWriteToken t, CompleteEvent v t, SeSbufRecycle]}"

definition sbuf_ok :: "se_env \<Rightarrow> bool" where
  "sbuf_ok E \<longleftrightarrow> (\<forall>tr t. se_api E tr SeSbufObtain \<noteq> 0 \<and> se_api E tr (SeSbufWriteToken t) \<noteq> 0)"

lemma finish_event:
  "\<exists>fin \<in> finishes v (syncToken e).
     map fst (ev (snd (FinishEvent E v e s))) = map fst (ev s) @ fin \<and>
     (sbuf_ok E \<longrightarrow> CompleteEvent v (syncToken e) \<in> set fin)"
  by (auto simp: FinishEvent_def se_call_do finishes_def sbuf_ok_def)

lemma finish_frame [simp]:
  "se_nodes (snd (FinishEvent E v e s)) = se_nodes s" "h_blk (snd (FinishEvent E v e s)) = h_blk s"
  "h_next (snd (FinishEvent E v e s)) = h_next s" "h_bad (snd (FinishEvent E v e s)) = h_bad s"
  "g_hdfSysEventNotifier (snd (FinishEvent E v e s)) = g_hdfSysEventNotifier s"
  "se_notifiers (snd (FinishEvent E v e s)) = se_notifiers s"
  by (simp_all add: FinishEvent_def se_call_do)

definition readable :: "se_env \<Rightarrow> se_data \<Rightarrow> bool" where
  "readable E d \<longleftrightarrow> sd_read d \<and> sd_len d = sizeof_sysevent E"

definition content_of :: "se_data \<Rightarrow> string" where
  "content_of d = (case sd_content d of None \<Rightarrow> '''' | Some c \<Rightarrow> c)"

lemma received:
  assumes ok: "se_ok subs s" and p: "g_hdfSysEventNotifier s = Some p" and d: "readable E d"
    and run: "OnKEventReceived E (Some p) v (HDF_SYSEVENT E) d s = (r, s')"
  shows "r = HDF_SUCCESS \<and> se_ok subs s' \<and>
    (\<exists>fin. map fst (ev s') =
        map fst (ev s) @ SeLock p # callbacks (sd_event d) (content_of d) subs @ fin @ [SeUnlock p] \<and>
      (if syncToken (sd_event d) = 0 then fin = []
       else fin \<in> finishes v (syncToken (sd_event d)) \<and>
         (sbuf_ok E \<longrightarrow> CompleteEvent v (syncToken (sd_event d)) \<in> set fin)))"
proof -
  define e content where ec: "e = sd_event d" "content = content_of d"
  obtain nt where nt: "se_notifiers s p = Some nt" "notifyNodeList nt = map fst subs"
    using ok p by (auto simp: se_ok_def)
  define s2 where s2: "s2 = fold (notify_node E e content) (map fst subs) (se_do E (SeLock p) s)"
  have filt: "has_filters (se_nodes (se_do E (SeLock p) s)) subs"
    using ok by (simp add: se_ok_def)
  define s3 where s3: "s3 = (if syncToken e \<noteq> 0 then snd (FinishEvent E v e s2) else s2)"
  have r: "r = HDF_SUCCESS" "s' = se_do E (SeUnlock p) s3"
    using run d nt by (auto simp: OnKEventReceived_def readable_def content_of_def ec s2 s3 Let_def)
  have ok': "se_ok subs s'"
    using ok p by (simp add: r s3 s2 notify_all se_ok_def heap_ok_def)
  have "map fst (ev s2) = map fst (ev s) @ SeLock p # callbacks e content subs"
    by (simp add: s2 notify_all(1) [OF filt])
  then show ?thesis
    using ok' r finish_event [of v e E s2] by (auto simp: s3 ec)
qed

subsection \<open>The listener in the kernel\<close>

text \<open>The process has its listener in the kernel, which hands it events.\<close>

definition attached :: "se_sys \<Rightarrow> bool" where
  "attached s \<longleftrightarrow>
     (\<exists>p nt. g_hdfSysEventNotifier s = Some p \<and> se_notifiers s p = Some nt \<and> keventIoService nt \<noteq> None)"

text \<open>
  Every registration registers the listener again. When that fails the code recycles the service and
  forgets it, although other nodes are subscribed: they stay in the list and nothing listens for them,
  until another registration binds the service again or the last of them leaves.
\<close>

lemma register_attached:
  assumes ok: "se_ok subs s" and run: "HdfSysEventNotifyRegister E (Some n) c s = (r, s')"
  shows "attached s' = (r = HDF_SUCCESS)"
proof -
  obtain pp s1 where g: "HdfSysEventNotifierGetInstance E s = (pp, s1)"
    by force
  note G = get_instance [OF ok g]
  show ?thesis
  proof (cases pp)
    case None
    then have "g_hdfSysEventNotifier s1 = None"
      using G g by (auto simp: HdfSysEventNotifierGetInstance_def alloc_eqs se_call_do OsalMemFree_live split: if_splits)
    then show ?thesis
      using G g run None by (auto simp: HdfSysEventNotifyRegister_def attached_def)
  next
    case (Some p)
    then obtain nt where nt: "se_notifiers s1 p = Some nt" and p: "g_hdfSysEventNotifier s1 = Some p"
      using G by auto
    obtain n1 s2 where l: "link_node n nt (se_do E (SeLock p) s1) = (n1, s2)"
      by force
    obtain r2 n2 s3 where i: "InitKeventIoServiceListenerLocked E p n1 (s2\<lparr>se_nodes := (se_nodes s2)(n := c)\<rparr>) = (r2, n2, s3)"
      by (metis prod_cases3)
    have q: "g_hdfSysEventNotifier s2 = Some p"
      using l p by (auto simp: link_node_def split: if_splits)
    show ?thesis
      using run g Some nt l i init_listener [OF i] q
      by (auto simp: HdfSysEventNotifyRegister_def attached_def unlink_node_def split: if_splits)
  qed
qed

text \<open>When the last node leaves, the listener goes.\<close>

lemma unregister_attached:
  assumes ok: "se_ok subs s" and old: "n \<in> fst ` set subs"
  shows "attached (HdfSysEventNotifyUnregister E (Some n) s) = (attached s \<and> unsubscribe n subs \<noteq> [])"
proof -
  obtain p where p: "g_hdfSysEventNotifier s = Some p"
    using ok old by (auto simp: se_ok_def split: option.splits)
  then obtain nt where nt: "se_notifiers s p = Some nt" "notifyNodeList nt = map fst subs"
    using ok by (auto simp: se_ok_def)
  have dist: "distinct (map fst subs)" "n \<in> set (map fst subs)"
    using ok old by (simp_all add: se_ok_def)
  let ?n1 = "nt\<lparr>notifyNodeList := remove1 n (notifyNodeList nt)\<rparr>"
  obtain n2 s3 where d: "DeInitKeventIoServiceListenerLocked E p ?n1 (se_do E (SeLock p) s) = (n2, s3)"
    by force
  have e: "remove1 n (notifyNodeList nt) = [] \<longleftrightarrow> unsubscribe n subs = []"
    using nt(2) dist(1) fst_unsubscribe [of n subs] by (metis remove1_map_fst map_is_Nil_conv)
  show ?thesis
    using p nt d dist(2) deinit_listener [OF d] e
    by (auto simp: HdfSysEventNotifyUnregister_def HdfSysEventNotifierGetInstance_def attached_def unlink_node_def
        split: if_splits)
qed

lemma event_attached:
  assumes "OnKEventReceived E (Some p) v i d s = (r, s')" and "g_hdfSysEventNotifier s = Some p"
  shows "attached s' = attached s"
  using assms
  by (auto simp: OnKEventReceived_def attached_def Let_def notify_all split: option.splits if_splits)

subsection \<open>Runs\<close>

text \<open>
  The calls of the subscribers and the events of the kernel in any order. \<open>subs\<close> are the nodes whose
  registration succeeded; \<open>up\<close> says whether the last registration that was tried succeeded, with a node
  left since. A subscriber registers a node that is not subscribed and unregisters one that is.
\<close>

inductive se_run :: "se_env \<Rightarrow> se_sys \<Rightarrow> (nat \<times> u64) list \<Rightarrow> bool \<Rightarrow> bool" for E where
  start: "heap_ok s \<Longrightarrow> \<not> h_bad s \<Longrightarrow> g_hdfSysEventNotifier s = None \<Longrightarrow> se_run E s [] False"
| register: "se_run E s subs up \<Longrightarrow> n \<notin> fst ` set subs \<Longrightarrow>
    HdfSysEventNotifyRegister E (Some n) c s = (r, s') \<Longrightarrow> se_run E s' (subscribe n c r subs) (r = HDF_SUCCESS)"
| unregister: "se_run E s subs up \<Longrightarrow> n \<in> fst ` set subs \<Longrightarrow>
    se_run E (HdfSysEventNotifyUnregister E (Some n) s) (unsubscribe n subs) (up \<and> unsubscribe n subs \<noteq> [])"
| event: "se_run E s subs up \<Longrightarrow> g_hdfSysEventNotifier s = Some p \<Longrightarrow> readable E d \<Longrightarrow>
    OnKEventReceived E (Some p) v (HDF_SYSEVENT E) d s = (r, s') \<Longrightarrow> se_run E s' subs up"

lemma run_ok: "se_run E s subs up \<Longrightarrow> se_ok subs s \<and> attached s = up"
proof (induction rule: se_run.induct)
  case (start s)
  then show ?case
    by (simp add: se_ok_def attached_def)
next
  case (register s subs up n c r s')
  then show ?case
    using register_ok register_attached by blast
next
  case (unregister s subs up n)
  then show ?case
    using unregister_ok unregister_attached by blast
next
  case (event s subs up p d v r s')
  then show ?case
    using received event_attached by blast
qed


subsection \<open>Examples\<close>

text \<open>Node 1 listens for class 1, node 2 for classes 1 and 2; a third registration fails.\<close>

definition se_demo_env :: se_env where
  "se_demo_env = \<lparr>mem_ok = (\<lambda>_ _. True), mem_junk = (\<lambda>_ _. 0), copy_ok = (\<lambda>d n. n \<le> d),
     se_api = (\<lambda>tr c. case c of SeSbufObtain \<Rightarrow> 1 | SeSbufWriteToken _ \<Rightarrow> 1
                 | RegisterListener _ _ \<Rightarrow> if length tr < 9 then 0 else -1 | _ \<Rightarrow> 0),
     se_bind = (\<lambda>_. Some 7), HDF_SYSEVENT = 5, sizeof_sysevent = 24\<rparr>"

definition se_demo0 :: se_sys where
  "se_demo0 = \<lparr>h_next = 0, h_blk = Map.empty, h_bad = False, ev = [], g_hdfSysEventNotifier = None,
     se_notifiers = Map.empty, se_nodes = (\<lambda>_. 0)\<rparr>"

definition se_demo1 :: se_sys where
  "se_demo1 = snd (HdfSysEventNotifyRegister se_demo_env (Some 1) 1 se_demo0)"

definition se_demo2 :: se_sys where
  "se_demo2 = snd (HdfSysEventNotifyRegister se_demo_env (Some 2) 3 se_demo1)"


lemmas se_demo_simps =
  se_demo_env_def se_demo0_def HdfSysEventNotifyRegister_def HdfSysEventNotifierGetInstance_def alloc_eqs
  se_call_def se_do_def ext_call_eq emit_def set_notifier_def link_node_def unlink_node_def
  InitKeventIoServiceListenerLocked_def

lemma se_demo2_eq:
  "fst (HdfSysEventNotifyRegister se_demo_env (Some 1) 1 se_demo0) = HDF_SUCCESS"
  "fst (HdfSysEventNotifyRegister se_demo_env (Some 2) 3 se_demo1) = HDF_SUCCESS"
  "g_hdfSysEventNotifier se_demo2 = Some 0"
  "map fst (ev se_demo2) = [SeMutexInit, SeLock 0, BindKevent, RegisterListener 7 0, SeUnlock 0,
     SeLock 0, RegisterListener 7 0, SeUnlock 0]"
  "fst (HdfSysEventNotifyRegister se_demo_env (Some 3) 1 se_demo2) = Num (-1)"
  by (simp_all add: se_demo2_def se_demo1_def se_demo_simps ret_of_def)

lemma se_demo2_run: "se_run se_demo_env se_demo2 [(1, 1), (2, 3)] True"
proof -
  have "se_run se_demo_env se_demo0 [] False"
    by (rule se_run.start) (simp_all add: se_demo0_def heap_ok_def)
  from se_run.register [OF this, of 1 1 "HDF_SUCCESS" se_demo1]
  have "se_run se_demo_env se_demo1 [(1, 1)] True"
    using se_demo2_eq(1) by (simp add: se_demo1_def subscribe_def prod_eq_iff)
  from se_run.register [OF this, of 2 3 "HDF_SUCCESS" se_demo2]
  show ?thesis
    using se_demo2_eq(2) by (simp add: se_demo2_def subscribe_def prod_eq_iff)
qed


text \<open>The registration of node 3 fails and takes nodes 1 and 2 with it.\<close>

lemma demo_register_fails: "\<not> attached (snd (HdfSysEventNotifyRegister se_demo_env (Some 3) 1 se_demo2))"
proof -
  have "se_ok [(1, 1), (2, 3)] se_demo2"
    using run_ok [OF se_demo2_run] by simp
  from register_attached [OF this surjective_pairing, of se_demo_env 3 1] show ?thesis
    unfolding se_demo2_eq(5) by simp
qed

end
