(* ===== verification/Uart_Dev.thy ===== *)
theory Uart_Dev
  imports Bus_Buffer
begin

text \<open>
  The character devices of UART ports and of the GPIO pins, \<open>khdf/liteos/platform/src/uart_dev.c\<close> and
  \<open>gpio_dev.c\<close>.

  The UART core and the GPIO core, the virtual file system and the copies between a process and the
  kernel are outside the repository; \<open>copy_errno\<close> is what a \<open>memcpy_s\<close> that refuses returns. \<open>bus_api\<close> gives the status of a call; a read of a port that
  returns \<open>n\<close> has put \<open>port_data\<close> into the first \<open>n\<close> bytes of its buffer. A buffer argument in the range of
  user addresses is copied through a heap block; any other is handed to the core as it is.

  A file is \<open>NULL\<close>, or a vnode that is \<open>NULL\<close>, or its driver data, whose \<open>priv\<close> is the port.
\<close>

datatype port_op =
    UartHostRequest "nat option" | UartHostRelease "nat option" | UartHostRead "nat option" nat u32
  | UartHostWrite "nat option" "u8 list" | UartHostSetBaud "nat option" u32 | UartHostSetTransMode "nat option" u32
  | UartHostSetAttribute "nat option" "u8 list" | UartHostPollEvent "nat option"
  | UartFormatName int | UartRegister int nat | UartUnregister int
  | PinSetDir u16 u8 | PinGetDir u16 | PinRead u16 | PinWrite u16 u8 | GpioRegister u16 | GpioUnregister

record drv_data =
  drv_priv :: "nat option"

type_synonym uart_file = "drv_data option option option"

record GpioBitInfo =
  groupnumber :: u32
  bitnumber :: u32
  gp_value :: u8
  gp_direction :: u8

record port_env = "port_op bus_env" +
  port_data :: "port_op bus_trace \<Rightarrow> nat \<Rightarrow> u8"
  LOS_IsUserAddressRange :: "nat \<Rightarrow> u32 \<Rightarrow> bool"
  sizeof_UartAttribute :: u32
  copy_errno :: int
  UART_MODE_RD_BLOCK :: u32
  UART_MODE_RD_NONBLOCK :: u32
  user_pin :: "nat \<Rightarrow> GpioBitInfo"
  pin_value :: "port_op bus_trace \<Rightarrow> u16"

type_synonym port_sys = "(port_op bus_ev \<times> int, unit) sys_scheme"

definition port_call :: "port_env \<Rightarrow> port_op \<Rightarrow> port_sys \<Rightarrow> int \<times> port_sys" where
  "port_call E c s = bus_call E (Bus c) s"

subsection \<open>Opening and closing a port\<close>

text \<open>The port of a file; the driver data is dereferenced without a test.\<close>

definition with_host :: "uart_file \<Rightarrow> (nat option \<Rightarrow> port_sys \<Rightarrow> ret \<times> port_sys) \<Rightarrow> port_sys \<Rightarrow> ret \<times> port_sys" where
  "with_host filep f s =
     (case filep of
        None \<Rightarrow> (HDF_ERR_INVALID_PARAM, s)
      | Some None \<Rightarrow> (HDF_ERR_INVALID_PARAM, s)
      | Some (Some None) \<Rightarrow> (HDF_FAILURE, s\<lparr>h_bad := True\<rparr>)
      | Some (Some (Some drv)) \<Rightarrow> f (drv_priv drv) s)"

definition status_of :: "int \<times> port_sys \<Rightarrow> ret \<times> port_sys" where
  "status_of rs = (ret_of (fst rs), snd rs)"

definition UartDevOpen :: "port_env \<Rightarrow> uart_file \<Rightarrow> port_sys \<Rightarrow> ret \<times> port_sys" where
  "UartDevOpen E filep s = with_host filep (\<lambda>host t. status_of (port_call E (UartHostRequest host) t)) s"

definition UartDevRelease :: "port_env \<Rightarrow> uart_file \<Rightarrow> port_sys \<Rightarrow> ret \<times> port_sys" where
  "UartDevRelease E filep s = with_host filep (\<lambda>host t. status_of (port_call E (UartHostRelease host) t)) s"

subsection \<open>Reading and writing\<close>

definition UartDevRead :: "port_env \<Rightarrow> uart_file \<Rightarrow> nat \<Rightarrow> u32 \<Rightarrow> port_sys \<Rightarrow> ret \<times> port_sys" where
  "UartDevRead E filep buf count s =
     with_host filep (\<lambda>host s0.
       if LOS_IsUserAddressRange E buf count then
         (case OsalMemCalloc E (Bytes (unat count)) s0 of
            (None, s1) \<Rightarrow> (HDF_ERR_MALLOC_FAIL, s1)
          | (Some tmp, s1) \<Rightarrow>
              (case port_call E (UartHostRead host tmp count) s1 of (n, s2) \<Rightarrow>
                 if n > 0 then
                   (case LOS_CopyFromKernel E buf tmp 0 (nat n)
                           (mem_write tmp 0 (map (port_data E (ev s1)) [0..<nat n]) s2) of
                      (r, s3) \<Rightarrow> (if r \<noteq> 0 then ret_of r else ret_of n, OsalMemFree (Some tmp) s3))
                 else (ret_of n, OsalMemFree (Some tmp) s2)))
       else status_of (port_call E (UartHostRead host buf count) s0)) s"

definition UartDevWrite :: "port_env \<Rightarrow> uart_file \<Rightarrow> nat \<Rightarrow> u32 \<Rightarrow> port_sys \<Rightarrow> ret \<times> port_sys" where
  "UartDevWrite E filep buf count s =
     with_host filep (\<lambda>host s0.
       if LOS_IsUserAddressRange E buf count then
         (case OsalMemCalloc E (Bytes (unat count)) s0 of
            (None, s1) \<Rightarrow> (HDF_ERR_MALLOC_FAIL, s1)
          | (Some tmp, s1) \<Rightarrow>
              (case LOS_CopyToKernel E tmp 0 buf (unat count) s1 of (r, s2) \<Rightarrow>
                 if r \<noteq> 0 then (ret_of r, OsalMemFree (Some tmp) s2)
                 else
                   (case mem_read tmp 0 (unat count) s2 of
                      None \<Rightarrow> (HDF_FAILURE, s2\<lparr>h_bad := True\<rparr>)
                    | Some ys \<Rightarrow>
                        (case port_call E (UartHostWrite host ys) s2 of (n, s3) \<Rightarrow>
                           (ret_of n, OsalMemFree (Some tmp) s3)))))
       else status_of (port_call E (UartHostWrite host (user_bytes E buf (unat count))) s0)) s"

subsection \<open>Control calls\<close>

text \<open>An attribute in kernel memory is copied with \<open>memcpy_s\<close>.\<close>

definition UartCfgAttr :: "port_env \<Rightarrow> nat option \<Rightarrow> nat \<Rightarrow> port_sys \<Rightarrow> ret \<times> port_sys" where
  "UartCfgAttr E host arg s =
     (let len = sizeof_UartAttribute E;
          (r, s1) = (if \<not> LOS_IsUserAddressRange E arg len
                     then (if copy_ok E (unat len) (unat len) then 0 else copy_errno E, s)
                     else bus_call E (CopyIn arg (unat len)) s)
      in if r \<noteq> 0 then (ret_of r, s1)
         else status_of (port_call E (UartHostSetAttribute host (user_bytes E arg (unat len))) s1))"

datatype uart_cmd = UART_CFG_BAUDRATE | UART_CFG_RD_BLOCK | UART_CFG_ATTR | TIOCGWINSZ | UART_CMD_OTHER

definition UART_RD_BLOCK :: u32 where "UART_RD_BLOCK = 1"
definition UART_RD_NONBLOCK :: u32 where "UART_RD_NONBLOCK = 0"

definition UartDevIoctl :: "port_env \<Rightarrow> uart_file \<Rightarrow> uart_cmd \<Rightarrow> u32 \<Rightarrow> port_sys \<Rightarrow> ret \<times> port_sys" where
  "UartDevIoctl E filep cmd arg s =
     with_host filep (\<lambda>host t.
       case cmd of
         UART_CFG_BAUDRATE \<Rightarrow> status_of (port_call E (UartHostSetBaud host arg) t)
       | UART_CFG_RD_BLOCK \<Rightarrow>
           (if arg = UART_RD_BLOCK then status_of (port_call E (UartHostSetTransMode host (UART_MODE_RD_BLOCK E)) t)
            else if arg = UART_RD_NONBLOCK
            then status_of (port_call E (UartHostSetTransMode host (UART_MODE_RD_NONBLOCK E)) t)
            else (HDF_FAILURE, t))
       | UART_CFG_ATTR \<Rightarrow> UartCfgAttr E host (unat arg) t
       | TIOCGWINSZ \<Rightarrow> (HDF_SUCCESS, t)
       | UART_CMD_OTHER \<Rightarrow> (HDF_ERR_NOT_SUPPORT, t)) s"

definition uartdev_poll :: "port_env \<Rightarrow> uart_file \<Rightarrow> port_sys \<Rightarrow> ret \<times> port_sys" where
  "uartdev_poll E filep s = with_host filep (\<lambda>host t. status_of (port_call E (UartHostPollEvent host) t)) s"

subsection \<open>Adding and removing the device of a port\<close>

definition MAX_DEV_NAME_SIZE :: nat where "MAX_DEV_NAME_SIZE = 32"

text \<open>A port is \<open>NULL\<close>, or its number, whether it has a controller, and its address.\<close>

record uart_host =
  uh_num :: int
  uh_priv :: bool
  uh_addr :: nat

definition UartAddRemoveDev :: "port_env \<Rightarrow> uart_host option \<Rightarrow> bool \<Rightarrow> port_sys \<Rightarrow> port_sys" where
  "UartAddRemoveDev E host add s =
     (case host of None \<Rightarrow> s | Some h \<Rightarrow>
       if \<not> uh_priv h then s
       else
         (case OsalMemCalloc E (Bytes (MAX_DEV_NAME_SIZE + 1)) s of
            (None, s1) \<Rightarrow> s1
          | (Some name, s1) \<Rightarrow>
              (case port_call E (UartFormatName (uh_num h)) s1 of (r, s2) \<Rightarrow>
                 if r < 0 then OsalMemFree (Some name) s2
                 else if add then OsalMemFree (Some name) (snd (port_call E (UartRegister (uh_num h) (uh_addr h)) s2))
                 else OsalMemFree (Some name) (snd (port_call E (UartUnregister (uh_num h)) s2)))))"

definition UartAddDev :: "port_env \<Rightarrow> uart_host option \<Rightarrow> port_sys \<Rightarrow> port_sys" where
  "UartAddDev E host s = UartAddRemoveDev E host True s"

definition UartRemoveDev :: "port_env \<Rightarrow> uart_host option \<Rightarrow> port_sys \<Rightarrow> port_sys" where
  "UartRemoveDev E host s = UartAddRemoveDev E host False s"

subsection \<open>Pins\<close>

datatype gpio_cmd = GPIO_SET_DIR | GPIO_GET_DIR | GPIO_READ_BIT | GPIO_WRITE_BIT | GPIO_CMD_OTHER

definition GpioOpen :: int where "GpioOpen = 0"
definition GpioClose :: int where "GpioClose = 0"

text \<open>\<open>False\<close> is the result -1. A command that is not known sets \<open>ret\<close>, which is not returned.\<close>

definition GpioExecCmd ::
  "port_env \<Rightarrow> u16 \<Rightarrow> GpioBitInfo \<Rightarrow> gpio_cmd \<Rightarrow> port_sys \<Rightarrow> bool \<times> GpioBitInfo \<times> port_sys" where
  "GpioExecCmd E gpio info cmd s =
     (case cmd of
        GPIO_SET_DIR \<Rightarrow>
          (case port_call E (PinSetDir gpio (gp_direction info)) s of (r, s1) \<Rightarrow> (r = 0, info, s1))
      | GPIO_GET_DIR \<Rightarrow>
          (case port_call E (PinGetDir gpio) s of (r, s1) \<Rightarrow>
             if r \<noteq> 0 then (False, info, s1)
             else (True, info\<lparr>gp_direction := ucast (pin_value E (ev s))\<rparr>, s1))
      | GPIO_READ_BIT \<Rightarrow>
          (case port_call E (PinRead gpio) s of (r, s1) \<Rightarrow>
             if r \<noteq> 0 then (False, info, s1)
             else (True, info\<lparr>gp_value := ucast (pin_value E (ev s))\<rparr>, s1))
      | GPIO_WRITE_BIT \<Rightarrow>
          (case port_call E (PinWrite gpio (gp_value info)) s of (r, s1) \<Rightarrow> (r = 0, info, s1))
      | GPIO_CMD_OTHER \<Rightarrow> (True, info, s))"

text \<open>
  The private data of the device is the number of pins of a group; data that is \<open>NULL\<close> is refused.
  The pin number is cut to 16 bits. \<open>out\<close> is what the call copies back into the process.
\<close>

definition GpioIoctl ::
  "port_env \<Rightarrow> u16 option option \<Rightarrow> gpio_cmd \<Rightarrow> nat \<Rightarrow> port_sys \<Rightarrow> ret \<times> GpioBitInfo option \<times> port_sys" where
  "GpioIoctl E filep cmd arg s =
     (case filep of None \<Rightarrow> (HDF_ERR_INVALID_PARAM, None, s) | Some None \<Rightarrow> (HDF_ERR_INVALID_PARAM, None, s)
      | Some (Some bitNum) \<Rightarrow>
        (case bus_call E (CopyStruct ''GpioBitInfo'') s of (r, s1) \<Rightarrow>
           if r \<noteq> 0 then (Num (-1), None, s1)
           else
             let info = user_pin E arg;
                 gpio = ucast (groupnumber info * ucast bitNum + bitnumber info) in
             (case GpioExecCmd E gpio info cmd s1 of (ok, info1, s2) \<Rightarrow>
                if \<not> ok then (Num (-1), None, s2)
                else if cmd = GPIO_GET_DIR \<or> cmd = GPIO_READ_BIT then
                  (case bus_call E (CopyStruct ''GpioBitInfo back'') s2 of (r2, s3) \<Rightarrow>
                     if r2 \<noteq> 0 then (Num (-1), None, s3) else (HDF_SUCCESS, Some info1, s3))
                else (HDF_SUCCESS, None, s2))))"

definition GpioAddVfs :: "port_env \<Rightarrow> u16 \<Rightarrow> port_sys \<Rightarrow> ret \<times> port_sys" where
  "GpioAddVfs E bitNum s =
     (case port_call E (GpioRegister bitNum) s of (r, s1) \<Rightarrow> (if r \<noteq> 0 then HDF_FAILURE else HDF_SUCCESS, s1))"

definition GpioRemoveVfs :: "port_env \<Rightarrow> port_sys \<Rightarrow> port_sys" where
  "GpioRemoveVfs E s = snd (port_call E GpioUnregister s)"

end
