(* ===== verification/Uart_Dev_Facts.thy ===== *)
theory Uart_Dev_Facts
  imports Uart_Dev
begin

text \<open>
  What the UART and GPIO devices promise: a read gives the process exactly the bytes the port
  delivered, a write gives the port exactly the bytes of the process, and neither keeps memory,
  whatever fails. A pin number that does not fit wraps, and an unknown pin command succeeds.
\<close>

lemmas port_simps = port_call_def bus_call_def ext_call_eq emit_def

lemma with_host_file [simp]: "with_host (Some (Some (Some drv))) f s = f (drv_priv drv) s"
  by (simp add: with_host_def)

text \<open>The calls of a transfer, and its result, in terms of what the environment answers.\<close>

definition read_calls :: "port_env \<Rightarrow> nat option \<Rightarrow> nat \<Rightarrow> nat \<Rightarrow> u32 \<Rightarrow> port_op bus_trace \<Rightarrow> ret \<times> port_op bus_trace" where
  "read_calls E host tmp buf count tr =
     (let c = Bus (UartHostRead host tmp count); n = bus_api E tr c; tr1 = tr @ [(c, n)] in
      if n \<le> 0 then (ret_of n, tr1)
      else let d = CopyOut buf (map (port_data E tr) [0..<nat n]); r = bus_api E tr1 d
           in (if r \<noteq> 0 then ret_of r else ret_of n, tr1 @ [(d, r)]))"

definition write_calls :: "port_env \<Rightarrow> nat option \<Rightarrow> nat \<Rightarrow> u32 \<Rightarrow> port_op bus_trace \<Rightarrow> ret \<times> port_op bus_trace" where
  "write_calls E host buf count tr =
     (let c = CopyIn buf (unat count); r = bus_api E tr c; tr1 = tr @ [(c, r)] in
      if r \<noteq> 0 then (ret_of r, tr1)
      else let d = Bus (UartHostWrite host (user_bytes E buf (unat count))); n = bus_api E tr1 d
           in (ret_of n, tr1 @ [(d, n)]))"

text \<open>The core reads no more than it is asked for.\<close>

definition reads_fit :: "port_env \<Rightarrow> bool" where
  "reads_fit E \<longleftrightarrow> (\<forall>tr h p c. bus_api E tr (Bus (UartHostRead h p c)) \<le> int (unat c))"

lemma fresh_upd:
  "heap_ok s \<Longrightarrow> ((h_blk s)(h_next s \<mapsto> v))(h_next s := None) = h_blk s"
  "heap_ok s \<Longrightarrow> (h_blk s)(h_next s := None) = h_blk s"
  by (simp_all add: fun_upd_idem heap_ok_fresh)

lemma calloc_count:
  "count = 0 \<or> \<not> mem_ok E (h_next s) (Bytes (unat count)) \<Longrightarrow>
     OsalMemCalloc E (Bytes (unat count)) s = (None, if count = 0 then s else s\<lparr>h_next := Suc (h_next s)\<rparr>)"
  "count \<noteq> 0 \<Longrightarrow> mem_ok E (h_next s) (Bytes (unat count)) \<Longrightarrow>
     OsalMemCalloc E (Bytes (unat count)) s =
       (Some (h_next s), s\<lparr>h_next := Suc (h_next s), h_blk := (h_blk s)(h_next s \<mapsto> replicate (unat count) 0)\<rparr>)"
  by (auto simp: mem_defs unat_eq_zero patch_def)

lemma read_user:
  assumes ok: "heap_ok s" and fit: "reads_fit E" and user: "LOS_IsUserAddressRange E buf count"
    and run: "UartDevRead E (Some (Some (Some drv))) buf count s = (r, s')"
  shows "h_blk s' = h_blk s \<and> h_bad s' = h_bad s \<and> heap_ok s' \<and>
    (r, ev s') = (if count = 0 \<or> \<not> mem_ok E (h_next s) (Bytes (unat count)) then (HDF_ERR_MALLOC_FAIL, ev s)
                  else read_calls E (drv_priv drv) (h_next s) buf count (ev s))"
proof (cases "count = 0 \<or> \<not> mem_ok E (h_next s) (Bytes (unat count))")
  case True
  then show ?thesis
    using run user ok by (auto simp: UartDevRead_def calloc_count heap_ok_def split: if_splits)
next
  case False
  let ?p = "h_next s"
  let ?c = "Bus (UartHostRead (drv_priv drv) ?p count)"
  let ?n = "bus_api E (ev s) ?c"
  let ?ys = "map (port_data E (ev s)) [0..<nat ?n]" and ?zs = "replicate (unat count - nat ?n) 0 :: u8 list"
  let ?s1 = "s\<lparr>h_next := Suc ?p, h_blk := (h_blk s)(?p \<mapsto> replicate (unat count) 0)\<rparr>"
  have "?n \<le> int (unat count)"
    using fit unfolding reads_fit_def by blast
  then have n: "nat ?n \<le> unat count"
    by (simp only: nat_le_iff)
  have a: "OsalMemCalloc E (Bytes (unat count)) s = (Some ?p, ?s1)"
    using False by (simp add: calloc_count)
  have w: "mem_write ?p 0 ?ys (emit (?c, ?n) ?s1) = (emit (?c, ?n) ?s1)\<lparr>h_blk := (h_blk s)(?p \<mapsto> [] @ ?ys @ ?zs)\<rparr>"
    using n by (simp add: mem_write_def patch_def)
  have "h_blk ((emit (?c, ?n) ?s1)\<lparr>h_blk := (h_blk s)(?p \<mapsto> [] @ ?ys @ ?zs)\<rparr>) ?p = Some ([] @ ?ys @ ?zs)"
    by simp
  note c = CopyFromKernel_mid [OF this, of 0 "nat ?n" E buf]
  show ?thesis
  proof (cases "?n > 0")
    case True
    then show ?thesis
      using False run user ok a w c
      by (auto simp: UartDevRead_def port_call_def bus_call_def ext_call_eq read_calls_def Let_def OsalMemFree_live
          fresh_upd heap_ok_def)
  next
    case none: False
    then show ?thesis
      using False run user ok a
      by (auto simp: UartDevRead_def port_simps read_calls_def Let_def OsalMemFree_live fresh_upd heap_ok_def)
  qed
qed

lemma write_user:
  assumes ok: "heap_ok s" and user: "LOS_IsUserAddressRange E buf count"
    and run: "UartDevWrite E (Some (Some (Some drv))) buf count s = (r, s')"
  shows "h_blk s' = h_blk s \<and> h_bad s' = h_bad s \<and> heap_ok s' \<and>
    (r, ev s') = (if count = 0 \<or> \<not> mem_ok E (h_next s) (Bytes (unat count)) then (HDF_ERR_MALLOC_FAIL, ev s)
                  else write_calls E (drv_priv drv) buf count (ev s))"
proof (cases "count = 0 \<or> \<not> mem_ok E (h_next s) (Bytes (unat count))")
  case True
  then show ?thesis
    using run user ok by (auto simp: UartDevWrite_def calloc_count heap_ok_def split: if_splits)
next
  case False
  let ?z = "replicate (unat count) 0 :: u8 list" and ?p = "h_next s"
  let ?s1 = "s\<lparr>h_next := Suc ?p, h_blk := (h_blk s)(?p \<mapsto> ?z)\<rparr>"
  have a: "OsalMemCalloc E (Bytes (unat count)) s = (Some ?p, ?s1)"
    using False by (simp add: calloc_count)
  have "h_blk ?s1 ?p = Some ([] @ ?z @ [])"
    by simp
  note c = CopyToKernel_mid [OF this, of 0 "unat count" E buf]
  show ?thesis
  proof (cases "bus_api E (ev s) (CopyIn buf (unat count)) = 0")
    case True
    then show ?thesis
      using False run user ok a c
      by (auto simp: UartDevWrite_def port_simps write_calls_def Let_def mem_read_def OsalMemFree_live fresh_upd heap_ok_def)
  next
    case fails: False
    then show ?thesis
      using False run user ok a c
      by (auto simp: UartDevWrite_def write_calls_def Let_def OsalMemFree_live fresh_upd heap_ok_def)
  qed
qed

text \<open>
  C37. For a user address, when the core reads no more than it was asked for: a transfer of 0
  bytes, or one whose buffer cannot be allocated, is answered with HDF_ERR_MALLOC_FAIL and does
  nothing. Otherwise a read copies to the process exactly the bytes the port delivered, a write
  hands the port exactly the bytes of the process, and both free their buffer, whatever the port
  and the copies answer.
\<close>

theorem uart_transfer:
  assumes "heap_ok s" and "reads_fit E" and "LOS_IsUserAddressRange E buf count"
  shows "(case UartDevRead E (Some (Some (Some drv))) buf count s of (r, s') \<Rightarrow>
        h_blk s' = h_blk s \<and> h_bad s' = h_bad s \<and>
        (r, ev s') = (if count = 0 \<or> \<not> mem_ok E (h_next s) (Bytes (unat count)) then (HDF_ERR_MALLOC_FAIL, ev s)
                      else read_calls E (drv_priv drv) (h_next s) buf count (ev s)))
    \<and> (case UartDevWrite E (Some (Some (Some drv))) buf count s of (r, s') \<Rightarrow>
        h_blk s' = h_blk s \<and> h_bad s' = h_bad s \<and>
        (r, ev s') = (if count = 0 \<or> \<not> mem_ok E (h_next s) (Bytes (unat count)) then (HDF_ERR_MALLOC_FAIL, ev s)
                      else write_calls E (drv_priv drv) buf count (ev s)))"
proof -
  obtain r s' q t where rw: "UartDevRead E (Some (Some (Some drv))) buf count s = (r, s')"
    "UartDevWrite E (Some (Some (Some drv))) buf count s = (q, t)"
    by (meson surj_pair)
  show ?thesis
    using read_user [OF assms rw(1)] write_user [OF assms(1,3) rw(2)] by (simp add: rw)
qed

lemma no_bytes:
  "heap_ok s \<Longrightarrow> LOS_IsUserAddressRange E buf 0 \<Longrightarrow>
     fst (UartDevRead E (Some (Some (Some drv))) buf 0 s) = HDF_ERR_MALLOC_FAIL"
  by (simp add: UartDevRead_def calloc_count(1) [of 0, simplified])

subsection \<open>Pins\<close>

lemma pin_wraps:
  assumes "bus_api E (ev s) (CopyStruct ''GpioBitInfo'') = 0" and "user_pin E arg = info"
    and "groupnumber info * ucast bitNum + bitnumber info = 65536 + ucast gpio"
  shows "\<exists>r. (Bus (PinWrite gpio (gp_value info)), r) \<in> set (ev (snd (snd (GpioIoctl E (Some (Some bitNum)) GPIO_WRITE_BIT arg s))))"
proof -
  have "ucast (65536 + ucast (gpio :: u16) :: u32) = gpio"
    by transfer (simp add: take_bit_eq_mod mod_simps)
  then show ?thesis
    using assms by (auto simp: GpioIoctl_def GpioExecCmd_def port_simps Let_def split: prod.split)
qed

text \<open>A witness: two bytes are read, of which the process gets both, and written back.\<close>

definition port_demo_env :: port_env where
  "port_demo_env = \<lparr>mem_ok = (\<lambda>_ _. True), mem_junk = (\<lambda>_ _. 0), copy_ok = (\<lambda>d n. n \<le> d),
     bus_api = (\<lambda>_ c. case c of Bus (UartHostRead _ _ n) \<Rightarrow> min 2 (int (unat n)) | Bus (UartHostWrite _ ys) \<Rightarrow> int (length ys) | _ \<Rightarrow> 0),
     user_byte = (\<lambda>_ i. of_nat i), port_data = (\<lambda>_ i. of_nat (40 + i)), LOS_IsUserAddressRange = (\<lambda>_ _. True),
     sizeof_UartAttribute = 8, copy_errno = 22, UART_MODE_RD_BLOCK = 0, UART_MODE_RD_NONBLOCK = 1,
     user_pin = (\<lambda>_. \<lparr>groupnumber = 1, bitnumber = 2, gp_value = 1, gp_direction = 0\<rparr>), pin_value = (\<lambda>_. 1)\<rparr>"

definition port_demo :: port_sys where
  "port_demo = \<lparr>h_next = 0, h_blk = Map.empty, h_bad = False, ev = []\<rparr>"

lemma uart_transfer_witness:
  "(case UartDevRead port_demo_env (Some (Some (Some \<lparr>drv_priv = Some 3\<rparr>))) 90 4 port_demo of (r, s') \<Rightarrow>
      r = Num 2 \<and> h_blk s' = Map.empty \<and> ev s' = [(Bus (UartHostRead (Some 3) 0 4), 2), (CopyOut 90 [40, 41], 0)])
   \<and> (case UartDevWrite port_demo_env (Some (Some (Some \<lparr>drv_priv = Some 3\<rparr>))) 90 4 port_demo of (r, s') \<Rightarrow>
      r = Num 4 \<and> h_blk s' = Map.empty \<and> ev s' = [(CopyIn 90 4, 0), (Bus (UartHostWrite (Some 3) [0, 1, 2, 3]), 4)])"
proof -
  let ?E = port_demo_env
  have h: "heap_ok port_demo" "reads_fit ?E" "LOS_IsUserAddressRange ?E 90 4" "(4 :: u32) \<noteq> 0"
    "mem_ok ?E (h_next port_demo) (Bytes (unat (4 :: u32)))"
    by (simp_all add: port_demo_def port_demo_env_def heap_ok_def reads_fit_def)
  have b: "h_blk port_demo = Map.empty"
    by (simp add: port_demo_def)
  have r: "read_calls ?E (Some 3) (h_next port_demo) 90 4 (ev port_demo) =
      (Num 2, [(Bus (UartHostRead (Some 3) 0 4), 2), (CopyOut 90 [40, 41], 0)])"
    by (simp add: read_calls_def port_demo_def port_demo_env_def Let_def ret_of_def upt_conv_Cons)
  have w: "write_calls ?E (Some 3) 90 4 (ev port_demo) =
      (Num 4, [(CopyIn 90 4, 0), (Bus (UartHostWrite (Some 3) [0, 1, 2, 3]), 4)])"
    by (simp add: write_calls_def port_demo_def port_demo_env_def Let_def ret_of_def user_bytes_def upt_conv_Cons)
  show ?thesis
    using uart_transfer [OF h(1-3), of "\<lparr>drv_priv = Some 3\<rparr>"] b h(4,5) by (auto simp: r w split: prod.splits)
qed

lemma unknown_pin_command:
  "bus_api E (ev s) (CopyStruct ''GpioBitInfo'') = 0 \<Longrightarrow>
     fst (GpioIoctl E (Some (Some bitNum)) GPIO_CMD_OTHER arg s) = HDF_SUCCESS"
  by (simp add: GpioIoctl_def GpioExecCmd_def port_simps Let_def)

end
