(* ===== verification/Watchdog.thy ===== *)
theory Watchdog
  imports Osal_Mem
begin

text \<open>
  The watchdog drivers \<open>platform/watchdog/watchdog_bes.c\<close>, \<open>watchdog_wm.c\<close> (prefix \<open>W_\<close>) and
  \<open>watchdog_stm32f4xx.c\<close> (prefix \<open>S_\<close>, built without the configuration macros). They bind, initialise and
  release in the same way and differ in the chip behind them.

  The chip and its vendor library are outside the repository: their calls, and the writes of the
  registers of the STM32, are events; \<open>sr_busy\<close> and \<open>ticks\<close> are what a read of the status register and of
  the tick counter give. The configuration is \<open>wd_prop\<close>. A device object is \<open>NULL\<close> or says whether it has
  a property node; \<open>wd_service\<close> is its \<open>service\<close> field, which \<open>WatchdogCntlrFromDevice\<close> returns.
  Memory that was allocated and not written holds \<open>wd_junk\<close>.
\<close>

record WatchdogDevice =
  watchdogId :: u32
  wd_timeout :: u32

record WatchdogCntlr =
  cn_priv :: "nat option"
  wdtId :: u32
  cn_ops :: bool

datatype wd_ev =
    SetIrqCallback u32 | HalStart u32 | HalStop u32 | HalSetTimeout u32 u32 | HalPing u32
  | TlsStartCal | TlsInit u32 | TlsStopCal | TlsClkGet | TlsReset
  | RegKR string | RegPR | RegRLR u32 | ReadSR | TickCountGet | CntlrLockInit

record wd_sys = "(wd_ev \<times> int) sys" +
  wd_service :: "nat option"
  wd_cntlrs :: "nat \<Rightarrow> WatchdogCntlr option"
  wd_devs :: "nat \<Rightarrow> WatchdogDevice option"
  g_watchdogStart :: bool
  g_watchdogTimeout :: u32
  hdf_iwdg :: bool

record wd_env = mem_env +
  wd_iface :: bool
  wd_prop :: "string \<Rightarrow> u32 option"
  wd_junk :: u32
  tls_elapsed :: "(wd_ev \<times> int) list \<Rightarrow> u32"
  sr_busy :: "(wd_ev \<times> int) list \<Rightarrow> bool"
  ticks :: "(wd_ev \<times> int) list \<Rightarrow> u64"
  WATCHDOG_UPDATE_TIME :: u64

datatype wd_status = WATCHDOG_STOP | WATCHDOG_START

definition wd_do :: "wd_ev \<Rightarrow> wd_sys \<Rightarrow> wd_sys" where
  "wd_do c s = emit (c, 0) s"

definition wd_bad :: "wd_sys \<Rightarrow> wd_sys" where
  "wd_bad s = s\<lparr>h_bad := True\<rparr>"

text \<open>The private device of a controller; \<open>err\<close> is the answer when there is none.\<close>

definition with_priv ::
  "ret \<Rightarrow> nat option \<Rightarrow> (nat \<Rightarrow> WatchdogDevice \<Rightarrow> wd_sys \<Rightarrow> ret \<times> wd_sys) \<Rightarrow> wd_sys \<Rightarrow> ret \<times> wd_sys" where
  "with_priv err watchdogCntlr f s =
     (case watchdogCntlr of None \<Rightarrow> (err, s) | Some p \<Rightarrow>
       (case wd_cntlrs s p of None \<Rightarrow> (HDF_FAILURE, wd_bad s) | Some c \<Rightarrow>
         (case cn_priv c of None \<Rightarrow> (err, s) | Some q \<Rightarrow>
           (case wd_devs s q of None \<Rightarrow> (HDF_FAILURE, wd_bad s) | Some d \<Rightarrow> f q d s))))"

subsection \<open>Binding, initialising and releasing\<close>

definition WatchdogDriverBind :: "wd_env \<Rightarrow> bool option \<Rightarrow> wd_sys \<Rightarrow> ret \<times> wd_sys" where
  "WatchdogDriverBind E device s =
     (if device = None then (HDF_FAILURE, s)
      else
        (case OsalMemAlloc E (Objs ''WatchdogCntlr'' 1) s of
           (None, s1) \<Rightarrow> (HDF_ERR_MALLOC_FAIL, s1)
         | (Some p, s1) \<Rightarrow>
             (HDF_SUCCESS,
              s1\<lparr>wd_service := Some p,
                 wd_cntlrs := (wd_cntlrs s1)(p \<mapsto> \<lparr>cn_priv = None, wdtId = wd_junk E, cn_ops = False\<rparr>)\<rparr>)))"

definition InitWatchdogDevice :: "WatchdogDevice option \<Rightarrow> wd_sys \<Rightarrow> ret \<times> wd_sys" where
  "InitWatchdogDevice watchdogDevice s =
     (case watchdogDevice of None \<Rightarrow> (HDF_ERR_INVALID_PARAM, s) | Some d \<Rightarrow>
        (HDF_SUCCESS, wd_do (SetIrqCallback (watchdogId d)) s))"

definition GetWatchdogDeviceResource :: "wd_env \<Rightarrow> bool \<Rightarrow> WatchdogDevice \<Rightarrow> ret \<times> WatchdogDevice" where
  "GetWatchdogDeviceResource E resourceNode d =
     (if \<not> resourceNode then (HDF_ERR_INVALID_PARAM, d)
      else if \<not> wd_iface E then (HDF_ERR_INVALID_OBJECT, d)
      else
        (case wd_prop E ''watchdogId'' of None \<Rightarrow> (HDF_FAILURE, d)
         | Some i \<Rightarrow> (HDF_SUCCESS, d\<lparr>watchdogId := i\<rparr>)))"

text \<open>\<open>p\<close> is the controller; \<open>get\<close>, \<open>put\<close> and \<open>init\<close> are what the drivers do differently.\<close>

definition attach_device ::
  "wd_env \<Rightarrow> (bool \<Rightarrow> WatchdogDevice \<Rightarrow> ret \<times> WatchdogDevice)
   \<Rightarrow> (WatchdogDevice \<Rightarrow> WatchdogCntlr \<Rightarrow> WatchdogCntlr) \<Rightarrow> (WatchdogDevice \<Rightarrow> wd_sys \<Rightarrow> ret \<times> wd_sys)
   \<Rightarrow> nat \<Rightarrow> bool option \<Rightarrow> wd_sys \<Rightarrow> ret \<times> wd_sys" where
  "attach_device E get put init p device s =
     (if device \<noteq> Some True then (HDF_FAILURE, s)
      else
        (case OsalMemAlloc E (Objs ''WatchdogDevice'' 1) s of
           (None, s1) \<Rightarrow> (HDF_ERR_MALLOC_FAIL, s1)
         | (Some q, s1) \<Rightarrow>
             (case get True \<lparr>watchdogId = wd_junk E, wd_timeout = wd_junk E\<rparr> of (ret, d) \<Rightarrow>
                if ret \<noteq> HDF_SUCCESS then (HDF_FAILURE, OsalMemFree (Some q) s1)
                else
                  (case wd_cntlrs s1 p of None \<Rightarrow> (HDF_FAILURE, wd_bad s1) | Some c \<Rightarrow>
                     init d (s1\<lparr>wd_devs := (wd_devs s1)(q \<mapsto> d),
                                wd_cntlrs := (wd_cntlrs s1)(p \<mapsto> put d (c\<lparr>cn_priv := Some q\<rparr>))\<rparr>)))))"

definition AttachWatchdogDevice :: "wd_env \<Rightarrow> nat \<Rightarrow> bool option \<Rightarrow> wd_sys \<Rightarrow> ret \<times> wd_sys" where
  "AttachWatchdogDevice E p device s =
     attach_device E (GetWatchdogDeviceResource E) (\<lambda>d c. c\<lparr>wdtId := watchdogId d\<rparr>)
       (\<lambda>d. InitWatchdogDevice (Some d)) p device s"

text \<open>A controller that could not be attached is freed; the service field of the device keeps it.\<close>

definition driver_init ::
  "(nat \<Rightarrow> bool option \<Rightarrow> wd_sys \<Rightarrow> ret \<times> wd_sys) \<Rightarrow> bool option \<Rightarrow> wd_sys \<Rightarrow> ret \<times> wd_sys" where
  "driver_init attach device s =
     (if device = None then (HDF_ERR_INVALID_OBJECT, s)
      else
        (case wd_service s of None \<Rightarrow> (HDF_ERR_INVALID_PARAM, s) | Some p \<Rightarrow>
          (case attach p device s of (ret, s1) \<Rightarrow>
             if ret \<noteq> HDF_SUCCESS
             then (HDF_ERR_INVALID_PARAM, (OsalMemFree (Some p) s1)\<lparr>wd_cntlrs := (wd_cntlrs s1)(p := None)\<rparr>)
             else
               (ret, s1\<lparr>wd_cntlrs := (wd_cntlrs s1)(p := map_option (\<lambda>c. c\<lparr>cn_ops := True\<rparr>) (wd_cntlrs s1 p))\<rparr>))))"

definition WatchdogDriverInit :: "wd_env \<Rightarrow> bool option \<Rightarrow> wd_sys \<Rightarrow> ret \<times> wd_sys" where
  "WatchdogDriverInit E device s = driver_init (AttachWatchdogDevice E) device s"

definition WatchdogDriverRelease :: "bool option \<Rightarrow> wd_sys \<Rightarrow> wd_sys" where
  "WatchdogDriverRelease device s =
     (if device = None then s
      else
        (case wd_service s of None \<Rightarrow> s | Some p \<Rightarrow>
          (case wd_cntlrs s p of None \<Rightarrow> wd_bad s | Some c \<Rightarrow>
            (case cn_priv c of None \<Rightarrow> s | Some q \<Rightarrow>
               (OsalMemFree (Some q) s)\<lparr>wd_devs := (wd_devs s)(q := None)\<rparr>))))"

subsection \<open>The BES chip\<close>

definition WatchdogDevStart :: "nat option \<Rightarrow> wd_sys \<Rightarrow> ret \<times> wd_sys" where
  "WatchdogDevStart watchdogCntlr s =
     with_priv HDF_ERR_INVALID_PARAM watchdogCntlr (\<lambda>q d t.
       (HDF_SUCCESS, (wd_do (HalStart (watchdogId d)) t)\<lparr>g_watchdogStart := True\<rparr>)) s"

definition WatchdogDevStop :: "nat option \<Rightarrow> wd_sys \<Rightarrow> ret \<times> wd_sys" where
  "WatchdogDevStop watchdogCntlr s =
     with_priv HDF_FAILURE watchdogCntlr (\<lambda>q d t.
       (HDF_SUCCESS, (wd_do (HalStop (watchdogId d)) t)\<lparr>g_watchdogStart := False\<rparr>)) s"

definition WatchdogDevSetTimeout :: "nat option \<Rightarrow> u32 \<Rightarrow> wd_sys \<Rightarrow> ret \<times> wd_sys" where
  "WatchdogDevSetTimeout watchdogCntlr seconds s =
     with_priv HDF_ERR_INVALID_PARAM watchdogCntlr (\<lambda>q d t.
       (HDF_SUCCESS, wd_do (HalSetTimeout (watchdogId d) seconds) (t\<lparr>g_watchdogTimeout := seconds\<rparr>))) s"

text \<open>The last argument says whether the out parameter is there; the result is what it is set to.\<close>

definition WatchdogDevGetTimeout :: "nat option \<Rightarrow> bool \<Rightarrow> wd_sys \<Rightarrow> ret \<times> u32 option" where
  "WatchdogDevGetTimeout watchdogCntlr seconds s =
     (if watchdogCntlr = None \<or> \<not> seconds then (HDF_ERR_INVALID_PARAM, None)
      else (HDF_SUCCESS, Some (g_watchdogTimeout s)))"

definition WatchdogDevGetStatus :: "nat option \<Rightarrow> bool \<Rightarrow> wd_sys \<Rightarrow> ret \<times> wd_status option" where
  "WatchdogDevGetStatus watchdogCntlr status s =
     (if watchdogCntlr = None \<or> \<not> status then (HDF_ERR_INVALID_PARAM, None)
      else (HDF_SUCCESS, Some (if g_watchdogStart s then WATCHDOG_START else WATCHDOG_STOP)))"

definition WatchdogDevFeed :: "nat option \<Rightarrow> wd_sys \<Rightarrow> ret \<times> wd_sys" where
  "WatchdogDevFeed watchdogCntlr s =
     with_priv HDF_ERR_INVALID_PARAM watchdogCntlr (\<lambda>q d t. (HDF_SUCCESS, wd_do (HalPing (watchdogId d)) t)) s"

subsection \<open>The WM chip\<close>

definition W_InitWatchdogDevice :: "WatchdogDevice option \<Rightarrow> wd_sys \<Rightarrow> ret \<times> wd_sys" where
  "W_InitWatchdogDevice watchdogDevice s =
     (case watchdogDevice of None \<Rightarrow> (HDF_ERR_INVALID_PARAM, s) | Some _ \<Rightarrow> (HDF_SUCCESS, s))"

definition W_GetWatchdogDeviceResource :: "wd_env \<Rightarrow> bool \<Rightarrow> WatchdogDevice \<Rightarrow> ret \<times> WatchdogDevice" where
  "W_GetWatchdogDeviceResource E resourceNode d =
     (if \<not> resourceNode then (HDF_ERR_INVALID_PARAM, d)
      else if \<not> wd_iface E then (HDF_ERR_INVALID_OBJECT, d)
      else (HDF_SUCCESS, d))"

definition W_AttachWatchdogDevice :: "wd_env \<Rightarrow> nat \<Rightarrow> bool option \<Rightarrow> wd_sys \<Rightarrow> ret \<times> wd_sys" where
  "W_AttachWatchdogDevice E p device s =
     attach_device E (W_GetWatchdogDeviceResource E) (\<lambda>d c. c) (\<lambda>d. W_InitWatchdogDevice (Some d)) p device s"

definition W_WatchdogDriverBind :: "wd_env \<Rightarrow> bool option \<Rightarrow> wd_sys \<Rightarrow> ret \<times> wd_sys" where
  "W_WatchdogDriverBind E device s = WatchdogDriverBind E device s"

definition W_WatchdogDriverInit :: "wd_env \<Rightarrow> bool option \<Rightarrow> wd_sys \<Rightarrow> ret \<times> wd_sys" where
  "W_WatchdogDriverInit E device s = driver_init (W_AttachWatchdogDevice E) device s"

definition W_WatchdogDriverRelease :: "bool option \<Rightarrow> wd_sys \<Rightarrow> wd_sys" where
  "W_WatchdogDriverRelease device s = WatchdogDriverRelease device s"

definition W_WatchdogDevStart :: "nat option \<Rightarrow> wd_sys \<Rightarrow> ret \<times> wd_sys" where
  "W_WatchdogDevStart watchdogCntlr s = (HDF_SUCCESS, (wd_do TlsStartCal s)\<lparr>g_watchdogStart := True\<rparr>)"

definition W_WatchdogDevSetTimeout :: "nat option \<Rightarrow> u32 \<Rightarrow> wd_sys \<Rightarrow> ret \<times> wd_sys" where
  "W_WatchdogDevSetTimeout watchdogCntlr seconds s =
     (HDF_SUCCESS, wd_do (TlsInit seconds) (s\<lparr>g_watchdogTimeout := seconds\<rparr>))"

text \<open>Asking for the timeout stops the measurement of the elapsed time and answers with it.\<close>

definition W_WatchdogDevGetTimeout ::
  "wd_env \<Rightarrow> nat option \<Rightarrow> bool \<Rightarrow> wd_sys \<Rightarrow> ret \<times> u32 option \<times> wd_sys" where
  "W_WatchdogDevGetTimeout E watchdogCntlr seconds s =
     (if watchdogCntlr = None \<or> \<not> seconds then (HDF_ERR_INVALID_PARAM, None, s)
      else
        (let s1 = (wd_do TlsStopCal s)\<lparr>g_watchdogTimeout := tls_elapsed E (ev s)\<rparr>
         in (HDF_SUCCESS, Some (g_watchdogTimeout s1), s1)))"

definition W_WatchdogDevGetStatus :: "nat option \<Rightarrow> bool \<Rightarrow> wd_sys \<Rightarrow> ret \<times> wd_status option" where
  "W_WatchdogDevGetStatus watchdogCntlr status s = WatchdogDevGetStatus watchdogCntlr status s"

definition W_WatchdogDevFeed :: "nat option \<Rightarrow> wd_sys \<Rightarrow> ret \<times> wd_sys" where
  "W_WatchdogDevFeed watchdogCntlr s =
     (let s1 = wd_do TlsClkGet s in (HDF_SUCCESS, if g_watchdogStart s1 then wd_do TlsReset s1 else s1))"

subsection \<open>The STM32 chip\<close>

definition WATCHDOG_MIN_TIMEOUT :: int where "WATCHDOG_MIN_TIMEOUT = 1"
definition WATCHDOG_MAX_TIMEOUT :: int where "WATCHDOG_MAX_TIMEOUT = 4096"

definition S_InitWatchdogDeviceInfo :: "WatchdogDevice option \<Rightarrow> wd_sys \<Rightarrow> ret \<times> wd_sys" where
  "S_InitWatchdogDeviceInfo info s =
     (case info of None \<Rightarrow> (HDF_ERR_INVALID_PARAM, s) | Some _ \<Rightarrow> (HDF_SUCCESS, s))"

definition S_GetWatchdogDeviceInfoResource :: "wd_env \<Rightarrow> bool \<Rightarrow> WatchdogDevice \<Rightarrow> ret \<times> WatchdogDevice" where
  "S_GetWatchdogDeviceInfoResource E resourceNode d =
     (if \<not> resourceNode then (HDF_ERR_INVALID_PARAM, d)
      else if \<not> wd_iface E then (HDF_ERR_INVALID_OBJECT, d)
      else
        (case wd_prop E ''id'' of None \<Rightarrow> (HDF_FAILURE, d) | Some i \<Rightarrow>
          (case wd_prop E ''timeout'' of None \<Rightarrow> (HDF_FAILURE, d\<lparr>watchdogId := i\<rparr>)
           | Some t \<Rightarrow> (HDF_SUCCESS, d\<lparr>watchdogId := i, wd_timeout := t\<rparr>))))"

definition S_AttachWatchdogDeviceInfo :: "wd_env \<Rightarrow> nat \<Rightarrow> bool option \<Rightarrow> wd_sys \<Rightarrow> ret \<times> wd_sys" where
  "S_AttachWatchdogDeviceInfo E p device s =
     attach_device E (S_GetWatchdogDeviceInfoResource E) (\<lambda>d c. c\<lparr>wdtId := watchdogId d\<rparr>)
       (\<lambda>d t. S_InitWatchdogDeviceInfo (Some d) (wd_do CntlrLockInit t)) p device s"

definition S_WatchdogDriverBind :: "wd_env \<Rightarrow> bool option \<Rightarrow> wd_sys \<Rightarrow> ret \<times> wd_sys" where
  "S_WatchdogDriverBind E device s = WatchdogDriverBind E device s"

definition S_WatchdogDriverInit :: "wd_env \<Rightarrow> bool option \<Rightarrow> wd_sys \<Rightarrow> ret \<times> wd_sys" where
  "S_WatchdogDriverInit E device s = driver_init (S_AttachWatchdogDeviceInfo E) device s"

definition S_WatchdogDriverRelease :: "bool option \<Rightarrow> wd_sys \<Rightarrow> wd_sys" where
  "S_WatchdogDriverRelease device s = WatchdogDriverRelease device s"

definition read_SR :: "wd_env \<Rightarrow> wd_sys \<Rightarrow> bool \<times> wd_sys" where
  "read_SR E s = (sr_busy E (ev s), wd_do ReadSR s)"

definition LOS_TickCountGet :: "wd_env \<Rightarrow> wd_sys \<Rightarrow> u64 \<times> wd_sys" where
  "LOS_TickCountGet E s = (ticks E (ev s), wd_do TickCountGet s)"

text \<open>The waiting loop; \<open>False\<close> when the time is over. It need not end: the result is then \<open>None\<close>.\<close>

partial_function (option) wait_update :: "wd_env \<Rightarrow> u64 \<Rightarrow> wd_sys \<Rightarrow> (bool \<times> wd_sys) option" where
  "wait_update E tickstart s =
     (case read_SR E s of (busy, s1) \<Rightarrow>
        if \<not> busy then Some (True, s1)
        else
          (case LOS_TickCountGet E s1 of (t, s2) \<Rightarrow>
             if t - tickstart > WATCHDOG_UPDATE_TIME E then
               (case read_SR E s2 of (still, s3) \<Rightarrow> if still then Some (False, s3) else wait_update E tickstart s3)
             else wait_update E tickstart s2))"

text \<open>The timeout is a signed integer, cut to the range of the reload register.\<close>

definition clamp_timeout :: "u32 \<Rightarrow> int" where
  "clamp_timeout t =
     (let x = sint t; y = (if x < WATCHDOG_MIN_TIMEOUT then WATCHDOG_MIN_TIMEOUT else x)
      in if y > WATCHDOG_MAX_TIMEOUT then WATCHDOG_MAX_TIMEOUT else y)"

definition S_WatchdogDevStart :: "wd_env \<Rightarrow> nat option \<Rightarrow> wd_sys \<Rightarrow> (ret \<times> wd_sys) option" where
  "S_WatchdogDevStart E watchdogCntlr s =
     (case with_priv HDF_ERR_INVALID_PARAM watchdogCntlr (\<lambda>q d t.
        (HDF_SUCCESS,
         wd_do (RegRLR (word_of_int (clamp_timeout (wd_timeout d) - 1)))
           (wd_do RegPR (wd_do (RegKR ''WRITE_ACCESS'') (wd_do (RegKR ''ENABLE'') (t\<lparr>hdf_iwdg := True\<rparr>)))))) s of
       (r, s1) \<Rightarrow>
         if r \<noteq> HDF_SUCCESS then Some (r, s1)
         else
           (case LOS_TickCountGet E s1 of (tickstart, s2) \<Rightarrow>
             (case wait_update E tickstart s2 of None \<Rightarrow> None | Some (ready, s3) \<Rightarrow>
                if \<not> ready then Some (HDF_FAILURE, s3)
                else Some (HDF_SUCCESS, (wd_do (RegKR ''RELOAD'') s3)\<lparr>g_watchdogStart := True\<rparr>))))"

definition S_WatchdogDevStop :: "nat option \<Rightarrow> wd_sys \<Rightarrow> ret \<times> wd_sys" where
  "S_WatchdogDevStop watchdogCntlr s = (HDF_FAILURE, s)"

definition S_WatchdogDevSetTimeout :: "nat option \<Rightarrow> u32 \<Rightarrow> wd_sys \<Rightarrow> ret \<times> wd_sys" where
  "S_WatchdogDevSetTimeout watchdogCntlr seconds s =
     with_priv HDF_ERR_INVALID_PARAM watchdogCntlr (\<lambda>q d t.
       (HDF_SUCCESS, t\<lparr>wd_devs := (wd_devs t)(q \<mapsto> d\<lparr>wd_timeout := seconds\<rparr>)\<rparr>)) s"

definition S_WatchdogDevGetTimeout :: "nat option \<Rightarrow> bool \<Rightarrow> wd_sys \<Rightarrow> ret \<times> u32 option \<times> wd_sys" where
  "S_WatchdogDevGetTimeout watchdogCntlr seconds s =
     (case watchdogCntlr of None \<Rightarrow> (HDF_ERR_INVALID_PARAM, None, s) | Some p \<Rightarrow>
        if \<not> seconds then (HDF_ERR_INVALID_PARAM, None, s)
        else
          (case wd_cntlrs s p of None \<Rightarrow> (HDF_FAILURE, None, wd_bad s) | Some c \<Rightarrow>
            (case cn_priv c of None \<Rightarrow> (HDF_ERR_INVALID_OBJECT, None, s) | Some q \<Rightarrow>
              (case wd_devs s q of None \<Rightarrow> (HDF_FAILURE, None, wd_bad s)
               | Some d \<Rightarrow> (HDF_SUCCESS, Some (wd_timeout d), s)))))"

definition S_WatchdogDevGetStatus :: "nat option \<Rightarrow> bool \<Rightarrow> wd_sys \<Rightarrow> ret \<times> wd_status option" where
  "S_WatchdogDevGetStatus watchdogCntlr status s = WatchdogDevGetStatus watchdogCntlr status s"

definition S_WatchdogDevFeed :: "nat option \<Rightarrow> wd_sys \<Rightarrow> ret \<times> wd_sys" where
  "S_WatchdogDevFeed watchdogCntlr s = (HDF_SUCCESS, if hdf_iwdg s then wd_do (RegKR ''RELOAD'') s else s)"

text \<open>Methods that are not in the table of operations.\<close>

definition WatchdogDevGetPriv :: ret where "WatchdogDevGetPriv = HDF_SUCCESS"
definition WatchdogDevReleasePriv :: ret where "WatchdogDevReleasePriv = HDF_SUCCESS"

end
