(* ===== verification/Watchdog_Facts.thy ===== *)
theory Watchdog_Facts
  imports Watchdog
begin

text \<open>
  What a watchdog promises: a timeout and whether it runs, changed by the calls as one expects. The BES
  and STM32 drivers implement that contract, the WM driver does not. The waiting loop of the STM32
  driver ends, and what it writes into the reload register is in range whatever timeout was set.
\<close>

subsection \<open>The contract\<close>

datatype wd_op = OpTimeout u32 | OpStart | OpStop | OpFeed

text \<open>What reaches the chip: the time it is to count, and that it is to run, to halt or to start over.\<close>

datatype wd_cmd = Program int | Run | Halt | Kick

text \<open>
  The abstract watchdog: its timeout, whether it runs, whether it was ever enabled (STM32) and the
  commands its chip has got.
\<close>

record abs_wd =
  aw_timeout :: u32
  aw_running :: bool
  aw_enabled :: bool
  aw_cmds :: "wd_cmd list"

definition tell :: "wd_cmd list \<Rightarrow> abs_wd \<Rightarrow> abs_wd" where
  "tell cs w = w\<lparr>aw_cmds := aw_cmds w @ cs\<rparr>"

text \<open>On the BES chip every call reaches the chip and succeeds.\<close>

fun bes_spec :: "wd_op \<Rightarrow> ret \<Rightarrow> abs_wd \<Rightarrow> abs_wd" where
  "bes_spec (OpTimeout t) r w = tell [Program (uint t)] (w\<lparr>aw_timeout := t\<rparr>)"
| "bes_spec OpStart r w = tell [Run] (w\<lparr>aw_running := True\<rparr>)"
| "bes_spec OpStop r w = tell [Halt] (w\<lparr>aw_running := False\<rparr>)"
| "bes_spec OpFeed r w = tell [Kick] w"

definition bes_answer :: "wd_op \<Rightarrow> ret \<Rightarrow> bool" where
  "bes_answer a r \<longleftrightarrow> r = HDF_SUCCESS"

text \<open>
  On the STM32 a timeout reaches the chip when the watchdog is started, cut to what the chip can count;
  it cannot be stopped, and feeding it does nothing before a start was tried.
\<close>

fun stm_spec :: "wd_op \<Rightarrow> ret \<Rightarrow> abs_wd \<Rightarrow> abs_wd" where
  "stm_spec (OpTimeout t) r w = w\<lparr>aw_timeout := t\<rparr>"
| "stm_spec OpStart r w =
     tell ([Run, Program (clamp_timeout (aw_timeout w))] @ (if r = HDF_SUCCESS then [Kick] else []))
       (w\<lparr>aw_running := aw_running w \<or> r = HDF_SUCCESS, aw_enabled := True\<rparr>)"
| "stm_spec OpStop r w = w"
| "stm_spec OpFeed r w = tell (if aw_enabled w then [Kick] else []) w"

definition stm_answer :: "wd_op \<Rightarrow> ret \<Rightarrow> bool" where
  "stm_answer a r \<longleftrightarrow>
     (case a of OpStart \<Rightarrow> r = HDF_SUCCESS \<or> r = HDF_FAILURE | OpStop \<Rightarrow> r = HDF_FAILURE | _ \<Rightarrow> r = HDF_SUCCESS)"

fun abs_wds :: "(wd_op \<Rightarrow> ret \<Rightarrow> abs_wd \<Rightarrow> abs_wd) \<Rightarrow> wd_op list \<Rightarrow> ret list \<Rightarrow> abs_wd \<Rightarrow> abs_wd" where
  "abs_wds spec (a # ops) (r # rs) v = abs_wds spec ops rs (spec a r v)"
| "abs_wds spec _ _ v = v"

text \<open>A sequence of calls; \<open>None\<close> when one does not return.\<close>

fun wd_calls :: "(wd_op \<Rightarrow> 's \<Rightarrow> (ret \<times> 's) option) \<Rightarrow> wd_op list \<Rightarrow> 's \<Rightarrow> (ret list \<times> 's) option" where
  "wd_calls f [] s = Some ([], s)"
| "wd_calls f (a # ops) s =
     (case f a s of None \<Rightarrow> None | Some (r, s1) \<Rightarrow>
       (case wd_calls f ops s1 of None \<Rightarrow> None | Some (rs, s2) \<Rightarrow> Some (r # rs, s2)))"

locale watchdog =
  fixes call :: "wd_op \<Rightarrow> 's \<Rightarrow> (ret \<times> 's) option"
    and ready :: "'s \<Rightarrow> bool"
    and view :: "'s \<Rightarrow> abs_wd"
    and spec :: "wd_op \<Rightarrow> ret \<Rightarrow> abs_wd \<Rightarrow> abs_wd"
    and answer :: "wd_op \<Rightarrow> ret \<Rightarrow> bool"
    and chip :: bool
  assumes call: "ready s \<Longrightarrow> call a s = Some (r, s') \<Longrightarrow> answer a r \<and> ready s' \<and> view s' = spec a r (view s)"
    and returns: "chip \<Longrightarrow> ready s \<Longrightarrow> \<exists>y. call a s = Some y"
begin

lemma calls:
  assumes "chip" and "ready s"
  shows "\<exists>rs s'. wd_calls call ops s = Some (rs, s') \<and> list_all2 answer ops rs \<and> ready s'
    \<and> view s' = abs_wds spec ops rs (view s)"
  using assms(2)
proof (induction ops arbitrary: s)
  case (Cons a ops)
  obtain r s1 where 1: "call a s = Some (r, s1)"
    using returns [OF assms(1) Cons.prems] by fastforce
  note C = call [OF Cons.prems 1]
  then show ?case
    using Cons.IH [of s1] 1 by fastforce
qed simp

end

subsection \<open>The drivers\<close>

text \<open>A controller that was initialised: it is live and so is its device.\<close>

definition wd_live :: "nat \<Rightarrow> wd_sys \<Rightarrow> bool" where
  "wd_live p s \<longleftrightarrow> (\<exists>c q d. wd_cntlrs s p = Some c \<and> cn_priv c = Some q \<and> wd_devs s q = Some d)"

definition bes_call :: "nat \<Rightarrow> wd_op \<Rightarrow> wd_sys \<Rightarrow> (ret \<times> wd_sys) option" where
  "bes_call p a s =
     (case a of OpTimeout t \<Rightarrow> Some (WatchdogDevSetTimeout (Some p) t s)
      | OpStart \<Rightarrow> Some (WatchdogDevStart (Some p) s) | OpStop \<Rightarrow> Some (WatchdogDevStop (Some p) s)
      | OpFeed \<Rightarrow> Some (WatchdogDevFeed (Some p) s))"

definition stm_call :: "wd_env \<Rightarrow> nat \<Rightarrow> wd_op \<Rightarrow> wd_sys \<Rightarrow> (ret \<times> wd_sys) option" where
  "stm_call E p a s =
     (case a of OpTimeout t \<Rightarrow> Some (S_WatchdogDevSetTimeout (Some p) t s)
      | OpStart \<Rightarrow> S_WatchdogDevStart E (Some p) s | OpStop \<Rightarrow> Some (S_WatchdogDevStop (Some p) s)
      | OpFeed \<Rightarrow> Some (S_WatchdogDevFeed (Some p) s))"

text \<open>The commands among the calls of the vendor library for the watchdog \<open>i\<close>, and among the register accesses.\<close>

definition dev_id :: "nat \<Rightarrow> wd_sys \<Rightarrow> u32" where
  "dev_id p s = watchdogId (the (wd_devs s (the (cn_priv (the (wd_cntlrs s p))))))"

fun bes_cmd :: "u32 \<Rightarrow> wd_ev \<Rightarrow> wd_cmd list" where
  "bes_cmd i (HalSetTimeout j t) = (if j = i then [Program (uint t)] else [])"
| "bes_cmd i (HalStart j) = (if j = i then [Run] else [])"
| "bes_cmd i (HalStop j) = (if j = i then [Halt] else [])"
| "bes_cmd i (HalPing j) = (if j = i then [Kick] else [])"
| "bes_cmd i _ = []"

fun stm_cmd :: "wd_ev \<Rightarrow> wd_cmd list" where
  "stm_cmd (RegKR k) = (if k = ''ENABLE'' then [Run] else if k = ''RELOAD'' then [Kick] else [])"
| "stm_cmd (RegRLR v) = [Program (uint v + 1)]"
| "stm_cmd _ = []"

text \<open>What the driver answers when it is asked, and what its chip has been told.\<close>

definition bes_view :: "nat \<Rightarrow> wd_sys \<Rightarrow> abs_wd" where
  "bes_view p s =
     \<lparr>aw_timeout = the (snd (WatchdogDevGetTimeout (Some p) True s)),
      aw_running = (WatchdogDevGetStatus (Some p) True s = (HDF_SUCCESS, Some WATCHDOG_START)),
      aw_enabled = hdf_iwdg s, aw_cmds = concat (map (bes_cmd (dev_id p s) \<circ> fst) (ev s))\<rparr>"

definition stm_view :: "nat \<Rightarrow> wd_sys \<Rightarrow> abs_wd" where
  "stm_view p s =
     \<lparr>aw_timeout = the (fst (snd (S_WatchdogDevGetTimeout (Some p) True s))),
      aw_running = (S_WatchdogDevGetStatus (Some p) True s = (HDF_SUCCESS, Some WATCHDOG_START)),
      aw_enabled = hdf_iwdg s, aw_cmds = concat (map (stm_cmd \<circ> fst) (ev s))\<rparr>"

lemma wd_do_simps [simp]:
  "wd_cntlrs (wd_do c s) = wd_cntlrs s" "wd_devs (wd_do c s) = wd_devs s" "wd_service (wd_do c s) = wd_service s"
  "g_watchdogStart (wd_do c s) = g_watchdogStart s" "g_watchdogTimeout (wd_do c s) = g_watchdogTimeout s"
  "h_blk (wd_do c s) = h_blk s" "h_bad (wd_do c s) = h_bad s" "h_next (wd_do c s) = h_next s"
  "hdf_iwdg (wd_do c s) = hdf_iwdg s" "ev (wd_do c s) = ev s @ [(c, 0)]"
  by (simp_all add: wd_do_def emit_def)

text \<open>Waiting reads registers and nothing else.\<close>

definition reads_only :: "wd_sys \<Rightarrow> wd_sys \<Rightarrow> bool" where
  "reads_only s s' \<longleftrightarrow>
     (\<exists>es. set es \<subseteq> {(ReadSR, 0), (TickCountGet, 0)} \<and> s' = s\<lparr>ev := ev s @ es\<rparr>)"

lemma reads_only_step: "reads_only (wd_do c s) s' \<Longrightarrow> c \<in> {ReadSR, TickCountGet} \<Longrightarrow> reads_only s s'"
  unfolding reads_only_def wd_do_def emit_def by (elim exE, rule_tac x = "(c, 0) # es" in exI) auto

lemma reads_only_one: "c \<in> {ReadSR, TickCountGet} \<Longrightarrow> reads_only s (wd_do c s)"
  unfolding reads_only_def wd_do_def emit_def by (rule exI [of _ "[(c, 0)]"]) auto

text \<open>
  When it says that the chip is ready, the last thing it saw was that it is; when it gives up, that it
  is still busy, after the time was over.
\<close>

definition waited :: "wd_env \<Rightarrow> u64 \<Rightarrow> wd_sys \<Rightarrow> bool \<times> wd_sys \<Rightarrow> bool" where
  "waited E t s y \<longleftrightarrow>
     reads_only s (snd y) \<and> (\<exists>tr. ev (snd y) = tr @ [(ReadSR, 0)] \<and> sr_busy E tr = (\<not> fst y) \<and>
       (\<not> fst y \<longrightarrow> (\<exists>tr'. tr = tr' @ [(TickCountGet, 0)] \<and> ticks E tr' - t > WATCHDOG_UPDATE_TIME E)))"

lemma waited_step: "waited E t (wd_do c s) y \<Longrightarrow> c \<in> {ReadSR, TickCountGet} \<Longrightarrow> waited E t s y"
  unfolding waited_def using reads_only_step by blast

lemma waited_ready: "\<not> sr_busy E (ev s) \<Longrightarrow> waited E t s (True, wd_do ReadSR s)"
  using reads_only_one [of ReadSR s] by (auto simp: waited_def)

lemma waited_over:
  assumes "ticks E (ev s) - t > WATCHDOG_UPDATE_TIME E" and "sr_busy E (ev (wd_do TickCountGet s))"
  shows "waited E t s (False, wd_do ReadSR (wd_do TickCountGet s))"
proof -
  have "reads_only s (wd_do ReadSR (wd_do TickCountGet s))"
    by (rule reads_only_step [OF reads_only_one]) simp_all
  then show ?thesis
    using assms by (auto simp: waited_def)
qed

lemmas wait_simps = read_SR_def LOS_TickCountGet_def

lemma wait_reads:
  assumes "wait_update E t s = Some y"
  shows "waited E t s y"
proof (rule wait_update.raw_induct [OF _ assms, where P = "\<lambda>E t s. waited E t s"], goal_cases)
  case (1 w E t s y)
  let ?s1 = "wd_do ReadSR s"
  let ?s2 = "wd_do TickCountGet ?s1"
  consider (ready) "\<not> sr_busy E (ev s)" "y = (True, ?s1)"
    | (over) "ticks E (ev ?s1) - t > WATCHDOG_UPDATE_TIME E" "sr_busy E (ev ?s2)" "y = (False, wd_do ReadSR ?s2)"
    | (again) "w E t (wd_do ReadSR ?s2) = Some y"
    | (more) "w E t ?s2 = Some y"
    using 1(2) unfolding wait_simps case_prod_conv by (metis option.inject)
  then show ?case
  proof cases
    case ready
    then show ?thesis
      using waited_ready by simp
  next
    case over
    then show ?thesis
      using waited_over [of E ?s1 t] waited_step by blast
  next
    case again
    then show ?thesis
      using 1(1) [OF again] waited_step by blast
  next
    case more
    then show ?thesis
      using 1(1) [OF more] waited_step by blast
  qed
qed

text \<open>
  The loop ends on a chip whose busy flag stays clear once it is clear, if the clock moves on: however
  the flag was read, when so many reads were made the allowed time has passed.
\<close>

definition settles :: "wd_env \<Rightarrow> bool" where
  "settles E \<longleftrightarrow>
     (\<forall>tr es. \<not> sr_busy E tr \<longrightarrow> set es \<subseteq> {(ReadSR, 0), (TickCountGet, 0)} \<longrightarrow> \<not> sr_busy E (tr @ es))"

definition clock_moves :: "wd_env \<Rightarrow> (wd_ev \<times> int) list \<Rightarrow> nat \<Rightarrow> bool" where
  "clock_moves E tr n \<longleftrightarrow>
     (\<forall>es. length es = n + 1 \<or> length es = n + 2 \<longrightarrow> ticks E (tr @ es) - ticks E tr > WATCHDOG_UPDATE_TIME E)"

lemma wait_ready: "\<not> sr_busy E (ev s) \<Longrightarrow> wait_update E t s = Some (True, wd_do ReadSR s)"
  by (subst wait_update.simps) (simp add: wait_simps)

lemma wait_returns:
  assumes settles: "settles E" and clock: "clock_moves E tr n" and "ev s = tr @ es" and "length es \<le> n + 1"
  shows "\<exists>y. wait_update E (ticks E tr) s = Some y"
  using assms(3,4)
proof (induction "n + 1 - length es" arbitrary: s es rule: less_induct)
  case less
  let ?s1 = "wd_do ReadSR s"
  let ?s2 = "wd_do TickCountGet ?s1"
  have e: "ev ?s1 = tr @ (es @ [(ReadSR, 0)])" "ev ?s2 = tr @ (es @ [(ReadSR, 0), (TickCountGet, 0)])"
    using less.prems(1) by simp_all
  show ?case
  proof (cases "sr_busy E (ev s)")
    case True
    show ?thesis
    proof (cases "ticks E (ev ?s1) - ticks E tr > WATCHDOG_UPDATE_TIME E")
      case over: True
      have "\<not> sr_busy E (ev (wd_do ReadSR ?s2))" if "\<not> sr_busy E (ev ?s2)"
        using settles that unfolding settles_def wd_do_simps by (metis subset_insertI list.set(1,2) empty_subsetI insert_subset insertI1)
      then show ?thesis
        using True over by (subst wait_update.simps) (auto simp: wait_simps wait_ready simp del: wd_do_simps(10))
    next
      case False
      then have "length (es @ [(ReadSR, 0 :: int)]) \<noteq> n + 1 \<and> length (es @ [(ReadSR, 0 :: int)]) \<noteq> n + 2"
        using clock e(1) unfolding clock_moves_def by metis
      then have "length (es @ [(ReadSR, 0 :: int)]) < n + 1"
        using less.prems(2) by simp
      then have "\<exists>y. wait_update E (ticks E tr) ?s2 = Some y"
        using less.hyps [of "es @ [(ReadSR, 0), (TickCountGet, 0)]" ?s2] e(2) by simp
      then show ?thesis
        using True False by (subst wait_update.simps) (simp add: wait_simps del: wd_do_simps(10))
    qed
  qed (use wait_ready in blast)
qed

subsection \<open>The drivers implement the contract\<close>

lemma with_priv_live:
  "wd_live p s \<Longrightarrow> \<exists>c q d. wd_cntlrs s p = Some c \<and> cn_priv c = Some q \<and> wd_devs s q = Some d \<and>
     with_priv err (Some p) f s = f q d s"
  by (auto simp: wd_live_def with_priv_def)

lemma bes_step:
  assumes "wd_live p s" and "bes_call p a s = Some (r, s')"
  shows "bes_answer a r \<and> wd_live p s' \<and> bes_view p s' = bes_spec a r (bes_view p s)"
  using assms
  by (cases a)
    (auto simp: bes_call_def WatchdogDevSetTimeout_def WatchdogDevStart_def WatchdogDevStop_def WatchdogDevFeed_def
      wd_live_def with_priv_def bes_view_def WatchdogDevGetTimeout_def WatchdogDevGetStatus_def bes_answer_def
      dev_id_def tell_def)

lemma bes_returns: "\<exists>y. bes_call p a s = Some y"
  by (cases a) (simp_all add: bes_call_def)

lemma clamp_range: "1 \<le> clamp_timeout t \<and> clamp_timeout t \<le> 4096"
  by (auto simp: clamp_timeout_def WATCHDOG_MIN_TIMEOUT_def WATCHDOG_MAX_TIMEOUT_def Let_def)

lemma uint_reload: "uint (word_of_int (clamp_timeout t - 1) :: u32) = clamp_timeout t - 1"
proof -
  have "uint (word_of_int (clamp_timeout t - 1) :: u32) = (clamp_timeout t - 1) mod 4294967296"
    unfolding uint_word_of_int by simp
  also have "\<dots> = clamp_timeout t - 1"
    using clamp_range [of t] by simp
  finally show ?thesis .
qed

lemma clamp_reload: "word_of_int (clamp_timeout t - 1) \<le> (4095 :: u32)"
  using clamp_range [of t] uint_reload [of t] unfolding word_le_def by simp

text \<open>Starting the STM32 watchdog: the registers are written, then the driver waits.\<close>

definition start_writes :: "WatchdogDevice \<Rightarrow> (wd_ev \<times> int) list" where
  "start_writes d =
     [(RegKR ''ENABLE'', 0), (RegKR ''WRITE_ACCESS'', 0), (RegPR, 0),
      (RegRLR (word_of_int (clamp_timeout (wd_timeout d) - 1)), 0)]"

text \<open>
  \<open>tr\<close> is the trace when the waiting begins and \<open>es\<close> the reads: the wait is over when the flag is seen
  clear, or seen busy after the time.
\<close>

definition polls :: "wd_env \<Rightarrow> (wd_ev \<times> int) list \<Rightarrow> (wd_ev \<times> int) list \<Rightarrow> bool \<Rightarrow> bool" where
  "polls E tr es ok \<longleftrightarrow> set es \<subseteq> {(ReadSR, 0), (TickCountGet, 0)} \<and>
     (\<exists>es'. es = es' @ [(ReadSR, 0)] \<and> sr_busy E (tr @ es') = (\<not> ok) \<and>
       (\<not> ok \<longrightarrow> (\<exists>es''. es' = es'' @ [(TickCountGet, 0)] \<and>
          ticks E (tr @ es'') - ticks E tr > WATCHDOG_UPDATE_TIME E)))"

lemma waited_polls:
  assumes w: "waited E (ticks E tr) s (ok, s')" and s: "ev s = tr @ [(TickCountGet, 0)]"
  obtains es where "polls E tr es ok" "s' = s\<lparr>ev := tr @ es\<rparr>"
proof -
  obtain es tr1 where es: "set es \<subseteq> {(ReadSR, 0), (TickCountGet, 0)}" "s' = s\<lparr>ev := ev s @ es\<rparr>"
    and l: "ev s' = tr1 @ [(ReadSR, 0)]" "sr_busy E tr1 = (\<not> ok)"
    and o: "\<not> ok \<longrightarrow> (\<exists>tr2. tr1 = tr2 @ [(TickCountGet, 0)] \<and> ticks E tr2 - ticks E tr > WATCHDOG_UPDATE_TIME E)"
    using w unfolding waited_def reads_only_def fst_conv snd_conv by blast
  have "es \<noteq> []"
    using es(2) l(1) s by auto
  then obtain es1 where e1: "es = es1 @ [(ReadSR, 0)]"
    using es(2) l(1) by (cases es rule: rev_cases) auto
  then have tr1: "tr1 = tr @ ((TickCountGet, 0) # es1)"
    using es(2) l(1) s by simp
  have late: "\<exists>es''. (TickCountGet, 0) # es1 = es'' @ [(TickCountGet, 0)] \<and>
      ticks E (tr @ es'') - ticks E tr > WATCHDOG_UPDATE_TIME E" if "\<not> ok"
  proof -
    obtain tr2 where t2: "tr1 = tr2 @ [(TickCountGet, 0)]" "ticks E tr2 - ticks E tr > WATCHDOG_UPDATE_TIME E"
      using o \<open>\<not> ok\<close> by blast
    have "butlast tr1 = tr @ butlast ((TickCountGet, 0) # es1)" "last tr1 = last ((TickCountGet, 0) # es1)"
      unfolding tr1 by (simp_all add: butlast_append)
    moreover have "butlast tr1 = tr2" "last tr1 = (TickCountGet, 0)"
      unfolding t2(1) by simp_all
    ultimately show ?thesis
      using t2(2) by (metis append_butlast_last_id list.distinct(1))
  qed
  have "sr_busy E (tr @ ((TickCountGet, 0) # es1)) = (\<not> ok)"
    using l(2) tr1 by simp
  then have "polls E tr ((TickCountGet, 0) # es) ok"
    unfolding polls_def using es(1) e1 late
    by (intro conjI exI [of _ "(TickCountGet, 0) # es1"]) auto
  then show thesis
    using that es(2) s by simp
qed

lemma stm_start:
  assumes d: "wd_cntlrs s p = Some c" "cn_priv c = Some q" "wd_devs s q = Some d"
    and run: "S_WatchdogDevStart E (Some p) s = Some (r, s')"
  obtains es where "polls E (ev s @ start_writes d) es (r = HDF_SUCCESS)"
    "r = HDF_SUCCESS \<and> s' = s\<lparr>ev := ev s @ start_writes d @ es @ [(RegKR ''RELOAD'', 0)], hdf_iwdg := True, g_watchdogStart := True\<rparr>
     \<or> r = HDF_FAILURE \<and> s' = s\<lparr>ev := ev s @ start_writes d @ es, hdf_iwdg := True\<rparr>"
proof -
  let ?s1 = "s\<lparr>ev := ev s @ start_writes d, hdf_iwdg := True\<rparr>"
  let ?t = "ticks E (ev ?s1)"
  obtain b s3 where w: "wait_update E ?t (wd_do TickCountGet ?s1) = Some (b, s3)"
    and r: "(r, s') = (if b then (HDF_SUCCESS, (wd_do (RegKR ''RELOAD'') s3)\<lparr>g_watchdogStart := True\<rparr>) else (HDF_FAILURE, s3))"
    using run d
    by (auto simp: S_WatchdogDevStart_def with_priv_def LOS_TickCountGet_def start_writes_def wd_do_def emit_def
        split: option.splits if_splits)
  obtain es where es: "polls E (ev ?s1) es b" "s3 = (wd_do TickCountGet ?s1)\<lparr>ev := ev ?s1 @ es\<rparr>"
    by (rule waited_polls [OF wait_reads [OF w]]) simp
  have s3: "s3 = s\<lparr>ev := ev s @ start_writes d @ es, hdf_iwdg := True\<rparr>"
    using es(2) by (simp add: wd_do_def emit_def)
  show ?thesis
    using that [of es] es(1) r s3 by (cases b) (auto simp: wd_do_def emit_def)
qed

lemma polls_silent: "polls E tr es ok \<Longrightarrow> concat (map (stm_cmd \<circ> fst) es) = []"
  by (auto simp: polls_def)

lemma stm_step:
  assumes live: "wd_live p s" and run: "stm_call E p a s = Some (r, s')"
  shows "stm_answer a r \<and> wd_live p s' \<and> stm_view p s' = stm_spec a r (stm_view p s)"
proof (cases a)
  case OpStart
  obtain c q d where d: "wd_cntlrs s p = Some c" "cn_priv c = Some q" "wd_devs s q = Some d"
    using live by (auto simp: wd_live_def)
  obtain es where es: "polls E (ev s @ start_writes d) es (r = HDF_SUCCESS)"
    "r = HDF_SUCCESS \<and> s' = s\<lparr>ev := ev s @ start_writes d @ es @ [(RegKR ''RELOAD'', 0)], hdf_iwdg := True, g_watchdogStart := True\<rparr>
     \<or> r = HDF_FAILURE \<and> s' = s\<lparr>ev := ev s @ start_writes d @ es, hdf_iwdg := True\<rparr>"
    using run OpStart stm_start [OF d, of E r s'] by (auto simp: stm_call_def)
  have v: "aw_timeout (stm_view p s) = wd_timeout d"
    using d by (simp add: stm_view_def S_WatchdogDevGetTimeout_def)
  have w: "concat (map (stm_cmd \<circ> fst) (start_writes d)) = [Run, Program (clamp_timeout (wd_timeout d))]"
    using uint_reload by (simp add: start_writes_def)
  show ?thesis
    using es(2) d OpStart v w polls_silent [OF es(1)]
    by (auto simp: stm_answer_def wd_live_def stm_view_def S_WatchdogDevGetTimeout_def S_WatchdogDevGetStatus_def
        WatchdogDevGetStatus_def tell_def)
qed (use assms in \<open>auto simp: stm_call_def wd_live_def with_priv_def stm_view_def S_WatchdogDevSetTimeout_def
  S_WatchdogDevStop_def S_WatchdogDevFeed_def S_WatchdogDevGetTimeout_def S_WatchdogDevGetStatus_def
  WatchdogDevGetStatus_def stm_answer_def tell_def split: if_splits\<close>)

lemma start_returns:
  assumes "wd_cntlrs s p = Some c" and "cn_priv c = Some q" and "wd_devs s q = Some d"
    and "settles E" and "clock_moves E (ev s @ start_writes d) n"
  shows "\<exists>r s'. S_WatchdogDevStart E (Some p) s = Some (r, s')"
proof -
  let ?s1 = "s\<lparr>ev := ev s @ start_writes d, hdf_iwdg := True\<rparr>"
  obtain y where y: "wait_update E (ticks E (ev ?s1)) (wd_do TickCountGet ?s1) = Some y"
    using wait_returns [OF assms(4,5), of "wd_do TickCountGet ?s1" "[(TickCountGet, 0)]"] by auto
  show ?thesis
    using y assms(1-3)
    by (cases "fst y"; cases y)
      (auto simp: S_WatchdogDevStart_def with_priv_def LOS_TickCountGet_def start_writes_def wd_do_def emit_def
        split: option.splits)
qed

text \<open>A chip on which waiting ends, whenever it begins.\<close>

definition chip_ok :: "wd_env \<Rightarrow> bool" where
  "chip_ok E \<longleftrightarrow> settles E \<and> (\<forall>tr. \<exists>n. clock_moves E tr n)"

lemma stm_returns:
  assumes "chip_ok E" and "wd_live p s"
  shows "\<exists>y. stm_call E p a s = Some y"
proof -
  obtain c q d where d: "wd_cntlrs s p = Some c" "cn_priv c = Some q" "wd_devs s q = Some d"
    using assms(2) by (auto simp: wd_live_def)
  then obtain r s' where "S_WatchdogDevStart E (Some p) s = Some (r, s')"
    using assms(1) start_returns [OF d, of E] unfolding chip_ok_def by blast
  then show ?thesis
    by (cases a) (simp_all add: stm_call_def)
qed

interpretation bes: watchdog "bes_call p" "wd_live p" "bes_view p" bes_spec bes_answer True for p
  by unfold_locales (use bes_step bes_returns in blast)+

interpretation stm: watchdog "stm_call E p" "wd_live p" "stm_view p" stm_spec stm_answer "chip_ok E" for E p
  by unfold_locales (use stm_step stm_returns in blast)+

text \<open>
  C33. Any sequence of calls that set the timeout, start, stop and feed an initialised watchdog
  acts on the BES and on the STM32 driver as on an abstract watchdog, in what the driver reports
  (timeout, running) and in what reaches the chip, command by command. On the BES chip every
  call succeeds and is passed on once. On the STM32, whose waits end when its busy flag stays
  clear once clear and its clock moves on, a start programs the last timeout cut to 1..4096, a
  start that succeeds also reloads, a feed reloads once a start was tried, and a stop fails
  without effect.
\<close>

theorem watchdog_refines:
  assumes "wd_live p s" and "chip_ok E"
  shows "(\<exists>rs s'. wd_calls (bes_call p) ops s = Some (rs, s') \<and> list_all2 bes_answer ops rs \<and> wd_live p s'
      \<and> bes_view p s' = abs_wds bes_spec ops rs (bes_view p s))
    \<and> (\<exists>qs t'. wd_calls (stm_call E p) ops s = Some (qs, t') \<and> list_all2 stm_answer ops qs \<and> wd_live p t'
      \<and> stm_view p t' = abs_wds stm_spec ops qs (stm_view p s))"
  using bes.calls [OF TrueI assms(1)] stm.calls [OF assms(2,1)] by blast

subsection \<open>Starting ends\<close>

text \<open>
  C34. Starting the STM32 watchdog returns when its busy flag stays clear once clear and the
  clock moves on; it succeeds exactly when one of its reads has seen the flag clear, and only
  then reloads the counter and counts as started; it fails only after more than the allowed
  time; the reload value always fits in 12 bits.
\<close>

theorem watchdog_start_returns:
  assumes "wd_cntlrs s p = Some c" and "cn_priv c = Some q" and "wd_devs s q = Some d"
    and "settles E" and "clock_moves E (ev s @ start_writes d) n"
  shows "\<exists>r s' es. S_WatchdogDevStart E (Some p) s = Some (r, s') \<and> set es \<subseteq> {(ReadSR, 0), (TickCountGet, 0)}
    \<and> (r = HDF_SUCCESS \<or> r = HDF_FAILURE)
    \<and> ev s' = ev s @ start_writes d @ es @ (if r = HDF_SUCCESS then [(RegKR ''RELOAD'', 0)] else [])
    \<and> g_watchdogStart s' = (g_watchdogStart s \<or> r = HDF_SUCCESS)
    \<and> (r = HDF_SUCCESS \<longleftrightarrow>
        (\<exists>es1 es2. es = es1 @ (ReadSR, 0) # es2 \<and> \<not> sr_busy E (ev s @ start_writes d @ es1)))
    \<and> (r = HDF_FAILURE \<longrightarrow> (\<exists>es1. es = es1 @ [(TickCountGet, 0), (ReadSR, 0)] \<and>
        ticks E (ev s @ start_writes d @ es1) - ticks E (ev s @ start_writes d) > WATCHDOG_UPDATE_TIME E))
    \<and> (\<forall>v x. (RegRLR v, x) \<in> set (start_writes d) \<longrightarrow> v \<le> 4095)"
proof -
  obtain r s' where run: "S_WatchdogDevStart E (Some p) s = Some (r, s')"
    using start_returns [OF assms] by blast
  let ?tr = "ev s @ start_writes d"
  obtain es where es: "polls E ?tr es (r = HDF_SUCCESS)"
    "r = HDF_SUCCESS \<and> s' = s\<lparr>ev := ev s @ start_writes d @ es @ [(RegKR ''RELOAD'', 0)], hdf_iwdg := True, g_watchdogStart := True\<rparr>
     \<or> r = HDF_FAILURE \<and> s' = s\<lparr>ev := ev s @ start_writes d @ es, hdf_iwdg := True\<rparr>"
    by (rule stm_start [OF assms(1-3) run])
  obtain es' where es': "es = es' @ [(ReadSR, 0)]" "sr_busy E (?tr @ es') = (r \<noteq> HDF_SUCCESS)"
    "r \<noteq> HDF_SUCCESS \<longrightarrow> (\<exists>es''. es' = es'' @ [(TickCountGet, 0)] \<and> ticks E (?tr @ es'') - ticks E ?tr > WATCHDOG_UPDATE_TIME E)"
    and polls: "set es \<subseteq> {(ReadSR, 0), (TickCountGet, 0)}"
    using es(1) unfolding polls_def by blast
  have clear: "\<not> sr_busy E (?tr @ es')" if "es = es1 @ (ReadSR, 0) # es2" "\<not> sr_busy E (?tr @ es1)" for es1 es2
  proof (cases es2 rule: rev_cases)
    case Nil
    then show ?thesis using that es'(1) by simp
  next
    case (snoc ys y)
    then have "es' = es1 @ (ReadSR, 0) # ys" using that(1) es'(1) by simp
    moreover from this have "set ((ReadSR, 0) # ys) \<subseteq> {(ReadSR, 0), (TickCountGet, 0)}"
      using polls es'(1) by auto
    ultimately show ?thesis
      using assms(4) that(2) unfolding settles_def by (metis append.assoc)
  qed
  have seen: "r = HDF_SUCCESS \<longleftrightarrow> (\<exists>es1 es2. es = es1 @ (ReadSR, 0) # es2 \<and> \<not> sr_busy E (?tr @ es1))"
    using clear es'(1,2) by blast
  have v: "\<forall>v x. (RegRLR v, x) \<in> set (start_writes d) \<longrightarrow> v \<le> 4095"
    using clamp_reload by (auto simp: start_writes_def)
  have late: "\<exists>es1. es = es1 @ [(TickCountGet, 0), (ReadSR, 0)] \<and> ticks E (?tr @ es1) - ticks E ?tr > WATCHDOG_UPDATE_TIME E"
    if "r = HDF_FAILURE"
    using that es'(1,3) by auto
  show ?thesis
    using run polls es(2) seen late v by (intro exI [of _ r] exI [of _ s'] exI [of _ es]) auto
qed

subsection \<open>Releasing\<close>

text \<open>The three drivers.\<close>

definition wd_inits :: "wd_env \<Rightarrow> (bool option \<Rightarrow> wd_sys \<Rightarrow> ret \<times> wd_sys) set" where
  "wd_inits E = {WatchdogDriverInit E, W_WatchdogDriverInit E, S_WatchdogDriverInit E}"

lemmas wd_init_defs =
  WatchdogDriverInit_def W_WatchdogDriverInit_def S_WatchdogDriverInit_def driver_init_def AttachWatchdogDevice_def
  W_AttachWatchdogDevice_def S_AttachWatchdogDeviceInfo_def attach_device_def InitWatchdogDevice_def
  W_InitWatchdogDevice_def S_InitWatchdogDeviceInfo_def

lemma attach_outcome:
  assumes ok: "heap_ok s" and c: "wd_cntlrs s p = Some c" "h_blk s p \<noteq> None"
    and run: "attach_device E get upd init p device s = (r, s')"
    and init: "\<And>d t. \<exists>x. init d t = (HDF_SUCCESS, t\<lparr>ev := x\<rparr>)" and upd: "\<And>d k. cn_priv (upd d k) = cn_priv k"
  shows "h_bad s' = h_bad s \<and> wd_service s' = wd_service s \<and> heap_ok s' \<and>
    (if r = HDF_SUCCESS
     then \<exists>q d. q \<notin> dom (h_blk s) \<and> dom (h_blk s') = insert q (dom (h_blk s)) \<and> wd_devs s' q = Some d \<and>
       (\<exists>c'. wd_cntlrs s' p = Some c' \<and> cn_priv c' = Some q)
     else dom (h_blk s') = dom (h_blk s) \<and> wd_cntlrs s' = wd_cntlrs s)"
proof -
  let ?q = "h_next s"
  obtain ret d where g: "get True \<lparr>watchdogId = wd_junk E, wd_timeout = wd_junk E\<rparr> = (ret, d)"
    by force
  have q: "h_blk s ?q = None"
    using ok by (rule heap_ok_fresh)
  let ?s1 = "s\<lparr>h_next := Suc ?q, h_blk := (h_blk s)(?q \<mapsto> [])\<rparr>"
  obtain x where i: "init d (?s1\<lparr>wd_devs := (wd_devs s)(?q \<mapsto> d), wd_cntlrs := (wd_cntlrs s)(p \<mapsto> upd d (c\<lparr>cn_priv := Some ?q\<rparr>))\<rparr>) =
      (HDF_SUCCESS, ?s1\<lparr>wd_devs := (wd_devs s)(?q \<mapsto> d), wd_cntlrs := (wd_cntlrs s)(p \<mapsto> upd d (c\<lparr>cn_priv := Some ?q\<rparr>)), ev := x\<rparr>)"
    using init [of d "?s1\<lparr>wd_devs := (wd_devs s)(?q \<mapsto> d), wd_cntlrs := (wd_cntlrs s)(p \<mapsto> upd d (c\<lparr>cn_priv := Some ?q\<rparr>))\<rparr>"]
    by auto
  show ?thesis
  proof (cases "device = Some True \<and> mem_ok E ?q (Objs ''WatchdogDevice'' 1) \<and> ret = HDF_SUCCESS")
    case True
    then have "r = HDF_SUCCESS" "s' = ?s1\<lparr>wd_devs := (wd_devs s)(?q \<mapsto> d), wd_cntlrs := (wd_cntlrs s)(p \<mapsto> upd d (c\<lparr>cn_priv := Some ?q\<rparr>)), ev := x\<rparr>"
      using run g i c by (simp_all add: attach_device_def alloc_eqs)
    then show ?thesis
      using ok q upd by (auto simp: heap_ok_def)
  next
    case False
    then show ?thesis
      using run g ok q by (auto simp: attach_device_def alloc_eqs heap_ok_def OsalMemFree_def LOS_MemFree_def split: if_splits)
  qed
qed

text \<open>Initialising a controller that was bound.\<close>

lemma init_outcome:
  assumes init: "init \<in> wd_inits E" and ok: "heap_ok s" and p: "wd_service s = Some p" "wd_cntlrs s p = Some c" "h_blk s p \<noteq> None"
    and run: "init (Some b) s = (r, s')"
  shows "h_bad s' = h_bad s \<and> wd_service s' = Some p \<and>
    (if r = HDF_SUCCESS
     then \<exists>q d c'. q \<notin> dom (h_blk s) \<and> dom (h_blk s') = insert q (dom (h_blk s)) \<and> wd_devs s' q = Some d \<and>
       wd_cntlrs s' p = Some c' \<and> cn_priv c' = Some q \<and> cn_ops c'
     else r = HDF_ERR_INVALID_PARAM \<and> dom (h_blk s') = dom (h_blk s) - {p} \<and> wd_cntlrs s' p = None)"
proof -
  obtain get upd ini where att: "init (Some b) s = driver_init (attach_device E get upd ini) (Some b) s"
    and ini: "\<And>d t. \<exists>x. ini d t = (HDF_SUCCESS, t\<lparr>ev := x\<rparr>)" and upd: "\<And>d k. cn_priv (upd d k) = cn_priv k"
  proof -
    have keep: "\<exists>x. t = t\<lparr>ev := x\<rparr>" for t :: wd_sys
      by (rule exI [of _ "ev t"]) simp
    consider "init = WatchdogDriverInit E" | "init = W_WatchdogDriverInit E" | "init = S_WatchdogDriverInit E"
      using init by (auto simp: wd_inits_def)
    then show ?thesis
    proof cases
      case 1
      then show ?thesis
        by (intro that [of "GetWatchdogDeviceResource E" "\<lambda>d c. c\<lparr>wdtId := watchdogId d\<rparr>" "\<lambda>d. InitWatchdogDevice (Some d)"])
          (auto simp: WatchdogDriverInit_def AttachWatchdogDevice_def [abs_def] InitWatchdogDevice_def wd_do_def emit_def)
    next
      case 2
      then show ?thesis
        by (intro that [of "W_GetWatchdogDeviceResource E" "\<lambda>d c. c" "\<lambda>d. W_InitWatchdogDevice (Some d)"])
          (auto simp: W_WatchdogDriverInit_def W_AttachWatchdogDevice_def [abs_def] W_InitWatchdogDevice_def
            keep)
    next
      case 3
      then show ?thesis
        by (intro that [of "S_GetWatchdogDeviceInfoResource E" "\<lambda>d c. c\<lparr>wdtId := watchdogId d\<rparr>"
              "\<lambda>d t. S_InitWatchdogDeviceInfo (Some d) (wd_do CntlrLockInit t)"])
          (auto simp: S_WatchdogDriverInit_def S_AttachWatchdogDeviceInfo_def [abs_def] S_InitWatchdogDeviceInfo_def
            wd_do_def emit_def)
    qed
  qed
  obtain r1 s1 where a: "attach_device E get upd ini p (Some b) s = (r1, s1)"
    by force
  note A = attach_outcome [OF ok p(2,3) a ini upd]
  show ?thesis
  proof (cases "r1 = HDF_SUCCESS")
    case True
    then show ?thesis
      using A run att a p by (auto simp: driver_init_def)
  next
    case False
    then have "dom (h_blk s1) = dom (h_blk s)"
      using A by simp
    then have "h_blk s1 p \<noteq> None"
      using p(3) by (metis domIff)
    then obtain v where "h_blk s1 p = Some v"
      by blast
    then have "r = HDF_ERR_INVALID_PARAM" "s' = s1\<lparr>h_blk := (h_blk s1)(p := None), wd_cntlrs := (wd_cntlrs s1)(p := None)\<rparr>"
      using False run att a p(1) by (simp_all add: driver_init_def OsalMemFree_live)
    then show ?thesis
      using False A p(1) by simp
  qed
qed

text \<open>
  The life of a watchdog device, on each of the three chips. A device that is bound, initialised and
  released keeps its controller block for ever and its private pointer keeps pointing at freed memory,
  so a second release frees twice; an initialisation that fails frees the controller but leaves it as
  the service of the device, so releasing the device uses freed memory.
\<close>

text \<open>
  C35. On each of the three chips a watchdog that is bound, initialised and released leaks its
  controller and is freed twice by a second release; one whose initialisation fails is used
  after it was freed when the device is released.
\<close>

theorem watchdog_release_faults:
  assumes "init \<in> wd_inits E" and "heap_ok s" and "\<not> h_bad s"
    and "WatchdogDriverBind E (Some b) s = (HDF_SUCCESS, s1)" and "init (Some b) s1 = (r, s2)"
  shows "\<not> h_bad s2 \<and> (\<exists>p. wd_service s2 = Some p \<and> p \<notin> dom (h_blk s) \<and>
    (if r = HDF_SUCCESS
     then \<not> h_bad (WatchdogDriverRelease (Some b) s2) \<and>
       dom (h_blk (WatchdogDriverRelease (Some b) s2)) = insert p (dom (h_blk s)) \<and>
       h_bad (WatchdogDriverRelease (Some b) (WatchdogDriverRelease (Some b) s2))
     else r = HDF_ERR_INVALID_PARAM \<and> dom (h_blk s2) = dom (h_blk s) \<and> h_bad (WatchdogDriverRelease (Some b) s2)))"
proof -
  let ?p = "h_next s"
  have p: "h_blk s ?p = None"
    using assms(2) by (rule heap_ok_fresh)
  have s1: "wd_service s1 = Some ?p" "\<exists>c. wd_cntlrs s1 ?p = Some c" "h_blk s1 = (h_blk s)(?p \<mapsto> [])"
    "heap_ok s1" "h_bad s1 = h_bad s"
    using assms(2,4) by (auto simp: WatchdogDriverBind_def alloc_eqs heap_ok_def split: if_splits)
  then obtain c where c: "wd_cntlrs s1 ?p = Some c"
    by blast
  have "h_blk s1 ?p \<noteq> None"
    using s1(3) by simp
  note I = init_outcome [OF assms(1) s1(4,1) c this assms(5)]
  show ?thesis
  proof (cases "r = HDF_SUCCESS")
    case True
    then obtain q d c' where q: "q \<notin> dom (h_blk s1)" "dom (h_blk s2) = insert q (dom (h_blk s1))"
      "wd_devs s2 q = Some d" "wd_cntlrs s2 ?p = Some c'" "cn_priv c' = Some q"
      using I by auto
    then have rel: "WatchdogDriverRelease (Some b) s2 = s2\<lparr>h_blk := (h_blk s2)(q := None), wd_devs := (wd_devs s2)(q := None)\<rparr>"
      using I by (auto simp: WatchdogDriverRelease_def OsalMemFree_def LOS_MemFree_def)
    moreover have "h_bad (WatchdogDriverRelease (Some b) (s2\<lparr>h_blk := (h_blk s2)(q := None), wd_devs := (wd_devs s2)(q := None)\<rparr>))"
      using I q by (simp add: WatchdogDriverRelease_def OsalMemFree_def LOS_MemFree_def)
    moreover have "dom (h_blk s2) - {q} = insert ?p (dom (h_blk s))"
      using q s1(3) by auto
    ultimately show ?thesis
      using I True assms(3) s1(5) p by auto
  next
    case False
    then show ?thesis
      using I assms(3) s1(3,5) p by (auto simp: WatchdogDriverRelease_def wd_bad_def)
  qed
qed

subsection \<open>The WM driver\<close>

text \<open>It breaks the contract: the timeout it reports is the time elapsed, and feeding it resets the system.\<close>

lemma wm_timeout_lost:
  "W_WatchdogDevGetTimeout E (Some p) True (snd (W_WatchdogDevSetTimeout (Some p) t s)) = (r, v, s') \<Longrightarrow>
     r = HDF_SUCCESS \<and> v = Some (tls_elapsed E (ev s @ [(TlsInit t, 0)]))"
  by (auto simp: W_WatchdogDevGetTimeout_def W_WatchdogDevSetTimeout_def wd_do_def emit_def Let_def)

lemma wm_feed_resets:
  "\<exists>tr. ev (snd (W_WatchdogDevFeed w (snd (W_WatchdogDevStart w s)))) = tr @ [(TlsReset, 0)]"
  by (simp add: W_WatchdogDevFeed_def W_WatchdogDevStart_def wd_do_def emit_def Let_def)

text \<open>On the STM32 the argument in seconds is stored as the timeout in milliseconds.\<close>

lemma stm_seconds_are_ms:
  assumes "wd_cntlrs s p = Some c" and "cn_priv c = Some q" and "wd_devs s q = Some d"
  shows "\<exists>d'. wd_devs (snd (S_WatchdogDevSetTimeout (Some p) 10 s)) q = Some d' \<and> clamp_timeout (wd_timeout d') = 10"
  using assms
  by (auto simp: S_WatchdogDevSetTimeout_def with_priv_def clamp_timeout_def WATCHDOG_MIN_TIMEOUT_def WATCHDOG_MAX_TIMEOUT_def)

subsection \<open>Examples\<close>

text \<open>A chip that is busy for the first three events of the wait, with a clock that counts the events.\<close>

definition wd_demo_env :: wd_env where
  "wd_demo_env = \<lparr>mem_ok = (\<lambda>_ _. True), mem_junk = (\<lambda>_ _. 0), copy_ok = (\<lambda>d n. n \<le> d), wd_iface = True,
     wd_prop = (\<lambda>n. if n = ''timeout'' then Some 9000 else if n = ''id'' then Some 1 else None), wd_junk = 0xCC,
     tls_elapsed = (\<lambda>_. 3), sr_busy = (\<lambda>tr. length tr < 8),
     ticks = (\<lambda>tr. if length tr < 20 then 0 else 7), WATCHDOG_UPDATE_TIME = 5\<rparr>"

definition wd_demo0 :: wd_sys where
  "wd_demo0 = \<lparr>h_next = 0, h_blk = Map.empty, h_bad = False, ev = [], wd_service = None, wd_cntlrs = Map.empty,
     wd_devs = Map.empty, g_watchdogStart = False, g_watchdogTimeout = 0, hdf_iwdg = False\<rparr>"

definition wd_demo1 :: wd_sys where
  "wd_demo1 = snd (WatchdogDriverBind wd_demo_env (Some True) wd_demo0)"

definition wd_demo2 :: wd_sys where
  "wd_demo2 = snd (S_WatchdogDriverInit wd_demo_env (Some True) wd_demo1)"

lemma wd_demo2_eq:
  "WatchdogDriverBind wd_demo_env (Some True) wd_demo0 = (HDF_SUCCESS, wd_demo1)"
  "S_WatchdogDriverInit wd_demo_env (Some True) wd_demo1 = (HDF_SUCCESS, wd_demo2)"
  "WatchdogDriverInit wd_demo_env (Some True) wd_demo1 = (HDF_ERR_INVALID_PARAM, snd (WatchdogDriverInit wd_demo_env (Some True) wd_demo1))"
  "wd_cntlrs wd_demo2 0 = Some \<lparr>cn_priv = Some 1, wdtId = 1, cn_ops = True\<rparr>"
  "wd_devs wd_demo2 1 = Some \<lparr>watchdogId = 1, wd_timeout = 9000\<rparr>" "ev wd_demo2 = [(CntlrLockInit, 0)]"
  by (simp_all add: wd_demo2_def wd_demo1_def wd_demo0_def wd_demo_env_def WatchdogDriverBind_def alloc_eqs
      wd_init_defs S_GetWatchdogDeviceInfoResource_def GetWatchdogDeviceResource_def wd_do_def emit_def)

lemma watchdog_start_returns_witness:
  "\<exists>r s' es. S_WatchdogDevStart wd_demo_env (Some 0) wd_demo2 = Some (r, s') \<and>
     ev s' = [(CntlrLockInit, 0), (RegKR ''ENABLE'', 0), (RegKR ''WRITE_ACCESS'', 0), (RegPR, 0), (RegRLR 4095, 0)] @ es"
proof -
  let ?d = "\<lparr>watchdogId = 1, wd_timeout = 9000\<rparr>"
  have c: "cn_priv \<lparr>cn_priv = Some 1, wdtId = 1, cn_ops = True\<rparr> = Some 1"
    by simp
  have w: "start_writes ?d = [(RegKR ''ENABLE'', 0), (RegKR ''WRITE_ACCESS'', 0), (RegPR, 0), (RegRLR 4095, 0)]"
    by (simp add: start_writes_def clamp_timeout_def WATCHDOG_MIN_TIMEOUT_def WATCHDOG_MAX_TIMEOUT_def)
  have "settles wd_demo_env" "clock_moves wd_demo_env (ev wd_demo2 @ start_writes ?d) 20"
    by (auto simp: settles_def clock_moves_def w wd_demo2_eq(6)) (auto simp: wd_demo_env_def)
  from watchdog_start_returns [OF wd_demo2_eq(4) c wd_demo2_eq(5) this] show ?thesis
    by (auto simp: w wd_demo2_eq(6))
qed

lemma watchdog_release_faults_witness:
  "h_bad (WatchdogDriverRelease (Some True) (snd (WatchdogDriverInit wd_demo_env (Some True) wd_demo1)))"
proof -
  have "WatchdogDriverInit wd_demo_env \<in> wd_inits wd_demo_env" "heap_ok wd_demo0" "\<not> h_bad wd_demo0"
    by (simp_all add: wd_inits_def wd_demo0_def heap_ok_def)
  from watchdog_release_faults [OF this wd_demo2_eq(1,3)] show ?thesis
    by (simp del: not_None_eq; blast)
qed

text \<open>The timeout is set, the watchdog started, fed and stopped.\<close>

lemma watchdog_refines_witness:
  "\<exists>rs s'. wd_calls (bes_call 0) [OpTimeout 8, OpStart, OpFeed, OpStop] wd_demo2 = Some (rs, s') \<and>
     aw_cmds (bes_view 0 s') = [Program 8, Run, Kick, Halt] \<and> aw_timeout (bes_view 0 s') = 8"
proof -
  let ?E = "wd_demo_env\<lparr>ticks := \<lambda>tr. of_nat (length tr)\<rparr>"
  have live: "wd_live 0 wd_demo2"
    using wd_demo2_eq(4,5) by (simp add: wd_live_def)
  have "clock_moves ?E tr 5" for tr
    by (auto simp: clock_moves_def wd_demo_env_def)
  then have chip: "chip_ok ?E"
    by (auto simp: chip_ok_def settles_def wd_demo_env_def)
  have "aw_cmds (bes_view 0 wd_demo2) = []"
    using wd_demo2_eq(6) by (simp add: bes_view_def)
  then show ?thesis
    using watchdog_refines [OF live chip, of "[OpTimeout 8, OpStart, OpFeed, OpStop]"]
    by (fastforce simp: list_all2_Cons1 tell_def)
qed

end
