(* ===== verification/Gpio_Gr5xx.thy ===== *)
theory Gpio_Gr5xx
  imports Osal_Mem
begin

text \<open>
  The GPIO driver of the GR5xx chips, \<open>platform/gpio/gpio_gr5xx.c\<close>: 45 pins in three groups, each named
  to the vendor library by the type of its group and a mask with one bit.

  The vendor library, the GPIO core and the configuration are outside the repository: calls are events,
  \<open>gr_api\<close> gives their status, \<open>gr_level\<close> the level of a pin that is read, and \<open>gr_num\<close> (with the
  status \<open>gr_num_ret\<close>) and \<open>gr_elem\<close> (\<open>None\<close> when a read fails) what the configuration says. The modes of a pin are the vendor's.
\<close>

definition IO_NUM_GPIO :: nat where "IO_NUM_GPIO = 32"
definition IO_NUM_AON :: nat where "IO_NUM_AON = 8"
definition IO_NUM_MSIO :: nat where "IO_NUM_MSIO = 5"
definition IO_NUM_MAX :: nat where "IO_NUM_MAX = IO_NUM_GPIO + IO_NUM_AON + IO_NUM_MSIO"
definition IO_BASE_GPIO :: nat where "IO_BASE_GPIO = 0"
definition IO_BASE_AON :: nat where "IO_BASE_AON = IO_NUM_GPIO"
definition IO_BASE_MSIO :: nat where "IO_BASE_MSIO = IO_NUM_GPIO + IO_NUM_AON"

lemmas io_defs =
  IO_NUM_GPIO_def IO_NUM_AON_def IO_NUM_MSIO_def IO_NUM_MAX_def IO_BASE_GPIO_def IO_BASE_AON_def IO_BASE_MSIO_def

datatype io_type = APP_IO_TYPE_NORMAL | APP_IO_TYPE_AON | APP_IO_TYPE_MSIO

datatype io_mode =
    APP_IO_MODE_INPUT | APP_IO_MODE_OUT_PUT
  | APP_IO_MODE_IT_RISING | APP_IO_MODE_IT_FALLING | APP_IO_MODE_IT_HIGH | APP_IO_MODE_IT_LOW

record Gr5xxGpioPortConfig =
  gr_mode :: io_mode
  gr_pull :: u16
  gr_handleMode :: u16

datatype gr_ev =
    AppIoInit io_type u32 u16 io_mode | AppIoWrite io_type u32 bool | AppIoRead io_type u32
  | AppGpioteInit io_type u32 u16 io_mode u16 bool | AppGpioteDeinit | IrqCallback u32
  | GrDeviceBind | GrCntlrAdd | GrCntlrRemove

record gr_sys = "(gr_ev \<times> int) sys" +
  g_portCfg :: "Gr5xxGpioPortConfig list"
  gr_count :: nat
  gr_ops :: bool

record gr_env =
  gr_api :: "(gr_ev \<times> int) list \<Rightarrow> gr_ev \<Rightarrow> int"
  gr_level :: "(gr_ev \<times> int) list \<Rightarrow> bool"
  gr_iface :: bool
  gr_num_ret :: int
  gr_num :: u16
  gr_elem :: "string \<Rightarrow> nat \<Rightarrow> u16 option"
  gr_bound :: bool
  APP_IO_PULLUP :: u16
  APP_IO_PULL_MAX :: u16
  APP_IO_NONE_WAKEUP :: u16
  APP_IO_ENABLE_WAKEUP :: u16
  GPIO_DIR_IN :: u16
  GPIO_DIR_OUT :: u16
  GPIO_VAL_LOW :: u16
  GPIO_VAL_HIGH :: u16
  GPIO_IRQ_TRIGGER_RISING :: u16
  GPIO_IRQ_TRIGGER_FALLING :: u16
  GPIO_IRQ_TRIGGER_HIGH :: u16
  GPIO_IRQ_TRIGGER_LOW :: u16

definition gr_call :: "gr_env \<Rightarrow> gr_ev \<Rightarrow> gr_sys \<Rightarrow> int \<times> gr_sys" where
  "gr_call E c s = ext_call (gr_api E) c s"

definition gr_do :: "gr_env \<Rightarrow> gr_ev \<Rightarrow> gr_sys \<Rightarrow> gr_sys" where
  "gr_do E c s = snd (gr_call E c s)"

definition IO_MODE_DEFAULT :: io_mode where "IO_MODE_DEFAULT = APP_IO_MODE_OUT_PUT"

subsection \<open>Pins and masks\<close>

definition GpioDevPinMap :: "nat \<Rightarrow> io_type \<times> u32" where
  "GpioDevPinMap i =
     (if i < IO_BASE_AON then (APP_IO_TYPE_NORMAL, push_bit (i - IO_BASE_GPIO) 1)
      else if i < IO_BASE_MSIO then (APP_IO_TYPE_AON, push_bit (i - IO_BASE_AON) 1)
      else (APP_IO_TYPE_MSIO, push_bit (i - IO_BASE_MSIO) 1))"

text \<open>The loop goes on for ever when no bit is set.\<close>

partial_function (option) pin_index :: "u32 \<Rightarrow> nat \<Rightarrow> nat option" where
  "pin_index pin index = (if pin AND 1 = 1 then Some index else pin_index (drop_bit 1 pin) (Suc index))"

definition GetPinIndex :: "u32 \<Rightarrow> nat option" where
  "GetPinIndex pin = pin_index pin 0"

text \<open>An event of the third group is logged as an error and reported as one of pin 0.\<close>

definition GR5xxGpioIrqHdl :: "gr_env \<Rightarrow> (io_type \<times> u32) option \<Rightarrow> gr_sys \<Rightarrow> gr_sys option" where
  "GR5xxGpioIrqHdl E event s =
     (case event of None \<Rightarrow> Some s | Some (t, pin) \<Rightarrow>
       (case (if t = APP_IO_TYPE_NORMAL then GetPinIndex pin
              else if t = APP_IO_TYPE_AON then map_option (\<lambda>i. i + IO_BASE_AON) (GetPinIndex pin)
              else Some 0) of
          None \<Rightarrow> None
        | Some gpio \<Rightarrow> Some (gr_do E (IrqCallback (of_nat gpio)) s)))"

subsection \<open>The table of ports\<close>

definition PortConfigInit :: "gr_env \<Rightarrow> gr_sys \<Rightarrow> gr_sys" where
  "PortConfigInit E s =
     s\<lparr>g_portCfg := replicate IO_NUM_MAX
         \<lparr>gr_mode = IO_MODE_DEFAULT, gr_pull = APP_IO_PULLUP E, gr_handleMode = APP_IO_NONE_WAKEUP E\<rparr>\<rparr>"

text \<open>Every operation tests the number of the pin before it looks at the table.\<close>

definition with_port ::
  "u16 \<Rightarrow> (nat \<Rightarrow> Gr5xxGpioPortConfig \<Rightarrow> gr_sys \<Rightarrow> ret \<times> gr_sys) \<Rightarrow> gr_sys \<Rightarrow> ret \<times> gr_sys" where
  "with_port gpio f s =
     (let i = unat gpio in
      if i \<ge> IO_NUM_MAX then (HDF_ERR_INVALID_PARAM, s)
      else if i < length (g_portCfg s) then f i (g_portCfg s ! i) s
      else (HDF_FAILURE, s\<lparr>h_bad := True\<rparr>))"

definition set_port :: "nat \<Rightarrow> Gr5xxGpioPortConfig \<Rightarrow> gr_sys \<Rightarrow> gr_sys" where
  "set_port i c s = s\<lparr>g_portCfg := (g_portCfg s)[i := c]\<rparr>"

definition GpioDevSetDir :: "gr_env \<Rightarrow> u16 \<Rightarrow> u16 \<Rightarrow> gr_sys \<Rightarrow> ret \<times> gr_sys" where
  "GpioDevSetDir E gpio dir s =
     with_port gpio (\<lambda>i c t.
       let m = (if dir = GPIO_DIR_IN E then APP_IO_MODE_INPUT
                else if dir = GPIO_DIR_OUT E then APP_IO_MODE_OUT_PUT else IO_MODE_DEFAULT) in
       (case GpioDevPinMap i of (iotype, pin) \<Rightarrow>
         (case gr_call E (AppIoInit iotype pin (gr_pull c) m) (set_port i (c\<lparr>gr_mode := m\<rparr>) t) of (r, t1) \<Rightarrow>
            (if r = 0 then HDF_SUCCESS else HDF_FAILURE, t1)))) s"

text \<open>The direction is answered as the vendor's mode.\<close>

definition GpioDevGetDir :: "u16 \<Rightarrow> gr_sys \<Rightarrow> ret \<times> io_mode option \<times> gr_sys" where
  "GpioDevGetDir gpio s =
     (let i = unat gpio in
      if i \<ge> IO_NUM_MAX then (HDF_ERR_INVALID_PARAM, None, s)
      else if i < length (g_portCfg s) then (HDF_SUCCESS, Some (gr_mode (g_portCfg s ! i)), s)
      else (HDF_FAILURE, None, s\<lparr>h_bad := True\<rparr>))"

definition GpioDevWrite :: "gr_env \<Rightarrow> u16 \<Rightarrow> u16 \<Rightarrow> gr_sys \<Rightarrow> ret \<times> gr_sys" where
  "GpioDevWrite E gpio val s =
     (if unat gpio \<ge> IO_NUM_MAX then (HDF_ERR_INVALID_PARAM, s)
      else
        (case GpioDevPinMap (unat gpio) of (ioType, pin) \<Rightarrow>
          (HDF_SUCCESS,
           if val = GPIO_VAL_LOW E then gr_do E (AppIoWrite ioType pin False) s
           else if val = GPIO_VAL_HIGH E then gr_do E (AppIoWrite ioType pin True) s
           else s)))"

text \<open>The second argument says whether the out parameter is there.\<close>

definition GpioDevRead :: "gr_env \<Rightarrow> u16 \<Rightarrow> bool \<Rightarrow> gr_sys \<Rightarrow> ret \<times> u16 option \<times> gr_sys" where
  "GpioDevRead E gpio val s =
     (if \<not> val then (HDF_ERR_INVALID_PARAM, None, s)
      else if unat gpio \<ge> IO_NUM_MAX then (HDF_ERR_INVALID_PARAM, None, s)
      else
        (case GpioDevPinMap (unat gpio) of (ioType, pin) \<Rightarrow>
          (HDF_SUCCESS, Some (if gr_level E (ev s) then GPIO_VAL_HIGH E else GPIO_VAL_LOW E),
           gr_do E (AppIoRead ioType pin) s)))"

definition GpioDevEnableIrq :: "gr_env \<Rightarrow> u16 \<Rightarrow> gr_sys \<Rightarrow> ret \<times> gr_sys" where
  "GpioDevEnableIrq E gpio s =
     with_port gpio (\<lambda>i c t.
       (case GpioDevPinMap i of (ioType, pin) \<Rightarrow>
          (HDF_SUCCESS, gr_do E (AppGpioteInit ioType pin (gr_pull c) (gr_mode c) (gr_handleMode c) True) t))) s"

definition GpioDevDisableIrq :: "gr_env \<Rightarrow> u16 \<Rightarrow> gr_sys \<Rightarrow> ret \<times> gr_sys" where
  "GpioDevDisableIrq E gpio s =
     with_port gpio (\<lambda>i c t.
       (case GpioDevPinMap i of (ioType, pin) \<Rightarrow>
          (HDF_SUCCESS, gr_do E (AppGpioteInit ioType pin (gr_pull c) (gr_mode c) (APP_IO_NONE_WAKEUP E) False) t))) s"

definition GpioDevSetIrq :: "gr_env \<Rightarrow> u16 \<Rightarrow> u16 \<Rightarrow> gr_sys \<Rightarrow> ret \<times> gr_sys" where
  "GpioDevSetIrq E gpio mode s =
     with_port gpio (\<lambda>i c t.
       if fst (GpioDevPinMap i) = APP_IO_TYPE_MSIO then (HDF_ERR_INVALID_PARAM, t)
       else if mode = GPIO_IRQ_TRIGGER_RISING E then (HDF_SUCCESS, set_port i (c\<lparr>gr_mode := APP_IO_MODE_IT_RISING\<rparr>) t)
       else if mode = GPIO_IRQ_TRIGGER_FALLING E then (HDF_SUCCESS, set_port i (c\<lparr>gr_mode := APP_IO_MODE_IT_FALLING\<rparr>) t)
       else if mode = GPIO_IRQ_TRIGGER_HIGH E then (HDF_SUCCESS, set_port i (c\<lparr>gr_mode := APP_IO_MODE_IT_HIGH\<rparr>) t)
       else if mode = GPIO_IRQ_TRIGGER_LOW E then (HDF_SUCCESS, set_port i (c\<lparr>gr_mode := APP_IO_MODE_IT_LOW\<rparr>) t)
       else (HDF_ERR_INVALID_PARAM, t)) s"

definition GpioDevUnSetIrq :: "gr_env \<Rightarrow> u16 \<Rightarrow> gr_sys \<Rightarrow> ret \<times> gr_sys" where
  "GpioDevUnSetIrq E gpio s =
     with_port gpio (\<lambda>i c t.
       (case GpioDevPinMap i of (ioType, pin) \<Rightarrow>
          (HDF_SUCCESS, gr_do E (AppGpioteInit ioType pin (gr_pull c) (gr_mode c) (APP_IO_NONE_WAKEUP E) False) t))) s"

subsection \<open>Configuration\<close>

text \<open>A value that cannot be read counts as 0.\<close>

definition GetGpioResourceData :: "gr_env \<Rightarrow> string \<Rightarrow> nat \<Rightarrow> u16" where
  "GetGpioResourceData E resName index = (case gr_elem E resName index of None \<Rightarrow> 0 | Some x \<Rightarrow> x)"

fun configure_ports :: "gr_env \<Rightarrow> nat list \<Rightarrow> gr_sys \<Rightarrow> ret \<times> gr_sys" where
  "configure_ports E [] s = (HDF_SUCCESS, s)"
| "configure_ports E (i # is) s =
     (let gpioIndex = GetGpioResourceData E ''gpioIndex'' i;
          pullConfig = GetGpioResourceData E ''pull'' i;
          handleModeConfig = GetGpioResourceData E ''handleMode'' i in
      if unat gpioIndex \<ge> IO_NUM_MAX then (HDF_ERR_INVALID_PARAM, s)
      else if pullConfig \<ge> APP_IO_PULL_MAX E then (HDF_ERR_INVALID_PARAM, s)
      else if handleModeConfig > APP_IO_ENABLE_WAKEUP E then (HDF_ERR_INVALID_PARAM, s)
      else if unat gpioIndex < length (g_portCfg s)
      then configure_ports E is
             (set_port (unat gpioIndex)
               ((g_portCfg s ! unat gpioIndex)\<lparr>gr_pull := pullConfig, gr_handleMode := handleModeConfig\<rparr>) s)
      else (HDF_FAILURE, s\<lparr>h_bad := True\<rparr>))"

definition GetGpioDeviceResource :: "gr_env \<Rightarrow> bool \<Rightarrow> gr_sys \<Rightarrow> ret \<times> gr_sys" where
  "GetGpioDeviceResource E node s =
     (if \<not> node then (HDF_ERR_INVALID_PARAM, s)
      else if \<not> gr_iface E then (HDF_FAILURE, s)
      else
        (if gr_num_ret E \<noteq> 0 then (ret_of (gr_num_ret E), s)
         else if unat (gr_num E) \<ge> IO_NUM_MAX then (HDF_ERR_INVALID_PARAM, s)
         else configure_ports E [0..<unat (gr_num E)] s))"

subsection \<open>The driver\<close>

definition GpioDriverBind :: ret where "GpioDriverBind = HDF_SUCCESS"

text \<open>A device is \<open>NULL\<close> or says whether it has a property node.\<close>

definition GpioDriverInit :: "gr_env \<Rightarrow> bool option \<Rightarrow> gr_sys \<Rightarrow> ret \<times> gr_sys" where
  "GpioDriverInit E device s =
     (if device \<noteq> Some True then (HDF_ERR_INVALID_OBJECT, s)
      else
        (case GetGpioDeviceResource E True (PortConfigInit E s) of (ret, s1) \<Rightarrow>
           if ret \<noteq> HDF_SUCCESS then (ret, s1)
           else
             (case gr_call E GrCntlrAdd (gr_do E GrDeviceBind (s1\<lparr>gr_count := IO_NUM_MAX, gr_ops := True\<rparr>)) of
                (r, s2) \<Rightarrow> (ret_of r, s2))))"

definition GpioDriverRelease :: "gr_env \<Rightarrow> bool option \<Rightarrow> gr_sys \<Rightarrow> gr_sys" where
  "GpioDriverRelease E device s =
     (if device = None \<or> \<not> gr_bound E then s
      else gr_do E GrCntlrRemove (gr_do E AppGpioteDeinit s))"

end
