(* ===== verification/Gpio_Gr5xx_Facts.thy ===== *)
theory Gpio_Gr5xx_Facts
  imports Gpio_Gr5xx
begin

text \<open>
  The mask of a pin is decoded back to the pin when an interrupt arrives, the decoding loop ends exactly
  on masks that are not zero, and no operation leaves the table of ports.
\<close>

subsection \<open>Masks\<close>

lemma and_1_iff_bit: "pin AND 1 = 1 \<longleftrightarrow> bit (pin :: u32) 0"
  by (auto simp: bit_0 and_one_eq odd_iff_mod_2_eq_one)

text \<open>The lowest bit that is set.\<close>

definition lowest_bit :: "u32 \<Rightarrow> nat \<Rightarrow> bool" where
  "lowest_bit p k \<longleftrightarrow> bit p k \<and> (\<forall>j<k. \<not> bit p j)"

lemma lowest_bit_Suc: "\<not> bit p 0 \<Longrightarrow> lowest_bit (drop_bit 1 p) k = lowest_bit p (Suc k)"
  by (auto simp: lowest_bit_def bit_drop_bit_eq All_less_Suc2)

lemma pin_index_lowest:
  assumes "pin_index p n = Some i"
  shows "\<exists>k. i = n + k \<and> lowest_bit p k"
proof (rule pin_index.raw_induct [OF _ assms, where P = "\<lambda>p n i. \<exists>k. i = n + k \<and> lowest_bit p k"], goal_cases)
  case (1 rec p n i)
  show ?case
  proof (cases "bit p 0")
    case True
    then show ?thesis
      using 1(2) by (auto simp: and_1_iff_bit lowest_bit_def)
  next
    case False
    then have "rec (drop_bit 1 p) (Suc n) = Some i"
      using 1(2) by (simp add: and_1_iff_bit)
    from 1(1) [OF this] obtain k where "i = Suc n + k" "lowest_bit (drop_bit 1 p) k"
      by blast
    then show ?thesis
      using lowest_bit_Suc [OF False] by (intro exI [of _ "Suc k"]) simp
  qed
qed

lemma pin_index_total: "bit p k \<Longrightarrow> \<exists>i. pin_index p n = Some i"
proof (induction k arbitrary: p n)
  case 0
  then show ?case
    by (subst pin_index.simps) (simp add: and_1_iff_bit)
next
  case (Suc k)
  then have "bit (drop_bit 1 p) k"
    by (simp add: bit_drop_bit_eq)
  from Suc.IH [OF this] show ?case
    by (subst pin_index.simps) simp
qed

lemma lowest_bit_unique: "lowest_bit p i \<Longrightarrow> lowest_bit p j \<Longrightarrow> i = j"
  by (metis lowest_bit_def linorder_neqE_nat)

lemma GetPinIndex_iff: "GetPinIndex p = Some i \<longleftrightarrow> lowest_bit p i"
proof
  show "GetPinIndex p = Some i \<Longrightarrow> lowest_bit p i"
    using pin_index_lowest [of p 0 i] by (auto simp: GetPinIndex_def)
next
  assume l: "lowest_bit p i"
  then obtain j where "pin_index p 0 = Some j"
    using pin_index_total [of p i 0] by (auto simp: lowest_bit_def)
  then show "GetPinIndex p = Some i"
    using pin_index_lowest [of p 0 j] lowest_bit_unique [OF l] by (auto simp: GetPinIndex_def)
qed

lemma GetPinIndex_None: "GetPinIndex p = None \<longleftrightarrow> p = 0"
proof
  assume n: "GetPinIndex p = None"
  then have "\<not> bit p k" for k
    using pin_index_total [of p k 0] by (auto simp: GetPinIndex_def)
  then show "p = 0"
    by (intro bit_word_eqI) simp
next
  assume "p = 0"
  then have "GetPinIndex p \<noteq> Some i" for i
    by (simp add: GetPinIndex_iff lowest_bit_def)
  then show "GetPinIndex p = None"
    by (metis option.exhaust)
qed

lemma mask_index: "k < 32 \<Longrightarrow> GetPinIndex (2 ^ k) = Some k"
  by (auto simp: GetPinIndex_iff lowest_bit_def bit_exp_iff possible_bit_def)

subsection \<open>Interrupts\<close>

text \<open>
  A pin of the first two groups comes back: an interrupt with the type and the mask under which the
  driver names the pin to the vendor is reported for that pin. One of the third group is reported for
  pin 0.
\<close>

text \<open>
  C32. An interrupt that carries the group and the mask under which the GPIO driver names a pin
  to the vendor is reported for that pin, and for pin 0 when the pin is of the third group;
  decoding the mask ends.
\<close>

theorem gr5xx_irq_roundtrip:
  assumes "unat gpio < IO_NUM_MAX"
  shows "GR5xxGpioIrqHdl E (Some (GpioDevPinMap (unat gpio))) s =
    Some (gr_do E (IrqCallback (if unat gpio < IO_BASE_MSIO then ucast (gpio :: u16) else 0)) s)"
proof -
  have "of_nat (unat gpio) = (ucast gpio :: u32)"
    by simp
  then show ?thesis
    using assms by (auto simp: GR5xxGpioIrqHdl_def GpioDevPinMap_def io_defs mask_index algebra_simps)
qed

text \<open>The handler returns exactly on events that have a bit set or are of the third group.\<close>

lemma irq_returns:
  "GR5xxGpioIrqHdl E event s \<noteq> None \<longleftrightarrow> event = None \<or> fst (the event) = APP_IO_TYPE_MSIO \<or> snd (the event) \<noteq> 0"
  by (cases event; cases "fst (the event)") (auto simp: GR5xxGpioIrqHdl_def GetPinIndex_None GetPinIndex_None [THEN iffD2, OF refl] split: option.splits)

subsection \<open>The table of ports\<close>

datatype gr_op =
    GrSetDir u16 u16 | GrGetDir u16 | GrWrite u16 u16 | GrRead u16 bool | GrEnable u16 | GrDisable u16
  | GrSetIrq u16 u16 | GrUnSet u16

fun gr_step :: "gr_env \<Rightarrow> gr_op \<Rightarrow> gr_sys \<Rightarrow> gr_sys" where
  "gr_step E (GrSetDir g d) s = snd (GpioDevSetDir E g d s)"
| "gr_step E (GrGetDir g) s = snd (snd (GpioDevGetDir g s))"
| "gr_step E (GrWrite g v) s = snd (GpioDevWrite E g v s)"
| "gr_step E (GrRead g b) s = snd (snd (GpioDevRead E g b s))"
| "gr_step E (GrEnable g) s = snd (GpioDevEnableIrq E g s)"
| "gr_step E (GrDisable g) s = snd (GpioDevDisableIrq E g s)"
| "gr_step E (GrSetIrq g m) s = snd (GpioDevSetIrq E g m s)"
| "gr_step E (GrUnSet g) s = snd (GpioDevUnSetIrq E g s)"

definition ports_ok :: "gr_sys \<Rightarrow> bool" where
  "ports_ok s \<longleftrightarrow> length (g_portCfg s) = IO_NUM_MAX \<and> \<not> h_bad s"

lemma gr_call_simps [simp]:
  "g_portCfg (snd (gr_call E c s)) = g_portCfg s" "h_bad (snd (gr_call E c s)) = h_bad s"
  "gr_count (snd (gr_call E c s)) = gr_count s" "gr_ops (snd (gr_call E c s)) = gr_ops s"
  "g_portCfg (gr_do E c s) = g_portCfg s" "h_bad (gr_do E c s) = h_bad s"
  "gr_count (gr_do E c s) = gr_count s" "gr_ops (gr_do E c s) = gr_ops s"
  by (simp_all add: gr_do_def gr_call_def ext_call_eq emit_def)

lemma set_port_simps [simp]:
  "g_portCfg (set_port i c s) = (g_portCfg s)[i := c]" "h_bad (set_port i c s) = h_bad s"
  by (simp_all add: set_port_def)

lemma with_port_ok:
  assumes "ports_ok s" and "\<And>i c t. ports_ok t \<Longrightarrow> ports_ok (snd (f i c t))"
  shows "ports_ok (snd (with_port gpio f s))"
  using assms by (auto simp: with_port_def ports_ok_def Let_def)

lemma set_port_ok [simp]: "ports_ok (set_port i c s) = ports_ok s"
  by (simp add: ports_ok_def)

lemma gr_do_ok [simp]: "ports_ok (gr_do E c s) = ports_ok s" "ports_ok (snd (gr_call E c s)) = ports_ok s"
  by (simp_all add: ports_ok_def)

lemma step_ok: "ports_ok s \<Longrightarrow> ports_ok (gr_step E a s)"
proof (cases a)
  case (GrSetDir g d)
  assume "ports_ok s"
  then show ?thesis
    unfolding GrSetDir gr_step.simps GpioDevSetDir_def
    by (rule with_port_ok) (auto simp: Let_def split: prod.split; metis gr_do_ok(2) set_port_ok snd_conv)
next
  case (GrSetIrq g m)
  assume "ports_ok s"
  then show ?thesis
    unfolding GrSetIrq gr_step.simps GpioDevSetIrq_def by (rule with_port_ok) auto
qed (auto simp: GpioDevGetDir_def GpioDevWrite_def GpioDevRead_def GpioDevEnableIrq_def GpioDevDisableIrq_def
    GpioDevUnSetIrq_def Let_def ports_ok_def with_port_def split: prod.split)

lemma configure_ok: "ports_ok s \<Longrightarrow> configure_ports E xs s = (r, s') \<Longrightarrow> ports_ok s'"
  by (induction E xs s rule: configure_ports.induct)
    (auto simp: Let_def ports_ok_def split: if_splits)

lemma init_ok:
  assumes "\<not> h_bad s" and "GpioDriverInit E (Some True) s = (r, s')"
  shows "ports_ok s'"
proof -
  obtain q t where g: "GetGpioDeviceResource E True (PortConfigInit E s) = (q, t)"
    by force
  have "ports_ok (PortConfigInit E s)"
    using assms(1) by (simp add: ports_ok_def PortConfigInit_def)
  then have "ports_ok t"
    using g configure_ok by (auto simp: GetGpioDeviceResource_def split: if_splits)
  then have u: "ports_ok (t\<lparr>gr_count := IO_NUM_MAX, gr_ops := True\<rparr>)"
    by (simp add: ports_ok_def)
  then show ?thesis
    using assms(2) g \<open>ports_ok t\<close>
    by (auto simp: GpioDriverInit_def split: if_splits prod.splits) (metis gr_do_ok snd_conv u)
qed

text \<open>
  After the driver was initialised, whatever the configuration says and whether or not that succeeded,
  any sequence of operations with any pin numbers stays inside the table of ports.
\<close>

theorem gr5xx_in_bounds:
  assumes "\<not> h_bad s" and "GpioDriverInit E (Some True) s = (r, s')"
  shows "\<not> h_bad (fold (gr_step E) ops s') \<and> length (g_portCfg (fold (gr_step E) ops s')) = IO_NUM_MAX"
proof -
  have "ports_ok s'"
    using init_ok [OF assms] .
  then have "ports_ok (fold (gr_step E) ops s')"
    by (induction ops arbitrary: s') (simp_all add: step_ok)
  then show ?thesis
    by (simp add: ports_ok_def)
qed

text \<open>The trigger that was set is the one with which interrupts are enabled, and a later direction loses it.\<close>

lemma trigger_kept:
  assumes "ports_ok s" and "unat gpio < IO_BASE_MSIO"
  shows "fst (GpioDevSetIrq E gpio (GPIO_IRQ_TRIGGER_RISING E) s) = HDF_SUCCESS \<and>
    gr_mode (g_portCfg (snd (GpioDevSetIrq E gpio (GPIO_IRQ_TRIGGER_RISING E) s)) ! unat gpio) = APP_IO_MODE_IT_RISING"
  using assms by (auto simp: GpioDevSetIrq_def with_port_def ports_ok_def GpioDevPinMap_def io_defs Let_def)

lemma direction_loses_trigger:
  assumes "ports_ok s" and "unat gpio < IO_NUM_MAX"
  shows "gr_mode (g_portCfg (snd (GpioDevSetDir E gpio (GPIO_DIR_IN E) s)) ! unat gpio) = APP_IO_MODE_INPUT"
proof -
  obtain t pin where m: "GpioDevPinMap (unat gpio) = (t, pin)"
    by force
  obtain r s1 where g: "gr_call E (AppIoInit t pin (gr_pull (g_portCfg s ! unat gpio)) APP_IO_MODE_INPUT)
      (set_port (unat gpio) ((g_portCfg s ! unat gpio)\<lparr>gr_mode := APP_IO_MODE_INPUT\<rparr>) s) = (r, s1)"
    by force
  have "g_portCfg s1 = (g_portCfg s)[unat gpio := (g_portCfg s ! unat gpio)\<lparr>gr_mode := APP_IO_MODE_INPUT\<rparr>]"
    using g by (metis gr_call_simps(1) set_port_simps(1) snd_conv)
  then show ?thesis
    using assms m g by (simp add: GpioDevSetDir_def with_port_def ports_ok_def Let_def)
qed

subsection \<open>Examples\<close>

definition gr_demo_env :: gr_env where
  "gr_demo_env = \<lparr>gr_api = (\<lambda>_ _. 0), gr_level = (\<lambda>_. True), gr_iface = True, gr_num_ret = 0, gr_num = 2,
     gr_elem = (\<lambda>n i. if n = ''gpioIndex'' then Some (if i = 0 then 7 else 60) else Some 1), gr_bound = True,
     APP_IO_PULLUP = 1, APP_IO_PULL_MAX = 3, APP_IO_NONE_WAKEUP = 0, APP_IO_ENABLE_WAKEUP = 1,
     GPIO_DIR_IN = 0, GPIO_DIR_OUT = 1, GPIO_VAL_LOW = 0, GPIO_VAL_HIGH = 1, GPIO_IRQ_TRIGGER_RISING = 1,
     GPIO_IRQ_TRIGGER_FALLING = 2, GPIO_IRQ_TRIGGER_HIGH = 4, GPIO_IRQ_TRIGGER_LOW = 8\<rparr>"

definition gr_demo :: gr_sys where
  "gr_demo = \<lparr>h_next = 0, h_blk = Map.empty, h_bad = False, ev = [], g_portCfg = [], gr_count = 0, gr_ops = False\<rparr>"

text \<open>Pin 35 is the fourth of the second group.\<close>

lemma gr5xx_irq_roundtrip_witness:
  "GpioDevPinMap 35 = (APP_IO_TYPE_AON, 8) \<and>
   GR5xxGpioIrqHdl gr_demo_env (Some (APP_IO_TYPE_AON, 8)) gr_demo = Some (gr_do gr_demo_env (IrqCallback 35) gr_demo)"
proof -
  have m: "GpioDevPinMap 35 = (APP_IO_TYPE_AON, 8)"
    by (simp add: GpioDevPinMap_def io_defs)
  then show ?thesis
    using gr5xx_irq_roundtrip [of 35 gr_demo_env gr_demo] by (simp add: io_defs)
qed

text \<open>The second pin of the configuration is out of range; the operations are still safe.\<close>

lemma gr5xx_in_bounds_witness:
  "fst (GpioDriverInit gr_demo_env (Some True) gr_demo) = HDF_ERR_INVALID_PARAM \<and>
   \<not> h_bad (gr_step gr_demo_env (GrWrite 60000 1) (gr_step gr_demo_env (GrSetDir 44 1)
      (snd (GpioDriverInit gr_demo_env (Some True) gr_demo))))"
proof -
  have "fst (GpioDriverInit gr_demo_env (Some True) gr_demo) = HDF_ERR_INVALID_PARAM"
    by (simp add: GpioDriverInit_def GetGpioDeviceResource_def PortConfigInit_def GetGpioResourceData_def
        gr_demo_env_def gr_demo_def io_defs upt_conv_Cons set_port_def)
  moreover have "\<not> h_bad gr_demo"
    by (simp add: gr_demo_def)
  ultimately show ?thesis
    using gr5xx_in_bounds [of gr_demo gr_demo_env _ _ "[GrSetDir 44 1, GrWrite 60000 1]", OF _ surjective_pairing] by simp
qed

end
