(* ===== verification/Uart_Gr5xx.thy ===== *)
theory Uart_Gr5xx
  imports Osal_Mem
begin

text \<open>
  The UART driver of the GR5xx chips, \<open>platform/uart/uart_gr5xx.c\<close>: opening and closing a port with a
  count of its users, blocking reads that a vendor interrupt ends, synchronous writes, and settings.

  The vendor library, the kernel's semaphores and mutexes and the configuration are outside the
  repository: calls are events and \<open>ug_api\<close> gives their status; \<open>ug_new\<close> is the identifier of a new
  semaphore or mutex and \<open>ug_prop\<close> a number of the configuration. \<open>ug_rx\<close> lists the vendor's events for a
  port that arrive while a reader waits, and \<open>ug_race\<close> is what another task that gets the lock of the readers as
  soon as it is given back leaves in \<open>g_rxNum\<close> (\<open>None\<close> when there is none). The user count \<open>ud_count\<close> is the
  bits of an \<open>int32_t\<close>; counting past its range is undefined behaviour. \<open>ug_drv\<close> holds the driver data, heap objects; the host that the
  UART core creates is \<open>ug_host\<close>, with the driver data as its \<open>priv\<close>. Of the attributes the driver
  looks at three.
\<close>

datatype uart_state = UART_STATE_NOT_OPENED | UART_STATE_OPENING | UART_STATE_USEABLE | UART_STATE_SUSPENED

record UartAttribute =
  dataBits :: u32
  stopBits :: u32
  parity :: u32

record app_uart_params =
  pp_id :: u32
  pp_baud_rate :: u32
  pp_data_bits :: nat
  pp_stop_bits :: nat
  pp_parity :: nat
  pp_rx_timeout_mode :: u32
  pp_use_mode :: "u32 \<times> u32 \<times> u32"
  pp_tx :: "u32 \<times> u32 \<times> u32 \<times> u32"
  pp_rx :: "u32 \<times> u32 \<times> u32 \<times> u32"

record UartDriverData =
  ud_id :: u32
  ud_baudrate :: u32
  ud_count :: u32
  ud_attr :: UartAttribute
  ud_params :: app_uart_params
  ud_callback :: bool
  ud_config :: bool
  ud_tx_buf :: "nat option"
  ud_state :: uart_state
  ud_flags :: u32

record UartHost =
  uh_priv :: "nat option"
  uh_num :: u32
  uh_method :: bool

datatype uart_evt = RxData u32 | EvtError | EvtOther

datatype ug_ev =
    MuxPend u32 | MuxPost u32 | SemPend u32 bool | SemPost u32 | SemCreate | MuxCreate | SemDelete u32
  | RxAsync u32 nat u32 | TxSync u32 nat u32 u32 | AppUartInit app_uart_params "nat option"
  | HostCreate | HostDestroy

record ug_sys = "(ug_ev \<times> int) sys" +
  ug_host :: "UartHost option"
  ug_drv :: "nat \<Rightarrow> UartDriverData option"
  g_uartRxSem :: "u32 \<Rightarrow> u32"
  g_uartTxMutex :: "u32 \<Rightarrow> u32"
  g_uartRxMutex :: "u32 \<Rightarrow> u32"
  g_rxNum :: "u32 \<Rightarrow> u32"

record ug_env = mem_env +
  ug_api :: "(ug_ev \<times> int) list \<Rightarrow> ug_ev \<Rightarrow> int"
  ug_new :: "(ug_ev \<times> int) list \<Rightarrow> u32"
  ug_rx :: "(ug_ev \<times> int) list \<Rightarrow> uart_evt list"
  ug_race :: "(ug_ev \<times> int) list \<Rightarrow> u32 option"
  ug_iface :: bool
  ug_prop :: "string \<Rightarrow> u32 option"
  APP_UART_ID_MAX :: u32
  attr_databits :: "u32 \<Rightarrow> nat option"
  attr_stopbits :: "u32 \<Rightarrow> nat option"
  attr_parity :: "u32 \<Rightarrow> nat option"
  UART_DATABITS_8 :: nat
  UART_STOPBITS_1 :: nat
  UART_PARITY_NONE :: nat
  DEFAULT_DATABITS :: u32
  DEFAULT_STOPBITS :: u32
  DEFAULT_PARITY :: u32

definition CONFIG_MAX_BAUDRATE :: u32 where "CONFIG_MAX_BAUDRATE = 921600"
definition TX_BUF_SIZE :: nat where "TX_BUF_SIZE = 0x100"
definition UART_FLG_RD_BLOCK :: u32 where "UART_FLG_RD_BLOCK = 4"
definition UART_TRANS_TIMEOUT :: u32 where "UART_TRANS_TIMEOUT = 1000"

definition ug_call :: "ug_env \<Rightarrow> ug_ev \<Rightarrow> ug_sys \<Rightarrow> int \<times> ug_sys" where
  "ug_call E c s = ext_call (ug_api E) c s"

definition ug_do :: "ug_env \<Rightarrow> ug_ev \<Rightarrow> ug_sys \<Rightarrow> ug_sys" where
  "ug_do E c s = snd (ug_call E c s)"

definition ug_bad :: "ug_sys \<Rightarrow> ug_sys" where
  "ug_bad s = s\<lparr>h_bad := True\<rparr>"

definition put_drv :: "nat \<Rightarrow> UartDriverData \<Rightarrow> ug_sys \<Rightarrow> ug_sys" where
  "put_drv p d s = s\<lparr>ug_drv := (ug_drv s)(p \<mapsto> d)\<rparr>"

text \<open>The driver data of a host, as every method gets at it: a host or data that is \<open>NULL\<close> is refused.\<close>

definition with_udd ::
  "UartHost option \<Rightarrow> ret \<Rightarrow> (nat \<Rightarrow> UartDriverData \<Rightarrow> ug_sys \<Rightarrow> ret \<times> ug_sys) \<Rightarrow> ug_sys \<Rightarrow> ret \<times> ug_sys" where
  "with_udd host err f s =
     (case Option.bind host uh_priv of None \<Rightarrow> (err, s) | Some p \<Rightarrow>
       (case ug_drv s p of None \<Rightarrow> (HDF_FAILURE, ug_bad s) | Some d \<Rightarrow> f p d s))"

text \<open>The same for a port that has to be open.\<close>

definition with_open ::
  "UartHost option \<Rightarrow> ret \<Rightarrow> (nat \<Rightarrow> UartDriverData \<Rightarrow> ug_sys \<Rightarrow> ret \<times> ug_sys) \<Rightarrow> ug_sys \<Rightarrow> ret \<times> ug_sys" where
  "with_open host err f s =
     with_udd host err (\<lambda>p d t. if ud_state d \<noteq> UART_STATE_USEABLE then (HDF_FAILURE, t) else f p d t) s"

text \<open>The tables of semaphores have \<open>APP_UART_ID_MAX\<close> entries.\<close>

definition in_table ::
  "ug_env \<Rightarrow> UartDriverData \<Rightarrow> (ug_sys \<Rightarrow> ret \<times> ug_sys) \<Rightarrow> ug_sys \<Rightarrow> ret \<times> ug_sys" where
  "in_table E d f s = (if ud_id d < APP_UART_ID_MAX E then f s else (HDF_FAILURE, ug_bad s))"

subsection \<open>Settings\<close>

definition GetUartDataBits :: "ug_env \<Rightarrow> u32 \<Rightarrow> nat" where
  "GetUartDataBits E a = (case attr_databits E a of Some b \<Rightarrow> b | None \<Rightarrow> UART_DATABITS_8 E)"

definition GetUartStopBits :: "ug_env \<Rightarrow> u32 \<Rightarrow> nat" where
  "GetUartStopBits E a = (case attr_stopbits E a of Some b \<Rightarrow> b | None \<Rightarrow> UART_STOPBITS_1 E)"

definition GetUartParity :: "ug_env \<Rightarrow> u32 \<Rightarrow> nat" where
  "GetUartParity E a = (case attr_parity E a of Some b \<Rightarrow> b | None \<Rightarrow> UART_PARITY_NONE E)"

definition Gr5xxUartConfig :: "ug_env \<Rightarrow> nat \<Rightarrow> UartDriverData \<Rightarrow> ug_sys \<Rightarrow> ret \<times> ug_sys" where
  "Gr5xxUartConfig E p d s =
     (let params = (ud_params d)\<lparr>pp_id := ud_id d, pp_baud_rate := ud_baudrate d,
             pp_data_bits := GetUartDataBits E (dataBits (ud_attr d)),
             pp_stop_bits := GetUartStopBits E (stopBits (ud_attr d)),
             pp_parity := GetUartParity E (parity (ud_attr d))\<rparr> in
      (case ug_call E (AppUartInit params (ud_tx_buf d)) (put_drv p (d\<lparr>ud_params := params\<rparr>) s) of (r, s1) \<Rightarrow>
         (if r \<noteq> 0 then HDF_FAILURE else HDF_SUCCESS, s1)))"

text \<open>Running the configuration of a port, when it has one.\<close>

definition run_config :: "ug_env \<Rightarrow> nat \<Rightarrow> UartDriverData \<Rightarrow> ug_sys \<Rightarrow> ret \<times> ug_sys" where
  "run_config E p d s =
     (if \<not> ud_config d then (HDF_ERR_NOT_SUPPORT, put_drv p d s) else Gr5xxUartConfig E p d s)"

definition UartHostDevSetBaud :: "ug_env \<Rightarrow> UartHost option \<Rightarrow> u32 \<Rightarrow> ug_sys \<Rightarrow> ret \<times> ug_sys" where
  "UartHostDevSetBaud E host baudRate s =
     with_open host HDF_ERR_INVALID_PARAM (\<lambda>p d t.
       if baudRate > 0 \<and> baudRate \<le> CONFIG_MAX_BAUDRATE then run_config E p (d\<lparr>ud_baudrate := baudRate\<rparr>) t
       else (HDF_FAILURE, t)) s"

definition UartHostDevSetAttribute :: "ug_env \<Rightarrow> UartHost option \<Rightarrow> UartAttribute option \<Rightarrow> ug_sys \<Rightarrow> ret \<times> ug_sys" where
  "UartHostDevSetAttribute E host attribute s =
     (case attribute of None \<Rightarrow> (HDF_ERR_INVALID_PARAM, s) | Some a \<Rightarrow>
        with_open host HDF_ERR_INVALID_PARAM (\<lambda>p d t. run_config E p (d\<lparr>ud_attr := a\<rparr>) t) s)"

text \<open>What the out parameter is set to comes with the status.\<close>

definition UartHostDevGetBaud :: "UartHost option \<Rightarrow> bool \<Rightarrow> ug_sys \<Rightarrow> (ret \<times> ug_sys) \<times> u32 option" where
  "UartHostDevGetBaud host baudRate s =
     (if \<not> baudRate then ((HDF_ERR_INVALID_PARAM, s), None)
      else
        (case with_open host HDF_ERR_INVALID_PARAM (\<lambda>p d t. (HDF_SUCCESS, t)) s of (r, s1) \<Rightarrow>
           ((r, s1), if r = HDF_SUCCESS then map_option ud_baudrate (Option.bind (Option.bind host uh_priv) (ug_drv s)) else None)))"

definition UartHostDevGetAttribute :: "UartHost option \<Rightarrow> bool \<Rightarrow> ug_sys \<Rightarrow> (ret \<times> ug_sys) \<times> UartAttribute option" where
  "UartHostDevGetAttribute host attribute s =
     (if \<not> attribute then ((HDF_ERR_INVALID_PARAM, s), None)
      else
        (case with_open host HDF_ERR_INVALID_PARAM (\<lambda>p d t. (HDF_SUCCESS, t)) s of (r, s1) \<Rightarrow>
           ((r, s1), if r = HDF_SUCCESS then map_option ud_attr (Option.bind (Option.bind host uh_priv) (ug_drv s)) else None)))"

datatype trans_mode = UART_MODE_RD_BLOCK | UART_MODE_RD_NONBLOCK | UART_MODE_OTHER

definition UartHostDevSetTransMode :: "UartHost option \<Rightarrow> trans_mode \<Rightarrow> ug_sys \<Rightarrow> ret \<times> ug_sys" where
  "UartHostDevSetTransMode host mode s =
     with_open host HDF_ERR_INVALID_PARAM (\<lambda>p d t.
       if mode = UART_MODE_RD_BLOCK then (HDF_SUCCESS, put_drv p (d\<lparr>ud_flags := ud_flags d OR UART_FLG_RD_BLOCK\<rparr>) t)
       else if mode = UART_MODE_RD_NONBLOCK then (HDF_FAILURE, t)
       else (HDF_SUCCESS, t)) s"

definition UartHostDevPollEvent :: "UartHost option \<Rightarrow> ug_sys \<Rightarrow> ret \<times> ug_sys" where
  "UartHostDevPollEvent host s = with_open host HDF_FAILURE (\<lambda>p d t. (HDF_SUCCESS, t)) s"

subsection \<open>Reading and writing\<close>

text \<open>The callbacks of the two ports, which differ in the port only.\<close>

definition uart_callback :: "ug_env \<Rightarrow> u32 \<Rightarrow> uart_evt \<Rightarrow> ug_sys \<Rightarrow> ug_sys" where
  "uart_callback E i e s =
     (case e of
        RxData n \<Rightarrow> ug_do E (SemPost (g_uartRxSem s i)) (s\<lparr>g_rxNum := (g_rxNum s)(i := n)\<rparr>)
      | EvtError \<Rightarrow> ug_do E (SemPost (g_uartRxSem s i)) s
      | EvtOther \<Rightarrow> s)"

definition Uart0Callback :: "ug_env \<Rightarrow> uart_evt \<Rightarrow> ug_sys \<Rightarrow> ug_sys" where
  "Uart0Callback E e s = uart_callback E 0 e s"

definition Uart1Callback :: "ug_env \<Rightarrow> uart_evt \<Rightarrow> ug_sys \<Rightarrow> ug_sys" where
  "Uart1Callback E e s = uart_callback E 1 e s"

text \<open>\<open>g_evtHandler\<close>: a port without an entry has no callback.\<close>

definition g_evtHandler :: "ug_env \<Rightarrow> u32 \<Rightarrow> uart_evt \<Rightarrow> ug_sys \<Rightarrow> ug_sys" where
  "g_evtHandler E i e s = (if i = 0 then Uart0Callback E e s else if i = 1 then Uart1Callback E e s else s)"

text \<open>
  While the reader waits for the semaphore, events arrive. The number of bytes is read after the lock was
  given back, when another task may have changed it.
\<close>

definition others_run :: "ug_env \<Rightarrow> u32 \<Rightarrow> ug_sys \<Rightarrow> ug_sys" where
  "others_run E i s = (case ug_race E (ev s) of None \<Rightarrow> s | Some n \<Rightarrow> s\<lparr>g_rxNum := (g_rxNum s)(i := n)\<rparr>)"

definition UartHostDevRead :: "ug_env \<Rightarrow> UartHost option \<Rightarrow> nat option \<Rightarrow> u32 \<Rightarrow> ug_sys \<Rightarrow> ret \<times> ug_sys" where
  "UartHostDevRead E host data sz s =
     (case data of None \<Rightarrow> (HDF_ERR_INVALID_PARAM, s) | Some buf \<Rightarrow>
        with_open host HDF_ERR_INVALID_PARAM (\<lambda>p d. in_table E d (\<lambda>t.
          let i = ud_id d;
              t1 = ug_do E (MuxPend (g_uartRxMutex t i)) t;
              t2 = ug_do E (SemPend (g_uartRxSem t1 i) False) (t1\<lparr>g_rxNum := (g_rxNum t1)(i := 0)\<rparr>) in
          (case ug_call E (RxAsync i buf sz) t2 of (r, t3) \<Rightarrow>
             if r \<noteq> 0 then (HDF_FAILURE, ug_do E (MuxPost (g_uartRxMutex t3 i)) t3)
             else
               (case ug_call E (SemPend (g_uartRxSem t3 i) True) (fold (g_evtHandler E i) (ug_rx E (ev t3)) t3) of
                  (w, t4) \<Rightarrow>
                    if w \<noteq> 0 then (HDF_FAILURE, ug_do E (MuxPost (g_uartRxMutex t4 i)) t4)
                    else
                      let t5 = others_run E i (ug_do E (MuxPost (g_uartRxMutex t4 i)) t4)
                      in (ret_of (sint (g_rxNum t5 i)), t5))))) s)"

definition UartHostDevWrite :: "ug_env \<Rightarrow> UartHost option \<Rightarrow> nat option \<Rightarrow> u32 \<Rightarrow> ug_sys \<Rightarrow> ret \<times> ug_sys" where
  "UartHostDevWrite E host data sz s =
     (case data of None \<Rightarrow> (HDF_ERR_INVALID_PARAM, s) | Some buf \<Rightarrow>
        with_open host HDF_ERR_INVALID_PARAM (\<lambda>p d. in_table E d (\<lambda>t.
          let i = ud_id d; t1 = ug_do E (MuxPend (g_uartTxMutex t i)) t in
          (case ug_call E (TxSync i buf sz UART_TRANS_TIMEOUT) t1 of (r, t2) \<Rightarrow>
             (if r \<noteq> 0 then HDF_FAILURE else HDF_SUCCESS, ug_do E (MuxPost (g_uartTxMutex t2 i)) t2)))) s)"

subsection \<open>Opening and closing\<close>

definition UartDevSemInit :: "ug_env \<Rightarrow> u32 \<Rightarrow> ug_sys \<Rightarrow> ret \<times> ug_sys" where
  "UartDevSemInit E i s =
     (case ug_call E SemCreate s of (a, s1) \<Rightarrow>
        if a \<noteq> 0 then (HDF_FAILURE, s1)
        else
          let s1' = s1\<lparr>g_uartRxSem := (g_uartRxSem s1)(i := ug_new E (ev s))\<rparr> in
          (case ug_call E MuxCreate s1' of (b, s2) \<Rightarrow>
             if b \<noteq> 0 then (HDF_FAILURE, s2)
             else
               let s2' = s2\<lparr>g_uartTxMutex := (g_uartTxMutex s2)(i := ug_new E (ev s1'))\<rparr> in
               (case ug_call E MuxCreate s2' of (c, s3) \<Rightarrow>
                  if c \<noteq> 0 then (HDF_FAILURE, s3)
                  else (HDF_SUCCESS, s3\<lparr>g_uartRxMutex := (g_uartRxMutex s3)(i := ug_new E (ev s2'))\<rparr>))))"

text \<open>The mutexes are deleted as semaphores too, and nothing whose identifier is 0 is deleted.\<close>

definition sem_delete :: "ug_env \<Rightarrow> u32 \<Rightarrow> ug_sys \<Rightarrow> ug_sys" where
  "sem_delete E x s = (if x \<noteq> 0 then ug_do E (SemDelete x) s else s)"

definition UartDevSemDeinit :: "ug_env \<Rightarrow> u32 \<Rightarrow> ug_sys \<Rightarrow> ug_sys" where
  "UartDevSemDeinit E i s =
     (sem_delete E (g_uartRxMutex s i) (sem_delete E (g_uartTxMutex s i) (sem_delete E (g_uartRxSem s i) s)))
       \<lparr>g_uartRxSem := (g_uartRxSem s)(i := 0), g_uartTxMutex := (g_uartTxMutex s)(i := 0),
        g_uartRxMutex := (g_uartRxMutex s)(i := 0)\<rparr>"

definition INT32_MAX :: u32 where "INT32_MAX = 0x7FFFFFFF"
definition INT32_MIN :: u32 where "INT32_MIN = 0x80000000"

text \<open>The last lines: the port is usable and has one more user.\<close>

definition count_user :: "nat \<Rightarrow> ug_sys \<Rightarrow> ret \<times> ug_sys" where
  "count_user p s =
     (case ug_drv s p of None \<Rightarrow> (HDF_FAILURE, ug_bad s)
      | Some d \<Rightarrow> (HDF_SUCCESS, put_drv p (d\<lparr>ud_state := UART_STATE_USEABLE, ud_count := ud_count d + 1\<rparr>)
          (if ud_count d = INT32_MAX then ug_bad s else s)))"

definition UartHostDevInit :: "ug_env \<Rightarrow> UartHost option \<Rightarrow> ug_sys \<Rightarrow> ret \<times> ug_sys" where
  "UartHostDevInit E host s =
     with_udd host HDF_ERR_INVALID_PARAM (\<lambda>p d t.
       if ud_id d \<ge> APP_UART_ID_MAX E then (HDF_ERR_INVALID_PARAM, t)
       else if ud_state d \<noteq> UART_STATE_NOT_OPENED then count_user p t
       else
         let d1 = d\<lparr>ud_state := UART_STATE_OPENING\<rparr> in
         (case OsalMemCalloc E (Bytes TX_BUF_SIZE) (put_drv p d1 t) of
            (None, t1) \<Rightarrow> (HDF_ERR_MALLOC_FAIL, t1)
          | (Some tx, t1) \<Rightarrow>
              (case UartDevSemInit E (ud_id d) t1 of (ret, t2) \<Rightarrow>
                 if ret \<noteq> HDF_SUCCESS then (HDF_FAILURE, UartDevSemDeinit E (ud_id d) t2)
                 else
                   (case run_config E p (d1\<lparr>ud_tx_buf := Some tx, ud_callback := True, ud_config := True\<rparr>) t2 of
                      (ret2, t3) \<Rightarrow>
                        if ret2 \<noteq> HDF_SUCCESS
                        then (HDF_FAILURE,
                              (case ug_drv t3 p of None \<Rightarrow> ug_bad t3
                               | Some d3 \<Rightarrow> put_drv p (d3\<lparr>ud_tx_buf := None\<rparr>)
                                   (OsalMemFree (ud_tx_buf d3) (UartDevSemDeinit E (ud_id d) t3))))
                        else count_user p t3)))) s"

definition UartHostDevDeinit :: "ug_env \<Rightarrow> UartHost option \<Rightarrow> ug_sys \<Rightarrow> ret \<times> ug_sys" where
  "UartHostDevDeinit E host s =
     with_udd host HDF_ERR_INVALID_PARAM (\<lambda>p d t.
       let d1 = d\<lparr>ud_count := ud_count d - 1\<rparr> in
       if ud_count d1 \<noteq> 0 then (HDF_SUCCESS, put_drv p d1 (if ud_count d = INT32_MIN then ug_bad t else t))
       else
         in_table E d (\<lambda>t.
           (HDF_SUCCESS,
            put_drv p (d1\<lparr>ud_tx_buf := None, ud_state := UART_STATE_NOT_OPENED\<rparr>)
              (OsalMemFree (ud_tx_buf d1) (UartDevSemDeinit E (ud_id d) t)))) t) s"

subsection \<open>Attaching\<close>

text \<open>
  Numbers of the configuration are read one after the other up to the first that is missing. The mask of
  a pin is 0 for a number of 32 or more, where the shift of the code is undefined.
\<close>

fun read_props ::
  "ug_env \<Rightarrow> (string \<times> (u32 \<Rightarrow> UartDriverData \<Rightarrow> UartDriverData)) list \<Rightarrow> UartDriverData \<Rightarrow> ret \<times> UartDriverData" where
  "read_props E [] d = (HDF_SUCCESS, d)"
| "read_props E ((n, f) # ps) d =
     (case ug_prop E n of None \<Rightarrow> (HDF_FAILURE, d) | Some x \<Rightarrow> read_props E ps (f x d))"

definition upd_params :: "(app_uart_params \<Rightarrow> app_uart_params) \<Rightarrow> UartDriverData \<Rightarrow> UartDriverData" where
  "upd_params f d = d\<lparr>ud_params := f (ud_params d)\<rparr>"

definition UartGetPinConfigFromHcs :: "ug_env \<Rightarrow> UartDriverData \<Rightarrow> ret \<times> UartDriverData" where
  "UartGetPinConfigFromHcs E d =
     (if \<not> ug_iface E then (HDF_FAILURE, d)
      else read_props E
        [(''pin_tx_type'', \<lambda>x. upd_params (\<lambda>q. q\<lparr>pp_tx := (case pp_tx q of (_, b, c, e) \<Rightarrow> (x, b, c, e))\<rparr>)),
         (''pin_tx_pin'', \<lambda>x. upd_params (\<lambda>q. q\<lparr>pp_tx := (case pp_tx q of (a, _, c, e) \<Rightarrow> (a, push_bit (unat x) 1, c, e))\<rparr>)),
         (''pin_tx_mux'', \<lambda>x. upd_params (\<lambda>q. q\<lparr>pp_tx := (case pp_tx q of (a, b, _, e) \<Rightarrow> (a, b, x, e))\<rparr>)),
         (''pin_tx_pull'', \<lambda>x. upd_params (\<lambda>q. q\<lparr>pp_tx := (case pp_tx q of (a, b, c, _) \<Rightarrow> (a, b, c, x))\<rparr>)),
         (''pin_rx_type'', \<lambda>x. upd_params (\<lambda>q. q\<lparr>pp_rx := (case pp_rx q of (_, b, c, e) \<Rightarrow> (x, b, c, e))\<rparr>)),
         (''pin_rx_pin'', \<lambda>x. upd_params (\<lambda>q. q\<lparr>pp_rx := (case pp_rx q of (a, _, c, e) \<Rightarrow> (a, push_bit (unat x) 1, c, e))\<rparr>)),
         (''pin_rx_mux'', \<lambda>x. upd_params (\<lambda>q. q\<lparr>pp_rx := (case pp_rx q of (a, b, _, e) \<Rightarrow> (a, b, x, e))\<rparr>)),
         (''pin_rx_pull'', \<lambda>x. upd_params (\<lambda>q. q\<lparr>pp_rx := (case pp_rx q of (a, b, c, _) \<Rightarrow> (a, b, c, x))\<rparr>))] d)"

definition UartGetDefaultConfigFromHcs :: "ug_env \<Rightarrow> UartDriverData \<Rightarrow> ret \<times> UartDriverData" where
  "UartGetDefaultConfigFromHcs E d =
     (if \<not> ug_iface E then (HDF_FAILURE, d)
      else read_props E
        [(''id'', \<lambda>x d. d\<lparr>ud_id := x\<rparr>),
         (''baudrate'', \<lambda>x d. d\<lparr>ud_baudrate := x\<rparr>),
         (''use_mode_type'', \<lambda>x. upd_params (\<lambda>q. q\<lparr>pp_use_mode := (case pp_use_mode q of (_, b, c) \<Rightarrow> (x, b, c))\<rparr>)),
         (''use_mode_tx_dma_ch'', \<lambda>x. upd_params (\<lambda>q. q\<lparr>pp_use_mode := (case pp_use_mode q of (a, _, c) \<Rightarrow> (a, x, c))\<rparr>)),
         (''use_mode_rx_dma_ch'', \<lambda>x. upd_params (\<lambda>q. q\<lparr>pp_use_mode := (case pp_use_mode q of (a, b, _) \<Rightarrow> (a, b, x))\<rparr>)),
         (''rx_timeout_mode'', \<lambda>x. upd_params (\<lambda>q. q\<lparr>pp_rx_timeout_mode := x\<rparr>))] d)"

definition zero_params :: app_uart_params where
  "zero_params = \<lparr>pp_id = 0, pp_baud_rate = 0, pp_data_bits = 0, pp_stop_bits = 0, pp_parity = 0,
     pp_rx_timeout_mode = 0, pp_use_mode = (0, 0, 0), pp_tx = (0, 0, 0, 0), pp_rx = (0, 0, 0, 0)\<rparr>"

definition zero_udd :: UartDriverData where
  "zero_udd = \<lparr>ud_id = 0, ud_baudrate = 0, ud_count = 0, ud_attr = \<lparr>dataBits = 0, stopBits = 0, parity = 0\<rparr>,
     ud_params = zero_params, ud_callback = False, ud_config = False, ud_tx_buf = None,
     ud_state = UART_STATE_NOT_OPENED, ud_flags = 0\<rparr>"

text \<open>\<open>prop\<close> says whether the device has a property node.\<close>

definition UartDevAttach :: "ug_env \<Rightarrow> UartHost \<Rightarrow> bool \<Rightarrow> ug_sys \<Rightarrow> ret \<times> ug_sys" where
  "UartDevAttach E host prop s =
     (if \<not> prop then (HDF_FAILURE, s)
      else
        (case OsalMemCalloc E (Objs ''UartDriverData'' 1) s of
           (None, s1) \<Rightarrow> (HDF_ERR_MALLOC_FAIL, s1)
         | (Some p, s1) \<Rightarrow>
             (case UartGetDefaultConfigFromHcs E zero_udd of (r1, d1) \<Rightarrow>
                if r1 \<noteq> HDF_SUCCESS \<or> ud_id d1 \<ge> APP_UART_ID_MAX E then (HDF_FAILURE, OsalMemFree (Some p) s1)
                else
                  (case UartGetPinConfigFromHcs E d1 of (r2, d2) \<Rightarrow>
                     if r2 \<noteq> HDF_SUCCESS then (HDF_FAILURE, OsalMemFree (Some p) s1)
                     else
                       (HDF_SUCCESS,
                        (put_drv p
                          (d2\<lparr>ud_state := UART_STATE_NOT_OPENED, ud_config := False, ud_callback := False, ud_count := 0,
                              ud_params := (ud_params d2)\<lparr>pp_id := ud_id d2, pp_baud_rate := ud_baudrate d2\<rparr>,
                              ud_attr := \<lparr>dataBits = DEFAULT_DATABITS E, stopBits = DEFAULT_STOPBITS E, parity = DEFAULT_PARITY E\<rparr>\<rparr>)
                          s1)\<lparr>ug_host := Some (host\<lparr>uh_priv := Some p, uh_num := ud_id d2\<rparr>)\<rparr>)))))"

definition Gr55xxDetach :: "UartHost \<Rightarrow> ug_sys \<Rightarrow> ug_sys" where
  "Gr55xxDetach host s =
     (case uh_priv host of None \<Rightarrow> s | Some p \<Rightarrow>
       (case ug_drv s p of None \<Rightarrow> ug_bad s | Some d \<Rightarrow>
          if ud_state d \<noteq> UART_STATE_NOT_OPENED then s
          else (OsalMemFree (Some p) s)\<lparr>ug_drv := (ug_drv s)(p := None), ug_host := Some (host\<lparr>uh_priv := None\<rparr>)\<rparr>))"

text \<open>A device is \<open>NULL\<close> or says whether it has a property node; the host comes from the UART core.\<close>

definition HdfUartDeviceBind :: "ug_env \<Rightarrow> bool option \<Rightarrow> ug_sys \<Rightarrow> ret \<times> ug_sys" where
  "HdfUartDeviceBind E device s =
     (if device = None then (HDF_ERR_INVALID_OBJECT, s)
      else
        (case ug_call E HostCreate s of (r, s1) \<Rightarrow>
           if r \<noteq> 0 then (HDF_FAILURE, s1)
           else (HDF_SUCCESS, s1\<lparr>ug_host := Some \<lparr>uh_priv = None, uh_num = 0, uh_method = False\<rparr>\<rparr>)))"

definition HdfUartDeviceInit :: "ug_env \<Rightarrow> bool option \<Rightarrow> ug_sys \<Rightarrow> ret \<times> ug_sys" where
  "HdfUartDeviceInit E device s =
     (case device of None \<Rightarrow> (HDF_ERR_INVALID_OBJECT, s) | Some prop \<Rightarrow>
       (case ug_host s of None \<Rightarrow> (HDF_FAILURE, s) | Some host \<Rightarrow>
         (case UartDevAttach E host prop s of (ret, s1) \<Rightarrow>
            if ret \<noteq> HDF_SUCCESS then (HDF_FAILURE, s1)
            else (ret, s1\<lparr>ug_host := map_option (\<lambda>h. h\<lparr>uh_method := True\<rparr>) (ug_host s1)\<rparr>))))"

definition HdfUartDeviceRelease :: "ug_env \<Rightarrow> bool option \<Rightarrow> ug_sys \<Rightarrow> ug_sys" where
  "HdfUartDeviceRelease E device s =
     (if device = None then s
      else
        (case ug_host s of None \<Rightarrow> s | Some host \<Rightarrow>
           (ug_do E HostDestroy (if uh_priv host \<noteq> None then Gr55xxDetach host s else s))\<lparr>ug_host := None\<rparr>))"

end
