(* ===== verification/Uart_Gr5xx_Facts.thy ===== *)
theory Uart_Gr5xx_Facts
  imports Uart_Gr5xx
begin

text \<open>
  A read and a write hold the lock of their direction from the first call to the last, on every path; a
  port counts its users, and the last one gives back what the first one took; but a first open that
  fails lets the next one succeed on a port that was never set up.
\<close>

subsection \<open>Frames\<close>

text \<open>Calls outside and interrupts change the trace and the number of bytes received.\<close>

definition ug_frame :: "ug_sys \<Rightarrow> ug_sys \<Rightarrow> bool" where
  "ug_frame s s' \<longleftrightarrow>
     h_next s' = h_next s \<and> h_blk s' = h_blk s \<and> h_bad s' = h_bad s \<and> ug_host s' = ug_host s \<and>
     ug_drv s' = ug_drv s \<and> g_uartRxSem s' = g_uartRxSem s \<and> g_uartTxMutex s' = g_uartTxMutex s \<and>
     g_uartRxMutex s' = g_uartRxMutex s"

lemma ug_frame_refl [simp]: "ug_frame s s"
  by (simp add: ug_frame_def)

lemma ug_call_eq: "ug_call E c s = (ug_api E (ev s) c, s\<lparr>ev := ev s @ [(c, ug_api E (ev s) c)]\<rparr>)"
  by (simp add: ug_call_def ext_call_eq emit_def)

lemma ug_do_eq: "ug_do E c s = s\<lparr>ev := ev s @ [(c, ug_api E (ev s) c)]\<rparr>"
  by (simp add: ug_do_def ug_call_eq)

text \<open>The count of bytes after some events.\<close>

fun received :: "uart_evt list \<Rightarrow> u32 \<Rightarrow> u32" where
  "received [] n = n"
| "received (RxData k # es) n = received es k"
| "received (_ # es) n = received es n"

text \<open>The trace grew by calls from a set.\<close>

definition only_calls :: "ug_ev set \<Rightarrow> ug_sys \<Rightarrow> ug_sys \<Rightarrow> bool" where
  "only_calls X s s' \<longleftrightarrow> (\<exists>xs. ev s' = ev s @ xs \<and> fst ` set xs \<subseteq> X)"

lemma only_calls_trans: "only_calls X s t \<Longrightarrow> only_calls X t u \<Longrightarrow> only_calls X s u"
  unfolding only_calls_def by (elim exE, rule_tac x = "xs @ xsa" in exI) auto

lemma ug_frame_trans: "ug_frame s t \<Longrightarrow> ug_frame t u \<Longrightarrow> ug_frame s u"
  by (simp add: ug_frame_def)

lemma callback_frame:
  "ug_frame s (uart_callback E i e s) \<and> g_rxNum (uart_callback E i e s) i = received [e] (g_rxNum s i) \<and>
   only_calls {SemPost (g_uartRxSem s i)} s (uart_callback E i e s)"
  by (cases e) (auto simp: uart_callback_def ug_do_eq ug_frame_def only_calls_def)

lemma received_Cons: "received (e # es) n = received es (received [e] n)"
  by (cases e) auto

lemma handler_frame:
  assumes "i = 0 \<or> i = 1"
  shows "ug_frame s (fold (g_evtHandler E i) es s) \<and>
    g_rxNum (fold (g_evtHandler E i) es s) i = received es (g_rxNum s i) \<and>
    only_calls {SemPost (g_uartRxSem s i)} s (fold (g_evtHandler E i) es s)"
proof (induction es arbitrary: s)
  case Nil
  then show ?case
    by (simp add: only_calls_def)
next
  case (Cons e es)
  have h: "g_evtHandler E i e s = uart_callback E i e s"
    using assms by (auto simp: g_evtHandler_def Uart0Callback_def Uart1Callback_def)
  let ?t = "uart_callback E i e s"
  note t = callback_frame [of s E i e]
  have q: "g_uartRxSem ?t = g_uartRxSem s"
    using t by (simp add: ug_frame_def)
  note IH = Cons [of ?t, unfolded q]
  have "ug_frame s (fold (g_evtHandler E i) es ?t)"
    using ug_frame_trans [OF conjunct1 [OF t] conjunct1 [OF IH]] .
  moreover have "g_rxNum (fold (g_evtHandler E i) es ?t) i = received (e # es) (g_rxNum s i)"
    using IH t by (simp add: received_Cons [of e es])
  moreover have "only_calls {SemPost (g_uartRxSem s i)} s (fold (g_evtHandler E i) es ?t)"
    using only_calls_trans [OF conjunct2 [OF conjunct2 [OF t]] conjunct2 [OF conjunct2 [OF IH]]] .
  ultimately show ?case
    by (simp add: h)
qed

subsection \<open>Reading and writing\<close>

text \<open>The port of a host is open, in the tables, and one of the two with a callback.\<close>

definition port_open :: "ug_env \<Rightarrow> UartHost \<Rightarrow> nat \<Rightarrow> UartDriverData \<Rightarrow> ug_sys \<Rightarrow> bool" where
  "port_open E h p d s \<longleftrightarrow>
     uh_priv h = Some p \<and> ug_drv s p = Some d \<and> ud_state d = UART_STATE_USEABLE \<and>
     ud_id d < APP_UART_ID_MAX E \<and> (ud_id d = 0 \<or> ud_id d = 1)"

text \<open>What a call did between taking a lock and giving it back.\<close>

definition locked :: "u32 \<Rightarrow> ug_sys \<Rightarrow> (ug_ev \<times> int) list \<Rightarrow> ug_sys \<Rightarrow> bool" where
  "locked m s es s' \<longleftrightarrow>
     ug_frame s s' \<and> (\<exists>a b. ev s' = ev s @ [(MuxPend m, a)] @ es @ [(MuxPost m, b)]) \<and>
     (\<forall>n. MuxPend n \<notin> fst ` set es \<and> MuxPost n \<notin> fst ` set es)"

lemma write_locked:
  assumes "port_open E h p d s" and "UartHostDevWrite E (Some h) (Some buf) sz s = (r, s')"
  shows "\<exists>x. locked (g_uartTxMutex s (ud_id d)) s [(TxSync (ud_id d) buf sz UART_TRANS_TIMEOUT, x)] s' \<and>
    r = (if x = 0 then HDF_SUCCESS else HDF_FAILURE)"
  using assms
  by (auto simp: port_open_def UartHostDevWrite_def with_open_def with_udd_def in_table_def Let_def ug_call_eq ug_do_eq
      locked_def ug_frame_def)

text \<open>The number that is answered: another task may have changed it.\<close>

definition answer :: "ug_env \<Rightarrow> (ug_ev \<times> int) list \<Rightarrow> u32 \<Rightarrow> u32" where
  "answer E tr n = (case ug_race E tr of None \<Rightarrow> n | Some k \<Rightarrow> k)"

lemma others_num: "g_rxNum (others_run E i s) i = answer E (ev s) (g_rxNum s i)"
  by (simp add: others_run_def answer_def split: option.split)

lemma others_frame: "ug_frame s (others_run E i s)" "ev (others_run E i s) = ev s"
  by (simp_all add: others_run_def ug_frame_def split: option.split)

text \<open>
  The stages of a read of an open port: \<open>t3\<close> is the state after the vendor was asked, \<open>t4\<close> that after
  the wait.
\<close>

lemma read_stages:
  assumes "port_open E h p d s" and "UartHostDevRead E (Some h) (Some buf) sz s = (r, s')"
    and "m = g_uartRxMutex s (ud_id d)" and "q = g_uartRxSem s (ud_id d)"
  obtains x w t3 t4 a c xs where "ug_frame s t3" and "ug_frame s t4"
    and "ev t3 = ev s @ [(MuxPend m, a), (SemPend q False, c), (RxAsync (ud_id d) buf sz, x)]"
    and "ev t4 = ev t3 @ xs @ [(SemPend q True, w)]" and "fst ` set xs \<subseteq> {SemPost q}"
    and "(r, s') = (if x \<noteq> 0 then (HDF_FAILURE, ug_do E (MuxPost m) t3)
      else if w \<noteq> 0 then (HDF_FAILURE, ug_do E (MuxPost m) t4)
      else (ret_of (sint (answer E (ev (ug_do E (MuxPost m) t4)) (received (ug_rx E (ev t3)) 0))),
            others_run E (ud_id d) (ug_do E (MuxPost m) t4)))"
proof -
  let ?i = "ud_id d"
  define t2 where "t2 = ug_do E (SemPend q False) ((ug_do E (MuxPend m) s)\<lparr>g_rxNum := (g_rxNum s)(?i := 0)\<rparr>)"
  obtain x t3 where c3: "ug_call E (RxAsync ?i buf sz) t2 = (x, t3)"
    by force
  define t where "t = fold (g_evtHandler E ?i) (ug_rx E (ev t3)) t3"
  obtain w t4 where c4: "ug_call E (SemPend q True) t = (w, t4)"
    by force
  obtain a c where 2: "ug_frame s t2" "g_rxNum t2 ?i = 0" "ev t2 = ev s @ [(MuxPend m, a), (SemPend q False, c)]"
    by (simp_all add: t2_def ug_do_eq ug_frame_def)
  have 3: "ug_frame s t3" "g_rxNum t3 ?i = 0" "ev t3 = ev t2 @ [(RxAsync ?i buf sz, x)]"
    using 2 c3 by (auto simp: ug_call_eq ug_frame_def)
  have "?i = 0 \<or> ?i = 1"
    using assms(1) by (simp add: port_open_def)
  from handler_frame [OF this, of t3 E "ug_rx E (ev t3)", folded t_def] 3
  have f: "ug_frame s t" "g_rxNum t ?i = received (ug_rx E (ev t3)) 0" "only_calls {SemPost q} t3 t"
    by (auto simp: ug_frame_def assms(4))
  have 4: "ug_frame s t4" "ev t4 = ev t @ [(SemPend q True, w)]" "g_rxNum t4 ?i = received (ug_rx E (ev t3)) 0"
    using f c4 by (auto simp: ug_call_eq ug_frame_def)
  have g: "g_uartRxMutex (ug_do E c u) = g_uartRxMutex u" "g_uartRxSem (ug_do E c u) = g_uartRxSem u"
    "g_rxNum (ug_do E c u) = g_rxNum u" for c u
    by (simp_all add: ug_do_eq)
  have locks: "g_uartRxMutex t3 ?i = m" "g_uartRxSem t3 ?i = q" "g_uartRxMutex t4 ?i = m"
    using 3(1) 4(1) by (simp_all add: ug_frame_def assms(3,4))
  have R: "(r, s') =
    (if x \<noteq> 0 then (HDF_FAILURE, ug_do E (MuxPost m) t3)
     else if w \<noteq> 0 then (HDF_FAILURE, ug_do E (MuxPost m) t4)
     else (ret_of (sint (answer E (ev (ug_do E (MuxPost m) t4)) (g_rxNum t4 ?i))),
           others_run E ?i (ug_do E (MuxPost m) t4)))"
    using assms(1,2) locks others_num [of E "ud_id d" "ug_do E (MuxPost m) t4"]
    by (cases "x = 0"; cases "w = 0"; simp add: port_open_def UartHostDevRead_def with_open_def with_udd_def in_table_def Let_def g
        assms(3,4) [symmetric] t2_def [symmetric] c3 t_def [symmetric] c4)
  obtain xs where "ev t = ev t3 @ xs" "fst ` set xs \<subseteq> {SemPost q}"
    using f(3) by (auto simp: only_calls_def)
  then show ?thesis
    using that [of t3 t4 a c x xs w] 2(3) 3(1,3) 4 R by simp
qed

text \<open>
  C31. A read of an open UART port that has a callback takes the lock of the readers and gives
  it back whatever fails, and touches neither heap nor driver data. It answers the failure or
  the number of bytes of the last reception that arrived while it waited, unless another task
  gets the lock as soon as it is given back: the number is read after that, and is what the
  other task has left there.
\<close>

theorem gr5xx_read_locked:
  assumes "port_open E h p d s" and "UartHostDevRead E (Some h) (Some buf) sz s = (r, s')"
  shows "\<exists>es x. locked (g_uartRxMutex s (ud_id d)) s es s' \<and> (RxAsync (ud_id d) buf sz, x) \<in> set es \<and>
    (if x \<noteq> 0 then r = HDF_FAILURE
     else \<exists>w. (SemPend (g_uartRxSem s (ud_id d)) True, w) = last es \<and>
       r = (if w \<noteq> 0 then HDF_FAILURE
            else ret_of (sint (case ug_race E (ev s') of Some n \<Rightarrow> n
              | None \<Rightarrow> received (ug_rx E (take (length (ev s) + 3) (ev s'))) 0))))"
proof -
  define m q where "m = g_uartRxMutex s (ud_id d)" and "q = g_uartRxSem s (ud_id d)"
  from read_stages [OF assms m_def q_def] obtain x w t3 t4 a c xs where
    3: "ug_frame s t3" "ev t3 = ev s @ [(MuxPend m, a), (SemPend q False, c), (RxAsync (ud_id d) buf sz, x)]"
    and 4: "ug_frame s t4" "ev t4 = ev t3 @ xs @ [(SemPend q True, w)]" "fst ` set xs \<subseteq> {SemPost q}"
    and R: "(r, s') = (if x \<noteq> 0 then (HDF_FAILURE, ug_do E (MuxPost m) t3)
      else if w \<noteq> 0 then (HDF_FAILURE, ug_do E (MuxPost m) t4)
      else (ret_of (sint (answer E (ev (ug_do E (MuxPost m) t4)) (received (ug_rx E (ev t3)) 0))),
            others_run E (ud_id d) (ug_do E (MuxPost m) t4)))"
    by metis
  have no: "\<forall>n. MuxPend n \<notin> fst ` set xs \<and> MuxPost n \<notin> fst ` set xs"
    using 4(3) by blast
  let ?es = "if x = 0 then [(SemPend q False, c), (RxAsync (ud_id d) buf sz, x)] @ xs @ [(SemPend q True, w)]
    else [(SemPend q False, c), (RxAsync (ud_id d) buf sz, x)]"
  have "locked m s ?es s'"
    using R 3 4(1,2) no others_frame
    by (auto simp: locked_def ug_do_eq ug_frame_def split: if_splits)
  moreover have "ev t3 = take (length (ev s) + 3) (ev s')" if "x = 0"
    using R that 3(2) 4(2) others_frame(2) by (auto simp: ug_do_eq split: if_splits)
  moreover have "ev s' = ev (ug_do E (MuxPost m) t4)" if "x = 0"
    using R that others_frame(2) by (auto split: if_splits)
  ultimately show ?thesis
    using R unfolding m_def q_def
    by (intro exI [of _ ?es] exI [of _ x]) (auto simp: q_def answer_def others_frame(2) split: if_splits option.splits)
qed

subsection \<open>Users\<close>

text \<open>
  A port with \<open>n\<close> users on a heap that without its buffer is \<open>b\<close>: it is usable and has a buffer when
  there are users, and is closed with none otherwise.
\<close>

definition port_users :: "ug_env \<Rightarrow> nat \<Rightarrow> (nat \<Rightarrow> u8 list option) \<Rightarrow> nat \<Rightarrow> ug_sys \<Rightarrow> bool" where
  "port_users E p b n s \<longleftrightarrow>
     \<not> h_bad s \<and> heap_ok s \<and>
     (\<exists>d. ug_drv s p = Some d \<and> ud_id d < APP_UART_ID_MAX E \<and> ud_count d = of_nat n \<and> n < 2 ^ 31 \<and>
        (if n = 0 then ud_state d = UART_STATE_NOT_OPENED \<and> ud_tx_buf d = None \<and> h_blk s = b
         else ud_state d = UART_STATE_USEABLE \<and>
           (\<exists>q bs. ud_tx_buf d = Some q \<and> b q = None \<and> h_blk s = b(q \<mapsto> bs))))"

text \<open>Setting up and taking down the semaphores leaves the heap and the driver data alone.\<close>

definition data_frame :: "ug_sys \<Rightarrow> ug_sys \<Rightarrow> bool" where
  "data_frame s s' \<longleftrightarrow> h_next s' = h_next s \<and> h_blk s' = h_blk s \<and> h_bad s' = h_bad s \<and> ug_drv s' = ug_drv s"

lemma SemInit_frame: "UartDevSemInit E i s = (r, s') \<Longrightarrow> data_frame s s'"
  by (auto simp: UartDevSemInit_def ug_call_eq data_frame_def Let_def split: if_splits)

lemma SemDeinit_frame: "data_frame s (UartDevSemDeinit E i s)"
  by (simp add: UartDevSemDeinit_def sem_delete_def ug_do_eq data_frame_def)

lemma config_frame:
  assumes "run_config E p d s = (r, s')" and "ud_config d"
  shows "h_next s' = h_next s \<and> h_blk s' = h_blk s \<and> h_bad s' = h_bad s \<and>
    (\<exists>q. ug_drv s' = (ug_drv s)(p \<mapsto> d\<lparr>ud_params := q\<rparr>))"
  using assms by (auto simp: run_config_def Gr5xxUartConfig_def ug_call_eq put_drv_def Let_def)

text \<open>A first open.\<close>

lemma init_closed:
  assumes "uh_priv h = Some p" and "ug_drv s p = Some d" and "ud_id d < APP_UART_ID_MAX E" and "ud_state d = UART_STATE_NOT_OPENED"
  shows "UartHostDevInit E (Some h) s =
     (let d1 = d\<lparr>ud_state := UART_STATE_OPENING\<rparr> in
      (case OsalMemCalloc E (Bytes TX_BUF_SIZE) (put_drv p d1 s) of
         (None, t1) \<Rightarrow> (HDF_ERR_MALLOC_FAIL, t1)
       | (Some tx, t1) \<Rightarrow>
           (case UartDevSemInit E (ud_id d) t1 of (ret, t2) \<Rightarrow>
              if ret \<noteq> HDF_SUCCESS then (HDF_FAILURE, UartDevSemDeinit E (ud_id d) t2)
              else
                (case run_config E p (d1\<lparr>ud_tx_buf := Some tx, ud_callback := True, ud_config := True\<rparr>) t2 of
                   (ret2, t3) \<Rightarrow>
                     if ret2 \<noteq> HDF_SUCCESS
                     then (HDF_FAILURE,
                           (case ug_drv t3 p of None \<Rightarrow> ug_bad t3
                            | Some d3 \<Rightarrow> put_drv p (d3\<lparr>ud_tx_buf := None\<rparr>)
                                (OsalMemFree (ud_tx_buf d3) (UartDevSemDeinit E (ud_id d) t3))))
                     else count_user p t3))))"
proof -
  have "\<not> APP_UART_ID_MAX E \<le> ud_id d"
    using assms(3) by simp
  then show ?thesis
    unfolding UartHostDevInit_def with_udd_def using assms(1,2,4) by simp
qed

text \<open>A number of users that fits in the count.\<close>

lemma unat_users: "n < 2 ^ 31 \<Longrightarrow> unat (of_nat n :: u32) = n"
  by (simp add: unsigned_of_nat take_bit_nat_eq_self)

lemma count_zero: "n < 2 ^ 31 \<Longrightarrow> (of_nat n :: u32) = 0 \<longleftrightarrow> n = 0"
proof -
  assume n: "n < 2 ^ 31"
  have "(of_nat n :: u32) = 0 \<longleftrightarrow> unat (of_nat n :: u32) = 0"
    by (rule unat_eq_zero [symmetric])
  then show ?thesis
    unfolding unat_users [OF n] .
qed

lemma count_limits: "n < 2 ^ 31 \<Longrightarrow> (of_nat n :: u32) \<noteq> INT32_MIN"
  "Suc n < 2 ^ 31 \<Longrightarrow> (of_nat n :: u32) \<noteq> INT32_MAX"
proof -
  assume n: "n < 2 ^ 31"
  have "unat INT32_MIN = 2 ^ 31"
    by (simp add: INT32_MIN_def)
  then show "(of_nat n :: u32) \<noteq> INT32_MIN"
    using unat_users [OF n] n by auto
next
  assume n: "Suc n < 2 ^ 31"
  have "unat INT32_MAX = 2 ^ 31 - 1"
    by (simp add: INT32_MAX_def)
  then show "(of_nat n :: u32) \<noteq> INT32_MAX"
    using unat_users [of n] n by auto
qed

lemma init_opened:
  assumes "uh_priv h = Some p" and "ug_drv s p = Some d" and "ud_id d < APP_UART_ID_MAX E" and "ud_state d \<noteq> UART_STATE_NOT_OPENED"
    and "ud_count d \<noteq> INT32_MAX"
  shows "UartHostDevInit E (Some h) s =
    (HDF_SUCCESS, put_drv p (d\<lparr>ud_state := UART_STATE_USEABLE, ud_count := ud_count d + 1\<rparr>) s)"
proof -
  have "\<not> APP_UART_ID_MAX E \<le> ud_id d"
    using assms(3) by simp
  then show ?thesis
    unfolding UartHostDevInit_def with_udd_def count_user_def using assms(1,2,4,5) by simp
qed

lemma first_open:
  assumes "port_users E p b 0 s" and "UartHostDevInit E (Some h) s = (r, s')" and "uh_priv h = Some p"
  shows "if r = HDF_SUCCESS then port_users E p b 1 s'
    else \<not> h_bad s' \<and> (\<exists>d. ug_drv s' p = Some d \<and> ud_id d < APP_UART_ID_MAX E \<and> ud_count d = 0 \<and>
      ud_state d = UART_STATE_OPENING \<and> ud_tx_buf d = None)"
proof -
  obtain d where d: "ug_drv s p = Some d" "ud_id d < APP_UART_ID_MAX E" "ud_count d = 0"
    "ud_state d = UART_STATE_NOT_OPENED" "ud_tx_buf d = None" and b: "h_blk s = b" and ok: "\<not> h_bad s" "heap_ok s"
    using assms(1) by (auto simp: port_users_def)
  let ?d = "d\<lparr>ud_state := UART_STATE_OPENING\<rparr>"
  let ?D = "?d\<lparr>ud_tx_buf := Some (h_next s), ud_callback := True, ud_config := True\<rparr>"
  obtain m t1 where c: "OsalMemCalloc E (Bytes TX_BUF_SIZE) (put_drv p ?d s) = (m, t1)"
    by force
  show ?thesis
  proof (cases m)
    case None
    have "ug_drv t1 p = Some ?d" "h_bad t1 = h_bad s"
      using c None by (auto simp: OsalMemCalloc_bytes TX_BUF_SIZE_def put_drv_def split: if_splits)
    then show ?thesis
      using assms(2) c None d ok by (auto simp: init_closed [OF assms(3) d(1,2,4)] Let_def)
  next
    case (Some tx)
    have t1: "tx = h_next s" "h_next t1 = Suc (h_next s)" "h_blk t1 = b(tx \<mapsto> replicate TX_BUF_SIZE 0)" "\<not> h_bad t1"
      "ug_drv t1 = (ug_drv s)(p \<mapsto> ?d)"
      using c Some b ok by (auto simp: OsalMemCalloc_bytes TX_BUF_SIZE_def put_drv_def split: if_splits)
    have fresh: "b tx = None"
      using heap_ok_fresh [OF ok(2)] b t1(1) by simp
    obtain q t2 where s2: "UartDevSemInit E (ud_id d) t1 = (q, t2)"
      by force
    note f2 = SemInit_frame [OF s2]
    obtain q3 t3 where s3: "run_config E p ?D t2 = (q3, t3)"
      by force
    obtain k where f3: "h_next t3 = h_next t2" "h_blk t3 = h_blk t2" "h_bad t3 = h_bad t2"
      "ug_drv t3 = (ug_drv t2)(p \<mapsto> ?D\<lparr>ud_params := k\<rparr>)"
      using config_frame [OF s3] by auto
    let ?t4 = "UartDevSemDeinit E (ud_id d) t3"
    have R: "(r, s') =
      (if q \<noteq> HDF_SUCCESS then (HDF_FAILURE, UartDevSemDeinit E (ud_id d) t2)
       else if q3 \<noteq> HDF_SUCCESS
       then (HDF_FAILURE, put_drv p (?D\<lparr>ud_params := k, ud_tx_buf := None\<rparr>) (OsalMemFree (Some tx) ?t4))
       else count_user p t3)"
      using assms(2) c Some s2 s3 f3(4) t1(1)
      by (cases "q = HDF_SUCCESS"; cases "q3 = HDF_SUCCESS"; simp add: init_closed [OF assms(3) d(1,2,4)] Let_def)
    have blk: "h_blk ?t4 tx \<noteq> None"
      using f2 f3 t1(3) SemDeinit_frame [of t3 E "ud_id d"] by (simp add: data_frame_def)
    consider "q \<noteq> HDF_SUCCESS" | "q = HDF_SUCCESS" "q3 \<noteq> HDF_SUCCESS" | "q = HDF_SUCCESS" "q3 = HDF_SUCCESS"
      by blast
    then show ?thesis
    proof cases
      case 1
      then show ?thesis
        using R f2 t1 d SemDeinit_frame [of t2 E "ud_id d"] by (simp add: data_frame_def)
    next
      case 2
      then show ?thesis
        using R f2 f3 t1 d blk SemDeinit_frame [of t3 E "ud_id d"]
        by (auto simp: data_frame_def put_drv_def OsalMemFree_live)
    next
      case 3
      then have eqs: "r = HDF_SUCCESS" "s' = put_drv p (?D\<lparr>ud_params := k, ud_state := UART_STATE_USEABLE, ud_count := 1\<rparr>) t3"
        using R f3(4) d by (auto simp: count_user_def INT32_MAX_def)
      have "heap_ok s'"
        using ok(2) f2 f3 t1 b unfolding eqs(2) by (auto simp: heap_ok_def put_drv_def data_frame_def)
      then show ?thesis
        using eqs f2 f3 t1 d fresh by (auto simp: port_users_def put_drv_def data_frame_def)
    qed
  qed
qed

lemma next_open:
  assumes "port_users E p b (Suc n) s" and "UartHostDevInit E (Some h) s = (r, s')" and "uh_priv h = Some p"
    and "Suc (Suc n) < 2 ^ 31"
  shows "r = HDF_SUCCESS \<and> port_users E p b (Suc (Suc n)) s'"
proof -
  obtain d q bs where d: "ug_drv s p = Some d" "ud_id d < APP_UART_ID_MAX E" "ud_count d = of_nat (Suc n)" "Suc n < 2 ^ 31"
    "ud_state d = UART_STATE_USEABLE" "ud_tx_buf d = Some q" "b q = None" "h_blk s = b(q \<mapsto> bs)"
    and ok: "\<not> h_bad s" "heap_ok s"
    using assms(1) by (auto simp: port_users_def)
  have "ud_state d \<noteq> UART_STATE_NOT_OPENED" "ud_count d \<noteq> INT32_MAX"
    using count_limits(2) [OF assms(4)] d(3,5) by simp_all
  from init_opened [OF assms(3) d(1,2) this] assms(2)
  have "r = HDF_SUCCESS" "s' = put_drv p (d\<lparr>ud_state := UART_STATE_USEABLE, ud_count := ud_count d + 1\<rparr>) s"
    by auto
  then show ?thesis
    using d ok assms(4) by (auto simp: port_users_def put_drv_def heap_ok_def)
qed

lemma close_port:
  assumes "port_users E p b (Suc n) s" and "UartHostDevDeinit E (Some h) s = (r, s')" and "uh_priv h = Some p"
  shows "r = HDF_SUCCESS \<and> port_users E p b n s'"
proof -
  obtain d q bs where d: "ug_drv s p = Some d" "ud_id d < APP_UART_ID_MAX E" "ud_count d = of_nat (Suc n)" "Suc n < 2 ^ 31"
    "ud_state d = UART_STATE_USEABLE" "ud_tx_buf d = Some q" "b q = None" "h_blk s = b(q \<mapsto> bs)"
    and ok: "\<not> h_bad s" "heap_ok s"
    using assms(1) by (auto simp: port_users_def)
  note f = SemDeinit_frame [of s E "ud_id d", unfolded data_frame_def]
  have c: "ud_count d - 1 = of_nat n" "ud_count d \<noteq> INT32_MIN" "(of_nat n :: u32) = 0 \<longleftrightarrow> n = 0"
    using d(3,4) count_limits(1) [OF d(4)] count_zero [of n] by simp_all
  show ?thesis
  proof (cases n)
    case 0
    have "h_blk (UartDevSemDeinit E (ud_id d) s) q = Some bs"
      using f d by simp
    moreover have "\<forall>i\<ge>h_next s. b i = None"
      using ok(2) d(8) by (metis fun_upd_apply heap_ok_def option.distinct(1))
    ultimately show ?thesis
      using assms(2,3) d(1,2,5-8) c ok f 0
      by (auto simp: UartHostDevDeinit_def with_udd_def in_table_def OsalMemFree_live put_drv_def port_users_def
          heap_ok_def fun_upd_idem)
  next
    case (Suc m)
    then show ?thesis
      using assms(2,3) d(1,2,4-8) c ok
      by (auto simp: UartHostDevDeinit_def with_udd_def put_drv_def port_users_def heap_ok_def Let_def)
  qed
qed

datatype port_op = OpenPort | ClosePort

fun port_step :: "ug_env \<Rightarrow> UartHost \<Rightarrow> port_op \<Rightarrow> ug_sys \<Rightarrow> ret \<times> ug_sys" where
  "port_step E h OpenPort s = UartHostDevInit E (Some h) s"
| "port_step E h ClosePort s = UartHostDevDeinit E (Some h) s"

fun port_run :: "ug_env \<Rightarrow> UartHost \<Rightarrow> port_op list \<Rightarrow> ug_sys \<Rightarrow> ret list \<times> ug_sys" where
  "port_run E h [] s = ([], s)"
| "port_run E h (a # as) s =
     (case port_step E h a s of (r, s1) \<Rightarrow> (case port_run E h as s1 of (rs, s2) \<Rightarrow> (r # rs, s2)))"

text \<open>
  The number of users; \<open>None\<close> when a port without users is closed, or one more user would not fit in an
  \<open>int32_t\<close>.
\<close>

fun users :: "port_op list \<Rightarrow> nat \<Rightarrow> nat option" where
  "users [] n = Some n"
| "users (OpenPort # as) n = (if Suc n < 2 ^ 31 then users as (Suc n) else None)"
| "users (ClosePort # as) n = (case n of 0 \<Rightarrow> None | Suc m \<Rightarrow> users as m)"

text \<open>
  C26. A UART port counts its users: after any opens and closes that succeeded, with no port
  closed without a user and always fewer than 2^31 users, it has exactly the users that are
  left, is usable with a live transmit buffer while there is one, and with none it is closed on
  the heap it started with.
\<close>

theorem gr5xx_port_users:
  assumes "port_users E p b n s" and "uh_priv h = Some p" and "users ops n = Some m"
    and "port_run E h ops s = (rs, s')" and "\<forall>r\<in>set rs. r = HDF_SUCCESS"
  shows "port_users E p b m s'"
  using assms
proof (induction ops arbitrary: n s rs)
  case (Cons a ops)
  obtain r s1 where 1: "port_step E h a s = (r, s1)"
    by force
  obtain qs s2 where 2: "port_run E h ops s1 = (qs, s2)"
    by force
  have eqs: "rs = r # qs" "s2 = s'"
    using Cons.prems(4) 1 2 by auto
  show ?case
  proof (cases a)
    case OpenPort
    have n: "Suc n < 2 ^ 31" "users ops (Suc n) = Some m"
      using Cons.prems(3) OpenPort by (auto split: if_splits)
    have "port_users E p b (Suc n) s1"
      using first_open [of E p b s h r s1] next_open [of E p b "n - 1" s h r s1] Cons.prems(1,2,5) 1 OpenPort eqs n(1)
      by (cases n) auto
    then show ?thesis
      using Cons.IH [of "Suc n" s1 qs] Cons.prems(2,5) 2 eqs n(2) by simp
  next
    case ClosePort
    obtain k where k: "n = Suc k" "users ops k = Some m"
      using Cons.prems(3) ClosePort by (auto split: nat.splits)
    have "port_users E p b k s1"
      using close_port [of E p b k s h r s1] Cons.prems(1,2) 1 ClosePort k by simp
    then show ?thesis
      using Cons.IH [of k s1 qs] Cons.prems(2,5) 2 eqs k by simp
  qed
qed simp

text \<open>
  When a first open fails, for whatever reason, the next one succeeds without a call to the vendor or
  the kernel: the port counts as usable and has no buffer.
\<close>

text \<open>
  C27. When the first open of a UART port fails, for whatever reason, the next one succeeds
  without a call to the vendor or the kernel: the port counts as usable and has no transmit
  buffer.
\<close>

theorem gr5xx_failed_open:
  assumes "port_users E p b 0 s" and "uh_priv h = Some p"
    and "UartHostDevInit E (Some h) s = (r, s1)" and "r \<noteq> HDF_SUCCESS"
  shows "\<exists>d. UartHostDevInit E (Some h) s1 = (HDF_SUCCESS, put_drv p d s1) \<and>
    ud_state d = UART_STATE_USEABLE \<and> ud_count d = 1 \<and> ud_tx_buf d = None"
proof -
  obtain d where d: "ug_drv s1 p = Some d" "ud_id d < APP_UART_ID_MAX E" "ud_count d = 0"
    "ud_state d = UART_STATE_OPENING" "ud_tx_buf d = None"
    using first_open [OF assms(1,3,2)] assms(4) by auto
  have "ud_state d \<noteq> UART_STATE_NOT_OPENED" "ud_count d \<noteq> INT32_MAX"
    using d(3,4) by (simp_all add: INT32_MAX_def)
  from init_opened [OF assms(2) d(1,2) this] d(3,5) show ?thesis
    by auto
qed

subsection \<open>Examples\<close>

text \<open>A vendor whose every call succeeds, except that making the \<open>k\<close>-th object (\<open>k\<close> from 0) fails.\<close>

definition ug_demo_env :: "nat \<Rightarrow> uart_evt list \<Rightarrow> ug_env" where
  "ug_demo_env k rx = \<lparr>mem_ok = (\<lambda>n sz. True), mem_junk = (\<lambda>_ _. 0), copy_ok = (\<lambda>_ _. True),
     ug_api = (\<lambda>tr c. if (c = SemCreate \<or> c = MuxCreate) \<and> length tr = k then 1 else 0),
     ug_new = (\<lambda>tr. of_nat (length tr + 1)), ug_rx = (\<lambda>_. rx), ug_race = (\<lambda>_. None), ug_iface = True, ug_prop = (\<lambda>_. Some 1),
     APP_UART_ID_MAX = 2, attr_databits = (\<lambda>_. None), attr_stopbits = (\<lambda>_. None), attr_parity = (\<lambda>_. None),
     UART_DATABITS_8 = 8, UART_STOPBITS_1 = 1, UART_PARITY_NONE = 0, DEFAULT_DATABITS = 3, DEFAULT_STOPBITS = 0,
     DEFAULT_PARITY = 0\<rparr>"

definition ug_demo_host :: UartHost where
  "ug_demo_host = \<lparr>uh_priv = Some 0, uh_num = 1, uh_method = True\<rparr>"

definition ug_demo :: ug_sys where
  "ug_demo = \<lparr>h_next = 1, h_blk = [0 \<mapsto> []], h_bad = False, ev = [], ug_host = Some ug_demo_host,
     ug_drv = [0 \<mapsto> zero_udd\<lparr>ud_id := 1\<rparr>], g_uartRxSem = (\<lambda>_. 0), g_uartTxMutex = (\<lambda>_. 0), g_uartRxMutex = (\<lambda>_. 0),
     g_rxNum = (\<lambda>_. 0)\<rparr>"

definition ug_demo_open :: ug_sys where
  "ug_demo_open = ug_demo\<lparr>ug_drv := [0 \<mapsto> zero_udd\<lparr>ud_id := 1, ud_state := UART_STATE_USEABLE, ud_count := 1\<rparr>]\<rparr>"

lemma demo_users: "port_users (ug_demo_env k rx) 0 [0 \<mapsto> []] 0 ug_demo"
  by (auto simp: port_users_def ug_demo_def ug_demo_env_def zero_udd_def heap_ok_def)

lemma two_le_one: "\<not> (2 :: u32) \<le> 1"
  by (simp add: word_le_nat_alt)

lemma demo_host: "uh_priv ug_demo_host = Some 0"
  by (simp add: ug_demo_host_def)

text \<open>Two receptions arrive; the answer is the size of the second.\<close>

lemma gr5xx_read_locked_witness:
  "fst (UartHostDevRead (ug_demo_env 9 [RxData 5, EvtOther, RxData 7]) (Some ug_demo_host) (Some 3) 16 ug_demo_open) = ret_of 7 \<and>
   (\<exists>es. locked 0 ug_demo_open es
      (snd (UartHostDevRead (ug_demo_env 9 [RxData 5, EvtOther, RxData 7]) (Some ug_demo_host) (Some 3) 16 ug_demo_open)))"
proof -
  let ?E = "ug_demo_env 9 [RxData 5, EvtOther, RxData 7]" and ?d = "zero_udd\<lparr>ud_id := 1, ud_state := UART_STATE_USEABLE, ud_count := 1\<rparr>"
  have o: "port_open ?E ug_demo_host 0 ?d ug_demo_open"
    by (simp add: port_open_def ug_demo_env_def ug_demo_host_def ug_demo_open_def)
  have "fst (UartHostDevRead ?E (Some ug_demo_host) (Some 3) 16 ug_demo_open) = ret_of 7"
    by (simp add: UartHostDevRead_def with_open_def with_udd_def in_table_def Let_def ug_call_eq ug_do_eq ug_demo_env_def
        ug_demo_host_def ug_demo_open_def ug_demo_def g_evtHandler_def Uart1Callback_def uart_callback_def others_run_def)
  moreover have "g_uartRxMutex ug_demo_open (ud_id ?d) = 0"
    by (simp add: ug_demo_open_def ug_demo_def)
  ultimately show ?thesis
    using gr5xx_read_locked [OF o surjective_pairing, of 3 16] by auto
qed

lemma gr5xx_port_users_witness:
  "port_users (ug_demo_env 9 []) 0 [0 \<mapsto> []] 0
     (snd (port_run (ug_demo_env 9 []) ug_demo_host [OpenPort, OpenPort, ClosePort, ClosePort] ug_demo))"
proof -
  have "\<forall>r \<in> set (fst (port_run (ug_demo_env 9 []) ug_demo_host [OpenPort, OpenPort, ClosePort, ClosePort] ug_demo)). r = HDF_SUCCESS"
    by (simp add: UartHostDevInit_def UartHostDevDeinit_def with_udd_def in_table_def Let_def UartDevSemInit_def run_config_def
        Gr5xxUartConfig_def count_user_def OsalMemCalloc_bytes TX_BUF_SIZE_def put_drv_def ug_call_eq ug_demo_env_def
        ug_demo_host_def ug_demo_def zero_udd_def two_le_one)
  then show ?thesis
    using gr5xx_port_users [OF demo_users demo_host _ surjective_pairing, of "[OpenPort, OpenPort, ClosePort, ClosePort]" 0 9 "[]"]
    by simp
qed

text \<open>The lock of the writers cannot be made: the open fails, the next one does not.\<close>

lemma gr5xx_failed_open_witness:
  "\<exists>s1 d. UartHostDevInit (ug_demo_env 1 []) (Some ug_demo_host) ug_demo = (HDF_FAILURE, s1) \<and>
     UartHostDevInit (ug_demo_env 1 []) (Some ug_demo_host) s1 = (HDF_SUCCESS, put_drv 0 d s1) \<and>
     ud_state d = UART_STATE_USEABLE \<and> ud_tx_buf d = None"
proof -
  let ?I = "UartHostDevInit (ug_demo_env 1 []) (Some ug_demo_host) ug_demo"
  have r: "fst ?I = HDF_FAILURE"
    by (simp add: UartHostDevInit_def with_udd_def Let_def UartDevSemInit_def OsalMemCalloc_bytes TX_BUF_SIZE_def put_drv_def
        ug_call_eq ug_demo_env_def ug_demo_host_def ug_demo_def zero_udd_def two_le_one)
  then have "?I = (HDF_FAILURE, snd ?I)"
    by (metis surjective_pairing)
  then show ?thesis
    using gr5xx_failed_open [OF demo_users demo_host, of 1 "[]" HDF_FAILURE "snd ?I"] by auto
qed

end
