(* ===== verification/Hdf_Security.thy ===== *)
theory Hdf_Security
  imports Osal_Mem
begin

text \<open>
  The access rules of driver hosts, \<open>uhdf2/security/src/hdf_security.c\<close>: the permissions the devices of
  a host ask for become a mask with one bit for each, which goes to the kernel with the host's name.

  Outside the repository are the numbers of the permissions (\<open>PAL\<close> gives that of a name,
  \<open>PAL_MAX_TYPE\<close> their count), the hash map of the framework (\<open>map_new\<close>, \<open>map_put\<close>, \<open>map_get\<close>,
  \<open>map_size\<close>; \<open>map_contract\<close> is what its documentation promises while memory lasts), the random numbers
  of OpenSSL and the system calls: these are events, \<open>sec_api\<close> gives their status, and \<open>real_path\<close> resolves a path. A host is the list of
  its drivers, a driver the list of its devices; of a device its permissions matter: their number, and
  what reading each gives (\<open>None\<close> when it fails). A string is \<open>None\<close> when the pointer is \<open>NULL\<close>.

  An entry of the map is written as eight bytes from a four-byte variable (\<open>sizeof(int *)\<close>): the four that
  are read back are the variable.
\<close>

record sec_device =
  permNums :: int
  perm_elem :: "nat \<Rightarrow> string option"

datatype sec_cmd = HDF_SECURE_SET_INFO | HDF_SECURE_SET_CURRENT_ID | HDF_SECURE_DELETE_INFO

datatype sec_ev = RandBytes int | OpenFile string | Ioctl int sec_cmd string u64 | CloseFile int

record 'm sec_sys = "(sec_ev \<times> int) sys" +
  g_indexMap :: 'm
  hdfHashMap :: 'm

record 'm sec_env =
  PAL :: "string \<Rightarrow> nat"
  PAL_MAX_TYPE :: nat
  map_new :: 'm
  map_put :: "string option \<Rightarrow> u32 \<Rightarrow> 'm \<Rightarrow> 'm"
  map_get :: "'m \<Rightarrow> string option \<Rightarrow> u32 option"
  map_size :: "'m \<Rightarrow> nat"
  sec_api :: "(sec_ev \<times> int) list \<Rightarrow> sec_ev \<Rightarrow> int"
  real_path :: "string \<Rightarrow> string option"
  ID_MAX_SIZE :: nat
  strncpy_ok :: "nat \<Rightarrow> string \<Rightarrow> nat \<Rightarrow> bool"

definition HDF_SECURE_PATH :: string where "HDF_SECURE_PATH = ''/dev/hdf_secure''"
definition MAX_RANDOM_BYTE_LEN :: int where "MAX_RANDOM_BYTE_LEN = 8"
definition RAND_OPS_SUCCESS :: int where "RAND_OPS_SUCCESS = 1"
definition HDF_SECURE_INVALID_PERM :: u64 where "HDF_SECURE_INVALID_PERM = 0"
definition HDF_SECURE_SET_ALL_ID :: int where "HDF_SECURE_SET_ALL_ID = 0"
definition HDF_SECURE_SET_CUR_ID :: int where "HDF_SECURE_SET_CUR_ID = 1"
definition HDF_SECURE_DEL_CUR_ID :: int where "HDF_SECURE_DEL_CUR_ID = 2"
definition BITS_PER_LONG :: nat where "BITS_PER_LONG = 64"

definition BIT_MASK :: "u32 \<Rightarrow> u64" where "BIT_MASK nr = push_bit (unat nr mod BITS_PER_LONG) 1"
definition BIT_WORD :: "u32 \<Rightarrow> nat" where "BIT_WORD nr = unat nr div BITS_PER_LONG"

definition sec_call :: "'m sec_env \<Rightarrow> sec_ev \<Rightarrow> 'm sec_sys \<Rightarrow> int \<times> 'm sec_sys" where
  "sec_call E c s = ext_call (sec_api E) c s"

subsection \<open>Permissions\<close>

text \<open>The names of the permissions; an index without a name is \<open>NULL\<close>.\<close>

definition sec_names :: "string list" where
  "sec_names =
     [''i2c'', ''spi'', ''gpio'', ''pinctl'', ''clock'', ''regulator'', ''mipi'', ''uart'', ''sdio'', ''mdio'', ''apb'',
      ''pcie'', ''pcm'', ''i2s'', ''pwm'', ''dma'', ''efuse'', ''flash'', ''emmc'', ''rtc'', ''adc'', ''wdt'', ''i3c'']"

definition g_hdfSecStrArray :: "'m sec_env \<Rightarrow> nat \<Rightarrow> string option" where
  "g_hdfSecStrArray E i = map_of (rev (map (\<lambda>n. (PAL E n, n)) sec_names)) i"

definition HdfSecGetHashMap :: "'m sec_env \<Rightarrow> 'm sec_sys \<Rightarrow> 'm \<times> 'm sec_sys" where
  "HdfSecGetHashMap E s =
     (let s1 = (if map_size E (hdfHashMap s) = 0 then s\<lparr>hdfHashMap := map_new E\<rparr> else s) in (hdfHashMap s1, s1))"

definition InitStrToIndexMap :: "'m sec_env \<Rightarrow> 'm sec_sys \<Rightarrow> 'm sec_sys" where
  "InitStrToIndexMap E s =
     s\<lparr>g_indexMap := fold (\<lambda>i. map_put E (g_hdfSecStrArray E i) (of_nat i)) [0..<PAL_MAX_TYPE E] (map_new E)\<rparr>"

text \<open>The mask is one word: a bit of another word is written outside.\<close>

definition HdfSetBit :: "u32 \<Rightarrow> u64 \<Rightarrow> 'm sec_sys \<Rightarrow> u64 \<times> 'm sec_sys" where
  "HdfSetBit nr perms s =
     (if BIT_WORD nr = 0 then (perms OR BIT_MASK nr, s) else (perms, s\<lparr>h_bad := True\<rparr>))"

definition HdfGetRandom :: "'m sec_env \<Rightarrow> int \<Rightarrow> 'm sec_sys \<Rightarrow> ret \<times> 'm sec_sys" where
  "HdfGetRandom E numBytes s =
     (case sec_call E (RandBytes numBytes) s of (r, s1) \<Rightarrow>
        (if r \<noteq> RAND_OPS_SUCCESS then HDF_FAILURE else HDF_SUCCESS, s1))"

definition HdfCalculatePerms :: "'m sec_env \<Rightarrow> string option \<Rightarrow> u64 \<Rightarrow> 'm sec_sys \<Rightarrow> u64 \<times> 'm sec_sys" where
  "HdfCalculatePerms E permStr perms s =
     (case map_get E (g_indexMap s) permStr of None \<Rightarrow> (perms, s) | Some i \<Rightarrow> HdfSetBit i perms s)"

text \<open>
  The loops over the permissions of a device, the devices of a driver and the drivers of a host. The
  string that was read last and the mask are carried along: a read that fails leaves the string as it was.
\<close>

fun device_perms ::
  "'m sec_env \<Rightarrow> (nat \<Rightarrow> string option) \<Rightarrow> nat list \<Rightarrow> string option \<times> u64 \<times> 'm sec_sys \<Rightarrow> string option \<times> u64 \<times> 'm sec_sys" where
  "device_perms E elem [] v = v"
| "device_perms E elem (i # is) (permStr, perms, s) =
     (let str = (case elem i of None \<Rightarrow> permStr | Some x \<Rightarrow> Some x) in
      device_perms E elem is (str, HdfCalculatePerms E str perms s))"

definition host_perms ::
  "'m sec_env \<Rightarrow> sec_device list list \<Rightarrow> string option \<times> u64 \<times> 'm sec_sys \<Rightarrow> string option \<times> u64 \<times> 'm sec_sys" where
  "host_perms E drivers v =
     fold (\<lambda>driverRoot. fold (\<lambda>deviceRoot.
       device_perms E (perm_elem deviceRoot) [0..<nat (permNums deviceRoot)]) driverRoot) drivers v"

subsection \<open>The kernel's table\<close>

definition HdfSecCheckParameters :: "'m sec_env \<Rightarrow> string option \<Rightarrow> ret" where
  "HdfSecCheckParameters E i =
     (case i of None \<Rightarrow> HDF_FAILURE
      | Some str \<Rightarrow> if (of_nat (length str) :: u32) \<ge> of_nat (ID_MAX_SIZE E - 1) then HDF_FAILURE else HDF_SUCCESS)"

definition HdfUpdateSecurityId :: "'m sec_env \<Rightarrow> string option \<Rightarrow> u64 \<Rightarrow> int \<Rightarrow> 'm sec_sys \<Rightarrow> ret \<times> 'm sec_sys" where
  "HdfUpdateSecurityId E i perms isSetCurrentSecId s =
     (if HdfSecCheckParameters E i \<noteq> HDF_SUCCESS then (HDF_FAILURE, s)
      else if \<not> strncpy_ok E (ID_MAX_SIZE E) (the i) (ID_MAX_SIZE E - 1) then (HDF_FAILURE, s)
      else
        (case real_path E HDF_SECURE_PATH of
           None \<Rightarrow> (HDF_FAILURE, s)
         | Some path \<Rightarrow>
             (case sec_call E (OpenFile path) s of (fd, s2) \<Rightarrow>
                if fd < 0 then (HDF_FAILURE, s2)
                else
                  let cmd = (if isSetCurrentSecId = 0 then HDF_SECURE_SET_INFO
                             else if isSetCurrentSecId = 1 then HDF_SECURE_SET_CURRENT_ID
                             else HDF_SECURE_DELETE_INFO) in
                  (case sec_call E (Ioctl fd cmd (the i) perms) s2 of (ret, s3) \<Rightarrow>
                     (if ret \<noteq> 0 then HDF_FAILURE else HDF_SUCCESS, snd (sec_call E (CloseFile fd) s3))))))"

definition HdfRegisterSecurityId :: "'m sec_env \<Rightarrow> string option \<Rightarrow> u64 \<Rightarrow> 'm sec_sys \<Rightarrow> ret \<times> 'm sec_sys" where
  "HdfRegisterSecurityId E i perm s = HdfUpdateSecurityId E i perm HDF_SECURE_SET_ALL_ID s"

text \<open>A host is \<open>NULL\<close> or has its drivers and, when it can be read, its name. The status of the registration is only logged.\<close>

definition HdfRegisterAllDevSecId ::
  "'m sec_env \<Rightarrow> (sec_device list list \<times> string option) option \<Rightarrow> 'm sec_sys \<Rightarrow> ret \<times> 'm sec_sys" where
  "HdfRegisterAllDevSecId E hostRoot s =
     (case hostRoot of None \<Rightarrow> (HDF_FAILURE, s) | Some (drivers, hostName) \<Rightarrow>
       (case HdfGetRandom E MAX_RANDOM_BYTE_LEN s of (r, s1) \<Rightarrow>
          if r \<noteq> HDF_SUCCESS then (HDF_FAILURE, s1)
          else
            (case host_perms E drivers (None, HDF_SECURE_INVALID_PERM, InitStrToIndexMap E s1) of (_, perms, s2) \<Rightarrow>
               (HDF_SUCCESS,
                if perms \<noteq> HDF_SECURE_INVALID_PERM then snd (HdfRegisterSecurityId E hostName perms s2) else s2))))"

definition HdfSetCurrentHostSecurity :: "'m sec_env \<Rightarrow> string option \<Rightarrow> 32 word \<Rightarrow> 'm sec_sys \<Rightarrow> ret \<times> 'm sec_sys" where
  "HdfSetCurrentHostSecurity E hostName procId s =
     HdfUpdateSecurityId E hostName (scast procId) HDF_SECURE_SET_CUR_ID s"

definition HdfDelSecurity :: "'m sec_env \<Rightarrow> string option \<Rightarrow> 'm sec_sys \<Rightarrow> 'm sec_sys" where
  "HdfDelSecurity E hostName s =
     (if hostName = None then s else snd (HdfUpdateSecurityId E hostName 0 HDF_SECURE_DEL_CUR_ID s))"

end
