(* ===== verification/Hdf_Security_Facts.thy ===== *)
theory Hdf_Security_Facts
  imports Hdf_Security
begin

text \<open>
  The mask the kernel is given for a host has exactly the bits of the permissions that the devices of the
  host ask for and that have a name.
\<close>

subsection \<open>Outside code\<close>

text \<open>A map holds what was put in last; there is nothing under \<open>NULL\<close>.\<close>

definition map_contract :: "'m sec_env \<Rightarrow> bool" where
  "map_contract E \<longleftrightarrow>
     (\<forall>k. map_get E (map_new E) k = None) \<and> (\<forall>v m. map_put E None v m = m) \<and> (\<forall>m. map_get E m None = None) \<and>
     (\<forall>n v m k. map_get E (map_put E (Some n) v m) (Some k) = (if k = n then Some v else map_get E m (Some k)))"

text \<open>The permissions have different numbers, all of them bits of a word.\<close>

definition pal_ok :: "'m sec_env \<Rightarrow> bool" where
  "pal_ok E \<longleftrightarrow> inj_on (PAL E) (set sec_names) \<and> (\<forall>n\<in>set sec_names. PAL E n < PAL_MAX_TYPE E) \<and> PAL_MAX_TYPE E \<le> 64"

text \<open>The device of the kernel can be opened, and the name of the host fits.\<close>

definition secure_opens :: "'m sec_env \<Rightarrow> string \<Rightarrow> string \<Rightarrow> bool" where
  "secure_opens E n path \<longleftrightarrow>
     HdfSecCheckParameters E (Some n) = HDF_SUCCESS \<and> strncpy_ok E (ID_MAX_SIZE E) n (ID_MAX_SIZE E - 1) \<and>
     real_path E HDF_SECURE_PATH = Some path \<and> (\<forall>tr. 0 \<le> sec_api E tr (OpenFile path))"

subsection \<open>The map of names\<close>

lemma distinct_names: "distinct sec_names"
  by (simp add: sec_names_def)

lemma str_array:
  assumes "pal_ok E"
  shows "g_hdfSecStrArray E i = Some n \<longleftrightarrow> n \<in> set sec_names \<and> PAL E n = i"
proof -
  have "map fst (rev (map (\<lambda>n. (PAL E n, n)) sec_names)) = rev (map (PAL E) sec_names)"
    by (simp add: rev_map comp_def)
  then have "distinct (map fst (rev (map (\<lambda>n. (PAL E n, n)) sec_names)))"
    using assms distinct_names by (simp only: distinct_rev) (simp add: pal_ok_def distinct_map)
  from map_of_eq_Some_iff [OF this] show ?thesis
    by (auto simp: g_hdfSecStrArray_def)
qed

lemma index_prefix:
  assumes "map_contract E" and "pal_ok E" and "N \<le> 64"
  shows "map_get E (fold (\<lambda>i. map_put E (g_hdfSecStrArray E i) (of_nat i)) [0..<N] (map_new E)) (Some n) =
    (if n \<in> set sec_names \<and> PAL E n < N then Some (of_nat (PAL E n)) else None)"
  using assms(3)
proof (induction N)
  case 0
  then show ?case
    using assms(1) by (simp add: map_contract_def)
next
  case (Suc N)
  show ?case
  proof (cases "g_hdfSecStrArray E N")
    case None
    then have "\<not> (n \<in> set sec_names \<and> PAL E n = N)"
      using str_array [OF assms(2), of N n] by simp
    then show ?thesis
      using Suc None assms(1) by (auto simp: map_contract_def less_Suc_eq)
  next
    case (Some k)
    then have "k \<in> set sec_names" "PAL E k = N"
      using str_array [OF assms(2)] by blast+
    then show ?thesis
      using Suc Some assms(1,2) by (auto simp: map_contract_def less_Suc_eq pal_ok_def inj_on_def)
  qed
qed

lemma index_map:
  assumes "map_contract E" and "pal_ok E"
  shows "map_get E (g_indexMap (InitStrToIndexMap E s)) (Some n) =
    (if n \<in> set sec_names then Some (of_nat (PAL E n)) else None)"
  using index_prefix [OF assms, of "PAL_MAX_TYPE E" n] assms(2)
  by (auto simp: InitStrToIndexMap_def pal_ok_def)

subsection \<open>The mask\<close>

text \<open>The mask has the bits of a set of names, and the string read last is one of them.\<close>

definition mask_of :: "'m sec_env \<Rightarrow> 'm sec_sys \<Rightarrow> string set \<Rightarrow> string option \<times> u64 \<times> 'm sec_sys \<Rightarrow> bool" where
  "mask_of E s S v \<longleftrightarrow>
     snd (snd v) = s \<and> (fst v = None \<or> the (fst v) \<in> S) \<and>
     (\<forall>k. bit (fst (snd v)) k \<longleftrightarrow> (\<exists>n\<in>S. n \<in> set sec_names \<and> PAL E n = k))"

text \<open>The map of names is in place.\<close>

definition names_ready :: "'m sec_env \<Rightarrow> 'm sec_sys \<Rightarrow> bool" where
  "names_ready E s \<longleftrightarrow> map_contract E \<and> pal_ok E \<and>
     (\<forall>n. map_get E (g_indexMap s) (Some n) = (if n \<in> set sec_names then Some (of_nat (PAL E n)) else None))"

lemma perms_step:
  assumes "names_ready E s" and "mask_of E s S (str, perms, s)"
  shows "mask_of E s (insert n S) (Some n, HdfCalculatePerms E (Some n) perms s)"
proof (cases "n \<in> set sec_names")
  case True
  then have p: "PAL E n < 64"
    using assms(1) by (auto simp: names_ready_def pal_ok_def)
  then have u: "unat (of_nat (PAL E n) :: u32) = PAL E n"
    by (simp add: unat_of_nat)
  have "HdfCalculatePerms E (Some n) perms s = (perms OR push_bit (PAL E n) 1, s)"
    using assms(1) True p u
    by (simp add: HdfCalculatePerms_def names_ready_def HdfSetBit_def BIT_WORD_def BIT_MASK_def BITS_PER_LONG_def)
  then show ?thesis
    using assms(2) True p by (auto simp: mask_of_def bit_or_iff bit_exp_iff possible_bit_def)
next
  case False
  then show ?thesis
    using assms by (auto simp: HdfCalculatePerms_def names_ready_def mask_of_def)
qed

lemma perms_repeat:
  assumes "names_ready E s" and "mask_of E s S (str, perms, s)"
  shows "mask_of E s S (str, HdfCalculatePerms E str perms s)"
proof (cases str)
  case None
  then show ?thesis
    using assms by (simp add: HdfCalculatePerms_def names_ready_def map_contract_def)
next
  case (Some n)
  then have "insert n S = S"
    using assms(2) by (auto simp: mask_of_def)
  then show ?thesis
    using perms_step [OF assms, of n] Some by simp
qed

lemma mask_state: "mask_of E s S (str, perms, t) \<Longrightarrow> t = s"
  by (simp add: mask_of_def)

lemma device_mask:
  assumes "names_ready E s" and "mask_of E s S v"
  shows "mask_of E s (S \<union> {n. \<exists>i\<in>set is. elem i = Some n}) (device_perms E elem is v)"
  using assms(2)
proof (induction "is" arbitrary: S v)
  case (Cons i "is")
  obtain str perms t where v: "v = (str, perms, t)"
    by (cases v)
  then have t: "t = s"
    using Cons.prems mask_state by blast
  show ?case
  proof (cases "elem i")
    case None
    then show ?thesis
      using Cons.IH [OF perms_repeat [OF assms(1)], of S str perms] Cons.prems v t by (simp add: Let_def)
  next
    case (Some n)
    have "insert n S \<union> {m. \<exists>j\<in>set is. elem j = Some m} = S \<union> {m. \<exists>j\<in>set (i # is). elem j = Some m}"
      using Some by auto
    then show ?thesis
      using Cons.IH [OF perms_step [OF assms(1)], of S str perms n] Cons.prems v t Some by (simp add: Let_def)
  qed
qed simp

text \<open>The permissions that a host asks for.\<close>

definition asked :: "sec_device list list \<Rightarrow> string set" where
  "asked drivers = {n. \<exists>d\<in>set drivers. \<exists>v\<in>set d. \<exists>i<nat (permNums v). perm_elem v i = Some n}"

lemma driver_mask:
  assumes "names_ready E s" and "mask_of E s S v"
  shows "mask_of E s (S \<union> asked [d])
    (fold (\<lambda>deviceRoot. device_perms E (perm_elem deviceRoot) [0..<nat (permNums deviceRoot)]) d v)"
  using assms(2)
proof (induction d arbitrary: S v)
  case (Cons x d)
  have "(S \<union> {n. \<exists>i\<in>set [0..<nat (permNums x)]. perm_elem x i = Some n}) \<union> asked [d] = S \<union> asked [x # d]"
    by (auto simp: asked_def)
  then show ?case
    using Cons.IH [OF device_mask [OF assms(1) Cons.prems, of "[0..<nat (permNums x)]" "perm_elem x"]] by simp
qed (simp add: asked_def)

lemma host_mask:
  assumes "names_ready E s" and "mask_of E s S v"
  shows "mask_of E s (S \<union> asked drivers) (host_perms E drivers v)"
  using assms(2) unfolding host_perms_def
proof (induction drivers arbitrary: S v)
  case (Cons d drivers)
  have "S \<union> asked [d] \<union> asked drivers = S \<union> asked (d # drivers)"
    by (auto simp: asked_def)
  then show ?case
    using Cons.IH [OF driver_mask [OF assms(1) Cons.prems, of d]] by simp
qed (simp add: asked_def)

subsection \<open>What the kernel is told\<close>

lemma sec_call_eq: "sec_call E c s = (sec_api E (ev s) c, s\<lparr>ev := ev s @ [(c, sec_api E (ev s) c)]\<rparr>)"
  by (simp add: sec_call_def ext_call_eq emit_def)

lemma update_trace:
  assumes "secure_opens E n path"
  shows "\<exists>fd\<ge>0. map fst (ev (snd (HdfUpdateSecurityId E (Some n) perms w s))) = map fst (ev s) @
    [OpenFile path,
     Ioctl fd (if w = 0 then HDF_SECURE_SET_INFO else if w = 1 then HDF_SECURE_SET_CURRENT_ID else HDF_SECURE_DELETE_INFO) n perms,
     CloseFile fd]"
  using assms by (auto simp: secure_opens_def HdfUpdateSecurityId_def sec_call_eq Let_def linorder_not_less [symmetric])

text \<open>
  When a host is registered, the kernel gets one mask with exactly the bits of the permissions its
  devices ask for and that have a name; nothing is sent when there are none, the device of the kernel is
  closed again, and whether the kernel accepts is not reported.
\<close>

text \<open>
  C24. When a host is registered, the kernel is given one mask with exactly the bits of the
  permissions that the devices of the host ask for and that have a name, nothing when there are
  none; its device is closed again, and the call succeeds whether or not the kernel accepts.
\<close>

theorem sec_host_rules:
  assumes "map_contract E" and "pal_ok E" and "secure_opens E n path"
    and "sec_api E (ev s) (RandBytes 8) = 1"
  shows "\<exists>perms fd. (\<forall>k. bit perms k \<longleftrightarrow> (\<exists>m\<in>asked drivers. m \<in> set sec_names \<and> PAL E m = k)) \<and>
    fst (HdfRegisterAllDevSecId E (Some (drivers, Some n)) s) = HDF_SUCCESS \<and>
    map fst (ev (snd (HdfRegisterAllDevSecId E (Some (drivers, Some n)) s))) = map fst (ev s) @ [RandBytes 8] @
      (if perms = 0 then [] else [OpenFile path, Ioctl fd HDF_SECURE_SET_INFO n perms, CloseFile fd])"
proof -
  let ?s1 = "InitStrToIndexMap E (s\<lparr>ev := ev s @ [(RandBytes 8, 1)]\<rparr>)"
  obtain str perms t where h: "host_perms E drivers (None, HDF_SECURE_INVALID_PERM, ?s1) = (str, perms, t)"
    by (cases "host_perms E drivers (None, HDF_SECURE_INVALID_PERM, ?s1)")
  have ready: "names_ready E ?s1"
    unfolding names_ready_def by (simp add: assms(1,2) index_map [OF assms(1,2)])
  have "mask_of E ?s1 {} (None, HDF_SECURE_INVALID_PERM, ?s1)"
    by (simp add: mask_of_def HDF_SECURE_INVALID_PERM_def)
  from host_mask [OF ready this, of drivers]
  have m: "t = ?s1" "\<forall>k. bit perms k \<longleftrightarrow> (\<exists>m\<in>asked drivers. m \<in> set sec_names \<and> PAL E m = k)"
    by (auto simp: h mask_of_def)
  obtain fd where fd: "map fst (ev (snd (HdfUpdateSecurityId E (Some n) perms 0 t))) = map fst (ev t) @
      [OpenFile path, Ioctl fd HDF_SECURE_SET_INFO n perms, CloseFile fd]"
    using update_trace [OF assms(3), of perms 0 t] by auto
  have R: "HdfRegisterAllDevSecId E (Some (drivers, Some n)) s =
    (HDF_SUCCESS, if perms = 0 then t else snd (HdfUpdateSecurityId E (Some n) perms 0 t))"
    using assms(4) h
    by (simp add: HdfRegisterAllDevSecId_def HdfGetRandom_def sec_call_eq MAX_RANDOM_BYTE_LEN_def RAND_OPS_SUCCESS_def
        HdfRegisterSecurityId_def HDF_SECURE_SET_ALL_ID_def HDF_SECURE_INVALID_PERM_def)
  have "map fst (ev t) = map fst (ev s) @ [RandBytes 8]"
    by (simp add: m(1) InitStrToIndexMap_def)
  then have "map fst (ev (snd (HdfRegisterAllDevSecId E (Some (drivers, Some n)) s))) = map fst (ev s) @ [RandBytes 8] @
      (if perms = 0 then [] else [OpenFile path, Ioctl fd HDF_SECURE_SET_INFO n perms, CloseFile fd])"
    using R fd by simp
  then show ?thesis
    using R m(2) by (intro exI [of _ perms] exI [of _ fd]) simp
qed

text \<open>The status of the registration is lost: a host whose name is too long has no rules and is reported as registered.\<close>

lemma register_status_lost:
  assumes "sec_api E (ev s) (RandBytes 8) = 1"
  shows "fst (HdfRegisterAllDevSecId E (Some (drivers, name)) s) = HDF_SUCCESS"
  using assms
  by (auto simp: HdfRegisterAllDevSecId_def HdfGetRandom_def sec_call_eq MAX_RANDOM_BYTE_LEN_def RAND_OPS_SUCCESS_def
      split: prod.split)

subsection \<open>Examples\<close>

text \<open>The numbers of the permissions are their places in the list of names; the kernel refuses every rule.\<close>

definition sec_demo_env :: "(string \<rightharpoonup> u32) sec_env" where
  "sec_demo_env = \<lparr>PAL = (\<lambda>n. length (takeWhile (\<lambda>m. m \<noteq> n) sec_names)), PAL_MAX_TYPE = 23, map_new = Map.empty,
     map_put = (\<lambda>k v m. case k of None \<Rightarrow> m | Some n \<Rightarrow> m(n \<mapsto> v)), map_get = (\<lambda>m k. Option.bind k m),
     map_size = (\<lambda>_. 0), sec_api = (\<lambda>tr c. case c of RandBytes _ \<Rightarrow> 1 | OpenFile _ \<Rightarrow> 3 | Ioctl _ _ _ _ \<Rightarrow> - 1 | _ \<Rightarrow> 0),
     real_path = Some, ID_MAX_SIZE = 256, strncpy_ok = (\<lambda>_ _ _. True)\<rparr>"

definition sec_demo :: "(string \<rightharpoonup> u32) sec_sys" where
  "sec_demo = \<lparr>h_next = 0, h_blk = Map.empty, h_bad = False, ev = [], g_indexMap = Map.empty, hdfHashMap = Map.empty\<rparr>"

text \<open>Two devices of one driver; the second permission of the first cannot be read, that of the second has no name.\<close>

definition sec_demo_host :: "sec_device list list" where
  "sec_demo_host =
     [[\<lparr>permNums = 2, perm_elem = [0 \<mapsto> ''spi'']\<rparr>, \<lparr>permNums = 1, perm_elem = [0 \<mapsto> ''usb'']\<rparr>]]"

lemma sec_demo_asked: "asked sec_demo_host = {''spi'', ''usb''}"
  by (auto simp: asked_def sec_demo_host_def)

lemma sec_demo_pal: "pal_ok sec_demo_env"
  by (simp add: pal_ok_def sec_demo_env_def sec_names_def)

lemma sec_demo_map: "map_contract sec_demo_env"
  by (auto simp: map_contract_def sec_demo_env_def)

lemma sec_demo_opens: "secure_opens sec_demo_env ''host'' HDF_SECURE_PATH"
  by (simp add: secure_opens_def sec_demo_env_def HdfSecCheckParameters_def)

lemma sec_host_rules_witness:
  "\<exists>fd. map fst (ev (snd (HdfRegisterAllDevSecId sec_demo_env (Some (sec_demo_host, Some ''host'')) sec_demo))) =
     [RandBytes 8, OpenFile HDF_SECURE_PATH, Ioctl fd HDF_SECURE_SET_INFO ''host'' 2, CloseFile fd]"
proof -
  have "sec_api sec_demo_env (ev sec_demo) (RandBytes 8) = 1"
    by (simp add: sec_demo_env_def)
  from sec_host_rules [OF sec_demo_map sec_demo_pal sec_demo_opens this, of sec_demo_host] obtain perms fd where
    k: "\<forall>k. bit perms k \<longleftrightarrow> (\<exists>m\<in>{''spi'', ''usb''}. m \<in> set sec_names \<and> PAL sec_demo_env m = k)"
    and e: "map fst (ev (snd (HdfRegisterAllDevSecId sec_demo_env (Some (sec_demo_host, Some ''host'')) sec_demo))) =
      map fst (ev sec_demo) @ [RandBytes 8] @ (if perms = 0 then []
        else [OpenFile HDF_SECURE_PATH, Ioctl fd HDF_SECURE_SET_INFO ''host'' perms, CloseFile fd])"
    unfolding sec_demo_asked by blast
  have "''spi'' \<in> set sec_names" "''usb'' \<notin> set sec_names" "PAL sec_demo_env ''spi'' = 1"
    by (simp_all add: sec_names_def sec_demo_env_def)
  then have "bit perms i \<longleftrightarrow> i = 1" for i
    using k by auto
  moreover have "bit (2 :: u64) i \<longleftrightarrow> i = 1" for i
    using bit_exp_iff [where 'a = "64 word", of 1 i] by (auto simp: possible_bit_def)
  ultimately have "bit perms i \<longleftrightarrow> bit (2 :: u64) i" for i
    by simp
  then have "perms = 2"
    by (intro bit_word_eqI) simp
  then show ?thesis
    using e by (simp add: sec_demo_def)
qed

end
