(* ===== verification/Device_Stub.thy ===== *)
theory Device_Stub
  imports Osal_Mem
begin

text \<open>
  A device in its driver host as other processes see it, \<open>uhdf2/host/src/device_service_stub.c\<close>: the node
  of the device with the remote object that is published under its name.

  The framework's node, the service manager client and IPC are outside the repository: calls are events
  and \<open>ds_api\<close> gives their status (0 is failure where a boolean or a pointer comes back). Of the fields of the
  framework's node the model has those this file reads or writes. Remote objects are numbered;
  \<open>ds_remotes\<close> are those that are live.
\<close>

datatype service_policy = SERVICE_POLICY_PUBLIC | SERVICE_POLICY_CAPACITY | SERVICE_POLICY_OTHER

record DeviceServiceStub =
  st_servName :: "string option"
  st_policy :: service_policy
  st_interfaceDesc :: "string option"
  st_deviceClass :: u32
  st_servInfo :: "string option"
  st_servStatus :: bool
  st_service :: "bool option"
  st_methods :: bool
  st_remote :: "nat option"

datatype ds_ev =
    NodeConstruct nat | NodeDestruct nat | RemoteObtain nat | SetInterfaceDesc nat string | RemoteRecycle "nat option"
  | ClntInstance | ClntAdd string u32 nat "string option" | ClntRemove "string option"
  | DriverDispatch nat int | CheckToken "nat option"

record ds_sys = "(ds_ev \<times> int) sys" +
  ds_nodes :: "nat \<Rightarrow> DeviceServiceStub option"
  ds_remotes :: "nat set"
  ds_next :: nat

record ds_env = mem_env +
  ds_api :: "(ds_ev \<times> int) list \<Rightarrow> ds_ev \<Rightarrow> int"

definition ds_call :: "ds_env \<Rightarrow> ds_ev \<Rightarrow> ds_sys \<Rightarrow> int \<times> ds_sys" where
  "ds_call E c s = ext_call (ds_api E) c s"

definition ds_do :: "ds_env \<Rightarrow> ds_ev \<Rightarrow> ds_sys \<Rightarrow> ds_sys" where
  "ds_do E c s = snd (ds_call E c s)"

definition put_node :: "nat \<Rightarrow> DeviceServiceStub \<Rightarrow> ds_sys \<Rightarrow> ds_sys" where
  "put_node p d s = s\<lparr>ds_nodes := (ds_nodes s)(p \<mapsto> d)\<rparr>"

definition with_node :: "nat \<Rightarrow> 'a \<Rightarrow> (DeviceServiceStub \<Rightarrow> 'a \<times> ds_sys) \<Rightarrow> ds_sys \<Rightarrow> 'a \<times> ds_sys" where
  "with_node p err f s = (case ds_nodes s p of None \<Rightarrow> (err, s\<lparr>h_bad := True\<rparr>) | Some d \<Rightarrow> f d)"

text \<open>The framework's remote objects: a new one for a node, and giving one back.\<close>

definition ds_obtain :: "ds_env \<Rightarrow> nat \<Rightarrow> ds_sys \<Rightarrow> nat option \<times> ds_sys" where
  "ds_obtain E p s =
     (case ds_call E (RemoteObtain p) s of (r, s1) \<Rightarrow>
        if r = 0 then (None, s1)
        else (Some (ds_next s1), s1\<lparr>ds_next := Suc (ds_next s1), ds_remotes := insert (ds_next s1) (ds_remotes s1)\<rparr>))"

definition ds_recycle :: "ds_env \<Rightarrow> nat option \<Rightarrow> ds_sys \<Rightarrow> ds_sys" where
  "ds_recycle E r s =
     (let s1 = ds_do E (RemoteRecycle r) s in
      (case r of None \<Rightarrow> s1
       | Some x \<Rightarrow> if x \<in> ds_remotes s1 then s1\<lparr>ds_remotes := ds_remotes s1 - {x}\<rparr> else s1\<lparr>h_bad := True\<rparr>))"

subsection \<open>Operations\<close>

text \<open>\<open>st_service\<close> is \<open>NULL\<close> or says whether the driver has a \<open>Dispatch\<close>.\<close>

definition DeviceServiceStubDispatch :: "ds_env \<Rightarrow> nat \<Rightarrow> int \<Rightarrow> ds_sys \<Rightarrow> ret \<times> ds_sys" where
  "DeviceServiceStubDispatch E stub code s =
     with_node stub HDF_FAILURE (\<lambda>d.
       case st_service d of
         None \<Rightarrow> (HDF_FAILURE, s)
       | Some False \<Rightarrow> (HDF_FAILURE, s)
       | Some True \<Rightarrow> (case ds_call E (DriverDispatch stub code) s of (r, s1) \<Rightarrow> (ret_of r, s1))) s"

text \<open>The steps after the remote object is there: the descriptor, the client and the registration.\<close>

definition publish_remote :: "ds_env \<Rightarrow> nat \<Rightarrow> DeviceServiceStub \<Rightarrow> nat \<Rightarrow> ds_sys \<Rightarrow> ret \<times> ds_sys" where
  "publish_remote E p d x s =
     (case (case st_interfaceDesc d of None \<Rightarrow> (1, s) | Some desc \<Rightarrow> ds_call E (SetInterfaceDesc x desc) s) of (b, s1) \<Rightarrow>
        if b = 0 then (HDF_FAILURE, s1)
        else
          (case ds_call E ClntInstance s1 of (c, s2) \<Rightarrow>
             if c = 0 then (HDF_DEV_ERR_NO_DEVICE, s2)
             else
               (case ds_call E (ClntAdd (the (st_servName d)) (st_deviceClass d) p (st_servInfo d)) s2 of (r, s3) \<Rightarrow>
                  (ret_of r, s3))))"

definition DeviceServiceStubPublishService :: "ds_env \<Rightarrow> nat \<Rightarrow> ds_sys \<Rightarrow> ret \<times> ds_sys" where
  "DeviceServiceStubPublishService E service s =
     with_node service HDF_FAILURE (\<lambda>d.
       if st_servName d = None then (HDF_ERR_INVALID_OBJECT, s)
       else if st_remote d \<noteq> None then (HDF_ERR_INVALID_OBJECT, s)
       else if st_policy d \<noteq> SERVICE_POLICY_PUBLIC \<and> st_policy d \<noteq> SERVICE_POLICY_CAPACITY then (HDF_ERR_NOT_SUPPORT, s)
       else
         (case ds_obtain E service s of
            (None, s1) \<Rightarrow> (HDF_ERR_MALLOC_FAIL, s1)
          | (Some x, s1) \<Rightarrow>
              (case publish_remote E service d x (put_node service (d\<lparr>st_remote := Some x\<rparr>) s1) of (status, s2) \<Rightarrow>
                 if status = HDF_SUCCESS
                 then (HDF_SUCCESS, put_node service (d\<lparr>st_remote := Some x, st_servStatus := True\<rparr>) s2)
                 else (status, put_node service (d\<lparr>st_remote := None\<rparr>) (ds_recycle E (Some x) s2))))) s"

definition DeviceServiceStubRemoveService :: "ds_env \<Rightarrow> nat \<Rightarrow> ds_sys \<Rightarrow> ret \<times> ds_sys" where
  "DeviceServiceStubRemoveService E deviceNode s =
     (case ds_call E ClntInstance s of (c, s1) \<Rightarrow>
        if c = 0 then (HDF_FAILURE, s1)
        else
          with_node deviceNode HDF_FAILURE (\<lambda>d.
            (HDF_SUCCESS,
             put_node deviceNode (d\<lparr>st_remote := None\<rparr>)
               (ds_recycle E (st_remote d) (ds_do E (ClntRemove (st_servName d)) s1)))) s1)"

definition DeviceServiceStubConstruct :: "ds_env \<Rightarrow> nat \<Rightarrow> ds_sys \<Rightarrow> ds_sys" where
  "DeviceServiceStubConstruct E inst s =
     (let s1 = ds_do E (NodeConstruct inst) s in
      (case ds_nodes s1 inst of None \<Rightarrow> s1\<lparr>h_bad := True\<rparr> | Some d \<Rightarrow> put_node inst (d\<lparr>st_methods := True\<rparr>) s1))"

definition zero_stub :: DeviceServiceStub where
  "zero_stub = \<lparr>st_servName = None, st_policy = SERVICE_POLICY_OTHER, st_interfaceDesc = None, st_deviceClass = 0,
     st_servInfo = None, st_servStatus = False, st_service = None, st_methods = False, st_remote = None\<rparr>"

definition DeviceServiceStubCreate :: "ds_env \<Rightarrow> ds_sys \<Rightarrow> nat option \<times> ds_sys" where
  "DeviceServiceStubCreate E s =
     (case OsalMemCalloc E (Objs ''DeviceServiceStub'' 1) s of
        (None, s1) \<Rightarrow> (None, s1)
      | (Some p, s1) \<Rightarrow> (Some p, DeviceServiceStubConstruct E p (put_node p zero_stub s1)))"

definition DeviceServiceStubRelease :: "ds_env \<Rightarrow> nat option \<Rightarrow> ds_sys \<Rightarrow> ds_sys" where
  "DeviceServiceStubRelease E object s =
     (case object of None \<Rightarrow> s | Some p \<Rightarrow>
       snd (with_node p () (\<lambda>d.
         let s1 = (if st_remote d \<noteq> None
                   then put_node p (d\<lparr>st_remote := None\<rparr>) (ds_recycle E (st_remote d) s) else s);
             s2 = ds_do E (NodeDestruct p) s1
         in ((), (OsalMemFree (Some p) s2)\<lparr>ds_nodes := (ds_nodes s2)(p := None)\<rparr>)) s))"

text \<open>A device is \<open>NULL\<close> or a node; the second argument says whether there is a request.\<close>

definition HdfDeviceObjectCheckInterfaceDesc :: "ds_env \<Rightarrow> nat option \<Rightarrow> bool \<Rightarrow> ds_sys \<Rightarrow> bool \<times> ds_sys" where
  "HdfDeviceObjectCheckInterfaceDesc E dev data s =
     (case dev of None \<Rightarrow> (False, s) | Some p \<Rightarrow>
        if \<not> data then (False, s)
        else with_node p False (\<lambda>d. case ds_call E (CheckToken (st_remote d)) s of (r, s1) \<Rightarrow> (r \<noteq> 0, s1)) s)"

end
