(* ===== verification/Device_Stub_Facts.thy ===== *)
theory Device_Stub_Facts
  imports Device_Stub
begin

text \<open>
  A device never has more than the one remote object under which it is published: whatever is done with
  it and whatever fails, creating and releasing it gives everything back.
\<close>

lemma ds_call_eq: "ds_call E c s = (ds_api E (ev s) c, s\<lparr>ev := ev s @ [(c, ds_api E (ev s) c)]\<rparr>)"
  by (simp add: ds_call_def ext_call_eq emit_def)

lemma ds_do_eq: "ds_do E c s = s\<lparr>ev := ev s @ [(c, ds_api E (ev s) c)]\<rparr>"
  by (simp add: ds_do_def ds_call_eq)

text \<open>Node \<open>p\<close> holds at most one remote object, on top of the objects \<open>R\<close> and the heap \<open>b\<close> of others.\<close>

definition node_ok :: "nat \<Rightarrow> nat set \<Rightarrow> (nat \<Rightarrow> u8 list option) \<Rightarrow> ds_sys \<Rightarrow> bool" where
  "node_ok p R b s \<longleftrightarrow>
     \<not> h_bad s \<and> h_blk s = b(p \<mapsto> []) \<and> (\<forall>x\<in>R. x < ds_next s) \<and>
     (\<exists>d. ds_nodes s p = Some d \<and> ds_remotes s = R \<union> set_option (st_remote d) \<and>
        (\<forall>x. st_remote d = Some x \<longrightarrow> x \<notin> R \<and> x < ds_next s))"

text \<open>Calls outside leave all of that alone.\<close>

definition ds_frame :: "ds_sys \<Rightarrow> ds_sys \<Rightarrow> bool" where
  "ds_frame s s' \<longleftrightarrow>
     h_bad s' = h_bad s \<and> h_blk s' = h_blk s \<and> ds_nodes s' = ds_nodes s \<and> ds_remotes s' = ds_remotes s \<and> ds_next s' = ds_next s"

lemma publish_frame: "publish_remote E p d x s = (r, s') \<Longrightarrow> ds_frame s s'"
  by (auto simp: publish_remote_def ds_call_eq ds_frame_def split: option.splits if_splits)

lemma publish_ok:
  assumes "node_ok p R b s" and "DeviceServiceStubPublishService E p s = (r, s')"
  shows "node_ok p R b s' \<and>
    (\<exists>d d'. ds_nodes s p = Some d \<and> ds_nodes s' p = Some d' \<and>
       (if r = HDF_SUCCESS then st_remote d = None \<and> st_remote d' \<noteq> None \<and> st_servStatus d' \<and> st_servName d \<noteq> None
        else d' = d))"
proof -
  obtain d where d: "ds_nodes s p = Some d" "ds_remotes s = R \<union> set_option (st_remote d)"
    "\<forall>x. st_remote d = Some x \<longrightarrow> x \<notin> R \<and> x < ds_next s"
    and ok: "\<not> h_bad s" "h_blk s = b(p \<mapsto> [])" "\<forall>x\<in>R. x < ds_next s"
    using assms(1) by (auto simp: node_ok_def)
  show ?thesis
  proof (cases "st_servName d = None \<or> st_remote d \<noteq> None \<or> (st_policy d \<noteq> SERVICE_POLICY_PUBLIC \<and> st_policy d \<noteq> SERVICE_POLICY_CAPACITY)")
    case True
    then have "s' = s \<and> r \<noteq> HDF_SUCCESS"
      using assms(2) d(1) by (auto simp: DeviceServiceStubPublishService_def with_node_def split: if_splits)
    then show ?thesis
      using assms(1) d(1) by auto
  next
    case False
    obtain m s1 where o: "ds_obtain E p s = (m, s1)"
      by force
    show ?thesis
    proof (cases m)
      case None
      then have "s' = s1 \<and> r \<noteq> HDF_SUCCESS \<and> ds_frame s s1"
        using assms(2) d(1) False o
        by (auto simp: DeviceServiceStubPublishService_def with_node_def ds_obtain_def ds_call_eq ds_frame_def
            split: if_splits)
      then show ?thesis
        using d ok by (auto simp: node_ok_def ds_frame_def)
    next
      case (Some x)
      have s1: "x = ds_next s" "ds_next s1 = Suc x" "ds_remotes s1 = insert x R" "h_bad s1 = h_bad s" "h_blk s1 = h_blk s"
        "ds_nodes s1 = ds_nodes s"
        using o Some d False by (auto simp: ds_obtain_def ds_call_eq split: if_splits)
      then have fresh: "x \<notin> R" "\<forall>y\<in>R. y < Suc x"
        using ok(3) by auto
      let ?t = "put_node p (d\<lparr>st_remote := Some x\<rparr>) s1"
      obtain q s2 where q: "publish_remote E p d x ?t = (q, s2)"
        by force
      note f = publish_frame [OF q, unfolded ds_frame_def]
      have R: "(r, s') = (if q = HDF_SUCCESS then (HDF_SUCCESS, put_node p (d\<lparr>st_remote := Some x, st_servStatus := True\<rparr>) s2)
        else (q, put_node p (d\<lparr>st_remote := None\<rparr>) (ds_recycle E (Some x) s2)))"
        using assms(2) d(1) False o Some q by (auto simp: DeviceServiceStubPublishService_def with_node_def)
      show ?thesis
      proof (cases "q = HDF_SUCCESS")
        case True
        then show ?thesis
          using R f s1 fresh ok d False by (auto simp: node_ok_def put_node_def)
      next
        case no: False
        have "d\<lparr>st_remote := None\<rparr> = d"
          using False by simp
        then show ?thesis
          using R f s1 fresh ok d False no
          by (auto simp: node_ok_def put_node_def ds_recycle_def ds_do_eq Let_def less_Suc_eq)
      qed
    qed
  qed
qed

lemma remove_ok: "node_ok p R b s \<Longrightarrow> node_ok p R b (snd (DeviceServiceStubRemoveService E p s))"
  by (auto simp: node_ok_def DeviceServiceStubRemoveService_def with_node_def put_node_def ds_recycle_def
      ds_call_eq ds_do_eq Let_def split: option.splits)

lemma dispatch_ok: "node_ok p R b s \<Longrightarrow> node_ok p R b (snd (DeviceServiceStubDispatch E p c s))"
  by (auto simp: node_ok_def DeviceServiceStubDispatch_def with_node_def ds_call_eq split: option.splits bool.splits)

text \<open>What happens to a device: the framework fills in its node, and the operations are called.\<close>

datatype stub_op =
    Setup "string option" service_policy "string option" u32 "string option" "bool option"
  | Publish | Remove | Request int

fun stub_step :: "ds_env \<Rightarrow> nat \<Rightarrow> stub_op \<Rightarrow> ds_sys \<Rightarrow> ds_sys" where
  "stub_step E p (Setup n po de cl info sv) s =
     s\<lparr>ds_nodes := (ds_nodes s)(p := map_option (\<lambda>d. d\<lparr>st_servName := n, st_policy := po, st_interfaceDesc := de,
        st_deviceClass := cl, st_servInfo := info, st_service := sv\<rparr>) (ds_nodes s p))\<rparr>"
| "stub_step E p Publish s = snd (DeviceServiceStubPublishService E p s)"
| "stub_step E p Remove s = snd (DeviceServiceStubRemoveService E p s)"
| "stub_step E p (Request c) s = snd (DeviceServiceStubDispatch E p c s)"

lemma stub_step_ok: "node_ok p R b s \<Longrightarrow> node_ok p R b (stub_step E p a s)"
proof (cases a)
  case Publish
  assume "node_ok p R b s"
  then show ?thesis
    using publish_ok [of p R b s E "fst (DeviceServiceStubPublishService E p s)" "snd (DeviceServiceStubPublishService E p s)"] Publish
    by simp
next
  case (Setup n po de cl info sv)
  assume "node_ok p R b s"
  then show ?thesis
    by (auto simp: Setup node_ok_def)
qed (simp_all add: remove_ok dispatch_ok)

lemma create_ok:
  assumes "DeviceServiceStubCreate E s = (Some p, s')" and "\<not> h_bad s" and "\<forall>x\<in>ds_remotes s. x < ds_next s"
  shows "node_ok p (ds_remotes s) (h_blk s) s' \<and> p = h_next s"
  using assms
  by (auto simp: DeviceServiceStubCreate_def OsalMemCalloc_obj DeviceServiceStubConstruct_def put_node_def ds_do_eq zero_stub_def
      node_ok_def Let_def split: if_splits)

lemma release_ok:
  assumes "node_ok p R b s" and "b p = None"
  shows "\<not> h_bad (DeviceServiceStubRelease E (Some p) s) \<and> h_blk (DeviceServiceStubRelease E (Some p) s) = b \<and>
    ds_remotes (DeviceServiceStubRelease E (Some p) s) = R"
proof -
  obtain d where d: "ds_nodes s p = Some d" "ds_remotes s = R \<union> set_option (st_remote d)"
    "\<forall>x. st_remote d = Some x \<longrightarrow> x \<notin> R \<and> x < ds_next s" and ok: "\<not> h_bad s" "h_blk s = b(p \<mapsto> [])"
    using assms(1) by (auto simp: node_ok_def)
  show ?thesis
    using d ok assms(2)
    by (cases "st_remote d")
      (simp_all add: DeviceServiceStubRelease_def with_node_def put_node_def ds_recycle_def ds_do_eq Let_def
        OsalMemFree_live fun_upd_idem)
qed

text \<open>
  A device that is created, used in any way, with any failures of the service manager, of IPC and of the
  driver, and released gives back its node and every remote object, and nothing is given back twice.
\<close>

text \<open>
  C25. A device node that is created, filled in, published, called and removed in any order,
  with any failures of the service manager, of IPC and of the driver, and released gives back
  its memory and every remote object it was published with, and gives nothing back twice.
\<close>

theorem dev_stub_lifecycle:
  assumes "DeviceServiceStubCreate E s = (Some p, s1)" and "\<not> h_bad s" and "heap_ok s"
    and "\<forall>x\<in>ds_remotes s. x < ds_next s" and "s' = DeviceServiceStubRelease E (Some p) (fold (stub_step E p) ops s1)"
  shows "\<not> h_bad s' \<and> h_blk s' = h_blk s \<and> ds_remotes s' = ds_remotes s"
proof -
  have 1: "node_ok p (ds_remotes s) (h_blk s) s1" "p = h_next s"
    using create_ok [OF assms(1,2,4)] by auto
  have "node_ok p (ds_remotes s) (h_blk s) (fold (stub_step E p) ops s1)"
    using 1(1) by (induction ops arbitrary: s1) (simp_all add: stub_step_ok)
  from release_ok [OF this] show ?thesis
    using 1(2) heap_ok_fresh [OF assms(3)] assms(5) by simp
qed

text \<open>A removed service keeps the status of a published one.\<close>

lemma removed_keeps_status:
  assumes "ds_nodes s p = Some d" and "st_servStatus d"
  shows "\<exists>d'. ds_nodes (snd (DeviceServiceStubRemoveService E p s)) p = Some d' \<and> st_servStatus d'"
  using assms
  by (auto simp: DeviceServiceStubRemoveService_def with_node_def put_node_def ds_recycle_def ds_call_eq ds_do_eq
      Let_def split: option.splits)

subsection \<open>Example\<close>

text \<open>A service manager that is there and refuses the service.\<close>

definition ds_demo_env :: ds_env where
  "ds_demo_env = \<lparr>mem_ok = (\<lambda>_ _. True), mem_junk = (\<lambda>_ _. 0), copy_ok = (\<lambda>_ _. True),
     ds_api = (\<lambda>tr c. case c of ClntAdd _ _ _ _ \<Rightarrow> - 1 | _ \<Rightarrow> 1)\<rparr>"

definition ds_demo :: ds_sys where
  "ds_demo = \<lparr>h_next = 0, h_blk = Map.empty, h_bad = False, ev = [], ds_nodes = Map.empty, ds_remotes = {}, ds_next = 0\<rparr>"

definition ds_demo_ops :: "stub_op list" where
  "ds_demo_ops = [Setup (Some ''dev'') SERVICE_POLICY_PUBLIC None 0 None (Some True), Publish, Request 4, Remove, Publish]"

lemma dev_stub_lifecycle_witness:
  "(RemoteRecycle (Some 0), 1) \<in> set (ev (fold (stub_step ds_demo_env 0) ds_demo_ops (snd (DeviceServiceStubCreate ds_demo_env ds_demo)))) \<and>
   ds_remotes (DeviceServiceStubRelease ds_demo_env (Some 0)
     (fold (stub_step ds_demo_env 0) ds_demo_ops (snd (DeviceServiceStubCreate ds_demo_env ds_demo)))) = {}"
proof -
  have c: "DeviceServiceStubCreate ds_demo_env ds_demo = (Some 0, snd (DeviceServiceStubCreate ds_demo_env ds_demo))"
    by (simp add: DeviceServiceStubCreate_def OsalMemCalloc_obj ds_demo_env_def ds_demo_def)
  have "(RemoteRecycle (Some 0), 1) \<in> set (ev (fold (stub_step ds_demo_env 0) ds_demo_ops (snd (DeviceServiceStubCreate ds_demo_env ds_demo))))"
    by (simp add: ds_demo_ops_def DeviceServiceStubCreate_def OsalMemCalloc_obj DeviceServiceStubConstruct_def put_node_def
        ds_do_eq ds_call_eq zero_stub_def DeviceServiceStubPublishService_def DeviceServiceStubRemoveService_def
        DeviceServiceStubDispatch_def with_node_def ds_obtain_def ds_recycle_def publish_remote_def
        Let_def ds_demo_env_def ds_demo_def)
  then show ?thesis
    using dev_stub_lifecycle [OF c _ _ _ refl, of ds_demo_ops] by (simp add: ds_demo_def heap_ok_def)
qed

end
