(* ===== verification/Mmc_Block.thy ===== *)
theory Mmc_Block
  imports Osal_Mem
begin

text \<open>
  The block devices: those on MMC and SD cards (\<open>khdf/liteos/model/storage/src/mmc/mmc_block_lite.c\<close>), with
  the table of disks, and those on flash (\<open>src/mtd/mtd_block_lite.c\<close>), whose operations do nothing.

  The MMC core, the disks of the kernel and its file system are outside the repository: calls are events and
  \<open>bk_api\<close> gives their status or, for disk numbers, the number; \<open>bk_disk\<close> says which disk the kernel has
  under a number. A vnode is \<open>None\<close> when it is \<open>NULL\<close>, \<open>Some None\<close> when its data is, and \<open>Some (Some p)\<close> when
  the private part of its data is the pointer \<open>p\<close>. \<open>bk_blocks\<close> and \<open>bk_mmcs\<close> are the objects of the core.
\<close>

record MmcBlock =
  mb_name :: string
  mb_capacity :: u32
  mb_secSize :: u32
  mb_errCnt :: u32
  mb_removable :: bool
  mb_mmc :: "nat option"
  mb_osData :: "nat option"

record MmcDevice =
  md_sd :: bool
  md_auSize :: u32
  md_mb :: "nat option"

record RtDeviceBlkGeometry =
  sectorCount :: u32
  bytesPerSector :: u32
  blockSize :: u32

record geometry =
  geo_available :: bool
  geo_mediachanged :: bool
  geo_writeenabled :: bool
  geo_nsectors :: u32
  geo_sectorsize :: u32

datatype blk_ops = GBlockOps | LiteosNandOps | LiteosSpinorOps

datatype blk_out = OutGeometry RtDeviceBlkGeometry | OutInt u32

datatype blk_ev =
    MmcDeviceRead "nat option" u32 u32 u32 | MmcDeviceWrite "nat option" u32 u32 u32 | MmcDeviceErase nat u32 u32
  | MmcDeviceIsPresent "nat option" | CopyOut u32 blk_out
  | DiskAlloc string | DiskInit string blk_ops nat int "u32 option" | DiskIdByName string | DiskDeinit int
  | RegisterBlock string blk_ops nat nat

record blk_sys = "(blk_ev \<times> int) sys" +
  bk_blocks :: "nat \<Rightarrow> MmcBlock option"
  bk_mmcs :: "nat \<Rightarrow> MmcDevice option"
  g_emmcInfo :: u32
  g_diskIdTable :: "nat option list"

record blk_env =
  bk_api :: "(blk_ev \<times> int) list \<Rightarrow> blk_ev \<Rightarrow> int"
  bk_disk :: "(blk_ev \<times> int) list \<Rightarrow> int \<Rightarrow> nat option"
  SYS_MAX_DISK :: nat

type_synonym vnode = "nat option option option"

definition RT_BLOCK_SIZE :: u32 where "RT_BLOCK_SIZE = 512"
definition MTD_LITE_BLOCK_DRV_MODE :: nat where "MTD_LITE_BLOCK_DRV_MODE = 493"

definition bk_call :: "blk_env \<Rightarrow> blk_ev \<Rightarrow> blk_sys \<Rightarrow> int \<times> blk_sys" where
  "bk_call E c s = ext_call (bk_api E) c s"

definition bk_bad :: "blk_sys \<Rightarrow> blk_sys" where
  "bk_bad s = s\<lparr>h_bad := True\<rparr>"

text \<open>The vnode and its data are tested by every operation.\<close>

definition with_vnode :: "vnode \<Rightarrow> (nat option \<Rightarrow> ret \<times> 'a) \<Rightarrow> 'a \<Rightarrow> ret \<times> 'a" where
  "with_vnode v f s = (case v of Some (Some mb) \<Rightarrow> f mb | _ \<Rightarrow> (HDF_ERR_INVALID_PARAM, s))"

text \<open>A block that is looked into.\<close>

definition with_mb :: "nat option \<Rightarrow> (MmcBlock \<Rightarrow> ret \<times> blk_sys) \<Rightarrow> blk_sys \<Rightarrow> ret \<times> blk_sys" where
  "with_mb mb f s = (case Option.bind mb (bk_blocks s) of None \<Rightarrow> (HDF_FAILURE, bk_bad s) | Some b \<Rightarrow> f b)"

subsection \<open>Operations on a disk\<close>

definition StorageBlockGetEmmc :: "blk_sys \<Rightarrow> u32" where "StorageBlockGetEmmc s = g_emmcInfo s"

definition StorageBlockGetEmmcNodeName :: "nat option \<Rightarrow> blk_sys \<Rightarrow> string option \<times> blk_sys" where
  "StorageBlockGetEmmcNodeName block s =
     (case block of None \<Rightarrow> (None, s) | Some p \<Rightarrow>
       (case bk_blocks s p of None \<Rightarrow> (None, bk_bad s) | Some b \<Rightarrow> (Some (mb_name b), s)))"

definition LiteosBlockOpen :: "vnode \<Rightarrow> int" where "LiteosBlockOpen v = 0"
definition LiteosBlockClose :: "vnode \<Rightarrow> int" where "LiteosBlockClose v = 0"

text \<open>\<open>size_t\<close> has 32 bits; \<open>max\<close> is its largest value.\<close>

definition LiteosBlockRead :: "blk_env \<Rightarrow> vnode \<Rightarrow> u32 \<Rightarrow> u64 \<Rightarrow> u32 \<Rightarrow> blk_sys \<Rightarrow> ret \<times> blk_sys" where
  "LiteosBlockRead E v buf secStart nSecs s =
     with_vnode v (\<lambda>mb.
       let max_size = (- 1 :: u32) in
       if secStart \<ge> ucast max_size \<or> nSecs \<ge> max_size then (HDF_ERR_INVALID_PARAM, s)
       else if mb = None then (HDF_ERR_INVALID_OBJECT, s)
       else with_mb mb (\<lambda>b. case bk_call E (MmcDeviceRead (mb_mmc b) buf (ucast secStart) nSecs) s of
              (r, s1) \<Rightarrow> (ret_of r, s1)) s) s"

definition LiteosBlockWrite :: "blk_env \<Rightarrow> vnode \<Rightarrow> u32 \<Rightarrow> u64 \<Rightarrow> u32 \<Rightarrow> blk_sys \<Rightarrow> ret \<times> blk_sys" where
  "LiteosBlockWrite E v buf secStart nSecs s =
     with_vnode v (\<lambda>mb.
       let max_size = (- 1 :: u32) in
       if secStart \<ge> ucast max_size \<or> nSecs \<ge> max_size then (HDF_ERR_INVALID_PARAM, s)
       else if mb = None then (HDF_ERR_INVALID_OBJECT, s)
       else with_mb mb (\<lambda>b. case bk_call E (MmcDeviceWrite (mb_mmc b) buf (ucast secStart) nSecs) s of
              (r, s1) \<Rightarrow> (ret_of r, s1)) s) s"

text \<open>The geometry is stored when there is room for it.\<close>

definition LiteosBlockGeometry :: "vnode \<Rightarrow> bool \<Rightarrow> blk_sys \<Rightarrow> ret \<times> blk_sys \<times> geometry option" where
  "LiteosBlockGeometry v room s =
     with_vnode v (\<lambda>mb.
       if mb = None then (HDF_ERR_INVALID_OBJECT, s, None)
       else if \<not> room then (HDF_ERR_INVALID_PARAM, s, None)
       else
         (case Option.bind mb (bk_blocks s) of None \<Rightarrow> (HDF_FAILURE, bk_bad s, None)
          | Some b \<Rightarrow>
              (HDF_SUCCESS, s,
               Some \<lparr>geo_available = True, geo_mediachanged = False, geo_writeenabled = True,
                     geo_nsectors = mb_capacity b, geo_sectorsize = mb_secSize b\<rparr>))) (s, None)"

definition copy_out :: "blk_env \<Rightarrow> u32 \<Rightarrow> blk_out \<Rightarrow> blk_sys \<Rightarrow> ret \<times> blk_sys" where
  "copy_out E arg x s =
     (case bk_call E (CopyOut arg x) s of (r, s1) \<Rightarrow> (if r \<noteq> 0 then HDF_ERR_IO else HDF_SUCCESS, s1))"

definition LiteosBlockSaveGeometry :: "blk_env \<Rightarrow> vnode \<Rightarrow> u32 \<Rightarrow> blk_sys \<Rightarrow> ret \<times> blk_sys" where
  "LiteosBlockSaveGeometry E v arg s =
     with_vnode v (\<lambda>_.
       case LiteosBlockGeometry v True s of (r, s1, gm) \<Rightarrow>
         if r \<noteq> HDF_SUCCESS then (r, s1)
         else copy_out E arg (OutGeometry
           \<lparr>sectorCount = geo_nsectors (the gm), bytesPerSector = geo_sectorsize (the gm), blockSize = RT_BLOCK_SIZE\<rparr>) s1) s"

text \<open>The size of an allocation unit, with the new state.\<close>

definition MmcBlockGetAuSize :: "nat option \<Rightarrow> blk_sys \<Rightarrow> ret \<times> blk_sys \<times> u32 option" where
  "MmcBlockGetAuSize mb s =
     (case mb of None \<Rightarrow> (HDF_ERR_INVALID_OBJECT, s, None) | Some p \<Rightarrow>
       (case bk_blocks s p of None \<Rightarrow> (HDF_FAILURE, bk_bad s, None) | Some b \<Rightarrow>
         (case mb_mmc b of None \<Rightarrow> (HDF_ERR_INVALID_OBJECT, s, None) | Some m \<Rightarrow>
           (case bk_mmcs s m of None \<Rightarrow> (HDF_FAILURE, bk_bad s, None) | Some d \<Rightarrow>
              if \<not> md_sd d then (HDF_ERR_NOT_SUPPORT, s, None) else (HDF_SUCCESS, s, Some (md_auSize d))))))"

datatype blk_cmd =
    RT_DEVICE_CTRL_BLK_GETGEOME | RT_DEVICE_CARD_STATUS | RT_DEVICE_CARD_AU_SIZE | RT_DEVICE_BLOCK_ERROR_COUNT | BlkOther

definition LiteosBlockIoctl :: "blk_env \<Rightarrow> vnode \<Rightarrow> blk_cmd \<Rightarrow> u32 \<Rightarrow> blk_sys \<Rightarrow> ret \<times> blk_sys" where
  "LiteosBlockIoctl E v cmd arg s =
     with_vnode v (\<lambda>mb.
       case cmd of
         RT_DEVICE_CTRL_BLK_GETGEOME \<Rightarrow> LiteosBlockSaveGeometry E v arg s
       | RT_DEVICE_CARD_STATUS \<Rightarrow>
           with_mb mb (\<lambda>b. case bk_call E (MmcDeviceIsPresent (mb_mmc b)) s of (x, s1) \<Rightarrow>
             copy_out E arg (OutInt (if x \<noteq> 0 then 1 else 0)) s1) s
       | RT_DEVICE_CARD_AU_SIZE \<Rightarrow>
           (case MmcBlockGetAuSize mb s of (r, s1, au) \<Rightarrow>
              if r = HDF_SUCCESS then copy_out E arg (OutInt (the au)) s1 else (r, s1))
       | RT_DEVICE_BLOCK_ERROR_COUNT \<Rightarrow> with_mb mb (\<lambda>b. copy_out E arg (OutInt (mb_errCnt b)) s) s
       | BlkOther \<Rightarrow> (HDF_ERR_NOT_SUPPORT, s)) s"

definition StorageBlockGetMmcOps :: blk_ops where "StorageBlockGetMmcOps = GBlockOps"

subsection \<open>The table of disks\<close>

definition set_disk :: "blk_env \<Rightarrow> int \<Rightarrow> nat option \<Rightarrow> blk_sys \<Rightarrow> blk_sys" where
  "set_disk E diskId x s =
     (if 0 \<le> diskId \<and> diskId < int (SYS_MAX_DISK E) then s\<lparr>g_diskIdTable := (g_diskIdTable s)[nat diskId := x]\<rparr> else s)"

text \<open>The block of a device, which is \<open>NULL\<close> or one of the core: \<open>None\<close> when there is no device or no block.\<close>

definition mmc_mb :: "nat option \<Rightarrow> blk_sys \<Rightarrow> nat option" where
  "mmc_mb mmcDevice s = Option.bind (Option.bind mmcDevice (bk_mmcs s)) md_mb"

definition MmcBlockOsInit :: "blk_env \<Rightarrow> nat option \<Rightarrow> blk_sys \<Rightarrow> ret \<times> blk_sys" where
  "MmcBlockOsInit E mmcDevice s =
     (case mmc_mb mmcDevice s of None \<Rightarrow> (HDF_ERR_INVALID_OBJECT, s) | Some p \<Rightarrow>
       with_mb (Some p) (\<lambda>b.
         if mb_name b = [] then (HDF_ERR_INVALID_OBJECT, s)
         else
           (case bk_call E (DiskAlloc (mb_name b)) s of (diskId, s1) \<Rightarrow>
             let s2 = (if \<not> mb_removable b then s1\<lparr>g_emmcInfo := mb_capacity b\<rparr> else s1);
                 info = (if \<not> mb_removable b then Some (mb_capacity b) else None) in
             (case bk_call E (DiskInit (mb_name b) GBlockOps p diskId info) s2 of (r, s3) \<Rightarrow>
                if r \<noteq> 0 then (ret_of r, s3)
                else
                  let d = bk_disk E (ev s3) diskId;
                      s4 = s3\<lparr>bk_blocks := (bk_blocks s3)(p \<mapsto> b\<lparr>mb_osData := d\<rparr>)\<rparr> in
                  if d = None then (HDF_PLT_ERR_OS_API, s4)
                  else (HDF_SUCCESS, set_disk E diskId (Some p) s4)))) s)"

definition MmcBlockOsUninit :: "blk_env \<Rightarrow> nat option \<Rightarrow> blk_sys \<Rightarrow> blk_sys" where
  "MmcBlockOsUninit E mmcDevice s =
     (case mmc_mb mmcDevice s of None \<Rightarrow> s | Some p \<Rightarrow>
       snd (with_mb (Some p) (\<lambda>b.
         case bk_call E (DiskIdByName (mb_name b)) s of (diskId, s1) \<Rightarrow>
           (HDF_SUCCESS, set_disk E diskId None (snd (bk_call E (DiskDeinit diskId) s1)))) s))"

definition MmcBlockFromDiskId :: "blk_env \<Rightarrow> int \<Rightarrow> blk_sys \<Rightarrow> nat option" where
  "MmcBlockFromDiskId E diskId s =
     (if 0 \<le> diskId \<and> diskId < int (SYS_MAX_DISK E) then g_diskIdTable s ! nat diskId else None)"

definition StorageBlockMmcErase :: "blk_env \<Rightarrow> u32 \<Rightarrow> u32 \<Rightarrow> u32 \<Rightarrow> blk_sys \<Rightarrow> ret \<times> blk_sys" where
  "StorageBlockMmcErase E diskId secStart secNr s =
     (case MmcBlockFromDiskId E (sint diskId) s of None \<Rightarrow> (HDF_ERR_INVALID_PARAM, s) | Some p \<Rightarrow>
       with_mb (Some p) (\<lambda>b.
         case mb_mmc b of None \<Rightarrow> (HDF_ERR_INVALID_PARAM, s) | Some m \<Rightarrow>
           (case bk_call E (MmcDeviceErase m secStart secNr) s of (r, s1) \<Rightarrow> (ret_of r, s1))) s)"

subsection \<open>Flash\<close>

definition LiteosMtdBlockOpen :: "vnode \<Rightarrow> int" where "LiteosMtdBlockOpen v = 0"
definition LiteosMtdBlockClose :: "vnode \<Rightarrow> int" where "LiteosMtdBlockClose v = 0"
definition LiteosMtdBlockRead :: "vnode \<Rightarrow> u32 \<Rightarrow> u64 \<Rightarrow> u32 \<Rightarrow> int" where "LiteosMtdBlockRead v buf secStart nSecs = 0"
definition LiteosMtdBlockWrite :: "vnode \<Rightarrow> u32 \<Rightarrow> u64 \<Rightarrow> u32 \<Rightarrow> int" where "LiteosMtdBlockWrite v buf secStart nSecs = 0"
definition LiteosMtdBlockGeometry :: "vnode \<Rightarrow> bool \<Rightarrow> int" where "LiteosMtdBlockGeometry v room = 0"
definition LiteosMtdBlockIoctl :: "vnode \<Rightarrow> int \<Rightarrow> u32 \<Rightarrow> int" where "LiteosMtdBlockIoctl v cmd arg = 0"
definition GetDevNandOps :: blk_ops where "GetDevNandOps = LiteosNandOps"
definition GetDevSpinorOps :: blk_ops where "GetDevSpinorOps = LiteosSpinorOps"

datatype mtd_type = MTD_TYPE_SPI_NOR | MTD_TYPE_SPI_NAND | MTD_TYPE_OTHER

definition MtdBlockOsInit :: "blk_env \<Rightarrow> (nat \<times> mtd_type) option \<Rightarrow> blk_sys \<Rightarrow> ret \<times> blk_sys" where
  "MtdBlockOsInit E mtdDevice s =
     (case mtdDevice of None \<Rightarrow> (HDF_ERR_INVALID_OBJECT, s) | Some (m, t) \<Rightarrow>
       (case (if t = MTD_TYPE_SPI_NOR then Some ''/dev/spinor'' else if t = MTD_TYPE_SPI_NAND then Some ''/dev/nand'' else None) of
          None \<Rightarrow> (HDF_ERR_NOT_SUPPORT, s)
        | Some devPath \<Rightarrow>
            (case bk_call E (RegisterBlock devPath GetDevNandOps MTD_LITE_BLOCK_DRV_MODE m) s of (r, s1) \<Rightarrow>
               (if r \<noteq> 0 then HDF_PLT_ERR_OS_API else HDF_SUCCESS, s1))))"

definition MtdBlockOsUninit :: "(nat \<times> mtd_type) option \<Rightarrow> blk_sys \<Rightarrow> blk_sys" where
  "MtdBlockOsUninit mtdDevice s = s"

end
