(* ===== verification/Mmc_Block_Facts.thy ===== *)
theory Mmc_Block_Facts
  imports Mmc_Block
begin

text \<open>
  Sectors are passed on exactly or refused, and the table of disks is a map from disk numbers to the
  block that was registered last.
\<close>

lemma bk_call_eq: "bk_call E c s = (bk_api E (ev s) c, s\<lparr>ev := ev s @ [(c, bk_api E (ev s) c)]\<rparr>)"
  by (simp add: bk_call_def ext_call_eq emit_def)

subsection \<open>Sectors\<close>

lemma max_size: "(ucast (- 1 :: u32) :: u64) = 4294967295"
  by (simp add: unsigned_minus_1_eq_mask mask_eq_exp_minus_1)

text \<open>A sector number below the limit survives the cast to 32 bits.\<close>

lemma sector_limit: "secStart \<ge> ucast (- 1 :: u32) \<longleftrightarrow> uint (secStart :: u64) \<ge> 2 ^ 32 - 1"
  by (simp add: max_size word_le_def)

lemma sector_cast: "uint (secStart :: u64) < 2 ^ 32 \<Longrightarrow> uint (ucast secStart :: u32) = uint secStart"
  by (simp add: unsigned_ucast_eq take_bit_int_eq_self)

lemma count_limit: "nSecs \<ge> (- 1 :: u32) \<longleftrightarrow> uint nSecs \<ge> 2 ^ 32 - 1"
  by (simp add: word_le_def unsigned_minus_1_eq_mask mask_eq_exp_minus_1)

text \<open>
  A read or a write of a disk reaches the card once, with exactly the sectors that were asked for, when
  their number and the first of them are below \<open>2 ^ 32 - 1\<close>; otherwise it is refused and nothing happens.
\<close>

text \<open>
  A read or a write of a disk reaches the card once, with exactly the sectors that were
  asked for, when their number and the first of them are below 2^32 - 1 although the first one
  is narrowed from 64 to 32 bits; otherwise it is refused without a call.
\<close>

theorem mmc_sectors_exact:
  assumes "bk_blocks s p = Some b"
    and "(r, s') = (if wr then LiteosBlockWrite E (Some (Some (Some p))) buf secStart nSecs s
      else LiteosBlockRead E (Some (Some (Some p))) buf secStart nSecs s)"
  shows "if uint secStart < 2 ^ 32 - 1 \<and> uint nSecs < 2 ^ 32 - 1
    then \<exists>x y. uint x = uint secStart \<and> r = ret_of y \<and>
      ev s' = ev s @ [(if wr then MmcDeviceWrite (mb_mmc b) buf x nSecs else MmcDeviceRead (mb_mmc b) buf x nSecs, y)]
    else r = HDF_ERR_INVALID_PARAM \<and> s' = s"
proof (cases "uint secStart < 2 ^ 32 - 1 \<and> uint nSecs < 2 ^ 32 - 1")
  case True
  then have "\<not> (secStart \<ge> ucast (- 1 :: u32) \<or> nSecs \<ge> (- 1 :: u32))" "uint (ucast secStart :: u32) = uint secStart"
    using sector_limit [of secStart] count_limit [of nSecs] sector_cast [of secStart] by auto
  then show ?thesis
    using assms True
    by (auto simp: LiteosBlockRead_def LiteosBlockWrite_def with_vnode_def with_mb_def Let_def bk_call_eq split: if_splits)
next
  case False
  then have "secStart \<ge> ucast (- 1 :: u32) \<or> nSecs \<ge> (- 1 :: u32)"
    using sector_limit [of secStart] count_limit [of nSecs] by auto
  then show ?thesis
    using assms False
    by (auto simp: LiteosBlockRead_def LiteosBlockWrite_def with_vnode_def Let_def split: if_splits)
qed

subsection \<open>Disks\<close>

datatype disk_op = AttachDisk nat | DetachDisk nat

fun disk_step :: "blk_env \<Rightarrow> disk_op \<Rightarrow> blk_sys \<Rightarrow> ret \<times> blk_sys" where
  "disk_step E (AttachDisk m) s = MmcBlockOsInit E (Some m) s"
| "disk_step E (DetachDisk m) s = (HDF_SUCCESS, MmcBlockOsUninit E (Some m) s)"

fun disk_run :: "blk_env \<Rightarrow> disk_op list \<Rightarrow> blk_sys \<Rightarrow> ret list \<times> blk_sys" where
  "disk_run E [] s = ([], s)"
| "disk_run E (a # as) s =
     (case disk_step E a s of (r, s1) \<Rightarrow> (case disk_run E as s1 of (rs, s2) \<Rightarrow> (r # rs, s2)))"

text \<open>The block of a device and its name.\<close>

definition block_of :: "blk_sys \<Rightarrow> nat \<Rightarrow> (nat \<times> string) option" where
  "block_of s m =
     (case mmc_mb (Some m) s of None \<Rightarrow> None | Some p \<Rightarrow> map_option (\<lambda>b. (p, mb_name b)) (bk_blocks s p))"

text \<open>
  The abstract table, which block has which number: attaching successfully enters the block under the
  number the kernel allocates for its name, detaching removes the entry of the number that the kernel
  finds for it.
\<close>

fun owner_step :: "blk_env \<Rightarrow> disk_op \<Rightarrow> blk_sys \<Rightarrow> (int \<Rightarrow> nat option) \<Rightarrow> int \<Rightarrow> nat option" where
  "owner_step E (AttachDisk m) s f =
     (case block_of s m of None \<Rightarrow> f | Some (p, n) \<Rightarrow>
        if fst (disk_step E (AttachDisk m) s) = HDF_SUCCESS then f(bk_api E (ev s) (DiskAlloc n) := Some p) else f)"
| "owner_step E (DetachDisk m) s f =
     (case block_of s m of None \<Rightarrow> f | Some (p, n) \<Rightarrow> f(bk_api E (ev s) (DiskIdByName n) := None))"

fun owners :: "blk_env \<Rightarrow> disk_op list \<Rightarrow> blk_sys \<Rightarrow> (int \<Rightarrow> nat option) \<Rightarrow> int \<Rightarrow> nat option" where
  "owners E [] s f = f"
| "owners E (a # as) s f = owners E as (snd (disk_step E a s)) (owner_step E a s f)"

text \<open>The table as the code sees it, for the numbers that have a place in it.\<close>

definition disk_table :: "blk_env \<Rightarrow> blk_sys \<Rightarrow> (int \<Rightarrow> nat option) \<Rightarrow> bool" where
  "disk_table E s f \<longleftrightarrow> length (g_diskIdTable s) = SYS_MAX_DISK E \<and>
     (\<forall>i. 0 \<le> i \<and> i < int (SYS_MAX_DISK E) \<longrightarrow> MmcBlockFromDiskId E i s = f i)"

lemma set_disk_table:
  "disk_table E s f \<Longrightarrow> disk_table E (set_disk E i x s) (f(i := x))"
  by (auto simp: disk_table_def set_disk_def MmcBlockFromDiskId_def nth_list_update split: if_splits)

lemma disk_table_same: "g_diskIdTable s' = g_diskIdTable s \<Longrightarrow> disk_table E s' f = disk_table E s f"
  by (simp add: disk_table_def MmcBlockFromDiskId_def)

lemma attach_step:
  assumes "disk_table E s f"
  shows "disk_table E (snd (disk_step E (AttachDisk m) s)) (owner_step E (AttachDisk m) s f)"
proof (cases "block_of s m")
  case None
  then have "g_diskIdTable (snd (MmcBlockOsInit E (Some m) s)) = g_diskIdTable s"
    by (auto simp: block_of_def MmcBlockOsInit_def with_mb_def bk_bad_def mmc_mb_def split: option.splits)
  then show ?thesis
    using None assms disk_table_same [of "snd (MmcBlockOsInit E (Some m) s)" s E f] by simp
next
  case (Some pn)
  then obtain p b where b: "mmc_mb (Some m) s = Some p" "bk_blocks s p = Some b" "pn = (p, mb_name b)"
    by (auto simp: block_of_def split: option.splits)
  obtain r s' where i: "MmcBlockOsInit E (Some m) s = (r, s')"
    by force
  let ?i = "bk_api E (ev s) (DiskAlloc (mb_name b))"
  consider (fail) "r \<noteq> HDF_SUCCESS" "g_diskIdTable s' = g_diskIdTable s"
    | (ok) t where "r = HDF_SUCCESS" "s' = set_disk E ?i (Some p) t" "g_diskIdTable t = g_diskIdTable s"
    using b(1,2) i by (auto simp: MmcBlockOsInit_def with_mb_def bk_call_eq Let_def split: if_splits)
  then show ?thesis
  proof cases
    case fail
    then show ?thesis
      using i assms Some b(3) disk_table_same [of s' s E f] by simp
  next
    case ok
    then have "disk_table E t f"
      using assms disk_table_same [of t s E f] by simp
    then show ?thesis
      using ok i Some b(3) set_disk_table by simp
  qed
qed

lemma detach_step:
  assumes "disk_table E s f"
  shows "disk_table E (snd (disk_step E (DetachDisk m) s)) (owner_step E (DetachDisk m) s f)"
proof (cases "block_of s m")
  case None
  then have "g_diskIdTable (MmcBlockOsUninit E (Some m) s) = g_diskIdTable s"
    by (auto simp: block_of_def MmcBlockOsUninit_def with_mb_def bk_bad_def mmc_mb_def split: option.splits)
  then show ?thesis
    using None assms disk_table_same [of "MmcBlockOsUninit E (Some m) s" s E f] by simp
next
  case (Some pn)
  then obtain p b where b: "mmc_mb (Some m) s = Some p" "bk_blocks s p = Some b" "pn = (p, mb_name b)"
    by (auto simp: block_of_def split: option.splits)
  obtain t where t: "MmcBlockOsUninit E (Some m) s = set_disk E (bk_api E (ev s) (DiskIdByName (mb_name b))) None t"
    "g_diskIdTable t = g_diskIdTable s"
    using b(1,2) by (simp add: MmcBlockOsUninit_def with_mb_def bk_call_eq)
  have "disk_table E t f"
    using assms t(2) disk_table_same [of t s E f] by simp
  then show ?thesis
    using t(1) Some b(3) set_disk_table by simp
qed

text \<open>
  C28. The table of disks refines a map from disk numbers to blocks that follows the answers of
  the kernel: attaching a card successfully enters its block under the number the kernel
  allocates, detaching one removes the entry under the number the kernel finds for its name, and
  nothing else changes the table, after any attaching and detaching and whatever fails.
\<close>

theorem mmc_disk_table:
  assumes "disk_table E s f" and "disk_run E ops s = (rs, s')"
  shows "disk_table E s' (owners E ops s f)"
  using assms
proof (induction ops arbitrary: s f rs)
  case (Cons a ops)
  obtain r s1 where 1: "disk_step E a s = (r, s1)"
    by force
  obtain qs where 2: "disk_run E ops s1 = (qs, s')"
    using Cons.prems(2) 1 by (auto split: prod.splits)
  have "disk_table E s1 (owner_step E a s f)"
    using attach_step [OF Cons.prems(1)] detach_step [OF Cons.prems(1)] 1 by (cases a) (metis snd_conv)+
  from Cons.IH [OF this 2] show ?case
    using Cons.prems(2) 1 2 by simp
qed simp

text \<open>Attaching and then detaching leaves no entry, when the kernel finds the number it has allocated.\<close>

lemma attach_detach:
  assumes t: "disk_table E s f" and i: "MmcBlockOsInit E (Some m) s = (HDF_SUCCESS, s1)" and p: "block_of s m = Some (p, n)"
    and p1: "block_of s1 m = Some (p, n)" and num: "bk_api E (ev s1) (DiskIdByName n) = bk_api E (ev s) (DiskAlloc n)"
  shows "disk_table E (MmcBlockOsUninit E (Some m) s1) (f(bk_api E (ev s) (DiskAlloc n) := None))"
proof -
  have "disk_table E s1 (f(bk_api E (ev s) (DiskAlloc n) := Some p))"
    using attach_step [OF t, of m] i p by simp
  from detach_step [OF this, of m] show ?thesis
    using p1 num by simp
qed

lemma erase_reaches:
  assumes "MmcBlockFromDiskId E (sint i) s = Some p" and "bk_blocks s p = Some b" and "mb_mmc b = Some m"
  shows "\<exists>x. StorageBlockMmcErase E i st n s = (ret_of x, s\<lparr>ev := ev s @ [(MmcDeviceErase m st n, x)]\<rparr>)"
  using assms by (simp add: StorageBlockMmcErase_def with_mb_def bk_call_eq)

text \<open>A card without a block in its vnode: its status is asked through a null pointer.\<close>

lemma status_of_no_block: "h_bad (snd (LiteosBlockIoctl E (Some (Some None)) RT_DEVICE_CARD_STATUS arg s))"
  by (simp add: LiteosBlockIoctl_def with_vnode_def with_mb_def bk_bad_def)

text \<open>A disk the kernel does not find again stays initialised, and is not in the table.\<close>

lemma lost_disk:
  assumes "mmc_mb (Some m) s = Some p" and "bk_blocks s p = Some b" and "mb_name b \<noteq> []"
    and "\<And>tr c. bk_api E tr c = 0" and "\<And>tr i. bk_disk E tr i = None"
  shows "fst (MmcBlockOsInit E (Some m) s) = HDF_PLT_ERR_OS_API \<and>
    (\<forall>i. (DiskDeinit i, 0) \<notin> set (drop (length (ev s)) (ev (snd (MmcBlockOsInit E (Some m) s)))))"
  using assms by (simp add: MmcBlockOsInit_def with_mb_def bk_call_eq Let_def)

subsection \<open>Examples\<close>

definition blk_demo_env :: blk_env where
  "blk_demo_env = \<lparr>bk_api = (\<lambda>tr c. case c of DiskAlloc n \<Rightarrow> int (length n) | DiskIdByName n \<Rightarrow> int (length n) | _ \<Rightarrow> 0),
     bk_disk = (\<lambda>_ _. Some 9), SYS_MAX_DISK = 5\<rparr>"

text \<open>Two cards, whose disks have the numbers 2 and 3.\<close>

definition blk_demo :: blk_sys where
  "blk_demo = \<lparr>h_next = 0, h_blk = Map.empty, h_bad = False, ev = [],
     bk_blocks = [10 \<mapsto> \<lparr>mb_name = ''sd'', mb_capacity = 64, mb_secSize = 512, mb_errCnt = 0, mb_removable = True, mb_mmc = Some 5, mb_osData = None\<rparr>,
       11 \<mapsto> \<lparr>mb_name = ''mmc'', mb_capacity = 64, mb_secSize = 512, mb_errCnt = 0, mb_removable = False, mb_mmc = Some 6, mb_osData = None\<rparr>],
     bk_mmcs = [5 \<mapsto> \<lparr>md_sd = True, md_auSize = 8, md_mb = Some 10\<rparr>, 6 \<mapsto> \<lparr>md_sd = False, md_auSize = 0, md_mb = Some 11\<rparr>],
     g_emmcInfo = - 1, g_diskIdTable = replicate 5 None\<rparr>"

lemma mmc_sectors_exact_witness:
  "\<exists>x y. uint x = 7 \<and> ev (snd (LiteosBlockWrite blk_demo_env (Some (Some (Some 10))) 0 7 2 blk_demo)) =
     [(MmcDeviceWrite (Some 5) 0 x 2, y)]"
proof -
  have "bk_blocks blk_demo 10 = Some \<lparr>mb_name = ''sd'', mb_capacity = 64, mb_secSize = 512, mb_errCnt = 0,
      mb_removable = True, mb_mmc = Some 5, mb_osData = None\<rparr>"
    by (simp add: blk_demo_def)
  from mmc_sectors_exact [OF this, of "fst (LiteosBlockWrite blk_demo_env (Some (Some (Some 10))) 0 7 2 blk_demo)"
      "snd (LiteosBlockWrite blk_demo_env (Some (Some (Some 10))) 0 7 2 blk_demo)" True blk_demo_env 0 7 2]
  show ?thesis
    by (auto simp: blk_demo_def)
qed

lemma mmc_disk_table_witness:
  "MmcBlockFromDiskId blk_demo_env 2
      (snd (disk_run blk_demo_env [AttachDisk 5, AttachDisk 6, DetachDisk 6] blk_demo)) = Some 10 \<and>
   MmcBlockFromDiskId blk_demo_env 3
      (snd (disk_run blk_demo_env [AttachDisk 5, AttachDisk 6, DetachDisk 6] blk_demo)) = None"
proof -
  let ?ops = "[AttachDisk 5, AttachDisk 6, DetachDisk 6]"
  have t: "disk_table blk_demo_env blk_demo (\<lambda>_. None)"
    by (auto simp: disk_table_def MmcBlockFromDiskId_def blk_demo_def blk_demo_env_def)
  have r: "owners blk_demo_env ?ops blk_demo (\<lambda>_. None) = [2 \<mapsto> 10]"
    by (auto simp: MmcBlockOsInit_def MmcBlockOsUninit_def mmc_mb_def with_mb_def bk_call_eq Let_def set_disk_def
        block_of_def blk_demo_def blk_demo_env_def)
  have m: "SYS_MAX_DISK blk_demo_env = 5"
    by (simp add: blk_demo_env_def)
  show ?thesis
    using mmc_disk_table [OF t surjective_pairing, of ?ops] unfolding r by (simp add: disk_table_def m)
qed

end
