(* ===== verification/Lib_Loader.thy ===== *)
theory Lib_Loader
  imports Osal_Mem
begin

text \<open>
  Shared libraries and the objects that stand for them: drivers (\<open>uhdf2/host/src/driver_loader_full.c\<close>),
  interface libraries (\<open>uhdf2/hdi/src/hdf_load_hdi.c\<close>), and the installer that starts and stops driver
  hosts (\<open>uhdf2/manager/src/driver_installer_full.c\<close>).

  The dynamic linker, the file system and the init process are outside the repository: calls are events and
  \<open>ld_api\<close> gives their status. \<open>real_lib\<close> resolves a path, \<open>lib_entry\<close> is what \<open>dlsym\<close> finds: \<open>None\<close> when
  there is no such symbol, \<open>Some None\<close> when the pointer stored there is \<open>NULL\<close>. An open library is a number;
  \<open>ld_open\<close> counts how often each is open and not closed again. \<open>ld_drivers\<close> and \<open>ld_hdis\<close> are the objects
  that stand for a driver and for an interface.
\<close>

record HdfDriver =
  hd_entry :: "nat option"
  hd_priv :: nat

record HdiBase =
  hb_moduleVersion :: u32
  hb_open :: bool
  hb_close :: bool

record HdiObject =
  ho_dlHandler :: "nat option"
  ho_hdiBase :: "HdiBase option"

datatype ld_ev = DlOpen string | DlClose nat | DlSym nat string | OpenHdi | CloseHdiCall | ServiceStart string | ServiceStop string
  | ObjectManagerGet

record ld_sys = "(ld_ev \<times> int) sys" +
  ld_open :: "nat \<Rightarrow> nat"
  ld_drivers :: "nat \<Rightarrow> HdfDriver option"
  ld_hdis :: "nat \<Rightarrow> HdiObject option"
  g_fullLoader :: "nat option"
  g_fullInstaller :: "nat option"
  loader_instance :: "nat option"

record ld_env = mem_env +
  ld_api :: "(ld_ev \<times> int) list \<Rightarrow> ld_ev \<Rightarrow> int"
  real_lib :: "string \<Rightarrow> string option"
  loader_object :: "(ld_ev \<times> int) list \<Rightarrow> nat option"
  lib_handle :: "string \<Rightarrow> nat"
  driver_entry :: "nat \<Rightarrow> nat option option"
  hdi_entry :: "nat \<Rightarrow> HdiBase option option"
  HDF_LIBRARY_DIR :: string
  PATH_MAX :: nat
  strcat_ok :: "string \<Rightarrow> nat \<Rightarrow> string \<Rightarrow> bool"
  snprintf_ok :: "nat \<Rightarrow> string \<Rightarrow> bool"

definition ld_call :: "ld_env \<Rightarrow> ld_ev \<Rightarrow> ld_sys \<Rightarrow> int \<times> ld_sys" where
  "ld_call E c s = ext_call (ld_api E) c s"

definition ld_do :: "ld_env \<Rightarrow> ld_ev \<Rightarrow> ld_sys \<Rightarrow> ld_sys" where
  "ld_do E c s = snd (ld_call E c s)"

text \<open>Opening and closing a library; \<open>dlopen\<close> returns \<open>NULL\<close> when its status is 0.\<close>

definition dlopen :: "ld_env \<Rightarrow> string \<Rightarrow> ld_sys \<Rightarrow> nat option \<times> ld_sys" where
  "dlopen E path s =
     (case ld_call E (DlOpen path) s of (r, s1) \<Rightarrow>
        if r = 0 then (None, s1)
        else let h = lib_handle E path in (Some h, s1\<lparr>ld_open := (ld_open s1)(h := ld_open s1 h + 1)\<rparr>))"

definition dlclose :: "ld_env \<Rightarrow> nat \<Rightarrow> ld_sys \<Rightarrow> ld_sys" where
  "dlclose E h s =
     (let s1 = ld_do E (DlClose h) s in
      if ld_open s1 h = 0 then s1\<lparr>h_bad := True\<rparr> else s1\<lparr>ld_open := (ld_open s1)(h := ld_open s1 h - 1)\<rparr>)"

subsection \<open>Drivers\<close>

definition DRIVER_PATH :: "ld_env \<Rightarrow> string" where "DRIVER_PATH E = HDF_LIBRARY_DIR E @ ''/''"

text \<open>The size of the macro counts its terminating zero.\<close>

definition HdfDriverLoaderGetDriver :: "ld_env \<Rightarrow> string option \<Rightarrow> ld_sys \<Rightarrow> nat option \<times> ld_sys" where
  "HdfDriverLoaderGetDriver E moduleName s =
     (case moduleName of None \<Rightarrow> (None, s) | Some name \<Rightarrow>
        if \<not> strcat_ok E [] (PATH_MAX E - 1) (DRIVER_PATH E) then (None, s)
        else if \<not> strcat_ok E (DRIVER_PATH E) (PATH_MAX E - 1 - (length (DRIVER_PATH E) + 1)) name then (None, s)
        else
          (case real_lib E (DRIVER_PATH E @ name) of None \<Rightarrow> (None, s) | Some realPath \<Rightarrow>
            (case OsalMemAlloc E (Objs ''HdfDriver'' 1) s of (None, s1) \<Rightarrow> (None, s1) | (Some driver, s1) \<Rightarrow>
              (case dlopen E realPath s1 of
                 (None, s2) \<Rightarrow> (None, OsalMemFree (Some driver) s2)
               | (Some handle, s2) \<Rightarrow>
                   let s3 = ld_do E (DlSym handle ''driverDesc'') s2 in
                   (case driver_entry E handle of
                      None \<Rightarrow> (None, OsalMemFree (Some driver) (dlclose E handle s3))
                    | Some e \<Rightarrow>
                        (Some driver, s3\<lparr>ld_drivers := (ld_drivers s3)(driver \<mapsto> \<lparr>hd_entry = e, hd_priv = handle\<rparr>)\<rparr>))))))"

definition HdfDriverLoaderFullReclaimDriver :: "nat option \<Rightarrow> ld_sys \<Rightarrow> ld_sys" where
  "HdfDriverLoaderFullReclaimDriver driver s =
     (case driver of None \<Rightarrow> s
      | Some d \<Rightarrow> (OsalMemFree (Some d) s)\<lparr>ld_drivers := (ld_drivers s)(d := None)\<rparr>)"

definition HdfDriverLoaderFullCreate :: "ld_env \<Rightarrow> ld_sys \<Rightarrow> nat option \<times> ld_sys" where
  "HdfDriverLoaderFullCreate E s =
     (let s2 =
        (if g_fullLoader s = None
         then (case OsalMemCalloc E (Objs ''DriverLoaderFull'' 1) s of
                 (None, s1) \<Rightarrow> s1 | (Some p, s1) \<Rightarrow> s1\<lparr>g_fullLoader := Some p\<rparr>)
         else s)
      in (g_fullLoader s2, s2))"

definition HdfDriverLoaderFullRelease :: "nat option \<Rightarrow> ld_sys \<Rightarrow> ld_sys" where
  "HdfDriverLoaderFullRelease object s =
     OsalMemFree object (if object = g_fullLoader s then s\<lparr>g_fullLoader := None\<rparr> else s)"

text \<open>The framework's object is asked for once; \<open>loader_object\<close> is what it answers.\<close>

definition HdfDriverLoaderGetInstance :: "ld_env \<Rightarrow> ld_sys \<Rightarrow> nat option \<times> ld_sys" where
  "HdfDriverLoaderGetInstance E s =
     (let s1 = (if loader_instance s = None
                then (ld_do E ObjectManagerGet s)\<lparr>loader_instance := loader_object E (ev s)\<rparr> else s)
      in (loader_instance s1, s1))"

subsection \<open>Interfaces\<close>

text \<open>A missing symbol is read through before it is tested.\<close>

definition LoadHdi :: "ld_env \<Rightarrow> string option \<Rightarrow> u32 \<Rightarrow> ld_sys \<Rightarrow> nat option \<times> ld_sys" where
  "LoadHdi E name version s =
     (case name of None \<Rightarrow> (None, s) | Some n \<Rightarrow>
        let path = HDF_LIBRARY_DIR E @ ''/'' @ n in
        if \<not> snprintf_ok E (PATH_MAX E) path then (None, s)
        else
          (case real_lib E path of None \<Rightarrow> (None, s) | Some resolvedPath \<Rightarrow>
            (case OsalMemCalloc E (Objs ''HdiObject'' 1) s of (None, s1) \<Rightarrow> (None, s1) | (Some hdi, s1) \<Rightarrow>
              (case dlopen E resolvedPath s1 of
                 (None, s2) \<Rightarrow> (None, OsalMemFree (Some hdi) s2)
               | (Some handler, s2) \<Rightarrow>
                   let s3 = ld_do E (DlSym handler ''hdfHdiDesc'') s2 in
                   (case hdi_entry E handler of
                      None \<Rightarrow> (None, s3\<lparr>h_bad := True\<rparr>)
                    | Some None \<Rightarrow> (None, OsalMemFree (Some hdi) (dlclose E handler s3))
                    | Some (Some base) \<Rightarrow>
                        if version \<noteq> hb_moduleVersion base then (None, OsalMemFree (Some hdi) (dlclose E handler s3))
                        else
                          let s4 = (if hb_open base then ld_do E OpenHdi s3 else s3) in
                          (Some hdi, s4\<lparr>ld_hdis := (ld_hdis s4)(hdi \<mapsto> \<lparr>ho_dlHandler = Some handler, ho_hdiBase = Some base\<rparr>)\<rparr>))))))"

definition CloseHdi :: "ld_env \<Rightarrow> nat option \<Rightarrow> ld_sys \<Rightarrow> ld_sys" where
  "CloseHdi E hdi s =
     (case hdi of None \<Rightarrow> s | Some p \<Rightarrow>
       (case ld_hdis s p of None \<Rightarrow> s\<lparr>h_bad := True\<rparr> | Some h \<Rightarrow>
         (case (ho_dlHandler h, ho_hdiBase h) of
            (Some handler, Some base) \<Rightarrow>
              (let s1 = dlclose E handler (if hb_close base then ld_do E CloseHdiCall s else s)
               in (OsalMemFree (Some p) s1)\<lparr>ld_hdis := (ld_hdis s1)(p := None)\<rparr>)
          | _ \<Rightarrow> s)))"

subsection \<open>Driver hosts\<close>

text \<open>Whether a host could be started is not reported.\<close>

definition DriverInstallerFullStartDeviceHost :: "ld_env \<Rightarrow> u32 \<Rightarrow> string \<Rightarrow> bool \<Rightarrow> ld_sys \<Rightarrow> ret \<times> ld_sys" where
  "DriverInstallerFullStartDeviceHost E devHostId devHostName dynamic s =
     (HDF_SUCCESS, if dynamic then ld_do E (ServiceStart devHostName) s else s)"

definition DriverInstallerFullStopDeviceHost :: "ld_env \<Rightarrow> u32 \<Rightarrow> string \<Rightarrow> ld_sys \<Rightarrow> ret \<times> ld_sys" where
  "DriverInstallerFullStopDeviceHost E devHostId devHostName s =
     (case ld_call E (ServiceStop devHostName) s of (r, s1) \<Rightarrow> (ret_of r, s1))"

definition DriverInstallerFullCreate :: "ld_env \<Rightarrow> ld_sys \<Rightarrow> nat option \<times> ld_sys" where
  "DriverInstallerFullCreate E s =
     (let s2 =
        (if g_fullInstaller s = None
         then (case OsalMemCalloc E (Objs ''DriverInstaller'' 1) s of (m, s1) \<Rightarrow> s1\<lparr>g_fullInstaller := m\<rparr>) else s)
      in (g_fullInstaller s2, s2))"

definition DriverInstallerFullRelease :: "nat option \<Rightarrow> ld_sys \<Rightarrow> ld_sys" where
  "DriverInstallerFullRelease object s =
     OsalMemFree object (if g_fullInstaller s = object then s\<lparr>g_fullInstaller := None\<rparr> else s)"

end
