(* ===== verification/Lib_Loader_Facts.thy ===== *)
theory Lib_Loader_Facts
  imports Lib_Loader
begin

text \<open>
  An interface library that is loaded and closed leaves nothing behind, and neither does a load that
  fails; a driver that is loaded and given back leaves its library open.
\<close>

lemma ld_call_eq: "ld_call E c s = (ld_api E (ev s) c, s\<lparr>ev := ev s @ [(c, ld_api E (ev s) c)]\<rparr>)"
  by (simp add: ld_call_def ext_call_eq emit_def)

lemma ld_do_eq: "ld_do E c s = s\<lparr>ev := ev s @ [(c, ld_api E (ev s) c)]\<rparr>"
  by (simp add: ld_do_def ld_call_eq)

text \<open>The same memory and the same open libraries.\<close>

definition ld_same :: "ld_sys \<Rightarrow> ld_sys \<Rightarrow> bool" where
  "ld_same s s' \<longleftrightarrow> h_blk s' = h_blk s \<and> ld_open s' = ld_open s \<and> h_bad s' = h_bad s"

text \<open>One more library and one more object.\<close>

definition ld_loaded :: "nat \<Rightarrow> nat \<Rightarrow> ld_sys \<Rightarrow> ld_sys \<Rightarrow> bool" where
  "ld_loaded p h s s' \<longleftrightarrow>
     h_blk s p = None \<and> h_blk s' = (h_blk s)(p \<mapsto> []) \<and> ld_open s' = (ld_open s)(h := ld_open s h + 1) \<and> h_bad s' = h_bad s"

lemma dlopen_None: "dlopen E path s = (None, s') \<Longrightarrow> ld_same s s'"
  by (auto simp: dlopen_def ld_call_eq ld_same_def Let_def split: if_splits)

lemma dlopen_Some:
  "dlopen E path s = (Some h, s') \<Longrightarrow> h_blk s' = h_blk s \<and> ld_open s' = (ld_open s)(h := ld_open s h + 1) \<and> h_bad s' = h_bad s"
  by (auto simp: dlopen_def ld_call_eq Let_def split: if_splits)

lemma ld_do_simps [simp]:
  "h_blk (ld_do E c s) = h_blk s" "ld_open (ld_do E c s) = ld_open s" "h_bad (ld_do E c s) = h_bad s"
  "ld_hdis (ld_do E c s) = ld_hdis s" "ld_drivers (ld_do E c s) = ld_drivers s"
  by (simp_all add: ld_do_eq)

text \<open>Closing the library and freeing the object undoes the load.\<close>

lemma unload:
  assumes "ld_loaded p h s t"
  shows "ld_same s (OsalMemFree (Some p) (dlclose E h t))"
  using assms by (auto simp: ld_loaded_def ld_same_def dlclose_def OsalMemFree_live Let_def fun_upd_idem)

lemma loaded_same: "ld_loaded p h s t \<Longrightarrow> ld_same t u \<Longrightarrow> ld_loaded p h s u"
  by (simp add: ld_loaded_def ld_same_def)

text \<open>An object and an open library, or what is left without the second.\<close>

lemma alloc_dlopen:
  assumes "heap_ok s" and "h_next s = p" and "h_blk s1 = (h_blk s)(p \<mapsto> [])" and "ld_open s1 = ld_open s" and "h_bad s1 = h_bad s"
    and "dlopen E path s1 = (m, s2)"
  shows "case m of None \<Rightarrow> ld_same s (OsalMemFree (Some p) s2) | Some h \<Rightarrow> ld_loaded p h s s2"
proof -
  have "h_blk s p = None"
    using heap_ok_fresh [OF assms(1)] assms(2) by simp
  then show ?thesis
    using assms dlopen_None [of E path s1 s2] dlopen_Some [of E path s1 _ s2]
    by (cases m) (auto simp: ld_same_def ld_loaded_def OsalMemFree_live fun_upd_idem)
qed

subsection \<open>Interfaces\<close>

text \<open>The library that was opened has no descriptor, which the load reads through a null pointer.\<close>

definition ld_lacks :: "ld_env \<Rightarrow> ld_sys \<Rightarrow> ld_sys \<Rightarrow> bool" where
  "ld_lacks E s s' \<longleftrightarrow> h_bad s' \<and> (\<exists>h. hdi_entry E h = None \<and> ld_open s' = (ld_open s)(h := ld_open s h + 1))"

text \<open>A load: nothing is left when it fails, unless it crashes on a library without the symbol.\<close>

lemma LoadHdi_outcome:
  assumes "heap_ok s" and "LoadHdi E (Some n) v s = (m, s')"
  shows "case m of None \<Rightarrow> ld_same s s' \<or> ld_lacks E s s'
    | Some p \<Rightarrow> \<exists>h b. ld_loaded p h s s' \<and> hdi_entry E h = Some (Some b) \<and> hb_moduleVersion b = v \<and>
        ld_hdis s' p = Some \<lparr>ho_dlHandler = Some h, ho_hdiBase = Some b\<rparr>"
proof -
  let ?p = "h_next s"
  let ?s1 = "s\<lparr>h_next := Suc ?p, h_blk := (h_blk s)(?p \<mapsto> [])\<rparr>"
  obtain k s2 where k: "dlopen E (the (real_lib E (HDF_LIBRARY_DIR E @ ''/'' @ n))) ?s1 = (k, s2)"
    by force
  note O = alloc_dlopen [OF assms(1) refl _ _ _ k, simplified]
  show ?thesis
  proof (cases "snprintf_ok E (PATH_MAX E) (HDF_LIBRARY_DIR E @ ''/'' @ n) \<and> real_lib E (HDF_LIBRARY_DIR E @ ''/'' @ n) \<noteq> None \<and>
      mem_ok E ?p (Objs ''HdiObject'' 1)")
    case False
    then have "m = None \<and> ld_same s s'"
      using assms(2) by (auto simp: LoadHdi_def OsalMemCalloc_obj Let_def ld_same_def split: option.splits if_splits)
    then show ?thesis
      by simp
  next
    case True
    then obtain path where path: "real_lib E (HDF_LIBRARY_DIR E @ ''/'' @ n) = Some path"
      by auto
    show ?thesis
    proof (cases k)
      case None
      then have "m = None \<and> s' = OsalMemFree (Some ?p) s2"
        using assms(2) True path k by (auto simp: LoadHdi_def OsalMemCalloc_obj Let_def)
      then show ?thesis
        using O None by simp
    next
      case (Some h)
      let ?s3 = "ld_do E (DlSym h ''hdfHdiDesc'') s2"
      have L: "ld_loaded ?p h s ?s3"
        using O Some loaded_same [of ?p h s s2 ?s3] by (simp add: ld_same_def)
      consider "hdi_entry E h = None" | "hdi_entry E h \<noteq> None" "\<nexists>b. hdi_entry E h = Some (Some b) \<and> hb_moduleVersion b = v"
        | "\<exists>b. hdi_entry E h = Some (Some b) \<and> hb_moduleVersion b = v"
        by blast
      then show ?thesis
      proof cases
        case 1
        then have "m = None \<and> s' = ?s3\<lparr>h_bad := True\<rparr>"
          using assms(2) True path k Some by (auto simp: LoadHdi_def OsalMemCalloc_obj Let_def)
        then have "m = None \<and> ld_lacks E s s'"
          using L 1 by (auto simp: ld_lacks_def ld_loaded_def)
        then show ?thesis
          by simp
      next
        case 2
        then have "m = None \<and> s' = OsalMemFree (Some ?p) (dlclose E h ?s3)"
          using assms(2) True path k Some
          by (auto simp: LoadHdi_def OsalMemCalloc_obj Let_def split: option.splits if_splits)
        then show ?thesis
          using unload [OF L] by simp
      next
        case got: 3
        then obtain b where b: "hdi_entry E h = Some (Some b)" "hb_moduleVersion b = v"
          by auto
        let ?s4 = "if hb_open b then ld_do E OpenHdi ?s3 else ?s3"
        have "m = Some ?p \<and> s' = ?s4\<lparr>ld_hdis := (ld_hdis ?s4)(?p \<mapsto> \<lparr>ho_dlHandler = Some h, ho_hdiBase = Some b\<rparr>)\<rparr>"
          using assms(2) True path k Some b by (auto simp: LoadHdi_def OsalMemCalloc_obj Let_def)
        then show ?thesis
          using L b by (auto simp: ld_loaded_def)
      qed
    qed
  qed
qed

text \<open>
  C29. Loading an interface library, whether or not it succeeds, and closing it restores the
  memory and the open libraries, and a load succeeds only with a library of the version asked
  for; the exception is a library without the symbol hdfHdiDesc, which the load opens and then
  reads through a null pointer.
\<close>

theorem hdi_roundtrip:
  assumes "heap_ok s" and "LoadHdi E (Some n) v s = (m, s')"
  shows "m = None \<and> ld_lacks E s s' \<or>
    ld_same s (CloseHdi E m s') \<and>
    (m \<noteq> None \<longrightarrow> (\<exists>h b. hdi_entry E h = Some (Some b) \<and> hb_moduleVersion b = v \<and> ld_open s' h = ld_open s h + 1))"
proof (cases m)
  case None
  then show ?thesis
    using LoadHdi_outcome [OF assms] by (simp add: CloseHdi_def disj_commute)
next
  case (Some p)
  then obtain h b where L: "ld_loaded p h s s'" and b: "hdi_entry E h = Some (Some b)" "hb_moduleVersion b = v"
    "ld_hdis s' p = Some \<lparr>ho_dlHandler = Some h, ho_hdiBase = Some b\<rparr>"
    using LoadHdi_outcome [OF assms] by auto
  have "ld_loaded p h s (if hb_close b then ld_do E CloseHdiCall s' else s')"
    using L loaded_same [of p h s s' "ld_do E CloseHdiCall s'"] by (simp add: ld_same_def)
  from unload [OF this, of E] have "ld_same s (CloseHdi E (Some p) s')"
    using b(3) by (simp add: CloseHdi_def ld_same_def Let_def)
  then show ?thesis
    using Some L b by (auto simp: ld_loaded_def)
qed

text \<open>A library without the symbol is read through a null pointer.\<close>

lemma hdi_symbol_missing:
  assumes "mem_ok E (h_next s) (Objs ''HdiObject'' 1)" and "snprintf_ok E (PATH_MAX E) (HDF_LIBRARY_DIR E @ ''/'' @ n)"
    and "real_lib E (HDF_LIBRARY_DIR E @ ''/'' @ n) = Some path" and "\<And>tr c. ld_api E tr c = 1" and "hdi_entry E (lib_handle E path) = None"
  shows "h_bad (snd (LoadHdi E (Some n) v s))"
  using assms by (simp add: LoadHdi_def OsalMemCalloc_obj dlopen_def ld_call_eq Let_def)

subsection \<open>Drivers\<close>

lemma GetDriver_outcome:
  assumes "heap_ok s" and "HdfDriverLoaderGetDriver E (Some n) s = (m, s')"
  shows "case m of None \<Rightarrow> ld_same s s'
    | Some p \<Rightarrow> \<exists>d. ld_drivers s' p = Some d \<and> ld_loaded p (hd_priv d) s s'"
proof -
  let ?p = "h_next s" and ?path = "DRIVER_PATH E @ n"
  let ?s1 = "s\<lparr>h_next := Suc ?p, h_blk := (h_blk s)(?p \<mapsto> [])\<rparr>"
  obtain k s2 where k: "dlopen E (the (real_lib E ?path)) ?s1 = (k, s2)"
    by force
  note O = alloc_dlopen [OF assms(1) refl _ _ _ k, simplified]
  show ?thesis
  proof (cases "strcat_ok E [] (PATH_MAX E - 1) (DRIVER_PATH E) \<and>
      strcat_ok E (DRIVER_PATH E) (PATH_MAX E - 1 - (length (DRIVER_PATH E) + 1)) n \<and> real_lib E ?path \<noteq> None \<and>
      mem_ok E ?p (Objs ''HdfDriver'' 1)")
    case False
    then have "m = None \<and> ld_same s s'"
      using assms(2) by (auto simp: HdfDriverLoaderGetDriver_def OsalMemAlloc_obj ld_same_def split: option.splits if_splits)
    then show ?thesis
      by simp
  next
    case True
    then obtain path where path: "real_lib E ?path = Some path"
      by auto
    show ?thesis
    proof (cases k)
      case None
      then have "m = None \<and> s' = OsalMemFree (Some ?p) s2"
        using assms(2) True path k by (auto simp: HdfDriverLoaderGetDriver_def OsalMemAlloc_obj)
      then show ?thesis
        using O None by simp
    next
      case (Some h)
      let ?s3 = "ld_do E (DlSym h ''driverDesc'') s2"
      have L: "ld_loaded ?p h s ?s3"
        using O Some loaded_same [of ?p h s s2 ?s3] by (simp add: ld_same_def)
      show ?thesis
      proof (cases "driver_entry E h")
        case None
        then have "m = None \<and> s' = OsalMemFree (Some ?p) (dlclose E h ?s3)"
          using assms(2) True path k Some by (auto simp: HdfDriverLoaderGetDriver_def OsalMemAlloc_obj Let_def)
        then show ?thesis
          using unload [OF L] by simp
      next
        case e: (Some e)
        then have "m = Some ?p \<and> s' = ?s3\<lparr>ld_drivers := (ld_drivers ?s3)(?p \<mapsto> \<lparr>hd_entry = e, hd_priv = h\<rparr>)\<rparr>"
          using assms(2) True path k Some by (auto simp: HdfDriverLoaderGetDriver_def OsalMemAlloc_obj Let_def)
        then show ?thesis
          using L by (auto simp: ld_loaded_def)
      qed
    qed
  qed
qed

text \<open>
  A driver that is loaded and reclaimed gives back its memory but not its library, which stays open once
  more for every load; a load that fails leaves neither.
\<close>

theorem driver_library_kept:
  assumes "heap_ok s" and "HdfDriverLoaderGetDriver E (Some n) s = (m, s1)"
  shows "h_blk (HdfDriverLoaderFullReclaimDriver m s1) = h_blk s \<and> h_bad (HdfDriverLoaderFullReclaimDriver m s1) = h_bad s \<and>
    (case m of None \<Rightarrow> ld_open (HdfDriverLoaderFullReclaimDriver m s1) = ld_open s
     | Some p \<Rightarrow> \<exists>d. ld_drivers s1 p = Some d \<and>
         ld_open (HdfDriverLoaderFullReclaimDriver m s1) = (ld_open s)(hd_priv d := ld_open s (hd_priv d) + 1))"
proof (cases m)
  case None
  then show ?thesis
    using GetDriver_outcome [OF assms] by (simp add: HdfDriverLoaderFullReclaimDriver_def ld_same_def)
next
  case (Some p)
  then obtain d where "ld_drivers s1 p = Some d" "ld_loaded p (hd_priv d) s s1"
    using GetDriver_outcome [OF assms] by auto
  then show ?thesis
    using Some by (auto simp: HdfDriverLoaderFullReclaimDriver_def ld_loaded_def OsalMemFree_live fun_upd_idem)
qed

subsection \<open>Examples\<close>

definition ld_demo_env :: ld_env where
  "ld_demo_env = \<lparr>mem_ok = (\<lambda>_ _. True), mem_junk = (\<lambda>_ _. 0), copy_ok = (\<lambda>_ _. True), ld_api = (\<lambda>_ _. 1),
     real_lib = Some, loader_object = (\<lambda>_. Some 0), lib_handle = length, driver_entry = (\<lambda>_. Some (Some 0)),
     hdi_entry = (\<lambda>_. Some (Some \<lparr>hb_moduleVersion = 3, hb_open = True, hb_close = False\<rparr>)), HDF_LIBRARY_DIR = ''lib'',
     PATH_MAX = 4096, strcat_ok = (\<lambda>_ _ _. True), snprintf_ok = (\<lambda>_ _. True)\<rparr>"

definition ld_demo :: ld_sys where
  "ld_demo = \<lparr>h_next = 0, h_blk = Map.empty, h_bad = False, ev = [], ld_open = (\<lambda>_. 0), ld_drivers = Map.empty,
     ld_hdis = Map.empty, g_fullLoader = None, g_fullInstaller = None, loader_instance = None\<rparr>"

lemma ld_demo_ok: "heap_ok ld_demo"
  by (simp add: heap_ok_def ld_demo_def)

lemma hdi_roundtrip_witness:
  "fst (LoadHdi ld_demo_env (Some ''x.so'') 3 ld_demo) = Some 0 \<and>
   ld_same ld_demo (CloseHdi ld_demo_env (Some 0) (snd (LoadHdi ld_demo_env (Some ''x.so'') 3 ld_demo)))"
proof -
  have l: "LoadHdi ld_demo_env (Some ''x.so'') 3 ld_demo = (Some 0, snd (LoadHdi ld_demo_env (Some ''x.so'') 3 ld_demo))"
    by (simp add: LoadHdi_def OsalMemCalloc_obj dlopen_def ld_call_eq Let_def ld_demo_env_def ld_demo_def)
  from hdi_roundtrip [OF ld_demo_ok l] l show ?thesis
    by (metis fst_conv option.distinct(1))
qed

lemma driver_library_kept_witness:
  "ld_open (HdfDriverLoaderFullReclaimDriver (Some 0) (snd (HdfDriverLoaderGetDriver ld_demo_env (Some ''d.so'') ld_demo))) 8 = 1"
proof -
  have l: "HdfDriverLoaderGetDriver ld_demo_env (Some ''d.so'') ld_demo = (Some 0, snd (HdfDriverLoaderGetDriver ld_demo_env (Some ''d.so'') ld_demo))"
    "map_option hd_priv (ld_drivers (snd (HdfDriverLoaderGetDriver ld_demo_env (Some ''d.so'') ld_demo)) 0) = Some 8"
    by (simp_all add: HdfDriverLoaderGetDriver_def OsalMemAlloc_obj dlopen_def ld_call_eq ld_do_eq Let_def ld_demo_env_def ld_demo_def
        DRIVER_PATH_def)
  then show ?thesis
    using driver_library_kept [OF ld_demo_ok l(1)] by (auto simp: ld_demo_def)
qed

end
