(* ===== verification/Pwm_Drivers.thy ===== *)
theory Pwm_Drivers
  imports Osal_Mem
begin

text \<open>
  The PWM drivers of the BES and WM chips, \<open>platform/pwm/pwm_bes.c\<close> and \<open>platform/pwm/pwm_wm.c\<close>. The
  definitions of the second have the prefix \<open>W_\<close>.

  The vendor libraries, the PWM core and the configuration are outside the repository: calls are events,
  \<open>pw_api\<close> gives their status and \<open>pw_prop\<close> the numbers of the configuration (\<open>None\<close> when one cannot be
  read). A host is an object of \<open>pw_hosts\<close>: the static one of \<open>Bind\<close>, whose address is \<open>pw_static\<close>, or a heap
  block; its private device is an entry of \<open>pw_devs\<close> or \<open>pw_wdevs\<close>. \<open>pw_junk\<close> is what a host contains that was
  allocated and not cleared. A framework device is a number; \<open>pw_service\<close> is its host. \<open>pw_links\<close> says
  whether adding a host to the core makes it the service of the device. The settings are
  fields of structures of the vendor: \<open>cfg_field\<close> is what such a field keeps of a number assigned to it.
\<close>

record PwmConfig =
  pc_duty :: u32
  pc_period :: u32
  pc_number :: u32
  pc_enable :: bool

record PwmDev =
  ph_priv :: "nat option"
  ph_num :: u32
  ph_method :: bool
  ph_device :: "nat option"

record PwmDevice =
  pd_freq :: u32
  pd_ratio :: u32
  pd_inv :: bool
  pd_sleep_on :: bool
  pd_pwmPin :: u32
  pd_pwmId :: u32

record W_PwmDevice =
  wp_period :: u32
  wp_duty :: u32
  wp_pnum :: u32
  wp_channel :: u32
  wp_res_channel :: u32
  wp_res_freq :: u32

datatype pw_ev =
    IomuxInit u32 nat | HalPwmEnable u32 u32 u32 bool bool | HalPwmDisable u32 | TlsPwmInit u32 u32 u32 u32
  | PwmAdd nat nat | PwmRemove nat nat

record pw_sys = "(pw_ev \<times> int) sys" +
  pw_hosts :: "nat \<Rightarrow> PwmDev option"
  pw_devs :: "nat \<Rightarrow> PwmDevice option"
  pw_wdevs :: "nat \<Rightarrow> W_PwmDevice option"
  pw_service :: "nat \<Rightarrow> nat option"

record pw_env = mem_env +
  pw_api :: "(pw_ev \<times> int) list \<Rightarrow> pw_ev \<Rightarrow> int"
  pw_iface :: bool
  pw_prop :: "string \<Rightarrow> u32 option"
  pw_static :: nat
  pw_junk :: "nat \<Rightarrow> PwmDev"
  pw_links :: bool
  PWM_MAX_FUNCTION :: nat
  g_pwmFunction :: "nat \<Rightarrow> nat"
  cfg_field :: "string \<Rightarrow> u32 \<Rightarrow> u32"

definition UNTIL_NAN0SECONDS :: u32 where "UNTIL_NAN0SECONDS = 1000000000"
definition PERCENT :: u32 where "PERCENT = 100"
definition DEC_TEN :: u32 where "DEC_TEN = 10"
definition PIN_GROUP_NUM :: u32 where "PIN_GROUP_NUM = 8"

definition pw_call :: "pw_env \<Rightarrow> pw_ev \<Rightarrow> pw_sys \<Rightarrow> int \<times> pw_sys" where
  "pw_call E c s = ext_call (pw_api E) c s"

definition pw_do :: "pw_env \<Rightarrow> pw_ev \<Rightarrow> pw_sys \<Rightarrow> pw_sys" where
  "pw_do E c s = snd (pw_call E c s)"

definition pw_bad :: "pw_sys \<Rightarrow> pw_sys" where
  "pw_bad s = s\<lparr>h_bad := True\<rparr>"

definition put_host :: "nat \<Rightarrow> PwmDev \<Rightarrow> pw_sys \<Rightarrow> pw_sys" where
  "put_host p h s = s\<lparr>pw_hosts := (pw_hosts s)(p \<mapsto> h)\<rparr>"

text \<open>Adding a host to the PWM core.\<close>

definition PwmDeviceAdd :: "pw_env \<Rightarrow> nat \<Rightarrow> nat \<Rightarrow> pw_sys \<Rightarrow> int \<times> pw_sys" where
  "PwmDeviceAdd E dev p s =
     (case pw_call E (PwmAdd dev p) s of (r, s1) \<Rightarrow>
        (r, if r = 0 \<and> pw_links E
            then s1\<lparr>pw_service := (pw_service s1)(dev \<mapsto> p),
                    pw_hosts := (pw_hosts s1)(p := map_option (\<lambda>h. h\<lparr>ph_device := Some dev\<rparr>) (pw_hosts s1 p))\<rparr>
            else s1))"

subsection \<open>BES\<close>

definition InitPwmDevice :: "pw_env \<Rightarrow> nat option \<Rightarrow> pw_sys \<Rightarrow> ret \<times> pw_sys" where
  "InitPwmDevice E host s =
     (case host of None \<Rightarrow> (HDF_ERR_INVALID_PARAM, s) | Some p \<Rightarrow>
       (case pw_hosts s p of None \<Rightarrow> (HDF_FAILURE, pw_bad s) | Some h \<Rightarrow>
         (case ph_priv h of None \<Rightarrow> (HDF_ERR_INVALID_PARAM, s) | Some q \<Rightarrow>
           (case pw_devs s q of None \<Rightarrow> (HDF_FAILURE, pw_bad s) | Some d \<Rightarrow>
              if unat (pd_pwmId d) < PWM_MAX_FUNCTION E
              then (HDF_SUCCESS, pw_do E (IomuxInit (pd_pwmPin d) (g_pwmFunction E (unat (pd_pwmId d)))) s)
              else (HDF_FAILURE, pw_bad s)))))"

text \<open>The pin is written in decimal groups of eight.\<close>

definition GetPwmDeviceResource :: "pw_env \<Rightarrow> PwmDevice \<Rightarrow> ret \<times> PwmDevice" where
  "GetPwmDeviceResource E d =
     (if \<not> pw_iface E then (HDF_ERR_INVALID_PARAM, d)
      else
        (case pw_prop E ''pwmPin'' of None \<Rightarrow> (HDF_FAILURE, d) | Some tempPin \<Rightarrow>
           let d1 = d\<lparr>pd_pwmPin := (tempPin div DEC_TEN) * PIN_GROUP_NUM + tempPin mod DEC_TEN\<rparr> in
           (case pw_prop E ''pwmId'' of None \<Rightarrow> (HDF_FAILURE, d1) | Some i \<Rightarrow> (HDF_SUCCESS, d1\<lparr>pd_pwmId := i\<rparr>))))"

text \<open>A device comes with whether it has a property node; a new private device is not cleared.\<close>

definition AttachPwmDevice :: "pw_env \<Rightarrow> PwmDevice \<Rightarrow> nat \<Rightarrow> bool \<Rightarrow> pw_sys \<Rightarrow> ret \<times> pw_sys" where
  "AttachPwmDevice E junk p prop s =
     (if \<not> prop then (HDF_ERR_INVALID_PARAM, s)
      else
        (case OsalMemAlloc E (Objs ''PwmDevice'' 1) s of
           (None, s1) \<Rightarrow> (HDF_ERR_MALLOC_FAIL, s1)
         | (Some q, s1) \<Rightarrow>
             (case GetPwmDeviceResource E junk of (ret, d) \<Rightarrow>
                if ret \<noteq> HDF_SUCCESS then (HDF_FAILURE, OsalMemFree (Some q) s1)
                else
                  (case pw_hosts s1 p of None \<Rightarrow> (HDF_FAILURE, pw_bad s1) | Some h \<Rightarrow>
                     InitPwmDevice E (Some p)
                       (put_host p (h\<lparr>ph_priv := Some q, ph_num := pd_pwmId d\<rparr>) (s1\<lparr>pw_devs := (pw_devs s1)(q \<mapsto> d)\<rparr>))))))"

definition PwmDriverBind :: "pw_env \<Rightarrow> nat option \<Rightarrow> pw_sys \<Rightarrow> ret \<times> pw_sys" where
  "PwmDriverBind E device s =
     (case device of None \<Rightarrow> (HDF_FAILURE, s) | Some dev \<Rightarrow>
       (HDF_SUCCESS,
        s\<lparr>pw_service := (pw_service s)(dev \<mapsto> pw_static E),
          pw_hosts := (pw_hosts s)(pw_static E := map_option (\<lambda>h. h\<lparr>ph_device := Some dev\<rparr>) (pw_hosts s (pw_static E)))\<rparr>))"

definition PwmDriverInit :: "pw_env \<Rightarrow> PwmDevice \<Rightarrow> (nat \<times> bool) option \<Rightarrow> pw_sys \<Rightarrow> ret \<times> pw_sys" where
  "PwmDriverInit E junk device s =
     (case device of None \<Rightarrow> (HDF_ERR_INVALID_OBJECT, s) | Some (dev, prop) \<Rightarrow>
       (case pw_service s dev of None \<Rightarrow> (HDF_ERR_MALLOC_FAIL, s) | Some p \<Rightarrow>
         (case AttachPwmDevice E junk p prop s of (ret, s1) \<Rightarrow>
            if ret \<noteq> HDF_SUCCESS then (HDF_DEV_ERR_ATTACHDEV_FAIL, s1)
            else
              (case pw_hosts s1 p of None \<Rightarrow> (HDF_FAILURE, pw_bad s1) | Some h \<Rightarrow>
                (case PwmDeviceAdd E dev p (put_host p (h\<lparr>ph_method := True\<rparr>) s1) of (r, s2) \<Rightarrow>
                   if r \<noteq> 0
                   then (HDF_DEV_ERR_NO_DEVICE,
                         OsalMemFree (Option.bind (pw_hosts s2 p) ph_device) (pw_do E (PwmRemove dev p) s2))
                   else (HDF_SUCCESS, s2))))))"

definition PwmDriverRelease :: "nat option \<Rightarrow> pw_sys \<Rightarrow> pw_sys" where
  "PwmDriverRelease device s =
     (case device of None \<Rightarrow> s | Some dev \<Rightarrow>
       (case pw_service s dev of None \<Rightarrow> s | Some p \<Rightarrow>
         (case pw_hosts s p of None \<Rightarrow> pw_bad s | Some h \<Rightarrow>
           (let s1 = (if ph_device h \<noteq> None
                      then put_host p (h\<lparr>ph_method := False, ph_device := None\<rparr>) (OsalMemFree (ph_device h) s) else s)
            in s1\<lparr>pw_service := (pw_service s1)(dev := None)\<rparr>))))"

text \<open>The private device of a host, as \<open>PwmGetPriv\<close> returns it; the period divides.\<close>

definition PwmDevSetConfig :: "pw_env \<Rightarrow> nat option \<Rightarrow> PwmConfig option \<Rightarrow> pw_sys \<Rightarrow> ret \<times> pw_sys" where
  "PwmDevSetConfig E pwm config s =
     (case (pwm, config) of
        (Some p, Some c) \<Rightarrow>
          (if pc_period c > UNTIL_NAN0SECONDS then (HDF_FAILURE, s)
           else
             (case Option.bind (pw_hosts s p) ph_priv of None \<Rightarrow> (HDF_FAILURE, s) | Some q \<Rightarrow>
               (case pw_devs s q of None \<Rightarrow> (HDF_FAILURE, pw_bad s) | Some d \<Rightarrow>
                  if pc_period c = 0 then (HDF_FAILURE, pw_bad s)
                  else
                    let d1 = d\<lparr>pd_freq := cfg_field E ''freq'' (UNTIL_NAN0SECONDS div pc_period c),
                               pd_ratio := cfg_field E ''ratio'' (pc_duty c * PERCENT div pc_period c),
                               pd_inv := False, pd_sleep_on := False\<rparr>;
                        s1 = s\<lparr>pw_devs := (pw_devs s)(q \<mapsto> d1)\<rparr> in
                    (HDF_SUCCESS,
                     if pc_enable c
                     then pw_do E (HalPwmEnable (pd_pwmId d1) (pd_freq d1) (pd_ratio d1) (pd_inv d1) (pd_sleep_on d1)) s1
                     else pw_do E (HalPwmDisable (pd_pwmId d1)) s1))))
      | _ \<Rightarrow> (HDF_FAILURE, s))"

definition PwmDevOpen :: "nat option \<Rightarrow> ret" where
  "PwmDevOpen pwm = (if pwm = None then HDF_ERR_INVALID_PARAM else HDF_SUCCESS)"

definition PwmDevClose :: "pw_env \<Rightarrow> nat option \<Rightarrow> pw_sys \<Rightarrow> ret \<times> pw_sys" where
  "PwmDevClose E pwm s =
     (case pwm of None \<Rightarrow> (HDF_ERR_INVALID_PARAM, s) | Some p \<Rightarrow>
       (case Option.bind (pw_hosts s p) ph_priv of None \<Rightarrow> (HDF_DEV_ERR_NO_DEVICE, s) | Some q \<Rightarrow>
         (case pw_devs s q of None \<Rightarrow> (HDF_FAILURE, pw_bad s) | Some d \<Rightarrow>
            (HDF_SUCCESS, pw_do E (HalPwmDisable (pd_pwmId d)) s))))"

subsection \<open>WM\<close>

definition W_PwmDevSetConfig :: "pw_env \<Rightarrow> nat option \<Rightarrow> PwmConfig option \<Rightarrow> pw_sys \<Rightarrow> ret \<times> pw_sys" where
  "W_PwmDevSetConfig E pwm config s =
     (case (pwm, config) of
        (Some p, Some c) \<Rightarrow>
          (case Option.bind (pw_hosts s p) ph_priv of None \<Rightarrow> (HDF_FAILURE, s) | Some q \<Rightarrow>
            (case pw_wdevs s q of None \<Rightarrow> (HDF_FAILURE, pw_bad s) | Some d \<Rightarrow>
               let d1 = d\<lparr>wp_period := cfg_field E ''period'' (pc_period c), wp_duty := cfg_field E ''duty'' (pc_duty c),
                          wp_pnum := cfg_field E ''pnum'' (pc_number c), wp_channel := cfg_field E ''channel'' (wp_res_channel d)\<rparr>;
                   s1 = s\<lparr>pw_wdevs := (pw_wdevs s)(q \<mapsto> d1)\<rparr> in
               (HDF_SUCCESS,
                if pc_enable c then pw_do E (TlsPwmInit (wp_channel d1) (wp_res_freq d) (wp_duty d1) (wp_pnum d1)) s1 else s1)))
      | _ \<Rightarrow> (HDF_FAILURE, s))"

definition W_GetPwmDeviceResource :: "pw_env \<Rightarrow> W_PwmDevice \<Rightarrow> ret \<times> W_PwmDevice" where
  "W_GetPwmDeviceResource E d =
     (if \<not> pw_iface E then (HDF_ERR_INVALID_PARAM, d)
      else
        (case pw_prop E ''channel'' of None \<Rightarrow> (HDF_FAILURE, d) | Some x \<Rightarrow>
           (case pw_prop E ''freq'' of None \<Rightarrow> (HDF_FAILURE, d\<lparr>wp_res_channel := x\<rparr>)
            | Some y \<Rightarrow> (HDF_SUCCESS, d\<lparr>wp_res_channel := x, wp_res_freq := y\<rparr>))))"

definition W_AttachPwmDevice :: "pw_env \<Rightarrow> W_PwmDevice \<Rightarrow> nat \<Rightarrow> bool \<Rightarrow> pw_sys \<Rightarrow> ret \<times> pw_sys" where
  "W_AttachPwmDevice E junk p prop s =
     (if \<not> prop then (HDF_ERR_INVALID_PARAM, s)
      else
        (case OsalMemAlloc E (Objs ''PwmDevice'' 1) s of
           (None, s1) \<Rightarrow> (HDF_ERR_MALLOC_FAIL, s1)
         | (Some q, s1) \<Rightarrow>
             (case W_GetPwmDeviceResource E junk of (ret, d) \<Rightarrow>
                if ret \<noteq> HDF_SUCCESS then (HDF_FAILURE, OsalMemFree (Some q) s1)
                else
                  (case pw_hosts s1 p of None \<Rightarrow> (HDF_FAILURE, pw_bad s1) | Some h \<Rightarrow>
                     (HDF_SUCCESS,
                      put_host p (h\<lparr>ph_priv := Some q\<rparr>) (s1\<lparr>pw_wdevs := (pw_wdevs s1)(q \<mapsto> d)\<rparr>))))))"

definition W_PwmDriverBind :: "pw_env \<Rightarrow> nat option \<Rightarrow> pw_sys \<Rightarrow> ret \<times> pw_sys" where
  "W_PwmDriverBind E device s =
     (case device of None \<Rightarrow> (HDF_FAILURE, s) | Some dev \<Rightarrow>
       (HDF_SUCCESS,
        s\<lparr>pw_service := (pw_service s)(dev \<mapsto> pw_static E),
          pw_hosts := (pw_hosts s)(pw_static E := map_option (\<lambda>h. h\<lparr>ph_device := Some dev\<rparr>) (pw_hosts s (pw_static E)))\<rparr>))"

text \<open>The driver makes a host of its own on the heap, next to the static one of \<open>Bind\<close>.\<close>

definition W_PwmDriverInit :: "pw_env \<Rightarrow> W_PwmDevice \<Rightarrow> (nat \<times> bool) option \<Rightarrow> pw_sys \<Rightarrow> ret \<times> pw_sys" where
  "W_PwmDriverInit E junk device s =
     (case device of None \<Rightarrow> (HDF_ERR_INVALID_OBJECT, s) | Some (dev, prop) \<Rightarrow>
       (case OsalMemAlloc E (Objs ''PwmDev'' 1) s of (None, s1) \<Rightarrow> (HDF_ERR_MALLOC_FAIL, s1) | (Some p, s1) \<Rightarrow>
         (case W_AttachPwmDevice E junk p prop (put_host p (pw_junk E p) s1) of (ret, s2) \<Rightarrow>
            if ret \<noteq> HDF_SUCCESS then (HDF_DEV_ERR_ATTACHDEV_FAIL, (OsalMemFree (Some p) s2)\<lparr>pw_hosts := (pw_hosts s2)(p := None)\<rparr>)
            else
              (case pw_hosts s2 p of None \<Rightarrow> (HDF_FAILURE, pw_bad s2) | Some h \<Rightarrow>
                (case PwmDeviceAdd E dev p (put_host p (h\<lparr>ph_method := True\<rparr>) s2) of (r, s3) \<Rightarrow>
                   if r \<noteq> 0
                   then (HDF_DEV_ERR_NO_DEVICE,
                         (OsalMemFree (Some p) (OsalMemFree (Option.bind (pw_hosts s3 p) ph_device) (pw_do E (PwmRemove dev p) s3)))
                           \<lparr>pw_hosts := (pw_hosts s3)(p := None)\<rparr>)
                   else (HDF_SUCCESS, s3))))))"

text \<open>The host is written to after it was freed.\<close>

definition W_PwmDriverRelease :: "nat option \<Rightarrow> pw_sys \<Rightarrow> pw_sys" where
  "W_PwmDriverRelease device s =
     (case device of None \<Rightarrow> s | Some dev \<Rightarrow>
       (case pw_service s dev of None \<Rightarrow> s | Some p \<Rightarrow>
         (case pw_hosts s p of None \<Rightarrow> pw_bad s | Some h \<Rightarrow>
           (let s1 = (if ph_device h \<noteq> None
                      then pw_bad ((OsalMemFree (Some p) (OsalMemFree (ph_device h) s))\<lparr>pw_hosts := (pw_hosts s)(p := None)\<rparr>)
                      else s)
            in s1\<lparr>pw_service := (pw_service s1)(dev := None)\<rparr>))))"

end
