(* ===== verification/Pwm_Drivers_Facts.thy ===== *)
theory Pwm_Drivers_Facts
  imports Pwm_Drivers
begin

text \<open>
  What the BES chip is told to do: the frequency is rounded down, the duty cycle is the percentage as long as the
  product fits in 32 bits, and a smaller one when it does not. Releasing a device frees what the driver
  does not own.
\<close>

lemma pw_call_eq: "pw_call E c s = (pw_api E (ev s) c, s\<lparr>ev := ev s @ [(c, pw_api E (ev s) c)]\<rparr>)"
  by (simp add: pw_call_def ext_call_eq emit_def)

lemma pw_do_eq: "pw_do E c s = s\<lparr>ev := ev s @ [(c, pw_api E (ev s) c)]\<rparr>"
  by (simp add: pw_do_def pw_call_eq)

lemmas pwm_consts = UNTIL_NAN0SECONDS_def PERCENT_def DEC_TEN_def PIN_GROUP_NUM_def

subsection \<open>The duty cycle\<close>

lemma uint_percent: "uint ((duty :: u32) * PERCENT) = uint duty * 100 mod 2 ^ 32"
  by (simp add: PERCENT_def uint_word_arith_bintrs take_bit_eq_mod)

lemma percent_bound:
  assumes "(0 :: int) < period" and "0 \<le> duty" and "duty \<le> period"
  shows "(duty * 100 mod 2 ^ 32) div period \<le> 100"
proof -
  have "duty * 100 mod 2 ^ 32 \<le> duty * 100"
    using assms(2) by (intro zmod_le_nonneg_dividend) simp
  also have "\<dots> \<le> period * 100"
    using assms(3) by simp
  finally have "(duty * 100 mod 2 ^ 32) div period \<le> (period * 100) div period"
    using assms(1) by (intro zdiv_mono1)
  then show ?thesis
    using assms(1) by simp
qed

lemma wrapped_percent:
  assumes "0 < period" and "period \<le> (10 :: int) ^ 9" and "42949672 < duty"
  shows "(duty * 100 mod 2 ^ 32) div period < duty * 100 div period"
proof -
  have "0 < duty * 100 div 2 ^ 32"
    using assms(3) by simp
  then have "duty * 100 mod 2 ^ 32 \<le> duty * 100 - 2 ^ 32"
    using div_mult_mod_eq [of "duty * 100" "2 ^ 32"] by simp
  also have "\<dots> \<le> duty * 100 + - 1 * period"
    using assms(2) by simp
  finally have "(duty * 100 mod 2 ^ 32) div period \<le> (duty * 100 + - 1 * period) div period"
    using assms(1) by (intro zdiv_mono1)
  also have "\<dots> = duty * 100 div period - 1"
    using assms(1) by (simp only: div_mult_self1)
  finally show ?thesis
    by simp
qed

text \<open>
  C30. The BES PWM driver, for an enabled configuration with a period between 1 ns and 1 s of a
  device that is bound, passes on once to the vendor, through the fields of its structure, 10^9
  divided by the period, rounded down, as the frequency, and 100 times the duty modulo 2^32
  divided by the period, rounded down, as the duty cycle. That is the percentage for a duty of
  at most 42949672 ns and less than it for a larger one; it is at most 100 when the duty does
  not exceed the period, which the driver does not check.
\<close>

theorem pwm_duty_cycle:
  assumes "pw_hosts s p = Some h" and "ph_priv h = Some q" and "pw_devs s q = Some d"
    and "pc_enable c" and "0 < uint (pc_period c)" and "uint (pc_period c) \<le> 10 ^ 9"
  shows "\<exists>freq ratio x. ev (snd (PwmDevSetConfig E (Some p) (Some c) s)) = ev s @
      [(HalPwmEnable (pd_pwmId d) (cfg_field E ''freq'' freq) (cfg_field E ''ratio'' ratio) False False, x)] \<and>
    fst (PwmDevSetConfig E (Some p) (Some c) s) = HDF_SUCCESS \<and>
    uint freq = 10 ^ 9 div uint (pc_period c) \<and>
    uint ratio = (uint (pc_duty c) * 100 mod 2 ^ 32) div uint (pc_period c) \<and>
    (if uint (pc_duty c) \<le> 42949672 then uint ratio = uint (pc_duty c) * 100 div uint (pc_period c)
     else uint ratio < uint (pc_duty c) * 100 div uint (pc_period c)) \<and>
    (uint (pc_duty c) \<le> uint (pc_period c) \<longrightarrow> uint ratio \<le> 100)"
proof -
  let ?freq = "UNTIL_NAN0SECONDS div pc_period c" and ?ratio = "pc_duty c * PERCENT div pc_period c"
  have "\<not> pc_period c > UNTIL_NAN0SECONDS" "pc_period c \<noteq> 0"
    using assms(5,6) by (auto simp: UNTIL_NAN0SECONDS_def word_less_def)
  then have e: "\<exists>x. ev (snd (PwmDevSetConfig E (Some p) (Some c) s)) = ev s @
        [(HalPwmEnable (pd_pwmId d) (cfg_field E ''freq'' ?freq) (cfg_field E ''ratio'' ?ratio) False False, x)] \<and>
      fst (PwmDevSetConfig E (Some p) (Some c) s) = HDF_SUCCESS"
    using assms(1-4) by (simp add: PwmDevSetConfig_def pw_do_eq Let_def)
  have f: "uint ?freq = 10 ^ 9 div uint (pc_period c)"
    by (simp add: uint_div UNTIL_NAN0SECONDS_def)
  have r: "uint ?ratio = (uint (pc_duty c) * 100 mod 2 ^ 32) div uint (pc_period c)"
    by (simp only: uint_div uint_percent)
  have "uint ?ratio = uint (pc_duty c) * 100 div uint (pc_period c)" if "uint (pc_duty c) \<le> 42949672"
    using that r by (simp add: mod_pos_pos_trivial)
  moreover have "uint ?ratio < uint (pc_duty c) * 100 div uint (pc_period c)" if "\<not> uint (pc_duty c) \<le> 42949672"
    unfolding r by (rule wrapped_percent) (use that assms(5,6) in auto)
  moreover have "uint ?ratio \<le> 100" if "uint (pc_duty c) \<le> uint (pc_period c)"
    using percent_bound [of "uint (pc_period c)" "uint (pc_duty c)"] that assms(5) r by simp
  ultimately show ?thesis
    using e f r by (intro exI [of _ ?freq] exI [of _ ?ratio]) auto
qed

text \<open>A period of 0 divides by zero.\<close>

lemma period_zero:
  assumes "pw_hosts s p = Some h" and "ph_priv h = Some q" and "pw_devs s q = Some d" and "pc_period c = 0"
  shows "h_bad (snd (PwmDevSetConfig E (Some p) (Some c) s))"
  using assms by (simp add: PwmDevSetConfig_def pw_bad_def)

text \<open>The pin: a decimal number whose last digit counts in its group.\<close>

lemma pin_groups:
  assumes "pw_iface E" and "pw_prop E ''pwmPin'' = Some t" and "pw_prop E ''pwmId'' = Some n"
  shows "uint (pd_pwmPin (snd (GetPwmDeviceResource E d))) = 8 * (uint t div 10) + uint t mod 10"
proof -
  have "0 \<le> uint t" "uint t < 2 ^ 32"
    using uint_lt2p [of t] by simp_all
  then have "0 \<le> uint t div 10 * 8 + uint t mod 10 \<and> uint t div 10 * 8 + uint t mod 10 < 2 ^ 32"
    by presburger
  then have "uint ((t div DEC_TEN) * PIN_GROUP_NUM + t mod DEC_TEN) = uint t div 10 * 8 + uint t mod 10"
    by (simp add: DEC_TEN_def PIN_GROUP_NUM_def uint_word_arith_bintrs uint_div uint_mod take_bit_eq_mod mod_add_left_eq mod_pos_pos_trivial)
  then show ?thesis
    using assms by (simp add: GetPwmDeviceResource_def Let_def)
qed

subsection \<open>Releasing\<close>

text \<open>
  The device belongs to the framework, inside its node: it is no heap block, and neither is the static
  host. Both drivers free them.
\<close>

lemma release_frees_framework:
  assumes "pw_service s dev = Some p" and "pw_hosts s p = Some h" and "ph_device h = Some dev" and "h_blk s dev = None"
  shows "h_bad (PwmDriverRelease (Some dev) s)" and "h_bad (W_PwmDriverRelease (Some dev) s)"
  using assms by (simp_all add: PwmDriverRelease_def W_PwmDriverRelease_def put_host_def OsalMemFree_dead pw_bad_def Let_def)

text \<open>The private device is never freed.\<close>

lemma private_kept:
  assumes "pw_service s dev = Some p" and "pw_hosts s p = Some h" and "ph_device h = Some dev" and "h_blk s q = Some bs" and "q \<noteq> dev"
  shows "h_blk (PwmDriverRelease (Some dev) s) q = Some bs"
  using assms by (simp add: PwmDriverRelease_def put_host_def OsalMemFree_def LOS_MemFree_def Let_def)

subsection \<open>Examples\<close>

definition pw_demo_env :: pw_env where
  "pw_demo_env = \<lparr>mem_ok = (\<lambda>_ _. True), mem_junk = (\<lambda>_ _. 0), copy_ok = (\<lambda>_ _. True), pw_api = (\<lambda>_ _. 0), pw_iface = True,
     pw_prop = (\<lambda>_. Some 2), pw_static = 100, pw_junk = (\<lambda>_. \<lparr>ph_priv = None, ph_num = 0, ph_method = False, ph_device = None\<rparr>),
     pw_links = True, PWM_MAX_FUNCTION = 4, g_pwmFunction = id, cfg_field = (\<lambda>_ x. x)\<rparr>"

definition pw_demo_dev :: PwmDevice where
  "pw_demo_dev = \<lparr>pd_freq = 0, pd_ratio = 0, pd_inv = False, pd_sleep_on = False, pd_pwmPin = 2, pd_pwmId = 2\<rparr>"

definition pw_demo_host :: PwmDev where
  "pw_demo_host = \<lparr>ph_priv = Some 0, ph_num = 2, ph_method = True, ph_device = Some 7\<rparr>"

definition pw_demo :: pw_sys where
  "pw_demo = \<lparr>h_next = 1, h_blk = [0 \<mapsto> []], h_bad = False, ev = [], pw_hosts = [100 \<mapsto> pw_demo_host],
     pw_devs = [0 \<mapsto> pw_demo_dev], pw_wdevs = Map.empty, pw_service = [7 \<mapsto> 100]\<rparr>"

text \<open>A signal that is high for all of 50 milliseconds: the chip is told 14 percent.\<close>

lemma pwm_duty_cycle_witness:
  "\<exists>freq ratio x. ev (snd (PwmDevSetConfig pw_demo_env (Some 100)
      (Some \<lparr>pc_duty = 50000000, pc_period = 50000000, pc_number = 0, pc_enable = True\<rparr>) pw_demo)) =
    [(HalPwmEnable 2 freq ratio False False, x)] \<and> uint freq = 20 \<and> uint ratio = 14"
proof -
  let ?c = "\<lparr>pc_duty = 50000000, pc_period = 50000000, pc_number = 0, pc_enable = True\<rparr>"
  have d: "pw_hosts pw_demo 100 = Some pw_demo_host" "ph_priv pw_demo_host = Some 0" "pw_devs pw_demo 0 = Some pw_demo_dev"
    by (simp_all add: pw_demo_def pw_demo_host_def)
  have "ev pw_demo = []" "pd_pwmId pw_demo_dev = 2"
    by (simp_all add: pw_demo_def pw_demo_dev_def)
  then show ?thesis
    using pwm_duty_cycle [OF d, of ?c pw_demo_env] by (auto simp: pw_demo_env_def)
qed

end
