(* ===== verification/Spec2Isabelle.thy ===== *)
theory Spec2Isabelle
  imports Net_Buf_Queue Net_Device_Facts Osal_Firmware Osal_Time Osal_Io Usb_Pnp_Events Dev_Manager Can_Virtual
    Svc_Manager_Facts Mtd_Facts Dev_Attribute_Facts I2c_Dev_Facts Spi_Dev_Facts Devmgr_Ipc_Facts Devmgr_Start Host_Service_Facts Devsvc_Proxy_Facts Hdi_Client_Facts
    Osal_M_Facts Sysevent_Facts Uart_Dev_Facts Watchdog_Facts Gpio_Gr5xx_Facts Uart_Gr5xx_Facts
    Hdf_Security_Facts Device_Stub_Facts Mmc_Block_Facts Lib_Loader_Facts Pwm_Drivers_Facts
begin

text \<open>
  \<^bold>\<open>Verification of the OpenHarmony driver adapters\<close> (\<open>drivers_adapter\<close>).

  The repository connects the hardware driver framework (HDF) to the systems it runs on: the
  LiteOS-A kernel (\<open>khdf/liteos\<close>), the LiteOS-M kernel (\<open>khdf/liteos_m\<close>) and user-space
  processes (\<open>uhdf2\<close>), with controller drivers in \<open>platform\<close>. Nearly every part is a layer
  between two bodies of code that are not in the repository: the framework above, a kernel, a
  network stack or an IPC library below. What the layer has to get right is its own state: which
  objects are alive, who owns them, which entry is in which list, what is passed on and in which
  order, and what is undone when a step fails. That is what the theories model and what the
  properties are about.

  \<^bold>\<open>How code is modelled.\<close>
  \<^item> The machine state of a component is a record that extends \<open>sys\<close> of \<open>Osal_Mem\<close>: \<open>h_blk\<close>, the
    live heap blocks with their bytes, \<open>h_next\<close>, the number of the next block, \<open>h_bad\<close>, set when
    the code does something undefined in C, and \<open>ev\<close>, the trace of calls into code outside the
    repository. After something undefined the model goes on as if that step alone had no effect, so what a
    theorem says of a state with \<open>h_bad\<close> holds on that condition. A pointer is a \<open>nat option\<close>. The fields of a C object are an entry of a map of the
    component, keyed by the object's block.
  \<^item> A C function is a HOL function of the same name from the state to its result and the new
    state; status codes are the values of \<open>ret\<close> in \<open>Prelude\<close>. Integers keep their width.
  \<^item> Kernel, network stack, file system, IPC and driver callbacks are fields of an environment
    record that is the first argument, \<open>E\<close>. Where their answer can change from call to call, it is
    a function of the trace so far. What the code relies on (a copy succeeds when it fits, a new
    kernel object has a handle that is not in use) is a named hypothesis of the theorem, and each
    such theorem has a witness on a concrete environment.
  \<^item> A loop over a C list is a recursion over the HOL list of its nodes, so it ends. A loop that
    need not end is a \<open>partial_function\<close> with the result \<open>None\<close>, and a theorem says when it does.
  \<^item> Code under \<open>#ifdef\<close> is taken in the default configuration: IPv6 autoconfiguration and the USB
    test mode are compiled out. In the kernels \<open>size_t\<close> and \<open>unsigned long\<close> are 32 bits,
    \<open>off_t\<close> is 64 bits.

  \<^bold>\<open>Theories.\<close>
  \<^item> \<open>Prelude\<close>: widths, status codes, lemmas on words, maps and lists.
  \<^item> \<open>Osal_Mem\<close>: \<open>khdf/liteos/osal/src/osal_mem.c\<close>, the heap and its invariant \<open>heap_ok\<close>.
  \<^item> \<open>Osal_Sync\<close>, \<open>Osal_Sync_Facts\<close>: mutexes, spin locks, semaphores, timers and threads of LiteOS-A. The
    locale \<open>os_handle\<close> states the contract of a handle once; it is interpreted for each kind of object.
  \<^item> \<open>Osal_M\<close>, \<open>Osal_M_Facts\<close>: mutexes, spin locks and timers of LiteOS-M. The locale \<open>lock_port\<close> states what
    a mutex of any port promises and is interpreted for both ports, whose mutexes are then shown to be
    the same lock to a driver.
  \<^item> \<open>Osal_Firmware\<close>, \<open>Osal_Time\<close>, \<open>Osal_Io\<close>: firmware files, time stamps, and interrupts, files, work
    queues and character devices.
  \<^item> \<open>Net_Buf\<close>, \<open>Net_Buf_Heap\<close>, \<open>Net_Buf_Queue\<close>: \<open>netbuf_adapter.c\<close>. A buffer is one memory block cut
    into head, data and tail; its abstraction is the triple of the three byte strings, and push,
    pop, resize and concatenation are shown to implement operations on that triple. Queues are
    shown first-in first-out and cleared without leaks.
  \<^item> \<open>Net_Device\<close>, \<open>Net_Device_Facts\<close>: \<open>net_device_adapter.c\<close>, the network interface as lwIP sees
    it. An invariant over all sequences of framework calls says that lwIP holds no dangling
    interface and nothing is freed twice; the send and receive paths move exactly the bytes.
  \<^item> \<open>Usb_Pnp\<close>, \<open>Usb_Pnp_Facts\<close>, \<open>Usb_Pnp_Events\<close>: \<open>usb_pnp_notify.c\<close>, with attach and detach
    interrupts, the report thread and client requests as steps that may interleave in any order,
    an invariant of the device and information lists, and the fate of single events.
  \<^item> \<open>Mtd\<close>, \<open>Mtd_Facts\<close>: \<open>mtd_legacy_lite.c\<close> and \<open>mtd_char_lite.c\<close>, the list of flash devices and
    the operations on a partition. \<open>Mmc_Block\<close>, \<open>Mmc_Block_Facts\<close>: \<open>mmc_block_lite.c\<close> and \<open>mtd_block_lite.c\<close>,
    sectors and the table of disks, which refines a map from disk numbers to blocks.
  \<^item> \<open>Bus_Buffer\<close>: copies between a process and the kernel and one block that holds several messages, for
    \<open>I2c_Dev\<close> (\<open>i2c_dev.c\<close>), \<open>Spi_Dev\<close> (\<open>spi_dev.c\<close>) and \<open>Uart_Dev\<close> (\<open>uart_dev.c\<close>, \<open>gpio_dev.c\<close>), the character
    devices of the buses. Their \<open>_Facts\<close> say that a transfer hands the bus the bytes of the process, copies
    back what the bus delivered and keeps no memory, whatever fails.
  \<^item> \<open>Watchdog\<close>, \<open>Watchdog_Facts\<close>: the three drivers in \<open>platform/watchdog\<close>. The locale \<open>watchdog\<close> is the abstract
    watchdog; it is interpreted for the BES and the STM32 chip, and the WM driver is shown to break it.
    The STM32 driver waits in a loop that need not end; it is shown to end on a chip that settles and a
    clock that moves.
  \<^item> \<open>Gpio_Gr5xx\<close>, \<open>Gpio_Gr5xx_Facts\<close>: \<open>platform/gpio/gpio_gr5xx.c\<close>, whose masks are decoded back to the pins they
    name, by a loop that ends exactly on masks that are not 0. \<open>Uart_Gr5xx\<close>, \<open>Uart_Gr5xx_Facts\<close>:
    \<open>platform/uart/uart_gr5xx.c\<close>, a port that counts its users, with locked reads and writes, and what a
    failed open leaves behind. \<open>Pwm_Drivers\<close>, \<open>Pwm_Drivers_Facts\<close>: \<open>platform/pwm/pwm_bes.c\<close> and
    \<open>pwm_wm.c\<close>, the duty cycle the chip is told and what a release frees.
  \<^item> \<open>Registry\<close>: the locale for lists with lookup by key, interpreted on the flash devices
    (\<open>Mtd_Facts\<close>) and on the service-status listeners (\<open>Serv_Listener\<close>).
  \<^item> \<open>Serv_Listener\<close>: \<open>servstat_listener_holder.c\<close>; \<open>Dev_Manager\<close>: \<open>devmgr_service_full.c\<close>, the respawn
    policy for dead device hosts; \<open>Can_Virtual\<close>: \<open>can_virtual.c\<close>.
  \<^item> \<open>Svc_Manager\<close>, \<open>Svc_Manager_Inv\<close>, \<open>Svc_Manager_Facts\<close>: \<open>devsvc_manager_stub.c\<close>, the service manager seen
    through its requests, deaths of clients included: who may change a service, and that no freed object
    stays published.
  \<^item> \<open>Dev_Attribute\<close>, \<open>Dev_Attribute_Facts\<close>: \<open>dev_attribute_serialize.c\<close>, the round trip of device information.
  \<^item> \<open>Ipc\<close>: message buffers and remote objects, with the locale \<open>remote_interface\<close> for a proxy and the stub it
    talks to. It is interpreted for the device manager (\<open>Devmgr_Ipc\<close>, \<open>Devmgr_Ipc_Facts\<close>: proxy, stub and
    device tokens; \<open>Devmgr_Start\<close>: start-up), for the driver host (\<open>Devhost_Ipc\<close>, \<open>Devhost_Ipc_Facts\<close>) and for
    the service manager (\<open>Devsvc_Proxy\<close>, \<open>Devsvc_Proxy_Facts\<close>), whose facts compose the proxy with the stub in
    \<open>Svc_Manager\<close>. \<open>Host_Service\<close>, \<open>Host_Service_Facts\<close>: the service behind the stub of a host, with power events,
    and the way from the manager to the base service. \<open>Hdi_Client\<close>, \<open>Hdi_Client_Facts\<close>: the C clients of both
    managers; the loop that reads the devices of a reply is a \<open>partial_function\<close> shown to end on every
    reply the manager writes.
  \<^item> \<open>Sysevent\<close>, \<open>Sysevent_Facts\<close>: \<open>osal_sysevent.c\<close>, subscriptions to kernel events and their delivery along
    runs of an inductive relation.
  \<^item> \<open>Device_Stub\<close>, \<open>Device_Stub_Facts\<close>: \<open>device_service_stub.c\<close>, a device and the remote object it is published
    with. \<open>Hdf_Security\<close>, \<open>Hdf_Security_Facts\<close>: \<open>hdf_security.c\<close>, the permission mask of a driver host.
    \<open>Lib_Loader\<close>, \<open>Lib_Loader_Facts\<close>: \<open>driver_loader_full.c\<close>, \<open>hdf_load_hdi.c\<close> and \<open>driver_installer_full.c\<close>, the
    libraries of drivers and interfaces.

  Each component has its definitions and simple lemmas in the first theory and its larger facts,
  examples and properties in the one named \<open>_Facts\<close>.

  \<^bold>\<open>Bounds and fuel.\<close> No operation of the code has fuel. Loops over lists and counters are structural
  recursions. \<open>fw_read_all\<close> and the drivers of examples take a number of turns, and their theorems say how
  many are enough. The three loops that need not end are partial functions:
  \<open>wait_update\<close> of the STM32 watchdog, \<open>pin_index\<close> of the GR5xx GPIO driver and the reply loop of the clients.

  \<^bold>\<open>Not modelled.\<close> The other controller drivers in \<open>platform\<close>, which are mostly sequences of vendor calls and
  register accesses whose effect is defined by code that is not in the repository; the C++ sources and
  tests; the USB host glue, a thin layer over a USB stack that is not in the repository; the rest of
  LiteOS-M, whose network adapter, memory, semaphores, threads and time have nearly the text of the
  LiteOS-A files; a handle around the message queue of the
  kernel for WLAN; process entry points,
  object tables and registration stubs without logic of their own.
\<close>

end
